(* ===== verification/Prelude.thy ===== *)
theory Prelude
  imports Complex_Main "HOL-Library.Word"
begin

section \<open>Shared types, outcomes and resource accounting\<close>

text \<open>
  What every component of the development uses:
  \<^item> names for the machine integers of the C++ code (\<open>uint16_t\<close>, \<open>uint32_t\<close>, \<open>uint64_t\<close>,
    \<open>size_t\<close>, \<open>int\<close>), all as words of their width;
  \<^item> the outcome of running a piece of C++: it returns a value, throws, or has undefined
    behaviour (\<open>exec\<close>), with the sequencing of two pieces;
  \<^item> \<open>std::mutex\<close> and \<open>std::lock_guard\<close>: locking a mutex that the calling thread already
    holds is undefined behaviour (in practice a deadlock), and is an outcome of its own;
  \<^item> the ledger of acquired and released resources (sockets, contexts, registrations), with
    which the transport components are checked for leaks and for use after release.
\<close>

type_synonym u8 = "8 word"
type_synonym u16 = "16 word"
type_synonym u32 = "32 word"
type_synonym u64 = "64 word"
type_synonym i32 = "32 word"

text \<open>The simplification rules of the components' small accessor and step functions.\<close>

named_theorems exec_simps "sequencing of outcomes and locking"
named_theorems ledger_simps "running a ledger of resources"

subsection \<open>Status codes of the CUDA driver interface\<close>

text \<open>
  \<open>CUresult\<close> is an \<open>int\<close>-sized enumeration of \<open>cuda.h\<close>; these are the values the code names.
\<close>

type_synonym cu_result = i32

definition CUDA_SUCCESS :: cu_result where "CUDA_SUCCESS = 0"
definition CUDA_ERROR_INVALID_VALUE :: cu_result where "CUDA_ERROR_INVALID_VALUE = 1"
definition CUDA_ERROR_OUT_OF_MEMORY :: cu_result where "CUDA_ERROR_OUT_OF_MEMORY = 2"
definition CUDA_ERROR_INVALID_HANDLE :: cu_result where "CUDA_ERROR_INVALID_HANDLE = 400"
definition CUDA_ERROR_LAUNCH_FAILED :: cu_result where "CUDA_ERROR_LAUNCH_FAILED = 719"
definition CUDA_ERROR_UNKNOWN :: cu_result where "CUDA_ERROR_UNKNOWN = 999"

lemmas cuda_codes =
  CUDA_SUCCESS_def CUDA_ERROR_INVALID_VALUE_def CUDA_ERROR_OUT_OF_MEMORY_def
  CUDA_ERROR_INVALID_HANDLE_def CUDA_ERROR_LAUNCH_FAILED_def CUDA_ERROR_UNKNOWN_def

lemma cuda_codes_distinct [simp]:
  "CUDA_ERROR_INVALID_VALUE \<noteq> CUDA_SUCCESS" "CUDA_ERROR_OUT_OF_MEMORY \<noteq> CUDA_SUCCESS"
  "CUDA_ERROR_INVALID_HANDLE \<noteq> CUDA_SUCCESS" "CUDA_ERROR_LAUNCH_FAILED \<noteq> CUDA_SUCCESS"
  "CUDA_ERROR_UNKNOWN \<noteq> CUDA_SUCCESS" "CUDA_ERROR_OUT_OF_MEMORY \<noteq> CUDA_ERROR_INVALID_VALUE"
  "CUDA_ERROR_INVALID_HANDLE \<noteq> CUDA_ERROR_LAUNCH_FAILED"
  by (simp_all add: cuda_codes)

lemmas cuda_codes_distinct_sym [simp] = cuda_codes_distinct [symmetric]

subsection \<open>Outcomes of running C++ code\<close>

datatype fault =
    RelockMutex          \<comment> \<open>a thread locks a non-recursive mutex it already holds\<close>
  | OutOfBounds          \<comment> \<open>a read or write outside the object\<close>
  | UninitRead           \<comment> \<open>a read of an object that was never given a value\<close>
  | NullDeref            \<comment> \<open>a call through a null pointer\<close>
  | EndlessRecursion     \<comment> \<open>a function that only calls itself\<close>
  | DanglingPointer      \<comment> \<open>a read through a pointer into memory that was given back\<close>
  | BadDelete            \<comment> \<open>\<open>operator delete\<close> of a block that is not allocated\<close>
  | Terminated           \<comment> \<open>\<open>std::terminate\<close> ends the program\<close>

datatype 'a exec =
    Done 'a              \<comment> \<open>the code returns\<close>
  | Throws string        \<comment> \<open>an exception (its type or its \<open>what()\<close>) leaves the code\<close>
  | UB fault             \<comment> \<open>undefined behaviour\<close>

fun exec_bind :: "'a exec \<Rightarrow> ('a \<Rightarrow> 'b exec) \<Rightarrow> 'b exec" where
  "exec_bind (Done a) f = f a"
| "exec_bind (Throws e) f = Throws e"
| "exec_bind (UB u) f = UB u"

fun is_done :: "'a exec \<Rightarrow> bool" where
  "is_done (Done _) = True"
| "is_done _ = False"

lemma exec_bind_assoc: "exec_bind (exec_bind m f) g = exec_bind m (\<lambda>a. exec_bind (f a) g)"
  by (cases m) simp_all

lemma exec_bind_Done_iff [exec_simps]:
  "exec_bind m f = Done b \<longleftrightarrow> (\<exists>a. m = Done a \<and> f a = Done b)"
  by (cases m) simp_all

lemma exec_bind_Done_right [simp]: "exec_bind m Done = m"
  by (cases m) simp_all

subsection \<open>Mutexes\<close>

text \<open>
  A \<open>std::lock_guard\<close> over a body: the mutex must not be held by the running thread already;
  it is released when the body returns or throws. The first argument says whether the running
  thread holds the mutex; the body is given the mutex as held.
\<close>

definition lock_guard :: "bool \<Rightarrow> (bool \<Rightarrow> 'a exec) \<Rightarrow> 'a exec" where
  "lock_guard held body = (if held then UB RelockMutex else body True)"

lemma lock_guard_simps [exec_simps, simp]:
  "lock_guard True body = UB RelockMutex"
  "lock_guard False body = body True"
  by (simp_all add: lock_guard_def)

subsection \<open>A ledger of resources\<close>

text \<open>
  The transports acquire handles from libraries and give them back. A run of such code leaves
  a list of entries; \<open>settle\<close> replays it against the handles that are live: acquiring a live
  handle, and using or releasing a dead one, is a violation (\<open>None\<close>).
\<close>

datatype 'h entry = Acq 'h | Rel 'h | Use 'h

fun settle :: "'h list \<Rightarrow> 'h entry list \<Rightarrow> 'h list option" where
  "settle live [] = Some live"
| "settle live (Acq h # es) = (if h \<in> set live then None else settle (h # live) es)"
| "settle live (Rel h # es) = (if h \<in> set live then settle (remove1 h live) es else None)"
| "settle live (Use h # es) = (if h \<in> set live then settle live es else None)"

text \<open>A ledger is balanced when it violates nothing and leaves nothing live.\<close>

definition balanced :: "'h entry list \<Rightarrow> bool" where
  "balanced es \<longleftrightarrow> settle [] es = Some []"

lemma settle_append [ledger_simps]:
  "settle live (xs @ ys) = (case settle live xs of None \<Rightarrow> None | Some l \<Rightarrow> settle l ys)"
  by (induction live xs rule: settle.induct) auto

text \<open>What a balanced ledger means for one handle: as many releases as acquisitions.\<close>

lemma settle_count:
  "settle live es = Some live' \<Longrightarrow>
     count_list live h + count_list es (Acq h) = count_list live' h + count_list es (Rel h)"
proof (induction live es arbitrary: live' rule: settle.induct)
  case (3 live g es)
  then have g: "g \<in> set live" and run: "settle (remove1 g live) es = Some live'"
    by (auto split: if_splits)
  have cnt: "count_list (remove1 g live) h + (if g = h then 1 else 0) = count_list live h"
    using g by (induction live) auto
  from "3.IH" [OF g run] cnt show ?case by (auto split: if_splits)
qed (auto split: if_splits)

lemma balanced_count: "balanced es \<Longrightarrow> count_list es (Acq h) = count_list es (Rel h)"
  using settle_count [of "[]" es "[]" h] by (simp add: balanced_def)

text \<open>
  A ledger seen through the set of its live handles: the steps that acquire and release keep
  that set in the hand of the component whose handles they are.
\<close>

definition holds :: "'h entry list \<Rightarrow> 'h set \<Rightarrow> bool" where
  "holds es H \<longleftrightarrow> (\<exists>live. settle [] es = Some live \<and> distinct live \<and> set live = H)"

lemma holds_Nil [simp]: "holds [] H \<longleftrightarrow> H = {}"
  by (auto simp: holds_def)

lemma holds_Acq: "holds es H \<Longrightarrow> h \<notin> H \<Longrightarrow> holds (es @ [Acq h]) (insert h H)"
  by (auto simp: holds_def settle_append)

lemma holds_Use: "holds es H \<Longrightarrow> h \<in> H \<Longrightarrow> holds (es @ [Use h]) H"
  by (auto simp: holds_def settle_append)

lemma holds_Rel: "holds es H \<Longrightarrow> h \<in> H \<Longrightarrow> holds (es @ [Rel h]) (H - {h})"
  by (auto simp: holds_def settle_append set_remove1_eq)

lemma holds_Rel_all:
  "holds es H \<Longrightarrow> distinct hs \<Longrightarrow> set hs \<subseteq> H \<Longrightarrow> holds (es @ map Rel hs) (H - set hs)"
proof (induction hs arbitrary: es H)
  case (Cons h hs)
  then have "holds (es @ [Rel h]) (H - {h})" by (simp add: holds_Rel)
  from Cons.IH [OF this] Cons.prems have "holds ((es @ [Rel h]) @ map Rel hs) (H - {h} - set hs)" by auto
  then show ?case by (simp add: Diff_insert [symmetric] insert_commute Diff_insert2 [symmetric])
qed simp

lemma holds_balanced: "balanced es \<longleftrightarrow> holds es {}"
  by (auto simp: balanced_def holds_def)

subsection \<open>Lists\<close>

text \<open>\<open>find_index p xs\<close>: the position of the first element with \<open>p\<close>, as a search loop returns it.\<close>

fun find_index :: "('a \<Rightarrow> bool) \<Rightarrow> 'a list \<Rightarrow> nat option" where
  "find_index p [] = None"
| "find_index p (x # xs) = (if p x then Some 0 else map_option Suc (find_index p xs))"

lemma find_index_None: "find_index p xs = None \<longleftrightarrow> (\<forall>x \<in> set xs. \<not> p x)"
  by (induction xs) auto

lemma find_index_Some:
  "find_index p xs = Some i \<longleftrightarrow> i < length xs \<and> p (xs ! i) \<and> (\<forall>j<i. \<not> p (xs ! j))"
proof (induction xs arbitrary: i)
  case Nil
  then show ?case by simp
next
  case (Cons x xs)
  show ?case
  proof (cases i)
    case 0
    then show ?thesis by auto
  next
    case (Suc k)
    then show ?thesis using Cons.IH [of k] by (auto simp: less_Suc_eq_0_disj)
  qed
qed

lemma find_index_append_Some:
  "find_index p xs = Some i \<Longrightarrow> find_index p (xs @ ys) = Some i"
  by (auto simp: find_index_Some nth_append)

lemma find_index_exists: "x \<in> set xs \<Longrightarrow> p x \<Longrightarrow> \<exists>i. find_index p xs = Some i"
  by (cases "find_index p xs") (auto simp: find_index_None)

end
