(* ===== verification/Services.thy ===== *)
theory Services
  imports Prelude
begin

section \<open>The generic services of the launcher\<close>

text \<open>
  \<open>client/launcher/services/memory_service.cpp\<close>, \<open>advise_service.cpp\<close> and
  \<open>transport_service.cpp\<close>: RPC handlers around a manager. The managers (\<open>GlobalMemoryManager\<close>,
  \<open>TransportManager\<close>, and the two members of \<open>CoolingService\<close> that \<open>AdviseService\<close> calls) are not
  defined in the repository: each is a state \<open>'m\<close> with the called operation as a parameter, whose
  outcome may be an exception. A results message starts with all fields at their defaults, and so
  does an \<open>Ack\<close>: not ok, no text, error code 0. The error codes are the enumerators the code names,
  with \<open>CodeZero\<close> for the default.
\<close>

datatype service_code =
  CodeZero | SUCCESS | OUT_OF_MEMORY | INVALID_HANDLE | INVALID_VALUE | TRANSFER_FAILED

record ack =
  ack_ok :: bool
  ack_msg :: string
  ack_code :: service_code

definition initAck :: ack where
  "initAck = \<lparr>ack_ok = False, ack_msg = [], ack_code = CodeZero\<rparr>"

record allocation =
  alloc_handle :: u64
  alloc_localPtr :: u64
  alloc_numaNode :: u32

record memory_results =
  res_handle :: u64
  res_localPtr :: u64
  res_numaNode :: u32
  res_ack :: ack

definition new_memory_results :: memory_results where
  "new_memory_results = \<lparr>res_handle = 0, res_localPtr = 0, res_numaNode = 0, res_ack = initAck\<rparr>"

definition failure_ack :: "string \<Rightarrow> service_code \<Rightarrow> ack" where
  "failure_ack what code = initAck\<lparr>ack_ok := False, ack_msg := what, ack_code := code\<rparr>"

subsection \<open>MemoryService\<close>

definition allocateMemory :: "(u64 \<Rightarrow> u32 \<Rightarrow> 'm \<Rightarrow> allocation exec \<times> 'm) \<Rightarrow> u64 \<Rightarrow> u32 \<Rightarrow> 'm \<Rightarrow>
    (memory_results \<times> 'm) exec" where
  "allocateMemory allocate len numaHint m =
     (case allocate len numaHint m of
        (Done a, m') \<Rightarrow>
          Done (new_memory_results\<lparr>res_handle := alloc_handle a, res_localPtr := alloc_localPtr a,
                  res_numaNode := alloc_numaNode a\<rparr>, m')
      | (Throws e, m') \<Rightarrow> Done (new_memory_results\<lparr>res_ack := failure_ack e OUT_OF_MEMORY\<rparr>, m')
      | (UB u, m') \<Rightarrow> UB u)"

definition freeMemory :: "(u64 \<Rightarrow> 'm \<Rightarrow> unit exec \<times> 'm) \<Rightarrow> u64 \<Rightarrow> 'm \<Rightarrow> (ack \<times> 'm) exec" where
  "freeMemory free remoteHandle m =
     (case free remoteHandle m of
        (Done _, m') \<Rightarrow> Done (initAck, m')
      | (Throws e, m') \<Rightarrow> Done (failure_ack e INVALID_HANDLE, m')
      | (UB u, m') \<Rightarrow> UB u)"

subsection \<open>AdviseService\<close>

text \<open>Two values of \<open>CUmem_advise\<close> of \<open>cuda.h\<close>.\<close>

definition CU_MEM_ADVISE_SET_PREFERRED_LOCATION :: u32 where "CU_MEM_ADVISE_SET_PREFERRED_LOCATION = 3"
definition CU_MEM_ADVISE_SET_ACCESSED_BY :: u32 where "CU_MEM_ADVISE_SET_ACCESSED_BY = 5"

definition handleMemAdvise :: "(u64 \<Rightarrow> u64 \<Rightarrow> 'm \<Rightarrow> unit exec \<times> 'm) \<Rightarrow> (u64 \<Rightarrow> u64 \<Rightarrow> 'm \<Rightarrow> unit exec \<times> 'm) \<Rightarrow>
    u64 \<Rightarrow> u64 \<Rightarrow> u32 \<Rightarrow> 'm \<Rightarrow> (service_code \<times> 'm) exec" where
  "handleMemAdvise setPreferredLocation markAccessedBy ptr len advice m =
     (case (if advice = CU_MEM_ADVISE_SET_PREFERRED_LOCATION then setPreferredLocation ptr len m
            else if advice = CU_MEM_ADVISE_SET_ACCESSED_BY then markAccessedBy ptr len m
            else (Done (), m)) of
        (Done _, m') \<Rightarrow> Done (SUCCESS, m')
      | (Throws e, m') \<Rightarrow> Done (INVALID_VALUE, m')
      | (UB u, m') \<Rightarrow> UB u)"

subsection \<open>TransportService\<close>

text \<open>A transfer type as it comes over the wire, and the manager's own type.\<close>

datatype wire_type = HOST_TO_DEVICE | DEVICE_TO_HOST | DEVICE_TO_DEVICE | OtherType u16
datatype manager_type = M_HOST_TO_DEVICE | M_DEVICE_TO_HOST | M_DEVICE_TO_DEVICE

definition transport_type_of :: "wire_type \<Rightarrow> manager_type exec" where
  "transport_type_of ty = (case ty of
     HOST_TO_DEVICE \<Rightarrow> Done M_HOST_TO_DEVICE | DEVICE_TO_HOST \<Rightarrow> Done M_DEVICE_TO_HOST
   | DEVICE_TO_DEVICE \<Rightarrow> Done M_DEVICE_TO_DEVICE | OtherType _ \<Rightarrow> Throws ''Invalid transfer type'')"

definition executeTransfer :: "('h \<Rightarrow> 'h \<Rightarrow> u64 \<Rightarrow> manager_type \<Rightarrow> 'm \<Rightarrow> unit exec \<times> 'm) \<Rightarrow>
    'h \<Rightarrow> 'h \<Rightarrow> u64 \<Rightarrow> wire_type \<Rightarrow> 'm \<Rightarrow> (ack \<times> 'm) exec" where
  "executeTransfer run src dst len ty m =
     (case (case transport_type_of ty of
              Done t \<Rightarrow> run src dst len t m
            | Throws e \<Rightarrow> (Throws e, m)
            | UB u \<Rightarrow> (UB u, m)) of
        (Done _, m') \<Rightarrow> Done (initAck\<lparr>ack_ok := True, ack_msg := ''Transfer completed successfully''\<rparr>, m')
      | (Throws e, m') \<Rightarrow> Done (failure_ack e TRANSFER_FAILED, m')
      | (UB u, m') \<Rightarrow> UB u)"

subsection \<open>Properties\<close>

lemma failure_ack_fields [simp]:
  "ack_ok (failure_ack e c) = False" "ack_msg (failure_ack e c) = e" "ack_code (failure_ack e c) = c"
  by (simp_all add: failure_ack_def)

lemma initAck_fields [simp]: "ack_ok initAck = False" "ack_msg initAck = []" "ack_code initAck = CodeZero"
  by (simp_all add: initAck_def)

text \<open>
  The acknowledgement of an allocation or a free says \<open>ok = false\<close> whatever happened: a
  successful call leaves the default acknowledgement and only the error code tells it from a
  failed one, which carries the exception's text; a successful allocation's handle, pointer and
  NUMA node are the manager's.
\<close>

theorem memory_acks_are_never_ok:
  "(\<forall>r m'. allocateMemory allocate len hint m = Done (r, m') \<longrightarrow> \<not> ack_ok (res_ack r) \<and>
      (ack_code (res_ack r) = CodeZero \<longleftrightarrow> (\<exists>a. allocate len hint m = (Done a, m') \<and>
         res_handle r = alloc_handle a \<and> res_localPtr r = alloc_localPtr a \<and> res_numaNode r = alloc_numaNode a))) \<and>
   (\<forall>k m'. freeMemory free h m = Done (k, m') \<longrightarrow> \<not> ack_ok k \<and>
      (ack_code k = CodeZero \<longleftrightarrow> free h m = (Done (), m')))"
  by (auto simp: allocateMemory_def freeMemory_def new_memory_results_def split: prod.splits exec.splits)

theorem memory_acks_are_never_ok_witness:
  "\<exists>k. freeMemory (\<lambda>_ m. (Done (), m)) 3 () = Done (k, ()) \<and> \<not> ack_ok k \<and> ack_code k = CodeZero"
proof -
  obtain k where "freeMemory (\<lambda>_ m. (Done (), m)) 3 () = Done (k, ())" by (simp add: freeMemory_def)
  then show ?thesis
    using memory_acks_are_never_ok [of "\<lambda>_ _ m. (Throws ''x'', m)" 0 0 "()" "\<lambda>_ m. (Done (), m)" 3] by auto
qed

text \<open>
  A transfer of a type other than the three known ones never reaches the transport manager and
  is acknowledged as failed; one of a known type calls the manager once, with the matching type,
  and is acknowledged as ok exactly when the manager returns; an exception of the manager becomes
  the text of a \<open>TRANSFER_FAILED\<close> acknowledgement.
\<close>

theorem transfer_dispatch:
  "executeTransfer run src dst len (OtherType k) m =
     Done (failure_ack ''Invalid transfer type'' TRANSFER_FAILED, m) \<and>
   (executeTransfer run src dst len ty m = Done (a, m') \<and> ack_ok a \<longleftrightarrow>
      (\<exists>t. transport_type_of ty = Done t \<and> run src dst len t m = (Done (), m')) \<and>
      a = \<lparr>ack_ok = True, ack_msg = ''Transfer completed successfully'', ack_code = CodeZero\<rparr>) \<and>
   (transport_type_of ty = Done t \<and> run src dst len t m = (Throws e, m') \<longrightarrow>
      executeTransfer run src dst len ty m = Done (failure_ack e TRANSFER_FAILED, m'))"
  by (cases ty) (auto simp: executeTransfer_def transport_type_of_def initAck_def split: prod.splits exec.splits)

theorem transfer_dispatch_witness:
  "executeTransfer (\<lambda>_ _ _ _ m. (Throws ''link down'', Suc m)) () () 8 DEVICE_TO_HOST 4 =
     Done (failure_ack ''link down'' TRANSFER_FAILED, 5)"
  using transfer_dispatch [of "\<lambda>_ _ _ _ m. (Throws ''link down'', Suc m)" "()" "()" 8 0 4 DEVICE_TO_HOST _ 5
      M_DEVICE_TO_HOST "''link down''"]
  by (simp add: transport_type_of_def)

end
