(* ===== verification/Ieee.thy ===== *)
theory Ieee
  imports Prelude
begin

section \<open>Binary floating point as the C++ code computes with it\<close>

text \<open>
  The dispatcher computes scores in \<open>double\<close> and the cooling service indicators in \<open>float\<close>.
  Both are modelled with their rounding: a value is a rational or one of the special values,
  and an operation is the exact operation followed by rounding to nearest, ties to even, in the
  format (precision, least and greatest exponent), with subnormals and overflow to infinity.
  Positive and negative zero are one value: the modelled code divides by no zero whose sign
  could be negative and never looks at a sign bit.
\<close>

datatype fval = Fin rat | PInf | NInf | NaN

record fmt =
  prec :: nat   \<comment> \<open>bits of the significand\<close>
  emin :: int   \<comment> \<open>exponent of the least normal number\<close>
  emax :: int   \<comment> \<open>exponent of the greatest numbers\<close>

definition binary32 :: fmt where "binary32 = \<lparr>prec = 24, emin = -126, emax = 127\<rparr>"
definition binary64 :: fmt where "binary64 = \<lparr>prec = 53, emin = -1022, emax = 1023\<rparr>"

subsection \<open>Powers of two and the binary exponent\<close>

definition pow2 :: "int \<Rightarrow> rat" where
  "pow2 e = (if 0 \<le> e then 2 ^ nat e else 1 / 2 ^ nat (- e))"

lemma pow2_powi: "pow2 e = 2 powi e"
  by (simp add: pow2_def power_int_def field_simps)

lemma pow2_pos [simp]: "0 < pow2 e"
  by (simp add: pow2_def)

lemma pow2_nonneg [simp]: "0 \<le> pow2 e"
  by (simp add: pow2_def)

lemma pow2_nonzero [simp]: "pow2 e \<noteq> 0"
  by (simp add: pow2_def)

lemma pow2_add: "pow2 (a + b) = pow2 a * pow2 b"
  by (simp add: pow2_powi power_int_add)

lemma pow2_mono: "a \<le> b \<Longrightarrow> pow2 a \<le> pow2 b"
  by (simp add: pow2_powi power_int_increasing)

lemma pow2_less_iff [simp]: "pow2 a < pow2 b \<longleftrightarrow> a < b"
  using power_int_strict_increasing [of a b "2::rat"] pow2_mono [of b a]
  by (auto simp: pow2_powi not_less [symmetric])

lemma pow2_0 [simp]: "pow2 0 = 1" and pow2_1 [simp]: "pow2 1 = 2"
  by (simp_all add: pow2_def)

lemma pow2_nat_int: "0 \<le> e \<Longrightarrow> pow2 e = of_int (2 ^ nat e)"
  by (simp add: pow2_def)

text \<open>The exponent of the leading bit of an integer, by repeated halving.\<close>

function zlog2 :: "int \<Rightarrow> int" where
  "zlog2 n = (if n < 2 then 0 else zlog2 (n div 2) + 1)"
  by pat_completeness auto
termination
  by (relation "measure nat") auto

declare zlog2.simps [simp del]

lemma zlog2_bounds: "0 < n \<Longrightarrow> pow2 (zlog2 n) \<le> of_int n \<and> of_int n < pow2 (zlog2 n + 1)"
proof (induction n rule: zlog2.induct)
  case (1 n)
  show ?case
  proof (cases "n < 2")
    case True
    with "1.prems" have "n = 1" by simp
    then show ?thesis by (simp add: zlog2.simps)
  next
    case False
    let ?m = "n div 2"
    have ih: "pow2 (zlog2 ?m) \<le> of_int ?m" "of_int ?m < pow2 (zlog2 ?m + 1)"
      using "1.IH" False by auto
    have step: "zlog2 n = zlog2 ?m + 1" using False by (simp add: zlog2.simps [of n])
    have nonneg: "0 \<le> zlog2 ?m + 1"
    proof (rule ccontr)
      assume "\<not> 0 \<le> zlog2 ?m + 1"
      then have "pow2 (zlog2 ?m + 1) \<le> pow2 0" by (intro pow2_mono) simp
      moreover have "(1::rat) \<le> of_int ?m" using False by simp
      ultimately show False using ih(2) by simp
    qed
    have lo: "pow2 (zlog2 ?m) * 2 \<le> of_int n"
    proof -
      have "pow2 (zlog2 ?m) * 2 \<le> of_int ?m * 2" using ih(1) by simp
      also have "\<dots> = of_int (?m * 2)" by simp
      also have "\<dots> \<le> of_int n" by (subst of_int_le_iff) linarith
      finally show ?thesis .
    qed
    have "(of_int ?m :: rat) < of_int (2 ^ nat (zlog2 ?m + 1))"
      using ih(2) by (simp only: pow2_nat_int [OF nonneg])
    then have "?m < 2 ^ nat (zlog2 ?m + 1)" by (simp only: of_int_less_iff)
    then have "n < 2 ^ nat (zlog2 ?m + 1) * 2" by linarith
    then have "(of_int n :: rat) < of_int (2 ^ nat (zlog2 ?m + 1) * 2)"
      by (simp only: of_int_less_iff)
    then have hi: "of_int n < pow2 (zlog2 ?m + 1) * 2"
      using nonneg by (simp add: pow2_nat_int)
    have "pow2 (zlog2 ?m + 1 + 1) = pow2 (zlog2 ?m + 1) * 2" by (simp only: pow2_add pow2_1)
    with lo hi show ?thesis by (simp add: step pow2_add [of _ 1])
  qed
qed

text \<open>The exponent of a positive rational: \<open>2^e \<le> q < 2^(e+1)\<close>.\<close>

definition ilog2 :: "rat \<Rightarrow> int" where
  "ilog2 q = (let (a, b) = quotient_of q; d = zlog2 a - zlog2 b
              in if pow2 d \<le> q then d else d - 1)"

lemma pow2_diff: "pow2 (a - b) = pow2 a / pow2 b"
  using pow2_add [of "a - b" b] by (simp add: field_simps)

lemma ilog2_bounds:
  assumes "0 < q"
  shows "pow2 (ilog2 q) \<le> q" "q < pow2 (ilog2 q + 1)"
proof -
  obtain a b where ab: "quotient_of q = (a, b)" by force
  have b: "0 < b" using quotient_of_denom_pos [OF ab] .
  have q: "q = of_int a / of_int b" by (rule quotient_of_div [OF ab])
  have a: "0 < a" using assms b by (simp add: q zero_less_divide_iff)
  note A = zlog2_bounds [OF a] and B = zlog2_bounds [OF b]
  let ?d = "zlog2 a - zlog2 b"
  have up: "q < pow2 (?d + 1)"
  proof -
    have "q < pow2 (zlog2 a + 1) / of_int b"
      using A b by (simp add: q divide_strict_right_mono)
    also have "\<dots> \<le> pow2 (zlog2 a + 1) / pow2 (zlog2 b)"
      using B by (intro divide_left_mono) (auto simp: b)
    also have "\<dots> = pow2 (?d + 1)" by (simp add: pow2_diff pow2_add)
    finally show ?thesis .
  qed
  have low: "pow2 (?d - 1) \<le> q"
  proof -
    have "pow2 (?d - 1) = pow2 (zlog2 a) / pow2 (zlog2 b + 1)" by (simp add: pow2_diff pow2_add)
    also have "\<dots> \<le> pow2 (zlog2 a) / of_int b"
      using B by (intro divide_left_mono) (auto simp: b)
    also have "\<dots> \<le> q" using A b by (simp add: q divide_right_mono)
    finally show ?thesis .
  qed
  have d: "ilog2 q = (if pow2 ?d \<le> q then ?d else ?d - 1)" by (simp add: ilog2_def ab Let_def)
  show "pow2 (ilog2 q) \<le> q" using low by (simp add: d)
  show "q < pow2 (ilog2 q + 1)" using up by (simp add: d)
qed

lemma ilog2_mono:
  assumes "0 < p" "p \<le> q"
  shows "ilog2 p \<le> ilog2 q"
proof -
  have "pow2 (ilog2 p) \<le> p" using assms by (intro ilog2_bounds) simp
  also have "p \<le> q" by fact
  also have "q < pow2 (ilog2 q + 1)" using assms by (intro ilog2_bounds) simp
  finally show ?thesis by simp
qed

subsection \<open>Rounding to nearest, ties to even\<close>

definition rne :: "rat \<Rightarrow> int" where
  "rne x = (let f = \<lfloor>x\<rfloor>; d = x - of_int f
            in if d < 1 / 2 then f else if 1 / 2 < d then f + 1 else if even f then f else f + 1)"

lemma rne_of_int [simp]: "rne (of_int k) = k"
  by (simp add: rne_def)

lemma rne_floor: "\<lfloor>x\<rfloor> \<le> rne x" "rne x \<le> \<lfloor>x\<rfloor> + 1"
  by (simp_all add: rne_def Let_def)

lemma rne_mono: "x \<le> y \<Longrightarrow> rne x \<le> rne y"
proof -
  assume xy: "x \<le> y"
  then have fl: "\<lfloor>x\<rfloor> \<le> \<lfloor>y\<rfloor>" by (rule floor_mono)
  show ?thesis
  proof (cases "\<lfloor>x\<rfloor> = \<lfloor>y\<rfloor>")
    case True
    then show ?thesis using xy by (simp add: rne_def Let_def)
  next
    case False
    then show ?thesis using fl rne_floor(2) [of x] rne_floor(1) [of y] by linarith
  qed
qed

lemma rne_le: "x \<le> of_int k \<Longrightarrow> rne x \<le> k"
  using rne_mono [of x "of_int k"] by simp

lemma rne_ge: "of_int k \<le> x \<Longrightarrow> k \<le> rne x"
  using rne_mono [of "of_int k" x] by simp

text \<open>The spacing of a format's numbers around a positive \<open>q\<close>, and rounding to that grid.\<close>

definition grid_exp :: "fmt \<Rightarrow> rat \<Rightarrow> int" where
  "grid_exp F q = max (ilog2 q) (emin F) - int (prec F) + 1"

definition rpos :: "fmt \<Rightarrow> rat \<Rightarrow> rat" where
  "rpos F q = (if q = 0 then 0
               else let u = pow2 (grid_exp F q) in of_int (rne (q / u)) * u)"

definition rnd :: "fmt \<Rightarrow> rat \<Rightarrow> rat" where
  "rnd F q = (if q < 0 then - rpos F (- q) else rpos F q)"

text \<open>A rounded value overflows when its exponent is above the greatest of the format.\<close>

definition overflows :: "fmt \<Rightarrow> rat \<Rightarrow> bool" where
  "overflows F r \<longleftrightarrow> r \<noteq> 0 \<and> emax F < ilog2 \<bar>r\<bar>"

definition fl :: "fmt \<Rightarrow> rat \<Rightarrow> fval" where
  "fl F q = (let r = rnd F q
             in if overflows F r then if r < 0 then NInf else PInf else Fin r)"

lemma rpos_0 [simp]: "rpos F 0 = 0" and rnd_0 [simp]: "rnd F 0 = 0"
  by (simp_all add: rpos_def rnd_def)

lemma rpos_nonneg: "0 \<le> q \<Longrightarrow> 0 \<le> rpos F q"
  using rne_ge [of 0] by (simp add: rpos_def Let_def)

lemma rnd_minus: "rnd F (- q) = - rnd F q"
  by (simp add: rnd_def)

subsection \<open>The operations\<close>

definition fadd :: "fmt \<Rightarrow> fval \<Rightarrow> fval \<Rightarrow> fval" where
  "fadd F x y = (case (x, y) of
       (NaN, _) \<Rightarrow> NaN | (_, NaN) \<Rightarrow> NaN
     | (PInf, NInf) \<Rightarrow> NaN | (NInf, PInf) \<Rightarrow> NaN
     | (PInf, _) \<Rightarrow> PInf | (_, PInf) \<Rightarrow> PInf
     | (NInf, _) \<Rightarrow> NInf | (_, NInf) \<Rightarrow> NInf
     | (Fin a, Fin b) \<Rightarrow> fl F (a + b))"

definition fneg :: "fval \<Rightarrow> fval" where
  "fneg x = (case x of Fin a \<Rightarrow> Fin (- a) | PInf \<Rightarrow> NInf | NInf \<Rightarrow> PInf | NaN \<Rightarrow> NaN)"

definition fsub :: "fmt \<Rightarrow> fval \<Rightarrow> fval \<Rightarrow> fval" where
  "fsub F x y = fadd F x (fneg y)"

definition finf :: "bool \<Rightarrow> fval" where
  "finf neg = (if neg then NInf else PInf)"

definition fmul :: "fmt \<Rightarrow> fval \<Rightarrow> fval \<Rightarrow> fval" where
  "fmul F x y = (case (x, y) of
       (NaN, _) \<Rightarrow> NaN | (_, NaN) \<Rightarrow> NaN
     | (Fin a, Fin b) \<Rightarrow> fl F (a * b)
     | (Fin a, PInf) \<Rightarrow> (if a = 0 then NaN else finf (a < 0))
     | (Fin a, NInf) \<Rightarrow> (if a = 0 then NaN else finf (0 < a))
     | (PInf, Fin b) \<Rightarrow> (if b = 0 then NaN else finf (b < 0))
     | (NInf, Fin b) \<Rightarrow> (if b = 0 then NaN else finf (0 < b))
     | (PInf, PInf) \<Rightarrow> PInf | (NInf, NInf) \<Rightarrow> PInf
     | (PInf, NInf) \<Rightarrow> NInf | (NInf, PInf) \<Rightarrow> NInf)"

definition fdiv :: "fmt \<Rightarrow> fval \<Rightarrow> fval \<Rightarrow> fval" where
  "fdiv F x y = (case (x, y) of
       (NaN, _) \<Rightarrow> NaN | (_, NaN) \<Rightarrow> NaN
     | (Fin a, Fin b) \<Rightarrow> (if b = 0 then if a = 0 then NaN else finf (a < 0) else fl F (a / b))
     | (Fin a, _) \<Rightarrow> Fin 0
     | (PInf, Fin b) \<Rightarrow> finf (b < 0)
     | (NInf, Fin b) \<Rightarrow> finf (0 \<le> b)
     | (_, _) \<Rightarrow> NaN)"

text \<open>Conversions: an integer to a format, a value of one format to another, and \<open>std::min\<close>.\<close>

definition of_u64 :: "fmt \<Rightarrow> u64 \<Rightarrow> fval" where
  "of_u64 F w = fl F (of_nat (unat w))"

definition of_sint :: "fmt \<Rightarrow> int \<Rightarrow> fval" where
  "of_sint F n = fl F (of_int n)"

definition fconv :: "fmt \<Rightarrow> fval \<Rightarrow> fval" where
  "fconv F x = (case x of Fin a \<Rightarrow> fl F a | _ \<Rightarrow> x)"

text \<open>The comparison \<open><\<close>: false when either side is not a number.\<close>

definition fless :: "fval \<Rightarrow> fval \<Rightarrow> bool" where
  "fless x y = (case (x, y) of
       (NaN, _) \<Rightarrow> False | (_, NaN) \<Rightarrow> False
     | (Fin a, Fin b) \<Rightarrow> a < b
     | (NInf, NInf) \<Rightarrow> False | (NInf, _) \<Rightarrow> True
     | (_, PInf) \<Rightarrow> x \<noteq> PInf
     | (_, _) \<Rightarrow> False)"

definition fmin :: "fval \<Rightarrow> fval \<Rightarrow> fval" where
  "fmin x y = (if fless y x then y else x)"

lemma fless_Fin [simp]: "fless (Fin a) (Fin b) \<longleftrightarrow> a < b"
  by (simp add: fless_def)

lemma fless_irrefl [simp]: "\<not> fless x x"
  by (cases x) (simp_all add: fless_def)

lemma fless_trans: "fless x y \<Longrightarrow> fless y z \<Longrightarrow> fless x z"
  by (cases x; cases y; cases z) (simp_all add: fless_def)

lemma fless_NaN [simp]: "\<not> fless NaN x" "\<not> fless x NaN"
  by (cases x; simp add: fless_def)+

lemma fless_le_trans: "fless x y \<Longrightarrow> \<not> fless x z \<Longrightarrow> z \<noteq> NaN \<Longrightarrow> fless z y"
  by (cases x; cases y; cases z) (simp_all add: fless_def)

lemma fless_neg_trans: "y \<noteq> NaN \<Longrightarrow> \<not> fless y x \<Longrightarrow> \<not> fless z y \<Longrightarrow> \<not> fless z x"
  by (cases x; cases y; cases z) (simp_all add: fless_def)

subsection \<open>What every format guarantees\<close>

text \<open>
  The contract of a format: it has at least one bit and its least exponent is not above its
  greatest. From it follow monotone rounding, exactness on the grid, and the bounds with which
  the users of the operations work (\<open>inrange\<close>).
\<close>

definition inrange :: "rat \<Rightarrow> rat \<Rightarrow> fval \<Rightarrow> bool" where
  "inrange lo hi x \<longleftrightarrow> (case x of Fin r \<Rightarrow> lo \<le> r \<and> r \<le> hi | _ \<Rightarrow> False)"

lemma inrange_Fin [simp]: "inrange lo hi (Fin r) \<longleftrightarrow> lo \<le> r \<and> r \<le> hi"
  by (simp add: inrange_def)

lemma inrangeE: "inrange lo hi x \<Longrightarrow> (\<And>r. x = Fin r \<Longrightarrow> lo \<le> r \<Longrightarrow> r \<le> hi \<Longrightarrow> thesis) \<Longrightarrow> thesis"
  by (cases x) (simp_all add: inrange_def)

lemma inrange_weaken: "inrange lo hi x \<Longrightarrow> lo' \<le> lo \<Longrightarrow> hi \<le> hi' \<Longrightarrow> inrange lo' hi' x"
  by (cases x) (simp_all add: inrange_def)

definition nonpos :: "fval \<Rightarrow> bool" where
  "nonpos x \<longleftrightarrow> (case x of Fin r \<Rightarrow> r \<le> 0 | NInf \<Rightarrow> True | _ \<Rightarrow> False)"

lemma nonpos_Fin [simp]: "nonpos (Fin r) \<longleftrightarrow> r \<le> 0"
  by (simp add: nonpos_def)

definition fixed :: "fmt \<Rightarrow> rat \<Rightarrow> bool" where
  "fixed F c \<longleftrightarrow> rnd F c = c \<and> \<not> overflows F c"

lemma overflows_between:
  assumes "\<not> overflows F lo" "\<not> overflows F hi" "lo \<le> r" "r \<le> hi"
  shows "\<not> overflows F r"
proof (cases "0 < r")
  case True
  then show ?thesis using assms ilog2_mono [of r hi] by (auto simp: overflows_def)
next
  case False
  then show ?thesis using assms ilog2_mono [of "- r" "- lo"] by (auto simp: overflows_def)
qed

locale float_format =
  fixes F :: fmt
  assumes prec_pos: "1 \<le> prec F"
    and exps: "emin F \<le> emax F"
begin

lemma rpos_le_pow2:
  assumes "0 < q" "q \<le> pow2 e" "emin F - int (prec F) + 1 \<le> e - int (prec F)"
    and "ilog2 q \<le> e - 1"
  shows "rpos F q \<le> pow2 e"
proof -
  let ?g = "grid_exp F q"
  have g: "?g \<le> e - int (prec F)" "?g \<le> e"
    using assms(3,4) by (auto simp: grid_exp_def)
  have "q / pow2 ?g \<le> pow2 e / pow2 ?g" using assms(2) by (simp add: divide_right_mono)
  also have "\<dots> = pow2 (e - ?g)" by (simp add: pow2_diff)
  also have "\<dots> = of_int (2 ^ nat (e - ?g))" using g by (intro pow2_nat_int) simp
  finally have "rne (q / pow2 ?g) \<le> 2 ^ nat (e - ?g)" by (rule rne_le)
  then have "(of_int (rne (q / pow2 ?g)) :: rat) \<le> of_int (2 ^ nat (e - ?g))"
    by (simp only: of_int_le_iff)
  also have "\<dots> = pow2 (e - ?g)" using g by (simp add: pow2_nat_int)
  finally have "of_int (rne (q / pow2 ?g)) * pow2 ?g \<le> pow2 (e - ?g) * pow2 ?g" by simp
  also have "\<dots> = pow2 e" by (simp add: pow2_add [symmetric])
  finally show ?thesis using assms(1) by (simp add: rpos_def Let_def)
qed

lemma rpos_ge_pow2:
  assumes "0 < q" "pow2 e \<le> q" "grid_exp F q \<le> e"
  shows "pow2 e \<le> rpos F q"
proof -
  let ?g = "grid_exp F q"
  have "pow2 (e - ?g) = pow2 e / pow2 ?g" by (simp add: pow2_diff)
  also have "\<dots> \<le> q / pow2 ?g" using assms(2) by (simp add: divide_right_mono)
  finally have "2 ^ nat (e - ?g) \<le> rne (q / pow2 ?g)"
    using assms(3) by (intro rne_ge) (simp add: pow2_nat_int)
  then have "(of_int (2 ^ nat (e - ?g)) :: rat) \<le> of_int (rne (q / pow2 ?g))"
    by (simp only: of_int_le_iff)
  then have "pow2 (e - ?g) \<le> of_int (rne (q / pow2 ?g))"
    using assms(3) by (simp add: pow2_nat_int)
  then have "pow2 (e - ?g) * pow2 ?g \<le> of_int (rne (q / pow2 ?g)) * pow2 ?g" by simp
  then show ?thesis using assms(1) by (simp add: rpos_def Let_def pow2_add [symmetric])
qed

lemma rpos_mono:
  assumes "0 \<le> p" "p \<le> q"
  shows "rpos F p \<le> rpos F q"
proof (cases "p = 0")
  case True
  then show ?thesis using assms by (simp add: rpos_nonneg)
next
  case False
  then have p: "0 < p" and q: "0 < q" using assms by auto
  have il: "ilog2 p \<le> ilog2 q" using p assms(2) by (rule ilog2_mono)
  show ?thesis
  proof (cases "grid_exp F p = grid_exp F q")
    case True
    have "p / pow2 (grid_exp F q) \<le> q / pow2 (grid_exp F q)"
      using assms(2) by (simp add: divide_right_mono)
    then have "rne (p / pow2 (grid_exp F q)) \<le> rne (q / pow2 (grid_exp F q))" by (rule rne_mono)
    then show ?thesis using p q True by (simp add: rpos_def Let_def)
  next
    case False
    then have lt: "emin F < ilog2 q" "ilog2 p < ilog2 q"
      using il by (auto simp: grid_exp_def max_def split: if_splits)
    let ?e = "ilog2 q"
    have "p < pow2 (ilog2 p + 1)" using p by (rule ilog2_bounds)
    also have "\<dots> \<le> pow2 ?e" using lt by (intro pow2_mono) simp
    finally have pe: "p \<le> pow2 ?e" by simp
    have "rpos F p \<le> pow2 ?e"
      using p pe lt by (intro rpos_le_pow2) auto
    also have "\<dots> \<le> rpos F q"
      using q lt prec_pos ilog2_bounds(1) [OF q]
      by (intro rpos_ge_pow2) (auto simp: grid_exp_def)
    finally show ?thesis .
  qed
qed

lemma rnd_mono: "p \<le> q \<Longrightarrow> rnd F p \<le> rnd F q"
  using rpos_mono [of p q] rpos_mono [of "- q" "- p"] rpos_nonneg [of q F] rpos_nonneg [of "- p" F]
  by (auto simp: rnd_def)

text \<open>A number on the grid rounds to itself.\<close>

lemma rpos_exact:
  assumes m: "0 < m" "m \<le> 2 ^ prec F" and e: "emin F - int (prec F) + 1 \<le> e"
  shows "rpos F (of_int m * pow2 e) = of_int m * pow2 e"
proof -
  let ?q = "of_int m * pow2 e" and ?p = "int (prec F)"
  let ?g = "grid_exp F ?q"
  have q: "0 < ?q" using m by simp
  have "?g \<le> e \<or> ?q = pow2 (e + ?p) \<and> ?g = e + 1"
  proof (cases "?g \<le> e")
    case False
    then have gi: "?g = ilog2 ?q - ?p + 1" and il: "e + ?p \<le> ilog2 ?q"
      using e by (auto simp: grid_exp_def max_def split: if_splits)
    have "(of_int m :: rat) \<le> of_int (2 ^ prec F)" using m by (simp only: of_int_le_iff)
    then have "?q \<le> of_int (2 ^ prec F) * pow2 e" by simp
    also have "\<dots> = pow2 (e + ?p)" by (simp add: pow2_add pow2_nat_int [of ?p])
    finally have up: "?q \<le> pow2 (e + ?p)" .
    have low: "pow2 (ilog2 ?q) \<le> ?q" using q by (rule ilog2_bounds)
    have "pow2 (e + ?p) \<le> pow2 (ilog2 ?q)" using il by (rule pow2_mono)
    with up low have eq: "?q = pow2 (e + ?p)" and "pow2 (ilog2 ?q) \<le> pow2 (e + ?p)" by auto
    then have "ilog2 ?q = e + ?p" using il pow2_less_iff [of "e + ?p" "ilog2 ?q"] by linarith
    with eq gi show ?thesis by simp
  qed simp
  then obtain k :: int where k: "?q / pow2 ?g = of_int k"
  proof
    assume g: "?g \<le> e"
    have "?q / pow2 ?g = of_int m * pow2 (e - ?g)" by (simp add: pow2_diff)
    also have "\<dots> = of_int (m * 2 ^ nat (e - ?g))" using g by (simp add: pow2_nat_int)
    finally show ?thesis by (rule that)
  next
    assume eq: "?q = pow2 (e + ?p) \<and> ?g = e + 1"
    have "?q / pow2 ?g = ?q / pow2 (e + 1)" by (subst conjunct2 [OF eq]) (rule refl)
    also have "\<dots> = pow2 (e + ?p) / pow2 (e + 1)" by (subst conjunct1 [OF eq]) (rule refl)
    also have "\<dots> = pow2 ((e + ?p) - (e + 1))" by (rule pow2_diff [symmetric])
    also have "\<dots> = pow2 (?p - 1)" by simp
    also have "\<dots> = of_int (2 ^ nat (?p - 1))" using prec_pos by (intro pow2_nat_int) simp
    finally show ?thesis by (rule that)
  qed
  have "rpos F ?q = of_int (rne (?q / pow2 ?g)) * pow2 ?g"
    using m by (simp add: rpos_def Let_def)
  also have "\<dots> = ?q" by (simp only: k rne_of_int) (simp add: k [symmetric])
  finally show ?thesis .
qed

lemma rnd_exact:
  assumes "\<bar>m\<bar> \<le> 2 ^ prec F" "emin F - int (prec F) + 1 \<le> e"
  shows "rnd F (of_int m * pow2 e) = of_int m * pow2 e"
proof -
  consider "m = 0" | "0 < m" | "m < 0" by linarith
  then show ?thesis
  proof cases
    case 1
    then show ?thesis by simp
  next
    case 2
    then have "\<not> of_int m * pow2 e < 0" by (simp add: not_less)
    then show ?thesis using 2 assms rpos_exact [of m e] by (simp add: rnd_def)
  next
    case 3
    then have "rpos F (of_int (- m) * pow2 e) = of_int (- m) * pow2 e"
      using assms by (intro rpos_exact) auto
    moreover have "of_int m * pow2 e < 0" using 3 by (simp add: mult_less_0_iff)
    ultimately show ?thesis by (simp add: rnd_def)
  qed
qed

text \<open>A result between two numbers of the format is a number between them.\<close>

lemma fl_inrange:
  assumes "fixed F lo" "fixed F hi" "lo \<le> q" "q \<le> hi"
  shows "inrange lo hi (fl F q)"
proof -
  have "lo \<le> rnd F q" "rnd F q \<le> hi"
    using assms rnd_mono [of lo q] rnd_mono [of q hi] by (simp_all add: fixed_def)
  with overflows_between [of F lo hi "rnd F q"] show ?thesis
    using assms(1,2) by (simp add: fl_def Let_def fixed_def)
qed

lemma add_inrange:
  assumes "inrange a b x" "inrange c d y" "fixed F lo" "fixed F hi" "lo \<le> a + c" "b + d \<le> hi"
  shows "inrange lo hi (fadd F x y)"
  using assms(1,2) by (elim inrangeE) (auto simp: fadd_def intro!: fl_inrange assms(3,4) order_trans [OF assms(5)] order_trans [OF _ assms(6)])

lemma sub_inrange:
  assumes "inrange a b x" "inrange c d y" "fixed F lo" "fixed F hi" "lo \<le> a - d" "b - c \<le> hi"
  shows "inrange lo hi (fsub F x y)"
proof -
  have "inrange (- d) (- c) (fneg y)" using assms(2) by (elim inrangeE) (simp add: fneg_def)
  then show ?thesis unfolding fsub_def using assms by (intro add_inrange [OF assms(1)]) auto
qed

lemma mul_inrange:
  assumes "inrange 0 b x" "inrange 0 d y" "fixed F 0" "fixed F hi" "b * d \<le> hi"
  shows "inrange 0 hi (fmul F x y)"
  using assms(1,2)
proof (elim inrangeE)
  fix r s
  assume x: "x = Fin r" "0 \<le> r" "r \<le> b" and y: "y = Fin s" "0 \<le> s" "s \<le> d"
  then have "r * s \<le> hi" using mult_mono [of r b s d] assms(5) by simp
  then show ?thesis using x y by (simp add: fmul_def fl_inrange assms(3,4))
qed

lemma div_inrange:
  assumes "inrange 0 b x" "inrange c d y" "0 < c" "fixed F 0" "fixed F hi" "b / c \<le> hi"
  shows "inrange 0 hi (fdiv F x y)"
  using assms(1,2)
proof (elim inrangeE)
  fix r s
  assume x: "x = Fin r" "0 \<le> r" "r \<le> b" and y: "y = Fin s" "c \<le> s" "s \<le> d"
  have "r / s \<le> b / c" using x y assms(3) by (intro frac_le) auto
  then have "r / s \<le> hi" using assms(6) by simp
  then show ?thesis using x y assms(3) by (simp add: fdiv_def fl_inrange assms(4,5))
qed

text \<open>A positive factor times a negative one.\<close>

lemma mul_neg_inrange:
  assumes "inrange a b x" "inrange (- c) (- d) y" "0 \<le> a" "0 \<le> d" "fixed F (- lo)" "fixed F (- hi)"
    and "b * c \<le> lo" "hi \<le> a * d"
  shows "inrange (- lo) (- hi) (fmul F x y)"
  using assms(1,2)
proof (elim inrangeE)
  fix r s
  assume x: "x = Fin r" "a \<le> r" "r \<le> b" and y: "y = Fin s" "- c \<le> s" "s \<le> - d"
  have "r * (- s) \<le> b * c" using x y assms(3,4) by (intro mult_mono) auto
  moreover have "a * d \<le> r * (- s)" using x y assms(3,4) by (intro mult_mono) auto
  ultimately have "- lo \<le> r * s" "r * s \<le> - hi" using assms(7,8) by auto
  then show ?thesis using x y by (simp add: fmul_def fl_inrange assms(5,6))
qed

text \<open>A quotient of integers, the second at least the first, is at most one after rounding.\<close>

lemma ratio_inrange:
  assumes "inrange 0 b (fl F p)" "inrange 1 b (fl F q)" "p \<le> q" "fixed F 0" "fixed F 1"
  shows "inrange 0 1 (fdiv F (fl F p) (fl F q))"
proof -
  have *: "fl F r = Fin (rnd F r)" if "inrange a b (fl F r)" for a r
    using that by (auto simp: fl_def Let_def inrange_def split: if_splits)
  have "0 \<le> rnd F p" "1 \<le> rnd F q" using assms(1,2) by (simp_all add: * [OF assms(1)] * [OF assms(2)])
  moreover have "rnd F p \<le> rnd F q" by (rule rnd_mono [OF assms(3)])
  ultimately have "0 \<le> rnd F p / rnd F q" "rnd F p / rnd F q \<le> 1" by simp_all
  then show ?thesis using \<open>1 \<le> rnd F q\<close>
    by (simp add: * [OF assms(1)] * [OF assms(2)] fdiv_def fl_inrange assms(4,5))
qed

text \<open>Values below zero, the infinity included, as the arguments of an exponential have.\<close>

lemma fl_nonpos: "q \<le> 0 \<Longrightarrow> nonpos (fl F q)"
  using rnd_mono [of q 0] by (auto simp: fl_def Let_def nonpos_def overflows_def)

lemma div_nonpos: "nonpos x \<Longrightarrow> 0 < c \<Longrightarrow> nonpos (fdiv F x (Fin c))"
  by (cases x) (auto simp: fdiv_def finf_def divide_nonpos_pos nonpos_def [of PInf]
      nonpos_def [of NInf] nonpos_def [of NaN] intro!: fl_nonpos)

lemma mul_nonpos: "0 < c \<Longrightarrow> nonpos x \<Longrightarrow> nonpos (fmul F (Fin (- c)) (fneg x))"
  by (cases x) (auto simp: fmul_def finf_def fneg_def mult_nonneg_nonpos nonpos_def [of PInf]
      nonpos_def [of NInf] nonpos_def [of NaN] intro!: fl_nonpos)

text \<open>The sign of a product with a factor that may be negative: it stays below a bound.\<close>

lemma mul_le:
  assumes "inrange 0 b x" "inrange (- c) d y" "0 \<le> d" "0 \<le> c" "fixed F (- lo)" "fixed F hi"
    and "b * c \<le> lo" "b * d \<le> hi"
  shows "inrange (- lo) hi (fmul F x y)"
  using assms(1,2)
proof (elim inrangeE)
  fix r s
  assume x: "x = Fin r" "0 \<le> r" "r \<le> b" and y: "y = Fin s" "- c \<le> s" "s \<le> d"
  have "r * s \<le> b * d" using x y assms(3) by (intro order_trans [OF mult_left_mono [of s d r]] mult_right_mono) auto
  moreover have "r * (- s) \<le> b * c" using x y assms(4) by (intro order_trans [OF mult_left_mono [of "- s" c r]] mult_right_mono) auto
  ultimately have "- lo \<le> r * s" "r * s \<le> hi" using assms(7,8) by auto
  then show ?thesis using x y by (simp add: fmul_def fl_inrange assms(5,6))
qed

end

interpretation b32: float_format binary32
  by unfold_locales (simp_all add: binary32_def)

interpretation b64: float_format binary64
  by unfold_locales (simp_all add: binary64_def)

subsection \<open>The constants of the code\<close>

lemma overflows_bound: "\<bar>q\<bar> \<le> pow2 e \<Longrightarrow> e \<le> emax F \<Longrightarrow> \<not> overflows F q"
proof -
  assume q: "\<bar>q\<bar> \<le> pow2 e" and e: "e \<le> emax F"
  show ?thesis
  proof (cases "q = 0")
    case False
    then have "pow2 (ilog2 \<bar>q\<bar>) \<le> pow2 e" using ilog2_bounds(1) [of "\<bar>q\<bar>"] q by simp
    then have "ilog2 \<bar>q\<bar> \<le> e" by (simp add: not_less [symmetric])
    then show ?thesis using e by (simp add: overflows_def)
  qed (simp add: overflows_def)
qed

lemma fixed32:
  assumes "\<bar>m\<bar> \<le> 2 ^ 24" "-149 \<le> e" "\<bar>of_int m * pow2 e\<bar> \<le> pow2 100"
  shows "fixed binary32 (of_int m * pow2 e)"
  using assms b32.rnd_exact [of m e] overflows_bound [OF assms(3)]
  by (simp add: fixed_def binary32_def)

lemma fixed64:
  assumes "\<bar>m\<bar> \<le> 2 ^ 53" "-1074 \<le> e" "\<bar>of_int m * pow2 e\<bar> \<le> pow2 1000"
  shows "fixed binary64 (of_int m * pow2 e)"
  using assms b64.rnd_exact [of m e] overflows_bound [OF assms(3)]
  by (simp add: fixed_def binary64_def)

lemma fixed32_int: "\<bar>n\<bar> \<le> 2 ^ 24 \<Longrightarrow> fixed binary32 (of_int n)"
proof -
  assume n: "\<bar>n\<bar> \<le> 2 ^ 24"
  then have "(of_int \<bar>n\<bar> :: rat) \<le> of_int (2 ^ 24)" by (simp only: of_int_le_iff)
  also have "\<dots> \<le> pow2 100" by (simp add: pow2_def)
  finally show ?thesis using fixed32 [of n 0] n by simp
qed

lemma fixed64_int: "\<bar>n\<bar> \<le> 2 ^ 53 \<Longrightarrow> fixed binary64 (of_int n)"
proof -
  assume n: "\<bar>n\<bar> \<le> 2 ^ 53"
  then have "(of_int \<bar>n\<bar> :: rat) \<le> of_int (2 ^ 53)" by (simp only: of_int_le_iff)
  also have "\<dots> \<le> pow2 1000" by (simp add: pow2_def)
  finally show ?thesis using fixed64 [of n 0] n by simp
qed

lemma fixed64_pow2: "0 \<le> e \<Longrightarrow> e \<le> 1000 \<Longrightarrow> fixed binary64 (pow2 e)"
  using fixed64 [of 1 e] by (simp add: pow2_mono)

lemma fixed_consts [simp]:
  "fixed binary32 0" "fixed binary32 1" "fixed binary32 (- 1)" "fixed binary32 (1 / 2)"
  "fixed binary64 0" "fixed binary64 1" "fixed binary64 (- 1)" "fixed binary64 (1 / 2)"
  "fixed binary64 200" "fixed binary64 100" "fixed binary32 100" "fixed binary64 2"
  using fixed32_int [of 0] fixed32_int [of 1] fixed32_int [of "- 1"] fixed32_int [of 100]
    fixed64_int [of 0] fixed64_int [of 1] fixed64_int [of "- 1"] fixed64_int [of 100]
    fixed64_int [of 200] fixed64_int [of 2] fixed32 [of 1 "- 1"] fixed64 [of 1 "- 1"]
  by (simp_all add: pow2_def)

lemma fixed64_eighths: "\<bar>m\<bar> \<le> 2 ^ 50 \<Longrightarrow> fixed binary64 (of_int m / 8)"
proof -
  assume m: "\<bar>m\<bar> \<le> 2 ^ 50"
  have "\<bar>of_int m * pow2 (- 3)\<bar> = of_int \<bar>m\<bar> / (8 :: rat)" by (simp add: pow2_def abs_mult)
  also have "\<dots> \<le> of_int (2 ^ 50)" using m by (simp only: of_int_le_iff)
  also have "\<dots> \<le> pow2 1000" using pow2_mono [of 50 1000] by (simp add: pow2_def)
  finally show ?thesis using fixed64 [of m "- 3"] m by (simp add: pow2_def)
qed

lemma fl_fixed: "fixed F c \<Longrightarrow> fl F c = Fin c"
  by (simp add: fl_def fixed_def)

end
