(* ===== verification/Cooling.thy ===== *)
theory Cooling
  imports Ieee "HOL-Library.AList"
begin

section \<open>The cooling service: how hot and how stable a piece of data is\<close>

text \<open>
  \<open>client/launcher/services/cooling_service.h\<close> and \<open>.cpp\<close>: access records with a temperature and
  a stability score, written by \<open>RecordAccess\<close>, decayed and evicted by the passes of the worker
  thread, read by the dispatcher. Time points are nanoseconds of the steady clock. Code that is
  not in the repository is a field of \<open>cooling_env\<close>: the two overloads of \<open>std::exp\<close> and
  \<open>GlobalMemory::GetNumaNodeForPtr\<close>, which no file declares.
\<close>

record access_record =
  rec_count :: u64
  rec_last :: int
  mobility_count :: u32
  stability_score :: fval
  rec_numa :: i32
  temperature :: fval

record cooling_env =
  expf :: "fval \<Rightarrow> fval"
  expd :: "fval \<Rightarrow> fval"
  numa_of_ptr :: "u64 \<Rightarrow> i32"

record cooling_service =
  running :: bool
  worker_joinable :: bool
  access_records :: "(u64 \<times> access_record) list"
  cooling_interval :: int
  decay_amount :: u32
  access_threshold :: u32
  access_window :: int

definition new_record :: access_record where
  "new_record = \<lparr>rec_count = 0, rec_last = 0, mobility_count = 0, stability_score = Fin 0,
                 rec_numa = -1, temperature = Fin 0\<rparr>"

definition new_cooling :: cooling_service where
  "new_cooling = \<lparr>running = False, worker_joinable = False, access_records = [],
                  cooling_interval = 10, decay_amount = 1, access_threshold = 4, access_window = 5\<rparr>"

subsection \<open>Starting and stopping the worker\<close>

text \<open>
  Assigning a new \<open>std::thread\<close> to one that is still joinable ends the program; so does destroying
  a joinable one.
\<close>

definition Start :: "cooling_service \<Rightarrow> cooling_service exec" where
  "Start s = (if running s then Done s
              else if worker_joinable s then UB Terminated
              else Done (s\<lparr>running := True, worker_joinable := True\<rparr>))"

definition Stop :: "cooling_service \<Rightarrow> cooling_service" where
  "Stop s = (if \<not> running s then s else s\<lparr>running := False, worker_joinable := False\<rparr>)"

definition destroy :: "cooling_service \<Rightarrow> cooling_service exec" where
  "destroy s = (let s' = Stop s in if worker_joinable s' then UB Terminated else Done s')"

subsection \<open>Recording an access and reading the indicators\<close>

text \<open>\<open>duration_cast\<close> divides and truncates toward zero.\<close>

definition duration_cast :: "int \<Rightarrow> int \<Rightarrow> int" where
  "duration_cast unit d = (if d < 0 then - ((- d) div unit) else d div unit)"

definition nanos_per_milli :: int where "nanos_per_milli = 1000000"
definition nanos_per_second :: int where "nanos_per_second = 1000000000"

definition touch :: "cooling_env \<Rightarrow> u64 \<Rightarrow> int \<Rightarrow> access_record \<Rightarrow> access_record" where
  "touch env ptr now r0 =
     (let r1 = r0\<lparr>rec_count := rec_count r0 + 1\<rparr>;
          r2 = r1\<lparr>rec_last := now\<rparr>;
          r3 = r2\<lparr>rec_numa := numa_of_ptr env ptr\<rparr>;
          time_since_last = duration_cast nanos_per_milli (now - rec_last r3)
      in if time_since_last > 0
         then r3\<lparr>temperature := fdiv binary32 (Fin 1) (of_sint binary32 time_since_last)\<rparr>
         else r3\<lparr>temperature := Fin 1\<rparr>)"

definition RecordAccess :: "cooling_env \<Rightarrow> u64 \<Rightarrow> int \<Rightarrow> cooling_service \<Rightarrow> cooling_service" where
  "RecordAccess env ptr now s =
     (let r = (case map_of (access_records s) ptr of Some r \<Rightarrow> r | None \<Rightarrow> new_record)
      in s\<lparr>access_records := AList.update ptr (touch env ptr now r) (access_records s)\<rparr>)"

definition isHotData :: "u64 \<Rightarrow> cooling_service \<Rightarrow> bool" where
  "isHotData ptr s = (case map_of (access_records s) ptr of
     None \<Rightarrow> False | Some r \<Rightarrow> fless (fl binary32 (4 / 5)) (temperature r))"

definition getMobility :: "u64 \<Rightarrow> cooling_service \<Rightarrow> u32" where
  "getMobility ptr s = (case map_of (access_records s) ptr of None \<Rightarrow> 0 | Some r \<Rightarrow> mobility_count r)"

definition getStability :: "u64 \<Rightarrow> cooling_service \<Rightarrow> fval" where
  "getStability ptr s =
     (case map_of (access_records s) ptr of None \<Rightarrow> Fin 0 | Some r \<Rightarrow> stability_score r)"

definition getNumaId :: "u64 \<Rightarrow> cooling_service \<Rightarrow> i32" where
  "getNumaId ptr s = (case map_of (access_records s) ptr of None \<Rightarrow> -1 | Some r \<Rightarrow> rec_numa r)"

definition getTemperature :: "u64 \<Rightarrow> cooling_service \<Rightarrow> fval" where
  "getTemperature ptr s =
     (case map_of (access_records s) ptr of None \<Rightarrow> Fin 0 | Some r \<Rightarrow> temperature r)"

subsection \<open>A pass of the worker\<close>

definition stability :: "cooling_env \<Rightarrow> u64 \<Rightarrow> int \<Rightarrow> fval" where
  "stability env cnt duration =
     (let frequency_factor = fmin (Fin 1) (fdiv binary32 (of_u64 binary32 cnt) (Fin 100));
          time_factor = fsub binary32 (Fin 1)
            (expf env (fdiv binary32 (of_sint binary32 (- duration)) (Fin 3600)));
          pattern_factor = Fin (1 / 2)
      in fmul binary32 (fmul binary32 frequency_factor pattern_factor) time_factor)"

definition decayed_temperature :: "cooling_env \<Rightarrow> int \<Rightarrow> fval \<Rightarrow> fval" where
  "decayed_temperature env ms temp =
     fconv binary32 (fmul binary64 (fconv binary64 temp)
       (expd env (fmul binary64 (fneg (fl binary64 (1 / 1000))) (of_sint binary64 ms))))"

text \<open>One record: \<open>None\<close> when the pass erases it.\<close>

definition cool_record ::
    "cooling_env \<Rightarrow> u32 \<Rightarrow> int \<Rightarrow> int \<Rightarrow> access_record \<Rightarrow> access_record option" where
  "cool_record env decay window now r =
     (let duration = duration_cast nanos_per_second (now - rec_last r);
          decayed = (if duration > window
                     then if rec_count r > ucast decay then Some (r\<lparr>rec_count := rec_count r - ucast decay\<rparr>)
                          else None
                     else Some r)
      in case decayed of
           None \<Rightarrow> None
         | Some r1 \<Rightarrow>
             (let r2 = r1\<lparr>stability_score := stability env (rec_count r1) duration\<rparr>;
                  time_since_last = duration_cast nanos_per_milli (now - rec_last r2)
              in Some (if time_since_last > 0
                       then r2\<lparr>temperature := decayed_temperature env time_since_last (temperature r2)\<rparr>
                       else r2)))"

fun cool_all ::
    "(access_record \<Rightarrow> access_record option) \<Rightarrow> (u64 \<times> access_record) list \<Rightarrow> (u64 \<times> access_record) list" where
  "cool_all f [] = []"
| "cool_all f ((p, r) # rs) = (case f r of None \<Rightarrow> cool_all f rs | Some r' \<Rightarrow> (p, r') # cool_all f rs)"

definition cool_pass :: "cooling_env \<Rightarrow> int \<Rightarrow> cooling_service \<Rightarrow> cooling_service" where
  "cool_pass env now s =
     s\<lparr>access_records := cool_all (cool_record env (decay_amount s) (access_window s) now) (access_records s)\<rparr>"

text \<open>
  \<open>Run\<close>, given the clock readings after each sleep and the number of them before \<open>Stop\<close> is seen:
  one pass per reading while the service runs.
\<close>

fun Run :: "cooling_env \<Rightarrow> int list \<Rightarrow> cooling_service \<Rightarrow> cooling_service" where
  "Run env [] s = s"
| "Run env (now # nows) s = (if running s then Run env nows (cool_pass env now s) else s)"

subsection \<open>Reachable services\<close>

text \<open>
  Accesses and passes in any order, along a clock that never goes back. \<open>Run\<close> reads the clock before
  it takes the lock, so an access can come between the two, and the pass then works with a time
  before that access. Such passes are not among the steps: when less than a second lies between,
  the pass counts the record as zero seconds old; otherwise the argument of \<open>std::exp\<close> is
  positive, the time factor is at most zero and the stability may fall below zero. Neither takes an
  indicator above the bounds proved here, since the temperature is then left alone.
\<close>

inductive cool_step :: "cooling_env \<Rightarrow> int \<times> cooling_service \<Rightarrow> int \<times> cooling_service \<Rightarrow> bool"
  for env :: cooling_env where
  access: "t \<le> now \<Longrightarrow> cool_step env (t, s) (now, RecordAccess env ptr now s)"
| pass: "t \<le> now \<Longrightarrow> cool_step env (t, s) (now, cool_pass env now s)"

inductive cool_reachable :: "cooling_env \<Rightarrow> int \<times> cooling_service \<Rightarrow> bool"
  for env :: cooling_env where
  start: "cool_reachable env (t, new_cooling)"
| step: "cool_reachable env c \<Longrightarrow> cool_step env c d \<Longrightarrow> cool_reachable env d"

inductive_cases cool_stepE: "cool_step env (t, s) d"

subsection \<open>The indicators stay in their ranges\<close>

text \<open>What is used of \<open>std::exp\<close>: at an argument not above zero, minus infinity included, the
  result is between 0 and 1.\<close>

definition exp_ok :: "cooling_env \<Rightarrow> bool" where
  "exp_ok env \<longleftrightarrow> (\<forall>x. nonpos x \<longrightarrow> inrange 0 1 (expf env x) \<and> inrange 0 1 (expd env x))"

definition rec_ok :: "int \<Rightarrow> access_record \<Rightarrow> bool" where
  "rec_ok t r \<longleftrightarrow> inrange 0 (1 / 2) (stability_score r) \<and> inrange 0 1 (temperature r) \<and>
                 mobility_count r = 0 \<and> rec_last r \<le> t"

definition cool_inv :: "int \<Rightarrow> cooling_service \<Rightarrow> bool" where
  "cool_inv t s \<longleftrightarrow> distinct (map fst (access_records s)) \<and> (\<forall>x \<in> set (access_records s). rec_ok t (snd x))"

lemma duration_cast_nonneg: "0 \<le> d \<Longrightarrow> 0 < u \<Longrightarrow> 0 \<le> duration_cast u d"
  by (simp add: duration_cast_def pos_imp_zdiv_nonneg_iff)

lemma fmin_unit: "inrange 0 b x \<Longrightarrow> inrange 0 1 (fmin (Fin 1) x)"
  by (elim inrangeE) (auto simp: fmin_def)

lemma of_u64_range: "inrange 0 (pow2 64) (of_u64 binary32 w)"
proof -
  have "unat w < 2 ^ LENGTH(64)" by (rule unsigned_less)
  then have "(of_nat (unat w) :: rat) \<le> of_nat (2 ^ 64)" by (simp only: of_nat_le_iff) simp
  then have "(of_nat (unat w) :: rat) \<le> pow2 64" by (simp add: pow2_def)
  moreover have "fixed binary32 (pow2 64)" using fixed32 [of 1 64] by (simp add: pow2_mono)
  ultimately show ?thesis unfolding of_u64_def
    by (intro b32.fl_inrange) (simp_all del: of_nat_unat add: of_nat_0_le_iff)
qed

lemma stability_range: "exp_ok env \<Longrightarrow> 0 \<le> d \<Longrightarrow> inrange 0 (1 / 2) (stability env cnt d)"
proof -
  assume e: "exp_ok env" and d: "0 \<le> d"
  have big: "fixed binary32 (pow2 64)" using fixed32 [of 1 64] by (simp add: pow2_mono)
  have freq: "inrange 0 1 (fmin (Fin 1) (fdiv binary32 (of_u64 binary32 cnt) (Fin 100)))"
    by (rule fmin_unit, rule b32.div_inrange [OF of_u64_range, of 100 100 _ "pow2 64"])
      (simp_all add: big)
  have "nonpos (fdiv binary32 (of_sint binary32 (- d)) (Fin 3600))"
    using d by (intro b32.div_nonpos) (simp_all add: of_sint_def b32.fl_nonpos)
  then have ex: "inrange 0 1 (expf env (fdiv binary32 (of_sint binary32 (- d)) (Fin 3600)))"
    using e by (simp add: exp_ok_def)
  have time: "inrange 0 1 (fsub binary32 (Fin 1)
      (expf env (fdiv binary32 (of_sint binary32 (- d)) (Fin 3600))))"
    by (rule b32.sub_inrange [OF _ ex, of 1 1]) simp_all
  have "inrange 0 (1 / 2) (fmul binary32 (fmin (Fin 1)
      (fdiv binary32 (of_u64 binary32 cnt) (Fin 100))) (Fin (1 / 2)))"
    by (rule b32.mul_inrange [OF freq, of "1 / 2"]) simp_all
  from b32.mul_inrange [OF this time, of "1 / 2"] show ?thesis by (simp add: stability_def)
qed

lemma milli_const: "\<exists>c. fl binary64 (1 / 1000) = Fin c \<and> 0 < c"
proof -
  have "fixed binary64 (1 / 1024)" using fixed64 [of 1 "- 10"] by (simp add: pow2_def)
  from b64.fl_inrange [OF this, of 1 "1 / 1000"] show ?thesis
    by (auto elim!: inrangeE)
qed

lemma fconv_unit: "inrange 0 1 x \<Longrightarrow> inrange 0 1 (fconv binary32 x) \<and> inrange 0 1 (fconv binary64 x)"
  by (elim inrangeE) (simp add: fconv_def b32.fl_inrange b64.fl_inrange)

lemma decayed_range:
  "exp_ok env \<Longrightarrow> 0 \<le> ms \<Longrightarrow> inrange 0 1 t \<Longrightarrow> inrange 0 1 (decayed_temperature env ms t)"
proof -
  assume e: "exp_ok env" and ms: "0 \<le> ms" and t: "inrange 0 1 t"
  obtain c where c: "fl binary64 (1 / 1000) = Fin c" "0 < c" using milli_const by blast
  have neg: "nonpos (fneg (of_sint binary64 ms))"
    using b64.fl_nonpos [of "- of_int ms"] ms
    by (simp add: of_sint_def fl_def Let_def rnd_minus fneg_def nonpos_def overflows_def split: if_splits)
  have "fneg (fneg (of_sint binary64 ms)) = of_sint binary64 ms"
    by (cases "of_sint binary64 ms") (simp_all add: fneg_def)
  with b64.mul_nonpos [OF c(2) neg] have
    "nonpos (fmul binary64 (fneg (fl binary64 (1 / 1000))) (of_sint binary64 ms))"
    by (simp add: c fneg_def)
  then have "inrange 0 1 (expd env (fmul binary64 (fneg (fl binary64 (1 / 1000))) (of_sint binary64 ms)))"
    using e by (simp add: exp_ok_def)
  from b64.mul_inrange [OF _ this, of 1 "fconv binary64 t" 1] show ?thesis
    using fconv_unit t by (simp add: decayed_temperature_def)
qed

subsection \<open>Every step keeps the invariant\<close>

lemma rec_ok_mono: "rec_ok t r \<Longrightarrow> t \<le> t' \<Longrightarrow> rec_ok t' r"
  by (simp add: rec_ok_def)

lemma touch_eq: "touch env ptr now r =
    r\<lparr>rec_count := rec_count r + 1, rec_last := now, rec_numa := numa_of_ptr env ptr, temperature := Fin 1\<rparr>"
  by (simp add: touch_def Let_def duration_cast_def)

lemma rec_ok_touch: "rec_ok t r \<Longrightarrow> rec_ok now (touch env ptr now r)"
  by (simp add: rec_ok_def touch_eq)

lemma rec_ok_new: "rec_ok t (new_record\<lparr>rec_last := t\<rparr>)" "mobility_count new_record = 0"
  by (simp_all add: rec_ok_def new_record_def)

lemma set_update_subset: "set (AList.update k v xs) \<subseteq> insert (k, v) (set xs)"
  by (induction xs) auto

lemma RecordAccess_inv:
  assumes "cool_inv t s" "t \<le> now"
  shows "cool_inv now (RecordAccess env ptr now s)"
proof -
  let ?r = "case map_of (access_records s) ptr of Some r \<Rightarrow> r | None \<Rightarrow> new_record"
  have new: "rec_ok now (touch env ptr now ?r)"
    using assms(1) rec_ok_touch
    by (auto simp: cool_inv_def touch_eq new_record_def rec_ok_def dest!: map_of_SomeD split: option.splits)
  have "rec_ok now (snd x)"
    if "x \<in> set (AList.update ptr (touch env ptr now ?r) (access_records s))" for x
    using subsetD [OF set_update_subset that] new assms
    by (auto simp: cool_inv_def intro: rec_ok_mono)
  with assms show ?thesis
    by (simp add: cool_inv_def RecordAccess_def Let_def distinct_update)
qed

lemma cool_record_ok:
  assumes "exp_ok env" "rec_ok t r" "t \<le> now" "cool_record env d w now r = Some r'"
  shows "rec_ok now r'"
proof -
  let ?dur = "duration_cast nanos_per_second (now - rec_last r)"
  let ?ms = "duration_cast nanos_per_milli (now - rec_last r)"
  have dur: "0 \<le> ?dur" using assms(2,3)
    by (intro duration_cast_nonneg) (simp_all add: rec_ok_def nanos_per_second_def)
  have stab: "inrange 0 (1 / 2) (stability env c ?dur)" for c
    by (rule stability_range [OF assms(1) dur])
  have "0 < ?ms \<Longrightarrow> inrange 0 1 (decayed_temperature env ?ms (temperature r))"
    using assms(2) by (intro decayed_range [OF assms(1)]) (simp_all add: rec_ok_def)
  then show ?thesis
    using assms(2,3,4) stab unfolding cool_record_def Let_def rec_ok_def
    by (simp split: if_splits) (auto split: if_splits)
qed

lemma cool_all_set: "(p, r') \<in> set (cool_all f rs) \<Longrightarrow> \<exists>r. (p, r) \<in> set rs \<and> f r = Some r'"
  by (induction f rs rule: cool_all.induct) (auto split: option.splits)

lemma cool_all_keys: "fst ` set (cool_all f rs) \<subseteq> fst ` set rs"
  by (induction f rs rule: cool_all.induct) (auto split: option.splits)

lemma cool_all_distinct: "distinct (map fst rs) \<Longrightarrow> distinct (map fst (cool_all f rs))"
proof (induction f rs rule: cool_all.induct)
  case (2 f p r rs)
  then have "p \<notin> fst ` set (cool_all f rs)" using cool_all_keys [of f rs] by auto
  with 2 show ?case by (simp split: option.splits)
qed simp

lemma cool_all_map_of:
  "distinct (map fst rs) \<Longrightarrow> map_of (cool_all f rs) p = Option.bind (map_of rs p) f"
proof (induction f rs rule: cool_all.induct)
  case (2 f q r rs)
  then have "map_of rs q = None" by (simp add: map_of_eq_None_iff)
  with 2 show ?case by (auto split: option.splits)
qed simp

lemma cool_pass_inv: "exp_ok env \<Longrightarrow> cool_inv t s \<Longrightarrow> t \<le> now \<Longrightarrow> cool_inv now (cool_pass env now s)"
  by (fastforce simp: cool_inv_def cool_pass_def cool_all_distinct intro: cool_record_ok dest: cool_all_set)

lemma cool_reachable_inv: "cool_reachable env c \<Longrightarrow> exp_ok env \<Longrightarrow> cool_inv (fst c) (snd c)"
proof (induction rule: cool_reachable.induct)
  case (start t)
  show ?case by (simp add: cool_inv_def new_cooling_def)
next
  case (step c d)
  from step.hyps(2) step.IH [OF step.prems] step.prems show ?case
    by cases (auto intro: RecordAccess_inv cool_pass_inv)
qed

lemma cool_inv_map_of: "cool_inv t s \<Longrightarrow> map_of (access_records s) p = Some r \<Longrightarrow> rec_ok t r"
  by (auto simp: cool_inv_def dest: map_of_SomeD)

text \<open>What the readers return in a service with the invariant.\<close>

lemma cool_inv_readers:
  assumes "cool_inv t s"
  shows "inrange 0 (1 / 2) (getStability p s)" "inrange 0 1 (getTemperature p s)" "getMobility p s = 0"
  using cool_inv_map_of [OF assms, of p]
  by (auto simp: getStability_def getTemperature_def getMobility_def rec_ok_def split: option.splits)

subsection \<open>What the dispatcher relies on\<close>

text \<open>
  The dispatcher asks for the mobility and the stability of a pointer. The contract of a source of
  these indicators, for the states it can be in, and the cooling service as one.
\<close>

locale indicator_source =
  fixes valid :: "'s \<Rightarrow> bool"
    and mobility_of :: "u64 \<Rightarrow> 's \<Rightarrow> u32"
    and stability_of :: "u64 \<Rightarrow> 's \<Rightarrow> fval"
  assumes never_migrates: "valid s \<Longrightarrow> mobility_of p s = 0"
    and at_most_half: "valid s \<Longrightarrow> inrange 0 (1 / 2) (stability_of p s)"

definition cooled_somehow :: "cooling_service \<Rightarrow> bool" where
  "cooled_somehow s \<longleftrightarrow> (\<exists>env t. exp_ok env \<and> cool_reachable env (t, s))"

interpretation cooled: indicator_source cooled_somehow getMobility getStability
  by unfold_locales (auto simp: cooled_somehow_def dest!: cool_reachable_inv intro: cool_inv_readers)

subsection \<open>Decay and eviction\<close>

lemma cool_record_idle:
  assumes "duration_cast nanos_per_second (now - rec_last r) > w"
  shows "rec_count r \<le> ucast d \<Longrightarrow> cool_record env d w now r = None"
    and "\<not> rec_count r \<le> ucast d \<Longrightarrow> \<exists>r'. cool_record env d w now r = Some r' \<and>
           rec_count r' = rec_count r - ucast d \<and> rec_last r' = rec_last r"
  using assms by (auto simp: cool_record_def Let_def not_le)

lemma cool_record_fresh:
  "\<not> duration_cast nanos_per_second (now - rec_last r) > w \<Longrightarrow>
     \<exists>r'. cool_record env d w now r = Some r' \<and> rec_count r' = rec_count r \<and> rec_last r' = rec_last r"
  by (auto simp: cool_record_def Let_def)

lemma cool_pass_map_of: "distinct (map fst (access_records s)) \<Longrightarrow>
    map_of (access_records (cool_pass env now s)) p =
      Option.bind (map_of (access_records s) p) (cool_record env (decay_amount s) (access_window s) now)"
  by (simp add: cool_pass_def cool_all_map_of)

lemma cool_pass_config [simp]:
  "running (cool_pass env now s) = running s" "decay_amount (cool_pass env now s) = decay_amount s"
  "access_window (cool_pass env now s) = access_window s"
  by (simp_all add: cool_pass_def)

lemma cool_pass_distinct [simp]:
  "distinct (map fst (access_records s)) \<Longrightarrow> distinct (map fst (access_records (cool_pass env now s)))"
  by (simp add: cool_pass_def cool_all_distinct)

lemma Run_absent: "distinct (map fst (access_records s)) \<Longrightarrow> map_of (access_records s) p = None \<Longrightarrow>
    map_of (access_records (Run env nows s)) p = None"
  by (induction env nows s rule: Run.induct) (simp_all add: cool_pass_map_of)

lemma unat_minus_one: "0 < (w :: u64) \<Longrightarrow> unat (w - 1) = unat w - 1"
  by (rule unat_minus_one) auto

lemma Run_idle:
  "distinct (map fst (access_records s)) \<Longrightarrow> running s \<Longrightarrow> decay_amount s = 1 \<Longrightarrow>
   map_of (access_records s) p = Some r \<Longrightarrow> 0 < rec_count r \<Longrightarrow>
   \<forall>now \<in> set nows. duration_cast nanos_per_second (now - rec_last r) > access_window s \<Longrightarrow>
   (if length nows < unat (rec_count r)
    then \<exists>r'. map_of (access_records (Run env nows s)) p = Some r' \<and>
              unat (rec_count r') = unat (rec_count r) - length nows
    else map_of (access_records (Run env nows s)) p = None)"
proof (induction nows arbitrary: s r)
  case Nil
  then show ?case by (simp add: word_greater_zero_iff unat_gt_0)
next
  case (Cons now nows)
  let ?s = "cool_pass env now s"
  have idle: "duration_cast nanos_per_second (now - rec_last r) > access_window s" using Cons.prems by simp
  note pass = cool_pass_map_of [OF Cons.prems(1), of env now p]
  show ?case
  proof (cases "rec_count r \<le> 1")
    case True
    then have one: "rec_count r = 1"
      using Cons.prems(5) by (simp add: word_le_nat_alt word_less_nat_alt) (metis One_nat_def Suc_leI le_antisym unat_1 word_unat_eq_iff)
    have "map_of (access_records ?s) p = None"
      using cool_record_idle(1) [OF idle, of 1] True Cons.prems by (simp add: pass)
    then show ?thesis using Cons.prems(1,2) one by (simp add: Run_absent)
  next
    case False
    obtain r' where r': "map_of (access_records ?s) p = Some r'"
      "rec_count r' = rec_count r - 1" "rec_last r' = rec_last r"
      using cool_record_idle(2) [OF idle, of 1 env] False Cons.prems by (auto simp: pass)
    have cnt: "unat (rec_count r') = unat (rec_count r) - 1" "1 < unat (rec_count r)"
      using False by (simp_all add: r'(2) unat_minus_one word_less_nat_alt not_le)
    then have pos: "0 < rec_count r'" by (simp add: word_less_nat_alt)
    have "(if length nows < unat (rec_count r')
           then \<exists>r''. map_of (access_records (Run env nows ?s)) p = Some r'' \<and>
                     unat (rec_count r'') = unat (rec_count r') - length nows
           else map_of (access_records (Run env nows ?s)) p = None)"
      using Cons.prems by (intro Cons.IH [OF _ _ _ r'(1) pos]) (simp_all add: r'(3))
    then show ?thesis using cnt Cons.prems(2) by (simp split: if_splits)
  qed
qed

lemma beyond_window: "duration_cast nanos_per_second d > 5 \<longleftrightarrow> 6 * nanos_per_second \<le> d"
  by (auto simp: duration_cast_def nanos_per_second_def)

lemma hot_threshold: "fless (fl binary32 (4 / 5)) (Fin 1)"
proof -
  have "fixed binary32 (7 / 8)" using fixed32 [of 7 "- 3"] by (simp add: pow2_def)
  from b32.fl_inrange [OF _ this, of 0 "4 / 5"] show ?thesis by (auto elim!: inrangeE)
qed

text \<open>A service after one access, for the witnesses, with a step function for \<open>std::exp\<close>.\<close>

definition step_env :: cooling_env where
  "step_env = \<lparr>expf = (\<lambda>x. if x = Fin 0 then Fin 1 else Fin 0),
               expd = (\<lambda>x. if x = Fin 0 then Fin 1 else Fin 0), numa_of_ptr = (\<lambda>_. 0)\<rparr>"

lemma step_env_ok: "exp_ok step_env"
  by (simp add: exp_ok_def step_env_def)

subsection \<open>Properties\<close>

text \<open>
  C18. In every reachable cooling service the stability score read for any pointer is between 0
  and one half, the temperature between 0 and 1, and the mobility is 0, whatever the pattern of
  accesses and passes: the scores the dispatcher compares with 0.8 and the migration counts it
  compares with 5 never get there.
\<close>

theorem indicators_bounded:
  assumes "exp_ok env" and "cool_reachable env (t, s)"
  shows "inrange 0 (1 / 2) (getStability p s) \<and> inrange 0 1 (getTemperature p s) \<and> getMobility p s = 0"
  using cool_inv_readers cool_reachable_inv [OF assms(2,1)] by simp

theorem indicators_bounded_witness:
  "inrange 0 (1 / 2) (getStability 5 (cool_pass step_env 9 (RecordAccess step_env 5 7 new_cooling)))"
proof -
  have "cool_reachable step_env (7, RecordAccess step_env 5 7 new_cooling)"
    by (rule cool_reachable.step [OF cool_reachable.start [of _ 0]]) (simp add: cool_step.access)
  then have "cool_reachable step_env (9, cool_pass step_env 9 (RecordAccess step_env 5 7 new_cooling))"
    by (rule cool_reachable.step) (simp add: cool_step.pass)
  from indicators_bounded [OF step_env_ok this] show ?thesis by simp
qed

text \<open>
  Recording an access always sets the temperature to the maximum 1 and makes the data hot,
  however long ago the previous access was: the interval is taken after the record's time was
  overwritten, so it is always zero and the branch \<open>1 / interval\<close> is never taken.
\<close>

theorem recorded_access_is_hottest:
  "getTemperature p (RecordAccess env p now s) = Fin 1 \<and> isHotData p (RecordAccess env p now s) \<and>
   getNumaId p (RecordAccess env p now s) = numa_of_ptr env p"
  using hot_threshold
  by (simp add: getTemperature_def isHotData_def getNumaId_def RecordAccess_def Let_def touch_eq update_conv')

text \<open>
  C40. Eviction: a record with \<open>n > 0\<close> counted accesses that is not accessed again loses one per
  pass beyond the window; it is still there, with \<open>n - k\<close> accesses, after \<open>k < n\<close> passes, and gone
  after \<open>n\<close> or more.
\<close>

theorem idle_record_is_evicted:
  assumes "distinct (map fst (access_records s))" and "running s" and "decay_amount s = 1"
    and "map_of (access_records s) p = Some r" and "0 < rec_count r"
    and "\<forall>now \<in> set nows. duration_cast nanos_per_second (now - rec_last r) > access_window s"
  shows "if length nows < unat (rec_count r)
    then \<exists>r'. map_of (access_records (Run env nows s)) p = Some r' \<and>
              unat (rec_count r') = unat (rec_count r) - length nows
    else map_of (access_records (Run env nows s)) p = None"
  by (rule Run_idle) (rule assms)+

text \<open>
  The window: with the configured five seconds a pass touches the access count of a record,
  or erases it, only when the last access was at least six seconds ago, because the age is
  truncated to whole seconds before the comparison.
\<close>

theorem window_is_six_seconds:
  assumes "distinct (map fst (access_records s))" and "access_window s = 5"
    and "map_of (access_records s) p = Some r" and "now - rec_last r < 6 * nanos_per_second"
  shows "\<exists>r'. map_of (access_records (cool_pass env now s)) p = Some r' \<and>
    rec_count r' = rec_count r \<and> rec_last r' = rec_last r"
  using cool_record_fresh [of 5 now r] assms by (simp add: cool_pass_map_of beyond_window not_le)

definition accessed :: cooling_service where
  "accessed = RecordAccess step_env 5 0 (new_cooling\<lparr>running := True, worker_joinable := True\<rparr>)"

lemma accessed_record: "map_of (access_records accessed) 5 = Some (touch step_env 5 0 new_record)"
  by (simp add: accessed_def RecordAccess_def new_cooling_def)

lemma accessed_config: "distinct (map fst (access_records accessed))" "running accessed"
  "decay_amount accessed = 1" "access_window accessed = 5"
  by (simp_all add: accessed_def RecordAccess_def new_cooling_def)

theorem idle_record_is_evicted_witness:
  "map_of (access_records (Run step_env [10000000000] accessed)) 5 = None"
  using idle_record_is_evicted [OF accessed_config(1-3) accessed_record, of "[10000000000]" step_env]
  by (simp add: touch_eq new_record_def accessed_config duration_cast_def nanos_per_second_def)

theorem window_is_six_seconds_witness:
  "\<exists>r. map_of (access_records (cool_pass step_env 5999999999 accessed)) 5 = Some r \<and> rec_count r = 1"
  using window_is_six_seconds [OF accessed_config(1,4) accessed_record, of 5999999999 step_env]
  by (auto simp: touch_eq new_record_def nanos_per_second_def)

text \<open>The calls the owner makes, in order.\<close>

datatype cooling_call = CallStart | CallStop

fun cooling_calls :: "cooling_call list \<Rightarrow> cooling_service \<Rightarrow> cooling_service exec" where
  "cooling_calls [] s = Done s"
| "cooling_calls (CallStart # cs) s = exec_bind (Start s) (cooling_calls cs)"
| "cooling_calls (CallStop # cs) s = cooling_calls cs (Stop s)"

lemma cooling_calls_ok: "running s = worker_joinable s \<Longrightarrow>
    \<exists>s'. cooling_calls cs s = Done s' \<and> running s' = worker_joinable s'"
  by (induction cs s rule: cooling_calls.induct) (simp_all add: Start_def Stop_def)

text \<open>
  Any sequence of starts and stops followed by the destructor ends without \<open>std::terminate\<close>:
  the service runs exactly when it has a thread to join, and the destructor leaves no thread.
\<close>

theorem worker_thread_is_always_joined:
  "\<exists>s. exec_bind (cooling_calls cs new_cooling) destroy = Done s \<and> \<not> running s \<and> \<not> worker_joinable s"
proof -
  obtain s where "cooling_calls cs new_cooling = Done s" "running s = worker_joinable s"
    using cooling_calls_ok [of new_cooling cs] by (auto simp: new_cooling_def)
  then show ?thesis by (auto simp: destroy_def Stop_def)
qed

end
