(* ===== verification/NumaAddress.thy ===== *)
theory NumaAddress
  imports Prelude
begin

section \<open>NUMA addresses and their text form\<close>

text \<open>
  \<open>client/launcher/memory/numa_address.h\<close>: a pair of a server number and a NUMA node number, its
  text form \<open>serverId:numaId\<close> and the parser of that form. What the header uses of the C++
  library (\<open>std::to_string\<close>, \<open>std::stoi\<close>, \<open>find\<close>, \<open>substr\<close>) is modelled here too, with the
  two exceptions of \<open>std::stoi\<close>. A default-initialised \<open>NumaAddress\<close> has indeterminate fields,
  so the parser takes them as an argument.
\<close>

record numa_address =
  serverId :: i32
  numaId :: i32

subsection \<open>Decimal text of an integer\<close>

definition digit_char :: "nat \<Rightarrow> char" where
  "digit_char d = char_of (48 + d)"

definition is_digit :: "char \<Rightarrow> bool" where
  "is_digit c \<longleftrightarrow> 48 \<le> (of_char c :: nat) \<and> (of_char c :: nat) \<le> 57"

definition digit_val :: "char \<Rightarrow> nat" where
  "digit_val c = of_char c - 48"

fun digits_of :: "nat \<Rightarrow> string" where
  "digits_of n = (if n < 10 then [digit_char n] else digits_of (n div 10) @ [digit_char (n mod 10)])"

declare digits_of.simps [simp del]

definition to_string :: "i32 \<Rightarrow> string" where
  "to_string w = (let i = sint w in if i < 0 then CHR ''-'' # digits_of (nat (- i)) else digits_of (nat i))"

definition toString :: "numa_address \<Rightarrow> string" where
  "toString a = to_string (serverId a) @ CHR '':'' # to_string (numaId a)"

subsection \<open>Reading an integer\<close>

text \<open>
  \<open>std::stoi\<close> skips white space, takes an optional sign and the digits that follow, and ignores
  the rest. Without a digit it throws \<open>invalid_argument\<close>; for a value outside \<open>int\<close>, \<open>out_of_range\<close>.
\<close>

definition is_space :: "char \<Rightarrow> bool" where
  "is_space c \<longleftrightarrow> c = CHR '' '' \<or> (9 \<le> (of_char c :: nat) \<and> (of_char c :: nat) \<le> 13)"

definition digits_value :: "string \<Rightarrow> nat" where
  "digits_value ds = foldl (\<lambda>v c. 10 * v + digit_val c) 0 ds"

definition stoi :: "string \<Rightarrow> i32 exec" where
  "stoi s =
     (let t = dropWhile is_space s;
          neg = (t \<noteq> [] \<and> hd t = CHR ''-'');
          u = (if t \<noteq> [] \<and> (hd t = CHR ''-'' \<or> hd t = CHR ''+'') then tl t else t);
          ds = takeWhile is_digit u;
          v = (if neg then - int (digits_value ds) else int (digits_value ds))
      in if ds = [] then Throws ''invalid_argument''
         else if v < - (2 ^ 31) \<or> 2 ^ 31 \<le> v then Throws ''out_of_range''
         else Done (word_of_int v))"

definition fromString :: "numa_address \<Rightarrow> string \<Rightarrow> numa_address exec" where
  "fromString junk str =
     (case find_index (\<lambda>c. c = CHR '':'') str of
        None \<Rightarrow> Done junk
      | Some pos \<Rightarrow>
          exec_bind (stoi (take pos str)) (\<lambda>server.
          exec_bind (stoi (drop (pos + 1) str)) (\<lambda>numa.
          Done \<lparr>serverId = server, numaId = numa\<rparr>)))"

subsection \<open>Digits\<close>

lemma of_digit_char: "d < 10 \<Longrightarrow> (of_char (digit_char d) :: nat) = 48 + d"
  by (simp add: digit_char_def)

lemma is_digit_digit_char [simp]: "d < 10 \<Longrightarrow> is_digit (digit_char d)"
  by (simp add: is_digit_def of_digit_char)

lemma digit_val_digit_char [simp]: "d < 10 \<Longrightarrow> digit_val (digit_char d) = d"
  by (simp add: digit_val_def of_digit_char)

lemma digits_of_digits: "c \<in> set (digits_of n) \<Longrightarrow> is_digit c"
proof (induction n rule: digits_of.induct)
  case (1 n)
  then show ?case by (subst (asm) digits_of.simps) (auto split: if_splits)
qed

lemma digits_of_nonempty [simp]: "digits_of n \<noteq> []"
  by (subst digits_of.simps) simp

lemma digits_value_snoc: "digits_value (ds @ [c]) = 10 * digits_value ds + digit_val c"
  by (simp add: digits_value_def)

lemma digits_value_digits_of [simp]: "digits_value (digits_of n) = n"
proof (induction n rule: digits_of.induct)
  case (1 n)
  then show ?case
    by (subst digits_of.simps) (auto simp: digits_value_snoc, simp add: digits_value_def)
qed

lemma digits_of_inj: "digits_of m = digits_of n \<longleftrightarrow> m = n"
  using digits_value_digits_of by metis

lemma takeWhile_digits: "takeWhile is_digit (digits_of n) = digits_of n"
  using digits_of_digits by (auto simp: takeWhile_eq_all_conv)

lemma hd_digits: "is_digit (hd (digits_of n))"
  by (rule digits_of_digits [of _ n]) simp

lemma not_digit [simp]:
  "\<not> is_digit (CHR '':'')" "\<not> is_digit (CHR ''-'')" "\<not> is_digit (CHR ''+'')"
  by (simp_all add: is_digit_def)

lemma digit_not_space: "is_digit c \<Longrightarrow> \<not> is_space c"
  by (auto simp: is_digit_def is_space_def)

lemma minus_not_space [simp]: "\<not> is_space (CHR ''-'')"
  by (simp add: is_space_def)

lemma dropWhile_id: "xs \<noteq> [] \<Longrightarrow> \<not> p (hd xs) \<Longrightarrow> dropWhile p xs = xs"
  by (cases xs) simp_all

lemma sint_range: "- (2 ^ 31) \<le> sint (w :: i32)" "sint (w :: i32) < 2 ^ 31"
  using sint_ge [of w] sint_less [of w] by simp_all

lemma stoi_to_string [simp]: "stoi (to_string w) = Done w"
proof (cases "sint w < 0")
  case True
  then have "to_string w = CHR ''-'' # digits_of (nat (- sint w))" by (simp add: to_string_def)
  then show ?thesis
    using True sint_range [of w] by (simp add: stoi_def takeWhile_digits)
next
  case False
  let ?ds = "digits_of (nat (sint w))"
  have s: "to_string w = ?ds" using False by (simp add: to_string_def)
  have h: "hd ?ds \<noteq> CHR ''-''" "hd ?ds \<noteq> CHR ''+''"
    using hd_digits [of "nat (sint w)"] not_digit by metis+
  have d: "dropWhile is_space ?ds = ?ds"
    using hd_digits by (intro dropWhile_id) (auto dest: digit_not_space)
  show ?thesis
    using False sint_range [of w] h by (simp add: stoi_def s d takeWhile_digits)
qed

lemma to_string_no_colon: "CHR '':'' \<notin> set (to_string w)"
  by (auto simp: to_string_def Let_def dest: digits_of_digits)

text \<open>Splitting at the first colon.\<close>

lemma find_colon: "CHR '':'' \<notin> set x \<Longrightarrow> find_index (\<lambda>c. c = CHR '':'') (x @ CHR '':'' # y) = Some (length x)"
  by (auto simp: find_index_Some nth_append in_set_conv_nth)

lemma fromString_split:
  assumes "CHR '':'' \<notin> set x"
  shows "fromString junk (x @ CHR '':'' # y) =
    exec_bind (stoi x) (\<lambda>s. exec_bind (stoi y) (\<lambda>n. Done \<lparr>serverId = s, numaId = n\<rparr>))"
  by (simp add: fromString_def find_colon [OF assms])

lemma stoi_too_big: "2 ^ 31 \<le> n \<Longrightarrow> stoi (digits_of n) = Throws ''out_of_range''"
proof -
  assume n: "2 ^ 31 \<le> n"
  have h: "hd (digits_of n) \<noteq> CHR ''-''" "hd (digits_of n) \<noteq> CHR ''+''"
    using hd_digits [of n] not_digit by metis+
  have d: "dropWhile is_space (digits_of n) = digits_of n"
    using hd_digits by (intro dropWhile_id) (auto dest: digit_not_space)
  have "int (2 ^ 31) \<le> int n" using n by (simp only: of_nat_le_iff)
  then have big: "2147483648 \<le> int n" by simp
  show ?thesis using h big by (simp add: stoi_def d takeWhile_digits)
qed

subsection \<open>Properties\<close>

text \<open>
  Round trip: parsing the text form of any NUMA address gives that address back, negative
  components included, whatever the parser's uninitialised result held before.
\<close>

theorem fromString_toString: "fromString junk (toString a) = Done a"
  by (simp add: toString_def fromString_split [OF to_string_no_colon])

text \<open>
  A text without a colon is not rejected: the parser returns the fields of a
  default-initialised address, that is, indeterminate values; two runs on the same text may differ.
\<close>

theorem fromString_without_colon_indeterminate:
  assumes "CHR '':'' \<notin> set str" and "junk1 \<noteq> junk2"
  shows "fromString junk1 str = Done junk1 \<and> fromString junk1 str \<noteq> fromString junk2 str"
proof -
  have "find_index (\<lambda>c. c = CHR '':'') str = None" using assms(1) by (auto simp: find_index_None)
  then have eq: "fromString j str = Done j" for j by (simp add: fromString_def)
  show ?thesis using assms(2) by (simp add: eq)
qed

theorem fromString_without_colon_indeterminate_witness:
  "\<exists>j1 j2. fromString j1 ''12'' = Done j1 \<and> fromString j1 ''12'' \<noteq> fromString j2 ''12''"
  using fromString_without_colon_indeterminate
    [of "''12''" "\<lparr>serverId = 0, numaId = 0\<rparr>" "\<lparr>serverId = 1, numaId = 0\<rparr>"]
  by auto

text \<open>
  A number that does not fit an \<open>int\<close> is refused with \<open>out_of_range\<close> in either
  component, and a component without digits with \<open>invalid_argument\<close>; the server number is read
  first, so its error wins.
\<close>

theorem fromString_rejects:
  assumes "2 ^ 31 \<le> n"
  shows "fromString junk (digits_of n @ CHR '':'' # y) = Throws ''out_of_range'' \<and>
    fromString junk (to_string w @ CHR '':'' # digits_of n) = Throws ''out_of_range'' \<and>
    fromString junk (CHR '':'' # y) = Throws ''invalid_argument'' \<and>
    fromString junk (to_string w @ '':'') = Throws ''invalid_argument''"
proof -
  have "CHR '':'' \<notin> set (digits_of n)" using digits_of_digits by force
  moreover have "stoi [] = Throws ''invalid_argument''" by (simp add: stoi_def)
  ultimately show ?thesis
    using fromString_split [of "[]" junk y]
    by (simp add: fromString_split fromString_split [OF to_string_no_colon] stoi_too_big [OF assms])
qed

theorem fromString_rejects_witness:
  "fromString \<lparr>serverId = 0, numaId = 0\<rparr> (digits_of 5000000000 @ CHR '':'' # ''1'') = Throws ''out_of_range''"
  using fromString_rejects [of 5000000000 "\<lparr>serverId = 0, numaId = 0\<rparr>" "''1''" 0] by simp

end
