(* ===== verification/GlobalMemory.thy ===== *)
theory GlobalMemory
  imports NumaAddress "HOL-Library.AList"
begin

section \<open>The table of remote allocations\<close>

text \<open>
  \<open>client/launcher/memory/global_memory.h\<close> and \<open>.cpp\<close>: the map from local pointers to remote
  allocations, its snapshot, and the contract of such a table (\<open>alloc_table\<close>) on which the
  launcher's RPC service relies. \<open>std::unordered_map\<close> is an association list with distinct keys:
  its order stands for the unspecified iteration order, so no property speaks of it. The clock
  reading of \<open>steady_clock::now()\<close> is a field of the state that the environment sets. The last
  part models the counter update of \<open>GetMapping\<close> under the shared lock at the level of loads and
  stores.
\<close>

text \<open>\<open>RemoteAllocInfo\<close> as \<open>dispatcher.h\<close> declares it, and as \<open>global_memory.h\<close> extends it.\<close>

record remote_alloc =
  node_id :: string
  alloc_size :: u64
  remote_handle :: u64

record alloc_info = remote_alloc +
  access_count :: u32
  last_access :: nat

record global_memory =
  ptr_table :: "(u64 \<times> alloc_info) list"
  steady_now :: nat

subsection \<open>Operations\<close>

definition AddMapping :: "u64 \<Rightarrow> alloc_info \<Rightarrow> global_memory \<Rightarrow> global_memory" where
  "AddMapping dptr info s =
     s\<lparr>ptr_table := AList.update dptr (info\<lparr>access_count := 0, last_access := steady_now s\<rparr>) (ptr_table s)\<rparr>"

definition GetMapping :: "u64 \<Rightarrow> global_memory \<Rightarrow> alloc_info option \<times> global_memory" where
  "GetMapping dptr s =
     (case map_of (ptr_table s) dptr of
        None \<Rightarrow> (None, s)
      | Some it \<Rightarrow>
          (let it' = it\<lparr>access_count := access_count it + 1, last_access := steady_now s\<rparr>
           in (Some it', s\<lparr>ptr_table := AList.update dptr it' (ptr_table s)\<rparr>)))"

definition RemoveMapping :: "u64 \<Rightarrow> global_memory \<Rightarrow> global_memory" where
  "RemoveMapping dptr s = s\<lparr>ptr_table := AList.delete dptr (ptr_table s)\<rparr>"

definition GetAllPointers :: "global_memory \<Rightarrow> u64 list" where
  "GetAllPointers s = map fst (ptr_table s)"

text \<open>
  The snapshot: a JSON value that is \<open>null\<close> until the first member is assigned. Objects are maps
  from member names; writing the text (\<open>dump(4)\<close>) is the library's and a parameter.
\<close>

datatype json = JNull | JStr string | JNum nat | JObj "string \<Rightarrow> json option"

definition set_member :: "string \<Rightarrow> json \<Rightarrow> json \<Rightarrow> json" where
  "set_member k v j = (case j of JObj m \<Rightarrow> JObj (m(k \<mapsto> v)) | _ \<Rightarrow> JObj [k \<mapsto> v])"

definition entry_json :: "alloc_info \<Rightarrow> json" where
  "entry_json i = JObj [''node_id'' \<mapsto> JStr (node_id i), ''size'' \<mapsto> JNum (unat (alloc_size i)),
                        ''remote_handle'' \<mapsto> JNum (unat (remote_handle i))]"

definition snapshot :: "global_memory \<Rightarrow> json" where
  "snapshot s = fold (\<lambda>(p, i) j. set_member (digits_of (unat p)) (entry_json i) j) (ptr_table s) JNull"

definition SaveSnapshot :: "(json \<Rightarrow> string) \<Rightarrow> bool \<Rightarrow> global_memory \<Rightarrow> string option" where
  "SaveSnapshot dump file_is_open s = (if file_is_open then Some (dump (snapshot s)) else None)"

subsection \<open>The table's invariant and its view as a map\<close>

definition gm_inv :: "global_memory \<Rightarrow> bool" where
  "gm_inv s \<longleftrightarrow> distinct (map fst (ptr_table s))"

definition gm_view :: "global_memory \<Rightarrow> u64 \<Rightarrow> alloc_info option" where
  "gm_view s = map_of (ptr_table s)"

lemma AddMapping_inv [simp]: "gm_inv s \<Longrightarrow> gm_inv (AddMapping p i s)"
  by (simp add: gm_inv_def AddMapping_def distinct_update)

lemma GetMapping_inv [simp]: "gm_inv s \<Longrightarrow> gm_inv (snd (GetMapping p s))"
  by (auto simp: gm_inv_def GetMapping_def Let_def distinct_update split: option.splits)

lemma RemoveMapping_inv [simp]: "gm_inv s \<Longrightarrow> gm_inv (RemoveMapping p s)"
  by (simp add: gm_inv_def RemoveMapping_def distinct_delete)

lemma AddMapping_view: "gm_view (AddMapping p i s) =
    (gm_view s)(p \<mapsto> i\<lparr>access_count := 0, last_access := steady_now s\<rparr>)"
  by (simp add: gm_view_def AddMapping_def update_conv')

lemma RemoveMapping_view: "gm_view (RemoveMapping p s) = (gm_view s)(p := None)"
  by (simp add: gm_view_def RemoveMapping_def delete_conv')

lemma GetMapping_view: "gm_view (snd (GetMapping p s)) =
    (case gm_view s p of None \<Rightarrow> gm_view s
     | Some i \<Rightarrow> (gm_view s)(p \<mapsto> i\<lparr>access_count := access_count i + 1, last_access := steady_now s\<rparr>))"
  by (auto simp: gm_view_def GetMapping_def Let_def update_conv' split: option.splits)

lemma GetMapping_result: "fst (GetMapping p s) =
    map_option (\<lambda>i. i\<lparr>access_count := access_count i + 1, last_access := steady_now s\<rparr>) (gm_view s p)"
  by (auto simp: gm_view_def GetMapping_def Let_def split: option.splits)

lemma GetAllPointers_set: "set (GetAllPointers s) = dom (gm_view s)"
  by (simp add: GetAllPointers_def gm_view_def dom_map_of_conv_image_fst)

subsection \<open>The contract of an allocation table\<close>

text \<open>
  What a client of such a table relies on: a lookup after an insertion or a removal, and that a
  lookup changes no answer. \<open>get\<close> may change the table (it counts accesses).
\<close>

locale alloc_table =
  fixes add :: "u64 \<Rightarrow> remote_alloc \<Rightarrow> 't \<Rightarrow> 't"
    and get :: "u64 \<Rightarrow> 't \<Rightarrow> remote_alloc option \<times> 't"
    and rem :: "u64 \<Rightarrow> 't \<Rightarrow> 't"
  assumes get_add: "fst (get k (add p a t)) = (if k = p then Some a else fst (get k t))"
    and get_rem: "fst (get k (rem p t)) = (if k = p then None else fst (get k t))"
    and get_get: "fst (get k (snd (get p t))) = fst (get k t)"
begin

lemma get_after_add: "fst (get p (add p a t)) = Some a"
  by (simp add: get_add)

lemma get_after_rem: "fst (get p (rem p t)) = None"
  by (simp add: get_rem)

lemma add_overwrites: "fst (get k (add p a (add p b t))) = fst (get k (add p a t))"
  by (simp add: get_add)

lemma add_commutes: "p \<noteq> q \<Longrightarrow> fst (get k (add p a (add q b t))) = fst (get k (add q b (add p a t)))"
  by (simp add: get_add)

lemma rem_add: "fst (get k (rem p (add p a t))) = fst (get k (rem p t))"
  by (simp add: get_add get_rem)

end

text \<open>\<open>GlobalMemoryService\<close> is such a table, seen through the fields both declarations share.\<close>

definition to_remote :: "alloc_info \<Rightarrow> remote_alloc" where
  "to_remote i = \<lparr>node_id = node_id i, alloc_size = alloc_size i, remote_handle = remote_handle i\<rparr>"

definition of_remote :: "remote_alloc \<Rightarrow> alloc_info" where
  "of_remote a = \<lparr>node_id = node_id a, alloc_size = alloc_size a, remote_handle = remote_handle a,
                  access_count = 0, last_access = 0\<rparr>"

definition gm_add :: "u64 \<Rightarrow> remote_alloc \<Rightarrow> global_memory \<Rightarrow> global_memory" where
  "gm_add p a = AddMapping p (of_remote a)"

definition gm_get :: "u64 \<Rightarrow> global_memory \<Rightarrow> remote_alloc option \<times> global_memory" where
  "gm_get p s = (case GetMapping p s of (r, s') \<Rightarrow> (map_option to_remote r, s'))"

lemma gm_get_result: "fst (gm_get p s) = map_option to_remote (gm_view s p)"
  by (cases "gm_view s p")
    (auto simp: gm_get_def case_prod_beta GetMapping_result to_remote_def)

lemma gm_get_state: "snd (gm_get p s) = snd (GetMapping p s)"
  by (simp add: gm_get_def case_prod_beta)

interpretation gm: alloc_table gm_add gm_get RemoveMapping
proof unfold_locales
  show "fst (gm_get k (gm_add p a t)) = (if k = p then Some a else fst (gm_get k t))" for k p a t
    by (simp add: gm_get_result gm_add_def AddMapping_view to_remote_def of_remote_def)
  show "fst (gm_get k (RemoveMapping p t)) = (if k = p then None else fst (gm_get k t))" for k p t
    by (simp add: gm_get_result RemoveMapping_view)
  show "fst (gm_get k (snd (gm_get p t))) = fst (gm_get k t)" for k p t
    by (auto simp: gm_get_result gm_get_state GetMapping_view to_remote_def split: option.splits)
qed

subsection \<open>Runs of the table and what they compute\<close>

text \<open>
  An operation of the table, or a tick that sets the clock. The caller's \<open>RemoteAllocInfo\<close> may have
  anything in its counter and its time.
\<close>

datatype table_op = OpAdd u64 alloc_info | OpGet u64 | OpRemove u64 | OpTime nat

fun table_step :: "table_op \<Rightarrow> global_memory \<Rightarrow> global_memory" where
  "table_step (OpAdd p a) s = AddMapping p a s"
| "table_step (OpGet p) s = snd (GetMapping p s)"
| "table_step (OpRemove p) s = RemoveMapping p s"
| "table_step (OpTime now) s = s\<lparr>steady_now := now\<rparr>"

text \<open>
  The specification: the time, and a map to the allocation, the number of lookups since it was added
  and the time of the last of these operations.
\<close>

type_synonym table_spec = "nat \<times> (u64 \<Rightarrow> (remote_alloc \<times> nat \<times> nat) option)"

fun spec_step :: "table_op \<Rightarrow> table_spec \<Rightarrow> table_spec" where
  "spec_step (OpAdd p a) (now, m) = (now, m(p \<mapsto> (to_remote a, 0, now)))"
| "spec_step (OpGet p) (now, m) = (now, m(p := map_option (\<lambda>(a, n, _). (a, Suc n, now)) (m p)))"
| "spec_step (OpRemove p) (now, m) = (now, m(p := None))"
| "spec_step (OpTime now') (now, m) = (now', m)"

definition entry_abs :: "alloc_info \<Rightarrow> remote_alloc \<times> u32 \<times> nat" where
  "entry_abs i = (to_remote i, access_count i, last_access i)"

definition table_abs :: "global_memory \<Rightarrow> nat \<times> (u64 \<Rightarrow> (remote_alloc \<times> u32 \<times> nat) option)" where
  "table_abs s = (steady_now s, \<lambda>p. map_option entry_abs (gm_view s p))"

definition spec_abs :: "table_spec \<Rightarrow> nat \<times> (u64 \<Rightarrow> (remote_alloc \<times> u32 \<times> nat) option)" where
  "spec_abs = (\<lambda>(now, m). (now, \<lambda>p. map_option (\<lambda>(a, n, time). (a, of_nat n, time)) (m p)))"

lemma operations_keep_time [simp]:
  "steady_now (AddMapping p a s) = steady_now s" "steady_now (snd (GetMapping p s)) = steady_now s"
  "steady_now (RemoveMapping p s) = steady_now s"
  by (auto simp: AddMapping_def GetMapping_def RemoveMapping_def Let_def split: option.split)

lemma table_step_simulates:
  assumes "table_abs s = spec_abs m"
  shows "table_abs (table_step x s) = spec_abs (spec_step x m)"
proof -
  obtain now mm where m: "m = (now, mm)" by (cases m)
  have now: "steady_now s = now" using assms by (simp add: table_abs_def spec_abs_def m)
  have eq: "map_option entry_abs (gm_view s q) = map_option (\<lambda>(a, n, time). (a, of_nat n, time)) (mm q)" for q
    using assms by (simp add: table_abs_def spec_abs_def m fun_eq_iff)
  show ?thesis
  proof (cases x)
    case (OpAdd p a)
    then show ?thesis
      by (simp add: table_abs_def spec_abs_def m now AddMapping_view fun_eq_iff eq) (simp add: entry_abs_def to_remote_def)
  next
    case (OpGet p)
    then show ?thesis using eq [of p]
      by (cases "gm_view s p"; cases "mm p")
        (auto simp: table_abs_def spec_abs_def m now GetMapping_view fun_eq_iff eq entry_abs_def to_remote_def)
  next
    case (OpRemove p)
    then show ?thesis by (simp add: table_abs_def spec_abs_def m now RemoveMapping_view fun_eq_iff eq)
  next
    case (OpTime t)
    then show ?thesis using eq by (simp add: table_abs_def spec_abs_def m gm_view_def)
  qed
qed

lemma table_run_simulates:
  "table_abs s = spec_abs m \<Longrightarrow> table_abs (fold table_step ops s) = spec_abs (fold spec_step ops m)"
  by (induction ops arbitrary: s m) (simp_all add: table_step_simulates)

lemma abs_same_domain: "table_abs s = spec_abs m \<Longrightarrow> gm_view s p = None \<longleftrightarrow> snd m p = None"
  by (cases m; cases "gm_view s p"; cases "snd m p")
    (auto simp: table_abs_def spec_abs_def fun_eq_iff dest!: spec [of _ p])

lemma lookup_simulates:
  assumes "table_abs s = spec_abs m"
  shows "map_option entry_abs (fst (GetMapping p s)) = map_option (\<lambda>(a, n, _). (a, of_nat (Suc n), fst m)) (snd m p)"
proof -
  obtain now mm where m: "m = (now, mm)" by (cases m)
  have now: "steady_now s = now" using assms by (simp add: table_abs_def spec_abs_def m)
  have "map_option entry_abs (gm_view s p) = map_option (\<lambda>(a, n, time). (a, of_nat n, time)) (mm p)"
    using assms by (simp add: table_abs_def spec_abs_def m fun_eq_iff)
  then show ?thesis
    by (cases "gm_view s p"; cases "mm p") (auto simp: GetMapping_result m now entry_abs_def to_remote_def)
qed

definition empty_memory :: "nat \<Rightarrow> global_memory" where
  "empty_memory now = \<lparr>ptr_table = [], steady_now = now\<rparr>"

lemma empty_memory_abs: "table_abs (empty_memory now) = spec_abs (now, Map.empty)"
  by (simp add: table_abs_def spec_abs_def empty_memory_def gm_view_def)

lemma table_step_inv: "gm_inv s \<Longrightarrow> gm_inv (table_step x s)"
proof (cases x)
  case (OpTime t)
  then show "gm_inv s \<Longrightarrow> gm_inv (table_step x s)" by (simp add: gm_inv_def)
qed simp_all

lemma table_run_inv: "gm_inv s \<Longrightarrow> gm_inv (fold table_step ops s)"
  by (induction ops arbitrary: s) (simp_all add: table_step_inv)

subsection \<open>The members of a snapshot\<close>

definition members :: "json \<Rightarrow> string \<Rightarrow> json option" where
  "members j = (case j of JObj m \<Rightarrow> m | _ \<Rightarrow> Map.empty)"

lemma members_set_member [simp]: "members (set_member k v j) = (members j)(k \<mapsto> v)"
  by (cases j) (simp_all add: members_def set_member_def)

lemma fold_members:
  "distinct (map fst xs) \<Longrightarrow>
   members (fold (\<lambda>(p, i) j. set_member (digits_of (unat p)) (entry_json i) j) xs j) (digits_of (unat q)) =
     (case map_of xs q of Some i \<Rightarrow> Some (entry_json i) | None \<Rightarrow> members j (digits_of (unat q)))"
proof (induction xs arbitrary: j)
  case Nil
  then show ?case by simp
next
  case (Cons x xs)
  obtain p i where x: "x = (p, i)" by force
  have d: "distinct (map fst xs)" and p: "map_of xs p = None"
    using Cons.prems by (auto simp: x map_of_eq_None_iff)
  show ?case using Cons.IH [OF d, of "set_member (digits_of (unat p)) (entry_json i) j"] p
    by (auto simp: x digits_of_inj split: option.splits simp flip: word_unat_eq_iff)
qed

lemma fold_members_keys:
  "members (fold (\<lambda>(p, i) j. set_member (digits_of (unat p)) (entry_json i) j) xs j) k \<noteq> None \<Longrightarrow>
     members j k \<noteq> None \<or> (\<exists>p \<in> fst ` set xs. k = digits_of (unat p))"
proof (induction xs arbitrary: j)
  case (Cons x xs)
  then show ?case by (cases x) (force split: if_splits)
qed simp

subsection \<open>The access counter under the shared lock\<close>

text \<open>
  \<open>GetMapping\<close> holds \<open>table_mutex\<close> in shared mode and increments the counter with a plain load and
  a plain store; \<open>AddMapping\<close> and \<open>RemoveMapping\<close> hold it exclusively. Threads are numbered; \<open>gets\<close>
  counts the completed lookups of the one entry looked at, \<open>shared_count\<close> is its counter.
\<close>

datatype thread_pc = Outside | SharedIn | LoadedCount u32 | ExclusiveIn

record table_lock =
  pcs :: "nat \<Rightarrow> thread_pc"
  shared_count :: u32
  gets :: nat

definition lock_start :: table_lock where
  "lock_start = \<lparr>pcs = (\<lambda>_. Outside), shared_count = 0, gets = 0\<rparr>"

inductive lock_step :: "table_lock \<Rightarrow> table_lock \<Rightarrow> bool" where
  shared_enter: "pcs s i = Outside \<Longrightarrow> \<forall>j. pcs s j \<noteq> ExclusiveIn \<Longrightarrow>
     lock_step s (s\<lparr>pcs := (pcs s)(i := SharedIn)\<rparr>)"
| load: "pcs s i = SharedIn \<Longrightarrow>
     lock_step s (s\<lparr>pcs := (pcs s)(i := LoadedCount (shared_count s))\<rparr>)"
| store: "pcs s i = LoadedCount c \<Longrightarrow>
     lock_step s (s\<lparr>pcs := (pcs s)(i := Outside), shared_count := c + 1, gets := Suc (gets s)\<rparr>)"
| exclusive_enter: "pcs s i = Outside \<Longrightarrow> \<forall>j. pcs s j = Outside \<Longrightarrow>
     lock_step s (s\<lparr>pcs := (pcs s)(i := ExclusiveIn)\<rparr>)"
| exclusive_leave: "pcs s i = ExclusiveIn \<Longrightarrow>
     lock_step s (s\<lparr>pcs := (pcs s)(i := Outside)\<rparr>)"

inductive lock_reachable :: "table_lock \<Rightarrow> bool" where
  start: "lock_reachable lock_start"
| step: "lock_reachable s \<Longrightarrow> lock_step s t \<Longrightarrow> lock_reachable t"

inductive_cases lock_stepE: "lock_step s t"

definition lock_inv :: "table_lock \<Rightarrow> bool" where
  "lock_inv s \<longleftrightarrow>
     (\<forall>i. pcs s i = ExclusiveIn \<longrightarrow> (\<forall>j. j \<noteq> i \<longrightarrow> pcs s j = Outside)) \<and>
     unat (shared_count s) \<le> gets s \<and>
     (\<forall>i c. pcs s i = LoadedCount c \<longrightarrow> unat c \<le> gets s)"

lemma unat_plus_one_le: "unat (c + 1 :: u32) \<le> Suc (unat c)"
  by (simp add: unat_word_ariths)

lemma lock_step_inv: "lock_step s t \<Longrightarrow> lock_inv s \<Longrightarrow> lock_inv t"
proof (induction rule: lock_step.induct)
  case (store s i c)
  then have "unat c \<le> gets s" by (auto simp: lock_inv_def)
  then have "unat (c + 1) \<le> Suc (gets s)" using unat_plus_one_le [of c] by linarith
  with store show ?case by (auto simp: lock_inv_def le_Suc_eq)
qed (auto simp: lock_inv_def split: if_splits)

lemma lock_reachable_inv: "lock_reachable s \<Longrightarrow> lock_inv s"
proof (induction rule: lock_reachable.induct)
  case start
  show ?case by (simp add: lock_inv_def lock_start_def)
next
  case (step s t)
  then show ?case by (blast intro: lock_step_inv)
qed

subsection \<open>Properties\<close>

text \<open>
  C6. Refinement: after any sequence of \<open>AddMapping\<close>, \<open>GetMapping\<close> and \<open>RemoveMapping\<close> on an empty
  service, whatever the clock shows and whatever counter and time the added records bring along,
  every pointer maps to the allocation last added under it and not removed since, its counter is
  the number of lookups since that addition, modulo \<open>2^32\<close>, and its time that of the last of them;
  and the next lookup answers with that allocation, counted once more, at the present time.
\<close>

theorem table_refines_map:
  "table_abs (fold table_step ops (empty_memory now)) = spec_abs (fold spec_step ops (now, Map.empty)) \<and>
   map_option entry_abs (fst (GetMapping p (fold table_step ops (empty_memory now)))) =
     (case fold spec_step ops (now, Map.empty) of
        (time, m) \<Rightarrow> map_option (\<lambda>(a, n, _). (a, of_nat (Suc n), time)) (m p))"
proof -
  note run = table_run_simulates [OF empty_memory_abs [of now], of ops]
  show ?thesis using lookup_simulates [OF run, of p] run by (simp add: case_prod_beta)
qed

text \<open>
  In every reachable service the listing of all pointers names each mapped pointer exactly
  once and nothing else: the keys stay distinct under all operations.
\<close>

theorem all_pointers_are_the_domain:
  "distinct (GetAllPointers (fold table_step ops (empty_memory now))) \<and>
   set (GetAllPointers (fold table_step ops (empty_memory now))) =
     {p. snd (fold spec_step ops (now, Map.empty)) p \<noteq> None}"
proof -
  let ?s = "fold table_step ops (empty_memory now)"
  have "gm_inv ?s" by (rule table_run_inv) (simp add: gm_inv_def empty_memory_def)
  then have distinct: "distinct (GetAllPointers ?s)" by (simp add: gm_inv_def GetAllPointers_def)
  have "gm_view ?s p = None \<longleftrightarrow> snd (fold spec_step ops (now, Map.empty)) p = None" for p
    by (rule abs_same_domain) (rule table_run_simulates [OF empty_memory_abs])
  then have "set (GetAllPointers ?s) = {p. snd (fold spec_step ops (now, Map.empty)) p \<noteq> None}"
    by (simp only: GetAllPointers_set dom_def)
  with distinct show ?thesis by blast
qed

text \<open>
  A snapshot of a reachable service holds, under the decimal text of each mapped pointer, that
  allocation's node, size and handle, and no other member; of an empty service it is the JSON
  value \<open>null\<close>, not an empty object; nothing is written when the file does not open.
\<close>

theorem snapshot_is_faithful:
  assumes "gm_inv s"
  shows "members (snapshot s) (digits_of (unat p)) = map_option entry_json (gm_view s p) \<and>
    (k \<notin> digits_of ` unat ` set (GetAllPointers s) \<longrightarrow> members (snapshot s) k = None) \<and>
    (ptr_table s = [] \<longrightarrow> snapshot s = JNull) \<and>
    SaveSnapshot dump False s = None"
proof -
  have "members (snapshot s) (digits_of (unat p)) = map_option entry_json (gm_view s p)"
    using fold_members [of "ptr_table s" JNull p] assms
    by (auto simp: snapshot_def gm_inv_def gm_view_def members_def split: option.splits)
  moreover have "k \<notin> digits_of ` unat ` set (GetAllPointers s) \<longrightarrow> members (snapshot s) k = None"
  proof (rule impI, rule ccontr)
    assume k: "k \<notin> digits_of ` unat ` set (GetAllPointers s)" and "members (snapshot s) k \<noteq> None"
    then have "\<exists>p \<in> fst ` set (ptr_table s). k = digits_of (unat p)"
      using fold_members_keys [of "ptr_table s" JNull k] by (simp add: snapshot_def) (simp add: members_def)
    then show False using k by (auto simp: GetAllPointers_def)
  qed
  ultimately show ?thesis by (simp add: snapshot_def SaveSnapshot_def)
qed

theorem snapshot_is_faithful_witness:
  "members (snapshot (gm_add 7 \<lparr>node_id = ''n'', alloc_size = 16, remote_handle = 9\<rparr> (empty_memory 0)))
     (digits_of 7) = Some (JObj [''node_id'' \<mapsto> JStr ''n'', ''size'' \<mapsto> JNum 16, ''remote_handle'' \<mapsto> JNum 9])"
proof -
  let ?s = "gm_add 7 \<lparr>node_id = ''n'', alloc_size = 16, remote_handle = 9\<rparr> (empty_memory 0)"
  have "gm_inv ?s" by (simp add: gm_inv_def gm_add_def AddMapping_def empty_memory_def)
  from snapshot_is_faithful [OF this, of 7] show ?thesis
    by (simp add: gm_view_def gm_add_def AddMapping_def empty_memory_def entry_json_def of_remote_def)
qed

text \<open>
  Exclusion: in every interleaving, while a thread runs \<open>AddMapping\<close> or \<open>RemoveMapping\<close> no
  other thread is inside the table, and the access counter never exceeds the number of completed
  lookups.
\<close>

theorem exclusive_section_is_alone:
  assumes "lock_reachable s" and "pcs s i = ExclusiveIn" and "j \<noteq> i"
  shows "pcs s j = Outside \<and> unat (shared_count s) \<le> gets s"
  using lock_reachable_inv [OF assms(1)] assms(2,3) by (auto simp: lock_inv_def)

lemma lock_reachable_exclusive:
  "lock_reachable (lock_start\<lparr>pcs := (pcs lock_start)(1 := ExclusiveIn)\<rparr>)"
  by (rule lock_reachable.step [OF lock_reachable.start])
    (rule lock_step.exclusive_enter, simp_all add: lock_start_def)

theorem exclusive_section_is_alone_witness:
  "\<exists>s. lock_reachable s \<and> pcs s 1 = ExclusiveIn \<and> pcs s 0 = Outside"
proof -
  let ?s = "lock_start\<lparr>pcs := (pcs lock_start)(1 := ExclusiveIn)\<rparr>"
  have "pcs ?s 0 = Outside"
    using exclusive_section_is_alone [OF lock_reachable_exclusive, of 1 0] by simp
  then show ?thesis using lock_reachable_exclusive by (intro exI [of _ ?s]) simp
qed

text \<open>
  Lost update: because \<open>GetMapping\<close> increments the counter under the shared lock, two
  concurrent lookups can leave it at one; the counter is then smaller than the number of
  completed lookups.
\<close>

theorem shared_lock_loses_an_access:
  "\<exists>s. lock_reachable s \<and> gets s = 2 \<and> shared_count s = 1"
proof -
  let ?p0 = "\<lambda>_::nat. Outside"
  let ?a = "lock_start\<lparr>pcs := ?p0(0 := SharedIn)\<rparr>"
  let ?b = "?a\<lparr>pcs := (?p0(0 := SharedIn))(1 := SharedIn)\<rparr>"
  let ?c = "?b\<lparr>pcs := (?p0(0 := SharedIn, 1 := SharedIn))(0 := LoadedCount 0)\<rparr>"
  let ?d = "?c\<lparr>pcs := (?p0(0 := LoadedCount 0, 1 := SharedIn))(1 := LoadedCount 0)\<rparr>"
  let ?e = "?d\<lparr>pcs := (?p0(0 := LoadedCount 0, 1 := LoadedCount 0))(0 := Outside),
                shared_count := 1, gets := 1\<rparr>"
  let ?f = "?e\<lparr>pcs := (?p0(0 := Outside, 1 := LoadedCount 0))(1 := Outside),
                shared_count := 1, gets := 2\<rparr>"
  have a: "lock_reachable ?a"
    using lock_reachable.step [OF lock_reachable.start lock_step.shared_enter [of lock_start 0]]
    by (simp add: lock_start_def)
  have b: "lock_reachable ?b"
    using lock_reachable.step [OF a lock_step.shared_enter [of ?a 1]] by (simp add: lock_start_def)
  have c: "lock_reachable ?c"
    using lock_reachable.step [OF b lock_step.load [of ?b 0]] by (simp add: lock_start_def fun_upd_twist)
  have d: "lock_reachable ?d"
    using lock_reachable.step [OF c lock_step.load [of ?c 1]] by (simp add: lock_start_def fun_upd_twist)
  have e: "lock_reachable ?e"
    using lock_reachable.step [OF d lock_step.store [of ?d 0 0]] by (simp add: lock_start_def fun_upd_twist)
  have f: "lock_reachable ?f"
    using lock_reachable.step [OF e lock_step.store [of ?e 1 0]]
    by (simp add: lock_start_def fun_upd_twist numeral_2_eq_2)
  show ?thesis using f by (intro exI [of _ ?f]) simp
qed

end
