(* ===== verification/HookClient.thy ===== *)
theory HookClient
  imports Prelude
begin

section \<open>The hook's RPC client\<close>

text \<open>
  \<open>client/hook/launcher_client.h\<close> and \<open>.cpp\<close>: one method per RPC of the launcher. The Cap'n Proto
  runtime and the server behind it are parameters (\<open>rpc_env\<close>): creating the connection and asking
  for the main capability may throw, and the server's answer to a request may be an exception.
  Calling without a connection dereferences a null pointer. A response owns the message its
  readers point into and is a local variable of the method, so a reader that a method returns
  outlives its message: \<open>owner_alive\<close> records that.
\<close>

record launch_request =
  lr_func :: string
  lr_grid :: "u32 \<times> u32 \<times> u32"
  lr_block :: "u32 \<times> u32 \<times> u32"
  lr_shared :: u32
  lr_params :: "u8 list"

datatype request =
    AllocationPlanRequest u64 | FreePlanRequest u64
  | PlanHtoDRequest u64 u64 | PlanDtoHRequest u64 u64
  | LaunchRequest launch_request | LocationRequest u64 | PrefetchRequest u64

text \<open>What the client reads of a response: the message its readers point to, and the code of its ack.\<close>

record 'm response =
  content :: 'm
  code :: u16

record 'm rpc_env =
  new_client :: "string \<Rightarrow> unit exec"
  get_main :: "string \<Rightarrow> unit exec"
  server :: "string \<Rightarrow> request \<Rightarrow> 'm response exec"

record rpc_client =
  m_address :: string
  m_rpcClient :: "string option"
  m_client :: "string option"

record 'm reader =
  owner_alive :: bool
  message :: 'm

definition read_reader :: "'m reader \<Rightarrow> 'm exec" where
  "read_reader r = (if owner_alive r then Done (message r) else UB DanglingPointer)"

subsection \<open>Connecting\<close>

definition LauncherClient :: "string \<Rightarrow> rpc_client" where
  "LauncherClient address = \<lparr>m_address = address, m_rpcClient = None, m_client = None\<rparr>"

definition connect :: "'m rpc_env \<Rightarrow> rpc_client \<Rightarrow> (bool \<times> rpc_client) exec" where
  "connect env c =
     (case new_client env (m_address c) of
        Throws e \<Rightarrow> Done (False, c)
      | UB u \<Rightarrow> UB u
      | Done _ \<Rightarrow>
          (let c1 = c\<lparr>m_rpcClient := Some (m_address c)\<rparr> in
           case get_main env (m_address c) of
             Throws e \<Rightarrow> Done (False, c1)
           | UB u \<Rightarrow> UB u
           | Done _ \<Rightarrow> Done (True, c1\<lparr>m_client := Some (m_address c)\<rparr>)))"

text \<open>
  \<open>request.send().wait(m_rpcClient->getWaitScope())\<close>. A null capability answers every call with an
  exception.
\<close>

definition send_wait :: "'m rpc_env \<Rightarrow> rpc_client \<Rightarrow> request \<Rightarrow> 'm response exec" where
  "send_wait env c req =
     (case m_rpcClient c of
        None \<Rightarrow> UB NullDeref
      | Some _ \<Rightarrow>
          (case m_client c of
             None \<Rightarrow> Throws ''kj::Exception''
           | Some target \<Rightarrow> server env target req))"

definition reader_of :: "'m response \<Rightarrow> 'm reader exec" where
  "reader_of response = Done \<lparr>owner_alive = False, message = content response\<rparr>"

subsection \<open>The methods\<close>

definition requestAllocationPlan :: "'m rpc_env \<Rightarrow> rpc_client \<Rightarrow> u64 \<Rightarrow> 'm reader exec" where
  "requestAllocationPlan env c len = exec_bind (send_wait env c (AllocationPlanRequest len)) reader_of"

definition requestFreePlan :: "'m rpc_env \<Rightarrow> rpc_client \<Rightarrow> u64 \<Rightarrow> u16 exec" where
  "requestFreePlan env c fakePtr =
     exec_bind (send_wait env c (FreePlanRequest fakePtr)) (\<lambda>response. Done (code response))"

definition planMemcpyHtoD :: "'m rpc_env \<Rightarrow> rpc_client \<Rightarrow> u64 \<Rightarrow> u64 \<Rightarrow> 'm reader exec" where
  "planMemcpyHtoD env c dstFakePtr len = exec_bind (send_wait env c (PlanHtoDRequest dstFakePtr len)) reader_of"

definition planMemcpyDtoH :: "'m rpc_env \<Rightarrow> rpc_client \<Rightarrow> u64 \<Rightarrow> u64 \<Rightarrow> 'm reader exec" where
  "planMemcpyDtoH env c srcFakePtr len = exec_bind (send_wait env c (PlanDtoHRequest srcFakePtr len)) reader_of"

text \<open>The parameter block: 512 bytes are copied from wherever \<open>params\<close> points.\<close>

definition copy_params :: "u8 list \<Rightarrow> u8 list exec" where
  "copy_params params = (if length params < 512 then UB OutOfBounds else Done (take 512 params))"

definition launchKernel :: "'m rpc_env \<Rightarrow> rpc_client \<Rightarrow> string \<Rightarrow> u32 \<times> u32 \<times> u32 \<Rightarrow> u32 \<times> u32 \<times> u32 \<Rightarrow> u32 \<Rightarrow>
    u8 list \<Rightarrow> u16 exec" where
  "launchKernel env c func grid block sharedMemBytes params =
     exec_bind (copy_params params) (\<lambda>ps.
     exec_bind (send_wait env c (LaunchRequest \<lparr>lr_func = func, lr_grid = grid, lr_block = block,
        lr_shared = sharedMemBytes, lr_params = ps\<rparr>)) (\<lambda>response. Done (code response)))"

definition getMemoryLocation :: "'m rpc_env \<Rightarrow> rpc_client \<Rightarrow> u64 \<Rightarrow> 'm reader exec" where
  "getMemoryLocation env c fakePtr = exec_bind (send_wait env c (LocationRequest fakePtr)) reader_of"

definition advisePrefetch :: "'m rpc_env \<Rightarrow> rpc_client \<Rightarrow> u64 \<Rightarrow> u16 exec" where
  "advisePrefetch env c fakePtr =
     exec_bind (send_wait env c (PrefetchRequest fakePtr)) (\<lambda>response. Done (code response))"

subsection \<open>What callers can rely on\<close>

lemmas client_defs = requestAllocationPlan_def requestFreePlan_def planMemcpyHtoD_def planMemcpyDtoH_def
  launchKernel_def getMemoryLocation_def advisePrefetch_def

lemma connect_true: "connect env c = Done (True, c') \<Longrightarrow>
    c' = c\<lparr>m_rpcClient := Some (m_address c), m_client := Some (m_address c)\<rparr>"
  by (auto simp: connect_def Let_def split: exec.splits)

lemma unconnected: "m_rpcClient c = None \<Longrightarrow> send_wait env c req = UB NullDeref"
  by (simp add: send_wait_def)

lemma returned_readers_dangle:
  "requestAllocationPlan env c n = Done r \<Longrightarrow> read_reader r = UB DanglingPointer"
  "planMemcpyHtoD env c p n = Done r \<Longrightarrow> read_reader r = UB DanglingPointer"
  "planMemcpyDtoH env c p n = Done r \<Longrightarrow> read_reader r = UB DanglingPointer"
  "getMemoryLocation env c p = Done r \<Longrightarrow> read_reader r = UB DanglingPointer"
  by (auto simp: client_defs exec_simps reader_of_def read_reader_def)

lemma short_params_fault: "length params < 512 \<Longrightarrow> launchKernel env c f g b s params = UB OutOfBounds"
  by (simp add: launchKernel_def copy_params_def)

lemma launch_sends:
  "m_rpcClient c = Some a \<Longrightarrow> m_client c = Some t \<Longrightarrow> 512 \<le> length params \<Longrightarrow>
   launchKernel env c f g b s params =
     exec_bind (server env t (LaunchRequest \<lparr>lr_func = f, lr_grid = g, lr_block = b, lr_shared = s,
       lr_params = take 512 params\<rparr>)) (\<lambda>response. Done (code response))"
  by (simp add: launchKernel_def copy_params_def send_wait_def not_less [symmetric])

subsection \<open>Properties\<close>

text \<open>
  Every plan or location the client returns refers to a message that is freed when the method
  returns: whenever one of the four methods returns a reader, reading it is a use after free.
\<close>

theorem plans_dangle:
  assumes "requestAllocationPlan env c n = Done r \<or> planMemcpyHtoD env c p n = Done r \<or>
    planMemcpyDtoH env c p n = Done r \<or> getMemoryLocation env c p = Done r"
  shows "read_reader r = UB DanglingPointer"
  using assms by (auto dest: returned_readers_dangle)

definition echo_env :: "nat rpc_env" where
  "echo_env = \<lparr>new_client = (\<lambda>_. Done ()), get_main = (\<lambda>_. Done ()),
               server = (\<lambda>_ _. Done \<lparr>content = 7, code = 0\<rparr>)\<rparr>"

definition connected :: rpc_client where
  "connected = \<lparr>m_address = ''127.0.0.1:12345'', m_rpcClient = Some ''127.0.0.1:12345'',
                m_client = Some ''127.0.0.1:12345''\<rparr>"

theorem plans_dangle_witness:
  "\<exists>r. getMemoryLocation echo_env connected 5 = Done r \<and> read_reader r = UB DanglingPointer"
proof -
  obtain r where r: "getMemoryLocation echo_env connected 5 = Done r"
    by (simp add: getMemoryLocation_def send_wait_def echo_env_def connected_def reader_of_def)
  then show ?thesis using plans_dangle [of echo_env connected 0 r 5] by blast
qed

text \<open>
  A kernel launch copies a fixed 512 bytes from the parameter pointer: with fewer bytes behind
  it the copy reads out of bounds, whatever the connection; with a connected client and enough
  bytes exactly the first 512 are sent together with the name, the dimensions and the shared
  memory size, and the server's code is returned.
\<close>

theorem launch_copies_512_bytes:
  assumes "connect env c0 = Done (True, c)"
  shows "launchKernel env c f g b s params =
    (if length params < 512 then UB OutOfBounds
     else exec_bind (server env (m_address c0) (LaunchRequest \<lparr>lr_func = f, lr_grid = g, lr_block = b,
            lr_shared = s, lr_params = take 512 params\<rparr>)) (\<lambda>response. Done (code response)))"
  using connect_true [OF assms] by (simp add: short_params_fault launch_sends)

theorem launch_copies_512_bytes_witness:
  "\<exists>c. connect echo_env (LauncherClient ''127.0.0.1:12345'') = Done (True, c) \<and>
     launchKernel echo_env c ''k'' (1, 1, 1) (32, 1, 1) 0 (replicate 16 0) = UB OutOfBounds"
proof -
  obtain c where "connect echo_env (LauncherClient ''127.0.0.1:12345'') = Done (True, c)"
    by (simp add: connect_def echo_env_def)
  then show ?thesis using launch_copies_512_bytes [of echo_env _ c] by fastforce
qed

end
