(* ===== verification/LauncherClient.thy ===== *)
theory LauncherClient
  imports HookClient
begin

section \<open>The launcher's RPC client\<close>

text \<open>
  \<open>client/launcher/launcher_client.h\<close> and \<open>.cpp\<close>: the client with which the launcher talks to a
  remote node, on the same runtime as the hook's client, whose connection, requests and readers
  it shares. Its kernel launch has one grid and one block dimension.
\<close>

definition Connect :: "'m rpc_env \<Rightarrow> string \<Rightarrow> rpc_client \<Rightarrow> (bool \<times> rpc_client) exec" where
  "Connect env address c = connect env (c\<lparr>m_address := address\<rparr>)"

datatype node_request =
    NodeAllocation u64 | NodeFree u64 | NodePlanHtoD u64 u64 | NodePlanDtoH u64 u64
  | NodeLaunch string u32 u32 u32 "u8 list"

text \<open>A node's answer: the message, and the error code that is a field of the results.\<close>

type_synonym 'm node = "node_request \<Rightarrow> ('m \<times> u16) exec"

definition node_wait :: "'m node \<Rightarrow> rpc_client \<Rightarrow> node_request \<Rightarrow> ('m \<times> u16) exec" where
  "node_wait node c req =
     (case m_rpcClient c of
        None \<Rightarrow> UB NullDeref
      | Some _ \<Rightarrow> (case m_client c of None \<Rightarrow> Throws ''kj::Exception'' | Some _ \<Rightarrow> node req))"

definition node_reader :: "'m \<times> u16 \<Rightarrow> 'm reader exec" where
  "node_reader response = Done \<lparr>owner_alive = False, message = fst response\<rparr>"

definition node_requestAllocation :: "'m node \<Rightarrow> rpc_client \<Rightarrow> u64 \<Rightarrow> 'm reader exec" where
  "node_requestAllocation node c len = exec_bind (node_wait node c (NodeAllocation len)) node_reader"

definition node_requestFree :: "'m node \<Rightarrow> rpc_client \<Rightarrow> u64 \<Rightarrow> u16 exec" where
  "node_requestFree node c fakePtr = exec_bind (node_wait node c (NodeFree fakePtr)) (\<lambda>r. Done (snd r))"

definition node_planMemcpyHtoD :: "'m node \<Rightarrow> rpc_client \<Rightarrow> u64 \<Rightarrow> u64 \<Rightarrow> 'm reader exec" where
  "node_planMemcpyHtoD node c dstFakePtr len = exec_bind (node_wait node c (NodePlanHtoD dstFakePtr len)) node_reader"

definition node_planMemcpyDtoH :: "'m node \<Rightarrow> rpc_client \<Rightarrow> u64 \<Rightarrow> u64 \<Rightarrow> 'm reader exec" where
  "node_planMemcpyDtoH node c srcFakePtr len = exec_bind (node_wait node c (NodePlanDtoH srcFakePtr len)) node_reader"

definition node_launchKernel :: "'m node \<Rightarrow> rpc_client \<Rightarrow> string \<Rightarrow> u32 \<Rightarrow> u32 \<Rightarrow> u32 \<Rightarrow> u8 list \<Rightarrow> u16 exec" where
  "node_launchKernel node c func gridDim blockDim sharedMem params =
     exec_bind (copy_params params) (\<lambda>ps.
     exec_bind (node_wait node c (NodeLaunch func gridDim blockDim sharedMem ps)) (\<lambda>r. Done (snd r)))"

text \<open>Only a connected client reaches the node; then a code is the node's own.\<close>

lemma Connect_true: "Connect env a c = Done (True, c') \<Longrightarrow>
    c' = c\<lparr>m_address := a, m_rpcClient := Some a, m_client := Some a\<rparr>"
  by (drule connect_true [of env "c\<lparr>m_address := a\<rparr>", folded Connect_def]) simp

lemma node_requestFree_connected:
  "Connect env a c = Done (True, c') \<Longrightarrow> node_requestFree node c' p = exec_bind (node (NodeFree p)) (\<lambda>r. Done (snd r))"
  by (drule Connect_true) (simp add: node_requestFree_def node_wait_def)

text \<open>
  A node's client after \<open>LoadConfig\<close>: it is made for the address and connected, and a connection
  that fails, which \<open>connect\<close> catches, leaves it without a connection or without a capability.
  Creating a connection and asking for the capability return or throw; they have no fault of
  their own.
\<close>

definition loaded_client :: "unit rpc_env \<Rightarrow> string \<Rightarrow> rpc_client" where
  "loaded_client env address =
     (case Connect env address (LauncherClient address) of
        Done (ok, c) \<Rightarrow> c
      | _ \<Rightarrow> LauncherClient address)"

lemma loaded_client_cases:
  "loaded_client env a = LauncherClient a \<or>
   loaded_client env a = (LauncherClient a)\<lparr>m_rpcClient := Some a\<rparr> \<or>
   loaded_client env a = (LauncherClient a)\<lparr>m_rpcClient := Some a, m_client := Some a\<rparr>"
  by (auto simp: loaded_client_def Connect_def connect_def LauncherClient_def Let_def split: exec.splits)

lemma loaded_client_address [simp]: "m_address (loaded_client env a) = a"
  using loaded_client_cases [of env a] by (auto simp: LauncherClient_def)

text \<open>A runtime whose connections all succeed, and the client it leaves, for the witnesses.\<close>

definition always_connects :: "unit rpc_env" where
  "always_connects = \<lparr>new_client = \<lambda>_. Done (), get_main = \<lambda>_. Done (), server = \<lambda>_ _. Throws ''no server''\<rparr>"

definition connected_to :: "string \<Rightarrow> rpc_client" where
  "connected_to a = \<lparr>m_address = a, m_rpcClient = Some a, m_client = Some a\<rparr>"

lemma loaded_client_always [simp]: "loaded_client always_connects a = connected_to a"
  by (simp add: loaded_client_def Connect_def connect_def LauncherClient_def always_connects_def connected_to_def)

lemma connected_to_simps [simp]:
  "m_address (connected_to a) = a" "m_rpcClient (connected_to a) = Some a" "m_client (connected_to a) = Some a"
  by (simp_all add: connected_to_def)

end
