(* ===== verification/Dispatcher.thy ===== *)
theory Dispatcher
  imports Cooling NumaAddress GlobalMemory LauncherClient
begin

section \<open>The dispatcher: which node serves an allocation, and how\<close>

text \<open>
  \<open>client/launcher/dispatcher.h\<close> and \<open>.cpp\<close>: the list of remote nodes, their score, the allocation
  decision, the choice of a node, and loading the node list from the configuration. A pointer to
  a node is its position in the list. The mutex is a flag that says whether the running thread
  holds it. The four fields at the end of \<open>remote_node\<close> are used by \<open>dispatcher.cpp\<close> though
  \<open>dispatcher.h\<close> does not declare them, and the plan's fields are those the code assigns. The YAML
  library is a parameter (\<open>yaml_api\<close>), and so are the plan that \<open>AllocationPlan plan;\<close> creates
  (\<open>plan0\<close>), the fields a constructed node leaves unset (\<open>blank\<close>) and the RPC runtime (\<open>env\<close>): a
  connection that fails is reported on the terminal, and the node is kept with its client.
\<close>

record remote_node =
  nodeId :: string
  nodeName :: string
  address :: string
  roce_interface :: string
  priority :: i32
  total_memory :: u64
  available_memory :: u64
  network_latency :: fval
  cpu_usage :: fval
  gpu_utilization :: fval
  nodeNuma :: i32
  zmq_port :: u16
  launcher_client :: "rpc_client option"
  rdma_support :: bool
  nvlink_support :: bool
  gdr_support :: bool
  gpu_memory_utilization :: fval

datatype memory_type = VRAM | HOST
datatype transport_type = LOCAL | RDMA | UDP | RDMA_UDP

record alloc_plan =
  targetNodeId :: string
  plan_error :: cu_result
  memoryType :: memory_type
  transportType :: transport_type
  numaMatch :: bool
  prefetchHint :: bool
  gpuTopologyOptimal :: bool
  triggerMigration :: bool
  expandStableZone :: bool
  gdrTransfer :: bool

subsection \<open>The score of a node\<close>

definition memory_score :: "remote_node \<Rightarrow> u64 \<Rightarrow> fval" where
  "memory_score node required_memory =
     (if 0 < total_memory node
      then fdiv binary64 (of_u64 binary64 (available_memory node - required_memory))
             (of_u64 binary64 (total_memory node))
      else Fin 0)"

definition latency_score :: "remote_node \<Rightarrow> fval" where
  "latency_score node = fdiv binary64 (Fin 1) (fadd binary64 (Fin 1) (network_latency node))"

definition load_score :: "remote_node \<Rightarrow> fval" where
  "load_score node =
     fsub binary64 (Fin 1) (fdiv binary64 (fadd binary64 (cpu_usage node) (gpu_utilization node)) (Fin 200))"

definition priority_score :: "remote_node \<Rightarrow> fval" where
  "priority_score node = fdiv binary64 (of_sint binary64 (sint (priority node))) (Fin 100)"

definition numa_score :: "remote_node \<Rightarrow> i32 \<Rightarrow> fval" where
  "numa_score node numa = (if nodeNuma node = numa then Fin 1 else Fin (1 / 2))"

definition CalculateNodeScore :: "remote_node \<Rightarrow> u64 \<Rightarrow> i32 \<Rightarrow> fval" where
  "CalculateNodeScore node required_memory numa =
     (let memory_weight = fl binary64 (3 / 10); latency_weight = fl binary64 (2 / 10);
          load_weight = fl binary64 (2 / 10); priority_weight = fl binary64 (1 / 10);
          numa_weight = fl binary64 (2 / 10);
          s1 = fmul binary64 memory_weight (memory_score node required_memory);
          s2 = fadd binary64 s1 (fmul binary64 latency_weight (latency_score node));
          s3 = fadd binary64 s2 (fmul binary64 load_weight (load_score node));
          s4 = fadd binary64 s3 (fmul binary64 priority_weight (priority_score node))
      in fadd binary64 s4 (fmul binary64 numa_weight (numa_score node numa)))"

subsection \<open>The node list\<close>

definition AddNode :: "bool \<Rightarrow> remote_node \<Rightarrow> remote_node list \<Rightarrow> remote_node list exec" where
  "AddNode held node nodes = lock_guard held (\<lambda>_. Done (nodes @ [node]))"

definition GetNodes :: "bool \<Rightarrow> remote_node list \<Rightarrow> remote_node list exec" where
  "GetNodes held nodes = lock_guard held (\<lambda>_. Done nodes)"

definition GetNodeById :: "bool \<Rightarrow> string \<Rightarrow> remote_node list \<Rightarrow> nat option exec" where
  "GetNodeById held key nodes = lock_guard held (\<lambda>_. Done (find_index (\<lambda>n. nodeId n = key) nodes))"

text \<open>The search of the decision: skip nodes without the memory, keep the first strictly better.\<close>

fun best_loop :: "(remote_node \<Rightarrow> fval) \<Rightarrow> u64 \<Rightarrow> nat \<Rightarrow> remote_node list \<Rightarrow> fval \<Rightarrow> nat option \<Rightarrow> nat option" where
  "best_loop score sz i [] best_score best_node = best_node"
| "best_loop score sz i (node # rest) best_score best_node =
     (if available_memory node < sz then best_loop score sz (Suc i) rest best_score best_node
      else let s = score node
           in if fless best_score s then best_loop score sz (Suc i) rest s (Some i)
              else best_loop score sz (Suc i) rest best_score best_node)"

definition best_node :: "u64 \<Rightarrow> i32 \<Rightarrow> remote_node list \<Rightarrow> nat option" where
  "best_node sz numa nodes =
     best_loop (\<lambda>n. CalculateNodeScore n sz numa) sz 0 nodes (Fin (- 1)) None"

subsection \<open>The decision\<close>

definition memory_choice :: "remote_node \<Rightarrow> u64 \<Rightarrow> bool \<Rightarrow> u32 \<Rightarrow> fval \<Rightarrow> i32 \<Rightarrow> memory_type" where
  "memory_choice best sz is_hot mobility stab numa =
     (if fless (fl binary32 (4 / 5)) stab \<and> is_hot then VRAM
      else if mobility > 5 then HOST
      else if nodeNuma best = numa \<and> available_memory best > sz * 2 then VRAM
      else HOST)"

definition transport_choice :: "remote_node \<Rightarrow> bool \<Rightarrow> u32 \<Rightarrow> fval \<Rightarrow> transport_type" where
  "transport_choice best is_hot mobility stab =
     (if is_hot \<and> fless (fl binary32 (4 / 5)) stab then LOCAL
      else if is_hot \<and> mobility < 3 then (if rdma_support best then RDMA else UDP)
      else RDMA_UDP)"

definition numa_topology :: "remote_node \<Rightarrow> i32 \<Rightarrow> alloc_plan \<Rightarrow> alloc_plan" where
  "numa_topology best numa plan =
     (if nodeNuma best \<noteq> -1 \<and> numa \<noteq> -1
      then if nodeNuma best = numa then plan\<lparr>numaMatch := True\<rparr>
           else plan\<lparr>numaMatch := False, prefetchHint := True\<rparr>
      else plan\<lparr>numaMatch := False\<rparr>)"

definition gpu_topology :: "remote_node \<Rightarrow> alloc_plan \<Rightarrow> alloc_plan" where
  "gpu_topology best plan = plan\<lparr>gpuTopologyOptimal := nvlink_support best\<rparr>"

definition vram_thresholds :: "remote_node \<Rightarrow> alloc_plan \<Rightarrow> alloc_plan" where
  "vram_thresholds best plan =
     (if fless (fl binary32 (85 / 100)) (gpu_memory_utilization best) then plan\<lparr>triggerMigration := True\<rparr>
      else if fless (gpu_memory_utilization best) (fl binary32 (7 / 10)) then plan\<lparr>expandStableZone := True\<rparr>
      else plan)"

definition gdr_choice :: "remote_node \<Rightarrow> u32 \<Rightarrow> alloc_plan \<Rightarrow> alloc_plan" where
  "gdr_choice best mobility plan =
     (if gdr_support best \<and> mobility > 0 then plan\<lparr>gdrTransfer := True\<rparr> else plan)"

definition makeAllocationDecision ::
    "alloc_plan \<Rightarrow> cooling_service \<Rightarrow> remote_node list \<Rightarrow> u64 \<Rightarrow> u64 \<Rightarrow> i32 \<Rightarrow> alloc_plan" where
  "makeAllocationDecision plan0 cooling nodes ptr sz current_numa =
     (case best_node sz current_numa nodes of
        None \<Rightarrow> plan0\<lparr>plan_error := CUDA_ERROR_OUT_OF_MEMORY\<rparr>
      | Some i \<Rightarrow>
          (let best = nodes ! i;
               plan1 = plan0\<lparr>targetNodeId := nodeId best\<rparr>;
               is_hot = isHotData ptr cooling;
               mobility = getMobility ptr cooling;
               stab = getStability ptr cooling;
               numa = getNumaId ptr cooling;
               plan2 = plan1\<lparr>memoryType := memory_choice best sz is_hot mobility stab numa\<rparr>;
               plan3 = plan2\<lparr>transportType := transport_choice best is_hot mobility stab\<rparr>
           in gdr_choice best mobility (vram_thresholds best (gpu_topology best
                (numa_topology best numa plan3)))))"

definition PickNode ::
    "alloc_plan \<Rightarrow> cooling_service \<Rightarrow> bool \<Rightarrow> remote_node list \<Rightarrow> u64 \<Rightarrow> u64 \<Rightarrow> nat option exec" where
  "PickNode plan0 cooling held nodes ptr required_memory =
     lock_guard held (\<lambda>held.
       if nodes = [] then Done None
       else let plan = makeAllocationDecision plan0 cooling nodes ptr required_memory (-1)
            in if plan_error plan \<noteq> CUDA_SUCCESS then Done None
               else GetNodeById held (targetNodeId plan) nodes)"

subsection \<open>Loading the configuration\<close>

text \<open>
  What the code uses of the YAML library on a node \<open>'y\<close>: \<open>node[key].as<T>()\<close> and
  \<open>node[key].as<T>(fallback)\<close> for the three types, and the elements of \<open>LoadFile(path)["nodes"]\<close>;
  each may throw.
\<close>

record 'y yaml_api =
  load_file :: "string \<Rightarrow> 'y list exec"
  as_string :: "'y \<Rightarrow> string \<Rightarrow> string exec"
  as_string_or :: "'y \<Rightarrow> string \<Rightarrow> string \<Rightarrow> string exec"
  as_int_or :: "'y \<Rightarrow> string \<Rightarrow> i32 \<Rightarrow> i32 exec"
  as_size_or :: "'y \<Rightarrow> string \<Rightarrow> u64 \<Rightarrow> u64 exec"

definition read_node :: "'y yaml_api \<Rightarrow> remote_node \<Rightarrow> 'y \<Rightarrow> remote_node exec" where
  "read_node yaml blank node =
     exec_bind (as_string yaml node ''id'') (\<lambda>key.
     exec_bind (as_string_or yaml node ''name'' []) (\<lambda>nm.
     exec_bind (as_string yaml node ''address'') (\<lambda>addr.
     exec_bind (as_string_or yaml node ''roce_interface'' []) (\<lambda>roce.
     exec_bind (as_int_or yaml node ''priority'' 50) (\<lambda>prio.
     exec_bind (as_size_or yaml node ''total_memory'' 0) (\<lambda>total.
     exec_bind (as_size_or yaml node ''memory'' 0) (\<lambda>avail.
     exec_bind (as_int_or yaml node ''numaId'' (-1)) (\<lambda>numa.
     Done (blank\<lparr>nodeId := key, nodeName := nm, address := addr, roce_interface := roce,
                 priority := prio, total_memory := total, available_memory := avail,
                 network_latency := Fin 0, cpu_usage := Fin 0, gpu_utilization := Fin 0,
                 nodeNuma := numa, launcher_client := None\<rparr>)))))))))"

definition attach_client :: "unit rpc_env \<Rightarrow> remote_node \<Rightarrow> remote_node" where
  "attach_client env node = node\<lparr>launcher_client := Some (loaded_client env (address node))\<rparr>"

text \<open>The loop: the nodes appended so far stay when a later one throws.\<close>

fun load_loop :: "'y yaml_api \<Rightarrow> remote_node \<Rightarrow> unit rpc_env \<Rightarrow> 'y list \<Rightarrow> remote_node list \<Rightarrow>
    remote_node list \<times> unit exec" where
  "load_loop yaml blank env [] nodes = (nodes, Done ())"
| "load_loop yaml blank env (y # ys) nodes =
     (case read_node yaml blank y of
        Done n \<Rightarrow> load_loop yaml blank env ys (nodes @ [attach_client env n])
      | Throws e \<Rightarrow> (nodes, Throws e)
      | UB u \<Rightarrow> (nodes, UB u))"

definition LoadConfig :: "'y yaml_api \<Rightarrow> remote_node \<Rightarrow> unit rpc_env \<Rightarrow> bool \<Rightarrow> string \<Rightarrow>
    remote_node list \<Rightarrow> (bool \<times> remote_node list) exec" where
  "LoadConfig yaml blank env held path nodes =
     lock_guard held (\<lambda>_.
       case load_file yaml path of
         Throws e \<Rightarrow> Done (False, nodes)
       | UB u \<Rightarrow> UB u
       | Done ys \<Rightarrow>
           (case load_loop yaml blank env ys nodes of
              (nodes', Done _) \<Rightarrow> Done (True, nodes')
            | (nodes', Throws e) \<Rightarrow> Done (False, nodes')
            | (nodes', UB u) \<Rightarrow> UB u))"

subsection \<open>What the search returns\<close>

text \<open>
  A candidate is a node with the memory whose score is above the bound; the first best candidate
  beats every candidate before it and is beaten by none.
\<close>

definition candidate :: "(remote_node \<Rightarrow> fval) \<Rightarrow> u64 \<Rightarrow> fval \<Rightarrow> remote_node list \<Rightarrow> nat \<Rightarrow> bool" where
  "candidate score sz b nodes j \<longleftrightarrow>
     j < length nodes \<and> sz \<le> available_memory (nodes ! j) \<and> fless b (score (nodes ! j))"

definition first_best :: "(remote_node \<Rightarrow> fval) \<Rightarrow> u64 \<Rightarrow> fval \<Rightarrow> remote_node list \<Rightarrow> nat \<Rightarrow> bool" where
  "first_best score sz b nodes j \<longleftrightarrow> candidate score sz b nodes j \<and>
     (\<forall>k. candidate score sz b nodes k \<longrightarrow> \<not> fless (score (nodes ! j)) (score (nodes ! k))) \<and>
     (\<forall>k<j. candidate score sz b nodes k \<longrightarrow> fless (score (nodes ! k)) (score (nodes ! j)))"

lemma candidate_Nil [simp]: "\<not> candidate score sz b [] j"
  by (simp add: candidate_def)

lemma candidate_0 [simp]:
  "candidate score sz b (n # nodes) 0 \<longleftrightarrow> sz \<le> available_memory n \<and> fless b (score n)"
  by (simp add: candidate_def)

lemma candidate_Suc [simp]: "candidate score sz b (n # nodes) (Suc j) \<longleftrightarrow> candidate score sz b nodes j"
  by (simp add: candidate_def)

lemma all_nat_split: "(\<forall>k. P k) \<longleftrightarrow> P 0 \<and> (\<forall>k. P (Suc k))"
  by (metis not0_implies_Suc)

lemma all_less_Suc_split: "(\<forall>k<Suc j. P k) \<longleftrightarrow> P 0 \<and> (\<forall>k<j. P (Suc k))"
  by (auto simp: less_Suc_eq_0_disj)

lemma first_best_skip:
  "\<not> (sz \<le> available_memory n \<and> fless b (score n)) \<Longrightarrow>
     first_best score sz b (n # nodes) (Suc j) \<longleftrightarrow> first_best score sz b nodes j"
  by (subst first_best_def, subst all_nat_split) (auto simp: first_best_def all_less_Suc_split)

lemma candidate_raise:
  "fless b s \<Longrightarrow> candidate score sz s nodes k \<Longrightarrow> candidate score sz b nodes k"
  by (auto simp: candidate_def intro: fless_trans)

lemma first_best_head:
  assumes "sz \<le> available_memory n" "fless b (score n)" "\<forall>k. \<not> candidate score sz (score n) nodes k"
  shows "first_best score sz b (n # nodes) 0"
  using assms by (auto simp: first_best_def candidate_def nth_Cons split: nat.splits)

lemma first_best_later:
  assumes "sz \<le> available_memory n" "fless b (score n)" "first_best score sz (score n) nodes j"
  shows "first_best score sz b (n # nodes) (Suc j)"
proof -
  have cj: "candidate score sz (score n) nodes j"
    and top: "\<And>k. candidate score sz (score n) nodes k \<Longrightarrow> \<not> fless (score (nodes ! j)) (score (nodes ! k))"
    and first: "\<And>k. k < j \<Longrightarrow> candidate score sz (score n) nodes k \<Longrightarrow> fless (score (nodes ! k)) (score (nodes ! j))"
    using assms(3) by (auto simp: first_best_def)
  have sj: "fless (score n) (score (nodes ! j))" using cj by (simp add: candidate_def)
  have below: "\<not> fless (score n) (score (nodes ! k))"
    if "candidate score sz b nodes k" "\<not> candidate score sz (score n) nodes k" for k
    using that by (auto simp: candidate_def)
  have num: "score (nodes ! k) \<noteq> NaN" if "candidate score sz b nodes k" for k
    using that by (auto simp: candidate_def)
  have "\<not> fless (score (nodes ! j)) (score ((n # nodes) ! k))" if "candidate score sz b (n # nodes) k" for k
  proof (cases k)
    case 0
    then show ?thesis using fless_trans [OF sj, of "score n"] by auto
  next
    case (Suc k')
    then show ?thesis using that top [of k'] below [of k'] fless_trans [OF sj] by auto
  qed
  moreover have "fless (score ((n # nodes) ! k)) (score (nodes ! j))"
    if "k < Suc j" "candidate score sz b (n # nodes) k" for k
  proof (cases k)
    case 0
    then show ?thesis using sj by simp
  next
    case (Suc k')
    then show ?thesis
      using that first [of k'] below [of k'] num [of k'] fless_le_trans [OF sj] by auto
  qed
  ultimately show ?thesis using candidate_raise [OF assms(2) cj] by (simp add: first_best_def)
qed

lemma best_loop_spec:
  "(best_loop score sz i nodes b acc = acc \<and> (\<forall>k. \<not> candidate score sz b nodes k)) \<or>
   (\<exists>j. best_loop score sz i nodes b acc = Some (i + j) \<and> first_best score sz b nodes j)"
proof (induction nodes arbitrary: i b acc)
  case Nil
  then show ?case by simp
next
  case (Cons n nodes)
  show ?case
  proof (cases "sz \<le> available_memory n \<and> fless b (score n)")
    case True
    then have loop: "best_loop score sz i (n # nodes) b acc = best_loop score sz (Suc i) nodes (score n) (Some i)"
      by (simp add: not_less [symmetric])
    from Cons.IH [of "Suc i" "score n" "Some i"] True show ?thesis
    proof (elim disjE exE conjE)
      assume "best_loop score sz (Suc i) nodes (score n) (Some i) = Some i"
        "\<forall>k. \<not> candidate score sz (score n) nodes k"
      then show ?thesis using True first_best_head [of sz n b score nodes] loop
        by (intro disjI2 exI [of _ 0]) simp
    next
      fix j
      assume "best_loop score sz (Suc i) nodes (score n) (Some i) = Some (Suc i + j)"
        "first_best score sz (score n) nodes j"
      then show ?thesis using True first_best_later [of sz n b score nodes j] loop
        by (intro disjI2 exI [of _ "Suc j"]) simp
    qed
  next
    case False
    then have loop: "best_loop score sz i (n # nodes) b acc = best_loop score sz (Suc i) nodes b acc"
      by (auto simp: not_less [symmetric])
    from Cons.IH [of "Suc i" b acc] show ?thesis
    proof (elim disjE exE conjE)
      assume "best_loop score sz (Suc i) nodes b acc = acc" "\<forall>k. \<not> candidate score sz b nodes k"
      then show ?thesis using False loop
        by (auto simp: all_nat_split [of "\<lambda>k. \<not> candidate _ _ _ _ k"])
    next
      fix j
      assume "best_loop score sz (Suc i) nodes b acc = Some (Suc i + j)" "first_best score sz b nodes j"
      then show ?thesis using False loop first_best_skip [of sz n b score nodes j]
        by (intro disjI2 exI [of _ "Suc j"]) simp
    qed
  qed
qed

lemma first_best_unique:
  "first_best score sz b nodes j \<Longrightarrow> first_best score sz b nodes k \<Longrightarrow> j = k"
  unfolding first_best_def by (metis linorder_neqE_nat)

lemma best_loop_None_iff:
  "best_loop score sz 0 nodes b None = None \<longleftrightarrow> (\<forall>k. \<not> candidate score sz b nodes k)"
  using best_loop_spec [of score sz 0 nodes b None] by (auto simp: first_best_def)

lemma best_loop_Some_iff:
  "best_loop score sz 0 nodes b None = Some j \<longleftrightarrow> first_best score sz b nodes j"
  using best_loop_spec [of score sz 0 nodes b None] first_best_unique [of score sz b nodes]
  by (auto simp: first_best_def)

lemma best_node_less: "best_node sz numa nodes = Some j \<Longrightarrow> j < length nodes \<and> sz \<le> available_memory (nodes ! j)"
  by (auto simp: best_node_def best_loop_Some_iff first_best_def candidate_def)

subsection \<open>The range of a score\<close>

text \<open>
  A node with plausible data: no more memory available than there is, a latency that is a number
  not below zero, loads in percent. For such a node that has the requested memory, the score is
  near the range of its priority.
\<close>

definition plausible :: "remote_node \<Rightarrow> bool" where
  "plausible n \<longleftrightarrow> 0 < total_memory n \<and> available_memory n \<le> total_memory n \<and>
     inrange 0 (pow2 60) (network_latency n) \<and> inrange 0 100 (cpu_usage n) \<and> inrange 0 100 (gpu_utilization n)"

lemma weights:
  "inrange (1 / 4) (1 / 2) (fl binary64 (3 / 10))" "inrange (1 / 8) (1 / 4) (fl binary64 (2 / 10))"
  "inrange (1 / 16) (1 / 8) (fl binary64 (1 / 10))"
proof -
  have "fixed binary64 (1 / 16)" using fixed64 [of 1 "- 4"] by (simp add: pow2_def)
  then show "inrange (1 / 16) (1 / 8) (fl binary64 (1 / 10))"
    using fixed64_eighths [of 1] by (intro b64.fl_inrange) simp_all
  show "inrange (1 / 4) (1 / 2) (fl binary64 (3 / 10))" "inrange (1 / 8) (1 / 4) (fl binary64 (2 / 10))"
    using fixed64_eighths [of 2] fixed64_eighths [of 1] by (intro b64.fl_inrange; simp)+
qed

lemma of_u64_64_range: "inrange 0 (pow2 64) (of_u64 binary64 w)"
proof -
  have "unat w < 2 ^ LENGTH(64)" by (rule unsigned_less)
  then have "(of_nat (unat w) :: rat) \<le> of_nat (2 ^ 64)" by (simp only: of_nat_le_iff) simp
  then have "(of_nat (unat w) :: rat) \<le> pow2 64" by (simp add: pow2_def)
  then show ?thesis unfolding of_u64_def
    by (intro b64.fl_inrange) (simp_all del: of_nat_unat add: of_nat_0_le_iff fixed64_pow2)
qed

lemma memory_score_range:
  assumes "plausible n" "req \<le> available_memory n"
  shows "inrange 0 1 (memory_score n req)"
proof -
  let ?p = "of_nat (unat (available_memory n - req)) :: rat" and ?q = "of_nat (unat (total_memory n)) :: rat"
  have tot: "0 < total_memory n" using assms(1) by (simp add: plausible_def)
  have "unat (available_memory n - req) \<le> unat (total_memory n)"
    using assms unat_sub [of req "available_memory n"] by (auto simp: plausible_def word_le_nat_alt)
  then have pq: "?p \<le> ?q" by (simp only: of_nat_le_iff)
  have "1 \<le> unat (total_memory n)" using tot by (simp add: word_less_nat_alt)
  then have "of_nat 1 \<le> ?q" by (simp only: of_nat_le_iff)
  then have "(1::rat) \<le> ?q" by (simp only: of_nat_1)
  moreover have "?q \<le> pow2 64"
  proof -
    have "unat (total_memory n) < 2 ^ LENGTH(64)" by (rule unsigned_less)
    then have "?q \<le> of_nat (2 ^ 64)" by (simp only: of_nat_le_iff) simp
    then show ?thesis by (simp add: pow2_def)
  qed
  ultimately have "inrange 1 (pow2 64) (fl binary64 ?q)"
    by (intro b64.fl_inrange) (simp_all add: fixed64_pow2)
  from b64.ratio_inrange [OF _ this pq] of_u64_64_range [of "available_memory n - req"] tot
  show ?thesis by (simp add: memory_score_def of_u64_def)
qed

lemma latency_score_range: "plausible n \<Longrightarrow> inrange 0 1 (latency_score n)"
proof -
  assume n: "plausible n"
  have "inrange 1 (pow2 61) (fadd binary64 (Fin 1) (network_latency n))"
    using n by (intro b64.add_inrange [of 1 1 _ 0 "pow2 60"])
      (simp_all add: plausible_def fixed64_pow2, simp add: pow2_def)
  then show ?thesis unfolding latency_score_def
    by (intro b64.div_inrange [of 1 _ 1 "pow2 61"]) simp_all
qed

lemma load_score_range: "plausible n \<Longrightarrow> inrange 0 1 (load_score n)"
proof -
  assume n: "plausible n"
  have "inrange 0 200 (fadd binary64 (cpu_usage n) (gpu_utilization n))"
    using n by (intro b64.add_inrange [of 0 100 _ 0 100]) (simp_all add: plausible_def)
  then have "inrange 0 1 (fdiv binary64 (fadd binary64 (cpu_usage n) (gpu_utilization n)) (Fin 200))"
    by (rule b64.div_inrange [of 200 _ 200 200]) simp_all
  then show ?thesis unfolding load_score_def
    by (intro b64.sub_inrange [of 1 1 _ 0 1]) simp_all
qed

lemma priority_score_range:
  assumes "of_int a \<le> (of_int (sint (priority n)) :: rat) / 100" "of_int (sint (priority n)) / 100 \<le> (of_int b :: rat)"
    and "\<bar>a\<bar> \<le> 2 ^ 53" "\<bar>b\<bar> \<le> 2 ^ 53"
  shows "inrange (of_int a) (of_int b) (priority_score n)"
proof -
  have "\<bar>sint (priority n)\<bar> \<le> 2 ^ 53" using sint_range [of "priority n"] by simp
  then have "of_sint binary64 (sint (priority n)) = Fin (of_int (sint (priority n)))"
    unfolding of_sint_def by (rule fl_fixed [OF fixed64_int])
  moreover have "inrange (of_int a) (of_int b) (fl binary64 (of_int (sint (priority n)) / 100))"
    by (rule b64.fl_inrange) (rule fixed64_int assms)+
  ultimately show ?thesis by (simp only: priority_score_def fdiv_def prod.case fval.case) simp
qed

text \<open>The three parts of the score that do not depend on the priority.\<close>

definition first_three :: "remote_node \<Rightarrow> u64 \<Rightarrow> fval" where
  "first_three n req =
     fadd binary64 (fadd binary64 (fmul binary64 (fl binary64 (3 / 10)) (memory_score n req))
       (fmul binary64 (fl binary64 (2 / 10)) (latency_score n))) (fmul binary64 (fl binary64 (2 / 10)) (load_score n))"

lemma CalculateNodeScore_split: "CalculateNodeScore n req numa =
    fadd binary64 (fadd binary64 (first_three n req) (fmul binary64 (fl binary64 (1 / 10)) (priority_score n)))
      (fmul binary64 (fl binary64 (2 / 10)) (numa_score n numa))"
  by (simp add: CalculateNodeScore_def first_three_def)

lemma weighted: "inrange 0 w c \<Longrightarrow> inrange 0 1 x \<Longrightarrow> fixed binary64 w \<Longrightarrow> inrange 0 w (fmul binary64 c x)"
  by (rule b64.mul_inrange [of w _ 1]) simp_all

lemma fixed64_quarters [simp]: "fixed binary64 (1 / 4)" "fixed binary64 (3 / 4)"
  using fixed64_eighths [of 2] fixed64_eighths [of 6] by simp_all

lemma first_three_range:
  assumes "plausible n" "req \<le> available_memory n"
  shows "inrange 0 1 (first_three n req)"
proof -
  have "inrange 0 (1 / 2) (fmul binary64 (fl binary64 (3 / 10)) (memory_score n req))"
    using weighted [OF inrange_weaken [OF weights(1)] memory_score_range [OF assms], of "1 / 2"] by simp
  moreover have "inrange 0 (1 / 4) (fmul binary64 (fl binary64 (2 / 10)) (latency_score n))"
    using weighted [OF inrange_weaken [OF weights(2)] latency_score_range [OF assms(1)], of "1 / 4"] by simp
  ultimately have "inrange 0 (3 / 4) (fadd binary64 (fmul binary64 (fl binary64 (3 / 10)) (memory_score n req))
       (fmul binary64 (fl binary64 (2 / 10)) (latency_score n)))"
    by (rule b64.add_inrange) simp_all
  moreover have "inrange 0 (1 / 4) (fmul binary64 (fl binary64 (2 / 10)) (load_score n))"
    using weighted [OF inrange_weaken [OF weights(2)] load_score_range [OF assms(1)], of "1 / 4"] by simp
  ultimately show ?thesis unfolding first_three_def by (rule b64.add_inrange) simp_all
qed

lemma numa_part_range: "inrange 0 (1 / 4) (fmul binary64 (fl binary64 (2 / 10)) (numa_score n numa))"
  by (rule weighted [OF inrange_weaken [OF weights(2)]]) (simp_all add: numa_score_def)

lemma score_above_bound:
  assumes "plausible n" "req \<le> available_memory n" "-700 \<le> sint (priority n)"
  shows "fless (Fin (- 1)) (CalculateNodeScore n req numa)"
proof -
  have hi: "sint (priority n) < 2 ^ 31" by (rule sint_range)
  have p: "inrange (of_int (- 7)) (of_int (2 ^ 25)) (priority_score n)"
  proof (rule priority_score_range)
    have "(of_int (- 700) :: rat) \<le> of_int (sint (priority n))" using assms(3) by (simp only: of_int_le_iff)
    then show "of_int (- 7) \<le> (of_int (sint (priority n)) :: rat) / 100" by (simp add: field_simps)
    have "(of_int (sint (priority n)) :: rat) \<le> of_int (2 ^ 31)" using hi by (simp only: of_int_le_iff)
    then show "(of_int (sint (priority n)) :: rat) / 100 \<le> of_int (2 ^ 25)" by (simp add: field_simps)
  qed simp_all
  have fixed: "fixed binary64 (- (7 / 8))" "fixed binary64 4194304" "fixed binary64 8388608" "fixed binary64 16777216"
    using fixed64_eighths [of "- 7"] fixed64_int [of 4194304] fixed64_int [of 8388608] fixed64_int [of 16777216]
    by simp_all
  have "inrange (- (7 / 8)) 4194304 (fmul binary64 (fl binary64 (1 / 10)) (priority_score n))"
    using inrange_weaken [OF weights(3), of 0 "1 / 8"] p
    by (intro b64.mul_le [of "1 / 8" _ 7 "2 ^ 25"]) (simp_all add: fixed)
  with first_three_range [OF assms(1,2)]
  have "inrange (- (7 / 8)) 8388608 (fadd binary64 (first_three n req)
      (fmul binary64 (fl binary64 (1 / 10)) (priority_score n)))"
    by (rule b64.add_inrange) (simp_all add: fixed)
  then have "inrange (- (7 / 8)) 16777216 (CalculateNodeScore n req numa)"
    unfolding CalculateNodeScore_split using numa_part_range
    by (rule b64.add_inrange) (simp_all add: fixed)
  then show ?thesis by (auto elim!: inrangeE)
qed

lemma score_below_bound:
  assumes "plausible n" "req \<le> available_memory n" "sint (priority n) \<le> -4000"
  shows "\<not> fless (Fin (- 1)) (CalculateNodeScore n req numa)"
proof -
  have p: "inrange (of_int (- (2 ^ 25))) (of_int (- 40)) (priority_score n)"
  proof (rule priority_score_range)
    have "(of_int (sint (priority n)) :: rat) \<le> of_int (- 4000)" using assms(3) by (simp only: of_int_le_iff)
    then show "(of_int (sint (priority n)) :: rat) / 100 \<le> of_int (- 40)" by (simp add: field_simps)
    have "(of_int (- (2 ^ 31)) :: rat) \<le> of_int (sint (priority n))" using sint_range by (simp only: of_int_le_iff)
    then show "of_int (- (2 ^ 25)) \<le> (of_int (sint (priority n)) :: rat) / 100" by (simp add: field_simps)
  qed simp_all
  have fixed: "fixed binary64 (- 4194304)" "fixed binary64 (- (5 / 2))" "fixed binary64 (- (3 / 2))"
    using fixed64_int [of "- 4194304"] fixed64_eighths [of "- 20"] fixed64_eighths [of "- 12"] by simp_all
  have "inrange (- 4194304) (- (5 / 2)) (fmul binary64 (fl binary64 (1 / 10)) (priority_score n))"
    using p by (intro b64.mul_neg_inrange [OF weights(3), of "2 ^ 25" 40]) (simp_all add: fixed)
  with first_three_range [OF assms(1,2)]
  have "inrange (- 4194304) (- (3 / 2)) (fadd binary64 (first_three n req)
      (fmul binary64 (fl binary64 (1 / 10)) (priority_score n)))"
    by (rule b64.add_inrange) (simp_all add: fixed)
  then have "inrange (- 4194304) (- 1) (CalculateNodeScore n req numa)"
    unfolding CalculateNodeScore_split using numa_part_range
    by (rule b64.add_inrange) (simp_all add: fixed)
  then show ?thesis by (auto elim!: inrangeE)
qed

subsection \<open>The decision's fields\<close>

lemma decision_None:
  "best_node sz numa nodes = None \<Longrightarrow>
     makeAllocationDecision plan0 cooling nodes ptr sz numa = plan0\<lparr>plan_error := CUDA_ERROR_OUT_OF_MEMORY\<rparr>"
  by (simp add: makeAllocationDecision_def)

lemma numa_topology_keeps [simp]:
  "targetNodeId (numa_topology b numa q) = targetNodeId q" "plan_error (numa_topology b numa q) = plan_error q"
  "memoryType (numa_topology b numa q) = memoryType q" "transportType (numa_topology b numa q) = transportType q"
  "gdrTransfer (numa_topology b numa q) = gdrTransfer q"
  by (simp_all add: numa_topology_def)

lemma gpu_topology_keeps [simp]:
  "targetNodeId (gpu_topology b q) = targetNodeId q" "plan_error (gpu_topology b q) = plan_error q"
  "memoryType (gpu_topology b q) = memoryType q" "transportType (gpu_topology b q) = transportType q"
  "gdrTransfer (gpu_topology b q) = gdrTransfer q" "prefetchHint (gpu_topology b q) = prefetchHint q"
  "numaMatch (gpu_topology b q) = numaMatch q"
  by (simp_all add: gpu_topology_def)

lemma vram_thresholds_keeps [simp]:
  "targetNodeId (vram_thresholds b q) = targetNodeId q" "plan_error (vram_thresholds b q) = plan_error q"
  "memoryType (vram_thresholds b q) = memoryType q" "transportType (vram_thresholds b q) = transportType q"
  "gdrTransfer (vram_thresholds b q) = gdrTransfer q" "prefetchHint (vram_thresholds b q) = prefetchHint q"
  "numaMatch (vram_thresholds b q) = numaMatch q"
  by (simp_all add: vram_thresholds_def)

lemma gdr_choice_keeps [simp]:
  "targetNodeId (gdr_choice b m q) = targetNodeId q" "plan_error (gdr_choice b m q) = plan_error q"
  "memoryType (gdr_choice b m q) = memoryType q" "transportType (gdr_choice b m q) = transportType q"
  "prefetchHint (gdr_choice b m q) = prefetchHint q" "numaMatch (gdr_choice b m q) = numaMatch q"
  "gdrTransfer (gdr_choice b m q) = (gdrTransfer q \<or> gdr_support b \<and> m > 0)"
  by (auto simp: gdr_choice_def)

lemma decision_Some:
  assumes "best_node sz numa nodes = Some i"
  shows "targetNodeId (makeAllocationDecision plan0 cooling nodes ptr sz numa) = nodeId (nodes ! i)"
    and "plan_error (makeAllocationDecision plan0 cooling nodes ptr sz numa) = plan_error plan0"
    and "memoryType (makeAllocationDecision plan0 cooling nodes ptr sz numa) =
      memory_choice (nodes ! i) sz (isHotData ptr cooling) (getMobility ptr cooling)
        (getStability ptr cooling) (getNumaId ptr cooling)"
    and "transportType (makeAllocationDecision plan0 cooling nodes ptr sz numa) =
      transport_choice (nodes ! i) (isHotData ptr cooling) (getMobility ptr cooling) (getStability ptr cooling)"
    and "gdrTransfer (makeAllocationDecision plan0 cooling nodes ptr sz numa) =
      (gdrTransfer plan0 \<or> gdr_support (nodes ! i) \<and> getMobility ptr cooling > 0)"
  using assms by (simp_all add: makeAllocationDecision_def Let_def)

lemma not_stable: "inrange 0 (1 / 2) x \<Longrightarrow> \<not> fless (fl binary32 (4 / 5)) x"
proof -
  assume x: "inrange 0 (1 / 2) x"
  have "inrange (1 / 2) 1 (fl binary32 (4 / 5))" by (intro b32.fl_inrange) simp_all
  with x show ?thesis by (auto elim!: inrangeE)
qed

text \<open>What the choices come to on any source of indicators with the contract.\<close>

context indicator_source begin

lemma never_stable: "valid s \<Longrightarrow> \<not> fless (fl binary32 (4 / 5)) (stability_of p s)"
  using at_most_half not_stable by blast

lemma memory_choice_by_headroom:
  assumes "valid s" "unat sz < 2 ^ 63"
  shows "memory_choice best sz hot (mobility_of p s) (stability_of p s) numa = VRAM \<longleftrightarrow>
    nodeNuma best = numa \<and> 2 * unat sz < unat (available_memory best)"
proof -
  have "unat (sz * 2) = 2 * unat sz" using assms(2) by (simp add: unat_word_ariths)
  then show ?thesis
    using never_stable [OF assms(1)] never_migrates [OF assms(1)] by (simp add: memory_choice_def word_less_nat_alt)
qed

lemma transport_choice_by_heat:
  "valid s \<Longrightarrow> transport_choice best hot (mobility_of p s) (stability_of p s) =
     (if hot then if rdma_support best then RDMA else UDP else RDMA_UDP)"
  using never_stable never_migrates by (simp add: transport_choice_def)

end

subsection \<open>Loading\<close>

lemma load_loop_prefix:
  "\<forall>y \<in> set pre. read_node yaml blank y = Done (f y) \<Longrightarrow>
     load_loop yaml blank env (pre @ rest) nodes =
       load_loop yaml blank env rest (nodes @ map (\<lambda>y. attach_client env (f y)) pre)"
  by (induction pre arbitrary: nodes) simp_all

lemma load_loop_appends:
  "load_loop yaml blank env ys nodes = (nodes', r) \<Longrightarrow> \<exists>new. nodes' = nodes @ new"
proof (induction ys arbitrary: nodes)
  case (Cons y ys)
  then show ?case by (cases "read_node yaml blank y") (auto, fastforce)
qed simp

lemma LoadConfig_appends:
  "LoadConfig yaml blank env False path nodes = Done (ok, nodes') \<Longrightarrow> \<exists>new. nodes' = nodes @ new"
  by (auto simp: LoadConfig_def split: exec.splits prod.splits dest: load_loop_appends)

lemma GetNodeById_Some: "GetNodeById False key nodes = Done (Some i) \<longleftrightarrow>
    i < length nodes \<and> nodeId (nodes ! i) = key \<and> (\<forall>j<i. nodeId (nodes ! j) \<noteq> key)"
  by (simp add: GetNodeById_def find_index_Some)

subsection \<open>Sample data for the witnesses\<close>

definition sample_node :: "string \<Rightarrow> i32 \<Rightarrow> u64 \<Rightarrow> remote_node" where
  "sample_node key prio mem = \<lparr>nodeId = key, nodeName = [], address = ''10.0.0.1'', roce_interface = [],
     priority = prio, total_memory = mem, available_memory = mem, network_latency = Fin 0, cpu_usage = Fin 0,
     gpu_utilization = Fin 0, nodeNuma = -1, zmq_port = 5555, launcher_client = Some (connected_to ''10.0.0.1''),
     rdma_support = True, nvlink_support = False, gdr_support = True, gpu_memory_utilization = Fin 0\<rparr>"

definition empty_plan :: alloc_plan where
  "empty_plan = \<lparr>targetNodeId = [], plan_error = CUDA_SUCCESS, memoryType = HOST, transportType = UDP,
     numaMatch = False, prefetchHint = False, gpuTopologyOptimal = False, triggerMigration = False,
     expandStableZone = False, gdrTransfer = False\<rparr>"

lemma sample_plausible: "0 < mem \<Longrightarrow> plausible (sample_node key prio mem)"
  by (simp add: plausible_def sample_node_def)

lemma sample_fields [simp]:
  "priority (sample_node key prio mem) = prio" "available_memory (sample_node key prio mem) = mem"
  "nodeId (sample_node key prio mem) = key" "address (sample_node key prio mem) = ''10.0.0.1''"
  "nodeNuma (sample_node key prio mem) = -1" "zmq_port (sample_node key prio mem) = 5555"
  by (simp_all add: sample_node_def)

lemma empty_plan_error [simp]: "plan_error empty_plan = CUDA_SUCCESS" "gdrTransfer empty_plan = False"
  by (simp_all add: empty_plan_def)

text \<open>Association lists as YAML nodes, with the integer reader of the standard library.\<close>

definition alist_yaml :: "(string \<times> string) list list \<Rightarrow> (string \<times> string) list yaml_api" where
  "alist_yaml ns = \<lparr>load_file = (\<lambda>_. Done ns),
     as_string = (\<lambda>y k. case map_of y k of Some v \<Rightarrow> Done v | None \<Rightarrow> Throws ''bad conversion''),
     as_string_or = (\<lambda>y k d. case map_of y k of Some v \<Rightarrow> Done v | None \<Rightarrow> Done d),
     as_int_or = (\<lambda>y k d. case map_of y k of Some v \<Rightarrow> stoi v | None \<Rightarrow> Done d),
     as_size_or = (\<lambda>y k d. case map_of y k of Some v \<Rightarrow> Done (of_nat (digits_value v)) | None \<Rightarrow> Done d)\<rparr>"

subsection \<open>Properties\<close>

text \<open>
  C1. The decision's search returns the first of the best nodes: the node has the requested memory
  and a score above -1, no such node scores higher, and every such node before it scores lower;
  it returns none exactly when no node has the memory and a score above -1. Scores that are not a
  number never win.
\<close>

theorem search_returns_first_maximum:
  "(best_node sz numa nodes = Some j \<longleftrightarrow>
      first_best (\<lambda>n. CalculateNodeScore n sz numa) sz (Fin (- 1)) nodes j) \<and>
   (best_node sz numa nodes = None \<longleftrightarrow>
      (\<forall>k. \<not> candidate (\<lambda>n. CalculateNodeScore n sz numa) sz (Fin (- 1)) nodes k))"
  by (simp add: best_node_def best_loop_Some_iff best_loop_None_iff)

text \<open>
  C2. For nodes with plausible data and a priority of at least -700 the decision reports
  \<open>CUDA_ERROR_OUT_OF_MEMORY\<close> exactly when no node has the requested memory; otherwise it reports
  success and names a node that has it.
\<close>

theorem out_of_memory_iff_nothing_fits:
  assumes "\<forall>n \<in> set nodes. plausible n \<and> -700 \<le> sint (priority n)" and "plan_error plan0 = CUDA_SUCCESS"
    and "plan = makeAllocationDecision plan0 cooling nodes ptr sz numa"
  shows "(plan_error plan = CUDA_ERROR_OUT_OF_MEMORY \<longleftrightarrow> (\<forall>n \<in> set nodes. available_memory n < sz)) \<and>
    (plan_error plan = CUDA_SUCCESS \<longleftrightarrow>
      (\<exists>n \<in> set nodes. targetNodeId plan = nodeId n \<and> sz \<le> available_memory n))"
proof (cases "best_node sz numa nodes")
  case None
  have "available_memory n < sz" if n: "n \<in> set nodes" for n
  proof (rule ccontr)
    assume "\<not> available_memory n < sz"
    moreover obtain k where "k < length nodes" "nodes ! k = n" using n by (auto simp: in_set_conv_nth)
    ultimately have "candidate (\<lambda>n. CalculateNodeScore n sz numa) sz (Fin (- 1)) nodes k"
      using assms(1) n by (simp add: candidate_def score_above_bound)
    with None show False by (simp add: best_node_def best_loop_None_iff)
  qed
  with None show ?thesis by (auto simp: assms(3) decision_None not_le [symmetric])
next
  case (Some i)
  then show ?thesis using best_node_less [OF Some] nth_mem [of i nodes]
    by (auto simp: assms(2,3) decision_Some not_less [symmetric])
qed

theorem out_of_memory_iff_nothing_fits_witness:
  "plan_error (makeAllocationDecision empty_plan new_cooling [sample_node ''a'' 50 1000] 0 2000 (-1)) =
     CUDA_ERROR_OUT_OF_MEMORY \<and>
   targetNodeId (makeAllocationDecision empty_plan new_cooling [sample_node ''a'' 50 1000] 0 500 (-1)) = ''a''"
proof -
  have ok: "\<forall>n \<in> set [sample_node ''a'' 50 1000]. plausible n \<and> -700 \<le> sint (priority n)"
    by (simp add: sample_plausible)
  note * = out_of_memory_iff_nothing_fits [OF ok empty_plan_error(1) refl, of new_cooling 0]
  have "plan_error (makeAllocationDecision empty_plan new_cooling [sample_node ''a'' 50 1000] 0 2000 (-1)) =
     CUDA_ERROR_OUT_OF_MEMORY" using * [of 2000 "- 1"] by simp
  moreover have "plan_error (makeAllocationDecision empty_plan new_cooling [sample_node ''a'' 50 1000] 0 500 (-1))
     \<noteq> CUDA_ERROR_OUT_OF_MEMORY" using * [of 500 "- 1"] by simp
  then have "plan_error (makeAllocationDecision empty_plan new_cooling [sample_node ''a'' 50 1000] 0 500 (-1))
     = CUDA_SUCCESS"
    by (cases "best_node 500 (-1) [sample_node ''a'' 50 1000]") (simp_all add: decision_None decision_Some)
  then have "targetNodeId (makeAllocationDecision empty_plan new_cooling [sample_node ''a'' 50 1000] 0 500 (-1)) = ''a''"
    using * [of 500 "- 1"] by simp
  ultimately show ?thesis by simp
qed

text \<open>
  A node whose priority is -4000 or less is never chosen, even when it is the only one and has
  the memory: its score is below the initial bound -1, so the decision reports
  \<open>CUDA_ERROR_OUT_OF_MEMORY\<close> although there is room.
\<close>

theorem low_priority_node_starves:
  assumes "plausible n" and "sint (priority n) \<le> -4000" and "sz \<le> available_memory n"
  shows "plan_error (makeAllocationDecision plan0 cooling [n] ptr sz numa) = CUDA_ERROR_OUT_OF_MEMORY"
proof -
  have "best_node sz numa [n] = None"
    using score_below_bound [OF assms(1,3,2)] by (simp add: best_node_def Let_def)
  then show ?thesis by (simp add: decision_None)
qed

theorem low_priority_node_starves_witness:
  "plan_error (makeAllocationDecision empty_plan new_cooling [sample_node ''a'' (-5000) 1000] 0 10 (-1)) =
     CUDA_ERROR_OUT_OF_MEMORY"
  by (rule low_priority_node_starves) (simp_all add: sample_plausible)

text \<open>
  C3. \<open>PickNode\<close> never returns a node: it holds the dispatcher's mutex when it calls
  \<open>GetNodeById\<close>, which locks the same non-recursive mutex. It returns null when no node can serve
  the request, and otherwise locks itself out, on every node list and every cooling state.
\<close>

theorem PickNode_relocks_its_mutex:
  assumes "plan_error plan0 = CUDA_SUCCESS"
  shows "PickNode plan0 cooling False nodes ptr req =
    (if best_node req (-1) nodes = None then Done None else UB RelockMutex)"
proof (cases "best_node req (-1) nodes")
  case None
  then show ?thesis by (simp add: PickNode_def Let_def decision_None)
next
  case (Some i)
  then show ?thesis using best_node_less [OF Some]
    by (auto simp: PickNode_def Let_def decision_Some assms GetNodeById_def)
qed

lemma sample_best: "sz \<le> mem \<Longrightarrow> 0 < mem \<Longrightarrow> best_node sz numa [sample_node key 50 mem] = Some 0"
  by (simp add: best_node_def Let_def score_above_bound sample_plausible)

theorem PickNode_relocks_its_mutex_witness:
  "PickNode empty_plan new_cooling False [] 0 8 = Done None \<and>
   PickNode empty_plan new_cooling False [sample_node ''a'' 50 1000] 0 8 = UB RelockMutex"
  using PickNode_relocks_its_mutex [OF empty_plan_error(1)] by (simp add: sample_best) (simp add: best_node_def)

text \<open>
  C11. With a cooling service in any reachable state, a decision never chooses local processing or
  GDR transfer (unless the fresh plan already had it), and it keeps data in video memory only on a
  node of the data's own NUMA number with more than twice the requested memory, as long as the
  doubled size does not wrap.
\<close>

theorem reachable_decisions:
  assumes "exp_ok env" and "cool_reachable env (t, cooling)" and "best_node sz numa nodes = Some i"
    and "unat sz < 2 ^ 63" and "plan = makeAllocationDecision plan0 cooling nodes ptr sz numa"
  shows "transportType plan \<noteq> LOCAL \<and> gdrTransfer plan = gdrTransfer plan0 \<and>
    (memoryType plan = VRAM \<longleftrightarrow> nodeNuma (nodes ! i) = getNumaId ptr cooling \<and>
       2 * unat sz < unat (available_memory (nodes ! i)))"
proof -
  have valid: "cooled_somehow cooling" using assms(1,2) by (auto simp: cooled_somehow_def)
  show ?thesis
    unfolding assms(5) decision_Some [OF assms(3)] cooled.memory_choice_by_headroom [OF valid assms(4)]
      cooled.transport_choice_by_heat [OF valid] by (simp add: cooled.never_migrates [OF valid])
qed

theorem reachable_decisions_witness:
  "memoryType (makeAllocationDecision empty_plan new_cooling [sample_node ''a'' 50 1000] 7 400 (-1)) = VRAM \<and>
   memoryType (makeAllocationDecision empty_plan new_cooling [sample_node ''a'' 50 1000] 7 500 (-1)) = HOST"
proof -
  note start = cool_reachable.start [of step_env 0]
  have numa: "getNumaId 7 new_cooling = -1" by (simp add: getNumaId_def new_cooling_def)
  have small: "unat (400 :: u64) < 2 ^ 63" "unat (500 :: u64) < 2 ^ 63" by simp_all
  have fits: "best_node 400 (-1) [sample_node ''a'' 50 1000] = Some 0"
    "best_node 500 (-1) [sample_node ''a'' 50 1000] = Some 0" by (simp_all add: sample_best)
  have *: "x = HOST" if "x \<noteq> VRAM" for x using that by (cases x) simp_all
  note reachable_decisions [OF step_env_ok start fits(1) small(1) refl, of empty_plan 7]
    reachable_decisions [OF step_env_ok start fits(2) small(2) refl, of empty_plan 7]
  then show ?thesis by (intro conjI *) (simp_all add: numa)
qed

text \<open>
  C36. Loading a configuration appends the nodes it could read, in order and each with a client for
  its address, to the nodes already there; it reports success exactly when every entry was read,
  and an entry that cannot be read stops it with the earlier ones kept.
\<close>

theorem LoadConfig_appends_what_it_reads:
  assumes "load_file yaml path = Done (pre @ rest)" and "\<forall>y \<in> set pre. read_node yaml blank y = Done (f y)"
    and "rest = [] \<or> (\<exists>e. read_node yaml blank (hd rest) = Throws e)"
  shows "LoadConfig yaml blank env False path nodes =
    Done (rest = [], nodes @ map (\<lambda>y. attach_client env (f y)) pre)"
proof (cases rest)
  case Nil
  then show ?thesis using assms(1) load_loop_prefix [OF assms(2), of env "[]" nodes]
    by (simp add: LoadConfig_def)
next
  case (Cons y ys)
  then show ?thesis using assms(1,3) load_loop_prefix [OF assms(2), of env rest nodes]
    by (auto simp: LoadConfig_def)
qed

definition sample_yaml :: "(string \<times> string) list list" where
  "sample_yaml = [[(''id'', ''n1''), (''address'', ''10.0.0.1''), (''memory'', ''64'')], [(''id'', ''n2'')]]"

theorem LoadConfig_appends_what_it_reads_witness:
  "\<exists>n. LoadConfig (alist_yaml sample_yaml) (sample_node [] 0 0) always_connects False ''f'' [] =
     Done (False, [attach_client always_connects n]) \<and> nodeId n = ''n1'' \<and> priority n = 50"
proof -
  let ?y = "alist_yaml sample_yaml" and ?blank = "sample_node [] 0 0"
  obtain n where n: "read_node ?y ?blank (hd sample_yaml) = Done n" "nodeId n = ''n1''" "priority n = 50"
    by (simp add: read_node_def alist_yaml_def sample_yaml_def)
  have "load_file ?y ''f'' = Done ([hd sample_yaml] @ tl sample_yaml)"
    by (simp add: alist_yaml_def sample_yaml_def)
  moreover have "\<forall>y \<in> set [hd sample_yaml]. read_node ?y ?blank y = Done n" using n(1) by simp
  moreover have "read_node ?y ?blank (hd (tl sample_yaml)) = Throws ''bad conversion''"
    by (simp add: read_node_def alist_yaml_def sample_yaml_def)
  ultimately show ?thesis
    using LoadConfig_appends_what_it_reads
      [of ?y "''f''" "[hd sample_yaml]" "tl sample_yaml" ?blank "\<lambda>_. n" "always_connects" "[]"] n(2,3)
    by (auto simp: sample_yaml_def)
qed

text \<open>
  A reload never updates a node: whatever the changed configuration says and whether or not
  it is read to the end, looking up an identifier that was known returns the same entry with the
  same contents, because the new entries come after the old ones.
\<close>

theorem reload_keeps_stale_nodes:
  assumes "GetNodeById False key nodes = Done (Some i)"
    and "LoadConfig yaml blank env False path nodes = Done (ok, nodes')"
  shows "GetNodeById False key nodes' = Done (Some i) \<and> nodes' ! i = nodes ! i"
proof -
  obtain new where "nodes' = nodes @ new" using LoadConfig_appends [OF assms(2)] by blast
  then show ?thesis using assms(1) unfolding GetNodeById_Some by (auto simp: nth_append)
qed

theorem reload_keeps_stale_nodes_witness:
  "\<exists>nodes'. LoadConfig (alist_yaml sample_yaml) (sample_node [] 0 0) always_connects False ''f''
      [sample_node ''n1'' 9 16] = Done (False, nodes') \<and>
     GetNodeById False ''n1'' nodes' = Done (Some 0) \<and> available_memory (nodes' ! 0) = 16"
proof -
  let ?nodes = "[sample_node ''n1'' 9 16]"
  obtain nodes' where load: "LoadConfig (alist_yaml sample_yaml) (sample_node [] 0 0) always_connects False ''f'' ?nodes
      = Done (False, nodes')"
    by (simp add: LoadConfig_def alist_yaml_def sample_yaml_def read_node_def)
  have "GetNodeById False ''n1'' ?nodes = Done (Some 0)" by (simp add: GetNodeById_Some)
  note stale = reload_keeps_stale_nodes [OF this load]
  then have "available_memory (nodes' ! 0) = 16" by simp
  with load stale show ?thesis by blast
qed

end
