(* ===== verification/RootService.thy ===== *)
theory RootService
  imports Dispatcher
begin

section \<open>The launcher's RPC service\<close>

text \<open>
  \<open>client/launcher/main.cpp\<close>: the handlers of \<open>RootService\<close> that hand out, plan and free remote
  allocations, as state passing on a record of the launcher's state, and their continuations,
  which run when the remote node answers. \<open>pending\<close> holds the continuations not yet run,
  \<open>sent\<close> the calls made to nodes, \<open>replies\<close> the results set in the call contexts, \<open>blocks\<close> the
  one-byte blocks of \<open>operator new\<close> whose addresses are the fake pointers. A pointer to a node is
  its position in the node list with the \<open>epoch\<close> of the list's storage: a reload that moves the
  storage ends the epoch, and a pointer of an earlier epoch dangles. The mapping operations of
  \<open>Dispatcher\<close> are declared but defined nowhere in the repository, so they are parameters with
  the contract \<open>alloc_table\<close>; \<open>GlobalMemoryService\<close>, which has that contract, instantiates them.

  The handlers attach a continuation with \<open>.then\<close> to what a node's client returns, while the
  methods of \<open>LauncherClient\<close> block in \<open>wait()\<close> until the node answers. The continuations are
  modelled as written; \<open>blocking_allocation\<close> and \<open>blocking_free\<close> are the runs in which the answer is
  the next thing that happens, and every state they lead to is reached by the steps below, so that
  what holds of all reachable states holds with either kind of client.
\<close>

record memcpy_plan =
  targetServerIp :: string
  targetServerZmqPort :: u16
  remotePtr :: u64
  memcpy_error :: cu_result

datatype reply = AllocReply u64 cu_result | FreeReply cu_result | PlanReply memcpy_plan

datatype remote_call = RemoteAlloc u64 | RemoteFree u64

record alloc_response =
  resp_error :: cu_result
  resp_size :: u64
  resp_handle :: u64

datatype continuation = AllocThen nat nat nat | FreeThen nat u64

record 't root =
  table :: 't
  nodes :: "remote_node list"
  epoch :: nat
  blocks :: "u64 list"
  pending :: "continuation list"
  sent :: "(string \<times> remote_call) list"
  replies :: "(nat \<times> reply) list"

definition set_result :: "nat \<Rightarrow> reply \<Rightarrow> 't root \<Rightarrow> 't root" where
  "set_result ctx r s = s\<lparr>replies := replies s @ [(ctx, r)]\<rparr>"

text \<open>
  A call to a node goes through its client: without one, or without a connection, it dereferences
  a null pointer, and without a capability the runtime throws. The value is where it goes.
\<close>

definition node_call :: "remote_node \<Rightarrow> node_request \<Rightarrow> string exec" where
  "node_call n req =
     (case launcher_client n of
        None \<Rightarrow> UB NullDeref
      | Some c \<Rightarrow> exec_bind (node_wait (\<lambda>_. Done (m_address c, 0)) c req) (\<lambda>r. Done (fst r)))"

lemma node_call_unfold: "node_call n req =
    (case launcher_client n of
       None \<Rightarrow> UB NullDeref
     | Some c \<Rightarrow> if m_rpcClient c = None then UB NullDeref
               else if m_client c = None then Throws ''kj::Exception'' else Done (m_address c))"
  by (auto simp: node_call_def node_wait_def split: option.split)

lemma node_call_client: "launcher_client n = Some c \<Longrightarrow> node_call n req =
    (if m_rpcClient c = None then UB NullDeref
     else if m_client c = None then Throws ''kj::Exception'' else Done (m_address c))"
  by (simp add: node_call_unfold)

text \<open>Following a node pointer: its storage must not have been moved since it was taken.\<close>

definition node_at :: "nat \<Rightarrow> nat \<Rightarrow> 't root \<Rightarrow> remote_node exec" where
  "node_at i ep s =
     (if ep \<noteq> epoch s then UB DanglingPointer
      else if length (nodes s) \<le> i then UB OutOfBounds else Done (nodes s ! i))"

lemma set_result_inj: "set_result ctx r s = set_result ctx r' s \<Longrightarrow> r = r'"
  by (drule arg_cong [of _ _ replies]) (simp add: set_result_def)

subsection \<open>Handlers\<close>

definition requestAllocation ::
    "(remote_node list \<Rightarrow> u64 \<Rightarrow> nat option exec) \<Rightarrow> nat \<Rightarrow> u64 \<Rightarrow> 't root \<Rightarrow> 't root exec" where
  "requestAllocation pick ctx req s =
     exec_bind (pick (nodes s) req) (\<lambda>node.
       case node of
         None \<Rightarrow> Done (set_result ctx (AllocReply 0 CUDA_ERROR_OUT_OF_MEMORY) s)
       | Some i \<Rightarrow>
           exec_bind (node_at i (epoch s) s) (\<lambda>n.
           exec_bind (node_call n (NodeAllocation req)) (\<lambda>target.
             Done (s\<lparr>sent := sent s @ [(target, RemoteAlloc req)],
                     pending := pending s @ [AllocThen ctx i (epoch s)]\<rparr>))))"

definition allocation_then :: "(u64 \<Rightarrow> remote_alloc \<Rightarrow> 't \<Rightarrow> 't) \<Rightarrow> nat \<Rightarrow> nat \<Rightarrow> nat \<Rightarrow>
    alloc_response \<Rightarrow> u64 \<Rightarrow> 't root \<Rightarrow> 't root exec" where
  "allocation_then add ctx i ep response new_block s =
     (if resp_error response \<noteq> CUDA_SUCCESS
      then Done (set_result ctx (AllocReply 0 (resp_error response)) s)
      else let s1 = s\<lparr>blocks := new_block # blocks s\<rparr>
           in exec_bind (node_at i ep s1) (\<lambda>n.
                let info = \<lparr>node_id = nodeId n, alloc_size = resp_size response,
                            remote_handle = resp_handle response\<rparr>;
                    s2 = s1\<lparr>table := add new_block info (table s1)\<rparr>
                in Done (set_result ctx (AllocReply new_block CUDA_SUCCESS) s2)))"

definition requestFree :: "(u64 \<Rightarrow> 't \<Rightarrow> remote_alloc option \<times> 't) \<Rightarrow> nat \<Rightarrow> u64 \<Rightarrow> 't root \<Rightarrow> 't root exec" where
  "requestFree get ctx fakePtr s =
     (case get fakePtr (table s) of
        (None, t) \<Rightarrow> Done (set_result ctx (FreeReply CUDA_ERROR_INVALID_VALUE) (s\<lparr>table := t\<rparr>))
      | (Some info, t) \<Rightarrow>
          exec_bind (GetNodeById False (node_id info) (nodes s)) (\<lambda>node.
            case node of
              None \<Rightarrow> Done (set_result ctx (FreeReply CUDA_ERROR_INVALID_VALUE) (s\<lparr>table := t\<rparr>))
            | Some i \<Rightarrow>
                exec_bind (node_call (nodes s ! i) (NodeFree (remote_handle info))) (\<lambda>target.
                  Done (s\<lparr>table := t,
                          sent := sent s @ [(target, RemoteFree (remote_handle info))],
                          pending := pending s @ [FreeThen ctx fakePtr]\<rparr>))))"

definition free_then :: "(u64 \<Rightarrow> 't \<Rightarrow> 't) \<Rightarrow> nat \<Rightarrow> u64 \<Rightarrow> cu_result \<Rightarrow> 't root \<Rightarrow> 't root exec" where
  "free_then rem ctx fakePtr error s =
     (let s1 = s\<lparr>table := rem fakePtr (table s)\<rparr>
      in if fakePtr \<notin> set (blocks s1) then UB BadDelete
         else Done (set_result ctx (FreeReply error) (s1\<lparr>blocks := remove1 fakePtr (blocks s1)\<rparr>)))"

definition initPlan :: memcpy_plan where
  "initPlan = \<lparr>targetServerIp = [], targetServerZmqPort = 0, remotePtr = 0, memcpy_error = 0\<rparr>"

definition planMemcpyHtoD :: "(u64 \<Rightarrow> 't \<Rightarrow> remote_alloc option \<times> 't) \<Rightarrow> nat \<Rightarrow> u64 \<Rightarrow> u64 \<Rightarrow>
    't root \<Rightarrow> 't root exec" where
  "planMemcpyHtoD get ctx dstFakePtr req s =
     (case get dstFakePtr (table s) of
        (None, t) \<Rightarrow>
          Done (set_result ctx (PlanReply (initPlan\<lparr>memcpy_error := CUDA_ERROR_INVALID_VALUE\<rparr>)) (s\<lparr>table := t\<rparr>))
      | (Some info, t) \<Rightarrow>
          exec_bind (GetNodeById False (node_id info) (nodes s)) (\<lambda>node.
            case node of
              None \<Rightarrow>
                Done (set_result ctx (PlanReply (initPlan\<lparr>memcpy_error := CUDA_ERROR_INVALID_VALUE\<rparr>)) (s\<lparr>table := t\<rparr>))
            | Some i \<Rightarrow>
                (let plan = initPlan\<lparr>targetServerIp := address (nodes s ! i),
                              targetServerZmqPort := zmq_port (nodes s ! i),
                              remotePtr := remote_handle info, memcpy_error := CUDA_SUCCESS\<rparr>
                 in Done (set_result ctx (PlanReply plan) (s\<lparr>table := t\<rparr>)))))"

subsection \<open>The configuration watcher and the start\<close>

text \<open>
  One turn of \<open>ConfigWatcher\<close>: the file's write time may fail to be read (caught and logged); a
  changed time reloads, and is remembered whatever \<open>LoadConfig\<close> returned. \<open>moved\<close> says whether
  appending moved the node list's storage.
\<close>

definition watch_turn :: "(remote_node list \<Rightarrow> (bool \<times> remote_node list) exec) \<Rightarrow> bool \<Rightarrow> nat exec \<Rightarrow>
    nat \<times> 't root \<Rightarrow> (nat \<times> 't root) exec" where
  "watch_turn load moved write_time c =
     (case c of (seen, s) \<Rightarrow>
       (case write_time of
          Throws e \<Rightarrow> Done (seen, s)
        | UB u \<Rightarrow> UB u
        | Done current \<Rightarrow>
            (if current = seen then Done (seen, s)
             else case load (nodes s) of
                Done (ok, nodes') \<Rightarrow>
                  Done (current, s\<lparr>nodes := nodes', epoch := (if moved then Suc (epoch s) else epoch s)\<rparr>)
              | Throws e \<Rightarrow> Done (seen, s)
              | UB u \<Rightarrow> UB u)))"

text \<open>\<open>main\<close> up to the serving loop: the result of loading the configuration is not looked at.\<close>

definition start_launcher :: "'t \<Rightarrow> (remote_node list \<Rightarrow> (bool \<times> remote_node list) exec) \<Rightarrow> 't root exec" where
  "start_launcher t0 load =
     exec_bind (load []) (\<lambda>(ok, ns).
       Done \<lparr>table = t0, nodes = ns, epoch = 0, blocks = [], pending = [], sent = [], replies = []\<rparr>)"

subsection \<open>Runs of the service\<close>

text \<open>
  A step is a call, an answer to one of the pending continuations (an allocator never returns null
  or an allocated block), or a turn of the watcher. The result may be a fault. A handler that
  throws is answered by the runtime with an exception, and the process goes on: a free keeps what
  its lookup did to the table (\<open>thrown_free\<close>), an allocation changed nothing.
\<close>

definition drop_nth :: "nat \<Rightarrow> 'a list \<Rightarrow> 'a list" where
  "drop_nth k xs = take k xs @ drop (Suc k) xs"

inductive rpc_step :: "(u64 \<Rightarrow> remote_alloc \<Rightarrow> 't \<Rightarrow> 't) \<Rightarrow> (u64 \<Rightarrow> 't \<Rightarrow> remote_alloc option \<times> 't) \<Rightarrow>
    (u64 \<Rightarrow> 't \<Rightarrow> 't) \<Rightarrow> (remote_node list \<Rightarrow> u64 \<Rightarrow> nat option exec) \<Rightarrow> 't root \<Rightarrow> 't root exec \<Rightarrow> bool"
  for add get rem pick where
  call_alloc: "rpc_step add get rem pick s (requestAllocation pick ctx req s)"
| call_free: "rpc_step add get rem pick s (requestFree get ctx p s)"
| call_plan: "rpc_step add get rem pick s (planMemcpyHtoD get ctx p req s)"
| thrown_free: "requestFree get ctx p s = Throws e \<Longrightarrow>
     rpc_step add get rem pick s (Done (s\<lparr>table := snd (get p (table s))\<rparr>))"
| alloc_answer: "k < length (pending s) \<Longrightarrow> pending s ! k = AllocThen ctx i ep \<Longrightarrow>
     new_block \<noteq> 0 \<Longrightarrow> new_block \<notin> set (blocks s) \<Longrightarrow>
     rpc_step add get rem pick s
       (allocation_then add ctx i ep response new_block (s\<lparr>pending := drop_nth k (pending s)\<rparr>))"
| free_answer: "k < length (pending s) \<Longrightarrow> pending s ! k = FreeThen ctx p \<Longrightarrow>
     rpc_step add get rem pick s (free_then rem ctx p error (s\<lparr>pending := drop_nth k (pending s)\<rparr>))"
| watch: "\<forall>ns ok ns'. load ns = Done (ok, ns') \<longrightarrow> (\<exists>new. ns' = ns @ new) \<Longrightarrow> watch_turn load moved time (seen, s) = Done (seen', s') \<Longrightarrow> rpc_step add get rem pick s (Done s')"

inductive rpc_reachable :: "(u64 \<Rightarrow> remote_alloc \<Rightarrow> 't \<Rightarrow> 't) \<Rightarrow> (u64 \<Rightarrow> 't \<Rightarrow> remote_alloc option \<times> 't) \<Rightarrow>
    (u64 \<Rightarrow> 't \<Rightarrow> 't) \<Rightarrow> (remote_node list \<Rightarrow> u64 \<Rightarrow> nat option exec) \<Rightarrow> 't root \<Rightarrow> 't root \<Rightarrow> bool"
  for add get rem pick s0 where
  start: "rpc_reachable add get rem pick s0 s0"
| step: "rpc_reachable add get rem pick s0 s \<Longrightarrow> rpc_step add get rem pick s (Done s') \<Longrightarrow>
     rpc_reachable add get rem pick s0 s'"

inductive_cases rpc_stepE: "rpc_step add get rem pick s r"

text \<open>The handlers when the client waits for its node's answer.\<close>

definition blocking_allocation :: "(u64 \<Rightarrow> remote_alloc \<Rightarrow> 't \<Rightarrow> 't) \<Rightarrow>
    (remote_node list \<Rightarrow> u64 \<Rightarrow> nat option exec) \<Rightarrow> nat \<Rightarrow> u64 \<Rightarrow> alloc_response \<Rightarrow> u64 \<Rightarrow> 't root \<Rightarrow> 't root exec" where
  "blocking_allocation add pick ctx req response new_block s =
     exec_bind (requestAllocation pick ctx req s) (\<lambda>s1.
       case drop (length (pending s)) (pending s1) of
         [AllocThen c i ep] \<Rightarrow>
           allocation_then add c i ep response new_block (s1\<lparr>pending := drop_nth (length (pending s)) (pending s1)\<rparr>)
       | _ \<Rightarrow> Done s1)"

definition blocking_free :: "(u64 \<Rightarrow> 't \<Rightarrow> remote_alloc option \<times> 't) \<Rightarrow> (u64 \<Rightarrow> 't \<Rightarrow> 't) \<Rightarrow> nat \<Rightarrow> u64 \<Rightarrow> cu_result \<Rightarrow>
    't root \<Rightarrow> 't root exec" where
  "blocking_free get rem ctx fakePtr error s =
     exec_bind (requestFree get ctx fakePtr s) (\<lambda>s1.
       case drop (length (pending s)) (pending s1) of
         [FreeThen c p] \<Rightarrow> free_then rem c p error (s1\<lparr>pending := drop_nth (length (pending s)) (pending s1)\<rparr>)
       | _ \<Rightarrow> Done s1)"

lemma drop_single: "drop n xs = [x] \<Longrightarrow> n < length xs \<and> xs ! n = x"
  by (metis append_take_drop_id drop_all length_take linorder_not_less list.distinct(1) min.absorb4 nth_append_length)

lemma blocking_free_reachable:
  assumes "rpc_reachable add get rem pick s0 s" "blocking_free get rem ctx p error s = Done s'"
  shows "rpc_reachable add get rem pick s0 s'"
proof -
  obtain s1 where s1: "requestFree get ctx p s = Done s1"
    using assms(2) by (auto simp: blocking_free_def exec_simps)
  have r1: "rpc_reachable add get rem pick s0 s1"
    by (rule rpc_reachable.step [OF assms(1)]) (metis s1 rpc_step.call_free)
  have "s' = s1 \<or> (\<exists>c q. drop (length (pending s)) (pending s1) = [FreeThen c q] \<and>
      free_then rem c q error (s1\<lparr>pending := drop_nth (length (pending s)) (pending s1)\<rparr>) = Done s')"
    using assms(2) s1 by (auto simp: blocking_free_def split: list.splits continuation.splits)
  then show ?thesis
    using r1 by (metis drop_single rpc_reachable.step rpc_step.free_answer)
qed

lemma blocking_allocation_reachable:
  assumes "rpc_reachable add get rem pick s0 s" "new_block \<noteq> 0" "new_block \<notin> set (blocks s)"
    and "blocking_allocation add pick ctx req response new_block s = Done s'"
  shows "rpc_reachable add get rem pick s0 s'"
proof -
  obtain s1 where s1: "requestAllocation pick ctx req s = Done s1"
    using assms(4) by (auto simp: blocking_allocation_def exec_simps)
  have r1: "rpc_reachable add get rem pick s0 s1"
    by (rule rpc_reachable.step [OF assms(1)]) (metis s1 rpc_step.call_alloc)
  have "blocks s1 = blocks s"
    using s1 by (auto simp: requestAllocation_def exec_simps set_result_def split: option.splits)
  moreover have "s' = s1 \<or> (\<exists>c i ep. drop (length (pending s)) (pending s1) = [AllocThen c i ep] \<and>
      allocation_then add c i ep response new_block (s1\<lparr>pending := drop_nth (length (pending s)) (pending s1)\<rparr>) = Done s')"
    using assms(4) s1 by (auto simp: blocking_allocation_def split: list.splits continuation.splits)
  ultimately show ?thesis
    using r1 assms(2,3) by (metis drop_single rpc_reachable.step rpc_step.alloc_answer)
qed

lemma set_result_simps [simp]:
  "table (set_result ctx r s) = table s" "nodes (set_result ctx r s) = nodes s"
  "epoch (set_result ctx r s) = epoch s" "blocks (set_result ctx r s) = blocks s"
  "pending (set_result ctx r s) = pending s" "sent (set_result ctx r s) = sent s"
  "replies (set_result ctx r s) = replies s @ [(ctx, r)]"
  by (simp_all add: set_result_def)

lemma watch_turn_keeps:
  "watch_turn load moved time (seen, s) = Done (seen', s') \<Longrightarrow>
     table s' = table s \<and> blocks s' = blocks s \<and> pending s' = pending s \<and> replies s' = replies s \<and> sent s' = sent s"
  by (auto simp: watch_turn_def split: exec.splits if_splits)

subsection \<open>What holds of any allocation table\<close>

context alloc_table begin

definition mapped :: "'t \<Rightarrow> u64 set" where
  "mapped t = {p. fst (get p t) \<noteq> None}"

lemma mapped_add [simp]: "mapped (add p a t) = insert p (mapped t)"
  by (auto simp: mapped_def get_add)

lemma mapped_rem [simp]: "mapped (rem p t) = mapped t - {p}"
  by (auto simp: mapped_def get_rem)

lemma mapped_get: "get p t = (r, t') \<Longrightarrow> mapped t' = mapped t"
  using get_get [of _ p t] by (auto simp: mapped_def)

definition blocks_inv :: "'t root \<Rightarrow> bool" where
  "blocks_inv s \<longleftrightarrow> mapped (table s) = set (blocks s) \<and> distinct (blocks s) \<and> 0 \<notin> set (blocks s)"

lemma requestAllocation_keeps:
  "requestAllocation pick ctx req s = Done s' \<Longrightarrow> table s' = table s \<and> blocks s' = blocks s"
  by (auto simp: requestAllocation_def exec_simps split: option.splits if_splits)

lemma requestFree_keeps:
  "requestFree get ctx p s = Done s' \<Longrightarrow> mapped (table s') = mapped (table s) \<and> blocks s' = blocks s"
  by (auto simp: requestFree_def exec_simps mapped_get split: prod.splits option.splits if_splits)

lemma planMemcpyHtoD_keeps:
  "planMemcpyHtoD get ctx p req s = Done s' \<Longrightarrow> mapped (table s') = mapped (table s) \<and> blocks s' = blocks s"
  by (auto simp: planMemcpyHtoD_def exec_simps mapped_get Let_def split: prod.splits option.splits if_splits)

lemma allocation_then_ok:
  assumes "allocation_then add ctx i ep response b s = Done s'" "resp_error response = CUDA_SUCCESS"
  shows "ep = epoch s" and "table s' = add b \<lparr>node_id = nodeId (nodes s ! i), alloc_size = resp_size response,
           remote_handle = resp_handle response\<rparr> (table s)"
    and "blocks s' = b # blocks s" and "nodes s' = nodes s" and "epoch s' = epoch s"
    and "replies s' = replies s @ [(ctx, AllocReply b CUDA_SUCCESS)]" and "i < length (nodes s)"
    and "pending s' = pending s" and "sent s' = sent s"
proof -
  show "ep = epoch s" "i < length (nodes s)"
    using assms by (simp_all add: allocation_then_def node_at_def Let_def split: if_splits)
  with assms have "s' = set_result ctx (AllocReply b CUDA_SUCCESS)
      (s\<lparr>blocks := b # blocks s, table := add b \<lparr>node_id = nodeId (nodes s ! i), alloc_size = resp_size response,
           remote_handle = resp_handle response\<rparr> (table s)\<rparr>)"
    by (simp add: allocation_then_def node_at_def Let_def)
  then show "table s' = add b \<lparr>node_id = nodeId (nodes s ! i), alloc_size = resp_size response,
           remote_handle = resp_handle response\<rparr> (table s)" "blocks s' = b # blocks s" "nodes s' = nodes s"
    "epoch s' = epoch s" "replies s' = replies s @ [(ctx, AllocReply b CUDA_SUCCESS)]"
    "pending s' = pending s" "sent s' = sent s" by simp_all
qed

lemma allocation_then_error:
  "resp_error response \<noteq> CUDA_SUCCESS \<Longrightarrow> allocation_then add ctx i ep response b s =
     Done (set_result ctx (AllocReply 0 (resp_error response)) s)"
  by (simp add: allocation_then_def Let_def)

lemma allocation_then_inv:
  assumes "blocks_inv s" "new_block \<noteq> 0" "new_block \<notin> set (blocks s)"
    and "allocation_then add ctx i ep response new_block s = Done s'"
  shows "blocks_inv s'"
proof (cases "resp_error response = CUDA_SUCCESS")
  case True
  show ?thesis using assms(1-3) by (simp add: blocks_inv_def allocation_then_ok(2,3) [OF assms(4) True])
next
  case False
  then have "s' = set_result ctx (AllocReply 0 (resp_error response)) s"
    using assms(4) by (simp add: allocation_then_error)
  then show ?thesis using assms(1) by (simp add: blocks_inv_def)
qed

lemma free_then_ok:
  assumes "free_then rem ctx p error s = Done s'"
  shows "p \<in> set (blocks s)" and "s' = set_result ctx (FreeReply error)
      (s\<lparr>table := rem p (table s), blocks := remove1 p (blocks s)\<rparr>)"
proof -
  show p: "p \<in> set (blocks s)" using assms by (simp add: free_then_def Let_def split: if_splits)
  show "s' = set_result ctx (FreeReply error) (s\<lparr>table := rem p (table s), blocks := remove1 p (blocks s)\<rparr>)"
    using assms p by (simp add: free_then_def Let_def)
qed

lemma free_then_inv:
  assumes "blocks_inv s" "free_then rem ctx p error s = Done s'"
  shows "blocks_inv s'"
proof -
  have "table s' = rem p (table s)" "blocks s' = remove1 p (blocks s)"
    using free_then_ok [OF assms(2)] by simp_all
  then show ?thesis using assms(1) by (auto simp: blocks_inv_def set_remove1_eq)
qed

lemma rpc_step_inv:
  assumes "rpc_step add get rem pick s (Done s')" "blocks_inv s"
  shows "blocks_inv s'"
  using assms(1)
proof (cases rule: rpc_step.cases)
  case (alloc_answer k ctx i ep new_block response)
  have "blocks_inv (s\<lparr>pending := drop_nth k (pending s)\<rparr>)" using assms(2) by (simp add: blocks_inv_def)
  from allocation_then_inv [OF this] alloc_answer show ?thesis by auto
next
  case (free_answer k ctx p error)
  have "blocks_inv (s\<lparr>pending := drop_nth k (pending s)\<rparr>)" using assms(2) by (simp add: blocks_inv_def)
  from free_then_inv [OF this] free_answer show ?thesis by auto
next
  case (call_alloc ctx req)
  show ?thesis using requestAllocation_keeps [OF call_alloc [symmetric]] assms(2) by (simp add: blocks_inv_def)
next
  case (call_free ctx p)
  show ?thesis using requestFree_keeps [OF call_free [symmetric]] assms(2) by (simp add: blocks_inv_def)
next
  case (call_plan ctx p req)
  show ?thesis using planMemcpyHtoD_keeps [OF call_plan [symmetric]] assms(2) by (simp add: blocks_inv_def)
next
  case (watch load moved time seen seen')
  then show ?thesis using watch_turn_keeps [OF watch(2)] assms(2) by (simp add: blocks_inv_def)
next
  case (thrown_free ctx p e)
  then show ?thesis using assms(2) mapped_get [of p "table s"] by (cases "get p (table s)") (simp add: blocks_inv_def)
qed

lemma rpc_reachable_inv:
  "rpc_reachable add get rem pick s0 s \<Longrightarrow> blocks_inv s0 \<Longrightarrow> blocks_inv s"
  by (induction rule: rpc_reachable.induct) (auto intro: rpc_step_inv)

lemma plan_of_mapped:
  assumes "fst (get p (table s)) = Some info" "GetNodeById False (node_id info) (nodes s) = Done (Some i)"
  shows "\<exists>s'. planMemcpyHtoD get ctx p req s = Done s' \<and> replies s' = replies s @ [(ctx, PlanReply
    \<lparr>targetServerIp = address (nodes s ! i), targetServerZmqPort = zmq_port (nodes s ! i),
     remotePtr = remote_handle info, memcpy_error = CUDA_SUCCESS\<rparr>)]"
  using assms by (auto simp: planMemcpyHtoD_def initPlan_def split: prod.splits)

end

subsection \<open>The launcher as started, on the table of the memory service\<close>

definition fresh_launcher :: "nat \<Rightarrow> remote_node list \<Rightarrow> global_memory root" where
  "fresh_launcher now ns = \<lparr>table = empty_memory now, nodes = ns, epoch = 0, blocks = [], pending = [],
                           sent = [], replies = []\<rparr>"

lemma fresh_launcher_start:
  "load [] = Done (ok, ns) \<Longrightarrow> start_launcher (empty_memory now) load = Done (fresh_launcher now ns)"
  by (simp add: start_launcher_def fresh_launcher_def)

lemma fresh_mapped: "gm.mapped (table (fresh_launcher now ns)) = {}"
  by (simp add: gm.mapped_def fresh_launcher_def gm_get_result gm_view_def empty_memory_def)

lemma fresh_inv: "gm.blocks_inv (fresh_launcher now ns)"
  using fresh_mapped by (simp add: gm.blocks_inv_def) (simp add: fresh_launcher_def)

abbreviation gm_reachable :: "(remote_node list \<Rightarrow> u64 \<Rightarrow> nat option exec) \<Rightarrow> nat \<Rightarrow> remote_node list \<Rightarrow>
    global_memory root \<Rightarrow> bool" where
  "gm_reachable pick now ns \<equiv> rpc_reachable gm_add gm_get RemoveMapping pick (fresh_launcher now ns)"

lemma gm_reachable_inv: "gm_reachable pick now ns s \<Longrightarrow> gm.blocks_inv s"
  by (rule gm.rpc_reachable_inv [OF _ fresh_inv])

lemma gm_get_cases: "\<exists>t. gm_get p s = (fst (gm_get p s), t)"
  by (cases "gm_get p s") simp

lemma unmapped_get: "p \<notin> gm.mapped t \<Longrightarrow> \<exists>t'. gm_get p t = (None, t')"
  by (cases "gm_get p t") (simp add: gm.mapped_def)

text \<open>With the code's own choice of a node nothing is ever sent, so nothing is pending or mapped.\<close>

definition code_pick :: "alloc_plan \<Rightarrow> cooling_service \<Rightarrow> remote_node list \<Rightarrow> u64 \<Rightarrow> nat option exec" where
  "code_pick plan0 cooling ns req = PickNode plan0 cooling False ns 0 req"

lemma code_pick_cases:
  assumes "plan_error plan0 = CUDA_SUCCESS"
  shows "code_pick plan0 cooling ns req = Done None \<or> code_pick plan0 cooling ns req = UB RelockMutex"
proof (cases "ns = []")
  case False
  then show ?thesis
    by (auto simp: code_pick_def PickNode_def GetNodeById_def Let_def)
qed (simp add: code_pick_def PickNode_def)

definition idle :: "global_memory root \<Rightarrow> bool" where
  "idle s \<longleftrightarrow> pending s = [] \<and> gm.mapped (table s) = {} \<and> blocks s = [] \<and> sent s = []"

lemma idle_step:
  assumes "rpc_step gm_add gm_get RemoveMapping (code_pick plan0 cooling) s (Done s')" "idle s"
    and "plan_error plan0 = CUDA_SUCCESS"
  shows "idle s'"
  using assms(1)
proof (cases rule: rpc_step.cases)
  case (call_alloc ctx req)
  then show ?thesis using assms(2) code_pick_cases [OF assms(3), of cooling "nodes s" req]
    by (auto simp: requestAllocation_def idle_def)
next
  case (call_free ctx p)
  obtain t where "gm_get p (table s) = (None, t)" "gm.mapped t = {}"
    using unmapped_get [of p "table s"] gm.mapped_get assms(2) by (fastforce simp: idle_def)
  then show ?thesis using call_free assms(2) by (simp add: requestFree_def idle_def)
next
  case (call_plan ctx p req)
  obtain t where "gm_get p (table s) = (None, t)" "gm.mapped t = {}"
    using unmapped_get [of p "table s"] gm.mapped_get assms(2) by (fastforce simp: idle_def)
  then show ?thesis using call_plan assms(2) by (simp add: planMemcpyHtoD_def idle_def)
next
  case (watch load moved time seen seen')
  then show ?thesis using watch_turn_keeps [OF watch(2)] assms(2) by (simp add: idle_def)
next
  case (thrown_free ctx p e)
  obtain t where "gm_get p (table s) = (None, t)" "gm.mapped t = {}"
    using unmapped_get [of p "table s"] gm.mapped_get assms(2) by (fastforce simp: idle_def)
  then show ?thesis using thrown_free assms(2) by (simp add: idle_def)
qed (use assms(2) in \<open>simp_all add: idle_def\<close>)

lemma idle_reachable:
  "gm_reachable (code_pick plan0 cooling) now ns s \<Longrightarrow> plan_error plan0 = CUDA_SUCCESS \<Longrightarrow> idle s"
proof (induction rule: rpc_reachable.induct)
  case start
  show ?case using fresh_mapped by (simp add: idle_def) (simp add: fresh_launcher_def)
next
  case (step s s')
  then show ?case by (blast intro: idle_step)
qed

text \<open>A launcher with one node before and after an allocation, for the witnesses.\<close>

definition sample_pick :: "remote_node list \<Rightarrow> u64 \<Rightarrow> nat option exec" where
  "sample_pick ns req = Done (Some 0)"

definition sample_launcher :: "global_memory root" where
  "sample_launcher = fresh_launcher 0 [sample_node ''a'' 50 1000]"

definition sample_response :: alloc_response where
  "sample_response = \<lparr>resp_error = CUDA_SUCCESS, resp_size = 64, resp_handle = 77\<rparr>"

definition sample_waiting :: "global_memory root" where
  "sample_waiting = sample_launcher\<lparr>sent := [(''10.0.0.1'', RemoteAlloc 64)], pending := [AllocThen 1 0 0]\<rparr>"

definition sample_allocated :: "global_memory root" where
  "sample_allocated = set_result 1 (AllocReply 4096 CUDA_SUCCESS) (sample_waiting\<lparr>pending := [],
     blocks := [4096], table := gm_add 4096 \<lparr>node_id = ''a'', alloc_size = 64, remote_handle = 77\<rparr> (empty_memory 0)\<rparr>)"

lemma sample_launcher_simps [simp]:
  "nodes sample_launcher = [sample_node ''a'' 50 1000]" "pending sample_launcher = []"
  "sent sample_launcher = []" "epoch sample_launcher = 0" "blocks sample_launcher = []"
  "table sample_launcher = empty_memory 0" "launcher_client (sample_node key prio mem) = Some (connected_to ''10.0.0.1'')"
  by (simp_all add: sample_launcher_def fresh_launcher_def sample_node_def)

lemma sample_call [simp]: "node_call (sample_node key prio mem) req = Done ''10.0.0.1''"
  by (simp add: node_call_client)

lemma sample_answer: "allocation_then gm_add 1 0 0 sample_response 4096 (sample_waiting\<lparr>pending := []\<rparr>) =
    Done sample_allocated"
  by (simp add: allocation_then_def node_at_def sample_response_def sample_waiting_def sample_allocated_def Let_def)

lemma sample_waiting_reachable: "gm_reachable sample_pick 0 [sample_node ''a'' 50 1000] sample_waiting"
proof (rule rpc_reachable.step [OF rpc_reachable.start])
  have "requestAllocation sample_pick 1 64 sample_launcher = Done sample_waiting"
    by (simp add: requestAllocation_def sample_pick_def sample_waiting_def node_at_def)
  then show "rpc_step gm_add gm_get RemoveMapping sample_pick
      (fresh_launcher 0 [sample_node ''a'' 50 1000]) (Done sample_waiting)"
    using rpc_step.call_alloc [of gm_add gm_get RemoveMapping sample_pick sample_launcher 1 64]
    by (simp add: sample_launcher_def)
qed

lemma sample_reachable: "gm_reachable sample_pick 0 [sample_node ''a'' 50 1000] sample_allocated"
proof (rule rpc_reachable.step [OF sample_waiting_reachable])
  show "rpc_step gm_add gm_get RemoveMapping sample_pick sample_waiting (Done sample_allocated)"
  proof -
    have p: "pending sample_waiting = [AllocThen 1 0 0]" "blocks sample_waiting = []"
      by (simp_all add: sample_waiting_def)
    show ?thesis
      using rpc_step.alloc_answer [of 0 sample_waiting 1 0 0 4096 gm_add gm_get RemoveMapping sample_pick sample_response]
      by (simp add: p drop_nth_def sample_answer [unfolded One_nat_def])
  qed
qed

lemma sample_get: "fst (gm_get 4096 (table sample_allocated)) =
    Some \<lparr>node_id = ''a'', alloc_size = 64, remote_handle = 77\<rparr>"
  by (simp add: sample_allocated_def gm.get_add)

lemma sample_nodes: "nodes sample_allocated = [sample_node ''a'' 50 1000]" "blocks sample_allocated = [4096]"
  by (simp_all add: sample_allocated_def sample_waiting_def)

subsection \<open>Properties\<close>

text \<open>
  C4. In every reachable state of the launcher, with whatever rule for choosing nodes, the mapped
  fake pointers are exactly the addresses of the allocated blocks, no block is listed twice and
  none is null: a fake pointer is valid exactly from its allocation's answer to its free's answer.
\<close>

theorem fake_pointers_are_live_blocks:
  assumes "gm_reachable pick now ns s"
  shows "{p. fst (gm_get p (table s)) \<noteq> None} = set (blocks s) \<and> distinct (blocks s) \<and> 0 \<notin> set (blocks s)"
  using gm_reachable_inv [OF assms] by (simp add: gm.blocks_inv_def gm.mapped_def)

theorem fake_pointers_are_live_blocks_witness:
  "{p. fst (gm_get p (table sample_allocated)) \<noteq> None} = {4096}"
  using fake_pointers_are_live_blocks [OF sample_reachable] by (simp add: sample_nodes)

text \<open>
  C9. With the code's \<open>PickNode\<close> no allocation ever succeeds: in every reachable state nothing was
  sent, mapped or allocated, and a further request either answers out of memory with a null
  pointer or never returns from the mutex.
\<close>

theorem no_allocation_ever_succeeds:
  assumes "plan_error plan0 = CUDA_SUCCESS" and "gm_reachable (code_pick plan0 cooling) now ns s"
  shows "blocks s = [] \<and> sent s = [] \<and>
    (requestAllocation (code_pick plan0 cooling) ctx req s = UB RelockMutex \<or>
     requestAllocation (code_pick plan0 cooling) ctx req s =
       Done (set_result ctx (AllocReply 0 CUDA_ERROR_OUT_OF_MEMORY) s))"
  using idle_reachable [OF assms(2,1)] code_pick_cases [OF assms(1), of cooling "nodes s" req]
  by (auto simp: idle_def requestAllocation_def)

theorem no_allocation_ever_succeeds_witness:
  "requestAllocation (code_pick empty_plan new_cooling) 1 64 sample_launcher \<noteq>
     Done (set_result 1 (AllocReply 9 CUDA_SUCCESS) sample_launcher)"
proof -
  have "gm_reachable (code_pick empty_plan new_cooling) 0 [sample_node ''a'' 50 1000] sample_launcher"
    unfolding sample_launcher_def by (rule rpc_reachable.start)
  from no_allocation_ever_succeeds [OF empty_plan_error(1) this, of 1 64] show ?thesis
    by (auto dest!: set_result_inj)
qed

text \<open>
  A fake pointer that is not allocated, in particular one whose free was answered, is refused:
  \<open>requestFree\<close> and \<open>planMemcpyHtoD\<close> answer \<open>CUDA_ERROR_INVALID_VALUE\<close>, send nothing and leave
  blocks and continuations alone.
\<close>

theorem unallocated_pointer_is_refused:
  assumes "gm_reachable pick now ns s" and "p \<notin> set (blocks s)"
  shows "(\<exists>t. requestFree gm_get ctx p s =
       Done (set_result ctx (FreeReply CUDA_ERROR_INVALID_VALUE) (s\<lparr>table := t\<rparr>))) \<and>
    (\<exists>t. planMemcpyHtoD gm_get ctx p req s =
       Done (set_result ctx (PlanReply (initPlan\<lparr>memcpy_error := CUDA_ERROR_INVALID_VALUE\<rparr>)) (s\<lparr>table := t\<rparr>)))"
proof -
  have "p \<notin> gm.mapped (table s)" using gm_reachable_inv [OF assms(1)] assms(2) by (simp add: gm.blocks_inv_def)
  then obtain t where "gm_get p (table s) = (None, t)" using unmapped_get by blast
  then show ?thesis by (auto simp: requestFree_def planMemcpyHtoD_def)
qed

theorem unallocated_pointer_is_refused_witness:
  "\<exists>t. requestFree gm_get 2 8 sample_allocated =
     Done (set_result 2 (FreeReply CUDA_ERROR_INVALID_VALUE) (sample_allocated\<lparr>table := t\<rparr>))"
  using unallocated_pointer_is_refused [OF sample_reachable, of 8 2] by (simp add: sample_nodes)

text \<open>
  C12. After a successful allocation the plan and the free of the new pointer go to the first node of
  the list with the identifier of the node that answered, which after a reload need not be that
  node: planning a copy names the first node's address and transfer port and the remote handle,
  and freeing sends the handle through the first node's client, unless that client has no
  connection, which is a null dereference, or no capability, which is an exception.
\<close>

theorem allocation_is_found_again:
  assumes "allocation_then gm_add ctx i ep response b s = Done s'" and "resp_error response = CUDA_SUCCESS"
  shows "\<exists>j \<le> i. nodeId (nodes s' ! j) = nodeId (nodes s ! i) \<and>
    list_all (\<lambda>n. nodeId n \<noteq> nodeId (nodes s ! i)) (take j (nodes s')) \<and>
    (\<exists>s2. planMemcpyHtoD gm_get c2 b req s' = Done s2 \<and> replies s2 = replies s' @ [(c2, PlanReply
      \<lparr>targetServerIp = address (nodes s' ! j), targetServerZmqPort = zmq_port (nodes s' ! j),
       remotePtr = resp_handle response, memcpy_error = CUDA_SUCCESS\<rparr>)]) \<and>
    requestFree gm_get c3 b s' =
      (case launcher_client (nodes s' ! j) of
         None \<Rightarrow> UB NullDeref
       | Some c \<Rightarrow>
           if m_rpcClient c = None then UB NullDeref
           else if m_client c = None then Throws ''kj::Exception''
           else Done (s'\<lparr>table := snd (gm_get b (table s')),
                        sent := sent s' @ [(m_address c, RemoteFree (resp_handle response))],
                        pending := pending s' @ [FreeThen c3 b]\<rparr>))"
proof -
  note ok = gm.allocation_then_ok [OF assms]
  let ?key = "nodeId (nodes s ! i)"
  let ?info = "\<lparr>node_id = ?key, alloc_size = resp_size response, remote_handle = resp_handle response\<rparr>"
  have get: "fst (gm_get b (table s')) = Some ?info" by (simp only: ok(2) gm.get_after_add)
  have "find_index (\<lambda>n. nodeId n = ?key) (nodes s') \<noteq> None"
    using ok(4,7) by (auto simp: find_index_None)
  then obtain j where "GetNodeById False ?key (nodes s') = Done (Some j)"
    by (auto simp: GetNodeById_def)
  then have node: "GetNodeById False (node_id ?info) (nodes s') = Done (Some j)" by simp
  then have j: "j < length (nodes s')" "nodeId (nodes s' ! j) = ?key" "\<forall>k<j. nodeId (nodes s' ! k) \<noteq> ?key"
    by (simp_all add: GetNodeById_Some)
  have "j \<le> i" using j(3) ok(4) by (metis linorder_not_less)
  moreover have "list_all (\<lambda>n. nodeId n \<noteq> ?key) (take j (nodes s'))"
    using j(1,3) by (simp add: list_all_length)
  moreover have "requestFree gm_get c3 b s' =
      exec_bind (node_call (nodes s' ! j) (NodeFree (resp_handle response))) (\<lambda>target.
        Done (s'\<lparr>table := snd (gm_get b (table s')), sent := sent s' @ [(target, RemoteFree (resp_handle response))],
                pending := pending s' @ [FreeThen c3 b]\<rparr>))"
    using get node by (cases "gm_get b (table s')") (simp add: requestFree_def)
  ultimately show ?thesis using j(2) gm.plan_of_mapped [OF get node, of c2 req]
    by (intro exI [of _ j]) (auto simp: node_call_unfold split: option.split)
qed

theorem allocation_is_found_again_witness:
  "(\<exists>s. planMemcpyHtoD gm_get 2 4096 16 sample_allocated = Done s \<and>
     (2, PlanReply \<lparr>targetServerIp = ''10.0.0.1'', targetServerZmqPort = 5555, remotePtr = 77,
                    memcpy_error = CUDA_SUCCESS\<rparr>) \<in> set (replies s)) \<and>
   (\<exists>s. requestFree gm_get 3 4096 sample_allocated = Done s \<and> (''10.0.0.1'', RemoteFree 77) \<in> set (sent s))"
proof -
  have "allocation_then gm_add 1 0 0 sample_response 4096 (sample_waiting\<lparr>pending := []\<rparr>) = Done sample_allocated"
    by (rule sample_answer)
  from allocation_is_found_again [OF this, of 2 16 3] show ?thesis
    by (auto simp: sample_response_def sample_nodes)
qed

text \<open>
  Two entries of one identifier, of which the first never connected: an allocation that the second
  one answered cannot be freed.
\<close>

definition stale_node :: remote_node where
  "stale_node = (sample_node ''a'' 50 1000)\<lparr>launcher_client := Some (LauncherClient ''10.0.0.1'')\<rparr>"

lemma free_through_stale_node:
  "\<exists>s. allocation_then gm_add 1 1 0 sample_response 4096 (fresh_launcher 0 [stale_node, sample_node ''a'' 50 1000])
       = Done s \<and> requestFree gm_get 2 4096 s = UB NullDeref"
proof -
  let ?s0 = "fresh_launcher 0 [stale_node, sample_node ''a'' 50 1000]"
  have ns: "nodes ?s0 = [stale_node, sample_node ''a'' 50 1000]" "epoch ?s0 = 0" by (simp_all add: fresh_launcher_def)
  obtain s where s: "allocation_then gm_add 1 1 0 sample_response 4096 ?s0 = Done s"
    by (simp add: allocation_then_def node_at_def ns sample_response_def Let_def)
  have ok: "resp_error sample_response = CUDA_SUCCESS" by (simp add: sample_response_def)
  note after = gm.allocation_then_ok [OF s ok]
  have node: "GetNodeById False ''a'' (nodes s) = Done (Some 0)"
    by (simp add: GetNodeById_Some after(4) ns) (simp add: stale_node_def)
  have "fst (gm_get 4096 (table s)) = Some \<lparr>node_id = ''a'', alloc_size = 64, remote_handle = 77\<rparr>"
    by (simp add: after(2) ns gm.get_after_add) (simp add: sample_response_def)
  moreover have "node_call (nodes s ! 0) req = UB NullDeref" for req
    by (simp only: after(4) ns nth_Cons_0) (simp add: node_call_client stale_node_def LauncherClient_def)
  ultimately show ?thesis using s node
    by (cases "gm_get 4096 (table s)") (auto simp: requestFree_def)
qed

text \<open>
  A reload that moves the node list while an allocation waits for its answer leaves its
  continuation with a dangling node pointer: a successful answer then reads freed memory.
\<close>

theorem reload_leaves_dangling_node:
  assumes "watch_turn load True (Done time) (seen, s) = Done (seen', s')" and "time \<noteq> seen"
    and "load (nodes s) = Done (ok, ns')" and "resp_error response = CUDA_SUCCESS"
  shows "allocation_then add ctx i (epoch s) response b s' = UB DanglingPointer"
  using assms by (auto simp: watch_turn_def allocation_then_def node_at_def Let_def)

theorem reload_leaves_dangling_node_witness:
  "\<exists>s. watch_turn (\<lambda>ns. Done (True, ns @ [sample_node ''b'' 50 10])) True (Done 2) (1, sample_waiting) = Done (2, s) \<and>
     allocation_then gm_add 1 0 0 sample_response 4096 s = UB DanglingPointer"
proof -
  obtain s where s: "watch_turn (\<lambda>ns. Done (True, ns @ [sample_node ''b'' 50 10])) True (Done 2)
      (1, sample_waiting) = Done (2, s)"
    by (simp add: watch_turn_def)
  from reload_leaves_dangling_node [OF this, of True _ sample_response gm_add 1 0 4096] s show ?thesis
    by (auto simp: sample_response_def sample_waiting_def)
qed

end
