(* ===== verification/Launcher.thy ===== *)
theory Launcher
  imports RootService Services
begin

section \<open>The launcher process\<close>

text \<open>
  \<open>client/launcher/main.cpp\<close> as a whole: the state of the RPC service together with the managers of
  the generic services, the write time the configuration watcher has seen, and what the health
  thread prints. The four handlers of \<open>GenericServices\<close> forward to the services; \<open>launcher_step\<close>
  interleaves calls, answers of nodes, turns of the watcher and turns of the health thread. The
  managers and \<open>PerformHealthCheck\<close> are defined nowhere in the repository and are parameters
  (\<open>managers\<close>).
\<close>

datatype generic_reply =
  AllocateMemoryReply memory_results | FreeMemoryReply ack | TransferReply ack | AdviseReply service_code

record ('mm, 'tm, 'cm, 'h) managers =
  m_allocate :: "u64 \<Rightarrow> u32 \<Rightarrow> 'mm \<Rightarrow> allocation exec \<times> 'mm"
  m_free :: "u64 \<Rightarrow> 'mm \<Rightarrow> unit exec \<times> 'mm"
  m_executeTransfer :: "'h \<Rightarrow> 'h \<Rightarrow> u64 \<Rightarrow> manager_type \<Rightarrow> 'tm \<Rightarrow> unit exec \<times> 'tm"
  m_setPreferredLocation :: "u64 \<Rightarrow> u64 \<Rightarrow> 'cm \<Rightarrow> unit exec \<times> 'cm"
  m_markAccessedBy :: "u64 \<Rightarrow> u64 \<Rightarrow> 'cm \<Rightarrow> unit exec \<times> 'cm"
  m_PerformHealthCheck :: "remote_node list \<Rightarrow> remote_node list exec"

record ('t, 'mm, 'tm, 'cm) launcher =
  root :: "'t root"
  memoryManager :: 'mm
  transportManager :: 'tm
  coolingService :: 'cm
  generic_replies :: "(nat \<times> generic_reply) list"
  lastWriteTime :: nat
  node_report :: "(string \<times> u64 \<times> fval) list"

subsection \<open>The handlers that forward\<close>

definition root_allocateMemory :: "('mm, 'tm, 'cm, 'h) managers \<Rightarrow> nat \<Rightarrow> u64 \<Rightarrow> u32 \<Rightarrow>
    ('t, 'mm, 'tm, 'cm) launcher \<Rightarrow> ('t, 'mm, 'tm, 'cm) launcher exec" where
  "root_allocateMemory ms ctx len hint s =
     exec_bind (allocateMemory (m_allocate ms) len hint (memoryManager s)) (\<lambda>(r, m).
       Done (s\<lparr>memoryManager := m, generic_replies := generic_replies s @ [(ctx, AllocateMemoryReply r)]\<rparr>))"

definition root_freeMemory :: "('mm, 'tm, 'cm, 'h) managers \<Rightarrow> nat \<Rightarrow> u64 \<Rightarrow>
    ('t, 'mm, 'tm, 'cm) launcher \<Rightarrow> ('t, 'mm, 'tm, 'cm) launcher exec" where
  "root_freeMemory ms ctx handle s =
     exec_bind (freeMemory (m_free ms) handle (memoryManager s)) (\<lambda>(a, m).
       Done (s\<lparr>memoryManager := m, generic_replies := generic_replies s @ [(ctx, FreeMemoryReply a)]\<rparr>))"

definition root_executeTransfer :: "('mm, 'tm, 'cm, 'h) managers \<Rightarrow> nat \<Rightarrow> 'h \<Rightarrow> 'h \<Rightarrow> u64 \<Rightarrow> wire_type \<Rightarrow>
    ('t, 'mm, 'tm, 'cm) launcher \<Rightarrow> ('t, 'mm, 'tm, 'cm) launcher exec" where
  "root_executeTransfer ms ctx src dst len ty s =
     exec_bind (executeTransfer (m_executeTransfer ms) src dst len ty (transportManager s)) (\<lambda>(a, m).
       Done (s\<lparr>transportManager := m, generic_replies := generic_replies s @ [(ctx, TransferReply a)]\<rparr>))"

definition root_handleMemAdvise :: "('mm, 'tm, 'cm, 'h) managers \<Rightarrow> nat \<Rightarrow> u64 \<Rightarrow> u64 \<Rightarrow> u32 \<Rightarrow>
    ('t, 'mm, 'tm, 'cm) launcher \<Rightarrow> ('t, 'mm, 'tm, 'cm) launcher exec" where
  "root_handleMemAdvise ms ctx ptr len advice s =
     exec_bind (handleMemAdvise (m_setPreferredLocation ms) (m_markAccessedBy ms) ptr len advice (coolingService s))
       (\<lambda>(c, m). Done (s\<lparr>coolingService := m, generic_replies := generic_replies s @ [(ctx, AdviseReply c)]\<rparr>))"

subsection \<open>Starting\<close>

text \<open>
  The watcher reads the file's write time once before its loop, outside the \<open>try\<close>: an exception there
  leaves a thread's function, which ends the program.
\<close>

definition ConfigWatcher_start :: "nat exec \<Rightarrow> nat exec" where
  "ConfigWatcher_start write_time =
     (case write_time of Done t \<Rightarrow> Done t | Throws e \<Rightarrow> UB Terminated | UB u \<Rightarrow> UB u)"

definition launcher_main :: "'t \<Rightarrow> 'mm \<Rightarrow> 'tm \<Rightarrow> 'cm \<Rightarrow> (remote_node list \<Rightarrow> (bool \<times> remote_node list) exec) \<Rightarrow>
    nat exec \<Rightarrow> ('t, 'mm, 'tm, 'cm) launcher exec" where
  "launcher_main t0 mm tm cm load write_time =
     exec_bind (start_launcher t0 load) (\<lambda>r.
     exec_bind (ConfigWatcher_start write_time) (\<lambda>seen.
       Done \<lparr>root = r, memoryManager = mm, transportManager = tm, coolingService = cm, generic_replies = [],
             lastWriteTime = seen, node_report = []\<rparr>))"

subsection \<open>Turns of the two threads\<close>

definition ConfigWatcher_turn :: "(remote_node list \<Rightarrow> (bool \<times> remote_node list) exec) \<Rightarrow> bool \<Rightarrow> nat exec \<Rightarrow>
    ('t, 'mm, 'tm, 'cm) launcher \<Rightarrow> ('t, 'mm, 'tm, 'cm) launcher exec" where
  "ConfigWatcher_turn load moved write_time s =
     exec_bind (watch_turn load moved write_time (lastWriteTime s, root s)) (\<lambda>(seen, r).
       Done (s\<lparr>root := r, lastWriteTime := seen\<rparr>))"

definition health_turn :: "('mm, 'tm, 'cm, 'h) managers \<Rightarrow> ('t, 'mm, 'tm, 'cm) launcher \<Rightarrow>
    ('t, 'mm, 'tm, 'cm) launcher exec" where
  "health_turn ms s =
     (case exec_bind (m_PerformHealthCheck ms (nodes (root s))) (\<lambda>checked.
             exec_bind (GetNodes False checked) (\<lambda>ns. Done (checked, ns))) of
        Done (checked, ns) \<Rightarrow>
          Done (s\<lparr>root := (root s)\<lparr>nodes := checked\<rparr>,
                  node_report := node_report s @ map (\<lambda>n. (nodeId n, available_memory n, gpu_utilization n)) ns\<rparr>)
      | Throws e \<Rightarrow> UB Terminated
      | UB u \<Rightarrow> UB u)"

subsection \<open>Runs of the process\<close>

definition on_root :: "('t root \<Rightarrow> 't root exec) \<Rightarrow> ('t, 'mm, 'tm, 'cm) launcher \<Rightarrow>
    ('t, 'mm, 'tm, 'cm) launcher exec" where
  "on_root f s = exec_bind (f (root s)) (\<lambda>r. Done (s\<lparr>root := r\<rparr>))"

text \<open>
  One step of a launcher on the table of the memory service, which loads its configuration with
  \<open>LoadConfig\<close>.
\<close>

inductive launcher_step :: "(remote_node list \<Rightarrow> u64 \<Rightarrow> nat option exec) \<Rightarrow> ('mm, 'tm, 'cm, 'h) managers \<Rightarrow>
    'y yaml_api \<Rightarrow> (global_memory, 'mm, 'tm, 'cm) launcher \<Rightarrow> (global_memory, 'mm, 'tm, 'cm) launcher exec \<Rightarrow> bool"
  for pick ms yaml where
  call_alloc: "launcher_step pick ms yaml s (on_root (requestAllocation pick ctx req) s)"
| call_free: "launcher_step pick ms yaml s (on_root (requestFree gm_get ctx p) s)"
| call_plan: "launcher_step pick ms yaml s (on_root (planMemcpyHtoD gm_get ctx p req) s)"
| thrown_free: "requestFree gm_get ctx p (root s) = Throws e \<Longrightarrow> launcher_step pick ms yaml s
     (Done (s\<lparr>root := (root s)\<lparr>table := snd (gm_get p (table (root s)))\<rparr>\<rparr>))"
| alloc_answer: "k < length (pending (root s)) \<Longrightarrow> pending (root s) ! k = AllocThen ctx i ep \<Longrightarrow>
     new_block \<noteq> 0 \<Longrightarrow> new_block \<notin> set (blocks (root s)) \<Longrightarrow> launcher_step pick ms yaml s
       (on_root (\<lambda>r. allocation_then gm_add ctx i ep response new_block (r\<lparr>pending := drop_nth k (pending r)\<rparr>)) s)"
| free_answer: "k < length (pending (root s)) \<Longrightarrow> pending (root s) ! k = FreeThen ctx p \<Longrightarrow>
     launcher_step pick ms yaml s
       (on_root (\<lambda>r. free_then RemoveMapping ctx p error (r\<lparr>pending := drop_nth k (pending r)\<rparr>)) s)"
| generic_allocate: "launcher_step pick ms yaml s (root_allocateMemory ms ctx len hint s)"
| generic_free: "launcher_step pick ms yaml s (root_freeMemory ms ctx h s)"
| generic_transfer: "launcher_step pick ms yaml s (root_executeTransfer ms ctx src dst len ty s)"
| generic_advise: "launcher_step pick ms yaml s (root_handleMemAdvise ms ctx p len advice s)"
| watch: "launcher_step pick ms yaml s
     (ConfigWatcher_turn (LoadConfig yaml blank env False path) moved write_time s)"
| health: "launcher_step pick ms yaml s (health_turn ms s)"

inductive launcher_reachable :: "(remote_node list \<Rightarrow> u64 \<Rightarrow> nat option exec) \<Rightarrow> ('mm, 'tm, 'cm, 'h) managers \<Rightarrow>
    'y yaml_api \<Rightarrow> (global_memory, 'mm, 'tm, 'cm) launcher \<Rightarrow> (global_memory, 'mm, 'tm, 'cm) launcher \<Rightarrow> bool"
  for pick ms yaml s0 where
  started: "launcher_reachable pick ms yaml s0 s0"
| stepped: "launcher_reachable pick ms yaml s0 s \<Longrightarrow> launcher_step pick ms yaml s (Done s') \<Longrightarrow>
     launcher_reachable pick ms yaml s0 s'"

subsection \<open>Well-formed states\<close>

text \<open>
  What is assumed of \<open>PerformHealthCheck\<close>, of which the repository has only the call and, above it
  in \<open>main.cpp\<close>, the comment that it monitors memory and GPU utilisation: it measures the nodes of
  the list in place, and what is not measured stays.
\<close>

definition unmeasured :: "remote_node \<Rightarrow> remote_node" where
  "unmeasured n = n\<lparr>available_memory := 0, network_latency := Fin 0, cpu_usage := Fin 0, gpu_utilization := Fin 0\<rparr>"

definition check_measures :: "('mm, 'tm, 'cm, 'h) managers \<Rightarrow> bool" where
  "check_measures ms \<longleftrightarrow>
     (\<forall>ns ns'. m_PerformHealthCheck ms ns = Done ns' \<longrightarrow> map unmeasured ns' = map unmeasured ns)"

lemma unmeasured_eq:
  assumes "unmeasured n' = unmeasured n"
  shows "nodeId n' = nodeId n" "address n' = address n" "launcher_client n' = launcher_client n"
  using arg_cong [OF assms, of nodeId] arg_cong [OF assms, of address] arg_cong [OF assms, of launcher_client]
  by (simp_all add: unmeasured_def)

text \<open>
  A node's client was made for the node's address; it is usable when it is connected and has the
  capability. A waiting allocation holds a node pointer of the present storage, or of one the
  list has left since; in the first case it points at a node of the list, whose client is usable
  and to whose address the request went. A waiting free was sent to the address of a node. An
  entry of the table names a node of the list.
\<close>

definition client_ok :: "remote_node \<Rightarrow> bool" where
  "client_ok n = (case launcher_client n of None \<Rightarrow> False | Some c \<Rightarrow> m_address c = address n)"

definition usable :: "remote_node \<Rightarrow> bool" where
  "usable n = (case launcher_client n of None \<Rightarrow> False | Some c \<Rightarrow> m_rpcClient c \<noteq> None \<and> m_client c \<noteq> None)"

fun waiting_ok :: "'t root \<Rightarrow> continuation \<Rightarrow> bool" where
  "waiting_ok s (AllocThen ctx i ep) = (ep \<le> epoch s \<and> (ep = epoch s \<longrightarrow> i < length (nodes s) \<and>
     usable (nodes s ! i) \<and> list_ex (\<lambda>(a, c). a = address (nodes s ! i) \<and> (\<exists>len. c = RemoteAlloc len)) (sent s)))"
| "waiting_ok s (FreeThen ctx p) =
     list_ex (\<lambda>(a, c). a \<in> address ` set (nodes s) \<and> (\<exists>h. c = RemoteFree h)) (sent s)"

definition refs_ok :: "(u64 \<Rightarrow> 't \<Rightarrow> remote_alloc option \<times> 't) \<Rightarrow> 't root \<Rightarrow> bool" where
  "refs_ok get s \<longleftrightarrow> list_all (waiting_ok s) (pending s) \<and>
     (\<forall>p info. fst (get p (table s)) = Some info \<longrightarrow> node_id info \<in> nodeId ` set (nodes s)) \<and>
     list_all client_ok (nodes s)"

text \<open>How a state may differ from an earlier one: nodes are only added and measured, calls only added.\<close>

definition later :: "'t root \<Rightarrow> 't root \<Rightarrow> bool" where
  "later s s' \<longleftrightarrow> epoch s \<le> epoch s' \<and> length (nodes s) \<le> length (nodes s') \<and>
     (\<forall>i < length (nodes s). unmeasured (nodes s' ! i) = unmeasured (nodes s ! i)) \<and> set (sent s) \<subseteq> set (sent s')"

lemma later_same: "epoch s' = epoch s \<Longrightarrow> nodes s' = nodes s \<Longrightarrow> set (sent s) \<subseteq> set (sent s') \<Longrightarrow> later s s'"
  by (simp add: later_def)

lemma later_image:
  assumes "later s s'"
  shows "nodeId ` set (nodes s) \<subseteq> nodeId ` set (nodes s')" "address ` set (nodes s) \<subseteq> address ` set (nodes s')"
proof -
  have *: "nodes s' ! i \<in> set (nodes s') \<and> nodeId (nodes s' ! i) = nodeId (nodes s ! i) \<and>
      address (nodes s' ! i) = address (nodes s ! i)" if "i < length (nodes s)" for i
    using that assms unmeasured_eq [of "nodes s' ! i" "nodes s ! i"] by (simp add: later_def)
  show "nodeId ` set (nodes s) \<subseteq> nodeId ` set (nodes s')" "address ` set (nodes s) \<subseteq> address ` set (nodes s')"
    using * by (metis image_eqI image_subsetI in_set_conv_nth)+
qed

lemma waiting_ok_later:
  assumes "waiting_ok s c" "later s s'"
  shows "waiting_ok s' c"
proof (cases c)
  case (AllocThen ctx i ep)
  show ?thesis
  proof (cases "ep = epoch s'")
    case True
    then have now: "ep = epoch s" using assms by (auto simp: AllocThen later_def)
    with assms(1) have i: "i < length (nodes s)" "usable (nodes s ! i)" by (simp_all add: AllocThen)
    then have same: "unmeasured (nodes s' ! i) = unmeasured (nodes s ! i)" "i < length (nodes s')"
      using assms(2) by (simp_all add: later_def)
    obtain len where "(address (nodes s ! i), RemoteAlloc len) \<in> set (sent s')"
      using assms now by (auto simp: AllocThen list_ex_iff later_def)
    then show ?thesis using i same True unmeasured_eq [OF same(1)]
      by (auto simp: AllocThen list_ex_iff usable_def)
  qed (use assms in \<open>auto simp: AllocThen later_def\<close>)
next
  case (FreeThen ctx p)
  have "set (sent s) \<subseteq> set (sent s')" using assms(2) by (simp add: later_def)
  then show ?thesis using assms(1) later_image(2) [OF assms(2)] by (fastforce simp: FreeThen list_ex_iff)
qed

lemma refs_okD: "refs_ok get s \<Longrightarrow> fst (get p (table s)) = Some info \<Longrightarrow> node_id info \<in> nodeId ` set (nodes s)"
  by (simp add: refs_ok_def)

lemma refs_ok_later:
  assumes "refs_ok get s" "later s s'" "list_all client_ok (nodes s')"
    and "\<And>c. c \<in> set (pending s') \<Longrightarrow> c \<in> set (pending s) \<or> waiting_ok s' c"
    and "\<And>p info. fst (get p (table s')) = Some info \<Longrightarrow>
      fst (get p (table s)) = Some info \<or> node_id info \<in> nodeId ` set (nodes s')"
  shows "refs_ok get s'"
proof -
  have "waiting_ok s' c" if "c \<in> set (pending s')" for c
    using assms(4) [OF that] assms(1) waiting_ok_later [OF _ assms(2)] by (auto simp: refs_ok_def list_all_iff)
  moreover have "node_id info \<in> nodeId ` set (nodes s')" if "fst (get p (table s')) = Some info" for p info
    using assms(5) [OF that] refs_okD [OF assms(1)] later_image(1) [OF assms(2)] by blast
  ultimately show ?thesis using assms(3) by (simp add: refs_ok_def list_all_iff)
qed

lemma drop_nth_subset: "set (drop_nth k xs) \<subseteq> set xs"
  by (auto simp: drop_nth_def dest: in_set_takeD in_set_dropD)

lemma GetNodeById_known: "key \<in> nodeId ` set ns \<Longrightarrow> \<exists>i. GetNodeById False key ns = Done (Some i) \<and> i < length ns"
proof -
  assume "key \<in> nodeId ` set ns"
  then have "find_index (\<lambda>n. nodeId n = key) ns \<noteq> None" by (auto simp: find_index_None)
  then show ?thesis
    by (cases "find_index (\<lambda>n. nodeId n = key) ns") (auto simp: GetNodeById_def find_index_Some)
qed

lemma node_call_sent:
  "node_call n req = Done a \<Longrightarrow> client_ok n \<Longrightarrow> usable n \<and> a = address n"
  by (auto simp: node_call_unfold client_ok_def usable_def split: option.splits if_splits)

context alloc_table begin

lemma requestAllocation_refs:
  assumes "refs_ok get s" "requestAllocation pick ctx req s = Done s'"
  shows "refs_ok get s'"
proof -
  have clients: "list_all client_ok (nodes s)" using assms(1) by (simp add: refs_ok_def)
  consider "s' = set_result ctx (AllocReply 0 CUDA_ERROR_OUT_OF_MEMORY) s" |
    (sent) i target where "i < length (nodes s)" "node_call (nodes s ! i) (NodeAllocation req) = Done target"
      "s' = s\<lparr>sent := sent s @ [(target, RemoteAlloc req)], pending := pending s @ [AllocThen ctx i (epoch s)]\<rparr>"
  proof -
    obtain node where node: "pick (nodes s) req = Done node" using assms(2) by (auto simp: requestAllocation_def exec_simps)
    show ?thesis
    proof (cases node)
      case None
      then show ?thesis using that(1) assms(2) node by (simp add: requestAllocation_def)
    next
      case (Some i)
      then show ?thesis using assms(2) node
        by (auto simp: requestAllocation_def node_at_def exec_simps split: if_splits intro: that(2) [of i])
    qed
  qed
  then show ?thesis
  proof cases
    case sent
    have "usable (nodes s ! i) \<and> target = address (nodes s ! i)"
      using node_call_sent [OF sent(2)] clients sent(1) by (simp add: list_all_length)
    then have "waiting_ok s' (AllocThen ctx i (epoch s))" using sent(1,3) by simp
    moreover have "later s s'" using sent(3) by (intro later_same) auto
    ultimately show ?thesis using sent(3) clients by (intro refs_ok_later [OF assms(1)]) auto
  qed (use assms(1) clients in \<open>auto intro!: refs_ok_later [OF assms(1)] later_same\<close>)
qed

lemma requestFree_refs:
  assumes "refs_ok get s" "requestFree get ctx p s = Done s'"
  shows "refs_ok get s'"
proof -
  have clients: "list_all client_ok (nodes s)" using assms(1) by (simp add: refs_ok_def)
  obtain info t where t: "get p (table s) = (info, t)" by force
  have look: "fst (get q t) = fst (get q (table s))" for q using get_get [of q p "table s"] t by simp
  consider "s' = set_result ctx (FreeReply CUDA_ERROR_INVALID_VALUE) (s\<lparr>table := t\<rparr>)" |
    (sent) i target h where "i < length (nodes s)" "node_call (nodes s ! i) (NodeFree h) = Done target"
      "s' = s\<lparr>table := t, sent := sent s @ [(target, RemoteFree h)], pending := pending s @ [FreeThen ctx p]\<rparr>"
    using assms(2) t by (auto simp: requestFree_def GetNodeById_Some exec_simps split: option.splits)
  then show ?thesis
  proof cases
    case sent
    have "target = address (nodes s ! i)"
      using node_call_sent [OF sent(2)] clients sent(1) by (simp add: list_all_length)
    then have "waiting_ok s' (FreeThen ctx p)" using sent(1,3) by simp
    moreover have "later s s'" using sent(3) by (intro later_same) auto
    ultimately show ?thesis using sent(3) clients look by (intro refs_ok_later [OF assms(1)]) auto
  qed (use assms(1) clients look in \<open>auto intro!: refs_ok_later [OF assms(1)] later_same\<close>)
qed

lemma lookup_refs:
  assumes "refs_ok get s" "get p (table s) = (r, t)" "nodes s' = nodes s" "epoch s' = epoch s" "sent s' = sent s"
    "pending s' = pending s" "table s' = t"
  shows "refs_ok get s'"
proof -
  have "fst (get q t) = fst (get q (table s))" for q using get_get [of q p "table s"] assms(2) by simp
  then show ?thesis using assms
    by (intro refs_ok_later [OF assms(1)]) (auto intro!: later_same simp: refs_ok_def)
qed

lemma planMemcpyHtoD_state:
  assumes "planMemcpyHtoD get ctx p req s = Done s'"
  shows "nodes s' = nodes s \<and> epoch s' = epoch s \<and> sent s' = sent s \<and> pending s' = pending s \<and>
    table s' = snd (get p (table s))"
  using assms by (auto simp: planMemcpyHtoD_def exec_simps Let_def split: prod.splits option.splits if_splits)

lemma planMemcpyHtoD_refs: "refs_ok get s \<Longrightarrow> planMemcpyHtoD get ctx p req s = Done s' \<Longrightarrow> refs_ok get s'"
  by (drule planMemcpyHtoD_state, cases "get p (table s)") (auto intro: lookup_refs)

lemma answered_refs:
  assumes "refs_ok get s" "nodes s' = nodes s" "epoch s' = epoch s" "sent s' = sent s"
    and "pending s' = drop_nth k (pending s)"
    and "\<And>p info. fst (get p (table s')) = Some info \<Longrightarrow>
      fst (get p (table s)) = Some info \<or> node_id info \<in> nodeId ` set (nodes s)"
  shows "refs_ok get s'"
  using assms drop_nth_subset [of k "pending s"]
  by (intro refs_ok_later [OF assms(1)]) (auto intro!: later_same simp: refs_ok_def)

lemma allocation_then_refs:
  assumes "refs_ok get s"
    and "allocation_then add ctx i ep response b (s\<lparr>pending := drop_nth k (pending s)\<rparr>) = Done s'"
  shows "refs_ok get s'"
proof (cases "resp_error response = CUDA_SUCCESS")
  case True
  note ok = allocation_then_ok [OF assms(2) True]
  show ?thesis
    by (rule answered_refs [OF assms(1)], use ok in \<open>auto simp: get_add split: if_splits\<close>)
next
  case False
  then have "s' = set_result ctx (AllocReply 0 (resp_error response)) (s\<lparr>pending := drop_nth k (pending s)\<rparr>)"
    using assms(2) by (simp add: allocation_then_error)
  then show ?thesis by (intro answered_refs [OF assms(1)]) auto
qed

lemma free_then_refs:
  assumes "refs_ok get s" "free_then rem ctx p error (s\<lparr>pending := drop_nth k (pending s)\<rparr>) = Done s'"
  shows "refs_ok get s'"
  using free_then_ok(2) [OF assms(2)]
  by (intro answered_refs [OF assms(1)]) (auto simp: get_rem split: if_splits)

lemma live_is_mapped: "blocks_inv s \<Longrightarrow> p \<in> set (blocks s) \<Longrightarrow> \<exists>info. fst (get p (table s)) = Some info"
  by (auto simp: blocks_inv_def mapped_def)

end

subsection \<open>The invariant of a running launcher\<close>

text \<open>Every node of the list has its client, because \<open>LoadConfig\<close> makes one for each.\<close>

lemma load_loop_clients:
  "list_all client_ok ns \<Longrightarrow> load_loop yaml blank env ys ns = (ns', r) \<Longrightarrow> list_all client_ok ns'"
proof (induction ys arbitrary: ns)
  case (Cons y ys)
  have "client_ok (attach_client env n)" for n by (simp add: client_ok_def attach_client_def)
  then have "list_all client_ok (ns @ [attach_client env n])" for n using Cons.prems(1) by simp
  note IH = Cons.IH [OF this]
  show ?case using Cons.prems by (cases "read_node yaml blank y") (auto intro: IH)
qed simp

lemma LoadConfig_clients:
  "list_all client_ok ns \<Longrightarrow> LoadConfig yaml blank env False path ns = Done (ok, ns') \<Longrightarrow> list_all client_ok ns'"
  by (auto simp: LoadConfig_def split: exec.splits prod.splits dest: load_loop_clients)

definition launcher_inv :: "(global_memory, 'mm, 'tm, 'cm) launcher \<Rightarrow> bool" where
  "launcher_inv s \<longleftrightarrow> gm.blocks_inv (root s) \<and> refs_ok gm_get (root s)"

lemma on_root_Done: "on_root f s = Done s' \<longleftrightarrow> (\<exists>r. f (root s) = Done r \<and> s' = s\<lparr>root := r\<rparr>)"
  by (auto simp: on_root_def exec_simps)

text \<open>The generic services and the report leave the service's state alone.\<close>

lemma generic_keeps_root:
  "root_allocateMemory ms ctx len hint s = Done s' \<Longrightarrow> root s' = root s"
  "root_freeMemory ms ctx h s = Done s' \<Longrightarrow> root s' = root s"
  "root_executeTransfer ms ctx src dst len ty s = Done s' \<Longrightarrow> root s' = root s"
  "root_handleMemAdvise ms ctx p len advice s = Done s' \<Longrightarrow> root s' = root s"
  by (auto simp: root_allocateMemory_def root_freeMemory_def root_executeTransfer_def root_handleMemAdvise_def
      exec_simps)

lemma watch_turn_nodes:
  assumes "watch_turn load moved write_time (seen, r) = Done (seen', r')"
  shows "(nodes r' = nodes r \<or> (\<exists>ok. load (nodes r) = Done (ok, nodes r'))) \<and> epoch r \<le> epoch r'"
proof (cases "\<exists>current ok ns. write_time = Done current \<and> current \<noteq> seen \<and> load (nodes r) = Done (ok, ns)")
  case True
  then obtain current ok ns where "write_time = Done current" "current \<noteq> seen" "load (nodes r) = Done (ok, ns)"
    by blast
  with assms have "r' = r\<lparr>nodes := ns, epoch := (if moved then Suc (epoch r) else epoch r)\<rparr>"
    by (simp add: watch_turn_def)
  then have "nodes r' = ns" "epoch r \<le> epoch r'" by simp_all
  with \<open>load (nodes r) = Done (ok, ns)\<close> show ?thesis by blast
next
  case False
  with assms have "r' = r"
    by (auto simp only: watch_turn_def prod.case exec.simps Pair_inject split: exec.split_asm if_split_asm prod.split_asm)
  then show ?thesis by simp
qed

lemma ConfigWatcher_turn_root:
  assumes "ConfigWatcher_turn (LoadConfig yaml blank env False path) moved write_time s = Done s'"
    and "list_all client_ok (nodes (root s))"
  shows "later (root s) (root s') \<and> list_all client_ok (nodes (root s')) \<and> table (root s') = table (root s) \<and>
    blocks (root s') = blocks (root s) \<and> pending (root s') = pending (root s)"
proof -
  obtain seen where turn: "watch_turn (LoadConfig yaml blank env False path) moved write_time
      (lastWriteTime s, root s) = Done (seen, root s')"
    using assms(1) by (auto simp: ConfigWatcher_turn_def exec_simps)
  note ns = watch_turn_nodes [OF turn]
  have "\<exists>new. nodes (root s') = nodes (root s) @ new"
    using ns LoadConfig_appends [of yaml blank env path "nodes (root s)"] by (metis append_Nil2)
  then have "later (root s) (root s')"
    using ns watch_turn_keeps [OF turn] by (auto simp: later_def nth_append)
  moreover have "list_all client_ok (nodes (root s'))" using ns assms(2) LoadConfig_clients by metis
  ultimately show ?thesis using watch_turn_keeps [OF turn] by simp
qed

lemma unmeasured_clients: "map unmeasured ns' = map unmeasured ns \<Longrightarrow> list_all client_ok ns \<Longrightarrow> list_all client_ok ns'"
proof -
  assume eq: "map unmeasured ns' = map unmeasured ns" and ok: "list_all client_ok ns"
  have len: "length ns' = length ns" using arg_cong [OF eq, of length] by simp
  have "client_ok (ns' ! i)" if "i < length ns" for i
  proof -
    have "unmeasured (ns' ! i) = unmeasured (ns ! i)" using arg_cong [OF eq, of "\<lambda>xs. xs ! i"] that len by simp
    from unmeasured_eq [OF this] have "client_ok (ns' ! i) = client_ok (ns ! i)"
      by (simp add: client_ok_def split: option.split)
    then show ?thesis using ok that by (simp add: list_all_length)
  qed
  with len show ?thesis by (simp add: list_all_length)
qed

lemma health_turn_root:
  assumes "health_turn ms s = Done s'" and "check_measures ms"
  shows "map unmeasured (nodes (root s')) = map unmeasured (nodes (root s)) \<and> table (root s') = table (root s) \<and>
    blocks (root s') = blocks (root s) \<and> pending (root s') = pending (root s) \<and> later (root s) (root s')"
proof -
  have 1: "map unmeasured (nodes (root s')) = map unmeasured (nodes (root s)) \<and> table (root s') = table (root s) \<and>
    blocks (root s') = blocks (root s) \<and> pending (root s') = pending (root s) \<and> sent (root s') = sent (root s) \<and>
    epoch (root s') = epoch (root s)"
    using assms by (auto simp: health_turn_def exec_simps GetNodes_def check_measures_def split: exec.splits)
  then have len: "length (nodes (root s')) = length (nodes (root s))" by (metis length_map)
  moreover have "unmeasured (nodes (root s') ! i) = unmeasured (nodes (root s) ! i)" if "i < length (nodes (root s))" for i
    using 1 that len by (metis nth_map)
  ultimately show ?thesis using 1 by (simp add: later_def)
qed

lemma launcher_step_inv:
  assumes "launcher_step pick ms yaml s (Done s')" "launcher_inv s" "check_measures ms"
  shows "launcher_inv s'"
proof -
  have inv: "gm.blocks_inv (root s)" "refs_ok gm_get (root s)"
    using assms(2) by (simp_all add: launcher_inv_def)
  have clients: "list_all client_ok (nodes (root s))" using inv(2) by (simp add: refs_ok_def)
  have drop: "gm.blocks_inv ((root s)\<lparr>pending := drop_nth k (pending (root s))\<rparr>)" for k
    using inv(1) by (simp add: gm.blocks_inv_def)
  have same: "root s' = root s \<Longrightarrow> launcher_inv s'" using inv by (simp add: launcher_inv_def)
  show ?thesis using assms(1)
  proof (cases rule: launcher_step.cases)
    case (call_alloc ctx req)
    then obtain r where r: "requestAllocation pick ctx req (root s) = Done r" "root s' = r"
      by (auto dest: on_root_Done [THEN iffD1, OF sym])
    then show ?thesis using gm.requestAllocation_keeps [OF r(1)] gm.requestAllocation_refs [OF inv(2) r(1)] inv
      by (simp add: launcher_inv_def gm.blocks_inv_def)
  next
    case (call_free ctx p)
    then obtain r where r: "requestFree gm_get ctx p (root s) = Done r" "root s' = r"
      by (auto dest: on_root_Done [THEN iffD1, OF sym])
    then show ?thesis using gm.requestFree_keeps [OF r(1)] gm.requestFree_refs [OF inv(2) r(1)] inv
      by (simp add: launcher_inv_def gm.blocks_inv_def)
  next
    case (call_plan ctx p req)
    then obtain r where r: "planMemcpyHtoD gm_get ctx p req (root s) = Done r" "root s' = r"
      by (auto dest: on_root_Done [THEN iffD1, OF sym])
    then show ?thesis using gm.planMemcpyHtoD_keeps [OF r(1)] gm.planMemcpyHtoD_refs [OF inv(2) r(1)] inv
      by (simp add: launcher_inv_def gm.blocks_inv_def)
  next
    case (thrown_free ctx p e)
    obtain x t where "gm_get p (table (root s)) = (x, t)" by force
    then show ?thesis
      using thrown_free gm.lookup_refs [OF inv(2)] gm.mapped_get inv(1) by (simp add: launcher_inv_def gm.blocks_inv_def)
  next
    case (alloc_answer k ctx i ep b response)
    then obtain r where r: "allocation_then gm_add ctx i ep response b
        ((root s)\<lparr>pending := drop_nth k (pending (root s))\<rparr>) = Done r" "root s' = r"
      by (auto dest: on_root_Done [THEN iffD1, OF sym])
    then show ?thesis
      using gm.allocation_then_inv [OF drop alloc_answer(4) _ r(1)] alloc_answer(5)
        gm.allocation_then_refs [OF inv(2) r(1)] by (simp add: launcher_inv_def)
  next
    case (free_answer k ctx p error)
    then obtain r where r: "free_then RemoveMapping ctx p error
        ((root s)\<lparr>pending := drop_nth k (pending (root s))\<rparr>) = Done r" "root s' = r"
      by (auto dest: on_root_Done [THEN iffD1, OF sym])
    then show ?thesis
      using gm.free_then_inv [OF drop r(1)] gm.free_then_refs [OF inv(2) r(1)] by (simp add: launcher_inv_def)
  next
    case (watch blank env path moved write_time)
    note turn = ConfigWatcher_turn_root [OF watch [symmetric] clients]
    then have "refs_ok gm_get (root s')" by (intro refs_ok_later [OF inv(2)]) simp_all
    then show ?thesis using turn inv(1) by (simp add: launcher_inv_def gm.blocks_inv_def)
  next
    case health
    note turn = health_turn_root [OF health [symmetric] assms(3)]
    then have "refs_ok gm_get (root s')"
      using unmeasured_clients clients by (intro refs_ok_later [OF inv(2)]) auto
    then show ?thesis using turn inv(1) by (simp add: launcher_inv_def gm.blocks_inv_def)
  qed (metis same generic_keeps_root(1), metis same generic_keeps_root(2), metis same generic_keeps_root(3),
      metis same generic_keeps_root(4))
qed

lemma launcher_reachable_inv:
  "launcher_reachable pick ms yaml s0 s \<Longrightarrow> launcher_inv s0 \<Longrightarrow> check_measures ms \<Longrightarrow> launcher_inv s"
  by (induction rule: launcher_reachable.induct) (auto intro: launcher_step_inv)

lemma launcher_main_inv:
  assumes "launcher_main (empty_memory now) mm tm cm (LoadConfig yaml blank env False path) write_time = Done s0"
  shows "launcher_inv s0"
proof -
  obtain ok ns where load: "LoadConfig yaml blank env False path [] = Done (ok, ns)"
    and "root s0 = fresh_launcher now ns"
    using assms by (auto simp: launcher_main_def exec_simps start_launcher_def fresh_launcher_def)
  moreover have "list_all client_ok ns" using LoadConfig_clients [OF _ load] by simp
  ultimately show ?thesis using fresh_inv [of now ns] fresh_mapped [of now ns]
    by (simp add: launcher_inv_def refs_ok_def gm.mapped_def) (simp add: fresh_launcher_def)
qed

text \<open>What a live pointer gets: its node is found, so it is never refused.\<close>

lemma live_pointer_node:
  assumes "launcher_inv s" "p \<in> set (blocks (root s))"
  obtains info i where "fst (gm_get p (table (root s))) = Some info"
    and "GetNodeById False (node_id info) (nodes (root s)) = Done (Some i)" and "i < length (nodes (root s))"
proof -
  have inv: "gm.blocks_inv (root s)" "refs_ok gm_get (root s)" using assms(1) by (simp_all add: launcher_inv_def)
  obtain info where info: "fst (gm_get p (table (root s))) = Some info"
    using gm.live_is_mapped [OF inv(1) assms(2)] by blast
  from GetNodeById_known [OF refs_okD [OF inv(2) info]] that [OF info] show ?thesis by blast
qed

subsection \<open>Sample data for the witnesses\<close>

definition sample_managers :: "(unit, unit, unit, unit) managers" where
  "sample_managers = \<lparr>m_allocate = (\<lambda>_ _ m. (Throws ''no memory'', m)), m_free = (\<lambda>_ m. (Done (), m)),
     m_executeTransfer = (\<lambda>_ _ _ _ m. (Done (), m)), m_setPreferredLocation = (\<lambda>_ _ m. (Done (), m)),
     m_markAccessedBy = (\<lambda>_ _ m. (Done (), m)),
     m_PerformHealthCheck = (\<lambda>ns. Done (List.map (\<lambda>n. n\<lparr>available_memory := 7\<rparr>) ns))\<rparr>"

definition around :: "global_memory root \<Rightarrow> (global_memory, unit, unit, unit) launcher" where
  "around r = \<lparr>root = r, memoryManager = (), transportManager = (), coolingService = (), generic_replies = [],
              lastWriteTime = 3, node_report = []\<rparr>"

definition one_node_yaml :: "(string \<times> string) list list" where
  "one_node_yaml = [[(''id'', ''a''), (''address'', ''10.0.0.1''), (''memory'', ''1000'')]]"

abbreviation load_one :: "remote_node list \<Rightarrow> (bool \<times> remote_node list) exec" where
  "load_one \<equiv> LoadConfig (alist_yaml one_node_yaml) (sample_node [] 0 0) always_connects False ''f''"

definition first_pick :: "remote_node list \<Rightarrow> u64 \<Rightarrow> nat option exec" where
  "first_pick ns req = (if ns = [] then Done None else Done (Some 0))"

lemma sample_check: "check_measures sample_managers"
  by (auto simp: check_measures_def sample_managers_def unmeasured_def)

definition loaded_node :: remote_node where
  "loaded_node = (sample_node [] 0 0)\<lparr>nodeId := ''a'', address := ''10.0.0.1'', priority := 50,
     available_memory := 1000, launcher_client := Some (connected_to ''10.0.0.1'')\<rparr>"

definition started_root :: "global_memory root" where
  "started_root = fresh_launcher 0 [loaded_node]"

definition waiting_root :: "global_memory root" where
  "waiting_root = started_root\<lparr>sent := [(''10.0.0.1'', RemoteAlloc 64)], pending := [AllocThen 1 0 0]\<rparr>"

definition served_root :: "global_memory root" where
  "served_root = set_result 1 (AllocReply 4096 CUDA_SUCCESS) (waiting_root\<lparr>pending := [], blocks := [4096],
     table := gm_add 4096 \<lparr>node_id = ''a'', alloc_size = 64, remote_handle = 77\<rparr> (empty_memory 0)\<rparr>)"

lemma load_one: "load_one [] = Done (True, [loaded_node])"
  by (simp add: LoadConfig_def alist_yaml_def one_node_yaml_def read_node_def attach_client_def digits_value_def digit_val_def
      loaded_node_def sample_node_def)

lemma started: "launcher_main (empty_memory 0) () () () load_one (Done 3) = Done (around started_root)"
  by (simp add: launcher_main_def start_launcher_def load_one ConfigWatcher_start_def around_def started_root_def
      fresh_launcher_def)

lemma started_root_simps [simp]:
  "nodes started_root = [loaded_node]" "pending started_root = []" "sent started_root = []" "epoch started_root = 0"
  "blocks started_root = []" "table started_root = empty_memory 0" "root (around r) = r"
  "launcher_client loaded_node = Some (connected_to ''10.0.0.1'')" "address loaded_node = ''10.0.0.1''" "nodeId loaded_node = ''a''"
  by (simp_all add: started_root_def fresh_launcher_def loaded_node_def around_def)

lemma waiting_reachable: "launcher_reachable first_pick sample_managers (alist_yaml one_node_yaml)
    (around started_root) (around waiting_root)"
proof (rule launcher_reachable.stepped [OF launcher_reachable.started])
  have "on_root (requestAllocation first_pick 1 64) (around started_root) = Done (around waiting_root)"
    by (simp add: on_root_def requestAllocation_def node_at_def node_call_client first_pick_def waiting_root_def)
      (simp add: around_def)
  then show "launcher_step first_pick sample_managers (alist_yaml one_node_yaml) (around started_root)
      (Done (around waiting_root))"
    using launcher_step.call_alloc [of first_pick sample_managers _ "around started_root" 1 64] by simp
qed

lemma served_reachable: "launcher_reachable first_pick sample_managers (alist_yaml one_node_yaml)
    (around started_root) (around served_root)"
proof (rule launcher_reachable.stepped [OF waiting_reachable])
  have p: "pending waiting_root = [AllocThen 1 0 0]" "blocks waiting_root = []" by (simp_all add: waiting_root_def)
  have "on_root (\<lambda>r. allocation_then gm_add 1 0 0 sample_response 4096 (r\<lparr>pending := drop_nth 0 (pending r)\<rparr>))
      (around waiting_root) = Done (around served_root)"
    by (simp add: on_root_def p drop_nth_def allocation_then_def node_at_def waiting_root_def Let_def sample_response_def)
      (simp add: served_root_def waiting_root_def around_def)
  then show "launcher_step first_pick sample_managers (alist_yaml one_node_yaml) (around waiting_root)
      (Done (around served_root))"
    using launcher_step.alloc_answer [of 0 "around waiting_root" 1 0 0 4096 first_pick sample_managers _ sample_response]
    by (simp add: p)
qed

subsection \<open>Properties\<close>





text \<open>
  Whether a missing configuration stops the launcher depends on who reads it: \<open>LoadConfig\<close> reports
  it and the launcher starts without nodes, so that every allocation is out of memory, but when
  its write time cannot be read either, the watcher's first statement ends the process.
\<close>

theorem missing_configuration_outcome:
  assumes "load_file yaml path = Throws e" and "plan_error plan0 = CUDA_SUCCESS"
  shows "launcher_main t0 mm tm cm (LoadConfig yaml blank env False path) (Throws e') = UB Terminated \<and>
    (\<exists>s. launcher_main t0 mm tm cm (LoadConfig yaml blank env False path) (Done t) = Done s \<and>
       nodes (root s) = [] \<and> lastWriteTime s = t \<and>
       on_root (requestAllocation (code_pick plan0 cooling) ctx req) s =
         Done (s\<lparr>root := set_result ctx (AllocReply 0 CUDA_ERROR_OUT_OF_MEMORY) (root s)\<rparr>))"
  using assms by (simp add: launcher_main_def start_launcher_def LoadConfig_def ConfigWatcher_start_def on_root_def
      requestAllocation_def code_pick_def PickNode_def)

theorem missing_configuration_outcome_witness:
  "launcher_main (empty_memory 0) () () ()
     (LoadConfig ((alist_yaml [])\<lparr>load_file := \<lambda>_. Throws ''bad file''\<rparr>) loaded_node always_connects False ''f'')
     (Throws ''no such file'') = UB Terminated"
  by (rule conjunct1 [OF missing_configuration_outcome [of _ _ "''bad file''", OF _ empty_plan_error(1)]]) simp

end
