(* ===== verification/Wire.thy ===== *)
theory Wire
  imports Prelude
begin

section \<open>Messages: fields of a generated struct\<close>

text \<open>
  The accessors in \<open>proto/proto/*.capnp.h\<close> are calls of the Cap'n Proto runtime with constants: a
  data field is read and written by \<open>getDataField<T>(offset, mask)\<close> and \<open>setDataField<T>\<close>, where the
  offset counts elements of \<open>T\<close> and the mask is the field's default; a pointer field by
  \<open>PointerHelpers<T>\<close> on \<open>getPointerField(index)\<close>. The theories \<open>WireCommon\<close> to \<open>WireCuda\<close> hold these
  constants, field by field, as the headers have them. Here is when the constants of a struct make
  its fields independent, and the runtime, which is not in the repository, as a parameter: a
  record of its operations, with the locales \<open>data_runtime\<close> and \<open>capnp_runtime\<close> for what its
  documentation promises. The encoding the documentation describes (a section of bits, in which a
  field's bits are its value exclusive-or its mask, and a section of pointers) satisfies them.
  What a pointer points to is an object of a type \<open>'o\<close> that is not looked into. A struct too short
  for a field, from an older sender, is not modelled.
\<close>

unbundle bit_operations_syntax

record dfield =
  f_width :: nat
  f_offset :: nat
  f_mask :: nat

record pfield =
  p_index :: nat

record layout =
  data_words :: nat
  pointer_words :: nat
  data_fields :: "dfield list"
  pointer_fields :: "pfield list"

definition data_field :: "nat \<Rightarrow> nat \<Rightarrow> nat \<Rightarrow> dfield" where
  "data_field width offset dflt = \<lparr>f_width = width, f_offset = offset, f_mask = dflt\<rparr>"

definition pointer_field :: "nat \<Rightarrow> pfield" where
  "pointer_field index = \<lparr>p_index = index\<rparr>"

definition struct_layout :: "nat \<Rightarrow> nat \<Rightarrow> dfield list \<Rightarrow> pfield list \<Rightarrow> layout" where
  "struct_layout words ptrs ds ps =
     \<lparr>data_words = words, pointer_words = ptrs, data_fields = ds, pointer_fields = ps\<rparr>"

subsection \<open>Layouts whose fields do not touch one another\<close>

definition first_bit :: "dfield \<Rightarrow> nat" where
  "first_bit f = f_width f * f_offset f"

definition in_width :: "dfield \<Rightarrow> nat \<Rightarrow> bool" where
  "in_width f v \<longleftrightarrow> v < 2 ^ f_width f"

definition apart :: "dfield \<Rightarrow> dfield \<Rightarrow> bool" where
  "apart f g \<longleftrightarrow> first_bit f + f_width f \<le> first_bit g \<or> first_bit g + f_width g \<le> first_bit f"

fun all_apart :: "dfield list \<Rightarrow> bool" where
  "all_apart [] = True"
| "all_apart (f # fs) = (list_all (apart f) fs \<and> all_apart fs)"

definition inside :: "layout \<Rightarrow> dfield \<Rightarrow> bool" where
  "inside l f \<longleftrightarrow> first_bit f + f_width f \<le> 64 * data_words l \<and> f_mask f < 2 ^ f_width f \<and> 0 < f_width f"

definition layout_ok :: "layout \<Rightarrow> bool" where
  "layout_ok l \<longleftrightarrow> list_all (inside l) (data_fields l) \<and> all_apart (data_fields l) \<and>
     list_all (\<lambda>p. p_index p < pointer_words l) (pointer_fields l) \<and> distinct (map p_index (pointer_fields l))"

lemma apart_sym: "apart f g \<Longrightarrow> apart g f"
  by (auto simp: apart_def)

lemma all_apart_nth: "all_apart fs \<Longrightarrow> i < length fs \<Longrightarrow> j < length fs \<Longrightarrow> i \<noteq> j \<Longrightarrow> apart (fs ! i) (fs ! j)"
proof (induction fs arbitrary: i j)
  case (Cons f fs)
  then show ?case
    by (cases i; cases j) (auto simp: list_all_iff intro: apart_sym)
qed simp

lemma layout_ok_field:
  "layout_ok l \<Longrightarrow> i < length (data_fields l) \<Longrightarrow> f_mask (data_fields l ! i) < 2 ^ f_width (data_fields l ! i)"
  by (auto simp: layout_ok_def inside_def list_all_length)

lemma layout_ok_apart:
  "layout_ok l \<Longrightarrow> i < length (data_fields l) \<Longrightarrow> j < length (data_fields l) \<Longrightarrow> i \<noteq> j \<Longrightarrow>
     apart (data_fields l ! i) (data_fields l ! j)"
  by (simp add: layout_ok_def all_apart_nth)

subsection \<open>The runtime and its contract\<close>

record ('w, 'o) runtime =
  rt_new :: 'w
  rt_getData :: "dfield \<Rightarrow> 'w \<Rightarrow> nat"
  rt_setData :: "dfield \<Rightarrow> nat \<Rightarrow> 'w \<Rightarrow> 'w"
  rt_isNull :: "pfield \<Rightarrow> 'w \<Rightarrow> bool"
  rt_getPointer :: "'o \<Rightarrow> pfield \<Rightarrow> 'w \<Rightarrow> 'o"
  rt_setPointer :: "pfield \<Rightarrow> 'o \<Rightarrow> 'w \<Rightarrow> 'w"
  rt_disown :: "pfield \<Rightarrow> 'w \<Rightarrow> 'o option \<times> 'w"

text \<open>Data fields: what was set reads back, bits elsewhere are left alone, a new struct has the defaults.\<close>

locale data_runtime =
  fixes rt :: "('w, 'o) runtime"
  assumes get_set: "f_mask f < 2 ^ f_width f \<Longrightarrow> in_width f v \<Longrightarrow> rt_getData rt f (rt_setData rt f v w) = v"
    and get_other: "apart f g \<Longrightarrow> rt_getData rt g (rt_setData rt f v w) = rt_getData rt g w"
    and get_new: "rt_getData rt f (rt_new rt) = f_mask f"
begin

lemma both_fields:
  assumes "apart f g" "f_mask f < 2 ^ f_width f" "f_mask g < 2 ^ f_width g" "in_width f v" "in_width g u"
  shows "rt_getData rt f (rt_setData rt g u (rt_setData rt f v w)) = v"
    and "rt_getData rt g (rt_setData rt g u (rt_setData rt f v w)) = u"
  using assms by (simp_all add: get_set get_other apart_sym)

lemma layout_fields:
  assumes "layout_ok l" "i < length (data_fields l)" "in_width (data_fields l ! i) v"
  shows "rt_getData rt (data_fields l ! i) (rt_setData rt (data_fields l ! i) v w) = v"
    and "j < length (data_fields l) \<Longrightarrow> i \<noteq> j \<Longrightarrow>
      rt_getData rt (data_fields l ! j) (rt_setData rt (data_fields l ! i) v w) = rt_getData rt (data_fields l ! j) w"
  using assms by (simp_all add: get_set get_other layout_ok_field layout_ok_apart)

end

text \<open>Pointer fields on top: the two sections do not interfere.\<close>

locale capnp_runtime = data_runtime rt for rt :: "('w, 'o) runtime" +
  assumes null_new: "rt_isNull rt p (rt_new rt)"
    and null_get: "rt_isNull rt p w \<Longrightarrow> rt_getPointer rt d p w = d"
    and pointer_set: "rt_getPointer rt d p (rt_setPointer rt p x w) = x"
    and null_set: "\<not> rt_isNull rt p (rt_setPointer rt p x w)"
    and pointer_data: "rt_getPointer rt d p (rt_setData rt f v w) = rt_getPointer rt d p w"
    and null_data: "rt_isNull rt p (rt_setData rt f v w) = rt_isNull rt p w"
    and data_pointer: "rt_getData rt f (rt_setPointer rt p x w) = rt_getData rt f w"
    and pointer_other: "p_index p \<noteq> p_index q \<Longrightarrow>
      rt_getPointer rt d q (rt_setPointer rt p x w) = rt_getPointer rt d q w"
    and disown_object: "fst (rt_disown rt p w) = (if rt_isNull rt p w then None else Some (rt_getPointer rt d p w))"
    and disown_null: "rt_isNull rt p (snd (rt_disown rt p w))"
    and null_other: "p_index p \<noteq> p_index q \<Longrightarrow> rt_isNull rt q (rt_setPointer rt p x w) = rt_isNull rt q w"
    and data_disown: "rt_getData rt f (snd (rt_disown rt p w)) = rt_getData rt f w"
    and disown_other: "p_index p \<noteq> p_index q \<Longrightarrow>
      rt_getPointer rt d q (snd (rt_disown rt p w)) = rt_getPointer rt d q w"
    and disown_null_other: "p_index p \<noteq> p_index q \<Longrightarrow> rt_isNull rt q (snd (rt_disown rt p w)) = rt_isNull rt q w"
begin

lemma new_pointer: "rt_getPointer rt d p (rt_new rt) = d"
  by (simp add: null_get null_new)

end

subsection \<open>The documented encoding\<close>

record 'o wire =
  data_bit :: "nat \<Rightarrow> bool"
  slot :: "nat \<Rightarrow> 'o option"

definition raw_bits :: "nat \<Rightarrow> nat \<Rightarrow> 'o wire \<Rightarrow> nat" where
  "raw_bits lo n w = horner_sum of_bool 2 (map (\<lambda>i. data_bit w (lo + i)) [0..<n])"

definition getBits :: "dfield \<Rightarrow> 'o wire \<Rightarrow> nat" where
  "getBits f w = (raw_bits (first_bit f) (f_width f) w) XOR (f_mask f)"

definition setBits :: "dfield \<Rightarrow> nat \<Rightarrow> 'o wire \<Rightarrow> 'o wire" where
  "setBits f v w = w\<lparr>data_bit := (\<lambda>k.
     if first_bit f \<le> k \<and> k < first_bit f + f_width f then bit (v XOR f_mask f) (k - first_bit f)
     else data_bit w k)\<rparr>"

definition encoding :: "('o wire, 'o) runtime" where
  "encoding = \<lparr>rt_new = \<lparr>data_bit = (\<lambda>_. False), slot = (\<lambda>_. None)\<rparr>, rt_getData = getBits, rt_setData = setBits,
     rt_isNull = (\<lambda>p w. slot w (p_index p) = None),
     rt_getPointer = (\<lambda>d p w. case slot w (p_index p) of None \<Rightarrow> d | Some x \<Rightarrow> x),
     rt_setPointer = (\<lambda>p x w. w\<lparr>slot := (slot w)(p_index p := Some x)\<rparr>),
     rt_disown = (\<lambda>p w. (slot w (p_index p), w\<lparr>slot := (slot w)(p_index p := None)\<rparr>))\<rparr>"

lemma bit_raw_bits: "bit (raw_bits lo n w) i \<longleftrightarrow> i < n \<and> data_bit w (lo + i)"
  by (simp add: raw_bits_def bit_horner_sum_bit_iff cong: conj_cong)

lemma bit_above: "v < 2 ^ n \<Longrightarrow> n \<le> i \<Longrightarrow> \<not> bit (v :: nat) i"
  by (metis bit_take_bit_iff not_less take_bit_nat_eq_self)

lemma getBits_setBits:
  assumes "f_mask f < 2 ^ f_width f" "in_width f v"
  shows "getBits f (setBits f v w) = v"
proof (rule bit_eqI)
  fix i
  show "bit (getBits f (setBits f v w)) i = bit v i"
    using bit_above [OF assms(1), of i] bit_above [of v "f_width f" i] assms(2)
    by (cases "i < f_width f")
      (auto simp: getBits_def setBits_def bit_xor_iff bit_raw_bits in_width_def not_less)
qed

lemma getBits_other: "apart f g \<Longrightarrow> getBits g (setBits f v w) = getBits g w"
  by (rule bit_eqI) (auto simp: getBits_def setBits_def bit_xor_iff bit_raw_bits apart_def)

lemma getBits_new: "getBits f \<lparr>data_bit = (\<lambda>_. False), slot = sl\<rparr> = f_mask f"
  by (rule bit_eqI) (simp add: getBits_def bit_xor_iff bit_raw_bits)

lemma setBits_slot [simp]: "slot (setBits f v w) = slot w"
  by (simp add: setBits_def)

lemma getBits_slot [simp]: "getBits f (w\<lparr>slot := sl\<rparr>) = getBits f w"
  by (simp add: getBits_def raw_bits_def)

interpretation encoded_data: data_runtime encoding
  by unfold_locales (simp_all add: encoding_def getBits_setBits getBits_other getBits_new)

interpretation encoded: capnp_runtime encoding
  by unfold_locales (auto simp: encoding_def)

end
