(* ===== verification/WireHookLauncher.thy ===== *)
theory WireHookLauncher
  imports Wire
begin

section \<open>The messages of hook-launcher.capnp\<close>

text \<open>
  \<open>proto/proto/hook-launcher.capnp.h\<close>, the messages of the hook's requests to the
  launcher: for every generated struct the constants its accessors pass to the runtime, one
  definition per field (width, element offset and default of a data field, index of a pointer
  field), and the sizes of its sections, from the declaration.
\<close>

text \<open>\<open>MemcpyPlan\<close>\<close>

definition MemcpyPlan_targetServerIp :: pfield where "MemcpyPlan_targetServerIp = pointer_field 0"
definition MemcpyPlan_targetServerZmqPort :: dfield where "MemcpyPlan_targetServerZmqPort = data_field 16 0 0"
definition MemcpyPlan_error :: dfield where "MemcpyPlan_error = data_field 16 1 0"
definition MemcpyPlan_layout :: layout where
  "MemcpyPlan_layout = struct_layout 1 1
     [MemcpyPlan_targetServerZmqPort, MemcpyPlan_error]
     [MemcpyPlan_targetServerIp]"

text \<open>\<open>NodeStatus\<close>\<close>

definition NodeStatus_id :: pfield where "NodeStatus_id = pointer_field 0"
definition NodeStatus_availableMemory :: dfield where "NodeStatus_availableMemory = data_field 64 0 0"
definition NodeStatus_gpuUtilization :: dfield where "NodeStatus_gpuUtilization = data_field 32 2 0"
definition NodeStatus_networkLatency :: dfield where "NodeStatus_networkLatency = data_field 32 3 0"
definition NodeStatus_numaNode :: dfield where "NodeStatus_numaNode = data_field 32 4 0"
definition NodeStatus_gpuCount :: dfield where "NodeStatus_gpuCount = data_field 32 5 0"
definition NodeStatus_rdmaSupport :: dfield where "NodeStatus_rdmaSupport = data_field 1 192 0"
definition NodeStatus_layout :: layout where
  "NodeStatus_layout = struct_layout 4 1
     [NodeStatus_availableMemory, NodeStatus_gpuUtilization, NodeStatus_networkLatency, NodeStatus_numaNode,
      NodeStatus_gpuCount, NodeStatus_rdmaSupport]
     [NodeStatus_id]"

text \<open>\<open>AllocationPlan\<close>\<close>

definition AllocationPlan_targetNodeId :: dfield where "AllocationPlan_targetNodeId = data_field 32 0 0"
definition AllocationPlan_memoryType :: dfield where "AllocationPlan_memoryType = data_field 16 2 0"
definition AllocationPlan_transportType :: dfield where "AllocationPlan_transportType = data_field 16 3 0"
definition AllocationPlan_prefetchHint :: dfield where "AllocationPlan_prefetchHint = data_field 1 64 0"
definition AllocationPlan_layout :: layout where
  "AllocationPlan_layout = struct_layout 2 0
     [AllocationPlan_targetNodeId, AllocationPlan_memoryType, AllocationPlan_transportType,
      AllocationPlan_prefetchHint]
     []"

text \<open>\<open>HookLauncher::PlanMemcpyHtoDParams\<close>\<close>

definition HookLauncher_PlanMemcpyHtoDParams_dstHandle :: pfield where "HookLauncher_PlanMemcpyHtoDParams_dstHandle = pointer_field 0"
definition HookLauncher_PlanMemcpyHtoDParams_size :: dfield where "HookLauncher_PlanMemcpyHtoDParams_size = data_field 64 0 0"
definition HookLauncher_PlanMemcpyHtoDParams_layout :: layout where
  "HookLauncher_PlanMemcpyHtoDParams_layout = struct_layout 1 1
     [HookLauncher_PlanMemcpyHtoDParams_size]
     [HookLauncher_PlanMemcpyHtoDParams_dstHandle]"

text \<open>\<open>HookLauncher::PlanMemcpyHtoDResults\<close>\<close>

definition HookLauncher_PlanMemcpyHtoDResults_plan :: pfield where "HookLauncher_PlanMemcpyHtoDResults_plan = pointer_field 0"
definition HookLauncher_PlanMemcpyHtoDResults_layout :: layout where
  "HookLauncher_PlanMemcpyHtoDResults_layout = struct_layout 0 1
     []
     [HookLauncher_PlanMemcpyHtoDResults_plan]"

text \<open>\<open>HookLauncher::PlanMemcpyDtoHParams\<close>\<close>

definition HookLauncher_PlanMemcpyDtoHParams_srcHandle :: pfield where "HookLauncher_PlanMemcpyDtoHParams_srcHandle = pointer_field 0"
definition HookLauncher_PlanMemcpyDtoHParams_size :: dfield where "HookLauncher_PlanMemcpyDtoHParams_size = data_field 64 0 0"
definition HookLauncher_PlanMemcpyDtoHParams_layout :: layout where
  "HookLauncher_PlanMemcpyDtoHParams_layout = struct_layout 1 1
     [HookLauncher_PlanMemcpyDtoHParams_size]
     [HookLauncher_PlanMemcpyDtoHParams_srcHandle]"

text \<open>\<open>HookLauncher::PlanMemcpyDtoHResults\<close>\<close>

definition HookLauncher_PlanMemcpyDtoHResults_plan :: pfield where "HookLauncher_PlanMemcpyDtoHResults_plan = pointer_field 0"
definition HookLauncher_PlanMemcpyDtoHResults_layout :: layout where
  "HookLauncher_PlanMemcpyDtoHResults_layout = struct_layout 0 1
     []
     [HookLauncher_PlanMemcpyDtoHResults_plan]"

text \<open>\<open>HookLauncher::GetNodeStatusParams\<close>\<close>

definition HookLauncher_GetNodeStatusParams_layout :: layout where
  "HookLauncher_GetNodeStatusParams_layout = struct_layout 0 0
     []
     []"

text \<open>\<open>HookLauncher::GetNodeStatusResults\<close>\<close>

definition HookLauncher_GetNodeStatusResults_nodes :: pfield where "HookLauncher_GetNodeStatusResults_nodes = pointer_field 0"
definition HookLauncher_GetNodeStatusResults_layout :: layout where
  "HookLauncher_GetNodeStatusResults_layout = struct_layout 0 1
     []
     [HookLauncher_GetNodeStatusResults_nodes]"

text \<open>\<open>HookLauncher::PrefetchDataParams\<close>\<close>

definition HookLauncher_PrefetchDataParams_handle :: pfield where "HookLauncher_PrefetchDataParams_handle = pointer_field 0"
definition HookLauncher_PrefetchDataParams_layout :: layout where
  "HookLauncher_PrefetchDataParams_layout = struct_layout 0 1
     []
     [HookLauncher_PrefetchDataParams_handle]"

text \<open>\<open>HookLauncher::PrefetchDataResults\<close>\<close>

definition HookLauncher_PrefetchDataResults_ack :: pfield where "HookLauncher_PrefetchDataResults_ack = pointer_field 0"
definition HookLauncher_PrefetchDataResults_layout :: layout where
  "HookLauncher_PrefetchDataResults_layout = struct_layout 0 1
     []
     [HookLauncher_PrefetchDataResults_ack]"

text \<open>\<open>HookLauncher::MeasureBandwidthParams\<close>\<close>

definition HookLauncher_MeasureBandwidthParams_src :: pfield where "HookLauncher_MeasureBandwidthParams_src = pointer_field 0"
definition HookLauncher_MeasureBandwidthParams_dst :: pfield where "HookLauncher_MeasureBandwidthParams_dst = pointer_field 1"
definition HookLauncher_MeasureBandwidthParams_layout :: layout where
  "HookLauncher_MeasureBandwidthParams_layout = struct_layout 0 2
     []
     [HookLauncher_MeasureBandwidthParams_src, HookLauncher_MeasureBandwidthParams_dst]"

text \<open>\<open>HookLauncher::MeasureBandwidthResults\<close>\<close>

definition HookLauncher_MeasureBandwidthResults_result :: pfield where "HookLauncher_MeasureBandwidthResults_result = pointer_field 0"
definition HookLauncher_MeasureBandwidthResults_layout :: layout where
  "HookLauncher_MeasureBandwidthResults_layout = struct_layout 0 1
     []
     [HookLauncher_MeasureBandwidthResults_result]"

text \<open>\<open>HookLauncher::TrackAsyncTaskParams\<close>\<close>

definition HookLauncher_TrackAsyncTaskParams_taskId :: dfield where "HookLauncher_TrackAsyncTaskParams_taskId = data_field 64 0 0"
definition HookLauncher_TrackAsyncTaskParams_layout :: layout where
  "HookLauncher_TrackAsyncTaskParams_layout = struct_layout 1 0
     [HookLauncher_TrackAsyncTaskParams_taskId]
     []"

text \<open>\<open>HookLauncher::TrackAsyncTaskResults\<close>\<close>

definition HookLauncher_TrackAsyncTaskResults_status :: pfield where "HookLauncher_TrackAsyncTaskResults_status = pointer_field 0"
definition HookLauncher_TrackAsyncTaskResults_layout :: layout where
  "HookLauncher_TrackAsyncTaskResults_layout = struct_layout 0 1
     []
     [HookLauncher_TrackAsyncTaskResults_status]"

text \<open>\<open>HookLauncher::GetMemoryLocationParams\<close>\<close>

definition HookLauncher_GetMemoryLocationParams_fakePtr :: dfield where "HookLauncher_GetMemoryLocationParams_fakePtr = data_field 64 0 0"
definition HookLauncher_GetMemoryLocationParams_layout :: layout where
  "HookLauncher_GetMemoryLocationParams_layout = struct_layout 1 0
     [HookLauncher_GetMemoryLocationParams_fakePtr]
     []"

text \<open>\<open>HookLauncher::GetMemoryLocationResults\<close>\<close>

definition HookLauncher_GetMemoryLocationResults_location :: pfield where "HookLauncher_GetMemoryLocationResults_location = pointer_field 0"
definition HookLauncher_GetMemoryLocationResults_layout :: layout where
  "HookLauncher_GetMemoryLocationResults_layout = struct_layout 0 1
     []
     [HookLauncher_GetMemoryLocationResults_location]"

text \<open>\<open>HookLauncher::AdvisePrefetchParams\<close>\<close>

definition HookLauncher_AdvisePrefetchParams_fakePtr :: dfield where "HookLauncher_AdvisePrefetchParams_fakePtr = data_field 64 0 0"
definition HookLauncher_AdvisePrefetchParams_layout :: layout where
  "HookLauncher_AdvisePrefetchParams_layout = struct_layout 1 0
     [HookLauncher_AdvisePrefetchParams_fakePtr]
     []"

text \<open>\<open>HookLauncher::AdvisePrefetchResults\<close>\<close>

definition HookLauncher_AdvisePrefetchResults_ack :: pfield where "HookLauncher_AdvisePrefetchResults_ack = pointer_field 0"
definition HookLauncher_AdvisePrefetchResults_layout :: layout where
  "HookLauncher_AdvisePrefetchResults_layout = struct_layout 0 1
     []
     [HookLauncher_AdvisePrefetchResults_ack]"

text \<open>\<open>HookLauncher::RequestRdmaPlanParams\<close>\<close>

definition HookLauncher_RequestRdmaPlanParams_srcHandle :: pfield where "HookLauncher_RequestRdmaPlanParams_srcHandle = pointer_field 0"
definition HookLauncher_RequestRdmaPlanParams_dstHandle :: pfield where "HookLauncher_RequestRdmaPlanParams_dstHandle = pointer_field 1"
definition HookLauncher_RequestRdmaPlanParams_size :: dfield where "HookLauncher_RequestRdmaPlanParams_size = data_field 64 0 0"
definition HookLauncher_RequestRdmaPlanParams_layout :: layout where
  "HookLauncher_RequestRdmaPlanParams_layout = struct_layout 1 2
     [HookLauncher_RequestRdmaPlanParams_size]
     [HookLauncher_RequestRdmaPlanParams_srcHandle, HookLauncher_RequestRdmaPlanParams_dstHandle]"

text \<open>\<open>HookLauncher::RequestRdmaPlanResults\<close>\<close>

definition HookLauncher_RequestRdmaPlanResults_plan :: pfield where "HookLauncher_RequestRdmaPlanResults_plan = pointer_field 0"
definition HookLauncher_RequestRdmaPlanResults_layout :: layout where
  "HookLauncher_RequestRdmaPlanResults_layout = struct_layout 0 1
     []
     [HookLauncher_RequestRdmaPlanResults_plan]"

text \<open>\<open>HookLauncher::RequestAllocationPlanParams\<close>\<close>

definition HookLauncher_RequestAllocationPlanParams_size :: dfield where "HookLauncher_RequestAllocationPlanParams_size = data_field 64 0 0"
definition HookLauncher_RequestAllocationPlanParams_layout :: layout where
  "HookLauncher_RequestAllocationPlanParams_layout = struct_layout 1 0
     [HookLauncher_RequestAllocationPlanParams_size]
     []"

text \<open>\<open>HookLauncher::RequestAllocationPlanResults\<close>\<close>

definition HookLauncher_RequestAllocationPlanResults_plan :: pfield where "HookLauncher_RequestAllocationPlanResults_plan = pointer_field 0"
definition HookLauncher_RequestAllocationPlanResults_layout :: layout where
  "HookLauncher_RequestAllocationPlanResults_layout = struct_layout 0 1
     []
     [HookLauncher_RequestAllocationPlanResults_plan]"

text \<open>\<open>HookLauncher::RequestFreePlanParams\<close>\<close>

definition HookLauncher_RequestFreePlanParams_fakePtr :: dfield where "HookLauncher_RequestFreePlanParams_fakePtr = data_field 64 0 0"
definition HookLauncher_RequestFreePlanParams_layout :: layout where
  "HookLauncher_RequestFreePlanParams_layout = struct_layout 1 0
     [HookLauncher_RequestFreePlanParams_fakePtr]
     []"

text \<open>\<open>HookLauncher::RequestFreePlanResults\<close>\<close>

definition HookLauncher_RequestFreePlanResults_ack :: pfield where "HookLauncher_RequestFreePlanResults_ack = pointer_field 0"
definition HookLauncher_RequestFreePlanResults_layout :: layout where
  "HookLauncher_RequestFreePlanResults_layout = struct_layout 0 1
     []
     [HookLauncher_RequestFreePlanResults_ack]"

text \<open>\<open>HookLauncher::LaunchKernelParams\<close>\<close>

definition HookLauncher_LaunchKernelParams_func :: pfield where "HookLauncher_LaunchKernelParams_func = pointer_field 0"
definition HookLauncher_LaunchKernelParams_gridDimX :: dfield where "HookLauncher_LaunchKernelParams_gridDimX = data_field 32 0 0"
definition HookLauncher_LaunchKernelParams_gridDimY :: dfield where "HookLauncher_LaunchKernelParams_gridDimY = data_field 32 1 0"
definition HookLauncher_LaunchKernelParams_gridDimZ :: dfield where "HookLauncher_LaunchKernelParams_gridDimZ = data_field 32 2 0"
definition HookLauncher_LaunchKernelParams_blockDimX :: dfield where "HookLauncher_LaunchKernelParams_blockDimX = data_field 32 3 0"
definition HookLauncher_LaunchKernelParams_blockDimY :: dfield where "HookLauncher_LaunchKernelParams_blockDimY = data_field 32 4 0"
definition HookLauncher_LaunchKernelParams_blockDimZ :: dfield where "HookLauncher_LaunchKernelParams_blockDimZ = data_field 32 5 0"
definition HookLauncher_LaunchKernelParams_sharedMemBytes :: dfield where "HookLauncher_LaunchKernelParams_sharedMemBytes = data_field 32 6 0"
definition HookLauncher_LaunchKernelParams_params :: pfield where "HookLauncher_LaunchKernelParams_params = pointer_field 1"
definition HookLauncher_LaunchKernelParams_layout :: layout where
  "HookLauncher_LaunchKernelParams_layout = struct_layout 4 2
     [HookLauncher_LaunchKernelParams_gridDimX, HookLauncher_LaunchKernelParams_gridDimY,
      HookLauncher_LaunchKernelParams_gridDimZ, HookLauncher_LaunchKernelParams_blockDimX,
      HookLauncher_LaunchKernelParams_blockDimY, HookLauncher_LaunchKernelParams_blockDimZ,
      HookLauncher_LaunchKernelParams_sharedMemBytes]
     [HookLauncher_LaunchKernelParams_func, HookLauncher_LaunchKernelParams_params]"

text \<open>\<open>HookLauncher::LaunchKernelResults\<close>\<close>

definition HookLauncher_LaunchKernelResults_ack :: pfield where "HookLauncher_LaunchKernelResults_ack = pointer_field 0"
definition HookLauncher_LaunchKernelResults_layout :: layout where
  "HookLauncher_LaunchKernelResults_layout = struct_layout 0 1
     []
     [HookLauncher_LaunchKernelResults_ack]"

text \<open>\<open>BandwidthResult\<close>\<close>

definition BandwidthResult_throughput :: dfield where "BandwidthResult_throughput = data_field 32 0 0"
definition BandwidthResult_latency :: dfield where "BandwidthResult_latency = data_field 32 1 0"
definition BandwidthResult_layout :: layout where
  "BandwidthResult_layout = struct_layout 1 0
     [BandwidthResult_throughput, BandwidthResult_latency]
     []"

text \<open>\<open>TaskStatus\<close>\<close>

definition TaskStatus_progress :: dfield where "TaskStatus_progress = data_field 8 0 0"
definition TaskStatus_estimatedTime :: dfield where "TaskStatus_estimatedTime = data_field 32 1 0"
definition TaskStatus_layout :: layout where
  "TaskStatus_layout = struct_layout 1 0
     [TaskStatus_progress, TaskStatus_estimatedTime]
     []"

text \<open>\<open>NodeInfo\<close>\<close>

definition NodeInfo_nodeId :: dfield where "NodeInfo_nodeId = data_field 32 0 0"
definition NodeInfo_memoryType :: pfield where "NodeInfo_memoryType = pointer_field 0"
definition NodeInfo_error :: dfield where "NodeInfo_error = data_field 16 2 0"
definition NodeInfo_layout :: layout where
  "NodeInfo_layout = struct_layout 1 1
     [NodeInfo_nodeId, NodeInfo_error]
     [NodeInfo_memoryType]"

definition wireHookLauncher_layouts :: "layout list" where
  "wireHookLauncher_layouts = [
     MemcpyPlan_layout, NodeStatus_layout, AllocationPlan_layout, HookLauncher_PlanMemcpyHtoDParams_layout,
     HookLauncher_PlanMemcpyHtoDResults_layout, HookLauncher_PlanMemcpyDtoHParams_layout,
     HookLauncher_PlanMemcpyDtoHResults_layout, HookLauncher_GetNodeStatusParams_layout,
     HookLauncher_GetNodeStatusResults_layout, HookLauncher_PrefetchDataParams_layout,
     HookLauncher_PrefetchDataResults_layout, HookLauncher_MeasureBandwidthParams_layout,
     HookLauncher_MeasureBandwidthResults_layout, HookLauncher_TrackAsyncTaskParams_layout,
     HookLauncher_TrackAsyncTaskResults_layout, HookLauncher_GetMemoryLocationParams_layout,
     HookLauncher_GetMemoryLocationResults_layout, HookLauncher_AdvisePrefetchParams_layout,
     HookLauncher_AdvisePrefetchResults_layout, HookLauncher_RequestRdmaPlanParams_layout,
     HookLauncher_RequestRdmaPlanResults_layout, HookLauncher_RequestAllocationPlanParams_layout,
     HookLauncher_RequestAllocationPlanResults_layout, HookLauncher_RequestFreePlanParams_layout,
     HookLauncher_RequestFreePlanResults_layout, HookLauncher_LaunchKernelParams_layout,
     HookLauncher_LaunchKernelResults_layout, BandwidthResult_layout, TaskStatus_layout, NodeInfo_layout]"

lemmas wireHookLauncher_fields =
  MemcpyPlan_targetServerIp_def MemcpyPlan_targetServerZmqPort_def MemcpyPlan_error_def
  MemcpyPlan_layout_def NodeStatus_id_def NodeStatus_availableMemory_def NodeStatus_gpuUtilization_def
  NodeStatus_networkLatency_def NodeStatus_numaNode_def NodeStatus_gpuCount_def NodeStatus_rdmaSupport_def
  NodeStatus_layout_def AllocationPlan_targetNodeId_def AllocationPlan_memoryType_def
  AllocationPlan_transportType_def AllocationPlan_prefetchHint_def AllocationPlan_layout_def
  HookLauncher_PlanMemcpyHtoDParams_dstHandle_def HookLauncher_PlanMemcpyHtoDParams_size_def
  HookLauncher_PlanMemcpyHtoDParams_layout_def HookLauncher_PlanMemcpyHtoDResults_plan_def
  HookLauncher_PlanMemcpyHtoDResults_layout_def HookLauncher_PlanMemcpyDtoHParams_srcHandle_def
  HookLauncher_PlanMemcpyDtoHParams_size_def HookLauncher_PlanMemcpyDtoHParams_layout_def
  HookLauncher_PlanMemcpyDtoHResults_plan_def HookLauncher_PlanMemcpyDtoHResults_layout_def
  HookLauncher_GetNodeStatusParams_layout_def HookLauncher_GetNodeStatusResults_nodes_def
  HookLauncher_GetNodeStatusResults_layout_def HookLauncher_PrefetchDataParams_handle_def
  HookLauncher_PrefetchDataParams_layout_def HookLauncher_PrefetchDataResults_ack_def
  HookLauncher_PrefetchDataResults_layout_def HookLauncher_MeasureBandwidthParams_src_def
  HookLauncher_MeasureBandwidthParams_dst_def HookLauncher_MeasureBandwidthParams_layout_def
  HookLauncher_MeasureBandwidthResults_result_def HookLauncher_MeasureBandwidthResults_layout_def
  HookLauncher_TrackAsyncTaskParams_taskId_def HookLauncher_TrackAsyncTaskParams_layout_def
  HookLauncher_TrackAsyncTaskResults_status_def HookLauncher_TrackAsyncTaskResults_layout_def
  HookLauncher_GetMemoryLocationParams_fakePtr_def HookLauncher_GetMemoryLocationParams_layout_def
  HookLauncher_GetMemoryLocationResults_location_def HookLauncher_GetMemoryLocationResults_layout_def
  HookLauncher_AdvisePrefetchParams_fakePtr_def HookLauncher_AdvisePrefetchParams_layout_def
  HookLauncher_AdvisePrefetchResults_ack_def HookLauncher_AdvisePrefetchResults_layout_def
  HookLauncher_RequestRdmaPlanParams_srcHandle_def HookLauncher_RequestRdmaPlanParams_dstHandle_def
  HookLauncher_RequestRdmaPlanParams_size_def HookLauncher_RequestRdmaPlanParams_layout_def
  HookLauncher_RequestRdmaPlanResults_plan_def HookLauncher_RequestRdmaPlanResults_layout_def
  HookLauncher_RequestAllocationPlanParams_size_def HookLauncher_RequestAllocationPlanParams_layout_def
  HookLauncher_RequestAllocationPlanResults_plan_def HookLauncher_RequestAllocationPlanResults_layout_def
  HookLauncher_RequestFreePlanParams_fakePtr_def HookLauncher_RequestFreePlanParams_layout_def
  HookLauncher_RequestFreePlanResults_ack_def HookLauncher_RequestFreePlanResults_layout_def
  HookLauncher_LaunchKernelParams_func_def HookLauncher_LaunchKernelParams_gridDimX_def
  HookLauncher_LaunchKernelParams_gridDimY_def HookLauncher_LaunchKernelParams_gridDimZ_def
  HookLauncher_LaunchKernelParams_blockDimX_def HookLauncher_LaunchKernelParams_blockDimY_def
  HookLauncher_LaunchKernelParams_blockDimZ_def HookLauncher_LaunchKernelParams_sharedMemBytes_def
  HookLauncher_LaunchKernelParams_params_def HookLauncher_LaunchKernelParams_layout_def
  HookLauncher_LaunchKernelResults_ack_def HookLauncher_LaunchKernelResults_layout_def
  BandwidthResult_throughput_def BandwidthResult_latency_def BandwidthResult_layout_def
  TaskStatus_progress_def TaskStatus_estimatedTime_def TaskStatus_layout_def NodeInfo_nodeId_def
  NodeInfo_memoryType_def NodeInfo_error_def NodeInfo_layout_def

lemma wireHookLauncher_layouts_ok: "list_all layout_ok wireHookLauncher_layouts"
  by (simp add: wireHookLauncher_layouts_def wireHookLauncher_fields struct_layout_def layout_ok_def inside_def apart_def
      first_bit_def data_field_def pointer_field_def)

end
