(* ===== verification/WireGpuControl.thy ===== *)
theory WireGpuControl
  imports Wire
begin

section \<open>The messages of gpu-control.capnp\<close>

text \<open>
  \<open>proto/proto/gpu-control.capnp.h\<close>, the messages of the scheduler: for every
  generated struct the constants its accessors pass to the runtime, one definition per field
  (width, element offset and default of a data field, index of a pointer field), and the sizes of
  its sections, from the declaration.
\<close>

text \<open>\<open>GpuList\<close>\<close>

definition GpuList_gpus :: pfield where "GpuList_gpus = pointer_field 0"
definition GpuList_layout :: layout where
  "GpuList_layout = struct_layout 0 1
     []
     [GpuList_gpus]"

text \<open>\<open>GpuRequest\<close>\<close>

definition GpuRequest_uuid :: pfield where "GpuRequest_uuid = pointer_field 0"
definition GpuRequest_layout :: layout where
  "GpuRequest_layout = struct_layout 0 1
     []
     [GpuRequest_uuid]"

text \<open>\<open>GpuStatus\<close>\<close>

definition GpuStatus_usedMemory :: dfield where "GpuStatus_usedMemory = data_field 64 0 0"
definition GpuStatus_utilization :: dfield where "GpuStatus_utilization = data_field 32 2 0"
definition GpuStatus_layout :: layout where
  "GpuStatus_layout = struct_layout 2 0
     [GpuStatus_usedMemory, GpuStatus_utilization]
     []"

text \<open>\<open>Path\<close>\<close>

definition Path_type :: dfield where "Path_type = data_field 16 0 0"
definition Path_steps :: pfield where "Path_steps = pointer_field 0"
definition Path_bandwidth :: dfield where "Path_bandwidth = data_field 32 1 0"
definition Path_layout :: layout where
  "Path_layout = struct_layout 1 1
     [Path_type, Path_bandwidth]
     [Path_steps]"

text \<open>\<open>Step\<close>\<close>

definition Step_device :: pfield where "Step_device = pointer_field 0"
definition Step_memType :: dfield where "Step_memType = data_field 16 0 0"
definition Step_numaNode :: dfield where "Step_numaNode = data_field 32 1 0"
definition Step_layout :: layout where
  "Step_layout = struct_layout 1 1
     [Step_memType, Step_numaNode]
     [Step_device]"

text \<open>\<open>Metrics\<close>\<close>

definition Metrics_throughput :: dfield where "Metrics_throughput = data_field 32 0 0"
definition Metrics_latency :: dfield where "Metrics_latency = data_field 32 1 0"
definition Metrics_errorRate :: dfield where "Metrics_errorRate = data_field 32 2 0"
definition Metrics_layout :: layout where
  "Metrics_layout = struct_layout 2 0
     [Metrics_throughput, Metrics_latency, Metrics_errorRate]
     []"

text \<open>\<open>Scheduler::RequestPathParams\<close>\<close>

definition Scheduler_RequestPathParams_src :: pfield where "Scheduler_RequestPathParams_src = pointer_field 0"
definition Scheduler_RequestPathParams_dst :: pfield where "Scheduler_RequestPathParams_dst = pointer_field 1"
definition Scheduler_RequestPathParams_layout :: layout where
  "Scheduler_RequestPathParams_layout = struct_layout 0 2
     []
     [Scheduler_RequestPathParams_src, Scheduler_RequestPathParams_dst]"

text \<open>\<open>Scheduler::RequestPathResults\<close>\<close>

definition Scheduler_RequestPathResults_path :: pfield where "Scheduler_RequestPathResults_path = pointer_field 0"
definition Scheduler_RequestPathResults_layout :: layout where
  "Scheduler_RequestPathResults_layout = struct_layout 0 1
     []
     [Scheduler_RequestPathResults_path]"

text \<open>\<open>Scheduler::ReportMetricsParams\<close>\<close>

definition Scheduler_ReportMetricsParams_metrics :: pfield where "Scheduler_ReportMetricsParams_metrics = pointer_field 0"
definition Scheduler_ReportMetricsParams_layout :: layout where
  "Scheduler_ReportMetricsParams_layout = struct_layout 0 1
     []
     [Scheduler_ReportMetricsParams_metrics]"

text \<open>\<open>Scheduler::ReportMetricsResults\<close>\<close>

definition Scheduler_ReportMetricsResults_layout :: layout where
  "Scheduler_ReportMetricsResults_layout = struct_layout 0 0
     []
     []"

text \<open>\<open>Scheduler::RegisterGpuParams\<close>\<close>

definition Scheduler_RegisterGpuParams_info :: pfield where "Scheduler_RegisterGpuParams_info = pointer_field 0"
definition Scheduler_RegisterGpuParams_layout :: layout where
  "Scheduler_RegisterGpuParams_layout = struct_layout 0 1
     []
     [Scheduler_RegisterGpuParams_info]"

text \<open>\<open>Scheduler::RegisterGpuResults\<close>\<close>

definition Scheduler_RegisterGpuResults_success :: dfield where "Scheduler_RegisterGpuResults_success = data_field 1 0 0"
definition Scheduler_RegisterGpuResults_layout :: layout where
  "Scheduler_RegisterGpuResults_layout = struct_layout 1 0
     [Scheduler_RegisterGpuResults_success]
     []"

text \<open>\<open>Scheduler::ListGpusParams\<close>\<close>

definition Scheduler_ListGpusParams_layout :: layout where
  "Scheduler_ListGpusParams_layout = struct_layout 0 0
     []
     []"

text \<open>\<open>Scheduler::ListGpusResults\<close>\<close>

definition Scheduler_ListGpusResults_gpus :: pfield where "Scheduler_ListGpusResults_gpus = pointer_field 0"
definition Scheduler_ListGpusResults_layout :: layout where
  "Scheduler_ListGpusResults_layout = struct_layout 0 1
     []
     [Scheduler_ListGpusResults_gpus]"

text \<open>\<open>Scheduler::GetGpuStatusParams\<close>\<close>

definition Scheduler_GetGpuStatusParams_request :: pfield where "Scheduler_GetGpuStatusParams_request = pointer_field 0"
definition Scheduler_GetGpuStatusParams_layout :: layout where
  "Scheduler_GetGpuStatusParams_layout = struct_layout 0 1
     []
     [Scheduler_GetGpuStatusParams_request]"

text \<open>\<open>Scheduler::GetGpuStatusResults\<close>\<close>

definition Scheduler_GetGpuStatusResults_status :: pfield where "Scheduler_GetGpuStatusResults_status = pointer_field 0"
definition Scheduler_GetGpuStatusResults_layout :: layout where
  "Scheduler_GetGpuStatusResults_layout = struct_layout 0 1
     []
     [Scheduler_GetGpuStatusResults_status]"

text \<open>\<open>Scheduler::AcquireGpuParams\<close>\<close>

definition Scheduler_AcquireGpuParams_request :: pfield where "Scheduler_AcquireGpuParams_request = pointer_field 0"
definition Scheduler_AcquireGpuParams_layout :: layout where
  "Scheduler_AcquireGpuParams_layout = struct_layout 0 1
     []
     [Scheduler_AcquireGpuParams_request]"

text \<open>\<open>Scheduler::AcquireGpuResults\<close>\<close>

definition Scheduler_AcquireGpuResults_ack :: pfield where "Scheduler_AcquireGpuResults_ack = pointer_field 0"
definition Scheduler_AcquireGpuResults_layout :: layout where
  "Scheduler_AcquireGpuResults_layout = struct_layout 0 1
     []
     [Scheduler_AcquireGpuResults_ack]"

text \<open>\<open>Scheduler::ReleaseGpuParams\<close>\<close>

definition Scheduler_ReleaseGpuParams_request :: pfield where "Scheduler_ReleaseGpuParams_request = pointer_field 0"
definition Scheduler_ReleaseGpuParams_layout :: layout where
  "Scheduler_ReleaseGpuParams_layout = struct_layout 0 1
     []
     [Scheduler_ReleaseGpuParams_request]"

text \<open>\<open>Scheduler::ReleaseGpuResults\<close>\<close>

definition Scheduler_ReleaseGpuResults_ack :: pfield where "Scheduler_ReleaseGpuResults_ack = pointer_field 0"
definition Scheduler_ReleaseGpuResults_layout :: layout where
  "Scheduler_ReleaseGpuResults_layout = struct_layout 0 1
     []
     [Scheduler_ReleaseGpuResults_ack]"

text \<open>\<open>Scheduler::RunCommandParams\<close>\<close>

definition Scheduler_RunCommandParams_request :: pfield where "Scheduler_RunCommandParams_request = pointer_field 0"
definition Scheduler_RunCommandParams_layout :: layout where
  "Scheduler_RunCommandParams_layout = struct_layout 0 1
     []
     [Scheduler_RunCommandParams_request]"

text \<open>\<open>Scheduler::RunCommandResults\<close>\<close>

definition Scheduler_RunCommandResults_response :: pfield where "Scheduler_RunCommandResults_response = pointer_field 0"
definition Scheduler_RunCommandResults_layout :: layout where
  "Scheduler_RunCommandResults_layout = struct_layout 0 1
     []
     [Scheduler_RunCommandResults_response]"

text \<open>\<open>RunRequest\<close>\<close>

definition RunRequest_uuid :: pfield where "RunRequest_uuid = pointer_field 0"
definition RunRequest_cmd :: pfield where "RunRequest_cmd = pointer_field 1"
definition RunRequest_streamHandle :: dfield where "RunRequest_streamHandle = data_field 64 0 0"
definition RunRequest_layout :: layout where
  "RunRequest_layout = struct_layout 1 2
     [RunRequest_streamHandle]
     [RunRequest_uuid, RunRequest_cmd]"

text \<open>\<open>RunResponse\<close>\<close>

definition RunResponse_exitCode :: dfield where "RunResponse_exitCode = data_field 32 0 0"
definition RunResponse_output :: pfield where "RunResponse_output = pointer_field 0"
definition RunResponse_layout :: layout where
  "RunResponse_layout = struct_layout 1 1
     [RunResponse_exitCode]
     [RunResponse_output]"

definition wireGpuControl_layouts :: "layout list" where
  "wireGpuControl_layouts = [
     GpuList_layout, GpuRequest_layout, GpuStatus_layout, Path_layout, Step_layout, Metrics_layout,
     Scheduler_RequestPathParams_layout, Scheduler_RequestPathResults_layout,
     Scheduler_ReportMetricsParams_layout, Scheduler_ReportMetricsResults_layout,
     Scheduler_RegisterGpuParams_layout, Scheduler_RegisterGpuResults_layout,
     Scheduler_ListGpusParams_layout, Scheduler_ListGpusResults_layout, Scheduler_GetGpuStatusParams_layout,
     Scheduler_GetGpuStatusResults_layout, Scheduler_AcquireGpuParams_layout,
     Scheduler_AcquireGpuResults_layout, Scheduler_ReleaseGpuParams_layout,
     Scheduler_ReleaseGpuResults_layout, Scheduler_RunCommandParams_layout,
     Scheduler_RunCommandResults_layout, RunRequest_layout, RunResponse_layout]"

lemmas wireGpuControl_fields =
  GpuList_gpus_def GpuList_layout_def GpuRequest_uuid_def GpuRequest_layout_def GpuStatus_usedMemory_def
  GpuStatus_utilization_def GpuStatus_layout_def Path_type_def Path_steps_def Path_bandwidth_def
  Path_layout_def Step_device_def Step_memType_def Step_numaNode_def Step_layout_def Metrics_throughput_def
  Metrics_latency_def Metrics_errorRate_def Metrics_layout_def Scheduler_RequestPathParams_src_def
  Scheduler_RequestPathParams_dst_def Scheduler_RequestPathParams_layout_def
  Scheduler_RequestPathResults_path_def Scheduler_RequestPathResults_layout_def
  Scheduler_ReportMetricsParams_metrics_def Scheduler_ReportMetricsParams_layout_def
  Scheduler_ReportMetricsResults_layout_def Scheduler_RegisterGpuParams_info_def
  Scheduler_RegisterGpuParams_layout_def Scheduler_RegisterGpuResults_success_def
  Scheduler_RegisterGpuResults_layout_def Scheduler_ListGpusParams_layout_def
  Scheduler_ListGpusResults_gpus_def Scheduler_ListGpusResults_layout_def
  Scheduler_GetGpuStatusParams_request_def Scheduler_GetGpuStatusParams_layout_def
  Scheduler_GetGpuStatusResults_status_def Scheduler_GetGpuStatusResults_layout_def
  Scheduler_AcquireGpuParams_request_def Scheduler_AcquireGpuParams_layout_def
  Scheduler_AcquireGpuResults_ack_def Scheduler_AcquireGpuResults_layout_def
  Scheduler_ReleaseGpuParams_request_def Scheduler_ReleaseGpuParams_layout_def
  Scheduler_ReleaseGpuResults_ack_def Scheduler_ReleaseGpuResults_layout_def
  Scheduler_RunCommandParams_request_def Scheduler_RunCommandParams_layout_def
  Scheduler_RunCommandResults_response_def Scheduler_RunCommandResults_layout_def RunRequest_uuid_def
  RunRequest_cmd_def RunRequest_streamHandle_def RunRequest_layout_def RunResponse_exitCode_def
  RunResponse_output_def RunResponse_layout_def

lemma wireGpuControl_layouts_ok: "list_all layout_ok wireGpuControl_layouts"
  by (simp add: wireGpuControl_layouts_def wireGpuControl_fields struct_layout_def layout_ok_def inside_def apart_def
      first_bit_def data_field_def pointer_field_def)

end
