(* ===== verification/WireCuda.thy ===== *)
theory WireCuda
  imports Wire
begin

section \<open>The messages of cuda.capnp\<close>

text \<open>
  \<open>proto/proto/cuda.capnp.h\<close>, the messages of the CUDA service: for every generated
  struct the constants its accessors pass to the runtime, one definition per field (width, element
  offset and default of a data field, index of a pointer field), and the sizes of its sections,
  from the declaration.
\<close>

text \<open>\<open>MemcpyParams\<close>\<close>

definition MemcpyParams_src :: pfield where "MemcpyParams_src = pointer_field 0"
definition MemcpyParams_dst :: pfield where "MemcpyParams_dst = pointer_field 1"
definition MemcpyParams_size :: dfield where "MemcpyParams_size = data_field 64 0 0"
definition MemcpyParams_direction :: dfield where "MemcpyParams_direction = data_field 16 4 0"
definition MemcpyParams_layout :: layout where
  "MemcpyParams_layout = struct_layout 2 2
     [MemcpyParams_size, MemcpyParams_direction]
     [MemcpyParams_src, MemcpyParams_dst]"

text \<open>\<open>StreamHandle\<close>\<close>

definition StreamHandle_handle :: dfield where "StreamHandle_handle = data_field 64 0 0"
definition StreamHandle_layout :: layout where
  "StreamHandle_layout = struct_layout 1 0
     [StreamHandle_handle]
     []"

text \<open>\<open>StreamCreateParams\<close>\<close>

definition StreamCreateParams_flags :: dfield where "StreamCreateParams_flags = data_field 32 0 0"
definition StreamCreateParams_layout :: layout where
  "StreamCreateParams_layout = struct_layout 1 0
     [StreamCreateParams_flags]
     []"

text \<open>\<open>EventHandle\<close>\<close>

definition EventHandle_handle :: dfield where "EventHandle_handle = data_field 64 0 0"
definition EventHandle_layout :: layout where
  "EventHandle_layout = struct_layout 1 0
     [EventHandle_handle]
     []"

text \<open>\<open>EventParams\<close>\<close>

definition EventParams_flags :: dfield where "EventParams_flags = data_field 32 0 0"
definition EventParams_layout :: layout where
  "EventParams_layout = struct_layout 1 0
     [EventParams_flags]
     []"

text \<open>\<open>BatchKernelLaunch\<close>\<close>

definition BatchKernelLaunch_requests :: pfield where "BatchKernelLaunch_requests = pointer_field 0"
definition BatchKernelLaunch_stream :: dfield where "BatchKernelLaunch_stream = data_field 64 0 0"
definition BatchKernelLaunch_layout :: layout where
  "BatchKernelLaunch_layout = struct_layout 1 1
     [BatchKernelLaunch_stream]
     [BatchKernelLaunch_requests]"

text \<open>\<open>MultiGpuRequest\<close>\<close>

definition MultiGpuRequest_uuids :: pfield where "MultiGpuRequest_uuids = pointer_field 0"
definition MultiGpuRequest_command :: pfield where "MultiGpuRequest_command = pointer_field 1"
definition MultiGpuRequest_stream :: dfield where "MultiGpuRequest_stream = data_field 64 0 0"
definition MultiGpuRequest_layout :: layout where
  "MultiGpuRequest_layout = struct_layout 1 2
     [MultiGpuRequest_stream]
     [MultiGpuRequest_uuids, MultiGpuRequest_command]"

text \<open>\<open>CudaService::CudaInitParams\<close>\<close>

definition CudaService_CudaInitParams_layout :: layout where
  "CudaService_CudaInitParams_layout = struct_layout 0 0
     []
     []"

text \<open>\<open>CudaService::CudaInitResults\<close>\<close>

definition CudaService_CudaInitResults_ack :: pfield where "CudaService_CudaInitResults_ack = pointer_field 0"
definition CudaService_CudaInitResults_layout :: layout where
  "CudaService_CudaInitResults_layout = struct_layout 0 1
     []
     [CudaService_CudaInitResults_ack]"

text \<open>\<open>CudaService::CudaMemAllocParams\<close>\<close>

definition CudaService_CudaMemAllocParams_size :: dfield where "CudaService_CudaMemAllocParams_size = data_field 64 0 0"
definition CudaService_CudaMemAllocParams_layout :: layout where
  "CudaService_CudaMemAllocParams_layout = struct_layout 1 0
     [CudaService_CudaMemAllocParams_size]
     []"

text \<open>\<open>CudaService::CudaMemAllocResults\<close>\<close>

definition CudaService_CudaMemAllocResults_result :: pfield where "CudaService_CudaMemAllocResults_result = pointer_field 0"
definition CudaService_CudaMemAllocResults_layout :: layout where
  "CudaService_CudaMemAllocResults_layout = struct_layout 0 1
     []
     [CudaService_CudaMemAllocResults_result]"

text \<open>\<open>CudaService::CudaMemcpyParams\<close>\<close>

definition CudaService_CudaMemcpyParams_params :: pfield where "CudaService_CudaMemcpyParams_params = pointer_field 0"
definition CudaService_CudaMemcpyParams_layout :: layout where
  "CudaService_CudaMemcpyParams_layout = struct_layout 0 1
     []
     [CudaService_CudaMemcpyParams_params]"

text \<open>\<open>CudaService::CudaMemcpyResults\<close>\<close>

definition CudaService_CudaMemcpyResults_ack :: pfield where "CudaService_CudaMemcpyResults_ack = pointer_field 0"
definition CudaService_CudaMemcpyResults_layout :: layout where
  "CudaService_CudaMemcpyResults_layout = struct_layout 0 1
     []
     [CudaService_CudaMemcpyResults_ack]"

text \<open>\<open>CudaService::CudaMemFreeParams\<close>\<close>

definition CudaService_CudaMemFreeParams_handle :: pfield where "CudaService_CudaMemFreeParams_handle = pointer_field 0"
definition CudaService_CudaMemFreeParams_layout :: layout where
  "CudaService_CudaMemFreeParams_layout = struct_layout 0 1
     []
     [CudaService_CudaMemFreeParams_handle]"

text \<open>\<open>CudaService::CudaMemFreeResults\<close>\<close>

definition CudaService_CudaMemFreeResults_ack :: pfield where "CudaService_CudaMemFreeResults_ack = pointer_field 0"
definition CudaService_CudaMemFreeResults_layout :: layout where
  "CudaService_CudaMemFreeResults_layout = struct_layout 0 1
     []
     [CudaService_CudaMemFreeResults_ack]"

text \<open>\<open>CudaService::CreateCudaStreamParams\<close>\<close>

definition CudaService_CreateCudaStreamParams_params :: pfield where "CudaService_CreateCudaStreamParams_params = pointer_field 0"
definition CudaService_CreateCudaStreamParams_layout :: layout where
  "CudaService_CreateCudaStreamParams_layout = struct_layout 0 1
     []
     [CudaService_CreateCudaStreamParams_params]"

text \<open>\<open>CudaService::CreateCudaStreamResults\<close>\<close>

definition CudaService_CreateCudaStreamResults_handle :: pfield where "CudaService_CreateCudaStreamResults_handle = pointer_field 0"
definition CudaService_CreateCudaStreamResults_layout :: layout where
  "CudaService_CreateCudaStreamResults_layout = struct_layout 0 1
     []
     [CudaService_CreateCudaStreamResults_handle]"

text \<open>\<open>CudaService::DestroyCudaStreamParams\<close>\<close>

definition CudaService_DestroyCudaStreamParams_handle :: pfield where "CudaService_DestroyCudaStreamParams_handle = pointer_field 0"
definition CudaService_DestroyCudaStreamParams_layout :: layout where
  "CudaService_DestroyCudaStreamParams_layout = struct_layout 0 1
     []
     [CudaService_DestroyCudaStreamParams_handle]"

text \<open>\<open>CudaService::DestroyCudaStreamResults\<close>\<close>

definition CudaService_DestroyCudaStreamResults_ack :: pfield where "CudaService_DestroyCudaStreamResults_ack = pointer_field 0"
definition CudaService_DestroyCudaStreamResults_layout :: layout where
  "CudaService_DestroyCudaStreamResults_layout = struct_layout 0 1
     []
     [CudaService_DestroyCudaStreamResults_ack]"

text \<open>\<open>CudaService::SynchronizeCudaStreamParams\<close>\<close>

definition CudaService_SynchronizeCudaStreamParams_handle :: pfield where "CudaService_SynchronizeCudaStreamParams_handle = pointer_field 0"
definition CudaService_SynchronizeCudaStreamParams_layout :: layout where
  "CudaService_SynchronizeCudaStreamParams_layout = struct_layout 0 1
     []
     [CudaService_SynchronizeCudaStreamParams_handle]"

text \<open>\<open>CudaService::SynchronizeCudaStreamResults\<close>\<close>

definition CudaService_SynchronizeCudaStreamResults_ack :: pfield where "CudaService_SynchronizeCudaStreamResults_ack = pointer_field 0"
definition CudaService_SynchronizeCudaStreamResults_layout :: layout where
  "CudaService_SynchronizeCudaStreamResults_layout = struct_layout 0 1
     []
     [CudaService_SynchronizeCudaStreamResults_ack]"

text \<open>\<open>CudaService::CudaKernelLaunchParams\<close>\<close>

definition CudaService_CudaKernelLaunchParams_request :: pfield where "CudaService_CudaKernelLaunchParams_request = pointer_field 0"
definition CudaService_CudaKernelLaunchParams_layout :: layout where
  "CudaService_CudaKernelLaunchParams_layout = struct_layout 0 1
     []
     [CudaService_CudaKernelLaunchParams_request]"

text \<open>\<open>CudaService::CudaKernelLaunchResults\<close>\<close>

definition CudaService_CudaKernelLaunchResults_ack :: pfield where "CudaService_CudaKernelLaunchResults_ack = pointer_field 0"
definition CudaService_CudaKernelLaunchResults_layout :: layout where
  "CudaService_CudaKernelLaunchResults_layout = struct_layout 0 1
     []
     [CudaService_CudaKernelLaunchResults_ack]"

text \<open>\<open>CudaService::CreateEventParams\<close>\<close>

definition CudaService_CreateEventParams_params :: pfield where "CudaService_CreateEventParams_params = pointer_field 0"
definition CudaService_CreateEventParams_layout :: layout where
  "CudaService_CreateEventParams_layout = struct_layout 0 1
     []
     [CudaService_CreateEventParams_params]"

text \<open>\<open>CudaService::CreateEventResults\<close>\<close>

definition CudaService_CreateEventResults_handle :: pfield where "CudaService_CreateEventResults_handle = pointer_field 0"
definition CudaService_CreateEventResults_layout :: layout where
  "CudaService_CreateEventResults_layout = struct_layout 0 1
     []
     [CudaService_CreateEventResults_handle]"

text \<open>\<open>CudaService::RecordEventParams\<close>\<close>

definition CudaService_RecordEventParams_handle :: pfield where "CudaService_RecordEventParams_handle = pointer_field 0"
definition CudaService_RecordEventParams_layout :: layout where
  "CudaService_RecordEventParams_layout = struct_layout 0 1
     []
     [CudaService_RecordEventParams_handle]"

text \<open>\<open>CudaService::RecordEventResults\<close>\<close>

definition CudaService_RecordEventResults_ack :: pfield where "CudaService_RecordEventResults_ack = pointer_field 0"
definition CudaService_RecordEventResults_layout :: layout where
  "CudaService_RecordEventResults_layout = struct_layout 0 1
     []
     [CudaService_RecordEventResults_ack]"

text \<open>\<open>CudaService::EventSynchronizeParams\<close>\<close>

definition CudaService_EventSynchronizeParams_handle :: pfield where "CudaService_EventSynchronizeParams_handle = pointer_field 0"
definition CudaService_EventSynchronizeParams_layout :: layout where
  "CudaService_EventSynchronizeParams_layout = struct_layout 0 1
     []
     [CudaService_EventSynchronizeParams_handle]"

text \<open>\<open>CudaService::EventSynchronizeResults\<close>\<close>

definition CudaService_EventSynchronizeResults_ack :: pfield where "CudaService_EventSynchronizeResults_ack = pointer_field 0"
definition CudaService_EventSynchronizeResults_layout :: layout where
  "CudaService_EventSynchronizeResults_layout = struct_layout 0 1
     []
     [CudaService_EventSynchronizeResults_ack]"

text \<open>\<open>CudaService::DestroyEventParams\<close>\<close>

definition CudaService_DestroyEventParams_handle :: pfield where "CudaService_DestroyEventParams_handle = pointer_field 0"
definition CudaService_DestroyEventParams_layout :: layout where
  "CudaService_DestroyEventParams_layout = struct_layout 0 1
     []
     [CudaService_DestroyEventParams_handle]"

text \<open>\<open>CudaService::DestroyEventResults\<close>\<close>

definition CudaService_DestroyEventResults_ack :: pfield where "CudaService_DestroyEventResults_ack = pointer_field 0"
definition CudaService_DestroyEventResults_layout :: layout where
  "CudaService_DestroyEventResults_layout = struct_layout 0 1
     []
     [CudaService_DestroyEventResults_ack]"

text \<open>\<open>CudaService::BatchKernelLaunchParams\<close>\<close>

definition CudaService_BatchKernelLaunchParams_request :: pfield where "CudaService_BatchKernelLaunchParams_request = pointer_field 0"
definition CudaService_BatchKernelLaunchParams_layout :: layout where
  "CudaService_BatchKernelLaunchParams_layout = struct_layout 0 1
     []
     [CudaService_BatchKernelLaunchParams_request]"

text \<open>\<open>CudaService::BatchKernelLaunchResults\<close>\<close>

definition CudaService_BatchKernelLaunchResults_ack :: pfield where "CudaService_BatchKernelLaunchResults_ack = pointer_field 0"
definition CudaService_BatchKernelLaunchResults_layout :: layout where
  "CudaService_BatchKernelLaunchResults_layout = struct_layout 0 1
     []
     [CudaService_BatchKernelLaunchResults_ack]"

text \<open>\<open>CudaService::MultiGpuCooperationParams\<close>\<close>

definition CudaService_MultiGpuCooperationParams_request :: pfield where "CudaService_MultiGpuCooperationParams_request = pointer_field 0"
definition CudaService_MultiGpuCooperationParams_layout :: layout where
  "CudaService_MultiGpuCooperationParams_layout = struct_layout 0 1
     []
     [CudaService_MultiGpuCooperationParams_request]"

text \<open>\<open>CudaService::MultiGpuCooperationResults\<close>\<close>

definition CudaService_MultiGpuCooperationResults_ack :: pfield where "CudaService_MultiGpuCooperationResults_ack = pointer_field 0"
definition CudaService_MultiGpuCooperationResults_layout :: layout where
  "CudaService_MultiGpuCooperationResults_layout = struct_layout 0 1
     []
     [CudaService_MultiGpuCooperationResults_ack]"

text \<open>\<open>CudaService::AllocAndWriteParams\<close>\<close>

definition CudaService_AllocAndWriteParams_size :: dfield where "CudaService_AllocAndWriteParams_size = data_field 64 0 0"
definition CudaService_AllocAndWriteParams_data :: pfield where "CudaService_AllocAndWriteParams_data = pointer_field 0"
definition CudaService_AllocAndWriteParams_layout :: layout where
  "CudaService_AllocAndWriteParams_layout = struct_layout 1 1
     [CudaService_AllocAndWriteParams_size]
     [CudaService_AllocAndWriteParams_data]"

text \<open>\<open>CudaService::AllocAndWriteResults\<close>\<close>

definition CudaService_AllocAndWriteResults_result :: pfield where "CudaService_AllocAndWriteResults_result = pointer_field 0"
definition CudaService_AllocAndWriteResults_layout :: layout where
  "CudaService_AllocAndWriteResults_layout = struct_layout 0 1
     []
     [CudaService_AllocAndWriteResults_result]"

definition wireCuda_layouts :: "layout list" where
  "wireCuda_layouts = [
     MemcpyParams_layout, StreamHandle_layout, StreamCreateParams_layout, EventHandle_layout,
     EventParams_layout, BatchKernelLaunch_layout, MultiGpuRequest_layout, CudaService_CudaInitParams_layout,
     CudaService_CudaInitResults_layout, CudaService_CudaMemAllocParams_layout,
     CudaService_CudaMemAllocResults_layout, CudaService_CudaMemcpyParams_layout,
     CudaService_CudaMemcpyResults_layout, CudaService_CudaMemFreeParams_layout,
     CudaService_CudaMemFreeResults_layout, CudaService_CreateCudaStreamParams_layout,
     CudaService_CreateCudaStreamResults_layout, CudaService_DestroyCudaStreamParams_layout,
     CudaService_DestroyCudaStreamResults_layout, CudaService_SynchronizeCudaStreamParams_layout,
     CudaService_SynchronizeCudaStreamResults_layout, CudaService_CudaKernelLaunchParams_layout,
     CudaService_CudaKernelLaunchResults_layout, CudaService_CreateEventParams_layout,
     CudaService_CreateEventResults_layout, CudaService_RecordEventParams_layout,
     CudaService_RecordEventResults_layout, CudaService_EventSynchronizeParams_layout,
     CudaService_EventSynchronizeResults_layout, CudaService_DestroyEventParams_layout,
     CudaService_DestroyEventResults_layout, CudaService_BatchKernelLaunchParams_layout,
     CudaService_BatchKernelLaunchResults_layout, CudaService_MultiGpuCooperationParams_layout,
     CudaService_MultiGpuCooperationResults_layout, CudaService_AllocAndWriteParams_layout,
     CudaService_AllocAndWriteResults_layout]"

lemmas wireCuda_fields =
  MemcpyParams_src_def MemcpyParams_dst_def MemcpyParams_size_def MemcpyParams_direction_def
  MemcpyParams_layout_def StreamHandle_handle_def StreamHandle_layout_def StreamCreateParams_flags_def
  StreamCreateParams_layout_def EventHandle_handle_def EventHandle_layout_def EventParams_flags_def
  EventParams_layout_def BatchKernelLaunch_requests_def BatchKernelLaunch_stream_def
  BatchKernelLaunch_layout_def MultiGpuRequest_uuids_def MultiGpuRequest_command_def
  MultiGpuRequest_stream_def MultiGpuRequest_layout_def CudaService_CudaInitParams_layout_def
  CudaService_CudaInitResults_ack_def CudaService_CudaInitResults_layout_def
  CudaService_CudaMemAllocParams_size_def CudaService_CudaMemAllocParams_layout_def
  CudaService_CudaMemAllocResults_result_def CudaService_CudaMemAllocResults_layout_def
  CudaService_CudaMemcpyParams_params_def CudaService_CudaMemcpyParams_layout_def
  CudaService_CudaMemcpyResults_ack_def CudaService_CudaMemcpyResults_layout_def
  CudaService_CudaMemFreeParams_handle_def CudaService_CudaMemFreeParams_layout_def
  CudaService_CudaMemFreeResults_ack_def CudaService_CudaMemFreeResults_layout_def
  CudaService_CreateCudaStreamParams_params_def CudaService_CreateCudaStreamParams_layout_def
  CudaService_CreateCudaStreamResults_handle_def CudaService_CreateCudaStreamResults_layout_def
  CudaService_DestroyCudaStreamParams_handle_def CudaService_DestroyCudaStreamParams_layout_def
  CudaService_DestroyCudaStreamResults_ack_def CudaService_DestroyCudaStreamResults_layout_def
  CudaService_SynchronizeCudaStreamParams_handle_def CudaService_SynchronizeCudaStreamParams_layout_def
  CudaService_SynchronizeCudaStreamResults_ack_def CudaService_SynchronizeCudaStreamResults_layout_def
  CudaService_CudaKernelLaunchParams_request_def CudaService_CudaKernelLaunchParams_layout_def
  CudaService_CudaKernelLaunchResults_ack_def CudaService_CudaKernelLaunchResults_layout_def
  CudaService_CreateEventParams_params_def CudaService_CreateEventParams_layout_def
  CudaService_CreateEventResults_handle_def CudaService_CreateEventResults_layout_def
  CudaService_RecordEventParams_handle_def CudaService_RecordEventParams_layout_def
  CudaService_RecordEventResults_ack_def CudaService_RecordEventResults_layout_def
  CudaService_EventSynchronizeParams_handle_def CudaService_EventSynchronizeParams_layout_def
  CudaService_EventSynchronizeResults_ack_def CudaService_EventSynchronizeResults_layout_def
  CudaService_DestroyEventParams_handle_def CudaService_DestroyEventParams_layout_def
  CudaService_DestroyEventResults_ack_def CudaService_DestroyEventResults_layout_def
  CudaService_BatchKernelLaunchParams_request_def CudaService_BatchKernelLaunchParams_layout_def
  CudaService_BatchKernelLaunchResults_ack_def CudaService_BatchKernelLaunchResults_layout_def
  CudaService_MultiGpuCooperationParams_request_def CudaService_MultiGpuCooperationParams_layout_def
  CudaService_MultiGpuCooperationResults_ack_def CudaService_MultiGpuCooperationResults_layout_def
  CudaService_AllocAndWriteParams_size_def CudaService_AllocAndWriteParams_data_def
  CudaService_AllocAndWriteParams_layout_def CudaService_AllocAndWriteResults_result_def
  CudaService_AllocAndWriteResults_layout_def

lemma wireCuda_layouts_ok: "list_all layout_ok wireCuda_layouts"
  by (simp add: wireCuda_layouts_def wireCuda_fields struct_layout_def layout_ok_def inside_def apart_def
      first_bit_def data_field_def pointer_field_def)

end
