(* ===== verification/Rpc.thy ===== *)
theory Rpc
  imports WireHookLauncher WireGpuControl WireCuda
begin

section \<open>Remote calls: the generated stubs and dispatchers\<close>

text \<open>
  \<open>proto/proto/*.capnp.c++\<close>: for the three interfaces the request stubs of the client (the
  interface and method number handed to the runtime's \<open>newCall\<close>, with the types of parameters and
  results), the server's \<open>dispatchCall\<close> and \<open>dispatchCallInternal\<close> (which method runs for which
  numbers, with the types its context is cast to), and the server's default methods, which answer
  unimplemented. A type is represented by the layout of its struct; \<open>None\<close> is
  \<open>internalUnimplemented\<close>. The locale \<open>rpc_interface\<close> is what client and server rely on.
\<close>

record rpc_call =
  call_interface :: u64
  call_method :: u16
  call_params :: layout
  call_results :: layout

type_synonym 'm dispatched = "('m \<times> layout \<times> layout) option"

definition newCall :: "layout \<Rightarrow> layout \<Rightarrow> u64 \<Rightarrow> u16 \<Rightarrow> rpc_call" where
  "newCall params results interfaceId methodId = \<lparr>call_interface = interfaceId, call_method = methodId,
     call_params = params, call_results = results\<rparr>"

definition unimplemented :: "'a exec" where
  "unimplemented = Throws ''kj::Exception''"

text \<open>A server runs the method it was dispatched to: its own one if it overrides it, or the default.\<close>

definition run_method :: "('m \<Rightarrow> 'a exec option) \<Rightarrow> 'm dispatched \<Rightarrow> 'a exec" where
  "run_method overrides d =
     (case d of
        None \<Rightarrow> unimplemented
      | Some (m, _, _) \<Rightarrow> (case overrides m of None \<Rightarrow> unimplemented | Some body \<Rightarrow> body))"

subsection \<open>The contract of an interface\<close>

locale rpc_interface =
  fixes request :: "'m \<Rightarrow> rpc_call"
    and dispatch :: "u64 \<Rightarrow> u16 \<Rightarrow> 'm dispatched"
  assumes dispatch_request: "dispatch (call_interface (request m)) (call_method (request m)) =
      Some (m, call_params (request m), call_results (request m))"
    and dispatch_only: "dispatch i n = Some (m, ps, rs) \<Longrightarrow> i = call_interface (request m) \<and> n = call_method (request m)"
begin

definition call :: "('m \<Rightarrow> 'a exec option) \<Rightarrow> 'm \<Rightarrow> 'a exec" where
  "call overrides m = run_method overrides (dispatch (call_interface (request m)) (call_method (request m)))"

lemma call_overridden: "overrides m = Some body \<Longrightarrow> call overrides m = body"
  by (simp add: call_def run_method_def dispatch_request)

lemma call_default: "overrides m = None \<Longrightarrow> call overrides m = unimplemented"
  by (simp add: call_def run_method_def dispatch_request)

lemma numbers_identify:
  assumes "call_interface (request m) = call_interface (request k)" "call_method (request m) = call_method (request k)"
  shows "m = k"
  using dispatch_request [of m, unfolded assms] dispatch_request [of k] by (simp only: option.inject prod.inject)

lemma dispatch_iff:
  "(\<exists>ps rs. dispatch i n = Some (m, ps, rs)) \<longleftrightarrow> i = call_interface (request m) \<and> n = call_method (request m)"
  using dispatch_only dispatch_request by blast

lemma dispatch_Some_iff: "dispatch i n = Some (m, ps, rs) \<longleftrightarrow> request m = newCall ps rs i n"
proof
  assume d: "dispatch i n = Some (m, ps, rs)"
  then have "i = call_interface (request m)" "n = call_method (request m)" using dispatch_only by auto
  with d show "request m = newCall ps rs i n" using dispatch_request [of m] by (simp add: newCall_def)
next
  assume "request m = newCall ps rs i n"
  then show "dispatch i n = Some (m, ps, rs)" using dispatch_request [of m] by (simp add: newCall_def)
qed

lemma dispatch_None_iff: "dispatch i n = None \<longleftrightarrow> (\<forall>k ps rs. request k \<noteq> newCall ps rs i n)"
proof
  assume none: "dispatch i n = None"
  show "\<forall>k ps rs. request k \<noteq> newCall ps rs i n"
  proof (intro allI notI)
    fix k ps rs assume "request k = newCall ps rs i n"
    then show False using none dispatch_Some_iff [of i n k ps rs] by simp
  qed
next
  assume other: "\<forall>k ps rs. request k \<noteq> newCall ps rs i n"
  show "dispatch i n = None"
  proof (cases "dispatch i n")
    case (Some d)
    obtain m ps rs where "d = (m, ps, rs)" by (cases d)
    then show ?thesis using Some other dispatch_Some_iff [of i n m ps rs] by simp
  qed
qed

end

subsection \<open>\<open>HookLauncher\<close>\<close>

datatype launcher_method =
  M_planMemcpyHtoD | M_planMemcpyDtoH | M_getNodeStatus | M_prefetchData | M_measureBandwidth |
  M_trackAsyncTask | M_getMemoryLocation | M_advisePrefetch | M_requestRdmaPlan |
  M_requestAllocationPlan | M_requestFreePlan | M_launchKernel

fun launcher_name :: "launcher_method \<Rightarrow> string" where
  "launcher_name M_planMemcpyHtoD = ''planMemcpyHtoD''"
| "launcher_name M_planMemcpyDtoH = ''planMemcpyDtoH''"
| "launcher_name M_getNodeStatus = ''getNodeStatus''"
| "launcher_name M_prefetchData = ''prefetchData''"
| "launcher_name M_measureBandwidth = ''measureBandwidth''"
| "launcher_name M_trackAsyncTask = ''trackAsyncTask''"
| "launcher_name M_getMemoryLocation = ''getMemoryLocation''"
| "launcher_name M_advisePrefetch = ''advisePrefetch''"
| "launcher_name M_requestRdmaPlan = ''requestRdmaPlan''"
| "launcher_name M_requestAllocationPlan = ''requestAllocationPlan''"
| "launcher_name M_requestFreePlan = ''requestFreePlan''"
| "launcher_name M_launchKernel = ''launchKernel''"

definition launcher_methods :: "launcher_method list" where
  "launcher_methods = [
     M_planMemcpyHtoD, M_planMemcpyDtoH, M_getNodeStatus, M_prefetchData, M_measureBandwidth,
     M_trackAsyncTask, M_getMemoryLocation, M_advisePrefetch, M_requestRdmaPlan,
     M_requestAllocationPlan, M_requestFreePlan, M_launchKernel]"

definition launcher_id :: u64 where "launcher_id = 0xb5d15336d30e0dd1"

fun launcher_request :: "launcher_method \<Rightarrow> rpc_call" where
  "launcher_request M_planMemcpyHtoD =
     newCall HookLauncher_PlanMemcpyHtoDParams_layout HookLauncher_PlanMemcpyHtoDResults_layout 0xb5d15336d30e0dd1 0"
| "launcher_request M_planMemcpyDtoH =
     newCall HookLauncher_PlanMemcpyDtoHParams_layout HookLauncher_PlanMemcpyDtoHResults_layout 0xb5d15336d30e0dd1 1"
| "launcher_request M_getNodeStatus =
     newCall HookLauncher_GetNodeStatusParams_layout HookLauncher_GetNodeStatusResults_layout 0xb5d15336d30e0dd1 2"
| "launcher_request M_prefetchData =
     newCall HookLauncher_PrefetchDataParams_layout HookLauncher_PrefetchDataResults_layout 0xb5d15336d30e0dd1 3"
| "launcher_request M_measureBandwidth =
     newCall HookLauncher_MeasureBandwidthParams_layout HookLauncher_MeasureBandwidthResults_layout 0xb5d15336d30e0dd1 4"
| "launcher_request M_trackAsyncTask =
     newCall HookLauncher_TrackAsyncTaskParams_layout HookLauncher_TrackAsyncTaskResults_layout 0xb5d15336d30e0dd1 5"
| "launcher_request M_getMemoryLocation =
     newCall HookLauncher_GetMemoryLocationParams_layout HookLauncher_GetMemoryLocationResults_layout 0xb5d15336d30e0dd1 6"
| "launcher_request M_advisePrefetch =
     newCall HookLauncher_AdvisePrefetchParams_layout HookLauncher_AdvisePrefetchResults_layout 0xb5d15336d30e0dd1 7"
| "launcher_request M_requestRdmaPlan =
     newCall HookLauncher_RequestRdmaPlanParams_layout HookLauncher_RequestRdmaPlanResults_layout 0xb5d15336d30e0dd1 8"
| "launcher_request M_requestAllocationPlan =
     newCall HookLauncher_RequestAllocationPlanParams_layout HookLauncher_RequestAllocationPlanResults_layout 0xb5d15336d30e0dd1 9"
| "launcher_request M_requestFreePlan =
     newCall HookLauncher_RequestFreePlanParams_layout HookLauncher_RequestFreePlanResults_layout 0xb5d15336d30e0dd1 10"
| "launcher_request M_launchKernel =
     newCall HookLauncher_LaunchKernelParams_layout HookLauncher_LaunchKernelResults_layout 0xb5d15336d30e0dd1 11"

definition launcher_dispatchCallInternal :: "u16 \<Rightarrow> launcher_method dispatched" where
  "launcher_dispatchCallInternal methodId =
     (if methodId = 0 then
        Some (M_planMemcpyHtoD, HookLauncher_PlanMemcpyHtoDParams_layout, HookLauncher_PlanMemcpyHtoDResults_layout)
      else if methodId = 1 then
        Some (M_planMemcpyDtoH, HookLauncher_PlanMemcpyDtoHParams_layout, HookLauncher_PlanMemcpyDtoHResults_layout)
      else if methodId = 2 then
        Some (M_getNodeStatus, HookLauncher_GetNodeStatusParams_layout, HookLauncher_GetNodeStatusResults_layout)
      else if methodId = 3 then
        Some (M_prefetchData, HookLauncher_PrefetchDataParams_layout, HookLauncher_PrefetchDataResults_layout)
      else if methodId = 4 then
        Some (M_measureBandwidth, HookLauncher_MeasureBandwidthParams_layout, HookLauncher_MeasureBandwidthResults_layout)
      else if methodId = 5 then
        Some (M_trackAsyncTask, HookLauncher_TrackAsyncTaskParams_layout, HookLauncher_TrackAsyncTaskResults_layout)
      else if methodId = 6 then
        Some (M_getMemoryLocation, HookLauncher_GetMemoryLocationParams_layout, HookLauncher_GetMemoryLocationResults_layout)
      else if methodId = 7 then
        Some (M_advisePrefetch, HookLauncher_AdvisePrefetchParams_layout, HookLauncher_AdvisePrefetchResults_layout)
      else if methodId = 8 then
        Some (M_requestRdmaPlan, HookLauncher_RequestRdmaPlanParams_layout, HookLauncher_RequestRdmaPlanResults_layout)
      else if methodId = 9 then
        Some (M_requestAllocationPlan, HookLauncher_RequestAllocationPlanParams_layout, HookLauncher_RequestAllocationPlanResults_layout)
      else if methodId = 10 then
        Some (M_requestFreePlan, HookLauncher_RequestFreePlanParams_layout, HookLauncher_RequestFreePlanResults_layout)
      else if methodId = 11 then
        Some (M_launchKernel, HookLauncher_LaunchKernelParams_layout, HookLauncher_LaunchKernelResults_layout)
      else None)"

definition launcher_dispatchCall :: "u64 \<Rightarrow> u16 \<Rightarrow> launcher_method dispatched" where
  "launcher_dispatchCall interfaceId methodId =
     (if interfaceId = launcher_id then launcher_dispatchCallInternal methodId else None)"

interpretation launcher: rpc_interface launcher_request launcher_dispatchCall
proof
  fix m
  show "launcher_dispatchCall (call_interface (launcher_request m)) (call_method (launcher_request m)) =
      Some (m, call_params (launcher_request m), call_results (launcher_request m))"
    by (cases m) (simp_all add: launcher_dispatchCall_def launcher_dispatchCallInternal_def launcher_id_def newCall_def)
next
  fix i n m ps rs
  assume "launcher_dispatchCall i n = Some (m, ps, rs)"
  then show "i = call_interface (launcher_request m) \<and> n = call_method (launcher_request m)"
    by (auto simp: launcher_dispatchCall_def launcher_dispatchCallInternal_def launcher_id_def newCall_def split: if_splits)
qed

subsection \<open>\<open>Scheduler\<close>\<close>

datatype scheduler_method =
  M_requestPath | M_reportMetrics | M_registerGpu | M_listGpus | M_getGpuStatus | M_acquireGpu |
  M_releaseGpu | M_runCommand

fun scheduler_name :: "scheduler_method \<Rightarrow> string" where
  "scheduler_name M_requestPath = ''requestPath''"
| "scheduler_name M_reportMetrics = ''reportMetrics''"
| "scheduler_name M_registerGpu = ''registerGpu''"
| "scheduler_name M_listGpus = ''listGpus''"
| "scheduler_name M_getGpuStatus = ''getGpuStatus''"
| "scheduler_name M_acquireGpu = ''acquireGpu''"
| "scheduler_name M_releaseGpu = ''releaseGpu''"
| "scheduler_name M_runCommand = ''runCommand''"

definition scheduler_methods :: "scheduler_method list" where
  "scheduler_methods = [
     M_requestPath, M_reportMetrics, M_registerGpu, M_listGpus, M_getGpuStatus, M_acquireGpu,
     M_releaseGpu, M_runCommand]"

definition scheduler_id :: u64 where "scheduler_id = 0xef8cb4fe563986d6"

fun scheduler_request :: "scheduler_method \<Rightarrow> rpc_call" where
  "scheduler_request M_requestPath =
     newCall Scheduler_RequestPathParams_layout Scheduler_RequestPathResults_layout 0xef8cb4fe563986d6 0"
| "scheduler_request M_reportMetrics =
     newCall Scheduler_ReportMetricsParams_layout Scheduler_ReportMetricsResults_layout 0xef8cb4fe563986d6 1"
| "scheduler_request M_registerGpu =
     newCall Scheduler_RegisterGpuParams_layout Scheduler_RegisterGpuResults_layout 0xef8cb4fe563986d6 2"
| "scheduler_request M_listGpus =
     newCall Scheduler_ListGpusParams_layout Scheduler_ListGpusResults_layout 0xef8cb4fe563986d6 3"
| "scheduler_request M_getGpuStatus =
     newCall Scheduler_GetGpuStatusParams_layout Scheduler_GetGpuStatusResults_layout 0xef8cb4fe563986d6 4"
| "scheduler_request M_acquireGpu =
     newCall Scheduler_AcquireGpuParams_layout Scheduler_AcquireGpuResults_layout 0xef8cb4fe563986d6 5"
| "scheduler_request M_releaseGpu =
     newCall Scheduler_ReleaseGpuParams_layout Scheduler_ReleaseGpuResults_layout 0xef8cb4fe563986d6 6"
| "scheduler_request M_runCommand =
     newCall Scheduler_RunCommandParams_layout Scheduler_RunCommandResults_layout 0xef8cb4fe563986d6 7"

definition scheduler_dispatchCallInternal :: "u16 \<Rightarrow> scheduler_method dispatched" where
  "scheduler_dispatchCallInternal methodId =
     (if methodId = 0 then
        Some (M_requestPath, Scheduler_RequestPathParams_layout, Scheduler_RequestPathResults_layout)
      else if methodId = 1 then
        Some (M_reportMetrics, Scheduler_ReportMetricsParams_layout, Scheduler_ReportMetricsResults_layout)
      else if methodId = 2 then
        Some (M_registerGpu, Scheduler_RegisterGpuParams_layout, Scheduler_RegisterGpuResults_layout)
      else if methodId = 3 then
        Some (M_listGpus, Scheduler_ListGpusParams_layout, Scheduler_ListGpusResults_layout)
      else if methodId = 4 then
        Some (M_getGpuStatus, Scheduler_GetGpuStatusParams_layout, Scheduler_GetGpuStatusResults_layout)
      else if methodId = 5 then
        Some (M_acquireGpu, Scheduler_AcquireGpuParams_layout, Scheduler_AcquireGpuResults_layout)
      else if methodId = 6 then
        Some (M_releaseGpu, Scheduler_ReleaseGpuParams_layout, Scheduler_ReleaseGpuResults_layout)
      else if methodId = 7 then
        Some (M_runCommand, Scheduler_RunCommandParams_layout, Scheduler_RunCommandResults_layout)
      else None)"

definition scheduler_dispatchCall :: "u64 \<Rightarrow> u16 \<Rightarrow> scheduler_method dispatched" where
  "scheduler_dispatchCall interfaceId methodId =
     (if interfaceId = scheduler_id then scheduler_dispatchCallInternal methodId else None)"

interpretation scheduler: rpc_interface scheduler_request scheduler_dispatchCall
proof
  fix m
  show "scheduler_dispatchCall (call_interface (scheduler_request m)) (call_method (scheduler_request m)) =
      Some (m, call_params (scheduler_request m), call_results (scheduler_request m))"
    by (cases m) (simp_all add: scheduler_dispatchCall_def scheduler_dispatchCallInternal_def scheduler_id_def newCall_def)
next
  fix i n m ps rs
  assume "scheduler_dispatchCall i n = Some (m, ps, rs)"
  then show "i = call_interface (scheduler_request m) \<and> n = call_method (scheduler_request m)"
    by (auto simp: scheduler_dispatchCall_def scheduler_dispatchCallInternal_def scheduler_id_def newCall_def split: if_splits)
qed

subsection \<open>\<open>CudaService\<close>\<close>

datatype cuda_method =
  M_cudaInit | M_cudaMemAlloc | M_cudaMemcpy | M_cudaMemFree | M_createCudaStream |
  M_destroyCudaStream | M_synchronizeCudaStream | M_cudaKernelLaunch | M_createEvent | M_recordEvent
  | M_eventSynchronize | M_destroyEvent | M_batchKernelLaunch | M_multiGpuCooperation |
  M_allocAndWrite

fun cuda_name :: "cuda_method \<Rightarrow> string" where
  "cuda_name M_cudaInit = ''cudaInit''"
| "cuda_name M_cudaMemAlloc = ''cudaMemAlloc''"
| "cuda_name M_cudaMemcpy = ''cudaMemcpy''"
| "cuda_name M_cudaMemFree = ''cudaMemFree''"
| "cuda_name M_createCudaStream = ''createCudaStream''"
| "cuda_name M_destroyCudaStream = ''destroyCudaStream''"
| "cuda_name M_synchronizeCudaStream = ''synchronizeCudaStream''"
| "cuda_name M_cudaKernelLaunch = ''cudaKernelLaunch''"
| "cuda_name M_createEvent = ''createEvent''"
| "cuda_name M_recordEvent = ''recordEvent''"
| "cuda_name M_eventSynchronize = ''eventSynchronize''"
| "cuda_name M_destroyEvent = ''destroyEvent''"
| "cuda_name M_batchKernelLaunch = ''batchKernelLaunch''"
| "cuda_name M_multiGpuCooperation = ''multiGpuCooperation''"
| "cuda_name M_allocAndWrite = ''allocAndWrite''"

definition cuda_methods :: "cuda_method list" where
  "cuda_methods = [
     M_cudaInit, M_cudaMemAlloc, M_cudaMemcpy, M_cudaMemFree, M_createCudaStream,
     M_destroyCudaStream, M_synchronizeCudaStream, M_cudaKernelLaunch, M_createEvent, M_recordEvent,
     M_eventSynchronize, M_destroyEvent, M_batchKernelLaunch, M_multiGpuCooperation, M_allocAndWrite]"

definition cuda_id :: u64 where "cuda_id = 0xd909ac68956b8ff9"

fun cuda_request :: "cuda_method \<Rightarrow> rpc_call" where
  "cuda_request M_cudaInit =
     newCall CudaService_CudaInitParams_layout CudaService_CudaInitResults_layout 0xd909ac68956b8ff9 0"
| "cuda_request M_cudaMemAlloc =
     newCall CudaService_CudaMemAllocParams_layout CudaService_CudaMemAllocResults_layout 0xd909ac68956b8ff9 1"
| "cuda_request M_cudaMemcpy =
     newCall CudaService_CudaMemcpyParams_layout CudaService_CudaMemcpyResults_layout 0xd909ac68956b8ff9 2"
| "cuda_request M_cudaMemFree =
     newCall CudaService_CudaMemFreeParams_layout CudaService_CudaMemFreeResults_layout 0xd909ac68956b8ff9 3"
| "cuda_request M_createCudaStream =
     newCall CudaService_CreateCudaStreamParams_layout CudaService_CreateCudaStreamResults_layout 0xd909ac68956b8ff9 4"
| "cuda_request M_destroyCudaStream =
     newCall CudaService_DestroyCudaStreamParams_layout CudaService_DestroyCudaStreamResults_layout 0xd909ac68956b8ff9 5"
| "cuda_request M_synchronizeCudaStream =
     newCall CudaService_SynchronizeCudaStreamParams_layout CudaService_SynchronizeCudaStreamResults_layout 0xd909ac68956b8ff9 6"
| "cuda_request M_cudaKernelLaunch =
     newCall CudaService_CudaKernelLaunchParams_layout CudaService_CudaKernelLaunchResults_layout 0xd909ac68956b8ff9 7"
| "cuda_request M_createEvent =
     newCall CudaService_CreateEventParams_layout CudaService_CreateEventResults_layout 0xd909ac68956b8ff9 8"
| "cuda_request M_recordEvent =
     newCall CudaService_RecordEventParams_layout CudaService_RecordEventResults_layout 0xd909ac68956b8ff9 9"
| "cuda_request M_eventSynchronize =
     newCall CudaService_EventSynchronizeParams_layout CudaService_EventSynchronizeResults_layout 0xd909ac68956b8ff9 10"
| "cuda_request M_destroyEvent =
     newCall CudaService_DestroyEventParams_layout CudaService_DestroyEventResults_layout 0xd909ac68956b8ff9 11"
| "cuda_request M_batchKernelLaunch =
     newCall CudaService_BatchKernelLaunchParams_layout CudaService_BatchKernelLaunchResults_layout 0xd909ac68956b8ff9 12"
| "cuda_request M_multiGpuCooperation =
     newCall CudaService_MultiGpuCooperationParams_layout CudaService_MultiGpuCooperationResults_layout 0xd909ac68956b8ff9 13"
| "cuda_request M_allocAndWrite =
     newCall CudaService_AllocAndWriteParams_layout CudaService_AllocAndWriteResults_layout 0xd909ac68956b8ff9 14"

definition cuda_dispatchCallInternal :: "u16 \<Rightarrow> cuda_method dispatched" where
  "cuda_dispatchCallInternal methodId =
     (if methodId = 0 then
        Some (M_cudaInit, CudaService_CudaInitParams_layout, CudaService_CudaInitResults_layout)
      else if methodId = 1 then
        Some (M_cudaMemAlloc, CudaService_CudaMemAllocParams_layout, CudaService_CudaMemAllocResults_layout)
      else if methodId = 2 then
        Some (M_cudaMemcpy, CudaService_CudaMemcpyParams_layout, CudaService_CudaMemcpyResults_layout)
      else if methodId = 3 then
        Some (M_cudaMemFree, CudaService_CudaMemFreeParams_layout, CudaService_CudaMemFreeResults_layout)
      else if methodId = 4 then
        Some (M_createCudaStream, CudaService_CreateCudaStreamParams_layout, CudaService_CreateCudaStreamResults_layout)
      else if methodId = 5 then
        Some (M_destroyCudaStream, CudaService_DestroyCudaStreamParams_layout, CudaService_DestroyCudaStreamResults_layout)
      else if methodId = 6 then
        Some (M_synchronizeCudaStream, CudaService_SynchronizeCudaStreamParams_layout, CudaService_SynchronizeCudaStreamResults_layout)
      else if methodId = 7 then
        Some (M_cudaKernelLaunch, CudaService_CudaKernelLaunchParams_layout, CudaService_CudaKernelLaunchResults_layout)
      else if methodId = 8 then
        Some (M_createEvent, CudaService_CreateEventParams_layout, CudaService_CreateEventResults_layout)
      else if methodId = 9 then
        Some (M_recordEvent, CudaService_RecordEventParams_layout, CudaService_RecordEventResults_layout)
      else if methodId = 10 then
        Some (M_eventSynchronize, CudaService_EventSynchronizeParams_layout, CudaService_EventSynchronizeResults_layout)
      else if methodId = 11 then
        Some (M_destroyEvent, CudaService_DestroyEventParams_layout, CudaService_DestroyEventResults_layout)
      else if methodId = 12 then
        Some (M_batchKernelLaunch, CudaService_BatchKernelLaunchParams_layout, CudaService_BatchKernelLaunchResults_layout)
      else if methodId = 13 then
        Some (M_multiGpuCooperation, CudaService_MultiGpuCooperationParams_layout, CudaService_MultiGpuCooperationResults_layout)
      else if methodId = 14 then
        Some (M_allocAndWrite, CudaService_AllocAndWriteParams_layout, CudaService_AllocAndWriteResults_layout)
      else None)"

definition cuda_dispatchCall :: "u64 \<Rightarrow> u16 \<Rightarrow> cuda_method dispatched" where
  "cuda_dispatchCall interfaceId methodId =
     (if interfaceId = cuda_id then cuda_dispatchCallInternal methodId else None)"

interpretation cuda: rpc_interface cuda_request cuda_dispatchCall
proof
  fix m
  show "cuda_dispatchCall (call_interface (cuda_request m)) (call_method (cuda_request m)) =
      Some (m, call_params (cuda_request m), call_results (cuda_request m))"
    by (cases m) (simp_all add: cuda_dispatchCall_def cuda_dispatchCallInternal_def cuda_id_def newCall_def)
next
  fix i n m ps rs
  assume "cuda_dispatchCall i n = Some (m, ps, rs)"
  then show "i = call_interface (cuda_request m) \<and> n = call_method (cuda_request m)"
    by (auto simp: cuda_dispatchCall_def cuda_dispatchCallInternal_def cuda_id_def newCall_def split: if_splits)
qed

subsection \<open>Properties\<close>

text \<open>
  C24. Client and server agree on every method of the three interfaces: the dispatcher runs a
  method with given parameter and result types for exactly the numbers that the request stub of
  that name sends with those types, and answers unimplemented for exactly the numbers that no
  request stub sends. In particular no two methods share their numbers.
\<close>

theorem stubs_and_dispatchers_agree:
  "(launcher_dispatchCall i n = Some (m, ps, rs) \<longleftrightarrow> launcher_request m = newCall ps rs i n) \<and>
   (launcher_dispatchCall i n = None \<longleftrightarrow> (\<forall>k ps rs. launcher_request k \<noteq> newCall ps rs i n)) \<and>
   (scheduler_dispatchCall i n = Some (m', ps, rs) \<longleftrightarrow> scheduler_request m' = newCall ps rs i n) \<and>
   (scheduler_dispatchCall i n = None \<longleftrightarrow> (\<forall>k ps rs. scheduler_request k \<noteq> newCall ps rs i n)) \<and>
   (cuda_dispatchCall i n = Some (m'', ps, rs) \<longleftrightarrow> cuda_request m'' = newCall ps rs i n) \<and>
   (cuda_dispatchCall i n = None \<longleftrightarrow> (\<forall>k ps rs. cuda_request k \<noteq> newCall ps rs i n))"
  by (intro conjI launcher.dispatch_Some_iff launcher.dispatch_None_iff scheduler.dispatch_Some_iff
      scheduler.dispatch_None_iff cuda.dispatch_Some_iff cuda.dispatch_None_iff)

end
