(* ===== verification/DataTransfer.thy ===== *)
theory DataTransfer
  imports NumaAddress
begin

section \<open>Datagram transfers over ZeroMQ\<close>

text \<open>
  \<open>client/data_transfer/src/zmq_manager.cpp\<close> (\<open>SendData\<close>, \<open>ReceiveData\<close>),
  \<open>client/data_transfer/src/data_transfer.cpp\<close> (the exported entries of the same names) and
  \<open>client/launcher/transport/zmq_transport.cpp\<close> (\<open>ZmqTransport\<close>). ZeroMQ and zlib are not in
  the repository: \<open>zmq_env\<close> holds the answers of their calls, those of the retry loop by attempt, and
  the parts of the message that is waiting to be received (none when receiving fails), of which a
  call of \<open>zmq_msg_recv\<close> gives the first.
  Every function returns the ledger of the handles it took and gave back, and the datagrams it
  handed to ZeroMQ. A buffer is the bytes behind the pointer; reading or writing past it is
  \<open>OutOfBounds\<close>.
\<close>

record zmq_env =
  ctx_new_ok :: bool
  socket_ok :: bool
  connect_ok :: "string \<Rightarrow> bool"
  bind_ok :: "string \<Rightarrow> bool"
  msg_init_ok :: bool
  init_data_ok :: "nat \<Rightarrow> bool"
  send_ok :: "nat \<Rightarrow> bool"
  received :: "u8 list list"

datatype zmq_handle = Ctx | Sock | Msg | PacketMem

type_synonym datagram = "string \<times> u8 list"

definition endpoint :: "string \<Rightarrow> u16 \<Rightarrow> string" where
  "endpoint ip port = ''udp://'' @ ip @ '':'' @ digits_of (unat port)"

unbundle bit_operations_syntax

subsection \<open>SendData and ReceiveData\<close>

definition SendData :: "zmq_env \<Rightarrow> string \<Rightarrow> u16 \<Rightarrow> u8 list \<Rightarrow> u64 \<Rightarrow>
    (bool \<times> zmq_handle entry list \<times> datagram list) exec" where
  "SendData env ip port buffer len =
     (if \<not> ctx_new_ok env then Done (False, [], [])
      else let l1 = [Acq Ctx] in
      if \<not> socket_ok env then Done (False, l1 @ [Rel Ctx], [])
      else let l2 = l1 @ [Use Ctx, Acq Sock] in
      if \<not> connect_ok env (endpoint ip port) then Done (False, l2 @ [Use Sock, Rel Sock, Rel Ctx], [])
      else let l3 = l2 @ [Use Sock] in
      if \<not> init_data_ok env 0 then Done (False, l3 @ [Rel Sock, Rel Ctx], [])
      else let l4 = l3 @ [Acq Msg, Use Sock, Use Msg, Rel Msg, Rel Sock, Rel Ctx] in
      if send_ok env 0
      then (if length buffer < unat len then UB OutOfBounds
            else Done (True, l4, [(endpoint ip port, take (unat len) buffer)]))
      else Done (False, l4, []))"

definition ReceiveData :: "zmq_env \<Rightarrow> string \<Rightarrow> u16 \<Rightarrow> u8 list \<Rightarrow> u64 \<Rightarrow>
    (bool \<times> zmq_handle entry list \<times> u8 list) exec" where
  "ReceiveData env ip port buffer len =
     (if \<not> ctx_new_ok env then Done (False, [], buffer)
      else let l1 = [Acq Ctx] in
      if \<not> socket_ok env then Done (False, l1 @ [Rel Ctx], buffer)
      else let l2 = l1 @ [Use Ctx, Acq Sock] in
      if \<not> bind_ok env (endpoint ip port) then Done (False, l2 @ [Use Sock, Rel Sock, Rel Ctx], buffer)
      else let l3 = l2 @ [Use Sock] in
      if \<not> msg_init_ok env then Done (False, l3 @ [Rel Sock, Rel Ctx], buffer)
      else let l4 = l3 @ [Acq Msg, Use Sock, Use Msg] in
      case received env of
        [] \<Rightarrow> Done (False, l4 @ [Rel Msg, Rel Sock, Rel Ctx], buffer)
      | msg # parts \<Rightarrow>
          (let l5 = l4 @ [Use Msg] in
           if length msg \<noteq> unat len then Done (False, l5 @ [Rel Msg, Rel Sock, Rel Ctx], buffer)
           else if length buffer < unat len then UB OutOfBounds
           else Done (True, l5 @ [Use Msg, Rel Msg, Rel Sock, Rel Ctx], msg @ drop (unat len) buffer)))"

text \<open>
  The exported entries call the global function of their own name and signature, that is,
  themselves. A call that never returns has no result.
\<close>

partial_function (option) SendData_entry :: "string \<Rightarrow> u16 \<Rightarrow> u8 list \<Rightarrow> u64 \<Rightarrow> bool option" where
  "SendData_entry ip port buffer len = SendData_entry ip port buffer len"

partial_function (option) ReceiveData_entry :: "string \<Rightarrow> u16 \<Rightarrow> u8 list \<Rightarrow> u64 \<Rightarrow> bool option" where
  "ReceiveData_entry ip port buffer len = ReceiveData_entry ip port buffer len"

subsection \<open>ZmqTransport\<close>

text \<open>
  The transport's context pointer is non-null or null. A packet is the payload and its CRC, as a
  little-endian machine lays it out; \<open>crc\<close> is zlib's function, whose length is an \<open>unsigned int\<close>: the
  CRC is that of the payload's length modulo \<open>2^32\<close>.
\<close>

definition Initialize :: "zmq_env \<Rightarrow> bool \<Rightarrow> bool \<times> bool" where
  "Initialize env m_context = (ctx_new_ok env, ctx_new_ok env)"

definition bytes_le :: "u32 \<Rightarrow> u8 list" where
  "bytes_le w = map (\<lambda>i. ucast (drop_bit (8 * i) w)) [0..<4]"

definition make_packet :: "(u8 list \<Rightarrow> u32) \<Rightarrow> u8 list \<Rightarrow> u64 \<Rightarrow> u8 list exec" where
  "make_packet crc localBuffer bufferSize =
     (let packetSize = bufferSize + 4
      in if unat packetSize < unat bufferSize \<or> length localBuffer < unat bufferSize then UB OutOfBounds
         else let payload = take (unat bufferSize) localBuffer
              in Done (payload @ bytes_le (crc (take (unat (ucast bufferSize :: u32)) payload))))"

text \<open>
  The retry loop from a given number of failed attempts: whether it succeeded, its ledger, and how
  often it slept. A message that was sent is ZeroMQ's; one that was not is closed. A message that
  cannot be initialised is retried without sleeping.
\<close>

function send_loop :: "zmq_env \<Rightarrow> nat \<Rightarrow> bool \<times> zmq_handle entry list \<times> nat" where
  "send_loop env retries =
     (if 3 \<le> retries then (False, [], 0)
      else if \<not> init_data_ok env retries then send_loop env (Suc retries)
      else if send_ok env retries then (True, [Acq Msg, Use Sock, Rel Msg], 0)
      else (case send_loop env (Suc retries) of
              (ok, l, sleeps) \<Rightarrow>
                (ok, [Acq Msg, Use Sock, Rel Msg] @ l, (if Suc retries < 3 then Suc sleeps else sleeps))))"
  by pat_completeness auto
termination
  by (relation "measure (\<lambda>(env, retries). 3 - retries)") auto

declare send_loop.simps [simp del]

text \<open>
  \<open>Transfer\<close>. The packet is a local vector, so its memory is given back after the socket is
  closed. The last component holds the datagrams queued in ZeroMQ without a copy of their bytes.
\<close>

definition Transfer :: "zmq_env \<Rightarrow> (u8 list \<Rightarrow> u32) \<Rightarrow> bool \<Rightarrow> string \<Rightarrow> u16 \<Rightarrow> u8 list \<Rightarrow> u64 \<Rightarrow>
    (bool \<times> zmq_handle entry list \<times> datagram list) exec" where
  "Transfer env crc m_context ip port localBuffer bufferSize =
     (if \<not> m_context then Done (False, [], [])
      else if \<not> socket_ok env then Done (False, [Use Ctx], [])
      else if \<not> connect_ok env (endpoint ip port) then Done (False, [Use Ctx, Acq Sock, Use Sock, Rel Sock], [])
      else exec_bind (make_packet crc localBuffer bufferSize) (\<lambda>packet.
        case send_loop env 0 of
          (success, l, sleeps) \<Rightarrow>
            Done (success, [Use Ctx, Acq Sock, Use Sock, Acq PacketMem] @ l @ [Rel Sock, Rel PacketMem],
                  if success then [(endpoint ip port, packet)] else [])))"

text \<open>The destructor, and the life of a transport that is initialised once.\<close>

definition destroy_zmq :: "bool \<Rightarrow> zmq_handle entry list" where
  "destroy_zmq m_context = (if m_context then [Rel Ctx] else [])"

fun transfers :: "(bool \<Rightarrow> (bool \<times> zmq_handle entry list \<times> datagram list) exec) list \<Rightarrow> bool \<Rightarrow>
    zmq_handle entry list exec" where
  "transfers [] m_context = Done []"
| "transfers (t # ts) m_context =
     exec_bind (t m_context) (\<lambda>(ok, l, dgs). exec_bind (transfers ts m_context) (\<lambda>l'. Done (l @ l')))"

definition zmq_life :: "zmq_env \<Rightarrow> (bool \<Rightarrow> (bool \<times> zmq_handle entry list \<times> datagram list) exec) list \<Rightarrow>
    zmq_handle entry list exec" where
  "zmq_life env ts =
     (case Initialize env False of (ok, m_context) \<Rightarrow>
        exec_bind (transfers ts m_context) (\<lambda>l.
          Done ((if m_context then [Acq Ctx] else []) @ l @ destroy_zmq m_context)))"

subsection \<open>Ledgers\<close>

lemma settle_send_loop:
  "send_loop env n = (ok, l, k) \<Longrightarrow> Sock \<in> set live \<Longrightarrow> Msg \<notin> set live \<Longrightarrow> settle live l = Some live"
proof (induction env n arbitrary: ok l k rule: send_loop.induct)
  case (1 env n)
  show ?case
  proof (cases "3 \<le> n")
    case True
    then show ?thesis using "1.prems"(1) by (simp add: send_loop.simps)
  next
    case False
    obtain ok' l' k' where rest: "send_loop env (Suc n) = (ok', l', k')" by (cases "send_loop env (Suc n)")
    consider "\<not> init_data_ok env n" | "init_data_ok env n" "send_ok env n" | "init_data_ok env n" "\<not> send_ok env n"
      by blast
    then show ?thesis
    proof cases
      case 1
      then show ?thesis using "1.IH"(1) "1.prems" False by (simp add: send_loop.simps [of env n])
    next
      case 2
      then show ?thesis using "1.prems" False by (auto simp: send_loop.simps [of env n])
    next
      case 3
      then have "settle live l' = Some live" using "1.IH"(2) [OF False _ _ rest] "1.prems" by simp
      then show ?thesis using 3 "1.prems" False rest by (auto simp: send_loop.simps [of env n])
    qed
  qed
qed

lemma send_loop_success:
  "fst (send_loop env n) \<longleftrightarrow> (\<exists>k. n \<le> k \<and> k < 3 \<and> init_data_ok env k \<and> send_ok env k)"
proof (induction env n rule: send_loop.induct)
  case (1 env n)
  have split: "(\<exists>k. n \<le> k \<and> P k) \<longleftrightarrow> P n \<or> (\<exists>k. Suc n \<le> k \<and> P k)" for P
    using Suc_le_eq le_eq_less_or_eq by auto
  show ?case
    by (subst split, subst send_loop.simps) (use 1 in \<open>auto split: prod.splits\<close>)
qed

lemma send_loop_attempts: "count_list (fst (snd (send_loop env n))) (Acq Msg) \<le> 3 - n"
proof (induction env n rule: send_loop.induct)
  case (1 env n)
  then show ?case
    by (subst send_loop.simps) (auto split: prod.splits)
qed

lemma send_loop_sleeps: "n \<le> 3 \<Longrightarrow> snd (snd (send_loop env n)) \<le> 2 - n"
proof (induction env n rule: send_loop.induct)
  case (1 env n)
  then show ?case
    by (subst send_loop.simps) (auto split: prod.splits simp: le_diff_conv2)
qed

lemma settle_Transfer:
  assumes "Transfer env crc True ip port localBuffer bufferSize = Done (ok, l, dgs)"
  shows "settle [Ctx] l = Some [Ctx]"
proof (cases "socket_ok env \<and> connect_ok env (endpoint ip port)")
  case True
  obtain ok' l' k where loop: "send_loop env 0 = (ok', l', k)" by (cases "send_loop env 0")
  have "settle [PacketMem, Sock, Ctx] l' = Some [PacketMem, Sock, Ctx]" by (rule settle_send_loop [OF loop]) simp_all
  then show ?thesis using assms True loop by (auto simp: Transfer_def exec_simps ledger_simps)
qed (use assms in \<open>auto simp: Transfer_def split: if_splits\<close>)

lemma Transfer_uninitialised: "Transfer env crc False ip port localBuffer bufferSize = Done (False, [], [])"
  by (simp add: Transfer_def)

text \<open>A transport's whole life, with any transfers to anywhere on any answers, leaves nothing behind.\<close>

lemma zmq_life_balanced:
  assumes "list_all (\<lambda>t. \<exists>e crc ip port buf n. t = (\<lambda>c. Transfer e crc c ip port buf n)) ts"
    and "zmq_life env ts = Done l"
  shows "balanced l"
proof -
  have live: "settle [Ctx] l = Some [Ctx]" if "transfers ts True = Done l" for l
    using assms(1) that
    by (induction ts arbitrary: l) (auto simp: exec_simps ledger_simps dest!: settle_Transfer)
  have dead: "l = []" if "transfers ts False = Done l" for l
    using assms(1) that by (induction ts arbitrary: l) (auto simp: exec_simps Transfer_uninitialised)
  show ?thesis
    using assms(2) by (cases "ctx_new_ok env")
      (auto simp: zmq_life_def Initialize_def destroy_zmq_def exec_simps balanced_def ledger_simps dest!: live dead)
qed

subsection \<open>Bytes\<close>

definition word_le :: "u8 list \<Rightarrow> u32" where
  "word_le bs = foldr (\<lambda>b w. push_bit 8 w OR ucast b) bs 0"

lemma length_bytes_le [simp]: "length (bytes_le w) = 4"
  by (simp add: bytes_le_def)

lemma word_le_bytes_le [simp]: "word_le (bytes_le w) = w"
proof (rule bit_word_eqI)
  have upt4: "[0..<4] = [0, 1, 2, 3 :: nat]" by (simp add: upt_rec)
  fix n
  assume "n < LENGTH(32)"
  then consider "n < 8" | "8 \<le> n" "n < 16" | "16 \<le> n" "n < 24" | "24 \<le> n" "n < 32" by fastforce
  then show "bit (word_le (bytes_le w)) n = bit w n"
    by cases (auto simp: word_le_def bytes_le_def upt4 bit_simps)
qed

lemma packet_size_wraps: "unat (len + 4) < unat len \<longleftrightarrow> 2 ^ 64 - 4 \<le> unat (len :: u64)"
proof -
  have "unat len < 2 ^ LENGTH(64)" by (rule unsigned_less)
  then show ?thesis by (cases "unat len < 2 ^ 64 - 4") (simp_all add: unat_word_ariths mod_if)
qed

lemma entries_never_return: "SendData_entry ip port buffer len = None" "ReceiveData_entry ip port buffer len = None"
proof -
  have "False" if "SendData_entry ip port buffer len = Some y" for y
    using that by (rule SendData_entry.raw_induct [rotated])
  then show "SendData_entry ip port buffer len = None" by (cases "SendData_entry ip port buffer len") auto
  have "False" if "ReceiveData_entry ip port buffer len = Some y" for y
    using that by (rule ReceiveData_entry.raw_induct [rotated])
  then show "ReceiveData_entry ip port buffer len = None" by (cases "ReceiveData_entry ip port buffer len") auto
qed

definition good_env :: "u8 list list \<Rightarrow> (nat \<Rightarrow> bool) \<Rightarrow> zmq_env" where
  "good_env msg sends = \<lparr>ctx_new_ok = True, socket_ok = True, connect_ok = (\<lambda>_. True), bind_ok = (\<lambda>_. True),
     msg_init_ok = True, init_data_ok = (\<lambda>_. True), send_ok = sends, received = msg\<rparr>"

subsection \<open>Properties\<close>

text \<open>
  C27. \<open>SendData\<close> on a buffer of at least the given size returns on every answer of ZeroMQ, gives
  back every handle it took exactly once and uses none after that, succeeds exactly when all five
  calls do, and then has handed over exactly the first \<open>len\<close> bytes for the endpoint.
\<close>

theorem SendData_balanced:
  assumes "unat len \<le> length buffer"
    and "all_ok \<longleftrightarrow> ctx_new_ok env \<and> socket_ok env \<and> connect_ok env (endpoint ip port) \<and>
           init_data_ok env 0 \<and> send_ok env 0"
  shows "\<exists>l. SendData env ip port buffer len =
      Done (all_ok, l, if all_ok then [(endpoint ip port, take (unat len) buffer)] else []) \<and> balanced l"
  using assms by (cases all_ok) (auto simp: SendData_def Let_def balanced_def)

theorem SendData_balanced_witness:
  "\<exists>l. SendData (good_env [] (\<lambda>_. True)) ''h'' 80 [1, 2, 3] 2 =
     Done (True, l, [(endpoint ''h'' 80, [1, 2])]) \<and> balanced l"
  using SendData_balanced [of 2 "[1, 2, 3]" True "good_env [] (\<lambda>_. True)" "''h''" 80]
  by (simp add: good_env_def)

text \<open>
  \<open>ReceiveData\<close> into a buffer of at least the given size returns on every answer of ZeroMQ,
  gives back every handle, accepts exactly a message whose first part has the given size, and then
  the buffer starts with that part and keeps its other bytes; otherwise the buffer is untouched.
\<close>

theorem ReceiveData_balanced:
  assumes "unat len \<le> length buffer"
    and "all_ok \<longleftrightarrow> ctx_new_ok env \<and> socket_ok env \<and> bind_ok env (endpoint ip port) \<and> msg_init_ok env \<and>
           (\<exists>msg parts. received env = msg # parts \<and> length msg = unat len)"
  shows "\<exists>l. ReceiveData env ip port buffer len =
      Done (all_ok, l, if all_ok then hd (received env) @ drop (unat len) buffer else buffer) \<and> balanced l"
  using assms by (cases all_ok; cases "received env") (auto simp: ReceiveData_def Let_def balanced_def)

theorem ReceiveData_balanced_witness:
  "\<exists>l. ReceiveData (good_env [[7, 8]] (\<lambda>_. True)) ''h'' 80 [1, 2, 3] 2 = Done (True, l, [7, 8, 3]) \<and> balanced l"
  using ReceiveData_balanced [of 2 "[1, 2, 3]" True "good_env [[7, 8]] (\<lambda>_. True)" "''h''" 80]
  by (simp add: good_env_def)

text \<open>
  A socket of type \<open>ZMQ_DGRAM\<close> gives the address of the sender as the first part of what it receives,
  and the datagram as the second: then the address is what \<open>ReceiveData\<close> measures and copies.
\<close>

lemma address_is_taken_for_data:
  assumes "received env = [address, d]" "unat len \<le> length buffer"
    and "ctx_new_ok env" "socket_ok env" "bind_ok env (endpoint ip port)" "msg_init_ok env"
  shows "\<exists>l. ReceiveData env ip port buffer len =
    Done (length address = unat len, l, if length address = unat len then address @ drop (unat len) buffer else buffer)"
  using assms by (auto simp: ReceiveData_def Let_def)

text \<open>
  A packet is the payload followed by a checksum: it is four bytes longer than the payload, starts
  with it, and its last four bytes read back as the checksum of the payload's first bytes, as many
  as its size modulo \<open>2^32\<close> says, which is all of them below four gigabytes. Building it
  writes out of bounds exactly when the size is within four bytes of the range of \<open>size_t\<close>, where
  the packet's size wraps.
\<close>

theorem packet_carries_its_checksum:
  assumes "unat len \<le> length buffer"
  shows "(make_packet crc buffer len = UB OutOfBounds \<longleftrightarrow> 2 ^ 64 - 4 \<le> unat len) \<and>
    (unat len < 2 ^ 64 - 4 \<longrightarrow> (\<exists>packet. make_packet crc buffer len = Done packet \<and>
       length packet = unat len + 4 \<and> take (unat len) packet = take (unat len) buffer \<and>
       word_le (drop (unat len) packet) = crc (take (unat len mod 2 ^ 32) buffer)))"
proof -
  have "unat (ucast len :: u32) = unat len mod 2 ^ 32" by (simp add: unsigned_ucast_eq take_bit_eq_mod)
  moreover have "unat len mod 2 ^ 32 \<le> unat len" by simp
  ultimately show ?thesis
    using assms packet_size_wraps [of len] by (auto simp: make_packet_def Let_def min_def)
qed

theorem packet_carries_its_checksum_witness:
  "\<exists>packet. make_packet (\<lambda>bs. of_nat (length bs)) [5, 6] 2 = Done packet \<and> word_le (drop 2 packet) = 2"
  using packet_carries_its_checksum [of 2 "[5, 6]" "\<lambda>bs. of_nat (length bs)"] by auto

text \<open>
  C37. \<open>Transfer\<close> on an initialised transport leaves the context as the only live handle on every
  answer of ZeroMQ, creates at most three messages, and succeeds exactly when
  the socket, the connection and one of the three attempts do. On success a datagram is queued
  that points to the packet's bytes, whose memory the ledger shows as given back.
\<close>

theorem Transfer_three_attempts:
  assumes "make_packet crc localBuffer bufferSize = Done packet"
    and "all_ok \<longleftrightarrow> socket_ok env \<and> connect_ok env (endpoint ip port) \<and>
           (\<exists>k<3. init_data_ok env k \<and> send_ok env k)"
  shows "\<exists>l. Transfer env crc True ip port localBuffer bufferSize =
      Done (all_ok, l, if all_ok then [(endpoint ip port, packet)] else []) \<and> settle [Ctx] l = Some [Ctx] \<and>
    count_list l (Acq Msg) \<le> 3 \<and> (all_ok \<longrightarrow> Rel PacketMem \<in> set l)"
proof -
  obtain ok l k where loop: "send_loop env 0 = (ok, l, k)" by (cases "send_loop env 0")
  have ok: "ok \<longleftrightarrow> (\<exists>k<3. init_data_ok env k \<and> send_ok env k)" using send_loop_success [of env 0] loop by simp
  have settled: "settle [PacketMem, Sock, Ctx] l = Some [PacketMem, Sock, Ctx]"
    by (rule settle_send_loop [OF loop]) simp_all
  have "count_list l (Acq Msg) \<le> 3" using send_loop_attempts [of env 0] loop by simp
  with ok settled show ?thesis
    using assms loop
    by (cases "socket_ok env"; cases "connect_ok env (endpoint ip port)"; cases ok)
      (auto simp: Transfer_def ledger_simps)
qed

theorem Transfer_three_attempts_witness:
  "\<exists>l p. Transfer (good_env [] (\<lambda>k. k = 2)) (\<lambda>_. 0) True ''h'' 80 [1] 1 = Done (True, l, p)"
proof -
  have "make_packet (\<lambda>_. 0) [1] 1 = Done ([1] @ bytes_le 0)" by (simp add: make_packet_def)
  from Transfer_three_attempts [OF this, of True "good_env [] (\<lambda>k. k = 2)" "''h''" 80] show ?thesis
    by (auto simp: good_env_def)
qed

end
