(* ===== verification/Hook.thy ===== *)
theory Hook
  imports DataTransfer HookClient
begin

section \<open>The CUDA hook in the application\<close>

text \<open>
  \<open>client/hook/hook_cuda.cpp\<close> and \<open>easyhook_entry.cpp\<close>: replacements of the driver's functions, the
  pointers to the originals, and the installation of the hooks. The driver, the Windows loader and
  EasyHook are parameters (\<open>driver_env\<close>): \<open>get_proc\<close> finds an exported function, \<open>lh_install\<close> says
  whether a hook could be placed. The pointers to the originals and the global mutex are modelled
  once for both files. A replaced function runs its body under the mutex; calling a null original
  is a fault. \<open>hooked\<close> lists the functions whose calls by the application reach the replacement.
\<close>

datatype api = F_MemAlloc | F_MemFree | F_MemcpyHtoD | F_MemcpyDtoH | F_LaunchKernel | F_ModuleGetFunction

record driver_env =
  load_library :: "u64 option"
  get_module :: "u64 option"
  get_proc :: "string \<Rightarrow> u64 option"
  lh_install :: "api \<Rightarrow> bool"
  o_alloc :: "u64 \<Rightarrow> cu_result \<times> u64"
  o_free :: "u64 \<Rightarrow> cu_result"
  o_htod :: "u64 \<Rightarrow> u8 list \<Rightarrow> u64 \<Rightarrow> cu_result"
  o_dtoh :: "u64 \<Rightarrow> u64 \<Rightarrow> cu_result \<times> u8 list"
  o_launch :: "u64 \<Rightarrow> cu_result"
  o_get_function :: "u64 \<Rightarrow> string \<Rightarrow> cu_result \<times> u64"

record hook_state =
  cudaModule :: "u64 option"
  originals :: "api \<Rightarrow> u64 option"
  hooked :: "api list"
  function_name_map :: "u64 \<Rightarrow> string option"
  client :: rpc_client

datatype out = NoOut | DevicePtr u64 | FunctionHandle u64 | HostBytes "u8 list" | Sent "datagram list"

type_synonym hook_result = "(cu_result \<times> out \<times> hook_state) exec"

definition call_original :: "api \<Rightarrow> hook_state \<Rightarrow> 'a exec \<Rightarrow> 'a exec" where
  "call_original f s body = (if originals s f = None then UB NullDeref else body)"

subsection \<open>Loading and installing\<close>

definition InitOriginalFunctions :: "driver_env \<Rightarrow> hook_state \<Rightarrow> hook_state" where
  "InitOriginalFunctions env s =
     (case load_library env of
        None \<Rightarrow> s\<lparr>cudaModule := None\<rparr>
      | Some m \<Rightarrow> s\<lparr>cudaModule := Some m, originals := (\<lambda>f. case f of
            F_MemAlloc \<Rightarrow> get_proc env ''cuMemAlloc'' | F_MemFree \<Rightarrow> get_proc env ''cuMemFree''
          | F_MemcpyHtoD \<Rightarrow> get_proc env ''cuMemcpyHtoD'' | F_MemcpyDtoH \<Rightarrow> get_proc env ''cuMemcpyDtoH''
          | F_LaunchKernel \<Rightarrow> get_proc env ''cuLaunchKernel''
          | F_ModuleGetFunction \<Rightarrow> get_proc env ''cuModuleGetFunction'')\<rparr>)"

definition InitializeHook :: "driver_env \<Rightarrow> 'm rpc_env \<Rightarrow> hook_state \<Rightarrow> hook_state exec" where
  "InitializeHook env rpc s =
     (let s1 = InitOriginalFunctions env s in
      exec_bind (connect rpc (client s1)) (\<lambda>(ok, c). Done (s1\<lparr>client := c\<rparr>)))"

definition CleanupHook :: "hook_state \<Rightarrow> hook_state" where
  "CleanupHook s = s\<lparr>cudaModule := None\<rparr>"

text \<open>
  The two entry points the loader calls, of \<open>hook_cuda.cpp\<close> and of \<open>easyhook_entry.cpp\<close>; the second
  keeps its own pointer to a client, which it makes on attaching and drops on detaching.
\<close>

datatype dll_reason = DLL_PROCESS_ATTACH | DLL_PROCESS_DETACH | DLL_THREAD

definition DllMain :: "driver_env \<Rightarrow> 'm rpc_env \<Rightarrow> dll_reason \<Rightarrow> hook_state \<Rightarrow> (bool \<times> hook_state) exec" where
  "DllMain env rpc reason s =
     (case reason of
        DLL_PROCESS_ATTACH \<Rightarrow> exec_bind (InitializeHook env rpc s) (\<lambda>s'. Done (True, s'))
      | DLL_PROCESS_DETACH \<Rightarrow> Done (True, CleanupHook s)
      | DLL_THREAD \<Rightarrow> Done (True, s))"

definition easyhook_DllMain :: "'m rpc_env \<Rightarrow> dll_reason \<Rightarrow> rpc_client option \<Rightarrow>
    (bool \<times> rpc_client option) exec" where
  "easyhook_DllMain rpc reason g_launcher_client =
     (case reason of
        DLL_PROCESS_ATTACH \<Rightarrow>
          exec_bind (connect rpc (LauncherClient ''127.0.0.1:12345'')) (\<lambda>(ok, c). Done (True, Some c))
      | DLL_PROCESS_DETACH \<Rightarrow> Done (True, None)
      | DLL_THREAD \<Rightarrow> Done (True, g_launcher_client))"

definition hooks :: "(api \<times> string) list" where
  "hooks = [(F_MemAlloc, ''cuMemAlloc_v2''), (F_MemFree, ''cuMemFree_v2''), (F_MemcpyHtoD, ''cuMemcpyHtoD_v2''),
            (F_MemcpyDtoH, ''cuMemcpyDtoH_v2''), (F_LaunchKernel, ''cuLaunchKernel'')]"

fun install_loop :: "driver_env \<Rightarrow> (api \<times> string) list \<Rightarrow> hook_state \<Rightarrow> hook_state" where
  "install_loop env [] s = s"
| "install_loop env ((f, name) # hs) s =
     (let s1 = s\<lparr>originals := (originals s)(f := get_proc env name)\<rparr>
      in if originals s1 f = None then install_loop env hs s1
         else if lh_install env f then install_loop env hs (s1\<lparr>hooked := f # hooked s1\<rparr>)
         else install_loop env hs s1)"

definition InstallHook :: "driver_env \<Rightarrow> hook_state \<Rightarrow> hook_state" where
  "InstallHook env s = (if get_module env = None then s else install_loop env hooks s)"

definition UninstallHook :: "hook_state \<Rightarrow> hook_state" where
  "UninstallHook s = s\<lparr>hooked := []\<rparr>"

subsection \<open>The replacements\<close>

definition Hooked_cuModuleGetFunction :: "driver_env \<Rightarrow> bool \<Rightarrow> u64 \<Rightarrow> string \<Rightarrow> hook_state \<Rightarrow> hook_result" where
  "Hooked_cuModuleGetFunction env held hmod name s =
     lock_guard held (\<lambda>_. call_original F_ModuleGetFunction s
       (case o_get_function env hmod name of (res, hfunc) \<Rightarrow>
          if res = CUDA_SUCCESS
          then Done (res, FunctionHandle hfunc, s\<lparr>function_name_map := (function_name_map s)(hfunc \<mapsto> name)\<rparr>)
          else Done (res, FunctionHandle hfunc, s)))"

definition Hooked_cuMemAlloc :: "driver_env \<Rightarrow> 'm rpc_env \<Rightarrow> bool \<Rightarrow> u64 \<Rightarrow> hook_state \<Rightarrow> hook_result" where
  "Hooked_cuMemAlloc env rpc held byte_size s =
     lock_guard held (\<lambda>_.
       exec_bind (requestAllocationPlan rpc (client s) byte_size) (\<lambda>result.
         call_original F_MemAlloc s
           (case o_alloc env byte_size of (res, p) \<Rightarrow> Done (res, DevicePtr p, s))))"

definition Hooked_cuMemFree :: "driver_env \<Rightarrow> 'm rpc_env \<Rightarrow> bool \<Rightarrow> u64 \<Rightarrow> hook_state \<Rightarrow> hook_result" where
  "Hooked_cuMemFree env rpc held dptr s =
     lock_guard held (\<lambda>_.
       exec_bind (requestFreePlan rpc (client s) dptr) (\<lambda>result.
         call_original F_MemFree s (Done (o_free env dptr, NoOut, s))))"

definition local_ip :: string where "local_ip = ''127.0.0.1''"

definition Hooked_cuMemcpyHtoD :: "zmq_env \<Rightarrow> bool \<Rightarrow> u64 \<Rightarrow> u8 list \<Rightarrow> u64 \<Rightarrow> hook_state \<Rightarrow> hook_result" where
  "Hooked_cuMemcpyHtoD zmq held dstDevice srcHost ByteCount s =
     lock_guard held (\<lambda>_.
       exec_bind (SendData zmq local_ip 5555 srcHost ByteCount) (\<lambda>(success, l, dgs).
         Done (if success then CUDA_SUCCESS else CUDA_ERROR_UNKNOWN, Sent dgs, s)))"

definition Hooked_cuMemcpyDtoH :: "zmq_env \<Rightarrow> bool \<Rightarrow> u8 list \<Rightarrow> u64 \<Rightarrow> u64 \<Rightarrow> hook_state \<Rightarrow> hook_result" where
  "Hooked_cuMemcpyDtoH zmq held dstHost srcDevice ByteCount s =
     lock_guard held (\<lambda>_.
       exec_bind (ReceiveData zmq local_ip 5555 dstHost ByteCount) (\<lambda>(success, l, buffer).
         Done (if success then CUDA_SUCCESS else CUDA_ERROR_UNKNOWN, HostBytes buffer, s)))"

text \<open>Only an exception of the RPC runtime is caught; \<open>params\<close> are the bytes behind \<open>kernelParams\<close>.\<close>

definition Hooked_cuLaunchKernel :: "'m rpc_env \<Rightarrow> bool \<Rightarrow> u64 \<Rightarrow> u32 \<times> u32 \<times> u32 \<Rightarrow> u32 \<times> u32 \<times> u32 \<Rightarrow> u32 \<Rightarrow>
    u8 list \<Rightarrow> hook_state \<Rightarrow> hook_result" where
  "Hooked_cuLaunchKernel rpc held f grid block sharedMemBytes params s =
     lock_guard held (\<lambda>_.
       case function_name_map s f of
         None \<Rightarrow> Done (CUDA_ERROR_INVALID_HANDLE, NoOut, s)
       | Some kernelName \<Rightarrow>
           (case launchKernel rpc (client s) kernelName grid block sharedMemBytes params of
              Done result \<Rightarrow> Done (ucast result, NoOut, s)
            | Throws e \<Rightarrow> (if e = ''kj::Exception'' then Done (CUDA_ERROR_LAUNCH_FAILED, NoOut, s) else Throws e)
            | UB u \<Rightarrow> UB u))"

subsection \<open>Calls of the application\<close>

text \<open>A call reaches the replacement when the function is hooked, and the driver otherwise.\<close>

datatype app_call =
    AppAlloc u64 | AppFree u64 | AppHtoD u64 "u8 list" u64 | AppDtoH "u8 list" u64 u64
  | AppGetFunction u64 string
  | AppLaunch u64 "u32 \<times> u32 \<times> u32" "u32 \<times> u32 \<times> u32" u32 "u8 list"

fun api_of :: "app_call \<Rightarrow> api" where
  "api_of (AppAlloc _) = F_MemAlloc"
| "api_of (AppFree _) = F_MemFree"
| "api_of (AppHtoD _ _ _) = F_MemcpyHtoD"
| "api_of (AppDtoH _ _ _) = F_MemcpyDtoH"
| "api_of (AppGetFunction _ _) = F_ModuleGetFunction"
| "api_of (AppLaunch _ _ _ _ _) = F_LaunchKernel"

fun replaced_call :: "driver_env \<Rightarrow> 'm rpc_env \<Rightarrow> zmq_env \<Rightarrow> app_call \<Rightarrow> hook_state \<Rightarrow> hook_result" where
  "replaced_call env rpc zmq (AppAlloc n) s = Hooked_cuMemAlloc env rpc False n s"
| "replaced_call env rpc zmq (AppFree p) s = Hooked_cuMemFree env rpc False p s"
| "replaced_call env rpc zmq (AppHtoD d src n) s = Hooked_cuMemcpyHtoD zmq False d src n s"
| "replaced_call env rpc zmq (AppDtoH dst p n) s = Hooked_cuMemcpyDtoH zmq False dst p n s"
| "replaced_call env rpc zmq (AppGetFunction m name) s = Hooked_cuModuleGetFunction env False m name s"
| "replaced_call env rpc zmq (AppLaunch f g b sh ps) s = Hooked_cuLaunchKernel rpc False f g b sh ps s"

fun driver_call :: "driver_env \<Rightarrow> app_call \<Rightarrow> cu_result \<times> out" where
  "driver_call env (AppAlloc n) = (case o_alloc env n of (r, p) \<Rightarrow> (r, DevicePtr p))"
| "driver_call env (AppFree p) = (o_free env p, NoOut)"
| "driver_call env (AppHtoD d src n) = (o_htod env d src n, NoOut)"
| "driver_call env (AppDtoH dst p n) = (case o_dtoh env p n of (r, bs) \<Rightarrow> (r, HostBytes bs))"
| "driver_call env (AppGetFunction m name) = (case o_get_function env m name of (r, f) \<Rightarrow> (r, FunctionHandle f))"
| "driver_call env (AppLaunch f g b sh ps) = (o_launch env f, NoOut)"

definition app_step :: "driver_env \<Rightarrow> 'm rpc_env \<Rightarrow> zmq_env \<Rightarrow> app_call \<Rightarrow> hook_state \<Rightarrow> hook_result" where
  "app_step env rpc zmq c s =
     (if api_of c \<in> set (hooked s) then replaced_call env rpc zmq c s
      else case driver_call env c of (r, o1) \<Rightarrow> Done (r, o1, s))"

inductive hook_reachable :: "driver_env \<Rightarrow> 'm rpc_env \<Rightarrow> hook_state \<Rightarrow> hook_state \<Rightarrow> bool"
  for env :: driver_env and rpc :: "'m rpc_env" and s0 :: hook_state where
  attach: "DllMain env rpc DLL_PROCESS_ATTACH s0 = Done (ok, s) \<Longrightarrow> hook_reachable env rpc s0 s"
| loader: "hook_reachable env rpc s0 s \<Longrightarrow> reason \<noteq> DLL_PROCESS_ATTACH \<Longrightarrow>
     DllMain env rpc reason s = Done (ok, s') \<Longrightarrow> hook_reachable env rpc s0 s'"
| install: "hook_reachable env rpc s0 s \<Longrightarrow> hook_reachable env rpc s0 (InstallHook env s)"
| uninstall: "hook_reachable env rpc s0 s \<Longrightarrow> hook_reachable env rpc s0 (UninstallHook s)"
| app: "hook_reachable env rpc s0 s \<Longrightarrow> app_step env rpc zmq c s = Done (r, o1, s') \<Longrightarrow>
     hook_reachable env rpc s0 s'"

subsection \<open>What the installation reaches\<close>

definition hook_inv :: "hook_state \<Rightarrow> bool" where
  "hook_inv s \<longleftrightarrow> F_ModuleGetFunction \<notin> set (hooked s) \<and> function_name_map s = Map.empty \<and>
     (\<forall>f \<in> set (hooked s). originals s f \<noteq> None)"

lemma install_loop_inv:
  "hook_inv s \<Longrightarrow> F_ModuleGetFunction \<notin> fst ` set hs \<Longrightarrow>
   (\<forall>f \<in> set (hooked s). \<forall>n. (f, n) \<in> set hs \<longrightarrow> get_proc env n \<noteq> None) \<Longrightarrow> distinct (map fst hs) \<Longrightarrow>
   hook_inv (install_loop env hs s)"
proof (induction hs arbitrary: s)
  case (Cons h hs)
  obtain f name where h: "h = (f, name)" by force
  let ?s1 = "s\<lparr>originals := (originals s)(f := get_proc env name)\<rparr>"
  have inv1: "hook_inv ?s1" using Cons.prems(1,3) by (auto simp: hook_inv_def h)
  have f: "f \<noteq> F_ModuleGetFunction" "f \<notin> fst ` set hs" using Cons.prems(2,4) by (auto simp: h)
  show ?case
  proof (cases "get_proc env name \<noteq> None \<and> lh_install env f")
    case True
    then have "hook_inv (?s1\<lparr>hooked := f # hooked ?s1\<rparr>)" using inv1 f(1) by (auto simp: hook_inv_def)
    moreover have "\<forall>g \<in> set (hooked (?s1\<lparr>hooked := f # hooked ?s1\<rparr>)). \<forall>n. (g, n) \<in> set hs \<longrightarrow> get_proc env n \<noteq> None"
      using Cons.prems(3) f(2) by (force simp: h)
    ultimately have "hook_inv (install_loop env hs (?s1\<lparr>hooked := f # hooked ?s1\<rparr>))"
      using Cons.prems by (intro Cons.IH) auto
    then show ?thesis using True by (auto simp: h Let_def)
  next
    case False
    have "hook_inv (install_loop env hs ?s1)" using Cons.prems inv1 by (intro Cons.IH) (auto simp: h)
    then show ?thesis using False by (auto simp: h Let_def)
  qed
qed simp

definition hooks_available :: "driver_env \<Rightarrow> hook_state \<Rightarrow> bool" where
  "hooks_available env s \<longleftrightarrow> (\<forall>f \<in> set (hooked s). \<forall>n. (f, n) \<in> set hooks \<longrightarrow> get_proc env n \<noteq> None)"

lemma install_loop_available:
  "hooks_available env s \<Longrightarrow> set hs \<subseteq> set hooks \<Longrightarrow> hooks_available env (install_loop env hs s)"
proof (induction hs arbitrary: s)
  case (Cons h hs)
  obtain f name where h: "h = (f, name)" by force
  let ?s1 = "s\<lparr>originals := (originals s)(f := get_proc env name)\<rparr>"
  let ?s2 = "?s1\<lparr>hooked := f # hooked ?s1\<rparr>"
  have sub: "set hs \<subseteq> set hooks" and hin: "(f, name) \<in> set hooks" using Cons.prems(2) by (auto simp: h)
  have uniq: "n = name" if "(f, n) \<in> set hooks" for n
    using that hin by (auto simp: hooks_def)
  have a1: "hooks_available env ?s1" using Cons.prems(1) by (simp add: hooks_available_def)
  then have a2: "hooks_available env ?s2" if "get_proc env name \<noteq> None"
    using that uniq by (fastforce simp: hooks_available_def)
  show ?case
    using Cons.IH [OF a1 sub] Cons.IH [OF a2 sub]
    by (cases "get_proc env name") (simp_all add: h Let_def)
qed simp

lemma InstallHook_inv:
  "hook_inv s \<Longrightarrow> hooks_available env s \<Longrightarrow> hook_inv (InstallHook env s) \<and> hooks_available env (InstallHook env s)"
  using install_loop_inv [of s hooks env] install_loop_available [of env s hooks]
  by (auto simp: InstallHook_def hooks_available_def) (auto simp: hooks_def)

lemma call_original_Done: "call_original f s body = Done x \<longleftrightarrow> originals s f \<noteq> None \<and> body = Done x"
  by (simp add: call_original_def)

text \<open>No replacement but the one for the name lookup changes the hook's state.\<close>

lemma Hooked_keeps:
  "Hooked_cuMemAlloc env rpc False n s = Done (r, o1, s') \<Longrightarrow> s' = s"
  "Hooked_cuMemFree env rpc False p s = Done (r, o1, s') \<Longrightarrow> s' = s"
  "Hooked_cuMemcpyHtoD zmq False d src n s = Done (r, o1, s') \<Longrightarrow> s' = s"
  "Hooked_cuMemcpyDtoH zmq False dst p n s = Done (r, o1, s') \<Longrightarrow> s' = s"
  subgoal by (auto simp: Hooked_cuMemAlloc_def exec_simps call_original_Done split: prod.splits)
  subgoal by (auto simp: Hooked_cuMemFree_def exec_simps call_original_Done)
  subgoal by (auto simp: Hooked_cuMemcpyHtoD_def exec_simps)
  subgoal by (auto simp: Hooked_cuMemcpyDtoH_def exec_simps)
  done

lemma Hooked_launch_keeps: "Hooked_cuLaunchKernel rpc False f g b sh ps s = Done (r, o1, s') \<Longrightarrow> s' = s"
  by (cases "function_name_map s f")
    (auto simp: Hooked_cuLaunchKernel_def split: exec.splits if_splits)

lemma replaced_call_keeps:
  "replaced_call env rpc zmq c s = Done (r, o1, s') \<Longrightarrow> api_of c \<noteq> F_ModuleGetFunction \<Longrightarrow> s' = s"
  by (cases c) (auto dest: Hooked_keeps Hooked_launch_keeps)

lemma app_step_keeps:
  assumes "app_step env rpc zmq c s = Done (r, o1, s')" "F_ModuleGetFunction \<notin> set (hooked s)"
  shows "s' = s"
proof (cases "api_of c \<in> set (hooked s)")
  case True
  then have "replaced_call env rpc zmq c s = Done (r, o1, s')" using assms(1) by (simp add: app_step_def)
  moreover have "api_of c \<noteq> F_ModuleGetFunction" using True assms(2) by metis
  ultimately show ?thesis by (rule replaced_call_keeps)
qed (use assms(1) in \<open>simp add: app_step_def split: prod.splits\<close>)

definition new_hook :: hook_state where
  "new_hook = \<lparr>cudaModule = None, originals = (\<lambda>_. None), hooked = [], function_name_map = Map.empty,
               client = LauncherClient ''127.0.0.1:12345''\<rparr>"

lemma InitOriginalFunctions_keeps:
  "hooked (InitOriginalFunctions env s) = hooked s"
  "function_name_map (InitOriginalFunctions env s) = function_name_map s"
  by (simp_all add: InitOriginalFunctions_def split: option.splits)

lemma hook_reachable_inv:
  "hook_reachable env rpc new_hook s \<Longrightarrow> hook_inv s \<and> hooks_available env s"
proof (induction rule: hook_reachable.induct)
  case (attach ok s)
  then have "hooked s = []" "function_name_map s = Map.empty"
    using InitOriginalFunctions_keeps [of env new_hook]
    by (auto simp: DllMain_def InitializeHook_def exec_simps Let_def new_hook_def)
  then show ?case by (simp add: hook_inv_def hooks_available_def)
next
  case (loader s reason ok s')
  then show ?case by (cases reason) (auto simp: DllMain_def CleanupHook_def hook_inv_def hooks_available_def)
next
  case (install s)
  then show ?case using InstallHook_inv by blast
next
  case (uninstall s)
  then show ?case by (simp add: UninstallHook_def hook_inv_def hooks_available_def)
next
  case (app s zmq c r o1 s')
  then have "s' = s" using app_step_keeps by (auto simp: hook_inv_def)
  with app show ?case by simp
qed

definition sample_driver :: driver_env where
  "sample_driver = \<lparr>load_library = Some 1, get_module = Some 1, get_proc = (\<lambda>_. Some 2), lh_install = (\<lambda>_. True),
     o_alloc = (\<lambda>_. (CUDA_SUCCESS, 3)), o_free = (\<lambda>_. CUDA_SUCCESS), o_htod = (\<lambda>_ _ _. CUDA_SUCCESS),
     o_dtoh = (\<lambda>_ _. (CUDA_SUCCESS, [])), o_launch = (\<lambda>_. CUDA_SUCCESS), o_get_function = (\<lambda>_ _. (CUDA_SUCCESS, 11))\<rparr>"

definition sample_hooked :: hook_state where
  "sample_hooked = InstallHook sample_driver
     ((InitOriginalFunctions sample_driver new_hook)\<lparr>client := connected\<rparr>)"

lemma sample_hooked_reachable: "hook_reachable sample_driver echo_env new_hook sample_hooked"
proof -
  have "DllMain sample_driver echo_env DLL_PROCESS_ATTACH new_hook =
      Done (True, (InitOriginalFunctions sample_driver new_hook)\<lparr>client := connected\<rparr>)"
    by (simp add: DllMain_def InitializeHook_def connect_def echo_env_def InitOriginalFunctions_def sample_driver_def
        new_hook_def LauncherClient_def connected_def Let_def)
  from hook_reachable.install [OF hook_reachable.attach [OF this]] show ?thesis
    by (simp add: sample_hooked_def)
qed

lemma sample_hooked_launch: "F_LaunchKernel \<in> set (hooked sample_hooked)"
  by (simp add: sample_hooked_def InstallHook_def hooks_def sample_driver_def Let_def)

subsection \<open>Properties\<close>

text \<open>
  C26. The hooks that \<open>InstallHook\<close> places never see a kernel's name: in every reachable state of an
  application under them the name table is empty, so a hooked launch of any function is refused
  with \<open>CUDA_ERROR_INVALID_HANDLE\<close> without any request to the launcher; and a replacement that is
  in place always has its original function.
\<close>

theorem hooked_launches_are_refused:
  assumes "hook_reachable env rpc new_hook s" and "F_LaunchKernel \<in> set (hooked s)"
  shows "app_step env rpc zmq (AppLaunch f grid block shared params) s =
      Done (CUDA_ERROR_INVALID_HANDLE, NoOut, s) \<and> function_name_map s = Map.empty \<and>
    originals s F_LaunchKernel \<noteq> None"
  using hook_reachable_inv [OF assms(1)] assms(2)
  by (auto simp: app_step_def hook_inv_def Hooked_cuLaunchKernel_def)

theorem hooked_launches_are_refused_witness:
  "app_step sample_driver echo_env (good_env [] (\<lambda>_. True)) (AppLaunch 11 (1, 1, 1) (32, 1, 1) 0 []) sample_hooked =
     Done (CUDA_ERROR_INVALID_HANDLE, NoOut, sample_hooked)"
  using hooked_launches_are_refused [OF sample_hooked_reachable sample_hooked_launch] by blast

text \<open>
  A hooked copy to the device returns success exactly when the datagram transport does, sends
  exactly the first \<open>ByteCount\<close> host bytes to port 5555 of the local machine, and treats all
  device pointers alike: which buffer the bytes are for is nowhere in what is sent.
\<close>

theorem htod_copy_loses_its_destination:
  assumes "unat n \<le> length src"
    and "all_ok \<longleftrightarrow> ctx_new_ok zmq \<and> socket_ok zmq \<and> connect_ok zmq (endpoint local_ip 5555) \<and>
           init_data_ok zmq 0 \<and> send_ok zmq 0"
  shows "Hooked_cuMemcpyHtoD zmq False d src n s =
    Done (if all_ok then (CUDA_SUCCESS, Sent [(endpoint local_ip 5555, take (unat n) src)], s)
          else (CUDA_ERROR_UNKNOWN, Sent [], s))"
  using assms by (cases all_ok) (auto simp: Hooked_cuMemcpyHtoD_def SendData_def Let_def)

theorem htod_copy_loses_its_destination_witness:
  "Hooked_cuMemcpyHtoD (good_env [] (\<lambda>_. True)) False 4096 [1, 2] 2 new_hook =
     Hooked_cuMemcpyHtoD (good_env [] (\<lambda>_. True)) False 8192 [1, 2] 2 new_hook"
  using htod_copy_loses_its_destination [of 2 "[1, 2]" True "good_env [] (\<lambda>_. True)"]
  by (simp add: good_env_def)

text \<open>
  Were the name lookup hooked, a launch of the function it returned would be sent under that
  name, with the server's code as the result; an exception of the RPC runtime becomes
  \<open>CUDA_ERROR_LAUNCH_FAILED\<close>, and any other leaves the hook.
\<close>

theorem launch_uses_the_last_name:
  assumes "Hooked_cuModuleGetFunction env False hmod name s = Done (CUDA_SUCCESS, FunctionHandle f, s')"
    and "m_rpcClient (client s) = Some a" and "m_client (client s) = Some t" and "512 \<le> length params"
  shows "Hooked_cuLaunchKernel rpc False f g b sh params s' =
    (case server rpc t (LaunchRequest \<lparr>lr_func = name, lr_grid = g, lr_block = b, lr_shared = sh,
             lr_params = take 512 params\<rparr>) of
       Done response \<Rightarrow> Done (ucast (code response), NoOut, s')
     | Throws e \<Rightarrow> (if e = ''kj::Exception'' then Done (CUDA_ERROR_LAUNCH_FAILED, NoOut, s') else Throws e)
     | UB u \<Rightarrow> UB u)"
proof -
  have "s' = s\<lparr>function_name_map := (function_name_map s)(f \<mapsto> name)\<rparr>"
    using assms(1) by (auto simp: Hooked_cuModuleGetFunction_def call_original_Done split: prod.splits if_splits)
  then show ?thesis using launch_sends [OF assms(2-4), of rpc name g b sh]
    by (simp add: Hooked_cuLaunchKernel_def split: exec.split)
qed

theorem launch_uses_the_last_name_witness:
  "\<exists>s. Hooked_cuModuleGetFunction sample_driver False 1 ''k'' sample_hooked = Done (CUDA_SUCCESS, FunctionHandle 11, s) \<and>
     Hooked_cuLaunchKernel echo_env False 11 (1, 1, 1) (1, 1, 1) 0 (replicate 512 0) s = Done (0, NoOut, s)"
proof -
  obtain s where s: "Hooked_cuModuleGetFunction sample_driver False 1 ''k'' sample_hooked =
      Done (CUDA_SUCCESS, FunctionHandle 11, s)"
    by (simp add: Hooked_cuModuleGetFunction_def call_original_def sample_hooked_def InstallHook_def hooks_def
        sample_driver_def InitOriginalFunctions_def Let_def)
  have "client sample_hooked = connected"
    by (simp add: sample_hooked_def InstallHook_def hooks_def sample_driver_def Let_def)
  with launch_uses_the_last_name [OF s, of "''127.0.0.1:12345''" "''127.0.0.1:12345''" "replicate 512 0" echo_env]
  show ?thesis using s by (auto simp: connected_def echo_env_def)
qed

end
