(* ===== verification/HookToLauncher.thy ===== *)
theory HookToLauncher
  imports Rpc Hook
begin

section \<open>From the hook to the launcher\<close>

text \<open>
  The way of a request: a method of the hook's client (\<open>client/hook/launcher_client.cpp\<close>) makes a
  request of the generated client, the launcher's server dispatches its numbers, and the method of
  \<open>RootService\<close> (\<open>client/launcher/main.cpp\<close>) runs when it overrides one of the generated server's
  methods, which is a matter of its name. The answer of the overriding method is a parameter.
\<close>

fun method_of :: "request \<Rightarrow> launcher_method" where
  "method_of (AllocationPlanRequest _) = M_requestAllocationPlan"
| "method_of (FreePlanRequest _) = M_requestFreePlan"
| "method_of (PlanHtoDRequest _ _) = M_planMemcpyHtoD"
| "method_of (PlanDtoHRequest _ _) = M_planMemcpyDtoH"
| "method_of (LaunchRequest _) = M_launchKernel"
| "method_of (LocationRequest _) = M_getMemoryLocation"
| "method_of (PrefetchRequest _) = M_advisePrefetch"

text \<open>The names of the methods that \<open>RootService\<close> declares.\<close>

definition rootService_methods :: "string list" where
  "rootService_methods = [''requestAllocation'', ''requestFree'', ''planMemcpyHtoD'', ''allocateMemory'',
     ''freeMemory'', ''executeTransfer'', ''handleMemAdvise'']"

definition root_overrides :: "'r exec \<Rightarrow> launcher_method \<Rightarrow> 'r exec option" where
  "root_overrides body m = (if launcher_name m \<in> set rootService_methods then Some body else None)"

definition launcher_server :: "(request \<Rightarrow> 'm response exec) \<Rightarrow> request \<Rightarrow> 'm response exec" where
  "launcher_server handler req =
     (let call = launcher_request (method_of req)
      in run_method (root_overrides (handler req)) (launcher_dispatchCall (call_interface call) (call_method call)))"

lemma root_overrides_iff: "root_overrides body m = (if m = M_planMemcpyHtoD then Some body else None)"
  by (cases m) (simp_all add: root_overrides_def rootService_methods_def)

lemma launcher_server_call: "launcher_server handler req = launcher.call (root_overrides (handler req)) (method_of req)"
  by (simp only: launcher_server_def launcher.call_def Let_def)

lemma launcher_server_cases:
  "launcher_server handler req = (if method_of req = M_planMemcpyHtoD then handler req else unimplemented)"
  by (simp add: launcher_server_call root_overrides_iff launcher.call_overridden launcher.call_default)

lemma send_wait_connected:
  "connect env c0 = Done (True, c) \<Longrightarrow> send_wait env c req = server env (m_address c0) req"
  by (drule connect_true) (simp add: send_wait_def)

subsection \<open>Properties\<close>



end
