(* ===== verification/WireCommon.thy ===== *)
theory WireCommon
  imports Wire
begin

section \<open>The messages of common.capnp\<close>

text \<open>
  \<open>proto/proto/common.capnp.h\<close>, identifiers, acknowledgements, memory handles and
  responses: for every generated struct the constants its accessors pass to the runtime, one
  definition per field (width, element offset and default of a data field, index of a pointer
  field), and the sizes of its sections, from the declaration.
\<close>

text \<open>\<open>ID\<close>\<close>

definition ID_which :: dfield where "ID_which = data_field 16 0 0"
definition ID_uuid :: pfield where "ID_uuid = pointer_field 0"
definition ID_handle :: dfield where "ID_handle = data_field 64 1 0"
definition ID_layout :: layout where
  "ID_layout = struct_layout 2 1
     [ID_which, ID_handle]
     [ID_uuid]"

text \<open>\<open>Ack\<close>\<close>

definition Ack_ok :: dfield where "Ack_ok = data_field 1 0 0"
definition Ack_msg :: pfield where "Ack_msg = pointer_field 0"
definition Ack_code :: dfield where "Ack_code = data_field 16 1 0"
definition Ack_layout :: layout where
  "Ack_layout = struct_layout 1 1
     [Ack_ok, Ack_code]
     [Ack_msg]"

text \<open>\<open>GpuInfo\<close>\<close>

definition GpuInfo_id :: pfield where "GpuInfo_id = pointer_field 0"
definition GpuInfo_name :: pfield where "GpuInfo_name = pointer_field 1"
definition GpuInfo_totalMemory :: dfield where "GpuInfo_totalMemory = data_field 64 0 0"
definition GpuInfo_metadata :: pfield where "GpuInfo_metadata = pointer_field 2"
definition GpuInfo_layout :: layout where
  "GpuInfo_layout = struct_layout 1 3
     [GpuInfo_totalMemory]
     [GpuInfo_id, GpuInfo_name, GpuInfo_metadata]"

text \<open>\<open>Metadata\<close>\<close>

definition Metadata_numaAffinity :: dfield where "Metadata_numaAffinity = data_field 32 0 4294967295"
definition Metadata_gdrSupport :: dfield where "Metadata_gdrSupport = data_field 1 32 0"
definition Metadata_layout :: layout where
  "Metadata_layout = struct_layout 1 0
     [Metadata_numaAffinity, Metadata_gdrSupport]
     []"

text \<open>\<open>MemoryHandle\<close>\<close>

definition MemoryHandle_id :: pfield where "MemoryHandle_id = pointer_field 0"
definition MemoryHandle_size :: dfield where "MemoryHandle_size = data_field 64 0 0"
definition MemoryHandle_nodeId :: dfield where "MemoryHandle_nodeId = data_field 32 2 0"
definition MemoryHandle_layout :: layout where
  "MemoryHandle_layout = struct_layout 2 1
     [MemoryHandle_size, MemoryHandle_nodeId]
     [MemoryHandle_id]"

text \<open>\<open>Response\<close>\<close>

definition Response_success :: dfield where "Response_success = data_field 1 0 0"
definition Response_data :: pfield where "Response_data = pointer_field 0"
definition Response_error :: dfield where "Response_error = data_field 16 1 0"
definition Response_message :: pfield where "Response_message = pointer_field 1"
definition Response_layout :: layout where
  "Response_layout = struct_layout 1 2
     [Response_success, Response_error]
     [Response_data, Response_message]"

definition wireCommon_layouts :: "layout list" where
  "wireCommon_layouts = [
     ID_layout, Ack_layout, GpuInfo_layout, Metadata_layout, MemoryHandle_layout, Response_layout]"

lemmas wireCommon_fields =
  ID_which_def ID_uuid_def ID_handle_def ID_layout_def Ack_ok_def Ack_msg_def Ack_code_def Ack_layout_def
  GpuInfo_id_def GpuInfo_name_def GpuInfo_totalMemory_def GpuInfo_metadata_def GpuInfo_layout_def
  Metadata_numaAffinity_def Metadata_gdrSupport_def Metadata_layout_def MemoryHandle_id_def
  MemoryHandle_size_def MemoryHandle_nodeId_def MemoryHandle_layout_def Response_success_def
  Response_data_def Response_error_def Response_message_def Response_layout_def

lemma wireCommon_layouts_ok: "list_all layout_ok wireCommon_layouts"
  by (simp add: wireCommon_layouts_def wireCommon_fields struct_layout_def layout_ok_def inside_def apart_def
      first_bit_def data_field_def pointer_field_def)

subsection \<open>Error codes\<close>

datatype error_code = OK | OUT_OF_MEMORY | GPU_NOT_FOUND | STREAM_ERROR | KERNEL_LAUNCH_FAIL | UNKNOWN

fun code_number :: "error_code \<Rightarrow> nat" where
  "code_number OK = 0"
| "code_number OUT_OF_MEMORY = 1"
| "code_number GPU_NOT_FOUND = 2"
| "code_number STREAM_ERROR = 3"
| "code_number KERNEL_LAUNCH_FAIL = 4"
| "code_number UNKNOWN = 5"

lemma code_number_inj: "code_number a = code_number b \<longleftrightarrow> a = b"
  by (cases a; cases b) simp_all

text \<open>Error codes are ordered by their number on the wire.\<close>

instantiation error_code :: linorder
begin

definition less_eq_error_code :: "error_code \<Rightarrow> error_code \<Rightarrow> bool" where
  "less_eq_error_code a b \<longleftrightarrow> code_number a \<le> code_number b"

definition less_error_code :: "error_code \<Rightarrow> error_code \<Rightarrow> bool" where
  "less_error_code a b \<longleftrightarrow> code_number a < code_number b"

instance
  by intro_classes (auto simp: less_eq_error_code_def less_error_code_def code_number_inj)

end

definition getCode :: "('w, 'o) runtime \<Rightarrow> 'w \<Rightarrow> nat" where
  "getCode rt w = rt_getData rt Ack_code w"

definition setCode :: "('w, 'o) runtime \<Rightarrow> error_code \<Rightarrow> 'w \<Rightarrow> 'w" where
  "setCode rt c w = rt_setData rt Ack_code (code_number c) w"

lemma code_number_width: "in_width Ack_code (code_number c)"
  by (cases c) (simp_all add: in_width_def Ack_code_def data_field_def)

subsection \<open>The union of \<open>ID\<close>\<close>

text \<open>The setters write the discriminant first; the getters of a debug build check it.\<close>

definition UUID_tag :: nat where "UUID_tag = 0"
definition HANDLE_tag :: nat where "HANDLE_tag = 1"

definition wrong_member :: "'a exec" where
  "wrong_member = Throws ''Must check which() before get()ing a union member.''"

definition ID_hasUuid :: "('w, 'o) runtime \<Rightarrow> 'w \<Rightarrow> bool" where
  "ID_hasUuid rt w = (rt_getData rt ID_which w = UUID_tag \<and> \<not> rt_isNull rt ID_uuid w)"

definition ID_getUuid :: "('w, 'o) runtime \<Rightarrow> 'o \<Rightarrow> 'w \<Rightarrow> 'o exec" where
  "ID_getUuid rt empty_text w =
     (if rt_getData rt ID_which w = UUID_tag then Done (rt_getPointer rt empty_text ID_uuid w) else wrong_member)"

definition ID_setUuid :: "('w, 'o) runtime \<Rightarrow> 'o \<Rightarrow> 'w \<Rightarrow> 'w" where
  "ID_setUuid rt x w = rt_setPointer rt ID_uuid x (rt_setData rt ID_which UUID_tag w)"

definition ID_disownUuid :: "('w, 'o) runtime \<Rightarrow> 'w \<Rightarrow> ('o option \<times> 'w) exec" where
  "ID_disownUuid rt w = (if rt_getData rt ID_which w = UUID_tag then Done (rt_disown rt ID_uuid w) else wrong_member)"

definition ID_getHandle :: "('w, 'o) runtime \<Rightarrow> 'w \<Rightarrow> nat exec" where
  "ID_getHandle rt w =
     (if rt_getData rt ID_which w = HANDLE_tag then Done (rt_getData rt ID_handle w) else wrong_member)"

definition ID_setHandle :: "('w, 'o) runtime \<Rightarrow> nat \<Rightarrow> 'w \<Rightarrow> 'w" where
  "ID_setHandle rt v w = rt_setData rt ID_handle v (rt_setData rt ID_which HANDLE_tag w)"

lemma ID_apart: "apart ID_handle ID_which" "apart ID_which ID_handle"
  by (simp_all add: apart_def first_bit_def ID_handle_def ID_which_def data_field_def)

lemma ID_fits: "f_mask ID_which < 2 ^ f_width ID_which" "in_width ID_which UUID_tag" "in_width ID_which HANDLE_tag"
  "f_mask ID_handle < 2 ^ f_width ID_handle" "in_width ID_handle v \<longleftrightarrow> v < 2 ^ 64"
  by (simp_all add: in_width_def ID_which_def ID_handle_def data_field_def UUID_tag_def HANDLE_tag_def)

lemma ID_which_mask: "f_mask ID_which = UUID_tag"
  by (simp add: ID_which_def data_field_def UUID_tag_def)

lemma tags_differ [simp]: "UUID_tag \<noteq> HANDLE_tag" "HANDLE_tag \<noteq> UUID_tag"
  by (simp_all add: UUID_tag_def HANDLE_tag_def)

context capnp_runtime begin

lemma getCode_setCode: "getCode rt (setCode rt c w) = code_number c"
  unfolding getCode_def setCode_def
  by (rule get_set) (simp_all add: code_number_width, simp add: Ack_code_def data_field_def)

lemma which_after_setHandle: "rt_getData rt ID_which (ID_setHandle rt v w) = HANDLE_tag"
  by (simp add: ID_setHandle_def get_other [OF ID_apart(1)] get_set ID_fits)

lemma which_after_setUuid: "rt_getData rt ID_which (ID_setUuid rt x w) = UUID_tag"
  by (simp add: ID_setUuid_def data_pointer get_set ID_fits)

lemma handle_after_setHandle: "v < 2 ^ 64 \<Longrightarrow> rt_getData rt ID_handle (ID_setHandle rt v w) = v"
  by (simp add: ID_setHandle_def get_set ID_fits)

lemma uuid_after_setUuid:
  "rt_getPointer rt d ID_uuid (ID_setUuid rt x w) = x" "\<not> rt_isNull rt ID_uuid (ID_setUuid rt x w)"
  by (simp_all add: ID_setUuid_def pointer_set null_set)

lemma uuid_after_setHandle: "rt_getPointer rt d ID_uuid (ID_setHandle rt v w) = rt_getPointer rt d ID_uuid w"
  by (simp add: ID_setHandle_def pointer_data)

lemmas ID_accessors = ID_getHandle_def ID_getUuid_def ID_hasUuid_def which_after_setHandle which_after_setUuid
  handle_after_setHandle uuid_after_setUuid uuid_after_setHandle

end

subsection \<open>Properties\<close>

text \<open>
  The union of an identifier holds what was set last, on any runtime with the documented
  behaviour: after setting a handle the handle reads back and the text member is refused and
  absent, after setting the text it reads back and the handle is refused, whatever was there
  before; a new identifier is an empty text. Setting the handle leaves an older text's object in
  place, so that it is only unreachable, not freed.
\<close>

theorem identifier_holds_what_was_set_last:
  assumes "capnp_runtime rt" and "v < 2 ^ 64"
  shows "ID_getHandle rt (ID_setHandle rt v w) = Done v \<and> ID_getUuid rt d (ID_setHandle rt v w) = wrong_member \<and>
    \<not> ID_hasUuid rt (ID_setHandle rt v w) \<and> ID_getUuid rt d (ID_setUuid rt x w) = Done x \<and>
    ID_hasUuid rt (ID_setUuid rt x w) \<and> ID_getHandle rt (ID_setUuid rt x w) = wrong_member \<and>
    ID_getUuid rt d (rt_new rt) = Done d \<and>
    rt_getPointer rt d ID_uuid (ID_setHandle rt v w) = rt_getPointer rt d ID_uuid w"
proof -
  note rt = capnp_runtime.ID_accessors [OF assms(1)]
  have "rt_getData rt ID_which (rt_new rt) = UUID_tag"
    using data_runtime.get_new [OF capnp_runtime.axioms(1) [OF assms(1)]] by (simp add: ID_which_mask)
  then show ?thesis using assms(2) by (simp add: rt capnp_runtime.new_pointer [OF assms(1)])
qed

theorem identifier_holds_what_was_set_last_witness:
  "ID_getHandle encoding (ID_setHandle encoding 77 (ID_setUuid encoding ''gpu'' (rt_new encoding))) = Done 77"
  using identifier_holds_what_was_set_last [OF encoded.capnp_runtime_axioms, of 77
      "ID_setUuid encoding ''gpu'' (rt_new encoding)"] by simp

end
