(* ===== verification/WireRequests.thy ===== *)
theory WireRequests
  imports HookToLauncher WireCommon
begin

section \<open>Requests and answers on the wire\<close>

text \<open>
  How the hook's client fills the parameter structs of its requests (\<open>client/hook/launcher_client.cpp\<close>),
  what the generated readers give back on the other side, and the acknowledgement in the results.
  What a pointer field points to is a struct, a text or bytes. A builder's getter of a struct that
  is not there yet makes one, and a reader's getter of one that is not there gives the default.
\<close>

datatype 'w obj = StructObj 'w | TextObj string | BytesObj "u8 list"

type_synonym 'w messages = "('w, 'w obj) runtime"

subsection \<open>Building\<close>

definition set_fields :: "'w messages \<Rightarrow> (dfield \<times> nat) list \<Rightarrow> 'w \<Rightarrow> 'w" where
  "set_fields rt fs w = foldl (\<lambda>w (f, v). rt_setData rt f v w) w fs"

text \<open>\<open>initDstHandle()\<close>, then \<open>getId().setHandle(fakePtr)\<close>.\<close>

definition handle_for :: "'w messages \<Rightarrow> u64 \<Rightarrow> 'w" where
  "handle_for rt fakePtr =
     rt_setPointer rt MemoryHandle_id (StructObj (ID_setHandle rt (unat fakePtr) (rt_new rt))) (rt_new rt)"

fun build_request :: "'w messages \<Rightarrow> request \<Rightarrow> 'w" where
  "build_request rt (AllocationPlanRequest n) =
     rt_setData rt HookLauncher_RequestAllocationPlanParams_size (unat n) (rt_new rt)"
| "build_request rt (FreePlanRequest p) =
     rt_setData rt HookLauncher_RequestFreePlanParams_fakePtr (unat p) (rt_new rt)"
| "build_request rt (PlanHtoDRequest p n) =
     rt_setData rt HookLauncher_PlanMemcpyHtoDParams_size (unat n)
       (rt_setPointer rt HookLauncher_PlanMemcpyHtoDParams_dstHandle (StructObj (handle_for rt p)) (rt_new rt))"
| "build_request rt (PlanDtoHRequest p n) =
     rt_setData rt HookLauncher_PlanMemcpyDtoHParams_size (unat n)
       (rt_setPointer rt HookLauncher_PlanMemcpyDtoHParams_srcHandle (StructObj (handle_for rt p)) (rt_new rt))"
| "build_request rt (LaunchRequest l) =
     rt_setPointer rt HookLauncher_LaunchKernelParams_params (BytesObj (lr_params l))
       (set_fields rt
         [(HookLauncher_LaunchKernelParams_gridDimX, unat (fst (lr_grid l))),
          (HookLauncher_LaunchKernelParams_gridDimY, unat (fst (snd (lr_grid l)))),
          (HookLauncher_LaunchKernelParams_gridDimZ, unat (snd (snd (lr_grid l)))),
          (HookLauncher_LaunchKernelParams_blockDimX, unat (fst (lr_block l))),
          (HookLauncher_LaunchKernelParams_blockDimY, unat (fst (snd (lr_block l)))),
          (HookLauncher_LaunchKernelParams_blockDimZ, unat (snd (snd (lr_block l)))),
          (HookLauncher_LaunchKernelParams_sharedMemBytes, unat (lr_shared l))]
         (rt_setPointer rt HookLauncher_LaunchKernelParams_func (TextObj (lr_func l)) (rt_new rt)))"
| "build_request rt (LocationRequest p) =
     rt_setData rt HookLauncher_GetMemoryLocationParams_fakePtr (unat p) (rt_new rt)"
| "build_request rt (PrefetchRequest p) =
     rt_setData rt HookLauncher_AdvisePrefetchParams_fakePtr (unat p) (rt_new rt)"

subsection \<open>Reading\<close>

text \<open>A pointer to something of another kind is a decoding error, which throws.\<close>

definition get_struct :: "'w messages \<Rightarrow> pfield \<Rightarrow> 'w \<Rightarrow> 'w exec" where
  "get_struct rt p w = (case rt_getPointer rt (StructObj (rt_new rt)) p w of
     StructObj s \<Rightarrow> Done s | _ \<Rightarrow> Throws ''kj::Exception'')"

definition get_text :: "'w messages \<Rightarrow> pfield \<Rightarrow> 'w \<Rightarrow> string exec" where
  "get_text rt p w = (case rt_getPointer rt (TextObj []) p w of TextObj x \<Rightarrow> Done x | _ \<Rightarrow> Throws ''kj::Exception'')"

definition get_bytes :: "'w messages \<Rightarrow> pfield \<Rightarrow> 'w \<Rightarrow> u8 list exec" where
  "get_bytes rt p w = (case rt_getPointer rt (BytesObj []) p w of BytesObj x \<Rightarrow> Done x | _ \<Rightarrow> Throws ''kj::Exception'')"

definition read_handle :: "'w messages \<Rightarrow> pfield \<Rightarrow> 'w \<Rightarrow> u64 exec" where
  "read_handle rt p w =
     exec_bind (get_struct rt p w) (\<lambda>h.
     exec_bind (get_struct rt MemoryHandle_id h) (\<lambda>i.
     exec_bind (ID_getHandle rt i) (\<lambda>v. Done (of_nat v))))"

definition get_u32 :: "'w messages \<Rightarrow> dfield \<Rightarrow> 'w \<Rightarrow> u32" where
  "get_u32 rt f w = of_nat (rt_getData rt f w)"

definition get_u64 :: "'w messages \<Rightarrow> dfield \<Rightarrow> 'w \<Rightarrow> u64" where
  "get_u64 rt f w = of_nat (rt_getData rt f w)"

text \<open>
  The specification of what a request says: the parameters of a method, read through the readers
  that the schema generates. No handler of the launcher is modelled by it: the only one the hook
  reaches, \<open>planMemcpyHtoD\<close>, names an accessor that the parameters do not have
  (\<open>getDstFakePtr\<close>, \<open>ClientCalls\<close>), and the others are not overridden.
\<close>

fun read_request :: "'w messages \<Rightarrow> launcher_method \<Rightarrow> 'w \<Rightarrow> request exec" where
  "read_request rt M_requestAllocationPlan w =
     Done (AllocationPlanRequest (get_u64 rt HookLauncher_RequestAllocationPlanParams_size w))"
| "read_request rt M_requestFreePlan w =
     Done (FreePlanRequest (get_u64 rt HookLauncher_RequestFreePlanParams_fakePtr w))"
| "read_request rt M_planMemcpyHtoD w =
     exec_bind (read_handle rt HookLauncher_PlanMemcpyHtoDParams_dstHandle w) (\<lambda>p.
       Done (PlanHtoDRequest p (get_u64 rt HookLauncher_PlanMemcpyHtoDParams_size w)))"
| "read_request rt M_planMemcpyDtoH w =
     exec_bind (read_handle rt HookLauncher_PlanMemcpyDtoHParams_srcHandle w) (\<lambda>p.
       Done (PlanDtoHRequest p (get_u64 rt HookLauncher_PlanMemcpyDtoHParams_size w)))"
| "read_request rt M_launchKernel w =
     exec_bind (get_text rt HookLauncher_LaunchKernelParams_func w) (\<lambda>func.
     exec_bind (get_bytes rt HookLauncher_LaunchKernelParams_params w) (\<lambda>params.
       Done (LaunchRequest \<lparr>lr_func = func,
         lr_grid = (get_u32 rt HookLauncher_LaunchKernelParams_gridDimX w,
                    get_u32 rt HookLauncher_LaunchKernelParams_gridDimY w,
                    get_u32 rt HookLauncher_LaunchKernelParams_gridDimZ w),
         lr_block = (get_u32 rt HookLauncher_LaunchKernelParams_blockDimX w,
                     get_u32 rt HookLauncher_LaunchKernelParams_blockDimY w,
                     get_u32 rt HookLauncher_LaunchKernelParams_blockDimZ w),
         lr_shared = get_u32 rt HookLauncher_LaunchKernelParams_sharedMemBytes w, lr_params = params\<rparr>)))"
| "read_request rt M_getMemoryLocation w =
     Done (LocationRequest (get_u64 rt HookLauncher_GetMemoryLocationParams_fakePtr w))"
| "read_request rt M_advisePrefetch w =
     Done (PrefetchRequest (get_u64 rt HookLauncher_AdvisePrefetchParams_fakePtr w))"
| "read_request rt _ w = Throws ''kj::Exception''"

text \<open>\<open>getAck().getCode()\<close>, as the client reads it, and \<open>initAck().setCode(code)\<close>.\<close>

definition read_ack_code :: "'w messages \<Rightarrow> pfield \<Rightarrow> 'w \<Rightarrow> nat exec" where
  "read_ack_code rt p w = exec_bind (get_struct rt p w) (\<lambda>a. Done (getCode rt a))"

definition write_ack_code :: "'w messages \<Rightarrow> pfield \<Rightarrow> error_code \<Rightarrow> 'w \<Rightarrow> 'w" where
  "write_ack_code rt p c w = rt_setPointer rt p (StructObj (setCode rt c (rt_new rt))) w"

subsection \<open>What the runtime's contract gives\<close>

locale message_runtime = capnp_runtime rt for rt :: "'w messages"
begin

lemma get_struct_set: "get_struct rt p (rt_setPointer rt p (StructObj s) w) = Done s"
  by (simp add: get_struct_def pointer_set)

lemma get_text_set: "get_text rt p (rt_setPointer rt p (TextObj x) w) = Done x"
  by (simp add: get_text_def pointer_set)

lemma get_bytes_set: "get_bytes rt p (rt_setPointer rt p (BytesObj x) w) = Done x"
  by (simp add: get_bytes_def pointer_set)

lemma get_after_data:
  "get_struct rt p (rt_setData rt f v w) = get_struct rt p w"
  "get_text rt p (rt_setData rt f v w) = get_text rt p w"
  "get_bytes rt p (rt_setData rt f v w) = get_bytes rt p w"
  by (simp_all add: get_struct_def get_text_def get_bytes_def pointer_data)

lemma get_text_other: "p_index p \<noteq> p_index q \<Longrightarrow> get_text rt q (rt_setPointer rt p x w) = get_text rt q w"
  by (simp add: get_text_def pointer_other)

lemma get_text_set_fields: "get_text rt p (set_fields rt fs w) = get_text rt p w"
  by (induction fs arbitrary: w) (auto simp: set_fields_def get_after_data)

lemma get_u32_set: "f_width f = 32 \<Longrightarrow> f_mask f = 0 \<Longrightarrow> get_u32 rt f (rt_setData rt f (unat v) w) = v"
  using unsigned_less [of v, where ?'a = nat] by (simp add: get_u32_def get_set in_width_def)

lemma get_u64_set: "f_width f = 64 \<Longrightarrow> f_mask f = 0 \<Longrightarrow> get_u64 rt f (rt_setData rt f (unat v) w) = v"
  using unsigned_less [of v, where ?'a = nat] by (simp add: get_u64_def get_set in_width_def)

lemma get_u32_other: "apart f g \<Longrightarrow> get_u32 rt g (rt_setData rt f v w) = get_u32 rt g w"
  by (simp add: get_u32_def get_other)

lemma get_u32_pointer: "get_u32 rt f (rt_setPointer rt p x w) = get_u32 rt f w"
  by (simp add: get_u32_def data_pointer)

lemma read_handle_set: "read_handle rt p (rt_setPointer rt p (StructObj (handle_for rt h)) w) = Done h"
  using handle_after_setHandle [of "unat h" "rt_new rt"] unsigned_less [of h, where ?'a = nat]
  by (simp add: read_handle_def handle_for_def get_struct_set ID_getHandle_def which_after_setHandle)

lemma read_handle_data: "read_handle rt p (rt_setData rt f v w) = read_handle rt p w"
  by (simp add: read_handle_def get_after_data)

lemmas params_fields =
  HookLauncher_RequestAllocationPlanParams_size_def HookLauncher_RequestFreePlanParams_fakePtr_def
  HookLauncher_PlanMemcpyHtoDParams_size_def HookLauncher_PlanMemcpyDtoHParams_size_def
  HookLauncher_GetMemoryLocationParams_fakePtr_def HookLauncher_AdvisePrefetchParams_fakePtr_def
  HookLauncher_LaunchKernelParams_gridDimX_def HookLauncher_LaunchKernelParams_gridDimY_def
  HookLauncher_LaunchKernelParams_gridDimZ_def HookLauncher_LaunchKernelParams_blockDimX_def
  HookLauncher_LaunchKernelParams_blockDimY_def HookLauncher_LaunchKernelParams_blockDimZ_def
  HookLauncher_LaunchKernelParams_sharedMemBytes_def HookLauncher_LaunchKernelParams_func_def
  HookLauncher_LaunchKernelParams_params_def data_field_def pointer_field_def

lemma launch_round_trip: "read_request rt M_launchKernel (build_request rt (LaunchRequest l)) = Done (LaunchRequest l)"
  by (cases l)
    (simp add: get_bytes_set get_text_other get_text_set get_after_data params_fields set_fields_def
      get_u32_pointer get_u32_set get_u32_other apart_def first_bit_def)

lemma request_round_trip: "read_request rt (method_of req) (build_request rt req) = Done req"
proof (cases req)
  case (LaunchRequest l)
  then show ?thesis using launch_round_trip [of l] by simp
qed (simp_all add: get_u64_set params_fields read_handle_data read_handle_set)

lemma ack_round_trip: "read_ack_code rt p (write_ack_code rt p c w) = Done (code_number c)"
  by (simp add: read_ack_code_def write_ack_code_def get_struct_set getCode_setCode)

lemma ack_unset: "read_ack_code rt p (rt_new rt) = Done 0"
  by (simp add: read_ack_code_def get_struct_def new_pointer getCode_def get_new) (simp add: Ack_code_def data_field_def)

end

subsection \<open>The documented encoding of nested structs\<close>

datatype tree = Tree "nat \<Rightarrow> bool" "nat \<Rightarrow> tree obj option"

fun to_wire :: "tree \<Rightarrow> tree obj wire" where
  "to_wire (Tree b s) = \<lparr>data_bit = b, slot = s\<rparr>"

definition of_wire :: "tree obj wire \<Rightarrow> tree" where
  "of_wire w = Tree (data_bit w) (slot w)"

lemma wire_iso [simp]: "to_wire (of_wire w) = w" "of_wire (to_wire x) = x"
  by (simp_all add: of_wire_def) (cases x, simp)

definition tree_encoding :: "tree messages" where
  "tree_encoding = \<lparr>rt_new = of_wire (rt_new encoding), rt_getData = (\<lambda>f t. rt_getData encoding f (to_wire t)),
     rt_setData = (\<lambda>f v t. of_wire (rt_setData encoding f v (to_wire t))),
     rt_isNull = (\<lambda>p t. rt_isNull encoding p (to_wire t)),
     rt_getPointer = (\<lambda>d p t. rt_getPointer encoding d p (to_wire t)),
     rt_setPointer = (\<lambda>p x t. of_wire (rt_setPointer encoding p x (to_wire t))),
     rt_disown = (\<lambda>p t. (fst (rt_disown encoding p (to_wire t)), of_wire (snd (rt_disown encoding p (to_wire t)))))\<rparr>"

lemmas encoded_laws = encoded_data.get_set encoded_data.get_other encoded_data.get_new encoded.null_new encoded.null_get
  encoded.pointer_set encoded.null_set encoded.pointer_data encoded.null_data encoded.data_pointer
  encoded.pointer_other encoded.disown_null encoded.null_other encoded.data_disown encoded.disown_other
  encoded.disown_null_other

interpretation tree: message_runtime tree_encoding
  by unfold_locales (simp_all add: tree_encoding_def encoded_laws, metis encoded.disown_object)

subsection \<open>Properties\<close>

text \<open>
  C13. Every request of the hook survives the wire, on any runtime with the documented behaviour:
  from the struct that the client fills the generated readers of the called method give back
  exactly the request, nested handle, name, dimensions and parameter bytes included. An
  acknowledgement's code reads back as its number, and where a server never set one, as \<open>OK\<close>.
\<close>

theorem requests_survive_the_wire:
  assumes "message_runtime rt"
  shows "read_request rt (method_of req) (build_request rt req) = Done req \<and>
    read_ack_code rt p (write_ack_code rt p c w) = Done (code_number c) \<and>
    read_ack_code rt p (rt_new rt) = Done (code_number OK)"
  using message_runtime.request_round_trip [OF assms] message_runtime.ack_round_trip [OF assms]
    message_runtime.ack_unset [OF assms]
  by simp

theorem requests_survive_the_wire_witness:
  "read_request tree_encoding M_planMemcpyHtoD (build_request tree_encoding (PlanHtoDRequest 4096 64)) =
     Done (PlanHtoDRequest 4096 64)"
  using requests_survive_the_wire [OF tree.message_runtime_axioms, of "PlanHtoDRequest 4096 64"] by simp

end
