(* ===== verification/RdmaTransport.thy ===== *)
theory RdmaTransport
  imports Prelude
begin

section \<open>RDMA transfers\<close>

text \<open>
  \<open>client/launcher/transport/rdma_transport.h\<close> and \<open>.cpp\<close>: opening a device, registering memory,
  one-sided writes and the cleanup. The verbs library is a parameter: \<open>verbs_env\<close> holds the answers
  of its calls (null or a handle, the polls of the completion queue in order). The transport's
  state carries the ledger of handles (\<open>log\<close>), the number of queue pairs attempted (\<open>tries\<close>, which
  also numbers their completion queues) and the work requests posted. A transfer whose polls are
  all empty never returns: its result is \<open>None\<close>.
\<close>

datatype rdma_handle = DevList | Dev nat | Pd nat | Mr u64 | SendCq nat | RecvCq nat | Qp

datatype transfer_type = STANDARD | GDR

record memory_region =
  lkey :: u32
  registered :: u64

record work_request =
  wr_addr :: u64
  wr_length :: u32
  wr_lkey :: u32
  wr_remote_addr :: u64
  wr_rkey :: u32

record verbs_env =
  device_list :: "nat option list option"
  alloc_pd :: "nat \<Rightarrow> nat option"
  reg_mr :: "u64 \<Rightarrow> u64 \<Rightarrow> u32 option"
  cq_ok :: "bool \<times> bool"
  qp_ok :: bool
  gdr_enabled :: "bool option"
  post_ok :: bool
  poll :: "nat \<Rightarrow> int \<times> bool"

record rdma =
  m_context :: "nat option"
  m_protectionDomain :: "nat option"
  m_memoryRegions :: "(u64 \<times> memory_region) list"
  log :: "rdma_handle entry list"
  tries :: nat
  posted :: "work_request list"

definition enter :: "rdma_handle entry list \<Rightarrow> rdma \<Rightarrow> rdma" where
  "enter es s = s\<lparr>log := log s @ es\<rparr>"

definition new_rdma :: rdma where
  "new_rdma = \<lparr>m_context = None, m_protectionDomain = None, m_memoryRegions = [], log = [], tries = 0, posted = []\<rparr>"

subsection \<open>Opening and registering\<close>

text \<open>The search for a device assigns the context in every turn and stops at the first that opens.\<close>

fun open_loop :: "nat option list \<Rightarrow> nat option \<Rightarrow> nat option" where
  "open_loop [] ctx = ctx"
| "open_loop (d # ds) ctx = (case d of Some c \<Rightarrow> Some c | None \<Rightarrow> open_loop ds None)"

definition CreateProtectionDomain :: "verbs_env \<Rightarrow> rdma \<Rightarrow> bool \<times> rdma" where
  "CreateProtectionDomain env s =
     (case m_context s of
        None \<Rightarrow> (False, s)
      | Some c \<Rightarrow>
          (case alloc_pd env c of
             None \<Rightarrow> (False, s\<lparr>m_protectionDomain := None\<rparr>)
           | Some p \<Rightarrow> (True, enter [Acq (Pd p)] (s\<lparr>m_protectionDomain := Some p\<rparr>))))"

definition Initialize :: "verbs_env \<Rightarrow> rdma \<Rightarrow> bool \<times> rdma" where
  "Initialize env s =
     (case device_list env of
        None \<Rightarrow> (False, s)
      | Some devs \<Rightarrow>
          (let ctx = open_loop devs (m_context s);
               opened = (if open_loop devs None \<noteq> None then [Acq (Dev (the ctx))] else []);
               s1 = enter ([Acq DevList] @ opened @ [Rel DevList]) (s\<lparr>m_context := ctx\<rparr>)
           in if ctx = None then (False, s1) else CreateProtectionDomain env s1))"

definition RegisterMemory :: "verbs_env \<Rightarrow> bool \<Rightarrow> u64 \<Rightarrow> u64 \<Rightarrow> rdma \<Rightarrow> (bool \<times> rdma) exec" where
  "RegisterMemory env held ptr len s =
     lock_guard held (\<lambda>_.
       if map_of (m_memoryRegions s) ptr \<noteq> None then Done (True, s)
       else if m_protectionDomain s = None then UB NullDeref
       else case reg_mr env ptr len of
              None \<Rightarrow> Done (False, s)
            | Some key \<Rightarrow>
                Done (True, enter [Acq (Mr ptr)]
                  (s\<lparr>m_memoryRegions := (ptr, \<lparr>lkey = key, registered = len\<rparr>) # m_memoryRegions s\<rparr>)))"

subsection \<open>A transfer\<close>

partial_function (option) poll_loop :: "(nat \<Rightarrow> int \<times> bool) \<Rightarrow> nat \<Rightarrow> nat option" where
  "poll_loop p n = (if fst (p n) = 0 then poll_loop p (Suc n) else Some n)"

definition EnableGdr :: "verbs_env \<Rightarrow> bool" where
  "EnableGdr env = (case gdr_enabled env of None \<Rightarrow> False | Some modified \<Rightarrow> modified)"

text \<open>From the queue pair on, with the region of the local buffer found.\<close>

definition post_and_wait :: "verbs_env \<Rightarrow> work_request \<Rightarrow> rdma \<Rightarrow> (bool \<times> rdma) exec option" where
  "post_and_wait env wr s =
     (if \<not> post_ok env then Some (Done (False, enter [Use Qp, Rel Qp] s))
      else let s1 = enter [Use Qp] (s\<lparr>posted := posted s @ [wr]\<rparr>) in
        case poll_loop (poll env) 0 of
          None \<Rightarrow> None
        | Some n \<Rightarrow>
            (if fst (poll env n) < 0 then Some (UB UninitRead)
             else Some (Done (snd (poll env n), enter [Rel Qp] s1))))"

definition transfer_found :: "verbs_env \<Rightarrow> u64 \<Rightarrow> u64 \<Rightarrow> u64 \<Rightarrow> u32 \<Rightarrow> transfer_type \<Rightarrow> memory_region \<Rightarrow> rdma \<Rightarrow>
    (bool \<times> rdma) exec option" where
  "transfer_found env localBuffer bufferSize remoteAddr remoteKey ty mr s =
     (let cqs = (if fst (cq_ok env) then [Acq (SendCq (tries s))] else []) @
                (if snd (cq_ok env) then [Acq (RecvCq (tries s))] else []);
          s1 = enter cqs (s\<lparr>tries := Suc (tries s)\<rparr>)
      in if \<not> qp_ok env then Some (Done (False, s1))
         else let s2 = enter [Acq Qp] s1 in
           if ty = GDR \<and> \<not> EnableGdr env then Some (Done (False, enter [Rel Qp] s2))
           else post_and_wait env \<lparr>wr_addr = localBuffer, wr_length = ucast bufferSize, wr_lkey = lkey mr,
                  wr_remote_addr = remoteAddr, wr_rkey = remoteKey\<rparr> s2)"

definition Transfer :: "verbs_env \<Rightarrow> bool \<Rightarrow> u64 \<Rightarrow> u64 \<Rightarrow> u64 \<Rightarrow> u32 \<Rightarrow> transfer_type \<Rightarrow> rdma \<Rightarrow>
    (bool \<times> rdma) exec option" where
  "Transfer env held localBuffer bufferSize remoteAddr remoteKey ty s =
     (if held then Some (UB RelockMutex)
      else case map_of (m_memoryRegions s) localBuffer of
        Some mr \<Rightarrow> transfer_found env localBuffer bufferSize remoteAddr remoteKey ty mr s
      | None \<Rightarrow>
          (case RegisterMemory env True localBuffer bufferSize s of
             Done (False, s1) \<Rightarrow> Some (Done (False, s1))
           | Done (True, s1) \<Rightarrow>
               (case map_of (m_memoryRegions s1) localBuffer of
                  Some mr \<Rightarrow> transfer_found env localBuffer bufferSize remoteAddr remoteKey ty mr s1
                | None \<Rightarrow> Some (UB NullDeref))
           | Throws e \<Rightarrow> Some (Throws e)
           | UB u \<Rightarrow> Some (UB u)))"

subsection \<open>Cleanup\<close>

definition Cleanup :: "rdma \<Rightarrow> rdma" where
  "Cleanup s =
     (let s1 = enter (map (\<lambda>(p, mr). Rel (Mr p)) (m_memoryRegions s)) s;
          s2 = s1\<lparr>m_memoryRegions := []\<rparr>;
          s3 = (case m_protectionDomain s2 of None \<Rightarrow> s2
                | Some p \<Rightarrow> enter [Rel (Pd p)] (s2\<lparr>m_protectionDomain := None\<rparr>))
      in case m_context s3 of None \<Rightarrow> s3 | Some c \<Rightarrow> enter [Rel (Dev c)] (s3\<lparr>m_context := None\<rparr>))"

subsection \<open>The poll loop\<close>

lemma poll_loop_finds:
  "\<forall>k<n. fst (p (m + k)) = 0 \<Longrightarrow> fst (p (m + n)) \<noteq> 0 \<Longrightarrow> poll_loop p m = Some (m + n)"
proof (induction n arbitrary: m)
  case 0
  then show ?case by (simp add: poll_loop.simps [of p m])
next
  case (Suc n)
  have "\<forall>k<n. fst (p (Suc m + k)) = 0" using Suc.prems(1) by (auto dest: spec [of _ "Suc k" for k])
  moreover have "fst (p (Suc m + n)) \<noteq> 0" using Suc.prems(2) by simp
  ultimately have "poll_loop p (Suc m) = Some (Suc m + n)" by (rule Suc.IH)
  moreover have "fst (p m) = 0" using Suc.prems(1) by (auto dest: spec [of _ 0])
  ultimately show ?case by (simp add: poll_loop.simps [of p m])
qed

lemma poll_loop_result: "poll_loop p m = Some n \<Longrightarrow> fst (p n) \<noteq> 0"
  by (rule poll_loop.raw_induct [where P = "\<lambda>p m n. fst (p n) \<noteq> 0", rotated]) (auto split: if_splits)

lemma poll_loop_None_iff: "poll_loop p 0 = None \<longleftrightarrow> (\<forall>n. fst (p n) = 0)"
proof
  assume none: "poll_loop p 0 = None"
  show "\<forall>n. fst (p n) = 0"
  proof (rule ccontr)
    assume "\<not> (\<forall>n. fst (p n) = 0)"
    then obtain n where "fst (p n) \<noteq> 0" "\<forall>k<n. fst (p k) = 0"
      using exists_least_iff [of "\<lambda>n. fst (p n) \<noteq> 0"] by auto
    then have "poll_loop p 0 = Some n" using poll_loop_finds [of n p 0] by simp
    then show False using none by simp
  qed
next
  assume "\<forall>n. fst (p n) = 0"
  then show "poll_loop p 0 = None" using poll_loop_result [of p 0] by (cases "poll_loop p 0") auto
qed

subsection \<open>Who holds what\<close>

definition is_cq :: "rdma_handle \<Rightarrow> bool" where
  "is_cq h \<longleftrightarrow> (case h of SendCq _ \<Rightarrow> True | RecvCq _ \<Rightarrow> True | _ \<Rightarrow> False)"

definition held :: "rdma \<Rightarrow> rdma_handle set" where
  "held s = Dev ` set_option (m_context s) \<union> Pd ` set_option (m_protectionDomain s) \<union>
     Mr ` fst ` set (m_memoryRegions s) \<union> {h. is_cq h \<and> Acq h \<in> set (log s)}"

definition rdma_inv :: "rdma \<Rightarrow> bool" where
  "rdma_inv s \<longleftrightarrow> holds (log s) (held s) \<and> distinct (map fst (m_memoryRegions s)) \<and>
     (\<forall>i. Acq (SendCq i) \<in> set (log s) \<or> Acq (RecvCq i) \<in> set (log s) \<longrightarrow> i < tries s)"

lemma is_cq_simps [simp]:
  "is_cq (SendCq i)" "is_cq (RecvCq i)" "\<not> is_cq Qp" "\<not> is_cq (Mr p)" "\<not> is_cq (Pd n)" "\<not> is_cq (Dev n)"
  "\<not> is_cq DevList"
  by (simp_all add: is_cq_def)

lemma enter_simps [simp]:
  "m_context (enter es s) = m_context s" "m_protectionDomain (enter es s) = m_protectionDomain s"
  "m_memoryRegions (enter es s) = m_memoryRegions s" "tries (enter es s) = tries s"
  "posted (enter es s) = posted s" "log (enter es s) = log s @ es"
  by (simp_all add: enter_def)

lemma Initialize_inv:
  assumes "Initialize env new_rdma = (True, s)"
  shows "rdma_inv s \<and> m_protectionDomain s \<noteq> None"
proof -
  obtain devs c p where devs: "device_list env = Some devs" and c: "open_loop devs None = Some c"
    and p: "alloc_pd env c = Some p"
    and s: "log s = [Acq DevList, Acq (Dev c), Rel DevList, Acq (Pd p)]" "m_context s = Some c"
      "m_protectionDomain s = Some p" "m_memoryRegions s = []" "tries s = 0"
    using assms
    by (auto simp: Initialize_def CreateProtectionDomain_def new_rdma_def Let_def split: option.splits if_splits)
  have "holds (log s) {Dev c, Pd p}"
    by (simp add: s holds_def insert_commute)
  moreover have "held s = {Dev c, Pd p}" by (auto simp: held_def s)
  ultimately show ?thesis by (simp add: rdma_inv_def s)
qed

lemma RegisterMemory_inv:
  assumes "RegisterMemory env False ptr len s = Done (ok, s')" "rdma_inv s"
  shows "rdma_inv s'"
proof (cases "s' = s")
  case False
  then obtain key where new: "map_of (m_memoryRegions s) ptr = None"
    and s': "s' = enter [Acq (Mr ptr)]
      (s\<lparr>m_memoryRegions := (ptr, \<lparr>lkey = key, registered = len\<rparr>) # m_memoryRegions s\<rparr>)"
    using assms(1) by (auto simp: RegisterMemory_def split: if_splits option.splits)
  have fresh: "Mr ptr \<notin> held s" using new by (auto simp: held_def map_of_eq_None_iff)
  have "held s' = insert (Mr ptr) (held s)" by (auto simp: held_def s')
  then show ?thesis using assms(2) fresh new
    by (auto simp: rdma_inv_def s' holds_Acq map_of_eq_None_iff)
qed (use assms(2) in simp)

text \<open>The completion queues a transfer creates are new; the queue pair is gone when it returns.\<close>

definition new_cqs :: "verbs_env \<Rightarrow> rdma \<Rightarrow> rdma_handle entry list" where
  "new_cqs env s = (if fst (cq_ok env) then [Acq (SendCq (tries s))] else []) @
                   (if snd (cq_ok env) then [Acq (RecvCq (tries s))] else [])"

lemma new_cqs_inv:
  assumes "rdma_inv s"
  shows "rdma_inv (enter (new_cqs env s) (s\<lparr>tries := Suc (tries s)\<rparr>))"
proof -
  have fresh: "SendCq (tries s) \<notin> held s" "RecvCq (tries s) \<notin> held s"
    using assms by (auto simp: rdma_inv_def held_def)
  have pair: "A \<union> {h. h = b \<or> h = c} = insert c (insert b A)" for A and b c :: rdma_handle by auto
  have "holds (log s @ new_cqs env s) (held s \<union> {h. Acq h \<in> set (new_cqs env s)})"
    using assms fresh holds_Acq [of "log s" "held s" "SendCq (tries s)"]
      holds_Acq [of "log s @ [Acq (SendCq (tries s))]" "insert (SendCq (tries s)) (held s)" "RecvCq (tries s)"]
      holds_Acq [of "log s" "held s" "RecvCq (tries s)"]
    by (cases "cq_ok env") (auto simp: new_cqs_def rdma_inv_def pair)
  moreover have "held (enter (new_cqs env s) (s\<lparr>tries := Suc (tries s)\<rparr>)) = held s \<union> {h. Acq h \<in> set (new_cqs env s)}"
    by (auto simp: held_def new_cqs_def split: if_splits)
  ultimately show ?thesis using assms
    by (auto simp: rdma_inv_def new_cqs_def less_Suc_eq split: if_splits)
qed

lemma qp_round_inv:
  assumes "rdma_inv s" "es = [Acq Qp, Rel Qp] \<or> es = [Acq Qp, Use Qp, Rel Qp]"
  shows "rdma_inv (enter es s)"
proof -
  have "Qp \<notin> held s" by (auto simp: held_def)
  then have "holds (log s @ es) (held s)"
    using assms holds_Rel [OF holds_Acq [of "log s" "held s" Qp], of Qp]
      holds_Rel [OF holds_Use [OF holds_Acq [of "log s" "held s" Qp], of Qp], of Qp]
    by (auto simp: rdma_inv_def)
  moreover have "held (enter es s) = held s" using assms(2) by (auto simp: held_def)
  ultimately show ?thesis using assms by (auto simp: rdma_inv_def)
qed

lemma enter_enter [simp]: "enter fs (enter es s) = enter (es @ fs) s"
  by (simp add: enter_def)

lemma enter_posted: "rdma_inv (s\<lparr>posted := ws\<rparr>) \<longleftrightarrow> rdma_inv s"
  by (simp add: rdma_inv_def held_def)

lemma transfer_found_inv:
  assumes "transfer_found env buf len ra rk ty mr s = Some (Done (ok, s'))" "rdma_inv s"
  shows "rdma_inv s'"
proof -
  let ?s1 = "enter (new_cqs env s) (s\<lparr>tries := Suc (tries s)\<rparr>)"
  have s1: "rdma_inv ?s1" by (rule new_cqs_inv [OF assms(2)])
  have post: "rdma_inv u'" if "post_and_wait env wr (enter [Acq Qp] u) = Some (Done (ok, u'))" "rdma_inv u" for wr u u'
  proof (cases "post_ok env")
    case True
    then have "u' = enter [Acq Qp, Use Qp, Rel Qp] (u\<lparr>posted := posted u @ [wr]\<rparr>)"
      using that(1) by (auto simp: post_and_wait_def Let_def enter_def split: option.splits if_splits)
    then show ?thesis using that(2) by (simp add: qp_round_inv enter_posted)
  next
    case False
    then have "u' = enter [Acq Qp, Use Qp, Rel Qp] u" using that(1) by (simp add: post_and_wait_def)
    then show ?thesis using that(2) by (simp add: qp_round_inv)
  qed
  show ?thesis
    using assms(1) s1 post [OF _ s1] qp_round_inv [OF s1, of "[Acq Qp, Rel Qp]"]
    unfolding transfer_found_def Let_def new_cqs_def [symmetric]
    by (auto split: if_splits)
qed

lemma Transfer_registered:
  "map_of (m_memoryRegions s) buf = Some mr \<Longrightarrow>
     Transfer env False buf len ra rk ty s = transfer_found env buf len ra rk ty mr s"
  by (simp add: Transfer_def)

lemma Transfer_unregistered:
  "map_of (m_memoryRegions s) buf = None \<Longrightarrow> Transfer env False buf len ra rk ty s = Some (UB RelockMutex)"
  by (simp add: Transfer_def RegisterMemory_def)

text \<open>A transport in use: opened once, then registrations and transfers that return.\<close>

inductive rdma_reachable :: "rdma \<Rightarrow> bool" where
  opened: "Initialize env new_rdma = (True, s) \<Longrightarrow> rdma_reachable s"
| register: "rdma_reachable s \<Longrightarrow> RegisterMemory env False ptr len s = Done (ok, s') \<Longrightarrow> rdma_reachable s'"
| transfer: "rdma_reachable s \<Longrightarrow> Transfer env False buf len ra rk ty s = Some (Done (ok, s')) \<Longrightarrow> rdma_reachable s'"

lemma rdma_reachable_inv: "rdma_reachable s \<Longrightarrow> rdma_inv s"
proof (induction rule: rdma_reachable.induct)
  case (opened env s)
  then show ?case using Initialize_inv by blast
next
  case (register s env ptr len ok s')
  then show ?case using RegisterMemory_inv by blast
next
  case (transfer s env buf len ra rk ty ok s')
  then show ?case
    by (cases "map_of (m_memoryRegions s) buf")
      (auto simp: Transfer_registered Transfer_unregistered intro: transfer_found_inv)
qed

subsection \<open>What the cleanup leaves\<close>

definition option_list :: "'a option \<Rightarrow> 'a list" where
  "option_list x = (case x of None \<Rightarrow> [] | Some a \<Rightarrow> [a])"

lemma Cleanup_log: "log (Cleanup s) = log s @ map Rel (map (Mr \<circ> fst) (m_memoryRegions s) @
    map Pd (option_list (m_protectionDomain s)) @ map Dev (option_list (m_context s)))"
  by (cases "m_protectionDomain s"; cases "m_context s")
    (auto simp: Cleanup_def Let_def option_list_def)

lemma Cleanup_state: "m_context (Cleanup s) = None" "m_protectionDomain (Cleanup s) = None"
  "m_memoryRegions (Cleanup s) = []"
  by (cases "m_protectionDomain s"; cases "m_context s"; simp add: Cleanup_def Let_def)+

lemma Cleanup_holds:
  assumes "rdma_inv s"
  shows "holds (log (Cleanup s)) {h. is_cq h \<and> Acq h \<in> set (log s)}"
proof -
  let ?hs = "map (Mr \<circ> fst) (m_memoryRegions s) @ map Pd (option_list (m_protectionDomain s)) @
    map Dev (option_list (m_context s))"
  have "distinct (map (Mr \<circ> fst) (m_memoryRegions s))"
    using assms by (auto simp: rdma_inv_def distinct_map inj_on_def)
  then have "distinct ?hs" by (auto simp: option_list_def split: option.splits)
  moreover have "set ?hs \<subseteq> held s" by (auto simp: held_def option_list_def split: option.splits)
  ultimately have "holds (log s @ map Rel ?hs) (held s - set ?hs)"
    using assms by (intro holds_Rel_all) (simp_all add: rdma_inv_def)
  moreover have "held s - set ?hs = {h. is_cq h \<and> Acq h \<in> set (log s)}"
    by (auto simp: held_def option_list_def split: option.splits)
  ultimately show ?thesis by (simp only: Cleanup_log)
qed

subsection \<open>Outcomes of a transfer\<close>

lemma post_and_wait_None: "post_and_wait env wr s = None \<longleftrightarrow> post_ok env \<and> (\<forall>n. fst (poll env n) = 0)"
  by (auto simp: post_and_wait_def Let_def poll_loop_None_iff [symmetric] split: option.splits)

lemma transfer_found_None: "transfer_found env buf len ra rk ty mr s = None \<longleftrightarrow>
    qp_ok env \<and> (ty = GDR \<longrightarrow> EnableGdr env) \<and> post_ok env \<and> (\<forall>n. fst (poll env n) = 0)"
  by (auto simp: transfer_found_def Let_def post_and_wait_None)

lemma transfer_found_posts:
  assumes "transfer_found env buf len ra rk ty mr s = Some (Done (True, s'))"
  shows "posted s' = posted s @ [\<lparr>wr_addr = buf, wr_length = ucast len, wr_lkey = lkey mr,
                                 wr_remote_addr = ra, wr_rkey = rk\<rparr>]"
  using assms by (auto simp: transfer_found_def post_and_wait_def Let_def split: if_splits option.splits)

definition sample_verbs :: verbs_env where
  "sample_verbs = \<lparr>device_list = Some [None, Some 3], alloc_pd = (\<lambda>_. Some 5), reg_mr = (\<lambda>_ _. Some 9),
     cq_ok = (True, True), qp_ok = True, gdr_enabled = None, post_ok = True,
     poll = (\<lambda>n. if n < 2 then (0, False) else (1, True))\<rparr>"

definition sample_rdma :: rdma where
  "sample_rdma = \<lparr>m_context = Some 3, m_protectionDomain = Some 5,
     m_memoryRegions = [(4096, \<lparr>lkey = 9, registered = 64\<rparr>)],
     log = [Acq DevList, Acq (Dev 3), Rel DevList, Acq (Pd 5), Acq (Mr 4096)], tries = 0, posted = []\<rparr>"

lemma sample_rdma_reachable: "rdma_reachable sample_rdma"
proof -
  let ?s = "\<lparr>m_context = Some 3, m_protectionDomain = Some 5, m_memoryRegions = [],
     log = [Acq DevList, Acq (Dev 3), Rel DevList, Acq (Pd 5)], tries = 0, posted = []\<rparr>"
  have "Initialize sample_verbs new_rdma = (True, ?s)"
    by (simp add: Initialize_def CreateProtectionDomain_def sample_verbs_def new_rdma_def enter_def Let_def)
  then have "rdma_reachable ?s" by (rule rdma_reachable.opened)
  moreover have "RegisterMemory sample_verbs False 4096 64 ?s = Done (True, sample_rdma)"
    by (simp add: RegisterMemory_def sample_verbs_def sample_rdma_def enter_def)
  ultimately show ?thesis by (rule rdma_reachable.register)
qed

lemma sample_poll: "poll_loop (poll sample_verbs) 0 = Some 2"
  using poll_loop_finds [of 2 "poll sample_verbs" 0] by (simp add: sample_verbs_def)

lemma sample_verbs_simps: "qp_ok sample_verbs" "post_ok sample_verbs" "cq_ok sample_verbs = (True, True)"
  "poll sample_verbs 2 = (1, True)"
  by (simp_all add: sample_verbs_def)

lemma sample_region: "map_of (m_memoryRegions sample_rdma) 4096 = Some \<lparr>lkey = 9, registered = 64\<rparr>"
  "tries sample_rdma = 0"
  by (simp_all add: sample_rdma_def)

subsection \<open>Properties\<close>

text \<open>
  C25. Resources: whatever registrations and transfers a transport went through, no handle was used
  after its release or released twice, and after \<open>Cleanup\<close> the handles still live are exactly the
  completion queues the transfers created: regions, protection domain and device are given back,
  no completion queue ever is.
\<close>

theorem cleanup_leaves_exactly_the_completion_queues:
  assumes "rdma_reachable s"
  shows "holds (log (Cleanup s)) {h. is_cq h \<and> Acq h \<in> set (log s)} \<and>
    m_context (Cleanup s) = None \<and> m_protectionDomain (Cleanup s) = None \<and> m_memoryRegions (Cleanup s) = []"
  using Cleanup_holds [OF rdma_reachable_inv [OF assms]] by (simp add: Cleanup_state)

theorem cleanup_leaves_exactly_the_completion_queues_witness:
  "\<exists>s. Transfer sample_verbs False 4096 64 1 2 STANDARD sample_rdma = Some (Done (True, s)) \<and>
     holds (log (Cleanup s)) {SendCq 0, RecvCq 0}"
proof -
  obtain s where s: "Transfer sample_verbs False 4096 64 1 2 STANDARD sample_rdma = Some (Done (True, s))"
    "log s = log sample_rdma @ [Acq (SendCq 0), Acq (RecvCq 0), Acq Qp, Use Qp, Rel Qp]"
    by (simp add: Transfer_def sample_region transfer_found_def post_and_wait_def Let_def sample_verbs_simps
      sample_poll)
  have "rdma_reachable s" by (rule rdma_reachable.transfer [OF sample_rdma_reachable s(1)])
  moreover have "{h. is_cq h \<and> Acq h \<in> set (log s)} = {SendCq 0, RecvCq 0}"
    by (auto simp: s(2) sample_rdma_def)
  ultimately show ?thesis using cleanup_leaves_exactly_the_completion_queues [of s] s(1) by auto
qed

text \<open>
  C29. A transfer from a buffer that was not registered beforehand never returns: it calls
  \<open>RegisterMemory\<close> with the transport's mutex held, which locks it again. A transfer from a
  registered buffer fails to return exactly when its request was posted and every poll of the
  completion queue comes back empty; one that returns true has posted exactly one request, with
  the region's key and the caller's addresses, for the size modulo \<open>2^32\<close>: of four gigabytes or
  more only the remainder is sent.
\<close>

theorem transfer_outcome:
  "(map_of (m_memoryRegions s) buf = None \<longrightarrow> Transfer env False buf len ra rk ty s = Some (UB RelockMutex)) \<and>
   (\<forall>mr. map_of (m_memoryRegions s) buf = Some mr \<longrightarrow>
     (Transfer env False buf len ra rk ty s = None \<longleftrightarrow>
       qp_ok env \<and> (ty = GDR \<longrightarrow> EnableGdr env) \<and> post_ok env \<and> (\<forall>n. fst (poll env n) = 0)) \<and>
     (\<forall>s'. Transfer env False buf len ra rk ty s = Some (Done (True, s')) \<longrightarrow>
       (\<exists>wr. posted s' = posted s @ [wr] \<and> wr_addr wr = buf \<and> unat (wr_length wr) = unat len mod 2 ^ 32 \<and>
             wr_lkey wr = lkey mr \<and> wr_remote_addr wr = ra \<and> wr_rkey wr = rk)))"
  by (auto simp: Transfer_unregistered Transfer_registered transfer_found_None unsigned_ucast_eq take_bit_eq_mod
      dest: transfer_found_posts)

theorem transfer_outcome_witness:
  "Transfer (sample_verbs\<lparr>poll := \<lambda>_. (0, False)\<rparr>) False 4096 64 1 2 STANDARD sample_rdma = None \<and>
   Transfer sample_verbs False 8 16 0 0 STANDARD sample_rdma = Some (UB RelockMutex)"
  using transfer_outcome [of sample_rdma 4096 "sample_verbs\<lparr>poll := \<lambda>_. (0, False)\<rparr>" 64 1 2 STANDARD]
    transfer_outcome [of sample_rdma 8 sample_verbs 16 0 0 STANDARD]
  by (simp add: sample_rdma_def sample_verbs_def)

end
