(* ===== verification/Plank.thy ===== *)
theory Plank
  imports Prelude
begin

section \<open>The springboard transport\<close>

text \<open>
  \<open>client/launcher/transport/plank/plank_transport.h\<close> and \<open>.cpp\<close>: GPU buffers that travel through
  page-locked host memory, and plain data handed to the datagram transport. The CUDA runtime and
  the transports' \<open>send\<close> and \<open>receive\<close>, which no file of the repository declares, are parameters:
  \<open>plank_env\<close> says what the host allocation gives, what a device-to-host copy reads, and whether
  a message is taken. The host allocation is tracked by a ledger.
\<close>

record plank_env =
  host_alloc :: "u64 \<Rightarrow> nat option"
  copy_dtoh :: "u64 \<Rightarrow> u64 \<Rightarrow> u8 list option"
  rdma_send :: "i32 \<Rightarrow> u8 list \<Rightarrow> bool"
  zmq_send :: "i32 \<Rightarrow> u8 list \<Rightarrow> bool"
  zmq_receive :: "i32 \<Rightarrow> u64 \<Rightarrow> u8 list option"

text \<open>What a call did: its result, the ledger of host memory, and the messages taken by RDMA.\<close>

record plank_run =
  returned :: bool
  host_log :: "nat entry list"
  messages :: "(i32 \<times> u8 list) list"

definition transferGpuBuffer :: "plank_env \<Rightarrow> u64 \<Rightarrow> u64 \<Rightarrow> u64 \<Rightarrow> i32 \<Rightarrow> i32 \<Rightarrow> plank_run" where
  "transferGpuBuffer env src_gpu_handle dst_gpu_handle len src_node dst_node =
     (case host_alloc env len of
        None \<Rightarrow> \<lparr>returned = False, host_log = [], messages = []\<rparr>
      | Some host_ptr \<Rightarrow>
          (case copy_dtoh env src_gpu_handle len of
             None \<Rightarrow> \<lparr>returned = False, host_log = [Acq host_ptr, Use host_ptr, Rel host_ptr], messages = []\<rparr>
           | Some bytes \<Rightarrow>
               (if \<not> rdma_send env dst_node bytes
                then \<lparr>returned = False,
                      host_log = [Acq host_ptr, Use host_ptr, Use host_ptr, Rel host_ptr], messages = []\<rparr>
                else \<lparr>returned = True,
                      host_log = [Acq host_ptr, Use host_ptr, Use host_ptr, Rel host_ptr],
                      messages = [(dst_node, bytes)]\<rparr>)))"

definition sendData :: "plank_env \<Rightarrow> u64 \<Rightarrow> u64 \<Rightarrow> u8 list \<Rightarrow> i32 \<Rightarrow> i32 \<Rightarrow> bool" where
  "sendData env src_handle dst_handle bytes src_node dst_node = zmq_send env dst_node bytes"

definition receiveData :: "plank_env \<Rightarrow> u64 \<Rightarrow> u64 \<Rightarrow> u64 \<Rightarrow> i32 \<Rightarrow> i32 \<Rightarrow> u8 list option" where
  "receiveData env src_handle dst_handle len src_node dst_node = zmq_receive env src_node len"

lemmas plank_split = option.splits if_splits

text \<open>
  A GPU buffer transfer gives the host memory back on every path, returns true exactly when
  the allocation, the copy and the RDMA message succeed, and then has sent the source buffer's
  bytes to the destination node, once; the destination buffer's handle has no influence at all:
  nothing is ever copied into it.
\<close>

theorem gpu_transfer_stops_at_the_node:
  "balanced (host_log (transferGpuBuffer env src dst len src_node dst_node)) \<and>
   (returned (transferGpuBuffer env src dst len src_node dst_node) \<longleftrightarrow>
      (\<exists>h bytes. host_alloc env len = Some h \<and> copy_dtoh env src len = Some bytes \<and> rdma_send env dst_node bytes \<and>
        messages (transferGpuBuffer env src dst len src_node dst_node) = [(dst_node, bytes)])) \<and>
   transferGpuBuffer env src dst len src_node dst_node = transferGpuBuffer env src dst' len src_node dst_node"
  by (auto simp: transferGpuBuffer_def balanced_def split: plank_split)

end
