(* ===== verification/Schema.thy ===== *)
theory Schema
  imports Wire "HOL-Library.Monad_Syntax" "HOL-Library.List_Lexorder"
begin

section \<open>Embedded schemas\<close>

text \<open>
  \<open>proto/proto/*.capnp.c++\<close>: for every struct, enum and interface a table \<open>b_<id>\<close> with the encoded
  schema node, and a \<open>RawSchema\<close> \<open>s_<id>\<close> with the node, the schemas it depends on and two orders of
  its members. The runtime relies on them when it looks members up by name or checks a dynamic
  use; what they must satisfy is stated here (\<open>schema_ok\<close>), together with a reader of the encoding
  and of the layout of a schema node as their documentation gives them. The theories
  \<open>SchemaCommon\<close> to \<open>SchemaCuda\<close> hold the tables. A word of a table is written with its eight bytes,
  in the order of the source. The reader answers \<open>None\<close> where a table is not what it expects.
\<close>

datatype octaword = W nat nat nat nat nat nat nat nat

fun half0 :: "octaword \<Rightarrow> nat" where "half0 (W a b c d e f g h) = a + 256 * b"
fun half1 :: "octaword \<Rightarrow> nat" where "half1 (W a b c d e f g h) = c + 256 * d"
fun half2 :: "octaword \<Rightarrow> nat" where "half2 (W a b c d e f g h) = e + 256 * f"
fun half3 :: "octaword \<Rightarrow> nat" where "half3 (W a b c d e f g h) = g + 256 * h"
fun third_byte :: "octaword \<Rightarrow> nat" where "third_byte (W a b c d e f g h) = c"
fun octets :: "octaword \<Rightarrow> nat list" where "octets (W a b c d e f g h) = [a, b, c, d, e, f, g, h]"

definition low32 :: "octaword \<Rightarrow> nat" where "low32 w = half0 w + 65536 * half1 w"
definition high32 :: "octaword \<Rightarrow> nat" where "high32 w = half2 w + 65536 * half3 w"
definition word64 :: "octaword \<Rightarrow> nat" where "word64 w = low32 w + 4294967296 * high32 w"

type_synonym table = "octaword list"

subsection \<open>Pointers\<close>

fun word_at :: "table \<Rightarrow> nat \<Rightarrow> octaword option" where
  "word_at [] n = None"
| "word_at (w # ws) n = (if n = 0 then Some w else word_at ws (n - 1))"

definition null_word :: "octaword \<Rightarrow> bool" where
  "null_word w \<longleftrightarrow> low32 w = 0 \<and> high32 w = 0"

text \<open>The word a pointer at \<open>p\<close> refers to; an offset with its sign bit set is not used by the tables.\<close>

definition goto :: "nat \<Rightarrow> octaword \<Rightarrow> nat option" where
  "goto p w = (if low32 w < 2147483648 then Some (p + 1 + low32 w div 4) else None)"

text \<open>A struct pointer: its target and the sizes of the two sections.\<close>

definition struct_at :: "table \<Rightarrow> nat \<Rightarrow> (nat \<times> nat \<times> nat) option" where
  "struct_at t p = do {
     w \<leftarrow> word_at t p;
     if low32 w mod 4 = 0 \<and> \<not> null_word w then do { q \<leftarrow> goto p w; Some (q, half2 w, half3 w) } else None }"

text \<open>A list of structs: its length, the first element and the sizes of an element's sections.\<close>

definition list_at :: "table \<Rightarrow> nat \<Rightarrow> (nat \<times> nat \<times> nat \<times> nat) option" where
  "list_at t p = do {
     w \<leftarrow> word_at t p;
     if null_word w then Some (0, 0, 0, 0)
     else if low32 w mod 4 = 1 \<and> high32 w mod 8 = 7
     then do { q \<leftarrow> goto p w; tag \<leftarrow> word_at t q; Some (low32 tag div 4, q + 1, half2 tag, half3 tag) }
     else None }"

fun read_octets :: "table \<Rightarrow> nat \<Rightarrow> nat \<Rightarrow> nat list option" where
  "read_octets t p k =
     (if k = 0 then Some []
      else do { w \<leftarrow> word_at t p; bs \<leftarrow> read_octets t (p + 1) (k - 1); Some (octets w @ bs) })"

declare read_octets.simps [simp del]

definition text_at :: "table \<Rightarrow> nat \<Rightarrow> nat list option" where
  "text_at t p = do {
     w \<leftarrow> word_at t p;
     if low32 w mod 4 = 1 \<and> high32 w mod 8 = 2
     then do { q \<leftarrow> goto p w; bs \<leftarrow> read_octets t q ((high32 w div 8 + 7) div 8); Some (take (high32 w div 8 - 1) bs) }
     else None }"

subsection \<open>Schema nodes\<close>

text \<open>A type by its tag; a named one with the id of its schema; a list with the type of its elements.\<close>

datatype schema_type = Plain nat | Named nat nat | ListOf schema_type

fun type_tag :: "schema_type \<Rightarrow> nat" where
  "type_tag (Plain t) = t"
| "type_tag (Named t _) = t"
| "type_tag (ListOf _) = 14"

fun type_refs :: "schema_type \<Rightarrow> nat list" where
  "type_refs (Plain _) = []"
| "type_refs (Named _ i) = [i]"
| "type_refs (ListOf t) = type_refs t"

lemma word_at_bound: "word_at t p = Some w \<Longrightarrow> p < length t"
  by (induction t p rule: word_at.induct) (auto split: if_splits)

lemma struct_at_bound: "struct_at t p = Some (q, d, r) \<Longrightarrow> p < length t \<and> p < q"
  using word_at_bound [of t p]
  by (auto simp: struct_at_def goto_def bind_eq_Some_conv split: if_splits)

function type_at :: "table \<Rightarrow> nat \<Rightarrow> schema_type option" where
  "type_at t p = do {
     r \<leftarrow> struct_at t p;
     w0 \<leftarrow> word_at t (fst r);
     w1 \<leftarrow> word_at t (fst r + 1);
     if half0 w0 = 14 then do { e \<leftarrow> type_at t (fst r + fst (snd r)); Some (ListOf e) }
     else if 15 \<le> half0 w0 \<and> half0 w0 \<le> 17 then Some (Named (half0 w0) (word64 w1))
     else Some (Plain (half0 w0)) }"
  by pat_completeness auto
termination
  by (relation "measure (\<lambda>(t, p). length t - p)") (auto dest: struct_at_bound)

declare type_at.simps [simp del]

record schema_field =
  sf_name :: "nat list"
  sf_discriminant :: nat
  sf_offset :: nat
  sf_type :: schema_type
  sf_default_tag :: nat
  sf_default :: nat

definition sfield :: "nat list \<Rightarrow> nat \<Rightarrow> nat \<Rightarrow> schema_type \<Rightarrow> nat \<Rightarrow> nat \<Rightarrow> schema_field" where
  "sfield name discriminant offset ty default_tag stored =
     \<lparr>sf_name = name, sf_discriminant = discriminant, sf_offset = offset, sf_type = ty,
      sf_default_tag = default_tag, sf_default = stored\<rparr>"

text \<open>The stored default, by the tag of the type; a pointer's default is not looked into.\<close>

definition default_of :: "nat \<Rightarrow> octaword \<Rightarrow> octaword \<Rightarrow> nat" where
  "default_of ty v0 v1 =
     (if ty = 1 then third_byte v0 mod 2
      else if ty = 2 \<or> ty = 6 then third_byte v0
      else if ty = 3 \<or> ty = 7 \<or> ty = 15 then half1 v0
      else if ty = 4 \<or> ty = 8 \<or> ty = 10 then high32 v0
      else if ty = 5 \<or> ty = 9 \<or> ty = 11 then word64 v1
      else 0)"

text \<open>A field that is a group has no slot and is not expected; a stored discriminant is inverted.\<close>

definition field_at :: "table \<Rightarrow> nat \<Rightarrow> nat \<Rightarrow> schema_field option" where
  "field_at t p d = do {
     w0 \<leftarrow> word_at t p;
     w1 \<leftarrow> word_at t (p + 1);
     name \<leftarrow> text_at t (p + d);
     if half0 w1 \<noteq> 0 then None
     else do {
       ty \<leftarrow> type_at t (p + d + 2);
       v \<leftarrow> struct_at t (p + d + 3);
       v0 \<leftarrow> word_at t (fst v);
       v1 \<leftarrow> word_at t (fst v + 1);
       Some \<lparr>sf_name = name, sf_discriminant = 65535 - half1 w0, sf_offset = high32 w0, sf_type = ty,
             sf_default_tag = half0 v0, sf_default = default_of (type_tag ty) v0 v1\<rparr> } }"

fun members_at :: "(nat \<Rightarrow> 'a option) \<Rightarrow> nat \<Rightarrow> nat \<Rightarrow> nat \<Rightarrow> 'a list option" where
  "members_at get p stride n =
     (if n = 0 then Some []
      else do { m \<leftarrow> get p; ms \<leftarrow> members_at get (p + stride) stride (n - 1); Some (m # ms) })"

declare members_at.simps [simp del]

text \<open>A method: its name and the ids of the schemas of its parameters and results.\<close>

definition method_at :: "table \<Rightarrow> nat \<Rightarrow> nat \<Rightarrow> (nat list \<times> nat \<times> nat) option" where
  "method_at t p d = do {
     name \<leftarrow> text_at t (p + d);
     w1 \<leftarrow> word_at t (p + 1);
     w2 \<leftarrow> word_at t (p + 2);
     Some (name, word64 w1, word64 w2) }"

datatype schema_body =
    StructBody nat nat "nat option" "schema_field list"
  | EnumBody "nat list list"
  | InterfaceBody "(nat list \<times> nat \<times> nat) list"

text \<open>A node: its id and its body. The discriminant's offset is there when there are union members.\<close>

definition read_node :: "table \<Rightarrow> (nat \<times> schema_body) option" where
  "read_node t = do {
     r \<leftarrow> struct_at t 0;
     w0 \<leftarrow> word_at t (fst r);
     w1 \<leftarrow> word_at t (fst r + 1);
     w3 \<leftarrow> word_at t (fst r + 3);
     w4 \<leftarrow> word_at t (fst r + 4);
     l \<leftarrow> list_at t (fst r + fst (snd r) + 3);
     if half2 w1 = 1 then do {
       fs \<leftarrow> members_at (\<lambda>p. field_at t p (fst (snd (snd l)))) (fst (snd l))
              (fst (snd (snd l)) + snd (snd (snd l))) (fst l);
       Some (word64 w0, StructBody (half3 w1) (half0 w3) (if half3 w3 = 0 then None else Some (low32 w4)) fs) }
     else if half2 w1 = 2 then do {
       es \<leftarrow> members_at (\<lambda>p. text_at t (p + fst (snd (snd l)))) (fst (snd l))
              (fst (snd (snd l)) + snd (snd (snd l))) (fst l);
       Some (word64 w0, EnumBody es) }
     else if half2 w1 = 3 then do {
       ms \<leftarrow> members_at (\<lambda>p. method_at t p (fst (snd (snd l)))) (fst (snd l))
              (fst (snd (snd l)) + snd (snd (snd l))) (fst l);
       Some (word64 w0, InterfaceBody ms) }
     else None }"

subsection \<open>RawSchema and what it must satisfy\<close>

text \<open>
  As the initialisers give it: id, node, its size in words, the ids of the schemas it depends on,
  the members by name, the two counts, and the members by discriminant (none for an enum or an
  interface). The remaining members of \<open>RawSchema\<close> are null or false everywhere.
\<close>

datatype raw_schema = RawSchema nat table nat "nat list" "nat list" nat nat "nat list"

fun schema_id :: "raw_schema \<Rightarrow> nat" where
  "schema_id (RawSchema i node len deps members dep_count member_count by_discriminant) = i"

fun schema_node :: "raw_schema \<Rightarrow> table" where
  "schema_node (RawSchema i node len deps members dep_count member_count by_discriminant) = node"

fun schema_deps :: "raw_schema \<Rightarrow> nat list" where
  "schema_deps (RawSchema i node len deps members dep_count member_count by_discriminant) = deps"

fun body_names :: "schema_body \<Rightarrow> nat list list" where
  "body_names (StructBody ds ps u fs) = map sf_name fs"
| "body_names (EnumBody es) = es"
| "body_names (InterfaceBody ms) = map fst ms"

fun body_refs :: "schema_body \<Rightarrow> nat list" where
  "body_refs (StructBody ds ps u fs) = concat (map (\<lambda>f. type_refs (sf_type f)) fs)"
| "body_refs (EnumBody es) = []"
| "body_refs (InterfaceBody ms) = concat (map (\<lambda>(n, p, r). [p, r]) ms)"

text \<open>Positions of all members, ordered strictly by their keys.\<close>

definition ordered_by :: "'k::linorder list \<Rightarrow> nat list \<Rightarrow> bool" where
  "ordered_by keys ms \<longleftrightarrow> length ms = length keys \<and> list_all (\<lambda>i. i < length keys) ms \<and>
     sorted_wrt (<) (map ((!) keys) ms)"

text \<open>Union members come first, by discriminant; the others, which have 65535, in their order.\<close>

fun discriminant_keys :: "nat \<Rightarrow> schema_field list \<Rightarrow> nat list list" where
  "discriminant_keys i [] = []"
| "discriminant_keys i (f # fs) = [sf_discriminant f, i] # discriminant_keys (i + 1) fs"

fun body_discriminants :: "schema_body \<Rightarrow> nat list list" where
  "body_discriminants (StructBody ds ps u fs) = discriminant_keys 0 fs"
| "body_discriminants (EnumBody es) = []"
| "body_discriminants (InterfaceBody ms) = []"

fun defaults_typed :: "schema_body \<Rightarrow> bool" where
  "defaults_typed (StructBody ds ps u fs) = list_all (\<lambda>f. sf_default_tag f = type_tag (sf_type f)) fs"
| "defaults_typed (EnumBody es) = True"
| "defaults_typed (InterfaceBody ms) = True"

fun schema_ok :: "raw_schema \<Rightarrow> bool" where
  "schema_ok (RawSchema i node len deps members dep_count member_count by_discriminant) \<longleftrightarrow>
     length node = len \<and> length deps = dep_count \<and> length members = member_count \<and> sorted_wrt (<) deps \<and>
     (case read_node node of
        None \<Rightarrow> False
      | Some (k, body) \<Rightarrow> k = i \<and> list_all (\<lambda>r. r \<in> set deps) (body_refs body) \<and>
          list_all (\<lambda>d. d \<in> set (body_refs body)) deps \<and> ordered_by (body_names body) members \<and>
          ordered_by (body_discriminants body) by_discriminant \<and> defaults_typed body)"

text \<open>The names of an order by name are different, and every member is in it once.\<close>

lemma ordered_by_distinct: "ordered_by keys ms \<Longrightarrow> distinct ms"
  unfolding ordered_by_def by (metis distinct_map strict_sorted_iff)

lemma ordered_by_set:
  assumes "ordered_by keys ms"
  shows "set ms = {..<length keys}"
proof (rule card_subset_eq)
  show "set ms \<subseteq> {..<length keys}" using assms by (auto simp: ordered_by_def list_all_iff)
  show "card (set ms) = card {..<length keys}"
    using assms distinct_card [OF ordered_by_distinct [OF assms]] by (simp add: ordered_by_def)
qed simp

lemma ordered_by_keys_distinct:
  assumes "ordered_by keys ms"
  shows "distinct keys"
proof -
  have "inj_on ((!) keys) (set ms)"
    using assms unfolding ordered_by_def by (metis distinct_map strict_sorted_iff)
  then have "inj_on ((!) keys) {..<length keys}" by (simp add: ordered_by_set [OF assms])
  then show ?thesis by (auto simp: distinct_conv_nth dest: inj_onD)
qed

subsection \<open>The layout a schema describes\<close>

definition type_width :: "schema_type \<Rightarrow> nat" where
  "type_width ty = (let t = type_tag ty in
     if t = 1 then 1 else if t = 2 \<or> t = 6 then 8 else if t = 3 \<or> t = 7 \<or> t = 15 then 16
     else if t = 4 \<or> t = 8 \<or> t = 10 then 32 else if t = 5 \<or> t = 9 \<or> t = 11 then 64 else 0)"

definition is_pointer :: "schema_type \<Rightarrow> bool" where
  "is_pointer ty \<longleftrightarrow> 12 \<le> type_tag ty \<and> type_tag ty \<noteq> 15"

fun body_layout :: "schema_body \<Rightarrow> layout option" where
  "body_layout (StructBody ds ps u fs) = Some (struct_layout ds ps
     ((case u of None \<Rightarrow> [] | Some k \<Rightarrow> [data_field 16 k 0]) @
      map (\<lambda>f. data_field (type_width (sf_type f)) (sf_offset f) (sf_default f))
        (filter (\<lambda>f. type_width (sf_type f) \<noteq> 0) fs))
     (map (\<lambda>f. pointer_field (sf_offset f)) (filter (\<lambda>f. is_pointer (sf_type f)) fs)))"
| "body_layout (EnumBody es) = None"
| "body_layout (InterfaceBody ms) = None"

definition layout_of :: "raw_schema \<Rightarrow> layout option" where
  "layout_of s = Option.bind (read_node (schema_node s)) (\<lambda>(i, body). body_layout body)"

definition enumerants_of :: "raw_schema \<Rightarrow> nat list list option" where
  "enumerants_of s = (case read_node (schema_node s) of Some (i, EnumBody es) \<Rightarrow> Some es | _ \<Rightarrow> None)"

definition methods_of :: "raw_schema \<Rightarrow> (nat list \<times> nat \<times> nat) list option" where
  "methods_of s = (case read_node (schema_node s) of Some (i, InterfaceBody ms) \<Rightarrow> Some ms | _ \<Rightarrow> None)"

text \<open>A member's name as octets, and the name of its enumerator in C++: \<open>outOfMemory\<close>, \<open>OUT_OF_MEMORY\<close>.\<close>

definition name_octets :: "string \<Rightarrow> nat list" where
  "name_octets = map of_char"

definition upper_snake :: "nat list \<Rightarrow> nat list" where
  "upper_snake bs = concat (map (\<lambda>b. if 65 \<le> b \<and> b \<le> 90 then [95, b]
     else if 97 \<le> b \<and> b \<le> 122 then [b - 32] else [b]) bs)"

subsection \<open>Reading a table by simplification\<close>

text \<open>
  The congruences keep the simplifier out of the table while it follows the pointers of a node.
\<close>

lemma table_congs:
  "n = m \<Longrightarrow> word_at t n = word_at t m"
  "n = m \<Longrightarrow> struct_at t n = struct_at t m"
  "n = m \<Longrightarrow> list_at t n = list_at t m"
  "n = m \<Longrightarrow> text_at t n = text_at t m"
  "n = m \<Longrightarrow> type_at t n = type_at t m"
  "n = m \<Longrightarrow> k = j \<Longrightarrow> read_octets t n k = read_octets t m j"
  "n = m \<Longrightarrow> k = j \<Longrightarrow> field_at t n k = field_at t m j"
  "n = m \<Longrightarrow> k = j \<Longrightarrow> method_at t n k = method_at t m j"
  "n = m \<Longrightarrow> k = j \<Longrightarrow> c = d \<Longrightarrow> members_at g n k c = members_at g m j d"
  by simp_all

lemma bind_head_cong: "m = n \<Longrightarrow> Option.bind m f = Option.bind n f"
  by simp

lemmas read_table = read_node_def members_at.simps field_at_def method_at_def text_at_def type_at.simps list_at_def
  struct_at_def read_octets.simps default_of_def null_word_def goto_def word64_def low32_def high32_def

lemmas describe_table = ordered_by_def layout_of_def enumerants_of_def methods_of_def type_width_def is_pointer_def

end
