(* ===== verification/SchemaCommon.thy ===== *)
theory SchemaCommon
  imports Schema WireCommon
begin

section \<open>The schemas of common.capnp\<close>

text \<open>
  \<open>proto/proto/common.capnp.c++\<close>: the schema nodes and their \<open>RawSchema\<close>s, with what each describes. The
  enumerators are those of \<open>common.capnp.h\<close>.
\<close>

text \<open>\<open>ID\<close>, a struct\<close>

definition b_e6e79a5e90788fe9 :: table where
  "b_e6e79a5e90788fe9 = [
     W 0 0 0 0 6 0 6 0,
     W 233 143 120 144 94 154 231 230,
     W 13 0 0 0 1 0 2 0,
     W 240 222 239 253 222 239 253 222,
     W 1 0 7 0 0 0 2 0,
     W 0 0 0 0 0 0 0 0,
     W 92 0 0 0 196 0 0 0,
     W 21 0 0 0 130 0 0 0,
     W 25 0 0 0 7 0 0 0,
     W 0 0 0 0 0 0 0 0,
     W 21 0 0 0 119 0 0 0,
     W 0 0 0 0 0 0 0 0,
     W 0 0 0 0 0 0 0 0,
     W 99 111 109 109 111 110 46 99,
     W 97 112 110 112 58 73 68 0,
     W 0 0 0 0 1 0 1 0,
     W 8 0 0 0 3 0 4 0,
     W 0 0 255 255 0 0 0 0,
     W 0 0 1 0 0 0 0 0,
     W 0 0 0 0 0 0 0 0,
     W 41 0 0 0 42 0 0 0,
     W 0 0 0 0 0 0 0 0,
     W 36 0 0 0 3 0 1 0,
     W 48 0 0 0 2 0 1 0,
     W 1 0 254 255 1 0 0 0,
     W 0 0 1 0 1 0 0 0,
     W 0 0 0 0 0 0 0 0,
     W 45 0 0 0 58 0 0 0,
     W 0 0 0 0 0 0 0 0,
     W 40 0 0 0 3 0 1 0,
     W 52 0 0 0 2 0 1 0,
     W 117 117 105 100 0 0 0 0,
     W 12 0 0 0 0 0 0 0,
     W 0 0 0 0 0 0 0 0,
     W 0 0 0 0 0 0 0 0,
     W 0 0 0 0 0 0 0 0,
     W 12 0 0 0 0 0 0 0,
     W 0 0 0 0 0 0 0 0,
     W 0 0 0 0 0 0 0 0,
     W 104 97 110 100 108 101 0 0,
     W 9 0 0 0 0 0 0 0,
     W 0 0 0 0 0 0 0 0,
     W 0 0 0 0 0 0 0 0,
     W 0 0 0 0 0 0 0 0,
     W 9 0 0 0 0 0 0 0,
     W 0 0 0 0 0 0 0 0,
     W 0 0 0 0 0 0 0 0]"

definition s_e6e79a5e90788fe9 :: raw_schema where
  "s_e6e79a5e90788fe9 = RawSchema 0xe6e79a5e90788fe9 b_e6e79a5e90788fe9 47
     []
     [1, 0] 0 2
     [0, 1]"

lemma b_e6e79a5e90788fe9_node:
  "length b_e6e79a5e90788fe9 = 47"
  "read_node b_e6e79a5e90788fe9 = Some (0xe6e79a5e90788fe9, StructBody 2 1 (Some 0) [
       sfield [117, 117, 105, 100] 0 0 (Plain 12) 12 0,
       sfield [104, 97, 110, 100, 108, 101] 1 1 (Plain 9) 9 0])"
  by (simp_all add: b_e6e79a5e90788fe9_def read_table sfield_def cong: table_congs bind_head_cong)

lemma s_e6e79a5e90788fe9_id: "schema_id s_e6e79a5e90788fe9 = 0xe6e79a5e90788fe9"
  by (simp add: s_e6e79a5e90788fe9_def)

lemma s_e6e79a5e90788fe9_ok: "schema_ok s_e6e79a5e90788fe9"
  by (simp add: s_e6e79a5e90788fe9_def b_e6e79a5e90788fe9_node ordered_by_def sfield_def)

lemma s_e6e79a5e90788fe9_layout: "layout_of s_e6e79a5e90788fe9 = Some ID_layout"
  by (simp add: s_e6e79a5e90788fe9_def b_e6e79a5e90788fe9_node describe_table sfield_def struct_layout_def wireCommon_fields)

text \<open>\<open>Ack\<close>, a struct\<close>

definition b_bc6e6b03361a3588 :: table where
  "b_bc6e6b03361a3588 = [
     W 0 0 0 0 6 0 6 0,
     W 136 53 26 54 3 107 110 188,
     W 13 0 0 0 1 0 1 0,
     W 240 222 239 253 222 239 253 222,
     W 1 0 7 0 0 0 0 0,
     W 0 0 0 0 0 0 0 0,
     W 200 0 0 0 15 1 0 0,
     W 21 0 0 0 138 0 0 0,
     W 29 0 0 0 7 0 0 0,
     W 0 0 0 0 0 0 0 0,
     W 25 0 0 0 175 0 0 0,
     W 0 0 0 0 0 0 0 0,
     W 0 0 0 0 0 0 0 0,
     W 99 111 109 109 111 110 46 99,
     W 97 112 110 112 58 65 99 107,
     W 0 0 0 0 0 0 0 0,
     W 0 0 0 0 1 0 1 0,
     W 12 0 0 0 3 0 4 0,
     W 0 0 0 0 0 0 0 0,
     W 0 0 1 0 0 0 0 0,
     W 0 0 0 0 0 0 0 0,
     W 69 0 0 0 26 0 0 0,
     W 0 0 0 0 0 0 0 0,
     W 64 0 0 0 3 0 1 0,
     W 76 0 0 0 2 0 1 0,
     W 1 0 0 0 0 0 0 0,
     W 0 0 1 0 1 0 0 0,
     W 0 0 0 0 0 0 0 0,
     W 73 0 0 0 34 0 0 0,
     W 0 0 0 0 0 0 0 0,
     W 68 0 0 0 3 0 1 0,
     W 80 0 0 0 2 0 1 0,
     W 2 0 0 0 1 0 0 0,
     W 0 0 1 0 2 0 0 0,
     W 0 0 0 0 0 0 0 0,
     W 77 0 0 0 42 0 0 0,
     W 0 0 0 0 0 0 0 0,
     W 72 0 0 0 3 0 1 0,
     W 84 0 0 0 2 0 1 0,
     W 111 107 0 0 0 0 0 0,
     W 1 0 0 0 0 0 0 0,
     W 0 0 0 0 0 0 0 0,
     W 0 0 0 0 0 0 0 0,
     W 0 0 0 0 0 0 0 0,
     W 1 0 0 0 0 0 0 0,
     W 0 0 0 0 0 0 0 0,
     W 0 0 0 0 0 0 0 0,
     W 109 115 103 0 0 0 0 0,
     W 12 0 0 0 0 0 0 0,
     W 0 0 0 0 0 0 0 0,
     W 0 0 0 0 0 0 0 0,
     W 0 0 0 0 0 0 0 0,
     W 12 0 0 0 0 0 0 0,
     W 0 0 0 0 0 0 0 0,
     W 0 0 0 0 0 0 0 0,
     W 99 111 100 101 0 0 0 0,
     W 15 0 0 0 0 0 0 0,
     W 125 7 179 164 122 15 56 253,
     W 0 0 0 0 0 0 0 0,
     W 0 0 0 0 0 0 0 0,
     W 15 0 0 0 0 0 0 0,
     W 0 0 0 0 0 0 0 0,
     W 0 0 0 0 0 0 0 0]"

definition s_bc6e6b03361a3588 :: raw_schema where
  "s_bc6e6b03361a3588 = RawSchema 0xbc6e6b03361a3588 b_bc6e6b03361a3588 63
     [0xfd380f7aa4b3077d]
     [2, 1, 0] 1 3
     [0, 1, 2]"

lemma b_bc6e6b03361a3588_node:
  "length b_bc6e6b03361a3588 = 63"
  "read_node b_bc6e6b03361a3588 = Some (0xbc6e6b03361a3588, StructBody 1 1 None [
       sfield [111, 107] 65535 0 (Plain 1) 1 0,
       sfield [109, 115, 103] 65535 0 (Plain 12) 12 0,
       sfield [99, 111, 100, 101] 65535 1 (Named 15 0xfd380f7aa4b3077d) 15 0])"
  by (simp_all add: b_bc6e6b03361a3588_def read_table sfield_def cong: table_congs bind_head_cong)

lemma s_bc6e6b03361a3588_id: "schema_id s_bc6e6b03361a3588 = 0xbc6e6b03361a3588"
  by (simp add: s_bc6e6b03361a3588_def)

lemma s_bc6e6b03361a3588_ok: "schema_ok s_bc6e6b03361a3588"
  by (simp add: s_bc6e6b03361a3588_def b_bc6e6b03361a3588_node ordered_by_def sfield_def)

lemma s_bc6e6b03361a3588_layout: "layout_of s_bc6e6b03361a3588 = Some Ack_layout"
  by (simp add: s_bc6e6b03361a3588_def b_bc6e6b03361a3588_node describe_table sfield_def struct_layout_def wireCommon_fields)

text \<open>\<open>GpuInfo\<close>, a struct\<close>

definition b_846c49e52011ab72 :: table where
  "b_846c49e52011ab72 = [
     W 0 0 0 0 6 0 6 0,
     W 114 171 17 32 229 73 108 132,
     W 13 0 0 0 1 0 1 0,
     W 240 222 239 253 222 239 253 222,
     W 3 0 7 0 0 0 0 0,
     W 0 0 0 0 0 0 0 0,
     W 19 1 0 0 148 1 0 0,
     W 21 0 0 0 170 0 0 0,
     W 29 0 0 0 7 0 0 0,
     W 0 0 0 0 0 0 0 0,
     W 25 0 0 0 231 0 0 0,
     W 0 0 0 0 0 0 0 0,
     W 0 0 0 0 0 0 0 0,
     W 99 111 109 109 111 110 46 99,
     W 97 112 110 112 58 71 112 117,
     W 73 110 102 111 0 0 0 0,
     W 0 0 0 0 1 0 1 0,
     W 16 0 0 0 3 0 4 0,
     W 0 0 0 0 0 0 0 0,
     W 0 0 1 0 0 0 0 0,
     W 0 0 0 0 0 0 0 0,
     W 97 0 0 0 26 0 0 0,
     W 0 0 0 0 0 0 0 0,
     W 92 0 0 0 3 0 1 0,
     W 104 0 0 0 2 0 1 0,
     W 1 0 0 0 1 0 0 0,
     W 0 0 1 0 1 0 0 0,
     W 0 0 0 0 0 0 0 0,
     W 101 0 0 0 42 0 0 0,
     W 0 0 0 0 0 0 0 0,
     W 96 0 0 0 3 0 1 0,
     W 108 0 0 0 2 0 1 0,
     W 2 0 0 0 0 0 0 0,
     W 0 0 1 0 2 0 0 0,
     W 0 0 0 0 0 0 0 0,
     W 105 0 0 0 98 0 0 0,
     W 0 0 0 0 0 0 0 0,
     W 104 0 0 0 3 0 1 0,
     W 116 0 0 0 2 0 1 0,
     W 3 0 0 0 2 0 0 0,
     W 0 0 1 0 3 0 0 0,
     W 0 0 0 0 0 0 0 0,
     W 113 0 0 0 74 0 0 0,
     W 0 0 0 0 0 0 0 0,
     W 112 0 0 0 3 0 1 0,
     W 124 0 0 0 2 0 1 0,
     W 105 100 0 0 0 0 0 0,
     W 16 0 0 0 0 0 0 0,
     W 233 143 120 144 94 154 231 230,
     W 0 0 0 0 0 0 0 0,
     W 0 0 0 0 0 0 0 0,
     W 16 0 0 0 0 0 0 0,
     W 0 0 0 0 0 0 0 0,
     W 0 0 0 0 0 0 0 0,
     W 110 97 109 101 0 0 0 0,
     W 12 0 0 0 0 0 0 0,
     W 0 0 0 0 0 0 0 0,
     W 0 0 0 0 0 0 0 0,
     W 0 0 0 0 0 0 0 0,
     W 12 0 0 0 0 0 0 0,
     W 0 0 0 0 0 0 0 0,
     W 0 0 0 0 0 0 0 0,
     W 116 111 116 97 108 77 101 109,
     W 111 114 121 0 0 0 0 0,
     W 5 0 0 0 0 0 0 0,
     W 0 0 0 0 0 0 0 0,
     W 0 0 0 0 0 0 0 0,
     W 0 0 0 0 0 0 0 0,
     W 5 0 0 0 0 0 0 0,
     W 0 0 0 0 0 0 0 0,
     W 0 0 0 0 0 0 0 0,
     W 109 101 116 97 100 97 116 97,
     W 0 0 0 0 0 0 0 0,
     W 16 0 0 0 0 0 0 0,
     W 15 23 59 222 80 236 76 193,
     W 0 0 0 0 0 0 0 0,
     W 0 0 0 0 0 0 0 0,
     W 16 0 0 0 0 0 0 0,
     W 0 0 0 0 0 0 0 0,
     W 0 0 0 0 0 0 0 0]"

definition s_846c49e52011ab72 :: raw_schema where
  "s_846c49e52011ab72 = RawSchema 0x846c49e52011ab72 b_846c49e52011ab72 80
     [0xc14cec50de3b170f, 0xe6e79a5e90788fe9]
     [0, 3, 1, 2] 2 4
     [0, 1, 2, 3]"

lemma b_846c49e52011ab72_node:
  "length b_846c49e52011ab72 = 80"
  "read_node b_846c49e52011ab72 = Some (0x846c49e52011ab72, StructBody 1 3 None [
       sfield [105, 100] 65535 0 (Named 16 0xe6e79a5e90788fe9) 16 0,
       sfield [110, 97, 109, 101] 65535 1 (Plain 12) 12 0,
       sfield [116, 111, 116, 97, 108, 77, 101, 109, 111, 114, 121] 65535 0 (Plain 5) 5 0,
       sfield [109, 101, 116, 97, 100, 97, 116, 97] 65535 2 (Named 16 0xc14cec50de3b170f) 16 0])"
  by (simp_all add: b_846c49e52011ab72_def read_table sfield_def cong: table_congs bind_head_cong)

lemma s_846c49e52011ab72_id: "schema_id s_846c49e52011ab72 = 0x846c49e52011ab72"
  by (simp add: s_846c49e52011ab72_def)

lemma s_846c49e52011ab72_ok: "schema_ok s_846c49e52011ab72"
  by (simp add: s_846c49e52011ab72_def b_846c49e52011ab72_node ordered_by_def sfield_def)

lemma s_846c49e52011ab72_layout: "layout_of s_846c49e52011ab72 = Some GpuInfo_layout"
  by (simp add: s_846c49e52011ab72_def b_846c49e52011ab72_node describe_table sfield_def struct_layout_def wireCommon_fields)

text \<open>\<open>Metadata\<close>, a struct\<close>

definition b_c14cec50de3b170f :: table where
  "b_c14cec50de3b170f = [
     W 0 0 0 0 6 0 6 0,
     W 15 23 59 222 80 236 76 193,
     W 13 0 0 0 1 0 1 0,
     W 240 222 239 253 222 239 253 222,
     W 0 0 7 0 0 0 0 0,
     W 0 0 0 0 0 0 0 0,
     W 152 1 0 0 50 2 0 0,
     W 21 0 0 0 178 0 0 0,
     W 29 0 0 0 7 0 0 0,
     W 0 0 0 0 0 0 0 0,
     W 25 0 0 0 119 0 0 0,
     W 0 0 0 0 0 0 0 0,
     W 0 0 0 0 0 0 0 0,
     W 99 111 109 109 111 110 46 99,
     W 97 112 110 112 58 77 101 116,
     W 97 100 97 116 97 0 0 0,
     W 0 0 0 0 1 0 1 0,
     W 8 0 0 0 3 0 4 0,
     W 0 0 0 0 0 0 0 0,
     W 0 0 1 0 0 0 0 0,
     W 1 0 0 0 0 0 0 0,
     W 41 0 0 0 106 0 0 0,
     W 0 0 0 0 0 0 0 0,
     W 40 0 0 0 3 0 1 0,
     W 52 0 0 0 2 0 1 0,
     W 1 0 0 0 32 0 0 0,
     W 0 0 1 0 1 0 0 0,
     W 1 0 0 0 0 0 0 0,
     W 49 0 0 0 90 0 0 0,
     W 0 0 0 0 0 0 0 0,
     W 48 0 0 0 3 0 1 0,
     W 60 0 0 0 2 0 1 0,
     W 110 117 109 97 65 102 102 105,
     W 110 105 116 121 0 0 0 0,
     W 4 0 0 0 0 0 0 0,
     W 0 0 0 0 0 0 0 0,
     W 0 0 0 0 0 0 0 0,
     W 0 0 0 0 0 0 0 0,
     W 4 0 0 0 255 255 255 255,
     W 0 0 0 0 0 0 0 0,
     W 0 0 0 0 0 0 0 0,
     W 103 100 114 83 117 112 112 111,
     W 114 116 0 0 0 0 0 0,
     W 1 0 0 0 0 0 0 0,
     W 0 0 0 0 0 0 0 0,
     W 0 0 0 0 0 0 0 0,
     W 0 0 0 0 0 0 0 0,
     W 1 0 0 0 0 0 0 0,
     W 0 0 0 0 0 0 0 0,
     W 0 0 0 0 0 0 0 0]"

definition s_c14cec50de3b170f :: raw_schema where
  "s_c14cec50de3b170f = RawSchema 0xc14cec50de3b170f b_c14cec50de3b170f 50
     []
     [1, 0] 0 2
     [0, 1]"

lemma b_c14cec50de3b170f_node:
  "length b_c14cec50de3b170f = 50"
  "read_node b_c14cec50de3b170f = Some (0xc14cec50de3b170f, StructBody 1 0 None [
       sfield [110, 117, 109, 97, 65, 102, 102, 105, 110, 105, 116, 121] 65535 0 (Plain 4) 4
       4294967295,
       sfield [103, 100, 114, 83, 117, 112, 112, 111, 114, 116] 65535 32 (Plain 1) 1 0])"
  by (simp_all add: b_c14cec50de3b170f_def read_table sfield_def cong: table_congs bind_head_cong)

lemma s_c14cec50de3b170f_id: "schema_id s_c14cec50de3b170f = 0xc14cec50de3b170f"
  by (simp add: s_c14cec50de3b170f_def)

lemma s_c14cec50de3b170f_ok: "schema_ok s_c14cec50de3b170f"
  by (simp add: s_c14cec50de3b170f_def b_c14cec50de3b170f_node ordered_by_def sfield_def)

lemma s_c14cec50de3b170f_layout: "layout_of s_c14cec50de3b170f = Some Metadata_layout"
  by (simp add: s_c14cec50de3b170f_def b_c14cec50de3b170f_node describe_table sfield_def struct_layout_def wireCommon_fields)

text \<open>\<open>ErrorCode\<close>, an enum\<close>

definition b_fd380f7aa4b3077d :: table where
  "b_fd380f7aa4b3077d = [
     W 0 0 0 0 6 0 6 0,
     W 125 7 179 164 122 15 56 253,
     W 13 0 0 0 2 0 0 0,
     W 240 222 239 253 222 239 253 222,
     W 0 0 0 0 0 0 0 0,
     W 0 0 0 0 0 0 0 0,
     W 54 2 0 0 191 2 0 0,
     W 21 0 0 0 186 0 0 0,
     W 29 0 0 0 7 0 0 0,
     W 0 0 0 0 0 0 0 0,
     W 25 0 0 0 151 0 0 0,
     W 0 0 0 0 0 0 0 0,
     W 0 0 0 0 0 0 0 0,
     W 99 111 109 109 111 110 46 99,
     W 97 112 110 112 58 69 114 114,
     W 111 114 67 111 100 101 0 0,
     W 0 0 0 0 1 0 1 0,
     W 24 0 0 0 1 0 2 0,
     W 0 0 0 0 0 0 0 0,
     W 65 0 0 0 26 0 0 0,
     W 0 0 0 0 0 0 0 0,
     W 1 0 0 0 0 0 0 0,
     W 57 0 0 0 98 0 0 0,
     W 0 0 0 0 0 0 0 0,
     W 2 0 0 0 0 0 0 0,
     W 53 0 0 0 98 0 0 0,
     W 0 0 0 0 0 0 0 0,
     W 3 0 0 0 0 0 0 0,
     W 49 0 0 0 98 0 0 0,
     W 0 0 0 0 0 0 0 0,
     W 4 0 0 0 0 0 0 0,
     W 45 0 0 0 138 0 0 0,
     W 0 0 0 0 0 0 0 0,
     W 5 0 0 0 0 0 0 0,
     W 45 0 0 0 66 0 0 0,
     W 0 0 0 0 0 0 0 0,
     W 111 107 0 0 0 0 0 0,
     W 111 117 116 79 102 77 101 109,
     W 111 114 121 0 0 0 0 0,
     W 103 112 117 78 111 116 70 111,
     W 117 110 100 0 0 0 0 0,
     W 115 116 114 101 97 109 69 114,
     W 114 111 114 0 0 0 0 0,
     W 107 101 114 110 101 108 76 97,
     W 117 110 99 104 70 97 105 108,
     W 0 0 0 0 0 0 0 0,
     W 117 110 107 110 111 119 110 0]"

definition s_fd380f7aa4b3077d :: raw_schema where
  "s_fd380f7aa4b3077d = RawSchema 0xfd380f7aa4b3077d b_fd380f7aa4b3077d 47
     []
     [2, 4, 0, 1, 3, 5] 0 6
     []"

lemma b_fd380f7aa4b3077d_node:
  "length b_fd380f7aa4b3077d = 47"
  "read_node b_fd380f7aa4b3077d = Some (0xfd380f7aa4b3077d, EnumBody [
       [111, 107], [111, 117, 116, 79, 102, 77, 101, 109, 111, 114, 121],
       [103, 112, 117, 78, 111, 116, 70, 111, 117, 110, 100],
       [115, 116, 114, 101, 97, 109, 69, 114, 114, 111, 114],
       [107, 101, 114, 110, 101, 108, 76, 97, 117, 110, 99, 104, 70, 97, 105, 108],
       [117, 110, 107, 110, 111, 119, 110]])"
  by (simp_all add: b_fd380f7aa4b3077d_def read_table sfield_def cong: table_congs bind_head_cong)

lemma s_fd380f7aa4b3077d_id: "schema_id s_fd380f7aa4b3077d = 0xfd380f7aa4b3077d"
  by (simp add: s_fd380f7aa4b3077d_def)

lemma s_fd380f7aa4b3077d_ok: "schema_ok s_fd380f7aa4b3077d"
  by (simp add: s_fd380f7aa4b3077d_def b_fd380f7aa4b3077d_node ordered_by_def sfield_def)

definition ErrorCode_enumerators :: "string list" where
  "ErrorCode_enumerators = [''OK'', ''OUT_OF_MEMORY'', ''GPU_NOT_FOUND'', ''STREAM_ERROR'', ''KERNEL_LAUNCH_FAIL'', ''UNKNOWN'']"

lemma s_fd380f7aa4b3077d_enumerants: "map_option (map upper_snake) (enumerants_of s_fd380f7aa4b3077d) = Some (map name_octets ErrorCode_enumerators)"
  by (simp add: s_fd380f7aa4b3077d_def b_fd380f7aa4b3077d_node describe_table ErrorCode_enumerators_def upper_snake_def name_octets_def)

text \<open>\<open>MemoryHandle\<close>, a struct\<close>

definition b_a3736725e03665aa :: table where
  "b_a3736725e03665aa = [
     W 0 0 0 0 6 0 6 0,
     W 170 101 54 224 37 103 115 163,
     W 13 0 0 0 1 0 2 0,
     W 240 222 239 253 222 239 253 222,
     W 1 0 7 0 0 0 0 0,
     W 0 0 0 0 0 0 0 0,
     W 195 2 0 0 93 3 0 0,
     W 21 0 0 0 210 0 0 0,
     W 33 0 0 0 7 0 0 0,
     W 0 0 0 0 0 0 0 0,
     W 29 0 0 0 175 0 0 0,
     W 0 0 0 0 0 0 0 0,
     W 0 0 0 0 0 0 0 0,
     W 99 111 109 109 111 110 46 99,
     W 97 112 110 112 58 77 101 109,
     W 111 114 121 72 97 110 100 108,
     W 101 0 0 0 0 0 0 0,
     W 0 0 0 0 1 0 1 0,
     W 12 0 0 0 3 0 4 0,
     W 0 0 0 0 0 0 0 0,
     W 0 0 1 0 0 0 0 0,
     W 0 0 0 0 0 0 0 0,
     W 69 0 0 0 26 0 0 0,
     W 0 0 0 0 0 0 0 0,
     W 64 0 0 0 3 0 1 0,
     W 76 0 0 0 2 0 1 0,
     W 1 0 0 0 0 0 0 0,
     W 0 0 1 0 1 0 0 0,
     W 0 0 0 0 0 0 0 0,
     W 73 0 0 0 42 0 0 0,
     W 0 0 0 0 0 0 0 0,
     W 68 0 0 0 3 0 1 0,
     W 80 0 0 0 2 0 1 0,
     W 2 0 0 0 2 0 0 0,
     W 0 0 1 0 2 0 0 0,
     W 0 0 0 0 0 0 0 0,
     W 77 0 0 0 58 0 0 0,
     W 0 0 0 0 0 0 0 0,
     W 72 0 0 0 3 0 1 0,
     W 84 0 0 0 2 0 1 0,
     W 105 100 0 0 0 0 0 0,
     W 16 0 0 0 0 0 0 0,
     W 233 143 120 144 94 154 231 230,
     W 0 0 0 0 0 0 0 0,
     W 0 0 0 0 0 0 0 0,
     W 16 0 0 0 0 0 0 0,
     W 0 0 0 0 0 0 0 0,
     W 0 0 0 0 0 0 0 0,
     W 115 105 122 101 0 0 0 0,
     W 9 0 0 0 0 0 0 0,
     W 0 0 0 0 0 0 0 0,
     W 0 0 0 0 0 0 0 0,
     W 0 0 0 0 0 0 0 0,
     W 9 0 0 0 0 0 0 0,
     W 0 0 0 0 0 0 0 0,
     W 0 0 0 0 0 0 0 0,
     W 110 111 100 101 73 100 0 0,
     W 8 0 0 0 0 0 0 0,
     W 0 0 0 0 0 0 0 0,
     W 0 0 0 0 0 0 0 0,
     W 0 0 0 0 0 0 0 0,
     W 8 0 0 0 0 0 0 0,
     W 0 0 0 0 0 0 0 0,
     W 0 0 0 0 0 0 0 0]"

definition s_a3736725e03665aa :: raw_schema where
  "s_a3736725e03665aa = RawSchema 0xa3736725e03665aa b_a3736725e03665aa 64
     [0xe6e79a5e90788fe9]
     [0, 2, 1] 1 3
     [0, 1, 2]"

lemma b_a3736725e03665aa_node:
  "length b_a3736725e03665aa = 64"
  "read_node b_a3736725e03665aa = Some (0xa3736725e03665aa, StructBody 2 1 None [
       sfield [105, 100] 65535 0 (Named 16 0xe6e79a5e90788fe9) 16 0,
       sfield [115, 105, 122, 101] 65535 0 (Plain 9) 9 0,
       sfield [110, 111, 100, 101, 73, 100] 65535 2 (Plain 8) 8 0])"
  by (simp_all add: b_a3736725e03665aa_def read_table sfield_def cong: table_congs bind_head_cong)

lemma s_a3736725e03665aa_id: "schema_id s_a3736725e03665aa = 0xa3736725e03665aa"
  by (simp add: s_a3736725e03665aa_def)

lemma s_a3736725e03665aa_ok: "schema_ok s_a3736725e03665aa"
  by (simp add: s_a3736725e03665aa_def b_a3736725e03665aa_node ordered_by_def sfield_def)

lemma s_a3736725e03665aa_layout: "layout_of s_a3736725e03665aa = Some MemoryHandle_layout"
  by (simp add: s_a3736725e03665aa_def b_a3736725e03665aa_node describe_table sfield_def struct_layout_def wireCommon_fields)

text \<open>\<open>TransferDirection\<close>, an enum\<close>

definition b_c3bb3604f88eea81 :: table where
  "b_c3bb3604f88eea81 = [
     W 0 0 0 0 6 0 6 0,
     W 129 234 142 248 4 54 187 195,
     W 13 0 0 0 2 0 0 0,
     W 240 222 239 253 222 239 253 222,
     W 0 0 0 0 0 0 0 0,
     W 0 0 0 0 0 0 0 0,
     W 97 3 0 0 5 4 0 0,
     W 21 0 0 0 250 0 0 0,
     W 33 0 0 0 7 0 0 0,
     W 0 0 0 0 0 0 0 0,
     W 29 0 0 0 103 0 0 0,
     W 0 0 0 0 0 0 0 0,
     W 0 0 0 0 0 0 0 0,
     W 99 111 109 109 111 110 46 99,
     W 97 112 110 112 58 84 114 97,
     W 110 115 102 101 114 68 105 114,
     W 101 99 116 105 111 110 0 0,
     W 0 0 0 0 1 0 1 0,
     W 16 0 0 0 1 0 2 0,
     W 0 0 0 0 0 0 0 0,
     W 41 0 0 0 42 0 0 0,
     W 0 0 0 0 0 0 0 0,
     W 1 0 0 0 0 0 0 0,
     W 33 0 0 0 42 0 0 0,
     W 0 0 0 0 0 0 0 0,
     W 2 0 0 0 0 0 0 0,
     W 25 0 0 0 42 0 0 0,
     W 0 0 0 0 0 0 0 0,
     W 3 0 0 0 0 0 0 0,
     W 17 0 0 0 34 0 0 0,
     W 0 0 0 0 0 0 0 0,
     W 104 116 111 100 0 0 0 0,
     W 100 116 111 104 0 0 0 0,
     W 100 116 111 100 0 0 0 0,
     W 103 100 114 0 0 0 0 0]"

definition s_c3bb3604f88eea81 :: raw_schema where
  "s_c3bb3604f88eea81 = RawSchema 0xc3bb3604f88eea81 b_c3bb3604f88eea81 35
     []
     [2, 1, 3, 0] 0 4
     []"

lemma b_c3bb3604f88eea81_node:
  "length b_c3bb3604f88eea81 = 35"
  "read_node b_c3bb3604f88eea81 = Some (0xc3bb3604f88eea81, EnumBody [
       [104, 116, 111, 100], [100, 116, 111, 104], [100, 116, 111, 100], [103, 100, 114]])"
  by (simp_all add: b_c3bb3604f88eea81_def read_table sfield_def cong: table_congs bind_head_cong)

lemma s_c3bb3604f88eea81_id: "schema_id s_c3bb3604f88eea81 = 0xc3bb3604f88eea81"
  by (simp add: s_c3bb3604f88eea81_def)

lemma s_c3bb3604f88eea81_ok: "schema_ok s_c3bb3604f88eea81"
  by (simp add: s_c3bb3604f88eea81_def b_c3bb3604f88eea81_node ordered_by_def sfield_def)

definition TransferDirection_enumerators :: "string list" where
  "TransferDirection_enumerators = [''HTOD'', ''DTOH'', ''DTOD'', ''GDR'']"

lemma s_c3bb3604f88eea81_enumerants: "map_option (map upper_snake) (enumerants_of s_c3bb3604f88eea81) = Some (map name_octets TransferDirection_enumerators)"
  by (simp add: s_c3bb3604f88eea81_def b_c3bb3604f88eea81_node describe_table TransferDirection_enumerators_def upper_snake_def name_octets_def)

text \<open>\<open>Response\<close>, a struct\<close>

definition b_9b94a9ab05aba83b :: table where
  "b_9b94a9ab05aba83b = [
     W 0 0 0 0 6 0 6 0,
     W 59 168 171 5 171 169 148 155,
     W 13 0 0 0 1 0 1 0,
     W 240 222 239 253 222 239 253 222,
     W 2 0 7 0 0 0 0 0,
     W 0 0 0 0 0 0 0 0,
     W 9 4 0 0 190 4 0 0,
     W 21 0 0 0 178 0 0 0,
     W 29 0 0 0 7 0 0 0,
     W 0 0 0 0 0 0 0 0,
     W 25 0 0 0 231 0 0 0,
     W 0 0 0 0 0 0 0 0,
     W 0 0 0 0 0 0 0 0,
     W 99 111 109 109 111 110 46 99,
     W 97 112 110 112 58 82 101 115,
     W 112 111 110 115 101 0 0 0,
     W 0 0 0 0 1 0 1 0,
     W 16 0 0 0 3 0 4 0,
     W 0 0 0 0 0 0 0 0,
     W 0 0 1 0 0 0 0 0,
     W 0 0 0 0 0 0 0 0,
     W 97 0 0 0 66 0 0 0,
     W 0 0 0 0 0 0 0 0,
     W 92 0 0 0 3 0 1 0,
     W 104 0 0 0 2 0 1 0,
     W 1 0 0 0 0 0 0 0,
     W 0 0 1 0 1 0 0 0,
     W 0 0 0 0 0 0 0 0,
     W 101 0 0 0 42 0 0 0,
     W 0 0 0 0 0 0 0 0,
     W 96 0 0 0 3 0 1 0,
     W 108 0 0 0 2 0 1 0,
     W 2 0 0 0 1 0 0 0,
     W 0 0 1 0 2 0 0 0,
     W 0 0 0 0 0 0 0 0,
     W 105 0 0 0 50 0 0 0,
     W 0 0 0 0 0 0 0 0,
     W 100 0 0 0 3 0 1 0,
     W 112 0 0 0 2 0 1 0,
     W 3 0 0 0 1 0 0 0,
     W 0 0 1 0 3 0 0 0,
     W 0 0 0 0 0 0 0 0,
     W 109 0 0 0 66 0 0 0,
     W 0 0 0 0 0 0 0 0,
     W 104 0 0 0 3 0 1 0,
     W 116 0 0 0 2 0 1 0,
     W 115 117 99 99 101 115 115 0,
     W 1 0 0 0 0 0 0 0,
     W 0 0 0 0 0 0 0 0,
     W 0 0 0 0 0 0 0 0,
     W 0 0 0 0 0 0 0 0,
     W 1 0 0 0 0 0 0 0,
     W 0 0 0 0 0 0 0 0,
     W 0 0 0 0 0 0 0 0,
     W 100 97 116 97 0 0 0 0,
     W 13 0 0 0 0 0 0 0,
     W 0 0 0 0 0 0 0 0,
     W 0 0 0 0 0 0 0 0,
     W 0 0 0 0 0 0 0 0,
     W 13 0 0 0 0 0 0 0,
     W 0 0 0 0 0 0 0 0,
     W 0 0 0 0 0 0 0 0,
     W 101 114 114 111 114 0 0 0,
     W 15 0 0 0 0 0 0 0,
     W 125 7 179 164 122 15 56 253,
     W 0 0 0 0 0 0 0 0,
     W 0 0 0 0 0 0 0 0,
     W 15 0 0 0 0 0 0 0,
     W 0 0 0 0 0 0 0 0,
     W 0 0 0 0 0 0 0 0,
     W 109 101 115 115 97 103 101 0,
     W 12 0 0 0 0 0 0 0,
     W 0 0 0 0 0 0 0 0,
     W 0 0 0 0 0 0 0 0,
     W 0 0 0 0 0 0 0 0,
     W 12 0 0 0 0 0 0 0,
     W 0 0 0 0 0 0 0 0,
     W 0 0 0 0 0 0 0 0]"

definition s_9b94a9ab05aba83b :: raw_schema where
  "s_9b94a9ab05aba83b = RawSchema 0x9b94a9ab05aba83b b_9b94a9ab05aba83b 78
     [0xfd380f7aa4b3077d]
     [1, 2, 3, 0] 1 4
     [0, 1, 2, 3]"

lemma b_9b94a9ab05aba83b_node:
  "length b_9b94a9ab05aba83b = 78"
  "read_node b_9b94a9ab05aba83b = Some (0x9b94a9ab05aba83b, StructBody 1 2 None [
       sfield [115, 117, 99, 99, 101, 115, 115] 65535 0 (Plain 1) 1 0,
       sfield [100, 97, 116, 97] 65535 0 (Plain 13) 13 0,
       sfield [101, 114, 114, 111, 114] 65535 1 (Named 15 0xfd380f7aa4b3077d) 15 0,
       sfield [109, 101, 115, 115, 97, 103, 101] 65535 1 (Plain 12) 12 0])"
  by (simp_all add: b_9b94a9ab05aba83b_def read_table sfield_def cong: table_congs bind_head_cong)

lemma s_9b94a9ab05aba83b_id: "schema_id s_9b94a9ab05aba83b = 0x9b94a9ab05aba83b"
  by (simp add: s_9b94a9ab05aba83b_def)

lemma s_9b94a9ab05aba83b_ok: "schema_ok s_9b94a9ab05aba83b"
  by (simp add: s_9b94a9ab05aba83b_def b_9b94a9ab05aba83b_node ordered_by_def sfield_def)

lemma s_9b94a9ab05aba83b_layout: "layout_of s_9b94a9ab05aba83b = Some Response_layout"
  by (simp add: s_9b94a9ab05aba83b_def b_9b94a9ab05aba83b_node describe_table sfield_def struct_layout_def wireCommon_fields)

subsection \<open>All of them\<close>

definition schemaCommon_schemas :: "raw_schema list" where
  "schemaCommon_schemas = [
     s_e6e79a5e90788fe9, s_bc6e6b03361a3588, s_846c49e52011ab72, s_c14cec50de3b170f,
     s_fd380f7aa4b3077d, s_a3736725e03665aa, s_c3bb3604f88eea81, s_9b94a9ab05aba83b]"

lemma schemaCommon_schemas_ok: "list_all schema_ok schemaCommon_schemas"
  by (simp add: schemaCommon_schemas_def
      s_e6e79a5e90788fe9_ok s_bc6e6b03361a3588_ok s_846c49e52011ab72_ok s_c14cec50de3b170f_ok
      s_fd380f7aa4b3077d_ok s_a3736725e03665aa_ok s_c3bb3604f88eea81_ok s_9b94a9ab05aba83b_ok)

lemmas schemaCommon_defs = schemaCommon_schemas_def
  s_e6e79a5e90788fe9_def s_bc6e6b03361a3588_def s_846c49e52011ab72_def s_c14cec50de3b170f_def
  s_fd380f7aa4b3077d_def s_a3736725e03665aa_def s_c3bb3604f88eea81_def s_9b94a9ab05aba83b_def

lemma schemaCommon_ids: "map schema_id schemaCommon_schemas = [
     0xe6e79a5e90788fe9, 0xbc6e6b03361a3588, 0x846c49e52011ab72, 0xc14cec50de3b170f,
     0xfd380f7aa4b3077d, 0xa3736725e03665aa, 0xc3bb3604f88eea81, 0x9b94a9ab05aba83b]"
  by (simp add: schemaCommon_schemas_def
      s_e6e79a5e90788fe9_id s_bc6e6b03361a3588_id s_846c49e52011ab72_id s_c14cec50de3b170f_id
      s_fd380f7aa4b3077d_id s_a3736725e03665aa_id s_c3bb3604f88eea81_id s_9b94a9ab05aba83b_id)

text \<open>The structs with the ids and layouts of the header, in its order.\<close>

definition schemaCommon_structs :: "raw_schema list" where
  "schemaCommon_structs = [
     s_e6e79a5e90788fe9, s_bc6e6b03361a3588, s_846c49e52011ab72, s_c14cec50de3b170f,
     s_a3736725e03665aa, s_9b94a9ab05aba83b]"

definition schemaCommon_headers :: "(nat \<times> layout) list" where
  "schemaCommon_headers = [
     (0xe6e79a5e90788fe9, ID_layout), (0xbc6e6b03361a3588, Ack_layout),
     (0x846c49e52011ab72, GpuInfo_layout), (0xc14cec50de3b170f, Metadata_layout),
     (0xa3736725e03665aa, MemoryHandle_layout), (0x9b94a9ab05aba83b, Response_layout)]"

lemma schemaCommon_structs_layouts:
  "map (\<lambda>s. (schema_id s, layout_of s)) schemaCommon_structs = map (\<lambda>(i, l). (i, Some l)) schemaCommon_headers"
  by (simp add: schemaCommon_structs_def schemaCommon_headers_def
      s_e6e79a5e90788fe9_layout s_e6e79a5e90788fe9_id
      s_bc6e6b03361a3588_layout s_bc6e6b03361a3588_id
      s_846c49e52011ab72_layout s_846c49e52011ab72_id
      s_c14cec50de3b170f_layout s_c14cec50de3b170f_id
      s_a3736725e03665aa_layout s_a3736725e03665aa_id
      s_9b94a9ab05aba83b_layout s_9b94a9ab05aba83b_id)

end
