(* ===== verification/WireMemcopy.thy ===== *)
theory WireMemcopy
  imports Wire
begin

section \<open>The messages of memcopy.capnp\<close>

text \<open>
  \<open>proto/proto/memcopy.capnp.h\<close>, RDMA endpoints and plans, and memory operations: for
  every generated struct the constants its accessors pass to the runtime, one definition per field
  (width, element offset and default of a data field, index of a pointer field), and the sizes of
  its sections, from the declaration.
\<close>

text \<open>\<open>RdmaEndpoint\<close>\<close>

definition RdmaEndpoint_ip :: pfield where "RdmaEndpoint_ip = pointer_field 0"
definition RdmaEndpoint_port :: dfield where "RdmaEndpoint_port = data_field 16 0 0"
definition RdmaEndpoint_gid :: pfield where "RdmaEndpoint_gid = pointer_field 1"
definition RdmaEndpoint_key :: dfield where "RdmaEndpoint_key = data_field 32 1 0"
definition RdmaEndpoint_layout :: layout where
  "RdmaEndpoint_layout = struct_layout 1 2
     [RdmaEndpoint_port, RdmaEndpoint_key]
     [RdmaEndpoint_ip, RdmaEndpoint_gid]"

text \<open>\<open>RdmaPlan\<close>\<close>

definition RdmaPlan_success :: dfield where "RdmaPlan_success = data_field 1 0 0"
definition RdmaPlan_srcAddr :: dfield where "RdmaPlan_srcAddr = data_field 64 1 0"
definition RdmaPlan_srcKey :: dfield where "RdmaPlan_srcKey = data_field 32 1 0"
definition RdmaPlan_dstAddr :: dfield where "RdmaPlan_dstAddr = data_field 64 2 0"
definition RdmaPlan_dstKey :: dfield where "RdmaPlan_dstKey = data_field 32 6 0"
definition RdmaPlan_layout :: layout where
  "RdmaPlan_layout = struct_layout 4 0
     [RdmaPlan_success, RdmaPlan_srcAddr, RdmaPlan_srcKey, RdmaPlan_dstAddr, RdmaPlan_dstKey]
     []"

text \<open>\<open>MemoryOp\<close>\<close>

definition MemoryOp_type :: dfield where "MemoryOp_type = data_field 16 0 0"
definition MemoryOp_target :: pfield where "MemoryOp_target = pointer_field 0"
definition MemoryOp_source :: pfield where "MemoryOp_source = pointer_field 1"
definition MemoryOp_value :: dfield where "MemoryOp_value = data_field 8 2 0"
definition MemoryOp_data :: pfield where "MemoryOp_data = pointer_field 2"
definition MemoryOp_checksum :: dfield where "MemoryOp_checksum = data_field 32 1 0"
definition MemoryOp_endpoint :: pfield where "MemoryOp_endpoint = pointer_field 3"
definition MemoryOp_flags :: dfield where "MemoryOp_flags = data_field 32 2 0"
definition MemoryOp_layout :: layout where
  "MemoryOp_layout = struct_layout 2 4
     [MemoryOp_type, MemoryOp_value, MemoryOp_checksum, MemoryOp_flags]
     [MemoryOp_target, MemoryOp_source, MemoryOp_data, MemoryOp_endpoint]"

definition wireMemcopy_layouts :: "layout list" where
  "wireMemcopy_layouts = [
     RdmaEndpoint_layout, RdmaPlan_layout, MemoryOp_layout]"

lemmas wireMemcopy_fields =
  RdmaEndpoint_ip_def RdmaEndpoint_port_def RdmaEndpoint_gid_def RdmaEndpoint_key_def
  RdmaEndpoint_layout_def RdmaPlan_success_def RdmaPlan_srcAddr_def RdmaPlan_srcKey_def RdmaPlan_dstAddr_def
  RdmaPlan_dstKey_def RdmaPlan_layout_def MemoryOp_type_def MemoryOp_target_def MemoryOp_source_def
  MemoryOp_value_def MemoryOp_data_def MemoryOp_checksum_def MemoryOp_endpoint_def MemoryOp_flags_def
  MemoryOp_layout_def

lemma wireMemcopy_layouts_ok: "list_all layout_ok wireMemcopy_layouts"
  by (simp add: wireMemcopy_layouts_def wireMemcopy_fields struct_layout_def layout_ok_def inside_def apart_def
      first_bit_def data_field_def pointer_field_def)

end
