(* ===== verification/SchemaMemcopy.thy ===== *)
theory SchemaMemcopy
  imports Schema WireMemcopy
begin

section \<open>The schemas of memcopy.capnp\<close>

text \<open>
  \<open>proto/proto/memcopy.capnp.c++\<close>: the schema nodes and their \<open>RawSchema\<close>s, with what each describes. The
  enumerators are those of \<open>memcopy.capnp.h\<close>.
\<close>

text \<open>\<open>RdmaEndpoint\<close>, a struct\<close>

definition b_bfbb01f7c22a476e :: table where
  "b_bfbb01f7c22a476e = [
     W 0 0 0 0 6 0 6 0,
     W 110 71 42 194 247 1 187 191,
     W 14 0 0 0 1 0 1 0,
     W 239 205 171 16 50 84 118 152,
     W 2 0 7 0 0 0 0 0,
     W 0 0 0 0 0 0 0 0,
     W 63 0 0 0 222 0 0 0,
     W 21 0 0 0 218 0 0 0,
     W 33 0 0 0 7 0 0 0,
     W 0 0 0 0 0 0 0 0,
     W 29 0 0 0 231 0 0 0,
     W 0 0 0 0 0 0 0 0,
     W 0 0 0 0 0 0 0 0,
     W 109 101 109 99 111 112 121 46,
     W 99 97 112 110 112 58 82 100,
     W 109 97 69 110 100 112 111 105,
     W 110 116 0 0 0 0 0 0,
     W 0 0 0 0 1 0 1 0,
     W 16 0 0 0 3 0 4 0,
     W 0 0 0 0 0 0 0 0,
     W 0 0 1 0 0 0 0 0,
     W 0 0 0 0 0 0 0 0,
     W 97 0 0 0 26 0 0 0,
     W 0 0 0 0 0 0 0 0,
     W 92 0 0 0 3 0 1 0,
     W 104 0 0 0 2 0 1 0,
     W 1 0 0 0 0 0 0 0,
     W 0 0 1 0 1 0 0 0,
     W 0 0 0 0 0 0 0 0,
     W 101 0 0 0 42 0 0 0,
     W 0 0 0 0 0 0 0 0,
     W 96 0 0 0 3 0 1 0,
     W 108 0 0 0 2 0 1 0,
     W 2 0 0 0 1 0 0 0,
     W 0 0 1 0 2 0 0 0,
     W 0 0 0 0 0 0 0 0,
     W 105 0 0 0 34 0 0 0,
     W 0 0 0 0 0 0 0 0,
     W 100 0 0 0 3 0 1 0,
     W 112 0 0 0 2 0 1 0,
     W 3 0 0 0 1 0 0 0,
     W 0 0 1 0 3 0 0 0,
     W 0 0 0 0 0 0 0 0,
     W 109 0 0 0 34 0 0 0,
     W 0 0 0 0 0 0 0 0,
     W 104 0 0 0 3 0 1 0,
     W 116 0 0 0 2 0 1 0,
     W 105 112 0 0 0 0 0 0,
     W 12 0 0 0 0 0 0 0,
     W 0 0 0 0 0 0 0 0,
     W 0 0 0 0 0 0 0 0,
     W 0 0 0 0 0 0 0 0,
     W 12 0 0 0 0 0 0 0,
     W 0 0 0 0 0 0 0 0,
     W 0 0 0 0 0 0 0 0,
     W 112 111 114 116 0 0 0 0,
     W 7 0 0 0 0 0 0 0,
     W 0 0 0 0 0 0 0 0,
     W 0 0 0 0 0 0 0 0,
     W 0 0 0 0 0 0 0 0,
     W 7 0 0 0 0 0 0 0,
     W 0 0 0 0 0 0 0 0,
     W 0 0 0 0 0 0 0 0,
     W 103 105 100 0 0 0 0 0,
     W 13 0 0 0 0 0 0 0,
     W 0 0 0 0 0 0 0 0,
     W 0 0 0 0 0 0 0 0,
     W 0 0 0 0 0 0 0 0,
     W 13 0 0 0 0 0 0 0,
     W 0 0 0 0 0 0 0 0,
     W 0 0 0 0 0 0 0 0,
     W 107 101 121 0 0 0 0 0,
     W 8 0 0 0 0 0 0 0,
     W 0 0 0 0 0 0 0 0,
     W 0 0 0 0 0 0 0 0,
     W 0 0 0 0 0 0 0 0,
     W 8 0 0 0 0 0 0 0,
     W 0 0 0 0 0 0 0 0,
     W 0 0 0 0 0 0 0 0]"

definition s_bfbb01f7c22a476e :: raw_schema where
  "s_bfbb01f7c22a476e = RawSchema 0xbfbb01f7c22a476e b_bfbb01f7c22a476e 79
     []
     [2, 0, 3, 1] 0 4
     [0, 1, 2, 3]"

lemma b_bfbb01f7c22a476e_node:
  "length b_bfbb01f7c22a476e = 79"
  "read_node b_bfbb01f7c22a476e = Some (0xbfbb01f7c22a476e, StructBody 1 2 None [
       sfield [105, 112] 65535 0 (Plain 12) 12 0,
       sfield [112, 111, 114, 116] 65535 0 (Plain 7) 7 0,
       sfield [103, 105, 100] 65535 1 (Plain 13) 13 0,
       sfield [107, 101, 121] 65535 1 (Plain 8) 8 0])"
  by (simp_all add: b_bfbb01f7c22a476e_def read_table sfield_def cong: table_congs bind_head_cong)

lemma s_bfbb01f7c22a476e_id: "schema_id s_bfbb01f7c22a476e = 0xbfbb01f7c22a476e"
  by (simp add: s_bfbb01f7c22a476e_def)

lemma s_bfbb01f7c22a476e_ok: "schema_ok s_bfbb01f7c22a476e"
  by (simp add: s_bfbb01f7c22a476e_def b_bfbb01f7c22a476e_node ordered_by_def sfield_def)

lemma s_bfbb01f7c22a476e_layout: "layout_of s_bfbb01f7c22a476e = Some RdmaEndpoint_layout"
  by (simp add: s_bfbb01f7c22a476e_def b_bfbb01f7c22a476e_node describe_table sfield_def struct_layout_def wireMemcopy_fields)

text \<open>\<open>RdmaPlan\<close>, a struct\<close>

definition b_e99466c69afeb3b6 :: table where
  "b_e99466c69afeb3b6 = [
     W 0 0 0 0 6 0 6 0,
     W 182 179 254 154 198 102 148 233,
     W 14 0 0 0 1 0 4 0,
     W 239 205 171 16 50 84 118 152,
     W 0 0 7 0 0 0 0 0,
     W 0 0 0 0 0 0 0 0,
     W 226 0 0 0 101 1 0 0,
     W 21 0 0 0 186 0 0 0,
     W 29 0 0 0 7 0 0 0,
     W 0 0 0 0 0 0 0 0,
     W 25 0 0 0 31 1 0 0,
     W 0 0 0 0 0 0 0 0,
     W 0 0 0 0 0 0 0 0,
     W 109 101 109 99 111 112 121 46,
     W 99 97 112 110 112 58 82 100,
     W 109 97 80 108 97 110 0 0,
     W 0 0 0 0 1 0 1 0,
     W 20 0 0 0 3 0 4 0,
     W 0 0 0 0 0 0 0 0,
     W 0 0 1 0 0 0 0 0,
     W 0 0 0 0 0 0 0 0,
     W 125 0 0 0 66 0 0 0,
     W 0 0 0 0 0 0 0 0,
     W 120 0 0 0 3 0 1 0,
     W 132 0 0 0 2 0 1 0,
     W 1 0 0 0 1 0 0 0,
     W 0 0 1 0 1 0 0 0,
     W 0 0 0 0 0 0 0 0,
     W 129 0 0 0 66 0 0 0,
     W 0 0 0 0 0 0 0 0,
     W 124 0 0 0 3 0 1 0,
     W 136 0 0 0 2 0 1 0,
     W 2 0 0 0 1 0 0 0,
     W 0 0 1 0 2 0 0 0,
     W 0 0 0 0 0 0 0 0,
     W 133 0 0 0 58 0 0 0,
     W 0 0 0 0 0 0 0 0,
     W 128 0 0 0 3 0 1 0,
     W 140 0 0 0 2 0 1 0,
     W 3 0 0 0 2 0 0 0,
     W 0 0 1 0 3 0 0 0,
     W 0 0 0 0 0 0 0 0,
     W 137 0 0 0 66 0 0 0,
     W 0 0 0 0 0 0 0 0,
     W 132 0 0 0 3 0 1 0,
     W 144 0 0 0 2 0 1 0,
     W 4 0 0 0 6 0 0 0,
     W 0 0 1 0 4 0 0 0,
     W 0 0 0 0 0 0 0 0,
     W 141 0 0 0 58 0 0 0,
     W 0 0 0 0 0 0 0 0,
     W 136 0 0 0 3 0 1 0,
     W 148 0 0 0 2 0 1 0,
     W 115 117 99 99 101 115 115 0,
     W 1 0 0 0 0 0 0 0,
     W 0 0 0 0 0 0 0 0,
     W 0 0 0 0 0 0 0 0,
     W 0 0 0 0 0 0 0 0,
     W 1 0 0 0 0 0 0 0,
     W 0 0 0 0 0 0 0 0,
     W 0 0 0 0 0 0 0 0,
     W 115 114 99 65 100 100 114 0,
     W 9 0 0 0 0 0 0 0,
     W 0 0 0 0 0 0 0 0,
     W 0 0 0 0 0 0 0 0,
     W 0 0 0 0 0 0 0 0,
     W 9 0 0 0 0 0 0 0,
     W 0 0 0 0 0 0 0 0,
     W 0 0 0 0 0 0 0 0,
     W 115 114 99 75 101 121 0 0,
     W 8 0 0 0 0 0 0 0,
     W 0 0 0 0 0 0 0 0,
     W 0 0 0 0 0 0 0 0,
     W 0 0 0 0 0 0 0 0,
     W 8 0 0 0 0 0 0 0,
     W 0 0 0 0 0 0 0 0,
     W 0 0 0 0 0 0 0 0,
     W 100 115 116 65 100 100 114 0,
     W 9 0 0 0 0 0 0 0,
     W 0 0 0 0 0 0 0 0,
     W 0 0 0 0 0 0 0 0,
     W 0 0 0 0 0 0 0 0,
     W 9 0 0 0 0 0 0 0,
     W 0 0 0 0 0 0 0 0,
     W 0 0 0 0 0 0 0 0,
     W 100 115 116 75 101 121 0 0,
     W 8 0 0 0 0 0 0 0,
     W 0 0 0 0 0 0 0 0,
     W 0 0 0 0 0 0 0 0,
     W 0 0 0 0 0 0 0 0,
     W 8 0 0 0 0 0 0 0,
     W 0 0 0 0 0 0 0 0,
     W 0 0 0 0 0 0 0 0]"

definition s_e99466c69afeb3b6 :: raw_schema where
  "s_e99466c69afeb3b6 = RawSchema 0xe99466c69afeb3b6 b_e99466c69afeb3b6 93
     []
     [3, 4, 1, 2, 0] 0 5
     [0, 1, 2, 3, 4]"

lemma b_e99466c69afeb3b6_node:
  "length b_e99466c69afeb3b6 = 93"
  "read_node b_e99466c69afeb3b6 = Some (0xe99466c69afeb3b6, StructBody 4 0 None [
       sfield [115, 117, 99, 99, 101, 115, 115] 65535 0 (Plain 1) 1 0,
       sfield [115, 114, 99, 65, 100, 100, 114] 65535 1 (Plain 9) 9 0,
       sfield [115, 114, 99, 75, 101, 121] 65535 1 (Plain 8) 8 0,
       sfield [100, 115, 116, 65, 100, 100, 114] 65535 2 (Plain 9) 9 0,
       sfield [100, 115, 116, 75, 101, 121] 65535 6 (Plain 8) 8 0])"
  by (simp_all add: b_e99466c69afeb3b6_def read_table sfield_def cong: table_congs bind_head_cong)

lemma s_e99466c69afeb3b6_id: "schema_id s_e99466c69afeb3b6 = 0xe99466c69afeb3b6"
  by (simp add: s_e99466c69afeb3b6_def)

lemma s_e99466c69afeb3b6_ok: "schema_ok s_e99466c69afeb3b6"
  by (simp add: s_e99466c69afeb3b6_def b_e99466c69afeb3b6_node ordered_by_def sfield_def)

lemma s_e99466c69afeb3b6_layout: "layout_of s_e99466c69afeb3b6 = Some RdmaPlan_layout"
  by (simp add: s_e99466c69afeb3b6_def b_e99466c69afeb3b6_node describe_table sfield_def struct_layout_def wireMemcopy_fields)

text \<open>\<open>OperationType\<close>, an enum\<close>

definition b_b1846500d8538ab3 :: table where
  "b_b1846500d8538ab3 = [
     W 0 0 0 0 6 0 6 0,
     W 179 138 83 216 0 101 132 177,
     W 14 0 0 0 2 0 0 0,
     W 239 205 171 16 50 84 118 152,
     W 0 0 0 0 0 0 0 0,
     W 0 0 0 0 0 0 0 0,
     W 105 1 0 0 247 1 0 0,
     W 21 0 0 0 226 0 0 0,
     W 33 0 0 0 7 0 0 0,
     W 0 0 0 0 0 0 0 0,
     W 29 0 0 0 103 0 0 0,
     W 0 0 0 0 0 0 0 0,
     W 0 0 0 0 0 0 0 0,
     W 109 101 109 99 111 112 121 46,
     W 99 97 112 110 112 58 79 112,
     W 101 114 97 116 105 111 110 84,
     W 121 112 101 0 0 0 0 0,
     W 0 0 0 0 1 0 1 0,
     W 16 0 0 0 1 0 2 0,
     W 0 0 0 0 0 0 0 0,
     W 41 0 0 0 42 0 0 0,
     W 0 0 0 0 0 0 0 0,
     W 1 0 0 0 0 0 0 0,
     W 33 0 0 0 34 0 0 0,
     W 0 0 0 0 0 0 0 0,
     W 2 0 0 0 0 0 0 0,
     W 25 0 0 0 42 0 0 0,
     W 0 0 0 0 0 0 0 0,
     W 3 0 0 0 0 0 0 0,
     W 17 0 0 0 34 0 0 0,
     W 0 0 0 0 0 0 0 0,
     W 99 111 112 121 0 0 0 0,
     W 115 101 116 0 0 0 0 0,
     W 114 101 97 100 0 0 0 0,
     W 103 100 114 0 0 0 0 0]"

definition s_b1846500d8538ab3 :: raw_schema where
  "s_b1846500d8538ab3 = RawSchema 0xb1846500d8538ab3 b_b1846500d8538ab3 35
     []
     [0, 3, 2, 1] 0 4
     []"

lemma b_b1846500d8538ab3_node:
  "length b_b1846500d8538ab3 = 35"
  "read_node b_b1846500d8538ab3 = Some (0xb1846500d8538ab3, EnumBody [
       [99, 111, 112, 121], [115, 101, 116], [114, 101, 97, 100], [103, 100, 114]])"
  by (simp_all add: b_b1846500d8538ab3_def read_table sfield_def cong: table_congs bind_head_cong)

lemma s_b1846500d8538ab3_id: "schema_id s_b1846500d8538ab3 = 0xb1846500d8538ab3"
  by (simp add: s_b1846500d8538ab3_def)

lemma s_b1846500d8538ab3_ok: "schema_ok s_b1846500d8538ab3"
  by (simp add: s_b1846500d8538ab3_def b_b1846500d8538ab3_node ordered_by_def sfield_def)

definition OperationType_enumerators :: "string list" where
  "OperationType_enumerators = [''COPY'', ''SET'', ''READ'', ''GDR'']"

lemma s_b1846500d8538ab3_enumerants: "map_option (map upper_snake) (enumerants_of s_b1846500d8538ab3) = Some (map name_octets OperationType_enumerators)"
  by (simp add: s_b1846500d8538ab3_def b_b1846500d8538ab3_node describe_table OperationType_enumerators_def upper_snake_def name_octets_def)

text \<open>\<open>MemoryOp\<close>, a struct\<close>

definition b_cc682938866a54f1 :: table where
  "b_cc682938866a54f1 = [
     W 0 0 0 0 6 0 6 0,
     W 241 84 106 134 56 41 104 204,
     W 14 0 0 0 1 0 2 0,
     W 239 205 171 16 50 84 118 152,
     W 4 0 7 0 0 0 0 0,
     W 0 0 0 0 0 0 0 0,
     W 251 1 0 0 232 3 0 0,
     W 21 0 0 0 186 0 0 0,
     W 29 0 0 0 7 0 0 0,
     W 0 0 0 0 0 0 0 0,
     W 25 0 0 0 199 1 0 0,
     W 0 0 0 0 0 0 0 0,
     W 0 0 0 0 0 0 0 0,
     W 109 101 109 99 111 112 121 46,
     W 99 97 112 110 112 58 77 101,
     W 109 111 114 121 79 112 0 0,
     W 0 0 0 0 1 0 1 0,
     W 32 0 0 0 3 0 4 0,
     W 0 0 0 0 0 0 0 0,
     W 0 0 1 0 0 0 0 0,
     W 0 0 0 0 0 0 0 0,
     W 209 0 0 0 42 0 0 0,
     W 0 0 0 0 0 0 0 0,
     W 204 0 0 0 3 0 1 0,
     W 216 0 0 0 2 0 1 0,
     W 1 0 0 0 0 0 0 0,
     W 0 0 1 0 1 0 0 0,
     W 0 0 0 0 0 0 0 0,
     W 213 0 0 0 58 0 0 0,
     W 0 0 0 0 0 0 0 0,
     W 208 0 0 0 3 0 1 0,
     W 220 0 0 0 2 0 1 0,
     W 2 0 0 0 1 0 0 0,
     W 0 0 1 0 2 0 0 0,
     W 0 0 0 0 0 0 0 0,
     W 217 0 0 0 58 0 0 0,
     W 0 0 0 0 0 0 0 0,
     W 212 0 0 0 3 0 1 0,
     W 224 0 0 0 2 0 1 0,
     W 3 0 0 0 2 0 0 0,
     W 0 0 1 0 3 0 0 0,
     W 0 0 0 0 0 0 0 0,
     W 221 0 0 0 50 0 0 0,
     W 0 0 0 0 0 0 0 0,
     W 216 0 0 0 3 0 1 0,
     W 228 0 0 0 2 0 1 0,
     W 4 0 0 0 2 0 0 0,
     W 0 0 1 0 4 0 0 0,
     W 0 0 0 0 0 0 0 0,
     W 225 0 0 0 42 0 0 0,
     W 0 0 0 0 0 0 0 0,
     W 220 0 0 0 3 0 1 0,
     W 232 0 0 0 2 0 1 0,
     W 5 0 0 0 1 0 0 0,
     W 0 0 1 0 5 0 0 0,
     W 0 0 0 0 0 0 0 0,
     W 229 0 0 0 74 0 0 0,
     W 0 0 0 0 0 0 0 0,
     W 228 0 0 0 3 0 1 0,
     W 240 0 0 0 2 0 1 0,
     W 6 0 0 0 3 0 0 0,
     W 0 0 1 0 6 0 0 0,
     W 0 0 0 0 0 0 0 0,
     W 237 0 0 0 74 0 0 0,
     W 0 0 0 0 0 0 0 0,
     W 236 0 0 0 3 0 1 0,
     W 248 0 0 0 2 0 1 0,
     W 7 0 0 0 2 0 0 0,
     W 0 0 1 0 7 0 0 0,
     W 0 0 0 0 0 0 0 0,
     W 245 0 0 0 50 0 0 0,
     W 0 0 0 0 0 0 0 0,
     W 240 0 0 0 3 0 1 0,
     W 252 0 0 0 2 0 1 0,
     W 116 121 112 101 0 0 0 0,
     W 15 0 0 0 0 0 0 0,
     W 179 138 83 216 0 101 132 177,
     W 0 0 0 0 0 0 0 0,
     W 0 0 0 0 0 0 0 0,
     W 15 0 0 0 0 0 0 0,
     W 0 0 0 0 0 0 0 0,
     W 0 0 0 0 0 0 0 0,
     W 116 97 114 103 101 116 0 0,
     W 16 0 0 0 0 0 0 0,
     W 170 101 54 224 37 103 115 163,
     W 0 0 0 0 0 0 0 0,
     W 0 0 0 0 0 0 0 0,
     W 16 0 0 0 0 0 0 0,
     W 0 0 0 0 0 0 0 0,
     W 0 0 0 0 0 0 0 0,
     W 115 111 117 114 99 101 0 0,
     W 16 0 0 0 0 0 0 0,
     W 170 101 54 224 37 103 115 163,
     W 0 0 0 0 0 0 0 0,
     W 0 0 0 0 0 0 0 0,
     W 16 0 0 0 0 0 0 0,
     W 0 0 0 0 0 0 0 0,
     W 0 0 0 0 0 0 0 0,
     W 118 97 108 117 101 0 0 0,
     W 6 0 0 0 0 0 0 0,
     W 0 0 0 0 0 0 0 0,
     W 0 0 0 0 0 0 0 0,
     W 0 0 0 0 0 0 0 0,
     W 6 0 0 0 0 0 0 0,
     W 0 0 0 0 0 0 0 0,
     W 0 0 0 0 0 0 0 0,
     W 100 97 116 97 0 0 0 0,
     W 13 0 0 0 0 0 0 0,
     W 0 0 0 0 0 0 0 0,
     W 0 0 0 0 0 0 0 0,
     W 0 0 0 0 0 0 0 0,
     W 13 0 0 0 0 0 0 0,
     W 0 0 0 0 0 0 0 0,
     W 0 0 0 0 0 0 0 0,
     W 99 104 101 99 107 115 117 109,
     W 0 0 0 0 0 0 0 0,
     W 8 0 0 0 0 0 0 0,
     W 0 0 0 0 0 0 0 0,
     W 0 0 0 0 0 0 0 0,
     W 0 0 0 0 0 0 0 0,
     W 8 0 0 0 0 0 0 0,
     W 0 0 0 0 0 0 0 0,
     W 0 0 0 0 0 0 0 0,
     W 101 110 100 112 111 105 110 116,
     W 0 0 0 0 0 0 0 0,
     W 16 0 0 0 0 0 0 0,
     W 110 71 42 194 247 1 187 191,
     W 0 0 0 0 0 0 0 0,
     W 0 0 0 0 0 0 0 0,
     W 16 0 0 0 0 0 0 0,
     W 0 0 0 0 0 0 0 0,
     W 0 0 0 0 0 0 0 0,
     W 102 108 97 103 115 0 0 0,
     W 8 0 0 0 0 0 0 0,
     W 0 0 0 0 0 0 0 0,
     W 0 0 0 0 0 0 0 0,
     W 0 0 0 0 0 0 0 0,
     W 8 0 0 0 0 0 0 0,
     W 0 0 0 0 0 0 0 0,
     W 0 0 0 0 0 0 0 0]"

definition s_cc682938866a54f1 :: raw_schema where
  "s_cc682938866a54f1 = RawSchema 0xcc682938866a54f1 b_cc682938866a54f1 140
     [0xa3736725e03665aa, 0xb1846500d8538ab3, 0xbfbb01f7c22a476e]
     [5, 4, 6, 7, 2, 1, 0, 3] 3 8
     [0, 1, 2, 3, 4, 5, 6, 7]"

lemma b_cc682938866a54f1_node:
  "length b_cc682938866a54f1 = 140"
  "read_node b_cc682938866a54f1 = Some (0xcc682938866a54f1, StructBody 2 4 None [
       sfield [116, 121, 112, 101] 65535 0 (Named 15 0xb1846500d8538ab3) 15 0,
       sfield [116, 97, 114, 103, 101, 116] 65535 0 (Named 16 0xa3736725e03665aa) 16 0,
       sfield [115, 111, 117, 114, 99, 101] 65535 1 (Named 16 0xa3736725e03665aa) 16 0,
       sfield [118, 97, 108, 117, 101] 65535 2 (Plain 6) 6 0,
       sfield [100, 97, 116, 97] 65535 2 (Plain 13) 13 0,
       sfield [99, 104, 101, 99, 107, 115, 117, 109] 65535 1 (Plain 8) 8 0,
       sfield [101, 110, 100, 112, 111, 105, 110, 116] 65535 3 (Named 16 0xbfbb01f7c22a476e) 16 0,
       sfield [102, 108, 97, 103, 115] 65535 2 (Plain 8) 8 0])"
  by (simp_all add: b_cc682938866a54f1_def read_table sfield_def cong: table_congs bind_head_cong)

lemma s_cc682938866a54f1_id: "schema_id s_cc682938866a54f1 = 0xcc682938866a54f1"
  by (simp add: s_cc682938866a54f1_def)

lemma s_cc682938866a54f1_ok: "schema_ok s_cc682938866a54f1"
  by (simp add: s_cc682938866a54f1_def b_cc682938866a54f1_node ordered_by_def sfield_def)

lemma s_cc682938866a54f1_layout: "layout_of s_cc682938866a54f1 = Some MemoryOp_layout"
  by (simp add: s_cc682938866a54f1_def b_cc682938866a54f1_node describe_table sfield_def struct_layout_def wireMemcopy_fields)

subsection \<open>All of them\<close>

definition schemaMemcopy_schemas :: "raw_schema list" where
  "schemaMemcopy_schemas = [
     s_bfbb01f7c22a476e, s_e99466c69afeb3b6, s_b1846500d8538ab3, s_cc682938866a54f1]"

lemma schemaMemcopy_schemas_ok: "list_all schema_ok schemaMemcopy_schemas"
  by (simp add: schemaMemcopy_schemas_def
      s_bfbb01f7c22a476e_ok s_e99466c69afeb3b6_ok s_b1846500d8538ab3_ok s_cc682938866a54f1_ok)

lemmas schemaMemcopy_defs = schemaMemcopy_schemas_def
  s_bfbb01f7c22a476e_def s_e99466c69afeb3b6_def s_b1846500d8538ab3_def s_cc682938866a54f1_def

lemma schemaMemcopy_ids: "map schema_id schemaMemcopy_schemas = [
     0xbfbb01f7c22a476e, 0xe99466c69afeb3b6, 0xb1846500d8538ab3, 0xcc682938866a54f1]"
  by (simp add: schemaMemcopy_schemas_def
      s_bfbb01f7c22a476e_id s_e99466c69afeb3b6_id s_b1846500d8538ab3_id s_cc682938866a54f1_id)

text \<open>The structs with the ids and layouts of the header, in its order.\<close>

definition schemaMemcopy_structs :: "raw_schema list" where
  "schemaMemcopy_structs = [
     s_bfbb01f7c22a476e, s_e99466c69afeb3b6, s_cc682938866a54f1]"

definition schemaMemcopy_headers :: "(nat \<times> layout) list" where
  "schemaMemcopy_headers = [
     (0xbfbb01f7c22a476e, RdmaEndpoint_layout), (0xe99466c69afeb3b6, RdmaPlan_layout),
     (0xcc682938866a54f1, MemoryOp_layout)]"

lemma schemaMemcopy_structs_layouts:
  "map (\<lambda>s. (schema_id s, layout_of s)) schemaMemcopy_structs = map (\<lambda>(i, l). (i, Some l)) schemaMemcopy_headers"
  by (simp add: schemaMemcopy_structs_def schemaMemcopy_headers_def
      s_bfbb01f7c22a476e_layout s_bfbb01f7c22a476e_id
      s_e99466c69afeb3b6_layout s_e99466c69afeb3b6_id
      s_cc682938866a54f1_layout s_cc682938866a54f1_id)

end
