(* ===== verification/WireKernel.thy ===== *)
theory WireKernel
  imports Wire
begin

section \<open>The messages of kernel.capnp\<close>

text \<open>
  \<open>proto/proto/kernel.capnp.h\<close>, kernel launches and their parameters: for every
  generated struct the constants its accessors pass to the runtime, one definition per field
  (width, element offset and default of a data field, index of a pointer field), and the sizes of
  its sections, from the declaration.
\<close>

text \<open>\<open>KernelParam\<close>\<close>

definition KernelParam_type :: dfield where "KernelParam_type = data_field 16 0 0"
definition KernelParam_value :: pfield where "KernelParam_value = pointer_field 0"
definition KernelParam_offset :: dfield where "KernelParam_offset = data_field 32 1 0"
definition KernelParam_alignment :: dfield where "KernelParam_alignment = data_field 8 2 4"
definition KernelParam_layout :: layout where
  "KernelParam_layout = struct_layout 1 1
     [KernelParam_type, KernelParam_offset, KernelParam_alignment]
     [KernelParam_value]"

text \<open>\<open>KernelLaunch\<close>\<close>

definition KernelLaunch_name :: pfield where "KernelLaunch_name = pointer_field 0"
definition KernelLaunch_gridX :: dfield where "KernelLaunch_gridX = data_field 32 0 0"
definition KernelLaunch_gridY :: dfield where "KernelLaunch_gridY = data_field 32 1 0"
definition KernelLaunch_gridZ :: dfield where "KernelLaunch_gridZ = data_field 32 2 0"
definition KernelLaunch_blockX :: dfield where "KernelLaunch_blockX = data_field 32 3 0"
definition KernelLaunch_blockY :: dfield where "KernelLaunch_blockY = data_field 32 4 0"
definition KernelLaunch_blockZ :: dfield where "KernelLaunch_blockZ = data_field 32 5 0"
definition KernelLaunch_sharedMem :: dfield where "KernelLaunch_sharedMem = data_field 32 6 0"
definition KernelLaunch_params :: pfield where "KernelLaunch_params = pointer_field 1"
definition KernelLaunch_streamHandle :: dfield where "KernelLaunch_streamHandle = data_field 64 4 0"
definition KernelLaunch_paramBytes :: dfield where "KernelLaunch_paramBytes = data_field 32 7 0"
definition KernelLaunch_funcHandle :: dfield where "KernelLaunch_funcHandle = data_field 64 5 0"
definition KernelLaunch_launchFlags :: dfield where "KernelLaunch_launchFlags = data_field 32 12 0"
definition KernelLaunch_layout :: layout where
  "KernelLaunch_layout = struct_layout 7 2
     [KernelLaunch_gridX, KernelLaunch_gridY, KernelLaunch_gridZ, KernelLaunch_blockX, KernelLaunch_blockY,
      KernelLaunch_blockZ, KernelLaunch_sharedMem, KernelLaunch_streamHandle, KernelLaunch_paramBytes,
      KernelLaunch_funcHandle, KernelLaunch_launchFlags]
     [KernelLaunch_name, KernelLaunch_params]"

definition wireKernel_layouts :: "layout list" where
  "wireKernel_layouts = [
     KernelParam_layout, KernelLaunch_layout]"

lemmas wireKernel_fields =
  KernelParam_type_def KernelParam_value_def KernelParam_offset_def KernelParam_alignment_def
  KernelParam_layout_def KernelLaunch_name_def KernelLaunch_gridX_def KernelLaunch_gridY_def
  KernelLaunch_gridZ_def KernelLaunch_blockX_def KernelLaunch_blockY_def KernelLaunch_blockZ_def
  KernelLaunch_sharedMem_def KernelLaunch_params_def KernelLaunch_streamHandle_def
  KernelLaunch_paramBytes_def KernelLaunch_funcHandle_def KernelLaunch_launchFlags_def
  KernelLaunch_layout_def

lemma wireKernel_layouts_ok: "list_all layout_ok wireKernel_layouts"
  by (simp add: wireKernel_layouts_def wireKernel_fields struct_layout_def layout_ok_def inside_def apart_def
      first_bit_def data_field_def pointer_field_def)

end
