(* ===== verification/SchemaKernel.thy ===== *)
theory SchemaKernel
  imports Schema WireKernel
begin

section \<open>The schemas of kernel.capnp\<close>

text \<open>
  \<open>proto/proto/kernel.capnp.c++\<close>: the schema nodes and their \<open>RawSchema\<close>s, with what each describes. The
  enumerators are those of \<open>kernel.capnp.h\<close>.
\<close>

text \<open>\<open>ParamType\<close>, an enum\<close>

definition b_9c484a39a5aec725 :: table where
  "b_9c484a39a5aec725 = [
     W 0 0 0 0 6 0 6 0,
     W 37 199 174 165 57 74 72 156,
     W 13 0 0 0 2 0 0 0,
     W 34 34 17 17 255 255 238 238,
     W 0 0 0 0 0 0 0 0,
     W 0 0 0 0 0 0 0 0,
     W 84 0 0 0 225 0 0 0,
     W 21 0 0 0 186 0 0 0,
     W 29 0 0 0 7 0 0 0,
     W 0 0 0 0 0 0 0 0,
     W 25 0 0 0 79 0 0 0,
     W 0 0 0 0 0 0 0 0,
     W 0 0 0 0 0 0 0 0,
     W 107 101 114 110 101 108 46 99,
     W 97 112 110 112 58 80 97 114,
     W 97 109 84 121 112 101 0 0,
     W 0 0 0 0 1 0 1 0,
     W 12 0 0 0 1 0 2 0,
     W 0 0 0 0 0 0 0 0,
     W 29 0 0 0 58 0 0 0,
     W 0 0 0 0 0 0 0 0,
     W 1 0 0 0 0 0 0 0,
     W 21 0 0 0 66 0 0 0,
     W 0 0 0 0 0 0 0 0,
     W 2 0 0 0 0 0 0 0,
     W 13 0 0 0 58 0 0 0,
     W 0 0 0 0 0 0 0 0,
     W 115 99 97 108 97 114 0 0,
     W 112 111 105 110 116 101 114 0,
     W 98 117 102 102 101 114 0 0]"

definition s_9c484a39a5aec725 :: raw_schema where
  "s_9c484a39a5aec725 = RawSchema 0x9c484a39a5aec725 b_9c484a39a5aec725 30
     []
     [2, 1, 0] 0 3
     []"

lemma b_9c484a39a5aec725_node:
  "length b_9c484a39a5aec725 = 30"
  "read_node b_9c484a39a5aec725 = Some (0x9c484a39a5aec725, EnumBody [
       [115, 99, 97, 108, 97, 114], [112, 111, 105, 110, 116, 101, 114],
       [98, 117, 102, 102, 101, 114]])"
  by (simp_all add: b_9c484a39a5aec725_def read_table sfield_def cong: table_congs bind_head_cong)

lemma s_9c484a39a5aec725_id: "schema_id s_9c484a39a5aec725 = 0x9c484a39a5aec725"
  by (simp add: s_9c484a39a5aec725_def)

lemma s_9c484a39a5aec725_ok: "schema_ok s_9c484a39a5aec725"
  by (simp add: s_9c484a39a5aec725_def b_9c484a39a5aec725_node ordered_by_def sfield_def)

definition ParamType_enumerators :: "string list" where
  "ParamType_enumerators = [''SCALAR'', ''POINTER'', ''BUFFER'']"

lemma s_9c484a39a5aec725_enumerants: "map_option (map upper_snake) (enumerants_of s_9c484a39a5aec725) = Some (map name_octets ParamType_enumerators)"
  by (simp add: s_9c484a39a5aec725_def b_9c484a39a5aec725_node describe_table ParamType_enumerators_def upper_snake_def name_octets_def)

text \<open>\<open>KernelParam\<close>, a struct\<close>

definition b_f534929fc869aa1f :: table where
  "b_f534929fc869aa1f = [
     W 0 0 0 0 6 0 6 0,
     W 31 170 105 200 159 146 52 245,
     W 13 0 0 0 1 0 1 0,
     W 34 34 17 17 255 255 238 238,
     W 1 0 7 0 0 0 0 0,
     W 0 0 0 0 0 0 0 0,
     W 227 0 0 0 236 1 0 0,
     W 21 0 0 0 202 0 0 0,
     W 33 0 0 0 7 0 0 0,
     W 0 0 0 0 0 0 0 0,
     W 29 0 0 0 231 0 0 0,
     W 0 0 0 0 0 0 0 0,
     W 0 0 0 0 0 0 0 0,
     W 107 101 114 110 101 108 46 99,
     W 97 112 110 112 58 75 101 114,
     W 110 101 108 80 97 114 97 109,
     W 0 0 0 0 0 0 0 0,
     W 0 0 0 0 1 0 1 0,
     W 16 0 0 0 3 0 4 0,
     W 0 0 0 0 0 0 0 0,
     W 0 0 1 0 0 0 0 0,
     W 0 0 0 0 0 0 0 0,
     W 97 0 0 0 42 0 0 0,
     W 0 0 0 0 0 0 0 0,
     W 92 0 0 0 3 0 1 0,
     W 104 0 0 0 2 0 1 0,
     W 1 0 0 0 0 0 0 0,
     W 0 0 1 0 1 0 0 0,
     W 0 0 0 0 0 0 0 0,
     W 101 0 0 0 50 0 0 0,
     W 0 0 0 0 0 0 0 0,
     W 96 0 0 0 3 0 1 0,
     W 108 0 0 0 2 0 1 0,
     W 2 0 0 0 1 0 0 0,
     W 0 0 1 0 2 0 0 0,
     W 0 0 0 0 0 0 0 0,
     W 105 0 0 0 58 0 0 0,
     W 0 0 0 0 0 0 0 0,
     W 100 0 0 0 3 0 1 0,
     W 112 0 0 0 2 0 1 0,
     W 3 0 0 0 2 0 0 0,
     W 0 0 1 0 3 0 0 0,
     W 1 0 0 0 0 0 0 0,
     W 109 0 0 0 82 0 0 0,
     W 0 0 0 0 0 0 0 0,
     W 108 0 0 0 3 0 1 0,
     W 120 0 0 0 2 0 1 0,
     W 116 121 112 101 0 0 0 0,
     W 15 0 0 0 0 0 0 0,
     W 37 199 174 165 57 74 72 156,
     W 0 0 0 0 0 0 0 0,
     W 0 0 0 0 0 0 0 0,
     W 15 0 0 0 0 0 0 0,
     W 0 0 0 0 0 0 0 0,
     W 0 0 0 0 0 0 0 0,
     W 118 97 108 117 101 0 0 0,
     W 13 0 0 0 0 0 0 0,
     W 0 0 0 0 0 0 0 0,
     W 0 0 0 0 0 0 0 0,
     W 0 0 0 0 0 0 0 0,
     W 13 0 0 0 0 0 0 0,
     W 0 0 0 0 0 0 0 0,
     W 0 0 0 0 0 0 0 0,
     W 111 102 102 115 101 116 0 0,
     W 8 0 0 0 0 0 0 0,
     W 0 0 0 0 0 0 0 0,
     W 0 0 0 0 0 0 0 0,
     W 0 0 0 0 0 0 0 0,
     W 8 0 0 0 0 0 0 0,
     W 0 0 0 0 0 0 0 0,
     W 0 0 0 0 0 0 0 0,
     W 97 108 105 103 110 109 101 110,
     W 116 0 0 0 0 0 0 0,
     W 6 0 0 0 0 0 0 0,
     W 0 0 0 0 0 0 0 0,
     W 0 0 0 0 0 0 0 0,
     W 0 0 0 0 0 0 0 0,
     W 6 0 4 0 0 0 0 0,
     W 0 0 0 0 0 0 0 0,
     W 0 0 0 0 0 0 0 0]"

definition s_f534929fc869aa1f :: raw_schema where
  "s_f534929fc869aa1f = RawSchema 0xf534929fc869aa1f b_f534929fc869aa1f 80
     [0x9c484a39a5aec725]
     [3, 2, 0, 1] 1 4
     [0, 1, 2, 3]"

lemma b_f534929fc869aa1f_node:
  "length b_f534929fc869aa1f = 80"
  "read_node b_f534929fc869aa1f = Some (0xf534929fc869aa1f, StructBody 1 1 None [
       sfield [116, 121, 112, 101] 65535 0 (Named 15 0x9c484a39a5aec725) 15 0,
       sfield [118, 97, 108, 117, 101] 65535 0 (Plain 13) 13 0,
       sfield [111, 102, 102, 115, 101, 116] 65535 1 (Plain 8) 8 0,
       sfield [97, 108, 105, 103, 110, 109, 101, 110, 116] 65535 2 (Plain 6) 6 4])"
  by (simp_all add: b_f534929fc869aa1f_def read_table sfield_def cong: table_congs bind_head_cong)

lemma s_f534929fc869aa1f_id: "schema_id s_f534929fc869aa1f = 0xf534929fc869aa1f"
  by (simp add: s_f534929fc869aa1f_def)

lemma s_f534929fc869aa1f_ok: "schema_ok s_f534929fc869aa1f"
  by (simp add: s_f534929fc869aa1f_def b_f534929fc869aa1f_node ordered_by_def sfield_def)

lemma s_f534929fc869aa1f_layout: "layout_of s_f534929fc869aa1f = Some KernelParam_layout"
  by (simp add: s_f534929fc869aa1f_def b_f534929fc869aa1f_node describe_table sfield_def struct_layout_def wireKernel_fields)

text \<open>\<open>KernelLaunch\<close>, a struct\<close>

definition b_e75f86cc94035b6a :: table where
  "b_e75f86cc94035b6a = [
     W 0 0 0 0 6 0 6 0,
     W 106 91 3 148 204 134 95 231,
     W 13 0 0 0 1 0 7 0,
     W 34 34 17 17 255 255 238 238,
     W 2 0 7 0 0 0 0 0,
     W 0 0 0 0 0 0 0 0,
     W 238 1 0 0 166 4 0 0,
     W 21 0 0 0 210 0 0 0,
     W 33 0 0 0 7 0 0 0,
     W 0 0 0 0 0 0 0 0,
     W 29 0 0 0 223 2 0 0,
     W 0 0 0 0 0 0 0 0,
     W 0 0 0 0 0 0 0 0,
     W 107 101 114 110 101 108 46 99,
     W 97 112 110 112 58 75 101 114,
     W 110 101 108 76 97 117 110 99,
     W 104 0 0 0 0 0 0 0,
     W 0 0 0 0 1 0 1 0,
     W 52 0 0 0 3 0 4 0,
     W 0 0 0 0 0 0 0 0,
     W 0 0 1 0 0 0 0 0,
     W 0 0 0 0 0 0 0 0,
     W 93 1 0 0 42 0 0 0,
     W 0 0 0 0 0 0 0 0,
     W 88 1 0 0 3 0 1 0,
     W 100 1 0 0 2 0 1 0,
     W 1 0 0 0 0 0 0 0,
     W 0 0 1 0 1 0 0 0,
     W 0 0 0 0 0 0 0 0,
     W 97 1 0 0 50 0 0 0,
     W 0 0 0 0 0 0 0 0,
     W 92 1 0 0 3 0 1 0,
     W 104 1 0 0 2 0 1 0,
     W 2 0 0 0 1 0 0 0,
     W 0 0 1 0 2 0 0 0,
     W 0 0 0 0 0 0 0 0,
     W 101 1 0 0 50 0 0 0,
     W 0 0 0 0 0 0 0 0,
     W 96 1 0 0 3 0 1 0,
     W 108 1 0 0 2 0 1 0,
     W 3 0 0 0 2 0 0 0,
     W 0 0 1 0 3 0 0 0,
     W 0 0 0 0 0 0 0 0,
     W 105 1 0 0 50 0 0 0,
     W 0 0 0 0 0 0 0 0,
     W 100 1 0 0 3 0 1 0,
     W 112 1 0 0 2 0 1 0,
     W 4 0 0 0 3 0 0 0,
     W 0 0 1 0 4 0 0 0,
     W 0 0 0 0 0 0 0 0,
     W 109 1 0 0 58 0 0 0,
     W 0 0 0 0 0 0 0 0,
     W 104 1 0 0 3 0 1 0,
     W 116 1 0 0 2 0 1 0,
     W 5 0 0 0 4 0 0 0,
     W 0 0 1 0 5 0 0 0,
     W 0 0 0 0 0 0 0 0,
     W 113 1 0 0 58 0 0 0,
     W 0 0 0 0 0 0 0 0,
     W 108 1 0 0 3 0 1 0,
     W 120 1 0 0 2 0 1 0,
     W 6 0 0 0 5 0 0 0,
     W 0 0 1 0 6 0 0 0,
     W 0 0 0 0 0 0 0 0,
     W 117 1 0 0 58 0 0 0,
     W 0 0 0 0 0 0 0 0,
     W 112 1 0 0 3 0 1 0,
     W 124 1 0 0 2 0 1 0,
     W 7 0 0 0 6 0 0 0,
     W 0 0 1 0 7 0 0 0,
     W 0 0 0 0 0 0 0 0,
     W 121 1 0 0 82 0 0 0,
     W 0 0 0 0 0 0 0 0,
     W 120 1 0 0 3 0 1 0,
     W 132 1 0 0 2 0 1 0,
     W 8 0 0 0 1 0 0 0,
     W 0 0 1 0 8 0 0 0,
     W 0 0 0 0 0 0 0 0,
     W 129 1 0 0 58 0 0 0,
     W 0 0 0 0 0 0 0 0,
     W 124 1 0 0 3 0 1 0,
     W 152 1 0 0 2 0 1 0,
     W 9 0 0 0 4 0 0 0,
     W 0 0 1 0 9 0 0 0,
     W 1 0 0 0 0 0 0 0,
     W 149 1 0 0 106 0 0 0,
     W 0 0 0 0 0 0 0 0,
     W 148 1 0 0 3 0 1 0,
     W 160 1 0 0 2 0 1 0,
     W 10 0 0 0 7 0 0 0,
     W 0 0 1 0 10 0 0 0,
     W 1 0 0 0 0 0 0 0,
     W 157 1 0 0 90 0 0 0,
     W 0 0 0 0 0 0 0 0,
     W 156 1 0 0 3 0 1 0,
     W 168 1 0 0 2 0 1 0,
     W 11 0 0 0 5 0 0 0,
     W 0 0 1 0 11 0 0 0,
     W 1 0 0 0 0 0 0 0,
     W 165 1 0 0 90 0 0 0,
     W 0 0 0 0 0 0 0 0,
     W 164 1 0 0 3 0 1 0,
     W 176 1 0 0 2 0 1 0,
     W 12 0 0 0 12 0 0 0,
     W 0 0 1 0 12 0 0 0,
     W 1 0 0 0 0 0 0 0,
     W 173 1 0 0 98 0 0 0,
     W 0 0 0 0 0 0 0 0,
     W 172 1 0 0 3 0 1 0,
     W 184 1 0 0 2 0 1 0,
     W 110 97 109 101 0 0 0 0,
     W 12 0 0 0 0 0 0 0,
     W 0 0 0 0 0 0 0 0,
     W 0 0 0 0 0 0 0 0,
     W 0 0 0 0 0 0 0 0,
     W 12 0 0 0 0 0 0 0,
     W 0 0 0 0 0 0 0 0,
     W 0 0 0 0 0 0 0 0,
     W 103 114 105 100 88 0 0 0,
     W 8 0 0 0 0 0 0 0,
     W 0 0 0 0 0 0 0 0,
     W 0 0 0 0 0 0 0 0,
     W 0 0 0 0 0 0 0 0,
     W 8 0 0 0 0 0 0 0,
     W 0 0 0 0 0 0 0 0,
     W 0 0 0 0 0 0 0 0,
     W 103 114 105 100 89 0 0 0,
     W 8 0 0 0 0 0 0 0,
     W 0 0 0 0 0 0 0 0,
     W 0 0 0 0 0 0 0 0,
     W 0 0 0 0 0 0 0 0,
     W 8 0 0 0 0 0 0 0,
     W 0 0 0 0 0 0 0 0,
     W 0 0 0 0 0 0 0 0,
     W 103 114 105 100 90 0 0 0,
     W 8 0 0 0 0 0 0 0,
     W 0 0 0 0 0 0 0 0,
     W 0 0 0 0 0 0 0 0,
     W 0 0 0 0 0 0 0 0,
     W 8 0 0 0 0 0 0 0,
     W 0 0 0 0 0 0 0 0,
     W 0 0 0 0 0 0 0 0,
     W 98 108 111 99 107 88 0 0,
     W 8 0 0 0 0 0 0 0,
     W 0 0 0 0 0 0 0 0,
     W 0 0 0 0 0 0 0 0,
     W 0 0 0 0 0 0 0 0,
     W 8 0 0 0 0 0 0 0,
     W 0 0 0 0 0 0 0 0,
     W 0 0 0 0 0 0 0 0,
     W 98 108 111 99 107 89 0 0,
     W 8 0 0 0 0 0 0 0,
     W 0 0 0 0 0 0 0 0,
     W 0 0 0 0 0 0 0 0,
     W 0 0 0 0 0 0 0 0,
     W 8 0 0 0 0 0 0 0,
     W 0 0 0 0 0 0 0 0,
     W 0 0 0 0 0 0 0 0,
     W 98 108 111 99 107 90 0 0,
     W 8 0 0 0 0 0 0 0,
     W 0 0 0 0 0 0 0 0,
     W 0 0 0 0 0 0 0 0,
     W 0 0 0 0 0 0 0 0,
     W 8 0 0 0 0 0 0 0,
     W 0 0 0 0 0 0 0 0,
     W 0 0 0 0 0 0 0 0,
     W 115 104 97 114 101 100 77 101,
     W 109 0 0 0 0 0 0 0,
     W 8 0 0 0 0 0 0 0,
     W 0 0 0 0 0 0 0 0,
     W 0 0 0 0 0 0 0 0,
     W 0 0 0 0 0 0 0 0,
     W 8 0 0 0 0 0 0 0,
     W 0 0 0 0 0 0 0 0,
     W 0 0 0 0 0 0 0 0,
     W 112 97 114 97 109 115 0 0,
     W 14 0 0 0 0 0 0 0,
     W 0 0 0 0 0 0 0 0,
     W 0 0 0 0 0 0 0 0,
     W 0 0 0 0 3 0 1 0,
     W 16 0 0 0 0 0 0 0,
     W 31 170 105 200 159 146 52 245,
     W 0 0 0 0 0 0 0 0,
     W 0 0 0 0 0 0 0 0,
     W 14 0 0 0 0 0 0 0,
     W 0 0 0 0 0 0 0 0,
     W 0 0 0 0 0 0 0 0,
     W 115 116 114 101 97 109 72 97,
     W 110 100 108 101 0 0 0 0,
     W 9 0 0 0 0 0 0 0,
     W 0 0 0 0 0 0 0 0,
     W 0 0 0 0 0 0 0 0,
     W 0 0 0 0 0 0 0 0,
     W 9 0 0 0 0 0 0 0,
     W 0 0 0 0 0 0 0 0,
     W 0 0 0 0 0 0 0 0,
     W 112 97 114 97 109 66 121 116,
     W 101 115 0 0 0 0 0 0,
     W 8 0 0 0 0 0 0 0,
     W 0 0 0 0 0 0 0 0,
     W 0 0 0 0 0 0 0 0,
     W 0 0 0 0 0 0 0 0,
     W 8 0 0 0 0 0 0 0,
     W 0 0 0 0 0 0 0 0,
     W 0 0 0 0 0 0 0 0,
     W 102 117 110 99 72 97 110 100,
     W 108 101 0 0 0 0 0 0,
     W 9 0 0 0 0 0 0 0,
     W 0 0 0 0 0 0 0 0,
     W 0 0 0 0 0 0 0 0,
     W 0 0 0 0 0 0 0 0,
     W 9 0 0 0 0 0 0 0,
     W 0 0 0 0 0 0 0 0,
     W 0 0 0 0 0 0 0 0,
     W 108 97 117 110 99 104 70 108,
     W 97 103 115 0 0 0 0 0,
     W 8 0 0 0 0 0 0 0,
     W 0 0 0 0 0 0 0 0,
     W 0 0 0 0 0 0 0 0,
     W 0 0 0 0 0 0 0 0,
     W 8 0 0 0 0 0 0 0,
     W 0 0 0 0 0 0 0 0,
     W 0 0 0 0 0 0 0 0]"

definition s_e75f86cc94035b6a :: raw_schema where
  "s_e75f86cc94035b6a = RawSchema 0xe75f86cc94035b6a b_e75f86cc94035b6a 223
     [0xf534929fc869aa1f]
     [4, 5, 6, 11, 1, 2, 3, 12, 0, 10, 8, 7, 9] 1 13
     [0, 1, 2, 3, 4, 5, 6, 7, 8, 9, 10, 11, 12]"

lemma b_e75f86cc94035b6a_node:
  "length b_e75f86cc94035b6a = 223"
  "read_node b_e75f86cc94035b6a = Some (0xe75f86cc94035b6a, StructBody 7 2 None [
       sfield [110, 97, 109, 101] 65535 0 (Plain 12) 12 0,
       sfield [103, 114, 105, 100, 88] 65535 0 (Plain 8) 8 0,
       sfield [103, 114, 105, 100, 89] 65535 1 (Plain 8) 8 0,
       sfield [103, 114, 105, 100, 90] 65535 2 (Plain 8) 8 0,
       sfield [98, 108, 111, 99, 107, 88] 65535 3 (Plain 8) 8 0,
       sfield [98, 108, 111, 99, 107, 89] 65535 4 (Plain 8) 8 0,
       sfield [98, 108, 111, 99, 107, 90] 65535 5 (Plain 8) 8 0,
       sfield [115, 104, 97, 114, 101, 100, 77, 101, 109] 65535 6 (Plain 8) 8 0,
       sfield [112, 97, 114, 97, 109, 115] 65535 1 (ListOf (Named 16 0xf534929fc869aa1f)) 14 0,
       sfield [115, 116, 114, 101, 97, 109, 72, 97, 110, 100, 108, 101] 65535 4 (Plain 9) 9 0,
       sfield [112, 97, 114, 97, 109, 66, 121, 116, 101, 115] 65535 7 (Plain 8) 8 0,
       sfield [102, 117, 110, 99, 72, 97, 110, 100, 108, 101] 65535 5 (Plain 9) 9 0,
       sfield [108, 97, 117, 110, 99, 104, 70, 108, 97, 103, 115] 65535 12 (Plain 8) 8 0])"
  by (simp_all add: b_e75f86cc94035b6a_def read_table sfield_def cong: table_congs bind_head_cong)

lemma s_e75f86cc94035b6a_id: "schema_id s_e75f86cc94035b6a = 0xe75f86cc94035b6a"
  by (simp add: s_e75f86cc94035b6a_def)

lemma s_e75f86cc94035b6a_ok: "schema_ok s_e75f86cc94035b6a"
  by (simp add: s_e75f86cc94035b6a_def b_e75f86cc94035b6a_node ordered_by_def sfield_def)

lemma s_e75f86cc94035b6a_layout: "layout_of s_e75f86cc94035b6a = Some KernelLaunch_layout"
  by (simp add: s_e75f86cc94035b6a_def b_e75f86cc94035b6a_node describe_table sfield_def struct_layout_def wireKernel_fields)

subsection \<open>All of them\<close>

definition schemaKernel_schemas :: "raw_schema list" where
  "schemaKernel_schemas = [
     s_9c484a39a5aec725, s_f534929fc869aa1f, s_e75f86cc94035b6a]"

lemma schemaKernel_schemas_ok: "list_all schema_ok schemaKernel_schemas"
  by (simp add: schemaKernel_schemas_def
      s_9c484a39a5aec725_ok s_f534929fc869aa1f_ok s_e75f86cc94035b6a_ok)

lemmas schemaKernel_defs = schemaKernel_schemas_def
  s_9c484a39a5aec725_def s_f534929fc869aa1f_def s_e75f86cc94035b6a_def

lemma schemaKernel_ids: "map schema_id schemaKernel_schemas = [
     0x9c484a39a5aec725, 0xf534929fc869aa1f, 0xe75f86cc94035b6a]"
  by (simp add: schemaKernel_schemas_def
      s_9c484a39a5aec725_id s_f534929fc869aa1f_id s_e75f86cc94035b6a_id)

text \<open>The structs with the ids and layouts of the header, in its order.\<close>

definition schemaKernel_structs :: "raw_schema list" where
  "schemaKernel_structs = [
     s_f534929fc869aa1f, s_e75f86cc94035b6a]"

definition schemaKernel_headers :: "(nat \<times> layout) list" where
  "schemaKernel_headers = [
     (0xf534929fc869aa1f, KernelParam_layout), (0xe75f86cc94035b6a, KernelLaunch_layout)]"

lemma schemaKernel_structs_layouts:
  "map (\<lambda>s. (schema_id s, layout_of s)) schemaKernel_structs = map (\<lambda>(i, l). (i, Some l)) schemaKernel_headers"
  by (simp add: schemaKernel_structs_def schemaKernel_headers_def
      s_f534929fc869aa1f_layout s_f534929fc869aa1f_id
      s_e75f86cc94035b6a_layout s_e75f86cc94035b6a_id)

end
