(* ===== verification/SchemaHookLauncher.thy ===== *)
theory SchemaHookLauncher
  imports Schema WireHookLauncher
begin

section \<open>The schemas of hook-launcher.capnp\<close>

text \<open>
  \<open>proto/proto/hook-launcher.capnp.c++\<close>: the schema nodes and their \<open>RawSchema\<close>s, with what each describes. The
  enumerators are those of \<open>hook-launcher.capnp.h\<close>.
\<close>

text \<open>\<open>MemcpyPlan\<close>, a struct\<close>

definition b_ddb256ee5b6b53b3 :: table where
  "b_ddb256ee5b6b53b3 = [
     W 0 0 0 0 6 0 6 0,
     W 179 83 107 91 238 86 178 221,
     W 20 0 0 0 1 0 1 0,
     W 113 94 165 177 235 173 187 218,
     W 1 0 7 0 0 0 0 0,
     W 0 0 0 0 0 0 0 0,
     W 130 1 0 0 246 1 0 0,
     W 21 0 0 0 250 0 0 0,
     W 33 0 0 0 7 0 0 0,
     W 0 0 0 0 0 0 0 0,
     W 29 0 0 0 175 0 0 0,
     W 0 0 0 0 0 0 0 0,
     W 0 0 0 0 0 0 0 0,
     W 104 111 111 107 45 108 97 117,
     W 110 99 104 101 114 46 99 97,
     W 112 110 112 58 77 101 109 99,
     W 112 121 80 108 97 110 0 0,
     W 0 0 0 0 1 0 1 0,
     W 12 0 0 0 3 0 4 0,
     W 0 0 0 0 0 0 0 0,
     W 0 0 1 0 0 0 0 0,
     W 0 0 0 0 0 0 0 0,
     W 69 0 0 0 122 0 0 0,
     W 0 0 0 0 0 0 0 0,
     W 68 0 0 0 3 0 1 0,
     W 80 0 0 0 2 0 1 0,
     W 1 0 0 0 0 0 0 0,
     W 0 0 1 0 1 0 0 0,
     W 0 0 0 0 0 0 0 0,
     W 77 0 0 0 162 0 0 0,
     W 0 0 0 0 0 0 0 0,
     W 80 0 0 0 3 0 1 0,
     W 92 0 0 0 2 0 1 0,
     W 2 0 0 0 1 0 0 0,
     W 0 0 1 0 2 0 0 0,
     W 0 0 0 0 0 0 0 0,
     W 89 0 0 0 50 0 0 0,
     W 0 0 0 0 0 0 0 0,
     W 84 0 0 0 3 0 1 0,
     W 96 0 0 0 2 0 1 0,
     W 116 97 114 103 101 116 83 101,
     W 114 118 101 114 73 112 0 0,
     W 12 0 0 0 0 0 0 0,
     W 0 0 0 0 0 0 0 0,
     W 0 0 0 0 0 0 0 0,
     W 0 0 0 0 0 0 0 0,
     W 12 0 0 0 0 0 0 0,
     W 0 0 0 0 0 0 0 0,
     W 0 0 0 0 0 0 0 0,
     W 116 97 114 103 101 116 83 101,
     W 114 118 101 114 90 109 113 80,
     W 111 114 116 0 0 0 0 0,
     W 7 0 0 0 0 0 0 0,
     W 0 0 0 0 0 0 0 0,
     W 0 0 0 0 0 0 0 0,
     W 0 0 0 0 0 0 0 0,
     W 7 0 0 0 0 0 0 0,
     W 0 0 0 0 0 0 0 0,
     W 0 0 0 0 0 0 0 0,
     W 101 114 114 111 114 0 0 0,
     W 15 0 0 0 0 0 0 0,
     W 125 7 179 164 122 15 56 253,
     W 0 0 0 0 0 0 0 0,
     W 0 0 0 0 0 0 0 0,
     W 15 0 0 0 0 0 0 0,
     W 0 0 0 0 0 0 0 0,
     W 0 0 0 0 0 0 0 0]"

definition s_ddb256ee5b6b53b3 :: raw_schema where
  "s_ddb256ee5b6b53b3 = RawSchema 0xddb256ee5b6b53b3 b_ddb256ee5b6b53b3 67
     [0xfd380f7aa4b3077d]
     [2, 0, 1] 1 3
     [0, 1, 2]"

lemma b_ddb256ee5b6b53b3_node:
  "length b_ddb256ee5b6b53b3 = 67"
  "read_node b_ddb256ee5b6b53b3 = Some (0xddb256ee5b6b53b3, StructBody 1 1 None [
       sfield [116, 97, 114, 103, 101, 116, 83, 101, 114, 118, 101, 114, 73, 112] 65535 0 (Plain 12)
       12 0,
       sfield [116, 97, 114, 103, 101, 116, 83, 101, 114, 118, 101, 114, 90, 109, 113, 80, 111, 114,
       116] 65535 0 (Plain 7) 7 0,
       sfield [101, 114, 114, 111, 114] 65535 1 (Named 15 0xfd380f7aa4b3077d) 15 0])"
  by (simp_all add: b_ddb256ee5b6b53b3_def read_table sfield_def cong: table_congs bind_head_cong)

lemma s_ddb256ee5b6b53b3_id: "schema_id s_ddb256ee5b6b53b3 = 0xddb256ee5b6b53b3"
  by (simp add: s_ddb256ee5b6b53b3_def)

lemma s_ddb256ee5b6b53b3_ok: "schema_ok s_ddb256ee5b6b53b3"
  by (simp add: s_ddb256ee5b6b53b3_def b_ddb256ee5b6b53b3_node ordered_by_def sfield_def)

lemma s_ddb256ee5b6b53b3_layout: "layout_of s_ddb256ee5b6b53b3 = Some MemcpyPlan_layout"
  by (simp add: s_ddb256ee5b6b53b3_def b_ddb256ee5b6b53b3_node describe_table sfield_def struct_layout_def wireHookLauncher_fields)

text \<open>\<open>NodeStatus\<close>, a struct\<close>

definition b_eb7186a22c3fa0de :: table where
  "b_eb7186a22c3fa0de = [
     W 0 0 0 0 6 0 6 0,
     W 222 160 63 44 162 134 113 235,
     W 20 0 0 0 1 0 4 0,
     W 113 94 165 177 235 173 187 218,
     W 1 0 7 0 0 0 0 0,
     W 0 0 0 0 0 0 0 0,
     W 250 1 0 0 108 3 0 0,
     W 21 0 0 0 250 0 0 0,
     W 33 0 0 0 7 0 0 0,
     W 0 0 0 0 0 0 0 0,
     W 29 0 0 0 143 1 0 0,
     W 0 0 0 0 0 0 0 0,
     W 0 0 0 0 0 0 0 0,
     W 104 111 111 107 45 108 97 117,
     W 110 99 104 101 114 46 99 97,
     W 112 110 112 58 78 111 100 101,
     W 83 116 97 116 117 115 0 0,
     W 0 0 0 0 1 0 1 0,
     W 28 0 0 0 3 0 4 0,
     W 0 0 0 0 0 0 0 0,
     W 0 0 1 0 0 0 0 0,
     W 0 0 0 0 0 0 0 0,
     W 181 0 0 0 26 0 0 0,
     W 0 0 0 0 0 0 0 0,
     W 176 0 0 0 3 0 1 0,
     W 188 0 0 0 2 0 1 0,
     W 1 0 0 0 0 0 0 0,
     W 0 0 1 0 1 0 0 0,
     W 0 0 0 0 0 0 0 0,
     W 185 0 0 0 130 0 0 0,
     W 0 0 0 0 0 0 0 0,
     W 184 0 0 0 3 0 1 0,
     W 196 0 0 0 2 0 1 0,
     W 2 0 0 0 2 0 0 0,
     W 0 0 1 0 2 0 0 0,
     W 0 0 0 0 0 0 0 0,
     W 193 0 0 0 122 0 0 0,
     W 0 0 0 0 0 0 0 0,
     W 192 0 0 0 3 0 1 0,
     W 204 0 0 0 2 0 1 0,
     W 3 0 0 0 3 0 0 0,
     W 0 0 1 0 3 0 0 0,
     W 0 0 0 0 0 0 0 0,
     W 201 0 0 0 122 0 0 0,
     W 0 0 0 0 0 0 0 0,
     W 200 0 0 0 3 0 1 0,
     W 212 0 0 0 2 0 1 0,
     W 4 0 0 0 4 0 0 0,
     W 0 0 1 0 4 0 0 0,
     W 0 0 0 0 0 0 0 0,
     W 209 0 0 0 74 0 0 0,
     W 0 0 0 0 0 0 0 0,
     W 208 0 0 0 3 0 1 0,
     W 220 0 0 0 2 0 1 0,
     W 5 0 0 0 5 0 0 0,
     W 0 0 1 0 5 0 0 0,
     W 0 0 0 0 0 0 0 0,
     W 217 0 0 0 74 0 0 0,
     W 0 0 0 0 0 0 0 0,
     W 216 0 0 0 3 0 1 0,
     W 228 0 0 0 2 0 1 0,
     W 6 0 0 0 192 0 0 0,
     W 0 0 1 0 6 0 0 0,
     W 0 0 0 0 0 0 0 0,
     W 225 0 0 0 98 0 0 0,
     W 0 0 0 0 0 0 0 0,
     W 224 0 0 0 3 0 1 0,
     W 236 0 0 0 2 0 1 0,
     W 105 100 0 0 0 0 0 0,
     W 12 0 0 0 0 0 0 0,
     W 0 0 0 0 0 0 0 0,
     W 0 0 0 0 0 0 0 0,
     W 0 0 0 0 0 0 0 0,
     W 12 0 0 0 0 0 0 0,
     W 0 0 0 0 0 0 0 0,
     W 0 0 0 0 0 0 0 0,
     W 97 118 97 105 108 97 98 108,
     W 101 77 101 109 111 114 121 0,
     W 9 0 0 0 0 0 0 0,
     W 0 0 0 0 0 0 0 0,
     W 0 0 0 0 0 0 0 0,
     W 0 0 0 0 0 0 0 0,
     W 9 0 0 0 0 0 0 0,
     W 0 0 0 0 0 0 0 0,
     W 0 0 0 0 0 0 0 0,
     W 103 112 117 85 116 105 108 105,
     W 122 97 116 105 111 110 0 0,
     W 10 0 0 0 0 0 0 0,
     W 0 0 0 0 0 0 0 0,
     W 0 0 0 0 0 0 0 0,
     W 0 0 0 0 0 0 0 0,
     W 10 0 0 0 0 0 0 0,
     W 0 0 0 0 0 0 0 0,
     W 0 0 0 0 0 0 0 0,
     W 110 101 116 119 111 114 107 76,
     W 97 116 101 110 99 121 0 0,
     W 10 0 0 0 0 0 0 0,
     W 0 0 0 0 0 0 0 0,
     W 0 0 0 0 0 0 0 0,
     W 0 0 0 0 0 0 0 0,
     W 10 0 0 0 0 0 0 0,
     W 0 0 0 0 0 0 0 0,
     W 0 0 0 0 0 0 0 0,
     W 110 117 109 97 78 111 100 101,
     W 0 0 0 0 0 0 0 0,
     W 8 0 0 0 0 0 0 0,
     W 0 0 0 0 0 0 0 0,
     W 0 0 0 0 0 0 0 0,
     W 0 0 0 0 0 0 0 0,
     W 8 0 0 0 0 0 0 0,
     W 0 0 0 0 0 0 0 0,
     W 0 0 0 0 0 0 0 0,
     W 103 112 117 67 111 117 110 116,
     W 0 0 0 0 0 0 0 0,
     W 8 0 0 0 0 0 0 0,
     W 0 0 0 0 0 0 0 0,
     W 0 0 0 0 0 0 0 0,
     W 0 0 0 0 0 0 0 0,
     W 8 0 0 0 0 0 0 0,
     W 0 0 0 0 0 0 0 0,
     W 0 0 0 0 0 0 0 0,
     W 114 100 109 97 83 117 112 112,
     W 111 114 116 0 0 0 0 0,
     W 1 0 0 0 0 0 0 0,
     W 0 0 0 0 0 0 0 0,
     W 0 0 0 0 0 0 0 0,
     W 0 0 0 0 0 0 0 0,
     W 1 0 0 0 0 0 0 0,
     W 0 0 0 0 0 0 0 0,
     W 0 0 0 0 0 0 0 0]"

definition s_eb7186a22c3fa0de :: raw_schema where
  "s_eb7186a22c3fa0de = RawSchema 0xeb7186a22c3fa0de b_eb7186a22c3fa0de 130
     []
     [1, 5, 2, 0, 3, 4, 6] 0 7
     [0, 1, 2, 3, 4, 5, 6]"

lemma b_eb7186a22c3fa0de_node:
  "length b_eb7186a22c3fa0de = 130"
  "read_node b_eb7186a22c3fa0de = Some (0xeb7186a22c3fa0de, StructBody 4 1 None [
       sfield [105, 100] 65535 0 (Plain 12) 12 0,
       sfield [97, 118, 97, 105, 108, 97, 98, 108, 101, 77, 101, 109, 111, 114, 121] 65535 0 (Plain
       9) 9 0,
       sfield [103, 112, 117, 85, 116, 105, 108, 105, 122, 97, 116, 105, 111, 110] 65535 2 (Plain
       10) 10 0,
       sfield [110, 101, 116, 119, 111, 114, 107, 76, 97, 116, 101, 110, 99, 121] 65535 3 (Plain 10)
       10 0,
       sfield [110, 117, 109, 97, 78, 111, 100, 101] 65535 4 (Plain 8) 8 0,
       sfield [103, 112, 117, 67, 111, 117, 110, 116] 65535 5 (Plain 8) 8 0,
       sfield [114, 100, 109, 97, 83, 117, 112, 112, 111, 114, 116] 65535 192 (Plain 1) 1 0])"
  by (simp_all add: b_eb7186a22c3fa0de_def read_table sfield_def cong: table_congs bind_head_cong)

lemma s_eb7186a22c3fa0de_id: "schema_id s_eb7186a22c3fa0de = 0xeb7186a22c3fa0de"
  by (simp add: s_eb7186a22c3fa0de_def)

lemma s_eb7186a22c3fa0de_ok: "schema_ok s_eb7186a22c3fa0de"
  by (simp add: s_eb7186a22c3fa0de_def b_eb7186a22c3fa0de_node ordered_by_def sfield_def)

lemma s_eb7186a22c3fa0de_layout: "layout_of s_eb7186a22c3fa0de = Some NodeStatus_layout"
  by (simp add: s_eb7186a22c3fa0de_def b_eb7186a22c3fa0de_node describe_table sfield_def struct_layout_def wireHookLauncher_fields)

text \<open>\<open>AllocationPlan\<close>, a struct\<close>

definition b_f853fd580170b9de :: table where
  "b_f853fd580170b9de = [
     W 0 0 0 0 6 0 6 0,
     W 222 185 112 1 88 253 83 248,
     W 20 0 0 0 1 0 2 0,
     W 113 94 165 177 235 173 187 218,
     W 0 0 7 0 0 0 0 0,
     W 0 0 0 0 0 0 0 0,
     W 152 3 0 0 159 4 0 0,
     W 21 0 0 0 26 1 0 0,
     W 37 0 0 0 7 0 0 0,
     W 0 0 0 0 0 0 0 0,
     W 33 0 0 0 231 0 0 0,
     W 0 0 0 0 0 0 0 0,
     W 0 0 0 0 0 0 0 0,
     W 104 111 111 107 45 108 97 117,
     W 110 99 104 101 114 46 99 97,
     W 112 110 112 58 65 108 108 111,
     W 99 97 116 105 111 110 80 108,
     W 97 110 0 0 0 0 0 0,
     W 0 0 0 0 1 0 1 0,
     W 16 0 0 0 3 0 4 0,
     W 0 0 0 0 0 0 0 0,
     W 0 0 1 0 0 0 0 0,
     W 0 0 0 0 0 0 0 0,
     W 97 0 0 0 106 0 0 0,
     W 0 0 0 0 0 0 0 0,
     W 96 0 0 0 3 0 1 0,
     W 108 0 0 0 2 0 1 0,
     W 1 0 0 0 2 0 0 0,
     W 0 0 1 0 1 0 0 0,
     W 0 0 0 0 0 0 0 0,
     W 105 0 0 0 90 0 0 0,
     W 0 0 0 0 0 0 0 0,
     W 104 0 0 0 3 0 1 0,
     W 116 0 0 0 2 0 1 0,
     W 2 0 0 0 3 0 0 0,
     W 0 0 1 0 2 0 0 0,
     W 0 0 0 0 0 0 0 0,
     W 113 0 0 0 114 0 0 0,
     W 0 0 0 0 0 0 0 0,
     W 112 0 0 0 3 0 1 0,
     W 124 0 0 0 2 0 1 0,
     W 3 0 0 0 64 0 0 0,
     W 0 0 1 0 3 0 0 0,
     W 0 0 0 0 0 0 0 0,
     W 121 0 0 0 106 0 0 0,
     W 0 0 0 0 0 0 0 0,
     W 120 0 0 0 3 0 1 0,
     W 132 0 0 0 2 0 1 0,
     W 116 97 114 103 101 116 78 111,
     W 100 101 73 100 0 0 0 0,
     W 8 0 0 0 0 0 0 0,
     W 0 0 0 0 0 0 0 0,
     W 0 0 0 0 0 0 0 0,
     W 0 0 0 0 0 0 0 0,
     W 8 0 0 0 0 0 0 0,
     W 0 0 0 0 0 0 0 0,
     W 0 0 0 0 0 0 0 0,
     W 109 101 109 111 114 121 84 121,
     W 112 101 0 0 0 0 0 0,
     W 15 0 0 0 0 0 0 0,
     W 73 70 23 226 125 241 172 250,
     W 0 0 0 0 0 0 0 0,
     W 0 0 0 0 0 0 0 0,
     W 15 0 0 0 0 0 0 0,
     W 0 0 0 0 0 0 0 0,
     W 0 0 0 0 0 0 0 0,
     W 116 114 97 110 115 112 111 114,
     W 116 84 121 112 101 0 0 0,
     W 15 0 0 0 0 0 0 0,
     W 12 44 183 145 112 237 180 152,
     W 0 0 0 0 0 0 0 0,
     W 0 0 0 0 0 0 0 0,
     W 15 0 0 0 0 0 0 0,
     W 0 0 0 0 0 0 0 0,
     W 0 0 0 0 0 0 0 0,
     W 112 114 101 102 101 116 99 104,
     W 72 105 110 116 0 0 0 0,
     W 1 0 0 0 0 0 0 0,
     W 0 0 0 0 0 0 0 0,
     W 0 0 0 0 0 0 0 0,
     W 0 0 0 0 0 0 0 0,
     W 1 0 0 0 0 0 0 0,
     W 0 0 0 0 0 0 0 0,
     W 0 0 0 0 0 0 0 0]"

definition s_f853fd580170b9de :: raw_schema where
  "s_f853fd580170b9de = RawSchema 0xf853fd580170b9de b_f853fd580170b9de 84
     [0x98b4ed7091b72c0c, 0xfaacf17de2174649]
     [1, 3, 0, 2] 2 4
     [0, 1, 2, 3]"

lemma b_f853fd580170b9de_node:
  "length b_f853fd580170b9de = 84"
  "read_node b_f853fd580170b9de = Some (0xf853fd580170b9de, StructBody 2 0 None [
       sfield [116, 97, 114, 103, 101, 116, 78, 111, 100, 101, 73, 100] 65535 0 (Plain 8) 8 0,
       sfield [109, 101, 109, 111, 114, 121, 84, 121, 112, 101] 65535 2 (Named 15
       0xfaacf17de2174649) 15 0,
       sfield [116, 114, 97, 110, 115, 112, 111, 114, 116, 84, 121, 112, 101] 65535 3 (Named 15
       0x98b4ed7091b72c0c) 15 0,
       sfield [112, 114, 101, 102, 101, 116, 99, 104, 72, 105, 110, 116] 65535 64 (Plain 1) 1 0])"
  by (simp_all add: b_f853fd580170b9de_def read_table sfield_def cong: table_congs bind_head_cong)

lemma s_f853fd580170b9de_id: "schema_id s_f853fd580170b9de = 0xf853fd580170b9de"
  by (simp add: s_f853fd580170b9de_def)

lemma s_f853fd580170b9de_ok: "schema_ok s_f853fd580170b9de"
  by (simp add: s_f853fd580170b9de_def b_f853fd580170b9de_node ordered_by_def sfield_def)

lemma s_f853fd580170b9de_layout: "layout_of s_f853fd580170b9de = Some AllocationPlan_layout"
  by (simp add: s_f853fd580170b9de_def b_f853fd580170b9de_node describe_table sfield_def struct_layout_def wireHookLauncher_fields)

text \<open>\<open>MemoryType\<close>, an enum\<close>

definition b_faacf17de2174649 :: table where
  "b_faacf17de2174649 = [
     W 0 0 0 0 6 0 6 0,
     W 73 70 23 226 125 241 172 250,
     W 20 0 0 0 2 0 0 0,
     W 113 94 165 177 235 173 187 218,
     W 0 0 0 0 0 0 0 0,
     W 0 0 0 0 0 0 0 0,
     W 163 4 0 0 207 4 0 0,
     W 21 0 0 0 250 0 0 0,
     W 33 0 0 0 7 0 0 0,
     W 0 0 0 0 0 0 0 0,
     W 29 0 0 0 55 0 0 0,
     W 0 0 0 0 0 0 0 0,
     W 0 0 0 0 0 0 0 0,
     W 104 111 111 107 45 108 97 117,
     W 110 99 104 101 114 46 99 97,
     W 112 110 112 58 77 101 109 111,
     W 114 121 84 121 112 101 0 0,
     W 0 0 0 0 1 0 1 0,
     W 8 0 0 0 1 0 2 0,
     W 0 0 0 0 0 0 0 0,
     W 17 0 0 0 42 0 0 0,
     W 0 0 0 0 0 0 0 0,
     W 1 0 0 0 0 0 0 0,
     W 9 0 0 0 42 0 0 0,
     W 0 0 0 0 0 0 0 0,
     W 118 114 97 109 0 0 0 0,
     W 104 111 115 116 0 0 0 0]"

definition s_faacf17de2174649 :: raw_schema where
  "s_faacf17de2174649 = RawSchema 0xfaacf17de2174649 b_faacf17de2174649 27
     []
     [1, 0] 0 2
     []"

lemma b_faacf17de2174649_node:
  "length b_faacf17de2174649 = 27"
  "read_node b_faacf17de2174649 = Some (0xfaacf17de2174649, EnumBody [
       [118, 114, 97, 109], [104, 111, 115, 116]])"
  by (simp_all add: b_faacf17de2174649_def read_table sfield_def cong: table_congs bind_head_cong)

lemma s_faacf17de2174649_id: "schema_id s_faacf17de2174649 = 0xfaacf17de2174649"
  by (simp add: s_faacf17de2174649_def)

lemma s_faacf17de2174649_ok: "schema_ok s_faacf17de2174649"
  by (simp add: s_faacf17de2174649_def b_faacf17de2174649_node ordered_by_def sfield_def)

definition MemoryType_enumerators :: "string list" where
  "MemoryType_enumerators = [''VRAM'', ''HOST'']"

lemma s_faacf17de2174649_enumerants: "map_option (map upper_snake) (enumerants_of s_faacf17de2174649) = Some (map name_octets MemoryType_enumerators)"
  by (simp add: s_faacf17de2174649_def b_faacf17de2174649_node describe_table MemoryType_enumerators_def upper_snake_def name_octets_def)

text \<open>\<open>TransportType\<close>, an enum\<close>

definition b_98b4ed7091b72c0c :: table where
  "b_98b4ed7091b72c0c = [
     W 0 0 0 0 6 0 6 0,
     W 12 44 183 145 112 237 180 152,
     W 20 0 0 0 2 0 0 0,
     W 113 94 165 177 235 173 187 218,
     W 0 0 0 0 0 0 0 0,
     W 0 0 0 0 0 0 0 0,
     W 211 4 0 0 12 5 0 0,
     W 21 0 0 0 18 1 0 0,
     W 37 0 0 0 7 0 0 0,
     W 0 0 0 0 0 0 0 0,
     W 33 0 0 0 79 0 0 0,
     W 0 0 0 0 0 0 0 0,
     W 0 0 0 0 0 0 0 0,
     W 104 111 111 107 45 108 97 117,
     W 110 99 104 101 114 46 99 97,
     W 112 110 112 58 84 114 97 110,
     W 115 112 111 114 116 84 121 112,
     W 101 0 0 0 0 0 0 0,
     W 0 0 0 0 1 0 1 0,
     W 12 0 0 0 1 0 2 0,
     W 0 0 0 0 0 0 0 0,
     W 29 0 0 0 42 0 0 0,
     W 0 0 0 0 0 0 0 0,
     W 1 0 0 0 0 0 0 0,
     W 21 0 0 0 34 0 0 0,
     W 0 0 0 0 0 0 0 0,
     W 2 0 0 0 0 0 0 0,
     W 13 0 0 0 34 0 0 0,
     W 0 0 0 0 0 0 0 0,
     W 114 100 109 97 0 0 0 0,
     W 117 100 112 0 0 0 0 0,
     W 116 99 112 0 0 0 0 0]"

definition s_98b4ed7091b72c0c :: raw_schema where
  "s_98b4ed7091b72c0c = RawSchema 0x98b4ed7091b72c0c b_98b4ed7091b72c0c 32
     []
     [0, 2, 1] 0 3
     []"

lemma b_98b4ed7091b72c0c_node:
  "length b_98b4ed7091b72c0c = 32"
  "read_node b_98b4ed7091b72c0c = Some (0x98b4ed7091b72c0c, EnumBody [
       [114, 100, 109, 97], [117, 100, 112], [116, 99, 112]])"
  by (simp_all add: b_98b4ed7091b72c0c_def read_table sfield_def cong: table_congs bind_head_cong)

lemma s_98b4ed7091b72c0c_id: "schema_id s_98b4ed7091b72c0c = 0x98b4ed7091b72c0c"
  by (simp add: s_98b4ed7091b72c0c_def)

lemma s_98b4ed7091b72c0c_ok: "schema_ok s_98b4ed7091b72c0c"
  by (simp add: s_98b4ed7091b72c0c_def b_98b4ed7091b72c0c_node ordered_by_def sfield_def)

definition TransportType_enumerators :: "string list" where
  "TransportType_enumerators = [''RDMA'', ''UDP'', ''TCP'']"

lemma s_98b4ed7091b72c0c_enumerants: "map_option (map upper_snake) (enumerants_of s_98b4ed7091b72c0c) = Some (map name_octets TransportType_enumerators)"
  by (simp add: s_98b4ed7091b72c0c_def b_98b4ed7091b72c0c_node describe_table TransportType_enumerators_def upper_snake_def name_octets_def)

text \<open>\<open>HookLauncher\<close>, an interface\<close>

definition b_b5d15336d30e0dd1 :: table where
  "b_b5d15336d30e0dd1 = [
     W 0 0 0 0 6 0 6 0,
     W 209 13 14 211 54 83 209 181,
     W 20 0 0 0 3 0 0 0,
     W 113 94 165 177 235 173 187 218,
     W 0 0 0 0 0 0 0 0,
     W 0 0 0 0 0 0 0 0,
     W 16 5 0 0 165 11 0 0,
     W 21 0 0 0 10 1 0 0,
     W 37 0 0 0 7 0 0 0,
     W 0 0 0 0 0 0 0 0,
     W 33 0 0 0 7 3 0 0,
     W 61 2 0 0 7 0 0 0,
     W 0 0 0 0 0 0 0 0,
     W 104 111 111 107 45 108 97 117,
     W 110 99 104 101 114 46 99 97,
     W 112 110 112 58 72 111 111 107,
     W 76 97 117 110 99 104 101 114,
     W 0 0 0 0 0 0 0 0,
     W 0 0 0 0 1 0 1 0,
     W 48 0 0 0 3 0 5 0,
     W 2 0 0 0 0 0 0 0,
     W 148 109 138 178 81 208 0 160,
     W 64 169 115 90 30 219 204 217,
     W 113 1 0 0 122 0 0 0,
     W 0 0 0 0 0 0 0 0,
     W 0 0 0 0 0 0 0 0,
     W 0 0 0 0 0 0 0 0,
     W 105 1 0 0 7 0 0 0,
     W 3 0 0 0 0 0 0 0,
     W 79 128 138 233 203 35 53 235,
     W 57 143 233 65 190 158 56 250,
     W 93 1 0 0 122 0 0 0,
     W 0 0 0 0 0 0 0 0,
     W 0 0 0 0 0 0 0 0,
     W 0 0 0 0 0 0 0 0,
     W 85 1 0 0 7 0 0 0,
     W 4 0 0 0 0 0 0 0,
     W 133 157 208 110 172 187 182 128,
     W 32 11 244 162 201 34 101 231,
     W 73 1 0 0 114 0 0 0,
     W 0 0 0 0 0 0 0 0,
     W 0 0 0 0 0 0 0 0,
     W 0 0 0 0 0 0 0 0,
     W 65 1 0 0 7 0 0 0,
     W 5 0 0 0 0 0 0 0,
     W 244 8 218 103 137 115 252 190,
     W 32 47 172 30 131 42 189 203,
     W 53 1 0 0 106 0 0 0,
     W 0 0 0 0 0 0 0 0,
     W 0 0 0 0 0 0 0 0,
     W 0 0 0 0 0 0 0 0,
     W 45 1 0 0 7 0 0 0,
     W 6 0 0 0 0 0 0 0,
     W 183 92 145 168 159 81 171 164,
     W 176 231 149 175 239 141 173 140,
     W 33 1 0 0 138 0 0 0,
     W 0 0 0 0 0 0 0 0,
     W 0 0 0 0 0 0 0 0,
     W 0 0 0 0 0 0 0 0,
     W 29 1 0 0 7 0 0 0,
     W 7 0 0 0 0 0 0 0,
     W 223 230 2 188 231 234 71 187,
     W 87 3 100 241 85 161 100 129,
     W 17 1 0 0 122 0 0 0,
     W 0 0 0 0 0 0 0 0,
     W 0 0 0 0 0 0 0 0,
     W 0 0 0 0 0 0 0 0,
     W 9 1 0 0 7 0 0 0,
     W 8 0 0 0 0 0 0 0,
     W 55 35 133 246 154 163 7 228,
     W 151 188 16 119 172 217 23 172,
     W 253 0 0 0 146 0 0 0,
     W 0 0 0 0 0 0 0 0,
     W 0 0 0 0 0 0 0 0,
     W 0 0 0 0 0 0 0 0,
     W 249 0 0 0 7 0 0 0,
     W 9 0 0 0 0 0 0 0,
     W 51 137 100 39 170 207 69 221,
     W 125 50 144 231 152 188 142 192,
     W 237 0 0 0 122 0 0 0,
     W 0 0 0 0 0 0 0 0,
     W 0 0 0 0 0 0 0 0,
     W 0 0 0 0 0 0 0 0,
     W 229 0 0 0 7 0 0 0,
     W 10 0 0 0 0 0 0 0,
     W 136 190 63 231 201 140 152 173,
     W 28 107 55 235 137 186 255 236,
     W 217 0 0 0 130 0 0 0,
     W 0 0 0 0 0 0 0 0,
     W 0 0 0 0 0 0 0 0,
     W 0 0 0 0 0 0 0 0,
     W 209 0 0 0 7 0 0 0,
     W 0 0 0 0 0 0 0 0,
     W 68 176 159 214 173 0 56 184,
     W 54 89 237 165 161 251 94 188,
     W 197 0 0 0 178 0 0 0,
     W 0 0 0 0 0 0 0 0,
     W 0 0 0 0 0 0 0 0,
     W 0 0 0 0 0 0 0 0,
     W 193 0 0 0 7 0 0 0,
     W 1 0 0 0 0 0 0 0,
     W 55 19 177 83 163 173 119 185,
     W 158 127 174 199 165 213 211 242,
     W 181 0 0 0 130 0 0 0,
     W 0 0 0 0 0 0 0 0,
     W 0 0 0 0 0 0 0 0,
     W 0 0 0 0 0 0 0 0,
     W 173 0 0 0 7 0 0 0,
     W 11 0 0 0 0 0 0 0,
     W 139 207 235 135 235 135 58 144,
     W 203 142 218 154 215 136 61 212,
     W 161 0 0 0 106 0 0 0,
     W 0 0 0 0 0 0 0 0,
     W 0 0 0 0 0 0 0 0,
     W 0 0 0 0 0 0 0 0,
     W 153 0 0 0 7 0 0 0,
     W 112 108 97 110 77 101 109 99,
     W 112 121 72 116 111 68 0 0,
     W 0 0 0 0 0 0 1 0,
     W 112 108 97 110 77 101 109 99,
     W 112 121 68 116 111 72 0 0,
     W 0 0 0 0 0 0 1 0,
     W 103 101 116 78 111 100 101 83,
     W 116 97 116 117 115 0 0 0,
     W 0 0 0 0 0 0 1 0,
     W 112 114 101 102 101 116 99 104,
     W 68 97 116 97 0 0 0 0,
     W 0 0 0 0 0 0 1 0,
     W 109 101 97 115 117 114 101 66,
     W 97 110 100 119 105 100 116 104,
     W 0 0 0 0 0 0 0 0,
     W 0 0 0 0 0 0 1 0,
     W 116 114 97 99 107 65 115 121,
     W 110 99 84 97 115 107 0 0,
     W 0 0 0 0 0 0 1 0,
     W 103 101 116 77 101 109 111 114,
     W 121 76 111 99 97 116 105 111,
     W 110 0 0 0 0 0 0 0,
     W 0 0 0 0 0 0 1 0,
     W 97 100 118 105 115 101 80 114,
     W 101 102 101 116 99 104 0 0,
     W 0 0 0 0 0 0 1 0,
     W 114 101 113 117 101 115 116 82,
     W 100 109 97 80 108 97 110 0,
     W 0 0 0 0 0 0 1 0,
     W 114 101 113 117 101 115 116 65,
     W 108 108 111 99 97 116 105 111,
     W 110 80 108 97 110 0 0 0,
     W 0 0 0 0 0 0 1 0,
     W 114 101 113 117 101 115 116 70,
     W 114 101 101 80 108 97 110 0,
     W 0 0 0 0 0 0 1 0,
     W 108 97 117 110 99 104 75 101,
     W 114 110 101 108 0 0 0 0,
     W 0 0 0 0 0 0 1 0,
     W 0 0 0 0 1 0 1 0]"

definition s_b5d15336d30e0dd1 :: raw_schema where
  "s_b5d15336d30e0dd1 = RawSchema 0xb5d15336d30e0dd1 b_b5d15336d30e0dd1 156
     [0x80b6bbac6ed09d85, 0x8164a155f1640357, 0x8cad8defaf95e7b0, 0x903a87eb87ebcf8b,
      0xa000d051b28a6d94, 0xa4ab519fa8915cb7, 0xac17d9ac7710bc97, 0xad988cc9e73fbe88,
      0xb83800add69fb044, 0xb977ada353b11337, 0xbb47eae7bc02e6df, 0xbc5efba1a5ed5936,
      0xbefc738967da08f4, 0xc08ebc98e790327d, 0xcbbd2a831eac2f20, 0xd43d88d79ada8ecb,
      0xd9ccdb1e5a73a940, 0xdd45cfaa27648933, 0xe407a39af6852337, 0xe76522c9a2f40b20,
      0xeb3523cbe98a804f, 0xecffba89eb376b1c, 0xf2d3d5a5c7ae7f9e, 0xfa389ebe41e98f39]
     [7, 6, 2, 11, 4, 1, 0, 3, 9, 10, 8, 5] 24 12
     []"

lemma b_b5d15336d30e0dd1_node:
  "length b_b5d15336d30e0dd1 = 156"
  "read_node b_b5d15336d30e0dd1 = Some (0xb5d15336d30e0dd1, InterfaceBody [
       ([112, 108, 97, 110, 77, 101, 109, 99, 112, 121, 72, 116, 111, 68], 0xa000d051b28a6d94,
       0xd9ccdb1e5a73a940),
       ([112, 108, 97, 110, 77, 101, 109, 99, 112, 121, 68, 116, 111, 72], 0xeb3523cbe98a804f,
       0xfa389ebe41e98f39),
       ([103, 101, 116, 78, 111, 100, 101, 83, 116, 97, 116, 117, 115], 0x80b6bbac6ed09d85,
       0xe76522c9a2f40b20),
       ([112, 114, 101, 102, 101, 116, 99, 104, 68, 97, 116, 97], 0xbefc738967da08f4,
       0xcbbd2a831eac2f20),
       ([109, 101, 97, 115, 117, 114, 101, 66, 97, 110, 100, 119, 105, 100, 116, 104],
       0xa4ab519fa8915cb7, 0x8cad8defaf95e7b0),
       ([116, 114, 97, 99, 107, 65, 115, 121, 110, 99, 84, 97, 115, 107], 0xbb47eae7bc02e6df,
       0x8164a155f1640357),
       ([103, 101, 116, 77, 101, 109, 111, 114, 121, 76, 111, 99, 97, 116, 105, 111, 110],
       0xe407a39af6852337, 0xac17d9ac7710bc97),
       ([97, 100, 118, 105, 115, 101, 80, 114, 101, 102, 101, 116, 99, 104], 0xdd45cfaa27648933,
       0xc08ebc98e790327d),
       ([114, 101, 113, 117, 101, 115, 116, 82, 100, 109, 97, 80, 108, 97, 110], 0xad988cc9e73fbe88,
       0xecffba89eb376b1c),
       ([114, 101, 113, 117, 101, 115, 116, 65, 108, 108, 111, 99, 97, 116, 105, 111, 110, 80, 108,
       97, 110], 0xb83800add69fb044, 0xbc5efba1a5ed5936),
       ([114, 101, 113, 117, 101, 115, 116, 70, 114, 101, 101, 80, 108, 97, 110],
       0xb977ada353b11337, 0xf2d3d5a5c7ae7f9e),
       ([108, 97, 117, 110, 99, 104, 75, 101, 114, 110, 101, 108], 0x903a87eb87ebcf8b,
       0xd43d88d79ada8ecb)])"
  by (simp_all add: b_b5d15336d30e0dd1_def read_table sfield_def cong: table_congs bind_head_cong)

lemma s_b5d15336d30e0dd1_id: "schema_id s_b5d15336d30e0dd1 = 0xb5d15336d30e0dd1"
  by (simp add: s_b5d15336d30e0dd1_def)

lemma s_b5d15336d30e0dd1_ok: "schema_ok s_b5d15336d30e0dd1"
  by (simp add: s_b5d15336d30e0dd1_def b_b5d15336d30e0dd1_node ordered_by_def sfield_def)

text \<open>\<open>HookLauncher.planMemcpyHtoD$Params\<close>, a struct\<close>

definition b_a000d051b28a6d94 :: table where
  "b_a000d051b28a6d94 = [
     W 0 0 0 0 6 0 6 0,
     W 148 109 138 178 81 208 0 160,
     W 33 0 0 0 1 0 1 0,
     W 0 0 0 0 0 0 0 0,
     W 1 0 7 0 0 0 0 0,
     W 0 0 0 0 0 0 0 0,
     W 0 0 0 0 0 0 0 0,
     W 21 0 0 0 186 1 0 0,
     W 0 0 0 0 0 0 0 0,
     W 0 0 0 0 0 0 0 0,
     W 37 0 0 0 119 0 0 0,
     W 0 0 0 0 0 0 0 0,
     W 0 0 0 0 0 0 0 0,
     W 104 111 111 107 45 108 97 117,
     W 110 99 104 101 114 46 99 97,
     W 112 110 112 58 72 111 111 107,
     W 76 97 117 110 99 104 101 114,
     W 46 112 108 97 110 77 101 109,
     W 99 112 121 72 116 111 68 36,
     W 80 97 114 97 109 115 0 0,
     W 8 0 0 0 3 0 4 0,
     W 0 0 0 0 0 0 0 0,
     W 0 0 1 0 0 0 0 0,
     W 0 0 0 0 0 0 0 0,
     W 41 0 0 0 82 0 0 0,
     W 0 0 0 0 0 0 0 0,
     W 40 0 0 0 3 0 1 0,
     W 52 0 0 0 2 0 1 0,
     W 1 0 0 0 0 0 0 0,
     W 0 0 1 0 1 0 0 0,
     W 0 0 0 0 0 0 0 0,
     W 49 0 0 0 42 0 0 0,
     W 0 0 0 0 0 0 0 0,
     W 44 0 0 0 3 0 1 0,
     W 56 0 0 0 2 0 1 0,
     W 100 115 116 72 97 110 100 108,
     W 101 0 0 0 0 0 0 0,
     W 16 0 0 0 0 0 0 0,
     W 170 101 54 224 37 103 115 163,
     W 0 0 0 0 0 0 0 0,
     W 0 0 0 0 0 0 0 0,
     W 16 0 0 0 0 0 0 0,
     W 0 0 0 0 0 0 0 0,
     W 0 0 0 0 0 0 0 0,
     W 115 105 122 101 0 0 0 0,
     W 9 0 0 0 0 0 0 0,
     W 0 0 0 0 0 0 0 0,
     W 0 0 0 0 0 0 0 0,
     W 0 0 0 0 0 0 0 0,
     W 9 0 0 0 0 0 0 0,
     W 0 0 0 0 0 0 0 0,
     W 0 0 0 0 0 0 0 0]"

definition s_a000d051b28a6d94 :: raw_schema where
  "s_a000d051b28a6d94 = RawSchema 0xa000d051b28a6d94 b_a000d051b28a6d94 52
     [0xa3736725e03665aa]
     [0, 1] 1 2
     [0, 1]"

lemma b_a000d051b28a6d94_node:
  "length b_a000d051b28a6d94 = 52"
  "read_node b_a000d051b28a6d94 = Some (0xa000d051b28a6d94, StructBody 1 1 None [
       sfield [100, 115, 116, 72, 97, 110, 100, 108, 101] 65535 0 (Named 16 0xa3736725e03665aa) 16 0,
       sfield [115, 105, 122, 101] 65535 0 (Plain 9) 9 0])"
  by (simp_all add: b_a000d051b28a6d94_def read_table sfield_def cong: table_congs bind_head_cong)

lemma s_a000d051b28a6d94_id: "schema_id s_a000d051b28a6d94 = 0xa000d051b28a6d94"
  by (simp add: s_a000d051b28a6d94_def)

lemma s_a000d051b28a6d94_ok: "schema_ok s_a000d051b28a6d94"
  by (simp add: s_a000d051b28a6d94_def b_a000d051b28a6d94_node ordered_by_def sfield_def)

lemma s_a000d051b28a6d94_layout: "layout_of s_a000d051b28a6d94 = Some HookLauncher_PlanMemcpyHtoDParams_layout"
  by (simp add: s_a000d051b28a6d94_def b_a000d051b28a6d94_node describe_table sfield_def struct_layout_def wireHookLauncher_fields)

text \<open>\<open>HookLauncher.planMemcpyHtoD$Results\<close>, a struct\<close>

definition b_d9ccdb1e5a73a940 :: table where
  "b_d9ccdb1e5a73a940 = [
     W 0 0 0 0 6 0 6 0,
     W 64 169 115 90 30 219 204 217,
     W 33 0 0 0 1 0 0 0,
     W 0 0 0 0 0 0 0 0,
     W 1 0 7 0 0 0 0 0,
     W 0 0 0 0 0 0 0 0,
     W 0 0 0 0 0 0 0 0,
     W 21 0 0 0 194 1 0 0,
     W 0 0 0 0 0 0 0 0,
     W 0 0 0 0 0 0 0 0,
     W 37 0 0 0 63 0 0 0,
     W 0 0 0 0 0 0 0 0,
     W 0 0 0 0 0 0 0 0,
     W 104 111 111 107 45 108 97 117,
     W 110 99 104 101 114 46 99 97,
     W 112 110 112 58 72 111 111 107,
     W 76 97 117 110 99 104 101 114,
     W 46 112 108 97 110 77 101 109,
     W 99 112 121 72 116 111 68 36,
     W 82 101 115 117 108 116 115 0,
     W 4 0 0 0 3 0 4 0,
     W 0 0 0 0 0 0 0 0,
     W 0 0 1 0 0 0 0 0,
     W 0 0 0 0 0 0 0 0,
     W 13 0 0 0 42 0 0 0,
     W 0 0 0 0 0 0 0 0,
     W 8 0 0 0 3 0 1 0,
     W 20 0 0 0 2 0 1 0,
     W 112 108 97 110 0 0 0 0,
     W 16 0 0 0 0 0 0 0,
     W 179 83 107 91 238 86 178 221,
     W 0 0 0 0 0 0 0 0,
     W 0 0 0 0 0 0 0 0,
     W 16 0 0 0 0 0 0 0,
     W 0 0 0 0 0 0 0 0,
     W 0 0 0 0 0 0 0 0]"

definition s_d9ccdb1e5a73a940 :: raw_schema where
  "s_d9ccdb1e5a73a940 = RawSchema 0xd9ccdb1e5a73a940 b_d9ccdb1e5a73a940 36
     [0xddb256ee5b6b53b3]
     [0] 1 1
     [0]"

lemma b_d9ccdb1e5a73a940_node:
  "length b_d9ccdb1e5a73a940 = 36"
  "read_node b_d9ccdb1e5a73a940 = Some (0xd9ccdb1e5a73a940, StructBody 0 1 None [
       sfield [112, 108, 97, 110] 65535 0 (Named 16 0xddb256ee5b6b53b3) 16 0])"
  by (simp_all add: b_d9ccdb1e5a73a940_def read_table sfield_def cong: table_congs bind_head_cong)

lemma s_d9ccdb1e5a73a940_id: "schema_id s_d9ccdb1e5a73a940 = 0xd9ccdb1e5a73a940"
  by (simp add: s_d9ccdb1e5a73a940_def)

lemma s_d9ccdb1e5a73a940_ok: "schema_ok s_d9ccdb1e5a73a940"
  by (simp add: s_d9ccdb1e5a73a940_def b_d9ccdb1e5a73a940_node ordered_by_def sfield_def)

lemma s_d9ccdb1e5a73a940_layout: "layout_of s_d9ccdb1e5a73a940 = Some HookLauncher_PlanMemcpyHtoDResults_layout"
  by (simp add: s_d9ccdb1e5a73a940_def b_d9ccdb1e5a73a940_node describe_table sfield_def struct_layout_def wireHookLauncher_fields)

text \<open>\<open>HookLauncher.planMemcpyDtoH$Params\<close>, a struct\<close>

definition b_eb3523cbe98a804f :: table where
  "b_eb3523cbe98a804f = [
     W 0 0 0 0 6 0 6 0,
     W 79 128 138 233 203 35 53 235,
     W 33 0 0 0 1 0 1 0,
     W 0 0 0 0 0 0 0 0,
     W 1 0 7 0 0 0 0 0,
     W 0 0 0 0 0 0 0 0,
     W 0 0 0 0 0 0 0 0,
     W 21 0 0 0 186 1 0 0,
     W 0 0 0 0 0 0 0 0,
     W 0 0 0 0 0 0 0 0,
     W 37 0 0 0 119 0 0 0,
     W 0 0 0 0 0 0 0 0,
     W 0 0 0 0 0 0 0 0,
     W 104 111 111 107 45 108 97 117,
     W 110 99 104 101 114 46 99 97,
     W 112 110 112 58 72 111 111 107,
     W 76 97 117 110 99 104 101 114,
     W 46 112 108 97 110 77 101 109,
     W 99 112 121 68 116 111 72 36,
     W 80 97 114 97 109 115 0 0,
     W 8 0 0 0 3 0 4 0,
     W 0 0 0 0 0 0 0 0,
     W 0 0 1 0 0 0 0 0,
     W 0 0 0 0 0 0 0 0,
     W 41 0 0 0 82 0 0 0,
     W 0 0 0 0 0 0 0 0,
     W 40 0 0 0 3 0 1 0,
     W 52 0 0 0 2 0 1 0,
     W 1 0 0 0 0 0 0 0,
     W 0 0 1 0 1 0 0 0,
     W 0 0 0 0 0 0 0 0,
     W 49 0 0 0 42 0 0 0,
     W 0 0 0 0 0 0 0 0,
     W 44 0 0 0 3 0 1 0,
     W 56 0 0 0 2 0 1 0,
     W 115 114 99 72 97 110 100 108,
     W 101 0 0 0 0 0 0 0,
     W 16 0 0 0 0 0 0 0,
     W 170 101 54 224 37 103 115 163,
     W 0 0 0 0 0 0 0 0,
     W 0 0 0 0 0 0 0 0,
     W 16 0 0 0 0 0 0 0,
     W 0 0 0 0 0 0 0 0,
     W 0 0 0 0 0 0 0 0,
     W 115 105 122 101 0 0 0 0,
     W 9 0 0 0 0 0 0 0,
     W 0 0 0 0 0 0 0 0,
     W 0 0 0 0 0 0 0 0,
     W 0 0 0 0 0 0 0 0,
     W 9 0 0 0 0 0 0 0,
     W 0 0 0 0 0 0 0 0,
     W 0 0 0 0 0 0 0 0]"

definition s_eb3523cbe98a804f :: raw_schema where
  "s_eb3523cbe98a804f = RawSchema 0xeb3523cbe98a804f b_eb3523cbe98a804f 52
     [0xa3736725e03665aa]
     [1, 0] 1 2
     [0, 1]"

lemma b_eb3523cbe98a804f_node:
  "length b_eb3523cbe98a804f = 52"
  "read_node b_eb3523cbe98a804f = Some (0xeb3523cbe98a804f, StructBody 1 1 None [
       sfield [115, 114, 99, 72, 97, 110, 100, 108, 101] 65535 0 (Named 16 0xa3736725e03665aa) 16 0,
       sfield [115, 105, 122, 101] 65535 0 (Plain 9) 9 0])"
  by (simp_all add: b_eb3523cbe98a804f_def read_table sfield_def cong: table_congs bind_head_cong)

lemma s_eb3523cbe98a804f_id: "schema_id s_eb3523cbe98a804f = 0xeb3523cbe98a804f"
  by (simp add: s_eb3523cbe98a804f_def)

lemma s_eb3523cbe98a804f_ok: "schema_ok s_eb3523cbe98a804f"
  by (simp add: s_eb3523cbe98a804f_def b_eb3523cbe98a804f_node ordered_by_def sfield_def)

lemma s_eb3523cbe98a804f_layout: "layout_of s_eb3523cbe98a804f = Some HookLauncher_PlanMemcpyDtoHParams_layout"
  by (simp add: s_eb3523cbe98a804f_def b_eb3523cbe98a804f_node describe_table sfield_def struct_layout_def wireHookLauncher_fields)

text \<open>\<open>HookLauncher.planMemcpyDtoH$Results\<close>, a struct\<close>

definition b_fa389ebe41e98f39 :: table where
  "b_fa389ebe41e98f39 = [
     W 0 0 0 0 6 0 6 0,
     W 57 143 233 65 190 158 56 250,
     W 33 0 0 0 1 0 0 0,
     W 0 0 0 0 0 0 0 0,
     W 1 0 7 0 0 0 0 0,
     W 0 0 0 0 0 0 0 0,
     W 0 0 0 0 0 0 0 0,
     W 21 0 0 0 194 1 0 0,
     W 0 0 0 0 0 0 0 0,
     W 0 0 0 0 0 0 0 0,
     W 37 0 0 0 63 0 0 0,
     W 0 0 0 0 0 0 0 0,
     W 0 0 0 0 0 0 0 0,
     W 104 111 111 107 45 108 97 117,
     W 110 99 104 101 114 46 99 97,
     W 112 110 112 58 72 111 111 107,
     W 76 97 117 110 99 104 101 114,
     W 46 112 108 97 110 77 101 109,
     W 99 112 121 68 116 111 72 36,
     W 82 101 115 117 108 116 115 0,
     W 4 0 0 0 3 0 4 0,
     W 0 0 0 0 0 0 0 0,
     W 0 0 1 0 0 0 0 0,
     W 0 0 0 0 0 0 0 0,
     W 13 0 0 0 42 0 0 0,
     W 0 0 0 0 0 0 0 0,
     W 8 0 0 0 3 0 1 0,
     W 20 0 0 0 2 0 1 0,
     W 112 108 97 110 0 0 0 0,
     W 16 0 0 0 0 0 0 0,
     W 179 83 107 91 238 86 178 221,
     W 0 0 0 0 0 0 0 0,
     W 0 0 0 0 0 0 0 0,
     W 16 0 0 0 0 0 0 0,
     W 0 0 0 0 0 0 0 0,
     W 0 0 0 0 0 0 0 0]"

definition s_fa389ebe41e98f39 :: raw_schema where
  "s_fa389ebe41e98f39 = RawSchema 0xfa389ebe41e98f39 b_fa389ebe41e98f39 36
     [0xddb256ee5b6b53b3]
     [0] 1 1
     [0]"

lemma b_fa389ebe41e98f39_node:
  "length b_fa389ebe41e98f39 = 36"
  "read_node b_fa389ebe41e98f39 = Some (0xfa389ebe41e98f39, StructBody 0 1 None [
       sfield [112, 108, 97, 110] 65535 0 (Named 16 0xddb256ee5b6b53b3) 16 0])"
  by (simp_all add: b_fa389ebe41e98f39_def read_table sfield_def cong: table_congs bind_head_cong)

lemma s_fa389ebe41e98f39_id: "schema_id s_fa389ebe41e98f39 = 0xfa389ebe41e98f39"
  by (simp add: s_fa389ebe41e98f39_def)

lemma s_fa389ebe41e98f39_ok: "schema_ok s_fa389ebe41e98f39"
  by (simp add: s_fa389ebe41e98f39_def b_fa389ebe41e98f39_node ordered_by_def sfield_def)

lemma s_fa389ebe41e98f39_layout: "layout_of s_fa389ebe41e98f39 = Some HookLauncher_PlanMemcpyDtoHResults_layout"
  by (simp add: s_fa389ebe41e98f39_def b_fa389ebe41e98f39_node describe_table sfield_def struct_layout_def wireHookLauncher_fields)

text \<open>\<open>HookLauncher.getNodeStatus$Params\<close>, a struct\<close>

definition b_80b6bbac6ed09d85 :: table where
  "b_80b6bbac6ed09d85 = [
     W 0 0 0 0 6 0 6 0,
     W 133 157 208 110 172 187 182 128,
     W 33 0 0 0 1 0 0 0,
     W 0 0 0 0 0 0 0 0,
     W 0 0 7 0 0 0 0 0,
     W 0 0 0 0 0 0 0 0,
     W 0 0 0 0 0 0 0 0,
     W 21 0 0 0 178 1 0 0,
     W 0 0 0 0 0 0 0 0,
     W 0 0 0 0 0 0 0 0,
     W 0 0 0 0 0 0 0 0,
     W 0 0 0 0 0 0 0 0,
     W 0 0 0 0 0 0 0 0,
     W 104 111 111 107 45 108 97 117,
     W 110 99 104 101 114 46 99 97,
     W 112 110 112 58 72 111 111 107,
     W 76 97 117 110 99 104 101 114,
     W 46 103 101 116 78 111 100 101,
     W 83 116 97 116 117 115 36 80,
     W 97 114 97 109 115 0 0 0]"

definition s_80b6bbac6ed09d85 :: raw_schema where
  "s_80b6bbac6ed09d85 = RawSchema 0x80b6bbac6ed09d85 b_80b6bbac6ed09d85 20
     []
     [] 0 0
     []"

lemma b_80b6bbac6ed09d85_node:
  "length b_80b6bbac6ed09d85 = 20"
  "read_node b_80b6bbac6ed09d85 = Some (0x80b6bbac6ed09d85, StructBody 0 0 None [])"
  by (simp_all add: b_80b6bbac6ed09d85_def read_table sfield_def cong: table_congs bind_head_cong)

lemma s_80b6bbac6ed09d85_id: "schema_id s_80b6bbac6ed09d85 = 0x80b6bbac6ed09d85"
  by (simp add: s_80b6bbac6ed09d85_def)

lemma s_80b6bbac6ed09d85_ok: "schema_ok s_80b6bbac6ed09d85"
  by (simp add: s_80b6bbac6ed09d85_def b_80b6bbac6ed09d85_node ordered_by_def sfield_def)

lemma s_80b6bbac6ed09d85_layout: "layout_of s_80b6bbac6ed09d85 = Some HookLauncher_GetNodeStatusParams_layout"
  by (simp add: s_80b6bbac6ed09d85_def b_80b6bbac6ed09d85_node describe_table sfield_def struct_layout_def wireHookLauncher_fields)

text \<open>\<open>HookLauncher.getNodeStatus$Results\<close>, a struct\<close>

definition b_e76522c9a2f40b20 :: table where
  "b_e76522c9a2f40b20 = [
     W 0 0 0 0 6 0 6 0,
     W 32 11 244 162 201 34 101 231,
     W 33 0 0 0 1 0 0 0,
     W 0 0 0 0 0 0 0 0,
     W 1 0 7 0 0 0 0 0,
     W 0 0 0 0 0 0 0 0,
     W 0 0 0 0 0 0 0 0,
     W 21 0 0 0 186 1 0 0,
     W 0 0 0 0 0 0 0 0,
     W 0 0 0 0 0 0 0 0,
     W 37 0 0 0 63 0 0 0,
     W 0 0 0 0 0 0 0 0,
     W 0 0 0 0 0 0 0 0,
     W 104 111 111 107 45 108 97 117,
     W 110 99 104 101 114 46 99 97,
     W 112 110 112 58 72 111 111 107,
     W 76 97 117 110 99 104 101 114,
     W 46 103 101 116 78 111 100 101,
     W 83 116 97 116 117 115 36 82,
     W 101 115 117 108 116 115 0 0,
     W 4 0 0 0 3 0 4 0,
     W 0 0 0 0 0 0 0 0,
     W 0 0 1 0 0 0 0 0,
     W 0 0 0 0 0 0 0 0,
     W 13 0 0 0 50 0 0 0,
     W 0 0 0 0 0 0 0 0,
     W 8 0 0 0 3 0 1 0,
     W 36 0 0 0 2 0 1 0,
     W 110 111 100 101 115 0 0 0,
     W 14 0 0 0 0 0 0 0,
     W 0 0 0 0 0 0 0 0,
     W 0 0 0 0 0 0 0 0,
     W 0 0 0 0 3 0 1 0,
     W 16 0 0 0 0 0 0 0,
     W 222 160 63 44 162 134 113 235,
     W 0 0 0 0 0 0 0 0,
     W 0 0 0 0 0 0 0 0,
     W 14 0 0 0 0 0 0 0,
     W 0 0 0 0 0 0 0 0,
     W 0 0 0 0 0 0 0 0]"

definition s_e76522c9a2f40b20 :: raw_schema where
  "s_e76522c9a2f40b20 = RawSchema 0xe76522c9a2f40b20 b_e76522c9a2f40b20 40
     [0xeb7186a22c3fa0de]
     [0] 1 1
     [0]"

lemma b_e76522c9a2f40b20_node:
  "length b_e76522c9a2f40b20 = 40"
  "read_node b_e76522c9a2f40b20 = Some (0xe76522c9a2f40b20, StructBody 0 1 None [
       sfield [110, 111, 100, 101, 115] 65535 0 (ListOf (Named 16 0xeb7186a22c3fa0de)) 14 0])"
  by (simp_all add: b_e76522c9a2f40b20_def read_table sfield_def cong: table_congs bind_head_cong)

lemma s_e76522c9a2f40b20_id: "schema_id s_e76522c9a2f40b20 = 0xe76522c9a2f40b20"
  by (simp add: s_e76522c9a2f40b20_def)

lemma s_e76522c9a2f40b20_ok: "schema_ok s_e76522c9a2f40b20"
  by (simp add: s_e76522c9a2f40b20_def b_e76522c9a2f40b20_node ordered_by_def sfield_def)

lemma s_e76522c9a2f40b20_layout: "layout_of s_e76522c9a2f40b20 = Some HookLauncher_GetNodeStatusResults_layout"
  by (simp add: s_e76522c9a2f40b20_def b_e76522c9a2f40b20_node describe_table sfield_def struct_layout_def wireHookLauncher_fields)

text \<open>\<open>HookLauncher.prefetchData$Params\<close>, a struct\<close>

definition b_befc738967da08f4 :: table where
  "b_befc738967da08f4 = [
     W 0 0 0 0 6 0 6 0,
     W 244 8 218 103 137 115 252 190,
     W 33 0 0 0 1 0 0 0,
     W 0 0 0 0 0 0 0 0,
     W 1 0 7 0 0 0 0 0,
     W 0 0 0 0 0 0 0 0,
     W 0 0 0 0 0 0 0 0,
     W 21 0 0 0 170 1 0 0,
     W 0 0 0 0 0 0 0 0,
     W 0 0 0 0 0 0 0 0,
     W 37 0 0 0 63 0 0 0,
     W 0 0 0 0 0 0 0 0,
     W 0 0 0 0 0 0 0 0,
     W 104 111 111 107 45 108 97 117,
     W 110 99 104 101 114 46 99 97,
     W 112 110 112 58 72 111 111 107,
     W 76 97 117 110 99 104 101 114,
     W 46 112 114 101 102 101 116 99,
     W 104 68 97 116 97 36 80 97,
     W 114 97 109 115 0 0 0 0,
     W 4 0 0 0 3 0 4 0,
     W 0 0 0 0 0 0 0 0,
     W 0 0 1 0 0 0 0 0,
     W 0 0 0 0 0 0 0 0,
     W 13 0 0 0 58 0 0 0,
     W 0 0 0 0 0 0 0 0,
     W 8 0 0 0 3 0 1 0,
     W 20 0 0 0 2 0 1 0,
     W 104 97 110 100 108 101 0 0,
     W 16 0 0 0 0 0 0 0,
     W 170 101 54 224 37 103 115 163,
     W 0 0 0 0 0 0 0 0,
     W 0 0 0 0 0 0 0 0,
     W 16 0 0 0 0 0 0 0,
     W 0 0 0 0 0 0 0 0,
     W 0 0 0 0 0 0 0 0]"

definition s_befc738967da08f4 :: raw_schema where
  "s_befc738967da08f4 = RawSchema 0xbefc738967da08f4 b_befc738967da08f4 36
     [0xa3736725e03665aa]
     [0] 1 1
     [0]"

lemma b_befc738967da08f4_node:
  "length b_befc738967da08f4 = 36"
  "read_node b_befc738967da08f4 = Some (0xbefc738967da08f4, StructBody 0 1 None [
       sfield [104, 97, 110, 100, 108, 101] 65535 0 (Named 16 0xa3736725e03665aa) 16 0])"
  by (simp_all add: b_befc738967da08f4_def read_table sfield_def cong: table_congs bind_head_cong)

lemma s_befc738967da08f4_id: "schema_id s_befc738967da08f4 = 0xbefc738967da08f4"
  by (simp add: s_befc738967da08f4_def)

lemma s_befc738967da08f4_ok: "schema_ok s_befc738967da08f4"
  by (simp add: s_befc738967da08f4_def b_befc738967da08f4_node ordered_by_def sfield_def)

lemma s_befc738967da08f4_layout: "layout_of s_befc738967da08f4 = Some HookLauncher_PrefetchDataParams_layout"
  by (simp add: s_befc738967da08f4_def b_befc738967da08f4_node describe_table sfield_def struct_layout_def wireHookLauncher_fields)

text \<open>\<open>HookLauncher.prefetchData$Results\<close>, a struct\<close>

definition b_cbbd2a831eac2f20 :: table where
  "b_cbbd2a831eac2f20 = [
     W 0 0 0 0 6 0 6 0,
     W 32 47 172 30 131 42 189 203,
     W 33 0 0 0 1 0 0 0,
     W 0 0 0 0 0 0 0 0,
     W 1 0 7 0 0 0 0 0,
     W 0 0 0 0 0 0 0 0,
     W 0 0 0 0 0 0 0 0,
     W 21 0 0 0 178 1 0 0,
     W 0 0 0 0 0 0 0 0,
     W 0 0 0 0 0 0 0 0,
     W 37 0 0 0 63 0 0 0,
     W 0 0 0 0 0 0 0 0,
     W 0 0 0 0 0 0 0 0,
     W 104 111 111 107 45 108 97 117,
     W 110 99 104 101 114 46 99 97,
     W 112 110 112 58 72 111 111 107,
     W 76 97 117 110 99 104 101 114,
     W 46 112 114 101 102 101 116 99,
     W 104 68 97 116 97 36 82 101,
     W 115 117 108 116 115 0 0 0,
     W 4 0 0 0 3 0 4 0,
     W 0 0 0 0 0 0 0 0,
     W 0 0 1 0 0 0 0 0,
     W 0 0 0 0 0 0 0 0,
     W 13 0 0 0 34 0 0 0,
     W 0 0 0 0 0 0 0 0,
     W 8 0 0 0 3 0 1 0,
     W 20 0 0 0 2 0 1 0,
     W 97 99 107 0 0 0 0 0,
     W 16 0 0 0 0 0 0 0,
     W 136 53 26 54 3 107 110 188,
     W 0 0 0 0 0 0 0 0,
     W 0 0 0 0 0 0 0 0,
     W 16 0 0 0 0 0 0 0,
     W 0 0 0 0 0 0 0 0,
     W 0 0 0 0 0 0 0 0]"

definition s_cbbd2a831eac2f20 :: raw_schema where
  "s_cbbd2a831eac2f20 = RawSchema 0xcbbd2a831eac2f20 b_cbbd2a831eac2f20 36
     [0xbc6e6b03361a3588]
     [0] 1 1
     [0]"

lemma b_cbbd2a831eac2f20_node:
  "length b_cbbd2a831eac2f20 = 36"
  "read_node b_cbbd2a831eac2f20 = Some (0xcbbd2a831eac2f20, StructBody 0 1 None [
       sfield [97, 99, 107] 65535 0 (Named 16 0xbc6e6b03361a3588) 16 0])"
  by (simp_all add: b_cbbd2a831eac2f20_def read_table sfield_def cong: table_congs bind_head_cong)

lemma s_cbbd2a831eac2f20_id: "schema_id s_cbbd2a831eac2f20 = 0xcbbd2a831eac2f20"
  by (simp add: s_cbbd2a831eac2f20_def)

lemma s_cbbd2a831eac2f20_ok: "schema_ok s_cbbd2a831eac2f20"
  by (simp add: s_cbbd2a831eac2f20_def b_cbbd2a831eac2f20_node ordered_by_def sfield_def)

lemma s_cbbd2a831eac2f20_layout: "layout_of s_cbbd2a831eac2f20 = Some HookLauncher_PrefetchDataResults_layout"
  by (simp add: s_cbbd2a831eac2f20_def b_cbbd2a831eac2f20_node describe_table sfield_def struct_layout_def wireHookLauncher_fields)

text \<open>\<open>HookLauncher.measureBandwidth$Params\<close>, a struct\<close>

definition b_a4ab519fa8915cb7 :: table where
  "b_a4ab519fa8915cb7 = [
     W 0 0 0 0 6 0 6 0,
     W 183 92 145 168 159 81 171 164,
     W 33 0 0 0 1 0 0 0,
     W 0 0 0 0 0 0 0 0,
     W 2 0 7 0 0 0 0 0,
     W 0 0 0 0 0 0 0 0,
     W 0 0 0 0 0 0 0 0,
     W 21 0 0 0 202 1 0 0,
     W 0 0 0 0 0 0 0 0,
     W 0 0 0 0 0 0 0 0,
     W 41 0 0 0 119 0 0 0,
     W 0 0 0 0 0 0 0 0,
     W 0 0 0 0 0 0 0 0,
     W 104 111 111 107 45 108 97 117,
     W 110 99 104 101 114 46 99 97,
     W 112 110 112 58 72 111 111 107,
     W 76 97 117 110 99 104 101 114,
     W 46 109 101 97 115 117 114 101,
     W 66 97 110 100 119 105 100 116,
     W 104 36 80 97 114 97 109 115,
     W 0 0 0 0 0 0 0 0,
     W 8 0 0 0 3 0 4 0,
     W 0 0 0 0 0 0 0 0,
     W 0 0 1 0 0 0 0 0,
     W 0 0 0 0 0 0 0 0,
     W 41 0 0 0 34 0 0 0,
     W 0 0 0 0 0 0 0 0,
     W 36 0 0 0 3 0 1 0,
     W 48 0 0 0 2 0 1 0,
     W 1 0 0 0 1 0 0 0,
     W 0 0 1 0 1 0 0 0,
     W 0 0 0 0 0 0 0 0,
     W 45 0 0 0 34 0 0 0,
     W 0 0 0 0 0 0 0 0,
     W 40 0 0 0 3 0 1 0,
     W 52 0 0 0 2 0 1 0,
     W 115 114 99 0 0 0 0 0,
     W 12 0 0 0 0 0 0 0,
     W 0 0 0 0 0 0 0 0,
     W 0 0 0 0 0 0 0 0,
     W 0 0 0 0 0 0 0 0,
     W 12 0 0 0 0 0 0 0,
     W 0 0 0 0 0 0 0 0,
     W 0 0 0 0 0 0 0 0,
     W 100 115 116 0 0 0 0 0,
     W 12 0 0 0 0 0 0 0,
     W 0 0 0 0 0 0 0 0,
     W 0 0 0 0 0 0 0 0,
     W 0 0 0 0 0 0 0 0,
     W 12 0 0 0 0 0 0 0,
     W 0 0 0 0 0 0 0 0,
     W 0 0 0 0 0 0 0 0]"

definition s_a4ab519fa8915cb7 :: raw_schema where
  "s_a4ab519fa8915cb7 = RawSchema 0xa4ab519fa8915cb7 b_a4ab519fa8915cb7 52
     []
     [1, 0] 0 2
     [0, 1]"

lemma b_a4ab519fa8915cb7_node:
  "length b_a4ab519fa8915cb7 = 52"
  "read_node b_a4ab519fa8915cb7 = Some (0xa4ab519fa8915cb7, StructBody 0 2 None [
       sfield [115, 114, 99] 65535 0 (Plain 12) 12 0,
       sfield [100, 115, 116] 65535 1 (Plain 12) 12 0])"
  by (simp_all add: b_a4ab519fa8915cb7_def read_table sfield_def cong: table_congs bind_head_cong)

lemma s_a4ab519fa8915cb7_id: "schema_id s_a4ab519fa8915cb7 = 0xa4ab519fa8915cb7"
  by (simp add: s_a4ab519fa8915cb7_def)

lemma s_a4ab519fa8915cb7_ok: "schema_ok s_a4ab519fa8915cb7"
  by (simp add: s_a4ab519fa8915cb7_def b_a4ab519fa8915cb7_node ordered_by_def sfield_def)

lemma s_a4ab519fa8915cb7_layout: "layout_of s_a4ab519fa8915cb7 = Some HookLauncher_MeasureBandwidthParams_layout"
  by (simp add: s_a4ab519fa8915cb7_def b_a4ab519fa8915cb7_node describe_table sfield_def struct_layout_def wireHookLauncher_fields)

text \<open>\<open>HookLauncher.measureBandwidth$Results\<close>, a struct\<close>

definition b_8cad8defaf95e7b0 :: table where
  "b_8cad8defaf95e7b0 = [
     W 0 0 0 0 6 0 6 0,
     W 176 231 149 175 239 141 173 140,
     W 33 0 0 0 1 0 0 0,
     W 0 0 0 0 0 0 0 0,
     W 1 0 7 0 0 0 0 0,
     W 0 0 0 0 0 0 0 0,
     W 0 0 0 0 0 0 0 0,
     W 21 0 0 0 210 1 0 0,
     W 0 0 0 0 0 0 0 0,
     W 0 0 0 0 0 0 0 0,
     W 41 0 0 0 63 0 0 0,
     W 0 0 0 0 0 0 0 0,
     W 0 0 0 0 0 0 0 0,
     W 104 111 111 107 45 108 97 117,
     W 110 99 104 101 114 46 99 97,
     W 112 110 112 58 72 111 111 107,
     W 76 97 117 110 99 104 101 114,
     W 46 109 101 97 115 117 114 101,
     W 66 97 110 100 119 105 100 116,
     W 104 36 82 101 115 117 108 116,
     W 115 0 0 0 0 0 0 0,
     W 4 0 0 0 3 0 4 0,
     W 0 0 0 0 0 0 0 0,
     W 0 0 1 0 0 0 0 0,
     W 0 0 0 0 0 0 0 0,
     W 13 0 0 0 58 0 0 0,
     W 0 0 0 0 0 0 0 0,
     W 8 0 0 0 3 0 1 0,
     W 20 0 0 0 2 0 1 0,
     W 114 101 115 117 108 116 0 0,
     W 16 0 0 0 0 0 0 0,
     W 147 180 4 87 226 191 6 142,
     W 0 0 0 0 0 0 0 0,
     W 0 0 0 0 0 0 0 0,
     W 16 0 0 0 0 0 0 0,
     W 0 0 0 0 0 0 0 0,
     W 0 0 0 0 0 0 0 0]"

definition s_8cad8defaf95e7b0 :: raw_schema where
  "s_8cad8defaf95e7b0 = RawSchema 0x8cad8defaf95e7b0 b_8cad8defaf95e7b0 37
     [0x8e06bfe25704b493]
     [0] 1 1
     [0]"

lemma b_8cad8defaf95e7b0_node:
  "length b_8cad8defaf95e7b0 = 37"
  "read_node b_8cad8defaf95e7b0 = Some (0x8cad8defaf95e7b0, StructBody 0 1 None [
       sfield [114, 101, 115, 117, 108, 116] 65535 0 (Named 16 0x8e06bfe25704b493) 16 0])"
  by (simp_all add: b_8cad8defaf95e7b0_def read_table sfield_def cong: table_congs bind_head_cong)

lemma s_8cad8defaf95e7b0_id: "schema_id s_8cad8defaf95e7b0 = 0x8cad8defaf95e7b0"
  by (simp add: s_8cad8defaf95e7b0_def)

lemma s_8cad8defaf95e7b0_ok: "schema_ok s_8cad8defaf95e7b0"
  by (simp add: s_8cad8defaf95e7b0_def b_8cad8defaf95e7b0_node ordered_by_def sfield_def)

lemma s_8cad8defaf95e7b0_layout: "layout_of s_8cad8defaf95e7b0 = Some HookLauncher_MeasureBandwidthResults_layout"
  by (simp add: s_8cad8defaf95e7b0_def b_8cad8defaf95e7b0_node describe_table sfield_def struct_layout_def wireHookLauncher_fields)

text \<open>\<open>HookLauncher.trackAsyncTask$Params\<close>, a struct\<close>

definition b_bb47eae7bc02e6df :: table where
  "b_bb47eae7bc02e6df = [
     W 0 0 0 0 6 0 6 0,
     W 223 230 2 188 231 234 71 187,
     W 33 0 0 0 1 0 1 0,
     W 0 0 0 0 0 0 0 0,
     W 0 0 7 0 0 0 0 0,
     W 0 0 0 0 0 0 0 0,
     W 0 0 0 0 0 0 0 0,
     W 21 0 0 0 186 1 0 0,
     W 0 0 0 0 0 0 0 0,
     W 0 0 0 0 0 0 0 0,
     W 37 0 0 0 63 0 0 0,
     W 0 0 0 0 0 0 0 0,
     W 0 0 0 0 0 0 0 0,
     W 104 111 111 107 45 108 97 117,
     W 110 99 104 101 114 46 99 97,
     W 112 110 112 58 72 111 111 107,
     W 76 97 117 110 99 104 101 114,
     W 46 116 114 97 99 107 65 115,
     W 121 110 99 84 97 115 107 36,
     W 80 97 114 97 109 115 0 0,
     W 4 0 0 0 3 0 4 0,
     W 0 0 0 0 0 0 0 0,
     W 0 0 1 0 0 0 0 0,
     W 0 0 0 0 0 0 0 0,
     W 13 0 0 0 58 0 0 0,
     W 0 0 0 0 0 0 0 0,
     W 8 0 0 0 3 0 1 0,
     W 20 0 0 0 2 0 1 0,
     W 116 97 115 107 73 100 0 0,
     W 9 0 0 0 0 0 0 0,
     W 0 0 0 0 0 0 0 0,
     W 0 0 0 0 0 0 0 0,
     W 0 0 0 0 0 0 0 0,
     W 9 0 0 0 0 0 0 0,
     W 0 0 0 0 0 0 0 0,
     W 0 0 0 0 0 0 0 0]"

definition s_bb47eae7bc02e6df :: raw_schema where
  "s_bb47eae7bc02e6df = RawSchema 0xbb47eae7bc02e6df b_bb47eae7bc02e6df 36
     []
     [0] 0 1
     [0]"

lemma b_bb47eae7bc02e6df_node:
  "length b_bb47eae7bc02e6df = 36"
  "read_node b_bb47eae7bc02e6df = Some (0xbb47eae7bc02e6df, StructBody 1 0 None [
       sfield [116, 97, 115, 107, 73, 100] 65535 0 (Plain 9) 9 0])"
  by (simp_all add: b_bb47eae7bc02e6df_def read_table sfield_def cong: table_congs bind_head_cong)

lemma s_bb47eae7bc02e6df_id: "schema_id s_bb47eae7bc02e6df = 0xbb47eae7bc02e6df"
  by (simp add: s_bb47eae7bc02e6df_def)

lemma s_bb47eae7bc02e6df_ok: "schema_ok s_bb47eae7bc02e6df"
  by (simp add: s_bb47eae7bc02e6df_def b_bb47eae7bc02e6df_node ordered_by_def sfield_def)

lemma s_bb47eae7bc02e6df_layout: "layout_of s_bb47eae7bc02e6df = Some HookLauncher_TrackAsyncTaskParams_layout"
  by (simp add: s_bb47eae7bc02e6df_def b_bb47eae7bc02e6df_node describe_table sfield_def struct_layout_def wireHookLauncher_fields)

text \<open>\<open>HookLauncher.trackAsyncTask$Results\<close>, a struct\<close>

definition b_8164a155f1640357 :: table where
  "b_8164a155f1640357 = [
     W 0 0 0 0 6 0 6 0,
     W 87 3 100 241 85 161 100 129,
     W 33 0 0 0 1 0 0 0,
     W 0 0 0 0 0 0 0 0,
     W 1 0 7 0 0 0 0 0,
     W 0 0 0 0 0 0 0 0,
     W 0 0 0 0 0 0 0 0,
     W 21 0 0 0 194 1 0 0,
     W 0 0 0 0 0 0 0 0,
     W 0 0 0 0 0 0 0 0,
     W 37 0 0 0 63 0 0 0,
     W 0 0 0 0 0 0 0 0,
     W 0 0 0 0 0 0 0 0,
     W 104 111 111 107 45 108 97 117,
     W 110 99 104 101 114 46 99 97,
     W 112 110 112 58 72 111 111 107,
     W 76 97 117 110 99 104 101 114,
     W 46 116 114 97 99 107 65 115,
     W 121 110 99 84 97 115 107 36,
     W 82 101 115 117 108 116 115 0,
     W 4 0 0 0 3 0 4 0,
     W 0 0 0 0 0 0 0 0,
     W 0 0 1 0 0 0 0 0,
     W 0 0 0 0 0 0 0 0,
     W 13 0 0 0 58 0 0 0,
     W 0 0 0 0 0 0 0 0,
     W 8 0 0 0 3 0 1 0,
     W 20 0 0 0 2 0 1 0,
     W 115 116 97 116 117 115 0 0,
     W 16 0 0 0 0 0 0 0,
     W 173 69 197 170 93 167 103 144,
     W 0 0 0 0 0 0 0 0,
     W 0 0 0 0 0 0 0 0,
     W 16 0 0 0 0 0 0 0,
     W 0 0 0 0 0 0 0 0,
     W 0 0 0 0 0 0 0 0]"

definition s_8164a155f1640357 :: raw_schema where
  "s_8164a155f1640357 = RawSchema 0x8164a155f1640357 b_8164a155f1640357 36
     [0x9067a75daac545ad]
     [0] 1 1
     [0]"

lemma b_8164a155f1640357_node:
  "length b_8164a155f1640357 = 36"
  "read_node b_8164a155f1640357 = Some (0x8164a155f1640357, StructBody 0 1 None [
       sfield [115, 116, 97, 116, 117, 115] 65535 0 (Named 16 0x9067a75daac545ad) 16 0])"
  by (simp_all add: b_8164a155f1640357_def read_table sfield_def cong: table_congs bind_head_cong)

lemma s_8164a155f1640357_id: "schema_id s_8164a155f1640357 = 0x8164a155f1640357"
  by (simp add: s_8164a155f1640357_def)

lemma s_8164a155f1640357_ok: "schema_ok s_8164a155f1640357"
  by (simp add: s_8164a155f1640357_def b_8164a155f1640357_node ordered_by_def sfield_def)

lemma s_8164a155f1640357_layout: "layout_of s_8164a155f1640357 = Some HookLauncher_TrackAsyncTaskResults_layout"
  by (simp add: s_8164a155f1640357_def b_8164a155f1640357_node describe_table sfield_def struct_layout_def wireHookLauncher_fields)

text \<open>\<open>HookLauncher.getMemoryLocation$Params\<close>, a struct\<close>

definition b_e407a39af6852337 :: table where
  "b_e407a39af6852337 = [
     W 0 0 0 0 6 0 6 0,
     W 55 35 133 246 154 163 7 228,
     W 33 0 0 0 1 0 1 0,
     W 0 0 0 0 0 0 0 0,
     W 0 0 7 0 0 0 0 0,
     W 0 0 0 0 0 0 0 0,
     W 0 0 0 0 0 0 0 0,
     W 21 0 0 0 210 1 0 0,
     W 0 0 0 0 0 0 0 0,
     W 0 0 0 0 0 0 0 0,
     W 41 0 0 0 63 0 0 0,
     W 0 0 0 0 0 0 0 0,
     W 0 0 0 0 0 0 0 0,
     W 104 111 111 107 45 108 97 117,
     W 110 99 104 101 114 46 99 97,
     W 112 110 112 58 72 111 111 107,
     W 76 97 117 110 99 104 101 114,
     W 46 103 101 116 77 101 109 111,
     W 114 121 76 111 99 97 116 105,
     W 111 110 36 80 97 114 97 109,
     W 115 0 0 0 0 0 0 0,
     W 4 0 0 0 3 0 4 0,
     W 0 0 0 0 0 0 0 0,
     W 0 0 1 0 0 0 0 0,
     W 0 0 0 0 0 0 0 0,
     W 13 0 0 0 66 0 0 0,
     W 0 0 0 0 0 0 0 0,
     W 8 0 0 0 3 0 1 0,
     W 20 0 0 0 2 0 1 0,
     W 102 97 107 101 80 116 114 0,
     W 9 0 0 0 0 0 0 0,
     W 0 0 0 0 0 0 0 0,
     W 0 0 0 0 0 0 0 0,
     W 0 0 0 0 0 0 0 0,
     W 9 0 0 0 0 0 0 0,
     W 0 0 0 0 0 0 0 0,
     W 0 0 0 0 0 0 0 0]"

definition s_e407a39af6852337 :: raw_schema where
  "s_e407a39af6852337 = RawSchema 0xe407a39af6852337 b_e407a39af6852337 37
     []
     [0] 0 1
     [0]"

lemma b_e407a39af6852337_node:
  "length b_e407a39af6852337 = 37"
  "read_node b_e407a39af6852337 = Some (0xe407a39af6852337, StructBody 1 0 None [
       sfield [102, 97, 107, 101, 80, 116, 114] 65535 0 (Plain 9) 9 0])"
  by (simp_all add: b_e407a39af6852337_def read_table sfield_def cong: table_congs bind_head_cong)

lemma s_e407a39af6852337_id: "schema_id s_e407a39af6852337 = 0xe407a39af6852337"
  by (simp add: s_e407a39af6852337_def)

lemma s_e407a39af6852337_ok: "schema_ok s_e407a39af6852337"
  by (simp add: s_e407a39af6852337_def b_e407a39af6852337_node ordered_by_def sfield_def)

lemma s_e407a39af6852337_layout: "layout_of s_e407a39af6852337 = Some HookLauncher_GetMemoryLocationParams_layout"
  by (simp add: s_e407a39af6852337_def b_e407a39af6852337_node describe_table sfield_def struct_layout_def wireHookLauncher_fields)

text \<open>\<open>HookLauncher.getMemoryLocation$Results\<close>, a struct\<close>

definition b_ac17d9ac7710bc97 :: table where
  "b_ac17d9ac7710bc97 = [
     W 0 0 0 0 6 0 6 0,
     W 151 188 16 119 172 217 23 172,
     W 33 0 0 0 1 0 0 0,
     W 0 0 0 0 0 0 0 0,
     W 1 0 7 0 0 0 0 0,
     W 0 0 0 0 0 0 0 0,
     W 0 0 0 0 0 0 0 0,
     W 21 0 0 0 218 1 0 0,
     W 0 0 0 0 0 0 0 0,
     W 0 0 0 0 0 0 0 0,
     W 41 0 0 0 63 0 0 0,
     W 0 0 0 0 0 0 0 0,
     W 0 0 0 0 0 0 0 0,
     W 104 111 111 107 45 108 97 117,
     W 110 99 104 101 114 46 99 97,
     W 112 110 112 58 72 111 111 107,
     W 76 97 117 110 99 104 101 114,
     W 46 103 101 116 77 101 109 111,
     W 114 121 76 111 99 97 116 105,
     W 111 110 36 82 101 115 117 108,
     W 116 115 0 0 0 0 0 0,
     W 4 0 0 0 3 0 4 0,
     W 0 0 0 0 0 0 0 0,
     W 0 0 1 0 0 0 0 0,
     W 0 0 0 0 0 0 0 0,
     W 13 0 0 0 74 0 0 0,
     W 0 0 0 0 0 0 0 0,
     W 12 0 0 0 3 0 1 0,
     W 24 0 0 0 2 0 1 0,
     W 108 111 99 97 116 105 111 110,
     W 0 0 0 0 0 0 0 0,
     W 16 0 0 0 0 0 0 0,
     W 46 170 208 254 129 211 18 229,
     W 0 0 0 0 0 0 0 0,
     W 0 0 0 0 0 0 0 0,
     W 16 0 0 0 0 0 0 0,
     W 0 0 0 0 0 0 0 0,
     W 0 0 0 0 0 0 0 0]"

definition s_ac17d9ac7710bc97 :: raw_schema where
  "s_ac17d9ac7710bc97 = RawSchema 0xac17d9ac7710bc97 b_ac17d9ac7710bc97 38
     [0xe512d381fed0aa2e]
     [0] 1 1
     [0]"

lemma b_ac17d9ac7710bc97_node:
  "length b_ac17d9ac7710bc97 = 38"
  "read_node b_ac17d9ac7710bc97 = Some (0xac17d9ac7710bc97, StructBody 0 1 None [
       sfield [108, 111, 99, 97, 116, 105, 111, 110] 65535 0 (Named 16 0xe512d381fed0aa2e) 16 0])"
  by (simp_all add: b_ac17d9ac7710bc97_def read_table sfield_def cong: table_congs bind_head_cong)

lemma s_ac17d9ac7710bc97_id: "schema_id s_ac17d9ac7710bc97 = 0xac17d9ac7710bc97"
  by (simp add: s_ac17d9ac7710bc97_def)

lemma s_ac17d9ac7710bc97_ok: "schema_ok s_ac17d9ac7710bc97"
  by (simp add: s_ac17d9ac7710bc97_def b_ac17d9ac7710bc97_node ordered_by_def sfield_def)

lemma s_ac17d9ac7710bc97_layout: "layout_of s_ac17d9ac7710bc97 = Some HookLauncher_GetMemoryLocationResults_layout"
  by (simp add: s_ac17d9ac7710bc97_def b_ac17d9ac7710bc97_node describe_table sfield_def struct_layout_def wireHookLauncher_fields)

text \<open>\<open>HookLauncher.advisePrefetch$Params\<close>, a struct\<close>

definition b_dd45cfaa27648933 :: table where
  "b_dd45cfaa27648933 = [
     W 0 0 0 0 6 0 6 0,
     W 51 137 100 39 170 207 69 221,
     W 33 0 0 0 1 0 1 0,
     W 0 0 0 0 0 0 0 0,
     W 0 0 7 0 0 0 0 0,
     W 0 0 0 0 0 0 0 0,
     W 0 0 0 0 0 0 0 0,
     W 21 0 0 0 186 1 0 0,
     W 0 0 0 0 0 0 0 0,
     W 0 0 0 0 0 0 0 0,
     W 37 0 0 0 63 0 0 0,
     W 0 0 0 0 0 0 0 0,
     W 0 0 0 0 0 0 0 0,
     W 104 111 111 107 45 108 97 117,
     W 110 99 104 101 114 46 99 97,
     W 112 110 112 58 72 111 111 107,
     W 76 97 117 110 99 104 101 114,
     W 46 97 100 118 105 115 101 80,
     W 114 101 102 101 116 99 104 36,
     W 80 97 114 97 109 115 0 0,
     W 4 0 0 0 3 0 4 0,
     W 0 0 0 0 0 0 0 0,
     W 0 0 1 0 0 0 0 0,
     W 0 0 0 0 0 0 0 0,
     W 13 0 0 0 66 0 0 0,
     W 0 0 0 0 0 0 0 0,
     W 8 0 0 0 3 0 1 0,
     W 20 0 0 0 2 0 1 0,
     W 102 97 107 101 80 116 114 0,
     W 9 0 0 0 0 0 0 0,
     W 0 0 0 0 0 0 0 0,
     W 0 0 0 0 0 0 0 0,
     W 0 0 0 0 0 0 0 0,
     W 9 0 0 0 0 0 0 0,
     W 0 0 0 0 0 0 0 0,
     W 0 0 0 0 0 0 0 0]"

definition s_dd45cfaa27648933 :: raw_schema where
  "s_dd45cfaa27648933 = RawSchema 0xdd45cfaa27648933 b_dd45cfaa27648933 36
     []
     [0] 0 1
     [0]"

lemma b_dd45cfaa27648933_node:
  "length b_dd45cfaa27648933 = 36"
  "read_node b_dd45cfaa27648933 = Some (0xdd45cfaa27648933, StructBody 1 0 None [
       sfield [102, 97, 107, 101, 80, 116, 114] 65535 0 (Plain 9) 9 0])"
  by (simp_all add: b_dd45cfaa27648933_def read_table sfield_def cong: table_congs bind_head_cong)

lemma s_dd45cfaa27648933_id: "schema_id s_dd45cfaa27648933 = 0xdd45cfaa27648933"
  by (simp add: s_dd45cfaa27648933_def)

lemma s_dd45cfaa27648933_ok: "schema_ok s_dd45cfaa27648933"
  by (simp add: s_dd45cfaa27648933_def b_dd45cfaa27648933_node ordered_by_def sfield_def)

lemma s_dd45cfaa27648933_layout: "layout_of s_dd45cfaa27648933 = Some HookLauncher_AdvisePrefetchParams_layout"
  by (simp add: s_dd45cfaa27648933_def b_dd45cfaa27648933_node describe_table sfield_def struct_layout_def wireHookLauncher_fields)

text \<open>\<open>HookLauncher.advisePrefetch$Results\<close>, a struct\<close>

definition b_c08ebc98e790327d :: table where
  "b_c08ebc98e790327d = [
     W 0 0 0 0 6 0 6 0,
     W 125 50 144 231 152 188 142 192,
     W 33 0 0 0 1 0 0 0,
     W 0 0 0 0 0 0 0 0,
     W 1 0 7 0 0 0 0 0,
     W 0 0 0 0 0 0 0 0,
     W 0 0 0 0 0 0 0 0,
     W 21 0 0 0 194 1 0 0,
     W 0 0 0 0 0 0 0 0,
     W 0 0 0 0 0 0 0 0,
     W 37 0 0 0 63 0 0 0,
     W 0 0 0 0 0 0 0 0,
     W 0 0 0 0 0 0 0 0,
     W 104 111 111 107 45 108 97 117,
     W 110 99 104 101 114 46 99 97,
     W 112 110 112 58 72 111 111 107,
     W 76 97 117 110 99 104 101 114,
     W 46 97 100 118 105 115 101 80,
     W 114 101 102 101 116 99 104 36,
     W 82 101 115 117 108 116 115 0,
     W 4 0 0 0 3 0 4 0,
     W 0 0 0 0 0 0 0 0,
     W 0 0 1 0 0 0 0 0,
     W 0 0 0 0 0 0 0 0,
     W 13 0 0 0 34 0 0 0,
     W 0 0 0 0 0 0 0 0,
     W 8 0 0 0 3 0 1 0,
     W 20 0 0 0 2 0 1 0,
     W 97 99 107 0 0 0 0 0,
     W 16 0 0 0 0 0 0 0,
     W 136 53 26 54 3 107 110 188,
     W 0 0 0 0 0 0 0 0,
     W 0 0 0 0 0 0 0 0,
     W 16 0 0 0 0 0 0 0,
     W 0 0 0 0 0 0 0 0,
     W 0 0 0 0 0 0 0 0]"

definition s_c08ebc98e790327d :: raw_schema where
  "s_c08ebc98e790327d = RawSchema 0xc08ebc98e790327d b_c08ebc98e790327d 36
     [0xbc6e6b03361a3588]
     [0] 1 1
     [0]"

lemma b_c08ebc98e790327d_node:
  "length b_c08ebc98e790327d = 36"
  "read_node b_c08ebc98e790327d = Some (0xc08ebc98e790327d, StructBody 0 1 None [
       sfield [97, 99, 107] 65535 0 (Named 16 0xbc6e6b03361a3588) 16 0])"
  by (simp_all add: b_c08ebc98e790327d_def read_table sfield_def cong: table_congs bind_head_cong)

lemma s_c08ebc98e790327d_id: "schema_id s_c08ebc98e790327d = 0xc08ebc98e790327d"
  by (simp add: s_c08ebc98e790327d_def)

lemma s_c08ebc98e790327d_ok: "schema_ok s_c08ebc98e790327d"
  by (simp add: s_c08ebc98e790327d_def b_c08ebc98e790327d_node ordered_by_def sfield_def)

lemma s_c08ebc98e790327d_layout: "layout_of s_c08ebc98e790327d = Some HookLauncher_AdvisePrefetchResults_layout"
  by (simp add: s_c08ebc98e790327d_def b_c08ebc98e790327d_node describe_table sfield_def struct_layout_def wireHookLauncher_fields)

text \<open>\<open>HookLauncher.requestRdmaPlan$Params\<close>, a struct\<close>

definition b_ad988cc9e73fbe88 :: table where
  "b_ad988cc9e73fbe88 = [
     W 0 0 0 0 6 0 6 0,
     W 136 190 63 231 201 140 152 173,
     W 33 0 0 0 1 0 1 0,
     W 0 0 0 0 0 0 0 0,
     W 2 0 7 0 0 0 0 0,
     W 0 0 0 0 0 0 0 0,
     W 0 0 0 0 0 0 0 0,
     W 21 0 0 0 194 1 0 0,
     W 0 0 0 0 0 0 0 0,
     W 0 0 0 0 0 0 0 0,
     W 37 0 0 0 175 0 0 0,
     W 0 0 0 0 0 0 0 0,
     W 0 0 0 0 0 0 0 0,
     W 104 111 111 107 45 108 97 117,
     W 110 99 104 101 114 46 99 97,
     W 112 110 112 58 72 111 111 107,
     W 76 97 117 110 99 104 101 114,
     W 46 114 101 113 117 101 115 116,
     W 82 100 109 97 80 108 97 110,
     W 36 80 97 114 97 109 115 0,
     W 12 0 0 0 3 0 4 0,
     W 0 0 0 0 0 0 0 0,
     W 0 0 1 0 0 0 0 0,
     W 0 0 0 0 0 0 0 0,
     W 69 0 0 0 82 0 0 0,
     W 0 0 0 0 0 0 0 0,
     W 68 0 0 0 3 0 1 0,
     W 80 0 0 0 2 0 1 0,
     W 1 0 0 0 1 0 0 0,
     W 0 0 1 0 1 0 0 0,
     W 0 0 0 0 0 0 0 0,
     W 77 0 0 0 82 0 0 0,
     W 0 0 0 0 0 0 0 0,
     W 76 0 0 0 3 0 1 0,
     W 88 0 0 0 2 0 1 0,
     W 2 0 0 0 0 0 0 0,
     W 0 0 1 0 2 0 0 0,
     W 0 0 0 0 0 0 0 0,
     W 85 0 0 0 42 0 0 0,
     W 0 0 0 0 0 0 0 0,
     W 80 0 0 0 3 0 1 0,
     W 92 0 0 0 2 0 1 0,
     W 115 114 99 72 97 110 100 108,
     W 101 0 0 0 0 0 0 0,
     W 16 0 0 0 0 0 0 0,
     W 170 101 54 224 37 103 115 163,
     W 0 0 0 0 0 0 0 0,
     W 0 0 0 0 0 0 0 0,
     W 16 0 0 0 0 0 0 0,
     W 0 0 0 0 0 0 0 0,
     W 0 0 0 0 0 0 0 0,
     W 100 115 116 72 97 110 100 108,
     W 101 0 0 0 0 0 0 0,
     W 16 0 0 0 0 0 0 0,
     W 170 101 54 224 37 103 115 163,
     W 0 0 0 0 0 0 0 0,
     W 0 0 0 0 0 0 0 0,
     W 16 0 0 0 0 0 0 0,
     W 0 0 0 0 0 0 0 0,
     W 0 0 0 0 0 0 0 0,
     W 115 105 122 101 0 0 0 0,
     W 9 0 0 0 0 0 0 0,
     W 0 0 0 0 0 0 0 0,
     W 0 0 0 0 0 0 0 0,
     W 0 0 0 0 0 0 0 0,
     W 9 0 0 0 0 0 0 0,
     W 0 0 0 0 0 0 0 0,
     W 0 0 0 0 0 0 0 0]"

definition s_ad988cc9e73fbe88 :: raw_schema where
  "s_ad988cc9e73fbe88 = RawSchema 0xad988cc9e73fbe88 b_ad988cc9e73fbe88 68
     [0xa3736725e03665aa]
     [1, 2, 0] 1 3
     [0, 1, 2]"

lemma b_ad988cc9e73fbe88_node:
  "length b_ad988cc9e73fbe88 = 68"
  "read_node b_ad988cc9e73fbe88 = Some (0xad988cc9e73fbe88, StructBody 1 2 None [
       sfield [115, 114, 99, 72, 97, 110, 100, 108, 101] 65535 0 (Named 16 0xa3736725e03665aa) 16 0,
       sfield [100, 115, 116, 72, 97, 110, 100, 108, 101] 65535 1 (Named 16 0xa3736725e03665aa) 16 0,
       sfield [115, 105, 122, 101] 65535 0 (Plain 9) 9 0])"
  by (simp_all add: b_ad988cc9e73fbe88_def read_table sfield_def cong: table_congs bind_head_cong)

lemma s_ad988cc9e73fbe88_id: "schema_id s_ad988cc9e73fbe88 = 0xad988cc9e73fbe88"
  by (simp add: s_ad988cc9e73fbe88_def)

lemma s_ad988cc9e73fbe88_ok: "schema_ok s_ad988cc9e73fbe88"
  by (simp add: s_ad988cc9e73fbe88_def b_ad988cc9e73fbe88_node ordered_by_def sfield_def)

lemma s_ad988cc9e73fbe88_layout: "layout_of s_ad988cc9e73fbe88 = Some HookLauncher_RequestRdmaPlanParams_layout"
  by (simp add: s_ad988cc9e73fbe88_def b_ad988cc9e73fbe88_node describe_table sfield_def struct_layout_def wireHookLauncher_fields)

text \<open>\<open>HookLauncher.requestRdmaPlan$Results\<close>, a struct\<close>

definition b_ecffba89eb376b1c :: table where
  "b_ecffba89eb376b1c = [
     W 0 0 0 0 6 0 6 0,
     W 28 107 55 235 137 186 255 236,
     W 33 0 0 0 1 0 0 0,
     W 0 0 0 0 0 0 0 0,
     W 1 0 7 0 0 0 0 0,
     W 0 0 0 0 0 0 0 0,
     W 0 0 0 0 0 0 0 0,
     W 21 0 0 0 202 1 0 0,
     W 0 0 0 0 0 0 0 0,
     W 0 0 0 0 0 0 0 0,
     W 41 0 0 0 63 0 0 0,
     W 0 0 0 0 0 0 0 0,
     W 0 0 0 0 0 0 0 0,
     W 104 111 111 107 45 108 97 117,
     W 110 99 104 101 114 46 99 97,
     W 112 110 112 58 72 111 111 107,
     W 76 97 117 110 99 104 101 114,
     W 46 114 101 113 117 101 115 116,
     W 82 100 109 97 80 108 97 110,
     W 36 82 101 115 117 108 116 115,
     W 0 0 0 0 0 0 0 0,
     W 4 0 0 0 3 0 4 0,
     W 0 0 0 0 0 0 0 0,
     W 0 0 1 0 0 0 0 0,
     W 0 0 0 0 0 0 0 0,
     W 13 0 0 0 42 0 0 0,
     W 0 0 0 0 0 0 0 0,
     W 8 0 0 0 3 0 1 0,
     W 20 0 0 0 2 0 1 0,
     W 112 108 97 110 0 0 0 0,
     W 16 0 0 0 0 0 0 0,
     W 182 179 254 154 198 102 148 233,
     W 0 0 0 0 0 0 0 0,
     W 0 0 0 0 0 0 0 0,
     W 16 0 0 0 0 0 0 0,
     W 0 0 0 0 0 0 0 0,
     W 0 0 0 0 0 0 0 0]"

definition s_ecffba89eb376b1c :: raw_schema where
  "s_ecffba89eb376b1c = RawSchema 0xecffba89eb376b1c b_ecffba89eb376b1c 37
     [0xe99466c69afeb3b6]
     [0] 1 1
     [0]"

lemma b_ecffba89eb376b1c_node:
  "length b_ecffba89eb376b1c = 37"
  "read_node b_ecffba89eb376b1c = Some (0xecffba89eb376b1c, StructBody 0 1 None [
       sfield [112, 108, 97, 110] 65535 0 (Named 16 0xe99466c69afeb3b6) 16 0])"
  by (simp_all add: b_ecffba89eb376b1c_def read_table sfield_def cong: table_congs bind_head_cong)

lemma s_ecffba89eb376b1c_id: "schema_id s_ecffba89eb376b1c = 0xecffba89eb376b1c"
  by (simp add: s_ecffba89eb376b1c_def)

lemma s_ecffba89eb376b1c_ok: "schema_ok s_ecffba89eb376b1c"
  by (simp add: s_ecffba89eb376b1c_def b_ecffba89eb376b1c_node ordered_by_def sfield_def)

lemma s_ecffba89eb376b1c_layout: "layout_of s_ecffba89eb376b1c = Some HookLauncher_RequestRdmaPlanResults_layout"
  by (simp add: s_ecffba89eb376b1c_def b_ecffba89eb376b1c_node describe_table sfield_def struct_layout_def wireHookLauncher_fields)

text \<open>\<open>HookLauncher.requestAllocationPlan$Params\<close>, a struct\<close>

definition b_b83800add69fb044 :: table where
  "b_b83800add69fb044 = [
     W 0 0 0 0 6 0 6 0,
     W 68 176 159 214 173 0 56 184,
     W 33 0 0 0 1 0 1 0,
     W 0 0 0 0 0 0 0 0,
     W 0 0 7 0 0 0 0 0,
     W 0 0 0 0 0 0 0 0,
     W 0 0 0 0 0 0 0 0,
     W 21 0 0 0 242 1 0 0,
     W 0 0 0 0 0 0 0 0,
     W 0 0 0 0 0 0 0 0,
     W 41 0 0 0 63 0 0 0,
     W 0 0 0 0 0 0 0 0,
     W 0 0 0 0 0 0 0 0,
     W 104 111 111 107 45 108 97 117,
     W 110 99 104 101 114 46 99 97,
     W 112 110 112 58 72 111 111 107,
     W 76 97 117 110 99 104 101 114,
     W 46 114 101 113 117 101 115 116,
     W 65 108 108 111 99 97 116 105,
     W 111 110 80 108 97 110 36 80,
     W 97 114 97 109 115 0 0 0,
     W 4 0 0 0 3 0 4 0,
     W 0 0 0 0 0 0 0 0,
     W 0 0 1 0 0 0 0 0,
     W 0 0 0 0 0 0 0 0,
     W 13 0 0 0 42 0 0 0,
     W 0 0 0 0 0 0 0 0,
     W 8 0 0 0 3 0 1 0,
     W 20 0 0 0 2 0 1 0,
     W 115 105 122 101 0 0 0 0,
     W 9 0 0 0 0 0 0 0,
     W 0 0 0 0 0 0 0 0,
     W 0 0 0 0 0 0 0 0,
     W 0 0 0 0 0 0 0 0,
     W 9 0 0 0 0 0 0 0,
     W 0 0 0 0 0 0 0 0,
     W 0 0 0 0 0 0 0 0]"

definition s_b83800add69fb044 :: raw_schema where
  "s_b83800add69fb044 = RawSchema 0xb83800add69fb044 b_b83800add69fb044 37
     []
     [0] 0 1
     [0]"

lemma b_b83800add69fb044_node:
  "length b_b83800add69fb044 = 37"
  "read_node b_b83800add69fb044 = Some (0xb83800add69fb044, StructBody 1 0 None [
       sfield [115, 105, 122, 101] 65535 0 (Plain 9) 9 0])"
  by (simp_all add: b_b83800add69fb044_def read_table sfield_def cong: table_congs bind_head_cong)

lemma s_b83800add69fb044_id: "schema_id s_b83800add69fb044 = 0xb83800add69fb044"
  by (simp add: s_b83800add69fb044_def)

lemma s_b83800add69fb044_ok: "schema_ok s_b83800add69fb044"
  by (simp add: s_b83800add69fb044_def b_b83800add69fb044_node ordered_by_def sfield_def)

lemma s_b83800add69fb044_layout: "layout_of s_b83800add69fb044 = Some HookLauncher_RequestAllocationPlanParams_layout"
  by (simp add: s_b83800add69fb044_def b_b83800add69fb044_node describe_table sfield_def struct_layout_def wireHookLauncher_fields)

text \<open>\<open>HookLauncher.requestAllocationPlan$Results\<close>, a struct\<close>

definition b_bc5efba1a5ed5936 :: table where
  "b_bc5efba1a5ed5936 = [
     W 0 0 0 0 6 0 6 0,
     W 54 89 237 165 161 251 94 188,
     W 33 0 0 0 1 0 0 0,
     W 0 0 0 0 0 0 0 0,
     W 1 0 7 0 0 0 0 0,
     W 0 0 0 0 0 0 0 0,
     W 0 0 0 0 0 0 0 0,
     W 21 0 0 0 250 1 0 0,
     W 0 0 0 0 0 0 0 0,
     W 0 0 0 0 0 0 0 0,
     W 41 0 0 0 63 0 0 0,
     W 0 0 0 0 0 0 0 0,
     W 0 0 0 0 0 0 0 0,
     W 104 111 111 107 45 108 97 117,
     W 110 99 104 101 114 46 99 97,
     W 112 110 112 58 72 111 111 107,
     W 76 97 117 110 99 104 101 114,
     W 46 114 101 113 117 101 115 116,
     W 65 108 108 111 99 97 116 105,
     W 111 110 80 108 97 110 36 82,
     W 101 115 117 108 116 115 0 0,
     W 4 0 0 0 3 0 4 0,
     W 0 0 0 0 0 0 0 0,
     W 0 0 1 0 0 0 0 0,
     W 0 0 0 0 0 0 0 0,
     W 13 0 0 0 42 0 0 0,
     W 0 0 0 0 0 0 0 0,
     W 8 0 0 0 3 0 1 0,
     W 20 0 0 0 2 0 1 0,
     W 112 108 97 110 0 0 0 0,
     W 16 0 0 0 0 0 0 0,
     W 222 185 112 1 88 253 83 248,
     W 0 0 0 0 0 0 0 0,
     W 0 0 0 0 0 0 0 0,
     W 16 0 0 0 0 0 0 0,
     W 0 0 0 0 0 0 0 0,
     W 0 0 0 0 0 0 0 0]"

definition s_bc5efba1a5ed5936 :: raw_schema where
  "s_bc5efba1a5ed5936 = RawSchema 0xbc5efba1a5ed5936 b_bc5efba1a5ed5936 37
     [0xf853fd580170b9de]
     [0] 1 1
     [0]"

lemma b_bc5efba1a5ed5936_node:
  "length b_bc5efba1a5ed5936 = 37"
  "read_node b_bc5efba1a5ed5936 = Some (0xbc5efba1a5ed5936, StructBody 0 1 None [
       sfield [112, 108, 97, 110] 65535 0 (Named 16 0xf853fd580170b9de) 16 0])"
  by (simp_all add: b_bc5efba1a5ed5936_def read_table sfield_def cong: table_congs bind_head_cong)

lemma s_bc5efba1a5ed5936_id: "schema_id s_bc5efba1a5ed5936 = 0xbc5efba1a5ed5936"
  by (simp add: s_bc5efba1a5ed5936_def)

lemma s_bc5efba1a5ed5936_ok: "schema_ok s_bc5efba1a5ed5936"
  by (simp add: s_bc5efba1a5ed5936_def b_bc5efba1a5ed5936_node ordered_by_def sfield_def)

lemma s_bc5efba1a5ed5936_layout: "layout_of s_bc5efba1a5ed5936 = Some HookLauncher_RequestAllocationPlanResults_layout"
  by (simp add: s_bc5efba1a5ed5936_def b_bc5efba1a5ed5936_node describe_table sfield_def struct_layout_def wireHookLauncher_fields)

text \<open>\<open>HookLauncher.requestFreePlan$Params\<close>, a struct\<close>

definition b_b977ada353b11337 :: table where
  "b_b977ada353b11337 = [
     W 0 0 0 0 6 0 6 0,
     W 55 19 177 83 163 173 119 185,
     W 33 0 0 0 1 0 1 0,
     W 0 0 0 0 0 0 0 0,
     W 0 0 7 0 0 0 0 0,
     W 0 0 0 0 0 0 0 0,
     W 0 0 0 0 0 0 0 0,
     W 21 0 0 0 194 1 0 0,
     W 0 0 0 0 0 0 0 0,
     W 0 0 0 0 0 0 0 0,
     W 37 0 0 0 63 0 0 0,
     W 0 0 0 0 0 0 0 0,
     W 0 0 0 0 0 0 0 0,
     W 104 111 111 107 45 108 97 117,
     W 110 99 104 101 114 46 99 97,
     W 112 110 112 58 72 111 111 107,
     W 76 97 117 110 99 104 101 114,
     W 46 114 101 113 117 101 115 116,
     W 70 114 101 101 80 108 97 110,
     W 36 80 97 114 97 109 115 0,
     W 4 0 0 0 3 0 4 0,
     W 0 0 0 0 0 0 0 0,
     W 0 0 1 0 0 0 0 0,
     W 0 0 0 0 0 0 0 0,
     W 13 0 0 0 66 0 0 0,
     W 0 0 0 0 0 0 0 0,
     W 8 0 0 0 3 0 1 0,
     W 20 0 0 0 2 0 1 0,
     W 102 97 107 101 80 116 114 0,
     W 9 0 0 0 0 0 0 0,
     W 0 0 0 0 0 0 0 0,
     W 0 0 0 0 0 0 0 0,
     W 0 0 0 0 0 0 0 0,
     W 9 0 0 0 0 0 0 0,
     W 0 0 0 0 0 0 0 0,
     W 0 0 0 0 0 0 0 0]"

definition s_b977ada353b11337 :: raw_schema where
  "s_b977ada353b11337 = RawSchema 0xb977ada353b11337 b_b977ada353b11337 36
     []
     [0] 0 1
     [0]"

lemma b_b977ada353b11337_node:
  "length b_b977ada353b11337 = 36"
  "read_node b_b977ada353b11337 = Some (0xb977ada353b11337, StructBody 1 0 None [
       sfield [102, 97, 107, 101, 80, 116, 114] 65535 0 (Plain 9) 9 0])"
  by (simp_all add: b_b977ada353b11337_def read_table sfield_def cong: table_congs bind_head_cong)

lemma s_b977ada353b11337_id: "schema_id s_b977ada353b11337 = 0xb977ada353b11337"
  by (simp add: s_b977ada353b11337_def)

lemma s_b977ada353b11337_ok: "schema_ok s_b977ada353b11337"
  by (simp add: s_b977ada353b11337_def b_b977ada353b11337_node ordered_by_def sfield_def)

lemma s_b977ada353b11337_layout: "layout_of s_b977ada353b11337 = Some HookLauncher_RequestFreePlanParams_layout"
  by (simp add: s_b977ada353b11337_def b_b977ada353b11337_node describe_table sfield_def struct_layout_def wireHookLauncher_fields)

text \<open>\<open>HookLauncher.requestFreePlan$Results\<close>, a struct\<close>

definition b_f2d3d5a5c7ae7f9e :: table where
  "b_f2d3d5a5c7ae7f9e = [
     W 0 0 0 0 6 0 6 0,
     W 158 127 174 199 165 213 211 242,
     W 33 0 0 0 1 0 0 0,
     W 0 0 0 0 0 0 0 0,
     W 1 0 7 0 0 0 0 0,
     W 0 0 0 0 0 0 0 0,
     W 0 0 0 0 0 0 0 0,
     W 21 0 0 0 202 1 0 0,
     W 0 0 0 0 0 0 0 0,
     W 0 0 0 0 0 0 0 0,
     W 41 0 0 0 63 0 0 0,
     W 0 0 0 0 0 0 0 0,
     W 0 0 0 0 0 0 0 0,
     W 104 111 111 107 45 108 97 117,
     W 110 99 104 101 114 46 99 97,
     W 112 110 112 58 72 111 111 107,
     W 76 97 117 110 99 104 101 114,
     W 46 114 101 113 117 101 115 116,
     W 70 114 101 101 80 108 97 110,
     W 36 82 101 115 117 108 116 115,
     W 0 0 0 0 0 0 0 0,
     W 4 0 0 0 3 0 4 0,
     W 0 0 0 0 0 0 0 0,
     W 0 0 1 0 0 0 0 0,
     W 0 0 0 0 0 0 0 0,
     W 13 0 0 0 34 0 0 0,
     W 0 0 0 0 0 0 0 0,
     W 8 0 0 0 3 0 1 0,
     W 20 0 0 0 2 0 1 0,
     W 97 99 107 0 0 0 0 0,
     W 16 0 0 0 0 0 0 0,
     W 136 53 26 54 3 107 110 188,
     W 0 0 0 0 0 0 0 0,
     W 0 0 0 0 0 0 0 0,
     W 16 0 0 0 0 0 0 0,
     W 0 0 0 0 0 0 0 0,
     W 0 0 0 0 0 0 0 0]"

definition s_f2d3d5a5c7ae7f9e :: raw_schema where
  "s_f2d3d5a5c7ae7f9e = RawSchema 0xf2d3d5a5c7ae7f9e b_f2d3d5a5c7ae7f9e 37
     [0xbc6e6b03361a3588]
     [0] 1 1
     [0]"

lemma b_f2d3d5a5c7ae7f9e_node:
  "length b_f2d3d5a5c7ae7f9e = 37"
  "read_node b_f2d3d5a5c7ae7f9e = Some (0xf2d3d5a5c7ae7f9e, StructBody 0 1 None [
       sfield [97, 99, 107] 65535 0 (Named 16 0xbc6e6b03361a3588) 16 0])"
  by (simp_all add: b_f2d3d5a5c7ae7f9e_def read_table sfield_def cong: table_congs bind_head_cong)

lemma s_f2d3d5a5c7ae7f9e_id: "schema_id s_f2d3d5a5c7ae7f9e = 0xf2d3d5a5c7ae7f9e"
  by (simp add: s_f2d3d5a5c7ae7f9e_def)

lemma s_f2d3d5a5c7ae7f9e_ok: "schema_ok s_f2d3d5a5c7ae7f9e"
  by (simp add: s_f2d3d5a5c7ae7f9e_def b_f2d3d5a5c7ae7f9e_node ordered_by_def sfield_def)

lemma s_f2d3d5a5c7ae7f9e_layout: "layout_of s_f2d3d5a5c7ae7f9e = Some HookLauncher_RequestFreePlanResults_layout"
  by (simp add: s_f2d3d5a5c7ae7f9e_def b_f2d3d5a5c7ae7f9e_node describe_table sfield_def struct_layout_def wireHookLauncher_fields)

text \<open>\<open>HookLauncher.launchKernel$Params\<close>, a struct\<close>

definition b_903a87eb87ebcf8b :: table where
  "b_903a87eb87ebcf8b = [
     W 0 0 0 0 6 0 6 0,
     W 139 207 235 135 235 135 58 144,
     W 33 0 0 0 1 0 4 0,
     W 0 0 0 0 0 0 0 0,
     W 2 0 7 0 0 0 0 0,
     W 0 0 0 0 0 0 0 0,
     W 0 0 0 0 0 0 0 0,
     W 21 0 0 0 170 1 0 0,
     W 0 0 0 0 0 0 0 0,
     W 0 0 0 0 0 0 0 0,
     W 37 0 0 0 255 1 0 0,
     W 0 0 0 0 0 0 0 0,
     W 0 0 0 0 0 0 0 0,
     W 104 111 111 107 45 108 97 117,
     W 110 99 104 101 114 46 99 97,
     W 112 110 112 58 72 111 111 107,
     W 76 97 117 110 99 104 101 114,
     W 46 108 97 117 110 99 104 75,
     W 101 114 110 101 108 36 80 97,
     W 114 97 109 115 0 0 0 0,
     W 36 0 0 0 3 0 4 0,
     W 0 0 0 0 0 0 0 0,
     W 0 0 1 0 0 0 0 0,
     W 0 0 0 0 0 0 0 0,
     W 237 0 0 0 42 0 0 0,
     W 0 0 0 0 0 0 0 0,
     W 232 0 0 0 3 0 1 0,
     W 244 0 0 0 2 0 1 0,
     W 1 0 0 0 0 0 0 0,
     W 0 0 1 0 1 0 0 0,
     W 0 0 0 0 0 0 0 0,
     W 241 0 0 0 74 0 0 0,
     W 0 0 0 0 0 0 0 0,
     W 240 0 0 0 3 0 1 0,
     W 252 0 0 0 2 0 1 0,
     W 2 0 0 0 1 0 0 0,
     W 0 0 1 0 2 0 0 0,
     W 0 0 0 0 0 0 0 0,
     W 249 0 0 0 74 0 0 0,
     W 0 0 0 0 0 0 0 0,
     W 248 0 0 0 3 0 1 0,
     W 4 1 0 0 2 0 1 0,
     W 3 0 0 0 2 0 0 0,
     W 0 0 1 0 3 0 0 0,
     W 0 0 0 0 0 0 0 0,
     W 1 1 0 0 74 0 0 0,
     W 0 0 0 0 0 0 0 0,
     W 0 1 0 0 3 0 1 0,
     W 12 1 0 0 2 0 1 0,
     W 4 0 0 0 3 0 0 0,
     W 0 0 1 0 4 0 0 0,
     W 0 0 0 0 0 0 0 0,
     W 9 1 0 0 82 0 0 0,
     W 0 0 0 0 0 0 0 0,
     W 8 1 0 0 3 0 1 0,
     W 20 1 0 0 2 0 1 0,
     W 5 0 0 0 4 0 0 0,
     W 0 0 1 0 5 0 0 0,
     W 0 0 0 0 0 0 0 0,
     W 17 1 0 0 82 0 0 0,
     W 0 0 0 0 0 0 0 0,
     W 16 1 0 0 3 0 1 0,
     W 28 1 0 0 2 0 1 0,
     W 6 0 0 0 5 0 0 0,
     W 0 0 1 0 6 0 0 0,
     W 0 0 0 0 0 0 0 0,
     W 25 1 0 0 82 0 0 0,
     W 0 0 0 0 0 0 0 0,
     W 24 1 0 0 3 0 1 0,
     W 36 1 0 0 2 0 1 0,
     W 7 0 0 0 6 0 0 0,
     W 0 0 1 0 7 0 0 0,
     W 0 0 0 0 0 0 0 0,
     W 33 1 0 0 122 0 0 0,
     W 0 0 0 0 0 0 0 0,
     W 32 1 0 0 3 0 1 0,
     W 44 1 0 0 2 0 1 0,
     W 8 0 0 0 1 0 0 0,
     W 0 0 1 0 8 0 0 0,
     W 0 0 0 0 0 0 0 0,
     W 41 1 0 0 58 0 0 0,
     W 0 0 0 0 0 0 0 0,
     W 36 1 0 0 3 0 1 0,
     W 48 1 0 0 2 0 1 0,
     W 102 117 110 99 0 0 0 0,
     W 12 0 0 0 0 0 0 0,
     W 0 0 0 0 0 0 0 0,
     W 0 0 0 0 0 0 0 0,
     W 0 0 0 0 0 0 0 0,
     W 12 0 0 0 0 0 0 0,
     W 0 0 0 0 0 0 0 0,
     W 0 0 0 0 0 0 0 0,
     W 103 114 105 100 68 105 109 88,
     W 0 0 0 0 0 0 0 0,
     W 8 0 0 0 0 0 0 0,
     W 0 0 0 0 0 0 0 0,
     W 0 0 0 0 0 0 0 0,
     W 0 0 0 0 0 0 0 0,
     W 8 0 0 0 0 0 0 0,
     W 0 0 0 0 0 0 0 0,
     W 0 0 0 0 0 0 0 0,
     W 103 114 105 100 68 105 109 89,
     W 0 0 0 0 0 0 0 0,
     W 8 0 0 0 0 0 0 0,
     W 0 0 0 0 0 0 0 0,
     W 0 0 0 0 0 0 0 0,
     W 0 0 0 0 0 0 0 0,
     W 8 0 0 0 0 0 0 0,
     W 0 0 0 0 0 0 0 0,
     W 0 0 0 0 0 0 0 0,
     W 103 114 105 100 68 105 109 90,
     W 0 0 0 0 0 0 0 0,
     W 8 0 0 0 0 0 0 0,
     W 0 0 0 0 0 0 0 0,
     W 0 0 0 0 0 0 0 0,
     W 0 0 0 0 0 0 0 0,
     W 8 0 0 0 0 0 0 0,
     W 0 0 0 0 0 0 0 0,
     W 0 0 0 0 0 0 0 0,
     W 98 108 111 99 107 68 105 109,
     W 88 0 0 0 0 0 0 0,
     W 8 0 0 0 0 0 0 0,
     W 0 0 0 0 0 0 0 0,
     W 0 0 0 0 0 0 0 0,
     W 0 0 0 0 0 0 0 0,
     W 8 0 0 0 0 0 0 0,
     W 0 0 0 0 0 0 0 0,
     W 0 0 0 0 0 0 0 0,
     W 98 108 111 99 107 68 105 109,
     W 89 0 0 0 0 0 0 0,
     W 8 0 0 0 0 0 0 0,
     W 0 0 0 0 0 0 0 0,
     W 0 0 0 0 0 0 0 0,
     W 0 0 0 0 0 0 0 0,
     W 8 0 0 0 0 0 0 0,
     W 0 0 0 0 0 0 0 0,
     W 0 0 0 0 0 0 0 0,
     W 98 108 111 99 107 68 105 109,
     W 90 0 0 0 0 0 0 0,
     W 8 0 0 0 0 0 0 0,
     W 0 0 0 0 0 0 0 0,
     W 0 0 0 0 0 0 0 0,
     W 0 0 0 0 0 0 0 0,
     W 8 0 0 0 0 0 0 0,
     W 0 0 0 0 0 0 0 0,
     W 0 0 0 0 0 0 0 0,
     W 115 104 97 114 101 100 77 101,
     W 109 66 121 116 101 115 0 0,
     W 8 0 0 0 0 0 0 0,
     W 0 0 0 0 0 0 0 0,
     W 0 0 0 0 0 0 0 0,
     W 0 0 0 0 0 0 0 0,
     W 8 0 0 0 0 0 0 0,
     W 0 0 0 0 0 0 0 0,
     W 0 0 0 0 0 0 0 0,
     W 112 97 114 97 109 115 0 0,
     W 13 0 0 0 0 0 0 0,
     W 0 0 0 0 0 0 0 0,
     W 0 0 0 0 0 0 0 0,
     W 0 0 0 0 0 0 0 0,
     W 13 0 0 0 0 0 0 0,
     W 0 0 0 0 0 0 0 0,
     W 0 0 0 0 0 0 0 0]"

definition s_903a87eb87ebcf8b :: raw_schema where
  "s_903a87eb87ebcf8b = RawSchema 0x903a87eb87ebcf8b b_903a87eb87ebcf8b 163
     []
     [4, 5, 6, 0, 1, 2, 3, 8, 7] 0 9
     [0, 1, 2, 3, 4, 5, 6, 7, 8]"

lemma b_903a87eb87ebcf8b_node:
  "length b_903a87eb87ebcf8b = 163"
  "read_node b_903a87eb87ebcf8b = Some (0x903a87eb87ebcf8b, StructBody 4 2 None [
       sfield [102, 117, 110, 99] 65535 0 (Plain 12) 12 0,
       sfield [103, 114, 105, 100, 68, 105, 109, 88] 65535 0 (Plain 8) 8 0,
       sfield [103, 114, 105, 100, 68, 105, 109, 89] 65535 1 (Plain 8) 8 0,
       sfield [103, 114, 105, 100, 68, 105, 109, 90] 65535 2 (Plain 8) 8 0,
       sfield [98, 108, 111, 99, 107, 68, 105, 109, 88] 65535 3 (Plain 8) 8 0,
       sfield [98, 108, 111, 99, 107, 68, 105, 109, 89] 65535 4 (Plain 8) 8 0,
       sfield [98, 108, 111, 99, 107, 68, 105, 109, 90] 65535 5 (Plain 8) 8 0,
       sfield [115, 104, 97, 114, 101, 100, 77, 101, 109, 66, 121, 116, 101, 115] 65535 6 (Plain 8)
       8 0,
       sfield [112, 97, 114, 97, 109, 115] 65535 1 (Plain 13) 13 0])"
  by (simp_all add: b_903a87eb87ebcf8b_def read_table sfield_def cong: table_congs bind_head_cong)

lemma s_903a87eb87ebcf8b_id: "schema_id s_903a87eb87ebcf8b = 0x903a87eb87ebcf8b"
  by (simp add: s_903a87eb87ebcf8b_def)

lemma s_903a87eb87ebcf8b_ok: "schema_ok s_903a87eb87ebcf8b"
  by (simp add: s_903a87eb87ebcf8b_def b_903a87eb87ebcf8b_node ordered_by_def sfield_def)

lemma s_903a87eb87ebcf8b_layout: "layout_of s_903a87eb87ebcf8b = Some HookLauncher_LaunchKernelParams_layout"
  by (simp add: s_903a87eb87ebcf8b_def b_903a87eb87ebcf8b_node describe_table sfield_def struct_layout_def wireHookLauncher_fields)

text \<open>\<open>HookLauncher.launchKernel$Results\<close>, a struct\<close>

definition b_d43d88d79ada8ecb :: table where
  "b_d43d88d79ada8ecb = [
     W 0 0 0 0 6 0 6 0,
     W 203 142 218 154 215 136 61 212,
     W 33 0 0 0 1 0 0 0,
     W 0 0 0 0 0 0 0 0,
     W 1 0 7 0 0 0 0 0,
     W 0 0 0 0 0 0 0 0,
     W 0 0 0 0 0 0 0 0,
     W 21 0 0 0 178 1 0 0,
     W 0 0 0 0 0 0 0 0,
     W 0 0 0 0 0 0 0 0,
     W 37 0 0 0 63 0 0 0,
     W 0 0 0 0 0 0 0 0,
     W 0 0 0 0 0 0 0 0,
     W 104 111 111 107 45 108 97 117,
     W 110 99 104 101 114 46 99 97,
     W 112 110 112 58 72 111 111 107,
     W 76 97 117 110 99 104 101 114,
     W 46 108 97 117 110 99 104 75,
     W 101 114 110 101 108 36 82 101,
     W 115 117 108 116 115 0 0 0,
     W 4 0 0 0 3 0 4 0,
     W 0 0 0 0 0 0 0 0,
     W 0 0 1 0 0 0 0 0,
     W 0 0 0 0 0 0 0 0,
     W 13 0 0 0 34 0 0 0,
     W 0 0 0 0 0 0 0 0,
     W 8 0 0 0 3 0 1 0,
     W 20 0 0 0 2 0 1 0,
     W 97 99 107 0 0 0 0 0,
     W 16 0 0 0 0 0 0 0,
     W 136 53 26 54 3 107 110 188,
     W 0 0 0 0 0 0 0 0,
     W 0 0 0 0 0 0 0 0,
     W 16 0 0 0 0 0 0 0,
     W 0 0 0 0 0 0 0 0,
     W 0 0 0 0 0 0 0 0]"

definition s_d43d88d79ada8ecb :: raw_schema where
  "s_d43d88d79ada8ecb = RawSchema 0xd43d88d79ada8ecb b_d43d88d79ada8ecb 36
     [0xbc6e6b03361a3588]
     [0] 1 1
     [0]"

lemma b_d43d88d79ada8ecb_node:
  "length b_d43d88d79ada8ecb = 36"
  "read_node b_d43d88d79ada8ecb = Some (0xd43d88d79ada8ecb, StructBody 0 1 None [
       sfield [97, 99, 107] 65535 0 (Named 16 0xbc6e6b03361a3588) 16 0])"
  by (simp_all add: b_d43d88d79ada8ecb_def read_table sfield_def cong: table_congs bind_head_cong)

lemma s_d43d88d79ada8ecb_id: "schema_id s_d43d88d79ada8ecb = 0xd43d88d79ada8ecb"
  by (simp add: s_d43d88d79ada8ecb_def)

lemma s_d43d88d79ada8ecb_ok: "schema_ok s_d43d88d79ada8ecb"
  by (simp add: s_d43d88d79ada8ecb_def b_d43d88d79ada8ecb_node ordered_by_def sfield_def)

lemma s_d43d88d79ada8ecb_layout: "layout_of s_d43d88d79ada8ecb = Some HookLauncher_LaunchKernelResults_layout"
  by (simp add: s_d43d88d79ada8ecb_def b_d43d88d79ada8ecb_node describe_table sfield_def struct_layout_def wireHookLauncher_fields)

text \<open>\<open>BandwidthResult\<close>, a struct\<close>

definition b_8e06bfe25704b493 :: table where
  "b_8e06bfe25704b493 = [
     W 0 0 0 0 6 0 6 0,
     W 147 180 4 87 226 191 6 142,
     W 20 0 0 0 1 0 1 0,
     W 113 94 165 177 235 173 187 218,
     W 0 0 7 0 0 0 0 0,
     W 0 0 0 0 0 0 0 0,
     W 203 11 0 0 70 12 0 0,
     W 21 0 0 0 34 1 0 0,
     W 37 0 0 0 7 0 0 0,
     W 0 0 0 0 0 0 0 0,
     W 33 0 0 0 119 0 0 0,
     W 0 0 0 0 0 0 0 0,
     W 0 0 0 0 0 0 0 0,
     W 104 111 111 107 45 108 97 117,
     W 110 99 104 101 114 46 99 97,
     W 112 110 112 58 66 97 110 100,
     W 119 105 100 116 104 82 101 115,
     W 117 108 116 0 0 0 0 0,
     W 0 0 0 0 1 0 1 0,
     W 8 0 0 0 3 0 4 0,
     W 0 0 0 0 0 0 0 0,
     W 0 0 1 0 0 0 0 0,
     W 0 0 0 0 0 0 0 0,
     W 41 0 0 0 90 0 0 0,
     W 0 0 0 0 0 0 0 0,
     W 40 0 0 0 3 0 1 0,
     W 52 0 0 0 2 0 1 0,
     W 1 0 0 0 1 0 0 0,
     W 0 0 1 0 1 0 0 0,
     W 0 0 0 0 0 0 0 0,
     W 49 0 0 0 66 0 0 0,
     W 0 0 0 0 0 0 0 0,
     W 44 0 0 0 3 0 1 0,
     W 56 0 0 0 2 0 1 0,
     W 116 104 114 111 117 103 104 112,
     W 117 116 0 0 0 0 0 0,
     W 10 0 0 0 0 0 0 0,
     W 0 0 0 0 0 0 0 0,
     W 0 0 0 0 0 0 0 0,
     W 0 0 0 0 0 0 0 0,
     W 10 0 0 0 0 0 0 0,
     W 0 0 0 0 0 0 0 0,
     W 0 0 0 0 0 0 0 0,
     W 108 97 116 101 110 99 121 0,
     W 10 0 0 0 0 0 0 0,
     W 0 0 0 0 0 0 0 0,
     W 0 0 0 0 0 0 0 0,
     W 0 0 0 0 0 0 0 0,
     W 10 0 0 0 0 0 0 0,
     W 0 0 0 0 0 0 0 0,
     W 0 0 0 0 0 0 0 0]"

definition s_8e06bfe25704b493 :: raw_schema where
  "s_8e06bfe25704b493 = RawSchema 0x8e06bfe25704b493 b_8e06bfe25704b493 51
     []
     [1, 0] 0 2
     [0, 1]"

lemma b_8e06bfe25704b493_node:
  "length b_8e06bfe25704b493 = 51"
  "read_node b_8e06bfe25704b493 = Some (0x8e06bfe25704b493, StructBody 1 0 None [
       sfield [116, 104, 114, 111, 117, 103, 104, 112, 117, 116] 65535 0 (Plain 10) 10 0,
       sfield [108, 97, 116, 101, 110, 99, 121] 65535 1 (Plain 10) 10 0])"
  by (simp_all add: b_8e06bfe25704b493_def read_table sfield_def cong: table_congs bind_head_cong)

lemma s_8e06bfe25704b493_id: "schema_id s_8e06bfe25704b493 = 0x8e06bfe25704b493"
  by (simp add: s_8e06bfe25704b493_def)

lemma s_8e06bfe25704b493_ok: "schema_ok s_8e06bfe25704b493"
  by (simp add: s_8e06bfe25704b493_def b_8e06bfe25704b493_node ordered_by_def sfield_def)

lemma s_8e06bfe25704b493_layout: "layout_of s_8e06bfe25704b493 = Some BandwidthResult_layout"
  by (simp add: s_8e06bfe25704b493_def b_8e06bfe25704b493_node describe_table sfield_def struct_layout_def wireHookLauncher_fields)

text \<open>\<open>TaskStatus\<close>, a struct\<close>

definition b_9067a75daac545ad :: table where
  "b_9067a75daac545ad = [
     W 0 0 0 0 6 0 6 0,
     W 173 69 197 170 93 167 103 144,
     W 20 0 0 0 1 0 1 0,
     W 113 94 165 177 235 173 187 218,
     W 0 0 7 0 0 0 0 0,
     W 0 0 0 0 0 0 0 0,
     W 74 12 0 0 209 12 0 0,
     W 21 0 0 0 250 0 0 0,
     W 33 0 0 0 7 0 0 0,
     W 0 0 0 0 0 0 0 0,
     W 29 0 0 0 119 0 0 0,
     W 0 0 0 0 0 0 0 0,
     W 0 0 0 0 0 0 0 0,
     W 104 111 111 107 45 108 97 117,
     W 110 99 104 101 114 46 99 97,
     W 112 110 112 58 84 97 115 107,
     W 83 116 97 116 117 115 0 0,
     W 0 0 0 0 1 0 1 0,
     W 8 0 0 0 3 0 4 0,
     W 0 0 0 0 0 0 0 0,
     W 0 0 1 0 0 0 0 0,
     W 0 0 0 0 0 0 0 0,
     W 41 0 0 0 74 0 0 0,
     W 0 0 0 0 0 0 0 0,
     W 40 0 0 0 3 0 1 0,
     W 52 0 0 0 2 0 1 0,
     W 1 0 0 0 1 0 0 0,
     W 0 0 1 0 1 0 0 0,
     W 0 0 0 0 0 0 0 0,
     W 49 0 0 0 114 0 0 0,
     W 0 0 0 0 0 0 0 0,
     W 48 0 0 0 3 0 1 0,
     W 60 0 0 0 2 0 1 0,
     W 112 114 111 103 114 101 115 115,
     W 0 0 0 0 0 0 0 0,
     W 6 0 0 0 0 0 0 0,
     W 0 0 0 0 0 0 0 0,
     W 0 0 0 0 0 0 0 0,
     W 0 0 0 0 0 0 0 0,
     W 6 0 0 0 0 0 0 0,
     W 0 0 0 0 0 0 0 0,
     W 0 0 0 0 0 0 0 0,
     W 101 115 116 105 109 97 116 101,
     W 100 84 105 109 101 0 0 0,
     W 8 0 0 0 0 0 0 0,
     W 0 0 0 0 0 0 0 0,
     W 0 0 0 0 0 0 0 0,
     W 0 0 0 0 0 0 0 0,
     W 8 0 0 0 0 0 0 0,
     W 0 0 0 0 0 0 0 0,
     W 0 0 0 0 0 0 0 0]"

definition s_9067a75daac545ad :: raw_schema where
  "s_9067a75daac545ad = RawSchema 0x9067a75daac545ad b_9067a75daac545ad 51
     []
     [1, 0] 0 2
     [0, 1]"

lemma b_9067a75daac545ad_node:
  "length b_9067a75daac545ad = 51"
  "read_node b_9067a75daac545ad = Some (0x9067a75daac545ad, StructBody 1 0 None [
       sfield [112, 114, 111, 103, 114, 101, 115, 115] 65535 0 (Plain 6) 6 0,
       sfield [101, 115, 116, 105, 109, 97, 116, 101, 100, 84, 105, 109, 101] 65535 1 (Plain 8) 8 0])"
  by (simp_all add: b_9067a75daac545ad_def read_table sfield_def cong: table_congs bind_head_cong)

lemma s_9067a75daac545ad_id: "schema_id s_9067a75daac545ad = 0x9067a75daac545ad"
  by (simp add: s_9067a75daac545ad_def)

lemma s_9067a75daac545ad_ok: "schema_ok s_9067a75daac545ad"
  by (simp add: s_9067a75daac545ad_def b_9067a75daac545ad_node ordered_by_def sfield_def)

lemma s_9067a75daac545ad_layout: "layout_of s_9067a75daac545ad = Some TaskStatus_layout"
  by (simp add: s_9067a75daac545ad_def b_9067a75daac545ad_node describe_table sfield_def struct_layout_def wireHookLauncher_fields)

text \<open>\<open>NodeInfo\<close>, a struct\<close>

definition b_e512d381fed0aa2e :: table where
  "b_e512d381fed0aa2e = [
     W 0 0 0 0 6 0 6 0,
     W 46 170 208 254 129 211 18 229,
     W 20 0 0 0 1 0 1 0,
     W 113 94 165 177 235 173 187 218,
     W 1 0 7 0 0 0 0 0,
     W 0 0 0 0 0 0 0 0,
     W 3 13 0 0 151 13 0 0,
     W 21 0 0 0 234 0 0 0,
     W 33 0 0 0 7 0 0 0,
     W 0 0 0 0 0 0 0 0,
     W 29 0 0 0 175 0 0 0,
     W 0 0 0 0 0 0 0 0,
     W 0 0 0 0 0 0 0 0,
     W 104 111 111 107 45 108 97 117,
     W 110 99 104 101 114 46 99 97,
     W 112 110 112 58 78 111 100 101,
     W 73 110 102 111 0 0 0 0,
     W 0 0 0 0 1 0 1 0,
     W 12 0 0 0 3 0 4 0,
     W 0 0 0 0 0 0 0 0,
     W 0 0 1 0 0 0 0 0,
     W 0 0 0 0 0 0 0 0,
     W 69 0 0 0 58 0 0 0,
     W 0 0 0 0 0 0 0 0,
     W 64 0 0 0 3 0 1 0,
     W 76 0 0 0 2 0 1 0,
     W 1 0 0 0 0 0 0 0,
     W 0 0 1 0 1 0 0 0,
     W 0 0 0 0 0 0 0 0,
     W 73 0 0 0 90 0 0 0,
     W 0 0 0 0 0 0 0 0,
     W 72 0 0 0 3 0 1 0,
     W 84 0 0 0 2 0 1 0,
     W 2 0 0 0 2 0 0 0,
     W 0 0 1 0 2 0 0 0,
     W 0 0 0 0 0 0 0 0,
     W 81 0 0 0 50 0 0 0,
     W 0 0 0 0 0 0 0 0,
     W 76 0 0 0 3 0 1 0,
     W 88 0 0 0 2 0 1 0,
     W 110 111 100 101 73 100 0 0,
     W 8 0 0 0 0 0 0 0,
     W 0 0 0 0 0 0 0 0,
     W 0 0 0 0 0 0 0 0,
     W 0 0 0 0 0 0 0 0,
     W 8 0 0 0 0 0 0 0,
     W 0 0 0 0 0 0 0 0,
     W 0 0 0 0 0 0 0 0,
     W 109 101 109 111 114 121 84 121,
     W 112 101 0 0 0 0 0 0,
     W 12 0 0 0 0 0 0 0,
     W 0 0 0 0 0 0 0 0,
     W 0 0 0 0 0 0 0 0,
     W 0 0 0 0 0 0 0 0,
     W 12 0 0 0 0 0 0 0,
     W 0 0 0 0 0 0 0 0,
     W 0 0 0 0 0 0 0 0,
     W 101 114 114 111 114 0 0 0,
     W 15 0 0 0 0 0 0 0,
     W 125 7 179 164 122 15 56 253,
     W 0 0 0 0 0 0 0 0,
     W 0 0 0 0 0 0 0 0,
     W 15 0 0 0 0 0 0 0,
     W 0 0 0 0 0 0 0 0,
     W 0 0 0 0 0 0 0 0]"

definition s_e512d381fed0aa2e :: raw_schema where
  "s_e512d381fed0aa2e = RawSchema 0xe512d381fed0aa2e b_e512d381fed0aa2e 65
     [0xfd380f7aa4b3077d]
     [2, 1, 0] 1 3
     [0, 1, 2]"

lemma b_e512d381fed0aa2e_node:
  "length b_e512d381fed0aa2e = 65"
  "read_node b_e512d381fed0aa2e = Some (0xe512d381fed0aa2e, StructBody 1 1 None [
       sfield [110, 111, 100, 101, 73, 100] 65535 0 (Plain 8) 8 0,
       sfield [109, 101, 109, 111, 114, 121, 84, 121, 112, 101] 65535 0 (Plain 12) 12 0,
       sfield [101, 114, 114, 111, 114] 65535 2 (Named 15 0xfd380f7aa4b3077d) 15 0])"
  by (simp_all add: b_e512d381fed0aa2e_def read_table sfield_def cong: table_congs bind_head_cong)

lemma s_e512d381fed0aa2e_id: "schema_id s_e512d381fed0aa2e = 0xe512d381fed0aa2e"
  by (simp add: s_e512d381fed0aa2e_def)

lemma s_e512d381fed0aa2e_ok: "schema_ok s_e512d381fed0aa2e"
  by (simp add: s_e512d381fed0aa2e_def b_e512d381fed0aa2e_node ordered_by_def sfield_def)

lemma s_e512d381fed0aa2e_layout: "layout_of s_e512d381fed0aa2e = Some NodeInfo_layout"
  by (simp add: s_e512d381fed0aa2e_def b_e512d381fed0aa2e_node describe_table sfield_def struct_layout_def wireHookLauncher_fields)

subsection \<open>All of them\<close>

definition schemaHookLauncher_schemas :: "raw_schema list" where
  "schemaHookLauncher_schemas = [
     s_ddb256ee5b6b53b3, s_eb7186a22c3fa0de, s_f853fd580170b9de, s_faacf17de2174649,
     s_98b4ed7091b72c0c, s_b5d15336d30e0dd1, s_a000d051b28a6d94, s_d9ccdb1e5a73a940,
     s_eb3523cbe98a804f, s_fa389ebe41e98f39, s_80b6bbac6ed09d85, s_e76522c9a2f40b20,
     s_befc738967da08f4, s_cbbd2a831eac2f20, s_a4ab519fa8915cb7, s_8cad8defaf95e7b0,
     s_bb47eae7bc02e6df, s_8164a155f1640357, s_e407a39af6852337, s_ac17d9ac7710bc97,
     s_dd45cfaa27648933, s_c08ebc98e790327d, s_ad988cc9e73fbe88, s_ecffba89eb376b1c,
     s_b83800add69fb044, s_bc5efba1a5ed5936, s_b977ada353b11337, s_f2d3d5a5c7ae7f9e,
     s_903a87eb87ebcf8b, s_d43d88d79ada8ecb, s_8e06bfe25704b493, s_9067a75daac545ad,
     s_e512d381fed0aa2e]"

lemma schemaHookLauncher_schemas_ok: "list_all schema_ok schemaHookLauncher_schemas"
  by (simp add: schemaHookLauncher_schemas_def
      s_ddb256ee5b6b53b3_ok s_eb7186a22c3fa0de_ok s_f853fd580170b9de_ok s_faacf17de2174649_ok
      s_98b4ed7091b72c0c_ok s_b5d15336d30e0dd1_ok s_a000d051b28a6d94_ok s_d9ccdb1e5a73a940_ok
      s_eb3523cbe98a804f_ok s_fa389ebe41e98f39_ok s_80b6bbac6ed09d85_ok s_e76522c9a2f40b20_ok
      s_befc738967da08f4_ok s_cbbd2a831eac2f20_ok s_a4ab519fa8915cb7_ok s_8cad8defaf95e7b0_ok
      s_bb47eae7bc02e6df_ok s_8164a155f1640357_ok s_e407a39af6852337_ok s_ac17d9ac7710bc97_ok
      s_dd45cfaa27648933_ok s_c08ebc98e790327d_ok s_ad988cc9e73fbe88_ok s_ecffba89eb376b1c_ok
      s_b83800add69fb044_ok s_bc5efba1a5ed5936_ok s_b977ada353b11337_ok s_f2d3d5a5c7ae7f9e_ok
      s_903a87eb87ebcf8b_ok s_d43d88d79ada8ecb_ok s_8e06bfe25704b493_ok s_9067a75daac545ad_ok
      s_e512d381fed0aa2e_ok)

lemmas schemaHookLauncher_defs = schemaHookLauncher_schemas_def
  s_ddb256ee5b6b53b3_def s_eb7186a22c3fa0de_def s_f853fd580170b9de_def s_faacf17de2174649_def
  s_98b4ed7091b72c0c_def s_b5d15336d30e0dd1_def s_a000d051b28a6d94_def s_d9ccdb1e5a73a940_def
  s_eb3523cbe98a804f_def s_fa389ebe41e98f39_def s_80b6bbac6ed09d85_def s_e76522c9a2f40b20_def
  s_befc738967da08f4_def s_cbbd2a831eac2f20_def s_a4ab519fa8915cb7_def s_8cad8defaf95e7b0_def
  s_bb47eae7bc02e6df_def s_8164a155f1640357_def s_e407a39af6852337_def s_ac17d9ac7710bc97_def
  s_dd45cfaa27648933_def s_c08ebc98e790327d_def s_ad988cc9e73fbe88_def s_ecffba89eb376b1c_def
  s_b83800add69fb044_def s_bc5efba1a5ed5936_def s_b977ada353b11337_def s_f2d3d5a5c7ae7f9e_def
  s_903a87eb87ebcf8b_def s_d43d88d79ada8ecb_def s_8e06bfe25704b493_def s_9067a75daac545ad_def
  s_e512d381fed0aa2e_def

lemma schemaHookLauncher_ids: "map schema_id schemaHookLauncher_schemas = [
     0xddb256ee5b6b53b3, 0xeb7186a22c3fa0de, 0xf853fd580170b9de, 0xfaacf17de2174649,
     0x98b4ed7091b72c0c, 0xb5d15336d30e0dd1, 0xa000d051b28a6d94, 0xd9ccdb1e5a73a940,
     0xeb3523cbe98a804f, 0xfa389ebe41e98f39, 0x80b6bbac6ed09d85, 0xe76522c9a2f40b20,
     0xbefc738967da08f4, 0xcbbd2a831eac2f20, 0xa4ab519fa8915cb7, 0x8cad8defaf95e7b0,
     0xbb47eae7bc02e6df, 0x8164a155f1640357, 0xe407a39af6852337, 0xac17d9ac7710bc97,
     0xdd45cfaa27648933, 0xc08ebc98e790327d, 0xad988cc9e73fbe88, 0xecffba89eb376b1c,
     0xb83800add69fb044, 0xbc5efba1a5ed5936, 0xb977ada353b11337, 0xf2d3d5a5c7ae7f9e,
     0x903a87eb87ebcf8b, 0xd43d88d79ada8ecb, 0x8e06bfe25704b493, 0x9067a75daac545ad,
     0xe512d381fed0aa2e]"
  by (simp add: schemaHookLauncher_schemas_def
      s_ddb256ee5b6b53b3_id s_eb7186a22c3fa0de_id s_f853fd580170b9de_id s_faacf17de2174649_id
      s_98b4ed7091b72c0c_id s_b5d15336d30e0dd1_id s_a000d051b28a6d94_id s_d9ccdb1e5a73a940_id
      s_eb3523cbe98a804f_id s_fa389ebe41e98f39_id s_80b6bbac6ed09d85_id s_e76522c9a2f40b20_id
      s_befc738967da08f4_id s_cbbd2a831eac2f20_id s_a4ab519fa8915cb7_id s_8cad8defaf95e7b0_id
      s_bb47eae7bc02e6df_id s_8164a155f1640357_id s_e407a39af6852337_id s_ac17d9ac7710bc97_id
      s_dd45cfaa27648933_id s_c08ebc98e790327d_id s_ad988cc9e73fbe88_id s_ecffba89eb376b1c_id
      s_b83800add69fb044_id s_bc5efba1a5ed5936_id s_b977ada353b11337_id s_f2d3d5a5c7ae7f9e_id
      s_903a87eb87ebcf8b_id s_d43d88d79ada8ecb_id s_8e06bfe25704b493_id s_9067a75daac545ad_id
      s_e512d381fed0aa2e_id)

text \<open>The structs with the ids and layouts of the header, in its order.\<close>

definition schemaHookLauncher_structs :: "raw_schema list" where
  "schemaHookLauncher_structs = [
     s_ddb256ee5b6b53b3, s_eb7186a22c3fa0de, s_f853fd580170b9de, s_a000d051b28a6d94,
     s_d9ccdb1e5a73a940, s_eb3523cbe98a804f, s_fa389ebe41e98f39, s_80b6bbac6ed09d85,
     s_e76522c9a2f40b20, s_befc738967da08f4, s_cbbd2a831eac2f20, s_a4ab519fa8915cb7,
     s_8cad8defaf95e7b0, s_bb47eae7bc02e6df, s_8164a155f1640357, s_e407a39af6852337,
     s_ac17d9ac7710bc97, s_dd45cfaa27648933, s_c08ebc98e790327d, s_ad988cc9e73fbe88,
     s_ecffba89eb376b1c, s_b83800add69fb044, s_bc5efba1a5ed5936, s_b977ada353b11337,
     s_f2d3d5a5c7ae7f9e, s_903a87eb87ebcf8b, s_d43d88d79ada8ecb, s_8e06bfe25704b493,
     s_9067a75daac545ad, s_e512d381fed0aa2e]"

definition schemaHookLauncher_headers :: "(nat \<times> layout) list" where
  "schemaHookLauncher_headers = [
     (0xddb256ee5b6b53b3, MemcpyPlan_layout), (0xeb7186a22c3fa0de, NodeStatus_layout),
     (0xf853fd580170b9de, AllocationPlan_layout),
     (0xa000d051b28a6d94, HookLauncher_PlanMemcpyHtoDParams_layout),
     (0xd9ccdb1e5a73a940, HookLauncher_PlanMemcpyHtoDResults_layout),
     (0xeb3523cbe98a804f, HookLauncher_PlanMemcpyDtoHParams_layout),
     (0xfa389ebe41e98f39, HookLauncher_PlanMemcpyDtoHResults_layout),
     (0x80b6bbac6ed09d85, HookLauncher_GetNodeStatusParams_layout),
     (0xe76522c9a2f40b20, HookLauncher_GetNodeStatusResults_layout),
     (0xbefc738967da08f4, HookLauncher_PrefetchDataParams_layout),
     (0xcbbd2a831eac2f20, HookLauncher_PrefetchDataResults_layout),
     (0xa4ab519fa8915cb7, HookLauncher_MeasureBandwidthParams_layout),
     (0x8cad8defaf95e7b0, HookLauncher_MeasureBandwidthResults_layout),
     (0xbb47eae7bc02e6df, HookLauncher_TrackAsyncTaskParams_layout),
     (0x8164a155f1640357, HookLauncher_TrackAsyncTaskResults_layout),
     (0xe407a39af6852337, HookLauncher_GetMemoryLocationParams_layout),
     (0xac17d9ac7710bc97, HookLauncher_GetMemoryLocationResults_layout),
     (0xdd45cfaa27648933, HookLauncher_AdvisePrefetchParams_layout),
     (0xc08ebc98e790327d, HookLauncher_AdvisePrefetchResults_layout),
     (0xad988cc9e73fbe88, HookLauncher_RequestRdmaPlanParams_layout),
     (0xecffba89eb376b1c, HookLauncher_RequestRdmaPlanResults_layout),
     (0xb83800add69fb044, HookLauncher_RequestAllocationPlanParams_layout),
     (0xbc5efba1a5ed5936, HookLauncher_RequestAllocationPlanResults_layout),
     (0xb977ada353b11337, HookLauncher_RequestFreePlanParams_layout),
     (0xf2d3d5a5c7ae7f9e, HookLauncher_RequestFreePlanResults_layout),
     (0x903a87eb87ebcf8b, HookLauncher_LaunchKernelParams_layout),
     (0xd43d88d79ada8ecb, HookLauncher_LaunchKernelResults_layout),
     (0x8e06bfe25704b493, BandwidthResult_layout), (0x9067a75daac545ad, TaskStatus_layout),
     (0xe512d381fed0aa2e, NodeInfo_layout)]"

lemma schemaHookLauncher_structs_layouts:
  "map (\<lambda>s. (schema_id s, layout_of s)) schemaHookLauncher_structs = map (\<lambda>(i, l). (i, Some l)) schemaHookLauncher_headers"
  by (simp add: schemaHookLauncher_structs_def schemaHookLauncher_headers_def
      s_ddb256ee5b6b53b3_layout s_ddb256ee5b6b53b3_id
      s_eb7186a22c3fa0de_layout s_eb7186a22c3fa0de_id
      s_f853fd580170b9de_layout s_f853fd580170b9de_id
      s_a000d051b28a6d94_layout s_a000d051b28a6d94_id
      s_d9ccdb1e5a73a940_layout s_d9ccdb1e5a73a940_id
      s_eb3523cbe98a804f_layout s_eb3523cbe98a804f_id
      s_fa389ebe41e98f39_layout s_fa389ebe41e98f39_id
      s_80b6bbac6ed09d85_layout s_80b6bbac6ed09d85_id
      s_e76522c9a2f40b20_layout s_e76522c9a2f40b20_id
      s_befc738967da08f4_layout s_befc738967da08f4_id
      s_cbbd2a831eac2f20_layout s_cbbd2a831eac2f20_id
      s_a4ab519fa8915cb7_layout s_a4ab519fa8915cb7_id
      s_8cad8defaf95e7b0_layout s_8cad8defaf95e7b0_id
      s_bb47eae7bc02e6df_layout s_bb47eae7bc02e6df_id
      s_8164a155f1640357_layout s_8164a155f1640357_id
      s_e407a39af6852337_layout s_e407a39af6852337_id
      s_ac17d9ac7710bc97_layout s_ac17d9ac7710bc97_id
      s_dd45cfaa27648933_layout s_dd45cfaa27648933_id
      s_c08ebc98e790327d_layout s_c08ebc98e790327d_id
      s_ad988cc9e73fbe88_layout s_ad988cc9e73fbe88_id
      s_ecffba89eb376b1c_layout s_ecffba89eb376b1c_id
      s_b83800add69fb044_layout s_b83800add69fb044_id
      s_bc5efba1a5ed5936_layout s_bc5efba1a5ed5936_id
      s_b977ada353b11337_layout s_b977ada353b11337_id
      s_f2d3d5a5c7ae7f9e_layout s_f2d3d5a5c7ae7f9e_id
      s_903a87eb87ebcf8b_layout s_903a87eb87ebcf8b_id
      s_d43d88d79ada8ecb_layout s_d43d88d79ada8ecb_id
      s_8e06bfe25704b493_layout s_8e06bfe25704b493_id
      s_9067a75daac545ad_layout s_9067a75daac545ad_id
      s_e512d381fed0aa2e_layout s_e512d381fed0aa2e_id)

end
