(* ===== verification/SchemaGpuControl.thy ===== *)
theory SchemaGpuControl
  imports Schema WireGpuControl
begin

section \<open>The schemas of gpu-control.capnp\<close>

text \<open>
  \<open>proto/proto/gpu-control.capnp.c++\<close>: the schema nodes and their \<open>RawSchema\<close>s, with what each describes. The
  enumerators are those of \<open>gpu-control.capnp.h\<close>.
\<close>

text \<open>\<open>GpuList\<close>, a struct\<close>

definition b_b5f8f6cc208cb766 :: table where
  "b_b5f8f6cc208cb766 = [
     W 0 0 0 0 6 0 6 0,
     W 102 183 140 32 204 246 248 181,
     W 18 0 0 0 1 0 0 0,
     W 118 152 175 250 206 161 204 204,
     W 1 0 7 0 0 0 0 0,
     W 0 0 0 0 0 0 0 0,
     W 86 0 0 0 161 0 0 0,
     W 21 0 0 0 210 0 0 0,
     W 33 0 0 0 7 0 0 0,
     W 0 0 0 0 0 0 0 0,
     W 29 0 0 0 63 0 0 0,
     W 0 0 0 0 0 0 0 0,
     W 0 0 0 0 0 0 0 0,
     W 103 112 117 45 99 111 110 116,
     W 114 111 108 46 99 97 112 110,
     W 112 58 71 112 117 76 105 115,
     W 116 0 0 0 0 0 0 0,
     W 0 0 0 0 1 0 1 0,
     W 4 0 0 0 3 0 4 0,
     W 0 0 0 0 0 0 0 0,
     W 0 0 1 0 0 0 0 0,
     W 0 0 0 0 0 0 0 0,
     W 13 0 0 0 42 0 0 0,
     W 0 0 0 0 0 0 0 0,
     W 8 0 0 0 3 0 1 0,
     W 36 0 0 0 2 0 1 0,
     W 103 112 117 115 0 0 0 0,
     W 14 0 0 0 0 0 0 0,
     W 0 0 0 0 0 0 0 0,
     W 0 0 0 0 0 0 0 0,
     W 0 0 0 0 3 0 1 0,
     W 16 0 0 0 0 0 0 0,
     W 114 171 17 32 229 73 108 132,
     W 0 0 0 0 0 0 0 0,
     W 0 0 0 0 0 0 0 0,
     W 14 0 0 0 0 0 0 0,
     W 0 0 0 0 0 0 0 0,
     W 0 0 0 0 0 0 0 0]"

definition s_b5f8f6cc208cb766 :: raw_schema where
  "s_b5f8f6cc208cb766 = RawSchema 0xb5f8f6cc208cb766 b_b5f8f6cc208cb766 38
     [0x846c49e52011ab72]
     [0] 1 1
     [0]"

lemma b_b5f8f6cc208cb766_node:
  "length b_b5f8f6cc208cb766 = 38"
  "read_node b_b5f8f6cc208cb766 = Some (0xb5f8f6cc208cb766, StructBody 0 1 None [
       sfield [103, 112, 117, 115] 65535 0 (ListOf (Named 16 0x846c49e52011ab72)) 14 0])"
  by (simp_all add: b_b5f8f6cc208cb766_def read_table sfield_def cong: table_congs bind_head_cong)

lemma s_b5f8f6cc208cb766_id: "schema_id s_b5f8f6cc208cb766 = 0xb5f8f6cc208cb766"
  by (simp add: s_b5f8f6cc208cb766_def)

lemma s_b5f8f6cc208cb766_ok: "schema_ok s_b5f8f6cc208cb766"
  by (simp add: s_b5f8f6cc208cb766_def b_b5f8f6cc208cb766_node ordered_by_def sfield_def)

lemma s_b5f8f6cc208cb766_layout: "layout_of s_b5f8f6cc208cb766 = Some GpuList_layout"
  by (simp add: s_b5f8f6cc208cb766_def b_b5f8f6cc208cb766_node describe_table sfield_def struct_layout_def wireGpuControl_fields)

text \<open>\<open>GpuRequest\<close>, a struct\<close>

definition b_e4f103179b354701 :: table where
  "b_e4f103179b354701 = [
     W 0 0 0 0 6 0 6 0,
     W 1 71 53 155 23 3 241 228,
     W 18 0 0 0 1 0 0 0,
     W 118 152 175 250 206 161 204 204,
     W 1 0 7 0 0 0 0 0,
     W 0 0 0 0 0 0 0 0,
     W 163 0 0 0 231 0 0 0,
     W 21 0 0 0 234 0 0 0,
     W 33 0 0 0 7 0 0 0,
     W 0 0 0 0 0 0 0 0,
     W 29 0 0 0 63 0 0 0,
     W 0 0 0 0 0 0 0 0,
     W 0 0 0 0 0 0 0 0,
     W 103 112 117 45 99 111 110 116,
     W 114 111 108 46 99 97 112 110,
     W 112 58 71 112 117 82 101 113,
     W 117 101 115 116 0 0 0 0,
     W 0 0 0 0 1 0 1 0,
     W 4 0 0 0 3 0 4 0,
     W 0 0 0 0 0 0 0 0,
     W 0 0 1 0 0 0 0 0,
     W 0 0 0 0 0 0 0 0,
     W 13 0 0 0 42 0 0 0,
     W 0 0 0 0 0 0 0 0,
     W 8 0 0 0 3 0 1 0,
     W 20 0 0 0 2 0 1 0,
     W 117 117 105 100 0 0 0 0,
     W 12 0 0 0 0 0 0 0,
     W 0 0 0 0 0 0 0 0,
     W 0 0 0 0 0 0 0 0,
     W 0 0 0 0 0 0 0 0,
     W 12 0 0 0 0 0 0 0,
     W 0 0 0 0 0 0 0 0,
     W 0 0 0 0 0 0 0 0]"

definition s_e4f103179b354701 :: raw_schema where
  "s_e4f103179b354701 = RawSchema 0xe4f103179b354701 b_e4f103179b354701 34
     []
     [0] 0 1
     [0]"

lemma b_e4f103179b354701_node:
  "length b_e4f103179b354701 = 34"
  "read_node b_e4f103179b354701 = Some (0xe4f103179b354701, StructBody 0 1 None [
       sfield [117, 117, 105, 100] 65535 0 (Plain 12) 12 0])"
  by (simp_all add: b_e4f103179b354701_def read_table sfield_def cong: table_congs bind_head_cong)

lemma s_e4f103179b354701_id: "schema_id s_e4f103179b354701 = 0xe4f103179b354701"
  by (simp add: s_e4f103179b354701_def)

lemma s_e4f103179b354701_ok: "schema_ok s_e4f103179b354701"
  by (simp add: s_e4f103179b354701_def b_e4f103179b354701_node ordered_by_def sfield_def)

lemma s_e4f103179b354701_layout: "layout_of s_e4f103179b354701 = Some GpuRequest_layout"
  by (simp add: s_e4f103179b354701_def b_e4f103179b354701_node describe_table sfield_def struct_layout_def wireGpuControl_fields)

text \<open>\<open>GpuStatus\<close>, a struct\<close>

definition b_bfb92316876e4204 :: table where
  "b_bfb92316876e4204 = [
     W 0 0 0 0 6 0 6 0,
     W 4 66 110 135 22 35 185 191,
     W 18 0 0 0 1 0 2 0,
     W 118 152 175 250 206 161 204 204,
     W 0 0 7 0 0 0 0 0,
     W 0 0 0 0 0 0 0 0,
     W 235 0 0 0 109 1 0 0,
     W 21 0 0 0 226 0 0 0,
     W 33 0 0 0 7 0 0 0,
     W 0 0 0 0 0 0 0 0,
     W 29 0 0 0 119 0 0 0,
     W 0 0 0 0 0 0 0 0,
     W 0 0 0 0 0 0 0 0,
     W 103 112 117 45 99 111 110 116,
     W 114 111 108 46 99 97 112 110,
     W 112 58 71 112 117 83 116 97,
     W 116 117 115 0 0 0 0 0,
     W 0 0 0 0 1 0 1 0,
     W 8 0 0 0 3 0 4 0,
     W 0 0 0 0 0 0 0 0,
     W 0 0 1 0 0 0 0 0,
     W 0 0 0 0 0 0 0 0,
     W 41 0 0 0 90 0 0 0,
     W 0 0 0 0 0 0 0 0,
     W 40 0 0 0 3 0 1 0,
     W 52 0 0 0 2 0 1 0,
     W 1 0 0 0 2 0 0 0,
     W 0 0 1 0 1 0 0 0,
     W 0 0 0 0 0 0 0 0,
     W 49 0 0 0 98 0 0 0,
     W 0 0 0 0 0 0 0 0,
     W 48 0 0 0 3 0 1 0,
     W 60 0 0 0 2 0 1 0,
     W 117 115 101 100 77 101 109 111,
     W 114 121 0 0 0 0 0 0,
     W 5 0 0 0 0 0 0 0,
     W 0 0 0 0 0 0 0 0,
     W 0 0 0 0 0 0 0 0,
     W 0 0 0 0 0 0 0 0,
     W 5 0 0 0 0 0 0 0,
     W 0 0 0 0 0 0 0 0,
     W 0 0 0 0 0 0 0 0,
     W 117 116 105 108 105 122 97 116,
     W 105 111 110 0 0 0 0 0,
     W 4 0 0 0 0 0 0 0,
     W 0 0 0 0 0 0 0 0,
     W 0 0 0 0 0 0 0 0,
     W 0 0 0 0 0 0 0 0,
     W 4 0 0 0 0 0 0 0,
     W 0 0 0 0 0 0 0 0,
     W 0 0 0 0 0 0 0 0]"

definition s_bfb92316876e4204 :: raw_schema where
  "s_bfb92316876e4204 = RawSchema 0xbfb92316876e4204 b_bfb92316876e4204 51
     []
     [0, 1] 0 2
     [0, 1]"

lemma b_bfb92316876e4204_node:
  "length b_bfb92316876e4204 = 51"
  "read_node b_bfb92316876e4204 = Some (0xbfb92316876e4204, StructBody 2 0 None [
       sfield [117, 115, 101, 100, 77, 101, 109, 111, 114, 121] 65535 0 (Plain 5) 5 0,
       sfield [117, 116, 105, 108, 105, 122, 97, 116, 105, 111, 110] 65535 2 (Plain 4) 4 0])"
  by (simp_all add: b_bfb92316876e4204_def read_table sfield_def cong: table_congs bind_head_cong)

lemma s_bfb92316876e4204_id: "schema_id s_bfb92316876e4204 = 0xbfb92316876e4204"
  by (simp add: s_bfb92316876e4204_def)

lemma s_bfb92316876e4204_ok: "schema_ok s_bfb92316876e4204"
  by (simp add: s_bfb92316876e4204_def b_bfb92316876e4204_node ordered_by_def sfield_def)

lemma s_bfb92316876e4204_layout: "layout_of s_bfb92316876e4204 = Some GpuStatus_layout"
  by (simp add: s_bfb92316876e4204_def b_bfb92316876e4204_node describe_table sfield_def struct_layout_def wireGpuControl_fields)

text \<open>\<open>Path\<close>, a struct\<close>

definition b_d55a8aa154796958 :: table where
  "b_d55a8aa154796958 = [
     W 0 0 0 0 6 0 6 0,
     W 88 105 121 84 161 138 90 213,
     W 18 0 0 0 1 0 1 0,
     W 118 152 175 250 206 161 204 204,
     W 1 0 7 0 0 0 0 0,
     W 0 0 0 0 0 0 0 0,
     W 113 1 0 0 58 2 0 0,
     W 21 0 0 0 186 0 0 0,
     W 29 0 0 0 7 0 0 0,
     W 0 0 0 0 0 0 0 0,
     W 25 0 0 0 175 0 0 0,
     W 0 0 0 0 0 0 0 0,
     W 0 0 0 0 0 0 0 0,
     W 103 112 117 45 99 111 110 116,
     W 114 111 108 46 99 97 112 110,
     W 112 58 80 97 116 104 0 0,
     W 0 0 0 0 1 0 1 0,
     W 12 0 0 0 3 0 4 0,
     W 0 0 0 0 0 0 0 0,
     W 0 0 1 0 0 0 0 0,
     W 0 0 0 0 0 0 0 0,
     W 69 0 0 0 42 0 0 0,
     W 0 0 0 0 0 0 0 0,
     W 64 0 0 0 3 0 1 0,
     W 76 0 0 0 2 0 1 0,
     W 1 0 0 0 0 0 0 0,
     W 0 0 1 0 1 0 0 0,
     W 0 0 0 0 0 0 0 0,
     W 73 0 0 0 50 0 0 0,
     W 0 0 0 0 0 0 0 0,
     W 68 0 0 0 3 0 1 0,
     W 96 0 0 0 2 0 1 0,
     W 2 0 0 0 1 0 0 0,
     W 0 0 1 0 2 0 0 0,
     W 0 0 0 0 0 0 0 0,
     W 93 0 0 0 82 0 0 0,
     W 0 0 0 0 0 0 0 0,
     W 92 0 0 0 3 0 1 0,
     W 104 0 0 0 2 0 1 0,
     W 116 121 112 101 0 0 0 0,
     W 15 0 0 0 0 0 0 0,
     W 152 164 154 45 221 125 58 164,
     W 0 0 0 0 0 0 0 0,
     W 0 0 0 0 0 0 0 0,
     W 15 0 0 0 0 0 0 0,
     W 0 0 0 0 0 0 0 0,
     W 0 0 0 0 0 0 0 0,
     W 115 116 101 112 115 0 0 0,
     W 14 0 0 0 0 0 0 0,
     W 0 0 0 0 0 0 0 0,
     W 0 0 0 0 0 0 0 0,
     W 0 0 0 0 3 0 1 0,
     W 16 0 0 0 0 0 0 0,
     W 81 214 109 112 83 110 53 192,
     W 0 0 0 0 0 0 0 0,
     W 0 0 0 0 0 0 0 0,
     W 14 0 0 0 0 0 0 0,
     W 0 0 0 0 0 0 0 0,
     W 0 0 0 0 0 0 0 0,
     W 98 97 110 100 119 105 100 116,
     W 104 0 0 0 0 0 0 0,
     W 10 0 0 0 0 0 0 0,
     W 0 0 0 0 0 0 0 0,
     W 0 0 0 0 0 0 0 0,
     W 0 0 0 0 0 0 0 0,
     W 10 0 0 0 0 0 0 0,
     W 0 0 0 0 0 0 0 0,
     W 0 0 0 0 0 0 0 0]"

definition s_d55a8aa154796958 :: raw_schema where
  "s_d55a8aa154796958 = RawSchema 0xd55a8aa154796958 b_d55a8aa154796958 68
     [0xa43a7ddd2d9aa498, 0xc0356e53706dd651]
     [2, 1, 0] 2 3
     [0, 1, 2]"

lemma b_d55a8aa154796958_node:
  "length b_d55a8aa154796958 = 68"
  "read_node b_d55a8aa154796958 = Some (0xd55a8aa154796958, StructBody 1 1 None [
       sfield [116, 121, 112, 101] 65535 0 (Named 15 0xa43a7ddd2d9aa498) 15 0,
       sfield [115, 116, 101, 112, 115] 65535 0 (ListOf (Named 16 0xc0356e53706dd651)) 14 0,
       sfield [98, 97, 110, 100, 119, 105, 100, 116, 104] 65535 1 (Plain 10) 10 0])"
  by (simp_all add: b_d55a8aa154796958_def read_table sfield_def cong: table_congs bind_head_cong)

lemma s_d55a8aa154796958_id: "schema_id s_d55a8aa154796958 = 0xd55a8aa154796958"
  by (simp add: s_d55a8aa154796958_def)

lemma s_d55a8aa154796958_ok: "schema_ok s_d55a8aa154796958"
  by (simp add: s_d55a8aa154796958_def b_d55a8aa154796958_node ordered_by_def sfield_def)

lemma s_d55a8aa154796958_layout: "layout_of s_d55a8aa154796958 = Some Path_layout"
  by (simp add: s_d55a8aa154796958_def b_d55a8aa154796958_node describe_table sfield_def struct_layout_def wireGpuControl_fields)

text \<open>\<open>Step\<close>, a struct\<close>

definition b_c0356e53706dd651 :: table where
  "b_c0356e53706dd651 = [
     W 0 0 0 0 6 0 6 0,
     W 81 214 109 112 83 110 53 192,
     W 18 0 0 0 1 0 1 0,
     W 118 152 175 250 206 161 204 204,
     W 1 0 7 0 0 0 0 0,
     W 0 0 0 0 0 0 0 0,
     W 60 2 0 0 232 2 0 0,
     W 21 0 0 0 186 0 0 0,
     W 29 0 0 0 7 0 0 0,
     W 0 0 0 0 0 0 0 0,
     W 25 0 0 0 175 0 0 0,
     W 0 0 0 0 0 0 0 0,
     W 0 0 0 0 0 0 0 0,
     W 103 112 117 45 99 111 110 116,
     W 114 111 108 46 99 97 112 110,
     W 112 58 83 116 101 112 0 0,
     W 0 0 0 0 1 0 1 0,
     W 12 0 0 0 3 0 4 0,
     W 0 0 0 0 0 0 0 0,
     W 0 0 1 0 0 0 0 0,
     W 0 0 0 0 0 0 0 0,
     W 69 0 0 0 58 0 0 0,
     W 0 0 0 0 0 0 0 0,
     W 64 0 0 0 3 0 1 0,
     W 76 0 0 0 2 0 1 0,
     W 1 0 0 0 0 0 0 0,
     W 0 0 1 0 1 0 0 0,
     W 0 0 0 0 0 0 0 0,
     W 73 0 0 0 66 0 0 0,
     W 0 0 0 0 0 0 0 0,
     W 68 0 0 0 3 0 1 0,
     W 80 0 0 0 2 0 1 0,
     W 2 0 0 0 1 0 0 0,
     W 0 0 1 0 2 0 0 0,
     W 0 0 0 0 0 0 0 0,
     W 77 0 0 0 74 0 0 0,
     W 0 0 0 0 0 0 0 0,
     W 76 0 0 0 3 0 1 0,
     W 88 0 0 0 2 0 1 0,
     W 100 101 118 105 99 101 0 0,
     W 12 0 0 0 0 0 0 0,
     W 0 0 0 0 0 0 0 0,
     W 0 0 0 0 0 0 0 0,
     W 0 0 0 0 0 0 0 0,
     W 12 0 0 0 0 0 0 0,
     W 0 0 0 0 0 0 0 0,
     W 0 0 0 0 0 0 0 0,
     W 109 101 109 84 121 112 101 0,
     W 15 0 0 0 0 0 0 0,
     W 165 231 9 228 250 59 103 162,
     W 0 0 0 0 0 0 0 0,
     W 0 0 0 0 0 0 0 0,
     W 15 0 0 0 0 0 0 0,
     W 0 0 0 0 0 0 0 0,
     W 0 0 0 0 0 0 0 0,
     W 110 117 109 97 78 111 100 101,
     W 0 0 0 0 0 0 0 0,
     W 8 0 0 0 0 0 0 0,
     W 0 0 0 0 0 0 0 0,
     W 0 0 0 0 0 0 0 0,
     W 0 0 0 0 0 0 0 0,
     W 8 0 0 0 0 0 0 0,
     W 0 0 0 0 0 0 0 0,
     W 0 0 0 0 0 0 0 0]"

definition s_c0356e53706dd651 :: raw_schema where
  "s_c0356e53706dd651 = RawSchema 0xc0356e53706dd651 b_c0356e53706dd651 64
     [0xa2673bfae409e7a5]
     [0, 1, 2] 1 3
     [0, 1, 2]"

lemma b_c0356e53706dd651_node:
  "length b_c0356e53706dd651 = 64"
  "read_node b_c0356e53706dd651 = Some (0xc0356e53706dd651, StructBody 1 1 None [
       sfield [100, 101, 118, 105, 99, 101] 65535 0 (Plain 12) 12 0,
       sfield [109, 101, 109, 84, 121, 112, 101] 65535 0 (Named 15 0xa2673bfae409e7a5) 15 0,
       sfield [110, 117, 109, 97, 78, 111, 100, 101] 65535 1 (Plain 8) 8 0])"
  by (simp_all add: b_c0356e53706dd651_def read_table sfield_def cong: table_congs bind_head_cong)

lemma s_c0356e53706dd651_id: "schema_id s_c0356e53706dd651 = 0xc0356e53706dd651"
  by (simp add: s_c0356e53706dd651_def)

lemma s_c0356e53706dd651_ok: "schema_ok s_c0356e53706dd651"
  by (simp add: s_c0356e53706dd651_def b_c0356e53706dd651_node ordered_by_def sfield_def)

lemma s_c0356e53706dd651_layout: "layout_of s_c0356e53706dd651 = Some Step_layout"
  by (simp add: s_c0356e53706dd651_def b_c0356e53706dd651_node describe_table sfield_def struct_layout_def wireGpuControl_fields)

text \<open>\<open>PathType\<close>, an enum\<close>

definition b_a43a7ddd2d9aa498 :: table where
  "b_a43a7ddd2d9aa498 = [
     W 0 0 0 0 6 0 6 0,
     W 152 164 154 45 221 125 58 164,
     W 18 0 0 0 2 0 0 0,
     W 118 152 175 250 206 161 204 204,
     W 0 0 0 0 0 0 0 0,
     W 0 0 0 0 0 0 0 0,
     W 234 2 0 0 118 3 0 0,
     W 21 0 0 0 218 0 0 0,
     W 33 0 0 0 7 0 0 0,
     W 0 0 0 0 0 0 0 0,
     W 29 0 0 0 79 0 0 0,
     W 0 0 0 0 0 0 0 0,
     W 0 0 0 0 0 0 0 0,
     W 103 112 117 45 99 111 110 116,
     W 114 111 108 46 99 97 112 110,
     W 112 58 80 97 116 104 84 121,
     W 112 101 0 0 0 0 0 0,
     W 0 0 0 0 1 0 1 0,
     W 12 0 0 0 1 0 2 0,
     W 0 0 0 0 0 0 0 0,
     W 29 0 0 0 58 0 0 0,
     W 0 0 0 0 0 0 0 0,
     W 1 0 0 0 0 0 0 0,
     W 21 0 0 0 42 0 0 0,
     W 0 0 0 0 0 0 0 0,
     W 2 0 0 0 0 0 0 0,
     W 13 0 0 0 66 0 0 0,
     W 0 0 0 0 0 0 0 0,
     W 110 118 108 105 110 107 0 0,
     W 120 98 117 115 0 0 0 0,
     W 110 101 116 119 111 114 107 0]"

definition s_a43a7ddd2d9aa498 :: raw_schema where
  "s_a43a7ddd2d9aa498 = RawSchema 0xa43a7ddd2d9aa498 b_a43a7ddd2d9aa498 31
     []
     [2, 0, 1] 0 3
     []"

lemma b_a43a7ddd2d9aa498_node:
  "length b_a43a7ddd2d9aa498 = 31"
  "read_node b_a43a7ddd2d9aa498 = Some (0xa43a7ddd2d9aa498, EnumBody [
       [110, 118, 108, 105, 110, 107], [120, 98, 117, 115], [110, 101, 116, 119, 111, 114, 107]])"
  by (simp_all add: b_a43a7ddd2d9aa498_def read_table sfield_def cong: table_congs bind_head_cong)

lemma s_a43a7ddd2d9aa498_id: "schema_id s_a43a7ddd2d9aa498 = 0xa43a7ddd2d9aa498"
  by (simp add: s_a43a7ddd2d9aa498_def)

lemma s_a43a7ddd2d9aa498_ok: "schema_ok s_a43a7ddd2d9aa498"
  by (simp add: s_a43a7ddd2d9aa498_def b_a43a7ddd2d9aa498_node ordered_by_def sfield_def)

definition PathType_enumerators :: "string list" where
  "PathType_enumerators = [''NVLINK'', ''XBUS'', ''NETWORK'']"

lemma s_a43a7ddd2d9aa498_enumerants: "map_option (map upper_snake) (enumerants_of s_a43a7ddd2d9aa498) = Some (map name_octets PathType_enumerators)"
  by (simp add: s_a43a7ddd2d9aa498_def b_a43a7ddd2d9aa498_node describe_table PathType_enumerators_def upper_snake_def name_octets_def)

text \<open>\<open>MemType\<close>, an enum\<close>

definition b_a2673bfae409e7a5 :: table where
  "b_a2673bfae409e7a5 = [
     W 0 0 0 0 6 0 6 0,
     W 165 231 9 228 250 59 103 162,
     W 18 0 0 0 2 0 0 0,
     W 118 152 175 250 206 161 204 204,
     W 0 0 0 0 0 0 0 0,
     W 0 0 0 0 0 0 0 0,
     W 120 3 0 0 0 4 0 0,
     W 21 0 0 0 210 0 0 0,
     W 33 0 0 0 7 0 0 0,
     W 0 0 0 0 0 0 0 0,
     W 29 0 0 0 79 0 0 0,
     W 0 0 0 0 0 0 0 0,
     W 0 0 0 0 0 0 0 0,
     W 103 112 117 45 99 111 110 116,
     W 114 111 108 46 99 97 112 110,
     W 112 58 77 101 109 84 121 112,
     W 101 0 0 0 0 0 0 0,
     W 0 0 0 0 1 0 1 0,
     W 12 0 0 0 1 0 2 0,
     W 0 0 0 0 0 0 0 0,
     W 29 0 0 0 58 0 0 0,
     W 0 0 0 0 0 0 0 0,
     W 1 0 0 0 0 0 0 0,
     W 21 0 0 0 42 0 0 0,
     W 0 0 0 0 0 0 0 0,
     W 2 0 0 0 0 0 0 0,
     W 13 0 0 0 66 0 0 0,
     W 0 0 0 0 0 0 0 0,
     W 100 101 118 105 99 101 0 0,
     W 104 111 115 116 0 0 0 0,
     W 117 110 105 102 105 101 100 0]"

definition s_a2673bfae409e7a5 :: raw_schema where
  "s_a2673bfae409e7a5 = RawSchema 0xa2673bfae409e7a5 b_a2673bfae409e7a5 31
     []
     [0, 1, 2] 0 3
     []"

lemma b_a2673bfae409e7a5_node:
  "length b_a2673bfae409e7a5 = 31"
  "read_node b_a2673bfae409e7a5 = Some (0xa2673bfae409e7a5, EnumBody [
       [100, 101, 118, 105, 99, 101], [104, 111, 115, 116], [117, 110, 105, 102, 105, 101, 100]])"
  by (simp_all add: b_a2673bfae409e7a5_def read_table sfield_def cong: table_congs bind_head_cong)

lemma s_a2673bfae409e7a5_id: "schema_id s_a2673bfae409e7a5 = 0xa2673bfae409e7a5"
  by (simp add: s_a2673bfae409e7a5_def)

lemma s_a2673bfae409e7a5_ok: "schema_ok s_a2673bfae409e7a5"
  by (simp add: s_a2673bfae409e7a5_def b_a2673bfae409e7a5_node ordered_by_def sfield_def)

definition MemType_enumerators :: "string list" where
  "MemType_enumerators = [''DEVICE'', ''HOST'', ''UNIFIED'']"

lemma s_a2673bfae409e7a5_enumerants: "map_option (map upper_snake) (enumerants_of s_a2673bfae409e7a5) = Some (map name_octets MemType_enumerators)"
  by (simp add: s_a2673bfae409e7a5_def b_a2673bfae409e7a5_node describe_table MemType_enumerators_def upper_snake_def name_octets_def)

text \<open>\<open>Metrics\<close>, a struct\<close>

definition b_ada0409ba8ac33f9 :: table where
  "b_ada0409ba8ac33f9 = [
     W 0 0 0 0 6 0 6 0,
     W 249 51 172 168 155 64 160 173,
     W 18 0 0 0 1 0 2 0,
     W 118 152 175 250 206 161 204 204,
     W 0 0 7 0 0 0 0 0,
     W 0 0 0 0 0 0 0 0,
     W 2 4 0 0 180 4 0 0,
     W 21 0 0 0 210 0 0 0,
     W 33 0 0 0 7 0 0 0,
     W 0 0 0 0 0 0 0 0,
     W 29 0 0 0 175 0 0 0,
     W 0 0 0 0 0 0 0 0,
     W 0 0 0 0 0 0 0 0,
     W 103 112 117 45 99 111 110 116,
     W 114 111 108 46 99 97 112 110,
     W 112 58 77 101 116 114 105 99,
     W 115 0 0 0 0 0 0 0,
     W 0 0 0 0 1 0 1 0,
     W 12 0 0 0 3 0 4 0,
     W 0 0 0 0 0 0 0 0,
     W 0 0 1 0 0 0 0 0,
     W 0 0 0 0 0 0 0 0,
     W 69 0 0 0 90 0 0 0,
     W 0 0 0 0 0 0 0 0,
     W 68 0 0 0 3 0 1 0,
     W 80 0 0 0 2 0 1 0,
     W 1 0 0 0 1 0 0 0,
     W 0 0 1 0 1 0 0 0,
     W 0 0 0 0 0 0 0 0,
     W 77 0 0 0 66 0 0 0,
     W 0 0 0 0 0 0 0 0,
     W 72 0 0 0 3 0 1 0,
     W 84 0 0 0 2 0 1 0,
     W 2 0 0 0 2 0 0 0,
     W 0 0 1 0 2 0 0 0,
     W 0 0 0 0 0 0 0 0,
     W 81 0 0 0 82 0 0 0,
     W 0 0 0 0 0 0 0 0,
     W 80 0 0 0 3 0 1 0,
     W 92 0 0 0 2 0 1 0,
     W 116 104 114 111 117 103 104 112,
     W 117 116 0 0 0 0 0 0,
     W 10 0 0 0 0 0 0 0,
     W 0 0 0 0 0 0 0 0,
     W 0 0 0 0 0 0 0 0,
     W 0 0 0 0 0 0 0 0,
     W 10 0 0 0 0 0 0 0,
     W 0 0 0 0 0 0 0 0,
     W 0 0 0 0 0 0 0 0,
     W 108 97 116 101 110 99 121 0,
     W 10 0 0 0 0 0 0 0,
     W 0 0 0 0 0 0 0 0,
     W 0 0 0 0 0 0 0 0,
     W 0 0 0 0 0 0 0 0,
     W 10 0 0 0 0 0 0 0,
     W 0 0 0 0 0 0 0 0,
     W 0 0 0 0 0 0 0 0,
     W 101 114 114 111 114 82 97 116,
     W 101 0 0 0 0 0 0 0,
     W 10 0 0 0 0 0 0 0,
     W 0 0 0 0 0 0 0 0,
     W 0 0 0 0 0 0 0 0,
     W 0 0 0 0 0 0 0 0,
     W 10 0 0 0 0 0 0 0,
     W 0 0 0 0 0 0 0 0,
     W 0 0 0 0 0 0 0 0]"

definition s_ada0409ba8ac33f9 :: raw_schema where
  "s_ada0409ba8ac33f9 = RawSchema 0xada0409ba8ac33f9 b_ada0409ba8ac33f9 66
     []
     [2, 1, 0] 0 3
     [0, 1, 2]"

lemma b_ada0409ba8ac33f9_node:
  "length b_ada0409ba8ac33f9 = 66"
  "read_node b_ada0409ba8ac33f9 = Some (0xada0409ba8ac33f9, StructBody 2 0 None [
       sfield [116, 104, 114, 111, 117, 103, 104, 112, 117, 116] 65535 0 (Plain 10) 10 0,
       sfield [108, 97, 116, 101, 110, 99, 121] 65535 1 (Plain 10) 10 0,
       sfield [101, 114, 114, 111, 114, 82, 97, 116, 101] 65535 2 (Plain 10) 10 0])"
  by (simp_all add: b_ada0409ba8ac33f9_def read_table sfield_def cong: table_congs bind_head_cong)

lemma s_ada0409ba8ac33f9_id: "schema_id s_ada0409ba8ac33f9 = 0xada0409ba8ac33f9"
  by (simp add: s_ada0409ba8ac33f9_def)

lemma s_ada0409ba8ac33f9_ok: "schema_ok s_ada0409ba8ac33f9"
  by (simp add: s_ada0409ba8ac33f9_def b_ada0409ba8ac33f9_node ordered_by_def sfield_def)

lemma s_ada0409ba8ac33f9_layout: "layout_of s_ada0409ba8ac33f9 = Some Metrics_layout"
  by (simp add: s_ada0409ba8ac33f9_def b_ada0409ba8ac33f9_node describe_table sfield_def struct_layout_def wireGpuControl_fields)

text \<open>\<open>Scheduler\<close>, an interface\<close>

definition b_ef8cb4fe563986d6 :: table where
  "b_ef8cb4fe563986d6 = [
     W 0 0 0 0 6 0 6 0,
     W 214 134 57 86 254 180 140 239,
     W 18 0 0 0 3 0 0 0,
     W 118 152 175 250 206 161 204 204,
     W 0 0 0 0 0 0 0 0,
     W 0 0 0 0 0 0 0 0,
     W 182 4 0 0 128 7 0 0,
     W 21 0 0 0 226 0 0 0,
     W 33 0 0 0 7 0 0 0,
     W 0 0 0 0 0 0 0 0,
     W 29 0 0 0 7 2 0 0,
     W 125 1 0 0 7 0 0 0,
     W 0 0 0 0 0 0 0 0,
     W 103 112 117 45 99 111 110 116,
     W 114 111 108 46 99 97 112 110,
     W 112 58 83 99 104 101 100 117,
     W 108 101 114 0 0 0 0 0,
     W 0 0 0 0 1 0 1 0,
     W 32 0 0 0 3 0 5 0,
     W 0 0 0 0 0 0 0 0,
     W 123 33 213 71 97 183 236 185,
     W 127 21 240 82 196 151 179 164,
     W 241 0 0 0 98 0 0 0,
     W 0 0 0 0 0 0 0 0,
     W 0 0 0 0 0 0 0 0,
     W 0 0 0 0 0 0 0 0,
     W 233 0 0 0 7 0 0 0,
     W 1 0 0 0 0 0 0 0,
     W 37 116 208 45 50 137 110 230,
     W 1 4 130 189 82 88 185 237,
     W 221 0 0 0 114 0 0 0,
     W 0 0 0 0 0 0 0 0,
     W 0 0 0 0 0 0 0 0,
     W 0 0 0 0 0 0 0 0,
     W 213 0 0 0 7 0 0 0,
     W 2 0 0 0 0 0 0 0,
     W 202 186 235 233 200 49 238 249,
     W 52 152 162 250 220 84 22 198,
     W 201 0 0 0 98 0 0 0,
     W 0 0 0 0 0 0 0 0,
     W 0 0 0 0 0 0 0 0,
     W 0 0 0 0 0 0 0 0,
     W 193 0 0 0 7 0 0 0,
     W 3 0 0 0 0 0 0 0,
     W 165 175 225 169 206 169 213 195,
     W 30 152 162 217 81 82 80 150,
     W 181 0 0 0 74 0 0 0,
     W 0 0 0 0 0 0 0 0,
     W 0 0 0 0 0 0 0 0,
     W 0 0 0 0 0 0 0 0,
     W 173 0 0 0 7 0 0 0,
     W 4 0 0 0 0 0 0 0,
     W 221 51 179 2 136 121 187 228,
     W 181 118 222 199 148 193 232 136,
     W 161 0 0 0 106 0 0 0,
     W 0 0 0 0 0 0 0 0,
     W 0 0 0 0 0 0 0 0,
     W 0 0 0 0 0 0 0 0,
     W 153 0 0 0 7 0 0 0,
     W 5 0 0 0 0 0 0 0,
     W 141 116 62 216 58 138 86 181,
     W 36 239 247 172 76 162 49 128,
     W 141 0 0 0 90 0 0 0,
     W 0 0 0 0 0 0 0 0,
     W 0 0 0 0 0 0 0 0,
     W 0 0 0 0 0 0 0 0,
     W 133 0 0 0 7 0 0 0,
     W 6 0 0 0 0 0 0 0,
     W 166 122 113 218 43 64 163 128,
     W 71 170 139 160 94 186 148 153,
     W 121 0 0 0 90 0 0 0,
     W 0 0 0 0 0 0 0 0,
     W 0 0 0 0 0 0 0 0,
     W 0 0 0 0 0 0 0 0,
     W 113 0 0 0 7 0 0 0,
     W 7 0 0 0 0 0 0 0,
     W 84 220 215 219 215 233 92 172,
     W 254 118 96 9 80 45 207 148,
     W 101 0 0 0 90 0 0 0,
     W 0 0 0 0 0 0 0 0,
     W 0 0 0 0 0 0 0 0,
     W 0 0 0 0 0 0 0 0,
     W 93 0 0 0 7 0 0 0,
     W 114 101 113 117 101 115 116 80,
     W 97 116 104 0 0 0 0 0,
     W 0 0 0 0 0 0 1 0,
     W 114 101 112 111 114 116 77 101,
     W 116 114 105 99 115 0 0 0,
     W 0 0 0 0 0 0 1 0,
     W 114 101 103 105 115 116 101 114,
     W 71 112 117 0 0 0 0 0,
     W 0 0 0 0 0 0 1 0,
     W 108 105 115 116 71 112 117 115,
     W 0 0 0 0 0 0 0 0,
     W 0 0 0 0 0 0 1 0,
     W 103 101 116 71 112 117 83 116,
     W 97 116 117 115 0 0 0 0,
     W 0 0 0 0 0 0 1 0,
     W 97 99 113 117 105 114 101 71,
     W 112 117 0 0 0 0 0 0,
     W 0 0 0 0 0 0 1 0,
     W 114 101 108 101 97 115 101 71,
     W 112 117 0 0 0 0 0 0,
     W 0 0 0 0 0 0 1 0,
     W 114 117 110 67 111 109 109 97,
     W 110 100 0 0 0 0 0 0,
     W 0 0 0 0 0 0 1 0,
     W 0 0 0 0 1 0 1 0]"

definition s_ef8cb4fe563986d6 :: raw_schema where
  "s_ef8cb4fe563986d6 = RawSchema 0xef8cb4fe563986d6 b_ef8cb4fe563986d6 108
     [0x8031a24cacf7ef24, 0x80a3402bda717aa6, 0x88e8c194c7de76b5, 0x94cf2d50096076fe,
      0x96505251d9a2981e, 0x9994ba5ea08baa47, 0xa4b397c452f0157f, 0xac5ce9d7dbd7dc54,
      0xb5568a3ad83e748d, 0xb9ecb76147d5217b, 0xc3d5a9cea9e1afa5, 0xc61654dcfaa29834,
      0xe4bb798802b333dd, 0xe66e89322dd07425, 0xedb95852bd820401, 0xf9ee31c8e9ebbaca]
     [5, 4, 3, 2, 6, 1, 0, 7] 16 8
     []"

lemma b_ef8cb4fe563986d6_node:
  "length b_ef8cb4fe563986d6 = 108"
  "read_node b_ef8cb4fe563986d6 = Some (0xef8cb4fe563986d6, InterfaceBody [
       ([114, 101, 113, 117, 101, 115, 116, 80, 97, 116, 104], 0xb9ecb76147d5217b,
       0xa4b397c452f0157f),
       ([114, 101, 112, 111, 114, 116, 77, 101, 116, 114, 105, 99, 115], 0xe66e89322dd07425,
       0xedb95852bd820401),
       ([114, 101, 103, 105, 115, 116, 101, 114, 71, 112, 117], 0xf9ee31c8e9ebbaca,
       0xc61654dcfaa29834),
       ([108, 105, 115, 116, 71, 112, 117, 115], 0xc3d5a9cea9e1afa5, 0x96505251d9a2981e),
       ([103, 101, 116, 71, 112, 117, 83, 116, 97, 116, 117, 115], 0xe4bb798802b333dd,
       0x88e8c194c7de76b5),
       ([97, 99, 113, 117, 105, 114, 101, 71, 112, 117], 0xb5568a3ad83e748d, 0x8031a24cacf7ef24),
       ([114, 101, 108, 101, 97, 115, 101, 71, 112, 117], 0x80a3402bda717aa6, 0x9994ba5ea08baa47),
       ([114, 117, 110, 67, 111, 109, 109, 97, 110, 100], 0xac5ce9d7dbd7dc54, 0x94cf2d50096076fe)])"
  by (simp_all add: b_ef8cb4fe563986d6_def read_table sfield_def cong: table_congs bind_head_cong)

lemma s_ef8cb4fe563986d6_id: "schema_id s_ef8cb4fe563986d6 = 0xef8cb4fe563986d6"
  by (simp add: s_ef8cb4fe563986d6_def)

lemma s_ef8cb4fe563986d6_ok: "schema_ok s_ef8cb4fe563986d6"
  by (simp add: s_ef8cb4fe563986d6_def b_ef8cb4fe563986d6_node ordered_by_def sfield_def)

text \<open>\<open>Scheduler.requestPath$Params\<close>, a struct\<close>

definition b_b9ecb76147d5217b :: table where
  "b_b9ecb76147d5217b = [
     W 0 0 0 0 6 0 6 0,
     W 123 33 213 71 97 183 236 185,
     W 28 0 0 0 1 0 0 0,
     W 0 0 0 0 0 0 0 0,
     W 2 0 7 0 0 0 0 0,
     W 0 0 0 0 0 0 0 0,
     W 0 0 0 0 0 0 0 0,
     W 21 0 0 0 122 1 0 0,
     W 0 0 0 0 0 0 0 0,
     W 0 0 0 0 0 0 0 0,
     W 33 0 0 0 119 0 0 0,
     W 0 0 0 0 0 0 0 0,
     W 0 0 0 0 0 0 0 0,
     W 103 112 117 45 99 111 110 116,
     W 114 111 108 46 99 97 112 110,
     W 112 58 83 99 104 101 100 117,
     W 108 101 114 46 114 101 113 117,
     W 101 115 116 80 97 116 104 36,
     W 80 97 114 97 109 115 0 0,
     W 8 0 0 0 3 0 4 0,
     W 0 0 0 0 0 0 0 0,
     W 0 0 1 0 0 0 0 0,
     W 0 0 0 0 0 0 0 0,
     W 41 0 0 0 34 0 0 0,
     W 0 0 0 0 0 0 0 0,
     W 36 0 0 0 3 0 1 0,
     W 48 0 0 0 2 0 1 0,
     W 1 0 0 0 1 0 0 0,
     W 0 0 1 0 1 0 0 0,
     W 0 0 0 0 0 0 0 0,
     W 45 0 0 0 34 0 0 0,
     W 0 0 0 0 0 0 0 0,
     W 40 0 0 0 3 0 1 0,
     W 52 0 0 0 2 0 1 0,
     W 115 114 99 0 0 0 0 0,
     W 12 0 0 0 0 0 0 0,
     W 0 0 0 0 0 0 0 0,
     W 0 0 0 0 0 0 0 0,
     W 0 0 0 0 0 0 0 0,
     W 12 0 0 0 0 0 0 0,
     W 0 0 0 0 0 0 0 0,
     W 0 0 0 0 0 0 0 0,
     W 100 115 116 0 0 0 0 0,
     W 12 0 0 0 0 0 0 0,
     W 0 0 0 0 0 0 0 0,
     W 0 0 0 0 0 0 0 0,
     W 0 0 0 0 0 0 0 0,
     W 12 0 0 0 0 0 0 0,
     W 0 0 0 0 0 0 0 0,
     W 0 0 0 0 0 0 0 0]"

definition s_b9ecb76147d5217b :: raw_schema where
  "s_b9ecb76147d5217b = RawSchema 0xb9ecb76147d5217b b_b9ecb76147d5217b 50
     []
     [1, 0] 0 2
     [0, 1]"

lemma b_b9ecb76147d5217b_node:
  "length b_b9ecb76147d5217b = 50"
  "read_node b_b9ecb76147d5217b = Some (0xb9ecb76147d5217b, StructBody 0 2 None [
       sfield [115, 114, 99] 65535 0 (Plain 12) 12 0,
       sfield [100, 115, 116] 65535 1 (Plain 12) 12 0])"
  by (simp_all add: b_b9ecb76147d5217b_def read_table sfield_def cong: table_congs bind_head_cong)

lemma s_b9ecb76147d5217b_id: "schema_id s_b9ecb76147d5217b = 0xb9ecb76147d5217b"
  by (simp add: s_b9ecb76147d5217b_def)

lemma s_b9ecb76147d5217b_ok: "schema_ok s_b9ecb76147d5217b"
  by (simp add: s_b9ecb76147d5217b_def b_b9ecb76147d5217b_node ordered_by_def sfield_def)

lemma s_b9ecb76147d5217b_layout: "layout_of s_b9ecb76147d5217b = Some Scheduler_RequestPathParams_layout"
  by (simp add: s_b9ecb76147d5217b_def b_b9ecb76147d5217b_node describe_table sfield_def struct_layout_def wireGpuControl_fields)

text \<open>\<open>Scheduler.requestPath$Results\<close>, a struct\<close>

definition b_a4b397c452f0157f :: table where
  "b_a4b397c452f0157f = [
     W 0 0 0 0 6 0 6 0,
     W 127 21 240 82 196 151 179 164,
     W 28 0 0 0 1 0 0 0,
     W 0 0 0 0 0 0 0 0,
     W 1 0 7 0 0 0 0 0,
     W 0 0 0 0 0 0 0 0,
     W 0 0 0 0 0 0 0 0,
     W 21 0 0 0 130 1 0 0,
     W 0 0 0 0 0 0 0 0,
     W 0 0 0 0 0 0 0 0,
     W 33 0 0 0 63 0 0 0,
     W 0 0 0 0 0 0 0 0,
     W 0 0 0 0 0 0 0 0,
     W 103 112 117 45 99 111 110 116,
     W 114 111 108 46 99 97 112 110,
     W 112 58 83 99 104 101 100 117,
     W 108 101 114 46 114 101 113 117,
     W 101 115 116 80 97 116 104 36,
     W 82 101 115 117 108 116 115 0,
     W 4 0 0 0 3 0 4 0,
     W 0 0 0 0 0 0 0 0,
     W 0 0 1 0 0 0 0 0,
     W 0 0 0 0 0 0 0 0,
     W 13 0 0 0 42 0 0 0,
     W 0 0 0 0 0 0 0 0,
     W 8 0 0 0 3 0 1 0,
     W 20 0 0 0 2 0 1 0,
     W 112 97 116 104 0 0 0 0,
     W 16 0 0 0 0 0 0 0,
     W 88 105 121 84 161 138 90 213,
     W 0 0 0 0 0 0 0 0,
     W 0 0 0 0 0 0 0 0,
     W 16 0 0 0 0 0 0 0,
     W 0 0 0 0 0 0 0 0,
     W 0 0 0 0 0 0 0 0]"

definition s_a4b397c452f0157f :: raw_schema where
  "s_a4b397c452f0157f = RawSchema 0xa4b397c452f0157f b_a4b397c452f0157f 35
     [0xd55a8aa154796958]
     [0] 1 1
     [0]"

lemma b_a4b397c452f0157f_node:
  "length b_a4b397c452f0157f = 35"
  "read_node b_a4b397c452f0157f = Some (0xa4b397c452f0157f, StructBody 0 1 None [
       sfield [112, 97, 116, 104] 65535 0 (Named 16 0xd55a8aa154796958) 16 0])"
  by (simp_all add: b_a4b397c452f0157f_def read_table sfield_def cong: table_congs bind_head_cong)

lemma s_a4b397c452f0157f_id: "schema_id s_a4b397c452f0157f = 0xa4b397c452f0157f"
  by (simp add: s_a4b397c452f0157f_def)

lemma s_a4b397c452f0157f_ok: "schema_ok s_a4b397c452f0157f"
  by (simp add: s_a4b397c452f0157f_def b_a4b397c452f0157f_node ordered_by_def sfield_def)

lemma s_a4b397c452f0157f_layout: "layout_of s_a4b397c452f0157f = Some Scheduler_RequestPathResults_layout"
  by (simp add: s_a4b397c452f0157f_def b_a4b397c452f0157f_node describe_table sfield_def struct_layout_def wireGpuControl_fields)

text \<open>\<open>Scheduler.reportMetrics$Params\<close>, a struct\<close>

definition b_e66e89322dd07425 :: table where
  "b_e66e89322dd07425 = [
     W 0 0 0 0 6 0 6 0,
     W 37 116 208 45 50 137 110 230,
     W 28 0 0 0 1 0 0 0,
     W 0 0 0 0 0 0 0 0,
     W 1 0 7 0 0 0 0 0,
     W 0 0 0 0 0 0 0 0,
     W 0 0 0 0 0 0 0 0,
     W 21 0 0 0 138 1 0 0,
     W 0 0 0 0 0 0 0 0,
     W 0 0 0 0 0 0 0 0,
     W 37 0 0 0 63 0 0 0,
     W 0 0 0 0 0 0 0 0,
     W 0 0 0 0 0 0 0 0,
     W 103 112 117 45 99 111 110 116,
     W 114 111 108 46 99 97 112 110,
     W 112 58 83 99 104 101 100 117,
     W 108 101 114 46 114 101 112 111,
     W 114 116 77 101 116 114 105 99,
     W 115 36 80 97 114 97 109 115,
     W 0 0 0 0 0 0 0 0,
     W 4 0 0 0 3 0 4 0,
     W 0 0 0 0 0 0 0 0,
     W 0 0 1 0 0 0 0 0,
     W 0 0 0 0 0 0 0 0,
     W 13 0 0 0 66 0 0 0,
     W 0 0 0 0 0 0 0 0,
     W 8 0 0 0 3 0 1 0,
     W 20 0 0 0 2 0 1 0,
     W 109 101 116 114 105 99 115 0,
     W 16 0 0 0 0 0 0 0,
     W 249 51 172 168 155 64 160 173,
     W 0 0 0 0 0 0 0 0,
     W 0 0 0 0 0 0 0 0,
     W 16 0 0 0 0 0 0 0,
     W 0 0 0 0 0 0 0 0,
     W 0 0 0 0 0 0 0 0]"

definition s_e66e89322dd07425 :: raw_schema where
  "s_e66e89322dd07425 = RawSchema 0xe66e89322dd07425 b_e66e89322dd07425 36
     [0xada0409ba8ac33f9]
     [0] 1 1
     [0]"

lemma b_e66e89322dd07425_node:
  "length b_e66e89322dd07425 = 36"
  "read_node b_e66e89322dd07425 = Some (0xe66e89322dd07425, StructBody 0 1 None [
       sfield [109, 101, 116, 114, 105, 99, 115] 65535 0 (Named 16 0xada0409ba8ac33f9) 16 0])"
  by (simp_all add: b_e66e89322dd07425_def read_table sfield_def cong: table_congs bind_head_cong)

lemma s_e66e89322dd07425_id: "schema_id s_e66e89322dd07425 = 0xe66e89322dd07425"
  by (simp add: s_e66e89322dd07425_def)

lemma s_e66e89322dd07425_ok: "schema_ok s_e66e89322dd07425"
  by (simp add: s_e66e89322dd07425_def b_e66e89322dd07425_node ordered_by_def sfield_def)

lemma s_e66e89322dd07425_layout: "layout_of s_e66e89322dd07425 = Some Scheduler_ReportMetricsParams_layout"
  by (simp add: s_e66e89322dd07425_def b_e66e89322dd07425_node describe_table sfield_def struct_layout_def wireGpuControl_fields)

text \<open>\<open>Scheduler.reportMetrics$Results\<close>, a struct\<close>

definition b_edb95852bd820401 :: table where
  "b_edb95852bd820401 = [
     W 0 0 0 0 6 0 6 0,
     W 1 4 130 189 82 88 185 237,
     W 28 0 0 0 1 0 0 0,
     W 0 0 0 0 0 0 0 0,
     W 0 0 7 0 0 0 0 0,
     W 0 0 0 0 0 0 0 0,
     W 0 0 0 0 0 0 0 0,
     W 21 0 0 0 146 1 0 0,
     W 0 0 0 0 0 0 0 0,
     W 0 0 0 0 0 0 0 0,
     W 0 0 0 0 0 0 0 0,
     W 0 0 0 0 0 0 0 0,
     W 0 0 0 0 0 0 0 0,
     W 103 112 117 45 99 111 110 116,
     W 114 111 108 46 99 97 112 110,
     W 112 58 83 99 104 101 100 117,
     W 108 101 114 46 114 101 112 111,
     W 114 116 77 101 116 114 105 99,
     W 115 36 82 101 115 117 108 116,
     W 115 0 0 0 0 0 0 0]"

definition s_edb95852bd820401 :: raw_schema where
  "s_edb95852bd820401 = RawSchema 0xedb95852bd820401 b_edb95852bd820401 20
     []
     [] 0 0
     []"

lemma b_edb95852bd820401_node:
  "length b_edb95852bd820401 = 20"
  "read_node b_edb95852bd820401 = Some (0xedb95852bd820401, StructBody 0 0 None [])"
  by (simp_all add: b_edb95852bd820401_def read_table sfield_def cong: table_congs bind_head_cong)

lemma s_edb95852bd820401_id: "schema_id s_edb95852bd820401 = 0xedb95852bd820401"
  by (simp add: s_edb95852bd820401_def)

lemma s_edb95852bd820401_ok: "schema_ok s_edb95852bd820401"
  by (simp add: s_edb95852bd820401_def b_edb95852bd820401_node ordered_by_def sfield_def)

lemma s_edb95852bd820401_layout: "layout_of s_edb95852bd820401 = Some Scheduler_ReportMetricsResults_layout"
  by (simp add: s_edb95852bd820401_def b_edb95852bd820401_node describe_table sfield_def struct_layout_def wireGpuControl_fields)

text \<open>\<open>Scheduler.registerGpu$Params\<close>, a struct\<close>

definition b_f9ee31c8e9ebbaca :: table where
  "b_f9ee31c8e9ebbaca = [
     W 0 0 0 0 6 0 6 0,
     W 202 186 235 233 200 49 238 249,
     W 28 0 0 0 1 0 0 0,
     W 0 0 0 0 0 0 0 0,
     W 1 0 7 0 0 0 0 0,
     W 0 0 0 0 0 0 0 0,
     W 0 0 0 0 0 0 0 0,
     W 21 0 0 0 122 1 0 0,
     W 0 0 0 0 0 0 0 0,
     W 0 0 0 0 0 0 0 0,
     W 33 0 0 0 63 0 0 0,
     W 0 0 0 0 0 0 0 0,
     W 0 0 0 0 0 0 0 0,
     W 103 112 117 45 99 111 110 116,
     W 114 111 108 46 99 97 112 110,
     W 112 58 83 99 104 101 100 117,
     W 108 101 114 46 114 101 103 105,
     W 115 116 101 114 71 112 117 36,
     W 80 97 114 97 109 115 0 0,
     W 4 0 0 0 3 0 4 0,
     W 0 0 0 0 0 0 0 0,
     W 0 0 1 0 0 0 0 0,
     W 0 0 0 0 0 0 0 0,
     W 13 0 0 0 42 0 0 0,
     W 0 0 0 0 0 0 0 0,
     W 8 0 0 0 3 0 1 0,
     W 20 0 0 0 2 0 1 0,
     W 105 110 102 111 0 0 0 0,
     W 16 0 0 0 0 0 0 0,
     W 114 171 17 32 229 73 108 132,
     W 0 0 0 0 0 0 0 0,
     W 0 0 0 0 0 0 0 0,
     W 16 0 0 0 0 0 0 0,
     W 0 0 0 0 0 0 0 0,
     W 0 0 0 0 0 0 0 0]"

definition s_f9ee31c8e9ebbaca :: raw_schema where
  "s_f9ee31c8e9ebbaca = RawSchema 0xf9ee31c8e9ebbaca b_f9ee31c8e9ebbaca 35
     [0x846c49e52011ab72]
     [0] 1 1
     [0]"

lemma b_f9ee31c8e9ebbaca_node:
  "length b_f9ee31c8e9ebbaca = 35"
  "read_node b_f9ee31c8e9ebbaca = Some (0xf9ee31c8e9ebbaca, StructBody 0 1 None [
       sfield [105, 110, 102, 111] 65535 0 (Named 16 0x846c49e52011ab72) 16 0])"
  by (simp_all add: b_f9ee31c8e9ebbaca_def read_table sfield_def cong: table_congs bind_head_cong)

lemma s_f9ee31c8e9ebbaca_id: "schema_id s_f9ee31c8e9ebbaca = 0xf9ee31c8e9ebbaca"
  by (simp add: s_f9ee31c8e9ebbaca_def)

lemma s_f9ee31c8e9ebbaca_ok: "schema_ok s_f9ee31c8e9ebbaca"
  by (simp add: s_f9ee31c8e9ebbaca_def b_f9ee31c8e9ebbaca_node ordered_by_def sfield_def)

lemma s_f9ee31c8e9ebbaca_layout: "layout_of s_f9ee31c8e9ebbaca = Some Scheduler_RegisterGpuParams_layout"
  by (simp add: s_f9ee31c8e9ebbaca_def b_f9ee31c8e9ebbaca_node describe_table sfield_def struct_layout_def wireGpuControl_fields)

text \<open>\<open>Scheduler.registerGpu$Results\<close>, a struct\<close>

definition b_c61654dcfaa29834 :: table where
  "b_c61654dcfaa29834 = [
     W 0 0 0 0 6 0 6 0,
     W 52 152 162 250 220 84 22 198,
     W 28 0 0 0 1 0 1 0,
     W 0 0 0 0 0 0 0 0,
     W 0 0 7 0 0 0 0 0,
     W 0 0 0 0 0 0 0 0,
     W 0 0 0 0 0 0 0 0,
     W 21 0 0 0 130 1 0 0,
     W 0 0 0 0 0 0 0 0,
     W 0 0 0 0 0 0 0 0,
     W 33 0 0 0 63 0 0 0,
     W 0 0 0 0 0 0 0 0,
     W 0 0 0 0 0 0 0 0,
     W 103 112 117 45 99 111 110 116,
     W 114 111 108 46 99 97 112 110,
     W 112 58 83 99 104 101 100 117,
     W 108 101 114 46 114 101 103 105,
     W 115 116 101 114 71 112 117 36,
     W 82 101 115 117 108 116 115 0,
     W 4 0 0 0 3 0 4 0,
     W 0 0 0 0 0 0 0 0,
     W 0 0 1 0 0 0 0 0,
     W 0 0 0 0 0 0 0 0,
     W 13 0 0 0 66 0 0 0,
     W 0 0 0 0 0 0 0 0,
     W 8 0 0 0 3 0 1 0,
     W 20 0 0 0 2 0 1 0,
     W 115 117 99 99 101 115 115 0,
     W 1 0 0 0 0 0 0 0,
     W 0 0 0 0 0 0 0 0,
     W 0 0 0 0 0 0 0 0,
     W 0 0 0 0 0 0 0 0,
     W 1 0 0 0 0 0 0 0,
     W 0 0 0 0 0 0 0 0,
     W 0 0 0 0 0 0 0 0]"

definition s_c61654dcfaa29834 :: raw_schema where
  "s_c61654dcfaa29834 = RawSchema 0xc61654dcfaa29834 b_c61654dcfaa29834 35
     []
     [0] 0 1
     [0]"

lemma b_c61654dcfaa29834_node:
  "length b_c61654dcfaa29834 = 35"
  "read_node b_c61654dcfaa29834 = Some (0xc61654dcfaa29834, StructBody 1 0 None [
       sfield [115, 117, 99, 99, 101, 115, 115] 65535 0 (Plain 1) 1 0])"
  by (simp_all add: b_c61654dcfaa29834_def read_table sfield_def cong: table_congs bind_head_cong)

lemma s_c61654dcfaa29834_id: "schema_id s_c61654dcfaa29834 = 0xc61654dcfaa29834"
  by (simp add: s_c61654dcfaa29834_def)

lemma s_c61654dcfaa29834_ok: "schema_ok s_c61654dcfaa29834"
  by (simp add: s_c61654dcfaa29834_def b_c61654dcfaa29834_node ordered_by_def sfield_def)

lemma s_c61654dcfaa29834_layout: "layout_of s_c61654dcfaa29834 = Some Scheduler_RegisterGpuResults_layout"
  by (simp add: s_c61654dcfaa29834_def b_c61654dcfaa29834_node describe_table sfield_def struct_layout_def wireGpuControl_fields)

text \<open>\<open>Scheduler.listGpus$Params\<close>, a struct\<close>

definition b_c3d5a9cea9e1afa5 :: table where
  "b_c3d5a9cea9e1afa5 = [
     W 0 0 0 0 6 0 6 0,
     W 165 175 225 169 206 169 213 195,
     W 28 0 0 0 1 0 0 0,
     W 0 0 0 0 0 0 0 0,
     W 0 0 7 0 0 0 0 0,
     W 0 0 0 0 0 0 0 0,
     W 0 0 0 0 0 0 0 0,
     W 21 0 0 0 98 1 0 0,
     W 0 0 0 0 0 0 0 0,
     W 0 0 0 0 0 0 0 0,
     W 0 0 0 0 0 0 0 0,
     W 0 0 0 0 0 0 0 0,
     W 0 0 0 0 0 0 0 0,
     W 103 112 117 45 99 111 110 116,
     W 114 111 108 46 99 97 112 110,
     W 112 58 83 99 104 101 100 117,
     W 108 101 114 46 108 105 115 116,
     W 71 112 117 115 36 80 97 114,
     W 97 109 115 0 0 0 0 0]"

definition s_c3d5a9cea9e1afa5 :: raw_schema where
  "s_c3d5a9cea9e1afa5 = RawSchema 0xc3d5a9cea9e1afa5 b_c3d5a9cea9e1afa5 19
     []
     [] 0 0
     []"

lemma b_c3d5a9cea9e1afa5_node:
  "length b_c3d5a9cea9e1afa5 = 19"
  "read_node b_c3d5a9cea9e1afa5 = Some (0xc3d5a9cea9e1afa5, StructBody 0 0 None [])"
  by (simp_all add: b_c3d5a9cea9e1afa5_def read_table sfield_def cong: table_congs bind_head_cong)

lemma s_c3d5a9cea9e1afa5_id: "schema_id s_c3d5a9cea9e1afa5 = 0xc3d5a9cea9e1afa5"
  by (simp add: s_c3d5a9cea9e1afa5_def)

lemma s_c3d5a9cea9e1afa5_ok: "schema_ok s_c3d5a9cea9e1afa5"
  by (simp add: s_c3d5a9cea9e1afa5_def b_c3d5a9cea9e1afa5_node ordered_by_def sfield_def)

lemma s_c3d5a9cea9e1afa5_layout: "layout_of s_c3d5a9cea9e1afa5 = Some Scheduler_ListGpusParams_layout"
  by (simp add: s_c3d5a9cea9e1afa5_def b_c3d5a9cea9e1afa5_node describe_table sfield_def struct_layout_def wireGpuControl_fields)

text \<open>\<open>Scheduler.listGpus$Results\<close>, a struct\<close>

definition b_96505251d9a2981e :: table where
  "b_96505251d9a2981e = [
     W 0 0 0 0 6 0 6 0,
     W 30 152 162 217 81 82 80 150,
     W 28 0 0 0 1 0 0 0,
     W 0 0 0 0 0 0 0 0,
     W 1 0 7 0 0 0 0 0,
     W 0 0 0 0 0 0 0 0,
     W 0 0 0 0 0 0 0 0,
     W 21 0 0 0 106 1 0 0,
     W 0 0 0 0 0 0 0 0,
     W 0 0 0 0 0 0 0 0,
     W 33 0 0 0 63 0 0 0,
     W 0 0 0 0 0 0 0 0,
     W 0 0 0 0 0 0 0 0,
     W 103 112 117 45 99 111 110 116,
     W 114 111 108 46 99 97 112 110,
     W 112 58 83 99 104 101 100 117,
     W 108 101 114 46 108 105 115 116,
     W 71 112 117 115 36 82 101 115,
     W 117 108 116 115 0 0 0 0,
     W 4 0 0 0 3 0 4 0,
     W 0 0 0 0 0 0 0 0,
     W 0 0 1 0 0 0 0 0,
     W 0 0 0 0 0 0 0 0,
     W 13 0 0 0 42 0 0 0,
     W 0 0 0 0 0 0 0 0,
     W 8 0 0 0 3 0 1 0,
     W 20 0 0 0 2 0 1 0,
     W 103 112 117 115 0 0 0 0,
     W 16 0 0 0 0 0 0 0,
     W 102 183 140 32 204 246 248 181,
     W 0 0 0 0 0 0 0 0,
     W 0 0 0 0 0 0 0 0,
     W 16 0 0 0 0 0 0 0,
     W 0 0 0 0 0 0 0 0,
     W 0 0 0 0 0 0 0 0]"

definition s_96505251d9a2981e :: raw_schema where
  "s_96505251d9a2981e = RawSchema 0x96505251d9a2981e b_96505251d9a2981e 35
     [0xb5f8f6cc208cb766]
     [0] 1 1
     [0]"

lemma b_96505251d9a2981e_node:
  "length b_96505251d9a2981e = 35"
  "read_node b_96505251d9a2981e = Some (0x96505251d9a2981e, StructBody 0 1 None [
       sfield [103, 112, 117, 115] 65535 0 (Named 16 0xb5f8f6cc208cb766) 16 0])"
  by (simp_all add: b_96505251d9a2981e_def read_table sfield_def cong: table_congs bind_head_cong)

lemma s_96505251d9a2981e_id: "schema_id s_96505251d9a2981e = 0x96505251d9a2981e"
  by (simp add: s_96505251d9a2981e_def)

lemma s_96505251d9a2981e_ok: "schema_ok s_96505251d9a2981e"
  by (simp add: s_96505251d9a2981e_def b_96505251d9a2981e_node ordered_by_def sfield_def)

lemma s_96505251d9a2981e_layout: "layout_of s_96505251d9a2981e = Some Scheduler_ListGpusResults_layout"
  by (simp add: s_96505251d9a2981e_def b_96505251d9a2981e_node describe_table sfield_def struct_layout_def wireGpuControl_fields)

text \<open>\<open>Scheduler.getGpuStatus$Params\<close>, a struct\<close>

definition b_e4bb798802b333dd :: table where
  "b_e4bb798802b333dd = [
     W 0 0 0 0 6 0 6 0,
     W 221 51 179 2 136 121 187 228,
     W 28 0 0 0 1 0 0 0,
     W 0 0 0 0 0 0 0 0,
     W 1 0 7 0 0 0 0 0,
     W 0 0 0 0 0 0 0 0,
     W 0 0 0 0 0 0 0 0,
     W 21 0 0 0 130 1 0 0,
     W 0 0 0 0 0 0 0 0,
     W 0 0 0 0 0 0 0 0,
     W 33 0 0 0 63 0 0 0,
     W 0 0 0 0 0 0 0 0,
     W 0 0 0 0 0 0 0 0,
     W 103 112 117 45 99 111 110 116,
     W 114 111 108 46 99 97 112 110,
     W 112 58 83 99 104 101 100 117,
     W 108 101 114 46 103 101 116 71,
     W 112 117 83 116 97 116 117 115,
     W 36 80 97 114 97 109 115 0,
     W 4 0 0 0 3 0 4 0,
     W 0 0 0 0 0 0 0 0,
     W 0 0 1 0 0 0 0 0,
     W 0 0 0 0 0 0 0 0,
     W 13 0 0 0 66 0 0 0,
     W 0 0 0 0 0 0 0 0,
     W 8 0 0 0 3 0 1 0,
     W 20 0 0 0 2 0 1 0,
     W 114 101 113 117 101 115 116 0,
     W 16 0 0 0 0 0 0 0,
     W 1 71 53 155 23 3 241 228,
     W 0 0 0 0 0 0 0 0,
     W 0 0 0 0 0 0 0 0,
     W 16 0 0 0 0 0 0 0,
     W 0 0 0 0 0 0 0 0,
     W 0 0 0 0 0 0 0 0]"

definition s_e4bb798802b333dd :: raw_schema where
  "s_e4bb798802b333dd = RawSchema 0xe4bb798802b333dd b_e4bb798802b333dd 35
     [0xe4f103179b354701]
     [0] 1 1
     [0]"

lemma b_e4bb798802b333dd_node:
  "length b_e4bb798802b333dd = 35"
  "read_node b_e4bb798802b333dd = Some (0xe4bb798802b333dd, StructBody 0 1 None [
       sfield [114, 101, 113, 117, 101, 115, 116] 65535 0 (Named 16 0xe4f103179b354701) 16 0])"
  by (simp_all add: b_e4bb798802b333dd_def read_table sfield_def cong: table_congs bind_head_cong)

lemma s_e4bb798802b333dd_id: "schema_id s_e4bb798802b333dd = 0xe4bb798802b333dd"
  by (simp add: s_e4bb798802b333dd_def)

lemma s_e4bb798802b333dd_ok: "schema_ok s_e4bb798802b333dd"
  by (simp add: s_e4bb798802b333dd_def b_e4bb798802b333dd_node ordered_by_def sfield_def)

lemma s_e4bb798802b333dd_layout: "layout_of s_e4bb798802b333dd = Some Scheduler_GetGpuStatusParams_layout"
  by (simp add: s_e4bb798802b333dd_def b_e4bb798802b333dd_node describe_table sfield_def struct_layout_def wireGpuControl_fields)

text \<open>\<open>Scheduler.getGpuStatus$Results\<close>, a struct\<close>

definition b_88e8c194c7de76b5 :: table where
  "b_88e8c194c7de76b5 = [
     W 0 0 0 0 6 0 6 0,
     W 181 118 222 199 148 193 232 136,
     W 28 0 0 0 1 0 0 0,
     W 0 0 0 0 0 0 0 0,
     W 1 0 7 0 0 0 0 0,
     W 0 0 0 0 0 0 0 0,
     W 0 0 0 0 0 0 0 0,
     W 21 0 0 0 138 1 0 0,
     W 0 0 0 0 0 0 0 0,
     W 0 0 0 0 0 0 0 0,
     W 37 0 0 0 63 0 0 0,
     W 0 0 0 0 0 0 0 0,
     W 0 0 0 0 0 0 0 0,
     W 103 112 117 45 99 111 110 116,
     W 114 111 108 46 99 97 112 110,
     W 112 58 83 99 104 101 100 117,
     W 108 101 114 46 103 101 116 71,
     W 112 117 83 116 97 116 117 115,
     W 36 82 101 115 117 108 116 115,
     W 0 0 0 0 0 0 0 0,
     W 4 0 0 0 3 0 4 0,
     W 0 0 0 0 0 0 0 0,
     W 0 0 1 0 0 0 0 0,
     W 0 0 0 0 0 0 0 0,
     W 13 0 0 0 58 0 0 0,
     W 0 0 0 0 0 0 0 0,
     W 8 0 0 0 3 0 1 0,
     W 20 0 0 0 2 0 1 0,
     W 115 116 97 116 117 115 0 0,
     W 16 0 0 0 0 0 0 0,
     W 4 66 110 135 22 35 185 191,
     W 0 0 0 0 0 0 0 0,
     W 0 0 0 0 0 0 0 0,
     W 16 0 0 0 0 0 0 0,
     W 0 0 0 0 0 0 0 0,
     W 0 0 0 0 0 0 0 0]"

definition s_88e8c194c7de76b5 :: raw_schema where
  "s_88e8c194c7de76b5 = RawSchema 0x88e8c194c7de76b5 b_88e8c194c7de76b5 36
     [0xbfb92316876e4204]
     [0] 1 1
     [0]"

lemma b_88e8c194c7de76b5_node:
  "length b_88e8c194c7de76b5 = 36"
  "read_node b_88e8c194c7de76b5 = Some (0x88e8c194c7de76b5, StructBody 0 1 None [
       sfield [115, 116, 97, 116, 117, 115] 65535 0 (Named 16 0xbfb92316876e4204) 16 0])"
  by (simp_all add: b_88e8c194c7de76b5_def read_table sfield_def cong: table_congs bind_head_cong)

lemma s_88e8c194c7de76b5_id: "schema_id s_88e8c194c7de76b5 = 0x88e8c194c7de76b5"
  by (simp add: s_88e8c194c7de76b5_def)

lemma s_88e8c194c7de76b5_ok: "schema_ok s_88e8c194c7de76b5"
  by (simp add: s_88e8c194c7de76b5_def b_88e8c194c7de76b5_node ordered_by_def sfield_def)

lemma s_88e8c194c7de76b5_layout: "layout_of s_88e8c194c7de76b5 = Some Scheduler_GetGpuStatusResults_layout"
  by (simp add: s_88e8c194c7de76b5_def b_88e8c194c7de76b5_node describe_table sfield_def struct_layout_def wireGpuControl_fields)

text \<open>\<open>Scheduler.acquireGpu$Params\<close>, a struct\<close>

definition b_b5568a3ad83e748d :: table where
  "b_b5568a3ad83e748d = [
     W 0 0 0 0 6 0 6 0,
     W 141 116 62 216 58 138 86 181,
     W 28 0 0 0 1 0 0 0,
     W 0 0 0 0 0 0 0 0,
     W 1 0 7 0 0 0 0 0,
     W 0 0 0 0 0 0 0 0,
     W 0 0 0 0 0 0 0 0,
     W 21 0 0 0 114 1 0 0,
     W 0 0 0 0 0 0 0 0,
     W 0 0 0 0 0 0 0 0,
     W 33 0 0 0 63 0 0 0,
     W 0 0 0 0 0 0 0 0,
     W 0 0 0 0 0 0 0 0,
     W 103 112 117 45 99 111 110 116,
     W 114 111 108 46 99 97 112 110,
     W 112 58 83 99 104 101 100 117,
     W 108 101 114 46 97 99 113 117,
     W 105 114 101 71 112 117 36 80,
     W 97 114 97 109 115 0 0 0,
     W 4 0 0 0 3 0 4 0,
     W 0 0 0 0 0 0 0 0,
     W 0 0 1 0 0 0 0 0,
     W 0 0 0 0 0 0 0 0,
     W 13 0 0 0 66 0 0 0,
     W 0 0 0 0 0 0 0 0,
     W 8 0 0 0 3 0 1 0,
     W 20 0 0 0 2 0 1 0,
     W 114 101 113 117 101 115 116 0,
     W 16 0 0 0 0 0 0 0,
     W 1 71 53 155 23 3 241 228,
     W 0 0 0 0 0 0 0 0,
     W 0 0 0 0 0 0 0 0,
     W 16 0 0 0 0 0 0 0,
     W 0 0 0 0 0 0 0 0,
     W 0 0 0 0 0 0 0 0]"

definition s_b5568a3ad83e748d :: raw_schema where
  "s_b5568a3ad83e748d = RawSchema 0xb5568a3ad83e748d b_b5568a3ad83e748d 35
     [0xe4f103179b354701]
     [0] 1 1
     [0]"

lemma b_b5568a3ad83e748d_node:
  "length b_b5568a3ad83e748d = 35"
  "read_node b_b5568a3ad83e748d = Some (0xb5568a3ad83e748d, StructBody 0 1 None [
       sfield [114, 101, 113, 117, 101, 115, 116] 65535 0 (Named 16 0xe4f103179b354701) 16 0])"
  by (simp_all add: b_b5568a3ad83e748d_def read_table sfield_def cong: table_congs bind_head_cong)

lemma s_b5568a3ad83e748d_id: "schema_id s_b5568a3ad83e748d = 0xb5568a3ad83e748d"
  by (simp add: s_b5568a3ad83e748d_def)

lemma s_b5568a3ad83e748d_ok: "schema_ok s_b5568a3ad83e748d"
  by (simp add: s_b5568a3ad83e748d_def b_b5568a3ad83e748d_node ordered_by_def sfield_def)

lemma s_b5568a3ad83e748d_layout: "layout_of s_b5568a3ad83e748d = Some Scheduler_AcquireGpuParams_layout"
  by (simp add: s_b5568a3ad83e748d_def b_b5568a3ad83e748d_node describe_table sfield_def struct_layout_def wireGpuControl_fields)

text \<open>\<open>Scheduler.acquireGpu$Results\<close>, a struct\<close>

definition b_8031a24cacf7ef24 :: table where
  "b_8031a24cacf7ef24 = [
     W 0 0 0 0 6 0 6 0,
     W 36 239 247 172 76 162 49 128,
     W 28 0 0 0 1 0 0 0,
     W 0 0 0 0 0 0 0 0,
     W 1 0 7 0 0 0 0 0,
     W 0 0 0 0 0 0 0 0,
     W 0 0 0 0 0 0 0 0,
     W 21 0 0 0 122 1 0 0,
     W 0 0 0 0 0 0 0 0,
     W 0 0 0 0 0 0 0 0,
     W 33 0 0 0 63 0 0 0,
     W 0 0 0 0 0 0 0 0,
     W 0 0 0 0 0 0 0 0,
     W 103 112 117 45 99 111 110 116,
     W 114 111 108 46 99 97 112 110,
     W 112 58 83 99 104 101 100 117,
     W 108 101 114 46 97 99 113 117,
     W 105 114 101 71 112 117 36 82,
     W 101 115 117 108 116 115 0 0,
     W 4 0 0 0 3 0 4 0,
     W 0 0 0 0 0 0 0 0,
     W 0 0 1 0 0 0 0 0,
     W 0 0 0 0 0 0 0 0,
     W 13 0 0 0 34 0 0 0,
     W 0 0 0 0 0 0 0 0,
     W 8 0 0 0 3 0 1 0,
     W 20 0 0 0 2 0 1 0,
     W 97 99 107 0 0 0 0 0,
     W 16 0 0 0 0 0 0 0,
     W 136 53 26 54 3 107 110 188,
     W 0 0 0 0 0 0 0 0,
     W 0 0 0 0 0 0 0 0,
     W 16 0 0 0 0 0 0 0,
     W 0 0 0 0 0 0 0 0,
     W 0 0 0 0 0 0 0 0]"

definition s_8031a24cacf7ef24 :: raw_schema where
  "s_8031a24cacf7ef24 = RawSchema 0x8031a24cacf7ef24 b_8031a24cacf7ef24 35
     [0xbc6e6b03361a3588]
     [0] 1 1
     [0]"

lemma b_8031a24cacf7ef24_node:
  "length b_8031a24cacf7ef24 = 35"
  "read_node b_8031a24cacf7ef24 = Some (0x8031a24cacf7ef24, StructBody 0 1 None [
       sfield [97, 99, 107] 65535 0 (Named 16 0xbc6e6b03361a3588) 16 0])"
  by (simp_all add: b_8031a24cacf7ef24_def read_table sfield_def cong: table_congs bind_head_cong)

lemma s_8031a24cacf7ef24_id: "schema_id s_8031a24cacf7ef24 = 0x8031a24cacf7ef24"
  by (simp add: s_8031a24cacf7ef24_def)

lemma s_8031a24cacf7ef24_ok: "schema_ok s_8031a24cacf7ef24"
  by (simp add: s_8031a24cacf7ef24_def b_8031a24cacf7ef24_node ordered_by_def sfield_def)

lemma s_8031a24cacf7ef24_layout: "layout_of s_8031a24cacf7ef24 = Some Scheduler_AcquireGpuResults_layout"
  by (simp add: s_8031a24cacf7ef24_def b_8031a24cacf7ef24_node describe_table sfield_def struct_layout_def wireGpuControl_fields)

text \<open>\<open>Scheduler.releaseGpu$Params\<close>, a struct\<close>

definition b_80a3402bda717aa6 :: table where
  "b_80a3402bda717aa6 = [
     W 0 0 0 0 6 0 6 0,
     W 166 122 113 218 43 64 163 128,
     W 28 0 0 0 1 0 0 0,
     W 0 0 0 0 0 0 0 0,
     W 1 0 7 0 0 0 0 0,
     W 0 0 0 0 0 0 0 0,
     W 0 0 0 0 0 0 0 0,
     W 21 0 0 0 114 1 0 0,
     W 0 0 0 0 0 0 0 0,
     W 0 0 0 0 0 0 0 0,
     W 33 0 0 0 63 0 0 0,
     W 0 0 0 0 0 0 0 0,
     W 0 0 0 0 0 0 0 0,
     W 103 112 117 45 99 111 110 116,
     W 114 111 108 46 99 97 112 110,
     W 112 58 83 99 104 101 100 117,
     W 108 101 114 46 114 101 108 101,
     W 97 115 101 71 112 117 36 80,
     W 97 114 97 109 115 0 0 0,
     W 4 0 0 0 3 0 4 0,
     W 0 0 0 0 0 0 0 0,
     W 0 0 1 0 0 0 0 0,
     W 0 0 0 0 0 0 0 0,
     W 13 0 0 0 66 0 0 0,
     W 0 0 0 0 0 0 0 0,
     W 8 0 0 0 3 0 1 0,
     W 20 0 0 0 2 0 1 0,
     W 114 101 113 117 101 115 116 0,
     W 16 0 0 0 0 0 0 0,
     W 1 71 53 155 23 3 241 228,
     W 0 0 0 0 0 0 0 0,
     W 0 0 0 0 0 0 0 0,
     W 16 0 0 0 0 0 0 0,
     W 0 0 0 0 0 0 0 0,
     W 0 0 0 0 0 0 0 0]"

definition s_80a3402bda717aa6 :: raw_schema where
  "s_80a3402bda717aa6 = RawSchema 0x80a3402bda717aa6 b_80a3402bda717aa6 35
     [0xe4f103179b354701]
     [0] 1 1
     [0]"

lemma b_80a3402bda717aa6_node:
  "length b_80a3402bda717aa6 = 35"
  "read_node b_80a3402bda717aa6 = Some (0x80a3402bda717aa6, StructBody 0 1 None [
       sfield [114, 101, 113, 117, 101, 115, 116] 65535 0 (Named 16 0xe4f103179b354701) 16 0])"
  by (simp_all add: b_80a3402bda717aa6_def read_table sfield_def cong: table_congs bind_head_cong)

lemma s_80a3402bda717aa6_id: "schema_id s_80a3402bda717aa6 = 0x80a3402bda717aa6"
  by (simp add: s_80a3402bda717aa6_def)

lemma s_80a3402bda717aa6_ok: "schema_ok s_80a3402bda717aa6"
  by (simp add: s_80a3402bda717aa6_def b_80a3402bda717aa6_node ordered_by_def sfield_def)

lemma s_80a3402bda717aa6_layout: "layout_of s_80a3402bda717aa6 = Some Scheduler_ReleaseGpuParams_layout"
  by (simp add: s_80a3402bda717aa6_def b_80a3402bda717aa6_node describe_table sfield_def struct_layout_def wireGpuControl_fields)

text \<open>\<open>Scheduler.releaseGpu$Results\<close>, a struct\<close>

definition b_9994ba5ea08baa47 :: table where
  "b_9994ba5ea08baa47 = [
     W 0 0 0 0 6 0 6 0,
     W 71 170 139 160 94 186 148 153,
     W 28 0 0 0 1 0 0 0,
     W 0 0 0 0 0 0 0 0,
     W 1 0 7 0 0 0 0 0,
     W 0 0 0 0 0 0 0 0,
     W 0 0 0 0 0 0 0 0,
     W 21 0 0 0 122 1 0 0,
     W 0 0 0 0 0 0 0 0,
     W 0 0 0 0 0 0 0 0,
     W 33 0 0 0 63 0 0 0,
     W 0 0 0 0 0 0 0 0,
     W 0 0 0 0 0 0 0 0,
     W 103 112 117 45 99 111 110 116,
     W 114 111 108 46 99 97 112 110,
     W 112 58 83 99 104 101 100 117,
     W 108 101 114 46 114 101 108 101,
     W 97 115 101 71 112 117 36 82,
     W 101 115 117 108 116 115 0 0,
     W 4 0 0 0 3 0 4 0,
     W 0 0 0 0 0 0 0 0,
     W 0 0 1 0 0 0 0 0,
     W 0 0 0 0 0 0 0 0,
     W 13 0 0 0 34 0 0 0,
     W 0 0 0 0 0 0 0 0,
     W 8 0 0 0 3 0 1 0,
     W 20 0 0 0 2 0 1 0,
     W 97 99 107 0 0 0 0 0,
     W 16 0 0 0 0 0 0 0,
     W 136 53 26 54 3 107 110 188,
     W 0 0 0 0 0 0 0 0,
     W 0 0 0 0 0 0 0 0,
     W 16 0 0 0 0 0 0 0,
     W 0 0 0 0 0 0 0 0,
     W 0 0 0 0 0 0 0 0]"

definition s_9994ba5ea08baa47 :: raw_schema where
  "s_9994ba5ea08baa47 = RawSchema 0x9994ba5ea08baa47 b_9994ba5ea08baa47 35
     [0xbc6e6b03361a3588]
     [0] 1 1
     [0]"

lemma b_9994ba5ea08baa47_node:
  "length b_9994ba5ea08baa47 = 35"
  "read_node b_9994ba5ea08baa47 = Some (0x9994ba5ea08baa47, StructBody 0 1 None [
       sfield [97, 99, 107] 65535 0 (Named 16 0xbc6e6b03361a3588) 16 0])"
  by (simp_all add: b_9994ba5ea08baa47_def read_table sfield_def cong: table_congs bind_head_cong)

lemma s_9994ba5ea08baa47_id: "schema_id s_9994ba5ea08baa47 = 0x9994ba5ea08baa47"
  by (simp add: s_9994ba5ea08baa47_def)

lemma s_9994ba5ea08baa47_ok: "schema_ok s_9994ba5ea08baa47"
  by (simp add: s_9994ba5ea08baa47_def b_9994ba5ea08baa47_node ordered_by_def sfield_def)

lemma s_9994ba5ea08baa47_layout: "layout_of s_9994ba5ea08baa47 = Some Scheduler_ReleaseGpuResults_layout"
  by (simp add: s_9994ba5ea08baa47_def b_9994ba5ea08baa47_node describe_table sfield_def struct_layout_def wireGpuControl_fields)

text \<open>\<open>Scheduler.runCommand$Params\<close>, a struct\<close>

definition b_ac5ce9d7dbd7dc54 :: table where
  "b_ac5ce9d7dbd7dc54 = [
     W 0 0 0 0 6 0 6 0,
     W 84 220 215 219 215 233 92 172,
     W 28 0 0 0 1 0 0 0,
     W 0 0 0 0 0 0 0 0,
     W 1 0 7 0 0 0 0 0,
     W 0 0 0 0 0 0 0 0,
     W 0 0 0 0 0 0 0 0,
     W 21 0 0 0 114 1 0 0,
     W 0 0 0 0 0 0 0 0,
     W 0 0 0 0 0 0 0 0,
     W 33 0 0 0 63 0 0 0,
     W 0 0 0 0 0 0 0 0,
     W 0 0 0 0 0 0 0 0,
     W 103 112 117 45 99 111 110 116,
     W 114 111 108 46 99 97 112 110,
     W 112 58 83 99 104 101 100 117,
     W 108 101 114 46 114 117 110 67,
     W 111 109 109 97 110 100 36 80,
     W 97 114 97 109 115 0 0 0,
     W 4 0 0 0 3 0 4 0,
     W 0 0 0 0 0 0 0 0,
     W 0 0 1 0 0 0 0 0,
     W 0 0 0 0 0 0 0 0,
     W 13 0 0 0 66 0 0 0,
     W 0 0 0 0 0 0 0 0,
     W 8 0 0 0 3 0 1 0,
     W 20 0 0 0 2 0 1 0,
     W 114 101 113 117 101 115 116 0,
     W 16 0 0 0 0 0 0 0,
     W 166 216 164 233 53 121 79 185,
     W 0 0 0 0 0 0 0 0,
     W 0 0 0 0 0 0 0 0,
     W 16 0 0 0 0 0 0 0,
     W 0 0 0 0 0 0 0 0,
     W 0 0 0 0 0 0 0 0]"

definition s_ac5ce9d7dbd7dc54 :: raw_schema where
  "s_ac5ce9d7dbd7dc54 = RawSchema 0xac5ce9d7dbd7dc54 b_ac5ce9d7dbd7dc54 35
     [0xb94f7935e9a4d8a6]
     [0] 1 1
     [0]"

lemma b_ac5ce9d7dbd7dc54_node:
  "length b_ac5ce9d7dbd7dc54 = 35"
  "read_node b_ac5ce9d7dbd7dc54 = Some (0xac5ce9d7dbd7dc54, StructBody 0 1 None [
       sfield [114, 101, 113, 117, 101, 115, 116] 65535 0 (Named 16 0xb94f7935e9a4d8a6) 16 0])"
  by (simp_all add: b_ac5ce9d7dbd7dc54_def read_table sfield_def cong: table_congs bind_head_cong)

lemma s_ac5ce9d7dbd7dc54_id: "schema_id s_ac5ce9d7dbd7dc54 = 0xac5ce9d7dbd7dc54"
  by (simp add: s_ac5ce9d7dbd7dc54_def)

lemma s_ac5ce9d7dbd7dc54_ok: "schema_ok s_ac5ce9d7dbd7dc54"
  by (simp add: s_ac5ce9d7dbd7dc54_def b_ac5ce9d7dbd7dc54_node ordered_by_def sfield_def)

lemma s_ac5ce9d7dbd7dc54_layout: "layout_of s_ac5ce9d7dbd7dc54 = Some Scheduler_RunCommandParams_layout"
  by (simp add: s_ac5ce9d7dbd7dc54_def b_ac5ce9d7dbd7dc54_node describe_table sfield_def struct_layout_def wireGpuControl_fields)

text \<open>\<open>Scheduler.runCommand$Results\<close>, a struct\<close>

definition b_94cf2d50096076fe :: table where
  "b_94cf2d50096076fe = [
     W 0 0 0 0 6 0 6 0,
     W 254 118 96 9 80 45 207 148,
     W 28 0 0 0 1 0 0 0,
     W 0 0 0 0 0 0 0 0,
     W 1 0 7 0 0 0 0 0,
     W 0 0 0 0 0 0 0 0,
     W 0 0 0 0 0 0 0 0,
     W 21 0 0 0 122 1 0 0,
     W 0 0 0 0 0 0 0 0,
     W 0 0 0 0 0 0 0 0,
     W 33 0 0 0 63 0 0 0,
     W 0 0 0 0 0 0 0 0,
     W 0 0 0 0 0 0 0 0,
     W 103 112 117 45 99 111 110 116,
     W 114 111 108 46 99 97 112 110,
     W 112 58 83 99 104 101 100 117,
     W 108 101 114 46 114 117 110 67,
     W 111 109 109 97 110 100 36 82,
     W 101 115 117 108 116 115 0 0,
     W 4 0 0 0 3 0 4 0,
     W 0 0 0 0 0 0 0 0,
     W 0 0 1 0 0 0 0 0,
     W 0 0 0 0 0 0 0 0,
     W 13 0 0 0 74 0 0 0,
     W 0 0 0 0 0 0 0 0,
     W 12 0 0 0 3 0 1 0,
     W 24 0 0 0 2 0 1 0,
     W 114 101 115 112 111 110 115 101,
     W 0 0 0 0 0 0 0 0,
     W 16 0 0 0 0 0 0 0,
     W 244 150 187 153 245 50 8 213,
     W 0 0 0 0 0 0 0 0,
     W 0 0 0 0 0 0 0 0,
     W 16 0 0 0 0 0 0 0,
     W 0 0 0 0 0 0 0 0,
     W 0 0 0 0 0 0 0 0]"

definition s_94cf2d50096076fe :: raw_schema where
  "s_94cf2d50096076fe = RawSchema 0x94cf2d50096076fe b_94cf2d50096076fe 36
     [0xd50832f599bb96f4]
     [0] 1 1
     [0]"

lemma b_94cf2d50096076fe_node:
  "length b_94cf2d50096076fe = 36"
  "read_node b_94cf2d50096076fe = Some (0x94cf2d50096076fe, StructBody 0 1 None [
       sfield [114, 101, 115, 112, 111, 110, 115, 101] 65535 0 (Named 16 0xd50832f599bb96f4) 16 0])"
  by (simp_all add: b_94cf2d50096076fe_def read_table sfield_def cong: table_congs bind_head_cong)

lemma s_94cf2d50096076fe_id: "schema_id s_94cf2d50096076fe = 0x94cf2d50096076fe"
  by (simp add: s_94cf2d50096076fe_def)

lemma s_94cf2d50096076fe_ok: "schema_ok s_94cf2d50096076fe"
  by (simp add: s_94cf2d50096076fe_def b_94cf2d50096076fe_node ordered_by_def sfield_def)

lemma s_94cf2d50096076fe_layout: "layout_of s_94cf2d50096076fe = Some Scheduler_RunCommandResults_layout"
  by (simp add: s_94cf2d50096076fe_def b_94cf2d50096076fe_node describe_table sfield_def struct_layout_def wireGpuControl_fields)

text \<open>\<open>RunRequest\<close>, a struct\<close>

definition b_b94f7935e9a4d8a6 :: table where
  "b_b94f7935e9a4d8a6 = [
     W 0 0 0 0 6 0 6 0,
     W 166 216 164 233 53 121 79 185,
     W 18 0 0 0 1 0 1 0,
     W 118 152 175 250 206 161 204 204,
     W 2 0 7 0 0 0 0 0,
     W 0 0 0 0 0 0 0 0,
     W 130 7 0 0 77 8 0 0,
     W 21 0 0 0 234 0 0 0,
     W 33 0 0 0 7 0 0 0,
     W 0 0 0 0 0 0 0 0,
     W 29 0 0 0 175 0 0 0,
     W 0 0 0 0 0 0 0 0,
     W 0 0 0 0 0 0 0 0,
     W 103 112 117 45 99 111 110 116,
     W 114 111 108 46 99 97 112 110,
     W 112 58 82 117 110 82 101 113,
     W 117 101 115 116 0 0 0 0,
     W 0 0 0 0 1 0 1 0,
     W 12 0 0 0 3 0 4 0,
     W 0 0 0 0 0 0 0 0,
     W 0 0 1 0 0 0 0 0,
     W 0 0 0 0 0 0 0 0,
     W 69 0 0 0 42 0 0 0,
     W 0 0 0 0 0 0 0 0,
     W 64 0 0 0 3 0 1 0,
     W 76 0 0 0 2 0 1 0,
     W 1 0 0 0 1 0 0 0,
     W 0 0 1 0 1 0 0 0,
     W 0 0 0 0 0 0 0 0,
     W 73 0 0 0 34 0 0 0,
     W 0 0 0 0 0 0 0 0,
     W 68 0 0 0 3 0 1 0,
     W 80 0 0 0 2 0 1 0,
     W 2 0 0 0 0 0 0 0,
     W 0 0 1 0 2 0 0 0,
     W 0 0 0 0 0 0 0 0,
     W 77 0 0 0 106 0 0 0,
     W 0 0 0 0 0 0 0 0,
     W 76 0 0 0 3 0 1 0,
     W 88 0 0 0 2 0 1 0,
     W 117 117 105 100 0 0 0 0,
     W 12 0 0 0 0 0 0 0,
     W 0 0 0 0 0 0 0 0,
     W 0 0 0 0 0 0 0 0,
     W 0 0 0 0 0 0 0 0,
     W 12 0 0 0 0 0 0 0,
     W 0 0 0 0 0 0 0 0,
     W 0 0 0 0 0 0 0 0,
     W 99 109 100 0 0 0 0 0,
     W 12 0 0 0 0 0 0 0,
     W 0 0 0 0 0 0 0 0,
     W 0 0 0 0 0 0 0 0,
     W 0 0 0 0 0 0 0 0,
     W 12 0 0 0 0 0 0 0,
     W 0 0 0 0 0 0 0 0,
     W 0 0 0 0 0 0 0 0,
     W 115 116 114 101 97 109 72 97,
     W 110 100 108 101 0 0 0 0,
     W 9 0 0 0 0 0 0 0,
     W 0 0 0 0 0 0 0 0,
     W 0 0 0 0 0 0 0 0,
     W 0 0 0 0 0 0 0 0,
     W 9 0 0 0 0 0 0 0,
     W 0 0 0 0 0 0 0 0,
     W 0 0 0 0 0 0 0 0]"

definition s_b94f7935e9a4d8a6 :: raw_schema where
  "s_b94f7935e9a4d8a6 = RawSchema 0xb94f7935e9a4d8a6 b_b94f7935e9a4d8a6 65
     []
     [1, 2, 0] 0 3
     [0, 1, 2]"

lemma b_b94f7935e9a4d8a6_node:
  "length b_b94f7935e9a4d8a6 = 65"
  "read_node b_b94f7935e9a4d8a6 = Some (0xb94f7935e9a4d8a6, StructBody 1 2 None [
       sfield [117, 117, 105, 100] 65535 0 (Plain 12) 12 0,
       sfield [99, 109, 100] 65535 1 (Plain 12) 12 0,
       sfield [115, 116, 114, 101, 97, 109, 72, 97, 110, 100, 108, 101] 65535 0 (Plain 9) 9 0])"
  by (simp_all add: b_b94f7935e9a4d8a6_def read_table sfield_def cong: table_congs bind_head_cong)

lemma s_b94f7935e9a4d8a6_id: "schema_id s_b94f7935e9a4d8a6 = 0xb94f7935e9a4d8a6"
  by (simp add: s_b94f7935e9a4d8a6_def)

lemma s_b94f7935e9a4d8a6_ok: "schema_ok s_b94f7935e9a4d8a6"
  by (simp add: s_b94f7935e9a4d8a6_def b_b94f7935e9a4d8a6_node ordered_by_def sfield_def)

lemma s_b94f7935e9a4d8a6_layout: "layout_of s_b94f7935e9a4d8a6 = Some RunRequest_layout"
  by (simp add: s_b94f7935e9a4d8a6_def b_b94f7935e9a4d8a6_node describe_table sfield_def struct_layout_def wireGpuControl_fields)

text \<open>\<open>RunResponse\<close>, a struct\<close>

definition b_d50832f599bb96f4 :: table where
  "b_d50832f599bb96f4 = [
     W 0 0 0 0 6 0 6 0,
     W 244 150 187 153 245 50 8 213,
     W 18 0 0 0 1 0 1 0,
     W 118 152 175 250 206 161 204 204,
     W 1 0 7 0 0 0 0 0,
     W 0 0 0 0 0 0 0 0,
     W 79 8 0 0 218 8 0 0,
     W 21 0 0 0 242 0 0 0,
     W 33 0 0 0 7 0 0 0,
     W 0 0 0 0 0 0 0 0,
     W 29 0 0 0 119 0 0 0,
     W 0 0 0 0 0 0 0 0,
     W 0 0 0 0 0 0 0 0,
     W 103 112 117 45 99 111 110 116,
     W 114 111 108 46 99 97 112 110,
     W 112 58 82 117 110 82 101 115,
     W 112 111 110 115 101 0 0 0,
     W 0 0 0 0 1 0 1 0,
     W 8 0 0 0 3 0 4 0,
     W 0 0 0 0 0 0 0 0,
     W 0 0 1 0 0 0 0 0,
     W 0 0 0 0 0 0 0 0,
     W 41 0 0 0 74 0 0 0,
     W 0 0 0 0 0 0 0 0,
     W 40 0 0 0 3 0 1 0,
     W 52 0 0 0 2 0 1 0,
     W 1 0 0 0 0 0 0 0,
     W 0 0 1 0 1 0 0 0,
     W 0 0 0 0 0 0 0 0,
     W 49 0 0 0 58 0 0 0,
     W 0 0 0 0 0 0 0 0,
     W 44 0 0 0 3 0 1 0,
     W 56 0 0 0 2 0 1 0,
     W 101 120 105 116 67 111 100 101,
     W 0 0 0 0 0 0 0 0,
     W 4 0 0 0 0 0 0 0,
     W 0 0 0 0 0 0 0 0,
     W 0 0 0 0 0 0 0 0,
     W 0 0 0 0 0 0 0 0,
     W 4 0 0 0 0 0 0 0,
     W 0 0 0 0 0 0 0 0,
     W 0 0 0 0 0 0 0 0,
     W 111 117 116 112 117 116 0 0,
     W 12 0 0 0 0 0 0 0,
     W 0 0 0 0 0 0 0 0,
     W 0 0 0 0 0 0 0 0,
     W 0 0 0 0 0 0 0 0,
     W 12 0 0 0 0 0 0 0,
     W 0 0 0 0 0 0 0 0,
     W 0 0 0 0 0 0 0 0]"

definition s_d50832f599bb96f4 :: raw_schema where
  "s_d50832f599bb96f4 = RawSchema 0xd50832f599bb96f4 b_d50832f599bb96f4 50
     []
     [0, 1] 0 2
     [0, 1]"

lemma b_d50832f599bb96f4_node:
  "length b_d50832f599bb96f4 = 50"
  "read_node b_d50832f599bb96f4 = Some (0xd50832f599bb96f4, StructBody 1 1 None [
       sfield [101, 120, 105, 116, 67, 111, 100, 101] 65535 0 (Plain 4) 4 0,
       sfield [111, 117, 116, 112, 117, 116] 65535 0 (Plain 12) 12 0])"
  by (simp_all add: b_d50832f599bb96f4_def read_table sfield_def cong: table_congs bind_head_cong)

lemma s_d50832f599bb96f4_id: "schema_id s_d50832f599bb96f4 = 0xd50832f599bb96f4"
  by (simp add: s_d50832f599bb96f4_def)

lemma s_d50832f599bb96f4_ok: "schema_ok s_d50832f599bb96f4"
  by (simp add: s_d50832f599bb96f4_def b_d50832f599bb96f4_node ordered_by_def sfield_def)

lemma s_d50832f599bb96f4_layout: "layout_of s_d50832f599bb96f4 = Some RunResponse_layout"
  by (simp add: s_d50832f599bb96f4_def b_d50832f599bb96f4_node describe_table sfield_def struct_layout_def wireGpuControl_fields)

subsection \<open>All of them\<close>

definition schemaGpuControl_schemas :: "raw_schema list" where
  "schemaGpuControl_schemas = [
     s_b5f8f6cc208cb766, s_e4f103179b354701, s_bfb92316876e4204, s_d55a8aa154796958,
     s_c0356e53706dd651, s_a43a7ddd2d9aa498, s_a2673bfae409e7a5, s_ada0409ba8ac33f9,
     s_ef8cb4fe563986d6, s_b9ecb76147d5217b, s_a4b397c452f0157f, s_e66e89322dd07425,
     s_edb95852bd820401, s_f9ee31c8e9ebbaca, s_c61654dcfaa29834, s_c3d5a9cea9e1afa5,
     s_96505251d9a2981e, s_e4bb798802b333dd, s_88e8c194c7de76b5, s_b5568a3ad83e748d,
     s_8031a24cacf7ef24, s_80a3402bda717aa6, s_9994ba5ea08baa47, s_ac5ce9d7dbd7dc54,
     s_94cf2d50096076fe, s_b94f7935e9a4d8a6, s_d50832f599bb96f4]"

lemma schemaGpuControl_schemas_ok: "list_all schema_ok schemaGpuControl_schemas"
  by (simp add: schemaGpuControl_schemas_def
      s_b5f8f6cc208cb766_ok s_e4f103179b354701_ok s_bfb92316876e4204_ok s_d55a8aa154796958_ok
      s_c0356e53706dd651_ok s_a43a7ddd2d9aa498_ok s_a2673bfae409e7a5_ok s_ada0409ba8ac33f9_ok
      s_ef8cb4fe563986d6_ok s_b9ecb76147d5217b_ok s_a4b397c452f0157f_ok s_e66e89322dd07425_ok
      s_edb95852bd820401_ok s_f9ee31c8e9ebbaca_ok s_c61654dcfaa29834_ok s_c3d5a9cea9e1afa5_ok
      s_96505251d9a2981e_ok s_e4bb798802b333dd_ok s_88e8c194c7de76b5_ok s_b5568a3ad83e748d_ok
      s_8031a24cacf7ef24_ok s_80a3402bda717aa6_ok s_9994ba5ea08baa47_ok s_ac5ce9d7dbd7dc54_ok
      s_94cf2d50096076fe_ok s_b94f7935e9a4d8a6_ok s_d50832f599bb96f4_ok)

lemmas schemaGpuControl_defs = schemaGpuControl_schemas_def
  s_b5f8f6cc208cb766_def s_e4f103179b354701_def s_bfb92316876e4204_def s_d55a8aa154796958_def
  s_c0356e53706dd651_def s_a43a7ddd2d9aa498_def s_a2673bfae409e7a5_def s_ada0409ba8ac33f9_def
  s_ef8cb4fe563986d6_def s_b9ecb76147d5217b_def s_a4b397c452f0157f_def s_e66e89322dd07425_def
  s_edb95852bd820401_def s_f9ee31c8e9ebbaca_def s_c61654dcfaa29834_def s_c3d5a9cea9e1afa5_def
  s_96505251d9a2981e_def s_e4bb798802b333dd_def s_88e8c194c7de76b5_def s_b5568a3ad83e748d_def
  s_8031a24cacf7ef24_def s_80a3402bda717aa6_def s_9994ba5ea08baa47_def s_ac5ce9d7dbd7dc54_def
  s_94cf2d50096076fe_def s_b94f7935e9a4d8a6_def s_d50832f599bb96f4_def

lemma schemaGpuControl_ids: "map schema_id schemaGpuControl_schemas = [
     0xb5f8f6cc208cb766, 0xe4f103179b354701, 0xbfb92316876e4204, 0xd55a8aa154796958,
     0xc0356e53706dd651, 0xa43a7ddd2d9aa498, 0xa2673bfae409e7a5, 0xada0409ba8ac33f9,
     0xef8cb4fe563986d6, 0xb9ecb76147d5217b, 0xa4b397c452f0157f, 0xe66e89322dd07425,
     0xedb95852bd820401, 0xf9ee31c8e9ebbaca, 0xc61654dcfaa29834, 0xc3d5a9cea9e1afa5,
     0x96505251d9a2981e, 0xe4bb798802b333dd, 0x88e8c194c7de76b5, 0xb5568a3ad83e748d,
     0x8031a24cacf7ef24, 0x80a3402bda717aa6, 0x9994ba5ea08baa47, 0xac5ce9d7dbd7dc54,
     0x94cf2d50096076fe, 0xb94f7935e9a4d8a6, 0xd50832f599bb96f4]"
  by (simp add: schemaGpuControl_schemas_def
      s_b5f8f6cc208cb766_id s_e4f103179b354701_id s_bfb92316876e4204_id s_d55a8aa154796958_id
      s_c0356e53706dd651_id s_a43a7ddd2d9aa498_id s_a2673bfae409e7a5_id s_ada0409ba8ac33f9_id
      s_ef8cb4fe563986d6_id s_b9ecb76147d5217b_id s_a4b397c452f0157f_id s_e66e89322dd07425_id
      s_edb95852bd820401_id s_f9ee31c8e9ebbaca_id s_c61654dcfaa29834_id s_c3d5a9cea9e1afa5_id
      s_96505251d9a2981e_id s_e4bb798802b333dd_id s_88e8c194c7de76b5_id s_b5568a3ad83e748d_id
      s_8031a24cacf7ef24_id s_80a3402bda717aa6_id s_9994ba5ea08baa47_id s_ac5ce9d7dbd7dc54_id
      s_94cf2d50096076fe_id s_b94f7935e9a4d8a6_id s_d50832f599bb96f4_id)

text \<open>The structs with the ids and layouts of the header, in its order.\<close>

definition schemaGpuControl_structs :: "raw_schema list" where
  "schemaGpuControl_structs = [
     s_b5f8f6cc208cb766, s_e4f103179b354701, s_bfb92316876e4204, s_d55a8aa154796958,
     s_c0356e53706dd651, s_ada0409ba8ac33f9, s_b9ecb76147d5217b, s_a4b397c452f0157f,
     s_e66e89322dd07425, s_edb95852bd820401, s_f9ee31c8e9ebbaca, s_c61654dcfaa29834,
     s_c3d5a9cea9e1afa5, s_96505251d9a2981e, s_e4bb798802b333dd, s_88e8c194c7de76b5,
     s_b5568a3ad83e748d, s_8031a24cacf7ef24, s_80a3402bda717aa6, s_9994ba5ea08baa47,
     s_ac5ce9d7dbd7dc54, s_94cf2d50096076fe, s_b94f7935e9a4d8a6, s_d50832f599bb96f4]"

definition schemaGpuControl_headers :: "(nat \<times> layout) list" where
  "schemaGpuControl_headers = [
     (0xb5f8f6cc208cb766, GpuList_layout), (0xe4f103179b354701, GpuRequest_layout),
     (0xbfb92316876e4204, GpuStatus_layout), (0xd55a8aa154796958, Path_layout),
     (0xc0356e53706dd651, Step_layout), (0xada0409ba8ac33f9, Metrics_layout),
     (0xb9ecb76147d5217b, Scheduler_RequestPathParams_layout),
     (0xa4b397c452f0157f, Scheduler_RequestPathResults_layout),
     (0xe66e89322dd07425, Scheduler_ReportMetricsParams_layout),
     (0xedb95852bd820401, Scheduler_ReportMetricsResults_layout),
     (0xf9ee31c8e9ebbaca, Scheduler_RegisterGpuParams_layout),
     (0xc61654dcfaa29834, Scheduler_RegisterGpuResults_layout),
     (0xc3d5a9cea9e1afa5, Scheduler_ListGpusParams_layout),
     (0x96505251d9a2981e, Scheduler_ListGpusResults_layout),
     (0xe4bb798802b333dd, Scheduler_GetGpuStatusParams_layout),
     (0x88e8c194c7de76b5, Scheduler_GetGpuStatusResults_layout),
     (0xb5568a3ad83e748d, Scheduler_AcquireGpuParams_layout),
     (0x8031a24cacf7ef24, Scheduler_AcquireGpuResults_layout),
     (0x80a3402bda717aa6, Scheduler_ReleaseGpuParams_layout),
     (0x9994ba5ea08baa47, Scheduler_ReleaseGpuResults_layout),
     (0xac5ce9d7dbd7dc54, Scheduler_RunCommandParams_layout),
     (0x94cf2d50096076fe, Scheduler_RunCommandResults_layout),
     (0xb94f7935e9a4d8a6, RunRequest_layout), (0xd50832f599bb96f4, RunResponse_layout)]"

lemma schemaGpuControl_structs_layouts:
  "map (\<lambda>s. (schema_id s, layout_of s)) schemaGpuControl_structs = map (\<lambda>(i, l). (i, Some l)) schemaGpuControl_headers"
  by (simp add: schemaGpuControl_structs_def schemaGpuControl_headers_def
      s_b5f8f6cc208cb766_layout s_b5f8f6cc208cb766_id
      s_e4f103179b354701_layout s_e4f103179b354701_id
      s_bfb92316876e4204_layout s_bfb92316876e4204_id
      s_d55a8aa154796958_layout s_d55a8aa154796958_id
      s_c0356e53706dd651_layout s_c0356e53706dd651_id
      s_ada0409ba8ac33f9_layout s_ada0409ba8ac33f9_id
      s_b9ecb76147d5217b_layout s_b9ecb76147d5217b_id
      s_a4b397c452f0157f_layout s_a4b397c452f0157f_id
      s_e66e89322dd07425_layout s_e66e89322dd07425_id
      s_edb95852bd820401_layout s_edb95852bd820401_id
      s_f9ee31c8e9ebbaca_layout s_f9ee31c8e9ebbaca_id
      s_c61654dcfaa29834_layout s_c61654dcfaa29834_id
      s_c3d5a9cea9e1afa5_layout s_c3d5a9cea9e1afa5_id
      s_96505251d9a2981e_layout s_96505251d9a2981e_id
      s_e4bb798802b333dd_layout s_e4bb798802b333dd_id
      s_88e8c194c7de76b5_layout s_88e8c194c7de76b5_id
      s_b5568a3ad83e748d_layout s_b5568a3ad83e748d_id
      s_8031a24cacf7ef24_layout s_8031a24cacf7ef24_id
      s_80a3402bda717aa6_layout s_80a3402bda717aa6_id
      s_9994ba5ea08baa47_layout s_9994ba5ea08baa47_id
      s_ac5ce9d7dbd7dc54_layout s_ac5ce9d7dbd7dc54_id
      s_94cf2d50096076fe_layout s_94cf2d50096076fe_id
      s_b94f7935e9a4d8a6_layout s_b94f7935e9a4d8a6_id
      s_d50832f599bb96f4_layout s_d50832f599bb96f4_id)

end
