(* ===== verification/SchemaCuda.thy ===== *)
theory SchemaCuda
  imports Schema WireCuda
begin

section \<open>The schemas of cuda.capnp\<close>

text \<open>
  \<open>proto/proto/cuda.capnp.c++\<close>: the schema nodes and their \<open>RawSchema\<close>s, with what each describes. The
  enumerators are those of \<open>cuda.capnp.h\<close>.
\<close>

text \<open>\<open>MemcpyParams\<close>, a struct\<close>

definition b_aa64c42860eecf63 :: table where
  "b_aa64c42860eecf63 = [
     W 0 0 0 0 6 0 6 0,
     W 99 207 238 96 40 196 100 170,
     W 11 0 0 0 1 0 2 0,
     W 68 68 34 34 204 204 187 187,
     W 2 0 7 0 0 0 0 0,
     W 0 0 0 0 0 0 0 0,
     W 90 1 0 0 249 1 0 0,
     W 21 0 0 0 194 0 0 0,
     W 29 0 0 0 7 0 0 0,
     W 0 0 0 0 0 0 0 0,
     W 25 0 0 0 231 0 0 0,
     W 0 0 0 0 0 0 0 0,
     W 0 0 0 0 0 0 0 0,
     W 99 117 100 97 46 99 97 112,
     W 110 112 58 77 101 109 99 112,
     W 121 80 97 114 97 109 115 0,
     W 0 0 0 0 1 0 1 0,
     W 16 0 0 0 3 0 4 0,
     W 0 0 0 0 0 0 0 0,
     W 0 0 1 0 0 0 0 0,
     W 0 0 0 0 0 0 0 0,
     W 97 0 0 0 34 0 0 0,
     W 0 0 0 0 0 0 0 0,
     W 92 0 0 0 3 0 1 0,
     W 104 0 0 0 2 0 1 0,
     W 1 0 0 0 1 0 0 0,
     W 0 0 1 0 1 0 0 0,
     W 0 0 0 0 0 0 0 0,
     W 101 0 0 0 34 0 0 0,
     W 0 0 0 0 0 0 0 0,
     W 96 0 0 0 3 0 1 0,
     W 108 0 0 0 2 0 1 0,
     W 2 0 0 0 0 0 0 0,
     W 0 0 1 0 2 0 0 0,
     W 0 0 0 0 0 0 0 0,
     W 105 0 0 0 42 0 0 0,
     W 0 0 0 0 0 0 0 0,
     W 100 0 0 0 3 0 1 0,
     W 112 0 0 0 2 0 1 0,
     W 3 0 0 0 4 0 0 0,
     W 0 0 1 0 3 0 0 0,
     W 0 0 0 0 0 0 0 0,
     W 109 0 0 0 82 0 0 0,
     W 0 0 0 0 0 0 0 0,
     W 108 0 0 0 3 0 1 0,
     W 120 0 0 0 2 0 1 0,
     W 115 114 99 0 0 0 0 0,
     W 16 0 0 0 0 0 0 0,
     W 170 101 54 224 37 103 115 163,
     W 0 0 0 0 0 0 0 0,
     W 0 0 0 0 0 0 0 0,
     W 16 0 0 0 0 0 0 0,
     W 0 0 0 0 0 0 0 0,
     W 0 0 0 0 0 0 0 0,
     W 100 115 116 0 0 0 0 0,
     W 16 0 0 0 0 0 0 0,
     W 170 101 54 224 37 103 115 163,
     W 0 0 0 0 0 0 0 0,
     W 0 0 0 0 0 0 0 0,
     W 16 0 0 0 0 0 0 0,
     W 0 0 0 0 0 0 0 0,
     W 0 0 0 0 0 0 0 0,
     W 115 105 122 101 0 0 0 0,
     W 9 0 0 0 0 0 0 0,
     W 0 0 0 0 0 0 0 0,
     W 0 0 0 0 0 0 0 0,
     W 0 0 0 0 0 0 0 0,
     W 9 0 0 0 0 0 0 0,
     W 0 0 0 0 0 0 0 0,
     W 0 0 0 0 0 0 0 0,
     W 100 105 114 101 99 116 105 111,
     W 110 0 0 0 0 0 0 0,
     W 15 0 0 0 0 0 0 0,
     W 129 234 142 248 4 54 187 195,
     W 0 0 0 0 0 0 0 0,
     W 0 0 0 0 0 0 0 0,
     W 15 0 0 0 0 0 0 0,
     W 0 0 0 0 0 0 0 0,
     W 0 0 0 0 0 0 0 0]"

definition s_aa64c42860eecf63 :: raw_schema where
  "s_aa64c42860eecf63 = RawSchema 0xaa64c42860eecf63 b_aa64c42860eecf63 79
     [0xa3736725e03665aa, 0xc3bb3604f88eea81]
     [3, 1, 2, 0] 2 4
     [0, 1, 2, 3]"

lemma b_aa64c42860eecf63_node:
  "length b_aa64c42860eecf63 = 79"
  "read_node b_aa64c42860eecf63 = Some (0xaa64c42860eecf63, StructBody 2 2 None [
       sfield [115, 114, 99] 65535 0 (Named 16 0xa3736725e03665aa) 16 0,
       sfield [100, 115, 116] 65535 1 (Named 16 0xa3736725e03665aa) 16 0,
       sfield [115, 105, 122, 101] 65535 0 (Plain 9) 9 0,
       sfield [100, 105, 114, 101, 99, 116, 105, 111, 110] 65535 4 (Named 15 0xc3bb3604f88eea81) 15
       0])"
  by (simp_all add: b_aa64c42860eecf63_def read_table sfield_def cong: table_congs bind_head_cong)

lemma s_aa64c42860eecf63_id: "schema_id s_aa64c42860eecf63 = 0xaa64c42860eecf63"
  by (simp add: s_aa64c42860eecf63_def)

lemma s_aa64c42860eecf63_ok: "schema_ok s_aa64c42860eecf63"
  by (simp add: s_aa64c42860eecf63_def b_aa64c42860eecf63_node ordered_by_def sfield_def)

lemma s_aa64c42860eecf63_layout: "layout_of s_aa64c42860eecf63 = Some MemcpyParams_layout"
  by (simp add: s_aa64c42860eecf63_def b_aa64c42860eecf63_node describe_table sfield_def struct_layout_def wireCuda_fields)

text \<open>\<open>StreamHandle\<close>, a struct\<close>

definition b_ddb50ac56f50ec53 :: table where
  "b_ddb50ac56f50ec53 = [
     W 0 0 0 0 6 0 6 0,
     W 83 236 80 111 197 10 181 221,
     W 11 0 0 0 1 0 1 0,
     W 68 68 34 34 204 204 187 187,
     W 0 0 7 0 0 0 0 0,
     W 0 0 0 0 0 0 0 0,
     W 253 1 0 0 52 2 0 0,
     W 21 0 0 0 194 0 0 0,
     W 29 0 0 0 7 0 0 0,
     W 0 0 0 0 0 0 0 0,
     W 25 0 0 0 63 0 0 0,
     W 0 0 0 0 0 0 0 0,
     W 0 0 0 0 0 0 0 0,
     W 99 117 100 97 46 99 97 112,
     W 110 112 58 83 116 114 101 97,
     W 109 72 97 110 100 108 101 0,
     W 0 0 0 0 1 0 1 0,
     W 4 0 0 0 3 0 4 0,
     W 0 0 0 0 0 0 0 0,
     W 0 0 1 0 0 0 0 0,
     W 0 0 0 0 0 0 0 0,
     W 13 0 0 0 58 0 0 0,
     W 0 0 0 0 0 0 0 0,
     W 8 0 0 0 3 0 1 0,
     W 20 0 0 0 2 0 1 0,
     W 104 97 110 100 108 101 0 0,
     W 9 0 0 0 0 0 0 0,
     W 0 0 0 0 0 0 0 0,
     W 0 0 0 0 0 0 0 0,
     W 0 0 0 0 0 0 0 0,
     W 9 0 0 0 0 0 0 0,
     W 0 0 0 0 0 0 0 0,
     W 0 0 0 0 0 0 0 0]"

definition s_ddb50ac56f50ec53 :: raw_schema where
  "s_ddb50ac56f50ec53 = RawSchema 0xddb50ac56f50ec53 b_ddb50ac56f50ec53 33
     []
     [0] 0 1
     [0]"

lemma b_ddb50ac56f50ec53_node:
  "length b_ddb50ac56f50ec53 = 33"
  "read_node b_ddb50ac56f50ec53 = Some (0xddb50ac56f50ec53, StructBody 1 0 None [
       sfield [104, 97, 110, 100, 108, 101] 65535 0 (Plain 9) 9 0])"
  by (simp_all add: b_ddb50ac56f50ec53_def read_table sfield_def cong: table_congs bind_head_cong)

lemma s_ddb50ac56f50ec53_id: "schema_id s_ddb50ac56f50ec53 = 0xddb50ac56f50ec53"
  by (simp add: s_ddb50ac56f50ec53_def)

lemma s_ddb50ac56f50ec53_ok: "schema_ok s_ddb50ac56f50ec53"
  by (simp add: s_ddb50ac56f50ec53_def b_ddb50ac56f50ec53_node ordered_by_def sfield_def)

lemma s_ddb50ac56f50ec53_layout: "layout_of s_ddb50ac56f50ec53 = Some StreamHandle_layout"
  by (simp add: s_ddb50ac56f50ec53_def b_ddb50ac56f50ec53_node describe_table sfield_def struct_layout_def wireCuda_fields)

text \<open>\<open>StreamCreateParams\<close>, a struct\<close>

definition b_9de7a50f41d4cbd0 :: table where
  "b_9de7a50f41d4cbd0 = [
     W 0 0 0 0 6 0 6 0,
     W 208 203 212 65 15 165 231 157,
     W 11 0 0 0 1 0 1 0,
     W 68 68 34 34 204 204 187 187,
     W 0 0 7 0 0 0 0 0,
     W 0 0 0 0 0 0 0 0,
     W 56 2 0 0 109 2 0 0,
     W 21 0 0 0 242 0 0 0,
     W 33 0 0 0 7 0 0 0,
     W 0 0 0 0 0 0 0 0,
     W 29 0 0 0 63 0 0 0,
     W 0 0 0 0 0 0 0 0,
     W 0 0 0 0 0 0 0 0,
     W 99 117 100 97 46 99 97 112,
     W 110 112 58 83 116 114 101 97,
     W 109 67 114 101 97 116 101 80,
     W 97 114 97 109 115 0 0 0,
     W 0 0 0 0 1 0 1 0,
     W 4 0 0 0 3 0 4 0,
     W 0 0 0 0 0 0 0 0,
     W 0 0 1 0 0 0 0 0,
     W 0 0 0 0 0 0 0 0,
     W 13 0 0 0 50 0 0 0,
     W 0 0 0 0 0 0 0 0,
     W 8 0 0 0 3 0 1 0,
     W 20 0 0 0 2 0 1 0,
     W 102 108 97 103 115 0 0 0,
     W 8 0 0 0 0 0 0 0,
     W 0 0 0 0 0 0 0 0,
     W 0 0 0 0 0 0 0 0,
     W 0 0 0 0 0 0 0 0,
     W 8 0 0 0 0 0 0 0,
     W 0 0 0 0 0 0 0 0,
     W 0 0 0 0 0 0 0 0]"

definition s_9de7a50f41d4cbd0 :: raw_schema where
  "s_9de7a50f41d4cbd0 = RawSchema 0x9de7a50f41d4cbd0 b_9de7a50f41d4cbd0 34
     []
     [0] 0 1
     [0]"

lemma b_9de7a50f41d4cbd0_node:
  "length b_9de7a50f41d4cbd0 = 34"
  "read_node b_9de7a50f41d4cbd0 = Some (0x9de7a50f41d4cbd0, StructBody 1 0 None [
       sfield [102, 108, 97, 103, 115] 65535 0 (Plain 8) 8 0])"
  by (simp_all add: b_9de7a50f41d4cbd0_def read_table sfield_def cong: table_congs bind_head_cong)

lemma s_9de7a50f41d4cbd0_id: "schema_id s_9de7a50f41d4cbd0 = 0x9de7a50f41d4cbd0"
  by (simp add: s_9de7a50f41d4cbd0_def)

lemma s_9de7a50f41d4cbd0_ok: "schema_ok s_9de7a50f41d4cbd0"
  by (simp add: s_9de7a50f41d4cbd0_def b_9de7a50f41d4cbd0_node ordered_by_def sfield_def)

lemma s_9de7a50f41d4cbd0_layout: "layout_of s_9de7a50f41d4cbd0 = Some StreamCreateParams_layout"
  by (simp add: s_9de7a50f41d4cbd0_def b_9de7a50f41d4cbd0_node describe_table sfield_def struct_layout_def wireCuda_fields)

text \<open>\<open>EventHandle\<close>, a struct\<close>

definition b_92bc15fb0d1fcb65 :: table where
  "b_92bc15fb0d1fcb65 = [
     W 0 0 0 0 6 0 6 0,
     W 101 203 31 13 251 21 188 146,
     W 11 0 0 0 1 0 1 0,
     W 68 68 34 34 204 204 187 187,
     W 0 0 7 0 0 0 0 0,
     W 0 0 0 0 0 0 0 0,
     W 113 2 0 0 167 2 0 0,
     W 21 0 0 0 186 0 0 0,
     W 29 0 0 0 7 0 0 0,
     W 0 0 0 0 0 0 0 0,
     W 25 0 0 0 63 0 0 0,
     W 0 0 0 0 0 0 0 0,
     W 0 0 0 0 0 0 0 0,
     W 99 117 100 97 46 99 97 112,
     W 110 112 58 69 118 101 110 116,
     W 72 97 110 100 108 101 0 0,
     W 0 0 0 0 1 0 1 0,
     W 4 0 0 0 3 0 4 0,
     W 0 0 0 0 0 0 0 0,
     W 0 0 1 0 0 0 0 0,
     W 0 0 0 0 0 0 0 0,
     W 13 0 0 0 58 0 0 0,
     W 0 0 0 0 0 0 0 0,
     W 8 0 0 0 3 0 1 0,
     W 20 0 0 0 2 0 1 0,
     W 104 97 110 100 108 101 0 0,
     W 9 0 0 0 0 0 0 0,
     W 0 0 0 0 0 0 0 0,
     W 0 0 0 0 0 0 0 0,
     W 0 0 0 0 0 0 0 0,
     W 9 0 0 0 0 0 0 0,
     W 0 0 0 0 0 0 0 0,
     W 0 0 0 0 0 0 0 0]"

definition s_92bc15fb0d1fcb65 :: raw_schema where
  "s_92bc15fb0d1fcb65 = RawSchema 0x92bc15fb0d1fcb65 b_92bc15fb0d1fcb65 33
     []
     [0] 0 1
     [0]"

lemma b_92bc15fb0d1fcb65_node:
  "length b_92bc15fb0d1fcb65 = 33"
  "read_node b_92bc15fb0d1fcb65 = Some (0x92bc15fb0d1fcb65, StructBody 1 0 None [
       sfield [104, 97, 110, 100, 108, 101] 65535 0 (Plain 9) 9 0])"
  by (simp_all add: b_92bc15fb0d1fcb65_def read_table sfield_def cong: table_congs bind_head_cong)

lemma s_92bc15fb0d1fcb65_id: "schema_id s_92bc15fb0d1fcb65 = 0x92bc15fb0d1fcb65"
  by (simp add: s_92bc15fb0d1fcb65_def)

lemma s_92bc15fb0d1fcb65_ok: "schema_ok s_92bc15fb0d1fcb65"
  by (simp add: s_92bc15fb0d1fcb65_def b_92bc15fb0d1fcb65_node ordered_by_def sfield_def)

lemma s_92bc15fb0d1fcb65_layout: "layout_of s_92bc15fb0d1fcb65 = Some EventHandle_layout"
  by (simp add: s_92bc15fb0d1fcb65_def b_92bc15fb0d1fcb65_node describe_table sfield_def struct_layout_def wireCuda_fields)

text \<open>\<open>EventParams\<close>, a struct\<close>

definition b_a0142208ca8277e0 :: table where
  "b_a0142208ca8277e0 = [
     W 0 0 0 0 6 0 6 0,
     W 224 119 130 202 8 34 20 160,
     W 11 0 0 0 1 0 1 0,
     W 68 68 34 34 204 204 187 187,
     W 0 0 7 0 0 0 0 0,
     W 0 0 0 0 0 0 0 0,
     W 171 2 0 0 217 2 0 0,
     W 21 0 0 0 186 0 0 0,
     W 29 0 0 0 7 0 0 0,
     W 0 0 0 0 0 0 0 0,
     W 25 0 0 0 63 0 0 0,
     W 0 0 0 0 0 0 0 0,
     W 0 0 0 0 0 0 0 0,
     W 99 117 100 97 46 99 97 112,
     W 110 112 58 69 118 101 110 116,
     W 80 97 114 97 109 115 0 0,
     W 0 0 0 0 1 0 1 0,
     W 4 0 0 0 3 0 4 0,
     W 0 0 0 0 0 0 0 0,
     W 0 0 1 0 0 0 0 0,
     W 0 0 0 0 0 0 0 0,
     W 13 0 0 0 50 0 0 0,
     W 0 0 0 0 0 0 0 0,
     W 8 0 0 0 3 0 1 0,
     W 20 0 0 0 2 0 1 0,
     W 102 108 97 103 115 0 0 0,
     W 8 0 0 0 0 0 0 0,
     W 0 0 0 0 0 0 0 0,
     W 0 0 0 0 0 0 0 0,
     W 0 0 0 0 0 0 0 0,
     W 8 0 0 0 0 0 0 0,
     W 0 0 0 0 0 0 0 0,
     W 0 0 0 0 0 0 0 0]"

definition s_a0142208ca8277e0 :: raw_schema where
  "s_a0142208ca8277e0 = RawSchema 0xa0142208ca8277e0 b_a0142208ca8277e0 33
     []
     [0] 0 1
     [0]"

lemma b_a0142208ca8277e0_node:
  "length b_a0142208ca8277e0 = 33"
  "read_node b_a0142208ca8277e0 = Some (0xa0142208ca8277e0, StructBody 1 0 None [
       sfield [102, 108, 97, 103, 115] 65535 0 (Plain 8) 8 0])"
  by (simp_all add: b_a0142208ca8277e0_def read_table sfield_def cong: table_congs bind_head_cong)

lemma s_a0142208ca8277e0_id: "schema_id s_a0142208ca8277e0 = 0xa0142208ca8277e0"
  by (simp add: s_a0142208ca8277e0_def)

lemma s_a0142208ca8277e0_ok: "schema_ok s_a0142208ca8277e0"
  by (simp add: s_a0142208ca8277e0_def b_a0142208ca8277e0_node ordered_by_def sfield_def)

lemma s_a0142208ca8277e0_layout: "layout_of s_a0142208ca8277e0 = Some EventParams_layout"
  by (simp add: s_a0142208ca8277e0_def b_a0142208ca8277e0_node describe_table sfield_def struct_layout_def wireCuda_fields)

text \<open>\<open>BatchKernelLaunch\<close>, a struct\<close>

definition b_dacf4c24bade7b94 :: table where
  "b_dacf4c24bade7b94 = [
     W 0 0 0 0 6 0 6 0,
     W 148 123 222 186 36 76 207 218,
     W 11 0 0 0 1 0 1 0,
     W 68 68 34 34 204 204 187 187,
     W 1 0 7 0 0 0 0 0,
     W 0 0 0 0 0 0 0 0,
     W 221 2 0 0 70 3 0 0,
     W 21 0 0 0 234 0 0 0,
     W 33 0 0 0 7 0 0 0,
     W 0 0 0 0 0 0 0 0,
     W 29 0 0 0 119 0 0 0,
     W 0 0 0 0 0 0 0 0,
     W 0 0 0 0 0 0 0 0,
     W 99 117 100 97 46 99 97 112,
     W 110 112 58 66 97 116 99 104,
     W 75 101 114 110 101 108 76 97,
     W 117 110 99 104 0 0 0 0,
     W 0 0 0 0 1 0 1 0,
     W 8 0 0 0 3 0 4 0,
     W 0 0 0 0 0 0 0 0,
     W 0 0 1 0 0 0 0 0,
     W 0 0 0 0 0 0 0 0,
     W 41 0 0 0 74 0 0 0,
     W 0 0 0 0 0 0 0 0,
     W 40 0 0 0 3 0 1 0,
     W 68 0 0 0 2 0 1 0,
     W 1 0 0 0 0 0 0 0,
     W 0 0 1 0 1 0 0 0,
     W 0 0 0 0 0 0 0 0,
     W 65 0 0 0 58 0 0 0,
     W 0 0 0 0 0 0 0 0,
     W 60 0 0 0 3 0 1 0,
     W 72 0 0 0 2 0 1 0,
     W 114 101 113 117 101 115 116 115,
     W 0 0 0 0 0 0 0 0,
     W 14 0 0 0 0 0 0 0,
     W 0 0 0 0 0 0 0 0,
     W 0 0 0 0 0 0 0 0,
     W 0 0 0 0 3 0 1 0,
     W 16 0 0 0 0 0 0 0,
     W 106 91 3 148 204 134 95 231,
     W 0 0 0 0 0 0 0 0,
     W 0 0 0 0 0 0 0 0,
     W 14 0 0 0 0 0 0 0,
     W 0 0 0 0 0 0 0 0,
     W 0 0 0 0 0 0 0 0,
     W 115 116 114 101 97 109 0 0,
     W 9 0 0 0 0 0 0 0,
     W 0 0 0 0 0 0 0 0,
     W 0 0 0 0 0 0 0 0,
     W 0 0 0 0 0 0 0 0,
     W 9 0 0 0 0 0 0 0,
     W 0 0 0 0 0 0 0 0,
     W 0 0 0 0 0 0 0 0]"

definition s_dacf4c24bade7b94 :: raw_schema where
  "s_dacf4c24bade7b94 = RawSchema 0xdacf4c24bade7b94 b_dacf4c24bade7b94 54
     [0xe75f86cc94035b6a]
     [0, 1] 1 2
     [0, 1]"

lemma b_dacf4c24bade7b94_node:
  "length b_dacf4c24bade7b94 = 54"
  "read_node b_dacf4c24bade7b94 = Some (0xdacf4c24bade7b94, StructBody 1 1 None [
       sfield [114, 101, 113, 117, 101, 115, 116, 115] 65535 0 (ListOf (Named 16
       0xe75f86cc94035b6a)) 14 0,
       sfield [115, 116, 114, 101, 97, 109] 65535 0 (Plain 9) 9 0])"
  by (simp_all add: b_dacf4c24bade7b94_def read_table sfield_def cong: table_congs bind_head_cong)

lemma s_dacf4c24bade7b94_id: "schema_id s_dacf4c24bade7b94 = 0xdacf4c24bade7b94"
  by (simp add: s_dacf4c24bade7b94_def)

lemma s_dacf4c24bade7b94_ok: "schema_ok s_dacf4c24bade7b94"
  by (simp add: s_dacf4c24bade7b94_def b_dacf4c24bade7b94_node ordered_by_def sfield_def)

lemma s_dacf4c24bade7b94_layout: "layout_of s_dacf4c24bade7b94 = Some BatchKernelLaunch_layout"
  by (simp add: s_dacf4c24bade7b94_def b_dacf4c24bade7b94_node describe_table sfield_def struct_layout_def wireCuda_fields)

text \<open>\<open>MultiGpuRequest\<close>, a struct\<close>

definition b_b2bde6a78c1a0cb4 :: table where
  "b_b2bde6a78c1a0cb4 = [
     W 0 0 0 0 6 0 6 0,
     W 180 12 26 140 167 230 189 178,
     W 11 0 0 0 1 0 1 0,
     W 68 68 34 34 204 204 187 187,
     W 2 0 7 0 0 0 0 0,
     W 0 0 0 0 0 0 0 0,
     W 74 3 0 0 189 3 0 0,
     W 21 0 0 0 218 0 0 0,
     W 33 0 0 0 7 0 0 0,
     W 0 0 0 0 0 0 0 0,
     W 29 0 0 0 175 0 0 0,
     W 0 0 0 0 0 0 0 0,
     W 0 0 0 0 0 0 0 0,
     W 99 117 100 97 46 99 97 112,
     W 110 112 58 77 117 108 116 105,
     W 71 112 117 82 101 113 117 101,
     W 115 116 0 0 0 0 0 0,
     W 0 0 0 0 1 0 1 0,
     W 12 0 0 0 3 0 4 0,
     W 0 0 0 0 0 0 0 0,
     W 0 0 1 0 0 0 0 0,
     W 0 0 0 0 0 0 0 0,
     W 69 0 0 0 50 0 0 0,
     W 0 0 0 0 0 0 0 0,
     W 64 0 0 0 3 0 1 0,
     W 92 0 0 0 2 0 1 0,
     W 1 0 0 0 1 0 0 0,
     W 0 0 1 0 1 0 0 0,
     W 0 0 0 0 0 0 0 0,
     W 89 0 0 0 66 0 0 0,
     W 0 0 0 0 0 0 0 0,
     W 84 0 0 0 3 0 1 0,
     W 96 0 0 0 2 0 1 0,
     W 2 0 0 0 0 0 0 0,
     W 0 0 1 0 2 0 0 0,
     W 0 0 0 0 0 0 0 0,
     W 93 0 0 0 58 0 0 0,
     W 0 0 0 0 0 0 0 0,
     W 88 0 0 0 3 0 1 0,
     W 100 0 0 0 2 0 1 0,
     W 117 117 105 100 115 0 0 0,
     W 14 0 0 0 0 0 0 0,
     W 0 0 0 0 0 0 0 0,
     W 0 0 0 0 0 0 0 0,
     W 0 0 0 0 3 0 1 0,
     W 12 0 0 0 0 0 0 0,
     W 0 0 0 0 0 0 0 0,
     W 0 0 0 0 0 0 0 0,
     W 0 0 0 0 0 0 0 0,
     W 14 0 0 0 0 0 0 0,
     W 0 0 0 0 0 0 0 0,
     W 0 0 0 0 0 0 0 0,
     W 99 111 109 109 97 110 100 0,
     W 12 0 0 0 0 0 0 0,
     W 0 0 0 0 0 0 0 0,
     W 0 0 0 0 0 0 0 0,
     W 0 0 0 0 0 0 0 0,
     W 12 0 0 0 0 0 0 0,
     W 0 0 0 0 0 0 0 0,
     W 0 0 0 0 0 0 0 0,
     W 115 116 114 101 97 109 0 0,
     W 9 0 0 0 0 0 0 0,
     W 0 0 0 0 0 0 0 0,
     W 0 0 0 0 0 0 0 0,
     W 0 0 0 0 0 0 0 0,
     W 9 0 0 0 0 0 0 0,
     W 0 0 0 0 0 0 0 0,
     W 0 0 0 0 0 0 0 0]"

definition s_b2bde6a78c1a0cb4 :: raw_schema where
  "s_b2bde6a78c1a0cb4 = RawSchema 0xb2bde6a78c1a0cb4 b_b2bde6a78c1a0cb4 68
     []
     [1, 2, 0] 0 3
     [0, 1, 2]"

lemma b_b2bde6a78c1a0cb4_node:
  "length b_b2bde6a78c1a0cb4 = 68"
  "read_node b_b2bde6a78c1a0cb4 = Some (0xb2bde6a78c1a0cb4, StructBody 1 2 None [
       sfield [117, 117, 105, 100, 115] 65535 0 (ListOf (Plain 12)) 14 0,
       sfield [99, 111, 109, 109, 97, 110, 100] 65535 1 (Plain 12) 12 0,
       sfield [115, 116, 114, 101, 97, 109] 65535 0 (Plain 9) 9 0])"
  by (simp_all add: b_b2bde6a78c1a0cb4_def read_table sfield_def cong: table_congs bind_head_cong)

lemma s_b2bde6a78c1a0cb4_id: "schema_id s_b2bde6a78c1a0cb4 = 0xb2bde6a78c1a0cb4"
  by (simp add: s_b2bde6a78c1a0cb4_def)

lemma s_b2bde6a78c1a0cb4_ok: "schema_ok s_b2bde6a78c1a0cb4"
  by (simp add: s_b2bde6a78c1a0cb4_def b_b2bde6a78c1a0cb4_node ordered_by_def sfield_def)

lemma s_b2bde6a78c1a0cb4_layout: "layout_of s_b2bde6a78c1a0cb4 = Some MultiGpuRequest_layout"
  by (simp add: s_b2bde6a78c1a0cb4_def b_b2bde6a78c1a0cb4_node describe_table sfield_def struct_layout_def wireCuda_fields)

text \<open>\<open>CudaService\<close>, an interface\<close>

definition b_d909ac68956b8ff9 :: table where
  "b_d909ac68956b8ff9 = [
     W 0 0 0 0 6 0 6 0,
     W 249 143 107 149 104 172 9 217,
     W 11 0 0 0 3 0 0 0,
     W 68 68 34 34 204 204 187 187,
     W 0 0 0 0 0 0 0 0,
     W 0 0 0 0 0 0 0 0,
     W 193 3 0 0 127 8 0 0,
     W 21 0 0 0 186 0 0 0,
     W 29 0 0 0 7 0 0 0,
     W 0 0 0 0 0 0 0 0,
     W 25 0 0 0 199 3 0 0,
     W 201 2 0 0 7 0 0 0,
     W 0 0 0 0 0 0 0 0,
     W 99 117 100 97 46 99 97 112,
     W 110 112 58 67 117 100 97 83,
     W 101 114 118 105 99 101 0 0,
     W 0 0 0 0 1 0 1 0,
     W 60 0 0 0 3 0 5 0,
     W 0 0 0 0 0 0 0 0,
     W 179 210 129 235 218 242 93 186,
     W 17 72 178 207 251 179 65 149,
     W 209 1 0 0 74 0 0 0,
     W 0 0 0 0 0 0 0 0,
     W 0 0 0 0 0 0 0 0,
     W 0 0 0 0 0 0 0 0,
     W 201 1 0 0 7 0 0 0,
     W 1 0 0 0 0 0 0 0,
     W 206 84 108 29 135 211 45 190,
     W 156 108 174 48 150 246 162 154,
     W 189 1 0 0 106 0 0 0,
     W 0 0 0 0 0 0 0 0,
     W 0 0 0 0 0 0 0 0,
     W 0 0 0 0 0 0 0 0,
     W 181 1 0 0 7 0 0 0,
     W 2 0 0 0 0 0 0 0,
     W 172 4 204 65 4 106 49 188,
     W 137 2 88 246 193 32 182 215,
     W 169 1 0 0 90 0 0 0,
     W 0 0 0 0 0 0 0 0,
     W 0 0 0 0 0 0 0 0,
     W 0 0 0 0 0 0 0 0,
     W 161 1 0 0 7 0 0 0,
     W 3 0 0 0 0 0 0 0,
     W 196 150 105 130 84 160 205 178,
     W 12 225 80 209 14 30 220 158,
     W 149 1 0 0 98 0 0 0,
     W 0 0 0 0 0 0 0 0,
     W 0 0 0 0 0 0 0 0,
     W 0 0 0 0 0 0 0 0,
     W 141 1 0 0 7 0 0 0,
     W 4 0 0 0 0 0 0 0,
     W 107 173 128 15 110 42 188 229,
     W 228 119 230 67 250 209 204 245,
     W 129 1 0 0 138 0 0 0,
     W 0 0 0 0 0 0 0 0,
     W 0 0 0 0 0 0 0 0,
     W 0 0 0 0 0 0 0 0,
     W 125 1 0 0 7 0 0 0,
     W 5 0 0 0 0 0 0 0,
     W 249 205 106 50 208 235 255 208,
     W 37 79 222 254 77 239 94 240,
     W 113 1 0 0 146 0 0 0,
     W 0 0 0 0 0 0 0 0,
     W 0 0 0 0 0 0 0 0,
     W 0 0 0 0 0 0 0 0,
     W 109 1 0 0 7 0 0 0,
     W 6 0 0 0 0 0 0 0,
     W 59 115 168 83 3 159 193 248,
     W 230 233 127 137 109 159 227 243,
     W 97 1 0 0 178 0 0 0,
     W 0 0 0 0 0 0 0 0,
     W 0 0 0 0 0 0 0 0,
     W 0 0 0 0 0 0 0 0,
     W 93 1 0 0 7 0 0 0,
     W 7 0 0 0 0 0 0 0,
     W 62 254 215 176 71 250 235 171,
     W 101 147 163 77 102 172 122 187,
     W 81 1 0 0 138 0 0 0,
     W 0 0 0 0 0 0 0 0,
     W 0 0 0 0 0 0 0 0,
     W 0 0 0 0 0 0 0 0,
     W 77 1 0 0 7 0 0 0,
     W 8 0 0 0 0 0 0 0,
     W 47 80 95 124 177 166 148 164,
     W 64 168 102 210 155 107 58 191,
     W 65 1 0 0 98 0 0 0,
     W 0 0 0 0 0 0 0 0,
     W 0 0 0 0 0 0 0 0,
     W 0 0 0 0 0 0 0 0,
     W 57 1 0 0 7 0 0 0,
     W 9 0 0 0 0 0 0 0,
     W 54 21 83 67 55 176 56 161,
     W 40 131 32 105 224 28 13 167,
     W 45 1 0 0 98 0 0 0,
     W 0 0 0 0 0 0 0 0,
     W 0 0 0 0 0 0 0 0,
     W 0 0 0 0 0 0 0 0,
     W 37 1 0 0 7 0 0 0,
     W 10 0 0 0 0 0 0 0,
     W 249 120 224 247 81 209 130 176,
     W 160 152 176 163 48 148 168 138,
     W 25 1 0 0 138 0 0 0,
     W 0 0 0 0 0 0 0 0,
     W 0 0 0 0 0 0 0 0,
     W 0 0 0 0 0 0 0 0,
     W 21 1 0 0 7 0 0 0,
     W 11 0 0 0 0 0 0 0,
     W 136 218 205 16 246 163 191 233,
     W 13 128 12 153 46 19 157 129,
     W 9 1 0 0 106 0 0 0,
     W 0 0 0 0 0 0 0 0,
     W 0 0 0 0 0 0 0 0,
     W 0 0 0 0 0 0 0 0,
     W 1 1 0 0 7 0 0 0,
     W 12 0 0 0 0 0 0 0,
     W 191 195 181 124 248 125 141 165,
     W 179 116 230 37 56 120 95 193,
     W 245 0 0 0 146 0 0 0,
     W 0 0 0 0 0 0 0 0,
     W 0 0 0 0 0 0 0 0,
     W 0 0 0 0 0 0 0 0,
     W 241 0 0 0 7 0 0 0,
     W 13 0 0 0 0 0 0 0,
     W 148 239 178 147 104 234 177 140,
     W 8 106 186 105 66 201 188 251,
     W 229 0 0 0 162 0 0 0,
     W 0 0 0 0 0 0 0 0,
     W 0 0 0 0 0 0 0 0,
     W 0 0 0 0 0 0 0 0,
     W 225 0 0 0 7 0 0 0,
     W 14 0 0 0 0 0 0 0,
     W 155 87 155 94 92 41 69 143,
     W 165 143 8 84 229 180 116 129,
     W 213 0 0 0 114 0 0 0,
     W 0 0 0 0 0 0 0 0,
     W 0 0 0 0 0 0 0 0,
     W 0 0 0 0 0 0 0 0,
     W 205 0 0 0 7 0 0 0,
     W 99 117 100 97 73 110 105 116,
     W 0 0 0 0 0 0 0 0,
     W 0 0 0 0 0 0 1 0,
     W 99 117 100 97 77 101 109 65,
     W 108 108 111 99 0 0 0 0,
     W 0 0 0 0 0 0 1 0,
     W 99 117 100 97 77 101 109 99,
     W 112 121 0 0 0 0 0 0,
     W 0 0 0 0 0 0 1 0,
     W 99 117 100 97 77 101 109 70,
     W 114 101 101 0 0 0 0 0,
     W 0 0 0 0 0 0 1 0,
     W 99 114 101 97 116 101 67 117,
     W 100 97 83 116 114 101 97 109,
     W 0 0 0 0 0 0 0 0,
     W 0 0 0 0 0 0 1 0,
     W 100 101 115 116 114 111 121 67,
     W 117 100 97 83 116 114 101 97,
     W 109 0 0 0 0 0 0 0,
     W 0 0 0 0 0 0 1 0,
     W 115 121 110 99 104 114 111 110,
     W 105 122 101 67 117 100 97 83,
     W 116 114 101 97 109 0 0 0,
     W 0 0 0 0 0 0 1 0,
     W 99 117 100 97 75 101 114 110,
     W 101 108 76 97 117 110 99 104,
     W 0 0 0 0 0 0 0 0,
     W 0 0 0 0 0 0 1 0,
     W 99 114 101 97 116 101 69 118,
     W 101 110 116 0 0 0 0 0,
     W 0 0 0 0 0 0 1 0,
     W 114 101 99 111 114 100 69 118,
     W 101 110 116 0 0 0 0 0,
     W 0 0 0 0 0 0 1 0,
     W 101 118 101 110 116 83 121 110,
     W 99 104 114 111 110 105 122 101,
     W 0 0 0 0 0 0 0 0,
     W 0 0 0 0 0 0 1 0,
     W 100 101 115 116 114 111 121 69,
     W 118 101 110 116 0 0 0 0,
     W 0 0 0 0 0 0 1 0,
     W 98 97 116 99 104 75 101 114,
     W 110 101 108 76 97 117 110 99,
     W 104 0 0 0 0 0 0 0,
     W 0 0 0 0 0 0 1 0,
     W 109 117 108 116 105 71 112 117,
     W 67 111 111 112 101 114 97 116,
     W 105 111 110 0 0 0 0 0,
     W 0 0 0 0 0 0 1 0,
     W 97 108 108 111 99 65 110 100,
     W 87 114 105 116 101 0 0 0,
     W 0 0 0 0 0 0 1 0,
     W 0 0 0 0 1 0 1 0]"

definition s_d909ac68956b8ff9 :: raw_schema where
  "s_d909ac68956b8ff9 = RawSchema 0xd909ac68956b8ff9 b_d909ac68956b8ff9 191
     [0x8174b4e554088fa5, 0x819d132e990c800d, 0x8aa89430a3b098a0, 0x8cb1ea6893b2ef94,
      0x8f45295c5e9b579b, 0x9541b3fbcfb24811, 0x9aa2f69630ae6c9c, 0x9edc1e0ed150e10c,
      0xa138b03743531536, 0xa494a6b17c5f502f, 0xa58d7df87cb5c3bf, 0xa70d1ce069208328,
      0xabebfa47b0d7fe3e, 0xb082d151f7e078f9, 0xb2cda054826996c4, 0xba5df2daeb81d2b3,
      0xbb7aac664da39365, 0xbc316a0441cc04ac, 0xbe2dd3871d6c54ce, 0xbf3a6b9bd266a840,
      0xc15f783825e674b3, 0xd0ffebd0326acdf9, 0xd7b620c1f6580289, 0xe5bc2a6e0f80ad6b,
      0xe9bfa3f610cdda88, 0xf05eef4dfede4f25, 0xf3e39f6d897fe9e6, 0xf5ccd1fa43e677e4,
      0xf8c19f0353a8733b, 0xfbbcc94269ba6a08]
     [14, 12, 4, 8, 0, 7, 1, 3, 2, 5, 11, 10, 13, 9, 6] 30 15
     []"

lemma b_d909ac68956b8ff9_node:
  "length b_d909ac68956b8ff9 = 191"
  "read_node b_d909ac68956b8ff9 = Some (0xd909ac68956b8ff9, InterfaceBody [
       ([99, 117, 100, 97, 73, 110, 105, 116], 0xba5df2daeb81d2b3, 0x9541b3fbcfb24811),
       ([99, 117, 100, 97, 77, 101, 109, 65, 108, 108, 111, 99], 0xbe2dd3871d6c54ce,
       0x9aa2f69630ae6c9c),
       ([99, 117, 100, 97, 77, 101, 109, 99, 112, 121], 0xbc316a0441cc04ac, 0xd7b620c1f6580289),
       ([99, 117, 100, 97, 77, 101, 109, 70, 114, 101, 101], 0xb2cda054826996c4, 0x9edc1e0ed150e10c),
       ([99, 114, 101, 97, 116, 101, 67, 117, 100, 97, 83, 116, 114, 101, 97, 109],
       0xe5bc2a6e0f80ad6b, 0xf5ccd1fa43e677e4),
       ([100, 101, 115, 116, 114, 111, 121, 67, 117, 100, 97, 83, 116, 114, 101, 97, 109],
       0xd0ffebd0326acdf9, 0xf05eef4dfede4f25),
       ([115, 121, 110, 99, 104, 114, 111, 110, 105, 122, 101, 67, 117, 100, 97, 83, 116, 114, 101,
       97, 109], 0xf8c19f0353a8733b, 0xf3e39f6d897fe9e6),
       ([99, 117, 100, 97, 75, 101, 114, 110, 101, 108, 76, 97, 117, 110, 99, 104],
       0xabebfa47b0d7fe3e, 0xbb7aac664da39365),
       ([99, 114, 101, 97, 116, 101, 69, 118, 101, 110, 116], 0xa494a6b17c5f502f,
       0xbf3a6b9bd266a840),
       ([114, 101, 99, 111, 114, 100, 69, 118, 101, 110, 116], 0xa138b03743531536,
       0xa70d1ce069208328),
       ([101, 118, 101, 110, 116, 83, 121, 110, 99, 104, 114, 111, 110, 105, 122, 101],
       0xb082d151f7e078f9, 0x8aa89430a3b098a0),
       ([100, 101, 115, 116, 114, 111, 121, 69, 118, 101, 110, 116], 0xe9bfa3f610cdda88,
       0x819d132e990c800d),
       ([98, 97, 116, 99, 104, 75, 101, 114, 110, 101, 108, 76, 97, 117, 110, 99, 104],
       0xa58d7df87cb5c3bf, 0xc15f783825e674b3),
       ([109, 117, 108, 116, 105, 71, 112, 117, 67, 111, 111, 112, 101, 114, 97, 116, 105, 111,
       110], 0x8cb1ea6893b2ef94, 0xfbbcc94269ba6a08),
       ([97, 108, 108, 111, 99, 65, 110, 100, 87, 114, 105, 116, 101], 0x8f45295c5e9b579b,
       0x8174b4e554088fa5)])"
  by (simp_all add: b_d909ac68956b8ff9_def read_table sfield_def cong: table_congs bind_head_cong)

lemma s_d909ac68956b8ff9_id: "schema_id s_d909ac68956b8ff9 = 0xd909ac68956b8ff9"
  by (simp add: s_d909ac68956b8ff9_def)

lemma s_d909ac68956b8ff9_ok: "schema_ok s_d909ac68956b8ff9"
  by (simp add: s_d909ac68956b8ff9_def b_d909ac68956b8ff9_node ordered_by_def sfield_def)

text \<open>\<open>CudaService.cudaInit$Params\<close>, a struct\<close>

definition b_ba5df2daeb81d2b3 :: table where
  "b_ba5df2daeb81d2b3 = [
     W 0 0 0 0 6 0 6 0,
     W 179 210 129 235 218 242 93 186,
     W 23 0 0 0 1 0 0 0,
     W 0 0 0 0 0 0 0 0,
     W 0 0 7 0 0 0 0 0,
     W 0 0 0 0 0 0 0 0,
     W 0 0 0 0 0 0 0 0,
     W 21 0 0 0 58 1 0 0,
     W 0 0 0 0 0 0 0 0,
     W 0 0 0 0 0 0 0 0,
     W 0 0 0 0 0 0 0 0,
     W 0 0 0 0 0 0 0 0,
     W 0 0 0 0 0 0 0 0,
     W 99 117 100 97 46 99 97 112,
     W 110 112 58 67 117 100 97 83,
     W 101 114 118 105 99 101 46 99,
     W 117 100 97 73 110 105 116 36,
     W 80 97 114 97 109 115 0 0]"

definition s_ba5df2daeb81d2b3 :: raw_schema where
  "s_ba5df2daeb81d2b3 = RawSchema 0xba5df2daeb81d2b3 b_ba5df2daeb81d2b3 18
     []
     [] 0 0
     []"

lemma b_ba5df2daeb81d2b3_node:
  "length b_ba5df2daeb81d2b3 = 18"
  "read_node b_ba5df2daeb81d2b3 = Some (0xba5df2daeb81d2b3, StructBody 0 0 None [])"
  by (simp_all add: b_ba5df2daeb81d2b3_def read_table sfield_def cong: table_congs bind_head_cong)

lemma s_ba5df2daeb81d2b3_id: "schema_id s_ba5df2daeb81d2b3 = 0xba5df2daeb81d2b3"
  by (simp add: s_ba5df2daeb81d2b3_def)

lemma s_ba5df2daeb81d2b3_ok: "schema_ok s_ba5df2daeb81d2b3"
  by (simp add: s_ba5df2daeb81d2b3_def b_ba5df2daeb81d2b3_node ordered_by_def sfield_def)

lemma s_ba5df2daeb81d2b3_layout: "layout_of s_ba5df2daeb81d2b3 = Some CudaService_CudaInitParams_layout"
  by (simp add: s_ba5df2daeb81d2b3_def b_ba5df2daeb81d2b3_node describe_table sfield_def struct_layout_def wireCuda_fields)

text \<open>\<open>CudaService.cudaInit$Results\<close>, a struct\<close>

definition b_9541b3fbcfb24811 :: table where
  "b_9541b3fbcfb24811 = [
     W 0 0 0 0 6 0 6 0,
     W 17 72 178 207 251 179 65 149,
     W 23 0 0 0 1 0 0 0,
     W 0 0 0 0 0 0 0 0,
     W 1 0 7 0 0 0 0 0,
     W 0 0 0 0 0 0 0 0,
     W 0 0 0 0 0 0 0 0,
     W 21 0 0 0 66 1 0 0,
     W 0 0 0 0 0 0 0 0,
     W 0 0 0 0 0 0 0 0,
     W 29 0 0 0 63 0 0 0,
     W 0 0 0 0 0 0 0 0,
     W 0 0 0 0 0 0 0 0,
     W 99 117 100 97 46 99 97 112,
     W 110 112 58 67 117 100 97 83,
     W 101 114 118 105 99 101 46 99,
     W 117 100 97 73 110 105 116 36,
     W 82 101 115 117 108 116 115 0,
     W 4 0 0 0 3 0 4 0,
     W 0 0 0 0 0 0 0 0,
     W 0 0 1 0 0 0 0 0,
     W 0 0 0 0 0 0 0 0,
     W 13 0 0 0 34 0 0 0,
     W 0 0 0 0 0 0 0 0,
     W 8 0 0 0 3 0 1 0,
     W 20 0 0 0 2 0 1 0,
     W 97 99 107 0 0 0 0 0,
     W 16 0 0 0 0 0 0 0,
     W 136 53 26 54 3 107 110 188,
     W 0 0 0 0 0 0 0 0,
     W 0 0 0 0 0 0 0 0,
     W 16 0 0 0 0 0 0 0,
     W 0 0 0 0 0 0 0 0,
     W 0 0 0 0 0 0 0 0]"

definition s_9541b3fbcfb24811 :: raw_schema where
  "s_9541b3fbcfb24811 = RawSchema 0x9541b3fbcfb24811 b_9541b3fbcfb24811 34
     [0xbc6e6b03361a3588]
     [0] 1 1
     [0]"

lemma b_9541b3fbcfb24811_node:
  "length b_9541b3fbcfb24811 = 34"
  "read_node b_9541b3fbcfb24811 = Some (0x9541b3fbcfb24811, StructBody 0 1 None [
       sfield [97, 99, 107] 65535 0 (Named 16 0xbc6e6b03361a3588) 16 0])"
  by (simp_all add: b_9541b3fbcfb24811_def read_table sfield_def cong: table_congs bind_head_cong)

lemma s_9541b3fbcfb24811_id: "schema_id s_9541b3fbcfb24811 = 0x9541b3fbcfb24811"
  by (simp add: s_9541b3fbcfb24811_def)

lemma s_9541b3fbcfb24811_ok: "schema_ok s_9541b3fbcfb24811"
  by (simp add: s_9541b3fbcfb24811_def b_9541b3fbcfb24811_node ordered_by_def sfield_def)

lemma s_9541b3fbcfb24811_layout: "layout_of s_9541b3fbcfb24811 = Some CudaService_CudaInitResults_layout"
  by (simp add: s_9541b3fbcfb24811_def b_9541b3fbcfb24811_node describe_table sfield_def struct_layout_def wireCuda_fields)

text \<open>\<open>CudaService.cudaMemAlloc$Params\<close>, a struct\<close>

definition b_be2dd3871d6c54ce :: table where
  "b_be2dd3871d6c54ce = [
     W 0 0 0 0 6 0 6 0,
     W 206 84 108 29 135 211 45 190,
     W 23 0 0 0 1 0 1 0,
     W 0 0 0 0 0 0 0 0,
     W 0 0 7 0 0 0 0 0,
     W 0 0 0 0 0 0 0 0,
     W 0 0 0 0 0 0 0 0,
     W 21 0 0 0 90 1 0 0,
     W 0 0 0 0 0 0 0 0,
     W 0 0 0 0 0 0 0 0,
     W 33 0 0 0 63 0 0 0,
     W 0 0 0 0 0 0 0 0,
     W 0 0 0 0 0 0 0 0,
     W 99 117 100 97 46 99 97 112,
     W 110 112 58 67 117 100 97 83,
     W 101 114 118 105 99 101 46 99,
     W 117 100 97 77 101 109 65 108,
     W 108 111 99 36 80 97 114 97,
     W 109 115 0 0 0 0 0 0,
     W 4 0 0 0 3 0 4 0,
     W 0 0 0 0 0 0 0 0,
     W 0 0 1 0 0 0 0 0,
     W 0 0 0 0 0 0 0 0,
     W 13 0 0 0 42 0 0 0,
     W 0 0 0 0 0 0 0 0,
     W 8 0 0 0 3 0 1 0,
     W 20 0 0 0 2 0 1 0,
     W 115 105 122 101 0 0 0 0,
     W 9 0 0 0 0 0 0 0,
     W 0 0 0 0 0 0 0 0,
     W 0 0 0 0 0 0 0 0,
     W 0 0 0 0 0 0 0 0,
     W 9 0 0 0 0 0 0 0,
     W 0 0 0 0 0 0 0 0,
     W 0 0 0 0 0 0 0 0]"

definition s_be2dd3871d6c54ce :: raw_schema where
  "s_be2dd3871d6c54ce = RawSchema 0xbe2dd3871d6c54ce b_be2dd3871d6c54ce 35
     []
     [0] 0 1
     [0]"

lemma b_be2dd3871d6c54ce_node:
  "length b_be2dd3871d6c54ce = 35"
  "read_node b_be2dd3871d6c54ce = Some (0xbe2dd3871d6c54ce, StructBody 1 0 None [
       sfield [115, 105, 122, 101] 65535 0 (Plain 9) 9 0])"
  by (simp_all add: b_be2dd3871d6c54ce_def read_table sfield_def cong: table_congs bind_head_cong)

lemma s_be2dd3871d6c54ce_id: "schema_id s_be2dd3871d6c54ce = 0xbe2dd3871d6c54ce"
  by (simp add: s_be2dd3871d6c54ce_def)

lemma s_be2dd3871d6c54ce_ok: "schema_ok s_be2dd3871d6c54ce"
  by (simp add: s_be2dd3871d6c54ce_def b_be2dd3871d6c54ce_node ordered_by_def sfield_def)

lemma s_be2dd3871d6c54ce_layout: "layout_of s_be2dd3871d6c54ce = Some CudaService_CudaMemAllocParams_layout"
  by (simp add: s_be2dd3871d6c54ce_def b_be2dd3871d6c54ce_node describe_table sfield_def struct_layout_def wireCuda_fields)

text \<open>\<open>CudaService.cudaMemAlloc$Results\<close>, a struct\<close>

definition b_9aa2f69630ae6c9c :: table where
  "b_9aa2f69630ae6c9c = [
     W 0 0 0 0 6 0 6 0,
     W 156 108 174 48 150 246 162 154,
     W 23 0 0 0 1 0 0 0,
     W 0 0 0 0 0 0 0 0,
     W 1 0 7 0 0 0 0 0,
     W 0 0 0 0 0 0 0 0,
     W 0 0 0 0 0 0 0 0,
     W 21 0 0 0 98 1 0 0,
     W 0 0 0 0 0 0 0 0,
     W 0 0 0 0 0 0 0 0,
     W 33 0 0 0 63 0 0 0,
     W 0 0 0 0 0 0 0 0,
     W 0 0 0 0 0 0 0 0,
     W 99 117 100 97 46 99 97 112,
     W 110 112 58 67 117 100 97 83,
     W 101 114 118 105 99 101 46 99,
     W 117 100 97 77 101 109 65 108,
     W 108 111 99 36 82 101 115 117,
     W 108 116 115 0 0 0 0 0,
     W 4 0 0 0 3 0 4 0,
     W 0 0 0 0 0 0 0 0,
     W 0 0 1 0 0 0 0 0,
     W 0 0 0 0 0 0 0 0,
     W 13 0 0 0 58 0 0 0,
     W 0 0 0 0 0 0 0 0,
     W 8 0 0 0 3 0 1 0,
     W 20 0 0 0 2 0 1 0,
     W 114 101 115 117 108 116 0 0,
     W 16 0 0 0 0 0 0 0,
     W 59 168 171 5 171 169 148 155,
     W 0 0 0 0 0 0 0 0,
     W 0 0 0 0 0 0 0 0,
     W 16 0 0 0 0 0 0 0,
     W 0 0 0 0 0 0 0 0,
     W 0 0 0 0 0 0 0 0]"

definition s_9aa2f69630ae6c9c :: raw_schema where
  "s_9aa2f69630ae6c9c = RawSchema 0x9aa2f69630ae6c9c b_9aa2f69630ae6c9c 35
     [0x9b94a9ab05aba83b]
     [0] 1 1
     [0]"

lemma b_9aa2f69630ae6c9c_node:
  "length b_9aa2f69630ae6c9c = 35"
  "read_node b_9aa2f69630ae6c9c = Some (0x9aa2f69630ae6c9c, StructBody 0 1 None [
       sfield [114, 101, 115, 117, 108, 116] 65535 0 (Named 16 0x9b94a9ab05aba83b) 16 0])"
  by (simp_all add: b_9aa2f69630ae6c9c_def read_table sfield_def cong: table_congs bind_head_cong)

lemma s_9aa2f69630ae6c9c_id: "schema_id s_9aa2f69630ae6c9c = 0x9aa2f69630ae6c9c"
  by (simp add: s_9aa2f69630ae6c9c_def)

lemma s_9aa2f69630ae6c9c_ok: "schema_ok s_9aa2f69630ae6c9c"
  by (simp add: s_9aa2f69630ae6c9c_def b_9aa2f69630ae6c9c_node ordered_by_def sfield_def)

lemma s_9aa2f69630ae6c9c_layout: "layout_of s_9aa2f69630ae6c9c = Some CudaService_CudaMemAllocResults_layout"
  by (simp add: s_9aa2f69630ae6c9c_def b_9aa2f69630ae6c9c_node describe_table sfield_def struct_layout_def wireCuda_fields)

text \<open>\<open>CudaService.cudaMemcpy$Params\<close>, a struct\<close>

definition b_bc316a0441cc04ac :: table where
  "b_bc316a0441cc04ac = [
     W 0 0 0 0 6 0 6 0,
     W 172 4 204 65 4 106 49 188,
     W 23 0 0 0 1 0 0 0,
     W 0 0 0 0 0 0 0 0,
     W 1 0 7 0 0 0 0 0,
     W 0 0 0 0 0 0 0 0,
     W 0 0 0 0 0 0 0 0,
     W 21 0 0 0 74 1 0 0,
     W 0 0 0 0 0 0 0 0,
     W 0 0 0 0 0 0 0 0,
     W 33 0 0 0 63 0 0 0,
     W 0 0 0 0 0 0 0 0,
     W 0 0 0 0 0 0 0 0,
     W 99 117 100 97 46 99 97 112,
     W 110 112 58 67 117 100 97 83,
     W 101 114 118 105 99 101 46 99,
     W 117 100 97 77 101 109 99 112,
     W 121 36 80 97 114 97 109 115,
     W 0 0 0 0 0 0 0 0,
     W 4 0 0 0 3 0 4 0,
     W 0 0 0 0 0 0 0 0,
     W 0 0 1 0 0 0 0 0,
     W 0 0 0 0 0 0 0 0,
     W 13 0 0 0 58 0 0 0,
     W 0 0 0 0 0 0 0 0,
     W 8 0 0 0 3 0 1 0,
     W 20 0 0 0 2 0 1 0,
     W 112 97 114 97 109 115 0 0,
     W 16 0 0 0 0 0 0 0,
     W 99 207 238 96 40 196 100 170,
     W 0 0 0 0 0 0 0 0,
     W 0 0 0 0 0 0 0 0,
     W 16 0 0 0 0 0 0 0,
     W 0 0 0 0 0 0 0 0,
     W 0 0 0 0 0 0 0 0]"

definition s_bc316a0441cc04ac :: raw_schema where
  "s_bc316a0441cc04ac = RawSchema 0xbc316a0441cc04ac b_bc316a0441cc04ac 35
     [0xaa64c42860eecf63]
     [0] 1 1
     [0]"

lemma b_bc316a0441cc04ac_node:
  "length b_bc316a0441cc04ac = 35"
  "read_node b_bc316a0441cc04ac = Some (0xbc316a0441cc04ac, StructBody 0 1 None [
       sfield [112, 97, 114, 97, 109, 115] 65535 0 (Named 16 0xaa64c42860eecf63) 16 0])"
  by (simp_all add: b_bc316a0441cc04ac_def read_table sfield_def cong: table_congs bind_head_cong)

lemma s_bc316a0441cc04ac_id: "schema_id s_bc316a0441cc04ac = 0xbc316a0441cc04ac"
  by (simp add: s_bc316a0441cc04ac_def)

lemma s_bc316a0441cc04ac_ok: "schema_ok s_bc316a0441cc04ac"
  by (simp add: s_bc316a0441cc04ac_def b_bc316a0441cc04ac_node ordered_by_def sfield_def)

lemma s_bc316a0441cc04ac_layout: "layout_of s_bc316a0441cc04ac = Some CudaService_CudaMemcpyParams_layout"
  by (simp add: s_bc316a0441cc04ac_def b_bc316a0441cc04ac_node describe_table sfield_def struct_layout_def wireCuda_fields)

text \<open>\<open>CudaService.cudaMemcpy$Results\<close>, a struct\<close>

definition b_d7b620c1f6580289 :: table where
  "b_d7b620c1f6580289 = [
     W 0 0 0 0 6 0 6 0,
     W 137 2 88 246 193 32 182 215,
     W 23 0 0 0 1 0 0 0,
     W 0 0 0 0 0 0 0 0,
     W 1 0 7 0 0 0 0 0,
     W 0 0 0 0 0 0 0 0,
     W 0 0 0 0 0 0 0 0,
     W 21 0 0 0 82 1 0 0,
     W 0 0 0 0 0 0 0 0,
     W 0 0 0 0 0 0 0 0,
     W 33 0 0 0 63 0 0 0,
     W 0 0 0 0 0 0 0 0,
     W 0 0 0 0 0 0 0 0,
     W 99 117 100 97 46 99 97 112,
     W 110 112 58 67 117 100 97 83,
     W 101 114 118 105 99 101 46 99,
     W 117 100 97 77 101 109 99 112,
     W 121 36 82 101 115 117 108 116,
     W 115 0 0 0 0 0 0 0,
     W 4 0 0 0 3 0 4 0,
     W 0 0 0 0 0 0 0 0,
     W 0 0 1 0 0 0 0 0,
     W 0 0 0 0 0 0 0 0,
     W 13 0 0 0 34 0 0 0,
     W 0 0 0 0 0 0 0 0,
     W 8 0 0 0 3 0 1 0,
     W 20 0 0 0 2 0 1 0,
     W 97 99 107 0 0 0 0 0,
     W 16 0 0 0 0 0 0 0,
     W 136 53 26 54 3 107 110 188,
     W 0 0 0 0 0 0 0 0,
     W 0 0 0 0 0 0 0 0,
     W 16 0 0 0 0 0 0 0,
     W 0 0 0 0 0 0 0 0,
     W 0 0 0 0 0 0 0 0]"

definition s_d7b620c1f6580289 :: raw_schema where
  "s_d7b620c1f6580289 = RawSchema 0xd7b620c1f6580289 b_d7b620c1f6580289 35
     [0xbc6e6b03361a3588]
     [0] 1 1
     [0]"

lemma b_d7b620c1f6580289_node:
  "length b_d7b620c1f6580289 = 35"
  "read_node b_d7b620c1f6580289 = Some (0xd7b620c1f6580289, StructBody 0 1 None [
       sfield [97, 99, 107] 65535 0 (Named 16 0xbc6e6b03361a3588) 16 0])"
  by (simp_all add: b_d7b620c1f6580289_def read_table sfield_def cong: table_congs bind_head_cong)

lemma s_d7b620c1f6580289_id: "schema_id s_d7b620c1f6580289 = 0xd7b620c1f6580289"
  by (simp add: s_d7b620c1f6580289_def)

lemma s_d7b620c1f6580289_ok: "schema_ok s_d7b620c1f6580289"
  by (simp add: s_d7b620c1f6580289_def b_d7b620c1f6580289_node ordered_by_def sfield_def)

lemma s_d7b620c1f6580289_layout: "layout_of s_d7b620c1f6580289 = Some CudaService_CudaMemcpyResults_layout"
  by (simp add: s_d7b620c1f6580289_def b_d7b620c1f6580289_node describe_table sfield_def struct_layout_def wireCuda_fields)

text \<open>\<open>CudaService.cudaMemFree$Params\<close>, a struct\<close>

definition b_b2cda054826996c4 :: table where
  "b_b2cda054826996c4 = [
     W 0 0 0 0 6 0 6 0,
     W 196 150 105 130 84 160 205 178,
     W 23 0 0 0 1 0 0 0,
     W 0 0 0 0 0 0 0 0,
     W 1 0 7 0 0 0 0 0,
     W 0 0 0 0 0 0 0 0,
     W 0 0 0 0 0 0 0 0,
     W 21 0 0 0 82 1 0 0,
     W 0 0 0 0 0 0 0 0,
     W 0 0 0 0 0 0 0 0,
     W 33 0 0 0 63 0 0 0,
     W 0 0 0 0 0 0 0 0,
     W 0 0 0 0 0 0 0 0,
     W 99 117 100 97 46 99 97 112,
     W 110 112 58 67 117 100 97 83,
     W 101 114 118 105 99 101 46 99,
     W 117 100 97 77 101 109 70 114,
     W 101 101 36 80 97 114 97 109,
     W 115 0 0 0 0 0 0 0,
     W 4 0 0 0 3 0 4 0,
     W 0 0 0 0 0 0 0 0,
     W 0 0 1 0 0 0 0 0,
     W 0 0 0 0 0 0 0 0,
     W 13 0 0 0 58 0 0 0,
     W 0 0 0 0 0 0 0 0,
     W 8 0 0 0 3 0 1 0,
     W 20 0 0 0 2 0 1 0,
     W 104 97 110 100 108 101 0 0,
     W 16 0 0 0 0 0 0 0,
     W 170 101 54 224 37 103 115 163,
     W 0 0 0 0 0 0 0 0,
     W 0 0 0 0 0 0 0 0,
     W 16 0 0 0 0 0 0 0,
     W 0 0 0 0 0 0 0 0,
     W 0 0 0 0 0 0 0 0]"

definition s_b2cda054826996c4 :: raw_schema where
  "s_b2cda054826996c4 = RawSchema 0xb2cda054826996c4 b_b2cda054826996c4 35
     [0xa3736725e03665aa]
     [0] 1 1
     [0]"

lemma b_b2cda054826996c4_node:
  "length b_b2cda054826996c4 = 35"
  "read_node b_b2cda054826996c4 = Some (0xb2cda054826996c4, StructBody 0 1 None [
       sfield [104, 97, 110, 100, 108, 101] 65535 0 (Named 16 0xa3736725e03665aa) 16 0])"
  by (simp_all add: b_b2cda054826996c4_def read_table sfield_def cong: table_congs bind_head_cong)

lemma s_b2cda054826996c4_id: "schema_id s_b2cda054826996c4 = 0xb2cda054826996c4"
  by (simp add: s_b2cda054826996c4_def)

lemma s_b2cda054826996c4_ok: "schema_ok s_b2cda054826996c4"
  by (simp add: s_b2cda054826996c4_def b_b2cda054826996c4_node ordered_by_def sfield_def)

lemma s_b2cda054826996c4_layout: "layout_of s_b2cda054826996c4 = Some CudaService_CudaMemFreeParams_layout"
  by (simp add: s_b2cda054826996c4_def b_b2cda054826996c4_node describe_table sfield_def struct_layout_def wireCuda_fields)

text \<open>\<open>CudaService.cudaMemFree$Results\<close>, a struct\<close>

definition b_9edc1e0ed150e10c :: table where
  "b_9edc1e0ed150e10c = [
     W 0 0 0 0 6 0 6 0,
     W 12 225 80 209 14 30 220 158,
     W 23 0 0 0 1 0 0 0,
     W 0 0 0 0 0 0 0 0,
     W 1 0 7 0 0 0 0 0,
     W 0 0 0 0 0 0 0 0,
     W 0 0 0 0 0 0 0 0,
     W 21 0 0 0 90 1 0 0,
     W 0 0 0 0 0 0 0 0,
     W 0 0 0 0 0 0 0 0,
     W 33 0 0 0 63 0 0 0,
     W 0 0 0 0 0 0 0 0,
     W 0 0 0 0 0 0 0 0,
     W 99 117 100 97 46 99 97 112,
     W 110 112 58 67 117 100 97 83,
     W 101 114 118 105 99 101 46 99,
     W 117 100 97 77 101 109 70 114,
     W 101 101 36 82 101 115 117 108,
     W 116 115 0 0 0 0 0 0,
     W 4 0 0 0 3 0 4 0,
     W 0 0 0 0 0 0 0 0,
     W 0 0 1 0 0 0 0 0,
     W 0 0 0 0 0 0 0 0,
     W 13 0 0 0 34 0 0 0,
     W 0 0 0 0 0 0 0 0,
     W 8 0 0 0 3 0 1 0,
     W 20 0 0 0 2 0 1 0,
     W 97 99 107 0 0 0 0 0,
     W 16 0 0 0 0 0 0 0,
     W 136 53 26 54 3 107 110 188,
     W 0 0 0 0 0 0 0 0,
     W 0 0 0 0 0 0 0 0,
     W 16 0 0 0 0 0 0 0,
     W 0 0 0 0 0 0 0 0,
     W 0 0 0 0 0 0 0 0]"

definition s_9edc1e0ed150e10c :: raw_schema where
  "s_9edc1e0ed150e10c = RawSchema 0x9edc1e0ed150e10c b_9edc1e0ed150e10c 35
     [0xbc6e6b03361a3588]
     [0] 1 1
     [0]"

lemma b_9edc1e0ed150e10c_node:
  "length b_9edc1e0ed150e10c = 35"
  "read_node b_9edc1e0ed150e10c = Some (0x9edc1e0ed150e10c, StructBody 0 1 None [
       sfield [97, 99, 107] 65535 0 (Named 16 0xbc6e6b03361a3588) 16 0])"
  by (simp_all add: b_9edc1e0ed150e10c_def read_table sfield_def cong: table_congs bind_head_cong)

lemma s_9edc1e0ed150e10c_id: "schema_id s_9edc1e0ed150e10c = 0x9edc1e0ed150e10c"
  by (simp add: s_9edc1e0ed150e10c_def)

lemma s_9edc1e0ed150e10c_ok: "schema_ok s_9edc1e0ed150e10c"
  by (simp add: s_9edc1e0ed150e10c_def b_9edc1e0ed150e10c_node ordered_by_def sfield_def)

lemma s_9edc1e0ed150e10c_layout: "layout_of s_9edc1e0ed150e10c = Some CudaService_CudaMemFreeResults_layout"
  by (simp add: s_9edc1e0ed150e10c_def b_9edc1e0ed150e10c_node describe_table sfield_def struct_layout_def wireCuda_fields)

text \<open>\<open>CudaService.createCudaStream$Params\<close>, a struct\<close>

definition b_e5bc2a6e0f80ad6b :: table where
  "b_e5bc2a6e0f80ad6b = [
     W 0 0 0 0 6 0 6 0,
     W 107 173 128 15 110 42 188 229,
     W 23 0 0 0 1 0 0 0,
     W 0 0 0 0 0 0 0 0,
     W 1 0 7 0 0 0 0 0,
     W 0 0 0 0 0 0 0 0,
     W 0 0 0 0 0 0 0 0,
     W 21 0 0 0 122 1 0 0,
     W 0 0 0 0 0 0 0 0,
     W 0 0 0 0 0 0 0 0,
     W 33 0 0 0 63 0 0 0,
     W 0 0 0 0 0 0 0 0,
     W 0 0 0 0 0 0 0 0,
     W 99 117 100 97 46 99 97 112,
     W 110 112 58 67 117 100 97 83,
     W 101 114 118 105 99 101 46 99,
     W 114 101 97 116 101 67 117 100,
     W 97 83 116 114 101 97 109 36,
     W 80 97 114 97 109 115 0 0,
     W 4 0 0 0 3 0 4 0,
     W 0 0 0 0 0 0 0 0,
     W 0 0 1 0 0 0 0 0,
     W 0 0 0 0 0 0 0 0,
     W 13 0 0 0 58 0 0 0,
     W 0 0 0 0 0 0 0 0,
     W 8 0 0 0 3 0 1 0,
     W 20 0 0 0 2 0 1 0,
     W 112 97 114 97 109 115 0 0,
     W 16 0 0 0 0 0 0 0,
     W 208 203 212 65 15 165 231 157,
     W 0 0 0 0 0 0 0 0,
     W 0 0 0 0 0 0 0 0,
     W 16 0 0 0 0 0 0 0,
     W 0 0 0 0 0 0 0 0,
     W 0 0 0 0 0 0 0 0]"

definition s_e5bc2a6e0f80ad6b :: raw_schema where
  "s_e5bc2a6e0f80ad6b = RawSchema 0xe5bc2a6e0f80ad6b b_e5bc2a6e0f80ad6b 35
     [0x9de7a50f41d4cbd0]
     [0] 1 1
     [0]"

lemma b_e5bc2a6e0f80ad6b_node:
  "length b_e5bc2a6e0f80ad6b = 35"
  "read_node b_e5bc2a6e0f80ad6b = Some (0xe5bc2a6e0f80ad6b, StructBody 0 1 None [
       sfield [112, 97, 114, 97, 109, 115] 65535 0 (Named 16 0x9de7a50f41d4cbd0) 16 0])"
  by (simp_all add: b_e5bc2a6e0f80ad6b_def read_table sfield_def cong: table_congs bind_head_cong)

lemma s_e5bc2a6e0f80ad6b_id: "schema_id s_e5bc2a6e0f80ad6b = 0xe5bc2a6e0f80ad6b"
  by (simp add: s_e5bc2a6e0f80ad6b_def)

lemma s_e5bc2a6e0f80ad6b_ok: "schema_ok s_e5bc2a6e0f80ad6b"
  by (simp add: s_e5bc2a6e0f80ad6b_def b_e5bc2a6e0f80ad6b_node ordered_by_def sfield_def)

lemma s_e5bc2a6e0f80ad6b_layout: "layout_of s_e5bc2a6e0f80ad6b = Some CudaService_CreateCudaStreamParams_layout"
  by (simp add: s_e5bc2a6e0f80ad6b_def b_e5bc2a6e0f80ad6b_node describe_table sfield_def struct_layout_def wireCuda_fields)

text \<open>\<open>CudaService.createCudaStream$Results\<close>, a struct\<close>

definition b_f5ccd1fa43e677e4 :: table where
  "b_f5ccd1fa43e677e4 = [
     W 0 0 0 0 6 0 6 0,
     W 228 119 230 67 250 209 204 245,
     W 23 0 0 0 1 0 0 0,
     W 0 0 0 0 0 0 0 0,
     W 1 0 7 0 0 0 0 0,
     W 0 0 0 0 0 0 0 0,
     W 0 0 0 0 0 0 0 0,
     W 21 0 0 0 130 1 0 0,
     W 0 0 0 0 0 0 0 0,
     W 0 0 0 0 0 0 0 0,
     W 33 0 0 0 63 0 0 0,
     W 0 0 0 0 0 0 0 0,
     W 0 0 0 0 0 0 0 0,
     W 99 117 100 97 46 99 97 112,
     W 110 112 58 67 117 100 97 83,
     W 101 114 118 105 99 101 46 99,
     W 114 101 97 116 101 67 117 100,
     W 97 83 116 114 101 97 109 36,
     W 82 101 115 117 108 116 115 0,
     W 4 0 0 0 3 0 4 0,
     W 0 0 0 0 0 0 0 0,
     W 0 0 1 0 0 0 0 0,
     W 0 0 0 0 0 0 0 0,
     W 13 0 0 0 58 0 0 0,
     W 0 0 0 0 0 0 0 0,
     W 8 0 0 0 3 0 1 0,
     W 20 0 0 0 2 0 1 0,
     W 104 97 110 100 108 101 0 0,
     W 16 0 0 0 0 0 0 0,
     W 83 236 80 111 197 10 181 221,
     W 0 0 0 0 0 0 0 0,
     W 0 0 0 0 0 0 0 0,
     W 16 0 0 0 0 0 0 0,
     W 0 0 0 0 0 0 0 0,
     W 0 0 0 0 0 0 0 0]"

definition s_f5ccd1fa43e677e4 :: raw_schema where
  "s_f5ccd1fa43e677e4 = RawSchema 0xf5ccd1fa43e677e4 b_f5ccd1fa43e677e4 35
     [0xddb50ac56f50ec53]
     [0] 1 1
     [0]"

lemma b_f5ccd1fa43e677e4_node:
  "length b_f5ccd1fa43e677e4 = 35"
  "read_node b_f5ccd1fa43e677e4 = Some (0xf5ccd1fa43e677e4, StructBody 0 1 None [
       sfield [104, 97, 110, 100, 108, 101] 65535 0 (Named 16 0xddb50ac56f50ec53) 16 0])"
  by (simp_all add: b_f5ccd1fa43e677e4_def read_table sfield_def cong: table_congs bind_head_cong)

lemma s_f5ccd1fa43e677e4_id: "schema_id s_f5ccd1fa43e677e4 = 0xf5ccd1fa43e677e4"
  by (simp add: s_f5ccd1fa43e677e4_def)

lemma s_f5ccd1fa43e677e4_ok: "schema_ok s_f5ccd1fa43e677e4"
  by (simp add: s_f5ccd1fa43e677e4_def b_f5ccd1fa43e677e4_node ordered_by_def sfield_def)

lemma s_f5ccd1fa43e677e4_layout: "layout_of s_f5ccd1fa43e677e4 = Some CudaService_CreateCudaStreamResults_layout"
  by (simp add: s_f5ccd1fa43e677e4_def b_f5ccd1fa43e677e4_node describe_table sfield_def struct_layout_def wireCuda_fields)

text \<open>\<open>CudaService.destroyCudaStream$Params\<close>, a struct\<close>

definition b_d0ffebd0326acdf9 :: table where
  "b_d0ffebd0326acdf9 = [
     W 0 0 0 0 6 0 6 0,
     W 249 205 106 50 208 235 255 208,
     W 23 0 0 0 1 0 0 0,
     W 0 0 0 0 0 0 0 0,
     W 1 0 7 0 0 0 0 0,
     W 0 0 0 0 0 0 0 0,
     W 0 0 0 0 0 0 0 0,
     W 21 0 0 0 130 1 0 0,
     W 0 0 0 0 0 0 0 0,
     W 0 0 0 0 0 0 0 0,
     W 33 0 0 0 63 0 0 0,
     W 0 0 0 0 0 0 0 0,
     W 0 0 0 0 0 0 0 0,
     W 99 117 100 97 46 99 97 112,
     W 110 112 58 67 117 100 97 83,
     W 101 114 118 105 99 101 46 100,
     W 101 115 116 114 111 121 67 117,
     W 100 97 83 116 114 101 97 109,
     W 36 80 97 114 97 109 115 0,
     W 4 0 0 0 3 0 4 0,
     W 0 0 0 0 0 0 0 0,
     W 0 0 1 0 0 0 0 0,
     W 0 0 0 0 0 0 0 0,
     W 13 0 0 0 58 0 0 0,
     W 0 0 0 0 0 0 0 0,
     W 8 0 0 0 3 0 1 0,
     W 20 0 0 0 2 0 1 0,
     W 104 97 110 100 108 101 0 0,
     W 16 0 0 0 0 0 0 0,
     W 83 236 80 111 197 10 181 221,
     W 0 0 0 0 0 0 0 0,
     W 0 0 0 0 0 0 0 0,
     W 16 0 0 0 0 0 0 0,
     W 0 0 0 0 0 0 0 0,
     W 0 0 0 0 0 0 0 0]"

definition s_d0ffebd0326acdf9 :: raw_schema where
  "s_d0ffebd0326acdf9 = RawSchema 0xd0ffebd0326acdf9 b_d0ffebd0326acdf9 35
     [0xddb50ac56f50ec53]
     [0] 1 1
     [0]"

lemma b_d0ffebd0326acdf9_node:
  "length b_d0ffebd0326acdf9 = 35"
  "read_node b_d0ffebd0326acdf9 = Some (0xd0ffebd0326acdf9, StructBody 0 1 None [
       sfield [104, 97, 110, 100, 108, 101] 65535 0 (Named 16 0xddb50ac56f50ec53) 16 0])"
  by (simp_all add: b_d0ffebd0326acdf9_def read_table sfield_def cong: table_congs bind_head_cong)

lemma s_d0ffebd0326acdf9_id: "schema_id s_d0ffebd0326acdf9 = 0xd0ffebd0326acdf9"
  by (simp add: s_d0ffebd0326acdf9_def)

lemma s_d0ffebd0326acdf9_ok: "schema_ok s_d0ffebd0326acdf9"
  by (simp add: s_d0ffebd0326acdf9_def b_d0ffebd0326acdf9_node ordered_by_def sfield_def)

lemma s_d0ffebd0326acdf9_layout: "layout_of s_d0ffebd0326acdf9 = Some CudaService_DestroyCudaStreamParams_layout"
  by (simp add: s_d0ffebd0326acdf9_def b_d0ffebd0326acdf9_node describe_table sfield_def struct_layout_def wireCuda_fields)

text \<open>\<open>CudaService.destroyCudaStream$Results\<close>, a struct\<close>

definition b_f05eef4dfede4f25 :: table where
  "b_f05eef4dfede4f25 = [
     W 0 0 0 0 6 0 6 0,
     W 37 79 222 254 77 239 94 240,
     W 23 0 0 0 1 0 0 0,
     W 0 0 0 0 0 0 0 0,
     W 1 0 7 0 0 0 0 0,
     W 0 0 0 0 0 0 0 0,
     W 0 0 0 0 0 0 0 0,
     W 21 0 0 0 138 1 0 0,
     W 0 0 0 0 0 0 0 0,
     W 0 0 0 0 0 0 0 0,
     W 37 0 0 0 63 0 0 0,
     W 0 0 0 0 0 0 0 0,
     W 0 0 0 0 0 0 0 0,
     W 99 117 100 97 46 99 97 112,
     W 110 112 58 67 117 100 97 83,
     W 101 114 118 105 99 101 46 100,
     W 101 115 116 114 111 121 67 117,
     W 100 97 83 116 114 101 97 109,
     W 36 82 101 115 117 108 116 115,
     W 0 0 0 0 0 0 0 0,
     W 4 0 0 0 3 0 4 0,
     W 0 0 0 0 0 0 0 0,
     W 0 0 1 0 0 0 0 0,
     W 0 0 0 0 0 0 0 0,
     W 13 0 0 0 34 0 0 0,
     W 0 0 0 0 0 0 0 0,
     W 8 0 0 0 3 0 1 0,
     W 20 0 0 0 2 0 1 0,
     W 97 99 107 0 0 0 0 0,
     W 16 0 0 0 0 0 0 0,
     W 136 53 26 54 3 107 110 188,
     W 0 0 0 0 0 0 0 0,
     W 0 0 0 0 0 0 0 0,
     W 16 0 0 0 0 0 0 0,
     W 0 0 0 0 0 0 0 0,
     W 0 0 0 0 0 0 0 0]"

definition s_f05eef4dfede4f25 :: raw_schema where
  "s_f05eef4dfede4f25 = RawSchema 0xf05eef4dfede4f25 b_f05eef4dfede4f25 36
     [0xbc6e6b03361a3588]
     [0] 1 1
     [0]"

lemma b_f05eef4dfede4f25_node:
  "length b_f05eef4dfede4f25 = 36"
  "read_node b_f05eef4dfede4f25 = Some (0xf05eef4dfede4f25, StructBody 0 1 None [
       sfield [97, 99, 107] 65535 0 (Named 16 0xbc6e6b03361a3588) 16 0])"
  by (simp_all add: b_f05eef4dfede4f25_def read_table sfield_def cong: table_congs bind_head_cong)

lemma s_f05eef4dfede4f25_id: "schema_id s_f05eef4dfede4f25 = 0xf05eef4dfede4f25"
  by (simp add: s_f05eef4dfede4f25_def)

lemma s_f05eef4dfede4f25_ok: "schema_ok s_f05eef4dfede4f25"
  by (simp add: s_f05eef4dfede4f25_def b_f05eef4dfede4f25_node ordered_by_def sfield_def)

lemma s_f05eef4dfede4f25_layout: "layout_of s_f05eef4dfede4f25 = Some CudaService_DestroyCudaStreamResults_layout"
  by (simp add: s_f05eef4dfede4f25_def b_f05eef4dfede4f25_node describe_table sfield_def struct_layout_def wireCuda_fields)

text \<open>\<open>CudaService.synchronizeCudaStream$Params\<close>, a struct\<close>

definition b_f8c19f0353a8733b :: table where
  "b_f8c19f0353a8733b = [
     W 0 0 0 0 6 0 6 0,
     W 59 115 168 83 3 159 193 248,
     W 23 0 0 0 1 0 0 0,
     W 0 0 0 0 0 0 0 0,
     W 1 0 7 0 0 0 0 0,
     W 0 0 0 0 0 0 0 0,
     W 0 0 0 0 0 0 0 0,
     W 21 0 0 0 162 1 0 0,
     W 0 0 0 0 0 0 0 0,
     W 0 0 0 0 0 0 0 0,
     W 37 0 0 0 63 0 0 0,
     W 0 0 0 0 0 0 0 0,
     W 0 0 0 0 0 0 0 0,
     W 99 117 100 97 46 99 97 112,
     W 110 112 58 67 117 100 97 83,
     W 101 114 118 105 99 101 46 115,
     W 121 110 99 104 114 111 110 105,
     W 122 101 67 117 100 97 83 116,
     W 114 101 97 109 36 80 97 114,
     W 97 109 115 0 0 0 0 0,
     W 4 0 0 0 3 0 4 0,
     W 0 0 0 0 0 0 0 0,
     W 0 0 1 0 0 0 0 0,
     W 0 0 0 0 0 0 0 0,
     W 13 0 0 0 58 0 0 0,
     W 0 0 0 0 0 0 0 0,
     W 8 0 0 0 3 0 1 0,
     W 20 0 0 0 2 0 1 0,
     W 104 97 110 100 108 101 0 0,
     W 16 0 0 0 0 0 0 0,
     W 83 236 80 111 197 10 181 221,
     W 0 0 0 0 0 0 0 0,
     W 0 0 0 0 0 0 0 0,
     W 16 0 0 0 0 0 0 0,
     W 0 0 0 0 0 0 0 0,
     W 0 0 0 0 0 0 0 0]"

definition s_f8c19f0353a8733b :: raw_schema where
  "s_f8c19f0353a8733b = RawSchema 0xf8c19f0353a8733b b_f8c19f0353a8733b 36
     [0xddb50ac56f50ec53]
     [0] 1 1
     [0]"

lemma b_f8c19f0353a8733b_node:
  "length b_f8c19f0353a8733b = 36"
  "read_node b_f8c19f0353a8733b = Some (0xf8c19f0353a8733b, StructBody 0 1 None [
       sfield [104, 97, 110, 100, 108, 101] 65535 0 (Named 16 0xddb50ac56f50ec53) 16 0])"
  by (simp_all add: b_f8c19f0353a8733b_def read_table sfield_def cong: table_congs bind_head_cong)

lemma s_f8c19f0353a8733b_id: "schema_id s_f8c19f0353a8733b = 0xf8c19f0353a8733b"
  by (simp add: s_f8c19f0353a8733b_def)

lemma s_f8c19f0353a8733b_ok: "schema_ok s_f8c19f0353a8733b"
  by (simp add: s_f8c19f0353a8733b_def b_f8c19f0353a8733b_node ordered_by_def sfield_def)

lemma s_f8c19f0353a8733b_layout: "layout_of s_f8c19f0353a8733b = Some CudaService_SynchronizeCudaStreamParams_layout"
  by (simp add: s_f8c19f0353a8733b_def b_f8c19f0353a8733b_node describe_table sfield_def struct_layout_def wireCuda_fields)

text \<open>\<open>CudaService.synchronizeCudaStream$Results\<close>, a struct\<close>

definition b_f3e39f6d897fe9e6 :: table where
  "b_f3e39f6d897fe9e6 = [
     W 0 0 0 0 6 0 6 0,
     W 230 233 127 137 109 159 227 243,
     W 23 0 0 0 1 0 0 0,
     W 0 0 0 0 0 0 0 0,
     W 1 0 7 0 0 0 0 0,
     W 0 0 0 0 0 0 0 0,
     W 0 0 0 0 0 0 0 0,
     W 21 0 0 0 170 1 0 0,
     W 0 0 0 0 0 0 0 0,
     W 0 0 0 0 0 0 0 0,
     W 37 0 0 0 63 0 0 0,
     W 0 0 0 0 0 0 0 0,
     W 0 0 0 0 0 0 0 0,
     W 99 117 100 97 46 99 97 112,
     W 110 112 58 67 117 100 97 83,
     W 101 114 118 105 99 101 46 115,
     W 121 110 99 104 114 111 110 105,
     W 122 101 67 117 100 97 83 116,
     W 114 101 97 109 36 82 101 115,
     W 117 108 116 115 0 0 0 0,
     W 4 0 0 0 3 0 4 0,
     W 0 0 0 0 0 0 0 0,
     W 0 0 1 0 0 0 0 0,
     W 0 0 0 0 0 0 0 0,
     W 13 0 0 0 34 0 0 0,
     W 0 0 0 0 0 0 0 0,
     W 8 0 0 0 3 0 1 0,
     W 20 0 0 0 2 0 1 0,
     W 97 99 107 0 0 0 0 0,
     W 16 0 0 0 0 0 0 0,
     W 136 53 26 54 3 107 110 188,
     W 0 0 0 0 0 0 0 0,
     W 0 0 0 0 0 0 0 0,
     W 16 0 0 0 0 0 0 0,
     W 0 0 0 0 0 0 0 0,
     W 0 0 0 0 0 0 0 0]"

definition s_f3e39f6d897fe9e6 :: raw_schema where
  "s_f3e39f6d897fe9e6 = RawSchema 0xf3e39f6d897fe9e6 b_f3e39f6d897fe9e6 36
     [0xbc6e6b03361a3588]
     [0] 1 1
     [0]"

lemma b_f3e39f6d897fe9e6_node:
  "length b_f3e39f6d897fe9e6 = 36"
  "read_node b_f3e39f6d897fe9e6 = Some (0xf3e39f6d897fe9e6, StructBody 0 1 None [
       sfield [97, 99, 107] 65535 0 (Named 16 0xbc6e6b03361a3588) 16 0])"
  by (simp_all add: b_f3e39f6d897fe9e6_def read_table sfield_def cong: table_congs bind_head_cong)

lemma s_f3e39f6d897fe9e6_id: "schema_id s_f3e39f6d897fe9e6 = 0xf3e39f6d897fe9e6"
  by (simp add: s_f3e39f6d897fe9e6_def)

lemma s_f3e39f6d897fe9e6_ok: "schema_ok s_f3e39f6d897fe9e6"
  by (simp add: s_f3e39f6d897fe9e6_def b_f3e39f6d897fe9e6_node ordered_by_def sfield_def)

lemma s_f3e39f6d897fe9e6_layout: "layout_of s_f3e39f6d897fe9e6 = Some CudaService_SynchronizeCudaStreamResults_layout"
  by (simp add: s_f3e39f6d897fe9e6_def b_f3e39f6d897fe9e6_node describe_table sfield_def struct_layout_def wireCuda_fields)

text \<open>\<open>CudaService.cudaKernelLaunch$Params\<close>, a struct\<close>

definition b_abebfa47b0d7fe3e :: table where
  "b_abebfa47b0d7fe3e = [
     W 0 0 0 0 6 0 6 0,
     W 62 254 215 176 71 250 235 171,
     W 23 0 0 0 1 0 0 0,
     W 0 0 0 0 0 0 0 0,
     W 1 0 7 0 0 0 0 0,
     W 0 0 0 0 0 0 0 0,
     W 0 0 0 0 0 0 0 0,
     W 21 0 0 0 122 1 0 0,
     W 0 0 0 0 0 0 0 0,
     W 0 0 0 0 0 0 0 0,
     W 33 0 0 0 63 0 0 0,
     W 0 0 0 0 0 0 0 0,
     W 0 0 0 0 0 0 0 0,
     W 99 117 100 97 46 99 97 112,
     W 110 112 58 67 117 100 97 83,
     W 101 114 118 105 99 101 46 99,
     W 117 100 97 75 101 114 110 101,
     W 108 76 97 117 110 99 104 36,
     W 80 97 114 97 109 115 0 0,
     W 4 0 0 0 3 0 4 0,
     W 0 0 0 0 0 0 0 0,
     W 0 0 1 0 0 0 0 0,
     W 0 0 0 0 0 0 0 0,
     W 13 0 0 0 66 0 0 0,
     W 0 0 0 0 0 0 0 0,
     W 8 0 0 0 3 0 1 0,
     W 20 0 0 0 2 0 1 0,
     W 114 101 113 117 101 115 116 0,
     W 16 0 0 0 0 0 0 0,
     W 106 91 3 148 204 134 95 231,
     W 0 0 0 0 0 0 0 0,
     W 0 0 0 0 0 0 0 0,
     W 16 0 0 0 0 0 0 0,
     W 0 0 0 0 0 0 0 0,
     W 0 0 0 0 0 0 0 0]"

definition s_abebfa47b0d7fe3e :: raw_schema where
  "s_abebfa47b0d7fe3e = RawSchema 0xabebfa47b0d7fe3e b_abebfa47b0d7fe3e 35
     [0xe75f86cc94035b6a]
     [0] 1 1
     [0]"

lemma b_abebfa47b0d7fe3e_node:
  "length b_abebfa47b0d7fe3e = 35"
  "read_node b_abebfa47b0d7fe3e = Some (0xabebfa47b0d7fe3e, StructBody 0 1 None [
       sfield [114, 101, 113, 117, 101, 115, 116] 65535 0 (Named 16 0xe75f86cc94035b6a) 16 0])"
  by (simp_all add: b_abebfa47b0d7fe3e_def read_table sfield_def cong: table_congs bind_head_cong)

lemma s_abebfa47b0d7fe3e_id: "schema_id s_abebfa47b0d7fe3e = 0xabebfa47b0d7fe3e"
  by (simp add: s_abebfa47b0d7fe3e_def)

lemma s_abebfa47b0d7fe3e_ok: "schema_ok s_abebfa47b0d7fe3e"
  by (simp add: s_abebfa47b0d7fe3e_def b_abebfa47b0d7fe3e_node ordered_by_def sfield_def)

lemma s_abebfa47b0d7fe3e_layout: "layout_of s_abebfa47b0d7fe3e = Some CudaService_CudaKernelLaunchParams_layout"
  by (simp add: s_abebfa47b0d7fe3e_def b_abebfa47b0d7fe3e_node describe_table sfield_def struct_layout_def wireCuda_fields)

text \<open>\<open>CudaService.cudaKernelLaunch$Results\<close>, a struct\<close>

definition b_bb7aac664da39365 :: table where
  "b_bb7aac664da39365 = [
     W 0 0 0 0 6 0 6 0,
     W 101 147 163 77 102 172 122 187,
     W 23 0 0 0 1 0 0 0,
     W 0 0 0 0 0 0 0 0,
     W 1 0 7 0 0 0 0 0,
     W 0 0 0 0 0 0 0 0,
     W 0 0 0 0 0 0 0 0,
     W 21 0 0 0 130 1 0 0,
     W 0 0 0 0 0 0 0 0,
     W 0 0 0 0 0 0 0 0,
     W 33 0 0 0 63 0 0 0,
     W 0 0 0 0 0 0 0 0,
     W 0 0 0 0 0 0 0 0,
     W 99 117 100 97 46 99 97 112,
     W 110 112 58 67 117 100 97 83,
     W 101 114 118 105 99 101 46 99,
     W 117 100 97 75 101 114 110 101,
     W 108 76 97 117 110 99 104 36,
     W 82 101 115 117 108 116 115 0,
     W 4 0 0 0 3 0 4 0,
     W 0 0 0 0 0 0 0 0,
     W 0 0 1 0 0 0 0 0,
     W 0 0 0 0 0 0 0 0,
     W 13 0 0 0 34 0 0 0,
     W 0 0 0 0 0 0 0 0,
     W 8 0 0 0 3 0 1 0,
     W 20 0 0 0 2 0 1 0,
     W 97 99 107 0 0 0 0 0,
     W 16 0 0 0 0 0 0 0,
     W 136 53 26 54 3 107 110 188,
     W 0 0 0 0 0 0 0 0,
     W 0 0 0 0 0 0 0 0,
     W 16 0 0 0 0 0 0 0,
     W 0 0 0 0 0 0 0 0,
     W 0 0 0 0 0 0 0 0]"

definition s_bb7aac664da39365 :: raw_schema where
  "s_bb7aac664da39365 = RawSchema 0xbb7aac664da39365 b_bb7aac664da39365 35
     [0xbc6e6b03361a3588]
     [0] 1 1
     [0]"

lemma b_bb7aac664da39365_node:
  "length b_bb7aac664da39365 = 35"
  "read_node b_bb7aac664da39365 = Some (0xbb7aac664da39365, StructBody 0 1 None [
       sfield [97, 99, 107] 65535 0 (Named 16 0xbc6e6b03361a3588) 16 0])"
  by (simp_all add: b_bb7aac664da39365_def read_table sfield_def cong: table_congs bind_head_cong)

lemma s_bb7aac664da39365_id: "schema_id s_bb7aac664da39365 = 0xbb7aac664da39365"
  by (simp add: s_bb7aac664da39365_def)

lemma s_bb7aac664da39365_ok: "schema_ok s_bb7aac664da39365"
  by (simp add: s_bb7aac664da39365_def b_bb7aac664da39365_node ordered_by_def sfield_def)

lemma s_bb7aac664da39365_layout: "layout_of s_bb7aac664da39365 = Some CudaService_CudaKernelLaunchResults_layout"
  by (simp add: s_bb7aac664da39365_def b_bb7aac664da39365_node describe_table sfield_def struct_layout_def wireCuda_fields)

text \<open>\<open>CudaService.createEvent$Params\<close>, a struct\<close>

definition b_a494a6b17c5f502f :: table where
  "b_a494a6b17c5f502f = [
     W 0 0 0 0 6 0 6 0,
     W 47 80 95 124 177 166 148 164,
     W 23 0 0 0 1 0 0 0,
     W 0 0 0 0 0 0 0 0,
     W 1 0 7 0 0 0 0 0,
     W 0 0 0 0 0 0 0 0,
     W 0 0 0 0 0 0 0 0,
     W 21 0 0 0 82 1 0 0,
     W 0 0 0 0 0 0 0 0,
     W 0 0 0 0 0 0 0 0,
     W 33 0 0 0 63 0 0 0,
     W 0 0 0 0 0 0 0 0,
     W 0 0 0 0 0 0 0 0,
     W 99 117 100 97 46 99 97 112,
     W 110 112 58 67 117 100 97 83,
     W 101 114 118 105 99 101 46 99,
     W 114 101 97 116 101 69 118 101,
     W 110 116 36 80 97 114 97 109,
     W 115 0 0 0 0 0 0 0,
     W 4 0 0 0 3 0 4 0,
     W 0 0 0 0 0 0 0 0,
     W 0 0 1 0 0 0 0 0,
     W 0 0 0 0 0 0 0 0,
     W 13 0 0 0 58 0 0 0,
     W 0 0 0 0 0 0 0 0,
     W 8 0 0 0 3 0 1 0,
     W 20 0 0 0 2 0 1 0,
     W 112 97 114 97 109 115 0 0,
     W 16 0 0 0 0 0 0 0,
     W 224 119 130 202 8 34 20 160,
     W 0 0 0 0 0 0 0 0,
     W 0 0 0 0 0 0 0 0,
     W 16 0 0 0 0 0 0 0,
     W 0 0 0 0 0 0 0 0,
     W 0 0 0 0 0 0 0 0]"

definition s_a494a6b17c5f502f :: raw_schema where
  "s_a494a6b17c5f502f = RawSchema 0xa494a6b17c5f502f b_a494a6b17c5f502f 35
     [0xa0142208ca8277e0]
     [0] 1 1
     [0]"

lemma b_a494a6b17c5f502f_node:
  "length b_a494a6b17c5f502f = 35"
  "read_node b_a494a6b17c5f502f = Some (0xa494a6b17c5f502f, StructBody 0 1 None [
       sfield [112, 97, 114, 97, 109, 115] 65535 0 (Named 16 0xa0142208ca8277e0) 16 0])"
  by (simp_all add: b_a494a6b17c5f502f_def read_table sfield_def cong: table_congs bind_head_cong)

lemma s_a494a6b17c5f502f_id: "schema_id s_a494a6b17c5f502f = 0xa494a6b17c5f502f"
  by (simp add: s_a494a6b17c5f502f_def)

lemma s_a494a6b17c5f502f_ok: "schema_ok s_a494a6b17c5f502f"
  by (simp add: s_a494a6b17c5f502f_def b_a494a6b17c5f502f_node ordered_by_def sfield_def)

lemma s_a494a6b17c5f502f_layout: "layout_of s_a494a6b17c5f502f = Some CudaService_CreateEventParams_layout"
  by (simp add: s_a494a6b17c5f502f_def b_a494a6b17c5f502f_node describe_table sfield_def struct_layout_def wireCuda_fields)

text \<open>\<open>CudaService.createEvent$Results\<close>, a struct\<close>

definition b_bf3a6b9bd266a840 :: table where
  "b_bf3a6b9bd266a840 = [
     W 0 0 0 0 6 0 6 0,
     W 64 168 102 210 155 107 58 191,
     W 23 0 0 0 1 0 0 0,
     W 0 0 0 0 0 0 0 0,
     W 1 0 7 0 0 0 0 0,
     W 0 0 0 0 0 0 0 0,
     W 0 0 0 0 0 0 0 0,
     W 21 0 0 0 90 1 0 0,
     W 0 0 0 0 0 0 0 0,
     W 0 0 0 0 0 0 0 0,
     W 33 0 0 0 63 0 0 0,
     W 0 0 0 0 0 0 0 0,
     W 0 0 0 0 0 0 0 0,
     W 99 117 100 97 46 99 97 112,
     W 110 112 58 67 117 100 97 83,
     W 101 114 118 105 99 101 46 99,
     W 114 101 97 116 101 69 118 101,
     W 110 116 36 82 101 115 117 108,
     W 116 115 0 0 0 0 0 0,
     W 4 0 0 0 3 0 4 0,
     W 0 0 0 0 0 0 0 0,
     W 0 0 1 0 0 0 0 0,
     W 0 0 0 0 0 0 0 0,
     W 13 0 0 0 58 0 0 0,
     W 0 0 0 0 0 0 0 0,
     W 8 0 0 0 3 0 1 0,
     W 20 0 0 0 2 0 1 0,
     W 104 97 110 100 108 101 0 0,
     W 16 0 0 0 0 0 0 0,
     W 101 203 31 13 251 21 188 146,
     W 0 0 0 0 0 0 0 0,
     W 0 0 0 0 0 0 0 0,
     W 16 0 0 0 0 0 0 0,
     W 0 0 0 0 0 0 0 0,
     W 0 0 0 0 0 0 0 0]"

definition s_bf3a6b9bd266a840 :: raw_schema where
  "s_bf3a6b9bd266a840 = RawSchema 0xbf3a6b9bd266a840 b_bf3a6b9bd266a840 35
     [0x92bc15fb0d1fcb65]
     [0] 1 1
     [0]"

lemma b_bf3a6b9bd266a840_node:
  "length b_bf3a6b9bd266a840 = 35"
  "read_node b_bf3a6b9bd266a840 = Some (0xbf3a6b9bd266a840, StructBody 0 1 None [
       sfield [104, 97, 110, 100, 108, 101] 65535 0 (Named 16 0x92bc15fb0d1fcb65) 16 0])"
  by (simp_all add: b_bf3a6b9bd266a840_def read_table sfield_def cong: table_congs bind_head_cong)

lemma s_bf3a6b9bd266a840_id: "schema_id s_bf3a6b9bd266a840 = 0xbf3a6b9bd266a840"
  by (simp add: s_bf3a6b9bd266a840_def)

lemma s_bf3a6b9bd266a840_ok: "schema_ok s_bf3a6b9bd266a840"
  by (simp add: s_bf3a6b9bd266a840_def b_bf3a6b9bd266a840_node ordered_by_def sfield_def)

lemma s_bf3a6b9bd266a840_layout: "layout_of s_bf3a6b9bd266a840 = Some CudaService_CreateEventResults_layout"
  by (simp add: s_bf3a6b9bd266a840_def b_bf3a6b9bd266a840_node describe_table sfield_def struct_layout_def wireCuda_fields)

text \<open>\<open>CudaService.recordEvent$Params\<close>, a struct\<close>

definition b_a138b03743531536 :: table where
  "b_a138b03743531536 = [
     W 0 0 0 0 6 0 6 0,
     W 54 21 83 67 55 176 56 161,
     W 23 0 0 0 1 0 0 0,
     W 0 0 0 0 0 0 0 0,
     W 1 0 7 0 0 0 0 0,
     W 0 0 0 0 0 0 0 0,
     W 0 0 0 0 0 0 0 0,
     W 21 0 0 0 82 1 0 0,
     W 0 0 0 0 0 0 0 0,
     W 0 0 0 0 0 0 0 0,
     W 33 0 0 0 63 0 0 0,
     W 0 0 0 0 0 0 0 0,
     W 0 0 0 0 0 0 0 0,
     W 99 117 100 97 46 99 97 112,
     W 110 112 58 67 117 100 97 83,
     W 101 114 118 105 99 101 46 114,
     W 101 99 111 114 100 69 118 101,
     W 110 116 36 80 97 114 97 109,
     W 115 0 0 0 0 0 0 0,
     W 4 0 0 0 3 0 4 0,
     W 0 0 0 0 0 0 0 0,
     W 0 0 1 0 0 0 0 0,
     W 0 0 0 0 0 0 0 0,
     W 13 0 0 0 58 0 0 0,
     W 0 0 0 0 0 0 0 0,
     W 8 0 0 0 3 0 1 0,
     W 20 0 0 0 2 0 1 0,
     W 104 97 110 100 108 101 0 0,
     W 16 0 0 0 0 0 0 0,
     W 101 203 31 13 251 21 188 146,
     W 0 0 0 0 0 0 0 0,
     W 0 0 0 0 0 0 0 0,
     W 16 0 0 0 0 0 0 0,
     W 0 0 0 0 0 0 0 0,
     W 0 0 0 0 0 0 0 0]"

definition s_a138b03743531536 :: raw_schema where
  "s_a138b03743531536 = RawSchema 0xa138b03743531536 b_a138b03743531536 35
     [0x92bc15fb0d1fcb65]
     [0] 1 1
     [0]"

lemma b_a138b03743531536_node:
  "length b_a138b03743531536 = 35"
  "read_node b_a138b03743531536 = Some (0xa138b03743531536, StructBody 0 1 None [
       sfield [104, 97, 110, 100, 108, 101] 65535 0 (Named 16 0x92bc15fb0d1fcb65) 16 0])"
  by (simp_all add: b_a138b03743531536_def read_table sfield_def cong: table_congs bind_head_cong)

lemma s_a138b03743531536_id: "schema_id s_a138b03743531536 = 0xa138b03743531536"
  by (simp add: s_a138b03743531536_def)

lemma s_a138b03743531536_ok: "schema_ok s_a138b03743531536"
  by (simp add: s_a138b03743531536_def b_a138b03743531536_node ordered_by_def sfield_def)

lemma s_a138b03743531536_layout: "layout_of s_a138b03743531536 = Some CudaService_RecordEventParams_layout"
  by (simp add: s_a138b03743531536_def b_a138b03743531536_node describe_table sfield_def struct_layout_def wireCuda_fields)

text \<open>\<open>CudaService.recordEvent$Results\<close>, a struct\<close>

definition b_a70d1ce069208328 :: table where
  "b_a70d1ce069208328 = [
     W 0 0 0 0 6 0 6 0,
     W 40 131 32 105 224 28 13 167,
     W 23 0 0 0 1 0 0 0,
     W 0 0 0 0 0 0 0 0,
     W 1 0 7 0 0 0 0 0,
     W 0 0 0 0 0 0 0 0,
     W 0 0 0 0 0 0 0 0,
     W 21 0 0 0 90 1 0 0,
     W 0 0 0 0 0 0 0 0,
     W 0 0 0 0 0 0 0 0,
     W 33 0 0 0 63 0 0 0,
     W 0 0 0 0 0 0 0 0,
     W 0 0 0 0 0 0 0 0,
     W 99 117 100 97 46 99 97 112,
     W 110 112 58 67 117 100 97 83,
     W 101 114 118 105 99 101 46 114,
     W 101 99 111 114 100 69 118 101,
     W 110 116 36 82 101 115 117 108,
     W 116 115 0 0 0 0 0 0,
     W 4 0 0 0 3 0 4 0,
     W 0 0 0 0 0 0 0 0,
     W 0 0 1 0 0 0 0 0,
     W 0 0 0 0 0 0 0 0,
     W 13 0 0 0 34 0 0 0,
     W 0 0 0 0 0 0 0 0,
     W 8 0 0 0 3 0 1 0,
     W 20 0 0 0 2 0 1 0,
     W 97 99 107 0 0 0 0 0,
     W 16 0 0 0 0 0 0 0,
     W 136 53 26 54 3 107 110 188,
     W 0 0 0 0 0 0 0 0,
     W 0 0 0 0 0 0 0 0,
     W 16 0 0 0 0 0 0 0,
     W 0 0 0 0 0 0 0 0,
     W 0 0 0 0 0 0 0 0]"

definition s_a70d1ce069208328 :: raw_schema where
  "s_a70d1ce069208328 = RawSchema 0xa70d1ce069208328 b_a70d1ce069208328 35
     [0xbc6e6b03361a3588]
     [0] 1 1
     [0]"

lemma b_a70d1ce069208328_node:
  "length b_a70d1ce069208328 = 35"
  "read_node b_a70d1ce069208328 = Some (0xa70d1ce069208328, StructBody 0 1 None [
       sfield [97, 99, 107] 65535 0 (Named 16 0xbc6e6b03361a3588) 16 0])"
  by (simp_all add: b_a70d1ce069208328_def read_table sfield_def cong: table_congs bind_head_cong)

lemma s_a70d1ce069208328_id: "schema_id s_a70d1ce069208328 = 0xa70d1ce069208328"
  by (simp add: s_a70d1ce069208328_def)

lemma s_a70d1ce069208328_ok: "schema_ok s_a70d1ce069208328"
  by (simp add: s_a70d1ce069208328_def b_a70d1ce069208328_node ordered_by_def sfield_def)

lemma s_a70d1ce069208328_layout: "layout_of s_a70d1ce069208328 = Some CudaService_RecordEventResults_layout"
  by (simp add: s_a70d1ce069208328_def b_a70d1ce069208328_node describe_table sfield_def struct_layout_def wireCuda_fields)

text \<open>\<open>CudaService.eventSynchronize$Params\<close>, a struct\<close>

definition b_b082d151f7e078f9 :: table where
  "b_b082d151f7e078f9 = [
     W 0 0 0 0 6 0 6 0,
     W 249 120 224 247 81 209 130 176,
     W 23 0 0 0 1 0 0 0,
     W 0 0 0 0 0 0 0 0,
     W 1 0 7 0 0 0 0 0,
     W 0 0 0 0 0 0 0 0,
     W 0 0 0 0 0 0 0 0,
     W 21 0 0 0 122 1 0 0,
     W 0 0 0 0 0 0 0 0,
     W 0 0 0 0 0 0 0 0,
     W 33 0 0 0 63 0 0 0,
     W 0 0 0 0 0 0 0 0,
     W 0 0 0 0 0 0 0 0,
     W 99 117 100 97 46 99 97 112,
     W 110 112 58 67 117 100 97 83,
     W 101 114 118 105 99 101 46 101,
     W 118 101 110 116 83 121 110 99,
     W 104 114 111 110 105 122 101 36,
     W 80 97 114 97 109 115 0 0,
     W 4 0 0 0 3 0 4 0,
     W 0 0 0 0 0 0 0 0,
     W 0 0 1 0 0 0 0 0,
     W 0 0 0 0 0 0 0 0,
     W 13 0 0 0 58 0 0 0,
     W 0 0 0 0 0 0 0 0,
     W 8 0 0 0 3 0 1 0,
     W 20 0 0 0 2 0 1 0,
     W 104 97 110 100 108 101 0 0,
     W 16 0 0 0 0 0 0 0,
     W 101 203 31 13 251 21 188 146,
     W 0 0 0 0 0 0 0 0,
     W 0 0 0 0 0 0 0 0,
     W 16 0 0 0 0 0 0 0,
     W 0 0 0 0 0 0 0 0,
     W 0 0 0 0 0 0 0 0]"

definition s_b082d151f7e078f9 :: raw_schema where
  "s_b082d151f7e078f9 = RawSchema 0xb082d151f7e078f9 b_b082d151f7e078f9 35
     [0x92bc15fb0d1fcb65]
     [0] 1 1
     [0]"

lemma b_b082d151f7e078f9_node:
  "length b_b082d151f7e078f9 = 35"
  "read_node b_b082d151f7e078f9 = Some (0xb082d151f7e078f9, StructBody 0 1 None [
       sfield [104, 97, 110, 100, 108, 101] 65535 0 (Named 16 0x92bc15fb0d1fcb65) 16 0])"
  by (simp_all add: b_b082d151f7e078f9_def read_table sfield_def cong: table_congs bind_head_cong)

lemma s_b082d151f7e078f9_id: "schema_id s_b082d151f7e078f9 = 0xb082d151f7e078f9"
  by (simp add: s_b082d151f7e078f9_def)

lemma s_b082d151f7e078f9_ok: "schema_ok s_b082d151f7e078f9"
  by (simp add: s_b082d151f7e078f9_def b_b082d151f7e078f9_node ordered_by_def sfield_def)

lemma s_b082d151f7e078f9_layout: "layout_of s_b082d151f7e078f9 = Some CudaService_EventSynchronizeParams_layout"
  by (simp add: s_b082d151f7e078f9_def b_b082d151f7e078f9_node describe_table sfield_def struct_layout_def wireCuda_fields)

text \<open>\<open>CudaService.eventSynchronize$Results\<close>, a struct\<close>

definition b_8aa89430a3b098a0 :: table where
  "b_8aa89430a3b098a0 = [
     W 0 0 0 0 6 0 6 0,
     W 160 152 176 163 48 148 168 138,
     W 23 0 0 0 1 0 0 0,
     W 0 0 0 0 0 0 0 0,
     W 1 0 7 0 0 0 0 0,
     W 0 0 0 0 0 0 0 0,
     W 0 0 0 0 0 0 0 0,
     W 21 0 0 0 130 1 0 0,
     W 0 0 0 0 0 0 0 0,
     W 0 0 0 0 0 0 0 0,
     W 33 0 0 0 63 0 0 0,
     W 0 0 0 0 0 0 0 0,
     W 0 0 0 0 0 0 0 0,
     W 99 117 100 97 46 99 97 112,
     W 110 112 58 67 117 100 97 83,
     W 101 114 118 105 99 101 46 101,
     W 118 101 110 116 83 121 110 99,
     W 104 114 111 110 105 122 101 36,
     W 82 101 115 117 108 116 115 0,
     W 4 0 0 0 3 0 4 0,
     W 0 0 0 0 0 0 0 0,
     W 0 0 1 0 0 0 0 0,
     W 0 0 0 0 0 0 0 0,
     W 13 0 0 0 34 0 0 0,
     W 0 0 0 0 0 0 0 0,
     W 8 0 0 0 3 0 1 0,
     W 20 0 0 0 2 0 1 0,
     W 97 99 107 0 0 0 0 0,
     W 16 0 0 0 0 0 0 0,
     W 136 53 26 54 3 107 110 188,
     W 0 0 0 0 0 0 0 0,
     W 0 0 0 0 0 0 0 0,
     W 16 0 0 0 0 0 0 0,
     W 0 0 0 0 0 0 0 0,
     W 0 0 0 0 0 0 0 0]"

definition s_8aa89430a3b098a0 :: raw_schema where
  "s_8aa89430a3b098a0 = RawSchema 0x8aa89430a3b098a0 b_8aa89430a3b098a0 35
     [0xbc6e6b03361a3588]
     [0] 1 1
     [0]"

lemma b_8aa89430a3b098a0_node:
  "length b_8aa89430a3b098a0 = 35"
  "read_node b_8aa89430a3b098a0 = Some (0x8aa89430a3b098a0, StructBody 0 1 None [
       sfield [97, 99, 107] 65535 0 (Named 16 0xbc6e6b03361a3588) 16 0])"
  by (simp_all add: b_8aa89430a3b098a0_def read_table sfield_def cong: table_congs bind_head_cong)

lemma s_8aa89430a3b098a0_id: "schema_id s_8aa89430a3b098a0 = 0x8aa89430a3b098a0"
  by (simp add: s_8aa89430a3b098a0_def)

lemma s_8aa89430a3b098a0_ok: "schema_ok s_8aa89430a3b098a0"
  by (simp add: s_8aa89430a3b098a0_def b_8aa89430a3b098a0_node ordered_by_def sfield_def)

lemma s_8aa89430a3b098a0_layout: "layout_of s_8aa89430a3b098a0 = Some CudaService_EventSynchronizeResults_layout"
  by (simp add: s_8aa89430a3b098a0_def b_8aa89430a3b098a0_node describe_table sfield_def struct_layout_def wireCuda_fields)

text \<open>\<open>CudaService.destroyEvent$Params\<close>, a struct\<close>

definition b_e9bfa3f610cdda88 :: table where
  "b_e9bfa3f610cdda88 = [
     W 0 0 0 0 6 0 6 0,
     W 136 218 205 16 246 163 191 233,
     W 23 0 0 0 1 0 0 0,
     W 0 0 0 0 0 0 0 0,
     W 1 0 7 0 0 0 0 0,
     W 0 0 0 0 0 0 0 0,
     W 0 0 0 0 0 0 0 0,
     W 21 0 0 0 90 1 0 0,
     W 0 0 0 0 0 0 0 0,
     W 0 0 0 0 0 0 0 0,
     W 33 0 0 0 63 0 0 0,
     W 0 0 0 0 0 0 0 0,
     W 0 0 0 0 0 0 0 0,
     W 99 117 100 97 46 99 97 112,
     W 110 112 58 67 117 100 97 83,
     W 101 114 118 105 99 101 46 100,
     W 101 115 116 114 111 121 69 118,
     W 101 110 116 36 80 97 114 97,
     W 109 115 0 0 0 0 0 0,
     W 4 0 0 0 3 0 4 0,
     W 0 0 0 0 0 0 0 0,
     W 0 0 1 0 0 0 0 0,
     W 0 0 0 0 0 0 0 0,
     W 13 0 0 0 58 0 0 0,
     W 0 0 0 0 0 0 0 0,
     W 8 0 0 0 3 0 1 0,
     W 20 0 0 0 2 0 1 0,
     W 104 97 110 100 108 101 0 0,
     W 16 0 0 0 0 0 0 0,
     W 101 203 31 13 251 21 188 146,
     W 0 0 0 0 0 0 0 0,
     W 0 0 0 0 0 0 0 0,
     W 16 0 0 0 0 0 0 0,
     W 0 0 0 0 0 0 0 0,
     W 0 0 0 0 0 0 0 0]"

definition s_e9bfa3f610cdda88 :: raw_schema where
  "s_e9bfa3f610cdda88 = RawSchema 0xe9bfa3f610cdda88 b_e9bfa3f610cdda88 35
     [0x92bc15fb0d1fcb65]
     [0] 1 1
     [0]"

lemma b_e9bfa3f610cdda88_node:
  "length b_e9bfa3f610cdda88 = 35"
  "read_node b_e9bfa3f610cdda88 = Some (0xe9bfa3f610cdda88, StructBody 0 1 None [
       sfield [104, 97, 110, 100, 108, 101] 65535 0 (Named 16 0x92bc15fb0d1fcb65) 16 0])"
  by (simp_all add: b_e9bfa3f610cdda88_def read_table sfield_def cong: table_congs bind_head_cong)

lemma s_e9bfa3f610cdda88_id: "schema_id s_e9bfa3f610cdda88 = 0xe9bfa3f610cdda88"
  by (simp add: s_e9bfa3f610cdda88_def)

lemma s_e9bfa3f610cdda88_ok: "schema_ok s_e9bfa3f610cdda88"
  by (simp add: s_e9bfa3f610cdda88_def b_e9bfa3f610cdda88_node ordered_by_def sfield_def)

lemma s_e9bfa3f610cdda88_layout: "layout_of s_e9bfa3f610cdda88 = Some CudaService_DestroyEventParams_layout"
  by (simp add: s_e9bfa3f610cdda88_def b_e9bfa3f610cdda88_node describe_table sfield_def struct_layout_def wireCuda_fields)

text \<open>\<open>CudaService.destroyEvent$Results\<close>, a struct\<close>

definition b_819d132e990c800d :: table where
  "b_819d132e990c800d = [
     W 0 0 0 0 6 0 6 0,
     W 13 128 12 153 46 19 157 129,
     W 23 0 0 0 1 0 0 0,
     W 0 0 0 0 0 0 0 0,
     W 1 0 7 0 0 0 0 0,
     W 0 0 0 0 0 0 0 0,
     W 0 0 0 0 0 0 0 0,
     W 21 0 0 0 98 1 0 0,
     W 0 0 0 0 0 0 0 0,
     W 0 0 0 0 0 0 0 0,
     W 33 0 0 0 63 0 0 0,
     W 0 0 0 0 0 0 0 0,
     W 0 0 0 0 0 0 0 0,
     W 99 117 100 97 46 99 97 112,
     W 110 112 58 67 117 100 97 83,
     W 101 114 118 105 99 101 46 100,
     W 101 115 116 114 111 121 69 118,
     W 101 110 116 36 82 101 115 117,
     W 108 116 115 0 0 0 0 0,
     W 4 0 0 0 3 0 4 0,
     W 0 0 0 0 0 0 0 0,
     W 0 0 1 0 0 0 0 0,
     W 0 0 0 0 0 0 0 0,
     W 13 0 0 0 34 0 0 0,
     W 0 0 0 0 0 0 0 0,
     W 8 0 0 0 3 0 1 0,
     W 20 0 0 0 2 0 1 0,
     W 97 99 107 0 0 0 0 0,
     W 16 0 0 0 0 0 0 0,
     W 136 53 26 54 3 107 110 188,
     W 0 0 0 0 0 0 0 0,
     W 0 0 0 0 0 0 0 0,
     W 16 0 0 0 0 0 0 0,
     W 0 0 0 0 0 0 0 0,
     W 0 0 0 0 0 0 0 0]"

definition s_819d132e990c800d :: raw_schema where
  "s_819d132e990c800d = RawSchema 0x819d132e990c800d b_819d132e990c800d 35
     [0xbc6e6b03361a3588]
     [0] 1 1
     [0]"

lemma b_819d132e990c800d_node:
  "length b_819d132e990c800d = 35"
  "read_node b_819d132e990c800d = Some (0x819d132e990c800d, StructBody 0 1 None [
       sfield [97, 99, 107] 65535 0 (Named 16 0xbc6e6b03361a3588) 16 0])"
  by (simp_all add: b_819d132e990c800d_def read_table sfield_def cong: table_congs bind_head_cong)

lemma s_819d132e990c800d_id: "schema_id s_819d132e990c800d = 0x819d132e990c800d"
  by (simp add: s_819d132e990c800d_def)

lemma s_819d132e990c800d_ok: "schema_ok s_819d132e990c800d"
  by (simp add: s_819d132e990c800d_def b_819d132e990c800d_node ordered_by_def sfield_def)

lemma s_819d132e990c800d_layout: "layout_of s_819d132e990c800d = Some CudaService_DestroyEventResults_layout"
  by (simp add: s_819d132e990c800d_def b_819d132e990c800d_node describe_table sfield_def struct_layout_def wireCuda_fields)

text \<open>\<open>CudaService.batchKernelLaunch$Params\<close>, a struct\<close>

definition b_a58d7df87cb5c3bf :: table where
  "b_a58d7df87cb5c3bf = [
     W 0 0 0 0 6 0 6 0,
     W 191 195 181 124 248 125 141 165,
     W 23 0 0 0 1 0 0 0,
     W 0 0 0 0 0 0 0 0,
     W 1 0 7 0 0 0 0 0,
     W 0 0 0 0 0 0 0 0,
     W 0 0 0 0 0 0 0 0,
     W 21 0 0 0 130 1 0 0,
     W 0 0 0 0 0 0 0 0,
     W 0 0 0 0 0 0 0 0,
     W 33 0 0 0 63 0 0 0,
     W 0 0 0 0 0 0 0 0,
     W 0 0 0 0 0 0 0 0,
     W 99 117 100 97 46 99 97 112,
     W 110 112 58 67 117 100 97 83,
     W 101 114 118 105 99 101 46 98,
     W 97 116 99 104 75 101 114 110,
     W 101 108 76 97 117 110 99 104,
     W 36 80 97 114 97 109 115 0,
     W 4 0 0 0 3 0 4 0,
     W 0 0 0 0 0 0 0 0,
     W 0 0 1 0 0 0 0 0,
     W 0 0 0 0 0 0 0 0,
     W 13 0 0 0 66 0 0 0,
     W 0 0 0 0 0 0 0 0,
     W 8 0 0 0 3 0 1 0,
     W 20 0 0 0 2 0 1 0,
     W 114 101 113 117 101 115 116 0,
     W 16 0 0 0 0 0 0 0,
     W 148 123 222 186 36 76 207 218,
     W 0 0 0 0 0 0 0 0,
     W 0 0 0 0 0 0 0 0,
     W 16 0 0 0 0 0 0 0,
     W 0 0 0 0 0 0 0 0,
     W 0 0 0 0 0 0 0 0]"

definition s_a58d7df87cb5c3bf :: raw_schema where
  "s_a58d7df87cb5c3bf = RawSchema 0xa58d7df87cb5c3bf b_a58d7df87cb5c3bf 35
     [0xdacf4c24bade7b94]
     [0] 1 1
     [0]"

lemma b_a58d7df87cb5c3bf_node:
  "length b_a58d7df87cb5c3bf = 35"
  "read_node b_a58d7df87cb5c3bf = Some (0xa58d7df87cb5c3bf, StructBody 0 1 None [
       sfield [114, 101, 113, 117, 101, 115, 116] 65535 0 (Named 16 0xdacf4c24bade7b94) 16 0])"
  by (simp_all add: b_a58d7df87cb5c3bf_def read_table sfield_def cong: table_congs bind_head_cong)

lemma s_a58d7df87cb5c3bf_id: "schema_id s_a58d7df87cb5c3bf = 0xa58d7df87cb5c3bf"
  by (simp add: s_a58d7df87cb5c3bf_def)

lemma s_a58d7df87cb5c3bf_ok: "schema_ok s_a58d7df87cb5c3bf"
  by (simp add: s_a58d7df87cb5c3bf_def b_a58d7df87cb5c3bf_node ordered_by_def sfield_def)

lemma s_a58d7df87cb5c3bf_layout: "layout_of s_a58d7df87cb5c3bf = Some CudaService_BatchKernelLaunchParams_layout"
  by (simp add: s_a58d7df87cb5c3bf_def b_a58d7df87cb5c3bf_node describe_table sfield_def struct_layout_def wireCuda_fields)

text \<open>\<open>CudaService.batchKernelLaunch$Results\<close>, a struct\<close>

definition b_c15f783825e674b3 :: table where
  "b_c15f783825e674b3 = [
     W 0 0 0 0 6 0 6 0,
     W 179 116 230 37 56 120 95 193,
     W 23 0 0 0 1 0 0 0,
     W 0 0 0 0 0 0 0 0,
     W 1 0 7 0 0 0 0 0,
     W 0 0 0 0 0 0 0 0,
     W 0 0 0 0 0 0 0 0,
     W 21 0 0 0 138 1 0 0,
     W 0 0 0 0 0 0 0 0,
     W 0 0 0 0 0 0 0 0,
     W 37 0 0 0 63 0 0 0,
     W 0 0 0 0 0 0 0 0,
     W 0 0 0 0 0 0 0 0,
     W 99 117 100 97 46 99 97 112,
     W 110 112 58 67 117 100 97 83,
     W 101 114 118 105 99 101 46 98,
     W 97 116 99 104 75 101 114 110,
     W 101 108 76 97 117 110 99 104,
     W 36 82 101 115 117 108 116 115,
     W 0 0 0 0 0 0 0 0,
     W 4 0 0 0 3 0 4 0,
     W 0 0 0 0 0 0 0 0,
     W 0 0 1 0 0 0 0 0,
     W 0 0 0 0 0 0 0 0,
     W 13 0 0 0 34 0 0 0,
     W 0 0 0 0 0 0 0 0,
     W 8 0 0 0 3 0 1 0,
     W 20 0 0 0 2 0 1 0,
     W 97 99 107 0 0 0 0 0,
     W 16 0 0 0 0 0 0 0,
     W 136 53 26 54 3 107 110 188,
     W 0 0 0 0 0 0 0 0,
     W 0 0 0 0 0 0 0 0,
     W 16 0 0 0 0 0 0 0,
     W 0 0 0 0 0 0 0 0,
     W 0 0 0 0 0 0 0 0]"

definition s_c15f783825e674b3 :: raw_schema where
  "s_c15f783825e674b3 = RawSchema 0xc15f783825e674b3 b_c15f783825e674b3 36
     [0xbc6e6b03361a3588]
     [0] 1 1
     [0]"

lemma b_c15f783825e674b3_node:
  "length b_c15f783825e674b3 = 36"
  "read_node b_c15f783825e674b3 = Some (0xc15f783825e674b3, StructBody 0 1 None [
       sfield [97, 99, 107] 65535 0 (Named 16 0xbc6e6b03361a3588) 16 0])"
  by (simp_all add: b_c15f783825e674b3_def read_table sfield_def cong: table_congs bind_head_cong)

lemma s_c15f783825e674b3_id: "schema_id s_c15f783825e674b3 = 0xc15f783825e674b3"
  by (simp add: s_c15f783825e674b3_def)

lemma s_c15f783825e674b3_ok: "schema_ok s_c15f783825e674b3"
  by (simp add: s_c15f783825e674b3_def b_c15f783825e674b3_node ordered_by_def sfield_def)

lemma s_c15f783825e674b3_layout: "layout_of s_c15f783825e674b3 = Some CudaService_BatchKernelLaunchResults_layout"
  by (simp add: s_c15f783825e674b3_def b_c15f783825e674b3_node describe_table sfield_def struct_layout_def wireCuda_fields)

text \<open>\<open>CudaService.multiGpuCooperation$Params\<close>, a struct\<close>

definition b_8cb1ea6893b2ef94 :: table where
  "b_8cb1ea6893b2ef94 = [
     W 0 0 0 0 6 0 6 0,
     W 148 239 178 147 104 234 177 140,
     W 23 0 0 0 1 0 0 0,
     W 0 0 0 0 0 0 0 0,
     W 1 0 7 0 0 0 0 0,
     W 0 0 0 0 0 0 0 0,
     W 0 0 0 0 0 0 0 0,
     W 21 0 0 0 146 1 0 0,
     W 0 0 0 0 0 0 0 0,
     W 0 0 0 0 0 0 0 0,
     W 37 0 0 0 63 0 0 0,
     W 0 0 0 0 0 0 0 0,
     W 0 0 0 0 0 0 0 0,
     W 99 117 100 97 46 99 97 112,
     W 110 112 58 67 117 100 97 83,
     W 101 114 118 105 99 101 46 109,
     W 117 108 116 105 71 112 117 67,
     W 111 111 112 101 114 97 116 105,
     W 111 110 36 80 97 114 97 109,
     W 115 0 0 0 0 0 0 0,
     W 4 0 0 0 3 0 4 0,
     W 0 0 0 0 0 0 0 0,
     W 0 0 1 0 0 0 0 0,
     W 0 0 0 0 0 0 0 0,
     W 13 0 0 0 66 0 0 0,
     W 0 0 0 0 0 0 0 0,
     W 8 0 0 0 3 0 1 0,
     W 20 0 0 0 2 0 1 0,
     W 114 101 113 117 101 115 116 0,
     W 16 0 0 0 0 0 0 0,
     W 180 12 26 140 167 230 189 178,
     W 0 0 0 0 0 0 0 0,
     W 0 0 0 0 0 0 0 0,
     W 16 0 0 0 0 0 0 0,
     W 0 0 0 0 0 0 0 0,
     W 0 0 0 0 0 0 0 0]"

definition s_8cb1ea6893b2ef94 :: raw_schema where
  "s_8cb1ea6893b2ef94 = RawSchema 0x8cb1ea6893b2ef94 b_8cb1ea6893b2ef94 36
     [0xb2bde6a78c1a0cb4]
     [0] 1 1
     [0]"

lemma b_8cb1ea6893b2ef94_node:
  "length b_8cb1ea6893b2ef94 = 36"
  "read_node b_8cb1ea6893b2ef94 = Some (0x8cb1ea6893b2ef94, StructBody 0 1 None [
       sfield [114, 101, 113, 117, 101, 115, 116] 65535 0 (Named 16 0xb2bde6a78c1a0cb4) 16 0])"
  by (simp_all add: b_8cb1ea6893b2ef94_def read_table sfield_def cong: table_congs bind_head_cong)

lemma s_8cb1ea6893b2ef94_id: "schema_id s_8cb1ea6893b2ef94 = 0x8cb1ea6893b2ef94"
  by (simp add: s_8cb1ea6893b2ef94_def)

lemma s_8cb1ea6893b2ef94_ok: "schema_ok s_8cb1ea6893b2ef94"
  by (simp add: s_8cb1ea6893b2ef94_def b_8cb1ea6893b2ef94_node ordered_by_def sfield_def)

lemma s_8cb1ea6893b2ef94_layout: "layout_of s_8cb1ea6893b2ef94 = Some CudaService_MultiGpuCooperationParams_layout"
  by (simp add: s_8cb1ea6893b2ef94_def b_8cb1ea6893b2ef94_node describe_table sfield_def struct_layout_def wireCuda_fields)

text \<open>\<open>CudaService.multiGpuCooperation$Results\<close>, a struct\<close>

definition b_fbbcc94269ba6a08 :: table where
  "b_fbbcc94269ba6a08 = [
     W 0 0 0 0 6 0 6 0,
     W 8 106 186 105 66 201 188 251,
     W 23 0 0 0 1 0 0 0,
     W 0 0 0 0 0 0 0 0,
     W 1 0 7 0 0 0 0 0,
     W 0 0 0 0 0 0 0 0,
     W 0 0 0 0 0 0 0 0,
     W 21 0 0 0 154 1 0 0,
     W 0 0 0 0 0 0 0 0,
     W 0 0 0 0 0 0 0 0,
     W 37 0 0 0 63 0 0 0,
     W 0 0 0 0 0 0 0 0,
     W 0 0 0 0 0 0 0 0,
     W 99 117 100 97 46 99 97 112,
     W 110 112 58 67 117 100 97 83,
     W 101 114 118 105 99 101 46 109,
     W 117 108 116 105 71 112 117 67,
     W 111 111 112 101 114 97 116 105,
     W 111 110 36 82 101 115 117 108,
     W 116 115 0 0 0 0 0 0,
     W 4 0 0 0 3 0 4 0,
     W 0 0 0 0 0 0 0 0,
     W 0 0 1 0 0 0 0 0,
     W 0 0 0 0 0 0 0 0,
     W 13 0 0 0 34 0 0 0,
     W 0 0 0 0 0 0 0 0,
     W 8 0 0 0 3 0 1 0,
     W 20 0 0 0 2 0 1 0,
     W 97 99 107 0 0 0 0 0,
     W 16 0 0 0 0 0 0 0,
     W 136 53 26 54 3 107 110 188,
     W 0 0 0 0 0 0 0 0,
     W 0 0 0 0 0 0 0 0,
     W 16 0 0 0 0 0 0 0,
     W 0 0 0 0 0 0 0 0,
     W 0 0 0 0 0 0 0 0]"

definition s_fbbcc94269ba6a08 :: raw_schema where
  "s_fbbcc94269ba6a08 = RawSchema 0xfbbcc94269ba6a08 b_fbbcc94269ba6a08 36
     [0xbc6e6b03361a3588]
     [0] 1 1
     [0]"

lemma b_fbbcc94269ba6a08_node:
  "length b_fbbcc94269ba6a08 = 36"
  "read_node b_fbbcc94269ba6a08 = Some (0xfbbcc94269ba6a08, StructBody 0 1 None [
       sfield [97, 99, 107] 65535 0 (Named 16 0xbc6e6b03361a3588) 16 0])"
  by (simp_all add: b_fbbcc94269ba6a08_def read_table sfield_def cong: table_congs bind_head_cong)

lemma s_fbbcc94269ba6a08_id: "schema_id s_fbbcc94269ba6a08 = 0xfbbcc94269ba6a08"
  by (simp add: s_fbbcc94269ba6a08_def)

lemma s_fbbcc94269ba6a08_ok: "schema_ok s_fbbcc94269ba6a08"
  by (simp add: s_fbbcc94269ba6a08_def b_fbbcc94269ba6a08_node ordered_by_def sfield_def)

lemma s_fbbcc94269ba6a08_layout: "layout_of s_fbbcc94269ba6a08 = Some CudaService_MultiGpuCooperationResults_layout"
  by (simp add: s_fbbcc94269ba6a08_def b_fbbcc94269ba6a08_node describe_table sfield_def struct_layout_def wireCuda_fields)

text \<open>\<open>CudaService.allocAndWrite$Params\<close>, a struct\<close>

definition b_8f45295c5e9b579b :: table where
  "b_8f45295c5e9b579b = [
     W 0 0 0 0 6 0 6 0,
     W 155 87 155 94 92 41 69 143,
     W 23 0 0 0 1 0 1 0,
     W 0 0 0 0 0 0 0 0,
     W 1 0 7 0 0 0 0 0,
     W 0 0 0 0 0 0 0 0,
     W 0 0 0 0 0 0 0 0,
     W 21 0 0 0 98 1 0 0,
     W 0 0 0 0 0 0 0 0,
     W 0 0 0 0 0 0 0 0,
     W 33 0 0 0 119 0 0 0,
     W 0 0 0 0 0 0 0 0,
     W 0 0 0 0 0 0 0 0,
     W 99 117 100 97 46 99 97 112,
     W 110 112 58 67 117 100 97 83,
     W 101 114 118 105 99 101 46 97,
     W 108 108 111 99 65 110 100 87,
     W 114 105 116 101 36 80 97 114,
     W 97 109 115 0 0 0 0 0,
     W 8 0 0 0 3 0 4 0,
     W 0 0 0 0 0 0 0 0,
     W 0 0 1 0 0 0 0 0,
     W 0 0 0 0 0 0 0 0,
     W 41 0 0 0 42 0 0 0,
     W 0 0 0 0 0 0 0 0,
     W 36 0 0 0 3 0 1 0,
     W 48 0 0 0 2 0 1 0,
     W 1 0 0 0 0 0 0 0,
     W 0 0 1 0 1 0 0 0,
     W 0 0 0 0 0 0 0 0,
     W 45 0 0 0 42 0 0 0,
     W 0 0 0 0 0 0 0 0,
     W 40 0 0 0 3 0 1 0,
     W 52 0 0 0 2 0 1 0,
     W 115 105 122 101 0 0 0 0,
     W 9 0 0 0 0 0 0 0,
     W 0 0 0 0 0 0 0 0,
     W 0 0 0 0 0 0 0 0,
     W 0 0 0 0 0 0 0 0,
     W 9 0 0 0 0 0 0 0,
     W 0 0 0 0 0 0 0 0,
     W 0 0 0 0 0 0 0 0,
     W 100 97 116 97 0 0 0 0,
     W 13 0 0 0 0 0 0 0,
     W 0 0 0 0 0 0 0 0,
     W 0 0 0 0 0 0 0 0,
     W 0 0 0 0 0 0 0 0,
     W 13 0 0 0 0 0 0 0,
     W 0 0 0 0 0 0 0 0,
     W 0 0 0 0 0 0 0 0]"

definition s_8f45295c5e9b579b :: raw_schema where
  "s_8f45295c5e9b579b = RawSchema 0x8f45295c5e9b579b b_8f45295c5e9b579b 50
     []
     [1, 0] 0 2
     [0, 1]"

lemma b_8f45295c5e9b579b_node:
  "length b_8f45295c5e9b579b = 50"
  "read_node b_8f45295c5e9b579b = Some (0x8f45295c5e9b579b, StructBody 1 1 None [
       sfield [115, 105, 122, 101] 65535 0 (Plain 9) 9 0,
       sfield [100, 97, 116, 97] 65535 0 (Plain 13) 13 0])"
  by (simp_all add: b_8f45295c5e9b579b_def read_table sfield_def cong: table_congs bind_head_cong)

lemma s_8f45295c5e9b579b_id: "schema_id s_8f45295c5e9b579b = 0x8f45295c5e9b579b"
  by (simp add: s_8f45295c5e9b579b_def)

lemma s_8f45295c5e9b579b_ok: "schema_ok s_8f45295c5e9b579b"
  by (simp add: s_8f45295c5e9b579b_def b_8f45295c5e9b579b_node ordered_by_def sfield_def)

lemma s_8f45295c5e9b579b_layout: "layout_of s_8f45295c5e9b579b = Some CudaService_AllocAndWriteParams_layout"
  by (simp add: s_8f45295c5e9b579b_def b_8f45295c5e9b579b_node describe_table sfield_def struct_layout_def wireCuda_fields)

text \<open>\<open>CudaService.allocAndWrite$Results\<close>, a struct\<close>

definition b_8174b4e554088fa5 :: table where
  "b_8174b4e554088fa5 = [
     W 0 0 0 0 6 0 6 0,
     W 165 143 8 84 229 180 116 129,
     W 23 0 0 0 1 0 0 0,
     W 0 0 0 0 0 0 0 0,
     W 1 0 7 0 0 0 0 0,
     W 0 0 0 0 0 0 0 0,
     W 0 0 0 0 0 0 0 0,
     W 21 0 0 0 106 1 0 0,
     W 0 0 0 0 0 0 0 0,
     W 0 0 0 0 0 0 0 0,
     W 33 0 0 0 63 0 0 0,
     W 0 0 0 0 0 0 0 0,
     W 0 0 0 0 0 0 0 0,
     W 99 117 100 97 46 99 97 112,
     W 110 112 58 67 117 100 97 83,
     W 101 114 118 105 99 101 46 97,
     W 108 108 111 99 65 110 100 87,
     W 114 105 116 101 36 82 101 115,
     W 117 108 116 115 0 0 0 0,
     W 4 0 0 0 3 0 4 0,
     W 0 0 0 0 0 0 0 0,
     W 0 0 1 0 0 0 0 0,
     W 0 0 0 0 0 0 0 0,
     W 13 0 0 0 58 0 0 0,
     W 0 0 0 0 0 0 0 0,
     W 8 0 0 0 3 0 1 0,
     W 20 0 0 0 2 0 1 0,
     W 114 101 115 117 108 116 0 0,
     W 16 0 0 0 0 0 0 0,
     W 59 168 171 5 171 169 148 155,
     W 0 0 0 0 0 0 0 0,
     W 0 0 0 0 0 0 0 0,
     W 16 0 0 0 0 0 0 0,
     W 0 0 0 0 0 0 0 0,
     W 0 0 0 0 0 0 0 0]"

definition s_8174b4e554088fa5 :: raw_schema where
  "s_8174b4e554088fa5 = RawSchema 0x8174b4e554088fa5 b_8174b4e554088fa5 35
     [0x9b94a9ab05aba83b]
     [0] 1 1
     [0]"

lemma b_8174b4e554088fa5_node:
  "length b_8174b4e554088fa5 = 35"
  "read_node b_8174b4e554088fa5 = Some (0x8174b4e554088fa5, StructBody 0 1 None [
       sfield [114, 101, 115, 117, 108, 116] 65535 0 (Named 16 0x9b94a9ab05aba83b) 16 0])"
  by (simp_all add: b_8174b4e554088fa5_def read_table sfield_def cong: table_congs bind_head_cong)

lemma s_8174b4e554088fa5_id: "schema_id s_8174b4e554088fa5 = 0x8174b4e554088fa5"
  by (simp add: s_8174b4e554088fa5_def)

lemma s_8174b4e554088fa5_ok: "schema_ok s_8174b4e554088fa5"
  by (simp add: s_8174b4e554088fa5_def b_8174b4e554088fa5_node ordered_by_def sfield_def)

lemma s_8174b4e554088fa5_layout: "layout_of s_8174b4e554088fa5 = Some CudaService_AllocAndWriteResults_layout"
  by (simp add: s_8174b4e554088fa5_def b_8174b4e554088fa5_node describe_table sfield_def struct_layout_def wireCuda_fields)

subsection \<open>All of them\<close>

definition schemaCuda_schemas :: "raw_schema list" where
  "schemaCuda_schemas = [
     s_aa64c42860eecf63, s_ddb50ac56f50ec53, s_9de7a50f41d4cbd0, s_92bc15fb0d1fcb65,
     s_a0142208ca8277e0, s_dacf4c24bade7b94, s_b2bde6a78c1a0cb4, s_d909ac68956b8ff9,
     s_ba5df2daeb81d2b3, s_9541b3fbcfb24811, s_be2dd3871d6c54ce, s_9aa2f69630ae6c9c,
     s_bc316a0441cc04ac, s_d7b620c1f6580289, s_b2cda054826996c4, s_9edc1e0ed150e10c,
     s_e5bc2a6e0f80ad6b, s_f5ccd1fa43e677e4, s_d0ffebd0326acdf9, s_f05eef4dfede4f25,
     s_f8c19f0353a8733b, s_f3e39f6d897fe9e6, s_abebfa47b0d7fe3e, s_bb7aac664da39365,
     s_a494a6b17c5f502f, s_bf3a6b9bd266a840, s_a138b03743531536, s_a70d1ce069208328,
     s_b082d151f7e078f9, s_8aa89430a3b098a0, s_e9bfa3f610cdda88, s_819d132e990c800d,
     s_a58d7df87cb5c3bf, s_c15f783825e674b3, s_8cb1ea6893b2ef94, s_fbbcc94269ba6a08,
     s_8f45295c5e9b579b, s_8174b4e554088fa5]"

lemma schemaCuda_schemas_ok: "list_all schema_ok schemaCuda_schemas"
  by (simp add: schemaCuda_schemas_def
      s_aa64c42860eecf63_ok s_ddb50ac56f50ec53_ok s_9de7a50f41d4cbd0_ok s_92bc15fb0d1fcb65_ok
      s_a0142208ca8277e0_ok s_dacf4c24bade7b94_ok s_b2bde6a78c1a0cb4_ok s_d909ac68956b8ff9_ok
      s_ba5df2daeb81d2b3_ok s_9541b3fbcfb24811_ok s_be2dd3871d6c54ce_ok s_9aa2f69630ae6c9c_ok
      s_bc316a0441cc04ac_ok s_d7b620c1f6580289_ok s_b2cda054826996c4_ok s_9edc1e0ed150e10c_ok
      s_e5bc2a6e0f80ad6b_ok s_f5ccd1fa43e677e4_ok s_d0ffebd0326acdf9_ok s_f05eef4dfede4f25_ok
      s_f8c19f0353a8733b_ok s_f3e39f6d897fe9e6_ok s_abebfa47b0d7fe3e_ok s_bb7aac664da39365_ok
      s_a494a6b17c5f502f_ok s_bf3a6b9bd266a840_ok s_a138b03743531536_ok s_a70d1ce069208328_ok
      s_b082d151f7e078f9_ok s_8aa89430a3b098a0_ok s_e9bfa3f610cdda88_ok s_819d132e990c800d_ok
      s_a58d7df87cb5c3bf_ok s_c15f783825e674b3_ok s_8cb1ea6893b2ef94_ok s_fbbcc94269ba6a08_ok
      s_8f45295c5e9b579b_ok s_8174b4e554088fa5_ok)

lemmas schemaCuda_defs = schemaCuda_schemas_def
  s_aa64c42860eecf63_def s_ddb50ac56f50ec53_def s_9de7a50f41d4cbd0_def s_92bc15fb0d1fcb65_def
  s_a0142208ca8277e0_def s_dacf4c24bade7b94_def s_b2bde6a78c1a0cb4_def s_d909ac68956b8ff9_def
  s_ba5df2daeb81d2b3_def s_9541b3fbcfb24811_def s_be2dd3871d6c54ce_def s_9aa2f69630ae6c9c_def
  s_bc316a0441cc04ac_def s_d7b620c1f6580289_def s_b2cda054826996c4_def s_9edc1e0ed150e10c_def
  s_e5bc2a6e0f80ad6b_def s_f5ccd1fa43e677e4_def s_d0ffebd0326acdf9_def s_f05eef4dfede4f25_def
  s_f8c19f0353a8733b_def s_f3e39f6d897fe9e6_def s_abebfa47b0d7fe3e_def s_bb7aac664da39365_def
  s_a494a6b17c5f502f_def s_bf3a6b9bd266a840_def s_a138b03743531536_def s_a70d1ce069208328_def
  s_b082d151f7e078f9_def s_8aa89430a3b098a0_def s_e9bfa3f610cdda88_def s_819d132e990c800d_def
  s_a58d7df87cb5c3bf_def s_c15f783825e674b3_def s_8cb1ea6893b2ef94_def s_fbbcc94269ba6a08_def
  s_8f45295c5e9b579b_def s_8174b4e554088fa5_def

lemma schemaCuda_ids: "map schema_id schemaCuda_schemas = [
     0xaa64c42860eecf63, 0xddb50ac56f50ec53, 0x9de7a50f41d4cbd0, 0x92bc15fb0d1fcb65,
     0xa0142208ca8277e0, 0xdacf4c24bade7b94, 0xb2bde6a78c1a0cb4, 0xd909ac68956b8ff9,
     0xba5df2daeb81d2b3, 0x9541b3fbcfb24811, 0xbe2dd3871d6c54ce, 0x9aa2f69630ae6c9c,
     0xbc316a0441cc04ac, 0xd7b620c1f6580289, 0xb2cda054826996c4, 0x9edc1e0ed150e10c,
     0xe5bc2a6e0f80ad6b, 0xf5ccd1fa43e677e4, 0xd0ffebd0326acdf9, 0xf05eef4dfede4f25,
     0xf8c19f0353a8733b, 0xf3e39f6d897fe9e6, 0xabebfa47b0d7fe3e, 0xbb7aac664da39365,
     0xa494a6b17c5f502f, 0xbf3a6b9bd266a840, 0xa138b03743531536, 0xa70d1ce069208328,
     0xb082d151f7e078f9, 0x8aa89430a3b098a0, 0xe9bfa3f610cdda88, 0x819d132e990c800d,
     0xa58d7df87cb5c3bf, 0xc15f783825e674b3, 0x8cb1ea6893b2ef94, 0xfbbcc94269ba6a08,
     0x8f45295c5e9b579b, 0x8174b4e554088fa5]"
  by (simp add: schemaCuda_schemas_def
      s_aa64c42860eecf63_id s_ddb50ac56f50ec53_id s_9de7a50f41d4cbd0_id s_92bc15fb0d1fcb65_id
      s_a0142208ca8277e0_id s_dacf4c24bade7b94_id s_b2bde6a78c1a0cb4_id s_d909ac68956b8ff9_id
      s_ba5df2daeb81d2b3_id s_9541b3fbcfb24811_id s_be2dd3871d6c54ce_id s_9aa2f69630ae6c9c_id
      s_bc316a0441cc04ac_id s_d7b620c1f6580289_id s_b2cda054826996c4_id s_9edc1e0ed150e10c_id
      s_e5bc2a6e0f80ad6b_id s_f5ccd1fa43e677e4_id s_d0ffebd0326acdf9_id s_f05eef4dfede4f25_id
      s_f8c19f0353a8733b_id s_f3e39f6d897fe9e6_id s_abebfa47b0d7fe3e_id s_bb7aac664da39365_id
      s_a494a6b17c5f502f_id s_bf3a6b9bd266a840_id s_a138b03743531536_id s_a70d1ce069208328_id
      s_b082d151f7e078f9_id s_8aa89430a3b098a0_id s_e9bfa3f610cdda88_id s_819d132e990c800d_id
      s_a58d7df87cb5c3bf_id s_c15f783825e674b3_id s_8cb1ea6893b2ef94_id s_fbbcc94269ba6a08_id
      s_8f45295c5e9b579b_id s_8174b4e554088fa5_id)

text \<open>The structs with the ids and layouts of the header, in its order.\<close>

definition schemaCuda_structs :: "raw_schema list" where
  "schemaCuda_structs = [
     s_aa64c42860eecf63, s_ddb50ac56f50ec53, s_9de7a50f41d4cbd0, s_92bc15fb0d1fcb65,
     s_a0142208ca8277e0, s_dacf4c24bade7b94, s_b2bde6a78c1a0cb4, s_ba5df2daeb81d2b3,
     s_9541b3fbcfb24811, s_be2dd3871d6c54ce, s_9aa2f69630ae6c9c, s_bc316a0441cc04ac,
     s_d7b620c1f6580289, s_b2cda054826996c4, s_9edc1e0ed150e10c, s_e5bc2a6e0f80ad6b,
     s_f5ccd1fa43e677e4, s_d0ffebd0326acdf9, s_f05eef4dfede4f25, s_f8c19f0353a8733b,
     s_f3e39f6d897fe9e6, s_abebfa47b0d7fe3e, s_bb7aac664da39365, s_a494a6b17c5f502f,
     s_bf3a6b9bd266a840, s_a138b03743531536, s_a70d1ce069208328, s_b082d151f7e078f9,
     s_8aa89430a3b098a0, s_e9bfa3f610cdda88, s_819d132e990c800d, s_a58d7df87cb5c3bf,
     s_c15f783825e674b3, s_8cb1ea6893b2ef94, s_fbbcc94269ba6a08, s_8f45295c5e9b579b,
     s_8174b4e554088fa5]"

definition schemaCuda_headers :: "(nat \<times> layout) list" where
  "schemaCuda_headers = [
     (0xaa64c42860eecf63, MemcpyParams_layout), (0xddb50ac56f50ec53, StreamHandle_layout),
     (0x9de7a50f41d4cbd0, StreamCreateParams_layout), (0x92bc15fb0d1fcb65, EventHandle_layout),
     (0xa0142208ca8277e0, EventParams_layout), (0xdacf4c24bade7b94, BatchKernelLaunch_layout),
     (0xb2bde6a78c1a0cb4, MultiGpuRequest_layout),
     (0xba5df2daeb81d2b3, CudaService_CudaInitParams_layout),
     (0x9541b3fbcfb24811, CudaService_CudaInitResults_layout),
     (0xbe2dd3871d6c54ce, CudaService_CudaMemAllocParams_layout),
     (0x9aa2f69630ae6c9c, CudaService_CudaMemAllocResults_layout),
     (0xbc316a0441cc04ac, CudaService_CudaMemcpyParams_layout),
     (0xd7b620c1f6580289, CudaService_CudaMemcpyResults_layout),
     (0xb2cda054826996c4, CudaService_CudaMemFreeParams_layout),
     (0x9edc1e0ed150e10c, CudaService_CudaMemFreeResults_layout),
     (0xe5bc2a6e0f80ad6b, CudaService_CreateCudaStreamParams_layout),
     (0xf5ccd1fa43e677e4, CudaService_CreateCudaStreamResults_layout),
     (0xd0ffebd0326acdf9, CudaService_DestroyCudaStreamParams_layout),
     (0xf05eef4dfede4f25, CudaService_DestroyCudaStreamResults_layout),
     (0xf8c19f0353a8733b, CudaService_SynchronizeCudaStreamParams_layout),
     (0xf3e39f6d897fe9e6, CudaService_SynchronizeCudaStreamResults_layout),
     (0xabebfa47b0d7fe3e, CudaService_CudaKernelLaunchParams_layout),
     (0xbb7aac664da39365, CudaService_CudaKernelLaunchResults_layout),
     (0xa494a6b17c5f502f, CudaService_CreateEventParams_layout),
     (0xbf3a6b9bd266a840, CudaService_CreateEventResults_layout),
     (0xa138b03743531536, CudaService_RecordEventParams_layout),
     (0xa70d1ce069208328, CudaService_RecordEventResults_layout),
     (0xb082d151f7e078f9, CudaService_EventSynchronizeParams_layout),
     (0x8aa89430a3b098a0, CudaService_EventSynchronizeResults_layout),
     (0xe9bfa3f610cdda88, CudaService_DestroyEventParams_layout),
     (0x819d132e990c800d, CudaService_DestroyEventResults_layout),
     (0xa58d7df87cb5c3bf, CudaService_BatchKernelLaunchParams_layout),
     (0xc15f783825e674b3, CudaService_BatchKernelLaunchResults_layout),
     (0x8cb1ea6893b2ef94, CudaService_MultiGpuCooperationParams_layout),
     (0xfbbcc94269ba6a08, CudaService_MultiGpuCooperationResults_layout),
     (0x8f45295c5e9b579b, CudaService_AllocAndWriteParams_layout),
     (0x8174b4e554088fa5, CudaService_AllocAndWriteResults_layout)]"

lemma schemaCuda_structs_layouts:
  "map (\<lambda>s. (schema_id s, layout_of s)) schemaCuda_structs = map (\<lambda>(i, l). (i, Some l)) schemaCuda_headers"
  by (simp add: schemaCuda_structs_def schemaCuda_headers_def
      s_aa64c42860eecf63_layout s_aa64c42860eecf63_id
      s_ddb50ac56f50ec53_layout s_ddb50ac56f50ec53_id
      s_9de7a50f41d4cbd0_layout s_9de7a50f41d4cbd0_id
      s_92bc15fb0d1fcb65_layout s_92bc15fb0d1fcb65_id
      s_a0142208ca8277e0_layout s_a0142208ca8277e0_id
      s_dacf4c24bade7b94_layout s_dacf4c24bade7b94_id
      s_b2bde6a78c1a0cb4_layout s_b2bde6a78c1a0cb4_id
      s_ba5df2daeb81d2b3_layout s_ba5df2daeb81d2b3_id
      s_9541b3fbcfb24811_layout s_9541b3fbcfb24811_id
      s_be2dd3871d6c54ce_layout s_be2dd3871d6c54ce_id
      s_9aa2f69630ae6c9c_layout s_9aa2f69630ae6c9c_id
      s_bc316a0441cc04ac_layout s_bc316a0441cc04ac_id
      s_d7b620c1f6580289_layout s_d7b620c1f6580289_id
      s_b2cda054826996c4_layout s_b2cda054826996c4_id
      s_9edc1e0ed150e10c_layout s_9edc1e0ed150e10c_id
      s_e5bc2a6e0f80ad6b_layout s_e5bc2a6e0f80ad6b_id
      s_f5ccd1fa43e677e4_layout s_f5ccd1fa43e677e4_id
      s_d0ffebd0326acdf9_layout s_d0ffebd0326acdf9_id
      s_f05eef4dfede4f25_layout s_f05eef4dfede4f25_id
      s_f8c19f0353a8733b_layout s_f8c19f0353a8733b_id
      s_f3e39f6d897fe9e6_layout s_f3e39f6d897fe9e6_id
      s_abebfa47b0d7fe3e_layout s_abebfa47b0d7fe3e_id
      s_bb7aac664da39365_layout s_bb7aac664da39365_id
      s_a494a6b17c5f502f_layout s_a494a6b17c5f502f_id
      s_bf3a6b9bd266a840_layout s_bf3a6b9bd266a840_id
      s_a138b03743531536_layout s_a138b03743531536_id
      s_a70d1ce069208328_layout s_a70d1ce069208328_id
      s_b082d151f7e078f9_layout s_b082d151f7e078f9_id
      s_8aa89430a3b098a0_layout s_8aa89430a3b098a0_id
      s_e9bfa3f610cdda88_layout s_e9bfa3f610cdda88_id
      s_819d132e990c800d_layout s_819d132e990c800d_id
      s_a58d7df87cb5c3bf_layout s_a58d7df87cb5c3bf_id
      s_c15f783825e674b3_layout s_c15f783825e674b3_id
      s_8cb1ea6893b2ef94_layout s_8cb1ea6893b2ef94_id
      s_fbbcc94269ba6a08_layout s_fbbcc94269ba6a08_id
      s_8f45295c5e9b579b_layout s_8f45295c5e9b579b_id
      s_8174b4e554088fa5_layout s_8174b4e554088fa5_id)

end
