(* ===== verification/SchemaLinks.thy ===== *)
theory SchemaLinks
  imports Rpc SchemaCommon SchemaMemcopy SchemaKernel SchemaHookLauncher SchemaGpuControl SchemaCuda
begin

section \<open>Schemas, accessors and calls\<close>

text \<open>
  The generated files say most things twice: the headers pass constants to the runtime, the
  stubs pass numbers and types, and the embedded schemas describe both. Here the three are
  compared over all files.
\<close>

definition all_schemas :: "raw_schema list" where
  "all_schemas = schemaCommon_schemas @ schemaMemcopy_schemas @ schemaKernel_schemas @
     schemaHookLauncher_schemas @ schemaGpuControl_schemas @ schemaCuda_schemas"

definition all_structs :: "raw_schema list" where
  "all_structs = schemaCommon_structs @ schemaMemcopy_structs @ schemaKernel_structs @
     schemaHookLauncher_structs @ schemaGpuControl_structs @ schemaCuda_structs"

definition all_headers :: "(nat \<times> layout) list" where
  "all_headers = schemaCommon_headers @ schemaMemcopy_headers @ schemaKernel_headers @
     schemaHookLauncher_headers @ schemaGpuControl_headers @ schemaCuda_headers"

lemmas all_schemas_defs = schemaCommon_schemas_def schemaMemcopy_schemas_def schemaKernel_schemas_def
  schemaHookLauncher_schemas_def schemaGpuControl_schemas_def schemaCuda_schemas_def

lemmas all_headers_defs = schemaCommon_headers_def schemaMemcopy_headers_def schemaKernel_headers_def
  schemaHookLauncher_headers_def schemaGpuControl_headers_def schemaCuda_headers_def

lemma all_structs_layouts:
  "map (\<lambda>s. (schema_id s, layout_of s)) all_structs = map (\<lambda>(i, l). (i, Some l)) all_headers"
  by (simp only: all_structs_def all_headers_def map_append schemaCommon_structs_layouts schemaMemcopy_structs_layouts
      schemaKernel_structs_layouts schemaHookLauncher_structs_layouts schemaGpuControl_structs_layouts
      schemaCuda_structs_layouts)

lemma all_schemas_ok: "list_all schema_ok all_schemas"
  by (simp add: all_schemas_def schemaCommon_schemas_ok schemaMemcopy_schemas_ok schemaKernel_schemas_ok
      schemaHookLauncher_schemas_ok schemaGpuControl_schemas_ok schemaCuda_schemas_ok)

subsection \<open>Schemas by their ids\<close>

definition layout_by_id :: "nat \<Rightarrow> layout option" where
  "layout_by_id i = Option.bind (find (\<lambda>s. schema_id s = i) all_structs) layout_of"

fun header_layout :: "(nat \<times> layout) list \<Rightarrow> nat \<Rightarrow> layout option" where
  "header_layout [] i = None"
| "header_layout ((k, l) # hs) i = (if k = i then Some l else header_layout hs i)"

lemma find_layouts:
  "map (\<lambda>s. (schema_id s, layout_of s)) ss = map (\<lambda>(i, l). (i, Some l)) hs \<Longrightarrow>
     Option.bind (find (\<lambda>s. schema_id s = i) ss) layout_of = header_layout hs i"
proof (induction ss arbitrary: hs)
  case (Cons s ss)
  then obtain k l hs' where "hs = (k, l) # hs'" "schema_id s = k" "layout_of s = Some l"
    "map (\<lambda>s. (schema_id s, layout_of s)) ss = map (\<lambda>(i, l). (i, Some l)) hs'"
    by (cases hs) auto
  then show ?case using Cons.IH [of hs'] by auto
qed simp

lemma layout_by_id: "layout_by_id i = header_layout all_headers i"
  unfolding layout_by_id_def by (rule find_layouts) (rule all_structs_layouts)

subsection \<open>Interfaces\<close>

text \<open>
  A schema of an interface agrees with the request stubs when it has the interface's id and its
  methods are, in the order of their numbers, those of the stubs by name, with schemas of
  parameters and results that describe the types the stubs pass.
\<close>

definition interface_agrees :: "raw_schema \<Rightarrow> ('m \<Rightarrow> string) \<Rightarrow> ('m \<Rightarrow> rpc_call) \<Rightarrow> 'm list \<Rightarrow> bool" where
  "interface_agrees s name request ms \<longleftrightarrow>
     map_option (map (\<lambda>(n, p, r). (n, layout_by_id p, layout_by_id r))) (methods_of s) =
       Some (map (\<lambda>m. (name_octets (name m), Some (call_params (request m)), Some (call_results (request m)))) ms) \<and>
     map (\<lambda>m. (call_interface (request m), call_method (request m))) ms =
       map (\<lambda>k. (of_nat (schema_id s), of_nat k)) [0..<length ms]"

lemmas layout_lookup = layout_by_id [unfolded all_headers_def all_headers_defs append.simps]

lemma header_layout_cong: "k = j \<Longrightarrow> header_layout hs k = header_layout hs j"
  by simp

lemmas agree_simps = interface_agrees_def describe_table layout_lookup newCall_def name_octets_def upt_rec

lemma launcher_agrees: "interface_agrees s_b5d15336d30e0dd1 launcher_name launcher_request launcher_methods"
  by (simp add: agree_simps s_b5d15336d30e0dd1_def b_b5d15336d30e0dd1_node launcher_methods_def
      cong: header_layout_cong)

lemma scheduler_agrees: "interface_agrees s_ef8cb4fe563986d6 scheduler_name scheduler_request scheduler_methods"
  by (simp add: agree_simps s_ef8cb4fe563986d6_def b_ef8cb4fe563986d6_node scheduler_methods_def
      cong: header_layout_cong)

lemma cuda_agrees: "interface_agrees s_d909ac68956b8ff9 cuda_name cuda_request cuda_methods"
  by (simp add: agree_simps s_d909ac68956b8ff9_def b_d909ac68956b8ff9_node cuda_methods_def
      cong: header_layout_cong)

lemma all_methods_listed:
  "set launcher_methods = UNIV" "set scheduler_methods = UNIV" "set cuda_methods = UNIV"
  subgoal by (auto simp: launcher_methods_def) (metis launcher_method.exhaust)
  subgoal by (auto simp: scheduler_methods_def) (metis scheduler_method.exhaust)
  subgoal by (auto simp: cuda_methods_def) (metis cuda_method.exhaust)
  done

subsection \<open>Ids and dependencies\<close>

lemma all_ids_distinct: "distinct (map schema_id all_schemas)"
  by (simp add: all_schemas_def schemaCommon_ids schemaMemcopy_ids schemaKernel_ids schemaHookLauncher_ids
      schemaGpuControl_ids schemaCuda_ids)

lemma all_dependencies_known:
  "list_all (\<lambda>s. list_all (\<lambda>d. d \<in> set (map schema_id all_schemas)) (schema_deps s)) all_schemas"
proof -
  have "list_all (\<lambda>s. list_all (\<lambda>d. d \<in> set ids) (schema_deps s)) all_schemas"
    if "ids = map schema_id all_schemas" for ids
    unfolding that all_schemas_def map_append schemaCommon_ids schemaMemcopy_ids schemaKernel_ids
      schemaHookLauncher_ids schemaGpuControl_ids schemaCuda_ids
    by (simp add: schemaCommon_defs schemaMemcopy_defs schemaKernel_defs schemaHookLauncher_defs
        schemaGpuControl_defs schemaCuda_defs)
  then show ?thesis by blast
qed

subsection \<open>Enums\<close>

definition all_enums :: "(raw_schema \<times> string list) list" where
  "all_enums = [(s_fd380f7aa4b3077d, ErrorCode_enumerators), (s_c3bb3604f88eea81, TransferDirection_enumerators),
     (s_b1846500d8538ab3, OperationType_enumerators), (s_9c484a39a5aec725, ParamType_enumerators),
     (s_faacf17de2174649, MemoryType_enumerators), (s_98b4ed7091b72c0c, TransportType_enumerators),
     (s_a43a7ddd2d9aa498, PathType_enumerators), (s_a2673bfae409e7a5, MemType_enumerators)]"

subsection \<open>Properties\<close>

text \<open>
  The tables are well-formed: in each of the 113 schemas the node has the stated size and
  decodes to the stated id, every default has the type of its field, the listed dependencies are
  strictly ordered and exactly the ids the node refers to, the order by name lists every member
  once, strictly ordered by name, and the order by discriminant lists union members first. All
  ids are different, and every dependency is the id of one of the schemas.
\<close>

theorem schemas_are_well_formed:
  "list_all schema_ok all_schemas \<and> distinct (map schema_id all_schemas) \<and>
   list_all (\<lambda>s. list_all (\<lambda>d. d \<in> set (map schema_id all_schemas)) (schema_deps s)) all_schemas"
  by (intro conjI all_schemas_ok all_ids_distinct all_dependencies_known)

text \<open>
  C17. The embedded schemas describe the generated code: the schema of every struct has the id of its
  header and decodes to exactly the layout of the accessors, that is, the same sections and, field by
  field, the same widths, offsets, defaults and pointer indices; the enumerants of every enum,
  in upper snake case, are the enumerators of the header, in their order.
\<close>

theorem schemas_describe_the_accessors:
  "map (\<lambda>s. (schema_id s, layout_of s)) all_structs = map (\<lambda>(i, l). (i, Some l)) all_headers \<and>
   map (\<lambda>(s, names). map_option (map upper_snake) (enumerants_of s)) all_enums =
     map (\<lambda>(s, names). Some (map name_octets names)) all_enums"
  by (intro conjI all_structs_layouts)
    (simp add: all_enums_def s_fd380f7aa4b3077d_enumerants s_c3bb3604f88eea81_enumerants
      s_b1846500d8538ab3_enumerants s_9c484a39a5aec725_enumerants s_faacf17de2174649_enumerants
      s_98b4ed7091b72c0c_enumerants s_a43a7ddd2d9aa498_enumerants s_a2673bfae409e7a5_enumerants)

text \<open>
  The schemas of the three interfaces agree with the request stubs: the methods a schema lists
  are the stubs of the same name in the order of their numbers, under the schema's id, and the
  schemas of parameters and results that it refers to describe exactly the layouts of the types the
  stubs pass. Every method of the generated server is among them.
\<close>

theorem interface_schemas_agree_with_stubs:
  "interface_agrees s_b5d15336d30e0dd1 launcher_name launcher_request launcher_methods \<and>
   interface_agrees s_ef8cb4fe563986d6 scheduler_name scheduler_request scheduler_methods \<and>
   interface_agrees s_d909ac68956b8ff9 cuda_name cuda_request cuda_methods \<and>
   set launcher_methods = UNIV \<and> set scheduler_methods = UNIV \<and> set cuda_methods = UNIV"
  by (intro conjI launcher_agrees scheduler_agrees cuda_agrees all_methods_listed)

end
