(* ===== verification/Classes.thy ===== *)
theory Classes
  imports Schema
begin

section \<open>Generated classes\<close>

text \<open>
  \<open>proto/proto/*.capnp.h\<close>: the classes that are generated for a struct, and what a schema
  prescribes for them. A class is its frame (what it is a class of, its constructors and conversions,
  what it holds and whom it lets in) and its accessors by field, in the order of the source; the theories \<open>ClassCommon\<close> to \<open>ClassCuda\<close> hold the classes. Names of types are those of
  C++, found by the id of their schema.
\<close>

datatype cxx_type = CxxVoid | CxxBool | CxxInt nat | CxxUInt nat | CxxFloat nat | CxxText | CxxData
  | CxxNamed string | CxxList cxx_type | CxxOther nat

text \<open>
  \<open>isX()\<close>, \<open>hasX()\<close>, \<open>getX()\<close>, \<open>setX(value)\<close>, \<open>setX\<close> of an array, \<open>initX()\<close>, \<open>initX(size)\<close>, \<open>adoptX(orphan)\<close>
  and \<open>disownX()\<close>.
\<close>

datatype accessor = Is | Has | Get | Set | SetArray | Init | InitSized | Adopt | Disown

text \<open>
  The declarations of a frame: the alias of the struct, constructors (defaulted, deleted, from null,
  from the runtime's object), the conversion of a builder into a reader by operator and by name, the
  size and the text of a message, the runtime's object that is held, and the friends.
\<close>

datatype frame_decl =
    Alias string | DefaultCtor | DeletedCtor | FromNull | FromStructReader | FromStructBuilder | FromTypeless
  | ToReader | AsReader | TotalSize | ToStringTree | Holds string | Befriends string

record 'n class_frame =
  frame_struct :: 'n
  frame_public :: "frame_decl list"
  frame_private :: "frame_decl list"

definition reader_frame :: "'n \<Rightarrow> 'n class_frame" where
  "reader_frame n = \<lparr>frame_struct = n,
     frame_public = [Alias ''Reads'', DefaultCtor, FromStructReader, TotalSize, ToStringTree],
     frame_private = [Holds ''StructReader'', Befriends ''ToDynamic_'', Befriends ''PointerHelpers'', Befriends ''List'',
       Befriends ''MessageBuilder'', Befriends ''Orphanage'']\<rparr>"

definition builder_frame :: "'n \<Rightarrow> 'n class_frame" where
  "builder_frame n = \<lparr>frame_struct = n,
     frame_public = [Alias ''Builds'', DeletedCtor, FromNull, FromStructBuilder, ToReader, AsReader, TotalSize, ToStringTree],
     frame_private = [Holds ''StructBuilder'', Befriends ''ToDynamic_'', Befriends ''Orphanage'', Befriends ''PointerHelpers'']\<rparr>"

definition pipeline_frame :: "'n \<Rightarrow> 'n class_frame" where
  "pipeline_frame n = \<lparr>frame_struct = n,
     frame_public = [Alias ''Pipelines'', FromNull, FromTypeless],
     frame_private = [Holds ''AnyPointer::Pipeline'', Befriends ''PipelineHook'', Befriends ''ToDynamic_'']\<rparr>"

text \<open>
  What the functions of a frame do on the runtime's object \<open>w\<close> the class holds: a builder converts
  to a reader of the same object, and its size and text are those of that reader. Measuring and
  printing are the runtime's.
\<close>

datatype 'w frame_result = AReader 'w | ASize nat | AText string

fun run_frame :: "('w \<Rightarrow> nat) \<Rightarrow> ('w \<Rightarrow> string) \<Rightarrow> frame_decl \<Rightarrow> 'w \<Rightarrow> 'w frame_result option" where
  "run_frame size_of text_of ToReader w = Some (AReader w)"
| "run_frame size_of text_of AsReader w = Some (AReader w)"
| "run_frame size_of text_of TotalSize w = Some (ASize (size_of w))"
| "run_frame size_of text_of ToStringTree w = Some (AText (text_of w))"
| "run_frame size_of text_of _ w = None"

lemma builder_measures_as_its_reader:
  "d \<in> set (frame_public (builder_frame n)) \<Longrightarrow> run_frame size_of text_of d w = Some r \<Longrightarrow>
     r = AReader w \<or> (d \<in> set (frame_public (reader_frame n)) \<and> run_frame size_of text_of d w = Some r)"
  by (auto simp: builder_frame_def reader_frame_def)

text \<open>The frame, whether the class has \<open>which()\<close>, and its accessors with the name and the type of the field.\<close>

datatype 'n class_of = CxxClass "'n class_frame" bool "('n \<times> cxx_type \<times> accessor list) list"

type_synonym cxx_class = "string class_of"

type_synonym struct_classes = "cxx_class \<times> cxx_class \<times> cxx_class"

text \<open>The types that members have, by the id of the schema in the declaration of the type.\<close>

definition cxx_name :: "nat \<Rightarrow> string" where
  "cxx_name i = (
     if i = 0xbc6e6b03361a3588 then ''Ack''
     else if i = 0xf853fd580170b9de then ''AllocationPlan''
     else if i = 0x8e06bfe25704b493 then ''BandwidthResult''
     else if i = 0xdacf4c24bade7b94 then ''BatchKernelLaunch''
     else if i = 0xfd380f7aa4b3077d then ''ErrorCode''
     else if i = 0x92bc15fb0d1fcb65 then ''EventHandle''
     else if i = 0xa0142208ca8277e0 then ''EventParams''
     else if i = 0x846c49e52011ab72 then ''GpuInfo''
     else if i = 0xb5f8f6cc208cb766 then ''GpuList''
     else if i = 0xe4f103179b354701 then ''GpuRequest''
     else if i = 0xbfb92316876e4204 then ''GpuStatus''
     else if i = 0xe6e79a5e90788fe9 then ''ID''
     else if i = 0xe75f86cc94035b6a then ''KernelLaunch''
     else if i = 0xf534929fc869aa1f then ''KernelParam''
     else if i = 0xa2673bfae409e7a5 then ''MemType''
     else if i = 0xaa64c42860eecf63 then ''MemcpyParams''
     else if i = 0xddb256ee5b6b53b3 then ''MemcpyPlan''
     else if i = 0xa3736725e03665aa then ''MemoryHandle''
     else if i = 0xfaacf17de2174649 then ''MemoryType''
     else if i = 0xc14cec50de3b170f then ''Metadata''
     else if i = 0xada0409ba8ac33f9 then ''Metrics''
     else if i = 0xb2bde6a78c1a0cb4 then ''MultiGpuRequest''
     else if i = 0xe512d381fed0aa2e then ''NodeInfo''
     else if i = 0xeb7186a22c3fa0de then ''NodeStatus''
     else if i = 0xb1846500d8538ab3 then ''OperationType''
     else if i = 0x9c484a39a5aec725 then ''ParamType''
     else if i = 0xd55a8aa154796958 then ''Path''
     else if i = 0xa43a7ddd2d9aa498 then ''PathType''
     else if i = 0xbfbb01f7c22a476e then ''RdmaEndpoint''
     else if i = 0xe99466c69afeb3b6 then ''RdmaPlan''
     else if i = 0x9b94a9ab05aba83b then ''Response''
     else if i = 0xb94f7935e9a4d8a6 then ''RunRequest''
     else if i = 0xd50832f599bb96f4 then ''RunResponse''
     else if i = 0xc0356e53706dd651 then ''Step''
     else if i = 0x9de7a50f41d4cbd0 then ''StreamCreateParams''
     else if i = 0xddb50ac56f50ec53 then ''StreamHandle''
     else if i = 0x9067a75daac545ad then ''TaskStatus''
     else if i = 0xc3bb3604f88eea81 then ''TransferDirection''
     else if i = 0x98b4ed7091b72c0c then ''TransportType''
     else [])"

lemma cxx_name_of:
  "cxx_name 0xbc6e6b03361a3588 = ''Ack''"
  "cxx_name 0xf853fd580170b9de = ''AllocationPlan''"
  "cxx_name 0x8e06bfe25704b493 = ''BandwidthResult''"
  "cxx_name 0xdacf4c24bade7b94 = ''BatchKernelLaunch''"
  "cxx_name 0xfd380f7aa4b3077d = ''ErrorCode''"
  "cxx_name 0x92bc15fb0d1fcb65 = ''EventHandle''"
  "cxx_name 0xa0142208ca8277e0 = ''EventParams''"
  "cxx_name 0x846c49e52011ab72 = ''GpuInfo''"
  "cxx_name 0xb5f8f6cc208cb766 = ''GpuList''"
  "cxx_name 0xe4f103179b354701 = ''GpuRequest''"
  "cxx_name 0xbfb92316876e4204 = ''GpuStatus''"
  "cxx_name 0xe6e79a5e90788fe9 = ''ID''"
  "cxx_name 0xe75f86cc94035b6a = ''KernelLaunch''"
  "cxx_name 0xf534929fc869aa1f = ''KernelParam''"
  "cxx_name 0xa2673bfae409e7a5 = ''MemType''"
  "cxx_name 0xaa64c42860eecf63 = ''MemcpyParams''"
  "cxx_name 0xddb256ee5b6b53b3 = ''MemcpyPlan''"
  "cxx_name 0xa3736725e03665aa = ''MemoryHandle''"
  "cxx_name 0xfaacf17de2174649 = ''MemoryType''"
  "cxx_name 0xc14cec50de3b170f = ''Metadata''"
  "cxx_name 0xada0409ba8ac33f9 = ''Metrics''"
  "cxx_name 0xb2bde6a78c1a0cb4 = ''MultiGpuRequest''"
  "cxx_name 0xe512d381fed0aa2e = ''NodeInfo''"
  "cxx_name 0xeb7186a22c3fa0de = ''NodeStatus''"
  "cxx_name 0xb1846500d8538ab3 = ''OperationType''"
  "cxx_name 0x9c484a39a5aec725 = ''ParamType''"
  "cxx_name 0xd55a8aa154796958 = ''Path''"
  "cxx_name 0xa43a7ddd2d9aa498 = ''PathType''"
  "cxx_name 0xbfbb01f7c22a476e = ''RdmaEndpoint''"
  "cxx_name 0xe99466c69afeb3b6 = ''RdmaPlan''"
  "cxx_name 0x9b94a9ab05aba83b = ''Response''"
  "cxx_name 0xb94f7935e9a4d8a6 = ''RunRequest''"
  "cxx_name 0xd50832f599bb96f4 = ''RunResponse''"
  "cxx_name 0xc0356e53706dd651 = ''Step''"
  "cxx_name 0x9de7a50f41d4cbd0 = ''StreamCreateParams''"
  "cxx_name 0xddb50ac56f50ec53 = ''StreamHandle''"
  "cxx_name 0x9067a75daac545ad = ''TaskStatus''"
  "cxx_name 0xc3bb3604f88eea81 = ''TransferDirection''"
  "cxx_name 0x98b4ed7091b72c0c = ''TransportType''"
  by (simp_all add: cxx_name_def)

subsection \<open>What a schema prescribes\<close>

fun cxx_type_of :: "schema_type \<Rightarrow> cxx_type" where
  "cxx_type_of (Plain t) =
     (if t = 0 then CxxVoid else if t = 1 then CxxBool
      else if t = 2 then CxxInt 8 else if t = 3 then CxxInt 16 else if t = 4 then CxxInt 32 else if t = 5 then CxxInt 64
      else if t = 6 then CxxUInt 8 else if t = 7 then CxxUInt 16 else if t = 8 then CxxUInt 32
      else if t = 9 then CxxUInt 64 else if t = 10 then CxxFloat 32 else if t = 11 then CxxFloat 64
      else if t = 12 then CxxText else if t = 13 then CxxData else CxxOther t)"
| "cxx_type_of (Named t i) = CxxNamed (cxx_name i)"
| "cxx_type_of (ListOf t) = CxxList (cxx_type_of t)"

definition capital :: "nat list \<Rightarrow> nat list" where
  "capital bs = (case bs of [] \<Rightarrow> [] | b # cs \<Rightarrow> (if 97 \<le> b \<and> b \<le> 122 then b - 32 else b) # cs)"

text \<open>A list of structs can only be set from another list, other lists from an array too.\<close>

fun set_from_array :: "schema_type \<Rightarrow> bool" where
  "set_from_array (ListOf t) = (type_tag t \<noteq> 16)"
| "set_from_array _ = False"

definition reader_accessors :: "schema_field \<Rightarrow> accessor list" where
  "reader_accessors f = (if sf_discriminant f = 65535 then [] else [Is]) @
     (if is_pointer (sf_type f) then [Has] else []) @ [Get]"

definition builder_accessors :: "schema_field \<Rightarrow> accessor list" where
  "builder_accessors f = reader_accessors f @ [Set] @ (if set_from_array (sf_type f) then [SetArray] else []) @
     (if is_pointer (sf_type f) then [if type_tag (sf_type f) = 16 then Init else InitSized, Adopt, Disown] else [])"

definition member_of :: "(schema_field \<Rightarrow> accessor list) \<Rightarrow> schema_field \<Rightarrow> nat list \<times> cxx_type \<times> accessor list" where
  "member_of accessors f = (capital (sf_name f), cxx_type_of (sf_type f), accessors f)"

text \<open>
  The name of a class from the name a node displays: without the file, each part of the path
  capitalised, and the mark before \<open>Params\<close> and \<open>Results\<close> left out.
\<close>

definition node_name :: "table \<Rightarrow> nat list option" where
  "node_name t = Option.bind (struct_at t 0) (\<lambda>r. text_at t (fst r + fst (snd r)))"

fun cxx_path :: "bool \<Rightarrow> nat list \<Rightarrow> nat list" where
  "cxx_path up [] = []"
| "cxx_path up (b # bs) =
     (if b = 46 then 58 # 58 # cxx_path True bs
      else if b = 36 then cxx_path False bs
      else (if up \<and> 97 \<le> b \<and> b \<le> 122 then b - 32 else b) # cxx_path False bs)"

definition class_name :: "nat list \<Rightarrow> nat list" where
  "class_name bs = cxx_path False (drop 1 (dropWhile (\<lambda>b. b \<noteq> 58) bs))"

text \<open>A pipeline has a getter for every field that is a struct.\<close>

fun body_classes :: "nat list \<Rightarrow> schema_body \<Rightarrow> (nat list class_of \<times> nat list class_of \<times> nat list class_of) option" where
  "body_classes n (StructBody ds ps u fs) = Some
     (CxxClass (reader_frame n) (u \<noteq> None) (map (member_of reader_accessors) fs),
      CxxClass (builder_frame n) (u \<noteq> None) (map (member_of builder_accessors) fs),
      CxxClass (pipeline_frame n) False (map (member_of (\<lambda>_. [Get])) (filter (\<lambda>f. type_tag (sf_type f) = 16) fs)))"
| "body_classes n (EnumBody es) = None"
| "body_classes n (InterfaceBody ms) = None"

definition classes_of :: "raw_schema \<Rightarrow> (nat list class_of \<times> nat list class_of \<times> nat list class_of) option" where
  "classes_of s = Option.bind (map_option class_name (node_name (schema_node s))) (\<lambda>n.
     Option.bind (read_node (schema_node s)) (\<lambda>(i, body). body_classes n body))"

fun octet_class :: "cxx_class \<Rightarrow> nat list class_of" where
  "octet_class (CxxClass f w ms) = CxxClass
     \<lparr>frame_struct = name_octets (frame_struct f), frame_public = frame_public f, frame_private = frame_private f\<rparr>
     w (map (\<lambda>(n, ty, as). (name_octets n, ty, as)) ms)"

definition octet_classes :: "struct_classes \<Rightarrow> nat list class_of \<times> nat list class_of \<times> nat list class_of" where
  "octet_classes c = (octet_class (fst c), octet_class (fst (snd c)), octet_class (snd (snd c)))"

lemmas derive_classes = classes_of_def sfield_def member_of_def capital_def reader_accessors_def builder_accessors_def
  is_pointer_def name_octets_def cxx_name_of reader_frame_def builder_frame_def pipeline_frame_def

lemmas derive_name = node_name_def class_name_def read_table name_octets_def

end
