(* ===== verification/ClassCommon.thy ===== *)
theory ClassCommon
  imports Classes SchemaCommon
begin

section \<open>The classes of common.capnp\<close>

text \<open>
  \<open>proto/proto/common.capnp.h\<close>: the reader, the builder and the pipeline of every struct, with the
  accessors they declare, in their order.
\<close>

text \<open>\<open>ID\<close>\<close>

definition ID_reader :: cxx_class where
  "ID_reader = CxxClass (reader_frame ''ID'') True [
     (''Uuid'', CxxText, [Is, Has, Get]), (''Handle'', CxxUInt 64, [Is, Get])]"
definition ID_builder :: cxx_class where
  "ID_builder = CxxClass (builder_frame ''ID'') True [
     (''Uuid'', CxxText, [Is, Has, Get, Set, InitSized, Adopt, Disown]),
     (''Handle'', CxxUInt 64, [Is, Get, Set])]"
definition ID_pipeline :: cxx_class where
  "ID_pipeline = CxxClass (pipeline_frame ''ID'') False []"

lemma b_e6e79a5e90788fe9_name: "map_option class_name (node_name b_e6e79a5e90788fe9) = Some (name_octets ''ID'')"
  by (simp add: b_e6e79a5e90788fe9_def derive_name cong: table_congs bind_head_cong)

lemma ID_classes: "classes_of s_e6e79a5e90788fe9 = Some (octet_class ID_reader, octet_class ID_builder, octet_class ID_pipeline)"
  by (simp add: s_e6e79a5e90788fe9_def b_e6e79a5e90788fe9_node b_e6e79a5e90788fe9_name derive_classes ID_reader_def ID_builder_def ID_pipeline_def)

text \<open>\<open>Ack\<close>\<close>

definition Ack_reader :: cxx_class where
  "Ack_reader = CxxClass (reader_frame ''Ack'') False [
     (''Ok'', CxxBool, [Get]), (''Msg'', CxxText, [Has, Get]),
     (''Code'', CxxNamed ''ErrorCode'', [Get])]"
definition Ack_builder :: cxx_class where
  "Ack_builder = CxxClass (builder_frame ''Ack'') False [
     (''Ok'', CxxBool, [Get, Set]), (''Msg'', CxxText, [Has, Get, Set, InitSized, Adopt, Disown]),
     (''Code'', CxxNamed ''ErrorCode'', [Get, Set])]"
definition Ack_pipeline :: cxx_class where
  "Ack_pipeline = CxxClass (pipeline_frame ''Ack'') False []"

lemma b_bc6e6b03361a3588_name: "map_option class_name (node_name b_bc6e6b03361a3588) = Some (name_octets ''Ack'')"
  by (simp add: b_bc6e6b03361a3588_def derive_name cong: table_congs bind_head_cong)

lemma Ack_classes: "classes_of s_bc6e6b03361a3588 = Some (octet_class Ack_reader, octet_class Ack_builder, octet_class Ack_pipeline)"
  by (simp add: s_bc6e6b03361a3588_def b_bc6e6b03361a3588_node b_bc6e6b03361a3588_name derive_classes Ack_reader_def Ack_builder_def Ack_pipeline_def)

text \<open>\<open>GpuInfo\<close>\<close>

definition GpuInfo_reader :: cxx_class where
  "GpuInfo_reader = CxxClass (reader_frame ''GpuInfo'') False [
     (''Id'', CxxNamed ''ID'', [Has, Get]), (''Name'', CxxText, [Has, Get]),
     (''TotalMemory'', CxxInt 64, [Get]), (''Metadata'', CxxNamed ''Metadata'', [Has, Get])]"
definition GpuInfo_builder :: cxx_class where
  "GpuInfo_builder = CxxClass (builder_frame ''GpuInfo'') False [
     (''Id'', CxxNamed ''ID'', [Has, Get, Set, Init, Adopt, Disown]),
     (''Name'', CxxText, [Has, Get, Set, InitSized, Adopt, Disown]),
     (''TotalMemory'', CxxInt 64, [Get, Set]),
     (''Metadata'', CxxNamed ''Metadata'', [Has, Get, Set, Init, Adopt, Disown])]"
definition GpuInfo_pipeline :: cxx_class where
  "GpuInfo_pipeline = CxxClass (pipeline_frame ''GpuInfo'') False [
     (''Id'', CxxNamed ''ID'', [Get]), (''Metadata'', CxxNamed ''Metadata'', [Get])]"

lemma b_846c49e52011ab72_name: "map_option class_name (node_name b_846c49e52011ab72) = Some (name_octets ''GpuInfo'')"
  by (simp add: b_846c49e52011ab72_def derive_name cong: table_congs bind_head_cong)

lemma GpuInfo_classes: "classes_of s_846c49e52011ab72 = Some (octet_class GpuInfo_reader, octet_class GpuInfo_builder, octet_class GpuInfo_pipeline)"
  by (simp add: s_846c49e52011ab72_def b_846c49e52011ab72_node b_846c49e52011ab72_name derive_classes GpuInfo_reader_def GpuInfo_builder_def GpuInfo_pipeline_def)

text \<open>\<open>Metadata\<close>\<close>

definition Metadata_reader :: cxx_class where
  "Metadata_reader = CxxClass (reader_frame ''Metadata'') False [
     (''NumaAffinity'', CxxInt 32, [Get]), (''GdrSupport'', CxxBool, [Get])]"
definition Metadata_builder :: cxx_class where
  "Metadata_builder = CxxClass (builder_frame ''Metadata'') False [
     (''NumaAffinity'', CxxInt 32, [Get, Set]), (''GdrSupport'', CxxBool, [Get, Set])]"
definition Metadata_pipeline :: cxx_class where
  "Metadata_pipeline = CxxClass (pipeline_frame ''Metadata'') False []"

lemma b_c14cec50de3b170f_name: "map_option class_name (node_name b_c14cec50de3b170f) = Some (name_octets ''Metadata'')"
  by (simp add: b_c14cec50de3b170f_def derive_name cong: table_congs bind_head_cong)

lemma Metadata_classes: "classes_of s_c14cec50de3b170f = Some (octet_class Metadata_reader, octet_class Metadata_builder, octet_class Metadata_pipeline)"
  by (simp add: s_c14cec50de3b170f_def b_c14cec50de3b170f_node b_c14cec50de3b170f_name derive_classes Metadata_reader_def Metadata_builder_def Metadata_pipeline_def)

text \<open>\<open>MemoryHandle\<close>\<close>

definition MemoryHandle_reader :: cxx_class where
  "MemoryHandle_reader = CxxClass (reader_frame ''MemoryHandle'') False [
     (''Id'', CxxNamed ''ID'', [Has, Get]), (''Size'', CxxUInt 64, [Get]),
     (''NodeId'', CxxUInt 32, [Get])]"
definition MemoryHandle_builder :: cxx_class where
  "MemoryHandle_builder = CxxClass (builder_frame ''MemoryHandle'') False [
     (''Id'', CxxNamed ''ID'', [Has, Get, Set, Init, Adopt, Disown]),
     (''Size'', CxxUInt 64, [Get, Set]), (''NodeId'', CxxUInt 32, [Get, Set])]"
definition MemoryHandle_pipeline :: cxx_class where
  "MemoryHandle_pipeline = CxxClass (pipeline_frame ''MemoryHandle'') False [
     (''Id'', CxxNamed ''ID'', [Get])]"

lemma b_a3736725e03665aa_name: "map_option class_name (node_name b_a3736725e03665aa) = Some (name_octets ''MemoryHandle'')"
  by (simp add: b_a3736725e03665aa_def derive_name cong: table_congs bind_head_cong)

lemma MemoryHandle_classes: "classes_of s_a3736725e03665aa = Some (octet_class MemoryHandle_reader, octet_class MemoryHandle_builder, octet_class MemoryHandle_pipeline)"
  by (simp add: s_a3736725e03665aa_def b_a3736725e03665aa_node b_a3736725e03665aa_name derive_classes MemoryHandle_reader_def MemoryHandle_builder_def MemoryHandle_pipeline_def)

text \<open>\<open>Response\<close>\<close>

definition Response_reader :: cxx_class where
  "Response_reader = CxxClass (reader_frame ''Response'') False [
     (''Success'', CxxBool, [Get]), (''Data'', CxxData, [Has, Get]),
     (''Error'', CxxNamed ''ErrorCode'', [Get]), (''Message'', CxxText, [Has, Get])]"
definition Response_builder :: cxx_class where
  "Response_builder = CxxClass (builder_frame ''Response'') False [
     (''Success'', CxxBool, [Get, Set]),
     (''Data'', CxxData, [Has, Get, Set, InitSized, Adopt, Disown]),
     (''Error'', CxxNamed ''ErrorCode'', [Get, Set]),
     (''Message'', CxxText, [Has, Get, Set, InitSized, Adopt, Disown])]"
definition Response_pipeline :: cxx_class where
  "Response_pipeline = CxxClass (pipeline_frame ''Response'') False []"

lemma b_9b94a9ab05aba83b_name: "map_option class_name (node_name b_9b94a9ab05aba83b) = Some (name_octets ''Response'')"
  by (simp add: b_9b94a9ab05aba83b_def derive_name cong: table_congs bind_head_cong)

lemma Response_classes: "classes_of s_9b94a9ab05aba83b = Some (octet_class Response_reader, octet_class Response_builder, octet_class Response_pipeline)"
  by (simp add: s_9b94a9ab05aba83b_def b_9b94a9ab05aba83b_node b_9b94a9ab05aba83b_name derive_classes Response_reader_def Response_builder_def Response_pipeline_def)

subsection \<open>All of them\<close>

definition classCommon_classes :: "(nat \<times> struct_classes) list" where
  "classCommon_classes = [
     (0xe6e79a5e90788fe9, ID_reader, ID_builder, ID_pipeline),
     (0xbc6e6b03361a3588, Ack_reader, Ack_builder, Ack_pipeline),
     (0x846c49e52011ab72, GpuInfo_reader, GpuInfo_builder, GpuInfo_pipeline),
     (0xc14cec50de3b170f, Metadata_reader, Metadata_builder, Metadata_pipeline),
     (0xa3736725e03665aa, MemoryHandle_reader, MemoryHandle_builder, MemoryHandle_pipeline),
     (0x9b94a9ab05aba83b, Response_reader, Response_builder, Response_pipeline)]"

lemma classCommon_structs_classes:
  "map (\<lambda>s. (schema_id s, classes_of s)) schemaCommon_structs = map (\<lambda>(i, c). (i, Some (octet_classes c))) classCommon_classes"
  by (simp add: schemaCommon_structs_def classCommon_classes_def octet_classes_def
      ID_classes s_e6e79a5e90788fe9_id Ack_classes s_bc6e6b03361a3588_id
      GpuInfo_classes s_846c49e52011ab72_id Metadata_classes s_c14cec50de3b170f_id
      MemoryHandle_classes s_a3736725e03665aa_id Response_classes s_9b94a9ab05aba83b_id)

end
