(* ===== verification/ClassMemcopy.thy ===== *)
theory ClassMemcopy
  imports Classes SchemaMemcopy
begin

section \<open>The classes of memcopy.capnp\<close>

text \<open>
  \<open>proto/proto/memcopy.capnp.h\<close>: the reader, the builder and the pipeline of every struct, with the
  accessors they declare, in their order.
\<close>

text \<open>\<open>RdmaEndpoint\<close>\<close>

definition RdmaEndpoint_reader :: cxx_class where
  "RdmaEndpoint_reader = CxxClass (reader_frame ''RdmaEndpoint'') False [
     (''Ip'', CxxText, [Has, Get]), (''Port'', CxxUInt 16, [Get]), (''Gid'', CxxData, [Has, Get]),
     (''Key'', CxxUInt 32, [Get])]"
definition RdmaEndpoint_builder :: cxx_class where
  "RdmaEndpoint_builder = CxxClass (builder_frame ''RdmaEndpoint'') False [
     (''Ip'', CxxText, [Has, Get, Set, InitSized, Adopt, Disown]),
     (''Port'', CxxUInt 16, [Get, Set]),
     (''Gid'', CxxData, [Has, Get, Set, InitSized, Adopt, Disown]),
     (''Key'', CxxUInt 32, [Get, Set])]"
definition RdmaEndpoint_pipeline :: cxx_class where
  "RdmaEndpoint_pipeline = CxxClass (pipeline_frame ''RdmaEndpoint'') False []"

lemma b_bfbb01f7c22a476e_name: "map_option class_name (node_name b_bfbb01f7c22a476e) = Some (name_octets ''RdmaEndpoint'')"
  by (simp add: b_bfbb01f7c22a476e_def derive_name cong: table_congs bind_head_cong)

lemma RdmaEndpoint_classes: "classes_of s_bfbb01f7c22a476e = Some (octet_class RdmaEndpoint_reader, octet_class RdmaEndpoint_builder, octet_class RdmaEndpoint_pipeline)"
  by (simp add: s_bfbb01f7c22a476e_def b_bfbb01f7c22a476e_node b_bfbb01f7c22a476e_name derive_classes RdmaEndpoint_reader_def RdmaEndpoint_builder_def RdmaEndpoint_pipeline_def)

text \<open>\<open>RdmaPlan\<close>\<close>

definition RdmaPlan_reader :: cxx_class where
  "RdmaPlan_reader = CxxClass (reader_frame ''RdmaPlan'') False [
     (''Success'', CxxBool, [Get]), (''SrcAddr'', CxxUInt 64, [Get]),
     (''SrcKey'', CxxUInt 32, [Get]), (''DstAddr'', CxxUInt 64, [Get]),
     (''DstKey'', CxxUInt 32, [Get])]"
definition RdmaPlan_builder :: cxx_class where
  "RdmaPlan_builder = CxxClass (builder_frame ''RdmaPlan'') False [
     (''Success'', CxxBool, [Get, Set]), (''SrcAddr'', CxxUInt 64, [Get, Set]),
     (''SrcKey'', CxxUInt 32, [Get, Set]), (''DstAddr'', CxxUInt 64, [Get, Set]),
     (''DstKey'', CxxUInt 32, [Get, Set])]"
definition RdmaPlan_pipeline :: cxx_class where
  "RdmaPlan_pipeline = CxxClass (pipeline_frame ''RdmaPlan'') False []"

lemma b_e99466c69afeb3b6_name: "map_option class_name (node_name b_e99466c69afeb3b6) = Some (name_octets ''RdmaPlan'')"
  by (simp add: b_e99466c69afeb3b6_def derive_name cong: table_congs bind_head_cong)

lemma RdmaPlan_classes: "classes_of s_e99466c69afeb3b6 = Some (octet_class RdmaPlan_reader, octet_class RdmaPlan_builder, octet_class RdmaPlan_pipeline)"
  by (simp add: s_e99466c69afeb3b6_def b_e99466c69afeb3b6_node b_e99466c69afeb3b6_name derive_classes RdmaPlan_reader_def RdmaPlan_builder_def RdmaPlan_pipeline_def)

text \<open>\<open>MemoryOp\<close>\<close>

definition MemoryOp_reader :: cxx_class where
  "MemoryOp_reader = CxxClass (reader_frame ''MemoryOp'') False [
     (''Type'', CxxNamed ''OperationType'', [Get]),
     (''Target'', CxxNamed ''MemoryHandle'', [Has, Get]),
     (''Source'', CxxNamed ''MemoryHandle'', [Has, Get]), (''Value'', CxxUInt 8, [Get]),
     (''Data'', CxxData, [Has, Get]), (''Checksum'', CxxUInt 32, [Get]),
     (''Endpoint'', CxxNamed ''RdmaEndpoint'', [Has, Get]), (''Flags'', CxxUInt 32, [Get])]"
definition MemoryOp_builder :: cxx_class where
  "MemoryOp_builder = CxxClass (builder_frame ''MemoryOp'') False [
     (''Type'', CxxNamed ''OperationType'', [Get, Set]),
     (''Target'', CxxNamed ''MemoryHandle'', [Has, Get, Set, Init, Adopt, Disown]),
     (''Source'', CxxNamed ''MemoryHandle'', [Has, Get, Set, Init, Adopt, Disown]),
     (''Value'', CxxUInt 8, [Get, Set]),
     (''Data'', CxxData, [Has, Get, Set, InitSized, Adopt, Disown]),
     (''Checksum'', CxxUInt 32, [Get, Set]),
     (''Endpoint'', CxxNamed ''RdmaEndpoint'', [Has, Get, Set, Init, Adopt, Disown]),
     (''Flags'', CxxUInt 32, [Get, Set])]"
definition MemoryOp_pipeline :: cxx_class where
  "MemoryOp_pipeline = CxxClass (pipeline_frame ''MemoryOp'') False [
     (''Target'', CxxNamed ''MemoryHandle'', [Get]), (''Source'', CxxNamed ''MemoryHandle'', [Get]),
     (''Endpoint'', CxxNamed ''RdmaEndpoint'', [Get])]"

lemma b_cc682938866a54f1_name: "map_option class_name (node_name b_cc682938866a54f1) = Some (name_octets ''MemoryOp'')"
  by (simp add: b_cc682938866a54f1_def derive_name cong: table_congs bind_head_cong)

lemma MemoryOp_classes: "classes_of s_cc682938866a54f1 = Some (octet_class MemoryOp_reader, octet_class MemoryOp_builder, octet_class MemoryOp_pipeline)"
  by (simp add: s_cc682938866a54f1_def b_cc682938866a54f1_node b_cc682938866a54f1_name derive_classes MemoryOp_reader_def MemoryOp_builder_def MemoryOp_pipeline_def)

subsection \<open>All of them\<close>

definition classMemcopy_classes :: "(nat \<times> struct_classes) list" where
  "classMemcopy_classes = [
     (0xbfbb01f7c22a476e, RdmaEndpoint_reader, RdmaEndpoint_builder, RdmaEndpoint_pipeline),
     (0xe99466c69afeb3b6, RdmaPlan_reader, RdmaPlan_builder, RdmaPlan_pipeline),
     (0xcc682938866a54f1, MemoryOp_reader, MemoryOp_builder, MemoryOp_pipeline)]"

lemma classMemcopy_structs_classes:
  "map (\<lambda>s. (schema_id s, classes_of s)) schemaMemcopy_structs = map (\<lambda>(i, c). (i, Some (octet_classes c))) classMemcopy_classes"
  by (simp add: schemaMemcopy_structs_def classMemcopy_classes_def octet_classes_def
      RdmaEndpoint_classes s_bfbb01f7c22a476e_id RdmaPlan_classes s_e99466c69afeb3b6_id
      MemoryOp_classes s_cc682938866a54f1_id)

end
