(* ===== verification/ClassKernel.thy ===== *)
theory ClassKernel
  imports Classes SchemaKernel
begin

section \<open>The classes of kernel.capnp\<close>

text \<open>
  \<open>proto/proto/kernel.capnp.h\<close>: the reader, the builder and the pipeline of every struct, with the
  accessors they declare, in their order.
\<close>

text \<open>\<open>KernelParam\<close>\<close>

definition KernelParam_reader :: cxx_class where
  "KernelParam_reader = CxxClass (reader_frame ''KernelParam'') False [
     (''Type'', CxxNamed ''ParamType'', [Get]), (''Value'', CxxData, [Has, Get]),
     (''Offset'', CxxUInt 32, [Get]), (''Alignment'', CxxUInt 8, [Get])]"
definition KernelParam_builder :: cxx_class where
  "KernelParam_builder = CxxClass (builder_frame ''KernelParam'') False [
     (''Type'', CxxNamed ''ParamType'', [Get, Set]),
     (''Value'', CxxData, [Has, Get, Set, InitSized, Adopt, Disown]),
     (''Offset'', CxxUInt 32, [Get, Set]), (''Alignment'', CxxUInt 8, [Get, Set])]"
definition KernelParam_pipeline :: cxx_class where
  "KernelParam_pipeline = CxxClass (pipeline_frame ''KernelParam'') False []"

lemma b_f534929fc869aa1f_name: "map_option class_name (node_name b_f534929fc869aa1f) = Some (name_octets ''KernelParam'')"
  by (simp add: b_f534929fc869aa1f_def derive_name cong: table_congs bind_head_cong)

lemma KernelParam_classes: "classes_of s_f534929fc869aa1f = Some (octet_class KernelParam_reader, octet_class KernelParam_builder, octet_class KernelParam_pipeline)"
  by (simp add: s_f534929fc869aa1f_def b_f534929fc869aa1f_node b_f534929fc869aa1f_name derive_classes KernelParam_reader_def KernelParam_builder_def KernelParam_pipeline_def)

text \<open>\<open>KernelLaunch\<close>\<close>

definition KernelLaunch_reader :: cxx_class where
  "KernelLaunch_reader = CxxClass (reader_frame ''KernelLaunch'') False [
     (''Name'', CxxText, [Has, Get]), (''GridX'', CxxUInt 32, [Get]),
     (''GridY'', CxxUInt 32, [Get]), (''GridZ'', CxxUInt 32, [Get]),
     (''BlockX'', CxxUInt 32, [Get]), (''BlockY'', CxxUInt 32, [Get]),
     (''BlockZ'', CxxUInt 32, [Get]), (''SharedMem'', CxxUInt 32, [Get]),
     (''Params'', CxxList (CxxNamed ''KernelParam''), [Has, Get]),
     (''StreamHandle'', CxxUInt 64, [Get]), (''ParamBytes'', CxxUInt 32, [Get]),
     (''FuncHandle'', CxxUInt 64, [Get]), (''LaunchFlags'', CxxUInt 32, [Get])]"
definition KernelLaunch_builder :: cxx_class where
  "KernelLaunch_builder = CxxClass (builder_frame ''KernelLaunch'') False [
     (''Name'', CxxText, [Has, Get, Set, InitSized, Adopt, Disown]),
     (''GridX'', CxxUInt 32, [Get, Set]), (''GridY'', CxxUInt 32, [Get, Set]),
     (''GridZ'', CxxUInt 32, [Get, Set]), (''BlockX'', CxxUInt 32, [Get, Set]),
     (''BlockY'', CxxUInt 32, [Get, Set]), (''BlockZ'', CxxUInt 32, [Get, Set]),
     (''SharedMem'', CxxUInt 32, [Get, Set]),
     (''Params'', CxxList (CxxNamed ''KernelParam''), [Has, Get, Set, InitSized, Adopt, Disown]),
     (''StreamHandle'', CxxUInt 64, [Get, Set]), (''ParamBytes'', CxxUInt 32, [Get, Set]),
     (''FuncHandle'', CxxUInt 64, [Get, Set]), (''LaunchFlags'', CxxUInt 32, [Get, Set])]"
definition KernelLaunch_pipeline :: cxx_class where
  "KernelLaunch_pipeline = CxxClass (pipeline_frame ''KernelLaunch'') False []"

lemma b_e75f86cc94035b6a_name: "map_option class_name (node_name b_e75f86cc94035b6a) = Some (name_octets ''KernelLaunch'')"
  by (simp add: b_e75f86cc94035b6a_def derive_name cong: table_congs bind_head_cong)

lemma KernelLaunch_classes: "classes_of s_e75f86cc94035b6a = Some (octet_class KernelLaunch_reader, octet_class KernelLaunch_builder, octet_class KernelLaunch_pipeline)"
  by (simp add: s_e75f86cc94035b6a_def b_e75f86cc94035b6a_node b_e75f86cc94035b6a_name derive_classes KernelLaunch_reader_def KernelLaunch_builder_def KernelLaunch_pipeline_def)

subsection \<open>All of them\<close>

definition classKernel_classes :: "(nat \<times> struct_classes) list" where
  "classKernel_classes = [
     (0xf534929fc869aa1f, KernelParam_reader, KernelParam_builder, KernelParam_pipeline),
     (0xe75f86cc94035b6a, KernelLaunch_reader, KernelLaunch_builder, KernelLaunch_pipeline)]"

lemma classKernel_structs_classes:
  "map (\<lambda>s. (schema_id s, classes_of s)) schemaKernel_structs = map (\<lambda>(i, c). (i, Some (octet_classes c))) classKernel_classes"
  by (simp add: schemaKernel_structs_def classKernel_classes_def octet_classes_def
      KernelParam_classes s_f534929fc869aa1f_id KernelLaunch_classes s_e75f86cc94035b6a_id)

end
