(* ===== verification/ClassHookLauncher.thy ===== *)
theory ClassHookLauncher
  imports Classes SchemaHookLauncher
begin

section \<open>The classes of hook-launcher.capnp\<close>

text \<open>
  \<open>proto/proto/hook-launcher.capnp.h\<close>: the reader, the builder and the pipeline of every struct, with the
  accessors they declare, in their order.
\<close>

text \<open>\<open>MemcpyPlan\<close>\<close>

definition MemcpyPlan_reader :: cxx_class where
  "MemcpyPlan_reader = CxxClass (reader_frame ''MemcpyPlan'') False [
     (''TargetServerIp'', CxxText, [Has, Get]), (''TargetServerZmqPort'', CxxUInt 16, [Get]),
     (''Error'', CxxNamed ''ErrorCode'', [Get])]"
definition MemcpyPlan_builder :: cxx_class where
  "MemcpyPlan_builder = CxxClass (builder_frame ''MemcpyPlan'') False [
     (''TargetServerIp'', CxxText, [Has, Get, Set, InitSized, Adopt, Disown]),
     (''TargetServerZmqPort'', CxxUInt 16, [Get, Set]),
     (''Error'', CxxNamed ''ErrorCode'', [Get, Set])]"
definition MemcpyPlan_pipeline :: cxx_class where
  "MemcpyPlan_pipeline = CxxClass (pipeline_frame ''MemcpyPlan'') False []"

lemma b_ddb256ee5b6b53b3_name: "map_option class_name (node_name b_ddb256ee5b6b53b3) = Some (name_octets ''MemcpyPlan'')"
  by (simp add: b_ddb256ee5b6b53b3_def derive_name cong: table_congs bind_head_cong)

lemma MemcpyPlan_classes: "classes_of s_ddb256ee5b6b53b3 = Some (octet_class MemcpyPlan_reader, octet_class MemcpyPlan_builder, octet_class MemcpyPlan_pipeline)"
  by (simp add: s_ddb256ee5b6b53b3_def b_ddb256ee5b6b53b3_node b_ddb256ee5b6b53b3_name derive_classes MemcpyPlan_reader_def MemcpyPlan_builder_def MemcpyPlan_pipeline_def)

text \<open>\<open>NodeStatus\<close>\<close>

definition NodeStatus_reader :: cxx_class where
  "NodeStatus_reader = CxxClass (reader_frame ''NodeStatus'') False [
     (''Id'', CxxText, [Has, Get]), (''AvailableMemory'', CxxUInt 64, [Get]),
     (''GpuUtilization'', CxxFloat 32, [Get]), (''NetworkLatency'', CxxFloat 32, [Get]),
     (''NumaNode'', CxxUInt 32, [Get]), (''GpuCount'', CxxUInt 32, [Get]),
     (''RdmaSupport'', CxxBool, [Get])]"
definition NodeStatus_builder :: cxx_class where
  "NodeStatus_builder = CxxClass (builder_frame ''NodeStatus'') False [
     (''Id'', CxxText, [Has, Get, Set, InitSized, Adopt, Disown]),
     (''AvailableMemory'', CxxUInt 64, [Get, Set]), (''GpuUtilization'', CxxFloat 32, [Get, Set]),
     (''NetworkLatency'', CxxFloat 32, [Get, Set]), (''NumaNode'', CxxUInt 32, [Get, Set]),
     (''GpuCount'', CxxUInt 32, [Get, Set]), (''RdmaSupport'', CxxBool, [Get, Set])]"
definition NodeStatus_pipeline :: cxx_class where
  "NodeStatus_pipeline = CxxClass (pipeline_frame ''NodeStatus'') False []"

lemma b_eb7186a22c3fa0de_name: "map_option class_name (node_name b_eb7186a22c3fa0de) = Some (name_octets ''NodeStatus'')"
  by (simp add: b_eb7186a22c3fa0de_def derive_name cong: table_congs bind_head_cong)

lemma NodeStatus_classes: "classes_of s_eb7186a22c3fa0de = Some (octet_class NodeStatus_reader, octet_class NodeStatus_builder, octet_class NodeStatus_pipeline)"
  by (simp add: s_eb7186a22c3fa0de_def b_eb7186a22c3fa0de_node b_eb7186a22c3fa0de_name derive_classes NodeStatus_reader_def NodeStatus_builder_def NodeStatus_pipeline_def)

text \<open>\<open>AllocationPlan\<close>\<close>

definition AllocationPlan_reader :: cxx_class where
  "AllocationPlan_reader = CxxClass (reader_frame ''AllocationPlan'') False [
     (''TargetNodeId'', CxxUInt 32, [Get]), (''MemoryType'', CxxNamed ''MemoryType'', [Get]),
     (''TransportType'', CxxNamed ''TransportType'', [Get]), (''PrefetchHint'', CxxBool, [Get])]"
definition AllocationPlan_builder :: cxx_class where
  "AllocationPlan_builder = CxxClass (builder_frame ''AllocationPlan'') False [
     (''TargetNodeId'', CxxUInt 32, [Get, Set]),
     (''MemoryType'', CxxNamed ''MemoryType'', [Get, Set]),
     (''TransportType'', CxxNamed ''TransportType'', [Get, Set]),
     (''PrefetchHint'', CxxBool, [Get, Set])]"
definition AllocationPlan_pipeline :: cxx_class where
  "AllocationPlan_pipeline = CxxClass (pipeline_frame ''AllocationPlan'') False []"

lemma b_f853fd580170b9de_name: "map_option class_name (node_name b_f853fd580170b9de) = Some (name_octets ''AllocationPlan'')"
  by (simp add: b_f853fd580170b9de_def derive_name cong: table_congs bind_head_cong)

lemma AllocationPlan_classes: "classes_of s_f853fd580170b9de = Some (octet_class AllocationPlan_reader, octet_class AllocationPlan_builder, octet_class AllocationPlan_pipeline)"
  by (simp add: s_f853fd580170b9de_def b_f853fd580170b9de_node b_f853fd580170b9de_name derive_classes AllocationPlan_reader_def AllocationPlan_builder_def AllocationPlan_pipeline_def)

text \<open>\<open>HookLauncher::PlanMemcpyHtoDParams\<close>\<close>

definition HookLauncher_PlanMemcpyHtoDParams_reader :: cxx_class where
  "HookLauncher_PlanMemcpyHtoDParams_reader = CxxClass (reader_frame ''HookLauncher::PlanMemcpyHtoDParams'') False [
     (''DstHandle'', CxxNamed ''MemoryHandle'', [Has, Get]), (''Size'', CxxUInt 64, [Get])]"
definition HookLauncher_PlanMemcpyHtoDParams_builder :: cxx_class where
  "HookLauncher_PlanMemcpyHtoDParams_builder = CxxClass (builder_frame ''HookLauncher::PlanMemcpyHtoDParams'') False [
     (''DstHandle'', CxxNamed ''MemoryHandle'', [Has, Get, Set, Init, Adopt, Disown]),
     (''Size'', CxxUInt 64, [Get, Set])]"
definition HookLauncher_PlanMemcpyHtoDParams_pipeline :: cxx_class where
  "HookLauncher_PlanMemcpyHtoDParams_pipeline = CxxClass (pipeline_frame ''HookLauncher::PlanMemcpyHtoDParams'') False [
     (''DstHandle'', CxxNamed ''MemoryHandle'', [Get])]"

lemma b_a000d051b28a6d94_name: "map_option class_name (node_name b_a000d051b28a6d94) = Some (name_octets ''HookLauncher::PlanMemcpyHtoDParams'')"
  by (simp add: b_a000d051b28a6d94_def derive_name cong: table_congs bind_head_cong)

lemma HookLauncher_PlanMemcpyHtoDParams_classes: "classes_of s_a000d051b28a6d94 = Some (octet_class HookLauncher_PlanMemcpyHtoDParams_reader, octet_class HookLauncher_PlanMemcpyHtoDParams_builder, octet_class HookLauncher_PlanMemcpyHtoDParams_pipeline)"
  by (simp add: s_a000d051b28a6d94_def b_a000d051b28a6d94_node b_a000d051b28a6d94_name derive_classes HookLauncher_PlanMemcpyHtoDParams_reader_def HookLauncher_PlanMemcpyHtoDParams_builder_def HookLauncher_PlanMemcpyHtoDParams_pipeline_def)

text \<open>\<open>HookLauncher::PlanMemcpyHtoDResults\<close>\<close>

definition HookLauncher_PlanMemcpyHtoDResults_reader :: cxx_class where
  "HookLauncher_PlanMemcpyHtoDResults_reader = CxxClass (reader_frame ''HookLauncher::PlanMemcpyHtoDResults'') False [
     (''Plan'', CxxNamed ''MemcpyPlan'', [Has, Get])]"
definition HookLauncher_PlanMemcpyHtoDResults_builder :: cxx_class where
  "HookLauncher_PlanMemcpyHtoDResults_builder = CxxClass (builder_frame ''HookLauncher::PlanMemcpyHtoDResults'') False [
     (''Plan'', CxxNamed ''MemcpyPlan'', [Has, Get, Set, Init, Adopt, Disown])]"
definition HookLauncher_PlanMemcpyHtoDResults_pipeline :: cxx_class where
  "HookLauncher_PlanMemcpyHtoDResults_pipeline = CxxClass (pipeline_frame ''HookLauncher::PlanMemcpyHtoDResults'') False [
     (''Plan'', CxxNamed ''MemcpyPlan'', [Get])]"

lemma b_d9ccdb1e5a73a940_name: "map_option class_name (node_name b_d9ccdb1e5a73a940) = Some (name_octets ''HookLauncher::PlanMemcpyHtoDResults'')"
  by (simp add: b_d9ccdb1e5a73a940_def derive_name cong: table_congs bind_head_cong)

lemma HookLauncher_PlanMemcpyHtoDResults_classes: "classes_of s_d9ccdb1e5a73a940 = Some (octet_class HookLauncher_PlanMemcpyHtoDResults_reader, octet_class HookLauncher_PlanMemcpyHtoDResults_builder, octet_class HookLauncher_PlanMemcpyHtoDResults_pipeline)"
  by (simp add: s_d9ccdb1e5a73a940_def b_d9ccdb1e5a73a940_node b_d9ccdb1e5a73a940_name derive_classes HookLauncher_PlanMemcpyHtoDResults_reader_def HookLauncher_PlanMemcpyHtoDResults_builder_def HookLauncher_PlanMemcpyHtoDResults_pipeline_def)

text \<open>\<open>HookLauncher::PlanMemcpyDtoHParams\<close>\<close>

definition HookLauncher_PlanMemcpyDtoHParams_reader :: cxx_class where
  "HookLauncher_PlanMemcpyDtoHParams_reader = CxxClass (reader_frame ''HookLauncher::PlanMemcpyDtoHParams'') False [
     (''SrcHandle'', CxxNamed ''MemoryHandle'', [Has, Get]), (''Size'', CxxUInt 64, [Get])]"
definition HookLauncher_PlanMemcpyDtoHParams_builder :: cxx_class where
  "HookLauncher_PlanMemcpyDtoHParams_builder = CxxClass (builder_frame ''HookLauncher::PlanMemcpyDtoHParams'') False [
     (''SrcHandle'', CxxNamed ''MemoryHandle'', [Has, Get, Set, Init, Adopt, Disown]),
     (''Size'', CxxUInt 64, [Get, Set])]"
definition HookLauncher_PlanMemcpyDtoHParams_pipeline :: cxx_class where
  "HookLauncher_PlanMemcpyDtoHParams_pipeline = CxxClass (pipeline_frame ''HookLauncher::PlanMemcpyDtoHParams'') False [
     (''SrcHandle'', CxxNamed ''MemoryHandle'', [Get])]"

lemma b_eb3523cbe98a804f_name: "map_option class_name (node_name b_eb3523cbe98a804f) = Some (name_octets ''HookLauncher::PlanMemcpyDtoHParams'')"
  by (simp add: b_eb3523cbe98a804f_def derive_name cong: table_congs bind_head_cong)

lemma HookLauncher_PlanMemcpyDtoHParams_classes: "classes_of s_eb3523cbe98a804f = Some (octet_class HookLauncher_PlanMemcpyDtoHParams_reader, octet_class HookLauncher_PlanMemcpyDtoHParams_builder, octet_class HookLauncher_PlanMemcpyDtoHParams_pipeline)"
  by (simp add: s_eb3523cbe98a804f_def b_eb3523cbe98a804f_node b_eb3523cbe98a804f_name derive_classes HookLauncher_PlanMemcpyDtoHParams_reader_def HookLauncher_PlanMemcpyDtoHParams_builder_def HookLauncher_PlanMemcpyDtoHParams_pipeline_def)

text \<open>\<open>HookLauncher::PlanMemcpyDtoHResults\<close>\<close>

definition HookLauncher_PlanMemcpyDtoHResults_reader :: cxx_class where
  "HookLauncher_PlanMemcpyDtoHResults_reader = CxxClass (reader_frame ''HookLauncher::PlanMemcpyDtoHResults'') False [
     (''Plan'', CxxNamed ''MemcpyPlan'', [Has, Get])]"
definition HookLauncher_PlanMemcpyDtoHResults_builder :: cxx_class where
  "HookLauncher_PlanMemcpyDtoHResults_builder = CxxClass (builder_frame ''HookLauncher::PlanMemcpyDtoHResults'') False [
     (''Plan'', CxxNamed ''MemcpyPlan'', [Has, Get, Set, Init, Adopt, Disown])]"
definition HookLauncher_PlanMemcpyDtoHResults_pipeline :: cxx_class where
  "HookLauncher_PlanMemcpyDtoHResults_pipeline = CxxClass (pipeline_frame ''HookLauncher::PlanMemcpyDtoHResults'') False [
     (''Plan'', CxxNamed ''MemcpyPlan'', [Get])]"

lemma b_fa389ebe41e98f39_name: "map_option class_name (node_name b_fa389ebe41e98f39) = Some (name_octets ''HookLauncher::PlanMemcpyDtoHResults'')"
  by (simp add: b_fa389ebe41e98f39_def derive_name cong: table_congs bind_head_cong)

lemma HookLauncher_PlanMemcpyDtoHResults_classes: "classes_of s_fa389ebe41e98f39 = Some (octet_class HookLauncher_PlanMemcpyDtoHResults_reader, octet_class HookLauncher_PlanMemcpyDtoHResults_builder, octet_class HookLauncher_PlanMemcpyDtoHResults_pipeline)"
  by (simp add: s_fa389ebe41e98f39_def b_fa389ebe41e98f39_node b_fa389ebe41e98f39_name derive_classes HookLauncher_PlanMemcpyDtoHResults_reader_def HookLauncher_PlanMemcpyDtoHResults_builder_def HookLauncher_PlanMemcpyDtoHResults_pipeline_def)

text \<open>\<open>HookLauncher::GetNodeStatusParams\<close>\<close>

definition HookLauncher_GetNodeStatusParams_reader :: cxx_class where
  "HookLauncher_GetNodeStatusParams_reader = CxxClass (reader_frame ''HookLauncher::GetNodeStatusParams'') False []"
definition HookLauncher_GetNodeStatusParams_builder :: cxx_class where
  "HookLauncher_GetNodeStatusParams_builder = CxxClass (builder_frame ''HookLauncher::GetNodeStatusParams'') False []"
definition HookLauncher_GetNodeStatusParams_pipeline :: cxx_class where
  "HookLauncher_GetNodeStatusParams_pipeline = CxxClass (pipeline_frame ''HookLauncher::GetNodeStatusParams'') False []"

lemma b_80b6bbac6ed09d85_name: "map_option class_name (node_name b_80b6bbac6ed09d85) = Some (name_octets ''HookLauncher::GetNodeStatusParams'')"
  by (simp add: b_80b6bbac6ed09d85_def derive_name cong: table_congs bind_head_cong)

lemma HookLauncher_GetNodeStatusParams_classes: "classes_of s_80b6bbac6ed09d85 = Some (octet_class HookLauncher_GetNodeStatusParams_reader, octet_class HookLauncher_GetNodeStatusParams_builder, octet_class HookLauncher_GetNodeStatusParams_pipeline)"
  by (simp add: s_80b6bbac6ed09d85_def b_80b6bbac6ed09d85_node b_80b6bbac6ed09d85_name derive_classes HookLauncher_GetNodeStatusParams_reader_def HookLauncher_GetNodeStatusParams_builder_def HookLauncher_GetNodeStatusParams_pipeline_def)

text \<open>\<open>HookLauncher::GetNodeStatusResults\<close>\<close>

definition HookLauncher_GetNodeStatusResults_reader :: cxx_class where
  "HookLauncher_GetNodeStatusResults_reader = CxxClass (reader_frame ''HookLauncher::GetNodeStatusResults'') False [
     (''Nodes'', CxxList (CxxNamed ''NodeStatus''), [Has, Get])]"
definition HookLauncher_GetNodeStatusResults_builder :: cxx_class where
  "HookLauncher_GetNodeStatusResults_builder = CxxClass (builder_frame ''HookLauncher::GetNodeStatusResults'') False [
     (''Nodes'', CxxList (CxxNamed ''NodeStatus''), [Has, Get, Set, InitSized, Adopt, Disown])]"
definition HookLauncher_GetNodeStatusResults_pipeline :: cxx_class where
  "HookLauncher_GetNodeStatusResults_pipeline = CxxClass (pipeline_frame ''HookLauncher::GetNodeStatusResults'') False []"

lemma b_e76522c9a2f40b20_name: "map_option class_name (node_name b_e76522c9a2f40b20) = Some (name_octets ''HookLauncher::GetNodeStatusResults'')"
  by (simp add: b_e76522c9a2f40b20_def derive_name cong: table_congs bind_head_cong)

lemma HookLauncher_GetNodeStatusResults_classes: "classes_of s_e76522c9a2f40b20 = Some (octet_class HookLauncher_GetNodeStatusResults_reader, octet_class HookLauncher_GetNodeStatusResults_builder, octet_class HookLauncher_GetNodeStatusResults_pipeline)"
  by (simp add: s_e76522c9a2f40b20_def b_e76522c9a2f40b20_node b_e76522c9a2f40b20_name derive_classes HookLauncher_GetNodeStatusResults_reader_def HookLauncher_GetNodeStatusResults_builder_def HookLauncher_GetNodeStatusResults_pipeline_def)

text \<open>\<open>HookLauncher::PrefetchDataParams\<close>\<close>

definition HookLauncher_PrefetchDataParams_reader :: cxx_class where
  "HookLauncher_PrefetchDataParams_reader = CxxClass (reader_frame ''HookLauncher::PrefetchDataParams'') False [
     (''Handle'', CxxNamed ''MemoryHandle'', [Has, Get])]"
definition HookLauncher_PrefetchDataParams_builder :: cxx_class where
  "HookLauncher_PrefetchDataParams_builder = CxxClass (builder_frame ''HookLauncher::PrefetchDataParams'') False [
     (''Handle'', CxxNamed ''MemoryHandle'', [Has, Get, Set, Init, Adopt, Disown])]"
definition HookLauncher_PrefetchDataParams_pipeline :: cxx_class where
  "HookLauncher_PrefetchDataParams_pipeline = CxxClass (pipeline_frame ''HookLauncher::PrefetchDataParams'') False [
     (''Handle'', CxxNamed ''MemoryHandle'', [Get])]"

lemma b_befc738967da08f4_name: "map_option class_name (node_name b_befc738967da08f4) = Some (name_octets ''HookLauncher::PrefetchDataParams'')"
  by (simp add: b_befc738967da08f4_def derive_name cong: table_congs bind_head_cong)

lemma HookLauncher_PrefetchDataParams_classes: "classes_of s_befc738967da08f4 = Some (octet_class HookLauncher_PrefetchDataParams_reader, octet_class HookLauncher_PrefetchDataParams_builder, octet_class HookLauncher_PrefetchDataParams_pipeline)"
  by (simp add: s_befc738967da08f4_def b_befc738967da08f4_node b_befc738967da08f4_name derive_classes HookLauncher_PrefetchDataParams_reader_def HookLauncher_PrefetchDataParams_builder_def HookLauncher_PrefetchDataParams_pipeline_def)

text \<open>\<open>HookLauncher::PrefetchDataResults\<close>\<close>

definition HookLauncher_PrefetchDataResults_reader :: cxx_class where
  "HookLauncher_PrefetchDataResults_reader = CxxClass (reader_frame ''HookLauncher::PrefetchDataResults'') False [
     (''Ack'', CxxNamed ''Ack'', [Has, Get])]"
definition HookLauncher_PrefetchDataResults_builder :: cxx_class where
  "HookLauncher_PrefetchDataResults_builder = CxxClass (builder_frame ''HookLauncher::PrefetchDataResults'') False [
     (''Ack'', CxxNamed ''Ack'', [Has, Get, Set, Init, Adopt, Disown])]"
definition HookLauncher_PrefetchDataResults_pipeline :: cxx_class where
  "HookLauncher_PrefetchDataResults_pipeline = CxxClass (pipeline_frame ''HookLauncher::PrefetchDataResults'') False [
     (''Ack'', CxxNamed ''Ack'', [Get])]"

lemma b_cbbd2a831eac2f20_name: "map_option class_name (node_name b_cbbd2a831eac2f20) = Some (name_octets ''HookLauncher::PrefetchDataResults'')"
  by (simp add: b_cbbd2a831eac2f20_def derive_name cong: table_congs bind_head_cong)

lemma HookLauncher_PrefetchDataResults_classes: "classes_of s_cbbd2a831eac2f20 = Some (octet_class HookLauncher_PrefetchDataResults_reader, octet_class HookLauncher_PrefetchDataResults_builder, octet_class HookLauncher_PrefetchDataResults_pipeline)"
  by (simp add: s_cbbd2a831eac2f20_def b_cbbd2a831eac2f20_node b_cbbd2a831eac2f20_name derive_classes HookLauncher_PrefetchDataResults_reader_def HookLauncher_PrefetchDataResults_builder_def HookLauncher_PrefetchDataResults_pipeline_def)

text \<open>\<open>HookLauncher::MeasureBandwidthParams\<close>\<close>

definition HookLauncher_MeasureBandwidthParams_reader :: cxx_class where
  "HookLauncher_MeasureBandwidthParams_reader = CxxClass (reader_frame ''HookLauncher::MeasureBandwidthParams'') False [
     (''Src'', CxxText, [Has, Get]), (''Dst'', CxxText, [Has, Get])]"
definition HookLauncher_MeasureBandwidthParams_builder :: cxx_class where
  "HookLauncher_MeasureBandwidthParams_builder = CxxClass (builder_frame ''HookLauncher::MeasureBandwidthParams'') False [
     (''Src'', CxxText, [Has, Get, Set, InitSized, Adopt, Disown]),
     (''Dst'', CxxText, [Has, Get, Set, InitSized, Adopt, Disown])]"
definition HookLauncher_MeasureBandwidthParams_pipeline :: cxx_class where
  "HookLauncher_MeasureBandwidthParams_pipeline = CxxClass (pipeline_frame ''HookLauncher::MeasureBandwidthParams'') False []"

lemma b_a4ab519fa8915cb7_name: "map_option class_name (node_name b_a4ab519fa8915cb7) = Some (name_octets ''HookLauncher::MeasureBandwidthParams'')"
  by (simp add: b_a4ab519fa8915cb7_def derive_name cong: table_congs bind_head_cong)

lemma HookLauncher_MeasureBandwidthParams_classes: "classes_of s_a4ab519fa8915cb7 = Some (octet_class HookLauncher_MeasureBandwidthParams_reader, octet_class HookLauncher_MeasureBandwidthParams_builder, octet_class HookLauncher_MeasureBandwidthParams_pipeline)"
  by (simp add: s_a4ab519fa8915cb7_def b_a4ab519fa8915cb7_node b_a4ab519fa8915cb7_name derive_classes HookLauncher_MeasureBandwidthParams_reader_def HookLauncher_MeasureBandwidthParams_builder_def HookLauncher_MeasureBandwidthParams_pipeline_def)

text \<open>\<open>HookLauncher::MeasureBandwidthResults\<close>\<close>

definition HookLauncher_MeasureBandwidthResults_reader :: cxx_class where
  "HookLauncher_MeasureBandwidthResults_reader = CxxClass (reader_frame ''HookLauncher::MeasureBandwidthResults'') False [
     (''Result'', CxxNamed ''BandwidthResult'', [Has, Get])]"
definition HookLauncher_MeasureBandwidthResults_builder :: cxx_class where
  "HookLauncher_MeasureBandwidthResults_builder = CxxClass (builder_frame ''HookLauncher::MeasureBandwidthResults'') False [
     (''Result'', CxxNamed ''BandwidthResult'', [Has, Get, Set, Init, Adopt, Disown])]"
definition HookLauncher_MeasureBandwidthResults_pipeline :: cxx_class where
  "HookLauncher_MeasureBandwidthResults_pipeline = CxxClass (pipeline_frame ''HookLauncher::MeasureBandwidthResults'') False [
     (''Result'', CxxNamed ''BandwidthResult'', [Get])]"

lemma b_8cad8defaf95e7b0_name: "map_option class_name (node_name b_8cad8defaf95e7b0) = Some (name_octets ''HookLauncher::MeasureBandwidthResults'')"
  by (simp add: b_8cad8defaf95e7b0_def derive_name cong: table_congs bind_head_cong)

lemma HookLauncher_MeasureBandwidthResults_classes: "classes_of s_8cad8defaf95e7b0 = Some (octet_class HookLauncher_MeasureBandwidthResults_reader, octet_class HookLauncher_MeasureBandwidthResults_builder, octet_class HookLauncher_MeasureBandwidthResults_pipeline)"
  by (simp add: s_8cad8defaf95e7b0_def b_8cad8defaf95e7b0_node b_8cad8defaf95e7b0_name derive_classes HookLauncher_MeasureBandwidthResults_reader_def HookLauncher_MeasureBandwidthResults_builder_def HookLauncher_MeasureBandwidthResults_pipeline_def)

text \<open>\<open>HookLauncher::TrackAsyncTaskParams\<close>\<close>

definition HookLauncher_TrackAsyncTaskParams_reader :: cxx_class where
  "HookLauncher_TrackAsyncTaskParams_reader = CxxClass (reader_frame ''HookLauncher::TrackAsyncTaskParams'') False [
     (''TaskId'', CxxUInt 64, [Get])]"
definition HookLauncher_TrackAsyncTaskParams_builder :: cxx_class where
  "HookLauncher_TrackAsyncTaskParams_builder = CxxClass (builder_frame ''HookLauncher::TrackAsyncTaskParams'') False [
     (''TaskId'', CxxUInt 64, [Get, Set])]"
definition HookLauncher_TrackAsyncTaskParams_pipeline :: cxx_class where
  "HookLauncher_TrackAsyncTaskParams_pipeline = CxxClass (pipeline_frame ''HookLauncher::TrackAsyncTaskParams'') False []"

lemma b_bb47eae7bc02e6df_name: "map_option class_name (node_name b_bb47eae7bc02e6df) = Some (name_octets ''HookLauncher::TrackAsyncTaskParams'')"
  by (simp add: b_bb47eae7bc02e6df_def derive_name cong: table_congs bind_head_cong)

lemma HookLauncher_TrackAsyncTaskParams_classes: "classes_of s_bb47eae7bc02e6df = Some (octet_class HookLauncher_TrackAsyncTaskParams_reader, octet_class HookLauncher_TrackAsyncTaskParams_builder, octet_class HookLauncher_TrackAsyncTaskParams_pipeline)"
  by (simp add: s_bb47eae7bc02e6df_def b_bb47eae7bc02e6df_node b_bb47eae7bc02e6df_name derive_classes HookLauncher_TrackAsyncTaskParams_reader_def HookLauncher_TrackAsyncTaskParams_builder_def HookLauncher_TrackAsyncTaskParams_pipeline_def)

text \<open>\<open>HookLauncher::TrackAsyncTaskResults\<close>\<close>

definition HookLauncher_TrackAsyncTaskResults_reader :: cxx_class where
  "HookLauncher_TrackAsyncTaskResults_reader = CxxClass (reader_frame ''HookLauncher::TrackAsyncTaskResults'') False [
     (''Status'', CxxNamed ''TaskStatus'', [Has, Get])]"
definition HookLauncher_TrackAsyncTaskResults_builder :: cxx_class where
  "HookLauncher_TrackAsyncTaskResults_builder = CxxClass (builder_frame ''HookLauncher::TrackAsyncTaskResults'') False [
     (''Status'', CxxNamed ''TaskStatus'', [Has, Get, Set, Init, Adopt, Disown])]"
definition HookLauncher_TrackAsyncTaskResults_pipeline :: cxx_class where
  "HookLauncher_TrackAsyncTaskResults_pipeline = CxxClass (pipeline_frame ''HookLauncher::TrackAsyncTaskResults'') False [
     (''Status'', CxxNamed ''TaskStatus'', [Get])]"

lemma b_8164a155f1640357_name: "map_option class_name (node_name b_8164a155f1640357) = Some (name_octets ''HookLauncher::TrackAsyncTaskResults'')"
  by (simp add: b_8164a155f1640357_def derive_name cong: table_congs bind_head_cong)

lemma HookLauncher_TrackAsyncTaskResults_classes: "classes_of s_8164a155f1640357 = Some (octet_class HookLauncher_TrackAsyncTaskResults_reader, octet_class HookLauncher_TrackAsyncTaskResults_builder, octet_class HookLauncher_TrackAsyncTaskResults_pipeline)"
  by (simp add: s_8164a155f1640357_def b_8164a155f1640357_node b_8164a155f1640357_name derive_classes HookLauncher_TrackAsyncTaskResults_reader_def HookLauncher_TrackAsyncTaskResults_builder_def HookLauncher_TrackAsyncTaskResults_pipeline_def)

text \<open>\<open>HookLauncher::GetMemoryLocationParams\<close>\<close>

definition HookLauncher_GetMemoryLocationParams_reader :: cxx_class where
  "HookLauncher_GetMemoryLocationParams_reader = CxxClass (reader_frame ''HookLauncher::GetMemoryLocationParams'') False [
     (''FakePtr'', CxxUInt 64, [Get])]"
definition HookLauncher_GetMemoryLocationParams_builder :: cxx_class where
  "HookLauncher_GetMemoryLocationParams_builder = CxxClass (builder_frame ''HookLauncher::GetMemoryLocationParams'') False [
     (''FakePtr'', CxxUInt 64, [Get, Set])]"
definition HookLauncher_GetMemoryLocationParams_pipeline :: cxx_class where
  "HookLauncher_GetMemoryLocationParams_pipeline = CxxClass (pipeline_frame ''HookLauncher::GetMemoryLocationParams'') False []"

lemma b_e407a39af6852337_name: "map_option class_name (node_name b_e407a39af6852337) = Some (name_octets ''HookLauncher::GetMemoryLocationParams'')"
  by (simp add: b_e407a39af6852337_def derive_name cong: table_congs bind_head_cong)

lemma HookLauncher_GetMemoryLocationParams_classes: "classes_of s_e407a39af6852337 = Some (octet_class HookLauncher_GetMemoryLocationParams_reader, octet_class HookLauncher_GetMemoryLocationParams_builder, octet_class HookLauncher_GetMemoryLocationParams_pipeline)"
  by (simp add: s_e407a39af6852337_def b_e407a39af6852337_node b_e407a39af6852337_name derive_classes HookLauncher_GetMemoryLocationParams_reader_def HookLauncher_GetMemoryLocationParams_builder_def HookLauncher_GetMemoryLocationParams_pipeline_def)

text \<open>\<open>HookLauncher::GetMemoryLocationResults\<close>\<close>

definition HookLauncher_GetMemoryLocationResults_reader :: cxx_class where
  "HookLauncher_GetMemoryLocationResults_reader = CxxClass (reader_frame ''HookLauncher::GetMemoryLocationResults'') False [
     (''Location'', CxxNamed ''NodeInfo'', [Has, Get])]"
definition HookLauncher_GetMemoryLocationResults_builder :: cxx_class where
  "HookLauncher_GetMemoryLocationResults_builder = CxxClass (builder_frame ''HookLauncher::GetMemoryLocationResults'') False [
     (''Location'', CxxNamed ''NodeInfo'', [Has, Get, Set, Init, Adopt, Disown])]"
definition HookLauncher_GetMemoryLocationResults_pipeline :: cxx_class where
  "HookLauncher_GetMemoryLocationResults_pipeline = CxxClass (pipeline_frame ''HookLauncher::GetMemoryLocationResults'') False [
     (''Location'', CxxNamed ''NodeInfo'', [Get])]"

lemma b_ac17d9ac7710bc97_name: "map_option class_name (node_name b_ac17d9ac7710bc97) = Some (name_octets ''HookLauncher::GetMemoryLocationResults'')"
  by (simp add: b_ac17d9ac7710bc97_def derive_name cong: table_congs bind_head_cong)

lemma HookLauncher_GetMemoryLocationResults_classes: "classes_of s_ac17d9ac7710bc97 = Some (octet_class HookLauncher_GetMemoryLocationResults_reader, octet_class HookLauncher_GetMemoryLocationResults_builder, octet_class HookLauncher_GetMemoryLocationResults_pipeline)"
  by (simp add: s_ac17d9ac7710bc97_def b_ac17d9ac7710bc97_node b_ac17d9ac7710bc97_name derive_classes HookLauncher_GetMemoryLocationResults_reader_def HookLauncher_GetMemoryLocationResults_builder_def HookLauncher_GetMemoryLocationResults_pipeline_def)

text \<open>\<open>HookLauncher::AdvisePrefetchParams\<close>\<close>

definition HookLauncher_AdvisePrefetchParams_reader :: cxx_class where
  "HookLauncher_AdvisePrefetchParams_reader = CxxClass (reader_frame ''HookLauncher::AdvisePrefetchParams'') False [
     (''FakePtr'', CxxUInt 64, [Get])]"
definition HookLauncher_AdvisePrefetchParams_builder :: cxx_class where
  "HookLauncher_AdvisePrefetchParams_builder = CxxClass (builder_frame ''HookLauncher::AdvisePrefetchParams'') False [
     (''FakePtr'', CxxUInt 64, [Get, Set])]"
definition HookLauncher_AdvisePrefetchParams_pipeline :: cxx_class where
  "HookLauncher_AdvisePrefetchParams_pipeline = CxxClass (pipeline_frame ''HookLauncher::AdvisePrefetchParams'') False []"

lemma b_dd45cfaa27648933_name: "map_option class_name (node_name b_dd45cfaa27648933) = Some (name_octets ''HookLauncher::AdvisePrefetchParams'')"
  by (simp add: b_dd45cfaa27648933_def derive_name cong: table_congs bind_head_cong)

lemma HookLauncher_AdvisePrefetchParams_classes: "classes_of s_dd45cfaa27648933 = Some (octet_class HookLauncher_AdvisePrefetchParams_reader, octet_class HookLauncher_AdvisePrefetchParams_builder, octet_class HookLauncher_AdvisePrefetchParams_pipeline)"
  by (simp add: s_dd45cfaa27648933_def b_dd45cfaa27648933_node b_dd45cfaa27648933_name derive_classes HookLauncher_AdvisePrefetchParams_reader_def HookLauncher_AdvisePrefetchParams_builder_def HookLauncher_AdvisePrefetchParams_pipeline_def)

text \<open>\<open>HookLauncher::AdvisePrefetchResults\<close>\<close>

definition HookLauncher_AdvisePrefetchResults_reader :: cxx_class where
  "HookLauncher_AdvisePrefetchResults_reader = CxxClass (reader_frame ''HookLauncher::AdvisePrefetchResults'') False [
     (''Ack'', CxxNamed ''Ack'', [Has, Get])]"
definition HookLauncher_AdvisePrefetchResults_builder :: cxx_class where
  "HookLauncher_AdvisePrefetchResults_builder = CxxClass (builder_frame ''HookLauncher::AdvisePrefetchResults'') False [
     (''Ack'', CxxNamed ''Ack'', [Has, Get, Set, Init, Adopt, Disown])]"
definition HookLauncher_AdvisePrefetchResults_pipeline :: cxx_class where
  "HookLauncher_AdvisePrefetchResults_pipeline = CxxClass (pipeline_frame ''HookLauncher::AdvisePrefetchResults'') False [
     (''Ack'', CxxNamed ''Ack'', [Get])]"

lemma b_c08ebc98e790327d_name: "map_option class_name (node_name b_c08ebc98e790327d) = Some (name_octets ''HookLauncher::AdvisePrefetchResults'')"
  by (simp add: b_c08ebc98e790327d_def derive_name cong: table_congs bind_head_cong)

lemma HookLauncher_AdvisePrefetchResults_classes: "classes_of s_c08ebc98e790327d = Some (octet_class HookLauncher_AdvisePrefetchResults_reader, octet_class HookLauncher_AdvisePrefetchResults_builder, octet_class HookLauncher_AdvisePrefetchResults_pipeline)"
  by (simp add: s_c08ebc98e790327d_def b_c08ebc98e790327d_node b_c08ebc98e790327d_name derive_classes HookLauncher_AdvisePrefetchResults_reader_def HookLauncher_AdvisePrefetchResults_builder_def HookLauncher_AdvisePrefetchResults_pipeline_def)

text \<open>\<open>HookLauncher::RequestRdmaPlanParams\<close>\<close>

definition HookLauncher_RequestRdmaPlanParams_reader :: cxx_class where
  "HookLauncher_RequestRdmaPlanParams_reader = CxxClass (reader_frame ''HookLauncher::RequestRdmaPlanParams'') False [
     (''SrcHandle'', CxxNamed ''MemoryHandle'', [Has, Get]),
     (''DstHandle'', CxxNamed ''MemoryHandle'', [Has, Get]), (''Size'', CxxUInt 64, [Get])]"
definition HookLauncher_RequestRdmaPlanParams_builder :: cxx_class where
  "HookLauncher_RequestRdmaPlanParams_builder = CxxClass (builder_frame ''HookLauncher::RequestRdmaPlanParams'') False [
     (''SrcHandle'', CxxNamed ''MemoryHandle'', [Has, Get, Set, Init, Adopt, Disown]),
     (''DstHandle'', CxxNamed ''MemoryHandle'', [Has, Get, Set, Init, Adopt, Disown]),
     (''Size'', CxxUInt 64, [Get, Set])]"
definition HookLauncher_RequestRdmaPlanParams_pipeline :: cxx_class where
  "HookLauncher_RequestRdmaPlanParams_pipeline = CxxClass (pipeline_frame ''HookLauncher::RequestRdmaPlanParams'') False [
     (''SrcHandle'', CxxNamed ''MemoryHandle'', [Get]),
     (''DstHandle'', CxxNamed ''MemoryHandle'', [Get])]"

lemma b_ad988cc9e73fbe88_name: "map_option class_name (node_name b_ad988cc9e73fbe88) = Some (name_octets ''HookLauncher::RequestRdmaPlanParams'')"
  by (simp add: b_ad988cc9e73fbe88_def derive_name cong: table_congs bind_head_cong)

lemma HookLauncher_RequestRdmaPlanParams_classes: "classes_of s_ad988cc9e73fbe88 = Some (octet_class HookLauncher_RequestRdmaPlanParams_reader, octet_class HookLauncher_RequestRdmaPlanParams_builder, octet_class HookLauncher_RequestRdmaPlanParams_pipeline)"
  by (simp add: s_ad988cc9e73fbe88_def b_ad988cc9e73fbe88_node b_ad988cc9e73fbe88_name derive_classes HookLauncher_RequestRdmaPlanParams_reader_def HookLauncher_RequestRdmaPlanParams_builder_def HookLauncher_RequestRdmaPlanParams_pipeline_def)

text \<open>\<open>HookLauncher::RequestRdmaPlanResults\<close>\<close>

definition HookLauncher_RequestRdmaPlanResults_reader :: cxx_class where
  "HookLauncher_RequestRdmaPlanResults_reader = CxxClass (reader_frame ''HookLauncher::RequestRdmaPlanResults'') False [
     (''Plan'', CxxNamed ''RdmaPlan'', [Has, Get])]"
definition HookLauncher_RequestRdmaPlanResults_builder :: cxx_class where
  "HookLauncher_RequestRdmaPlanResults_builder = CxxClass (builder_frame ''HookLauncher::RequestRdmaPlanResults'') False [
     (''Plan'', CxxNamed ''RdmaPlan'', [Has, Get, Set, Init, Adopt, Disown])]"
definition HookLauncher_RequestRdmaPlanResults_pipeline :: cxx_class where
  "HookLauncher_RequestRdmaPlanResults_pipeline = CxxClass (pipeline_frame ''HookLauncher::RequestRdmaPlanResults'') False [
     (''Plan'', CxxNamed ''RdmaPlan'', [Get])]"

lemma b_ecffba89eb376b1c_name: "map_option class_name (node_name b_ecffba89eb376b1c) = Some (name_octets ''HookLauncher::RequestRdmaPlanResults'')"
  by (simp add: b_ecffba89eb376b1c_def derive_name cong: table_congs bind_head_cong)

lemma HookLauncher_RequestRdmaPlanResults_classes: "classes_of s_ecffba89eb376b1c = Some (octet_class HookLauncher_RequestRdmaPlanResults_reader, octet_class HookLauncher_RequestRdmaPlanResults_builder, octet_class HookLauncher_RequestRdmaPlanResults_pipeline)"
  by (simp add: s_ecffba89eb376b1c_def b_ecffba89eb376b1c_node b_ecffba89eb376b1c_name derive_classes HookLauncher_RequestRdmaPlanResults_reader_def HookLauncher_RequestRdmaPlanResults_builder_def HookLauncher_RequestRdmaPlanResults_pipeline_def)

text \<open>\<open>HookLauncher::RequestAllocationPlanParams\<close>\<close>

definition HookLauncher_RequestAllocationPlanParams_reader :: cxx_class where
  "HookLauncher_RequestAllocationPlanParams_reader = CxxClass (reader_frame ''HookLauncher::RequestAllocationPlanParams'') False [
     (''Size'', CxxUInt 64, [Get])]"
definition HookLauncher_RequestAllocationPlanParams_builder :: cxx_class where
  "HookLauncher_RequestAllocationPlanParams_builder = CxxClass (builder_frame ''HookLauncher::RequestAllocationPlanParams'') False [
     (''Size'', CxxUInt 64, [Get, Set])]"
definition HookLauncher_RequestAllocationPlanParams_pipeline :: cxx_class where
  "HookLauncher_RequestAllocationPlanParams_pipeline = CxxClass (pipeline_frame ''HookLauncher::RequestAllocationPlanParams'') False []"

lemma b_b83800add69fb044_name: "map_option class_name (node_name b_b83800add69fb044) = Some (name_octets ''HookLauncher::RequestAllocationPlanParams'')"
  by (simp add: b_b83800add69fb044_def derive_name cong: table_congs bind_head_cong)

lemma HookLauncher_RequestAllocationPlanParams_classes: "classes_of s_b83800add69fb044 = Some (octet_class HookLauncher_RequestAllocationPlanParams_reader, octet_class HookLauncher_RequestAllocationPlanParams_builder, octet_class HookLauncher_RequestAllocationPlanParams_pipeline)"
  by (simp add: s_b83800add69fb044_def b_b83800add69fb044_node b_b83800add69fb044_name derive_classes HookLauncher_RequestAllocationPlanParams_reader_def HookLauncher_RequestAllocationPlanParams_builder_def HookLauncher_RequestAllocationPlanParams_pipeline_def)

text \<open>\<open>HookLauncher::RequestAllocationPlanResults\<close>\<close>

definition HookLauncher_RequestAllocationPlanResults_reader :: cxx_class where
  "HookLauncher_RequestAllocationPlanResults_reader = CxxClass (reader_frame ''HookLauncher::RequestAllocationPlanResults'') False [
     (''Plan'', CxxNamed ''AllocationPlan'', [Has, Get])]"
definition HookLauncher_RequestAllocationPlanResults_builder :: cxx_class where
  "HookLauncher_RequestAllocationPlanResults_builder = CxxClass (builder_frame ''HookLauncher::RequestAllocationPlanResults'') False [
     (''Plan'', CxxNamed ''AllocationPlan'', [Has, Get, Set, Init, Adopt, Disown])]"
definition HookLauncher_RequestAllocationPlanResults_pipeline :: cxx_class where
  "HookLauncher_RequestAllocationPlanResults_pipeline = CxxClass (pipeline_frame ''HookLauncher::RequestAllocationPlanResults'') False [
     (''Plan'', CxxNamed ''AllocationPlan'', [Get])]"

lemma b_bc5efba1a5ed5936_name: "map_option class_name (node_name b_bc5efba1a5ed5936) = Some (name_octets ''HookLauncher::RequestAllocationPlanResults'')"
  by (simp add: b_bc5efba1a5ed5936_def derive_name cong: table_congs bind_head_cong)

lemma HookLauncher_RequestAllocationPlanResults_classes: "classes_of s_bc5efba1a5ed5936 = Some (octet_class HookLauncher_RequestAllocationPlanResults_reader, octet_class HookLauncher_RequestAllocationPlanResults_builder, octet_class HookLauncher_RequestAllocationPlanResults_pipeline)"
  by (simp add: s_bc5efba1a5ed5936_def b_bc5efba1a5ed5936_node b_bc5efba1a5ed5936_name derive_classes HookLauncher_RequestAllocationPlanResults_reader_def HookLauncher_RequestAllocationPlanResults_builder_def HookLauncher_RequestAllocationPlanResults_pipeline_def)

text \<open>\<open>HookLauncher::RequestFreePlanParams\<close>\<close>

definition HookLauncher_RequestFreePlanParams_reader :: cxx_class where
  "HookLauncher_RequestFreePlanParams_reader = CxxClass (reader_frame ''HookLauncher::RequestFreePlanParams'') False [
     (''FakePtr'', CxxUInt 64, [Get])]"
definition HookLauncher_RequestFreePlanParams_builder :: cxx_class where
  "HookLauncher_RequestFreePlanParams_builder = CxxClass (builder_frame ''HookLauncher::RequestFreePlanParams'') False [
     (''FakePtr'', CxxUInt 64, [Get, Set])]"
definition HookLauncher_RequestFreePlanParams_pipeline :: cxx_class where
  "HookLauncher_RequestFreePlanParams_pipeline = CxxClass (pipeline_frame ''HookLauncher::RequestFreePlanParams'') False []"

lemma b_b977ada353b11337_name: "map_option class_name (node_name b_b977ada353b11337) = Some (name_octets ''HookLauncher::RequestFreePlanParams'')"
  by (simp add: b_b977ada353b11337_def derive_name cong: table_congs bind_head_cong)

lemma HookLauncher_RequestFreePlanParams_classes: "classes_of s_b977ada353b11337 = Some (octet_class HookLauncher_RequestFreePlanParams_reader, octet_class HookLauncher_RequestFreePlanParams_builder, octet_class HookLauncher_RequestFreePlanParams_pipeline)"
  by (simp add: s_b977ada353b11337_def b_b977ada353b11337_node b_b977ada353b11337_name derive_classes HookLauncher_RequestFreePlanParams_reader_def HookLauncher_RequestFreePlanParams_builder_def HookLauncher_RequestFreePlanParams_pipeline_def)

text \<open>\<open>HookLauncher::RequestFreePlanResults\<close>\<close>

definition HookLauncher_RequestFreePlanResults_reader :: cxx_class where
  "HookLauncher_RequestFreePlanResults_reader = CxxClass (reader_frame ''HookLauncher::RequestFreePlanResults'') False [
     (''Ack'', CxxNamed ''Ack'', [Has, Get])]"
definition HookLauncher_RequestFreePlanResults_builder :: cxx_class where
  "HookLauncher_RequestFreePlanResults_builder = CxxClass (builder_frame ''HookLauncher::RequestFreePlanResults'') False [
     (''Ack'', CxxNamed ''Ack'', [Has, Get, Set, Init, Adopt, Disown])]"
definition HookLauncher_RequestFreePlanResults_pipeline :: cxx_class where
  "HookLauncher_RequestFreePlanResults_pipeline = CxxClass (pipeline_frame ''HookLauncher::RequestFreePlanResults'') False [
     (''Ack'', CxxNamed ''Ack'', [Get])]"

lemma b_f2d3d5a5c7ae7f9e_name: "map_option class_name (node_name b_f2d3d5a5c7ae7f9e) = Some (name_octets ''HookLauncher::RequestFreePlanResults'')"
  by (simp add: b_f2d3d5a5c7ae7f9e_def derive_name cong: table_congs bind_head_cong)

lemma HookLauncher_RequestFreePlanResults_classes: "classes_of s_f2d3d5a5c7ae7f9e = Some (octet_class HookLauncher_RequestFreePlanResults_reader, octet_class HookLauncher_RequestFreePlanResults_builder, octet_class HookLauncher_RequestFreePlanResults_pipeline)"
  by (simp add: s_f2d3d5a5c7ae7f9e_def b_f2d3d5a5c7ae7f9e_node b_f2d3d5a5c7ae7f9e_name derive_classes HookLauncher_RequestFreePlanResults_reader_def HookLauncher_RequestFreePlanResults_builder_def HookLauncher_RequestFreePlanResults_pipeline_def)

text \<open>\<open>HookLauncher::LaunchKernelParams\<close>\<close>

definition HookLauncher_LaunchKernelParams_reader :: cxx_class where
  "HookLauncher_LaunchKernelParams_reader = CxxClass (reader_frame ''HookLauncher::LaunchKernelParams'') False [
     (''Func'', CxxText, [Has, Get]), (''GridDimX'', CxxUInt 32, [Get]),
     (''GridDimY'', CxxUInt 32, [Get]), (''GridDimZ'', CxxUInt 32, [Get]),
     (''BlockDimX'', CxxUInt 32, [Get]), (''BlockDimY'', CxxUInt 32, [Get]),
     (''BlockDimZ'', CxxUInt 32, [Get]), (''SharedMemBytes'', CxxUInt 32, [Get]),
     (''Params'', CxxData, [Has, Get])]"
definition HookLauncher_LaunchKernelParams_builder :: cxx_class where
  "HookLauncher_LaunchKernelParams_builder = CxxClass (builder_frame ''HookLauncher::LaunchKernelParams'') False [
     (''Func'', CxxText, [Has, Get, Set, InitSized, Adopt, Disown]),
     (''GridDimX'', CxxUInt 32, [Get, Set]), (''GridDimY'', CxxUInt 32, [Get, Set]),
     (''GridDimZ'', CxxUInt 32, [Get, Set]), (''BlockDimX'', CxxUInt 32, [Get, Set]),
     (''BlockDimY'', CxxUInt 32, [Get, Set]), (''BlockDimZ'', CxxUInt 32, [Get, Set]),
     (''SharedMemBytes'', CxxUInt 32, [Get, Set]),
     (''Params'', CxxData, [Has, Get, Set, InitSized, Adopt, Disown])]"
definition HookLauncher_LaunchKernelParams_pipeline :: cxx_class where
  "HookLauncher_LaunchKernelParams_pipeline = CxxClass (pipeline_frame ''HookLauncher::LaunchKernelParams'') False []"

lemma b_903a87eb87ebcf8b_name: "map_option class_name (node_name b_903a87eb87ebcf8b) = Some (name_octets ''HookLauncher::LaunchKernelParams'')"
  by (simp add: b_903a87eb87ebcf8b_def derive_name cong: table_congs bind_head_cong)

lemma HookLauncher_LaunchKernelParams_classes: "classes_of s_903a87eb87ebcf8b = Some (octet_class HookLauncher_LaunchKernelParams_reader, octet_class HookLauncher_LaunchKernelParams_builder, octet_class HookLauncher_LaunchKernelParams_pipeline)"
  by (simp add: s_903a87eb87ebcf8b_def b_903a87eb87ebcf8b_node b_903a87eb87ebcf8b_name derive_classes HookLauncher_LaunchKernelParams_reader_def HookLauncher_LaunchKernelParams_builder_def HookLauncher_LaunchKernelParams_pipeline_def)

text \<open>\<open>HookLauncher::LaunchKernelResults\<close>\<close>

definition HookLauncher_LaunchKernelResults_reader :: cxx_class where
  "HookLauncher_LaunchKernelResults_reader = CxxClass (reader_frame ''HookLauncher::LaunchKernelResults'') False [
     (''Ack'', CxxNamed ''Ack'', [Has, Get])]"
definition HookLauncher_LaunchKernelResults_builder :: cxx_class where
  "HookLauncher_LaunchKernelResults_builder = CxxClass (builder_frame ''HookLauncher::LaunchKernelResults'') False [
     (''Ack'', CxxNamed ''Ack'', [Has, Get, Set, Init, Adopt, Disown])]"
definition HookLauncher_LaunchKernelResults_pipeline :: cxx_class where
  "HookLauncher_LaunchKernelResults_pipeline = CxxClass (pipeline_frame ''HookLauncher::LaunchKernelResults'') False [
     (''Ack'', CxxNamed ''Ack'', [Get])]"

lemma b_d43d88d79ada8ecb_name: "map_option class_name (node_name b_d43d88d79ada8ecb) = Some (name_octets ''HookLauncher::LaunchKernelResults'')"
  by (simp add: b_d43d88d79ada8ecb_def derive_name cong: table_congs bind_head_cong)

lemma HookLauncher_LaunchKernelResults_classes: "classes_of s_d43d88d79ada8ecb = Some (octet_class HookLauncher_LaunchKernelResults_reader, octet_class HookLauncher_LaunchKernelResults_builder, octet_class HookLauncher_LaunchKernelResults_pipeline)"
  by (simp add: s_d43d88d79ada8ecb_def b_d43d88d79ada8ecb_node b_d43d88d79ada8ecb_name derive_classes HookLauncher_LaunchKernelResults_reader_def HookLauncher_LaunchKernelResults_builder_def HookLauncher_LaunchKernelResults_pipeline_def)

text \<open>\<open>BandwidthResult\<close>\<close>

definition BandwidthResult_reader :: cxx_class where
  "BandwidthResult_reader = CxxClass (reader_frame ''BandwidthResult'') False [
     (''Throughput'', CxxFloat 32, [Get]), (''Latency'', CxxFloat 32, [Get])]"
definition BandwidthResult_builder :: cxx_class where
  "BandwidthResult_builder = CxxClass (builder_frame ''BandwidthResult'') False [
     (''Throughput'', CxxFloat 32, [Get, Set]), (''Latency'', CxxFloat 32, [Get, Set])]"
definition BandwidthResult_pipeline :: cxx_class where
  "BandwidthResult_pipeline = CxxClass (pipeline_frame ''BandwidthResult'') False []"

lemma b_8e06bfe25704b493_name: "map_option class_name (node_name b_8e06bfe25704b493) = Some (name_octets ''BandwidthResult'')"
  by (simp add: b_8e06bfe25704b493_def derive_name cong: table_congs bind_head_cong)

lemma BandwidthResult_classes: "classes_of s_8e06bfe25704b493 = Some (octet_class BandwidthResult_reader, octet_class BandwidthResult_builder, octet_class BandwidthResult_pipeline)"
  by (simp add: s_8e06bfe25704b493_def b_8e06bfe25704b493_node b_8e06bfe25704b493_name derive_classes BandwidthResult_reader_def BandwidthResult_builder_def BandwidthResult_pipeline_def)

text \<open>\<open>TaskStatus\<close>\<close>

definition TaskStatus_reader :: cxx_class where
  "TaskStatus_reader = CxxClass (reader_frame ''TaskStatus'') False [
     (''Progress'', CxxUInt 8, [Get]), (''EstimatedTime'', CxxUInt 32, [Get])]"
definition TaskStatus_builder :: cxx_class where
  "TaskStatus_builder = CxxClass (builder_frame ''TaskStatus'') False [
     (''Progress'', CxxUInt 8, [Get, Set]), (''EstimatedTime'', CxxUInt 32, [Get, Set])]"
definition TaskStatus_pipeline :: cxx_class where
  "TaskStatus_pipeline = CxxClass (pipeline_frame ''TaskStatus'') False []"

lemma b_9067a75daac545ad_name: "map_option class_name (node_name b_9067a75daac545ad) = Some (name_octets ''TaskStatus'')"
  by (simp add: b_9067a75daac545ad_def derive_name cong: table_congs bind_head_cong)

lemma TaskStatus_classes: "classes_of s_9067a75daac545ad = Some (octet_class TaskStatus_reader, octet_class TaskStatus_builder, octet_class TaskStatus_pipeline)"
  by (simp add: s_9067a75daac545ad_def b_9067a75daac545ad_node b_9067a75daac545ad_name derive_classes TaskStatus_reader_def TaskStatus_builder_def TaskStatus_pipeline_def)

text \<open>\<open>NodeInfo\<close>\<close>

definition NodeInfo_reader :: cxx_class where
  "NodeInfo_reader = CxxClass (reader_frame ''NodeInfo'') False [
     (''NodeId'', CxxUInt 32, [Get]), (''MemoryType'', CxxText, [Has, Get]),
     (''Error'', CxxNamed ''ErrorCode'', [Get])]"
definition NodeInfo_builder :: cxx_class where
  "NodeInfo_builder = CxxClass (builder_frame ''NodeInfo'') False [
     (''NodeId'', CxxUInt 32, [Get, Set]),
     (''MemoryType'', CxxText, [Has, Get, Set, InitSized, Adopt, Disown]),
     (''Error'', CxxNamed ''ErrorCode'', [Get, Set])]"
definition NodeInfo_pipeline :: cxx_class where
  "NodeInfo_pipeline = CxxClass (pipeline_frame ''NodeInfo'') False []"

lemma b_e512d381fed0aa2e_name: "map_option class_name (node_name b_e512d381fed0aa2e) = Some (name_octets ''NodeInfo'')"
  by (simp add: b_e512d381fed0aa2e_def derive_name cong: table_congs bind_head_cong)

lemma NodeInfo_classes: "classes_of s_e512d381fed0aa2e = Some (octet_class NodeInfo_reader, octet_class NodeInfo_builder, octet_class NodeInfo_pipeline)"
  by (simp add: s_e512d381fed0aa2e_def b_e512d381fed0aa2e_node b_e512d381fed0aa2e_name derive_classes NodeInfo_reader_def NodeInfo_builder_def NodeInfo_pipeline_def)

subsection \<open>All of them\<close>

definition classHookLauncher_classes :: "(nat \<times> struct_classes) list" where
  "classHookLauncher_classes = [
     (0xddb256ee5b6b53b3, MemcpyPlan_reader, MemcpyPlan_builder, MemcpyPlan_pipeline),
     (0xeb7186a22c3fa0de, NodeStatus_reader, NodeStatus_builder, NodeStatus_pipeline),
     (0xf853fd580170b9de, AllocationPlan_reader, AllocationPlan_builder, AllocationPlan_pipeline),
     (0xa000d051b28a6d94, HookLauncher_PlanMemcpyHtoDParams_reader, HookLauncher_PlanMemcpyHtoDParams_builder, HookLauncher_PlanMemcpyHtoDParams_pipeline),
     (0xd9ccdb1e5a73a940, HookLauncher_PlanMemcpyHtoDResults_reader, HookLauncher_PlanMemcpyHtoDResults_builder, HookLauncher_PlanMemcpyHtoDResults_pipeline),
     (0xeb3523cbe98a804f, HookLauncher_PlanMemcpyDtoHParams_reader, HookLauncher_PlanMemcpyDtoHParams_builder, HookLauncher_PlanMemcpyDtoHParams_pipeline),
     (0xfa389ebe41e98f39, HookLauncher_PlanMemcpyDtoHResults_reader, HookLauncher_PlanMemcpyDtoHResults_builder, HookLauncher_PlanMemcpyDtoHResults_pipeline),
     (0x80b6bbac6ed09d85, HookLauncher_GetNodeStatusParams_reader, HookLauncher_GetNodeStatusParams_builder, HookLauncher_GetNodeStatusParams_pipeline),
     (0xe76522c9a2f40b20, HookLauncher_GetNodeStatusResults_reader, HookLauncher_GetNodeStatusResults_builder, HookLauncher_GetNodeStatusResults_pipeline),
     (0xbefc738967da08f4, HookLauncher_PrefetchDataParams_reader, HookLauncher_PrefetchDataParams_builder, HookLauncher_PrefetchDataParams_pipeline),
     (0xcbbd2a831eac2f20, HookLauncher_PrefetchDataResults_reader, HookLauncher_PrefetchDataResults_builder, HookLauncher_PrefetchDataResults_pipeline),
     (0xa4ab519fa8915cb7, HookLauncher_MeasureBandwidthParams_reader, HookLauncher_MeasureBandwidthParams_builder, HookLauncher_MeasureBandwidthParams_pipeline),
     (0x8cad8defaf95e7b0, HookLauncher_MeasureBandwidthResults_reader, HookLauncher_MeasureBandwidthResults_builder, HookLauncher_MeasureBandwidthResults_pipeline),
     (0xbb47eae7bc02e6df, HookLauncher_TrackAsyncTaskParams_reader, HookLauncher_TrackAsyncTaskParams_builder, HookLauncher_TrackAsyncTaskParams_pipeline),
     (0x8164a155f1640357, HookLauncher_TrackAsyncTaskResults_reader, HookLauncher_TrackAsyncTaskResults_builder, HookLauncher_TrackAsyncTaskResults_pipeline),
     (0xe407a39af6852337, HookLauncher_GetMemoryLocationParams_reader, HookLauncher_GetMemoryLocationParams_builder, HookLauncher_GetMemoryLocationParams_pipeline),
     (0xac17d9ac7710bc97, HookLauncher_GetMemoryLocationResults_reader, HookLauncher_GetMemoryLocationResults_builder, HookLauncher_GetMemoryLocationResults_pipeline),
     (0xdd45cfaa27648933, HookLauncher_AdvisePrefetchParams_reader, HookLauncher_AdvisePrefetchParams_builder, HookLauncher_AdvisePrefetchParams_pipeline),
     (0xc08ebc98e790327d, HookLauncher_AdvisePrefetchResults_reader, HookLauncher_AdvisePrefetchResults_builder, HookLauncher_AdvisePrefetchResults_pipeline),
     (0xad988cc9e73fbe88, HookLauncher_RequestRdmaPlanParams_reader, HookLauncher_RequestRdmaPlanParams_builder, HookLauncher_RequestRdmaPlanParams_pipeline),
     (0xecffba89eb376b1c, HookLauncher_RequestRdmaPlanResults_reader, HookLauncher_RequestRdmaPlanResults_builder, HookLauncher_RequestRdmaPlanResults_pipeline),
     (0xb83800add69fb044, HookLauncher_RequestAllocationPlanParams_reader, HookLauncher_RequestAllocationPlanParams_builder, HookLauncher_RequestAllocationPlanParams_pipeline),
     (0xbc5efba1a5ed5936, HookLauncher_RequestAllocationPlanResults_reader, HookLauncher_RequestAllocationPlanResults_builder, HookLauncher_RequestAllocationPlanResults_pipeline),
     (0xb977ada353b11337, HookLauncher_RequestFreePlanParams_reader, HookLauncher_RequestFreePlanParams_builder, HookLauncher_RequestFreePlanParams_pipeline),
     (0xf2d3d5a5c7ae7f9e, HookLauncher_RequestFreePlanResults_reader, HookLauncher_RequestFreePlanResults_builder, HookLauncher_RequestFreePlanResults_pipeline),
     (0x903a87eb87ebcf8b, HookLauncher_LaunchKernelParams_reader, HookLauncher_LaunchKernelParams_builder, HookLauncher_LaunchKernelParams_pipeline),
     (0xd43d88d79ada8ecb, HookLauncher_LaunchKernelResults_reader, HookLauncher_LaunchKernelResults_builder, HookLauncher_LaunchKernelResults_pipeline),
     (0x8e06bfe25704b493, BandwidthResult_reader, BandwidthResult_builder, BandwidthResult_pipeline),
     (0x9067a75daac545ad, TaskStatus_reader, TaskStatus_builder, TaskStatus_pipeline),
     (0xe512d381fed0aa2e, NodeInfo_reader, NodeInfo_builder, NodeInfo_pipeline)]"

lemma classHookLauncher_structs_classes:
  "map (\<lambda>s. (schema_id s, classes_of s)) schemaHookLauncher_structs = map (\<lambda>(i, c). (i, Some (octet_classes c))) classHookLauncher_classes"
  by (simp add: schemaHookLauncher_structs_def classHookLauncher_classes_def octet_classes_def
      MemcpyPlan_classes s_ddb256ee5b6b53b3_id NodeStatus_classes s_eb7186a22c3fa0de_id
      AllocationPlan_classes s_f853fd580170b9de_id
      HookLauncher_PlanMemcpyHtoDParams_classes s_a000d051b28a6d94_id
      HookLauncher_PlanMemcpyHtoDResults_classes s_d9ccdb1e5a73a940_id
      HookLauncher_PlanMemcpyDtoHParams_classes s_eb3523cbe98a804f_id
      HookLauncher_PlanMemcpyDtoHResults_classes s_fa389ebe41e98f39_id
      HookLauncher_GetNodeStatusParams_classes s_80b6bbac6ed09d85_id
      HookLauncher_GetNodeStatusResults_classes s_e76522c9a2f40b20_id
      HookLauncher_PrefetchDataParams_classes s_befc738967da08f4_id
      HookLauncher_PrefetchDataResults_classes s_cbbd2a831eac2f20_id
      HookLauncher_MeasureBandwidthParams_classes s_a4ab519fa8915cb7_id
      HookLauncher_MeasureBandwidthResults_classes s_8cad8defaf95e7b0_id
      HookLauncher_TrackAsyncTaskParams_classes s_bb47eae7bc02e6df_id
      HookLauncher_TrackAsyncTaskResults_classes s_8164a155f1640357_id
      HookLauncher_GetMemoryLocationParams_classes s_e407a39af6852337_id
      HookLauncher_GetMemoryLocationResults_classes s_ac17d9ac7710bc97_id
      HookLauncher_AdvisePrefetchParams_classes s_dd45cfaa27648933_id
      HookLauncher_AdvisePrefetchResults_classes s_c08ebc98e790327d_id
      HookLauncher_RequestRdmaPlanParams_classes s_ad988cc9e73fbe88_id
      HookLauncher_RequestRdmaPlanResults_classes s_ecffba89eb376b1c_id
      HookLauncher_RequestAllocationPlanParams_classes s_b83800add69fb044_id
      HookLauncher_RequestAllocationPlanResults_classes s_bc5efba1a5ed5936_id
      HookLauncher_RequestFreePlanParams_classes s_b977ada353b11337_id
      HookLauncher_RequestFreePlanResults_classes s_f2d3d5a5c7ae7f9e_id
      HookLauncher_LaunchKernelParams_classes s_903a87eb87ebcf8b_id
      HookLauncher_LaunchKernelResults_classes s_d43d88d79ada8ecb_id
      BandwidthResult_classes s_8e06bfe25704b493_id TaskStatus_classes s_9067a75daac545ad_id
      NodeInfo_classes s_e512d381fed0aa2e_id)

end
