(* ===== verification/ClassGpuControl.thy ===== *)
theory ClassGpuControl
  imports Classes SchemaGpuControl
begin

section \<open>The classes of gpu-control.capnp\<close>

text \<open>
  \<open>proto/proto/gpu-control.capnp.h\<close>: the reader, the builder and the pipeline of every struct, with the
  accessors they declare, in their order.
\<close>

text \<open>\<open>GpuList\<close>\<close>

definition GpuList_reader :: cxx_class where
  "GpuList_reader = CxxClass (reader_frame ''GpuList'') False [
     (''Gpus'', CxxList (CxxNamed ''GpuInfo''), [Has, Get])]"
definition GpuList_builder :: cxx_class where
  "GpuList_builder = CxxClass (builder_frame ''GpuList'') False [
     (''Gpus'', CxxList (CxxNamed ''GpuInfo''), [Has, Get, Set, InitSized, Adopt, Disown])]"
definition GpuList_pipeline :: cxx_class where
  "GpuList_pipeline = CxxClass (pipeline_frame ''GpuList'') False []"

lemma b_b5f8f6cc208cb766_name: "map_option class_name (node_name b_b5f8f6cc208cb766) = Some (name_octets ''GpuList'')"
  by (simp add: b_b5f8f6cc208cb766_def derive_name cong: table_congs bind_head_cong)

lemma GpuList_classes: "classes_of s_b5f8f6cc208cb766 = Some (octet_class GpuList_reader, octet_class GpuList_builder, octet_class GpuList_pipeline)"
  by (simp add: s_b5f8f6cc208cb766_def b_b5f8f6cc208cb766_node b_b5f8f6cc208cb766_name derive_classes GpuList_reader_def GpuList_builder_def GpuList_pipeline_def)

text \<open>\<open>GpuRequest\<close>\<close>

definition GpuRequest_reader :: cxx_class where
  "GpuRequest_reader = CxxClass (reader_frame ''GpuRequest'') False [
     (''Uuid'', CxxText, [Has, Get])]"
definition GpuRequest_builder :: cxx_class where
  "GpuRequest_builder = CxxClass (builder_frame ''GpuRequest'') False [
     (''Uuid'', CxxText, [Has, Get, Set, InitSized, Adopt, Disown])]"
definition GpuRequest_pipeline :: cxx_class where
  "GpuRequest_pipeline = CxxClass (pipeline_frame ''GpuRequest'') False []"

lemma b_e4f103179b354701_name: "map_option class_name (node_name b_e4f103179b354701) = Some (name_octets ''GpuRequest'')"
  by (simp add: b_e4f103179b354701_def derive_name cong: table_congs bind_head_cong)

lemma GpuRequest_classes: "classes_of s_e4f103179b354701 = Some (octet_class GpuRequest_reader, octet_class GpuRequest_builder, octet_class GpuRequest_pipeline)"
  by (simp add: s_e4f103179b354701_def b_e4f103179b354701_node b_e4f103179b354701_name derive_classes GpuRequest_reader_def GpuRequest_builder_def GpuRequest_pipeline_def)

text \<open>\<open>GpuStatus\<close>\<close>

definition GpuStatus_reader :: cxx_class where
  "GpuStatus_reader = CxxClass (reader_frame ''GpuStatus'') False [
     (''UsedMemory'', CxxInt 64, [Get]), (''Utilization'', CxxInt 32, [Get])]"
definition GpuStatus_builder :: cxx_class where
  "GpuStatus_builder = CxxClass (builder_frame ''GpuStatus'') False [
     (''UsedMemory'', CxxInt 64, [Get, Set]), (''Utilization'', CxxInt 32, [Get, Set])]"
definition GpuStatus_pipeline :: cxx_class where
  "GpuStatus_pipeline = CxxClass (pipeline_frame ''GpuStatus'') False []"

lemma b_bfb92316876e4204_name: "map_option class_name (node_name b_bfb92316876e4204) = Some (name_octets ''GpuStatus'')"
  by (simp add: b_bfb92316876e4204_def derive_name cong: table_congs bind_head_cong)

lemma GpuStatus_classes: "classes_of s_bfb92316876e4204 = Some (octet_class GpuStatus_reader, octet_class GpuStatus_builder, octet_class GpuStatus_pipeline)"
  by (simp add: s_bfb92316876e4204_def b_bfb92316876e4204_node b_bfb92316876e4204_name derive_classes GpuStatus_reader_def GpuStatus_builder_def GpuStatus_pipeline_def)

text \<open>\<open>Path\<close>\<close>

definition Path_reader :: cxx_class where
  "Path_reader = CxxClass (reader_frame ''Path'') False [
     (''Type'', CxxNamed ''PathType'', [Get]), (''Steps'', CxxList (CxxNamed ''Step''), [Has, Get]),
     (''Bandwidth'', CxxFloat 32, [Get])]"
definition Path_builder :: cxx_class where
  "Path_builder = CxxClass (builder_frame ''Path'') False [
     (''Type'', CxxNamed ''PathType'', [Get, Set]),
     (''Steps'', CxxList (CxxNamed ''Step''), [Has, Get, Set, InitSized, Adopt, Disown]),
     (''Bandwidth'', CxxFloat 32, [Get, Set])]"
definition Path_pipeline :: cxx_class where
  "Path_pipeline = CxxClass (pipeline_frame ''Path'') False []"

lemma b_d55a8aa154796958_name: "map_option class_name (node_name b_d55a8aa154796958) = Some (name_octets ''Path'')"
  by (simp add: b_d55a8aa154796958_def derive_name cong: table_congs bind_head_cong)

lemma Path_classes: "classes_of s_d55a8aa154796958 = Some (octet_class Path_reader, octet_class Path_builder, octet_class Path_pipeline)"
  by (simp add: s_d55a8aa154796958_def b_d55a8aa154796958_node b_d55a8aa154796958_name derive_classes Path_reader_def Path_builder_def Path_pipeline_def)

text \<open>\<open>Step\<close>\<close>

definition Step_reader :: cxx_class where
  "Step_reader = CxxClass (reader_frame ''Step'') False [
     (''Device'', CxxText, [Has, Get]), (''MemType'', CxxNamed ''MemType'', [Get]),
     (''NumaNode'', CxxUInt 32, [Get])]"
definition Step_builder :: cxx_class where
  "Step_builder = CxxClass (builder_frame ''Step'') False [
     (''Device'', CxxText, [Has, Get, Set, InitSized, Adopt, Disown]),
     (''MemType'', CxxNamed ''MemType'', [Get, Set]), (''NumaNode'', CxxUInt 32, [Get, Set])]"
definition Step_pipeline :: cxx_class where
  "Step_pipeline = CxxClass (pipeline_frame ''Step'') False []"

lemma b_c0356e53706dd651_name: "map_option class_name (node_name b_c0356e53706dd651) = Some (name_octets ''Step'')"
  by (simp add: b_c0356e53706dd651_def derive_name cong: table_congs bind_head_cong)

lemma Step_classes: "classes_of s_c0356e53706dd651 = Some (octet_class Step_reader, octet_class Step_builder, octet_class Step_pipeline)"
  by (simp add: s_c0356e53706dd651_def b_c0356e53706dd651_node b_c0356e53706dd651_name derive_classes Step_reader_def Step_builder_def Step_pipeline_def)

text \<open>\<open>Metrics\<close>\<close>

definition Metrics_reader :: cxx_class where
  "Metrics_reader = CxxClass (reader_frame ''Metrics'') False [
     (''Throughput'', CxxFloat 32, [Get]), (''Latency'', CxxFloat 32, [Get]),
     (''ErrorRate'', CxxFloat 32, [Get])]"
definition Metrics_builder :: cxx_class where
  "Metrics_builder = CxxClass (builder_frame ''Metrics'') False [
     (''Throughput'', CxxFloat 32, [Get, Set]), (''Latency'', CxxFloat 32, [Get, Set]),
     (''ErrorRate'', CxxFloat 32, [Get, Set])]"
definition Metrics_pipeline :: cxx_class where
  "Metrics_pipeline = CxxClass (pipeline_frame ''Metrics'') False []"

lemma b_ada0409ba8ac33f9_name: "map_option class_name (node_name b_ada0409ba8ac33f9) = Some (name_octets ''Metrics'')"
  by (simp add: b_ada0409ba8ac33f9_def derive_name cong: table_congs bind_head_cong)

lemma Metrics_classes: "classes_of s_ada0409ba8ac33f9 = Some (octet_class Metrics_reader, octet_class Metrics_builder, octet_class Metrics_pipeline)"
  by (simp add: s_ada0409ba8ac33f9_def b_ada0409ba8ac33f9_node b_ada0409ba8ac33f9_name derive_classes Metrics_reader_def Metrics_builder_def Metrics_pipeline_def)

text \<open>\<open>Scheduler::RequestPathParams\<close>\<close>

definition Scheduler_RequestPathParams_reader :: cxx_class where
  "Scheduler_RequestPathParams_reader = CxxClass (reader_frame ''Scheduler::RequestPathParams'') False [
     (''Src'', CxxText, [Has, Get]), (''Dst'', CxxText, [Has, Get])]"
definition Scheduler_RequestPathParams_builder :: cxx_class where
  "Scheduler_RequestPathParams_builder = CxxClass (builder_frame ''Scheduler::RequestPathParams'') False [
     (''Src'', CxxText, [Has, Get, Set, InitSized, Adopt, Disown]),
     (''Dst'', CxxText, [Has, Get, Set, InitSized, Adopt, Disown])]"
definition Scheduler_RequestPathParams_pipeline :: cxx_class where
  "Scheduler_RequestPathParams_pipeline = CxxClass (pipeline_frame ''Scheduler::RequestPathParams'') False []"

lemma b_b9ecb76147d5217b_name: "map_option class_name (node_name b_b9ecb76147d5217b) = Some (name_octets ''Scheduler::RequestPathParams'')"
  by (simp add: b_b9ecb76147d5217b_def derive_name cong: table_congs bind_head_cong)

lemma Scheduler_RequestPathParams_classes: "classes_of s_b9ecb76147d5217b = Some (octet_class Scheduler_RequestPathParams_reader, octet_class Scheduler_RequestPathParams_builder, octet_class Scheduler_RequestPathParams_pipeline)"
  by (simp add: s_b9ecb76147d5217b_def b_b9ecb76147d5217b_node b_b9ecb76147d5217b_name derive_classes Scheduler_RequestPathParams_reader_def Scheduler_RequestPathParams_builder_def Scheduler_RequestPathParams_pipeline_def)

text \<open>\<open>Scheduler::RequestPathResults\<close>\<close>

definition Scheduler_RequestPathResults_reader :: cxx_class where
  "Scheduler_RequestPathResults_reader = CxxClass (reader_frame ''Scheduler::RequestPathResults'') False [
     (''Path'', CxxNamed ''Path'', [Has, Get])]"
definition Scheduler_RequestPathResults_builder :: cxx_class where
  "Scheduler_RequestPathResults_builder = CxxClass (builder_frame ''Scheduler::RequestPathResults'') False [
     (''Path'', CxxNamed ''Path'', [Has, Get, Set, Init, Adopt, Disown])]"
definition Scheduler_RequestPathResults_pipeline :: cxx_class where
  "Scheduler_RequestPathResults_pipeline = CxxClass (pipeline_frame ''Scheduler::RequestPathResults'') False [
     (''Path'', CxxNamed ''Path'', [Get])]"

lemma b_a4b397c452f0157f_name: "map_option class_name (node_name b_a4b397c452f0157f) = Some (name_octets ''Scheduler::RequestPathResults'')"
  by (simp add: b_a4b397c452f0157f_def derive_name cong: table_congs bind_head_cong)

lemma Scheduler_RequestPathResults_classes: "classes_of s_a4b397c452f0157f = Some (octet_class Scheduler_RequestPathResults_reader, octet_class Scheduler_RequestPathResults_builder, octet_class Scheduler_RequestPathResults_pipeline)"
  by (simp add: s_a4b397c452f0157f_def b_a4b397c452f0157f_node b_a4b397c452f0157f_name derive_classes Scheduler_RequestPathResults_reader_def Scheduler_RequestPathResults_builder_def Scheduler_RequestPathResults_pipeline_def)

text \<open>\<open>Scheduler::ReportMetricsParams\<close>\<close>

definition Scheduler_ReportMetricsParams_reader :: cxx_class where
  "Scheduler_ReportMetricsParams_reader = CxxClass (reader_frame ''Scheduler::ReportMetricsParams'') False [
     (''Metrics'', CxxNamed ''Metrics'', [Has, Get])]"
definition Scheduler_ReportMetricsParams_builder :: cxx_class where
  "Scheduler_ReportMetricsParams_builder = CxxClass (builder_frame ''Scheduler::ReportMetricsParams'') False [
     (''Metrics'', CxxNamed ''Metrics'', [Has, Get, Set, Init, Adopt, Disown])]"
definition Scheduler_ReportMetricsParams_pipeline :: cxx_class where
  "Scheduler_ReportMetricsParams_pipeline = CxxClass (pipeline_frame ''Scheduler::ReportMetricsParams'') False [
     (''Metrics'', CxxNamed ''Metrics'', [Get])]"

lemma b_e66e89322dd07425_name: "map_option class_name (node_name b_e66e89322dd07425) = Some (name_octets ''Scheduler::ReportMetricsParams'')"
  by (simp add: b_e66e89322dd07425_def derive_name cong: table_congs bind_head_cong)

lemma Scheduler_ReportMetricsParams_classes: "classes_of s_e66e89322dd07425 = Some (octet_class Scheduler_ReportMetricsParams_reader, octet_class Scheduler_ReportMetricsParams_builder, octet_class Scheduler_ReportMetricsParams_pipeline)"
  by (simp add: s_e66e89322dd07425_def b_e66e89322dd07425_node b_e66e89322dd07425_name derive_classes Scheduler_ReportMetricsParams_reader_def Scheduler_ReportMetricsParams_builder_def Scheduler_ReportMetricsParams_pipeline_def)

text \<open>\<open>Scheduler::ReportMetricsResults\<close>\<close>

definition Scheduler_ReportMetricsResults_reader :: cxx_class where
  "Scheduler_ReportMetricsResults_reader = CxxClass (reader_frame ''Scheduler::ReportMetricsResults'') False []"
definition Scheduler_ReportMetricsResults_builder :: cxx_class where
  "Scheduler_ReportMetricsResults_builder = CxxClass (builder_frame ''Scheduler::ReportMetricsResults'') False []"
definition Scheduler_ReportMetricsResults_pipeline :: cxx_class where
  "Scheduler_ReportMetricsResults_pipeline = CxxClass (pipeline_frame ''Scheduler::ReportMetricsResults'') False []"

lemma b_edb95852bd820401_name: "map_option class_name (node_name b_edb95852bd820401) = Some (name_octets ''Scheduler::ReportMetricsResults'')"
  by (simp add: b_edb95852bd820401_def derive_name cong: table_congs bind_head_cong)

lemma Scheduler_ReportMetricsResults_classes: "classes_of s_edb95852bd820401 = Some (octet_class Scheduler_ReportMetricsResults_reader, octet_class Scheduler_ReportMetricsResults_builder, octet_class Scheduler_ReportMetricsResults_pipeline)"
  by (simp add: s_edb95852bd820401_def b_edb95852bd820401_node b_edb95852bd820401_name derive_classes Scheduler_ReportMetricsResults_reader_def Scheduler_ReportMetricsResults_builder_def Scheduler_ReportMetricsResults_pipeline_def)

text \<open>\<open>Scheduler::RegisterGpuParams\<close>\<close>

definition Scheduler_RegisterGpuParams_reader :: cxx_class where
  "Scheduler_RegisterGpuParams_reader = CxxClass (reader_frame ''Scheduler::RegisterGpuParams'') False [
     (''Info'', CxxNamed ''GpuInfo'', [Has, Get])]"
definition Scheduler_RegisterGpuParams_builder :: cxx_class where
  "Scheduler_RegisterGpuParams_builder = CxxClass (builder_frame ''Scheduler::RegisterGpuParams'') False [
     (''Info'', CxxNamed ''GpuInfo'', [Has, Get, Set, Init, Adopt, Disown])]"
definition Scheduler_RegisterGpuParams_pipeline :: cxx_class where
  "Scheduler_RegisterGpuParams_pipeline = CxxClass (pipeline_frame ''Scheduler::RegisterGpuParams'') False [
     (''Info'', CxxNamed ''GpuInfo'', [Get])]"

lemma b_f9ee31c8e9ebbaca_name: "map_option class_name (node_name b_f9ee31c8e9ebbaca) = Some (name_octets ''Scheduler::RegisterGpuParams'')"
  by (simp add: b_f9ee31c8e9ebbaca_def derive_name cong: table_congs bind_head_cong)

lemma Scheduler_RegisterGpuParams_classes: "classes_of s_f9ee31c8e9ebbaca = Some (octet_class Scheduler_RegisterGpuParams_reader, octet_class Scheduler_RegisterGpuParams_builder, octet_class Scheduler_RegisterGpuParams_pipeline)"
  by (simp add: s_f9ee31c8e9ebbaca_def b_f9ee31c8e9ebbaca_node b_f9ee31c8e9ebbaca_name derive_classes Scheduler_RegisterGpuParams_reader_def Scheduler_RegisterGpuParams_builder_def Scheduler_RegisterGpuParams_pipeline_def)

text \<open>\<open>Scheduler::RegisterGpuResults\<close>\<close>

definition Scheduler_RegisterGpuResults_reader :: cxx_class where
  "Scheduler_RegisterGpuResults_reader = CxxClass (reader_frame ''Scheduler::RegisterGpuResults'') False [
     (''Success'', CxxBool, [Get])]"
definition Scheduler_RegisterGpuResults_builder :: cxx_class where
  "Scheduler_RegisterGpuResults_builder = CxxClass (builder_frame ''Scheduler::RegisterGpuResults'') False [
     (''Success'', CxxBool, [Get, Set])]"
definition Scheduler_RegisterGpuResults_pipeline :: cxx_class where
  "Scheduler_RegisterGpuResults_pipeline = CxxClass (pipeline_frame ''Scheduler::RegisterGpuResults'') False []"

lemma b_c61654dcfaa29834_name: "map_option class_name (node_name b_c61654dcfaa29834) = Some (name_octets ''Scheduler::RegisterGpuResults'')"
  by (simp add: b_c61654dcfaa29834_def derive_name cong: table_congs bind_head_cong)

lemma Scheduler_RegisterGpuResults_classes: "classes_of s_c61654dcfaa29834 = Some (octet_class Scheduler_RegisterGpuResults_reader, octet_class Scheduler_RegisterGpuResults_builder, octet_class Scheduler_RegisterGpuResults_pipeline)"
  by (simp add: s_c61654dcfaa29834_def b_c61654dcfaa29834_node b_c61654dcfaa29834_name derive_classes Scheduler_RegisterGpuResults_reader_def Scheduler_RegisterGpuResults_builder_def Scheduler_RegisterGpuResults_pipeline_def)

text \<open>\<open>Scheduler::ListGpusParams\<close>\<close>

definition Scheduler_ListGpusParams_reader :: cxx_class where
  "Scheduler_ListGpusParams_reader = CxxClass (reader_frame ''Scheduler::ListGpusParams'') False []"
definition Scheduler_ListGpusParams_builder :: cxx_class where
  "Scheduler_ListGpusParams_builder = CxxClass (builder_frame ''Scheduler::ListGpusParams'') False []"
definition Scheduler_ListGpusParams_pipeline :: cxx_class where
  "Scheduler_ListGpusParams_pipeline = CxxClass (pipeline_frame ''Scheduler::ListGpusParams'') False []"

lemma b_c3d5a9cea9e1afa5_name: "map_option class_name (node_name b_c3d5a9cea9e1afa5) = Some (name_octets ''Scheduler::ListGpusParams'')"
  by (simp add: b_c3d5a9cea9e1afa5_def derive_name cong: table_congs bind_head_cong)

lemma Scheduler_ListGpusParams_classes: "classes_of s_c3d5a9cea9e1afa5 = Some (octet_class Scheduler_ListGpusParams_reader, octet_class Scheduler_ListGpusParams_builder, octet_class Scheduler_ListGpusParams_pipeline)"
  by (simp add: s_c3d5a9cea9e1afa5_def b_c3d5a9cea9e1afa5_node b_c3d5a9cea9e1afa5_name derive_classes Scheduler_ListGpusParams_reader_def Scheduler_ListGpusParams_builder_def Scheduler_ListGpusParams_pipeline_def)

text \<open>\<open>Scheduler::ListGpusResults\<close>\<close>

definition Scheduler_ListGpusResults_reader :: cxx_class where
  "Scheduler_ListGpusResults_reader = CxxClass (reader_frame ''Scheduler::ListGpusResults'') False [
     (''Gpus'', CxxNamed ''GpuList'', [Has, Get])]"
definition Scheduler_ListGpusResults_builder :: cxx_class where
  "Scheduler_ListGpusResults_builder = CxxClass (builder_frame ''Scheduler::ListGpusResults'') False [
     (''Gpus'', CxxNamed ''GpuList'', [Has, Get, Set, Init, Adopt, Disown])]"
definition Scheduler_ListGpusResults_pipeline :: cxx_class where
  "Scheduler_ListGpusResults_pipeline = CxxClass (pipeline_frame ''Scheduler::ListGpusResults'') False [
     (''Gpus'', CxxNamed ''GpuList'', [Get])]"

lemma b_96505251d9a2981e_name: "map_option class_name (node_name b_96505251d9a2981e) = Some (name_octets ''Scheduler::ListGpusResults'')"
  by (simp add: b_96505251d9a2981e_def derive_name cong: table_congs bind_head_cong)

lemma Scheduler_ListGpusResults_classes: "classes_of s_96505251d9a2981e = Some (octet_class Scheduler_ListGpusResults_reader, octet_class Scheduler_ListGpusResults_builder, octet_class Scheduler_ListGpusResults_pipeline)"
  by (simp add: s_96505251d9a2981e_def b_96505251d9a2981e_node b_96505251d9a2981e_name derive_classes Scheduler_ListGpusResults_reader_def Scheduler_ListGpusResults_builder_def Scheduler_ListGpusResults_pipeline_def)

text \<open>\<open>Scheduler::GetGpuStatusParams\<close>\<close>

definition Scheduler_GetGpuStatusParams_reader :: cxx_class where
  "Scheduler_GetGpuStatusParams_reader = CxxClass (reader_frame ''Scheduler::GetGpuStatusParams'') False [
     (''Request'', CxxNamed ''GpuRequest'', [Has, Get])]"
definition Scheduler_GetGpuStatusParams_builder :: cxx_class where
  "Scheduler_GetGpuStatusParams_builder = CxxClass (builder_frame ''Scheduler::GetGpuStatusParams'') False [
     (''Request'', CxxNamed ''GpuRequest'', [Has, Get, Set, Init, Adopt, Disown])]"
definition Scheduler_GetGpuStatusParams_pipeline :: cxx_class where
  "Scheduler_GetGpuStatusParams_pipeline = CxxClass (pipeline_frame ''Scheduler::GetGpuStatusParams'') False [
     (''Request'', CxxNamed ''GpuRequest'', [Get])]"

lemma b_e4bb798802b333dd_name: "map_option class_name (node_name b_e4bb798802b333dd) = Some (name_octets ''Scheduler::GetGpuStatusParams'')"
  by (simp add: b_e4bb798802b333dd_def derive_name cong: table_congs bind_head_cong)

lemma Scheduler_GetGpuStatusParams_classes: "classes_of s_e4bb798802b333dd = Some (octet_class Scheduler_GetGpuStatusParams_reader, octet_class Scheduler_GetGpuStatusParams_builder, octet_class Scheduler_GetGpuStatusParams_pipeline)"
  by (simp add: s_e4bb798802b333dd_def b_e4bb798802b333dd_node b_e4bb798802b333dd_name derive_classes Scheduler_GetGpuStatusParams_reader_def Scheduler_GetGpuStatusParams_builder_def Scheduler_GetGpuStatusParams_pipeline_def)

text \<open>\<open>Scheduler::GetGpuStatusResults\<close>\<close>

definition Scheduler_GetGpuStatusResults_reader :: cxx_class where
  "Scheduler_GetGpuStatusResults_reader = CxxClass (reader_frame ''Scheduler::GetGpuStatusResults'') False [
     (''Status'', CxxNamed ''GpuStatus'', [Has, Get])]"
definition Scheduler_GetGpuStatusResults_builder :: cxx_class where
  "Scheduler_GetGpuStatusResults_builder = CxxClass (builder_frame ''Scheduler::GetGpuStatusResults'') False [
     (''Status'', CxxNamed ''GpuStatus'', [Has, Get, Set, Init, Adopt, Disown])]"
definition Scheduler_GetGpuStatusResults_pipeline :: cxx_class where
  "Scheduler_GetGpuStatusResults_pipeline = CxxClass (pipeline_frame ''Scheduler::GetGpuStatusResults'') False [
     (''Status'', CxxNamed ''GpuStatus'', [Get])]"

lemma b_88e8c194c7de76b5_name: "map_option class_name (node_name b_88e8c194c7de76b5) = Some (name_octets ''Scheduler::GetGpuStatusResults'')"
  by (simp add: b_88e8c194c7de76b5_def derive_name cong: table_congs bind_head_cong)

lemma Scheduler_GetGpuStatusResults_classes: "classes_of s_88e8c194c7de76b5 = Some (octet_class Scheduler_GetGpuStatusResults_reader, octet_class Scheduler_GetGpuStatusResults_builder, octet_class Scheduler_GetGpuStatusResults_pipeline)"
  by (simp add: s_88e8c194c7de76b5_def b_88e8c194c7de76b5_node b_88e8c194c7de76b5_name derive_classes Scheduler_GetGpuStatusResults_reader_def Scheduler_GetGpuStatusResults_builder_def Scheduler_GetGpuStatusResults_pipeline_def)

text \<open>\<open>Scheduler::AcquireGpuParams\<close>\<close>

definition Scheduler_AcquireGpuParams_reader :: cxx_class where
  "Scheduler_AcquireGpuParams_reader = CxxClass (reader_frame ''Scheduler::AcquireGpuParams'') False [
     (''Request'', CxxNamed ''GpuRequest'', [Has, Get])]"
definition Scheduler_AcquireGpuParams_builder :: cxx_class where
  "Scheduler_AcquireGpuParams_builder = CxxClass (builder_frame ''Scheduler::AcquireGpuParams'') False [
     (''Request'', CxxNamed ''GpuRequest'', [Has, Get, Set, Init, Adopt, Disown])]"
definition Scheduler_AcquireGpuParams_pipeline :: cxx_class where
  "Scheduler_AcquireGpuParams_pipeline = CxxClass (pipeline_frame ''Scheduler::AcquireGpuParams'') False [
     (''Request'', CxxNamed ''GpuRequest'', [Get])]"

lemma b_b5568a3ad83e748d_name: "map_option class_name (node_name b_b5568a3ad83e748d) = Some (name_octets ''Scheduler::AcquireGpuParams'')"
  by (simp add: b_b5568a3ad83e748d_def derive_name cong: table_congs bind_head_cong)

lemma Scheduler_AcquireGpuParams_classes: "classes_of s_b5568a3ad83e748d = Some (octet_class Scheduler_AcquireGpuParams_reader, octet_class Scheduler_AcquireGpuParams_builder, octet_class Scheduler_AcquireGpuParams_pipeline)"
  by (simp add: s_b5568a3ad83e748d_def b_b5568a3ad83e748d_node b_b5568a3ad83e748d_name derive_classes Scheduler_AcquireGpuParams_reader_def Scheduler_AcquireGpuParams_builder_def Scheduler_AcquireGpuParams_pipeline_def)

text \<open>\<open>Scheduler::AcquireGpuResults\<close>\<close>

definition Scheduler_AcquireGpuResults_reader :: cxx_class where
  "Scheduler_AcquireGpuResults_reader = CxxClass (reader_frame ''Scheduler::AcquireGpuResults'') False [
     (''Ack'', CxxNamed ''Ack'', [Has, Get])]"
definition Scheduler_AcquireGpuResults_builder :: cxx_class where
  "Scheduler_AcquireGpuResults_builder = CxxClass (builder_frame ''Scheduler::AcquireGpuResults'') False [
     (''Ack'', CxxNamed ''Ack'', [Has, Get, Set, Init, Adopt, Disown])]"
definition Scheduler_AcquireGpuResults_pipeline :: cxx_class where
  "Scheduler_AcquireGpuResults_pipeline = CxxClass (pipeline_frame ''Scheduler::AcquireGpuResults'') False [
     (''Ack'', CxxNamed ''Ack'', [Get])]"

lemma b_8031a24cacf7ef24_name: "map_option class_name (node_name b_8031a24cacf7ef24) = Some (name_octets ''Scheduler::AcquireGpuResults'')"
  by (simp add: b_8031a24cacf7ef24_def derive_name cong: table_congs bind_head_cong)

lemma Scheduler_AcquireGpuResults_classes: "classes_of s_8031a24cacf7ef24 = Some (octet_class Scheduler_AcquireGpuResults_reader, octet_class Scheduler_AcquireGpuResults_builder, octet_class Scheduler_AcquireGpuResults_pipeline)"
  by (simp add: s_8031a24cacf7ef24_def b_8031a24cacf7ef24_node b_8031a24cacf7ef24_name derive_classes Scheduler_AcquireGpuResults_reader_def Scheduler_AcquireGpuResults_builder_def Scheduler_AcquireGpuResults_pipeline_def)

text \<open>\<open>Scheduler::ReleaseGpuParams\<close>\<close>

definition Scheduler_ReleaseGpuParams_reader :: cxx_class where
  "Scheduler_ReleaseGpuParams_reader = CxxClass (reader_frame ''Scheduler::ReleaseGpuParams'') False [
     (''Request'', CxxNamed ''GpuRequest'', [Has, Get])]"
definition Scheduler_ReleaseGpuParams_builder :: cxx_class where
  "Scheduler_ReleaseGpuParams_builder = CxxClass (builder_frame ''Scheduler::ReleaseGpuParams'') False [
     (''Request'', CxxNamed ''GpuRequest'', [Has, Get, Set, Init, Adopt, Disown])]"
definition Scheduler_ReleaseGpuParams_pipeline :: cxx_class where
  "Scheduler_ReleaseGpuParams_pipeline = CxxClass (pipeline_frame ''Scheduler::ReleaseGpuParams'') False [
     (''Request'', CxxNamed ''GpuRequest'', [Get])]"

lemma b_80a3402bda717aa6_name: "map_option class_name (node_name b_80a3402bda717aa6) = Some (name_octets ''Scheduler::ReleaseGpuParams'')"
  by (simp add: b_80a3402bda717aa6_def derive_name cong: table_congs bind_head_cong)

lemma Scheduler_ReleaseGpuParams_classes: "classes_of s_80a3402bda717aa6 = Some (octet_class Scheduler_ReleaseGpuParams_reader, octet_class Scheduler_ReleaseGpuParams_builder, octet_class Scheduler_ReleaseGpuParams_pipeline)"
  by (simp add: s_80a3402bda717aa6_def b_80a3402bda717aa6_node b_80a3402bda717aa6_name derive_classes Scheduler_ReleaseGpuParams_reader_def Scheduler_ReleaseGpuParams_builder_def Scheduler_ReleaseGpuParams_pipeline_def)

text \<open>\<open>Scheduler::ReleaseGpuResults\<close>\<close>

definition Scheduler_ReleaseGpuResults_reader :: cxx_class where
  "Scheduler_ReleaseGpuResults_reader = CxxClass (reader_frame ''Scheduler::ReleaseGpuResults'') False [
     (''Ack'', CxxNamed ''Ack'', [Has, Get])]"
definition Scheduler_ReleaseGpuResults_builder :: cxx_class where
  "Scheduler_ReleaseGpuResults_builder = CxxClass (builder_frame ''Scheduler::ReleaseGpuResults'') False [
     (''Ack'', CxxNamed ''Ack'', [Has, Get, Set, Init, Adopt, Disown])]"
definition Scheduler_ReleaseGpuResults_pipeline :: cxx_class where
  "Scheduler_ReleaseGpuResults_pipeline = CxxClass (pipeline_frame ''Scheduler::ReleaseGpuResults'') False [
     (''Ack'', CxxNamed ''Ack'', [Get])]"

lemma b_9994ba5ea08baa47_name: "map_option class_name (node_name b_9994ba5ea08baa47) = Some (name_octets ''Scheduler::ReleaseGpuResults'')"
  by (simp add: b_9994ba5ea08baa47_def derive_name cong: table_congs bind_head_cong)

lemma Scheduler_ReleaseGpuResults_classes: "classes_of s_9994ba5ea08baa47 = Some (octet_class Scheduler_ReleaseGpuResults_reader, octet_class Scheduler_ReleaseGpuResults_builder, octet_class Scheduler_ReleaseGpuResults_pipeline)"
  by (simp add: s_9994ba5ea08baa47_def b_9994ba5ea08baa47_node b_9994ba5ea08baa47_name derive_classes Scheduler_ReleaseGpuResults_reader_def Scheduler_ReleaseGpuResults_builder_def Scheduler_ReleaseGpuResults_pipeline_def)

text \<open>\<open>Scheduler::RunCommandParams\<close>\<close>

definition Scheduler_RunCommandParams_reader :: cxx_class where
  "Scheduler_RunCommandParams_reader = CxxClass (reader_frame ''Scheduler::RunCommandParams'') False [
     (''Request'', CxxNamed ''RunRequest'', [Has, Get])]"
definition Scheduler_RunCommandParams_builder :: cxx_class where
  "Scheduler_RunCommandParams_builder = CxxClass (builder_frame ''Scheduler::RunCommandParams'') False [
     (''Request'', CxxNamed ''RunRequest'', [Has, Get, Set, Init, Adopt, Disown])]"
definition Scheduler_RunCommandParams_pipeline :: cxx_class where
  "Scheduler_RunCommandParams_pipeline = CxxClass (pipeline_frame ''Scheduler::RunCommandParams'') False [
     (''Request'', CxxNamed ''RunRequest'', [Get])]"

lemma b_ac5ce9d7dbd7dc54_name: "map_option class_name (node_name b_ac5ce9d7dbd7dc54) = Some (name_octets ''Scheduler::RunCommandParams'')"
  by (simp add: b_ac5ce9d7dbd7dc54_def derive_name cong: table_congs bind_head_cong)

lemma Scheduler_RunCommandParams_classes: "classes_of s_ac5ce9d7dbd7dc54 = Some (octet_class Scheduler_RunCommandParams_reader, octet_class Scheduler_RunCommandParams_builder, octet_class Scheduler_RunCommandParams_pipeline)"
  by (simp add: s_ac5ce9d7dbd7dc54_def b_ac5ce9d7dbd7dc54_node b_ac5ce9d7dbd7dc54_name derive_classes Scheduler_RunCommandParams_reader_def Scheduler_RunCommandParams_builder_def Scheduler_RunCommandParams_pipeline_def)

text \<open>\<open>Scheduler::RunCommandResults\<close>\<close>

definition Scheduler_RunCommandResults_reader :: cxx_class where
  "Scheduler_RunCommandResults_reader = CxxClass (reader_frame ''Scheduler::RunCommandResults'') False [
     (''Response'', CxxNamed ''RunResponse'', [Has, Get])]"
definition Scheduler_RunCommandResults_builder :: cxx_class where
  "Scheduler_RunCommandResults_builder = CxxClass (builder_frame ''Scheduler::RunCommandResults'') False [
     (''Response'', CxxNamed ''RunResponse'', [Has, Get, Set, Init, Adopt, Disown])]"
definition Scheduler_RunCommandResults_pipeline :: cxx_class where
  "Scheduler_RunCommandResults_pipeline = CxxClass (pipeline_frame ''Scheduler::RunCommandResults'') False [
     (''Response'', CxxNamed ''RunResponse'', [Get])]"

lemma b_94cf2d50096076fe_name: "map_option class_name (node_name b_94cf2d50096076fe) = Some (name_octets ''Scheduler::RunCommandResults'')"
  by (simp add: b_94cf2d50096076fe_def derive_name cong: table_congs bind_head_cong)

lemma Scheduler_RunCommandResults_classes: "classes_of s_94cf2d50096076fe = Some (octet_class Scheduler_RunCommandResults_reader, octet_class Scheduler_RunCommandResults_builder, octet_class Scheduler_RunCommandResults_pipeline)"
  by (simp add: s_94cf2d50096076fe_def b_94cf2d50096076fe_node b_94cf2d50096076fe_name derive_classes Scheduler_RunCommandResults_reader_def Scheduler_RunCommandResults_builder_def Scheduler_RunCommandResults_pipeline_def)

text \<open>\<open>RunRequest\<close>\<close>

definition RunRequest_reader :: cxx_class where
  "RunRequest_reader = CxxClass (reader_frame ''RunRequest'') False [
     (''Uuid'', CxxText, [Has, Get]), (''Cmd'', CxxText, [Has, Get]),
     (''StreamHandle'', CxxUInt 64, [Get])]"
definition RunRequest_builder :: cxx_class where
  "RunRequest_builder = CxxClass (builder_frame ''RunRequest'') False [
     (''Uuid'', CxxText, [Has, Get, Set, InitSized, Adopt, Disown]),
     (''Cmd'', CxxText, [Has, Get, Set, InitSized, Adopt, Disown]),
     (''StreamHandle'', CxxUInt 64, [Get, Set])]"
definition RunRequest_pipeline :: cxx_class where
  "RunRequest_pipeline = CxxClass (pipeline_frame ''RunRequest'') False []"

lemma b_b94f7935e9a4d8a6_name: "map_option class_name (node_name b_b94f7935e9a4d8a6) = Some (name_octets ''RunRequest'')"
  by (simp add: b_b94f7935e9a4d8a6_def derive_name cong: table_congs bind_head_cong)

lemma RunRequest_classes: "classes_of s_b94f7935e9a4d8a6 = Some (octet_class RunRequest_reader, octet_class RunRequest_builder, octet_class RunRequest_pipeline)"
  by (simp add: s_b94f7935e9a4d8a6_def b_b94f7935e9a4d8a6_node b_b94f7935e9a4d8a6_name derive_classes RunRequest_reader_def RunRequest_builder_def RunRequest_pipeline_def)

text \<open>\<open>RunResponse\<close>\<close>

definition RunResponse_reader :: cxx_class where
  "RunResponse_reader = CxxClass (reader_frame ''RunResponse'') False [
     (''ExitCode'', CxxInt 32, [Get]), (''Output'', CxxText, [Has, Get])]"
definition RunResponse_builder :: cxx_class where
  "RunResponse_builder = CxxClass (builder_frame ''RunResponse'') False [
     (''ExitCode'', CxxInt 32, [Get, Set]),
     (''Output'', CxxText, [Has, Get, Set, InitSized, Adopt, Disown])]"
definition RunResponse_pipeline :: cxx_class where
  "RunResponse_pipeline = CxxClass (pipeline_frame ''RunResponse'') False []"

lemma b_d50832f599bb96f4_name: "map_option class_name (node_name b_d50832f599bb96f4) = Some (name_octets ''RunResponse'')"
  by (simp add: b_d50832f599bb96f4_def derive_name cong: table_congs bind_head_cong)

lemma RunResponse_classes: "classes_of s_d50832f599bb96f4 = Some (octet_class RunResponse_reader, octet_class RunResponse_builder, octet_class RunResponse_pipeline)"
  by (simp add: s_d50832f599bb96f4_def b_d50832f599bb96f4_node b_d50832f599bb96f4_name derive_classes RunResponse_reader_def RunResponse_builder_def RunResponse_pipeline_def)

subsection \<open>All of them\<close>

definition classGpuControl_classes :: "(nat \<times> struct_classes) list" where
  "classGpuControl_classes = [
     (0xb5f8f6cc208cb766, GpuList_reader, GpuList_builder, GpuList_pipeline),
     (0xe4f103179b354701, GpuRequest_reader, GpuRequest_builder, GpuRequest_pipeline),
     (0xbfb92316876e4204, GpuStatus_reader, GpuStatus_builder, GpuStatus_pipeline),
     (0xd55a8aa154796958, Path_reader, Path_builder, Path_pipeline),
     (0xc0356e53706dd651, Step_reader, Step_builder, Step_pipeline),
     (0xada0409ba8ac33f9, Metrics_reader, Metrics_builder, Metrics_pipeline),
     (0xb9ecb76147d5217b, Scheduler_RequestPathParams_reader, Scheduler_RequestPathParams_builder, Scheduler_RequestPathParams_pipeline),
     (0xa4b397c452f0157f, Scheduler_RequestPathResults_reader, Scheduler_RequestPathResults_builder, Scheduler_RequestPathResults_pipeline),
     (0xe66e89322dd07425, Scheduler_ReportMetricsParams_reader, Scheduler_ReportMetricsParams_builder, Scheduler_ReportMetricsParams_pipeline),
     (0xedb95852bd820401, Scheduler_ReportMetricsResults_reader, Scheduler_ReportMetricsResults_builder, Scheduler_ReportMetricsResults_pipeline),
     (0xf9ee31c8e9ebbaca, Scheduler_RegisterGpuParams_reader, Scheduler_RegisterGpuParams_builder, Scheduler_RegisterGpuParams_pipeline),
     (0xc61654dcfaa29834, Scheduler_RegisterGpuResults_reader, Scheduler_RegisterGpuResults_builder, Scheduler_RegisterGpuResults_pipeline),
     (0xc3d5a9cea9e1afa5, Scheduler_ListGpusParams_reader, Scheduler_ListGpusParams_builder, Scheduler_ListGpusParams_pipeline),
     (0x96505251d9a2981e, Scheduler_ListGpusResults_reader, Scheduler_ListGpusResults_builder, Scheduler_ListGpusResults_pipeline),
     (0xe4bb798802b333dd, Scheduler_GetGpuStatusParams_reader, Scheduler_GetGpuStatusParams_builder, Scheduler_GetGpuStatusParams_pipeline),
     (0x88e8c194c7de76b5, Scheduler_GetGpuStatusResults_reader, Scheduler_GetGpuStatusResults_builder, Scheduler_GetGpuStatusResults_pipeline),
     (0xb5568a3ad83e748d, Scheduler_AcquireGpuParams_reader, Scheduler_AcquireGpuParams_builder, Scheduler_AcquireGpuParams_pipeline),
     (0x8031a24cacf7ef24, Scheduler_AcquireGpuResults_reader, Scheduler_AcquireGpuResults_builder, Scheduler_AcquireGpuResults_pipeline),
     (0x80a3402bda717aa6, Scheduler_ReleaseGpuParams_reader, Scheduler_ReleaseGpuParams_builder, Scheduler_ReleaseGpuParams_pipeline),
     (0x9994ba5ea08baa47, Scheduler_ReleaseGpuResults_reader, Scheduler_ReleaseGpuResults_builder, Scheduler_ReleaseGpuResults_pipeline),
     (0xac5ce9d7dbd7dc54, Scheduler_RunCommandParams_reader, Scheduler_RunCommandParams_builder, Scheduler_RunCommandParams_pipeline),
     (0x94cf2d50096076fe, Scheduler_RunCommandResults_reader, Scheduler_RunCommandResults_builder, Scheduler_RunCommandResults_pipeline),
     (0xb94f7935e9a4d8a6, RunRequest_reader, RunRequest_builder, RunRequest_pipeline),
     (0xd50832f599bb96f4, RunResponse_reader, RunResponse_builder, RunResponse_pipeline)]"

lemma classGpuControl_structs_classes:
  "map (\<lambda>s. (schema_id s, classes_of s)) schemaGpuControl_structs = map (\<lambda>(i, c). (i, Some (octet_classes c))) classGpuControl_classes"
  by (simp add: schemaGpuControl_structs_def classGpuControl_classes_def octet_classes_def
      GpuList_classes s_b5f8f6cc208cb766_id GpuRequest_classes s_e4f103179b354701_id
      GpuStatus_classes s_bfb92316876e4204_id Path_classes s_d55a8aa154796958_id
      Step_classes s_c0356e53706dd651_id Metrics_classes s_ada0409ba8ac33f9_id
      Scheduler_RequestPathParams_classes s_b9ecb76147d5217b_id
      Scheduler_RequestPathResults_classes s_a4b397c452f0157f_id
      Scheduler_ReportMetricsParams_classes s_e66e89322dd07425_id
      Scheduler_ReportMetricsResults_classes s_edb95852bd820401_id
      Scheduler_RegisterGpuParams_classes s_f9ee31c8e9ebbaca_id
      Scheduler_RegisterGpuResults_classes s_c61654dcfaa29834_id
      Scheduler_ListGpusParams_classes s_c3d5a9cea9e1afa5_id
      Scheduler_ListGpusResults_classes s_96505251d9a2981e_id
      Scheduler_GetGpuStatusParams_classes s_e4bb798802b333dd_id
      Scheduler_GetGpuStatusResults_classes s_88e8c194c7de76b5_id
      Scheduler_AcquireGpuParams_classes s_b5568a3ad83e748d_id
      Scheduler_AcquireGpuResults_classes s_8031a24cacf7ef24_id
      Scheduler_ReleaseGpuParams_classes s_80a3402bda717aa6_id
      Scheduler_ReleaseGpuResults_classes s_9994ba5ea08baa47_id
      Scheduler_RunCommandParams_classes s_ac5ce9d7dbd7dc54_id
      Scheduler_RunCommandResults_classes s_94cf2d50096076fe_id
      RunRequest_classes s_b94f7935e9a4d8a6_id RunResponse_classes s_d50832f599bb96f4_id)

end
