(* ===== verification/ClassCuda.thy ===== *)
theory ClassCuda
  imports Classes SchemaCuda
begin

section \<open>The classes of cuda.capnp\<close>

text \<open>
  \<open>proto/proto/cuda.capnp.h\<close>: the reader, the builder and the pipeline of every struct, with the
  accessors they declare, in their order.
\<close>

text \<open>\<open>MemcpyParams\<close>\<close>

definition MemcpyParams_reader :: cxx_class where
  "MemcpyParams_reader = CxxClass (reader_frame ''MemcpyParams'') False [
     (''Src'', CxxNamed ''MemoryHandle'', [Has, Get]),
     (''Dst'', CxxNamed ''MemoryHandle'', [Has, Get]), (''Size'', CxxUInt 64, [Get]),
     (''Direction'', CxxNamed ''TransferDirection'', [Get])]"
definition MemcpyParams_builder :: cxx_class where
  "MemcpyParams_builder = CxxClass (builder_frame ''MemcpyParams'') False [
     (''Src'', CxxNamed ''MemoryHandle'', [Has, Get, Set, Init, Adopt, Disown]),
     (''Dst'', CxxNamed ''MemoryHandle'', [Has, Get, Set, Init, Adopt, Disown]),
     (''Size'', CxxUInt 64, [Get, Set]), (''Direction'', CxxNamed ''TransferDirection'', [Get, Set])]"
definition MemcpyParams_pipeline :: cxx_class where
  "MemcpyParams_pipeline = CxxClass (pipeline_frame ''MemcpyParams'') False [
     (''Src'', CxxNamed ''MemoryHandle'', [Get]), (''Dst'', CxxNamed ''MemoryHandle'', [Get])]"

lemma b_aa64c42860eecf63_name: "map_option class_name (node_name b_aa64c42860eecf63) = Some (name_octets ''MemcpyParams'')"
  by (simp add: b_aa64c42860eecf63_def derive_name cong: table_congs bind_head_cong)

lemma MemcpyParams_classes: "classes_of s_aa64c42860eecf63 = Some (octet_class MemcpyParams_reader, octet_class MemcpyParams_builder, octet_class MemcpyParams_pipeline)"
  by (simp add: s_aa64c42860eecf63_def b_aa64c42860eecf63_node b_aa64c42860eecf63_name derive_classes MemcpyParams_reader_def MemcpyParams_builder_def MemcpyParams_pipeline_def)

text \<open>\<open>StreamHandle\<close>\<close>

definition StreamHandle_reader :: cxx_class where
  "StreamHandle_reader = CxxClass (reader_frame ''StreamHandle'') False [
     (''Handle'', CxxUInt 64, [Get])]"
definition StreamHandle_builder :: cxx_class where
  "StreamHandle_builder = CxxClass (builder_frame ''StreamHandle'') False [
     (''Handle'', CxxUInt 64, [Get, Set])]"
definition StreamHandle_pipeline :: cxx_class where
  "StreamHandle_pipeline = CxxClass (pipeline_frame ''StreamHandle'') False []"

lemma b_ddb50ac56f50ec53_name: "map_option class_name (node_name b_ddb50ac56f50ec53) = Some (name_octets ''StreamHandle'')"
  by (simp add: b_ddb50ac56f50ec53_def derive_name cong: table_congs bind_head_cong)

lemma StreamHandle_classes: "classes_of s_ddb50ac56f50ec53 = Some (octet_class StreamHandle_reader, octet_class StreamHandle_builder, octet_class StreamHandle_pipeline)"
  by (simp add: s_ddb50ac56f50ec53_def b_ddb50ac56f50ec53_node b_ddb50ac56f50ec53_name derive_classes StreamHandle_reader_def StreamHandle_builder_def StreamHandle_pipeline_def)

text \<open>\<open>StreamCreateParams\<close>\<close>

definition StreamCreateParams_reader :: cxx_class where
  "StreamCreateParams_reader = CxxClass (reader_frame ''StreamCreateParams'') False [
     (''Flags'', CxxUInt 32, [Get])]"
definition StreamCreateParams_builder :: cxx_class where
  "StreamCreateParams_builder = CxxClass (builder_frame ''StreamCreateParams'') False [
     (''Flags'', CxxUInt 32, [Get, Set])]"
definition StreamCreateParams_pipeline :: cxx_class where
  "StreamCreateParams_pipeline = CxxClass (pipeline_frame ''StreamCreateParams'') False []"

lemma b_9de7a50f41d4cbd0_name: "map_option class_name (node_name b_9de7a50f41d4cbd0) = Some (name_octets ''StreamCreateParams'')"
  by (simp add: b_9de7a50f41d4cbd0_def derive_name cong: table_congs bind_head_cong)

lemma StreamCreateParams_classes: "classes_of s_9de7a50f41d4cbd0 = Some (octet_class StreamCreateParams_reader, octet_class StreamCreateParams_builder, octet_class StreamCreateParams_pipeline)"
  by (simp add: s_9de7a50f41d4cbd0_def b_9de7a50f41d4cbd0_node b_9de7a50f41d4cbd0_name derive_classes StreamCreateParams_reader_def StreamCreateParams_builder_def StreamCreateParams_pipeline_def)

text \<open>\<open>EventHandle\<close>\<close>

definition EventHandle_reader :: cxx_class where
  "EventHandle_reader = CxxClass (reader_frame ''EventHandle'') False [
     (''Handle'', CxxUInt 64, [Get])]"
definition EventHandle_builder :: cxx_class where
  "EventHandle_builder = CxxClass (builder_frame ''EventHandle'') False [
     (''Handle'', CxxUInt 64, [Get, Set])]"
definition EventHandle_pipeline :: cxx_class where
  "EventHandle_pipeline = CxxClass (pipeline_frame ''EventHandle'') False []"

lemma b_92bc15fb0d1fcb65_name: "map_option class_name (node_name b_92bc15fb0d1fcb65) = Some (name_octets ''EventHandle'')"
  by (simp add: b_92bc15fb0d1fcb65_def derive_name cong: table_congs bind_head_cong)

lemma EventHandle_classes: "classes_of s_92bc15fb0d1fcb65 = Some (octet_class EventHandle_reader, octet_class EventHandle_builder, octet_class EventHandle_pipeline)"
  by (simp add: s_92bc15fb0d1fcb65_def b_92bc15fb0d1fcb65_node b_92bc15fb0d1fcb65_name derive_classes EventHandle_reader_def EventHandle_builder_def EventHandle_pipeline_def)

text \<open>\<open>EventParams\<close>\<close>

definition EventParams_reader :: cxx_class where
  "EventParams_reader = CxxClass (reader_frame ''EventParams'') False [
     (''Flags'', CxxUInt 32, [Get])]"
definition EventParams_builder :: cxx_class where
  "EventParams_builder = CxxClass (builder_frame ''EventParams'') False [
     (''Flags'', CxxUInt 32, [Get, Set])]"
definition EventParams_pipeline :: cxx_class where
  "EventParams_pipeline = CxxClass (pipeline_frame ''EventParams'') False []"

lemma b_a0142208ca8277e0_name: "map_option class_name (node_name b_a0142208ca8277e0) = Some (name_octets ''EventParams'')"
  by (simp add: b_a0142208ca8277e0_def derive_name cong: table_congs bind_head_cong)

lemma EventParams_classes: "classes_of s_a0142208ca8277e0 = Some (octet_class EventParams_reader, octet_class EventParams_builder, octet_class EventParams_pipeline)"
  by (simp add: s_a0142208ca8277e0_def b_a0142208ca8277e0_node b_a0142208ca8277e0_name derive_classes EventParams_reader_def EventParams_builder_def EventParams_pipeline_def)

text \<open>\<open>BatchKernelLaunch\<close>\<close>

definition BatchKernelLaunch_reader :: cxx_class where
  "BatchKernelLaunch_reader = CxxClass (reader_frame ''BatchKernelLaunch'') False [
     (''Requests'', CxxList (CxxNamed ''KernelLaunch''), [Has, Get]),
     (''Stream'', CxxUInt 64, [Get])]"
definition BatchKernelLaunch_builder :: cxx_class where
  "BatchKernelLaunch_builder = CxxClass (builder_frame ''BatchKernelLaunch'') False [
     (''Requests'', CxxList (CxxNamed ''KernelLaunch''), [Has, Get, Set, InitSized, Adopt, Disown]),
     (''Stream'', CxxUInt 64, [Get, Set])]"
definition BatchKernelLaunch_pipeline :: cxx_class where
  "BatchKernelLaunch_pipeline = CxxClass (pipeline_frame ''BatchKernelLaunch'') False []"

lemma b_dacf4c24bade7b94_name: "map_option class_name (node_name b_dacf4c24bade7b94) = Some (name_octets ''BatchKernelLaunch'')"
  by (simp add: b_dacf4c24bade7b94_def derive_name cong: table_congs bind_head_cong)

lemma BatchKernelLaunch_classes: "classes_of s_dacf4c24bade7b94 = Some (octet_class BatchKernelLaunch_reader, octet_class BatchKernelLaunch_builder, octet_class BatchKernelLaunch_pipeline)"
  by (simp add: s_dacf4c24bade7b94_def b_dacf4c24bade7b94_node b_dacf4c24bade7b94_name derive_classes BatchKernelLaunch_reader_def BatchKernelLaunch_builder_def BatchKernelLaunch_pipeline_def)

text \<open>\<open>MultiGpuRequest\<close>\<close>

definition MultiGpuRequest_reader :: cxx_class where
  "MultiGpuRequest_reader = CxxClass (reader_frame ''MultiGpuRequest'') False [
     (''Uuids'', CxxList (CxxText), [Has, Get]), (''Command'', CxxText, [Has, Get]),
     (''Stream'', CxxUInt 64, [Get])]"
definition MultiGpuRequest_builder :: cxx_class where
  "MultiGpuRequest_builder = CxxClass (builder_frame ''MultiGpuRequest'') False [
     (''Uuids'', CxxList (CxxText), [Has, Get, Set, SetArray, InitSized, Adopt, Disown]),
     (''Command'', CxxText, [Has, Get, Set, InitSized, Adopt, Disown]),
     (''Stream'', CxxUInt 64, [Get, Set])]"
definition MultiGpuRequest_pipeline :: cxx_class where
  "MultiGpuRequest_pipeline = CxxClass (pipeline_frame ''MultiGpuRequest'') False []"

lemma b_b2bde6a78c1a0cb4_name: "map_option class_name (node_name b_b2bde6a78c1a0cb4) = Some (name_octets ''MultiGpuRequest'')"
  by (simp add: b_b2bde6a78c1a0cb4_def derive_name cong: table_congs bind_head_cong)

lemma MultiGpuRequest_classes: "classes_of s_b2bde6a78c1a0cb4 = Some (octet_class MultiGpuRequest_reader, octet_class MultiGpuRequest_builder, octet_class MultiGpuRequest_pipeline)"
  by (simp add: s_b2bde6a78c1a0cb4_def b_b2bde6a78c1a0cb4_node b_b2bde6a78c1a0cb4_name derive_classes MultiGpuRequest_reader_def MultiGpuRequest_builder_def MultiGpuRequest_pipeline_def)

text \<open>\<open>CudaService::CudaInitParams\<close>\<close>

definition CudaService_CudaInitParams_reader :: cxx_class where
  "CudaService_CudaInitParams_reader = CxxClass (reader_frame ''CudaService::CudaInitParams'') False []"
definition CudaService_CudaInitParams_builder :: cxx_class where
  "CudaService_CudaInitParams_builder = CxxClass (builder_frame ''CudaService::CudaInitParams'') False []"
definition CudaService_CudaInitParams_pipeline :: cxx_class where
  "CudaService_CudaInitParams_pipeline = CxxClass (pipeline_frame ''CudaService::CudaInitParams'') False []"

lemma b_ba5df2daeb81d2b3_name: "map_option class_name (node_name b_ba5df2daeb81d2b3) = Some (name_octets ''CudaService::CudaInitParams'')"
  by (simp add: b_ba5df2daeb81d2b3_def derive_name cong: table_congs bind_head_cong)

lemma CudaService_CudaInitParams_classes: "classes_of s_ba5df2daeb81d2b3 = Some (octet_class CudaService_CudaInitParams_reader, octet_class CudaService_CudaInitParams_builder, octet_class CudaService_CudaInitParams_pipeline)"
  by (simp add: s_ba5df2daeb81d2b3_def b_ba5df2daeb81d2b3_node b_ba5df2daeb81d2b3_name derive_classes CudaService_CudaInitParams_reader_def CudaService_CudaInitParams_builder_def CudaService_CudaInitParams_pipeline_def)

text \<open>\<open>CudaService::CudaInitResults\<close>\<close>

definition CudaService_CudaInitResults_reader :: cxx_class where
  "CudaService_CudaInitResults_reader = CxxClass (reader_frame ''CudaService::CudaInitResults'') False [
     (''Ack'', CxxNamed ''Ack'', [Has, Get])]"
definition CudaService_CudaInitResults_builder :: cxx_class where
  "CudaService_CudaInitResults_builder = CxxClass (builder_frame ''CudaService::CudaInitResults'') False [
     (''Ack'', CxxNamed ''Ack'', [Has, Get, Set, Init, Adopt, Disown])]"
definition CudaService_CudaInitResults_pipeline :: cxx_class where
  "CudaService_CudaInitResults_pipeline = CxxClass (pipeline_frame ''CudaService::CudaInitResults'') False [
     (''Ack'', CxxNamed ''Ack'', [Get])]"

lemma b_9541b3fbcfb24811_name: "map_option class_name (node_name b_9541b3fbcfb24811) = Some (name_octets ''CudaService::CudaInitResults'')"
  by (simp add: b_9541b3fbcfb24811_def derive_name cong: table_congs bind_head_cong)

lemma CudaService_CudaInitResults_classes: "classes_of s_9541b3fbcfb24811 = Some (octet_class CudaService_CudaInitResults_reader, octet_class CudaService_CudaInitResults_builder, octet_class CudaService_CudaInitResults_pipeline)"
  by (simp add: s_9541b3fbcfb24811_def b_9541b3fbcfb24811_node b_9541b3fbcfb24811_name derive_classes CudaService_CudaInitResults_reader_def CudaService_CudaInitResults_builder_def CudaService_CudaInitResults_pipeline_def)

text \<open>\<open>CudaService::CudaMemAllocParams\<close>\<close>

definition CudaService_CudaMemAllocParams_reader :: cxx_class where
  "CudaService_CudaMemAllocParams_reader = CxxClass (reader_frame ''CudaService::CudaMemAllocParams'') False [
     (''Size'', CxxUInt 64, [Get])]"
definition CudaService_CudaMemAllocParams_builder :: cxx_class where
  "CudaService_CudaMemAllocParams_builder = CxxClass (builder_frame ''CudaService::CudaMemAllocParams'') False [
     (''Size'', CxxUInt 64, [Get, Set])]"
definition CudaService_CudaMemAllocParams_pipeline :: cxx_class where
  "CudaService_CudaMemAllocParams_pipeline = CxxClass (pipeline_frame ''CudaService::CudaMemAllocParams'') False []"

lemma b_be2dd3871d6c54ce_name: "map_option class_name (node_name b_be2dd3871d6c54ce) = Some (name_octets ''CudaService::CudaMemAllocParams'')"
  by (simp add: b_be2dd3871d6c54ce_def derive_name cong: table_congs bind_head_cong)

lemma CudaService_CudaMemAllocParams_classes: "classes_of s_be2dd3871d6c54ce = Some (octet_class CudaService_CudaMemAllocParams_reader, octet_class CudaService_CudaMemAllocParams_builder, octet_class CudaService_CudaMemAllocParams_pipeline)"
  by (simp add: s_be2dd3871d6c54ce_def b_be2dd3871d6c54ce_node b_be2dd3871d6c54ce_name derive_classes CudaService_CudaMemAllocParams_reader_def CudaService_CudaMemAllocParams_builder_def CudaService_CudaMemAllocParams_pipeline_def)

text \<open>\<open>CudaService::CudaMemAllocResults\<close>\<close>

definition CudaService_CudaMemAllocResults_reader :: cxx_class where
  "CudaService_CudaMemAllocResults_reader = CxxClass (reader_frame ''CudaService::CudaMemAllocResults'') False [
     (''Result'', CxxNamed ''Response'', [Has, Get])]"
definition CudaService_CudaMemAllocResults_builder :: cxx_class where
  "CudaService_CudaMemAllocResults_builder = CxxClass (builder_frame ''CudaService::CudaMemAllocResults'') False [
     (''Result'', CxxNamed ''Response'', [Has, Get, Set, Init, Adopt, Disown])]"
definition CudaService_CudaMemAllocResults_pipeline :: cxx_class where
  "CudaService_CudaMemAllocResults_pipeline = CxxClass (pipeline_frame ''CudaService::CudaMemAllocResults'') False [
     (''Result'', CxxNamed ''Response'', [Get])]"

lemma b_9aa2f69630ae6c9c_name: "map_option class_name (node_name b_9aa2f69630ae6c9c) = Some (name_octets ''CudaService::CudaMemAllocResults'')"
  by (simp add: b_9aa2f69630ae6c9c_def derive_name cong: table_congs bind_head_cong)

lemma CudaService_CudaMemAllocResults_classes: "classes_of s_9aa2f69630ae6c9c = Some (octet_class CudaService_CudaMemAllocResults_reader, octet_class CudaService_CudaMemAllocResults_builder, octet_class CudaService_CudaMemAllocResults_pipeline)"
  by (simp add: s_9aa2f69630ae6c9c_def b_9aa2f69630ae6c9c_node b_9aa2f69630ae6c9c_name derive_classes CudaService_CudaMemAllocResults_reader_def CudaService_CudaMemAllocResults_builder_def CudaService_CudaMemAllocResults_pipeline_def)

text \<open>\<open>CudaService::CudaMemcpyParams\<close>\<close>

definition CudaService_CudaMemcpyParams_reader :: cxx_class where
  "CudaService_CudaMemcpyParams_reader = CxxClass (reader_frame ''CudaService::CudaMemcpyParams'') False [
     (''Params'', CxxNamed ''MemcpyParams'', [Has, Get])]"
definition CudaService_CudaMemcpyParams_builder :: cxx_class where
  "CudaService_CudaMemcpyParams_builder = CxxClass (builder_frame ''CudaService::CudaMemcpyParams'') False [
     (''Params'', CxxNamed ''MemcpyParams'', [Has, Get, Set, Init, Adopt, Disown])]"
definition CudaService_CudaMemcpyParams_pipeline :: cxx_class where
  "CudaService_CudaMemcpyParams_pipeline = CxxClass (pipeline_frame ''CudaService::CudaMemcpyParams'') False [
     (''Params'', CxxNamed ''MemcpyParams'', [Get])]"

lemma b_bc316a0441cc04ac_name: "map_option class_name (node_name b_bc316a0441cc04ac) = Some (name_octets ''CudaService::CudaMemcpyParams'')"
  by (simp add: b_bc316a0441cc04ac_def derive_name cong: table_congs bind_head_cong)

lemma CudaService_CudaMemcpyParams_classes: "classes_of s_bc316a0441cc04ac = Some (octet_class CudaService_CudaMemcpyParams_reader, octet_class CudaService_CudaMemcpyParams_builder, octet_class CudaService_CudaMemcpyParams_pipeline)"
  by (simp add: s_bc316a0441cc04ac_def b_bc316a0441cc04ac_node b_bc316a0441cc04ac_name derive_classes CudaService_CudaMemcpyParams_reader_def CudaService_CudaMemcpyParams_builder_def CudaService_CudaMemcpyParams_pipeline_def)

text \<open>\<open>CudaService::CudaMemcpyResults\<close>\<close>

definition CudaService_CudaMemcpyResults_reader :: cxx_class where
  "CudaService_CudaMemcpyResults_reader = CxxClass (reader_frame ''CudaService::CudaMemcpyResults'') False [
     (''Ack'', CxxNamed ''Ack'', [Has, Get])]"
definition CudaService_CudaMemcpyResults_builder :: cxx_class where
  "CudaService_CudaMemcpyResults_builder = CxxClass (builder_frame ''CudaService::CudaMemcpyResults'') False [
     (''Ack'', CxxNamed ''Ack'', [Has, Get, Set, Init, Adopt, Disown])]"
definition CudaService_CudaMemcpyResults_pipeline :: cxx_class where
  "CudaService_CudaMemcpyResults_pipeline = CxxClass (pipeline_frame ''CudaService::CudaMemcpyResults'') False [
     (''Ack'', CxxNamed ''Ack'', [Get])]"

lemma b_d7b620c1f6580289_name: "map_option class_name (node_name b_d7b620c1f6580289) = Some (name_octets ''CudaService::CudaMemcpyResults'')"
  by (simp add: b_d7b620c1f6580289_def derive_name cong: table_congs bind_head_cong)

lemma CudaService_CudaMemcpyResults_classes: "classes_of s_d7b620c1f6580289 = Some (octet_class CudaService_CudaMemcpyResults_reader, octet_class CudaService_CudaMemcpyResults_builder, octet_class CudaService_CudaMemcpyResults_pipeline)"
  by (simp add: s_d7b620c1f6580289_def b_d7b620c1f6580289_node b_d7b620c1f6580289_name derive_classes CudaService_CudaMemcpyResults_reader_def CudaService_CudaMemcpyResults_builder_def CudaService_CudaMemcpyResults_pipeline_def)

text \<open>\<open>CudaService::CudaMemFreeParams\<close>\<close>

definition CudaService_CudaMemFreeParams_reader :: cxx_class where
  "CudaService_CudaMemFreeParams_reader = CxxClass (reader_frame ''CudaService::CudaMemFreeParams'') False [
     (''Handle'', CxxNamed ''MemoryHandle'', [Has, Get])]"
definition CudaService_CudaMemFreeParams_builder :: cxx_class where
  "CudaService_CudaMemFreeParams_builder = CxxClass (builder_frame ''CudaService::CudaMemFreeParams'') False [
     (''Handle'', CxxNamed ''MemoryHandle'', [Has, Get, Set, Init, Adopt, Disown])]"
definition CudaService_CudaMemFreeParams_pipeline :: cxx_class where
  "CudaService_CudaMemFreeParams_pipeline = CxxClass (pipeline_frame ''CudaService::CudaMemFreeParams'') False [
     (''Handle'', CxxNamed ''MemoryHandle'', [Get])]"

lemma b_b2cda054826996c4_name: "map_option class_name (node_name b_b2cda054826996c4) = Some (name_octets ''CudaService::CudaMemFreeParams'')"
  by (simp add: b_b2cda054826996c4_def derive_name cong: table_congs bind_head_cong)

lemma CudaService_CudaMemFreeParams_classes: "classes_of s_b2cda054826996c4 = Some (octet_class CudaService_CudaMemFreeParams_reader, octet_class CudaService_CudaMemFreeParams_builder, octet_class CudaService_CudaMemFreeParams_pipeline)"
  by (simp add: s_b2cda054826996c4_def b_b2cda054826996c4_node b_b2cda054826996c4_name derive_classes CudaService_CudaMemFreeParams_reader_def CudaService_CudaMemFreeParams_builder_def CudaService_CudaMemFreeParams_pipeline_def)

text \<open>\<open>CudaService::CudaMemFreeResults\<close>\<close>

definition CudaService_CudaMemFreeResults_reader :: cxx_class where
  "CudaService_CudaMemFreeResults_reader = CxxClass (reader_frame ''CudaService::CudaMemFreeResults'') False [
     (''Ack'', CxxNamed ''Ack'', [Has, Get])]"
definition CudaService_CudaMemFreeResults_builder :: cxx_class where
  "CudaService_CudaMemFreeResults_builder = CxxClass (builder_frame ''CudaService::CudaMemFreeResults'') False [
     (''Ack'', CxxNamed ''Ack'', [Has, Get, Set, Init, Adopt, Disown])]"
definition CudaService_CudaMemFreeResults_pipeline :: cxx_class where
  "CudaService_CudaMemFreeResults_pipeline = CxxClass (pipeline_frame ''CudaService::CudaMemFreeResults'') False [
     (''Ack'', CxxNamed ''Ack'', [Get])]"

lemma b_9edc1e0ed150e10c_name: "map_option class_name (node_name b_9edc1e0ed150e10c) = Some (name_octets ''CudaService::CudaMemFreeResults'')"
  by (simp add: b_9edc1e0ed150e10c_def derive_name cong: table_congs bind_head_cong)

lemma CudaService_CudaMemFreeResults_classes: "classes_of s_9edc1e0ed150e10c = Some (octet_class CudaService_CudaMemFreeResults_reader, octet_class CudaService_CudaMemFreeResults_builder, octet_class CudaService_CudaMemFreeResults_pipeline)"
  by (simp add: s_9edc1e0ed150e10c_def b_9edc1e0ed150e10c_node b_9edc1e0ed150e10c_name derive_classes CudaService_CudaMemFreeResults_reader_def CudaService_CudaMemFreeResults_builder_def CudaService_CudaMemFreeResults_pipeline_def)

text \<open>\<open>CudaService::CreateCudaStreamParams\<close>\<close>

definition CudaService_CreateCudaStreamParams_reader :: cxx_class where
  "CudaService_CreateCudaStreamParams_reader = CxxClass (reader_frame ''CudaService::CreateCudaStreamParams'') False [
     (''Params'', CxxNamed ''StreamCreateParams'', [Has, Get])]"
definition CudaService_CreateCudaStreamParams_builder :: cxx_class where
  "CudaService_CreateCudaStreamParams_builder = CxxClass (builder_frame ''CudaService::CreateCudaStreamParams'') False [
     (''Params'', CxxNamed ''StreamCreateParams'', [Has, Get, Set, Init, Adopt, Disown])]"
definition CudaService_CreateCudaStreamParams_pipeline :: cxx_class where
  "CudaService_CreateCudaStreamParams_pipeline = CxxClass (pipeline_frame ''CudaService::CreateCudaStreamParams'') False [
     (''Params'', CxxNamed ''StreamCreateParams'', [Get])]"

lemma b_e5bc2a6e0f80ad6b_name: "map_option class_name (node_name b_e5bc2a6e0f80ad6b) = Some (name_octets ''CudaService::CreateCudaStreamParams'')"
  by (simp add: b_e5bc2a6e0f80ad6b_def derive_name cong: table_congs bind_head_cong)

lemma CudaService_CreateCudaStreamParams_classes: "classes_of s_e5bc2a6e0f80ad6b = Some (octet_class CudaService_CreateCudaStreamParams_reader, octet_class CudaService_CreateCudaStreamParams_builder, octet_class CudaService_CreateCudaStreamParams_pipeline)"
  by (simp add: s_e5bc2a6e0f80ad6b_def b_e5bc2a6e0f80ad6b_node b_e5bc2a6e0f80ad6b_name derive_classes CudaService_CreateCudaStreamParams_reader_def CudaService_CreateCudaStreamParams_builder_def CudaService_CreateCudaStreamParams_pipeline_def)

text \<open>\<open>CudaService::CreateCudaStreamResults\<close>\<close>

definition CudaService_CreateCudaStreamResults_reader :: cxx_class where
  "CudaService_CreateCudaStreamResults_reader = CxxClass (reader_frame ''CudaService::CreateCudaStreamResults'') False [
     (''Handle'', CxxNamed ''StreamHandle'', [Has, Get])]"
definition CudaService_CreateCudaStreamResults_builder :: cxx_class where
  "CudaService_CreateCudaStreamResults_builder = CxxClass (builder_frame ''CudaService::CreateCudaStreamResults'') False [
     (''Handle'', CxxNamed ''StreamHandle'', [Has, Get, Set, Init, Adopt, Disown])]"
definition CudaService_CreateCudaStreamResults_pipeline :: cxx_class where
  "CudaService_CreateCudaStreamResults_pipeline = CxxClass (pipeline_frame ''CudaService::CreateCudaStreamResults'') False [
     (''Handle'', CxxNamed ''StreamHandle'', [Get])]"

lemma b_f5ccd1fa43e677e4_name: "map_option class_name (node_name b_f5ccd1fa43e677e4) = Some (name_octets ''CudaService::CreateCudaStreamResults'')"
  by (simp add: b_f5ccd1fa43e677e4_def derive_name cong: table_congs bind_head_cong)

lemma CudaService_CreateCudaStreamResults_classes: "classes_of s_f5ccd1fa43e677e4 = Some (octet_class CudaService_CreateCudaStreamResults_reader, octet_class CudaService_CreateCudaStreamResults_builder, octet_class CudaService_CreateCudaStreamResults_pipeline)"
  by (simp add: s_f5ccd1fa43e677e4_def b_f5ccd1fa43e677e4_node b_f5ccd1fa43e677e4_name derive_classes CudaService_CreateCudaStreamResults_reader_def CudaService_CreateCudaStreamResults_builder_def CudaService_CreateCudaStreamResults_pipeline_def)

text \<open>\<open>CudaService::DestroyCudaStreamParams\<close>\<close>

definition CudaService_DestroyCudaStreamParams_reader :: cxx_class where
  "CudaService_DestroyCudaStreamParams_reader = CxxClass (reader_frame ''CudaService::DestroyCudaStreamParams'') False [
     (''Handle'', CxxNamed ''StreamHandle'', [Has, Get])]"
definition CudaService_DestroyCudaStreamParams_builder :: cxx_class where
  "CudaService_DestroyCudaStreamParams_builder = CxxClass (builder_frame ''CudaService::DestroyCudaStreamParams'') False [
     (''Handle'', CxxNamed ''StreamHandle'', [Has, Get, Set, Init, Adopt, Disown])]"
definition CudaService_DestroyCudaStreamParams_pipeline :: cxx_class where
  "CudaService_DestroyCudaStreamParams_pipeline = CxxClass (pipeline_frame ''CudaService::DestroyCudaStreamParams'') False [
     (''Handle'', CxxNamed ''StreamHandle'', [Get])]"

lemma b_d0ffebd0326acdf9_name: "map_option class_name (node_name b_d0ffebd0326acdf9) = Some (name_octets ''CudaService::DestroyCudaStreamParams'')"
  by (simp add: b_d0ffebd0326acdf9_def derive_name cong: table_congs bind_head_cong)

lemma CudaService_DestroyCudaStreamParams_classes: "classes_of s_d0ffebd0326acdf9 = Some (octet_class CudaService_DestroyCudaStreamParams_reader, octet_class CudaService_DestroyCudaStreamParams_builder, octet_class CudaService_DestroyCudaStreamParams_pipeline)"
  by (simp add: s_d0ffebd0326acdf9_def b_d0ffebd0326acdf9_node b_d0ffebd0326acdf9_name derive_classes CudaService_DestroyCudaStreamParams_reader_def CudaService_DestroyCudaStreamParams_builder_def CudaService_DestroyCudaStreamParams_pipeline_def)

text \<open>\<open>CudaService::DestroyCudaStreamResults\<close>\<close>

definition CudaService_DestroyCudaStreamResults_reader :: cxx_class where
  "CudaService_DestroyCudaStreamResults_reader = CxxClass (reader_frame ''CudaService::DestroyCudaStreamResults'') False [
     (''Ack'', CxxNamed ''Ack'', [Has, Get])]"
definition CudaService_DestroyCudaStreamResults_builder :: cxx_class where
  "CudaService_DestroyCudaStreamResults_builder = CxxClass (builder_frame ''CudaService::DestroyCudaStreamResults'') False [
     (''Ack'', CxxNamed ''Ack'', [Has, Get, Set, Init, Adopt, Disown])]"
definition CudaService_DestroyCudaStreamResults_pipeline :: cxx_class where
  "CudaService_DestroyCudaStreamResults_pipeline = CxxClass (pipeline_frame ''CudaService::DestroyCudaStreamResults'') False [
     (''Ack'', CxxNamed ''Ack'', [Get])]"

lemma b_f05eef4dfede4f25_name: "map_option class_name (node_name b_f05eef4dfede4f25) = Some (name_octets ''CudaService::DestroyCudaStreamResults'')"
  by (simp add: b_f05eef4dfede4f25_def derive_name cong: table_congs bind_head_cong)

lemma CudaService_DestroyCudaStreamResults_classes: "classes_of s_f05eef4dfede4f25 = Some (octet_class CudaService_DestroyCudaStreamResults_reader, octet_class CudaService_DestroyCudaStreamResults_builder, octet_class CudaService_DestroyCudaStreamResults_pipeline)"
  by (simp add: s_f05eef4dfede4f25_def b_f05eef4dfede4f25_node b_f05eef4dfede4f25_name derive_classes CudaService_DestroyCudaStreamResults_reader_def CudaService_DestroyCudaStreamResults_builder_def CudaService_DestroyCudaStreamResults_pipeline_def)

text \<open>\<open>CudaService::SynchronizeCudaStreamParams\<close>\<close>

definition CudaService_SynchronizeCudaStreamParams_reader :: cxx_class where
  "CudaService_SynchronizeCudaStreamParams_reader = CxxClass (reader_frame ''CudaService::SynchronizeCudaStreamParams'') False [
     (''Handle'', CxxNamed ''StreamHandle'', [Has, Get])]"
definition CudaService_SynchronizeCudaStreamParams_builder :: cxx_class where
  "CudaService_SynchronizeCudaStreamParams_builder = CxxClass (builder_frame ''CudaService::SynchronizeCudaStreamParams'') False [
     (''Handle'', CxxNamed ''StreamHandle'', [Has, Get, Set, Init, Adopt, Disown])]"
definition CudaService_SynchronizeCudaStreamParams_pipeline :: cxx_class where
  "CudaService_SynchronizeCudaStreamParams_pipeline = CxxClass (pipeline_frame ''CudaService::SynchronizeCudaStreamParams'') False [
     (''Handle'', CxxNamed ''StreamHandle'', [Get])]"

lemma b_f8c19f0353a8733b_name: "map_option class_name (node_name b_f8c19f0353a8733b) = Some (name_octets ''CudaService::SynchronizeCudaStreamParams'')"
  by (simp add: b_f8c19f0353a8733b_def derive_name cong: table_congs bind_head_cong)

lemma CudaService_SynchronizeCudaStreamParams_classes: "classes_of s_f8c19f0353a8733b = Some (octet_class CudaService_SynchronizeCudaStreamParams_reader, octet_class CudaService_SynchronizeCudaStreamParams_builder, octet_class CudaService_SynchronizeCudaStreamParams_pipeline)"
  by (simp add: s_f8c19f0353a8733b_def b_f8c19f0353a8733b_node b_f8c19f0353a8733b_name derive_classes CudaService_SynchronizeCudaStreamParams_reader_def CudaService_SynchronizeCudaStreamParams_builder_def CudaService_SynchronizeCudaStreamParams_pipeline_def)

text \<open>\<open>CudaService::SynchronizeCudaStreamResults\<close>\<close>

definition CudaService_SynchronizeCudaStreamResults_reader :: cxx_class where
  "CudaService_SynchronizeCudaStreamResults_reader = CxxClass (reader_frame ''CudaService::SynchronizeCudaStreamResults'') False [
     (''Ack'', CxxNamed ''Ack'', [Has, Get])]"
definition CudaService_SynchronizeCudaStreamResults_builder :: cxx_class where
  "CudaService_SynchronizeCudaStreamResults_builder = CxxClass (builder_frame ''CudaService::SynchronizeCudaStreamResults'') False [
     (''Ack'', CxxNamed ''Ack'', [Has, Get, Set, Init, Adopt, Disown])]"
definition CudaService_SynchronizeCudaStreamResults_pipeline :: cxx_class where
  "CudaService_SynchronizeCudaStreamResults_pipeline = CxxClass (pipeline_frame ''CudaService::SynchronizeCudaStreamResults'') False [
     (''Ack'', CxxNamed ''Ack'', [Get])]"

lemma b_f3e39f6d897fe9e6_name: "map_option class_name (node_name b_f3e39f6d897fe9e6) = Some (name_octets ''CudaService::SynchronizeCudaStreamResults'')"
  by (simp add: b_f3e39f6d897fe9e6_def derive_name cong: table_congs bind_head_cong)

lemma CudaService_SynchronizeCudaStreamResults_classes: "classes_of s_f3e39f6d897fe9e6 = Some (octet_class CudaService_SynchronizeCudaStreamResults_reader, octet_class CudaService_SynchronizeCudaStreamResults_builder, octet_class CudaService_SynchronizeCudaStreamResults_pipeline)"
  by (simp add: s_f3e39f6d897fe9e6_def b_f3e39f6d897fe9e6_node b_f3e39f6d897fe9e6_name derive_classes CudaService_SynchronizeCudaStreamResults_reader_def CudaService_SynchronizeCudaStreamResults_builder_def CudaService_SynchronizeCudaStreamResults_pipeline_def)

text \<open>\<open>CudaService::CudaKernelLaunchParams\<close>\<close>

definition CudaService_CudaKernelLaunchParams_reader :: cxx_class where
  "CudaService_CudaKernelLaunchParams_reader = CxxClass (reader_frame ''CudaService::CudaKernelLaunchParams'') False [
     (''Request'', CxxNamed ''KernelLaunch'', [Has, Get])]"
definition CudaService_CudaKernelLaunchParams_builder :: cxx_class where
  "CudaService_CudaKernelLaunchParams_builder = CxxClass (builder_frame ''CudaService::CudaKernelLaunchParams'') False [
     (''Request'', CxxNamed ''KernelLaunch'', [Has, Get, Set, Init, Adopt, Disown])]"
definition CudaService_CudaKernelLaunchParams_pipeline :: cxx_class where
  "CudaService_CudaKernelLaunchParams_pipeline = CxxClass (pipeline_frame ''CudaService::CudaKernelLaunchParams'') False [
     (''Request'', CxxNamed ''KernelLaunch'', [Get])]"

lemma b_abebfa47b0d7fe3e_name: "map_option class_name (node_name b_abebfa47b0d7fe3e) = Some (name_octets ''CudaService::CudaKernelLaunchParams'')"
  by (simp add: b_abebfa47b0d7fe3e_def derive_name cong: table_congs bind_head_cong)

lemma CudaService_CudaKernelLaunchParams_classes: "classes_of s_abebfa47b0d7fe3e = Some (octet_class CudaService_CudaKernelLaunchParams_reader, octet_class CudaService_CudaKernelLaunchParams_builder, octet_class CudaService_CudaKernelLaunchParams_pipeline)"
  by (simp add: s_abebfa47b0d7fe3e_def b_abebfa47b0d7fe3e_node b_abebfa47b0d7fe3e_name derive_classes CudaService_CudaKernelLaunchParams_reader_def CudaService_CudaKernelLaunchParams_builder_def CudaService_CudaKernelLaunchParams_pipeline_def)

text \<open>\<open>CudaService::CudaKernelLaunchResults\<close>\<close>

definition CudaService_CudaKernelLaunchResults_reader :: cxx_class where
  "CudaService_CudaKernelLaunchResults_reader = CxxClass (reader_frame ''CudaService::CudaKernelLaunchResults'') False [
     (''Ack'', CxxNamed ''Ack'', [Has, Get])]"
definition CudaService_CudaKernelLaunchResults_builder :: cxx_class where
  "CudaService_CudaKernelLaunchResults_builder = CxxClass (builder_frame ''CudaService::CudaKernelLaunchResults'') False [
     (''Ack'', CxxNamed ''Ack'', [Has, Get, Set, Init, Adopt, Disown])]"
definition CudaService_CudaKernelLaunchResults_pipeline :: cxx_class where
  "CudaService_CudaKernelLaunchResults_pipeline = CxxClass (pipeline_frame ''CudaService::CudaKernelLaunchResults'') False [
     (''Ack'', CxxNamed ''Ack'', [Get])]"

lemma b_bb7aac664da39365_name: "map_option class_name (node_name b_bb7aac664da39365) = Some (name_octets ''CudaService::CudaKernelLaunchResults'')"
  by (simp add: b_bb7aac664da39365_def derive_name cong: table_congs bind_head_cong)

lemma CudaService_CudaKernelLaunchResults_classes: "classes_of s_bb7aac664da39365 = Some (octet_class CudaService_CudaKernelLaunchResults_reader, octet_class CudaService_CudaKernelLaunchResults_builder, octet_class CudaService_CudaKernelLaunchResults_pipeline)"
  by (simp add: s_bb7aac664da39365_def b_bb7aac664da39365_node b_bb7aac664da39365_name derive_classes CudaService_CudaKernelLaunchResults_reader_def CudaService_CudaKernelLaunchResults_builder_def CudaService_CudaKernelLaunchResults_pipeline_def)

text \<open>\<open>CudaService::CreateEventParams\<close>\<close>

definition CudaService_CreateEventParams_reader :: cxx_class where
  "CudaService_CreateEventParams_reader = CxxClass (reader_frame ''CudaService::CreateEventParams'') False [
     (''Params'', CxxNamed ''EventParams'', [Has, Get])]"
definition CudaService_CreateEventParams_builder :: cxx_class where
  "CudaService_CreateEventParams_builder = CxxClass (builder_frame ''CudaService::CreateEventParams'') False [
     (''Params'', CxxNamed ''EventParams'', [Has, Get, Set, Init, Adopt, Disown])]"
definition CudaService_CreateEventParams_pipeline :: cxx_class where
  "CudaService_CreateEventParams_pipeline = CxxClass (pipeline_frame ''CudaService::CreateEventParams'') False [
     (''Params'', CxxNamed ''EventParams'', [Get])]"

lemma b_a494a6b17c5f502f_name: "map_option class_name (node_name b_a494a6b17c5f502f) = Some (name_octets ''CudaService::CreateEventParams'')"
  by (simp add: b_a494a6b17c5f502f_def derive_name cong: table_congs bind_head_cong)

lemma CudaService_CreateEventParams_classes: "classes_of s_a494a6b17c5f502f = Some (octet_class CudaService_CreateEventParams_reader, octet_class CudaService_CreateEventParams_builder, octet_class CudaService_CreateEventParams_pipeline)"
  by (simp add: s_a494a6b17c5f502f_def b_a494a6b17c5f502f_node b_a494a6b17c5f502f_name derive_classes CudaService_CreateEventParams_reader_def CudaService_CreateEventParams_builder_def CudaService_CreateEventParams_pipeline_def)

text \<open>\<open>CudaService::CreateEventResults\<close>\<close>

definition CudaService_CreateEventResults_reader :: cxx_class where
  "CudaService_CreateEventResults_reader = CxxClass (reader_frame ''CudaService::CreateEventResults'') False [
     (''Handle'', CxxNamed ''EventHandle'', [Has, Get])]"
definition CudaService_CreateEventResults_builder :: cxx_class where
  "CudaService_CreateEventResults_builder = CxxClass (builder_frame ''CudaService::CreateEventResults'') False [
     (''Handle'', CxxNamed ''EventHandle'', [Has, Get, Set, Init, Adopt, Disown])]"
definition CudaService_CreateEventResults_pipeline :: cxx_class where
  "CudaService_CreateEventResults_pipeline = CxxClass (pipeline_frame ''CudaService::CreateEventResults'') False [
     (''Handle'', CxxNamed ''EventHandle'', [Get])]"

lemma b_bf3a6b9bd266a840_name: "map_option class_name (node_name b_bf3a6b9bd266a840) = Some (name_octets ''CudaService::CreateEventResults'')"
  by (simp add: b_bf3a6b9bd266a840_def derive_name cong: table_congs bind_head_cong)

lemma CudaService_CreateEventResults_classes: "classes_of s_bf3a6b9bd266a840 = Some (octet_class CudaService_CreateEventResults_reader, octet_class CudaService_CreateEventResults_builder, octet_class CudaService_CreateEventResults_pipeline)"
  by (simp add: s_bf3a6b9bd266a840_def b_bf3a6b9bd266a840_node b_bf3a6b9bd266a840_name derive_classes CudaService_CreateEventResults_reader_def CudaService_CreateEventResults_builder_def CudaService_CreateEventResults_pipeline_def)

text \<open>\<open>CudaService::RecordEventParams\<close>\<close>

definition CudaService_RecordEventParams_reader :: cxx_class where
  "CudaService_RecordEventParams_reader = CxxClass (reader_frame ''CudaService::RecordEventParams'') False [
     (''Handle'', CxxNamed ''EventHandle'', [Has, Get])]"
definition CudaService_RecordEventParams_builder :: cxx_class where
  "CudaService_RecordEventParams_builder = CxxClass (builder_frame ''CudaService::RecordEventParams'') False [
     (''Handle'', CxxNamed ''EventHandle'', [Has, Get, Set, Init, Adopt, Disown])]"
definition CudaService_RecordEventParams_pipeline :: cxx_class where
  "CudaService_RecordEventParams_pipeline = CxxClass (pipeline_frame ''CudaService::RecordEventParams'') False [
     (''Handle'', CxxNamed ''EventHandle'', [Get])]"

lemma b_a138b03743531536_name: "map_option class_name (node_name b_a138b03743531536) = Some (name_octets ''CudaService::RecordEventParams'')"
  by (simp add: b_a138b03743531536_def derive_name cong: table_congs bind_head_cong)

lemma CudaService_RecordEventParams_classes: "classes_of s_a138b03743531536 = Some (octet_class CudaService_RecordEventParams_reader, octet_class CudaService_RecordEventParams_builder, octet_class CudaService_RecordEventParams_pipeline)"
  by (simp add: s_a138b03743531536_def b_a138b03743531536_node b_a138b03743531536_name derive_classes CudaService_RecordEventParams_reader_def CudaService_RecordEventParams_builder_def CudaService_RecordEventParams_pipeline_def)

text \<open>\<open>CudaService::RecordEventResults\<close>\<close>

definition CudaService_RecordEventResults_reader :: cxx_class where
  "CudaService_RecordEventResults_reader = CxxClass (reader_frame ''CudaService::RecordEventResults'') False [
     (''Ack'', CxxNamed ''Ack'', [Has, Get])]"
definition CudaService_RecordEventResults_builder :: cxx_class where
  "CudaService_RecordEventResults_builder = CxxClass (builder_frame ''CudaService::RecordEventResults'') False [
     (''Ack'', CxxNamed ''Ack'', [Has, Get, Set, Init, Adopt, Disown])]"
definition CudaService_RecordEventResults_pipeline :: cxx_class where
  "CudaService_RecordEventResults_pipeline = CxxClass (pipeline_frame ''CudaService::RecordEventResults'') False [
     (''Ack'', CxxNamed ''Ack'', [Get])]"

lemma b_a70d1ce069208328_name: "map_option class_name (node_name b_a70d1ce069208328) = Some (name_octets ''CudaService::RecordEventResults'')"
  by (simp add: b_a70d1ce069208328_def derive_name cong: table_congs bind_head_cong)

lemma CudaService_RecordEventResults_classes: "classes_of s_a70d1ce069208328 = Some (octet_class CudaService_RecordEventResults_reader, octet_class CudaService_RecordEventResults_builder, octet_class CudaService_RecordEventResults_pipeline)"
  by (simp add: s_a70d1ce069208328_def b_a70d1ce069208328_node b_a70d1ce069208328_name derive_classes CudaService_RecordEventResults_reader_def CudaService_RecordEventResults_builder_def CudaService_RecordEventResults_pipeline_def)

text \<open>\<open>CudaService::EventSynchronizeParams\<close>\<close>

definition CudaService_EventSynchronizeParams_reader :: cxx_class where
  "CudaService_EventSynchronizeParams_reader = CxxClass (reader_frame ''CudaService::EventSynchronizeParams'') False [
     (''Handle'', CxxNamed ''EventHandle'', [Has, Get])]"
definition CudaService_EventSynchronizeParams_builder :: cxx_class where
  "CudaService_EventSynchronizeParams_builder = CxxClass (builder_frame ''CudaService::EventSynchronizeParams'') False [
     (''Handle'', CxxNamed ''EventHandle'', [Has, Get, Set, Init, Adopt, Disown])]"
definition CudaService_EventSynchronizeParams_pipeline :: cxx_class where
  "CudaService_EventSynchronizeParams_pipeline = CxxClass (pipeline_frame ''CudaService::EventSynchronizeParams'') False [
     (''Handle'', CxxNamed ''EventHandle'', [Get])]"

lemma b_b082d151f7e078f9_name: "map_option class_name (node_name b_b082d151f7e078f9) = Some (name_octets ''CudaService::EventSynchronizeParams'')"
  by (simp add: b_b082d151f7e078f9_def derive_name cong: table_congs bind_head_cong)

lemma CudaService_EventSynchronizeParams_classes: "classes_of s_b082d151f7e078f9 = Some (octet_class CudaService_EventSynchronizeParams_reader, octet_class CudaService_EventSynchronizeParams_builder, octet_class CudaService_EventSynchronizeParams_pipeline)"
  by (simp add: s_b082d151f7e078f9_def b_b082d151f7e078f9_node b_b082d151f7e078f9_name derive_classes CudaService_EventSynchronizeParams_reader_def CudaService_EventSynchronizeParams_builder_def CudaService_EventSynchronizeParams_pipeline_def)

text \<open>\<open>CudaService::EventSynchronizeResults\<close>\<close>

definition CudaService_EventSynchronizeResults_reader :: cxx_class where
  "CudaService_EventSynchronizeResults_reader = CxxClass (reader_frame ''CudaService::EventSynchronizeResults'') False [
     (''Ack'', CxxNamed ''Ack'', [Has, Get])]"
definition CudaService_EventSynchronizeResults_builder :: cxx_class where
  "CudaService_EventSynchronizeResults_builder = CxxClass (builder_frame ''CudaService::EventSynchronizeResults'') False [
     (''Ack'', CxxNamed ''Ack'', [Has, Get, Set, Init, Adopt, Disown])]"
definition CudaService_EventSynchronizeResults_pipeline :: cxx_class where
  "CudaService_EventSynchronizeResults_pipeline = CxxClass (pipeline_frame ''CudaService::EventSynchronizeResults'') False [
     (''Ack'', CxxNamed ''Ack'', [Get])]"

lemma b_8aa89430a3b098a0_name: "map_option class_name (node_name b_8aa89430a3b098a0) = Some (name_octets ''CudaService::EventSynchronizeResults'')"
  by (simp add: b_8aa89430a3b098a0_def derive_name cong: table_congs bind_head_cong)

lemma CudaService_EventSynchronizeResults_classes: "classes_of s_8aa89430a3b098a0 = Some (octet_class CudaService_EventSynchronizeResults_reader, octet_class CudaService_EventSynchronizeResults_builder, octet_class CudaService_EventSynchronizeResults_pipeline)"
  by (simp add: s_8aa89430a3b098a0_def b_8aa89430a3b098a0_node b_8aa89430a3b098a0_name derive_classes CudaService_EventSynchronizeResults_reader_def CudaService_EventSynchronizeResults_builder_def CudaService_EventSynchronizeResults_pipeline_def)

text \<open>\<open>CudaService::DestroyEventParams\<close>\<close>

definition CudaService_DestroyEventParams_reader :: cxx_class where
  "CudaService_DestroyEventParams_reader = CxxClass (reader_frame ''CudaService::DestroyEventParams'') False [
     (''Handle'', CxxNamed ''EventHandle'', [Has, Get])]"
definition CudaService_DestroyEventParams_builder :: cxx_class where
  "CudaService_DestroyEventParams_builder = CxxClass (builder_frame ''CudaService::DestroyEventParams'') False [
     (''Handle'', CxxNamed ''EventHandle'', [Has, Get, Set, Init, Adopt, Disown])]"
definition CudaService_DestroyEventParams_pipeline :: cxx_class where
  "CudaService_DestroyEventParams_pipeline = CxxClass (pipeline_frame ''CudaService::DestroyEventParams'') False [
     (''Handle'', CxxNamed ''EventHandle'', [Get])]"

lemma b_e9bfa3f610cdda88_name: "map_option class_name (node_name b_e9bfa3f610cdda88) = Some (name_octets ''CudaService::DestroyEventParams'')"
  by (simp add: b_e9bfa3f610cdda88_def derive_name cong: table_congs bind_head_cong)

lemma CudaService_DestroyEventParams_classes: "classes_of s_e9bfa3f610cdda88 = Some (octet_class CudaService_DestroyEventParams_reader, octet_class CudaService_DestroyEventParams_builder, octet_class CudaService_DestroyEventParams_pipeline)"
  by (simp add: s_e9bfa3f610cdda88_def b_e9bfa3f610cdda88_node b_e9bfa3f610cdda88_name derive_classes CudaService_DestroyEventParams_reader_def CudaService_DestroyEventParams_builder_def CudaService_DestroyEventParams_pipeline_def)

text \<open>\<open>CudaService::DestroyEventResults\<close>\<close>

definition CudaService_DestroyEventResults_reader :: cxx_class where
  "CudaService_DestroyEventResults_reader = CxxClass (reader_frame ''CudaService::DestroyEventResults'') False [
     (''Ack'', CxxNamed ''Ack'', [Has, Get])]"
definition CudaService_DestroyEventResults_builder :: cxx_class where
  "CudaService_DestroyEventResults_builder = CxxClass (builder_frame ''CudaService::DestroyEventResults'') False [
     (''Ack'', CxxNamed ''Ack'', [Has, Get, Set, Init, Adopt, Disown])]"
definition CudaService_DestroyEventResults_pipeline :: cxx_class where
  "CudaService_DestroyEventResults_pipeline = CxxClass (pipeline_frame ''CudaService::DestroyEventResults'') False [
     (''Ack'', CxxNamed ''Ack'', [Get])]"

lemma b_819d132e990c800d_name: "map_option class_name (node_name b_819d132e990c800d) = Some (name_octets ''CudaService::DestroyEventResults'')"
  by (simp add: b_819d132e990c800d_def derive_name cong: table_congs bind_head_cong)

lemma CudaService_DestroyEventResults_classes: "classes_of s_819d132e990c800d = Some (octet_class CudaService_DestroyEventResults_reader, octet_class CudaService_DestroyEventResults_builder, octet_class CudaService_DestroyEventResults_pipeline)"
  by (simp add: s_819d132e990c800d_def b_819d132e990c800d_node b_819d132e990c800d_name derive_classes CudaService_DestroyEventResults_reader_def CudaService_DestroyEventResults_builder_def CudaService_DestroyEventResults_pipeline_def)

text \<open>\<open>CudaService::BatchKernelLaunchParams\<close>\<close>

definition CudaService_BatchKernelLaunchParams_reader :: cxx_class where
  "CudaService_BatchKernelLaunchParams_reader = CxxClass (reader_frame ''CudaService::BatchKernelLaunchParams'') False [
     (''Request'', CxxNamed ''BatchKernelLaunch'', [Has, Get])]"
definition CudaService_BatchKernelLaunchParams_builder :: cxx_class where
  "CudaService_BatchKernelLaunchParams_builder = CxxClass (builder_frame ''CudaService::BatchKernelLaunchParams'') False [
     (''Request'', CxxNamed ''BatchKernelLaunch'', [Has, Get, Set, Init, Adopt, Disown])]"
definition CudaService_BatchKernelLaunchParams_pipeline :: cxx_class where
  "CudaService_BatchKernelLaunchParams_pipeline = CxxClass (pipeline_frame ''CudaService::BatchKernelLaunchParams'') False [
     (''Request'', CxxNamed ''BatchKernelLaunch'', [Get])]"

lemma b_a58d7df87cb5c3bf_name: "map_option class_name (node_name b_a58d7df87cb5c3bf) = Some (name_octets ''CudaService::BatchKernelLaunchParams'')"
  by (simp add: b_a58d7df87cb5c3bf_def derive_name cong: table_congs bind_head_cong)

lemma CudaService_BatchKernelLaunchParams_classes: "classes_of s_a58d7df87cb5c3bf = Some (octet_class CudaService_BatchKernelLaunchParams_reader, octet_class CudaService_BatchKernelLaunchParams_builder, octet_class CudaService_BatchKernelLaunchParams_pipeline)"
  by (simp add: s_a58d7df87cb5c3bf_def b_a58d7df87cb5c3bf_node b_a58d7df87cb5c3bf_name derive_classes CudaService_BatchKernelLaunchParams_reader_def CudaService_BatchKernelLaunchParams_builder_def CudaService_BatchKernelLaunchParams_pipeline_def)

text \<open>\<open>CudaService::BatchKernelLaunchResults\<close>\<close>

definition CudaService_BatchKernelLaunchResults_reader :: cxx_class where
  "CudaService_BatchKernelLaunchResults_reader = CxxClass (reader_frame ''CudaService::BatchKernelLaunchResults'') False [
     (''Ack'', CxxNamed ''Ack'', [Has, Get])]"
definition CudaService_BatchKernelLaunchResults_builder :: cxx_class where
  "CudaService_BatchKernelLaunchResults_builder = CxxClass (builder_frame ''CudaService::BatchKernelLaunchResults'') False [
     (''Ack'', CxxNamed ''Ack'', [Has, Get, Set, Init, Adopt, Disown])]"
definition CudaService_BatchKernelLaunchResults_pipeline :: cxx_class where
  "CudaService_BatchKernelLaunchResults_pipeline = CxxClass (pipeline_frame ''CudaService::BatchKernelLaunchResults'') False [
     (''Ack'', CxxNamed ''Ack'', [Get])]"

lemma b_c15f783825e674b3_name: "map_option class_name (node_name b_c15f783825e674b3) = Some (name_octets ''CudaService::BatchKernelLaunchResults'')"
  by (simp add: b_c15f783825e674b3_def derive_name cong: table_congs bind_head_cong)

lemma CudaService_BatchKernelLaunchResults_classes: "classes_of s_c15f783825e674b3 = Some (octet_class CudaService_BatchKernelLaunchResults_reader, octet_class CudaService_BatchKernelLaunchResults_builder, octet_class CudaService_BatchKernelLaunchResults_pipeline)"
  by (simp add: s_c15f783825e674b3_def b_c15f783825e674b3_node b_c15f783825e674b3_name derive_classes CudaService_BatchKernelLaunchResults_reader_def CudaService_BatchKernelLaunchResults_builder_def CudaService_BatchKernelLaunchResults_pipeline_def)

text \<open>\<open>CudaService::MultiGpuCooperationParams\<close>\<close>

definition CudaService_MultiGpuCooperationParams_reader :: cxx_class where
  "CudaService_MultiGpuCooperationParams_reader = CxxClass (reader_frame ''CudaService::MultiGpuCooperationParams'') False [
     (''Request'', CxxNamed ''MultiGpuRequest'', [Has, Get])]"
definition CudaService_MultiGpuCooperationParams_builder :: cxx_class where
  "CudaService_MultiGpuCooperationParams_builder = CxxClass (builder_frame ''CudaService::MultiGpuCooperationParams'') False [
     (''Request'', CxxNamed ''MultiGpuRequest'', [Has, Get, Set, Init, Adopt, Disown])]"
definition CudaService_MultiGpuCooperationParams_pipeline :: cxx_class where
  "CudaService_MultiGpuCooperationParams_pipeline = CxxClass (pipeline_frame ''CudaService::MultiGpuCooperationParams'') False [
     (''Request'', CxxNamed ''MultiGpuRequest'', [Get])]"

lemma b_8cb1ea6893b2ef94_name: "map_option class_name (node_name b_8cb1ea6893b2ef94) = Some (name_octets ''CudaService::MultiGpuCooperationParams'')"
  by (simp add: b_8cb1ea6893b2ef94_def derive_name cong: table_congs bind_head_cong)

lemma CudaService_MultiGpuCooperationParams_classes: "classes_of s_8cb1ea6893b2ef94 = Some (octet_class CudaService_MultiGpuCooperationParams_reader, octet_class CudaService_MultiGpuCooperationParams_builder, octet_class CudaService_MultiGpuCooperationParams_pipeline)"
  by (simp add: s_8cb1ea6893b2ef94_def b_8cb1ea6893b2ef94_node b_8cb1ea6893b2ef94_name derive_classes CudaService_MultiGpuCooperationParams_reader_def CudaService_MultiGpuCooperationParams_builder_def CudaService_MultiGpuCooperationParams_pipeline_def)

text \<open>\<open>CudaService::MultiGpuCooperationResults\<close>\<close>

definition CudaService_MultiGpuCooperationResults_reader :: cxx_class where
  "CudaService_MultiGpuCooperationResults_reader = CxxClass (reader_frame ''CudaService::MultiGpuCooperationResults'') False [
     (''Ack'', CxxNamed ''Ack'', [Has, Get])]"
definition CudaService_MultiGpuCooperationResults_builder :: cxx_class where
  "CudaService_MultiGpuCooperationResults_builder = CxxClass (builder_frame ''CudaService::MultiGpuCooperationResults'') False [
     (''Ack'', CxxNamed ''Ack'', [Has, Get, Set, Init, Adopt, Disown])]"
definition CudaService_MultiGpuCooperationResults_pipeline :: cxx_class where
  "CudaService_MultiGpuCooperationResults_pipeline = CxxClass (pipeline_frame ''CudaService::MultiGpuCooperationResults'') False [
     (''Ack'', CxxNamed ''Ack'', [Get])]"

lemma b_fbbcc94269ba6a08_name: "map_option class_name (node_name b_fbbcc94269ba6a08) = Some (name_octets ''CudaService::MultiGpuCooperationResults'')"
  by (simp add: b_fbbcc94269ba6a08_def derive_name cong: table_congs bind_head_cong)

lemma CudaService_MultiGpuCooperationResults_classes: "classes_of s_fbbcc94269ba6a08 = Some (octet_class CudaService_MultiGpuCooperationResults_reader, octet_class CudaService_MultiGpuCooperationResults_builder, octet_class CudaService_MultiGpuCooperationResults_pipeline)"
  by (simp add: s_fbbcc94269ba6a08_def b_fbbcc94269ba6a08_node b_fbbcc94269ba6a08_name derive_classes CudaService_MultiGpuCooperationResults_reader_def CudaService_MultiGpuCooperationResults_builder_def CudaService_MultiGpuCooperationResults_pipeline_def)

text \<open>\<open>CudaService::AllocAndWriteParams\<close>\<close>

definition CudaService_AllocAndWriteParams_reader :: cxx_class where
  "CudaService_AllocAndWriteParams_reader = CxxClass (reader_frame ''CudaService::AllocAndWriteParams'') False [
     (''Size'', CxxUInt 64, [Get]), (''Data'', CxxData, [Has, Get])]"
definition CudaService_AllocAndWriteParams_builder :: cxx_class where
  "CudaService_AllocAndWriteParams_builder = CxxClass (builder_frame ''CudaService::AllocAndWriteParams'') False [
     (''Size'', CxxUInt 64, [Get, Set]),
     (''Data'', CxxData, [Has, Get, Set, InitSized, Adopt, Disown])]"
definition CudaService_AllocAndWriteParams_pipeline :: cxx_class where
  "CudaService_AllocAndWriteParams_pipeline = CxxClass (pipeline_frame ''CudaService::AllocAndWriteParams'') False []"

lemma b_8f45295c5e9b579b_name: "map_option class_name (node_name b_8f45295c5e9b579b) = Some (name_octets ''CudaService::AllocAndWriteParams'')"
  by (simp add: b_8f45295c5e9b579b_def derive_name cong: table_congs bind_head_cong)

lemma CudaService_AllocAndWriteParams_classes: "classes_of s_8f45295c5e9b579b = Some (octet_class CudaService_AllocAndWriteParams_reader, octet_class CudaService_AllocAndWriteParams_builder, octet_class CudaService_AllocAndWriteParams_pipeline)"
  by (simp add: s_8f45295c5e9b579b_def b_8f45295c5e9b579b_node b_8f45295c5e9b579b_name derive_classes CudaService_AllocAndWriteParams_reader_def CudaService_AllocAndWriteParams_builder_def CudaService_AllocAndWriteParams_pipeline_def)

text \<open>\<open>CudaService::AllocAndWriteResults\<close>\<close>

definition CudaService_AllocAndWriteResults_reader :: cxx_class where
  "CudaService_AllocAndWriteResults_reader = CxxClass (reader_frame ''CudaService::AllocAndWriteResults'') False [
     (''Result'', CxxNamed ''Response'', [Has, Get])]"
definition CudaService_AllocAndWriteResults_builder :: cxx_class where
  "CudaService_AllocAndWriteResults_builder = CxxClass (builder_frame ''CudaService::AllocAndWriteResults'') False [
     (''Result'', CxxNamed ''Response'', [Has, Get, Set, Init, Adopt, Disown])]"
definition CudaService_AllocAndWriteResults_pipeline :: cxx_class where
  "CudaService_AllocAndWriteResults_pipeline = CxxClass (pipeline_frame ''CudaService::AllocAndWriteResults'') False [
     (''Result'', CxxNamed ''Response'', [Get])]"

lemma b_8174b4e554088fa5_name: "map_option class_name (node_name b_8174b4e554088fa5) = Some (name_octets ''CudaService::AllocAndWriteResults'')"
  by (simp add: b_8174b4e554088fa5_def derive_name cong: table_congs bind_head_cong)

lemma CudaService_AllocAndWriteResults_classes: "classes_of s_8174b4e554088fa5 = Some (octet_class CudaService_AllocAndWriteResults_reader, octet_class CudaService_AllocAndWriteResults_builder, octet_class CudaService_AllocAndWriteResults_pipeline)"
  by (simp add: s_8174b4e554088fa5_def b_8174b4e554088fa5_node b_8174b4e554088fa5_name derive_classes CudaService_AllocAndWriteResults_reader_def CudaService_AllocAndWriteResults_builder_def CudaService_AllocAndWriteResults_pipeline_def)

subsection \<open>All of them\<close>

definition classCuda_classes :: "(nat \<times> struct_classes) list" where
  "classCuda_classes = [
     (0xaa64c42860eecf63, MemcpyParams_reader, MemcpyParams_builder, MemcpyParams_pipeline),
     (0xddb50ac56f50ec53, StreamHandle_reader, StreamHandle_builder, StreamHandle_pipeline),
     (0x9de7a50f41d4cbd0, StreamCreateParams_reader, StreamCreateParams_builder, StreamCreateParams_pipeline),
     (0x92bc15fb0d1fcb65, EventHandle_reader, EventHandle_builder, EventHandle_pipeline),
     (0xa0142208ca8277e0, EventParams_reader, EventParams_builder, EventParams_pipeline),
     (0xdacf4c24bade7b94, BatchKernelLaunch_reader, BatchKernelLaunch_builder, BatchKernelLaunch_pipeline),
     (0xb2bde6a78c1a0cb4, MultiGpuRequest_reader, MultiGpuRequest_builder, MultiGpuRequest_pipeline),
     (0xba5df2daeb81d2b3, CudaService_CudaInitParams_reader, CudaService_CudaInitParams_builder, CudaService_CudaInitParams_pipeline),
     (0x9541b3fbcfb24811, CudaService_CudaInitResults_reader, CudaService_CudaInitResults_builder, CudaService_CudaInitResults_pipeline),
     (0xbe2dd3871d6c54ce, CudaService_CudaMemAllocParams_reader, CudaService_CudaMemAllocParams_builder, CudaService_CudaMemAllocParams_pipeline),
     (0x9aa2f69630ae6c9c, CudaService_CudaMemAllocResults_reader, CudaService_CudaMemAllocResults_builder, CudaService_CudaMemAllocResults_pipeline),
     (0xbc316a0441cc04ac, CudaService_CudaMemcpyParams_reader, CudaService_CudaMemcpyParams_builder, CudaService_CudaMemcpyParams_pipeline),
     (0xd7b620c1f6580289, CudaService_CudaMemcpyResults_reader, CudaService_CudaMemcpyResults_builder, CudaService_CudaMemcpyResults_pipeline),
     (0xb2cda054826996c4, CudaService_CudaMemFreeParams_reader, CudaService_CudaMemFreeParams_builder, CudaService_CudaMemFreeParams_pipeline),
     (0x9edc1e0ed150e10c, CudaService_CudaMemFreeResults_reader, CudaService_CudaMemFreeResults_builder, CudaService_CudaMemFreeResults_pipeline),
     (0xe5bc2a6e0f80ad6b, CudaService_CreateCudaStreamParams_reader, CudaService_CreateCudaStreamParams_builder, CudaService_CreateCudaStreamParams_pipeline),
     (0xf5ccd1fa43e677e4, CudaService_CreateCudaStreamResults_reader, CudaService_CreateCudaStreamResults_builder, CudaService_CreateCudaStreamResults_pipeline),
     (0xd0ffebd0326acdf9, CudaService_DestroyCudaStreamParams_reader, CudaService_DestroyCudaStreamParams_builder, CudaService_DestroyCudaStreamParams_pipeline),
     (0xf05eef4dfede4f25, CudaService_DestroyCudaStreamResults_reader, CudaService_DestroyCudaStreamResults_builder, CudaService_DestroyCudaStreamResults_pipeline),
     (0xf8c19f0353a8733b, CudaService_SynchronizeCudaStreamParams_reader, CudaService_SynchronizeCudaStreamParams_builder, CudaService_SynchronizeCudaStreamParams_pipeline),
     (0xf3e39f6d897fe9e6, CudaService_SynchronizeCudaStreamResults_reader, CudaService_SynchronizeCudaStreamResults_builder, CudaService_SynchronizeCudaStreamResults_pipeline),
     (0xabebfa47b0d7fe3e, CudaService_CudaKernelLaunchParams_reader, CudaService_CudaKernelLaunchParams_builder, CudaService_CudaKernelLaunchParams_pipeline),
     (0xbb7aac664da39365, CudaService_CudaKernelLaunchResults_reader, CudaService_CudaKernelLaunchResults_builder, CudaService_CudaKernelLaunchResults_pipeline),
     (0xa494a6b17c5f502f, CudaService_CreateEventParams_reader, CudaService_CreateEventParams_builder, CudaService_CreateEventParams_pipeline),
     (0xbf3a6b9bd266a840, CudaService_CreateEventResults_reader, CudaService_CreateEventResults_builder, CudaService_CreateEventResults_pipeline),
     (0xa138b03743531536, CudaService_RecordEventParams_reader, CudaService_RecordEventParams_builder, CudaService_RecordEventParams_pipeline),
     (0xa70d1ce069208328, CudaService_RecordEventResults_reader, CudaService_RecordEventResults_builder, CudaService_RecordEventResults_pipeline),
     (0xb082d151f7e078f9, CudaService_EventSynchronizeParams_reader, CudaService_EventSynchronizeParams_builder, CudaService_EventSynchronizeParams_pipeline),
     (0x8aa89430a3b098a0, CudaService_EventSynchronizeResults_reader, CudaService_EventSynchronizeResults_builder, CudaService_EventSynchronizeResults_pipeline),
     (0xe9bfa3f610cdda88, CudaService_DestroyEventParams_reader, CudaService_DestroyEventParams_builder, CudaService_DestroyEventParams_pipeline),
     (0x819d132e990c800d, CudaService_DestroyEventResults_reader, CudaService_DestroyEventResults_builder, CudaService_DestroyEventResults_pipeline),
     (0xa58d7df87cb5c3bf, CudaService_BatchKernelLaunchParams_reader, CudaService_BatchKernelLaunchParams_builder, CudaService_BatchKernelLaunchParams_pipeline),
     (0xc15f783825e674b3, CudaService_BatchKernelLaunchResults_reader, CudaService_BatchKernelLaunchResults_builder, CudaService_BatchKernelLaunchResults_pipeline),
     (0x8cb1ea6893b2ef94, CudaService_MultiGpuCooperationParams_reader, CudaService_MultiGpuCooperationParams_builder, CudaService_MultiGpuCooperationParams_pipeline),
     (0xfbbcc94269ba6a08, CudaService_MultiGpuCooperationResults_reader, CudaService_MultiGpuCooperationResults_builder, CudaService_MultiGpuCooperationResults_pipeline),
     (0x8f45295c5e9b579b, CudaService_AllocAndWriteParams_reader, CudaService_AllocAndWriteParams_builder, CudaService_AllocAndWriteParams_pipeline),
     (0x8174b4e554088fa5, CudaService_AllocAndWriteResults_reader, CudaService_AllocAndWriteResults_builder, CudaService_AllocAndWriteResults_pipeline)]"

lemma classCuda_structs_classes:
  "map (\<lambda>s. (schema_id s, classes_of s)) schemaCuda_structs = map (\<lambda>(i, c). (i, Some (octet_classes c))) classCuda_classes"
  by (simp add: schemaCuda_structs_def classCuda_classes_def octet_classes_def
      MemcpyParams_classes s_aa64c42860eecf63_id StreamHandle_classes s_ddb50ac56f50ec53_id
      StreamCreateParams_classes s_9de7a50f41d4cbd0_id EventHandle_classes s_92bc15fb0d1fcb65_id
      EventParams_classes s_a0142208ca8277e0_id BatchKernelLaunch_classes s_dacf4c24bade7b94_id
      MultiGpuRequest_classes s_b2bde6a78c1a0cb4_id
      CudaService_CudaInitParams_classes s_ba5df2daeb81d2b3_id
      CudaService_CudaInitResults_classes s_9541b3fbcfb24811_id
      CudaService_CudaMemAllocParams_classes s_be2dd3871d6c54ce_id
      CudaService_CudaMemAllocResults_classes s_9aa2f69630ae6c9c_id
      CudaService_CudaMemcpyParams_classes s_bc316a0441cc04ac_id
      CudaService_CudaMemcpyResults_classes s_d7b620c1f6580289_id
      CudaService_CudaMemFreeParams_classes s_b2cda054826996c4_id
      CudaService_CudaMemFreeResults_classes s_9edc1e0ed150e10c_id
      CudaService_CreateCudaStreamParams_classes s_e5bc2a6e0f80ad6b_id
      CudaService_CreateCudaStreamResults_classes s_f5ccd1fa43e677e4_id
      CudaService_DestroyCudaStreamParams_classes s_d0ffebd0326acdf9_id
      CudaService_DestroyCudaStreamResults_classes s_f05eef4dfede4f25_id
      CudaService_SynchronizeCudaStreamParams_classes s_f8c19f0353a8733b_id
      CudaService_SynchronizeCudaStreamResults_classes s_f3e39f6d897fe9e6_id
      CudaService_CudaKernelLaunchParams_classes s_abebfa47b0d7fe3e_id
      CudaService_CudaKernelLaunchResults_classes s_bb7aac664da39365_id
      CudaService_CreateEventParams_classes s_a494a6b17c5f502f_id
      CudaService_CreateEventResults_classes s_bf3a6b9bd266a840_id
      CudaService_RecordEventParams_classes s_a138b03743531536_id
      CudaService_RecordEventResults_classes s_a70d1ce069208328_id
      CudaService_EventSynchronizeParams_classes s_b082d151f7e078f9_id
      CudaService_EventSynchronizeResults_classes s_8aa89430a3b098a0_id
      CudaService_DestroyEventParams_classes s_e9bfa3f610cdda88_id
      CudaService_DestroyEventResults_classes s_819d132e990c800d_id
      CudaService_BatchKernelLaunchParams_classes s_a58d7df87cb5c3bf_id
      CudaService_BatchKernelLaunchResults_classes s_c15f783825e674b3_id
      CudaService_MultiGpuCooperationParams_classes s_8cb1ea6893b2ef94_id
      CudaService_MultiGpuCooperationResults_classes s_fbbcc94269ba6a08_id
      CudaService_AllocAndWriteParams_classes s_8f45295c5e9b579b_id
      CudaService_AllocAndWriteResults_classes s_8174b4e554088fa5_id)

end
