(* ===== verification/ClassLinks.thy ===== *)
theory ClassLinks
  imports SchemaLinks ClassCommon ClassMemcopy ClassKernel ClassHookLauncher ClassGpuControl ClassCuda
begin

section \<open>Classes and schemas\<close>

text \<open>
  All generated classes against the schemas, in the order of \<open>all_structs\<close>.
\<close>

definition all_classes :: "(nat \<times> struct_classes) list" where
  "all_classes = classCommon_classes @ classMemcopy_classes @ classKernel_classes @ classHookLauncher_classes @
     classGpuControl_classes @ classCuda_classes"

subsection \<open>Properties\<close>

text \<open>
  C21. The generated classes are what the schemas prescribe: for every struct the reader, the
  builder and the pipeline bear the name that the schema displays, have the constructors,
  conversions, members and friends of their kind, and declare, field by field and in the order of
  the schema, accessors under the field's name, of the field's type, and of exactly the kinds that
  such a field has (a discriminant's test for union members; presence, initialisation, adoption and
  disowning for what is behind a pointer; a pipelined getter for structs); \<open>which()\<close> is there
  exactly for unions.
\<close>

theorem classes_are_what_schemas_prescribe:
  "map (\<lambda>s. (schema_id s, classes_of s)) all_structs = map (\<lambda>(i, c). (i, Some (octet_classes c))) all_classes"
  by (simp only: all_structs_def all_classes_def map_append classCommon_structs_classes classMemcopy_structs_classes
      classKernel_structs_classes classHookLauncher_structs_classes classGpuControl_structs_classes
      classCuda_structs_classes)

end
