(* ===== verification/Accessors.thy ===== *)
theory Accessors
  imports Classes
begin

section \<open>What the accessors do\<close>

text \<open>
  \<open>proto/proto/*.capnp.h\<close>: the bodies of the generated accessors. A body is a call of the runtime with
  constants of its own, which the theories \<open>BodiesCommon\<close> to \<open>BodiesCuda\<close> hold body by body; the body
  of a member of a union also tests the discriminant or sets it first, again with constants of its
  own. Here is what a body does, what a struct is to its users (a record of its fields by name), and
  when bodies with such constants implement it.
\<close>

datatype class_kind = OfReader | OfBuilder | OfPipeline

text \<open>
  \<open>getDataField\<close> and \<open>setDataField\<close>; \<open>isNull\<close> of \<open>getPointerField\<close>; \<open>get\<close>, \<open>set\<close>, \<open>init\<close>, \<open>adopt\<close> and \<open>disown\<close>
  of \<open>PointerHelpers\<close>. \<open>get\<close> of a struct on a builder makes the struct when it is not there. \<open>TagIs\<close> is
  the body \<open>return which() == X\<close>. A pipeline gets the promise of what the getter will give.
\<close>

datatype access =
    GetData dfield | SetData dfield | PointerIsNull pfield | PointerGet pfield | PointerGetStruct pfield
  | PointerSet pfield | PointerInit pfield | PointerAdopt pfield | PointerDisown pfield | TagIs

datatype body = Body (body_class: class_kind) (body_accessor: accessor) "(dfield \<times> nat) option" access

abbreviation reads :: "accessor \<Rightarrow> access \<Rightarrow> body" where "reads a x \<equiv> Body OfReader a None x"
abbreviation builds :: "accessor \<Rightarrow> access \<Rightarrow> body" where "builds a x \<equiv> Body OfBuilder a None x"
abbreviation pipes :: "accessor \<Rightarrow> access \<Rightarrow> body" where "pipes a x \<equiv> Body OfPipeline a None x"

type_synonym struct_bodies = "(string \<times> body list) list"

subsection \<open>Running a body\<close>

text \<open>
  The argument is the number or the object (the value, the orphan, the new object that \<open>init\<close> gives a
  builder for, or the default that a getter gives for an absent one). \<open>None\<close> is a failed
  \<open>KJ_IREQUIRE\<close>, which stops a debug build.
\<close>

datatype 'o outcome = Nothing | Truth bool | Number nat | Object 'o | Orphan "'o option"

fun run_access :: "('w, 'o) runtime \<Rightarrow> access \<Rightarrow> nat \<Rightarrow> 'o \<Rightarrow> 'w \<Rightarrow> ('o outcome \<times> 'w) option" where
  "run_access rt (GetData f) v x w = Some (Number (rt_getData rt f w), w)"
| "run_access rt (SetData f) v x w = Some (Nothing, rt_setData rt f v w)"
| "run_access rt (PointerIsNull p) v x w = Some (Truth (\<not> rt_isNull rt p w), w)"
| "run_access rt (PointerGet p) v x w = Some (Object (rt_getPointer rt x p w), w)"
| "run_access rt (PointerGetStruct p) v x w =
     (if rt_isNull rt p w then Some (Object x, rt_setPointer rt p x w)
      else Some (Object (rt_getPointer rt x p w), w))"
| "run_access rt (PointerSet p) v x w = Some (Nothing, rt_setPointer rt p x w)"
| "run_access rt (PointerInit p) v x w = Some (Object x, rt_setPointer rt p x w)"
| "run_access rt (PointerAdopt p) v x w = Some (Nothing, rt_setPointer rt p x w)"
| "run_access rt (PointerDisown p) v x w = (case rt_disown rt p w of (r, w') \<Rightarrow> Some (Orphan r, w'))"
| "run_access rt TagIs v x w = None"

fun run_body :: "('w, 'o) runtime \<Rightarrow> body \<Rightarrow> nat \<Rightarrow> 'o \<Rightarrow> 'w \<Rightarrow> ('o outcome \<times> 'w) option" where
  "run_body rt (Body c a None acc) v x w = run_access rt acc v x w"
| "run_body rt (Body c a (Some (t, k)) acc) v x w =
     (case a of
        Is \<Rightarrow> Some (Truth (rt_getData rt t w = k), w)
      | Has \<Rightarrow> if rt_getData rt t w = k then run_access rt acc v x w else Some (Truth False, w)
      | Get \<Rightarrow> if rt_getData rt t w = k then run_access rt acc v x w else None
      | Disown \<Rightarrow> if rt_getData rt t w = k then run_access rt acc v x w else None
      | _ \<Rightarrow> run_access rt acc v x (rt_setData rt t k w))"

text \<open>A call names the class, the accessor and the field; a sequence of calls gives its results in order.\<close>

record 'o call =
  c_class :: class_kind
  c_accessor :: accessor
  c_field :: string
  c_number :: nat
  c_object :: 'o

definition body_of :: "struct_bodies \<Rightarrow> 'o call \<Rightarrow> body option" where
  "body_of bs c = (case map_of bs (c_field c) of
     None \<Rightarrow> None
   | Some ms \<Rightarrow> find (\<lambda>b. body_class b = c_class c \<and> body_accessor b = c_accessor c) ms)"

definition run_call :: "('w, 'o) runtime \<Rightarrow> struct_bodies \<Rightarrow> 'o call \<Rightarrow> 'w \<Rightarrow> ('o outcome \<times> 'w) option" where
  "run_call rt bs c w = (case body_of bs c of None \<Rightarrow> None | Some b \<Rightarrow> run_body rt b (c_number c) (c_object c) w)"

fun run_calls :: "('w, 'o) runtime \<Rightarrow> struct_bodies \<Rightarrow> 'o call list \<Rightarrow> 'w \<Rightarrow> ('o outcome list \<times> 'w) option" where
  "run_calls rt bs [] w = Some ([], w)"
| "run_calls rt bs (c # cs) w =
     (case run_call rt bs c w of
        None \<Rightarrow> None
      | Some (r, w') \<Rightarrow> map_option (\<lambda>(rs, w''). (r # rs, w'')) (run_calls rt bs cs w'))"

subsection \<open>A struct as its named fields\<close>

text \<open>
  Where a field is (\<open>True\<close>: the pointer is to a struct), the discriminant of a union's member, and
  the struct: its layout, its discriminant and its fields by name.
\<close>

datatype field_store = InData dfield | InPointer pfield bool

record struct_spec =
  spec_layout :: layout
  spec_tag :: "dfield option"
  spec_fields :: "(string \<times> field_store \<times> nat option) list"

text \<open>To its users a struct is a number or an object under each name, and the member its union has.\<close>

record 'o named =
  value_of :: "string \<Rightarrow> nat"
  object_of :: "string \<Rightarrow> 'o option"
  case_of :: nat

definition spec_new :: "struct_spec \<Rightarrow> 'o named" where
  "spec_new S = \<lparr>value_of = (\<lambda>n. case map_of (spec_fields S) n of Some (InData f, k) \<Rightarrow> f_mask f | _ \<Rightarrow> 0),
     object_of = (\<lambda>_. None), case_of = (case spec_tag S of Some t \<Rightarrow> f_mask t | None \<Rightarrow> 0)\<rparr>"

definition put_object :: "string \<Rightarrow> 'o option \<Rightarrow> 'o named \<Rightarrow> 'o named" where
  "put_object n x m = m\<lparr>object_of := (object_of m)(n := x)\<rparr>"

fun spec_access :: "field_store \<Rightarrow> class_kind \<Rightarrow> accessor \<Rightarrow> string \<Rightarrow> nat \<Rightarrow> 'o \<Rightarrow> 'o named \<Rightarrow>
    ('o outcome \<times> 'o named) option" where
  "spec_access (InData f) c a n v x m =
     (case a of
        Get \<Rightarrow> Some (Number (value_of m n), m)
      | Set \<Rightarrow> Some (Nothing, m\<lparr>value_of := (value_of m)(n := v)\<rparr>)
      | _ \<Rightarrow> None)"
| "spec_access (InPointer p is_struct) c a n v x m =
     (case a of
        Has \<Rightarrow> Some (Truth (object_of m n \<noteq> None), m)
      | Get \<Rightarrow> (case object_of m n of
          Some y \<Rightarrow> Some (Object y, m)
        | None \<Rightarrow> Some (Object x, if is_struct \<and> c = OfBuilder then put_object n (Some x) m else m))
      | Set \<Rightarrow> Some (Nothing, put_object n (Some x) m)
      | SetArray \<Rightarrow> Some (Nothing, put_object n (Some x) m)
      | Init \<Rightarrow> Some (Object x, put_object n (Some x) m)
      | InitSized \<Rightarrow> Some (Object x, put_object n (Some x) m)
      | Adopt \<Rightarrow> Some (Nothing, put_object n (Some x) m)
      | Disown \<Rightarrow> Some (Orphan (object_of m n), put_object n None m)
      | Is \<Rightarrow> None)"

text \<open>
  A member of a union is there only while the union has it: it is tested, and it is got or disowned
  only then; whatever puts it makes it the union's member.
\<close>

definition spec_call :: "struct_spec \<Rightarrow> 'o call \<Rightarrow> 'o named \<Rightarrow> ('o outcome \<times> 'o named) option" where
  "spec_call S c m =
     (case map_of (spec_fields S) (c_field c) of
        None \<Rightarrow> None
      | Some (st, None) \<Rightarrow> spec_access st (c_class c) (c_accessor c) (c_field c) (c_number c) (c_object c) m
      | Some (st, Some k) \<Rightarrow>
          (if c_accessor c = Is then Some (Truth (case_of m = k), m)
           else if c_accessor c \<in> {Has, Get, Disown} \<and> case_of m \<noteq> k
           then (if c_accessor c = Has then Some (Truth False, m) else None)
           else spec_access st (c_class c) (c_accessor c) (c_field c) (c_number c) (c_object c) (m\<lparr>case_of := k\<rparr>)))"

fun spec_calls :: "struct_spec \<Rightarrow> 'o call list \<Rightarrow> 'o named \<Rightarrow> ('o outcome list \<times> 'o named) option" where
  "spec_calls S [] m = Some ([], m)"
| "spec_calls S (c # cs) m =
     (case spec_call S c m of
        None \<Rightarrow> None
      | Some (r, m') \<Rightarrow> map_option (\<lambda>(rs, m''). (r # rs, m'')) (spec_calls S cs m'))"

subsection \<open>When bodies fit a struct\<close>

text \<open>The body that an accessor of a field ought to have.\<close>

fun access_of :: "class_kind \<Rightarrow> accessor \<Rightarrow> field_store \<Rightarrow> access option" where
  "access_of c a (InData f) = (case a of Get \<Rightarrow> Some (GetData f) | Set \<Rightarrow> Some (SetData f) | Is \<Rightarrow> Some TagIs | _ \<Rightarrow> None)"
| "access_of c a (InPointer p is_struct) =
     (case a of
        Has \<Rightarrow> Some (PointerIsNull p)
      | Get \<Rightarrow> Some (if is_struct \<and> c = OfBuilder then PointerGetStruct p else PointerGet p)
      | Set \<Rightarrow> Some (PointerSet p) | SetArray \<Rightarrow> Some (PointerSet p)
      | Init \<Rightarrow> Some (PointerInit p) | InitSized \<Rightarrow> Some (PointerInit p)
      | Adopt \<Rightarrow> Some (PointerAdopt p) | Disown \<Rightarrow> Some (PointerDisown p) | Is \<Rightarrow> Some TagIs)"

fun body_ok :: "dfield option \<Rightarrow> field_store \<Rightarrow> nat option \<Rightarrow> body \<Rightarrow> bool" where
  "body_ok tag st None (Body c a tg acc) \<longleftrightarrow> a \<noteq> Is \<and> tg = None \<and> access_of c a st = Some acc"
| "body_ok tag st (Some k) (Body c a tg acc) \<longleftrightarrow>
     (case tag of None \<Rightarrow> False | Some t \<Rightarrow> tg = Some (t, k) \<and> in_width t k) \<and> access_of c a st = Some acc"

fun fields_ok :: "dfield option \<Rightarrow> (string \<times> field_store \<times> nat option) list \<Rightarrow> struct_bodies \<Rightarrow> bool" where
  "fields_ok tag [] [] \<longleftrightarrow> True"
| "fields_ok tag ((n, st, k) # fs) ((n', ms) # bs) \<longleftrightarrow>
     n = n' \<and> list_all (body_ok tag st k) ms \<and> fields_ok tag fs bs"
| "fields_ok tag _ _ \<longleftrightarrow> False"

text \<open>The fields of the layout are the discriminant and the named ones.\<close>

fun data_of :: "string \<times> field_store \<times> nat option \<Rightarrow> dfield list" where
  "data_of (n, InData f, k) = [f]"
| "data_of (n, InPointer p s, k) = []"

fun pointers_of :: "string \<times> field_store \<times> nat option \<Rightarrow> pfield list" where
  "pointers_of (n, InData f, k) = []"
| "pointers_of (n, InPointer p s, k) = [p]"

definition spec_ok :: "struct_spec \<Rightarrow> bool" where
  "spec_ok S \<longleftrightarrow> layout_ok (spec_layout S) \<and> distinct (map fst (spec_fields S)) \<and>
     data_fields (spec_layout S) =
       (case spec_tag S of None \<Rightarrow> [] | Some t \<Rightarrow> [t]) @ concat (map data_of (spec_fields S)) \<and>
     pointer_fields (spec_layout S) = concat (map pointers_of (spec_fields S))"

definition struct_ok :: "struct_spec \<Rightarrow> struct_bodies \<Rightarrow> bool" where
  "struct_ok S bs \<longleftrightarrow> spec_ok S \<and> fields_ok (spec_tag S) (spec_fields S) bs"

lemma in_width_data_field [simp]: "in_width (data_field width offset dflt) v \<longleftrightarrow> v < 2 ^ width"
  by (simp add: in_width_def data_field_def)

lemma struct_okI:
  assumes "layout_ok (spec_layout S)" "distinct (map fst (spec_fields S))"
    and "data_fields (spec_layout S) =
       (case spec_tag S of None \<Rightarrow> [] | Some t \<Rightarrow> [t]) @ concat (map data_of (spec_fields S))"
    and "pointer_fields (spec_layout S) = concat (map pointers_of (spec_fields S))"
    and "fields_ok (spec_tag S) (spec_fields S) bs"
  shows "struct_ok S bs"
  unfolding struct_ok_def spec_ok_def using assms by blast

text \<open>A call that its class has, of a value of the field's width.\<close>

definition call_fits :: "struct_spec \<Rightarrow> struct_bodies \<Rightarrow> 'o call \<Rightarrow> bool" where
  "call_fits S bs c \<longleftrightarrow> body_of bs c \<noteq> None \<and>
     (case map_of (spec_fields S) (c_field c) of Some (InData f, k) \<Rightarrow> in_width f (c_number c) | _ \<Rightarrow> True)"

subsection \<open>The fields of a sound struct are independent\<close>

lemma all_apart_append:
  "all_apart (fs @ gs) \<longleftrightarrow> all_apart fs \<and> all_apart gs \<and> (\<forall>f \<in> set fs. \<forall>g \<in> set gs. apart f g)"
  by (induction fs) (auto simp: list_all_iff)

lemma data_of_in: "map_of fs n = Some (InData f, k) \<Longrightarrow> f \<in> set (concat (map data_of fs))"
  by (force dest: map_of_SomeD)

lemma pointers_of_in: "map_of fs n = Some (InPointer p s, k) \<Longrightarrow> p \<in> set (concat (map pointers_of fs))"
  by (force dest: map_of_SomeD)

lemma named_data_apart:
  "all_apart (concat (map data_of fs)) \<Longrightarrow> map_of fs n = Some (InData f, k) \<Longrightarrow>
     map_of fs n' = Some (InData g, k') \<Longrightarrow> n \<noteq> n' \<Longrightarrow> apart f g"
proof (induction fs)
  case (Cons x fs)
  obtain a st j where x: "x = (a, st, j)" by (cases x) auto
  consider "n = a" "n' \<noteq> a" | "n \<noteq> a" "n' = a" | "n \<noteq> a" "n' \<noteq> a" using Cons.prems(4) by blast
  then show ?case
  proof cases
    case 1
    then have "st = InData f" "map_of fs n' = Some (InData g, k')" using Cons.prems(2,3) x by simp_all
    with data_of_in [of fs n'] show ?thesis using Cons.prems(1) x by (auto simp: all_apart_append list_all_iff)
  next
    case 2
    then have "st = InData g" "map_of fs n = Some (InData f, k)" using Cons.prems(2,3) x by simp_all
    with data_of_in [of fs n] show ?thesis using Cons.prems(1) x
      by (auto simp: all_apart_append list_all_iff intro: apart_sym)
  next
    case 3
    then show ?thesis using Cons x by (auto simp: all_apart_append)
  qed
qed simp

lemma named_pointers_differ:
  "distinct (map p_index (concat (map pointers_of fs))) \<Longrightarrow> map_of fs n = Some (InPointer p s, k) \<Longrightarrow>
     map_of fs n' = Some (InPointer q s', k') \<Longrightarrow> n \<noteq> n' \<Longrightarrow> p_index p \<noteq> p_index q"
proof (induction fs)
  case (Cons x fs)
  obtain a st j where x: "x = (a, st, j)" by (cases x) auto
  consider "n = a" "n' \<noteq> a" | "n \<noteq> a" "n' = a" | "n \<noteq> a" "n' \<noteq> a" using Cons.prems(4) by blast
  then show ?case
  proof cases
    case 1
    then have st: "st = InPointer p s" and n': "map_of fs n' = Some (InPointer q s', k')"
      using Cons.prems(2,3) x by simp_all
    have "p_index q \<in> p_index ` set (concat (map pointers_of fs))" by (rule imageI [OF pointers_of_in [OF n']])
    moreover have "p_index p \<notin> p_index ` set (concat (map pointers_of fs))" using Cons.prems(1) x st by simp
    ultimately show ?thesis by metis
  next
    case 2
    then have st: "st = InPointer q s'" and n: "map_of fs n = Some (InPointer p s, k)"
      using Cons.prems(2,3) x by simp_all
    have "p_index p \<in> p_index ` set (concat (map pointers_of fs))" by (rule imageI [OF pointers_of_in [OF n]])
    moreover have "p_index q \<notin> p_index ` set (concat (map pointers_of fs))" using Cons.prems(1) x st by simp
    ultimately show ?thesis by metis
  next
    case 3
    then show ?thesis using Cons x by auto
  qed
qed simp

lemma spec_ok_data:
  assumes "spec_ok S" "map_of (spec_fields S) n = Some (InData f, k)"
  shows "f_mask f < 2 ^ f_width f"
    and "map_of (spec_fields S) n' = Some (InData g, k') \<Longrightarrow> n \<noteq> n' \<Longrightarrow> apart f g"
    and "spec_tag S = Some t \<Longrightarrow> apart t f"
proof -
  have f: "f \<in> set (data_fields (spec_layout S))"
    using data_of_in [OF assms(2)] assms(1) by (simp add: spec_ok_def)
  then show "f_mask f < 2 ^ f_width f"
    using assms(1) by (auto simp: spec_ok_def layout_ok_def list_all_iff inside_def)
  have "all_apart ((case spec_tag S of None \<Rightarrow> [] | Some t \<Rightarrow> [t]) @ concat (map data_of (spec_fields S)))"
    using assms(1) unfolding spec_ok_def layout_ok_def by metis
  then have fields: "all_apart (concat (map data_of (spec_fields S)))"
    and tag: "spec_tag S = Some t \<Longrightarrow> list_all (apart t) (concat (map data_of (spec_fields S)))"
    by (simp_all add: all_apart_append)
  show "map_of (spec_fields S) n' = Some (InData g, k') \<Longrightarrow> n \<noteq> n' \<Longrightarrow> apart f g"
    by (rule named_data_apart [OF fields assms(2)])
  show "spec_tag S = Some t \<Longrightarrow> apart t f"
    using tag data_of_in [OF assms(2)] by (metis list_all_iff)
qed

lemma spec_ok_tag: "spec_ok S \<Longrightarrow> spec_tag S = Some t \<Longrightarrow> f_mask t < 2 ^ f_width t"
proof -
  assume "spec_ok S" "spec_tag S = Some t"
  then have "data_fields (spec_layout S) = [t] @ concat (map data_of (spec_fields S))"
    unfolding spec_ok_def by (metis option.simps(5))
  then have "t \<in> set (data_fields (spec_layout S))" by simp
  moreover have "list_all (inside (spec_layout S)) (data_fields (spec_layout S))"
    using \<open>spec_ok S\<close> unfolding spec_ok_def layout_ok_def by metis
  ultimately show ?thesis by (auto simp: list_all_iff inside_def)
qed

lemma spec_ok_pointers:
  "spec_ok S \<Longrightarrow> map_of (spec_fields S) n = Some (InPointer p s, k) \<Longrightarrow>
     map_of (spec_fields S) n' = Some (InPointer q s', k') \<Longrightarrow> n \<noteq> n' \<Longrightarrow> p_index p \<noteq> p_index q"
proof -
  assume "spec_ok S"
  then have "distinct (map p_index (concat (map pointers_of (spec_fields S))))"
    unfolding spec_ok_def layout_ok_def by metis
  from named_pointers_differ [OF this] show "map_of (spec_fields S) n = Some (InPointer p s, k) \<Longrightarrow>
     map_of (spec_fields S) n' = Some (InPointer q s', k') \<Longrightarrow> n \<noteq> n' \<Longrightarrow> p_index p \<noteq> p_index q" by blast
qed

subsection \<open>Refinement\<close>

text \<open>The struct of the runtime holds the numbers and the objects of the record.\<close>

definition holds_field :: "('w, 'o) runtime \<Rightarrow> 'w \<Rightarrow> 'o named \<Rightarrow> string \<times> field_store \<times> nat option \<Rightarrow> bool" where
  "holds_field rt w m = (\<lambda>(n, st, k). case st of
     InData f \<Rightarrow> rt_getData rt f w = value_of m n
   | InPointer p s \<Rightarrow> rt_isNull rt p w = (object_of m n = None) \<and>
       (\<forall>x. rt_getPointer rt x p w = (case object_of m n of None \<Rightarrow> x | Some y \<Rightarrow> y)))"

definition struct_holds :: "('w, 'o) runtime \<Rightarrow> struct_spec \<Rightarrow> 'w \<Rightarrow> 'o named \<Rightarrow> bool" where
  "struct_holds rt S w m \<longleftrightarrow> list_all (holds_field rt w m) (spec_fields S) \<and>
     (case spec_tag S of None \<Rightarrow> True | Some t \<Rightarrow> rt_getData rt t w = case_of m)"

lemma struct_holds_field:
  assumes "struct_holds rt S w m" "map_of (spec_fields S) n = Some (st, k)"
  shows "holds_field rt w m (n, st, k)"
  using assms(1) map_of_SomeD [OF assms(2)] by (simp add: struct_holds_def list_all_iff)

lemma struct_holds_tag: "struct_holds rt S w m \<Longrightarrow> spec_tag S = Some t \<Longrightarrow> rt_getData rt t w = case_of m"
  by (simp add: struct_holds_def)

lemma struct_holdsI:
  assumes "spec_ok S" "\<And>n st k. map_of (spec_fields S) n = Some (st, k) \<Longrightarrow> holds_field rt w m (n, st, k)"
    and "\<And>t. spec_tag S = Some t \<Longrightarrow> rt_getData rt t w = case_of m"
  shows "struct_holds rt S w m"
proof -
  have d: "distinct (map fst (spec_fields S))" using assms(1) unfolding spec_ok_def by metis
  have "holds_field rt w m x" if "x \<in> set (spec_fields S)" for x
  proof -
    obtain n st k where x: "x = (n, st, k)" by (cases x) auto
    then show ?thesis using assms(2) map_of_is_SomeI [OF d, of n "(st, k)"] that by blast
  qed
  then show ?thesis using assms(3) by (simp add: struct_holds_def list_all_iff split: option.split)
qed

lemma body_of_ok:
  assumes "fields_ok tag fs bs" "body_of bs c = Some b"
  shows "\<exists>st j. map_of fs (c_field c) = Some (st, j) \<and> body_ok tag st j b \<and>
    body_class b = c_class c \<and> body_accessor b = c_accessor c"
  using assms
proof (induction tag fs bs rule: fields_ok.induct)
  case (2 tag n st k fs n' ms bs)
  show ?case
  proof (cases "c_field c = n")
    case True
    then have "find (\<lambda>b. body_class b = c_class c \<and> body_accessor b = c_accessor c) ms = Some b"
      using 2 by (simp add: body_of_def)
    then obtain i where "i < length ms" "ms ! i = b" "body_class b = c_class c" "body_accessor b = c_accessor c"
      by (auto simp: find_Some_iff)
    then show ?thesis using 2(2) True by (auto simp: list_all_length)
  qed (use 2 in \<open>auto simp: body_of_def\<close>)
qed (simp_all add: body_of_def)

context capnp_runtime begin

lemma holds_tag:
  assumes "spec_ok S" "struct_holds rt S w m" "spec_tag S = Some t" "in_width t k"
  shows "struct_holds rt S (rt_setData rt t k w) (m\<lparr>case_of := k\<rparr>)"
proof -
  have "holds_field rt (rt_setData rt t k w) (m\<lparr>case_of := k\<rparr>) (n, st, j)"
    if n: "map_of (spec_fields S) n = Some (st, j)" for n st j
  proof -
    have old: "holds_field rt w m (n, st, j)" by (rule struct_holds_field [OF assms(2) n])
    show ?thesis
    proof (cases st)
      case (InData f)
      have "apart t f" using spec_ok_data(3) [OF assms(1)] n InData assms(3) by blast
      then show ?thesis using old InData by (simp add: holds_field_def get_other)
    next
      case (InPointer p s)
      then show ?thesis using old by (simp add: holds_field_def null_data pointer_data)
    qed
  qed
  moreover have "rt_getData rt t (rt_setData rt t k w) = k"
    by (rule get_set [OF spec_ok_tag [OF assms(1,3)] assms(4)])
  ultimately show ?thesis using assms(3) by (intro struct_holdsI [OF assms(1)]) simp_all
qed

lemma holds_number:
  assumes "spec_ok S" "struct_holds rt S w m" "map_of (spec_fields S) n = Some (InData f, j)" "in_width f v"
  shows "struct_holds rt S (rt_setData rt f v w) (m\<lparr>value_of := (value_of m)(n := v)\<rparr>)"
proof -
  have "holds_field rt (rt_setData rt f v w) (m\<lparr>value_of := (value_of m)(n := v)\<rparr>) (n', st, j')"
    if n': "map_of (spec_fields S) n' = Some (st, j')" for n' st j'
  proof -
    have old: "holds_field rt w m (n', st, j')" by (rule struct_holds_field [OF assms(2) n'])
    show ?thesis
    proof (cases st)
      case (InData g)
      then show ?thesis
        using old get_set [OF spec_ok_data(1) [OF assms(1,3)] assms(4), of w]
          spec_ok_data(2) [OF assms(1,3), of n' g j'] get_other [of f g] n' assms(3)
        by (cases "n' = n") (auto simp: holds_field_def)
    next
      case (InPointer p s)
      then show ?thesis using old by (simp add: holds_field_def null_data pointer_data)
    qed
  qed
  moreover have "rt_getData rt t (rt_setData rt f v w) = case_of m" if "spec_tag S = Some t" for t
    using struct_holds_tag [OF assms(2) that] get_other [OF apart_sym [OF spec_ok_data(3) [OF assms(1,3) that]]] by simp
  ultimately show ?thesis by (intro struct_holdsI [OF assms(1)]) simp_all
qed

text \<open>Putting an object under a name, or taking it away.\<close>

lemma holds_object:
  assumes "spec_ok S" "struct_holds rt S w m" "map_of (spec_fields S) n = Some (InPointer p s, j)"
    and "\<And>f. rt_getData rt f w' = rt_getData rt f w"
    and "\<And>q. p_index p \<noteq> p_index q \<Longrightarrow> rt_isNull rt q w' = rt_isNull rt q w"
    and "\<And>q x. p_index p \<noteq> p_index q \<Longrightarrow> rt_getPointer rt x q w' = rt_getPointer rt x q w"
    and "rt_isNull rt p w' = (y = None)" and "\<And>x. rt_getPointer rt x p w' = (case y of None \<Rightarrow> x | Some z \<Rightarrow> z)"
  shows "struct_holds rt S w' (put_object n y m)"
proof -
  have "holds_field rt w' (put_object n y m) (n', st, j')" if n': "map_of (spec_fields S) n' = Some (st, j')" for n' st j'
  proof -
    have old: "holds_field rt w m (n', st, j')" by (rule struct_holds_field [OF assms(2) n'])
    show ?thesis
    proof (cases st)
      case (InData f)
      then show ?thesis using old assms(4) by (simp add: holds_field_def put_object_def)
    next
      case (InPointer q s')
      then show ?thesis
        using old spec_ok_pointers [OF assms(1,3), of n' q s' j'] n' assms(3,5-8)
        by (cases "n' = n") (auto simp: holds_field_def put_object_def)
    qed
  qed
  moreover have "rt_getData rt t w' = case_of (put_object n y m)" if "spec_tag S = Some t" for t
    using struct_holds_tag [OF assms(2) that] assms(4) by (simp add: put_object_def)
  ultimately show ?thesis by (intro struct_holdsI [OF assms(1)]) simp_all
qed

lemma holds_put:
  assumes "spec_ok S" "struct_holds rt S w m" "map_of (spec_fields S) n = Some (InPointer p s, j)"
  shows "struct_holds rt S (rt_setPointer rt p x w) (put_object n (Some x) m)"
    and "struct_holds rt S (snd (rt_disown rt p w)) (put_object n None m)"
  by (rule holds_object [OF assms], simp_all add: data_pointer null_other pointer_other null_set pointer_set
      data_disown disown_null_other disown_other disown_null null_get)+

text \<open>One access, one call, any sequence of calls.\<close>

definition agree :: "struct_spec \<Rightarrow> 'r \<times> 'w \<Rightarrow> 'r \<times> 'o named \<Rightarrow> bool" where
  "agree S a b \<longleftrightarrow> fst a = fst b \<and> struct_holds rt S (snd a) (snd b)"

lemma run_access_refines:
  assumes "spec_ok S" "struct_holds rt S w m" "map_of (spec_fields S) n = Some (st, j)"
    and "access_of c a st = Some acc" "a \<noteq> Is" "\<And>f. st = InData f \<Longrightarrow> in_width f v"
  shows "rel_option (agree S) (run_access rt acc v x w) (spec_access st c a n v x m)"
proof (cases st)
  case (InData f)
  then have n: "map_of (spec_fields S) n = Some (InData f, j)" using assms(3) by simp
  have "rt_getData rt f w = value_of m n"
    using struct_holds_field [OF assms(2) n] by (simp add: holds_field_def)
  moreover have "struct_holds rt S (rt_setData rt f v w) (m\<lparr>value_of := (value_of m)(n := v)\<rparr>)"
    by (rule holds_number [OF assms(1,2) n assms(6) [OF InData]])
  ultimately show ?thesis using InData assms(2,4,5) by (cases a) (auto simp: agree_def)
next
  case (InPointer p s)
  then have n: "map_of (spec_fields S) n = Some (InPointer p s, j)" using assms(3) by simp
  have now: "holds_field rt w m (n, InPointer p s, j)" by (rule struct_holds_field [OF assms(2) n])
  then have null: "rt_isNull rt p w = (object_of m n = None)"
    and got: "rt_getPointer rt y p w = (case object_of m n of None \<Rightarrow> y | Some z \<Rightarrow> z)" for y
    by (simp_all add: holds_field_def)
  have orphan: "fst (rt_disown rt p w) = object_of m n"
    using disown_object [of p w] null got by (cases "object_of m n") simp_all
  obtain r w' where dis: "rt_disown rt p w = (r, w')" by force
  note put = holds_put(1) [OF assms(1,2) n] holds_put(2) [OF assms(1,2) n, unfolded dis snd_conv]
  show ?thesis
    using InPointer assms(4,5) orphan
    by (cases a; cases "object_of m n") (auto simp: agree_def null got dis put assms(2) split: if_splits)
qed

lemma run_call_refines:
  assumes "struct_ok S bs" "struct_holds rt S w m" "call_fits S bs c"
  shows "rel_option (agree S) (run_call rt bs c w) (spec_call S c m)"
proof -
  have ok: "spec_ok S" "fields_ok (spec_tag S) (spec_fields S) bs" using assms(1) by (simp_all add: struct_ok_def)
  obtain b where b: "body_of bs c = Some b" using assms(3) by (auto simp: call_fits_def)
  from body_of_ok [OF ok(2) b] obtain st j where n: "map_of (spec_fields S) (c_field c) = Some (st, j)"
    and ok_b: "body_ok (spec_tag S) st j b" and a: "body_class b = c_class c" "body_accessor b = c_accessor c" by blast
  obtain cl ac tg acc where body: "b = Body cl ac tg acc" by (cases b)
  have width: "\<And>f. st = InData f \<Longrightarrow> in_width f (c_number c)" using assms(3) n by (simp add: call_fits_def)
  show ?thesis
  proof (cases j)
    case None
    then have "tg = None" "ac \<noteq> Is" "access_of cl ac st = Some acc" using ok_b body by simp_all
    with run_access_refines [OF ok(1) assms(2) n, of cl ac acc "c_number c" "c_object c"] show ?thesis
      using None n b body a width by (simp add: run_call_def spec_call_def)
  next
    case (Some k)
    then obtain t where t: "spec_tag S = Some t" "tg = Some (t, k)" "in_width t k" and acc: "access_of cl ac st = Some acc"
      using ok_b body by (auto split: option.splits)
    have now: "rt_getData rt t w = case_of m" by (rule struct_holds_tag [OF assms(2) t(1)])
    have same: "m\<lparr>case_of := k\<rparr> = m" if "case_of m = k" using that by (cases m) simp
    note act = run_access_refines [OF ok(1) _ n acc, of _ _ "c_number c" "c_object c"]
    note here = act [OF assms(2) _ width] and there = act [OF holds_tag [OF ok(1) assms(2) t(1,3)] _ width]
    show ?thesis
      using Some n b body a t now here there same assms(2)
      by (cases ac) (auto simp: run_call_def spec_call_def agree_def)
  qed
qed

lemma run_calls_refines:
  "struct_ok S bs \<Longrightarrow> struct_holds rt S w m \<Longrightarrow> list_all (call_fits S bs) cs \<Longrightarrow>
     rel_option (agree S) (run_calls rt bs cs w) (spec_calls S cs m)"
proof (induction cs arbitrary: w m)
  case Nil
  then show ?case by (simp add: agree_def)
next
  case (Cons c cs)
  have one: "rel_option (agree S) (run_call rt bs c w) (spec_call S c m)"
    using run_call_refines [OF Cons.prems(1,2)] Cons.prems(3) by simp
  show ?case
  proof (cases "spec_call S c m")
    case None
    then show ?thesis using one by simp
  next
    case (Some s)
    then obtain u where u: "run_call rt bs c w = Some u" "agree S u s" using one by (auto simp: option_rel_Some2)
    then have "struct_holds rt S (snd u) (snd s)" by (simp add: agree_def)
    moreover have "list_all (call_fits S bs) cs" using Cons.prems(3) by simp
    ultimately have "rel_option (agree S) (run_calls rt bs cs (snd u)) (spec_calls S cs (snd s))"
      by (intro Cons.IH Cons.prems(1))
    then show ?thesis
      using u Some by (cases u; cases s; cases "spec_calls S cs (snd s)") (auto simp: option_rel_Some2 agree_def)
  qed
qed

lemma new_holds:
  assumes "spec_ok S"
  shows "struct_holds rt S (rt_new rt) (spec_new S)"
proof (rule struct_holdsI [OF assms])
  show "holds_field rt (rt_new rt) (spec_new S) (n, st, k)" if "map_of (spec_fields S) n = Some (st, k)" for n st k
    using that by (cases st) (simp_all add: holds_field_def spec_new_def get_new null_new null_get)
  show "rt_getData rt t (rt_new rt) = case_of (spec_new S)" if "spec_tag S = Some t" for t
    using that by (simp add: spec_new_def get_new)
qed

end

end
