(* ===== verification/BodiesCommon.thy ===== *)
theory BodiesCommon
  imports Accessors WireCommon
begin

section \<open>The bodies of the accessors of common.capnp\<close>

text \<open>
  \<open>proto/proto/common.capnp.h\<close>: for every generated struct the bodies of its accessors, field by field in
  the order of the source, each with the constants that stand in it, and that they are those of the
  struct's fields.
\<close>

lemmas layouts_sound_Common = wireCommon_layouts_ok [unfolded wireCommon_layouts_def list.pred_inject conj_assoc]

text \<open>\<open>ID\<close>\<close>

definition ID_spec :: struct_spec where
  "ID_spec = \<lparr>spec_layout = ID_layout, spec_tag = Some ID_which, spec_fields = [
     (''Uuid'', InPointer ID_uuid False, Some 0), (''Handle'', InData ID_handle, Some 1)]\<rparr>"
definition ID_bodies :: struct_bodies where
  "ID_bodies = [
     (''Uuid'', [
       Body OfReader Is (Some (data_field 16 0 0, 0)) TagIs, Body OfBuilder Is (Some (data_field 16 0 0, 0)) TagIs,
       Body OfReader Has (Some (data_field 16 0 0, 0)) (PointerIsNull (pointer_field 0)),
       Body OfBuilder Has (Some (data_field 16 0 0, 0)) (PointerIsNull (pointer_field 0)),
       Body OfReader Get (Some (data_field 16 0 0, 0)) (PointerGet (pointer_field 0)),
       Body OfBuilder Get (Some (data_field 16 0 0, 0)) (PointerGet (pointer_field 0)),
       Body OfBuilder Set (Some (data_field 16 0 0, 0)) (PointerSet (pointer_field 0)),
       Body OfBuilder InitSized (Some (data_field 16 0 0, 0)) (PointerInit (pointer_field 0)),
       Body OfBuilder Adopt (Some (data_field 16 0 0, 0)) (PointerAdopt (pointer_field 0)),
       Body OfBuilder Disown (Some (data_field 16 0 0, 0)) (PointerDisown (pointer_field 0))]),
     (''Handle'', [
       Body OfReader Is (Some (data_field 16 0 0, 1)) TagIs, Body OfBuilder Is (Some (data_field 16 0 0, 1)) TagIs,
       Body OfReader Get (Some (data_field 16 0 0, 1)) (GetData (data_field 64 1 0)),
       Body OfBuilder Get (Some (data_field 16 0 0, 1)) (GetData (data_field 64 1 0)),
       Body OfBuilder Set (Some (data_field 16 0 0, 1)) (SetData (data_field 64 1 0))])]"

lemma ID_struct_ok: "struct_ok ID_spec ID_bodies"
  by (rule struct_okI) (simp add: ID_spec_def layouts_sound_Common, simp_all add: ID_spec_def ID_bodies_def ID_layout_def
    struct_layout_def ID_which_def ID_uuid_def ID_handle_def)

text \<open>\<open>Ack\<close>\<close>

definition Ack_spec :: struct_spec where
  "Ack_spec = \<lparr>spec_layout = Ack_layout, spec_tag = None, spec_fields = [
     (''Ok'', InData Ack_ok, None), (''Msg'', InPointer Ack_msg False, None), (''Code'', InData Ack_code, None)]\<rparr>"
definition Ack_bodies :: struct_bodies where
  "Ack_bodies = [
     (''Ok'', [
       reads Get (GetData (data_field 1 0 0)), builds Get (GetData (data_field 1 0 0)),
       builds Set (SetData (data_field 1 0 0))]),
     (''Msg'', [
       reads Has (PointerIsNull (pointer_field 0)), builds Has (PointerIsNull (pointer_field 0)),
       reads Get (PointerGet (pointer_field 0)), builds Get (PointerGet (pointer_field 0)),
       builds Set (PointerSet (pointer_field 0)), builds InitSized (PointerInit (pointer_field 0)),
       builds Adopt (PointerAdopt (pointer_field 0)), builds Disown (PointerDisown (pointer_field 0))]),
     (''Code'', [
       reads Get (GetData (data_field 16 1 0)), builds Get (GetData (data_field 16 1 0)),
       builds Set (SetData (data_field 16 1 0))])]"

lemma Ack_struct_ok: "struct_ok Ack_spec Ack_bodies"
  by (rule struct_okI) (simp add: Ack_spec_def layouts_sound_Common, simp_all add: Ack_spec_def Ack_bodies_def Ack_layout_def
    struct_layout_def Ack_ok_def Ack_msg_def Ack_code_def)

text \<open>\<open>GpuInfo\<close>\<close>

definition GpuInfo_spec :: struct_spec where
  "GpuInfo_spec = \<lparr>spec_layout = GpuInfo_layout, spec_tag = None, spec_fields = [
     (''Id'', InPointer GpuInfo_id True, None), (''Name'', InPointer GpuInfo_name False, None),
     (''TotalMemory'', InData GpuInfo_totalMemory, None), (''Metadata'', InPointer GpuInfo_metadata True, None)]\<rparr>"
definition GpuInfo_bodies :: struct_bodies where
  "GpuInfo_bodies = [
     (''Id'', [
       reads Has (PointerIsNull (pointer_field 0)), builds Has (PointerIsNull (pointer_field 0)),
       reads Get (PointerGet (pointer_field 0)), builds Get (PointerGetStruct (pointer_field 0)),
       pipes Get (PointerGet (pointer_field 0)), builds Set (PointerSet (pointer_field 0)),
       builds Init (PointerInit (pointer_field 0)), builds Adopt (PointerAdopt (pointer_field 0)),
       builds Disown (PointerDisown (pointer_field 0))]),
     (''Name'', [
       reads Has (PointerIsNull (pointer_field 1)), builds Has (PointerIsNull (pointer_field 1)),
       reads Get (PointerGet (pointer_field 1)), builds Get (PointerGet (pointer_field 1)),
       builds Set (PointerSet (pointer_field 1)), builds InitSized (PointerInit (pointer_field 1)),
       builds Adopt (PointerAdopt (pointer_field 1)), builds Disown (PointerDisown (pointer_field 1))]),
     (''TotalMemory'', [
       reads Get (GetData (data_field 64 0 0)), builds Get (GetData (data_field 64 0 0)),
       builds Set (SetData (data_field 64 0 0))]),
     (''Metadata'', [
       reads Has (PointerIsNull (pointer_field 2)), builds Has (PointerIsNull (pointer_field 2)),
       reads Get (PointerGet (pointer_field 2)), builds Get (PointerGetStruct (pointer_field 2)),
       pipes Get (PointerGet (pointer_field 2)), builds Set (PointerSet (pointer_field 2)),
       builds Init (PointerInit (pointer_field 2)), builds Adopt (PointerAdopt (pointer_field 2)),
       builds Disown (PointerDisown (pointer_field 2))])]"

lemma GpuInfo_struct_ok: "struct_ok GpuInfo_spec GpuInfo_bodies"
  by (rule struct_okI) (simp add: GpuInfo_spec_def layouts_sound_Common, simp_all add: GpuInfo_spec_def GpuInfo_bodies_def GpuInfo_layout_def
    struct_layout_def GpuInfo_id_def GpuInfo_name_def GpuInfo_totalMemory_def GpuInfo_metadata_def)

text \<open>\<open>Metadata\<close>\<close>

definition Metadata_spec :: struct_spec where
  "Metadata_spec = \<lparr>spec_layout = Metadata_layout, spec_tag = None, spec_fields = [
     (''NumaAffinity'', InData Metadata_numaAffinity, None), (''GdrSupport'', InData Metadata_gdrSupport, None)]\<rparr>"
definition Metadata_bodies :: struct_bodies where
  "Metadata_bodies = [
     (''NumaAffinity'', [
       reads Get (GetData (data_field 32 0 4294967295)), builds Get (GetData (data_field 32 0 4294967295)),
       builds Set (SetData (data_field 32 0 4294967295))]),
     (''GdrSupport'', [
       reads Get (GetData (data_field 1 32 0)), builds Get (GetData (data_field 1 32 0)),
       builds Set (SetData (data_field 1 32 0))])]"

lemma Metadata_struct_ok: "struct_ok Metadata_spec Metadata_bodies"
  by (rule struct_okI) (simp add: Metadata_spec_def layouts_sound_Common, simp_all add: Metadata_spec_def Metadata_bodies_def Metadata_layout_def
    struct_layout_def Metadata_numaAffinity_def Metadata_gdrSupport_def)

text \<open>\<open>MemoryHandle\<close>\<close>

definition MemoryHandle_spec :: struct_spec where
  "MemoryHandle_spec = \<lparr>spec_layout = MemoryHandle_layout, spec_tag = None, spec_fields = [
     (''Id'', InPointer MemoryHandle_id True, None), (''Size'', InData MemoryHandle_size, None),
     (''NodeId'', InData MemoryHandle_nodeId, None)]\<rparr>"
definition MemoryHandle_bodies :: struct_bodies where
  "MemoryHandle_bodies = [
     (''Id'', [
       reads Has (PointerIsNull (pointer_field 0)), builds Has (PointerIsNull (pointer_field 0)),
       reads Get (PointerGet (pointer_field 0)), builds Get (PointerGetStruct (pointer_field 0)),
       pipes Get (PointerGet (pointer_field 0)), builds Set (PointerSet (pointer_field 0)),
       builds Init (PointerInit (pointer_field 0)), builds Adopt (PointerAdopt (pointer_field 0)),
       builds Disown (PointerDisown (pointer_field 0))]),
     (''Size'', [
       reads Get (GetData (data_field 64 0 0)), builds Get (GetData (data_field 64 0 0)),
       builds Set (SetData (data_field 64 0 0))]),
     (''NodeId'', [
       reads Get (GetData (data_field 32 2 0)), builds Get (GetData (data_field 32 2 0)),
       builds Set (SetData (data_field 32 2 0))])]"

lemma MemoryHandle_struct_ok: "struct_ok MemoryHandle_spec MemoryHandle_bodies"
  by (rule struct_okI) (simp add: MemoryHandle_spec_def layouts_sound_Common, simp_all add: MemoryHandle_spec_def MemoryHandle_bodies_def MemoryHandle_layout_def
    struct_layout_def MemoryHandle_id_def MemoryHandle_size_def MemoryHandle_nodeId_def)

text \<open>\<open>Response\<close>\<close>

definition Response_spec :: struct_spec where
  "Response_spec = \<lparr>spec_layout = Response_layout, spec_tag = None, spec_fields = [
     (''Success'', InData Response_success, None), (''Data'', InPointer Response_data False, None),
     (''Error'', InData Response_error, None), (''Message'', InPointer Response_message False, None)]\<rparr>"
definition Response_bodies :: struct_bodies where
  "Response_bodies = [
     (''Success'', [
       reads Get (GetData (data_field 1 0 0)), builds Get (GetData (data_field 1 0 0)),
       builds Set (SetData (data_field 1 0 0))]),
     (''Data'', [
       reads Has (PointerIsNull (pointer_field 0)), builds Has (PointerIsNull (pointer_field 0)),
       reads Get (PointerGet (pointer_field 0)), builds Get (PointerGet (pointer_field 0)),
       builds Set (PointerSet (pointer_field 0)), builds InitSized (PointerInit (pointer_field 0)),
       builds Adopt (PointerAdopt (pointer_field 0)), builds Disown (PointerDisown (pointer_field 0))]),
     (''Error'', [
       reads Get (GetData (data_field 16 1 0)), builds Get (GetData (data_field 16 1 0)),
       builds Set (SetData (data_field 16 1 0))]),
     (''Message'', [
       reads Has (PointerIsNull (pointer_field 1)), builds Has (PointerIsNull (pointer_field 1)),
       reads Get (PointerGet (pointer_field 1)), builds Get (PointerGet (pointer_field 1)),
       builds Set (PointerSet (pointer_field 1)), builds InitSized (PointerInit (pointer_field 1)),
       builds Adopt (PointerAdopt (pointer_field 1)), builds Disown (PointerDisown (pointer_field 1))])]"

lemma Response_struct_ok: "struct_ok Response_spec Response_bodies"
  by (rule struct_okI) (simp add: Response_spec_def layouts_sound_Common, simp_all add: Response_spec_def Response_bodies_def Response_layout_def
    struct_layout_def Response_success_def Response_data_def Response_error_def Response_message_def)

text \<open>All structs of the file.\<close>

definition structs_Common :: "(struct_spec \<times> struct_bodies) list" where
  "structs_Common = [
     (ID_spec, ID_bodies), (Ack_spec, Ack_bodies), (GpuInfo_spec, GpuInfo_bodies), (Metadata_spec, Metadata_bodies),
     (MemoryHandle_spec, MemoryHandle_bodies), (Response_spec, Response_bodies)]"

lemma structs_Common_ok: "list_all (\<lambda>(S, bs). struct_ok S bs) structs_Common"
  by (simp add: structs_Common_def ID_struct_ok Ack_struct_ok GpuInfo_struct_ok Metadata_struct_ok
      MemoryHandle_struct_ok Response_struct_ok)

end
