(* ===== verification/BodiesMemcopy.thy ===== *)
theory BodiesMemcopy
  imports Accessors WireMemcopy
begin

section \<open>The bodies of the accessors of memcopy.capnp\<close>

text \<open>
  \<open>proto/proto/memcopy.capnp.h\<close>: for every generated struct the bodies of its accessors, field by field in
  the order of the source, each with the constants that stand in it, and that they are those of the
  struct's fields.
\<close>

lemmas layouts_sound_Memcopy = wireMemcopy_layouts_ok [unfolded wireMemcopy_layouts_def list.pred_inject conj_assoc]

text \<open>\<open>RdmaEndpoint\<close>\<close>

definition RdmaEndpoint_spec :: struct_spec where
  "RdmaEndpoint_spec = \<lparr>spec_layout = RdmaEndpoint_layout, spec_tag = None, spec_fields = [
     (''Ip'', InPointer RdmaEndpoint_ip False, None), (''Port'', InData RdmaEndpoint_port, None),
     (''Gid'', InPointer RdmaEndpoint_gid False, None), (''Key'', InData RdmaEndpoint_key, None)]\<rparr>"
definition RdmaEndpoint_bodies :: struct_bodies where
  "RdmaEndpoint_bodies = [
     (''Ip'', [
       reads Has (PointerIsNull (pointer_field 0)), builds Has (PointerIsNull (pointer_field 0)),
       reads Get (PointerGet (pointer_field 0)), builds Get (PointerGet (pointer_field 0)),
       builds Set (PointerSet (pointer_field 0)), builds InitSized (PointerInit (pointer_field 0)),
       builds Adopt (PointerAdopt (pointer_field 0)), builds Disown (PointerDisown (pointer_field 0))]),
     (''Port'', [
       reads Get (GetData (data_field 16 0 0)), builds Get (GetData (data_field 16 0 0)),
       builds Set (SetData (data_field 16 0 0))]),
     (''Gid'', [
       reads Has (PointerIsNull (pointer_field 1)), builds Has (PointerIsNull (pointer_field 1)),
       reads Get (PointerGet (pointer_field 1)), builds Get (PointerGet (pointer_field 1)),
       builds Set (PointerSet (pointer_field 1)), builds InitSized (PointerInit (pointer_field 1)),
       builds Adopt (PointerAdopt (pointer_field 1)), builds Disown (PointerDisown (pointer_field 1))]),
     (''Key'', [
       reads Get (GetData (data_field 32 1 0)), builds Get (GetData (data_field 32 1 0)),
       builds Set (SetData (data_field 32 1 0))])]"

lemma RdmaEndpoint_struct_ok: "struct_ok RdmaEndpoint_spec RdmaEndpoint_bodies"
  by (rule struct_okI) (simp add: RdmaEndpoint_spec_def layouts_sound_Memcopy, simp_all add: RdmaEndpoint_spec_def RdmaEndpoint_bodies_def RdmaEndpoint_layout_def
    struct_layout_def RdmaEndpoint_ip_def RdmaEndpoint_port_def RdmaEndpoint_gid_def RdmaEndpoint_key_def)

text \<open>\<open>RdmaPlan\<close>\<close>

definition RdmaPlan_spec :: struct_spec where
  "RdmaPlan_spec = \<lparr>spec_layout = RdmaPlan_layout, spec_tag = None, spec_fields = [
     (''Success'', InData RdmaPlan_success, None), (''SrcAddr'', InData RdmaPlan_srcAddr, None),
     (''SrcKey'', InData RdmaPlan_srcKey, None), (''DstAddr'', InData RdmaPlan_dstAddr, None),
     (''DstKey'', InData RdmaPlan_dstKey, None)]\<rparr>"
definition RdmaPlan_bodies :: struct_bodies where
  "RdmaPlan_bodies = [
     (''Success'', [
       reads Get (GetData (data_field 1 0 0)), builds Get (GetData (data_field 1 0 0)),
       builds Set (SetData (data_field 1 0 0))]),
     (''SrcAddr'', [
       reads Get (GetData (data_field 64 1 0)), builds Get (GetData (data_field 64 1 0)),
       builds Set (SetData (data_field 64 1 0))]),
     (''SrcKey'', [
       reads Get (GetData (data_field 32 1 0)), builds Get (GetData (data_field 32 1 0)),
       builds Set (SetData (data_field 32 1 0))]),
     (''DstAddr'', [
       reads Get (GetData (data_field 64 2 0)), builds Get (GetData (data_field 64 2 0)),
       builds Set (SetData (data_field 64 2 0))]),
     (''DstKey'', [
       reads Get (GetData (data_field 32 6 0)), builds Get (GetData (data_field 32 6 0)),
       builds Set (SetData (data_field 32 6 0))])]"

lemma RdmaPlan_struct_ok: "struct_ok RdmaPlan_spec RdmaPlan_bodies"
  by (rule struct_okI) (simp add: RdmaPlan_spec_def layouts_sound_Memcopy, simp_all add: RdmaPlan_spec_def RdmaPlan_bodies_def RdmaPlan_layout_def
    struct_layout_def RdmaPlan_success_def RdmaPlan_srcAddr_def RdmaPlan_srcKey_def RdmaPlan_dstAddr_def
      RdmaPlan_dstKey_def)

text \<open>\<open>MemoryOp\<close>\<close>

definition MemoryOp_spec :: struct_spec where
  "MemoryOp_spec = \<lparr>spec_layout = MemoryOp_layout, spec_tag = None, spec_fields = [
     (''Type'', InData MemoryOp_type, None), (''Target'', InPointer MemoryOp_target True, None),
     (''Source'', InPointer MemoryOp_source True, None), (''Value'', InData MemoryOp_value, None),
     (''Data'', InPointer MemoryOp_data False, None), (''Checksum'', InData MemoryOp_checksum, None),
     (''Endpoint'', InPointer MemoryOp_endpoint True, None), (''Flags'', InData MemoryOp_flags, None)]\<rparr>"
definition MemoryOp_bodies :: struct_bodies where
  "MemoryOp_bodies = [
     (''Type'', [
       reads Get (GetData (data_field 16 0 0)), builds Get (GetData (data_field 16 0 0)),
       builds Set (SetData (data_field 16 0 0))]),
     (''Target'', [
       reads Has (PointerIsNull (pointer_field 0)), builds Has (PointerIsNull (pointer_field 0)),
       reads Get (PointerGet (pointer_field 0)), builds Get (PointerGetStruct (pointer_field 0)),
       pipes Get (PointerGet (pointer_field 0)), builds Set (PointerSet (pointer_field 0)),
       builds Init (PointerInit (pointer_field 0)), builds Adopt (PointerAdopt (pointer_field 0)),
       builds Disown (PointerDisown (pointer_field 0))]),
     (''Source'', [
       reads Has (PointerIsNull (pointer_field 1)), builds Has (PointerIsNull (pointer_field 1)),
       reads Get (PointerGet (pointer_field 1)), builds Get (PointerGetStruct (pointer_field 1)),
       pipes Get (PointerGet (pointer_field 1)), builds Set (PointerSet (pointer_field 1)),
       builds Init (PointerInit (pointer_field 1)), builds Adopt (PointerAdopt (pointer_field 1)),
       builds Disown (PointerDisown (pointer_field 1))]),
     (''Value'', [
       reads Get (GetData (data_field 8 2 0)), builds Get (GetData (data_field 8 2 0)),
       builds Set (SetData (data_field 8 2 0))]),
     (''Data'', [
       reads Has (PointerIsNull (pointer_field 2)), builds Has (PointerIsNull (pointer_field 2)),
       reads Get (PointerGet (pointer_field 2)), builds Get (PointerGet (pointer_field 2)),
       builds Set (PointerSet (pointer_field 2)), builds InitSized (PointerInit (pointer_field 2)),
       builds Adopt (PointerAdopt (pointer_field 2)), builds Disown (PointerDisown (pointer_field 2))]),
     (''Checksum'', [
       reads Get (GetData (data_field 32 1 0)), builds Get (GetData (data_field 32 1 0)),
       builds Set (SetData (data_field 32 1 0))]),
     (''Endpoint'', [
       reads Has (PointerIsNull (pointer_field 3)), builds Has (PointerIsNull (pointer_field 3)),
       reads Get (PointerGet (pointer_field 3)), builds Get (PointerGetStruct (pointer_field 3)),
       pipes Get (PointerGet (pointer_field 3)), builds Set (PointerSet (pointer_field 3)),
       builds Init (PointerInit (pointer_field 3)), builds Adopt (PointerAdopt (pointer_field 3)),
       builds Disown (PointerDisown (pointer_field 3))]),
     (''Flags'', [
       reads Get (GetData (data_field 32 2 0)), builds Get (GetData (data_field 32 2 0)),
       builds Set (SetData (data_field 32 2 0))])]"

lemma MemoryOp_struct_ok: "struct_ok MemoryOp_spec MemoryOp_bodies"
  by (rule struct_okI) (simp add: MemoryOp_spec_def layouts_sound_Memcopy, simp_all add: MemoryOp_spec_def MemoryOp_bodies_def MemoryOp_layout_def
    struct_layout_def MemoryOp_type_def MemoryOp_target_def MemoryOp_source_def MemoryOp_value_def MemoryOp_data_def
      MemoryOp_checksum_def MemoryOp_endpoint_def MemoryOp_flags_def)

text \<open>All structs of the file.\<close>

definition structs_Memcopy :: "(struct_spec \<times> struct_bodies) list" where
  "structs_Memcopy = [
     (RdmaEndpoint_spec, RdmaEndpoint_bodies), (RdmaPlan_spec, RdmaPlan_bodies), (MemoryOp_spec, MemoryOp_bodies)]"

lemma structs_Memcopy_ok: "list_all (\<lambda>(S, bs). struct_ok S bs) structs_Memcopy"
  by (simp add: structs_Memcopy_def RdmaEndpoint_struct_ok RdmaPlan_struct_ok MemoryOp_struct_ok)

end
