(* ===== verification/BodiesKernel.thy ===== *)
theory BodiesKernel
  imports Accessors WireKernel
begin

section \<open>The bodies of the accessors of kernel.capnp\<close>

text \<open>
  \<open>proto/proto/kernel.capnp.h\<close>: for every generated struct the bodies of its accessors, field by field in
  the order of the source, each with the constants that stand in it, and that they are those of the
  struct's fields.
\<close>

lemmas layouts_sound_Kernel = wireKernel_layouts_ok [unfolded wireKernel_layouts_def list.pred_inject conj_assoc]

text \<open>\<open>KernelParam\<close>\<close>

definition KernelParam_spec :: struct_spec where
  "KernelParam_spec = \<lparr>spec_layout = KernelParam_layout, spec_tag = None, spec_fields = [
     (''Type'', InData KernelParam_type, None), (''Value'', InPointer KernelParam_value False, None),
     (''Offset'', InData KernelParam_offset, None), (''Alignment'', InData KernelParam_alignment, None)]\<rparr>"
definition KernelParam_bodies :: struct_bodies where
  "KernelParam_bodies = [
     (''Type'', [
       reads Get (GetData (data_field 16 0 0)), builds Get (GetData (data_field 16 0 0)),
       builds Set (SetData (data_field 16 0 0))]),
     (''Value'', [
       reads Has (PointerIsNull (pointer_field 0)), builds Has (PointerIsNull (pointer_field 0)),
       reads Get (PointerGet (pointer_field 0)), builds Get (PointerGet (pointer_field 0)),
       builds Set (PointerSet (pointer_field 0)), builds InitSized (PointerInit (pointer_field 0)),
       builds Adopt (PointerAdopt (pointer_field 0)), builds Disown (PointerDisown (pointer_field 0))]),
     (''Offset'', [
       reads Get (GetData (data_field 32 1 0)), builds Get (GetData (data_field 32 1 0)),
       builds Set (SetData (data_field 32 1 0))]),
     (''Alignment'', [
       reads Get (GetData (data_field 8 2 4)), builds Get (GetData (data_field 8 2 4)),
       builds Set (SetData (data_field 8 2 4))])]"

lemma KernelParam_struct_ok: "struct_ok KernelParam_spec KernelParam_bodies"
  by (rule struct_okI) (simp add: KernelParam_spec_def layouts_sound_Kernel, simp_all add: KernelParam_spec_def KernelParam_bodies_def KernelParam_layout_def
    struct_layout_def KernelParam_type_def KernelParam_value_def KernelParam_offset_def KernelParam_alignment_def)

text \<open>\<open>KernelLaunch\<close>\<close>

definition KernelLaunch_spec :: struct_spec where
  "KernelLaunch_spec = \<lparr>spec_layout = KernelLaunch_layout, spec_tag = None, spec_fields = [
     (''Name'', InPointer KernelLaunch_name False, None), (''GridX'', InData KernelLaunch_gridX, None),
     (''GridY'', InData KernelLaunch_gridY, None), (''GridZ'', InData KernelLaunch_gridZ, None),
     (''BlockX'', InData KernelLaunch_blockX, None), (''BlockY'', InData KernelLaunch_blockY, None),
     (''BlockZ'', InData KernelLaunch_blockZ, None), (''SharedMem'', InData KernelLaunch_sharedMem, None),
     (''Params'', InPointer KernelLaunch_params False, None),
     (''StreamHandle'', InData KernelLaunch_streamHandle, None),
     (''ParamBytes'', InData KernelLaunch_paramBytes, None), (''FuncHandle'', InData KernelLaunch_funcHandle, None),
     (''LaunchFlags'', InData KernelLaunch_launchFlags, None)]\<rparr>"
definition KernelLaunch_bodies :: struct_bodies where
  "KernelLaunch_bodies = [
     (''Name'', [
       reads Has (PointerIsNull (pointer_field 0)), builds Has (PointerIsNull (pointer_field 0)),
       reads Get (PointerGet (pointer_field 0)), builds Get (PointerGet (pointer_field 0)),
       builds Set (PointerSet (pointer_field 0)), builds InitSized (PointerInit (pointer_field 0)),
       builds Adopt (PointerAdopt (pointer_field 0)), builds Disown (PointerDisown (pointer_field 0))]),
     (''GridX'', [
       reads Get (GetData (data_field 32 0 0)), builds Get (GetData (data_field 32 0 0)),
       builds Set (SetData (data_field 32 0 0))]),
     (''GridY'', [
       reads Get (GetData (data_field 32 1 0)), builds Get (GetData (data_field 32 1 0)),
       builds Set (SetData (data_field 32 1 0))]),
     (''GridZ'', [
       reads Get (GetData (data_field 32 2 0)), builds Get (GetData (data_field 32 2 0)),
       builds Set (SetData (data_field 32 2 0))]),
     (''BlockX'', [
       reads Get (GetData (data_field 32 3 0)), builds Get (GetData (data_field 32 3 0)),
       builds Set (SetData (data_field 32 3 0))]),
     (''BlockY'', [
       reads Get (GetData (data_field 32 4 0)), builds Get (GetData (data_field 32 4 0)),
       builds Set (SetData (data_field 32 4 0))]),
     (''BlockZ'', [
       reads Get (GetData (data_field 32 5 0)), builds Get (GetData (data_field 32 5 0)),
       builds Set (SetData (data_field 32 5 0))]),
     (''SharedMem'', [
       reads Get (GetData (data_field 32 6 0)), builds Get (GetData (data_field 32 6 0)),
       builds Set (SetData (data_field 32 6 0))]),
     (''Params'', [
       reads Has (PointerIsNull (pointer_field 1)), builds Has (PointerIsNull (pointer_field 1)),
       reads Get (PointerGet (pointer_field 1)), builds Get (PointerGet (pointer_field 1)),
       builds Set (PointerSet (pointer_field 1)), builds InitSized (PointerInit (pointer_field 1)),
       builds Adopt (PointerAdopt (pointer_field 1)), builds Disown (PointerDisown (pointer_field 1))]),
     (''StreamHandle'', [
       reads Get (GetData (data_field 64 4 0)), builds Get (GetData (data_field 64 4 0)),
       builds Set (SetData (data_field 64 4 0))]),
     (''ParamBytes'', [
       reads Get (GetData (data_field 32 7 0)), builds Get (GetData (data_field 32 7 0)),
       builds Set (SetData (data_field 32 7 0))]),
     (''FuncHandle'', [
       reads Get (GetData (data_field 64 5 0)), builds Get (GetData (data_field 64 5 0)),
       builds Set (SetData (data_field 64 5 0))]),
     (''LaunchFlags'', [
       reads Get (GetData (data_field 32 12 0)), builds Get (GetData (data_field 32 12 0)),
       builds Set (SetData (data_field 32 12 0))])]"

lemma KernelLaunch_struct_ok: "struct_ok KernelLaunch_spec KernelLaunch_bodies"
  by (rule struct_okI) (simp add: KernelLaunch_spec_def layouts_sound_Kernel, simp_all add: KernelLaunch_spec_def KernelLaunch_bodies_def KernelLaunch_layout_def
    struct_layout_def KernelLaunch_name_def KernelLaunch_gridX_def KernelLaunch_gridY_def KernelLaunch_gridZ_def
      KernelLaunch_blockX_def KernelLaunch_blockY_def KernelLaunch_blockZ_def KernelLaunch_sharedMem_def
      KernelLaunch_params_def KernelLaunch_streamHandle_def KernelLaunch_paramBytes_def KernelLaunch_funcHandle_def
      KernelLaunch_launchFlags_def)

text \<open>All structs of the file.\<close>

definition structs_Kernel :: "(struct_spec \<times> struct_bodies) list" where
  "structs_Kernel = [
     (KernelParam_spec, KernelParam_bodies), (KernelLaunch_spec, KernelLaunch_bodies)]"

lemma structs_Kernel_ok: "list_all (\<lambda>(S, bs). struct_ok S bs) structs_Kernel"
  by (simp add: structs_Kernel_def KernelParam_struct_ok KernelLaunch_struct_ok)

end
