(* ===== verification/BodiesHookLauncher.thy ===== *)
theory BodiesHookLauncher
  imports Accessors WireHookLauncher
begin

section \<open>The bodies of the accessors of hook-launcher.capnp\<close>

text \<open>
  \<open>proto/proto/hook-launcher.capnp.h\<close>: for every generated struct the bodies of its accessors, field by field in
  the order of the source, each with the constants that stand in it, and that they are those of the
  struct's fields.
\<close>

lemmas layouts_sound_HookLauncher = wireHookLauncher_layouts_ok [unfolded wireHookLauncher_layouts_def list.pred_inject conj_assoc]

text \<open>\<open>MemcpyPlan\<close>\<close>

definition MemcpyPlan_spec :: struct_spec where
  "MemcpyPlan_spec = \<lparr>spec_layout = MemcpyPlan_layout, spec_tag = None, spec_fields = [
     (''TargetServerIp'', InPointer MemcpyPlan_targetServerIp False, None),
     (''TargetServerZmqPort'', InData MemcpyPlan_targetServerZmqPort, None),
     (''Error'', InData MemcpyPlan_error, None)]\<rparr>"
definition MemcpyPlan_bodies :: struct_bodies where
  "MemcpyPlan_bodies = [
     (''TargetServerIp'', [
       reads Has (PointerIsNull (pointer_field 0)), builds Has (PointerIsNull (pointer_field 0)),
       reads Get (PointerGet (pointer_field 0)), builds Get (PointerGet (pointer_field 0)),
       builds Set (PointerSet (pointer_field 0)), builds InitSized (PointerInit (pointer_field 0)),
       builds Adopt (PointerAdopt (pointer_field 0)), builds Disown (PointerDisown (pointer_field 0))]),
     (''TargetServerZmqPort'', [
       reads Get (GetData (data_field 16 0 0)), builds Get (GetData (data_field 16 0 0)),
       builds Set (SetData (data_field 16 0 0))]),
     (''Error'', [
       reads Get (GetData (data_field 16 1 0)), builds Get (GetData (data_field 16 1 0)),
       builds Set (SetData (data_field 16 1 0))])]"

lemma MemcpyPlan_struct_ok: "struct_ok MemcpyPlan_spec MemcpyPlan_bodies"
  by (rule struct_okI) (simp add: MemcpyPlan_spec_def layouts_sound_HookLauncher, simp_all add: MemcpyPlan_spec_def MemcpyPlan_bodies_def MemcpyPlan_layout_def
    struct_layout_def MemcpyPlan_targetServerIp_def MemcpyPlan_targetServerZmqPort_def MemcpyPlan_error_def)

text \<open>\<open>NodeStatus\<close>\<close>

definition NodeStatus_spec :: struct_spec where
  "NodeStatus_spec = \<lparr>spec_layout = NodeStatus_layout, spec_tag = None, spec_fields = [
     (''Id'', InPointer NodeStatus_id False, None), (''AvailableMemory'', InData NodeStatus_availableMemory, None),
     (''GpuUtilization'', InData NodeStatus_gpuUtilization, None),
     (''NetworkLatency'', InData NodeStatus_networkLatency, None), (''NumaNode'', InData NodeStatus_numaNode, None),
     (''GpuCount'', InData NodeStatus_gpuCount, None), (''RdmaSupport'', InData NodeStatus_rdmaSupport, None)]\<rparr>"
definition NodeStatus_bodies :: struct_bodies where
  "NodeStatus_bodies = [
     (''Id'', [
       reads Has (PointerIsNull (pointer_field 0)), builds Has (PointerIsNull (pointer_field 0)),
       reads Get (PointerGet (pointer_field 0)), builds Get (PointerGet (pointer_field 0)),
       builds Set (PointerSet (pointer_field 0)), builds InitSized (PointerInit (pointer_field 0)),
       builds Adopt (PointerAdopt (pointer_field 0)), builds Disown (PointerDisown (pointer_field 0))]),
     (''AvailableMemory'', [
       reads Get (GetData (data_field 64 0 0)), builds Get (GetData (data_field 64 0 0)),
       builds Set (SetData (data_field 64 0 0))]),
     (''GpuUtilization'', [
       reads Get (GetData (data_field 32 2 0)), builds Get (GetData (data_field 32 2 0)),
       builds Set (SetData (data_field 32 2 0))]),
     (''NetworkLatency'', [
       reads Get (GetData (data_field 32 3 0)), builds Get (GetData (data_field 32 3 0)),
       builds Set (SetData (data_field 32 3 0))]),
     (''NumaNode'', [
       reads Get (GetData (data_field 32 4 0)), builds Get (GetData (data_field 32 4 0)),
       builds Set (SetData (data_field 32 4 0))]),
     (''GpuCount'', [
       reads Get (GetData (data_field 32 5 0)), builds Get (GetData (data_field 32 5 0)),
       builds Set (SetData (data_field 32 5 0))]),
     (''RdmaSupport'', [
       reads Get (GetData (data_field 1 192 0)), builds Get (GetData (data_field 1 192 0)),
       builds Set (SetData (data_field 1 192 0))])]"

lemma NodeStatus_struct_ok: "struct_ok NodeStatus_spec NodeStatus_bodies"
  by (rule struct_okI) (simp add: NodeStatus_spec_def layouts_sound_HookLauncher, simp_all add: NodeStatus_spec_def NodeStatus_bodies_def NodeStatus_layout_def
    struct_layout_def NodeStatus_id_def NodeStatus_availableMemory_def NodeStatus_gpuUtilization_def
      NodeStatus_networkLatency_def NodeStatus_numaNode_def NodeStatus_gpuCount_def NodeStatus_rdmaSupport_def)

text \<open>\<open>AllocationPlan\<close>\<close>

definition AllocationPlan_spec :: struct_spec where
  "AllocationPlan_spec = \<lparr>spec_layout = AllocationPlan_layout, spec_tag = None, spec_fields = [
     (''TargetNodeId'', InData AllocationPlan_targetNodeId, None),
     (''MemoryType'', InData AllocationPlan_memoryType, None),
     (''TransportType'', InData AllocationPlan_transportType, None),
     (''PrefetchHint'', InData AllocationPlan_prefetchHint, None)]\<rparr>"
definition AllocationPlan_bodies :: struct_bodies where
  "AllocationPlan_bodies = [
     (''TargetNodeId'', [
       reads Get (GetData (data_field 32 0 0)), builds Get (GetData (data_field 32 0 0)),
       builds Set (SetData (data_field 32 0 0))]),
     (''MemoryType'', [
       reads Get (GetData (data_field 16 2 0)), builds Get (GetData (data_field 16 2 0)),
       builds Set (SetData (data_field 16 2 0))]),
     (''TransportType'', [
       reads Get (GetData (data_field 16 3 0)), builds Get (GetData (data_field 16 3 0)),
       builds Set (SetData (data_field 16 3 0))]),
     (''PrefetchHint'', [
       reads Get (GetData (data_field 1 64 0)), builds Get (GetData (data_field 1 64 0)),
       builds Set (SetData (data_field 1 64 0))])]"

lemma AllocationPlan_struct_ok: "struct_ok AllocationPlan_spec AllocationPlan_bodies"
  by (rule struct_okI) (simp add: AllocationPlan_spec_def layouts_sound_HookLauncher, simp_all add: AllocationPlan_spec_def AllocationPlan_bodies_def AllocationPlan_layout_def
    struct_layout_def AllocationPlan_targetNodeId_def AllocationPlan_memoryType_def AllocationPlan_transportType_def
      AllocationPlan_prefetchHint_def)

text \<open>\<open>HookLauncher::PlanMemcpyHtoDParams\<close>\<close>

definition HookLauncher_PlanMemcpyHtoDParams_spec :: struct_spec where
  "HookLauncher_PlanMemcpyHtoDParams_spec = \<lparr>spec_layout = HookLauncher_PlanMemcpyHtoDParams_layout, spec_tag = None, spec_fields = [
     (''DstHandle'', InPointer HookLauncher_PlanMemcpyHtoDParams_dstHandle True, None),
     (''Size'', InData HookLauncher_PlanMemcpyHtoDParams_size, None)]\<rparr>"
definition HookLauncher_PlanMemcpyHtoDParams_bodies :: struct_bodies where
  "HookLauncher_PlanMemcpyHtoDParams_bodies = [
     (''DstHandle'', [
       reads Has (PointerIsNull (pointer_field 0)), builds Has (PointerIsNull (pointer_field 0)),
       reads Get (PointerGet (pointer_field 0)), builds Get (PointerGetStruct (pointer_field 0)),
       pipes Get (PointerGet (pointer_field 0)), builds Set (PointerSet (pointer_field 0)),
       builds Init (PointerInit (pointer_field 0)), builds Adopt (PointerAdopt (pointer_field 0)),
       builds Disown (PointerDisown (pointer_field 0))]),
     (''Size'', [
       reads Get (GetData (data_field 64 0 0)), builds Get (GetData (data_field 64 0 0)),
       builds Set (SetData (data_field 64 0 0))])]"

lemma HookLauncher_PlanMemcpyHtoDParams_struct_ok: "struct_ok HookLauncher_PlanMemcpyHtoDParams_spec HookLauncher_PlanMemcpyHtoDParams_bodies"
  by (rule struct_okI) (simp add: HookLauncher_PlanMemcpyHtoDParams_spec_def layouts_sound_HookLauncher, simp_all add: HookLauncher_PlanMemcpyHtoDParams_spec_def HookLauncher_PlanMemcpyHtoDParams_bodies_def HookLauncher_PlanMemcpyHtoDParams_layout_def
    struct_layout_def HookLauncher_PlanMemcpyHtoDParams_dstHandle_def HookLauncher_PlanMemcpyHtoDParams_size_def)

text \<open>\<open>HookLauncher::PlanMemcpyHtoDResults\<close>\<close>

definition HookLauncher_PlanMemcpyHtoDResults_spec :: struct_spec where
  "HookLauncher_PlanMemcpyHtoDResults_spec = \<lparr>spec_layout = HookLauncher_PlanMemcpyHtoDResults_layout, spec_tag = None, spec_fields = [
     (''Plan'', InPointer HookLauncher_PlanMemcpyHtoDResults_plan True, None)]\<rparr>"
definition HookLauncher_PlanMemcpyHtoDResults_bodies :: struct_bodies where
  "HookLauncher_PlanMemcpyHtoDResults_bodies = [
     (''Plan'', [
       reads Has (PointerIsNull (pointer_field 0)), builds Has (PointerIsNull (pointer_field 0)),
       reads Get (PointerGet (pointer_field 0)), builds Get (PointerGetStruct (pointer_field 0)),
       pipes Get (PointerGet (pointer_field 0)), builds Set (PointerSet (pointer_field 0)),
       builds Init (PointerInit (pointer_field 0)), builds Adopt (PointerAdopt (pointer_field 0)),
       builds Disown (PointerDisown (pointer_field 0))])]"

lemma HookLauncher_PlanMemcpyHtoDResults_struct_ok: "struct_ok HookLauncher_PlanMemcpyHtoDResults_spec HookLauncher_PlanMemcpyHtoDResults_bodies"
  by (rule struct_okI) (simp add: HookLauncher_PlanMemcpyHtoDResults_spec_def layouts_sound_HookLauncher, simp_all add: HookLauncher_PlanMemcpyHtoDResults_spec_def HookLauncher_PlanMemcpyHtoDResults_bodies_def HookLauncher_PlanMemcpyHtoDResults_layout_def
    struct_layout_def HookLauncher_PlanMemcpyHtoDResults_plan_def)

text \<open>\<open>HookLauncher::PlanMemcpyDtoHParams\<close>\<close>

definition HookLauncher_PlanMemcpyDtoHParams_spec :: struct_spec where
  "HookLauncher_PlanMemcpyDtoHParams_spec = \<lparr>spec_layout = HookLauncher_PlanMemcpyDtoHParams_layout, spec_tag = None, spec_fields = [
     (''SrcHandle'', InPointer HookLauncher_PlanMemcpyDtoHParams_srcHandle True, None),
     (''Size'', InData HookLauncher_PlanMemcpyDtoHParams_size, None)]\<rparr>"
definition HookLauncher_PlanMemcpyDtoHParams_bodies :: struct_bodies where
  "HookLauncher_PlanMemcpyDtoHParams_bodies = [
     (''SrcHandle'', [
       reads Has (PointerIsNull (pointer_field 0)), builds Has (PointerIsNull (pointer_field 0)),
       reads Get (PointerGet (pointer_field 0)), builds Get (PointerGetStruct (pointer_field 0)),
       pipes Get (PointerGet (pointer_field 0)), builds Set (PointerSet (pointer_field 0)),
       builds Init (PointerInit (pointer_field 0)), builds Adopt (PointerAdopt (pointer_field 0)),
       builds Disown (PointerDisown (pointer_field 0))]),
     (''Size'', [
       reads Get (GetData (data_field 64 0 0)), builds Get (GetData (data_field 64 0 0)),
       builds Set (SetData (data_field 64 0 0))])]"

lemma HookLauncher_PlanMemcpyDtoHParams_struct_ok: "struct_ok HookLauncher_PlanMemcpyDtoHParams_spec HookLauncher_PlanMemcpyDtoHParams_bodies"
  by (rule struct_okI) (simp add: HookLauncher_PlanMemcpyDtoHParams_spec_def layouts_sound_HookLauncher, simp_all add: HookLauncher_PlanMemcpyDtoHParams_spec_def HookLauncher_PlanMemcpyDtoHParams_bodies_def HookLauncher_PlanMemcpyDtoHParams_layout_def
    struct_layout_def HookLauncher_PlanMemcpyDtoHParams_srcHandle_def HookLauncher_PlanMemcpyDtoHParams_size_def)

text \<open>\<open>HookLauncher::PlanMemcpyDtoHResults\<close>\<close>

definition HookLauncher_PlanMemcpyDtoHResults_spec :: struct_spec where
  "HookLauncher_PlanMemcpyDtoHResults_spec = \<lparr>spec_layout = HookLauncher_PlanMemcpyDtoHResults_layout, spec_tag = None, spec_fields = [
     (''Plan'', InPointer HookLauncher_PlanMemcpyDtoHResults_plan True, None)]\<rparr>"
definition HookLauncher_PlanMemcpyDtoHResults_bodies :: struct_bodies where
  "HookLauncher_PlanMemcpyDtoHResults_bodies = [
     (''Plan'', [
       reads Has (PointerIsNull (pointer_field 0)), builds Has (PointerIsNull (pointer_field 0)),
       reads Get (PointerGet (pointer_field 0)), builds Get (PointerGetStruct (pointer_field 0)),
       pipes Get (PointerGet (pointer_field 0)), builds Set (PointerSet (pointer_field 0)),
       builds Init (PointerInit (pointer_field 0)), builds Adopt (PointerAdopt (pointer_field 0)),
       builds Disown (PointerDisown (pointer_field 0))])]"

lemma HookLauncher_PlanMemcpyDtoHResults_struct_ok: "struct_ok HookLauncher_PlanMemcpyDtoHResults_spec HookLauncher_PlanMemcpyDtoHResults_bodies"
  by (rule struct_okI) (simp add: HookLauncher_PlanMemcpyDtoHResults_spec_def layouts_sound_HookLauncher, simp_all add: HookLauncher_PlanMemcpyDtoHResults_spec_def HookLauncher_PlanMemcpyDtoHResults_bodies_def HookLauncher_PlanMemcpyDtoHResults_layout_def
    struct_layout_def HookLauncher_PlanMemcpyDtoHResults_plan_def)

text \<open>\<open>HookLauncher::GetNodeStatusParams\<close>\<close>

definition HookLauncher_GetNodeStatusParams_spec :: struct_spec where
  "HookLauncher_GetNodeStatusParams_spec = \<lparr>spec_layout = HookLauncher_GetNodeStatusParams_layout, spec_tag = None, spec_fields = []\<rparr>"
definition HookLauncher_GetNodeStatusParams_bodies :: struct_bodies where
  "HookLauncher_GetNodeStatusParams_bodies = []"

lemma HookLauncher_GetNodeStatusParams_struct_ok: "struct_ok HookLauncher_GetNodeStatusParams_spec HookLauncher_GetNodeStatusParams_bodies"
  by (rule struct_okI) (simp add: HookLauncher_GetNodeStatusParams_spec_def layouts_sound_HookLauncher, simp_all add: HookLauncher_GetNodeStatusParams_spec_def HookLauncher_GetNodeStatusParams_bodies_def HookLauncher_GetNodeStatusParams_layout_def
    struct_layout_def )

text \<open>\<open>HookLauncher::GetNodeStatusResults\<close>\<close>

definition HookLauncher_GetNodeStatusResults_spec :: struct_spec where
  "HookLauncher_GetNodeStatusResults_spec = \<lparr>spec_layout = HookLauncher_GetNodeStatusResults_layout, spec_tag = None, spec_fields = [
     (''Nodes'', InPointer HookLauncher_GetNodeStatusResults_nodes False, None)]\<rparr>"
definition HookLauncher_GetNodeStatusResults_bodies :: struct_bodies where
  "HookLauncher_GetNodeStatusResults_bodies = [
     (''Nodes'', [
       reads Has (PointerIsNull (pointer_field 0)), builds Has (PointerIsNull (pointer_field 0)),
       reads Get (PointerGet (pointer_field 0)), builds Get (PointerGet (pointer_field 0)),
       builds Set (PointerSet (pointer_field 0)), builds InitSized (PointerInit (pointer_field 0)),
       builds Adopt (PointerAdopt (pointer_field 0)), builds Disown (PointerDisown (pointer_field 0))])]"

lemma HookLauncher_GetNodeStatusResults_struct_ok: "struct_ok HookLauncher_GetNodeStatusResults_spec HookLauncher_GetNodeStatusResults_bodies"
  by (rule struct_okI) (simp add: HookLauncher_GetNodeStatusResults_spec_def layouts_sound_HookLauncher, simp_all add: HookLauncher_GetNodeStatusResults_spec_def HookLauncher_GetNodeStatusResults_bodies_def HookLauncher_GetNodeStatusResults_layout_def
    struct_layout_def HookLauncher_GetNodeStatusResults_nodes_def)

text \<open>\<open>HookLauncher::PrefetchDataParams\<close>\<close>

definition HookLauncher_PrefetchDataParams_spec :: struct_spec where
  "HookLauncher_PrefetchDataParams_spec = \<lparr>spec_layout = HookLauncher_PrefetchDataParams_layout, spec_tag = None, spec_fields = [
     (''Handle'', InPointer HookLauncher_PrefetchDataParams_handle True, None)]\<rparr>"
definition HookLauncher_PrefetchDataParams_bodies :: struct_bodies where
  "HookLauncher_PrefetchDataParams_bodies = [
     (''Handle'', [
       reads Has (PointerIsNull (pointer_field 0)), builds Has (PointerIsNull (pointer_field 0)),
       reads Get (PointerGet (pointer_field 0)), builds Get (PointerGetStruct (pointer_field 0)),
       pipes Get (PointerGet (pointer_field 0)), builds Set (PointerSet (pointer_field 0)),
       builds Init (PointerInit (pointer_field 0)), builds Adopt (PointerAdopt (pointer_field 0)),
       builds Disown (PointerDisown (pointer_field 0))])]"

lemma HookLauncher_PrefetchDataParams_struct_ok: "struct_ok HookLauncher_PrefetchDataParams_spec HookLauncher_PrefetchDataParams_bodies"
  by (rule struct_okI) (simp add: HookLauncher_PrefetchDataParams_spec_def layouts_sound_HookLauncher, simp_all add: HookLauncher_PrefetchDataParams_spec_def HookLauncher_PrefetchDataParams_bodies_def HookLauncher_PrefetchDataParams_layout_def
    struct_layout_def HookLauncher_PrefetchDataParams_handle_def)

text \<open>\<open>HookLauncher::PrefetchDataResults\<close>\<close>

definition HookLauncher_PrefetchDataResults_spec :: struct_spec where
  "HookLauncher_PrefetchDataResults_spec = \<lparr>spec_layout = HookLauncher_PrefetchDataResults_layout, spec_tag = None, spec_fields = [
     (''Ack'', InPointer HookLauncher_PrefetchDataResults_ack True, None)]\<rparr>"
definition HookLauncher_PrefetchDataResults_bodies :: struct_bodies where
  "HookLauncher_PrefetchDataResults_bodies = [
     (''Ack'', [
       reads Has (PointerIsNull (pointer_field 0)), builds Has (PointerIsNull (pointer_field 0)),
       reads Get (PointerGet (pointer_field 0)), builds Get (PointerGetStruct (pointer_field 0)),
       pipes Get (PointerGet (pointer_field 0)), builds Set (PointerSet (pointer_field 0)),
       builds Init (PointerInit (pointer_field 0)), builds Adopt (PointerAdopt (pointer_field 0)),
       builds Disown (PointerDisown (pointer_field 0))])]"

lemma HookLauncher_PrefetchDataResults_struct_ok: "struct_ok HookLauncher_PrefetchDataResults_spec HookLauncher_PrefetchDataResults_bodies"
  by (rule struct_okI) (simp add: HookLauncher_PrefetchDataResults_spec_def layouts_sound_HookLauncher, simp_all add: HookLauncher_PrefetchDataResults_spec_def HookLauncher_PrefetchDataResults_bodies_def HookLauncher_PrefetchDataResults_layout_def
    struct_layout_def HookLauncher_PrefetchDataResults_ack_def)

text \<open>\<open>HookLauncher::MeasureBandwidthParams\<close>\<close>

definition HookLauncher_MeasureBandwidthParams_spec :: struct_spec where
  "HookLauncher_MeasureBandwidthParams_spec = \<lparr>spec_layout = HookLauncher_MeasureBandwidthParams_layout, spec_tag = None, spec_fields = [
     (''Src'', InPointer HookLauncher_MeasureBandwidthParams_src False, None),
     (''Dst'', InPointer HookLauncher_MeasureBandwidthParams_dst False, None)]\<rparr>"
definition HookLauncher_MeasureBandwidthParams_bodies :: struct_bodies where
  "HookLauncher_MeasureBandwidthParams_bodies = [
     (''Src'', [
       reads Has (PointerIsNull (pointer_field 0)), builds Has (PointerIsNull (pointer_field 0)),
       reads Get (PointerGet (pointer_field 0)), builds Get (PointerGet (pointer_field 0)),
       builds Set (PointerSet (pointer_field 0)), builds InitSized (PointerInit (pointer_field 0)),
       builds Adopt (PointerAdopt (pointer_field 0)), builds Disown (PointerDisown (pointer_field 0))]),
     (''Dst'', [
       reads Has (PointerIsNull (pointer_field 1)), builds Has (PointerIsNull (pointer_field 1)),
       reads Get (PointerGet (pointer_field 1)), builds Get (PointerGet (pointer_field 1)),
       builds Set (PointerSet (pointer_field 1)), builds InitSized (PointerInit (pointer_field 1)),
       builds Adopt (PointerAdopt (pointer_field 1)), builds Disown (PointerDisown (pointer_field 1))])]"

lemma HookLauncher_MeasureBandwidthParams_struct_ok: "struct_ok HookLauncher_MeasureBandwidthParams_spec HookLauncher_MeasureBandwidthParams_bodies"
  by (rule struct_okI) (simp add: HookLauncher_MeasureBandwidthParams_spec_def layouts_sound_HookLauncher, simp_all add: HookLauncher_MeasureBandwidthParams_spec_def HookLauncher_MeasureBandwidthParams_bodies_def HookLauncher_MeasureBandwidthParams_layout_def
    struct_layout_def HookLauncher_MeasureBandwidthParams_src_def HookLauncher_MeasureBandwidthParams_dst_def)

text \<open>\<open>HookLauncher::MeasureBandwidthResults\<close>\<close>

definition HookLauncher_MeasureBandwidthResults_spec :: struct_spec where
  "HookLauncher_MeasureBandwidthResults_spec = \<lparr>spec_layout = HookLauncher_MeasureBandwidthResults_layout, spec_tag = None, spec_fields = [
     (''Result'', InPointer HookLauncher_MeasureBandwidthResults_result True, None)]\<rparr>"
definition HookLauncher_MeasureBandwidthResults_bodies :: struct_bodies where
  "HookLauncher_MeasureBandwidthResults_bodies = [
     (''Result'', [
       reads Has (PointerIsNull (pointer_field 0)), builds Has (PointerIsNull (pointer_field 0)),
       reads Get (PointerGet (pointer_field 0)), builds Get (PointerGetStruct (pointer_field 0)),
       pipes Get (PointerGet (pointer_field 0)), builds Set (PointerSet (pointer_field 0)),
       builds Init (PointerInit (pointer_field 0)), builds Adopt (PointerAdopt (pointer_field 0)),
       builds Disown (PointerDisown (pointer_field 0))])]"

lemma HookLauncher_MeasureBandwidthResults_struct_ok: "struct_ok HookLauncher_MeasureBandwidthResults_spec HookLauncher_MeasureBandwidthResults_bodies"
  by (rule struct_okI) (simp add: HookLauncher_MeasureBandwidthResults_spec_def layouts_sound_HookLauncher, simp_all add: HookLauncher_MeasureBandwidthResults_spec_def HookLauncher_MeasureBandwidthResults_bodies_def HookLauncher_MeasureBandwidthResults_layout_def
    struct_layout_def HookLauncher_MeasureBandwidthResults_result_def)

text \<open>\<open>HookLauncher::TrackAsyncTaskParams\<close>\<close>

definition HookLauncher_TrackAsyncTaskParams_spec :: struct_spec where
  "HookLauncher_TrackAsyncTaskParams_spec = \<lparr>spec_layout = HookLauncher_TrackAsyncTaskParams_layout, spec_tag = None, spec_fields = [
     (''TaskId'', InData HookLauncher_TrackAsyncTaskParams_taskId, None)]\<rparr>"
definition HookLauncher_TrackAsyncTaskParams_bodies :: struct_bodies where
  "HookLauncher_TrackAsyncTaskParams_bodies = [
     (''TaskId'', [
       reads Get (GetData (data_field 64 0 0)), builds Get (GetData (data_field 64 0 0)),
       builds Set (SetData (data_field 64 0 0))])]"

lemma HookLauncher_TrackAsyncTaskParams_struct_ok: "struct_ok HookLauncher_TrackAsyncTaskParams_spec HookLauncher_TrackAsyncTaskParams_bodies"
  by (rule struct_okI) (simp add: HookLauncher_TrackAsyncTaskParams_spec_def layouts_sound_HookLauncher, simp_all add: HookLauncher_TrackAsyncTaskParams_spec_def HookLauncher_TrackAsyncTaskParams_bodies_def HookLauncher_TrackAsyncTaskParams_layout_def
    struct_layout_def HookLauncher_TrackAsyncTaskParams_taskId_def)

text \<open>\<open>HookLauncher::TrackAsyncTaskResults\<close>\<close>

definition HookLauncher_TrackAsyncTaskResults_spec :: struct_spec where
  "HookLauncher_TrackAsyncTaskResults_spec = \<lparr>spec_layout = HookLauncher_TrackAsyncTaskResults_layout, spec_tag = None, spec_fields = [
     (''Status'', InPointer HookLauncher_TrackAsyncTaskResults_status True, None)]\<rparr>"
definition HookLauncher_TrackAsyncTaskResults_bodies :: struct_bodies where
  "HookLauncher_TrackAsyncTaskResults_bodies = [
     (''Status'', [
       reads Has (PointerIsNull (pointer_field 0)), builds Has (PointerIsNull (pointer_field 0)),
       reads Get (PointerGet (pointer_field 0)), builds Get (PointerGetStruct (pointer_field 0)),
       pipes Get (PointerGet (pointer_field 0)), builds Set (PointerSet (pointer_field 0)),
       builds Init (PointerInit (pointer_field 0)), builds Adopt (PointerAdopt (pointer_field 0)),
       builds Disown (PointerDisown (pointer_field 0))])]"

lemma HookLauncher_TrackAsyncTaskResults_struct_ok: "struct_ok HookLauncher_TrackAsyncTaskResults_spec HookLauncher_TrackAsyncTaskResults_bodies"
  by (rule struct_okI) (simp add: HookLauncher_TrackAsyncTaskResults_spec_def layouts_sound_HookLauncher, simp_all add: HookLauncher_TrackAsyncTaskResults_spec_def HookLauncher_TrackAsyncTaskResults_bodies_def HookLauncher_TrackAsyncTaskResults_layout_def
    struct_layout_def HookLauncher_TrackAsyncTaskResults_status_def)

text \<open>\<open>HookLauncher::GetMemoryLocationParams\<close>\<close>

definition HookLauncher_GetMemoryLocationParams_spec :: struct_spec where
  "HookLauncher_GetMemoryLocationParams_spec = \<lparr>spec_layout = HookLauncher_GetMemoryLocationParams_layout, spec_tag = None, spec_fields = [
     (''FakePtr'', InData HookLauncher_GetMemoryLocationParams_fakePtr, None)]\<rparr>"
definition HookLauncher_GetMemoryLocationParams_bodies :: struct_bodies where
  "HookLauncher_GetMemoryLocationParams_bodies = [
     (''FakePtr'', [
       reads Get (GetData (data_field 64 0 0)), builds Get (GetData (data_field 64 0 0)),
       builds Set (SetData (data_field 64 0 0))])]"

lemma HookLauncher_GetMemoryLocationParams_struct_ok: "struct_ok HookLauncher_GetMemoryLocationParams_spec HookLauncher_GetMemoryLocationParams_bodies"
  by (rule struct_okI) (simp add: HookLauncher_GetMemoryLocationParams_spec_def layouts_sound_HookLauncher, simp_all add: HookLauncher_GetMemoryLocationParams_spec_def HookLauncher_GetMemoryLocationParams_bodies_def HookLauncher_GetMemoryLocationParams_layout_def
    struct_layout_def HookLauncher_GetMemoryLocationParams_fakePtr_def)

text \<open>\<open>HookLauncher::GetMemoryLocationResults\<close>\<close>

definition HookLauncher_GetMemoryLocationResults_spec :: struct_spec where
  "HookLauncher_GetMemoryLocationResults_spec = \<lparr>spec_layout = HookLauncher_GetMemoryLocationResults_layout, spec_tag = None, spec_fields = [
     (''Location'', InPointer HookLauncher_GetMemoryLocationResults_location True, None)]\<rparr>"
definition HookLauncher_GetMemoryLocationResults_bodies :: struct_bodies where
  "HookLauncher_GetMemoryLocationResults_bodies = [
     (''Location'', [
       reads Has (PointerIsNull (pointer_field 0)), builds Has (PointerIsNull (pointer_field 0)),
       reads Get (PointerGet (pointer_field 0)), builds Get (PointerGetStruct (pointer_field 0)),
       pipes Get (PointerGet (pointer_field 0)), builds Set (PointerSet (pointer_field 0)),
       builds Init (PointerInit (pointer_field 0)), builds Adopt (PointerAdopt (pointer_field 0)),
       builds Disown (PointerDisown (pointer_field 0))])]"

lemma HookLauncher_GetMemoryLocationResults_struct_ok: "struct_ok HookLauncher_GetMemoryLocationResults_spec HookLauncher_GetMemoryLocationResults_bodies"
  by (rule struct_okI) (simp add: HookLauncher_GetMemoryLocationResults_spec_def layouts_sound_HookLauncher, simp_all add: HookLauncher_GetMemoryLocationResults_spec_def HookLauncher_GetMemoryLocationResults_bodies_def HookLauncher_GetMemoryLocationResults_layout_def
    struct_layout_def HookLauncher_GetMemoryLocationResults_location_def)

text \<open>\<open>HookLauncher::AdvisePrefetchParams\<close>\<close>

definition HookLauncher_AdvisePrefetchParams_spec :: struct_spec where
  "HookLauncher_AdvisePrefetchParams_spec = \<lparr>spec_layout = HookLauncher_AdvisePrefetchParams_layout, spec_tag = None, spec_fields = [
     (''FakePtr'', InData HookLauncher_AdvisePrefetchParams_fakePtr, None)]\<rparr>"
definition HookLauncher_AdvisePrefetchParams_bodies :: struct_bodies where
  "HookLauncher_AdvisePrefetchParams_bodies = [
     (''FakePtr'', [
       reads Get (GetData (data_field 64 0 0)), builds Get (GetData (data_field 64 0 0)),
       builds Set (SetData (data_field 64 0 0))])]"

lemma HookLauncher_AdvisePrefetchParams_struct_ok: "struct_ok HookLauncher_AdvisePrefetchParams_spec HookLauncher_AdvisePrefetchParams_bodies"
  by (rule struct_okI) (simp add: HookLauncher_AdvisePrefetchParams_spec_def layouts_sound_HookLauncher, simp_all add: HookLauncher_AdvisePrefetchParams_spec_def HookLauncher_AdvisePrefetchParams_bodies_def HookLauncher_AdvisePrefetchParams_layout_def
    struct_layout_def HookLauncher_AdvisePrefetchParams_fakePtr_def)

text \<open>\<open>HookLauncher::AdvisePrefetchResults\<close>\<close>

definition HookLauncher_AdvisePrefetchResults_spec :: struct_spec where
  "HookLauncher_AdvisePrefetchResults_spec = \<lparr>spec_layout = HookLauncher_AdvisePrefetchResults_layout, spec_tag = None, spec_fields = [
     (''Ack'', InPointer HookLauncher_AdvisePrefetchResults_ack True, None)]\<rparr>"
definition HookLauncher_AdvisePrefetchResults_bodies :: struct_bodies where
  "HookLauncher_AdvisePrefetchResults_bodies = [
     (''Ack'', [
       reads Has (PointerIsNull (pointer_field 0)), builds Has (PointerIsNull (pointer_field 0)),
       reads Get (PointerGet (pointer_field 0)), builds Get (PointerGetStruct (pointer_field 0)),
       pipes Get (PointerGet (pointer_field 0)), builds Set (PointerSet (pointer_field 0)),
       builds Init (PointerInit (pointer_field 0)), builds Adopt (PointerAdopt (pointer_field 0)),
       builds Disown (PointerDisown (pointer_field 0))])]"

lemma HookLauncher_AdvisePrefetchResults_struct_ok: "struct_ok HookLauncher_AdvisePrefetchResults_spec HookLauncher_AdvisePrefetchResults_bodies"
  by (rule struct_okI) (simp add: HookLauncher_AdvisePrefetchResults_spec_def layouts_sound_HookLauncher, simp_all add: HookLauncher_AdvisePrefetchResults_spec_def HookLauncher_AdvisePrefetchResults_bodies_def HookLauncher_AdvisePrefetchResults_layout_def
    struct_layout_def HookLauncher_AdvisePrefetchResults_ack_def)

text \<open>\<open>HookLauncher::RequestRdmaPlanParams\<close>\<close>

definition HookLauncher_RequestRdmaPlanParams_spec :: struct_spec where
  "HookLauncher_RequestRdmaPlanParams_spec = \<lparr>spec_layout = HookLauncher_RequestRdmaPlanParams_layout, spec_tag = None, spec_fields = [
     (''SrcHandle'', InPointer HookLauncher_RequestRdmaPlanParams_srcHandle True, None),
     (''DstHandle'', InPointer HookLauncher_RequestRdmaPlanParams_dstHandle True, None),
     (''Size'', InData HookLauncher_RequestRdmaPlanParams_size, None)]\<rparr>"
definition HookLauncher_RequestRdmaPlanParams_bodies :: struct_bodies where
  "HookLauncher_RequestRdmaPlanParams_bodies = [
     (''SrcHandle'', [
       reads Has (PointerIsNull (pointer_field 0)), builds Has (PointerIsNull (pointer_field 0)),
       reads Get (PointerGet (pointer_field 0)), builds Get (PointerGetStruct (pointer_field 0)),
       pipes Get (PointerGet (pointer_field 0)), builds Set (PointerSet (pointer_field 0)),
       builds Init (PointerInit (pointer_field 0)), builds Adopt (PointerAdopt (pointer_field 0)),
       builds Disown (PointerDisown (pointer_field 0))]),
     (''DstHandle'', [
       reads Has (PointerIsNull (pointer_field 1)), builds Has (PointerIsNull (pointer_field 1)),
       reads Get (PointerGet (pointer_field 1)), builds Get (PointerGetStruct (pointer_field 1)),
       pipes Get (PointerGet (pointer_field 1)), builds Set (PointerSet (pointer_field 1)),
       builds Init (PointerInit (pointer_field 1)), builds Adopt (PointerAdopt (pointer_field 1)),
       builds Disown (PointerDisown (pointer_field 1))]),
     (''Size'', [
       reads Get (GetData (data_field 64 0 0)), builds Get (GetData (data_field 64 0 0)),
       builds Set (SetData (data_field 64 0 0))])]"

lemma HookLauncher_RequestRdmaPlanParams_struct_ok: "struct_ok HookLauncher_RequestRdmaPlanParams_spec HookLauncher_RequestRdmaPlanParams_bodies"
  by (rule struct_okI) (simp add: HookLauncher_RequestRdmaPlanParams_spec_def layouts_sound_HookLauncher, simp_all add: HookLauncher_RequestRdmaPlanParams_spec_def HookLauncher_RequestRdmaPlanParams_bodies_def HookLauncher_RequestRdmaPlanParams_layout_def
    struct_layout_def HookLauncher_RequestRdmaPlanParams_srcHandle_def
      HookLauncher_RequestRdmaPlanParams_dstHandle_def HookLauncher_RequestRdmaPlanParams_size_def)

text \<open>\<open>HookLauncher::RequestRdmaPlanResults\<close>\<close>

definition HookLauncher_RequestRdmaPlanResults_spec :: struct_spec where
  "HookLauncher_RequestRdmaPlanResults_spec = \<lparr>spec_layout = HookLauncher_RequestRdmaPlanResults_layout, spec_tag = None, spec_fields = [
     (''Plan'', InPointer HookLauncher_RequestRdmaPlanResults_plan True, None)]\<rparr>"
definition HookLauncher_RequestRdmaPlanResults_bodies :: struct_bodies where
  "HookLauncher_RequestRdmaPlanResults_bodies = [
     (''Plan'', [
       reads Has (PointerIsNull (pointer_field 0)), builds Has (PointerIsNull (pointer_field 0)),
       reads Get (PointerGet (pointer_field 0)), builds Get (PointerGetStruct (pointer_field 0)),
       pipes Get (PointerGet (pointer_field 0)), builds Set (PointerSet (pointer_field 0)),
       builds Init (PointerInit (pointer_field 0)), builds Adopt (PointerAdopt (pointer_field 0)),
       builds Disown (PointerDisown (pointer_field 0))])]"

lemma HookLauncher_RequestRdmaPlanResults_struct_ok: "struct_ok HookLauncher_RequestRdmaPlanResults_spec HookLauncher_RequestRdmaPlanResults_bodies"
  by (rule struct_okI) (simp add: HookLauncher_RequestRdmaPlanResults_spec_def layouts_sound_HookLauncher, simp_all add: HookLauncher_RequestRdmaPlanResults_spec_def HookLauncher_RequestRdmaPlanResults_bodies_def HookLauncher_RequestRdmaPlanResults_layout_def
    struct_layout_def HookLauncher_RequestRdmaPlanResults_plan_def)

text \<open>\<open>HookLauncher::RequestAllocationPlanParams\<close>\<close>

definition HookLauncher_RequestAllocationPlanParams_spec :: struct_spec where
  "HookLauncher_RequestAllocationPlanParams_spec = \<lparr>spec_layout = HookLauncher_RequestAllocationPlanParams_layout, spec_tag = None, spec_fields = [
     (''Size'', InData HookLauncher_RequestAllocationPlanParams_size, None)]\<rparr>"
definition HookLauncher_RequestAllocationPlanParams_bodies :: struct_bodies where
  "HookLauncher_RequestAllocationPlanParams_bodies = [
     (''Size'', [
       reads Get (GetData (data_field 64 0 0)), builds Get (GetData (data_field 64 0 0)),
       builds Set (SetData (data_field 64 0 0))])]"

lemma HookLauncher_RequestAllocationPlanParams_struct_ok: "struct_ok HookLauncher_RequestAllocationPlanParams_spec HookLauncher_RequestAllocationPlanParams_bodies"
  by (rule struct_okI) (simp add: HookLauncher_RequestAllocationPlanParams_spec_def layouts_sound_HookLauncher, simp_all add: HookLauncher_RequestAllocationPlanParams_spec_def HookLauncher_RequestAllocationPlanParams_bodies_def HookLauncher_RequestAllocationPlanParams_layout_def
    struct_layout_def HookLauncher_RequestAllocationPlanParams_size_def)

text \<open>\<open>HookLauncher::RequestAllocationPlanResults\<close>\<close>

definition HookLauncher_RequestAllocationPlanResults_spec :: struct_spec where
  "HookLauncher_RequestAllocationPlanResults_spec = \<lparr>spec_layout = HookLauncher_RequestAllocationPlanResults_layout, spec_tag = None, spec_fields = [
     (''Plan'', InPointer HookLauncher_RequestAllocationPlanResults_plan True, None)]\<rparr>"
definition HookLauncher_RequestAllocationPlanResults_bodies :: struct_bodies where
  "HookLauncher_RequestAllocationPlanResults_bodies = [
     (''Plan'', [
       reads Has (PointerIsNull (pointer_field 0)), builds Has (PointerIsNull (pointer_field 0)),
       reads Get (PointerGet (pointer_field 0)), builds Get (PointerGetStruct (pointer_field 0)),
       pipes Get (PointerGet (pointer_field 0)), builds Set (PointerSet (pointer_field 0)),
       builds Init (PointerInit (pointer_field 0)), builds Adopt (PointerAdopt (pointer_field 0)),
       builds Disown (PointerDisown (pointer_field 0))])]"

lemma HookLauncher_RequestAllocationPlanResults_struct_ok: "struct_ok HookLauncher_RequestAllocationPlanResults_spec HookLauncher_RequestAllocationPlanResults_bodies"
  by (rule struct_okI) (simp add: HookLauncher_RequestAllocationPlanResults_spec_def layouts_sound_HookLauncher, simp_all add: HookLauncher_RequestAllocationPlanResults_spec_def HookLauncher_RequestAllocationPlanResults_bodies_def HookLauncher_RequestAllocationPlanResults_layout_def
    struct_layout_def HookLauncher_RequestAllocationPlanResults_plan_def)

text \<open>\<open>HookLauncher::RequestFreePlanParams\<close>\<close>

definition HookLauncher_RequestFreePlanParams_spec :: struct_spec where
  "HookLauncher_RequestFreePlanParams_spec = \<lparr>spec_layout = HookLauncher_RequestFreePlanParams_layout, spec_tag = None, spec_fields = [
     (''FakePtr'', InData HookLauncher_RequestFreePlanParams_fakePtr, None)]\<rparr>"
definition HookLauncher_RequestFreePlanParams_bodies :: struct_bodies where
  "HookLauncher_RequestFreePlanParams_bodies = [
     (''FakePtr'', [
       reads Get (GetData (data_field 64 0 0)), builds Get (GetData (data_field 64 0 0)),
       builds Set (SetData (data_field 64 0 0))])]"

lemma HookLauncher_RequestFreePlanParams_struct_ok: "struct_ok HookLauncher_RequestFreePlanParams_spec HookLauncher_RequestFreePlanParams_bodies"
  by (rule struct_okI) (simp add: HookLauncher_RequestFreePlanParams_spec_def layouts_sound_HookLauncher, simp_all add: HookLauncher_RequestFreePlanParams_spec_def HookLauncher_RequestFreePlanParams_bodies_def HookLauncher_RequestFreePlanParams_layout_def
    struct_layout_def HookLauncher_RequestFreePlanParams_fakePtr_def)

text \<open>\<open>HookLauncher::RequestFreePlanResults\<close>\<close>

definition HookLauncher_RequestFreePlanResults_spec :: struct_spec where
  "HookLauncher_RequestFreePlanResults_spec = \<lparr>spec_layout = HookLauncher_RequestFreePlanResults_layout, spec_tag = None, spec_fields = [
     (''Ack'', InPointer HookLauncher_RequestFreePlanResults_ack True, None)]\<rparr>"
definition HookLauncher_RequestFreePlanResults_bodies :: struct_bodies where
  "HookLauncher_RequestFreePlanResults_bodies = [
     (''Ack'', [
       reads Has (PointerIsNull (pointer_field 0)), builds Has (PointerIsNull (pointer_field 0)),
       reads Get (PointerGet (pointer_field 0)), builds Get (PointerGetStruct (pointer_field 0)),
       pipes Get (PointerGet (pointer_field 0)), builds Set (PointerSet (pointer_field 0)),
       builds Init (PointerInit (pointer_field 0)), builds Adopt (PointerAdopt (pointer_field 0)),
       builds Disown (PointerDisown (pointer_field 0))])]"

lemma HookLauncher_RequestFreePlanResults_struct_ok: "struct_ok HookLauncher_RequestFreePlanResults_spec HookLauncher_RequestFreePlanResults_bodies"
  by (rule struct_okI) (simp add: HookLauncher_RequestFreePlanResults_spec_def layouts_sound_HookLauncher, simp_all add: HookLauncher_RequestFreePlanResults_spec_def HookLauncher_RequestFreePlanResults_bodies_def HookLauncher_RequestFreePlanResults_layout_def
    struct_layout_def HookLauncher_RequestFreePlanResults_ack_def)

text \<open>\<open>HookLauncher::LaunchKernelParams\<close>\<close>

definition HookLauncher_LaunchKernelParams_spec :: struct_spec where
  "HookLauncher_LaunchKernelParams_spec = \<lparr>spec_layout = HookLauncher_LaunchKernelParams_layout, spec_tag = None, spec_fields = [
     (''Func'', InPointer HookLauncher_LaunchKernelParams_func False, None),
     (''GridDimX'', InData HookLauncher_LaunchKernelParams_gridDimX, None),
     (''GridDimY'', InData HookLauncher_LaunchKernelParams_gridDimY, None),
     (''GridDimZ'', InData HookLauncher_LaunchKernelParams_gridDimZ, None),
     (''BlockDimX'', InData HookLauncher_LaunchKernelParams_blockDimX, None),
     (''BlockDimY'', InData HookLauncher_LaunchKernelParams_blockDimY, None),
     (''BlockDimZ'', InData HookLauncher_LaunchKernelParams_blockDimZ, None),
     (''SharedMemBytes'', InData HookLauncher_LaunchKernelParams_sharedMemBytes, None),
     (''Params'', InPointer HookLauncher_LaunchKernelParams_params False, None)]\<rparr>"
definition HookLauncher_LaunchKernelParams_bodies :: struct_bodies where
  "HookLauncher_LaunchKernelParams_bodies = [
     (''Func'', [
       reads Has (PointerIsNull (pointer_field 0)), builds Has (PointerIsNull (pointer_field 0)),
       reads Get (PointerGet (pointer_field 0)), builds Get (PointerGet (pointer_field 0)),
       builds Set (PointerSet (pointer_field 0)), builds InitSized (PointerInit (pointer_field 0)),
       builds Adopt (PointerAdopt (pointer_field 0)), builds Disown (PointerDisown (pointer_field 0))]),
     (''GridDimX'', [
       reads Get (GetData (data_field 32 0 0)), builds Get (GetData (data_field 32 0 0)),
       builds Set (SetData (data_field 32 0 0))]),
     (''GridDimY'', [
       reads Get (GetData (data_field 32 1 0)), builds Get (GetData (data_field 32 1 0)),
       builds Set (SetData (data_field 32 1 0))]),
     (''GridDimZ'', [
       reads Get (GetData (data_field 32 2 0)), builds Get (GetData (data_field 32 2 0)),
       builds Set (SetData (data_field 32 2 0))]),
     (''BlockDimX'', [
       reads Get (GetData (data_field 32 3 0)), builds Get (GetData (data_field 32 3 0)),
       builds Set (SetData (data_field 32 3 0))]),
     (''BlockDimY'', [
       reads Get (GetData (data_field 32 4 0)), builds Get (GetData (data_field 32 4 0)),
       builds Set (SetData (data_field 32 4 0))]),
     (''BlockDimZ'', [
       reads Get (GetData (data_field 32 5 0)), builds Get (GetData (data_field 32 5 0)),
       builds Set (SetData (data_field 32 5 0))]),
     (''SharedMemBytes'', [
       reads Get (GetData (data_field 32 6 0)), builds Get (GetData (data_field 32 6 0)),
       builds Set (SetData (data_field 32 6 0))]),
     (''Params'', [
       reads Has (PointerIsNull (pointer_field 1)), builds Has (PointerIsNull (pointer_field 1)),
       reads Get (PointerGet (pointer_field 1)), builds Get (PointerGet (pointer_field 1)),
       builds Set (PointerSet (pointer_field 1)), builds InitSized (PointerInit (pointer_field 1)),
       builds Adopt (PointerAdopt (pointer_field 1)), builds Disown (PointerDisown (pointer_field 1))])]"

lemma HookLauncher_LaunchKernelParams_struct_ok: "struct_ok HookLauncher_LaunchKernelParams_spec HookLauncher_LaunchKernelParams_bodies"
  by (rule struct_okI) (simp add: HookLauncher_LaunchKernelParams_spec_def layouts_sound_HookLauncher, simp_all add: HookLauncher_LaunchKernelParams_spec_def HookLauncher_LaunchKernelParams_bodies_def HookLauncher_LaunchKernelParams_layout_def
    struct_layout_def HookLauncher_LaunchKernelParams_func_def HookLauncher_LaunchKernelParams_gridDimX_def
      HookLauncher_LaunchKernelParams_gridDimY_def HookLauncher_LaunchKernelParams_gridDimZ_def
      HookLauncher_LaunchKernelParams_blockDimX_def HookLauncher_LaunchKernelParams_blockDimY_def
      HookLauncher_LaunchKernelParams_blockDimZ_def HookLauncher_LaunchKernelParams_sharedMemBytes_def
      HookLauncher_LaunchKernelParams_params_def)

text \<open>\<open>HookLauncher::LaunchKernelResults\<close>\<close>

definition HookLauncher_LaunchKernelResults_spec :: struct_spec where
  "HookLauncher_LaunchKernelResults_spec = \<lparr>spec_layout = HookLauncher_LaunchKernelResults_layout, spec_tag = None, spec_fields = [
     (''Ack'', InPointer HookLauncher_LaunchKernelResults_ack True, None)]\<rparr>"
definition HookLauncher_LaunchKernelResults_bodies :: struct_bodies where
  "HookLauncher_LaunchKernelResults_bodies = [
     (''Ack'', [
       reads Has (PointerIsNull (pointer_field 0)), builds Has (PointerIsNull (pointer_field 0)),
       reads Get (PointerGet (pointer_field 0)), builds Get (PointerGetStruct (pointer_field 0)),
       pipes Get (PointerGet (pointer_field 0)), builds Set (PointerSet (pointer_field 0)),
       builds Init (PointerInit (pointer_field 0)), builds Adopt (PointerAdopt (pointer_field 0)),
       builds Disown (PointerDisown (pointer_field 0))])]"

lemma HookLauncher_LaunchKernelResults_struct_ok: "struct_ok HookLauncher_LaunchKernelResults_spec HookLauncher_LaunchKernelResults_bodies"
  by (rule struct_okI) (simp add: HookLauncher_LaunchKernelResults_spec_def layouts_sound_HookLauncher, simp_all add: HookLauncher_LaunchKernelResults_spec_def HookLauncher_LaunchKernelResults_bodies_def HookLauncher_LaunchKernelResults_layout_def
    struct_layout_def HookLauncher_LaunchKernelResults_ack_def)

text \<open>\<open>BandwidthResult\<close>\<close>

definition BandwidthResult_spec :: struct_spec where
  "BandwidthResult_spec = \<lparr>spec_layout = BandwidthResult_layout, spec_tag = None, spec_fields = [
     (''Throughput'', InData BandwidthResult_throughput, None), (''Latency'', InData BandwidthResult_latency, None)]\<rparr>"
definition BandwidthResult_bodies :: struct_bodies where
  "BandwidthResult_bodies = [
     (''Throughput'', [
       reads Get (GetData (data_field 32 0 0)), builds Get (GetData (data_field 32 0 0)),
       builds Set (SetData (data_field 32 0 0))]),
     (''Latency'', [
       reads Get (GetData (data_field 32 1 0)), builds Get (GetData (data_field 32 1 0)),
       builds Set (SetData (data_field 32 1 0))])]"

lemma BandwidthResult_struct_ok: "struct_ok BandwidthResult_spec BandwidthResult_bodies"
  by (rule struct_okI) (simp add: BandwidthResult_spec_def layouts_sound_HookLauncher, simp_all add: BandwidthResult_spec_def BandwidthResult_bodies_def BandwidthResult_layout_def
    struct_layout_def BandwidthResult_throughput_def BandwidthResult_latency_def)

text \<open>\<open>TaskStatus\<close>\<close>

definition TaskStatus_spec :: struct_spec where
  "TaskStatus_spec = \<lparr>spec_layout = TaskStatus_layout, spec_tag = None, spec_fields = [
     (''Progress'', InData TaskStatus_progress, None), (''EstimatedTime'', InData TaskStatus_estimatedTime, None)]\<rparr>"
definition TaskStatus_bodies :: struct_bodies where
  "TaskStatus_bodies = [
     (''Progress'', [
       reads Get (GetData (data_field 8 0 0)), builds Get (GetData (data_field 8 0 0)),
       builds Set (SetData (data_field 8 0 0))]),
     (''EstimatedTime'', [
       reads Get (GetData (data_field 32 1 0)), builds Get (GetData (data_field 32 1 0)),
       builds Set (SetData (data_field 32 1 0))])]"

lemma TaskStatus_struct_ok: "struct_ok TaskStatus_spec TaskStatus_bodies"
  by (rule struct_okI) (simp add: TaskStatus_spec_def layouts_sound_HookLauncher, simp_all add: TaskStatus_spec_def TaskStatus_bodies_def TaskStatus_layout_def
    struct_layout_def TaskStatus_progress_def TaskStatus_estimatedTime_def)

text \<open>\<open>NodeInfo\<close>\<close>

definition NodeInfo_spec :: struct_spec where
  "NodeInfo_spec = \<lparr>spec_layout = NodeInfo_layout, spec_tag = None, spec_fields = [
     (''NodeId'', InData NodeInfo_nodeId, None), (''MemoryType'', InPointer NodeInfo_memoryType False, None),
     (''Error'', InData NodeInfo_error, None)]\<rparr>"
definition NodeInfo_bodies :: struct_bodies where
  "NodeInfo_bodies = [
     (''NodeId'', [
       reads Get (GetData (data_field 32 0 0)), builds Get (GetData (data_field 32 0 0)),
       builds Set (SetData (data_field 32 0 0))]),
     (''MemoryType'', [
       reads Has (PointerIsNull (pointer_field 0)), builds Has (PointerIsNull (pointer_field 0)),
       reads Get (PointerGet (pointer_field 0)), builds Get (PointerGet (pointer_field 0)),
       builds Set (PointerSet (pointer_field 0)), builds InitSized (PointerInit (pointer_field 0)),
       builds Adopt (PointerAdopt (pointer_field 0)), builds Disown (PointerDisown (pointer_field 0))]),
     (''Error'', [
       reads Get (GetData (data_field 16 2 0)), builds Get (GetData (data_field 16 2 0)),
       builds Set (SetData (data_field 16 2 0))])]"

lemma NodeInfo_struct_ok: "struct_ok NodeInfo_spec NodeInfo_bodies"
  by (rule struct_okI) (simp add: NodeInfo_spec_def layouts_sound_HookLauncher, simp_all add: NodeInfo_spec_def NodeInfo_bodies_def NodeInfo_layout_def
    struct_layout_def NodeInfo_nodeId_def NodeInfo_memoryType_def NodeInfo_error_def)

text \<open>All structs of the file.\<close>

definition structs_HookLauncher :: "(struct_spec \<times> struct_bodies) list" where
  "structs_HookLauncher = [
     (MemcpyPlan_spec, MemcpyPlan_bodies), (NodeStatus_spec, NodeStatus_bodies),
     (AllocationPlan_spec, AllocationPlan_bodies),
     (HookLauncher_PlanMemcpyHtoDParams_spec, HookLauncher_PlanMemcpyHtoDParams_bodies),
     (HookLauncher_PlanMemcpyHtoDResults_spec, HookLauncher_PlanMemcpyHtoDResults_bodies),
     (HookLauncher_PlanMemcpyDtoHParams_spec, HookLauncher_PlanMemcpyDtoHParams_bodies),
     (HookLauncher_PlanMemcpyDtoHResults_spec, HookLauncher_PlanMemcpyDtoHResults_bodies),
     (HookLauncher_GetNodeStatusParams_spec, HookLauncher_GetNodeStatusParams_bodies),
     (HookLauncher_GetNodeStatusResults_spec, HookLauncher_GetNodeStatusResults_bodies),
     (HookLauncher_PrefetchDataParams_spec, HookLauncher_PrefetchDataParams_bodies),
     (HookLauncher_PrefetchDataResults_spec, HookLauncher_PrefetchDataResults_bodies),
     (HookLauncher_MeasureBandwidthParams_spec, HookLauncher_MeasureBandwidthParams_bodies),
     (HookLauncher_MeasureBandwidthResults_spec, HookLauncher_MeasureBandwidthResults_bodies),
     (HookLauncher_TrackAsyncTaskParams_spec, HookLauncher_TrackAsyncTaskParams_bodies),
     (HookLauncher_TrackAsyncTaskResults_spec, HookLauncher_TrackAsyncTaskResults_bodies),
     (HookLauncher_GetMemoryLocationParams_spec, HookLauncher_GetMemoryLocationParams_bodies),
     (HookLauncher_GetMemoryLocationResults_spec, HookLauncher_GetMemoryLocationResults_bodies),
     (HookLauncher_AdvisePrefetchParams_spec, HookLauncher_AdvisePrefetchParams_bodies),
     (HookLauncher_AdvisePrefetchResults_spec, HookLauncher_AdvisePrefetchResults_bodies),
     (HookLauncher_RequestRdmaPlanParams_spec, HookLauncher_RequestRdmaPlanParams_bodies),
     (HookLauncher_RequestRdmaPlanResults_spec, HookLauncher_RequestRdmaPlanResults_bodies),
     (HookLauncher_RequestAllocationPlanParams_spec, HookLauncher_RequestAllocationPlanParams_bodies),
     (HookLauncher_RequestAllocationPlanResults_spec, HookLauncher_RequestAllocationPlanResults_bodies),
     (HookLauncher_RequestFreePlanParams_spec, HookLauncher_RequestFreePlanParams_bodies),
     (HookLauncher_RequestFreePlanResults_spec, HookLauncher_RequestFreePlanResults_bodies),
     (HookLauncher_LaunchKernelParams_spec, HookLauncher_LaunchKernelParams_bodies),
     (HookLauncher_LaunchKernelResults_spec, HookLauncher_LaunchKernelResults_bodies),
     (BandwidthResult_spec, BandwidthResult_bodies), (TaskStatus_spec, TaskStatus_bodies),
     (NodeInfo_spec, NodeInfo_bodies)]"

lemma structs_HookLauncher_ok: "list_all (\<lambda>(S, bs). struct_ok S bs) structs_HookLauncher"
  by (simp add: structs_HookLauncher_def MemcpyPlan_struct_ok NodeStatus_struct_ok AllocationPlan_struct_ok
      HookLauncher_PlanMemcpyHtoDParams_struct_ok HookLauncher_PlanMemcpyHtoDResults_struct_ok
      HookLauncher_PlanMemcpyDtoHParams_struct_ok HookLauncher_PlanMemcpyDtoHResults_struct_ok
      HookLauncher_GetNodeStatusParams_struct_ok HookLauncher_GetNodeStatusResults_struct_ok
      HookLauncher_PrefetchDataParams_struct_ok HookLauncher_PrefetchDataResults_struct_ok
      HookLauncher_MeasureBandwidthParams_struct_ok HookLauncher_MeasureBandwidthResults_struct_ok
      HookLauncher_TrackAsyncTaskParams_struct_ok HookLauncher_TrackAsyncTaskResults_struct_ok
      HookLauncher_GetMemoryLocationParams_struct_ok HookLauncher_GetMemoryLocationResults_struct_ok
      HookLauncher_AdvisePrefetchParams_struct_ok HookLauncher_AdvisePrefetchResults_struct_ok
      HookLauncher_RequestRdmaPlanParams_struct_ok HookLauncher_RequestRdmaPlanResults_struct_ok
      HookLauncher_RequestAllocationPlanParams_struct_ok HookLauncher_RequestAllocationPlanResults_struct_ok
      HookLauncher_RequestFreePlanParams_struct_ok HookLauncher_RequestFreePlanResults_struct_ok
      HookLauncher_LaunchKernelParams_struct_ok HookLauncher_LaunchKernelResults_struct_ok BandwidthResult_struct_ok
      TaskStatus_struct_ok NodeInfo_struct_ok)

end
