(* ===== verification/BodiesGpuControl.thy ===== *)
theory BodiesGpuControl
  imports Accessors WireGpuControl
begin

section \<open>The bodies of the accessors of gpu-control.capnp\<close>

text \<open>
  \<open>proto/proto/gpu-control.capnp.h\<close>: for every generated struct the bodies of its accessors, field by field in
  the order of the source, each with the constants that stand in it, and that they are those of the
  struct's fields.
\<close>

lemmas layouts_sound_GpuControl = wireGpuControl_layouts_ok [unfolded wireGpuControl_layouts_def list.pred_inject conj_assoc]

text \<open>\<open>GpuList\<close>\<close>

definition GpuList_spec :: struct_spec where
  "GpuList_spec = \<lparr>spec_layout = GpuList_layout, spec_tag = None, spec_fields = [
     (''Gpus'', InPointer GpuList_gpus False, None)]\<rparr>"
definition GpuList_bodies :: struct_bodies where
  "GpuList_bodies = [
     (''Gpus'', [
       reads Has (PointerIsNull (pointer_field 0)), builds Has (PointerIsNull (pointer_field 0)),
       reads Get (PointerGet (pointer_field 0)), builds Get (PointerGet (pointer_field 0)),
       builds Set (PointerSet (pointer_field 0)), builds InitSized (PointerInit (pointer_field 0)),
       builds Adopt (PointerAdopt (pointer_field 0)), builds Disown (PointerDisown (pointer_field 0))])]"

lemma GpuList_struct_ok: "struct_ok GpuList_spec GpuList_bodies"
  by (rule struct_okI) (simp add: GpuList_spec_def layouts_sound_GpuControl, simp_all add: GpuList_spec_def GpuList_bodies_def GpuList_layout_def
    struct_layout_def GpuList_gpus_def)

text \<open>\<open>GpuRequest\<close>\<close>

definition GpuRequest_spec :: struct_spec where
  "GpuRequest_spec = \<lparr>spec_layout = GpuRequest_layout, spec_tag = None, spec_fields = [
     (''Uuid'', InPointer GpuRequest_uuid False, None)]\<rparr>"
definition GpuRequest_bodies :: struct_bodies where
  "GpuRequest_bodies = [
     (''Uuid'', [
       reads Has (PointerIsNull (pointer_field 0)), builds Has (PointerIsNull (pointer_field 0)),
       reads Get (PointerGet (pointer_field 0)), builds Get (PointerGet (pointer_field 0)),
       builds Set (PointerSet (pointer_field 0)), builds InitSized (PointerInit (pointer_field 0)),
       builds Adopt (PointerAdopt (pointer_field 0)), builds Disown (PointerDisown (pointer_field 0))])]"

lemma GpuRequest_struct_ok: "struct_ok GpuRequest_spec GpuRequest_bodies"
  by (rule struct_okI) (simp add: GpuRequest_spec_def layouts_sound_GpuControl, simp_all add: GpuRequest_spec_def GpuRequest_bodies_def GpuRequest_layout_def
    struct_layout_def GpuRequest_uuid_def)

text \<open>\<open>GpuStatus\<close>\<close>

definition GpuStatus_spec :: struct_spec where
  "GpuStatus_spec = \<lparr>spec_layout = GpuStatus_layout, spec_tag = None, spec_fields = [
     (''UsedMemory'', InData GpuStatus_usedMemory, None), (''Utilization'', InData GpuStatus_utilization, None)]\<rparr>"
definition GpuStatus_bodies :: struct_bodies where
  "GpuStatus_bodies = [
     (''UsedMemory'', [
       reads Get (GetData (data_field 64 0 0)), builds Get (GetData (data_field 64 0 0)),
       builds Set (SetData (data_field 64 0 0))]),
     (''Utilization'', [
       reads Get (GetData (data_field 32 2 0)), builds Get (GetData (data_field 32 2 0)),
       builds Set (SetData (data_field 32 2 0))])]"

lemma GpuStatus_struct_ok: "struct_ok GpuStatus_spec GpuStatus_bodies"
  by (rule struct_okI) (simp add: GpuStatus_spec_def layouts_sound_GpuControl, simp_all add: GpuStatus_spec_def GpuStatus_bodies_def GpuStatus_layout_def
    struct_layout_def GpuStatus_usedMemory_def GpuStatus_utilization_def)

text \<open>\<open>Path\<close>\<close>

definition Path_spec :: struct_spec where
  "Path_spec = \<lparr>spec_layout = Path_layout, spec_tag = None, spec_fields = [
     (''Type'', InData Path_type, None), (''Steps'', InPointer Path_steps False, None),
     (''Bandwidth'', InData Path_bandwidth, None)]\<rparr>"
definition Path_bodies :: struct_bodies where
  "Path_bodies = [
     (''Type'', [
       reads Get (GetData (data_field 16 0 0)), builds Get (GetData (data_field 16 0 0)),
       builds Set (SetData (data_field 16 0 0))]),
     (''Steps'', [
       reads Has (PointerIsNull (pointer_field 0)), builds Has (PointerIsNull (pointer_field 0)),
       reads Get (PointerGet (pointer_field 0)), builds Get (PointerGet (pointer_field 0)),
       builds Set (PointerSet (pointer_field 0)), builds InitSized (PointerInit (pointer_field 0)),
       builds Adopt (PointerAdopt (pointer_field 0)), builds Disown (PointerDisown (pointer_field 0))]),
     (''Bandwidth'', [
       reads Get (GetData (data_field 32 1 0)), builds Get (GetData (data_field 32 1 0)),
       builds Set (SetData (data_field 32 1 0))])]"

lemma Path_struct_ok: "struct_ok Path_spec Path_bodies"
  by (rule struct_okI) (simp add: Path_spec_def layouts_sound_GpuControl, simp_all add: Path_spec_def Path_bodies_def Path_layout_def
    struct_layout_def Path_type_def Path_steps_def Path_bandwidth_def)

text \<open>\<open>Step\<close>\<close>

definition Step_spec :: struct_spec where
  "Step_spec = \<lparr>spec_layout = Step_layout, spec_tag = None, spec_fields = [
     (''Device'', InPointer Step_device False, None), (''MemType'', InData Step_memType, None),
     (''NumaNode'', InData Step_numaNode, None)]\<rparr>"
definition Step_bodies :: struct_bodies where
  "Step_bodies = [
     (''Device'', [
       reads Has (PointerIsNull (pointer_field 0)), builds Has (PointerIsNull (pointer_field 0)),
       reads Get (PointerGet (pointer_field 0)), builds Get (PointerGet (pointer_field 0)),
       builds Set (PointerSet (pointer_field 0)), builds InitSized (PointerInit (pointer_field 0)),
       builds Adopt (PointerAdopt (pointer_field 0)), builds Disown (PointerDisown (pointer_field 0))]),
     (''MemType'', [
       reads Get (GetData (data_field 16 0 0)), builds Get (GetData (data_field 16 0 0)),
       builds Set (SetData (data_field 16 0 0))]),
     (''NumaNode'', [
       reads Get (GetData (data_field 32 1 0)), builds Get (GetData (data_field 32 1 0)),
       builds Set (SetData (data_field 32 1 0))])]"

lemma Step_struct_ok: "struct_ok Step_spec Step_bodies"
  by (rule struct_okI) (simp add: Step_spec_def layouts_sound_GpuControl, simp_all add: Step_spec_def Step_bodies_def Step_layout_def
    struct_layout_def Step_device_def Step_memType_def Step_numaNode_def)

text \<open>\<open>Metrics\<close>\<close>

definition Metrics_spec :: struct_spec where
  "Metrics_spec = \<lparr>spec_layout = Metrics_layout, spec_tag = None, spec_fields = [
     (''Throughput'', InData Metrics_throughput, None), (''Latency'', InData Metrics_latency, None),
     (''ErrorRate'', InData Metrics_errorRate, None)]\<rparr>"
definition Metrics_bodies :: struct_bodies where
  "Metrics_bodies = [
     (''Throughput'', [
       reads Get (GetData (data_field 32 0 0)), builds Get (GetData (data_field 32 0 0)),
       builds Set (SetData (data_field 32 0 0))]),
     (''Latency'', [
       reads Get (GetData (data_field 32 1 0)), builds Get (GetData (data_field 32 1 0)),
       builds Set (SetData (data_field 32 1 0))]),
     (''ErrorRate'', [
       reads Get (GetData (data_field 32 2 0)), builds Get (GetData (data_field 32 2 0)),
       builds Set (SetData (data_field 32 2 0))])]"

lemma Metrics_struct_ok: "struct_ok Metrics_spec Metrics_bodies"
  by (rule struct_okI) (simp add: Metrics_spec_def layouts_sound_GpuControl, simp_all add: Metrics_spec_def Metrics_bodies_def Metrics_layout_def
    struct_layout_def Metrics_throughput_def Metrics_latency_def Metrics_errorRate_def)

text \<open>\<open>Scheduler::RequestPathParams\<close>\<close>

definition Scheduler_RequestPathParams_spec :: struct_spec where
  "Scheduler_RequestPathParams_spec = \<lparr>spec_layout = Scheduler_RequestPathParams_layout, spec_tag = None, spec_fields = [
     (''Src'', InPointer Scheduler_RequestPathParams_src False, None),
     (''Dst'', InPointer Scheduler_RequestPathParams_dst False, None)]\<rparr>"
definition Scheduler_RequestPathParams_bodies :: struct_bodies where
  "Scheduler_RequestPathParams_bodies = [
     (''Src'', [
       reads Has (PointerIsNull (pointer_field 0)), builds Has (PointerIsNull (pointer_field 0)),
       reads Get (PointerGet (pointer_field 0)), builds Get (PointerGet (pointer_field 0)),
       builds Set (PointerSet (pointer_field 0)), builds InitSized (PointerInit (pointer_field 0)),
       builds Adopt (PointerAdopt (pointer_field 0)), builds Disown (PointerDisown (pointer_field 0))]),
     (''Dst'', [
       reads Has (PointerIsNull (pointer_field 1)), builds Has (PointerIsNull (pointer_field 1)),
       reads Get (PointerGet (pointer_field 1)), builds Get (PointerGet (pointer_field 1)),
       builds Set (PointerSet (pointer_field 1)), builds InitSized (PointerInit (pointer_field 1)),
       builds Adopt (PointerAdopt (pointer_field 1)), builds Disown (PointerDisown (pointer_field 1))])]"

lemma Scheduler_RequestPathParams_struct_ok: "struct_ok Scheduler_RequestPathParams_spec Scheduler_RequestPathParams_bodies"
  by (rule struct_okI) (simp add: Scheduler_RequestPathParams_spec_def layouts_sound_GpuControl, simp_all add: Scheduler_RequestPathParams_spec_def Scheduler_RequestPathParams_bodies_def Scheduler_RequestPathParams_layout_def
    struct_layout_def Scheduler_RequestPathParams_src_def Scheduler_RequestPathParams_dst_def)

text \<open>\<open>Scheduler::RequestPathResults\<close>\<close>

definition Scheduler_RequestPathResults_spec :: struct_spec where
  "Scheduler_RequestPathResults_spec = \<lparr>spec_layout = Scheduler_RequestPathResults_layout, spec_tag = None, spec_fields = [
     (''Path'', InPointer Scheduler_RequestPathResults_path True, None)]\<rparr>"
definition Scheduler_RequestPathResults_bodies :: struct_bodies where
  "Scheduler_RequestPathResults_bodies = [
     (''Path'', [
       reads Has (PointerIsNull (pointer_field 0)), builds Has (PointerIsNull (pointer_field 0)),
       reads Get (PointerGet (pointer_field 0)), builds Get (PointerGetStruct (pointer_field 0)),
       pipes Get (PointerGet (pointer_field 0)), builds Set (PointerSet (pointer_field 0)),
       builds Init (PointerInit (pointer_field 0)), builds Adopt (PointerAdopt (pointer_field 0)),
       builds Disown (PointerDisown (pointer_field 0))])]"

lemma Scheduler_RequestPathResults_struct_ok: "struct_ok Scheduler_RequestPathResults_spec Scheduler_RequestPathResults_bodies"
  by (rule struct_okI) (simp add: Scheduler_RequestPathResults_spec_def layouts_sound_GpuControl, simp_all add: Scheduler_RequestPathResults_spec_def Scheduler_RequestPathResults_bodies_def Scheduler_RequestPathResults_layout_def
    struct_layout_def Scheduler_RequestPathResults_path_def)

text \<open>\<open>Scheduler::ReportMetricsParams\<close>\<close>

definition Scheduler_ReportMetricsParams_spec :: struct_spec where
  "Scheduler_ReportMetricsParams_spec = \<lparr>spec_layout = Scheduler_ReportMetricsParams_layout, spec_tag = None, spec_fields = [
     (''Metrics'', InPointer Scheduler_ReportMetricsParams_metrics True, None)]\<rparr>"
definition Scheduler_ReportMetricsParams_bodies :: struct_bodies where
  "Scheduler_ReportMetricsParams_bodies = [
     (''Metrics'', [
       reads Has (PointerIsNull (pointer_field 0)), builds Has (PointerIsNull (pointer_field 0)),
       reads Get (PointerGet (pointer_field 0)), builds Get (PointerGetStruct (pointer_field 0)),
       pipes Get (PointerGet (pointer_field 0)), builds Set (PointerSet (pointer_field 0)),
       builds Init (PointerInit (pointer_field 0)), builds Adopt (PointerAdopt (pointer_field 0)),
       builds Disown (PointerDisown (pointer_field 0))])]"

lemma Scheduler_ReportMetricsParams_struct_ok: "struct_ok Scheduler_ReportMetricsParams_spec Scheduler_ReportMetricsParams_bodies"
  by (rule struct_okI) (simp add: Scheduler_ReportMetricsParams_spec_def layouts_sound_GpuControl, simp_all add: Scheduler_ReportMetricsParams_spec_def Scheduler_ReportMetricsParams_bodies_def Scheduler_ReportMetricsParams_layout_def
    struct_layout_def Scheduler_ReportMetricsParams_metrics_def)

text \<open>\<open>Scheduler::ReportMetricsResults\<close>\<close>

definition Scheduler_ReportMetricsResults_spec :: struct_spec where
  "Scheduler_ReportMetricsResults_spec = \<lparr>spec_layout = Scheduler_ReportMetricsResults_layout, spec_tag = None, spec_fields = []\<rparr>"
definition Scheduler_ReportMetricsResults_bodies :: struct_bodies where
  "Scheduler_ReportMetricsResults_bodies = []"

lemma Scheduler_ReportMetricsResults_struct_ok: "struct_ok Scheduler_ReportMetricsResults_spec Scheduler_ReportMetricsResults_bodies"
  by (rule struct_okI) (simp add: Scheduler_ReportMetricsResults_spec_def layouts_sound_GpuControl, simp_all add: Scheduler_ReportMetricsResults_spec_def Scheduler_ReportMetricsResults_bodies_def Scheduler_ReportMetricsResults_layout_def
    struct_layout_def )

text \<open>\<open>Scheduler::RegisterGpuParams\<close>\<close>

definition Scheduler_RegisterGpuParams_spec :: struct_spec where
  "Scheduler_RegisterGpuParams_spec = \<lparr>spec_layout = Scheduler_RegisterGpuParams_layout, spec_tag = None, spec_fields = [
     (''Info'', InPointer Scheduler_RegisterGpuParams_info True, None)]\<rparr>"
definition Scheduler_RegisterGpuParams_bodies :: struct_bodies where
  "Scheduler_RegisterGpuParams_bodies = [
     (''Info'', [
       reads Has (PointerIsNull (pointer_field 0)), builds Has (PointerIsNull (pointer_field 0)),
       reads Get (PointerGet (pointer_field 0)), builds Get (PointerGetStruct (pointer_field 0)),
       pipes Get (PointerGet (pointer_field 0)), builds Set (PointerSet (pointer_field 0)),
       builds Init (PointerInit (pointer_field 0)), builds Adopt (PointerAdopt (pointer_field 0)),
       builds Disown (PointerDisown (pointer_field 0))])]"

lemma Scheduler_RegisterGpuParams_struct_ok: "struct_ok Scheduler_RegisterGpuParams_spec Scheduler_RegisterGpuParams_bodies"
  by (rule struct_okI) (simp add: Scheduler_RegisterGpuParams_spec_def layouts_sound_GpuControl, simp_all add: Scheduler_RegisterGpuParams_spec_def Scheduler_RegisterGpuParams_bodies_def Scheduler_RegisterGpuParams_layout_def
    struct_layout_def Scheduler_RegisterGpuParams_info_def)

text \<open>\<open>Scheduler::RegisterGpuResults\<close>\<close>

definition Scheduler_RegisterGpuResults_spec :: struct_spec where
  "Scheduler_RegisterGpuResults_spec = \<lparr>spec_layout = Scheduler_RegisterGpuResults_layout, spec_tag = None, spec_fields = [
     (''Success'', InData Scheduler_RegisterGpuResults_success, None)]\<rparr>"
definition Scheduler_RegisterGpuResults_bodies :: struct_bodies where
  "Scheduler_RegisterGpuResults_bodies = [
     (''Success'', [
       reads Get (GetData (data_field 1 0 0)), builds Get (GetData (data_field 1 0 0)),
       builds Set (SetData (data_field 1 0 0))])]"

lemma Scheduler_RegisterGpuResults_struct_ok: "struct_ok Scheduler_RegisterGpuResults_spec Scheduler_RegisterGpuResults_bodies"
  by (rule struct_okI) (simp add: Scheduler_RegisterGpuResults_spec_def layouts_sound_GpuControl, simp_all add: Scheduler_RegisterGpuResults_spec_def Scheduler_RegisterGpuResults_bodies_def Scheduler_RegisterGpuResults_layout_def
    struct_layout_def Scheduler_RegisterGpuResults_success_def)

text \<open>\<open>Scheduler::ListGpusParams\<close>\<close>

definition Scheduler_ListGpusParams_spec :: struct_spec where
  "Scheduler_ListGpusParams_spec = \<lparr>spec_layout = Scheduler_ListGpusParams_layout, spec_tag = None, spec_fields = []\<rparr>"
definition Scheduler_ListGpusParams_bodies :: struct_bodies where
  "Scheduler_ListGpusParams_bodies = []"

lemma Scheduler_ListGpusParams_struct_ok: "struct_ok Scheduler_ListGpusParams_spec Scheduler_ListGpusParams_bodies"
  by (rule struct_okI) (simp add: Scheduler_ListGpusParams_spec_def layouts_sound_GpuControl, simp_all add: Scheduler_ListGpusParams_spec_def Scheduler_ListGpusParams_bodies_def Scheduler_ListGpusParams_layout_def
    struct_layout_def )

text \<open>\<open>Scheduler::ListGpusResults\<close>\<close>

definition Scheduler_ListGpusResults_spec :: struct_spec where
  "Scheduler_ListGpusResults_spec = \<lparr>spec_layout = Scheduler_ListGpusResults_layout, spec_tag = None, spec_fields = [
     (''Gpus'', InPointer Scheduler_ListGpusResults_gpus True, None)]\<rparr>"
definition Scheduler_ListGpusResults_bodies :: struct_bodies where
  "Scheduler_ListGpusResults_bodies = [
     (''Gpus'', [
       reads Has (PointerIsNull (pointer_field 0)), builds Has (PointerIsNull (pointer_field 0)),
       reads Get (PointerGet (pointer_field 0)), builds Get (PointerGetStruct (pointer_field 0)),
       pipes Get (PointerGet (pointer_field 0)), builds Set (PointerSet (pointer_field 0)),
       builds Init (PointerInit (pointer_field 0)), builds Adopt (PointerAdopt (pointer_field 0)),
       builds Disown (PointerDisown (pointer_field 0))])]"

lemma Scheduler_ListGpusResults_struct_ok: "struct_ok Scheduler_ListGpusResults_spec Scheduler_ListGpusResults_bodies"
  by (rule struct_okI) (simp add: Scheduler_ListGpusResults_spec_def layouts_sound_GpuControl, simp_all add: Scheduler_ListGpusResults_spec_def Scheduler_ListGpusResults_bodies_def Scheduler_ListGpusResults_layout_def
    struct_layout_def Scheduler_ListGpusResults_gpus_def)

text \<open>\<open>Scheduler::GetGpuStatusParams\<close>\<close>

definition Scheduler_GetGpuStatusParams_spec :: struct_spec where
  "Scheduler_GetGpuStatusParams_spec = \<lparr>spec_layout = Scheduler_GetGpuStatusParams_layout, spec_tag = None, spec_fields = [
     (''Request'', InPointer Scheduler_GetGpuStatusParams_request True, None)]\<rparr>"
definition Scheduler_GetGpuStatusParams_bodies :: struct_bodies where
  "Scheduler_GetGpuStatusParams_bodies = [
     (''Request'', [
       reads Has (PointerIsNull (pointer_field 0)), builds Has (PointerIsNull (pointer_field 0)),
       reads Get (PointerGet (pointer_field 0)), builds Get (PointerGetStruct (pointer_field 0)),
       pipes Get (PointerGet (pointer_field 0)), builds Set (PointerSet (pointer_field 0)),
       builds Init (PointerInit (pointer_field 0)), builds Adopt (PointerAdopt (pointer_field 0)),
       builds Disown (PointerDisown (pointer_field 0))])]"

lemma Scheduler_GetGpuStatusParams_struct_ok: "struct_ok Scheduler_GetGpuStatusParams_spec Scheduler_GetGpuStatusParams_bodies"
  by (rule struct_okI) (simp add: Scheduler_GetGpuStatusParams_spec_def layouts_sound_GpuControl, simp_all add: Scheduler_GetGpuStatusParams_spec_def Scheduler_GetGpuStatusParams_bodies_def Scheduler_GetGpuStatusParams_layout_def
    struct_layout_def Scheduler_GetGpuStatusParams_request_def)

text \<open>\<open>Scheduler::GetGpuStatusResults\<close>\<close>

definition Scheduler_GetGpuStatusResults_spec :: struct_spec where
  "Scheduler_GetGpuStatusResults_spec = \<lparr>spec_layout = Scheduler_GetGpuStatusResults_layout, spec_tag = None, spec_fields = [
     (''Status'', InPointer Scheduler_GetGpuStatusResults_status True, None)]\<rparr>"
definition Scheduler_GetGpuStatusResults_bodies :: struct_bodies where
  "Scheduler_GetGpuStatusResults_bodies = [
     (''Status'', [
       reads Has (PointerIsNull (pointer_field 0)), builds Has (PointerIsNull (pointer_field 0)),
       reads Get (PointerGet (pointer_field 0)), builds Get (PointerGetStruct (pointer_field 0)),
       pipes Get (PointerGet (pointer_field 0)), builds Set (PointerSet (pointer_field 0)),
       builds Init (PointerInit (pointer_field 0)), builds Adopt (PointerAdopt (pointer_field 0)),
       builds Disown (PointerDisown (pointer_field 0))])]"

lemma Scheduler_GetGpuStatusResults_struct_ok: "struct_ok Scheduler_GetGpuStatusResults_spec Scheduler_GetGpuStatusResults_bodies"
  by (rule struct_okI) (simp add: Scheduler_GetGpuStatusResults_spec_def layouts_sound_GpuControl, simp_all add: Scheduler_GetGpuStatusResults_spec_def Scheduler_GetGpuStatusResults_bodies_def Scheduler_GetGpuStatusResults_layout_def
    struct_layout_def Scheduler_GetGpuStatusResults_status_def)

text \<open>\<open>Scheduler::AcquireGpuParams\<close>\<close>

definition Scheduler_AcquireGpuParams_spec :: struct_spec where
  "Scheduler_AcquireGpuParams_spec = \<lparr>spec_layout = Scheduler_AcquireGpuParams_layout, spec_tag = None, spec_fields = [
     (''Request'', InPointer Scheduler_AcquireGpuParams_request True, None)]\<rparr>"
definition Scheduler_AcquireGpuParams_bodies :: struct_bodies where
  "Scheduler_AcquireGpuParams_bodies = [
     (''Request'', [
       reads Has (PointerIsNull (pointer_field 0)), builds Has (PointerIsNull (pointer_field 0)),
       reads Get (PointerGet (pointer_field 0)), builds Get (PointerGetStruct (pointer_field 0)),
       pipes Get (PointerGet (pointer_field 0)), builds Set (PointerSet (pointer_field 0)),
       builds Init (PointerInit (pointer_field 0)), builds Adopt (PointerAdopt (pointer_field 0)),
       builds Disown (PointerDisown (pointer_field 0))])]"

lemma Scheduler_AcquireGpuParams_struct_ok: "struct_ok Scheduler_AcquireGpuParams_spec Scheduler_AcquireGpuParams_bodies"
  by (rule struct_okI) (simp add: Scheduler_AcquireGpuParams_spec_def layouts_sound_GpuControl, simp_all add: Scheduler_AcquireGpuParams_spec_def Scheduler_AcquireGpuParams_bodies_def Scheduler_AcquireGpuParams_layout_def
    struct_layout_def Scheduler_AcquireGpuParams_request_def)

text \<open>\<open>Scheduler::AcquireGpuResults\<close>\<close>

definition Scheduler_AcquireGpuResults_spec :: struct_spec where
  "Scheduler_AcquireGpuResults_spec = \<lparr>spec_layout = Scheduler_AcquireGpuResults_layout, spec_tag = None, spec_fields = [
     (''Ack'', InPointer Scheduler_AcquireGpuResults_ack True, None)]\<rparr>"
definition Scheduler_AcquireGpuResults_bodies :: struct_bodies where
  "Scheduler_AcquireGpuResults_bodies = [
     (''Ack'', [
       reads Has (PointerIsNull (pointer_field 0)), builds Has (PointerIsNull (pointer_field 0)),
       reads Get (PointerGet (pointer_field 0)), builds Get (PointerGetStruct (pointer_field 0)),
       pipes Get (PointerGet (pointer_field 0)), builds Set (PointerSet (pointer_field 0)),
       builds Init (PointerInit (pointer_field 0)), builds Adopt (PointerAdopt (pointer_field 0)),
       builds Disown (PointerDisown (pointer_field 0))])]"

lemma Scheduler_AcquireGpuResults_struct_ok: "struct_ok Scheduler_AcquireGpuResults_spec Scheduler_AcquireGpuResults_bodies"
  by (rule struct_okI) (simp add: Scheduler_AcquireGpuResults_spec_def layouts_sound_GpuControl, simp_all add: Scheduler_AcquireGpuResults_spec_def Scheduler_AcquireGpuResults_bodies_def Scheduler_AcquireGpuResults_layout_def
    struct_layout_def Scheduler_AcquireGpuResults_ack_def)

text \<open>\<open>Scheduler::ReleaseGpuParams\<close>\<close>

definition Scheduler_ReleaseGpuParams_spec :: struct_spec where
  "Scheduler_ReleaseGpuParams_spec = \<lparr>spec_layout = Scheduler_ReleaseGpuParams_layout, spec_tag = None, spec_fields = [
     (''Request'', InPointer Scheduler_ReleaseGpuParams_request True, None)]\<rparr>"
definition Scheduler_ReleaseGpuParams_bodies :: struct_bodies where
  "Scheduler_ReleaseGpuParams_bodies = [
     (''Request'', [
       reads Has (PointerIsNull (pointer_field 0)), builds Has (PointerIsNull (pointer_field 0)),
       reads Get (PointerGet (pointer_field 0)), builds Get (PointerGetStruct (pointer_field 0)),
       pipes Get (PointerGet (pointer_field 0)), builds Set (PointerSet (pointer_field 0)),
       builds Init (PointerInit (pointer_field 0)), builds Adopt (PointerAdopt (pointer_field 0)),
       builds Disown (PointerDisown (pointer_field 0))])]"

lemma Scheduler_ReleaseGpuParams_struct_ok: "struct_ok Scheduler_ReleaseGpuParams_spec Scheduler_ReleaseGpuParams_bodies"
  by (rule struct_okI) (simp add: Scheduler_ReleaseGpuParams_spec_def layouts_sound_GpuControl, simp_all add: Scheduler_ReleaseGpuParams_spec_def Scheduler_ReleaseGpuParams_bodies_def Scheduler_ReleaseGpuParams_layout_def
    struct_layout_def Scheduler_ReleaseGpuParams_request_def)

text \<open>\<open>Scheduler::ReleaseGpuResults\<close>\<close>

definition Scheduler_ReleaseGpuResults_spec :: struct_spec where
  "Scheduler_ReleaseGpuResults_spec = \<lparr>spec_layout = Scheduler_ReleaseGpuResults_layout, spec_tag = None, spec_fields = [
     (''Ack'', InPointer Scheduler_ReleaseGpuResults_ack True, None)]\<rparr>"
definition Scheduler_ReleaseGpuResults_bodies :: struct_bodies where
  "Scheduler_ReleaseGpuResults_bodies = [
     (''Ack'', [
       reads Has (PointerIsNull (pointer_field 0)), builds Has (PointerIsNull (pointer_field 0)),
       reads Get (PointerGet (pointer_field 0)), builds Get (PointerGetStruct (pointer_field 0)),
       pipes Get (PointerGet (pointer_field 0)), builds Set (PointerSet (pointer_field 0)),
       builds Init (PointerInit (pointer_field 0)), builds Adopt (PointerAdopt (pointer_field 0)),
       builds Disown (PointerDisown (pointer_field 0))])]"

lemma Scheduler_ReleaseGpuResults_struct_ok: "struct_ok Scheduler_ReleaseGpuResults_spec Scheduler_ReleaseGpuResults_bodies"
  by (rule struct_okI) (simp add: Scheduler_ReleaseGpuResults_spec_def layouts_sound_GpuControl, simp_all add: Scheduler_ReleaseGpuResults_spec_def Scheduler_ReleaseGpuResults_bodies_def Scheduler_ReleaseGpuResults_layout_def
    struct_layout_def Scheduler_ReleaseGpuResults_ack_def)

text \<open>\<open>Scheduler::RunCommandParams\<close>\<close>

definition Scheduler_RunCommandParams_spec :: struct_spec where
  "Scheduler_RunCommandParams_spec = \<lparr>spec_layout = Scheduler_RunCommandParams_layout, spec_tag = None, spec_fields = [
     (''Request'', InPointer Scheduler_RunCommandParams_request True, None)]\<rparr>"
definition Scheduler_RunCommandParams_bodies :: struct_bodies where
  "Scheduler_RunCommandParams_bodies = [
     (''Request'', [
       reads Has (PointerIsNull (pointer_field 0)), builds Has (PointerIsNull (pointer_field 0)),
       reads Get (PointerGet (pointer_field 0)), builds Get (PointerGetStruct (pointer_field 0)),
       pipes Get (PointerGet (pointer_field 0)), builds Set (PointerSet (pointer_field 0)),
       builds Init (PointerInit (pointer_field 0)), builds Adopt (PointerAdopt (pointer_field 0)),
       builds Disown (PointerDisown (pointer_field 0))])]"

lemma Scheduler_RunCommandParams_struct_ok: "struct_ok Scheduler_RunCommandParams_spec Scheduler_RunCommandParams_bodies"
  by (rule struct_okI) (simp add: Scheduler_RunCommandParams_spec_def layouts_sound_GpuControl, simp_all add: Scheduler_RunCommandParams_spec_def Scheduler_RunCommandParams_bodies_def Scheduler_RunCommandParams_layout_def
    struct_layout_def Scheduler_RunCommandParams_request_def)

text \<open>\<open>Scheduler::RunCommandResults\<close>\<close>

definition Scheduler_RunCommandResults_spec :: struct_spec where
  "Scheduler_RunCommandResults_spec = \<lparr>spec_layout = Scheduler_RunCommandResults_layout, spec_tag = None, spec_fields = [
     (''Response'', InPointer Scheduler_RunCommandResults_response True, None)]\<rparr>"
definition Scheduler_RunCommandResults_bodies :: struct_bodies where
  "Scheduler_RunCommandResults_bodies = [
     (''Response'', [
       reads Has (PointerIsNull (pointer_field 0)), builds Has (PointerIsNull (pointer_field 0)),
       reads Get (PointerGet (pointer_field 0)), builds Get (PointerGetStruct (pointer_field 0)),
       pipes Get (PointerGet (pointer_field 0)), builds Set (PointerSet (pointer_field 0)),
       builds Init (PointerInit (pointer_field 0)), builds Adopt (PointerAdopt (pointer_field 0)),
       builds Disown (PointerDisown (pointer_field 0))])]"

lemma Scheduler_RunCommandResults_struct_ok: "struct_ok Scheduler_RunCommandResults_spec Scheduler_RunCommandResults_bodies"
  by (rule struct_okI) (simp add: Scheduler_RunCommandResults_spec_def layouts_sound_GpuControl, simp_all add: Scheduler_RunCommandResults_spec_def Scheduler_RunCommandResults_bodies_def Scheduler_RunCommandResults_layout_def
    struct_layout_def Scheduler_RunCommandResults_response_def)

text \<open>\<open>RunRequest\<close>\<close>

definition RunRequest_spec :: struct_spec where
  "RunRequest_spec = \<lparr>spec_layout = RunRequest_layout, spec_tag = None, spec_fields = [
     (''Uuid'', InPointer RunRequest_uuid False, None), (''Cmd'', InPointer RunRequest_cmd False, None),
     (''StreamHandle'', InData RunRequest_streamHandle, None)]\<rparr>"
definition RunRequest_bodies :: struct_bodies where
  "RunRequest_bodies = [
     (''Uuid'', [
       reads Has (PointerIsNull (pointer_field 0)), builds Has (PointerIsNull (pointer_field 0)),
       reads Get (PointerGet (pointer_field 0)), builds Get (PointerGet (pointer_field 0)),
       builds Set (PointerSet (pointer_field 0)), builds InitSized (PointerInit (pointer_field 0)),
       builds Adopt (PointerAdopt (pointer_field 0)), builds Disown (PointerDisown (pointer_field 0))]),
     (''Cmd'', [
       reads Has (PointerIsNull (pointer_field 1)), builds Has (PointerIsNull (pointer_field 1)),
       reads Get (PointerGet (pointer_field 1)), builds Get (PointerGet (pointer_field 1)),
       builds Set (PointerSet (pointer_field 1)), builds InitSized (PointerInit (pointer_field 1)),
       builds Adopt (PointerAdopt (pointer_field 1)), builds Disown (PointerDisown (pointer_field 1))]),
     (''StreamHandle'', [
       reads Get (GetData (data_field 64 0 0)), builds Get (GetData (data_field 64 0 0)),
       builds Set (SetData (data_field 64 0 0))])]"

lemma RunRequest_struct_ok: "struct_ok RunRequest_spec RunRequest_bodies"
  by (rule struct_okI) (simp add: RunRequest_spec_def layouts_sound_GpuControl, simp_all add: RunRequest_spec_def RunRequest_bodies_def RunRequest_layout_def
    struct_layout_def RunRequest_uuid_def RunRequest_cmd_def RunRequest_streamHandle_def)

text \<open>\<open>RunResponse\<close>\<close>

definition RunResponse_spec :: struct_spec where
  "RunResponse_spec = \<lparr>spec_layout = RunResponse_layout, spec_tag = None, spec_fields = [
     (''ExitCode'', InData RunResponse_exitCode, None), (''Output'', InPointer RunResponse_output False, None)]\<rparr>"
definition RunResponse_bodies :: struct_bodies where
  "RunResponse_bodies = [
     (''ExitCode'', [
       reads Get (GetData (data_field 32 0 0)), builds Get (GetData (data_field 32 0 0)),
       builds Set (SetData (data_field 32 0 0))]),
     (''Output'', [
       reads Has (PointerIsNull (pointer_field 0)), builds Has (PointerIsNull (pointer_field 0)),
       reads Get (PointerGet (pointer_field 0)), builds Get (PointerGet (pointer_field 0)),
       builds Set (PointerSet (pointer_field 0)), builds InitSized (PointerInit (pointer_field 0)),
       builds Adopt (PointerAdopt (pointer_field 0)), builds Disown (PointerDisown (pointer_field 0))])]"

lemma RunResponse_struct_ok: "struct_ok RunResponse_spec RunResponse_bodies"
  by (rule struct_okI) (simp add: RunResponse_spec_def layouts_sound_GpuControl, simp_all add: RunResponse_spec_def RunResponse_bodies_def RunResponse_layout_def
    struct_layout_def RunResponse_exitCode_def RunResponse_output_def)

text \<open>All structs of the file.\<close>

definition structs_GpuControl :: "(struct_spec \<times> struct_bodies) list" where
  "structs_GpuControl = [
     (GpuList_spec, GpuList_bodies), (GpuRequest_spec, GpuRequest_bodies), (GpuStatus_spec, GpuStatus_bodies),
     (Path_spec, Path_bodies), (Step_spec, Step_bodies), (Metrics_spec, Metrics_bodies),
     (Scheduler_RequestPathParams_spec, Scheduler_RequestPathParams_bodies),
     (Scheduler_RequestPathResults_spec, Scheduler_RequestPathResults_bodies),
     (Scheduler_ReportMetricsParams_spec, Scheduler_ReportMetricsParams_bodies),
     (Scheduler_ReportMetricsResults_spec, Scheduler_ReportMetricsResults_bodies),
     (Scheduler_RegisterGpuParams_spec, Scheduler_RegisterGpuParams_bodies),
     (Scheduler_RegisterGpuResults_spec, Scheduler_RegisterGpuResults_bodies),
     (Scheduler_ListGpusParams_spec, Scheduler_ListGpusParams_bodies),
     (Scheduler_ListGpusResults_spec, Scheduler_ListGpusResults_bodies),
     (Scheduler_GetGpuStatusParams_spec, Scheduler_GetGpuStatusParams_bodies),
     (Scheduler_GetGpuStatusResults_spec, Scheduler_GetGpuStatusResults_bodies),
     (Scheduler_AcquireGpuParams_spec, Scheduler_AcquireGpuParams_bodies),
     (Scheduler_AcquireGpuResults_spec, Scheduler_AcquireGpuResults_bodies),
     (Scheduler_ReleaseGpuParams_spec, Scheduler_ReleaseGpuParams_bodies),
     (Scheduler_ReleaseGpuResults_spec, Scheduler_ReleaseGpuResults_bodies),
     (Scheduler_RunCommandParams_spec, Scheduler_RunCommandParams_bodies),
     (Scheduler_RunCommandResults_spec, Scheduler_RunCommandResults_bodies), (RunRequest_spec, RunRequest_bodies),
     (RunResponse_spec, RunResponse_bodies)]"

lemma structs_GpuControl_ok: "list_all (\<lambda>(S, bs). struct_ok S bs) structs_GpuControl"
  by (simp add: structs_GpuControl_def GpuList_struct_ok GpuRequest_struct_ok GpuStatus_struct_ok Path_struct_ok
      Step_struct_ok Metrics_struct_ok Scheduler_RequestPathParams_struct_ok Scheduler_RequestPathResults_struct_ok
      Scheduler_ReportMetricsParams_struct_ok Scheduler_ReportMetricsResults_struct_ok
      Scheduler_RegisterGpuParams_struct_ok Scheduler_RegisterGpuResults_struct_ok Scheduler_ListGpusParams_struct_ok
      Scheduler_ListGpusResults_struct_ok Scheduler_GetGpuStatusParams_struct_ok
      Scheduler_GetGpuStatusResults_struct_ok Scheduler_AcquireGpuParams_struct_ok
      Scheduler_AcquireGpuResults_struct_ok Scheduler_ReleaseGpuParams_struct_ok
      Scheduler_ReleaseGpuResults_struct_ok Scheduler_RunCommandParams_struct_ok
      Scheduler_RunCommandResults_struct_ok RunRequest_struct_ok RunResponse_struct_ok)

end
