(* ===== verification/BodiesCuda.thy ===== *)
theory BodiesCuda
  imports Accessors WireCuda
begin

section \<open>The bodies of the accessors of cuda.capnp\<close>

text \<open>
  \<open>proto/proto/cuda.capnp.h\<close>: for every generated struct the bodies of its accessors, field by field in
  the order of the source, each with the constants that stand in it, and that they are those of the
  struct's fields.
\<close>

lemmas layouts_sound_Cuda = wireCuda_layouts_ok [unfolded wireCuda_layouts_def list.pred_inject conj_assoc]

text \<open>\<open>MemcpyParams\<close>\<close>

definition MemcpyParams_spec :: struct_spec where
  "MemcpyParams_spec = \<lparr>spec_layout = MemcpyParams_layout, spec_tag = None, spec_fields = [
     (''Src'', InPointer MemcpyParams_src True, None), (''Dst'', InPointer MemcpyParams_dst True, None),
     (''Size'', InData MemcpyParams_size, None), (''Direction'', InData MemcpyParams_direction, None)]\<rparr>"
definition MemcpyParams_bodies :: struct_bodies where
  "MemcpyParams_bodies = [
     (''Src'', [
       reads Has (PointerIsNull (pointer_field 0)), builds Has (PointerIsNull (pointer_field 0)),
       reads Get (PointerGet (pointer_field 0)), builds Get (PointerGetStruct (pointer_field 0)),
       pipes Get (PointerGet (pointer_field 0)), builds Set (PointerSet (pointer_field 0)),
       builds Init (PointerInit (pointer_field 0)), builds Adopt (PointerAdopt (pointer_field 0)),
       builds Disown (PointerDisown (pointer_field 0))]),
     (''Dst'', [
       reads Has (PointerIsNull (pointer_field 1)), builds Has (PointerIsNull (pointer_field 1)),
       reads Get (PointerGet (pointer_field 1)), builds Get (PointerGetStruct (pointer_field 1)),
       pipes Get (PointerGet (pointer_field 1)), builds Set (PointerSet (pointer_field 1)),
       builds Init (PointerInit (pointer_field 1)), builds Adopt (PointerAdopt (pointer_field 1)),
       builds Disown (PointerDisown (pointer_field 1))]),
     (''Size'', [
       reads Get (GetData (data_field 64 0 0)), builds Get (GetData (data_field 64 0 0)),
       builds Set (SetData (data_field 64 0 0))]),
     (''Direction'', [
       reads Get (GetData (data_field 16 4 0)), builds Get (GetData (data_field 16 4 0)),
       builds Set (SetData (data_field 16 4 0))])]"

lemma MemcpyParams_struct_ok: "struct_ok MemcpyParams_spec MemcpyParams_bodies"
  by (rule struct_okI) (simp add: MemcpyParams_spec_def layouts_sound_Cuda, simp_all add: MemcpyParams_spec_def MemcpyParams_bodies_def MemcpyParams_layout_def
    struct_layout_def MemcpyParams_src_def MemcpyParams_dst_def MemcpyParams_size_def MemcpyParams_direction_def)

text \<open>\<open>StreamHandle\<close>\<close>

definition StreamHandle_spec :: struct_spec where
  "StreamHandle_spec = \<lparr>spec_layout = StreamHandle_layout, spec_tag = None, spec_fields = [
     (''Handle'', InData StreamHandle_handle, None)]\<rparr>"
definition StreamHandle_bodies :: struct_bodies where
  "StreamHandle_bodies = [
     (''Handle'', [
       reads Get (GetData (data_field 64 0 0)), builds Get (GetData (data_field 64 0 0)),
       builds Set (SetData (data_field 64 0 0))])]"

lemma StreamHandle_struct_ok: "struct_ok StreamHandle_spec StreamHandle_bodies"
  by (rule struct_okI) (simp add: StreamHandle_spec_def layouts_sound_Cuda, simp_all add: StreamHandle_spec_def StreamHandle_bodies_def StreamHandle_layout_def
    struct_layout_def StreamHandle_handle_def)

text \<open>\<open>StreamCreateParams\<close>\<close>

definition StreamCreateParams_spec :: struct_spec where
  "StreamCreateParams_spec = \<lparr>spec_layout = StreamCreateParams_layout, spec_tag = None, spec_fields = [
     (''Flags'', InData StreamCreateParams_flags, None)]\<rparr>"
definition StreamCreateParams_bodies :: struct_bodies where
  "StreamCreateParams_bodies = [
     (''Flags'', [
       reads Get (GetData (data_field 32 0 0)), builds Get (GetData (data_field 32 0 0)),
       builds Set (SetData (data_field 32 0 0))])]"

lemma StreamCreateParams_struct_ok: "struct_ok StreamCreateParams_spec StreamCreateParams_bodies"
  by (rule struct_okI) (simp add: StreamCreateParams_spec_def layouts_sound_Cuda, simp_all add: StreamCreateParams_spec_def StreamCreateParams_bodies_def StreamCreateParams_layout_def
    struct_layout_def StreamCreateParams_flags_def)

text \<open>\<open>EventHandle\<close>\<close>

definition EventHandle_spec :: struct_spec where
  "EventHandle_spec = \<lparr>spec_layout = EventHandle_layout, spec_tag = None, spec_fields = [
     (''Handle'', InData EventHandle_handle, None)]\<rparr>"
definition EventHandle_bodies :: struct_bodies where
  "EventHandle_bodies = [
     (''Handle'', [
       reads Get (GetData (data_field 64 0 0)), builds Get (GetData (data_field 64 0 0)),
       builds Set (SetData (data_field 64 0 0))])]"

lemma EventHandle_struct_ok: "struct_ok EventHandle_spec EventHandle_bodies"
  by (rule struct_okI) (simp add: EventHandle_spec_def layouts_sound_Cuda, simp_all add: EventHandle_spec_def EventHandle_bodies_def EventHandle_layout_def
    struct_layout_def EventHandle_handle_def)

text \<open>\<open>EventParams\<close>\<close>

definition EventParams_spec :: struct_spec where
  "EventParams_spec = \<lparr>spec_layout = EventParams_layout, spec_tag = None, spec_fields = [
     (''Flags'', InData EventParams_flags, None)]\<rparr>"
definition EventParams_bodies :: struct_bodies where
  "EventParams_bodies = [
     (''Flags'', [
       reads Get (GetData (data_field 32 0 0)), builds Get (GetData (data_field 32 0 0)),
       builds Set (SetData (data_field 32 0 0))])]"

lemma EventParams_struct_ok: "struct_ok EventParams_spec EventParams_bodies"
  by (rule struct_okI) (simp add: EventParams_spec_def layouts_sound_Cuda, simp_all add: EventParams_spec_def EventParams_bodies_def EventParams_layout_def
    struct_layout_def EventParams_flags_def)

text \<open>\<open>BatchKernelLaunch\<close>\<close>

definition BatchKernelLaunch_spec :: struct_spec where
  "BatchKernelLaunch_spec = \<lparr>spec_layout = BatchKernelLaunch_layout, spec_tag = None, spec_fields = [
     (''Requests'', InPointer BatchKernelLaunch_requests False, None),
     (''Stream'', InData BatchKernelLaunch_stream, None)]\<rparr>"
definition BatchKernelLaunch_bodies :: struct_bodies where
  "BatchKernelLaunch_bodies = [
     (''Requests'', [
       reads Has (PointerIsNull (pointer_field 0)), builds Has (PointerIsNull (pointer_field 0)),
       reads Get (PointerGet (pointer_field 0)), builds Get (PointerGet (pointer_field 0)),
       builds Set (PointerSet (pointer_field 0)), builds InitSized (PointerInit (pointer_field 0)),
       builds Adopt (PointerAdopt (pointer_field 0)), builds Disown (PointerDisown (pointer_field 0))]),
     (''Stream'', [
       reads Get (GetData (data_field 64 0 0)), builds Get (GetData (data_field 64 0 0)),
       builds Set (SetData (data_field 64 0 0))])]"

lemma BatchKernelLaunch_struct_ok: "struct_ok BatchKernelLaunch_spec BatchKernelLaunch_bodies"
  by (rule struct_okI) (simp add: BatchKernelLaunch_spec_def layouts_sound_Cuda, simp_all add: BatchKernelLaunch_spec_def BatchKernelLaunch_bodies_def BatchKernelLaunch_layout_def
    struct_layout_def BatchKernelLaunch_requests_def BatchKernelLaunch_stream_def)

text \<open>\<open>MultiGpuRequest\<close>\<close>

definition MultiGpuRequest_spec :: struct_spec where
  "MultiGpuRequest_spec = \<lparr>spec_layout = MultiGpuRequest_layout, spec_tag = None, spec_fields = [
     (''Uuids'', InPointer MultiGpuRequest_uuids False, None),
     (''Command'', InPointer MultiGpuRequest_command False, None), (''Stream'', InData MultiGpuRequest_stream, None)]\<rparr>"
definition MultiGpuRequest_bodies :: struct_bodies where
  "MultiGpuRequest_bodies = [
     (''Uuids'', [
       reads Has (PointerIsNull (pointer_field 0)), builds Has (PointerIsNull (pointer_field 0)),
       reads Get (PointerGet (pointer_field 0)), builds Get (PointerGet (pointer_field 0)),
       builds Set (PointerSet (pointer_field 0)), builds SetArray (PointerSet (pointer_field 0)),
       builds InitSized (PointerInit (pointer_field 0)), builds Adopt (PointerAdopt (pointer_field 0)),
       builds Disown (PointerDisown (pointer_field 0))]),
     (''Command'', [
       reads Has (PointerIsNull (pointer_field 1)), builds Has (PointerIsNull (pointer_field 1)),
       reads Get (PointerGet (pointer_field 1)), builds Get (PointerGet (pointer_field 1)),
       builds Set (PointerSet (pointer_field 1)), builds InitSized (PointerInit (pointer_field 1)),
       builds Adopt (PointerAdopt (pointer_field 1)), builds Disown (PointerDisown (pointer_field 1))]),
     (''Stream'', [
       reads Get (GetData (data_field 64 0 0)), builds Get (GetData (data_field 64 0 0)),
       builds Set (SetData (data_field 64 0 0))])]"

lemma MultiGpuRequest_struct_ok: "struct_ok MultiGpuRequest_spec MultiGpuRequest_bodies"
  by (rule struct_okI) (simp add: MultiGpuRequest_spec_def layouts_sound_Cuda, simp_all add: MultiGpuRequest_spec_def MultiGpuRequest_bodies_def MultiGpuRequest_layout_def
    struct_layout_def MultiGpuRequest_uuids_def MultiGpuRequest_command_def MultiGpuRequest_stream_def)

text \<open>\<open>CudaService::CudaInitParams\<close>\<close>

definition CudaService_CudaInitParams_spec :: struct_spec where
  "CudaService_CudaInitParams_spec = \<lparr>spec_layout = CudaService_CudaInitParams_layout, spec_tag = None, spec_fields = []\<rparr>"
definition CudaService_CudaInitParams_bodies :: struct_bodies where
  "CudaService_CudaInitParams_bodies = []"

lemma CudaService_CudaInitParams_struct_ok: "struct_ok CudaService_CudaInitParams_spec CudaService_CudaInitParams_bodies"
  by (rule struct_okI) (simp add: CudaService_CudaInitParams_spec_def layouts_sound_Cuda, simp_all add: CudaService_CudaInitParams_spec_def CudaService_CudaInitParams_bodies_def CudaService_CudaInitParams_layout_def
    struct_layout_def )

text \<open>\<open>CudaService::CudaInitResults\<close>\<close>

definition CudaService_CudaInitResults_spec :: struct_spec where
  "CudaService_CudaInitResults_spec = \<lparr>spec_layout = CudaService_CudaInitResults_layout, spec_tag = None, spec_fields = [
     (''Ack'', InPointer CudaService_CudaInitResults_ack True, None)]\<rparr>"
definition CudaService_CudaInitResults_bodies :: struct_bodies where
  "CudaService_CudaInitResults_bodies = [
     (''Ack'', [
       reads Has (PointerIsNull (pointer_field 0)), builds Has (PointerIsNull (pointer_field 0)),
       reads Get (PointerGet (pointer_field 0)), builds Get (PointerGetStruct (pointer_field 0)),
       pipes Get (PointerGet (pointer_field 0)), builds Set (PointerSet (pointer_field 0)),
       builds Init (PointerInit (pointer_field 0)), builds Adopt (PointerAdopt (pointer_field 0)),
       builds Disown (PointerDisown (pointer_field 0))])]"

lemma CudaService_CudaInitResults_struct_ok: "struct_ok CudaService_CudaInitResults_spec CudaService_CudaInitResults_bodies"
  by (rule struct_okI) (simp add: CudaService_CudaInitResults_spec_def layouts_sound_Cuda, simp_all add: CudaService_CudaInitResults_spec_def CudaService_CudaInitResults_bodies_def CudaService_CudaInitResults_layout_def
    struct_layout_def CudaService_CudaInitResults_ack_def)

text \<open>\<open>CudaService::CudaMemAllocParams\<close>\<close>

definition CudaService_CudaMemAllocParams_spec :: struct_spec where
  "CudaService_CudaMemAllocParams_spec = \<lparr>spec_layout = CudaService_CudaMemAllocParams_layout, spec_tag = None, spec_fields = [
     (''Size'', InData CudaService_CudaMemAllocParams_size, None)]\<rparr>"
definition CudaService_CudaMemAllocParams_bodies :: struct_bodies where
  "CudaService_CudaMemAllocParams_bodies = [
     (''Size'', [
       reads Get (GetData (data_field 64 0 0)), builds Get (GetData (data_field 64 0 0)),
       builds Set (SetData (data_field 64 0 0))])]"

lemma CudaService_CudaMemAllocParams_struct_ok: "struct_ok CudaService_CudaMemAllocParams_spec CudaService_CudaMemAllocParams_bodies"
  by (rule struct_okI) (simp add: CudaService_CudaMemAllocParams_spec_def layouts_sound_Cuda, simp_all add: CudaService_CudaMemAllocParams_spec_def CudaService_CudaMemAllocParams_bodies_def CudaService_CudaMemAllocParams_layout_def
    struct_layout_def CudaService_CudaMemAllocParams_size_def)

text \<open>\<open>CudaService::CudaMemAllocResults\<close>\<close>

definition CudaService_CudaMemAllocResults_spec :: struct_spec where
  "CudaService_CudaMemAllocResults_spec = \<lparr>spec_layout = CudaService_CudaMemAllocResults_layout, spec_tag = None, spec_fields = [
     (''Result'', InPointer CudaService_CudaMemAllocResults_result True, None)]\<rparr>"
definition CudaService_CudaMemAllocResults_bodies :: struct_bodies where
  "CudaService_CudaMemAllocResults_bodies = [
     (''Result'', [
       reads Has (PointerIsNull (pointer_field 0)), builds Has (PointerIsNull (pointer_field 0)),
       reads Get (PointerGet (pointer_field 0)), builds Get (PointerGetStruct (pointer_field 0)),
       pipes Get (PointerGet (pointer_field 0)), builds Set (PointerSet (pointer_field 0)),
       builds Init (PointerInit (pointer_field 0)), builds Adopt (PointerAdopt (pointer_field 0)),
       builds Disown (PointerDisown (pointer_field 0))])]"

lemma CudaService_CudaMemAllocResults_struct_ok: "struct_ok CudaService_CudaMemAllocResults_spec CudaService_CudaMemAllocResults_bodies"
  by (rule struct_okI) (simp add: CudaService_CudaMemAllocResults_spec_def layouts_sound_Cuda, simp_all add: CudaService_CudaMemAllocResults_spec_def CudaService_CudaMemAllocResults_bodies_def CudaService_CudaMemAllocResults_layout_def
    struct_layout_def CudaService_CudaMemAllocResults_result_def)

text \<open>\<open>CudaService::CudaMemcpyParams\<close>\<close>

definition CudaService_CudaMemcpyParams_spec :: struct_spec where
  "CudaService_CudaMemcpyParams_spec = \<lparr>spec_layout = CudaService_CudaMemcpyParams_layout, spec_tag = None, spec_fields = [
     (''Params'', InPointer CudaService_CudaMemcpyParams_params True, None)]\<rparr>"
definition CudaService_CudaMemcpyParams_bodies :: struct_bodies where
  "CudaService_CudaMemcpyParams_bodies = [
     (''Params'', [
       reads Has (PointerIsNull (pointer_field 0)), builds Has (PointerIsNull (pointer_field 0)),
       reads Get (PointerGet (pointer_field 0)), builds Get (PointerGetStruct (pointer_field 0)),
       pipes Get (PointerGet (pointer_field 0)), builds Set (PointerSet (pointer_field 0)),
       builds Init (PointerInit (pointer_field 0)), builds Adopt (PointerAdopt (pointer_field 0)),
       builds Disown (PointerDisown (pointer_field 0))])]"

lemma CudaService_CudaMemcpyParams_struct_ok: "struct_ok CudaService_CudaMemcpyParams_spec CudaService_CudaMemcpyParams_bodies"
  by (rule struct_okI) (simp add: CudaService_CudaMemcpyParams_spec_def layouts_sound_Cuda, simp_all add: CudaService_CudaMemcpyParams_spec_def CudaService_CudaMemcpyParams_bodies_def CudaService_CudaMemcpyParams_layout_def
    struct_layout_def CudaService_CudaMemcpyParams_params_def)

text \<open>\<open>CudaService::CudaMemcpyResults\<close>\<close>

definition CudaService_CudaMemcpyResults_spec :: struct_spec where
  "CudaService_CudaMemcpyResults_spec = \<lparr>spec_layout = CudaService_CudaMemcpyResults_layout, spec_tag = None, spec_fields = [
     (''Ack'', InPointer CudaService_CudaMemcpyResults_ack True, None)]\<rparr>"
definition CudaService_CudaMemcpyResults_bodies :: struct_bodies where
  "CudaService_CudaMemcpyResults_bodies = [
     (''Ack'', [
       reads Has (PointerIsNull (pointer_field 0)), builds Has (PointerIsNull (pointer_field 0)),
       reads Get (PointerGet (pointer_field 0)), builds Get (PointerGetStruct (pointer_field 0)),
       pipes Get (PointerGet (pointer_field 0)), builds Set (PointerSet (pointer_field 0)),
       builds Init (PointerInit (pointer_field 0)), builds Adopt (PointerAdopt (pointer_field 0)),
       builds Disown (PointerDisown (pointer_field 0))])]"

lemma CudaService_CudaMemcpyResults_struct_ok: "struct_ok CudaService_CudaMemcpyResults_spec CudaService_CudaMemcpyResults_bodies"
  by (rule struct_okI) (simp add: CudaService_CudaMemcpyResults_spec_def layouts_sound_Cuda, simp_all add: CudaService_CudaMemcpyResults_spec_def CudaService_CudaMemcpyResults_bodies_def CudaService_CudaMemcpyResults_layout_def
    struct_layout_def CudaService_CudaMemcpyResults_ack_def)

text \<open>\<open>CudaService::CudaMemFreeParams\<close>\<close>

definition CudaService_CudaMemFreeParams_spec :: struct_spec where
  "CudaService_CudaMemFreeParams_spec = \<lparr>spec_layout = CudaService_CudaMemFreeParams_layout, spec_tag = None, spec_fields = [
     (''Handle'', InPointer CudaService_CudaMemFreeParams_handle True, None)]\<rparr>"
definition CudaService_CudaMemFreeParams_bodies :: struct_bodies where
  "CudaService_CudaMemFreeParams_bodies = [
     (''Handle'', [
       reads Has (PointerIsNull (pointer_field 0)), builds Has (PointerIsNull (pointer_field 0)),
       reads Get (PointerGet (pointer_field 0)), builds Get (PointerGetStruct (pointer_field 0)),
       pipes Get (PointerGet (pointer_field 0)), builds Set (PointerSet (pointer_field 0)),
       builds Init (PointerInit (pointer_field 0)), builds Adopt (PointerAdopt (pointer_field 0)),
       builds Disown (PointerDisown (pointer_field 0))])]"

lemma CudaService_CudaMemFreeParams_struct_ok: "struct_ok CudaService_CudaMemFreeParams_spec CudaService_CudaMemFreeParams_bodies"
  by (rule struct_okI) (simp add: CudaService_CudaMemFreeParams_spec_def layouts_sound_Cuda, simp_all add: CudaService_CudaMemFreeParams_spec_def CudaService_CudaMemFreeParams_bodies_def CudaService_CudaMemFreeParams_layout_def
    struct_layout_def CudaService_CudaMemFreeParams_handle_def)

text \<open>\<open>CudaService::CudaMemFreeResults\<close>\<close>

definition CudaService_CudaMemFreeResults_spec :: struct_spec where
  "CudaService_CudaMemFreeResults_spec = \<lparr>spec_layout = CudaService_CudaMemFreeResults_layout, spec_tag = None, spec_fields = [
     (''Ack'', InPointer CudaService_CudaMemFreeResults_ack True, None)]\<rparr>"
definition CudaService_CudaMemFreeResults_bodies :: struct_bodies where
  "CudaService_CudaMemFreeResults_bodies = [
     (''Ack'', [
       reads Has (PointerIsNull (pointer_field 0)), builds Has (PointerIsNull (pointer_field 0)),
       reads Get (PointerGet (pointer_field 0)), builds Get (PointerGetStruct (pointer_field 0)),
       pipes Get (PointerGet (pointer_field 0)), builds Set (PointerSet (pointer_field 0)),
       builds Init (PointerInit (pointer_field 0)), builds Adopt (PointerAdopt (pointer_field 0)),
       builds Disown (PointerDisown (pointer_field 0))])]"

lemma CudaService_CudaMemFreeResults_struct_ok: "struct_ok CudaService_CudaMemFreeResults_spec CudaService_CudaMemFreeResults_bodies"
  by (rule struct_okI) (simp add: CudaService_CudaMemFreeResults_spec_def layouts_sound_Cuda, simp_all add: CudaService_CudaMemFreeResults_spec_def CudaService_CudaMemFreeResults_bodies_def CudaService_CudaMemFreeResults_layout_def
    struct_layout_def CudaService_CudaMemFreeResults_ack_def)

text \<open>\<open>CudaService::CreateCudaStreamParams\<close>\<close>

definition CudaService_CreateCudaStreamParams_spec :: struct_spec where
  "CudaService_CreateCudaStreamParams_spec = \<lparr>spec_layout = CudaService_CreateCudaStreamParams_layout, spec_tag = None, spec_fields = [
     (''Params'', InPointer CudaService_CreateCudaStreamParams_params True, None)]\<rparr>"
definition CudaService_CreateCudaStreamParams_bodies :: struct_bodies where
  "CudaService_CreateCudaStreamParams_bodies = [
     (''Params'', [
       reads Has (PointerIsNull (pointer_field 0)), builds Has (PointerIsNull (pointer_field 0)),
       reads Get (PointerGet (pointer_field 0)), builds Get (PointerGetStruct (pointer_field 0)),
       pipes Get (PointerGet (pointer_field 0)), builds Set (PointerSet (pointer_field 0)),
       builds Init (PointerInit (pointer_field 0)), builds Adopt (PointerAdopt (pointer_field 0)),
       builds Disown (PointerDisown (pointer_field 0))])]"

lemma CudaService_CreateCudaStreamParams_struct_ok: "struct_ok CudaService_CreateCudaStreamParams_spec CudaService_CreateCudaStreamParams_bodies"
  by (rule struct_okI) (simp add: CudaService_CreateCudaStreamParams_spec_def layouts_sound_Cuda, simp_all add: CudaService_CreateCudaStreamParams_spec_def CudaService_CreateCudaStreamParams_bodies_def CudaService_CreateCudaStreamParams_layout_def
    struct_layout_def CudaService_CreateCudaStreamParams_params_def)

text \<open>\<open>CudaService::CreateCudaStreamResults\<close>\<close>

definition CudaService_CreateCudaStreamResults_spec :: struct_spec where
  "CudaService_CreateCudaStreamResults_spec = \<lparr>spec_layout = CudaService_CreateCudaStreamResults_layout, spec_tag = None, spec_fields = [
     (''Handle'', InPointer CudaService_CreateCudaStreamResults_handle True, None)]\<rparr>"
definition CudaService_CreateCudaStreamResults_bodies :: struct_bodies where
  "CudaService_CreateCudaStreamResults_bodies = [
     (''Handle'', [
       reads Has (PointerIsNull (pointer_field 0)), builds Has (PointerIsNull (pointer_field 0)),
       reads Get (PointerGet (pointer_field 0)), builds Get (PointerGetStruct (pointer_field 0)),
       pipes Get (PointerGet (pointer_field 0)), builds Set (PointerSet (pointer_field 0)),
       builds Init (PointerInit (pointer_field 0)), builds Adopt (PointerAdopt (pointer_field 0)),
       builds Disown (PointerDisown (pointer_field 0))])]"

lemma CudaService_CreateCudaStreamResults_struct_ok: "struct_ok CudaService_CreateCudaStreamResults_spec CudaService_CreateCudaStreamResults_bodies"
  by (rule struct_okI) (simp add: CudaService_CreateCudaStreamResults_spec_def layouts_sound_Cuda, simp_all add: CudaService_CreateCudaStreamResults_spec_def CudaService_CreateCudaStreamResults_bodies_def CudaService_CreateCudaStreamResults_layout_def
    struct_layout_def CudaService_CreateCudaStreamResults_handle_def)

text \<open>\<open>CudaService::DestroyCudaStreamParams\<close>\<close>

definition CudaService_DestroyCudaStreamParams_spec :: struct_spec where
  "CudaService_DestroyCudaStreamParams_spec = \<lparr>spec_layout = CudaService_DestroyCudaStreamParams_layout, spec_tag = None, spec_fields = [
     (''Handle'', InPointer CudaService_DestroyCudaStreamParams_handle True, None)]\<rparr>"
definition CudaService_DestroyCudaStreamParams_bodies :: struct_bodies where
  "CudaService_DestroyCudaStreamParams_bodies = [
     (''Handle'', [
       reads Has (PointerIsNull (pointer_field 0)), builds Has (PointerIsNull (pointer_field 0)),
       reads Get (PointerGet (pointer_field 0)), builds Get (PointerGetStruct (pointer_field 0)),
       pipes Get (PointerGet (pointer_field 0)), builds Set (PointerSet (pointer_field 0)),
       builds Init (PointerInit (pointer_field 0)), builds Adopt (PointerAdopt (pointer_field 0)),
       builds Disown (PointerDisown (pointer_field 0))])]"

lemma CudaService_DestroyCudaStreamParams_struct_ok: "struct_ok CudaService_DestroyCudaStreamParams_spec CudaService_DestroyCudaStreamParams_bodies"
  by (rule struct_okI) (simp add: CudaService_DestroyCudaStreamParams_spec_def layouts_sound_Cuda, simp_all add: CudaService_DestroyCudaStreamParams_spec_def CudaService_DestroyCudaStreamParams_bodies_def CudaService_DestroyCudaStreamParams_layout_def
    struct_layout_def CudaService_DestroyCudaStreamParams_handle_def)

text \<open>\<open>CudaService::DestroyCudaStreamResults\<close>\<close>

definition CudaService_DestroyCudaStreamResults_spec :: struct_spec where
  "CudaService_DestroyCudaStreamResults_spec = \<lparr>spec_layout = CudaService_DestroyCudaStreamResults_layout, spec_tag = None, spec_fields = [
     (''Ack'', InPointer CudaService_DestroyCudaStreamResults_ack True, None)]\<rparr>"
definition CudaService_DestroyCudaStreamResults_bodies :: struct_bodies where
  "CudaService_DestroyCudaStreamResults_bodies = [
     (''Ack'', [
       reads Has (PointerIsNull (pointer_field 0)), builds Has (PointerIsNull (pointer_field 0)),
       reads Get (PointerGet (pointer_field 0)), builds Get (PointerGetStruct (pointer_field 0)),
       pipes Get (PointerGet (pointer_field 0)), builds Set (PointerSet (pointer_field 0)),
       builds Init (PointerInit (pointer_field 0)), builds Adopt (PointerAdopt (pointer_field 0)),
       builds Disown (PointerDisown (pointer_field 0))])]"

lemma CudaService_DestroyCudaStreamResults_struct_ok: "struct_ok CudaService_DestroyCudaStreamResults_spec CudaService_DestroyCudaStreamResults_bodies"
  by (rule struct_okI) (simp add: CudaService_DestroyCudaStreamResults_spec_def layouts_sound_Cuda, simp_all add: CudaService_DestroyCudaStreamResults_spec_def CudaService_DestroyCudaStreamResults_bodies_def CudaService_DestroyCudaStreamResults_layout_def
    struct_layout_def CudaService_DestroyCudaStreamResults_ack_def)

text \<open>\<open>CudaService::SynchronizeCudaStreamParams\<close>\<close>

definition CudaService_SynchronizeCudaStreamParams_spec :: struct_spec where
  "CudaService_SynchronizeCudaStreamParams_spec = \<lparr>spec_layout = CudaService_SynchronizeCudaStreamParams_layout, spec_tag = None, spec_fields = [
     (''Handle'', InPointer CudaService_SynchronizeCudaStreamParams_handle True, None)]\<rparr>"
definition CudaService_SynchronizeCudaStreamParams_bodies :: struct_bodies where
  "CudaService_SynchronizeCudaStreamParams_bodies = [
     (''Handle'', [
       reads Has (PointerIsNull (pointer_field 0)), builds Has (PointerIsNull (pointer_field 0)),
       reads Get (PointerGet (pointer_field 0)), builds Get (PointerGetStruct (pointer_field 0)),
       pipes Get (PointerGet (pointer_field 0)), builds Set (PointerSet (pointer_field 0)),
       builds Init (PointerInit (pointer_field 0)), builds Adopt (PointerAdopt (pointer_field 0)),
       builds Disown (PointerDisown (pointer_field 0))])]"

lemma CudaService_SynchronizeCudaStreamParams_struct_ok: "struct_ok CudaService_SynchronizeCudaStreamParams_spec CudaService_SynchronizeCudaStreamParams_bodies"
  by (rule struct_okI) (simp add: CudaService_SynchronizeCudaStreamParams_spec_def layouts_sound_Cuda, simp_all add: CudaService_SynchronizeCudaStreamParams_spec_def CudaService_SynchronizeCudaStreamParams_bodies_def CudaService_SynchronizeCudaStreamParams_layout_def
    struct_layout_def CudaService_SynchronizeCudaStreamParams_handle_def)

text \<open>\<open>CudaService::SynchronizeCudaStreamResults\<close>\<close>

definition CudaService_SynchronizeCudaStreamResults_spec :: struct_spec where
  "CudaService_SynchronizeCudaStreamResults_spec = \<lparr>spec_layout = CudaService_SynchronizeCudaStreamResults_layout, spec_tag = None, spec_fields = [
     (''Ack'', InPointer CudaService_SynchronizeCudaStreamResults_ack True, None)]\<rparr>"
definition CudaService_SynchronizeCudaStreamResults_bodies :: struct_bodies where
  "CudaService_SynchronizeCudaStreamResults_bodies = [
     (''Ack'', [
       reads Has (PointerIsNull (pointer_field 0)), builds Has (PointerIsNull (pointer_field 0)),
       reads Get (PointerGet (pointer_field 0)), builds Get (PointerGetStruct (pointer_field 0)),
       pipes Get (PointerGet (pointer_field 0)), builds Set (PointerSet (pointer_field 0)),
       builds Init (PointerInit (pointer_field 0)), builds Adopt (PointerAdopt (pointer_field 0)),
       builds Disown (PointerDisown (pointer_field 0))])]"

lemma CudaService_SynchronizeCudaStreamResults_struct_ok: "struct_ok CudaService_SynchronizeCudaStreamResults_spec CudaService_SynchronizeCudaStreamResults_bodies"
  by (rule struct_okI) (simp add: CudaService_SynchronizeCudaStreamResults_spec_def layouts_sound_Cuda, simp_all add: CudaService_SynchronizeCudaStreamResults_spec_def CudaService_SynchronizeCudaStreamResults_bodies_def CudaService_SynchronizeCudaStreamResults_layout_def
    struct_layout_def CudaService_SynchronizeCudaStreamResults_ack_def)

text \<open>\<open>CudaService::CudaKernelLaunchParams\<close>\<close>

definition CudaService_CudaKernelLaunchParams_spec :: struct_spec where
  "CudaService_CudaKernelLaunchParams_spec = \<lparr>spec_layout = CudaService_CudaKernelLaunchParams_layout, spec_tag = None, spec_fields = [
     (''Request'', InPointer CudaService_CudaKernelLaunchParams_request True, None)]\<rparr>"
definition CudaService_CudaKernelLaunchParams_bodies :: struct_bodies where
  "CudaService_CudaKernelLaunchParams_bodies = [
     (''Request'', [
       reads Has (PointerIsNull (pointer_field 0)), builds Has (PointerIsNull (pointer_field 0)),
       reads Get (PointerGet (pointer_field 0)), builds Get (PointerGetStruct (pointer_field 0)),
       pipes Get (PointerGet (pointer_field 0)), builds Set (PointerSet (pointer_field 0)),
       builds Init (PointerInit (pointer_field 0)), builds Adopt (PointerAdopt (pointer_field 0)),
       builds Disown (PointerDisown (pointer_field 0))])]"

lemma CudaService_CudaKernelLaunchParams_struct_ok: "struct_ok CudaService_CudaKernelLaunchParams_spec CudaService_CudaKernelLaunchParams_bodies"
  by (rule struct_okI) (simp add: CudaService_CudaKernelLaunchParams_spec_def layouts_sound_Cuda, simp_all add: CudaService_CudaKernelLaunchParams_spec_def CudaService_CudaKernelLaunchParams_bodies_def CudaService_CudaKernelLaunchParams_layout_def
    struct_layout_def CudaService_CudaKernelLaunchParams_request_def)

text \<open>\<open>CudaService::CudaKernelLaunchResults\<close>\<close>

definition CudaService_CudaKernelLaunchResults_spec :: struct_spec where
  "CudaService_CudaKernelLaunchResults_spec = \<lparr>spec_layout = CudaService_CudaKernelLaunchResults_layout, spec_tag = None, spec_fields = [
     (''Ack'', InPointer CudaService_CudaKernelLaunchResults_ack True, None)]\<rparr>"
definition CudaService_CudaKernelLaunchResults_bodies :: struct_bodies where
  "CudaService_CudaKernelLaunchResults_bodies = [
     (''Ack'', [
       reads Has (PointerIsNull (pointer_field 0)), builds Has (PointerIsNull (pointer_field 0)),
       reads Get (PointerGet (pointer_field 0)), builds Get (PointerGetStruct (pointer_field 0)),
       pipes Get (PointerGet (pointer_field 0)), builds Set (PointerSet (pointer_field 0)),
       builds Init (PointerInit (pointer_field 0)), builds Adopt (PointerAdopt (pointer_field 0)),
       builds Disown (PointerDisown (pointer_field 0))])]"

lemma CudaService_CudaKernelLaunchResults_struct_ok: "struct_ok CudaService_CudaKernelLaunchResults_spec CudaService_CudaKernelLaunchResults_bodies"
  by (rule struct_okI) (simp add: CudaService_CudaKernelLaunchResults_spec_def layouts_sound_Cuda, simp_all add: CudaService_CudaKernelLaunchResults_spec_def CudaService_CudaKernelLaunchResults_bodies_def CudaService_CudaKernelLaunchResults_layout_def
    struct_layout_def CudaService_CudaKernelLaunchResults_ack_def)

text \<open>\<open>CudaService::CreateEventParams\<close>\<close>

definition CudaService_CreateEventParams_spec :: struct_spec where
  "CudaService_CreateEventParams_spec = \<lparr>spec_layout = CudaService_CreateEventParams_layout, spec_tag = None, spec_fields = [
     (''Params'', InPointer CudaService_CreateEventParams_params True, None)]\<rparr>"
definition CudaService_CreateEventParams_bodies :: struct_bodies where
  "CudaService_CreateEventParams_bodies = [
     (''Params'', [
       reads Has (PointerIsNull (pointer_field 0)), builds Has (PointerIsNull (pointer_field 0)),
       reads Get (PointerGet (pointer_field 0)), builds Get (PointerGetStruct (pointer_field 0)),
       pipes Get (PointerGet (pointer_field 0)), builds Set (PointerSet (pointer_field 0)),
       builds Init (PointerInit (pointer_field 0)), builds Adopt (PointerAdopt (pointer_field 0)),
       builds Disown (PointerDisown (pointer_field 0))])]"

lemma CudaService_CreateEventParams_struct_ok: "struct_ok CudaService_CreateEventParams_spec CudaService_CreateEventParams_bodies"
  by (rule struct_okI) (simp add: CudaService_CreateEventParams_spec_def layouts_sound_Cuda, simp_all add: CudaService_CreateEventParams_spec_def CudaService_CreateEventParams_bodies_def CudaService_CreateEventParams_layout_def
    struct_layout_def CudaService_CreateEventParams_params_def)

text \<open>\<open>CudaService::CreateEventResults\<close>\<close>

definition CudaService_CreateEventResults_spec :: struct_spec where
  "CudaService_CreateEventResults_spec = \<lparr>spec_layout = CudaService_CreateEventResults_layout, spec_tag = None, spec_fields = [
     (''Handle'', InPointer CudaService_CreateEventResults_handle True, None)]\<rparr>"
definition CudaService_CreateEventResults_bodies :: struct_bodies where
  "CudaService_CreateEventResults_bodies = [
     (''Handle'', [
       reads Has (PointerIsNull (pointer_field 0)), builds Has (PointerIsNull (pointer_field 0)),
       reads Get (PointerGet (pointer_field 0)), builds Get (PointerGetStruct (pointer_field 0)),
       pipes Get (PointerGet (pointer_field 0)), builds Set (PointerSet (pointer_field 0)),
       builds Init (PointerInit (pointer_field 0)), builds Adopt (PointerAdopt (pointer_field 0)),
       builds Disown (PointerDisown (pointer_field 0))])]"

lemma CudaService_CreateEventResults_struct_ok: "struct_ok CudaService_CreateEventResults_spec CudaService_CreateEventResults_bodies"
  by (rule struct_okI) (simp add: CudaService_CreateEventResults_spec_def layouts_sound_Cuda, simp_all add: CudaService_CreateEventResults_spec_def CudaService_CreateEventResults_bodies_def CudaService_CreateEventResults_layout_def
    struct_layout_def CudaService_CreateEventResults_handle_def)

text \<open>\<open>CudaService::RecordEventParams\<close>\<close>

definition CudaService_RecordEventParams_spec :: struct_spec where
  "CudaService_RecordEventParams_spec = \<lparr>spec_layout = CudaService_RecordEventParams_layout, spec_tag = None, spec_fields = [
     (''Handle'', InPointer CudaService_RecordEventParams_handle True, None)]\<rparr>"
definition CudaService_RecordEventParams_bodies :: struct_bodies where
  "CudaService_RecordEventParams_bodies = [
     (''Handle'', [
       reads Has (PointerIsNull (pointer_field 0)), builds Has (PointerIsNull (pointer_field 0)),
       reads Get (PointerGet (pointer_field 0)), builds Get (PointerGetStruct (pointer_field 0)),
       pipes Get (PointerGet (pointer_field 0)), builds Set (PointerSet (pointer_field 0)),
       builds Init (PointerInit (pointer_field 0)), builds Adopt (PointerAdopt (pointer_field 0)),
       builds Disown (PointerDisown (pointer_field 0))])]"

lemma CudaService_RecordEventParams_struct_ok: "struct_ok CudaService_RecordEventParams_spec CudaService_RecordEventParams_bodies"
  by (rule struct_okI) (simp add: CudaService_RecordEventParams_spec_def layouts_sound_Cuda, simp_all add: CudaService_RecordEventParams_spec_def CudaService_RecordEventParams_bodies_def CudaService_RecordEventParams_layout_def
    struct_layout_def CudaService_RecordEventParams_handle_def)

text \<open>\<open>CudaService::RecordEventResults\<close>\<close>

definition CudaService_RecordEventResults_spec :: struct_spec where
  "CudaService_RecordEventResults_spec = \<lparr>spec_layout = CudaService_RecordEventResults_layout, spec_tag = None, spec_fields = [
     (''Ack'', InPointer CudaService_RecordEventResults_ack True, None)]\<rparr>"
definition CudaService_RecordEventResults_bodies :: struct_bodies where
  "CudaService_RecordEventResults_bodies = [
     (''Ack'', [
       reads Has (PointerIsNull (pointer_field 0)), builds Has (PointerIsNull (pointer_field 0)),
       reads Get (PointerGet (pointer_field 0)), builds Get (PointerGetStruct (pointer_field 0)),
       pipes Get (PointerGet (pointer_field 0)), builds Set (PointerSet (pointer_field 0)),
       builds Init (PointerInit (pointer_field 0)), builds Adopt (PointerAdopt (pointer_field 0)),
       builds Disown (PointerDisown (pointer_field 0))])]"

lemma CudaService_RecordEventResults_struct_ok: "struct_ok CudaService_RecordEventResults_spec CudaService_RecordEventResults_bodies"
  by (rule struct_okI) (simp add: CudaService_RecordEventResults_spec_def layouts_sound_Cuda, simp_all add: CudaService_RecordEventResults_spec_def CudaService_RecordEventResults_bodies_def CudaService_RecordEventResults_layout_def
    struct_layout_def CudaService_RecordEventResults_ack_def)

text \<open>\<open>CudaService::EventSynchronizeParams\<close>\<close>

definition CudaService_EventSynchronizeParams_spec :: struct_spec where
  "CudaService_EventSynchronizeParams_spec = \<lparr>spec_layout = CudaService_EventSynchronizeParams_layout, spec_tag = None, spec_fields = [
     (''Handle'', InPointer CudaService_EventSynchronizeParams_handle True, None)]\<rparr>"
definition CudaService_EventSynchronizeParams_bodies :: struct_bodies where
  "CudaService_EventSynchronizeParams_bodies = [
     (''Handle'', [
       reads Has (PointerIsNull (pointer_field 0)), builds Has (PointerIsNull (pointer_field 0)),
       reads Get (PointerGet (pointer_field 0)), builds Get (PointerGetStruct (pointer_field 0)),
       pipes Get (PointerGet (pointer_field 0)), builds Set (PointerSet (pointer_field 0)),
       builds Init (PointerInit (pointer_field 0)), builds Adopt (PointerAdopt (pointer_field 0)),
       builds Disown (PointerDisown (pointer_field 0))])]"

lemma CudaService_EventSynchronizeParams_struct_ok: "struct_ok CudaService_EventSynchronizeParams_spec CudaService_EventSynchronizeParams_bodies"
  by (rule struct_okI) (simp add: CudaService_EventSynchronizeParams_spec_def layouts_sound_Cuda, simp_all add: CudaService_EventSynchronizeParams_spec_def CudaService_EventSynchronizeParams_bodies_def CudaService_EventSynchronizeParams_layout_def
    struct_layout_def CudaService_EventSynchronizeParams_handle_def)

text \<open>\<open>CudaService::EventSynchronizeResults\<close>\<close>

definition CudaService_EventSynchronizeResults_spec :: struct_spec where
  "CudaService_EventSynchronizeResults_spec = \<lparr>spec_layout = CudaService_EventSynchronizeResults_layout, spec_tag = None, spec_fields = [
     (''Ack'', InPointer CudaService_EventSynchronizeResults_ack True, None)]\<rparr>"
definition CudaService_EventSynchronizeResults_bodies :: struct_bodies where
  "CudaService_EventSynchronizeResults_bodies = [
     (''Ack'', [
       reads Has (PointerIsNull (pointer_field 0)), builds Has (PointerIsNull (pointer_field 0)),
       reads Get (PointerGet (pointer_field 0)), builds Get (PointerGetStruct (pointer_field 0)),
       pipes Get (PointerGet (pointer_field 0)), builds Set (PointerSet (pointer_field 0)),
       builds Init (PointerInit (pointer_field 0)), builds Adopt (PointerAdopt (pointer_field 0)),
       builds Disown (PointerDisown (pointer_field 0))])]"

lemma CudaService_EventSynchronizeResults_struct_ok: "struct_ok CudaService_EventSynchronizeResults_spec CudaService_EventSynchronizeResults_bodies"
  by (rule struct_okI) (simp add: CudaService_EventSynchronizeResults_spec_def layouts_sound_Cuda, simp_all add: CudaService_EventSynchronizeResults_spec_def CudaService_EventSynchronizeResults_bodies_def CudaService_EventSynchronizeResults_layout_def
    struct_layout_def CudaService_EventSynchronizeResults_ack_def)

text \<open>\<open>CudaService::DestroyEventParams\<close>\<close>

definition CudaService_DestroyEventParams_spec :: struct_spec where
  "CudaService_DestroyEventParams_spec = \<lparr>spec_layout = CudaService_DestroyEventParams_layout, spec_tag = None, spec_fields = [
     (''Handle'', InPointer CudaService_DestroyEventParams_handle True, None)]\<rparr>"
definition CudaService_DestroyEventParams_bodies :: struct_bodies where
  "CudaService_DestroyEventParams_bodies = [
     (''Handle'', [
       reads Has (PointerIsNull (pointer_field 0)), builds Has (PointerIsNull (pointer_field 0)),
       reads Get (PointerGet (pointer_field 0)), builds Get (PointerGetStruct (pointer_field 0)),
       pipes Get (PointerGet (pointer_field 0)), builds Set (PointerSet (pointer_field 0)),
       builds Init (PointerInit (pointer_field 0)), builds Adopt (PointerAdopt (pointer_field 0)),
       builds Disown (PointerDisown (pointer_field 0))])]"

lemma CudaService_DestroyEventParams_struct_ok: "struct_ok CudaService_DestroyEventParams_spec CudaService_DestroyEventParams_bodies"
  by (rule struct_okI) (simp add: CudaService_DestroyEventParams_spec_def layouts_sound_Cuda, simp_all add: CudaService_DestroyEventParams_spec_def CudaService_DestroyEventParams_bodies_def CudaService_DestroyEventParams_layout_def
    struct_layout_def CudaService_DestroyEventParams_handle_def)

text \<open>\<open>CudaService::DestroyEventResults\<close>\<close>

definition CudaService_DestroyEventResults_spec :: struct_spec where
  "CudaService_DestroyEventResults_spec = \<lparr>spec_layout = CudaService_DestroyEventResults_layout, spec_tag = None, spec_fields = [
     (''Ack'', InPointer CudaService_DestroyEventResults_ack True, None)]\<rparr>"
definition CudaService_DestroyEventResults_bodies :: struct_bodies where
  "CudaService_DestroyEventResults_bodies = [
     (''Ack'', [
       reads Has (PointerIsNull (pointer_field 0)), builds Has (PointerIsNull (pointer_field 0)),
       reads Get (PointerGet (pointer_field 0)), builds Get (PointerGetStruct (pointer_field 0)),
       pipes Get (PointerGet (pointer_field 0)), builds Set (PointerSet (pointer_field 0)),
       builds Init (PointerInit (pointer_field 0)), builds Adopt (PointerAdopt (pointer_field 0)),
       builds Disown (PointerDisown (pointer_field 0))])]"

lemma CudaService_DestroyEventResults_struct_ok: "struct_ok CudaService_DestroyEventResults_spec CudaService_DestroyEventResults_bodies"
  by (rule struct_okI) (simp add: CudaService_DestroyEventResults_spec_def layouts_sound_Cuda, simp_all add: CudaService_DestroyEventResults_spec_def CudaService_DestroyEventResults_bodies_def CudaService_DestroyEventResults_layout_def
    struct_layout_def CudaService_DestroyEventResults_ack_def)

text \<open>\<open>CudaService::BatchKernelLaunchParams\<close>\<close>

definition CudaService_BatchKernelLaunchParams_spec :: struct_spec where
  "CudaService_BatchKernelLaunchParams_spec = \<lparr>spec_layout = CudaService_BatchKernelLaunchParams_layout, spec_tag = None, spec_fields = [
     (''Request'', InPointer CudaService_BatchKernelLaunchParams_request True, None)]\<rparr>"
definition CudaService_BatchKernelLaunchParams_bodies :: struct_bodies where
  "CudaService_BatchKernelLaunchParams_bodies = [
     (''Request'', [
       reads Has (PointerIsNull (pointer_field 0)), builds Has (PointerIsNull (pointer_field 0)),
       reads Get (PointerGet (pointer_field 0)), builds Get (PointerGetStruct (pointer_field 0)),
       pipes Get (PointerGet (pointer_field 0)), builds Set (PointerSet (pointer_field 0)),
       builds Init (PointerInit (pointer_field 0)), builds Adopt (PointerAdopt (pointer_field 0)),
       builds Disown (PointerDisown (pointer_field 0))])]"

lemma CudaService_BatchKernelLaunchParams_struct_ok: "struct_ok CudaService_BatchKernelLaunchParams_spec CudaService_BatchKernelLaunchParams_bodies"
  by (rule struct_okI) (simp add: CudaService_BatchKernelLaunchParams_spec_def layouts_sound_Cuda, simp_all add: CudaService_BatchKernelLaunchParams_spec_def CudaService_BatchKernelLaunchParams_bodies_def CudaService_BatchKernelLaunchParams_layout_def
    struct_layout_def CudaService_BatchKernelLaunchParams_request_def)

text \<open>\<open>CudaService::BatchKernelLaunchResults\<close>\<close>

definition CudaService_BatchKernelLaunchResults_spec :: struct_spec where
  "CudaService_BatchKernelLaunchResults_spec = \<lparr>spec_layout = CudaService_BatchKernelLaunchResults_layout, spec_tag = None, spec_fields = [
     (''Ack'', InPointer CudaService_BatchKernelLaunchResults_ack True, None)]\<rparr>"
definition CudaService_BatchKernelLaunchResults_bodies :: struct_bodies where
  "CudaService_BatchKernelLaunchResults_bodies = [
     (''Ack'', [
       reads Has (PointerIsNull (pointer_field 0)), builds Has (PointerIsNull (pointer_field 0)),
       reads Get (PointerGet (pointer_field 0)), builds Get (PointerGetStruct (pointer_field 0)),
       pipes Get (PointerGet (pointer_field 0)), builds Set (PointerSet (pointer_field 0)),
       builds Init (PointerInit (pointer_field 0)), builds Adopt (PointerAdopt (pointer_field 0)),
       builds Disown (PointerDisown (pointer_field 0))])]"

lemma CudaService_BatchKernelLaunchResults_struct_ok: "struct_ok CudaService_BatchKernelLaunchResults_spec CudaService_BatchKernelLaunchResults_bodies"
  by (rule struct_okI) (simp add: CudaService_BatchKernelLaunchResults_spec_def layouts_sound_Cuda, simp_all add: CudaService_BatchKernelLaunchResults_spec_def CudaService_BatchKernelLaunchResults_bodies_def CudaService_BatchKernelLaunchResults_layout_def
    struct_layout_def CudaService_BatchKernelLaunchResults_ack_def)

text \<open>\<open>CudaService::MultiGpuCooperationParams\<close>\<close>

definition CudaService_MultiGpuCooperationParams_spec :: struct_spec where
  "CudaService_MultiGpuCooperationParams_spec = \<lparr>spec_layout = CudaService_MultiGpuCooperationParams_layout, spec_tag = None, spec_fields = [
     (''Request'', InPointer CudaService_MultiGpuCooperationParams_request True, None)]\<rparr>"
definition CudaService_MultiGpuCooperationParams_bodies :: struct_bodies where
  "CudaService_MultiGpuCooperationParams_bodies = [
     (''Request'', [
       reads Has (PointerIsNull (pointer_field 0)), builds Has (PointerIsNull (pointer_field 0)),
       reads Get (PointerGet (pointer_field 0)), builds Get (PointerGetStruct (pointer_field 0)),
       pipes Get (PointerGet (pointer_field 0)), builds Set (PointerSet (pointer_field 0)),
       builds Init (PointerInit (pointer_field 0)), builds Adopt (PointerAdopt (pointer_field 0)),
       builds Disown (PointerDisown (pointer_field 0))])]"

lemma CudaService_MultiGpuCooperationParams_struct_ok: "struct_ok CudaService_MultiGpuCooperationParams_spec CudaService_MultiGpuCooperationParams_bodies"
  by (rule struct_okI) (simp add: CudaService_MultiGpuCooperationParams_spec_def layouts_sound_Cuda, simp_all add: CudaService_MultiGpuCooperationParams_spec_def CudaService_MultiGpuCooperationParams_bodies_def CudaService_MultiGpuCooperationParams_layout_def
    struct_layout_def CudaService_MultiGpuCooperationParams_request_def)

text \<open>\<open>CudaService::MultiGpuCooperationResults\<close>\<close>

definition CudaService_MultiGpuCooperationResults_spec :: struct_spec where
  "CudaService_MultiGpuCooperationResults_spec = \<lparr>spec_layout = CudaService_MultiGpuCooperationResults_layout, spec_tag = None, spec_fields = [
     (''Ack'', InPointer CudaService_MultiGpuCooperationResults_ack True, None)]\<rparr>"
definition CudaService_MultiGpuCooperationResults_bodies :: struct_bodies where
  "CudaService_MultiGpuCooperationResults_bodies = [
     (''Ack'', [
       reads Has (PointerIsNull (pointer_field 0)), builds Has (PointerIsNull (pointer_field 0)),
       reads Get (PointerGet (pointer_field 0)), builds Get (PointerGetStruct (pointer_field 0)),
       pipes Get (PointerGet (pointer_field 0)), builds Set (PointerSet (pointer_field 0)),
       builds Init (PointerInit (pointer_field 0)), builds Adopt (PointerAdopt (pointer_field 0)),
       builds Disown (PointerDisown (pointer_field 0))])]"

lemma CudaService_MultiGpuCooperationResults_struct_ok: "struct_ok CudaService_MultiGpuCooperationResults_spec CudaService_MultiGpuCooperationResults_bodies"
  by (rule struct_okI) (simp add: CudaService_MultiGpuCooperationResults_spec_def layouts_sound_Cuda, simp_all add: CudaService_MultiGpuCooperationResults_spec_def CudaService_MultiGpuCooperationResults_bodies_def CudaService_MultiGpuCooperationResults_layout_def
    struct_layout_def CudaService_MultiGpuCooperationResults_ack_def)

text \<open>\<open>CudaService::AllocAndWriteParams\<close>\<close>

definition CudaService_AllocAndWriteParams_spec :: struct_spec where
  "CudaService_AllocAndWriteParams_spec = \<lparr>spec_layout = CudaService_AllocAndWriteParams_layout, spec_tag = None, spec_fields = [
     (''Size'', InData CudaService_AllocAndWriteParams_size, None),
     (''Data'', InPointer CudaService_AllocAndWriteParams_data False, None)]\<rparr>"
definition CudaService_AllocAndWriteParams_bodies :: struct_bodies where
  "CudaService_AllocAndWriteParams_bodies = [
     (''Size'', [
       reads Get (GetData (data_field 64 0 0)), builds Get (GetData (data_field 64 0 0)),
       builds Set (SetData (data_field 64 0 0))]),
     (''Data'', [
       reads Has (PointerIsNull (pointer_field 0)), builds Has (PointerIsNull (pointer_field 0)),
       reads Get (PointerGet (pointer_field 0)), builds Get (PointerGet (pointer_field 0)),
       builds Set (PointerSet (pointer_field 0)), builds InitSized (PointerInit (pointer_field 0)),
       builds Adopt (PointerAdopt (pointer_field 0)), builds Disown (PointerDisown (pointer_field 0))])]"

lemma CudaService_AllocAndWriteParams_struct_ok: "struct_ok CudaService_AllocAndWriteParams_spec CudaService_AllocAndWriteParams_bodies"
  by (rule struct_okI) (simp add: CudaService_AllocAndWriteParams_spec_def layouts_sound_Cuda, simp_all add: CudaService_AllocAndWriteParams_spec_def CudaService_AllocAndWriteParams_bodies_def CudaService_AllocAndWriteParams_layout_def
    struct_layout_def CudaService_AllocAndWriteParams_size_def CudaService_AllocAndWriteParams_data_def)

text \<open>\<open>CudaService::AllocAndWriteResults\<close>\<close>

definition CudaService_AllocAndWriteResults_spec :: struct_spec where
  "CudaService_AllocAndWriteResults_spec = \<lparr>spec_layout = CudaService_AllocAndWriteResults_layout, spec_tag = None, spec_fields = [
     (''Result'', InPointer CudaService_AllocAndWriteResults_result True, None)]\<rparr>"
definition CudaService_AllocAndWriteResults_bodies :: struct_bodies where
  "CudaService_AllocAndWriteResults_bodies = [
     (''Result'', [
       reads Has (PointerIsNull (pointer_field 0)), builds Has (PointerIsNull (pointer_field 0)),
       reads Get (PointerGet (pointer_field 0)), builds Get (PointerGetStruct (pointer_field 0)),
       pipes Get (PointerGet (pointer_field 0)), builds Set (PointerSet (pointer_field 0)),
       builds Init (PointerInit (pointer_field 0)), builds Adopt (PointerAdopt (pointer_field 0)),
       builds Disown (PointerDisown (pointer_field 0))])]"

lemma CudaService_AllocAndWriteResults_struct_ok: "struct_ok CudaService_AllocAndWriteResults_spec CudaService_AllocAndWriteResults_bodies"
  by (rule struct_okI) (simp add: CudaService_AllocAndWriteResults_spec_def layouts_sound_Cuda, simp_all add: CudaService_AllocAndWriteResults_spec_def CudaService_AllocAndWriteResults_bodies_def CudaService_AllocAndWriteResults_layout_def
    struct_layout_def CudaService_AllocAndWriteResults_result_def)

text \<open>All structs of the file.\<close>

definition structs_Cuda :: "(struct_spec \<times> struct_bodies) list" where
  "structs_Cuda = [
     (MemcpyParams_spec, MemcpyParams_bodies), (StreamHandle_spec, StreamHandle_bodies),
     (StreamCreateParams_spec, StreamCreateParams_bodies), (EventHandle_spec, EventHandle_bodies),
     (EventParams_spec, EventParams_bodies), (BatchKernelLaunch_spec, BatchKernelLaunch_bodies),
     (MultiGpuRequest_spec, MultiGpuRequest_bodies),
     (CudaService_CudaInitParams_spec, CudaService_CudaInitParams_bodies),
     (CudaService_CudaInitResults_spec, CudaService_CudaInitResults_bodies),
     (CudaService_CudaMemAllocParams_spec, CudaService_CudaMemAllocParams_bodies),
     (CudaService_CudaMemAllocResults_spec, CudaService_CudaMemAllocResults_bodies),
     (CudaService_CudaMemcpyParams_spec, CudaService_CudaMemcpyParams_bodies),
     (CudaService_CudaMemcpyResults_spec, CudaService_CudaMemcpyResults_bodies),
     (CudaService_CudaMemFreeParams_spec, CudaService_CudaMemFreeParams_bodies),
     (CudaService_CudaMemFreeResults_spec, CudaService_CudaMemFreeResults_bodies),
     (CudaService_CreateCudaStreamParams_spec, CudaService_CreateCudaStreamParams_bodies),
     (CudaService_CreateCudaStreamResults_spec, CudaService_CreateCudaStreamResults_bodies),
     (CudaService_DestroyCudaStreamParams_spec, CudaService_DestroyCudaStreamParams_bodies),
     (CudaService_DestroyCudaStreamResults_spec, CudaService_DestroyCudaStreamResults_bodies),
     (CudaService_SynchronizeCudaStreamParams_spec, CudaService_SynchronizeCudaStreamParams_bodies),
     (CudaService_SynchronizeCudaStreamResults_spec, CudaService_SynchronizeCudaStreamResults_bodies),
     (CudaService_CudaKernelLaunchParams_spec, CudaService_CudaKernelLaunchParams_bodies),
     (CudaService_CudaKernelLaunchResults_spec, CudaService_CudaKernelLaunchResults_bodies),
     (CudaService_CreateEventParams_spec, CudaService_CreateEventParams_bodies),
     (CudaService_CreateEventResults_spec, CudaService_CreateEventResults_bodies),
     (CudaService_RecordEventParams_spec, CudaService_RecordEventParams_bodies),
     (CudaService_RecordEventResults_spec, CudaService_RecordEventResults_bodies),
     (CudaService_EventSynchronizeParams_spec, CudaService_EventSynchronizeParams_bodies),
     (CudaService_EventSynchronizeResults_spec, CudaService_EventSynchronizeResults_bodies),
     (CudaService_DestroyEventParams_spec, CudaService_DestroyEventParams_bodies),
     (CudaService_DestroyEventResults_spec, CudaService_DestroyEventResults_bodies),
     (CudaService_BatchKernelLaunchParams_spec, CudaService_BatchKernelLaunchParams_bodies),
     (CudaService_BatchKernelLaunchResults_spec, CudaService_BatchKernelLaunchResults_bodies),
     (CudaService_MultiGpuCooperationParams_spec, CudaService_MultiGpuCooperationParams_bodies),
     (CudaService_MultiGpuCooperationResults_spec, CudaService_MultiGpuCooperationResults_bodies),
     (CudaService_AllocAndWriteParams_spec, CudaService_AllocAndWriteParams_bodies),
     (CudaService_AllocAndWriteResults_spec, CudaService_AllocAndWriteResults_bodies)]"

lemma structs_Cuda_ok: "list_all (\<lambda>(S, bs). struct_ok S bs) structs_Cuda"
  by (simp add: structs_Cuda_def MemcpyParams_struct_ok StreamHandle_struct_ok StreamCreateParams_struct_ok
      EventHandle_struct_ok EventParams_struct_ok BatchKernelLaunch_struct_ok MultiGpuRequest_struct_ok
      CudaService_CudaInitParams_struct_ok CudaService_CudaInitResults_struct_ok
      CudaService_CudaMemAllocParams_struct_ok CudaService_CudaMemAllocResults_struct_ok
      CudaService_CudaMemcpyParams_struct_ok CudaService_CudaMemcpyResults_struct_ok
      CudaService_CudaMemFreeParams_struct_ok CudaService_CudaMemFreeResults_struct_ok
      CudaService_CreateCudaStreamParams_struct_ok CudaService_CreateCudaStreamResults_struct_ok
      CudaService_DestroyCudaStreamParams_struct_ok CudaService_DestroyCudaStreamResults_struct_ok
      CudaService_SynchronizeCudaStreamParams_struct_ok CudaService_SynchronizeCudaStreamResults_struct_ok
      CudaService_CudaKernelLaunchParams_struct_ok CudaService_CudaKernelLaunchResults_struct_ok
      CudaService_CreateEventParams_struct_ok CudaService_CreateEventResults_struct_ok
      CudaService_RecordEventParams_struct_ok CudaService_RecordEventResults_struct_ok
      CudaService_EventSynchronizeParams_struct_ok CudaService_EventSynchronizeResults_struct_ok
      CudaService_DestroyEventParams_struct_ok CudaService_DestroyEventResults_struct_ok
      CudaService_BatchKernelLaunchParams_struct_ok CudaService_BatchKernelLaunchResults_struct_ok
      CudaService_MultiGpuCooperationParams_struct_ok CudaService_MultiGpuCooperationResults_struct_ok
      CudaService_AllocAndWriteParams_struct_ok CudaService_AllocAndWriteResults_struct_ok)

end
