(* ===== verification/BodyLinks.thy ===== *)
theory BodyLinks
  imports ClassLinks BodiesCommon BodiesMemcopy BodiesKernel BodiesHookLauncher BodiesGpuControl BodiesCuda
begin

section \<open>Accessors as declared and as written\<close>

text \<open>
  The bodies of \<open>BodiesCommon\<close> to \<open>BodiesCuda\<close> together: the classes (\<open>ClassCommon\<close> to \<open>ClassCuda\<close>) declare
  exactly the accessors that have a body, and whatever is called on a struct, the bodies behave as
  the record of its named fields.
\<close>

definition generated_structs :: "(struct_spec \<times> struct_bodies) list" where
  "generated_structs = structs_Common @ structs_Memcopy @ structs_Kernel @ structs_HookLauncher @
     structs_GpuControl @ structs_Cuda"

lemma generated_structs_ok: "list_all (\<lambda>(S, bs). struct_ok S bs) generated_structs"
  by (simp add: generated_structs_def structs_Common_ok structs_Memcopy_ok structs_Kernel_ok structs_HookLauncher_ok
      structs_GpuControl_ok structs_Cuda_ok)

lemma generated_struct_ok: "(S, bs) \<in> set generated_structs \<Longrightarrow> struct_ok S bs"
  using generated_structs_ok by (auto simp: list_all_iff)

subsection \<open>Declarations\<close>

text \<open>The accessors of a class in the order of its declaration, and the bodies of that class in theirs.\<close>

fun declared :: "cxx_class \<Rightarrow> (string \<times> accessor) list" where
  "declared (CxxClass frame has_which accessors) = concat (map (\<lambda>(n, t, accs). map (Pair n) accs) accessors)"

definition written :: "class_kind \<Rightarrow> struct_bodies \<Rightarrow> (string \<times> accessor) list" where
  "written k bs = concat (map (\<lambda>(n, ms). map (\<lambda>b. (n, body_accessor b)) (filter (\<lambda>b. body_class b = k) ms)) bs)"

definition all_written :: "struct_bodies \<Rightarrow> struct_classes \<Rightarrow> bool" where
  "all_written bs = (\<lambda>(r, b, p). written OfReader bs = declared r \<and> written OfBuilder bs = declared b \<and>
     written OfPipeline bs = declared p)"

definition classes_Common :: "(struct_bodies \<times> struct_classes) list" where
  "classes_Common = [
     (ID_bodies, (ID_reader, ID_builder, ID_pipeline)), (Ack_bodies, (Ack_reader, Ack_builder, Ack_pipeline)),
     (GpuInfo_bodies, (GpuInfo_reader, GpuInfo_builder, GpuInfo_pipeline)), (Metadata_bodies, (Metadata_reader,
     Metadata_builder, Metadata_pipeline)), (MemoryHandle_bodies, (MemoryHandle_reader, MemoryHandle_builder,
     MemoryHandle_pipeline)), (Response_bodies, (Response_reader, Response_builder, Response_pipeline))]"

lemma classes_Common_written: "list_all (\<lambda>(bs, c). all_written bs c) classes_Common"
  unfolding classes_Common_def list.pred_inject prod.case
  by (intro conjI TrueI) (simp_all add: all_written_def written_def
      ID_bodies_def ID_reader_def ID_builder_def ID_pipeline_def Ack_bodies_def Ack_reader_def Ack_builder_def
      Ack_pipeline_def GpuInfo_bodies_def GpuInfo_reader_def GpuInfo_builder_def GpuInfo_pipeline_def
      Metadata_bodies_def Metadata_reader_def Metadata_builder_def Metadata_pipeline_def MemoryHandle_bodies_def
      MemoryHandle_reader_def MemoryHandle_builder_def MemoryHandle_pipeline_def Response_bodies_def
      Response_reader_def Response_builder_def Response_pipeline_def)

definition classes_Memcopy :: "(struct_bodies \<times> struct_classes) list" where
  "classes_Memcopy = [
     (RdmaEndpoint_bodies, (RdmaEndpoint_reader, RdmaEndpoint_builder, RdmaEndpoint_pipeline)), (RdmaPlan_bodies,
     (RdmaPlan_reader, RdmaPlan_builder, RdmaPlan_pipeline)), (MemoryOp_bodies, (MemoryOp_reader, MemoryOp_builder,
     MemoryOp_pipeline))]"

lemma classes_Memcopy_written: "list_all (\<lambda>(bs, c). all_written bs c) classes_Memcopy"
  unfolding classes_Memcopy_def list.pred_inject prod.case
  by (intro conjI TrueI) (simp_all add: all_written_def written_def
      RdmaEndpoint_bodies_def RdmaEndpoint_reader_def RdmaEndpoint_builder_def RdmaEndpoint_pipeline_def
      RdmaPlan_bodies_def RdmaPlan_reader_def RdmaPlan_builder_def RdmaPlan_pipeline_def MemoryOp_bodies_def
      MemoryOp_reader_def MemoryOp_builder_def MemoryOp_pipeline_def)

definition classes_Kernel :: "(struct_bodies \<times> struct_classes) list" where
  "classes_Kernel = [
     (KernelParam_bodies, (KernelParam_reader, KernelParam_builder, KernelParam_pipeline)), (KernelLaunch_bodies,
     (KernelLaunch_reader, KernelLaunch_builder, KernelLaunch_pipeline))]"

lemma classes_Kernel_written: "list_all (\<lambda>(bs, c). all_written bs c) classes_Kernel"
  unfolding classes_Kernel_def list.pred_inject prod.case
  by (intro conjI TrueI) (simp_all add: all_written_def written_def
      KernelParam_bodies_def KernelParam_reader_def KernelParam_builder_def KernelParam_pipeline_def
      KernelLaunch_bodies_def KernelLaunch_reader_def KernelLaunch_builder_def KernelLaunch_pipeline_def)

definition classes_HookLauncher :: "(struct_bodies \<times> struct_classes) list" where
  "classes_HookLauncher = [
     (MemcpyPlan_bodies, (MemcpyPlan_reader, MemcpyPlan_builder, MemcpyPlan_pipeline)), (NodeStatus_bodies,
     (NodeStatus_reader, NodeStatus_builder, NodeStatus_pipeline)), (AllocationPlan_bodies, (AllocationPlan_reader,
     AllocationPlan_builder, AllocationPlan_pipeline)), (HookLauncher_PlanMemcpyHtoDParams_bodies,
     (HookLauncher_PlanMemcpyHtoDParams_reader, HookLauncher_PlanMemcpyHtoDParams_builder,
     HookLauncher_PlanMemcpyHtoDParams_pipeline)), (HookLauncher_PlanMemcpyHtoDResults_bodies,
     (HookLauncher_PlanMemcpyHtoDResults_reader, HookLauncher_PlanMemcpyHtoDResults_builder,
     HookLauncher_PlanMemcpyHtoDResults_pipeline)), (HookLauncher_PlanMemcpyDtoHParams_bodies,
     (HookLauncher_PlanMemcpyDtoHParams_reader, HookLauncher_PlanMemcpyDtoHParams_builder,
     HookLauncher_PlanMemcpyDtoHParams_pipeline)), (HookLauncher_PlanMemcpyDtoHResults_bodies,
     (HookLauncher_PlanMemcpyDtoHResults_reader, HookLauncher_PlanMemcpyDtoHResults_builder,
     HookLauncher_PlanMemcpyDtoHResults_pipeline)), (HookLauncher_GetNodeStatusParams_bodies,
     (HookLauncher_GetNodeStatusParams_reader, HookLauncher_GetNodeStatusParams_builder,
     HookLauncher_GetNodeStatusParams_pipeline)), (HookLauncher_GetNodeStatusResults_bodies,
     (HookLauncher_GetNodeStatusResults_reader, HookLauncher_GetNodeStatusResults_builder,
     HookLauncher_GetNodeStatusResults_pipeline)), (HookLauncher_PrefetchDataParams_bodies,
     (HookLauncher_PrefetchDataParams_reader, HookLauncher_PrefetchDataParams_builder,
     HookLauncher_PrefetchDataParams_pipeline)), (HookLauncher_PrefetchDataResults_bodies,
     (HookLauncher_PrefetchDataResults_reader, HookLauncher_PrefetchDataResults_builder,
     HookLauncher_PrefetchDataResults_pipeline)), (HookLauncher_MeasureBandwidthParams_bodies,
     (HookLauncher_MeasureBandwidthParams_reader, HookLauncher_MeasureBandwidthParams_builder,
     HookLauncher_MeasureBandwidthParams_pipeline)), (HookLauncher_MeasureBandwidthResults_bodies,
     (HookLauncher_MeasureBandwidthResults_reader, HookLauncher_MeasureBandwidthResults_builder,
     HookLauncher_MeasureBandwidthResults_pipeline)), (HookLauncher_TrackAsyncTaskParams_bodies,
     (HookLauncher_TrackAsyncTaskParams_reader, HookLauncher_TrackAsyncTaskParams_builder,
     HookLauncher_TrackAsyncTaskParams_pipeline)), (HookLauncher_TrackAsyncTaskResults_bodies,
     (HookLauncher_TrackAsyncTaskResults_reader, HookLauncher_TrackAsyncTaskResults_builder,
     HookLauncher_TrackAsyncTaskResults_pipeline)), (HookLauncher_GetMemoryLocationParams_bodies,
     (HookLauncher_GetMemoryLocationParams_reader, HookLauncher_GetMemoryLocationParams_builder,
     HookLauncher_GetMemoryLocationParams_pipeline)), (HookLauncher_GetMemoryLocationResults_bodies,
     (HookLauncher_GetMemoryLocationResults_reader, HookLauncher_GetMemoryLocationResults_builder,
     HookLauncher_GetMemoryLocationResults_pipeline)), (HookLauncher_AdvisePrefetchParams_bodies,
     (HookLauncher_AdvisePrefetchParams_reader, HookLauncher_AdvisePrefetchParams_builder,
     HookLauncher_AdvisePrefetchParams_pipeline)), (HookLauncher_AdvisePrefetchResults_bodies,
     (HookLauncher_AdvisePrefetchResults_reader, HookLauncher_AdvisePrefetchResults_builder,
     HookLauncher_AdvisePrefetchResults_pipeline)), (HookLauncher_RequestRdmaPlanParams_bodies,
     (HookLauncher_RequestRdmaPlanParams_reader, HookLauncher_RequestRdmaPlanParams_builder,
     HookLauncher_RequestRdmaPlanParams_pipeline)), (HookLauncher_RequestRdmaPlanResults_bodies,
     (HookLauncher_RequestRdmaPlanResults_reader, HookLauncher_RequestRdmaPlanResults_builder,
     HookLauncher_RequestRdmaPlanResults_pipeline)), (HookLauncher_RequestAllocationPlanParams_bodies,
     (HookLauncher_RequestAllocationPlanParams_reader, HookLauncher_RequestAllocationPlanParams_builder,
     HookLauncher_RequestAllocationPlanParams_pipeline)), (HookLauncher_RequestAllocationPlanResults_bodies,
     (HookLauncher_RequestAllocationPlanResults_reader, HookLauncher_RequestAllocationPlanResults_builder,
     HookLauncher_RequestAllocationPlanResults_pipeline)), (HookLauncher_RequestFreePlanParams_bodies,
     (HookLauncher_RequestFreePlanParams_reader, HookLauncher_RequestFreePlanParams_builder,
     HookLauncher_RequestFreePlanParams_pipeline)), (HookLauncher_RequestFreePlanResults_bodies,
     (HookLauncher_RequestFreePlanResults_reader, HookLauncher_RequestFreePlanResults_builder,
     HookLauncher_RequestFreePlanResults_pipeline)), (HookLauncher_LaunchKernelParams_bodies,
     (HookLauncher_LaunchKernelParams_reader, HookLauncher_LaunchKernelParams_builder,
     HookLauncher_LaunchKernelParams_pipeline)), (HookLauncher_LaunchKernelResults_bodies,
     (HookLauncher_LaunchKernelResults_reader, HookLauncher_LaunchKernelResults_builder,
     HookLauncher_LaunchKernelResults_pipeline)), (BandwidthResult_bodies, (BandwidthResult_reader,
     BandwidthResult_builder, BandwidthResult_pipeline)), (TaskStatus_bodies, (TaskStatus_reader, TaskStatus_builder,
     TaskStatus_pipeline)), (NodeInfo_bodies, (NodeInfo_reader, NodeInfo_builder, NodeInfo_pipeline))]"

lemma classes_HookLauncher_written: "list_all (\<lambda>(bs, c). all_written bs c) classes_HookLauncher"
  unfolding classes_HookLauncher_def list.pred_inject prod.case
  by (intro conjI TrueI) (simp_all add: all_written_def written_def
      MemcpyPlan_bodies_def MemcpyPlan_reader_def MemcpyPlan_builder_def MemcpyPlan_pipeline_def
      NodeStatus_bodies_def NodeStatus_reader_def NodeStatus_builder_def NodeStatus_pipeline_def
      AllocationPlan_bodies_def AllocationPlan_reader_def AllocationPlan_builder_def AllocationPlan_pipeline_def
      HookLauncher_PlanMemcpyHtoDParams_bodies_def HookLauncher_PlanMemcpyHtoDParams_reader_def
      HookLauncher_PlanMemcpyHtoDParams_builder_def HookLauncher_PlanMemcpyHtoDParams_pipeline_def
      HookLauncher_PlanMemcpyHtoDResults_bodies_def HookLauncher_PlanMemcpyHtoDResults_reader_def
      HookLauncher_PlanMemcpyHtoDResults_builder_def HookLauncher_PlanMemcpyHtoDResults_pipeline_def
      HookLauncher_PlanMemcpyDtoHParams_bodies_def HookLauncher_PlanMemcpyDtoHParams_reader_def
      HookLauncher_PlanMemcpyDtoHParams_builder_def HookLauncher_PlanMemcpyDtoHParams_pipeline_def
      HookLauncher_PlanMemcpyDtoHResults_bodies_def HookLauncher_PlanMemcpyDtoHResults_reader_def
      HookLauncher_PlanMemcpyDtoHResults_builder_def HookLauncher_PlanMemcpyDtoHResults_pipeline_def
      HookLauncher_GetNodeStatusParams_bodies_def HookLauncher_GetNodeStatusParams_reader_def
      HookLauncher_GetNodeStatusParams_builder_def HookLauncher_GetNodeStatusParams_pipeline_def
      HookLauncher_GetNodeStatusResults_bodies_def HookLauncher_GetNodeStatusResults_reader_def
      HookLauncher_GetNodeStatusResults_builder_def HookLauncher_GetNodeStatusResults_pipeline_def
      HookLauncher_PrefetchDataParams_bodies_def HookLauncher_PrefetchDataParams_reader_def
      HookLauncher_PrefetchDataParams_builder_def HookLauncher_PrefetchDataParams_pipeline_def
      HookLauncher_PrefetchDataResults_bodies_def HookLauncher_PrefetchDataResults_reader_def
      HookLauncher_PrefetchDataResults_builder_def HookLauncher_PrefetchDataResults_pipeline_def
      HookLauncher_MeasureBandwidthParams_bodies_def HookLauncher_MeasureBandwidthParams_reader_def
      HookLauncher_MeasureBandwidthParams_builder_def HookLauncher_MeasureBandwidthParams_pipeline_def
      HookLauncher_MeasureBandwidthResults_bodies_def HookLauncher_MeasureBandwidthResults_reader_def
      HookLauncher_MeasureBandwidthResults_builder_def HookLauncher_MeasureBandwidthResults_pipeline_def
      HookLauncher_TrackAsyncTaskParams_bodies_def HookLauncher_TrackAsyncTaskParams_reader_def
      HookLauncher_TrackAsyncTaskParams_builder_def HookLauncher_TrackAsyncTaskParams_pipeline_def
      HookLauncher_TrackAsyncTaskResults_bodies_def HookLauncher_TrackAsyncTaskResults_reader_def
      HookLauncher_TrackAsyncTaskResults_builder_def HookLauncher_TrackAsyncTaskResults_pipeline_def
      HookLauncher_GetMemoryLocationParams_bodies_def HookLauncher_GetMemoryLocationParams_reader_def
      HookLauncher_GetMemoryLocationParams_builder_def HookLauncher_GetMemoryLocationParams_pipeline_def
      HookLauncher_GetMemoryLocationResults_bodies_def HookLauncher_GetMemoryLocationResults_reader_def
      HookLauncher_GetMemoryLocationResults_builder_def HookLauncher_GetMemoryLocationResults_pipeline_def
      HookLauncher_AdvisePrefetchParams_bodies_def HookLauncher_AdvisePrefetchParams_reader_def
      HookLauncher_AdvisePrefetchParams_builder_def HookLauncher_AdvisePrefetchParams_pipeline_def
      HookLauncher_AdvisePrefetchResults_bodies_def HookLauncher_AdvisePrefetchResults_reader_def
      HookLauncher_AdvisePrefetchResults_builder_def HookLauncher_AdvisePrefetchResults_pipeline_def
      HookLauncher_RequestRdmaPlanParams_bodies_def HookLauncher_RequestRdmaPlanParams_reader_def
      HookLauncher_RequestRdmaPlanParams_builder_def HookLauncher_RequestRdmaPlanParams_pipeline_def
      HookLauncher_RequestRdmaPlanResults_bodies_def HookLauncher_RequestRdmaPlanResults_reader_def
      HookLauncher_RequestRdmaPlanResults_builder_def HookLauncher_RequestRdmaPlanResults_pipeline_def
      HookLauncher_RequestAllocationPlanParams_bodies_def HookLauncher_RequestAllocationPlanParams_reader_def
      HookLauncher_RequestAllocationPlanParams_builder_def HookLauncher_RequestAllocationPlanParams_pipeline_def
      HookLauncher_RequestAllocationPlanResults_bodies_def HookLauncher_RequestAllocationPlanResults_reader_def
      HookLauncher_RequestAllocationPlanResults_builder_def HookLauncher_RequestAllocationPlanResults_pipeline_def
      HookLauncher_RequestFreePlanParams_bodies_def HookLauncher_RequestFreePlanParams_reader_def
      HookLauncher_RequestFreePlanParams_builder_def HookLauncher_RequestFreePlanParams_pipeline_def
      HookLauncher_RequestFreePlanResults_bodies_def HookLauncher_RequestFreePlanResults_reader_def
      HookLauncher_RequestFreePlanResults_builder_def HookLauncher_RequestFreePlanResults_pipeline_def
      HookLauncher_LaunchKernelParams_bodies_def HookLauncher_LaunchKernelParams_reader_def
      HookLauncher_LaunchKernelParams_builder_def HookLauncher_LaunchKernelParams_pipeline_def
      HookLauncher_LaunchKernelResults_bodies_def HookLauncher_LaunchKernelResults_reader_def
      HookLauncher_LaunchKernelResults_builder_def HookLauncher_LaunchKernelResults_pipeline_def
      BandwidthResult_bodies_def BandwidthResult_reader_def BandwidthResult_builder_def BandwidthResult_pipeline_def
      TaskStatus_bodies_def TaskStatus_reader_def TaskStatus_builder_def TaskStatus_pipeline_def NodeInfo_bodies_def
      NodeInfo_reader_def NodeInfo_builder_def NodeInfo_pipeline_def)

definition classes_GpuControl :: "(struct_bodies \<times> struct_classes) list" where
  "classes_GpuControl = [
     (GpuList_bodies, (GpuList_reader, GpuList_builder, GpuList_pipeline)), (GpuRequest_bodies, (GpuRequest_reader,
     GpuRequest_builder, GpuRequest_pipeline)), (GpuStatus_bodies, (GpuStatus_reader, GpuStatus_builder,
     GpuStatus_pipeline)), (Path_bodies, (Path_reader, Path_builder, Path_pipeline)), (Step_bodies, (Step_reader,
     Step_builder, Step_pipeline)), (Metrics_bodies, (Metrics_reader, Metrics_builder, Metrics_pipeline)),
     (Scheduler_RequestPathParams_bodies, (Scheduler_RequestPathParams_reader, Scheduler_RequestPathParams_builder,
     Scheduler_RequestPathParams_pipeline)), (Scheduler_RequestPathResults_bodies,
     (Scheduler_RequestPathResults_reader, Scheduler_RequestPathResults_builder,
     Scheduler_RequestPathResults_pipeline)), (Scheduler_ReportMetricsParams_bodies,
     (Scheduler_ReportMetricsParams_reader, Scheduler_ReportMetricsParams_builder,
     Scheduler_ReportMetricsParams_pipeline)), (Scheduler_ReportMetricsResults_bodies,
     (Scheduler_ReportMetricsResults_reader, Scheduler_ReportMetricsResults_builder,
     Scheduler_ReportMetricsResults_pipeline)), (Scheduler_RegisterGpuParams_bodies,
     (Scheduler_RegisterGpuParams_reader, Scheduler_RegisterGpuParams_builder,
     Scheduler_RegisterGpuParams_pipeline)), (Scheduler_RegisterGpuResults_bodies,
     (Scheduler_RegisterGpuResults_reader, Scheduler_RegisterGpuResults_builder,
     Scheduler_RegisterGpuResults_pipeline)), (Scheduler_ListGpusParams_bodies, (Scheduler_ListGpusParams_reader,
     Scheduler_ListGpusParams_builder, Scheduler_ListGpusParams_pipeline)), (Scheduler_ListGpusResults_bodies,
     (Scheduler_ListGpusResults_reader, Scheduler_ListGpusResults_builder, Scheduler_ListGpusResults_pipeline)),
     (Scheduler_GetGpuStatusParams_bodies, (Scheduler_GetGpuStatusParams_reader,
     Scheduler_GetGpuStatusParams_builder, Scheduler_GetGpuStatusParams_pipeline)),
     (Scheduler_GetGpuStatusResults_bodies, (Scheduler_GetGpuStatusResults_reader,
     Scheduler_GetGpuStatusResults_builder, Scheduler_GetGpuStatusResults_pipeline)),
     (Scheduler_AcquireGpuParams_bodies, (Scheduler_AcquireGpuParams_reader, Scheduler_AcquireGpuParams_builder,
     Scheduler_AcquireGpuParams_pipeline)), (Scheduler_AcquireGpuResults_bodies, (Scheduler_AcquireGpuResults_reader,
     Scheduler_AcquireGpuResults_builder, Scheduler_AcquireGpuResults_pipeline)), (Scheduler_ReleaseGpuParams_bodies,
     (Scheduler_ReleaseGpuParams_reader, Scheduler_ReleaseGpuParams_builder, Scheduler_ReleaseGpuParams_pipeline)),
     (Scheduler_ReleaseGpuResults_bodies, (Scheduler_ReleaseGpuResults_reader, Scheduler_ReleaseGpuResults_builder,
     Scheduler_ReleaseGpuResults_pipeline)), (Scheduler_RunCommandParams_bodies, (Scheduler_RunCommandParams_reader,
     Scheduler_RunCommandParams_builder, Scheduler_RunCommandParams_pipeline)), (Scheduler_RunCommandResults_bodies,
     (Scheduler_RunCommandResults_reader, Scheduler_RunCommandResults_builder,
     Scheduler_RunCommandResults_pipeline)), (RunRequest_bodies, (RunRequest_reader, RunRequest_builder,
     RunRequest_pipeline)), (RunResponse_bodies, (RunResponse_reader, RunResponse_builder, RunResponse_pipeline))]"

lemma classes_GpuControl_written: "list_all (\<lambda>(bs, c). all_written bs c) classes_GpuControl"
  unfolding classes_GpuControl_def list.pred_inject prod.case
  by (intro conjI TrueI) (simp_all add: all_written_def written_def
      GpuList_bodies_def GpuList_reader_def GpuList_builder_def GpuList_pipeline_def GpuRequest_bodies_def
      GpuRequest_reader_def GpuRequest_builder_def GpuRequest_pipeline_def GpuStatus_bodies_def GpuStatus_reader_def
      GpuStatus_builder_def GpuStatus_pipeline_def Path_bodies_def Path_reader_def Path_builder_def Path_pipeline_def
      Step_bodies_def Step_reader_def Step_builder_def Step_pipeline_def Metrics_bodies_def Metrics_reader_def
      Metrics_builder_def Metrics_pipeline_def Scheduler_RequestPathParams_bodies_def
      Scheduler_RequestPathParams_reader_def Scheduler_RequestPathParams_builder_def
      Scheduler_RequestPathParams_pipeline_def Scheduler_RequestPathResults_bodies_def
      Scheduler_RequestPathResults_reader_def Scheduler_RequestPathResults_builder_def
      Scheduler_RequestPathResults_pipeline_def Scheduler_ReportMetricsParams_bodies_def
      Scheduler_ReportMetricsParams_reader_def Scheduler_ReportMetricsParams_builder_def
      Scheduler_ReportMetricsParams_pipeline_def Scheduler_ReportMetricsResults_bodies_def
      Scheduler_ReportMetricsResults_reader_def Scheduler_ReportMetricsResults_builder_def
      Scheduler_ReportMetricsResults_pipeline_def Scheduler_RegisterGpuParams_bodies_def
      Scheduler_RegisterGpuParams_reader_def Scheduler_RegisterGpuParams_builder_def
      Scheduler_RegisterGpuParams_pipeline_def Scheduler_RegisterGpuResults_bodies_def
      Scheduler_RegisterGpuResults_reader_def Scheduler_RegisterGpuResults_builder_def
      Scheduler_RegisterGpuResults_pipeline_def Scheduler_ListGpusParams_bodies_def
      Scheduler_ListGpusParams_reader_def Scheduler_ListGpusParams_builder_def Scheduler_ListGpusParams_pipeline_def
      Scheduler_ListGpusResults_bodies_def Scheduler_ListGpusResults_reader_def Scheduler_ListGpusResults_builder_def
      Scheduler_ListGpusResults_pipeline_def Scheduler_GetGpuStatusParams_bodies_def
      Scheduler_GetGpuStatusParams_reader_def Scheduler_GetGpuStatusParams_builder_def
      Scheduler_GetGpuStatusParams_pipeline_def Scheduler_GetGpuStatusResults_bodies_def
      Scheduler_GetGpuStatusResults_reader_def Scheduler_GetGpuStatusResults_builder_def
      Scheduler_GetGpuStatusResults_pipeline_def Scheduler_AcquireGpuParams_bodies_def
      Scheduler_AcquireGpuParams_reader_def Scheduler_AcquireGpuParams_builder_def
      Scheduler_AcquireGpuParams_pipeline_def Scheduler_AcquireGpuResults_bodies_def
      Scheduler_AcquireGpuResults_reader_def Scheduler_AcquireGpuResults_builder_def
      Scheduler_AcquireGpuResults_pipeline_def Scheduler_ReleaseGpuParams_bodies_def
      Scheduler_ReleaseGpuParams_reader_def Scheduler_ReleaseGpuParams_builder_def
      Scheduler_ReleaseGpuParams_pipeline_def Scheduler_ReleaseGpuResults_bodies_def
      Scheduler_ReleaseGpuResults_reader_def Scheduler_ReleaseGpuResults_builder_def
      Scheduler_ReleaseGpuResults_pipeline_def Scheduler_RunCommandParams_bodies_def
      Scheduler_RunCommandParams_reader_def Scheduler_RunCommandParams_builder_def
      Scheduler_RunCommandParams_pipeline_def Scheduler_RunCommandResults_bodies_def
      Scheduler_RunCommandResults_reader_def Scheduler_RunCommandResults_builder_def
      Scheduler_RunCommandResults_pipeline_def RunRequest_bodies_def RunRequest_reader_def RunRequest_builder_def
      RunRequest_pipeline_def RunResponse_bodies_def RunResponse_reader_def RunResponse_builder_def
      RunResponse_pipeline_def)

definition classes_Cuda :: "(struct_bodies \<times> struct_classes) list" where
  "classes_Cuda = [
     (MemcpyParams_bodies, (MemcpyParams_reader, MemcpyParams_builder, MemcpyParams_pipeline)), (StreamHandle_bodies,
     (StreamHandle_reader, StreamHandle_builder, StreamHandle_pipeline)), (StreamCreateParams_bodies,
     (StreamCreateParams_reader, StreamCreateParams_builder, StreamCreateParams_pipeline)), (EventHandle_bodies,
     (EventHandle_reader, EventHandle_builder, EventHandle_pipeline)), (EventParams_bodies, (EventParams_reader,
     EventParams_builder, EventParams_pipeline)), (BatchKernelLaunch_bodies, (BatchKernelLaunch_reader,
     BatchKernelLaunch_builder, BatchKernelLaunch_pipeline)), (MultiGpuRequest_bodies, (MultiGpuRequest_reader,
     MultiGpuRequest_builder, MultiGpuRequest_pipeline)), (CudaService_CudaInitParams_bodies,
     (CudaService_CudaInitParams_reader, CudaService_CudaInitParams_builder, CudaService_CudaInitParams_pipeline)),
     (CudaService_CudaInitResults_bodies, (CudaService_CudaInitResults_reader, CudaService_CudaInitResults_builder,
     CudaService_CudaInitResults_pipeline)), (CudaService_CudaMemAllocParams_bodies,
     (CudaService_CudaMemAllocParams_reader, CudaService_CudaMemAllocParams_builder,
     CudaService_CudaMemAllocParams_pipeline)), (CudaService_CudaMemAllocResults_bodies,
     (CudaService_CudaMemAllocResults_reader, CudaService_CudaMemAllocResults_builder,
     CudaService_CudaMemAllocResults_pipeline)), (CudaService_CudaMemcpyParams_bodies,
     (CudaService_CudaMemcpyParams_reader, CudaService_CudaMemcpyParams_builder,
     CudaService_CudaMemcpyParams_pipeline)), (CudaService_CudaMemcpyResults_bodies,
     (CudaService_CudaMemcpyResults_reader, CudaService_CudaMemcpyResults_builder,
     CudaService_CudaMemcpyResults_pipeline)), (CudaService_CudaMemFreeParams_bodies,
     (CudaService_CudaMemFreeParams_reader, CudaService_CudaMemFreeParams_builder,
     CudaService_CudaMemFreeParams_pipeline)), (CudaService_CudaMemFreeResults_bodies,
     (CudaService_CudaMemFreeResults_reader, CudaService_CudaMemFreeResults_builder,
     CudaService_CudaMemFreeResults_pipeline)), (CudaService_CreateCudaStreamParams_bodies,
     (CudaService_CreateCudaStreamParams_reader, CudaService_CreateCudaStreamParams_builder,
     CudaService_CreateCudaStreamParams_pipeline)), (CudaService_CreateCudaStreamResults_bodies,
     (CudaService_CreateCudaStreamResults_reader, CudaService_CreateCudaStreamResults_builder,
     CudaService_CreateCudaStreamResults_pipeline)), (CudaService_DestroyCudaStreamParams_bodies,
     (CudaService_DestroyCudaStreamParams_reader, CudaService_DestroyCudaStreamParams_builder,
     CudaService_DestroyCudaStreamParams_pipeline)), (CudaService_DestroyCudaStreamResults_bodies,
     (CudaService_DestroyCudaStreamResults_reader, CudaService_DestroyCudaStreamResults_builder,
     CudaService_DestroyCudaStreamResults_pipeline)), (CudaService_SynchronizeCudaStreamParams_bodies,
     (CudaService_SynchronizeCudaStreamParams_reader, CudaService_SynchronizeCudaStreamParams_builder,
     CudaService_SynchronizeCudaStreamParams_pipeline)), (CudaService_SynchronizeCudaStreamResults_bodies,
     (CudaService_SynchronizeCudaStreamResults_reader, CudaService_SynchronizeCudaStreamResults_builder,
     CudaService_SynchronizeCudaStreamResults_pipeline)), (CudaService_CudaKernelLaunchParams_bodies,
     (CudaService_CudaKernelLaunchParams_reader, CudaService_CudaKernelLaunchParams_builder,
     CudaService_CudaKernelLaunchParams_pipeline)), (CudaService_CudaKernelLaunchResults_bodies,
     (CudaService_CudaKernelLaunchResults_reader, CudaService_CudaKernelLaunchResults_builder,
     CudaService_CudaKernelLaunchResults_pipeline)), (CudaService_CreateEventParams_bodies,
     (CudaService_CreateEventParams_reader, CudaService_CreateEventParams_builder,
     CudaService_CreateEventParams_pipeline)), (CudaService_CreateEventResults_bodies,
     (CudaService_CreateEventResults_reader, CudaService_CreateEventResults_builder,
     CudaService_CreateEventResults_pipeline)), (CudaService_RecordEventParams_bodies,
     (CudaService_RecordEventParams_reader, CudaService_RecordEventParams_builder,
     CudaService_RecordEventParams_pipeline)), (CudaService_RecordEventResults_bodies,
     (CudaService_RecordEventResults_reader, CudaService_RecordEventResults_builder,
     CudaService_RecordEventResults_pipeline)), (CudaService_EventSynchronizeParams_bodies,
     (CudaService_EventSynchronizeParams_reader, CudaService_EventSynchronizeParams_builder,
     CudaService_EventSynchronizeParams_pipeline)), (CudaService_EventSynchronizeResults_bodies,
     (CudaService_EventSynchronizeResults_reader, CudaService_EventSynchronizeResults_builder,
     CudaService_EventSynchronizeResults_pipeline)), (CudaService_DestroyEventParams_bodies,
     (CudaService_DestroyEventParams_reader, CudaService_DestroyEventParams_builder,
     CudaService_DestroyEventParams_pipeline)), (CudaService_DestroyEventResults_bodies,
     (CudaService_DestroyEventResults_reader, CudaService_DestroyEventResults_builder,
     CudaService_DestroyEventResults_pipeline)), (CudaService_BatchKernelLaunchParams_bodies,
     (CudaService_BatchKernelLaunchParams_reader, CudaService_BatchKernelLaunchParams_builder,
     CudaService_BatchKernelLaunchParams_pipeline)), (CudaService_BatchKernelLaunchResults_bodies,
     (CudaService_BatchKernelLaunchResults_reader, CudaService_BatchKernelLaunchResults_builder,
     CudaService_BatchKernelLaunchResults_pipeline)), (CudaService_MultiGpuCooperationParams_bodies,
     (CudaService_MultiGpuCooperationParams_reader, CudaService_MultiGpuCooperationParams_builder,
     CudaService_MultiGpuCooperationParams_pipeline)), (CudaService_MultiGpuCooperationResults_bodies,
     (CudaService_MultiGpuCooperationResults_reader, CudaService_MultiGpuCooperationResults_builder,
     CudaService_MultiGpuCooperationResults_pipeline)), (CudaService_AllocAndWriteParams_bodies,
     (CudaService_AllocAndWriteParams_reader, CudaService_AllocAndWriteParams_builder,
     CudaService_AllocAndWriteParams_pipeline)), (CudaService_AllocAndWriteResults_bodies,
     (CudaService_AllocAndWriteResults_reader, CudaService_AllocAndWriteResults_builder,
     CudaService_AllocAndWriteResults_pipeline))]"

lemma classes_Cuda_written: "list_all (\<lambda>(bs, c). all_written bs c) classes_Cuda"
  unfolding classes_Cuda_def list.pred_inject prod.case
  by (intro conjI TrueI) (simp_all add: all_written_def written_def
      MemcpyParams_bodies_def MemcpyParams_reader_def MemcpyParams_builder_def MemcpyParams_pipeline_def
      StreamHandle_bodies_def StreamHandle_reader_def StreamHandle_builder_def StreamHandle_pipeline_def
      StreamCreateParams_bodies_def StreamCreateParams_reader_def StreamCreateParams_builder_def
      StreamCreateParams_pipeline_def EventHandle_bodies_def EventHandle_reader_def EventHandle_builder_def
      EventHandle_pipeline_def EventParams_bodies_def EventParams_reader_def EventParams_builder_def
      EventParams_pipeline_def BatchKernelLaunch_bodies_def BatchKernelLaunch_reader_def
      BatchKernelLaunch_builder_def BatchKernelLaunch_pipeline_def MultiGpuRequest_bodies_def
      MultiGpuRequest_reader_def MultiGpuRequest_builder_def MultiGpuRequest_pipeline_def
      CudaService_CudaInitParams_bodies_def CudaService_CudaInitParams_reader_def
      CudaService_CudaInitParams_builder_def CudaService_CudaInitParams_pipeline_def
      CudaService_CudaInitResults_bodies_def CudaService_CudaInitResults_reader_def
      CudaService_CudaInitResults_builder_def CudaService_CudaInitResults_pipeline_def
      CudaService_CudaMemAllocParams_bodies_def CudaService_CudaMemAllocParams_reader_def
      CudaService_CudaMemAllocParams_builder_def CudaService_CudaMemAllocParams_pipeline_def
      CudaService_CudaMemAllocResults_bodies_def CudaService_CudaMemAllocResults_reader_def
      CudaService_CudaMemAllocResults_builder_def CudaService_CudaMemAllocResults_pipeline_def
      CudaService_CudaMemcpyParams_bodies_def CudaService_CudaMemcpyParams_reader_def
      CudaService_CudaMemcpyParams_builder_def CudaService_CudaMemcpyParams_pipeline_def
      CudaService_CudaMemcpyResults_bodies_def CudaService_CudaMemcpyResults_reader_def
      CudaService_CudaMemcpyResults_builder_def CudaService_CudaMemcpyResults_pipeline_def
      CudaService_CudaMemFreeParams_bodies_def CudaService_CudaMemFreeParams_reader_def
      CudaService_CudaMemFreeParams_builder_def CudaService_CudaMemFreeParams_pipeline_def
      CudaService_CudaMemFreeResults_bodies_def CudaService_CudaMemFreeResults_reader_def
      CudaService_CudaMemFreeResults_builder_def CudaService_CudaMemFreeResults_pipeline_def
      CudaService_CreateCudaStreamParams_bodies_def CudaService_CreateCudaStreamParams_reader_def
      CudaService_CreateCudaStreamParams_builder_def CudaService_CreateCudaStreamParams_pipeline_def
      CudaService_CreateCudaStreamResults_bodies_def CudaService_CreateCudaStreamResults_reader_def
      CudaService_CreateCudaStreamResults_builder_def CudaService_CreateCudaStreamResults_pipeline_def
      CudaService_DestroyCudaStreamParams_bodies_def CudaService_DestroyCudaStreamParams_reader_def
      CudaService_DestroyCudaStreamParams_builder_def CudaService_DestroyCudaStreamParams_pipeline_def
      CudaService_DestroyCudaStreamResults_bodies_def CudaService_DestroyCudaStreamResults_reader_def
      CudaService_DestroyCudaStreamResults_builder_def CudaService_DestroyCudaStreamResults_pipeline_def
      CudaService_SynchronizeCudaStreamParams_bodies_def CudaService_SynchronizeCudaStreamParams_reader_def
      CudaService_SynchronizeCudaStreamParams_builder_def CudaService_SynchronizeCudaStreamParams_pipeline_def
      CudaService_SynchronizeCudaStreamResults_bodies_def CudaService_SynchronizeCudaStreamResults_reader_def
      CudaService_SynchronizeCudaStreamResults_builder_def CudaService_SynchronizeCudaStreamResults_pipeline_def
      CudaService_CudaKernelLaunchParams_bodies_def CudaService_CudaKernelLaunchParams_reader_def
      CudaService_CudaKernelLaunchParams_builder_def CudaService_CudaKernelLaunchParams_pipeline_def
      CudaService_CudaKernelLaunchResults_bodies_def CudaService_CudaKernelLaunchResults_reader_def
      CudaService_CudaKernelLaunchResults_builder_def CudaService_CudaKernelLaunchResults_pipeline_def
      CudaService_CreateEventParams_bodies_def CudaService_CreateEventParams_reader_def
      CudaService_CreateEventParams_builder_def CudaService_CreateEventParams_pipeline_def
      CudaService_CreateEventResults_bodies_def CudaService_CreateEventResults_reader_def
      CudaService_CreateEventResults_builder_def CudaService_CreateEventResults_pipeline_def
      CudaService_RecordEventParams_bodies_def CudaService_RecordEventParams_reader_def
      CudaService_RecordEventParams_builder_def CudaService_RecordEventParams_pipeline_def
      CudaService_RecordEventResults_bodies_def CudaService_RecordEventResults_reader_def
      CudaService_RecordEventResults_builder_def CudaService_RecordEventResults_pipeline_def
      CudaService_EventSynchronizeParams_bodies_def CudaService_EventSynchronizeParams_reader_def
      CudaService_EventSynchronizeParams_builder_def CudaService_EventSynchronizeParams_pipeline_def
      CudaService_EventSynchronizeResults_bodies_def CudaService_EventSynchronizeResults_reader_def
      CudaService_EventSynchronizeResults_builder_def CudaService_EventSynchronizeResults_pipeline_def
      CudaService_DestroyEventParams_bodies_def CudaService_DestroyEventParams_reader_def
      CudaService_DestroyEventParams_builder_def CudaService_DestroyEventParams_pipeline_def
      CudaService_DestroyEventResults_bodies_def CudaService_DestroyEventResults_reader_def
      CudaService_DestroyEventResults_builder_def CudaService_DestroyEventResults_pipeline_def
      CudaService_BatchKernelLaunchParams_bodies_def CudaService_BatchKernelLaunchParams_reader_def
      CudaService_BatchKernelLaunchParams_builder_def CudaService_BatchKernelLaunchParams_pipeline_def
      CudaService_BatchKernelLaunchResults_bodies_def CudaService_BatchKernelLaunchResults_reader_def
      CudaService_BatchKernelLaunchResults_builder_def CudaService_BatchKernelLaunchResults_pipeline_def
      CudaService_MultiGpuCooperationParams_bodies_def CudaService_MultiGpuCooperationParams_reader_def
      CudaService_MultiGpuCooperationParams_builder_def CudaService_MultiGpuCooperationParams_pipeline_def
      CudaService_MultiGpuCooperationResults_bodies_def CudaService_MultiGpuCooperationResults_reader_def
      CudaService_MultiGpuCooperationResults_builder_def CudaService_MultiGpuCooperationResults_pipeline_def
      CudaService_AllocAndWriteParams_bodies_def CudaService_AllocAndWriteParams_reader_def
      CudaService_AllocAndWriteParams_builder_def CudaService_AllocAndWriteParams_pipeline_def
      CudaService_AllocAndWriteResults_bodies_def CudaService_AllocAndWriteResults_reader_def
      CudaService_AllocAndWriteResults_builder_def CudaService_AllocAndWriteResults_pipeline_def)

definition written_classes :: "(struct_bodies \<times> struct_classes) list" where
  "written_classes = classes_Common @ classes_Memcopy @ classes_Kernel @ classes_HookLauncher @
     classes_GpuControl @ classes_Cuda"

lemma written_classes_written: "list_all (\<lambda>(bs, c). all_written bs c) written_classes"
  by (simp add: written_classes_def classes_Common_written classes_Memcopy_written classes_Kernel_written
      classes_HookLauncher_written classes_GpuControl_written classes_Cuda_written)

lemma written_bodies: "map fst written_classes = map snd generated_structs"
  by (simp add: written_classes_def generated_structs_def
      classes_Common_def classes_Memcopy_def classes_Kernel_def classes_HookLauncher_def classes_GpuControl_def
      classes_Cuda_def structs_Common_def structs_Memcopy_def structs_Kernel_def structs_HookLauncher_def
      structs_GpuControl_def structs_Cuda_def)

lemma written_all:
  "snd ` set classes_Common = snd ` set classCommon_classes"
  "snd ` set classes_Memcopy = snd ` set classMemcopy_classes"
  "snd ` set classes_Kernel = snd ` set classKernel_classes"
  "snd ` set classes_HookLauncher = snd ` set classHookLauncher_classes"
  "snd ` set classes_GpuControl = snd ` set classGpuControl_classes"
  "snd ` set classes_Cuda = snd ` set classCuda_classes"
  unfolding classes_Common_def classes_Memcopy_def classes_Kernel_def classes_HookLauncher_def classes_GpuControl_def
    classes_Cuda_def classCommon_classes_def classMemcopy_classes_def classKernel_classes_def
    classHookLauncher_classes_def classGpuControl_classes_def classCuda_classes_def list.set image_insert snd_conv image_empty
  by blast+

subsection \<open>Properties\<close>

text \<open>
  C19. The generated accessors refine a struct of named fields: on any runtime with the documented
  behaviour, for each of the generated structs and every sequence of calls of its accessors (tests,
  getters, setters, initialisations, adoptions and disownings of its reader, builder and pipeline,
  in any order, with numbers that fit), the bodies as they are written, each with its own constants,
  give the results of a record with a number or an object under each field's name and, for a
  union, its present member; they fail exactly where that record has no answer (a member that is
  got or disowned while the union has another), and the struct then holds what the record holds.
\<close>

theorem accessors_refine_fields:
  assumes "capnp_runtime rt" and "(S, bs) \<in> set generated_structs" and "list_all (call_fits S bs) cs"
  shows "rel_option (\<lambda>(rs, w) (rs', m). rs = rs' \<and> struct_holds rt S w m)
    (run_calls rt bs cs (rt_new rt)) (spec_calls S cs (spec_new S))"
proof -
  have ok: "struct_ok S bs" by (rule generated_struct_ok [OF assms(2)])
  then have "spec_ok S" by (simp add: struct_ok_def)
  from capnp_runtime.run_calls_refines [OF assms(1) ok capnp_runtime.new_holds [OF assms(1) this] assms(3)]
  show ?thesis by (rule option.rel_mono_strong) (auto simp: capnp_runtime.agree_def [OF assms(1)])
qed

definition call_of :: "class_kind \<Rightarrow> accessor \<Rightarrow> string \<Rightarrow> nat \<Rightarrow> string \<Rightarrow> string call" where
  "call_of k a n v x = \<lparr>c_class = k, c_accessor = a, c_field = n, c_number = v, c_object = x\<rparr>"

definition sample_calls :: "string call list" where
  "sample_calls = [call_of OfReader Has ''Msg'' 0 [], call_of OfBuilder Adopt ''Msg'' 0 ''late'', call_of OfBuilder Set ''Code'' 3 [],
     call_of OfBuilder Set ''Ok'' 1 [], call_of OfBuilder Disown ''Msg'' 0 [], call_of OfReader Get ''Msg'' 0 ''none'',
     call_of OfReader Get ''Code'' 0 []]"

theorem accessors_refine_fields_witness:
  "\<exists>w. run_calls encoding Ack_bodies sample_calls (rt_new encoding) =
     Some ([Truth False, Nothing, Nothing, Nothing, Orphan (Some ''late''), Object ''none'', Number 3], w)"
proof -
  have "(Ack_spec, Ack_bodies) \<in> set generated_structs" by (simp add: generated_structs_def structs_Common_def)
  moreover have "list_all (call_fits Ack_spec Ack_bodies) sample_calls"
    by (simp add: sample_calls_def call_of_def call_fits_def body_of_def Ack_bodies_def Ack_spec_def Ack_code_def Ack_ok_def)
  moreover have "\<exists>m. spec_calls Ack_spec sample_calls (spec_new Ack_spec) =
      Some ([Truth False, Nothing, Nothing, Nothing, Orphan (Some ''late''), Object ''none'', Number 3], m)"
    by (simp add: sample_calls_def call_of_def spec_call_def spec_new_def Ack_spec_def put_object_def)
  ultimately show ?thesis
    using accessors_refine_fields [OF encoded.capnp_runtime_axioms, of Ack_spec Ack_bodies sample_calls]
    by (auto simp: option_rel_Some2)
qed


end
