(* ===== verification/ClientCalls.thy ===== *)
theory ClientCalls
  imports ClassLinks
begin

section \<open>What the client asks of the generated classes\<close>

text \<open>
  The accessors, stubs and enumerators that the hand-written sources name, as they are written there,
  and their resolution against the generated classes, as the compiler does it: a chain of calls such
  as \<open>request.initDstHandle()\<close>, \<open>handle.getId().setHandle(...)\<close> goes from class to class by the types of
  the accessors. A builder's accessors give builders, a reader's give readers. Arguments are not
  typed here.
\<close>

datatype side = Reading | Building

type_synonym chain = "(accessor \<times> string) list"

fun member_named :: "cxx_class \<Rightarrow> string \<Rightarrow> (cxx_type \<times> accessor list) option" where
  "member_named (CxxClass f w ms) n = map_of ms n"

text \<open>The generated structs that the client's chains go through.\<close>

definition client_types :: "(string \<times> struct_classes) list" where
  "client_types = [
     (''ID'', ID_reader, ID_builder, ID_pipeline),
     (''Ack'', Ack_reader, Ack_builder, Ack_pipeline),
     (''MemoryHandle'', MemoryHandle_reader, MemoryHandle_builder, MemoryHandle_pipeline),
     (''MemcpyPlan'', MemcpyPlan_reader, MemcpyPlan_builder, MemcpyPlan_pipeline),
     (''AllocationPlan'', AllocationPlan_reader, AllocationPlan_builder, AllocationPlan_pipeline),
     (''NodeInfo'', NodeInfo_reader, NodeInfo_builder, NodeInfo_pipeline)]"

fun class_of_type :: "side \<Rightarrow> cxx_type \<Rightarrow> cxx_class option" where
  "class_of_type s (CxxNamed n) = map_option (\<lambda>(r, b, p). case s of Reading \<Rightarrow> r | Building \<Rightarrow> b) (map_of client_types n)"
| "class_of_type s _ = None"

fun resolves :: "side \<Rightarrow> cxx_class \<Rightarrow> chain \<Rightarrow> bool" where
  "resolves s c [] = True"
| "resolves s c ((a, n) # rest) =
     (case member_named c n of
        None \<Rightarrow> False
      | Some (ty, as) \<Rightarrow> a \<in> set as \<and>
          (rest = [] \<or> (case class_of_type s ty of None \<Rightarrow> False | Some c' \<Rightarrow> resolves s c' rest)))"

text \<open>A chain resolves step by step: the rest on the class of the first accessor's type.\<close>

lemma resolves_prefix: "resolves s c (xs @ ys) \<Longrightarrow> resolves s c xs"
  by (induction s c xs rule: resolves.induct) (auto split: option.splits)

lemma client_types_declared:
  "list_all (\<lambda>(i, n). cxx_name i = n \<and> map_of client_types n = map_of all_classes i)
     [(0xe6e79a5e90788fe9, ''ID''), (0xbc6e6b03361a3588, ''Ack''), (0xa3736725e03665aa, ''MemoryHandle''),
      (0xddb256ee5b6b53b3, ''MemcpyPlan''), (0xf853fd580170b9de, ''AllocationPlan''), (0xe512d381fed0aa2e, ''NodeInfo'')]"
  by (simp add: cxx_name_def client_types_def all_classes_def classCommon_classes_def classMemcopy_classes_def
      classKernel_classes_def classHookLauncher_classes_def)

subsection \<open>Requests\<close>

text \<open>
  A method of a client: the stub it calls, the chains on the parameters' builder and the chains on
  the results' reader. A stub that does not exist has no classes.
\<close>

datatype client_call = ClientCall string cxx_class "chain list" cxx_class "chain list"

definition no_class :: cxx_class where "no_class = CxxClass (reader_frame []) False []"

definition is_stub :: "string \<Rightarrow> bool" where
  "is_stub n \<longleftrightarrow> n \<in> set (map launcher_name launcher_methods)"

fun unresolved :: "client_call \<Rightarrow> bool \<times> chain list \<times> chain list" where
  "unresolved (ClientCall n params ps results rs) =
     (is_stub n, filter (\<lambda>c. \<not> resolves Building params c) ps, filter (\<lambda>c. \<not> resolves Reading results c) rs)"

text \<open>\<open>client/hook/launcher_client.cpp\<close>.\<close>

definition hook_calls :: "client_call list" where
  "hook_calls = [
     ClientCall ''requestAllocationPlan'' HookLauncher_RequestAllocationPlanParams_builder [[(Set, ''Size'')]]
       HookLauncher_RequestAllocationPlanResults_reader [[(Get, ''Plan'')]],
     ClientCall ''requestFreePlan'' HookLauncher_RequestFreePlanParams_builder [[(Set, ''FakePtr'')]]
       HookLauncher_RequestFreePlanResults_reader [[(Get, ''Ack''), (Get, ''Code'')]],
     ClientCall ''planMemcpyHtoD'' HookLauncher_PlanMemcpyHtoDParams_builder
       [[(Init, ''DstHandle''), (Get, ''Id''), (Set, ''Handle'')], [(Set, ''Size'')]]
       HookLauncher_PlanMemcpyHtoDResults_reader [[(Get, ''Plan'')]],
     ClientCall ''planMemcpyDtoH'' HookLauncher_PlanMemcpyDtoHParams_builder
       [[(Init, ''SrcHandle''), (Get, ''Id''), (Set, ''Handle'')], [(Set, ''Size'')]]
       HookLauncher_PlanMemcpyDtoHResults_reader [[(Get, ''Plan'')]],
     ClientCall ''launchKernel'' HookLauncher_LaunchKernelParams_builder
       [[(Set, ''Func'')], [(Set, ''GridDimX'')], [(Set, ''GridDimY'')], [(Set, ''GridDimZ'')], [(Set, ''BlockDimX'')],
        [(Set, ''BlockDimY'')], [(Set, ''BlockDimZ'')], [(Set, ''SharedMemBytes'')], [(InitSized, ''Params'')]]
       HookLauncher_LaunchKernelResults_reader [[(Get, ''Ack''), (Get, ''Code'')]],
     ClientCall ''getMemoryLocation'' HookLauncher_GetMemoryLocationParams_builder [[(Set, ''FakePtr'')]]
       HookLauncher_GetMemoryLocationResults_reader [[(Get, ''Location'')]],
     ClientCall ''advisePrefetch'' HookLauncher_AdvisePrefetchParams_builder [[(Set, ''FakePtr'')]]
       HookLauncher_AdvisePrefetchResults_reader [[(Get, ''Ack''), (Get, ''Code'')]]]"

text \<open>\<open>client/launcher/launcher_client.cpp\<close>.\<close>

definition node_calls :: "client_call list" where
  "node_calls = [
     ClientCall ''requestAllocation'' no_class [[(Set, ''Size'')]] no_class [[(Get, ''Result'')]],
     ClientCall ''requestFree'' no_class [[(Set, ''FakePtr'')]] no_class [[(Get, ''Result'')]],
     ClientCall ''planMemcpyHtoD'' HookLauncher_PlanMemcpyHtoDParams_builder
       [[(Set, ''DstFakePtr'')], [(Set, ''Size'')]] HookLauncher_PlanMemcpyHtoDResults_reader [[(Get, ''Plan'')]],
     ClientCall ''planMemcpyDtoH'' HookLauncher_PlanMemcpyDtoHParams_builder
       [[(Set, ''SrcFakePtr'')], [(Set, ''Size'')]] HookLauncher_PlanMemcpyDtoHResults_reader [[(Get, ''Plan'')]],
     ClientCall ''launchKernel'' HookLauncher_LaunchKernelParams_builder
       [[(Set, ''Func'')], [(Set, ''GridDim'')], [(Set, ''BlockDim'')], [(Set, ''SharedMem'')], [(InitSized, ''Params'')]]
       HookLauncher_LaunchKernelResults_reader [[(Get, ''Result'')]]]"

subsection \<open>Messages\<close>

text \<open>\<open>client/launcher/main.cpp\<close>: the plan of a copy.\<close>

definition plan_uses :: "(side \<times> cxx_class \<times> chain) list" where
  "plan_uses =
     map (\<lambda>c. (Reading, HookLauncher_PlanMemcpyHtoDParams_reader, c)) [[(Get, ''DstFakePtr'')], [(Get, ''Size'')]] @
     map (\<lambda>c. (Building, HookLauncher_PlanMemcpyHtoDResults_builder, c))
       [[(Init, ''Plan''), (Set, ''Error'')], [(Init, ''Plan''), (Set, ''TargetServerIp'')],
        [(Init, ''Plan''), (Set, ''TargetServerZmqPort'')], [(Init, ''Plan''), (Set, ''RemotePtr'')]]"

text \<open>\<open>client/launcher/protocol_adapter.cpp\<close>.\<close>

definition to_handle_uses :: "(side \<times> cxx_class \<times> chain) list" where
  "to_handle_uses = map (\<lambda>c. (Building, MemoryHandle_builder, c))
     [[(Init, ''Id''), (Set, ''Handle'')], [(Set, ''Size'')], [(Set, ''NodeId'')], [(Set, ''LocalPtr'')]]"

definition from_handle_uses :: "(side \<times> cxx_class \<times> chain) list" where
  "from_handle_uses = map (\<lambda>c. (Reading, MemoryHandle_reader, c))
     [[(Get, ''NodeId'')], [(Get, ''Size'')], [(Get, ''Id''), (Get, ''Handle'')], [(Get, ''LocalPtr'')]]"

definition launch_uses :: "(side \<times> cxx_class \<times> chain) list" where
  "launch_uses =
     map (\<lambda>c. (Building, KernelLaunch_builder, c))
       [[(Set, ''KernelName'')], [(Set, ''GridDimX'')], [(Set, ''GridDimY'')], [(Set, ''GridDimZ'')], [(Set, ''BlockDimX'')],
        [(Set, ''BlockDimY'')], [(Set, ''BlockDimZ'')], [(Set, ''SharedMemBytes'')], [(InitSized, ''Params'')]] @
     map (\<lambda>c. (Building, KernelParam_builder, c))
       [[(Set, ''Type'')], [(InitSized, ''Value'')], [(Set, ''NodeId'')], [(Set, ''MemoryType'')], [(Set, ''Alignment'')],
        [(Set, ''Offset'')]]"

definition adapter_enumerators :: "string list" where
  "adapter_enumerators = [''pointer'', ''scalar'']"

text \<open>\<open>client/launcher/services\<close>: the codes of the acknowledgements and results.\<close>

definition service_enumerators :: "string list" where
  "service_enumerators = [''OUT_OF_MEMORY'', ''INVALID_HANDLE'', ''TRANSFER_FAILED'', ''SUCCESS'', ''INVALID_VALUE'']"

definition unresolved_uses :: "(side \<times> cxx_class \<times> chain) list \<Rightarrow> chain list" where
  "unresolved_uses us = map (\<lambda>(s, k, c). c) (filter (\<lambda>(s, k, c). \<not> resolves s k c) us)"

lemmas resolve_calls = client_types_def is_stub_def launcher_methods_def no_class_def

subsection \<open>Properties\<close>

text \<open>
  The hook's client fits the generated interface: every stub it calls exists, and every chain of
  accessors on parameters and results resolves, through the nested structs, in the classes of that
  stub.
\<close>

theorem hook_client_resolves: "map unresolved hook_calls = replicate 7 (True, [], [])"
  by (simp add: hook_calls_def resolve_calls ID_builder_def Ack_reader_def MemoryHandle_builder_def
      HookLauncher_RequestAllocationPlanParams_builder_def HookLauncher_RequestAllocationPlanResults_reader_def
      HookLauncher_RequestFreePlanParams_builder_def HookLauncher_RequestFreePlanResults_reader_def
      HookLauncher_PlanMemcpyHtoDParams_builder_def HookLauncher_PlanMemcpyHtoDResults_reader_def
      HookLauncher_PlanMemcpyDtoHParams_builder_def HookLauncher_PlanMemcpyDtoHResults_reader_def
      HookLauncher_LaunchKernelParams_builder_def HookLauncher_LaunchKernelResults_reader_def
      HookLauncher_GetMemoryLocationParams_builder_def HookLauncher_GetMemoryLocationResults_reader_def
      HookLauncher_AdvisePrefetchParams_builder_def HookLauncher_AdvisePrefetchResults_reader_def numeral_eq_Suc)

text \<open>
  The launcher does not fit it, and exactly these names do not resolve: in its client for
  the nodes two stubs, with all that is asked of them, and six accessors; two accessors in the plan
  of a copy and twelve in the protocol adapter; both enumerators that the adapter names, and four
  of the five error codes of the services.
\<close>

theorem launcher_names_unresolved:
  "map unresolved node_calls = [
     (False, [[(Set, ''Size'')]], [[(Get, ''Result'')]]), (False, [[(Set, ''FakePtr'')]], [[(Get, ''Result'')]]),
     (True, [[(Set, ''DstFakePtr'')]], []), (True, [[(Set, ''SrcFakePtr'')]], []),
     (True, [[(Set, ''GridDim'')], [(Set, ''BlockDim'')], [(Set, ''SharedMem'')]], [[(Get, ''Result'')]])] \<and>
   unresolved_uses plan_uses = [[(Get, ''DstFakePtr'')], [(Init, ''Plan''), (Set, ''RemotePtr'')]] \<and>
   unresolved_uses (to_handle_uses @ from_handle_uses @ launch_uses) = [[(Set, ''LocalPtr'')], [(Get, ''LocalPtr'')], [(Set, ''KernelName'')],
     [(Set, ''GridDimX'')], [(Set, ''GridDimY'')], [(Set, ''GridDimZ'')], [(Set, ''BlockDimX'')],
     [(Set, ''BlockDimY'')], [(Set, ''BlockDimZ'')], [(Set, ''SharedMemBytes'')], [(Set, ''NodeId'')],
     [(Set, ''MemoryType'')]] \<and>
   filter (\<lambda>e. e \<notin> set ParamType_enumerators) adapter_enumerators = adapter_enumerators \<and>
   filter (\<lambda>e. e \<notin> set ErrorCode_enumerators) service_enumerators =
     [''INVALID_HANDLE'', ''TRANSFER_FAILED'', ''SUCCESS'', ''INVALID_VALUE'']"
  by (intro conjI)
    (simp_all add: node_calls_def plan_uses_def to_handle_uses_def from_handle_uses_def launch_uses_def adapter_enumerators_def service_enumerators_def
      unresolved_uses_def resolve_calls ID_builder_def ID_reader_def MemoryHandle_builder_def MemoryHandle_reader_def
      MemcpyPlan_builder_def KernelLaunch_builder_def KernelParam_builder_def
      HookLauncher_PlanMemcpyHtoDParams_builder_def HookLauncher_PlanMemcpyHtoDParams_reader_def
      HookLauncher_PlanMemcpyHtoDResults_builder_def HookLauncher_PlanMemcpyHtoDResults_reader_def
      HookLauncher_PlanMemcpyDtoHParams_builder_def HookLauncher_PlanMemcpyDtoHResults_reader_def
      HookLauncher_LaunchKernelParams_builder_def HookLauncher_LaunchKernelResults_reader_def
      ParamType_enumerators_def ErrorCode_enumerators_def)

end
