(* ===== verification/GoLib.thy ===== *)
theory GoLib
  imports NumaAddress
begin

section \<open>What the Go programs use of their language and library\<close>

text \<open>
  The outcome of a Go function (\<open>go\<close>: a value, a non-nil error, or a panic, which ends the process
  when nothing recovers it), and the functions of \<open>strconv\<close>, \<open>strings\<close>, \<open>bufio\<close> and \<open>regexp\<close> that
  \<open>pkg\<close> and \<open>cmd\<close> call. A Go string is its bytes. White space is that of ASCII. A scanned line is
  shorter than the 64 KiB where \<open>bufio.Scanner\<close> gives up.
\<close>

datatype go_panic = IndexOutOfRange | SliceOutOfRange

datatype ('e, 'a) go = Returns 'a | Fails 'e | Panics go_panic

named_theorems go_simps "sequencing of Go outcomes"

fun go_bind :: "('e, 'a) go \<Rightarrow> ('a \<Rightarrow> ('e, 'b) go) \<Rightarrow> ('e, 'b) go" where
  "go_bind (Returns a) f = f a"
| "go_bind (Fails e) f = Fails e"
| "go_bind (Panics p) f = Panics p"

text \<open>\<open>return fmt.Errorf(..., err)\<close>: an error is wrapped, a panic is not.\<close>

fun go_wrap :: "('e \<Rightarrow> 'f) \<Rightarrow> ('e, 'a) go \<Rightarrow> ('f, 'a) go" where
  "go_wrap f (Returns a) = Returns a"
| "go_wrap f (Fails e) = Fails (f e)"
| "go_wrap f (Panics p) = Panics p"

definition is_panic :: "('e, 'a) go \<Rightarrow> bool" where
  "is_panic m \<longleftrightarrow> (case m of Panics _ \<Rightarrow> True | _ \<Rightarrow> False)"

lemma is_panic_simps [simp]: "is_panic (Panics p)" "\<not> is_panic (Returns a)" "\<not> is_panic (Fails e)"
  by (simp_all add: is_panic_def)

lemma go_bind_Returns_iff [go_simps]:
  "go_bind m f = Returns b \<longleftrightarrow> (\<exists>a. m = Returns a \<and> f a = Returns b)"
  by (cases m) simp_all

lemma go_wrap_Returns_iff [go_simps]: "go_wrap f m = Returns b \<longleftrightarrow> m = Returns b"
  by (cases m) simp_all

subsection \<open>strconv\<close>

text \<open>
  \<open>ParseUint(s, 10, 64)\<close> and \<open>Atoi\<close>, with the value that stands beside the error: zero after a
  syntax error, the nearest bound after a range error. The digits are read one by one, so that a
  number that is too large is a range error whatever follows.
\<close>

datatype num_error = ErrSyntax | ErrRange

definition max_uint64 :: nat where "max_uint64 = 2 ^ 64 - 1"

fun uint_loop :: "nat \<Rightarrow> string \<Rightarrow> nat \<times> num_error option" where
  "uint_loop n [] = (n, None)"
| "uint_loop n (c # cs) =
     (if \<not> is_digit c then (0, Some ErrSyntax)
      else if max_uint64 < 10 * n + digit_val c then (max_uint64, Some ErrRange)
      else uint_loop (10 * n + digit_val c) cs)"

definition ParseUint :: "string \<Rightarrow> nat \<times> num_error option" where
  "ParseUint s = (if s = [] then (0, Some ErrSyntax) else uint_loop 0 s)"

definition Atoi :: "string \<Rightarrow> int \<times> num_error option" where
  "Atoi s =
     (let neg = (s \<noteq> [] \<and> hd s = CHR ''-'');
          u = (if s \<noteq> [] \<and> (hd s = CHR ''-'' \<or> hd s = CHR ''+'') then tl s else s)
      in case ParseUint u of
           (_, Some ErrSyntax) \<Rightarrow> (0, Some ErrSyntax)
         | (n, e) \<Rightarrow>
             if \<not> neg \<and> 2 ^ 63 \<le> n then (2 ^ 63 - 1, Some ErrRange)
             else if neg \<and> 2 ^ 63 < n then (- (2 ^ 63), Some ErrRange)
             else (if neg then - int n else int n, None))"

definition Itoa :: "int \<Rightarrow> string" where
  "Itoa i = (if i < 0 then CHR ''-'' # digits_of (nat (- i)) else digits_of (nat i))"

subsection \<open>strings, bufio and regexp\<close>

text \<open>\<open>Split\<close> at a separator of one character, and \<open>Join\<close> with a separator.\<close>

fun split_on :: "char \<Rightarrow> string \<Rightarrow> string list" where
  "split_on c [] = [[]]"
| "split_on c (x # xs) =
     (if x = c then [] # split_on c xs
      else case split_on c xs of [] \<Rightarrow> [[x]] | p # ps \<Rightarrow> (x # p) # ps)"

fun join_with :: "string \<Rightarrow> string list \<Rightarrow> string" where
  "join_with sep [] = []"
| "join_with sep [s] = s"
| "join_with sep (s # t # ss) = s @ sep @ join_with sep (t # ss)"

definition TrimSpace :: "string \<Rightarrow> string" where
  "TrimSpace s = rev (dropWhile is_space (rev (dropWhile is_space s)))"

definition TrimNul :: "string \<Rightarrow> string" where
  "TrimNul s = rev (dropWhile (\<lambda>c. c = CHR 0x00) (rev (dropWhile (\<lambda>c. c = CHR 0x00) s)))"

function Fields :: "string \<Rightarrow> string list" where
  "Fields s =
     (case dropWhile is_space s of
        [] \<Rightarrow> []
      | c # cs \<Rightarrow> takeWhile (\<lambda>c. \<not> is_space c) (c # cs) # Fields (dropWhile (\<lambda>c. \<not> is_space c) (c # cs)))"
  by pat_completeness auto
termination
proof (relation "measure length")
  fix s :: string and c cs
  assume dw: "dropWhile is_space s = c # cs"
  then have c: "\<not> is_space c" by (auto simp: dropWhile_eq_Cons_conv)
  have "length (c # cs) \<le> length s" using dw length_dropWhile_le [of is_space s] by simp
  moreover have "length (dropWhile (\<lambda>c. \<not> is_space c) cs) \<le> length cs" by (rule length_dropWhile_le)
  ultimately show "(dropWhile (\<lambda>c. \<not> is_space c) (c # cs), s) \<in> measure length"
    using c by simp
qed simp

declare Fields.simps [simp del]

definition HasPrefix :: "string \<Rightarrow> string \<Rightarrow> bool" where
  "HasPrefix s p \<longleftrightarrow> take (length p) s = p"

fun Contains :: "string \<Rightarrow> string \<Rightarrow> bool" where
  "Contains [] p = (p = [])"
| "Contains (c # s) p = (HasPrefix (c # s) p \<or> Contains s p)"

text \<open>The lines a \<open>bufio.Scanner\<close> gives: the text after the last newline counts only when it is not empty.\<close>

definition chomp_cr :: "string \<Rightarrow> string" where
  "chomp_cr l = (if l \<noteq> [] \<and> last l = CHR 0x0D then butlast l else l)"

definition scan_lines :: "string \<Rightarrow> string list" where
  "scan_lines s =
     (let ls = split_on (CHR 0x0A) s
      in map chomp_cr (if last ls = [] then butlast ls else ls))"

text \<open>The first group of \<open>@(\d+)\<close>: the digits after the first at-sign that digits follow.\<close>

fun at_digits :: "string \<Rightarrow> string option" where
  "at_digits [] = None"
| "at_digits (c # s) =
     (if c = CHR ''@'' \<and> takeWhile is_digit s \<noteq> [] then Some (takeWhile is_digit s) else at_digits s)"

subsection \<open>Numbers\<close>

lemma uint_loop_value:
  "list_all is_digit s \<Longrightarrow> foldl (\<lambda>v c. 10 * v + digit_val c) n s \<le> max_uint64 \<Longrightarrow>
     uint_loop n s = (foldl (\<lambda>v c. 10 * v + digit_val c) n s, None)"
proof (induction s arbitrary: n)
  case (Cons c s)
  have mono: "m \<le> foldl (\<lambda>v c. 10 * v + digit_val c) m s" for m
  proof (induction s arbitrary: m)
    case (Cons a s)
    from Cons [of "10 * m + digit_val a"] show ?case by simp
  qed simp
  from Cons show ?case using mono [of "10 * n + digit_val c"] by auto
qed simp

lemma digits_all: "list_all is_digit (digits_of n)"
  using digits_of_digits by (auto simp: list_all_iff)

lemma ParseUint_digits_of [simp]: "n < 2 ^ 64 \<Longrightarrow> ParseUint (digits_of n) = (n, None)"
  using uint_loop_value [OF digits_all, of 0 n] digits_value_digits_of [of n]
  by (simp add: ParseUint_def digits_value_def max_uint64_def)

lemma Atoi_digits_of [simp]: "n < 2 ^ 63 \<Longrightarrow> Atoi (digits_of n) = (int n, None)"
proof -
  assume n: "n < 2 ^ 63"
  have h: "hd (digits_of n) \<noteq> CHR ''-''" "hd (digits_of n) \<noteq> CHR ''+''"
    using hd_digits [of n] not_digit by metis+
  have "n < 2 ^ 64" using n by simp
  from ParseUint_digits_of [OF this] show ?thesis using n h by (simp add: Atoi_def)
qed

lemma Atoi_Itoa [simp]: "- (2 ^ 63) \<le> i \<Longrightarrow> i < 2 ^ 63 \<Longrightarrow> Atoi (Itoa i) = (i, None)"
proof (cases "i < 0")
  case True
  assume "- (2 ^ 63) \<le> i"
  then have "nat (- i) \<le> 2 ^ 63" using True by simp
  moreover from this have "ParseUint (digits_of (nat (- i))) = (nat (- i), None)"
    by (intro ParseUint_digits_of) simp
  ultimately show ?thesis using True by (simp add: Itoa_def Atoi_def)
next
  case False
  assume "i < 2 ^ 63"
  then show ?thesis using False by (simp add: Itoa_def)
qed

lemma uint_loop_bad: "uint_loop n s = (m, None) \<Longrightarrow> list_all is_digit s"
  by (induction n s rule: uint_loop.induct) (auto split: if_splits)

lemma uint_loop_range: "uint_loop n s = (m, Some ErrRange) \<Longrightarrow> m = max_uint64"
  by (induction n s rule: uint_loop.induct) (auto split: if_splits)

lemma Atoi_needs_digits:
  assumes "c \<in> set (tl s)" and "\<not> is_digit c"
  shows "snd (Atoi s) \<noteq> None"
proof -
  let ?u = "if s \<noteq> [] \<and> (hd s = CHR ''-'' \<or> hd s = CHR ''+'') then tl s else s"
  have "\<not> list_all is_digit ?u" "?u \<noteq> []"
    using assms by (cases s; auto simp: list_all_iff)+
  then obtain n e where parsed: "ParseUint ?u = (n, Some e)" "uint_loop 0 ?u = (n, Some e)"
    using uint_loop_bad [of 0 ?u] by (cases "uint_loop 0 ?u"; cases "snd (uint_loop 0 ?u)") (auto simp: ParseUint_def)
  show ?thesis
  proof (cases e)
    case ErrSyntax
    then show ?thesis using parsed(1) unfolding Atoi_def by (simp only: Let_def split: prod.split) simp
  next
    case ErrRange
    then have "2 ^ 63 < n" using parsed(2) uint_loop_range by (fastforce simp: max_uint64_def)
    then show ?thesis using parsed(1) ErrRange unfolding Atoi_def by (simp only: Let_def) simp
  qed
qed

subsection \<open>Texts\<close>

lemma split_on_nonempty [simp]: "split_on c s \<noteq> []"
  by (induction s) (auto split: list.splits)

lemma split_on_none: "c \<notin> set s \<Longrightarrow> split_on c s = [s]"
  by (induction s) auto

lemma split_on_append: "c \<notin> set s \<Longrightarrow> split_on c (s @ c # t) = s # split_on c t"
  by (induction s) auto

lemma split_on_join:
  "ss \<noteq> [] \<Longrightarrow> \<forall>s \<in> set ss. c \<notin> set s \<Longrightarrow> split_on c (join_with [c] ss) = ss"
proof (induction "[c]" ss rule: join_with.induct)
  case (3 s t ss)
  then show ?case using split_on_append [of c s "join_with [c] (t # ss)"] by simp
qed (simp_all add: split_on_none)

lemma Fields_Nil [simp]: "Fields [] = []"
  by (subst Fields.simps) simp

lemma Fields_space: "is_space c \<Longrightarrow> Fields (c # s) = Fields s"
  by (subst (1 2) Fields.simps) simp

lemma Fields_spaces: "list_all is_space ps \<Longrightarrow> Fields (ps @ s) = Fields s"
  by (induction ps) (simp_all add: Fields_space)

lemma Fields_word:
  assumes "w \<noteq> []" and "list_all (\<lambda>c. \<not> is_space c) w" and "s = [] \<or> is_space (hd s)"
  shows "Fields (w @ s) = w # Fields s"
proof -
  obtain c cs where w: "w = c # cs" using assms(1) by (cases w) auto
  have all: "\<forall>x \<in> set w. \<not> is_space x" using assms(2) by (simp add: list_all_iff)
  have "dropWhile is_space (w @ s) = w @ s" using all w by simp
  moreover have "takeWhile (\<lambda>c. \<not> is_space c) (w @ s) = w" "dropWhile (\<lambda>c. \<not> is_space c) (w @ s) = s"
    using all assms(3) by (cases s; simp add: takeWhile_append2 dropWhile_append2)+
  ultimately show ?thesis using w by (subst Fields.simps) simp
qed

lemma digits_not_space: "list_all (\<lambda>c. \<not> is_space c) (digits_of n)"
  using digits_of_digits digit_not_space by (auto simp: list_all_iff)

lemma TrimSpace_id: "s \<noteq> [] \<Longrightarrow> \<not> is_space (hd s) \<Longrightarrow> \<not> is_space (last s) \<Longrightarrow> TrimSpace s = s"
  by (simp add: TrimSpace_def dropWhile_id hd_rev)

end
