(* ===== verification/NumaDiscovery.thy ===== *)
theory NumaDiscovery
  imports GoLib "HOL-Library.Multiset"
begin

section \<open>Discovery of NUMA nodes and OpenCAPI devices\<close>

text \<open>
  \<open>pkg/numa/discovery.go\<close> and \<open>pkg/numa/opencapi.go\<close>. The file system and the kernel are
  parameters: \<open>file_system\<close> gives the entries of a directory (with whether each is one), the text of
  a file and the paths of a pattern, each when the call succeeds; \<open>ocxl_kernel\<close> gives the answers of
  opening a device, of the name request and of mapping. Both files declare a function
  \<open>DiscoverOpenCapiDevices\<close>; the one of \<open>opencapi.go\<close> is called \<open>DiscoverOcxlDevices\<close> here. The paths
  that are joined are clean, so joining puts a slash between them.
\<close>

record file_system =
  read_dir :: "string \<Rightarrow> (string \<times> bool) list option"
  read_file :: "string \<Rightarrow> string option"
  glob :: "string \<Rightarrow> string list option"

record oc_binding =
  oc_path :: string
  oc_type :: string
  oc_source :: string
  oc_numa :: int
  oc_health :: string

record numa_node =
  node_ID :: int
  node_CPUs :: "int list"
  node_Memory :: u64
  node_OpenCapi :: "oc_binding list"

definition path_join :: "string \<Rightarrow> string \<Rightarrow> string" where
  "path_join a b = a @ ''/'' @ b"

subsection \<open>OpenCAPI devices of sysfs and of the device tree\<close>

definition CheckDeviceHealth :: "file_system \<Rightarrow> oc_binding \<Rightarrow> oc_binding" where
  "CheckDeviceHealth fs binding =
     (if oc_source binding = ''ocxl''
      then case read_file fs (path_join (oc_path binding) ''status'') of
             None \<Rightarrow> binding
           | Some contents \<Rightarrow>
               if TrimSpace contents \<noteq> ''active'' then binding\<lparr>oc_health := ''degraded''\<rparr> else binding
      else binding)"

definition parsed_or :: "int \<Rightarrow> string option \<Rightarrow> int" where
  "parsed_or d t = (case t of None \<Rightarrow> d | Some s \<Rightarrow> (case Atoi s of (n, None) \<Rightarrow> n | (n, Some e) \<Rightarrow> d))"

definition ocxl_binding :: "file_system \<Rightarrow> string \<Rightarrow> oc_binding" where
  "ocxl_binding fs path =
     \<lparr>oc_path = path, oc_type = ''AFU'', oc_source = ''ocxl'',
      oc_numa = parsed_or (- 1) (map_option TrimSpace (read_file fs (path_join path ''numa_node''))),
      oc_health = ''active''\<rparr>"

definition tree_binding :: "string \<Rightarrow> oc_binding" where
  "tree_binding path =
     \<lparr>oc_path = path, oc_type = ''legacy'', oc_source = ''device-tree'',
      oc_numa = parsed_or (- 1) (at_digits path), oc_health = ''unknown''\<rparr>"

definition glob_entries :: "file_system \<Rightarrow> string \<Rightarrow> string list" where
  "glob_entries fs pattern = (case glob fs pattern of None \<Rightarrow> [] | Some entries \<Rightarrow> entries)"

definition DiscoverOpenCapiDevices :: "file_system \<Rightarrow> oc_binding list" where
  "DiscoverOpenCapiDevices fs =
     (let ocxl = map (ocxl_binding fs) (glob_entries fs ''/sys/class/ocxl/ocxl-*'');
          devices = (if ocxl = [] then map tree_binding (glob_entries fs ''/proc/device-tree/ibm,open-capi@*'') else ocxl)
      in map (CheckDeviceHealth fs) devices)"

subsection \<open>NUMA nodes\<close>

definition node_dir :: string where "node_dir = ''/sys/devices/system/node''"

definition cpus_of :: "string \<Rightarrow> int list" where
  "cpus_of line = map fst (filter (\<lambda>(cpu, e). e = None) (map Atoi (split_on (CHR '','') line)))"

definition read_cpus :: "string option \<Rightarrow> int list" where
  "read_cpus f = (case f of None \<Rightarrow> [] | Some t \<Rightarrow> (case scan_lines t of [] \<Rightarrow> [] | l # ls \<Rightarrow> cpus_of l))"

definition memory_line :: "u64 \<Rightarrow> string \<Rightarrow> u64" where
  "memory_line memory line =
     (if Contains line ''MemTotal'' \<and> 4 \<le> length (Fields line)
      then of_nat (fst (ParseUint (Fields line ! 3))) * 1024 else memory)"

definition read_memory :: "string option \<Rightarrow> u64" where
  "read_memory f = (case f of None \<Rightarrow> 0 | Some t \<Rightarrow> foldl memory_line 0 (scan_lines t))"

definition node_of :: "file_system \<Rightarrow> oc_binding list \<Rightarrow> string \<Rightarrow> numa_node" where
  "node_of fs ocBindings name =
     (let nodeID = fst (Atoi (drop 4 name))
      in \<lparr>node_ID = nodeID,
          node_CPUs = read_cpus (read_file fs (node_dir @ ''/'' @ name @ ''/cpulist'')),
          node_Memory = read_memory (read_file fs (node_dir @ ''/'' @ name @ ''/meminfo'')),
          node_OpenCapi = filter (\<lambda>b. oc_numa b = nodeID) ocBindings\<rparr>)"

datatype discover_error = ReadDirFailed

definition DiscoverNodes :: "file_system \<Rightarrow> (discover_error, numa_node list) go" where
  "DiscoverNodes fs =
     (case read_dir fs node_dir of
        None \<Rightarrow> Fails ReadDirFailed
      | Some files \<Rightarrow>
          Returns (map (node_of fs (DiscoverOpenCapiDevices fs))
            (map fst (filter (\<lambda>(name, is_dir). is_dir \<and> HasPrefix name ''node'') files))))"

text \<open>\<open>deviceA[:3] == deviceB[:3]\<close>: slicing past the end panics.\<close>

definition IsSameNode :: "string \<Rightarrow> string \<Rightarrow> ('e, bool) go" where
  "IsSameNode deviceA deviceB =
     (if length deviceA < 3 \<or> length deviceB < 3 then Panics SliceOutOfRange
      else Returns (take 3 deviceA = take 3 deviceB))"

subsection \<open>OpenCAPI devices of /dev\<close>

record ocxl_device =
  dev_name :: string
  dev_device :: string
  dev_afu :: string
  dev_node :: int
  dev_memory :: nat

datatype ocxl_res = Fd nat | Mapping u64

record ocxl_kernel =
  dir_missing :: bool
  open_rw :: "string \<Rightarrow> nat option"
  afu_name :: "nat \<Rightarrow> string option"
  map_device :: "nat \<Rightarrow> u64 \<Rightarrow> u64 \<Rightarrow> u64 option"
  unmap_ok :: "u64 \<Rightarrow> nat \<Rightarrow> bool"

datatype ocxl_error = NotSupported | DirUnreadable | OpenFailed | NameFailed | MmapFailed | MunmapFailed

definition getDeviceInfo :: "file_system \<Rightarrow> ocxl_kernel \<Rightarrow> ocxl_device \<Rightarrow> (ocxl_error, ocxl_device) go" where
  "getDeviceInfo fs k d =
     (case open_rw k (dev_device d) of
        None \<Rightarrow> Fails OpenFailed
      | Some fd \<Rightarrow>
          (case afu_name k fd of
             None \<Rightarrow> Fails NameFailed
           | Some nameBuf \<Rightarrow>
               (let sysPath = path_join ''/sys/bus/ocxl/devices'' (dev_name d);
                    d1 = d\<lparr>dev_afu := TrimNul nameBuf,
                           dev_node := parsed_or (dev_node d) (map_option TrimSpace (read_file fs (path_join sysPath ''numa_node'')))\<rparr>
                in Returns (case map_option TrimSpace (read_file fs (path_join sysPath ''global_mmio_size'')) of
                      None \<Rightarrow> d1
                    | Some t \<Rightarrow> (case ParseUint t of (n, None) \<Rightarrow> d1\<lparr>dev_memory := n\<rparr> | (n, Some e) \<Rightarrow> d1)))))"

fun ocxl_loop :: "file_system \<Rightarrow> ocxl_kernel \<Rightarrow> (string \<times> bool) list \<Rightarrow> ocxl_device list" where
  "ocxl_loop fs k [] = []"
| "ocxl_loop fs k ((name, is_dir) # es) =
     (if is_dir then ocxl_loop fs k es
      else case getDeviceInfo fs k \<lparr>dev_name = name, dev_device = path_join ''/dev/ocxl'' name, dev_afu = [],
                                    dev_node = 0, dev_memory = 0\<rparr> of
             Returns d \<Rightarrow> d # ocxl_loop fs k es
           | _ \<Rightarrow> ocxl_loop fs k es)"

definition DiscoverOcxlDevices :: "file_system \<Rightarrow> ocxl_kernel \<Rightarrow> (ocxl_error, ocxl_device list) go" where
  "DiscoverOcxlDevices fs k =
     (if dir_missing k then Fails NotSupported
      else case read_dir fs ''/dev/ocxl'' of
             None \<Rightarrow> Fails DirUnreadable
           | Some entries \<Rightarrow> Returns (ocxl_loop fs k entries))"

text \<open>
  Mapping and unmapping, with the ledger of descriptors and mappings. The mapped address is turned
  into a slice of an array of \<open>2^30\<close> bytes, and the descriptor is closed when the function ends, by a
  panic too. The slice is the address and its length.
\<close>

definition MapMemory :: "ocxl_kernel \<Rightarrow> ocxl_device \<Rightarrow> u64 \<Rightarrow> u64 \<Rightarrow>
    (ocxl_error, u64 \<times> nat) go \<times> ocxl_res entry list" where
  "MapMemory k d offset len =
     (case open_rw k (dev_device d) of
        None \<Rightarrow> (Fails OpenFailed, [])
      | Some fd \<Rightarrow>
          (case map_device k fd offset len of
             None \<Rightarrow> (Fails MmapFailed, [Acq (Fd fd), Use (Fd fd), Rel (Fd fd)])
           | Some addr \<Rightarrow>
               (let l = [Acq (Fd fd), Use (Fd fd), Acq (Mapping addr), Rel (Fd fd)]
                in if 2 ^ 30 < unat len then (Panics SliceOutOfRange, l) else (Returns (addr, unat len), l))))"

definition UnmapMemory :: "ocxl_kernel \<Rightarrow> u64 \<times> nat \<Rightarrow> (ocxl_error, unit) go \<times> ocxl_res entry list" where
  "UnmapMemory k region =
     (if snd region = 0 then (Returns (), [])
      else if unmap_ok k (fst region) (snd region) then (Returns (), [Rel (Mapping (fst region))])
      else (Fails MunmapFailed, []))"

subsection \<open>What the kernel writes\<close>

text \<open>
  The formats of \<open>/sys/devices/system/node\<close>: a list of processors is single numbers and ranges,
  separated by commas; the memory file names its node in every line.
\<close>

datatype cpu_item = One nat | Range nat nat

fun cpu_text :: "cpu_item \<Rightarrow> string" where
  "cpu_text (One n) = digits_of n"
| "cpu_text (Range a b) = digits_of a @ ''-'' @ digits_of b"

fun cpu_members :: "cpu_item \<Rightarrow> int list" where
  "cpu_members (One n) = [int n]"
| "cpu_members (Range a b) = map int [a..<Suc b]"

definition single :: "cpu_item \<Rightarrow> bool" where
  "single i \<longleftrightarrow> (case i of One n \<Rightarrow> True | Range a b \<Rightarrow> False)"

definition cpulist_text :: "cpu_item list \<Rightarrow> string" where
  "cpulist_text items = join_with '','' (map cpu_text items)"

definition mem_total_line :: "nat \<Rightarrow> string \<Rightarrow> nat \<Rightarrow> string" where
  "mem_total_line k gap n = ''Node '' @ digits_of k @ '' MemTotal:'' @ gap @ digits_of n @ '' kB''"

lemma digits_no_char: "\<not> is_digit c \<Longrightarrow> c \<notin> set (digits_of n)"
  using digits_of_digits by blast

lemma not_digit_char [simp]:
  "\<not> is_digit (CHR '','')" "\<not> is_digit (CHR 0x0A)" "\<not> is_digit (CHR 0x0D)" "\<not> is_digit (CHR '' '')"
  "\<not> is_digit (CHR ''M'')" "\<not> is_digit (CHR ''N'')"
  by (simp_all add: is_digit_def)

lemma cpu_text_no_comma: "CHR '','' \<notin> set (cpu_text i)"
  by (cases i) (simp_all add: digits_no_char)

lemma Atoi_cpu_text:
  "list_all (\<lambda>i. case i of One n \<Rightarrow> n < 2 ^ 63 | Range a b \<Rightarrow> True) items \<Longrightarrow>
     map fst (filter (\<lambda>(cpu, e). e = None) (map Atoi (map cpu_text items))) =
     concat (map cpu_members (filter single items))"
proof (induction items)
  case (Cons i items)
  have "snd (Atoi (cpu_text (Range a b))) \<noteq> None" for a b
  proof (rule Atoi_needs_digits)
    obtain c cs where "digits_of a = c # cs" by (cases "digits_of a") auto
    then show "CHR ''-'' \<in> set (tl (cpu_text (Range a b)))" by simp
  qed simp
  then have range: "\<not> (\<lambda>(cpu, e). e = None) (Atoi (cpu_text (Range a b)))" for a b
    by (simp only: case_prod_beta simp_thms)
  show ?case
    using Cons range by (cases i) (simp_all add: single_def del: cpu_text.simps(2))
qed simp

lemma cpus_of_cpulist_text:
  assumes "items \<noteq> []" and "list_all (\<lambda>i. case i of One n \<Rightarrow> n < 2 ^ 63 | Range a b \<Rightarrow> True) items"
  shows "cpus_of (cpulist_text items) = concat (map cpu_members (filter single items))"
proof -
  have "split_on (CHR '','') (cpulist_text items) = map cpu_text items"
    unfolding cpulist_text_def using assms(1) by (intro split_on_join) (auto simp: cpu_text_no_comma)
  then show ?thesis using Atoi_cpu_text [OF assms(2)] by (simp add: cpus_of_def)
qed

lemma cpulist_no_newline: "CHR 0x0A \<notin> set (cpulist_text items)" "CHR 0x0D \<notin> set (cpulist_text items)"
proof -
  have "c \<notin> set (join_with '','' ss)" if "c \<noteq> CHR '',''" "\<forall>s \<in> set ss. c \<notin> set s" for c ss
    using that by (induction "'',''" ss rule: join_with.induct) auto
  moreover have "CHR 0x0A \<notin> set (cpu_text i)" "CHR 0x0D \<notin> set (cpu_text i)" for i
    by (cases i; simp add: digits_no_char)+
  ultimately show "CHR 0x0A \<notin> set (cpulist_text items)" "CHR 0x0D \<notin> set (cpulist_text items)"
    by (auto simp: cpulist_text_def)
qed

lemma chomp_cr_id: "CHR 0x0D \<notin> set l \<Longrightarrow> chomp_cr l = l"
  by (auto simp: chomp_cr_def dest: last_in_set)

lemma scan_lines_cons:
  "CHR 0x0A \<notin> set l \<Longrightarrow> CHR 0x0D \<notin> set l \<Longrightarrow> scan_lines (l @ CHR 0x0A # t) = l # scan_lines t"
  by (simp add: scan_lines_def split_on_append chomp_cr_id Let_def)

lemma scan_lines_Nil [simp]: "scan_lines [] = []"
  by (simp add: scan_lines_def)

lemma scan_lines_unlines:
  "list_all (\<lambda>l. CHR 0x0A \<notin> set l \<and> CHR 0x0D \<notin> set l) ls \<Longrightarrow> scan_lines (concat (map (\<lambda>l. l @ [CHR 0x0A]) ls)) = ls"
  by (induction ls) (simp_all add: scan_lines_cons)

lemma HasPrefix_append [simp]: "HasPrefix (p @ s) p"
  by (simp add: HasPrefix_def)

lemma Contains_append: "HasPrefix s p \<Longrightarrow> Contains (a @ s) p"
proof (induction a)
  case Nil
  then show ?case by (cases s) (auto simp: HasPrefix_def)
qed simp

lemma mem_total_line_fields:
  assumes "list_all is_space gap" and "gap \<noteq> []"
  shows "Fields (mem_total_line k gap n) = [''Node'', digits_of k, ''MemTotal:'', digits_of n, ''kB'']"
    and "Contains (mem_total_line k gap n) ''MemTotal''"
proof -
  have word: "Fields (w @ s) = w # Fields s"
    if "w \<noteq> []" "list_all (\<lambda>c. \<not> is_space c) w" "s = [] \<or> is_space (hd s)" for w s
    using that by (rule Fields_word)
  have sp: "is_space (CHR '' '')" by (simp add: is_space_def)
  have kb: "Fields ''kB'' = [''kB'']" using word [of "''kB''" "[]"] by (simp add: is_space_def)
  have "Fields (digits_of n @ '' kB'') = [digits_of n, ''kB'']"
    by (subst word) (simp_all add: digits_not_space sp Fields_space kb)
  then have gap: "Fields (gap @ digits_of n @ '' kB'') = [digits_of n, ''kB'']"
    using Fields_spaces [OF assms(1)] by simp
  have hd: "is_space (hd (gap @ x))" for x using assms by (cases gap) auto
  have mt: "Fields (''MemTotal:'' @ gap @ digits_of n @ '' kB'') = [''MemTotal:'', digits_of n, ''kB'']"
    by (subst word) (simp_all add: is_space_def hd [unfolded is_space_def] gap)
  have kk: "Fields (digits_of k @ '' '' @ ''MemTotal:'' @ gap @ digits_of n @ '' kB'') =
      [digits_of k, ''MemTotal:'', digits_of n, ''kB'']"
    by (subst word) (simp_all add: digits_not_space sp Fields_space mt [simplified])
  have "Fields (''Node'' @ '' '' @ digits_of k @ '' '' @ ''MemTotal:'' @ gap @ digits_of n @ '' kB'') =
      [''Node'', digits_of k, ''MemTotal:'', digits_of n, ''kB'']"
    by (subst word) (simp_all add: is_space_def [of "CHR ''N''"] is_space_def [of "CHR ''o''"] is_space_def [of "CHR ''d''"]
        is_space_def [of "CHR ''e''"] sp Fields_space kk [simplified])
  then show "Fields (mem_total_line k gap n) = [''Node'', digits_of k, ''MemTotal:'', digits_of n, ''kB'']"
    by (simp add: mem_total_line_def)
  have "Contains ((''Node '' @ digits_of k @ '' '') @ ''MemTotal'' @ '':'' @ gap @ digits_of n @ '' kB'') ''MemTotal''"
    by (rule Contains_append, rule HasPrefix_append)
  then show "Contains (mem_total_line k gap n) ''MemTotal''" by (simp add: mem_total_line_def)
qed

subsection \<open>Properties\<close>

lemma read_memory_kernel:
  assumes "list_all (\<lambda>l. CHR 0x0A \<notin> set l \<and> CHR 0x0D \<notin> set l \<and> \<not> Contains l ''MemTotal'') (before @ after)"
    and "n < 2 ^ 64"
  shows "read_memory (Some (concat (map (\<lambda>l. l @ [CHR 0x0A])
      (before @ mem_total_line k (replicate (Suc g) (CHR '' '')) n # after)))) = of_nat n * 1024"
proof -
  let ?l = "mem_total_line k (replicate (Suc g) (CHR '' '')) n"
  have gap: "list_all is_space (replicate (Suc g) (CHR '' ''))" "replicate (Suc g) (CHR '' '') \<noteq> []"
    by (simp_all add: list_all_iff is_space_def)
  have clean: "CHR 0x0A \<notin> set ?l \<and> CHR 0x0D \<notin> set ?l"
    by (auto simp: mem_total_line_def digits_no_char)
  have lines: "scan_lines (concat (map (\<lambda>l. l @ [CHR 0x0A]) (before @ ?l # after))) = before @ ?l # after"
    using assms(1) clean by (intro scan_lines_unlines) (auto simp: list_all_iff)
  have skip: "foldl memory_line m ls = m" if "list_all (\<lambda>l. \<not> Contains l ''MemTotal'') ls" for m ls
    using that by (induction ls arbitrary: m) (auto simp: memory_line_def)
  have one: "memory_line m ?l = of_nat n * 1024" for m
    using mem_total_line_fields [OF gap, of k n] assms(2) by (simp add: memory_line_def del: replicate_Suc)
  show ?thesis
    unfolding read_memory_def option.case lines foldl_append foldl_Cons
    using assms(1) by (simp add: skip list_all_iff one del: replicate_Suc)
qed

lemma read_cpus_kernel:
  assumes "items \<noteq> []" and "list_all (\<lambda>i. case i of One n \<Rightarrow> n < 2 ^ 63 | Range a b \<Rightarrow> True) items"
  shows "read_cpus (Some (cpulist_text items @ [CHR 0x0A])) = concat (map cpu_members (filter single items))"
  using cpus_of_cpulist_text [OF assms] scan_lines_cons [OF cpulist_no_newline, of items "[]"]
  by (simp add: read_cpus_def)

text \<open>
  C33. A node described by the kernel in its own formats: the number, the memory in bytes and the
  OpenCAPI devices bound to it are read as meant, but of the processors only those listed singly
  are kept, not those of a range.
\<close>

theorem discovered_node_loses_cpu_ranges:
  assumes "items \<noteq> []" and "list_all (\<lambda>i. case i of One n \<Rightarrow> n < 2 ^ 63 | Range a b \<Rightarrow> True) items"
    and "read_file fs (node_dir @ ''/'' @ (''node'' @ digits_of k) @ ''/cpulist'') = Some (cpulist_text items @ [CHR 0x0A])"
    and "read_file fs (node_dir @ ''/'' @ (''node'' @ digits_of k) @ ''/meminfo'') =
      Some (concat (map (\<lambda>l. l @ [CHR 0x0A]) (before @ mem_total_line k (replicate (Suc g) (CHR '' '')) n # after)))"
    and "list_all (\<lambda>l. CHR 0x0A \<notin> set l \<and> CHR 0x0D \<notin> set l \<and> \<not> Contains l ''MemTotal'') (before @ after)"
    and "k < 2 ^ 63" and "n < 2 ^ 64"
  shows "node_of fs bindings (''node'' @ digits_of k) =
    \<lparr>node_ID = int k, node_CPUs = concat (map cpu_members (filter single items)),
     node_Memory = of_nat n * 1024, node_OpenCapi = filter (\<lambda>b. oc_numa b = int k) bindings\<rparr>"
  using read_cpus_kernel [OF assms(1,2)] read_memory_kernel [OF assms(5,7), of k g] assms(3,4,6)
  by (simp add: node_of_def Let_def)

definition example_fs :: file_system where
  "example_fs = \<lparr>read_dir = (\<lambda>p. Some [(''node8'', True), (''online'', False)]),
     read_file = (\<lambda>p. if p = node_dir @ ''/'' @ (''node'' @ digits_of 8) @ ''/cpulist''
       then Some (cpulist_text [Range 0 3, One 5] @ [CHR 0x0A])
       else Some (concat (map (\<lambda>l. l @ [CHR 0x0A]) [mem_total_line 8 (replicate (Suc 0) (CHR '' '')) 512]))),
     glob = (\<lambda>p. None)\<rparr>"

theorem discovered_node_loses_cpu_ranges_witness:
  "node_CPUs (node_of example_fs [] (''node'' @ digits_of 8)) = [5]"
  using discovered_node_loses_cpu_ranges [of "[Range 0 3, One 5]" example_fs 8 "[]" 0 512 "[]" "[]"]
  by (simp add: example_fs_def single_def)

text \<open>
  Every OpenCAPI device bound to a discovered node is listed exactly once, at that node, and the
  devices without a known node are listed nowhere, provided no two directories have one number.
\<close>

theorem devices_are_listed_once:
  assumes "DiscoverNodes fs = Returns nodes" and "distinct (map node_ID nodes)"
  shows "mset (concat (map node_OpenCapi nodes)) =
    filter_mset (\<lambda>b. oc_numa b \<in> set (map node_ID nodes)) (mset (DiscoverOpenCapiDevices fs))"
proof -
  let ?bs = "DiscoverOpenCapiDevices fs"
  have at: "list_all (\<lambda>n. node_OpenCapi n = filter (\<lambda>b. oc_numa b = node_ID n) ?bs) nodes"
    using assms(1) by (auto simp: DiscoverNodes_def node_of_def Let_def list_all_iff split: option.splits)
  have split: "filter_mset (\<lambda>b. P b \<or> Q b) M = filter_mset P M + filter_mset Q M"
    if "\<And>b. \<not> (P b \<and> Q b)" for P Q and M :: "oc_binding multiset"
    using that by (induction M) auto
  show ?thesis
    using at assms(2)
  proof (induction nodes)
    case (Cons n nodes)
    have "filter_mset (\<lambda>b. oc_numa b = node_ID n \<or> oc_numa b \<in> set (map node_ID nodes)) (mset ?bs) =
        filter_mset (\<lambda>b. oc_numa b = node_ID n) (mset ?bs) +
        filter_mset (\<lambda>b. oc_numa b \<in> set (map node_ID nodes)) (mset ?bs)"
      using Cons.prems(2) by (intro split) auto
    then show ?case using Cons by simp
  qed simp
qed

theorem devices_are_listed_once_witness:
  "\<exists>nodes. DiscoverNodes (example_fs\<lparr>glob := (\<lambda>p. Some [])\<rparr>) = Returns nodes \<and> concat (map node_OpenCapi nodes) = []"
proof -
  let ?fs = "example_fs\<lparr>glob := (\<lambda>p. Some [])\<rparr>"
  obtain nodes where n: "DiscoverNodes ?fs = Returns nodes" "distinct (map node_ID nodes)"
    by (simp add: DiscoverNodes_def example_fs_def HasPrefix_def)
  have "DiscoverOpenCapiDevices ?fs = []"
    by (simp add: DiscoverOpenCapiDevices_def glob_entries_def)
  with devices_are_listed_once [OF n] n show ?thesis by auto
qed

text \<open>
  The devices come from one source: those of the driver when there are any, each active unless its
  status file says otherwise, and only without them those of the device tree, of unknown health.
\<close>

lemma device_sources:
  "if glob_entries fs ''/sys/class/ocxl/ocxl-*'' \<noteq> []
   then map oc_path (DiscoverOpenCapiDevices fs) = glob_entries fs ''/sys/class/ocxl/ocxl-*'' \<and>
     list_all (\<lambda>b. oc_source b = ''ocxl'' \<and>
       oc_health b = (case read_file fs (path_join (oc_path b) ''status'') of
          Some t \<Rightarrow> if TrimSpace t = ''active'' then ''active'' else ''degraded'' | None \<Rightarrow> ''active''))
       (DiscoverOpenCapiDevices fs)
   else DiscoverOpenCapiDevices fs = map tree_binding (glob_entries fs ''/proc/device-tree/ibm,open-capi@*'')"
  by (auto simp: DiscoverOpenCapiDevices_def CheckDeviceHealth_def ocxl_binding_def tree_binding_def list_all_iff
      comp_def split: option.splits intro!: map_idI)

text \<open>
  Two PCI devices of a domain below 16 are always reported on the same node, because only the
  first three characters of their numbers are compared; a shorter name ends the program.
\<close>

lemma pci_devices_same_node: "IsSameNode (''000'' @ a) (''000'' @ b) = Returns True"
  by (simp add: IsSameNode_def)

lemma short_name_panics: "IsSameNode a b = Panics SliceOutOfRange \<longleftrightarrow> length a < 3 \<or> length b < 3"
  by (simp add: IsSameNode_def)

text \<open>
  A mapping of device memory that is returned can be given back and then nothing is left; a
  mapping of more than a gigabyte panics after it was made, and stays.
\<close>

lemma map_unmap_balanced:
  assumes "open_rw k (dev_device d) = Some fd" and "map_device k fd offset len = Some addr" and "unmap_ok k addr (unat len)"
    and "len \<noteq> 0"
  shows "case MapMemory k d offset len of
      (Returns region, l) \<Rightarrow> unat len \<le> 2 ^ 30 \<and> balanced (l @ snd (UnmapMemory k region))
    | (Panics p, l) \<Rightarrow> 2 ^ 30 < unat len \<and> settle [] l = Some [Mapping addr]
    | (Fails e, l) \<Rightarrow> False"
  using assms by (simp add: MapMemory_def UnmapMemory_def balanced_def unat_eq_zero Let_def)

lemma MapMemory_failure_balanced: "MapMemory k d offset len = (Fails e, l) \<Longrightarrow> balanced l"
  by (auto simp: MapMemory_def balanced_def Let_def split: option.splits if_splits)

text \<open>Device discovery keeps the order of the directory, and every device it keeps answered the name request.\<close>

lemma getDeviceInfo_Returns:
  assumes "getDeviceInfo fs k d = Returns d'"
  shows "dev_name d' = dev_name d \<and> dev_device d' = dev_device d \<and>
    (\<exists>fd nm. open_rw k (dev_device d) = Some fd \<and> afu_name k fd = Some nm \<and> dev_afu d' = TrimNul nm)"
proof -
  obtain fd nm where o: "open_rw k (dev_device d) = Some fd" "afu_name k fd = Some nm"
    using assms by (auto simp: getDeviceInfo_def split: option.splits)
  show ?thesis using assms o by (auto simp: getDeviceInfo_def Let_def split: option.splits prod.splits)
qed

lemma ocxl_loop_sound:
  "list_all (\<lambda>d. dev_device d = path_join ''/dev/ocxl'' (dev_name d) \<and> (dev_name d, False) \<in> set es \<and>
     (\<exists>fd nm. open_rw k (dev_device d) = Some fd \<and> afu_name k fd = Some nm \<and> dev_afu d = TrimNul nm)) (ocxl_loop fs k es)"
proof (induction fs k es rule: ocxl_loop.induct)
  case (2 fs k name is_dir es)
  let ?d = "\<lparr>dev_name = name, dev_device = path_join ''/dev/ocxl'' name, dev_afu = [], dev_node = 0, dev_memory = 0\<rparr>"
  show ?case
  proof (cases is_dir)
    case False
    then show ?thesis
      using 2(2-) [OF False] 2(2-) getDeviceInfo_Returns [of fs k ?d]
      by (cases "getDeviceInfo fs k ?d") (fastforce simp: list_all_iff)+
  qed (use 2(1) in \<open>auto simp: list_all_iff\<close>)
qed simp

end
