(* ===== verification/NumaCli.thy ===== *)
theory NumaCli
  imports NumaDiscovery Ieee
begin

section \<open>The command line tool\<close>

text \<open>
  The operations of \<open>cmd/aitherion-cli\<close> that compute something: memory sizes and limits
  (\<open>utils/resource.go\<close>, \<open>utils/docker.go\<close>, \<open>utils/topogen.go\<close>), the containers that are started with
  their arguments (\<open>utils/docker.go\<close>), the network interfaces, and the menu that edits a node's
  configuration (\<open>numa/configure.go\<close>). Running a program, the files, and two functions no file
  declares (\<open>DetectCUDALib\<close>, \<open>DetectNvidiaSMI\<close>) are parameters.
\<close>

subsection \<open>Memory sizes\<close>

text \<open>\<open>strings.Split\<close> at newlines keeps every piece, and the lines keep their carriage returns.\<close>

fun total_kb_loop :: "string list \<Rightarrow> int" where
  "total_kb_loop [] = 0"
| "total_kb_loop (line # ls) =
     (if HasPrefix line ''MemTotal:'' \<and> 2 \<le> length (Fields line)
      then case Atoi (Fields line ! 1) of (kb, None) \<Rightarrow> kb | (kb, Some e) \<Rightarrow> total_kb_loop ls
      else total_kb_loop ls)"

definition getNUMATotalMemoryKB :: "string option \<Rightarrow> int" where
  "getNUMATotalMemoryKB f = (case f of None \<Rightarrow> 0 | Some t \<Rightarrow> total_kb_loop (split_on (CHR 0x0A) t))"

fun topology_memory_loop :: "string list \<Rightarrow> u64 \<Rightarrow> u64" where
  "topology_memory_loop [] memory = memory"
| "topology_memory_loop (line # ls) memory =
     (if HasPrefix line ''MemTotal:''
      then if 2 \<le> length (Fields line) then of_nat (fst (ParseUint (Fields line ! 1))) * 1024 else memory
      else topology_memory_loop ls memory)"

definition topology_memory :: "string option \<Rightarrow> u64" where
  "topology_memory f = (case f of None \<Rightarrow> 0 | Some t \<Rightarrow> topology_memory_loop (split_on (CHR 0x0A) t) 0)"

datatype resource_error = NumactlFailed | LineTooShort | SizeNotANumber | NodeNotFound | PercentTooHigh | LimitTooLow

fun numa_memory_loop :: "nat \<Rightarrow> string list \<Rightarrow> (resource_error, int) go" where
  "numa_memory_loop nodeID [] = Fails NodeNotFound"
| "numa_memory_loop nodeID (line # ls) =
     (if Contains line (''node '' @ digits_of nodeID @ '' size'')
      then if length (Fields line) < 4 then Fails LineTooShort
           else case Atoi (Fields line ! 3) of (mb, None) \<Rightarrow> Returns mb | (mb, Some e) \<Rightarrow> Fails SizeNotANumber
      else numa_memory_loop nodeID ls)"

definition GetNUMAMemory :: "string option \<Rightarrow> nat \<Rightarrow> (resource_error, int) go" where
  "GetNUMAMemory output nodeID =
     (case output of None \<Rightarrow> Fails NumactlFailed | Some t \<Rightarrow> numa_memory_loop nodeID (split_on (CHR 0x0A) t))"

text \<open>
  A conversion of a floating point number to \<open>int\<close> drops the fraction; of one outside the range of
  \<open>int\<close>, or of none, the language leaves the result to the machine: \<open>junk\<close>.
\<close>

definition to_int64 :: "int \<Rightarrow> fval \<Rightarrow> int" where
  "to_int64 junk x =
     (case x of
        Fin q \<Rightarrow> (let t = (if 0 \<le> q then \<lfloor>q\<rfloor> else - \<lfloor>- q\<rfloor>) in if - (2 ^ 63) \<le> t \<and> t < 2 ^ 63 then t else junk)
      | _ \<Rightarrow> junk)"

definition wrap_int64 :: "int \<Rightarrow> int" where
  "wrap_int64 i = (i + 2 ^ 63) mod 2 ^ 64 - 2 ^ 63"

definition CalculateMemoryLimit :: "int \<Rightarrow> int \<Rightarrow> fval \<Rightarrow> (resource_error, int) go" where
  "CalculateMemoryLimit junk totalMemMB percent =
     (if fless (Fin 90) percent then Fails PercentTooHigh
      else let limit = wrap_int64 (to_int64 junk (fdiv binary64 (fmul binary64 (of_sint binary64 totalMemMB) percent) (Fin 100)) - 1024)
           in if limit < 1024 then Fails LimitTooLow else Returns limit)"

subsection \<open>Containers\<close>

record rdma_device =
  InterfaceName :: string
  NumaNodes :: "int list"

record cli_config =
  CapnpBasePort :: int
  ZmqBasePort :: int
  ImageName :: string
  Tag :: string
  DryRun :: bool
  ControlIface :: string
  DataIface :: string
  EnableMacvlan :: bool
  DisableNUMABinding :: bool
  EnableMemExt :: bool
  RDMADevices :: "rdma_device list"

datatype cli_action = SetMacvlan nat | MakeDirectory string | SetHugePages int | RunDocker "string list"

record cli_env =
  numa_files :: "string list option"
  cli_file :: "string \<Rightarrow> string option"
  cuda_lib :: string
  nvidia_smi :: string
  macvlan_ok :: "nat \<Rightarrow> bool"
  docker_ok :: "cli_action list \<Rightarrow> string list \<Rightarrow> bool"

definition rdma_for :: "nat \<Rightarrow> cli_config \<Rightarrow> string list" where
  "rdma_for i cfg = map InterfaceName (filter (\<lambda>d. int i \<in> set (NumaNodes d)) (RDMADevices cfg))"

definition getRDMADevicesForNUMA :: "nat \<Rightarrow> cli_config \<Rightarrow> string" where
  "getRDMADevicesForNUMA numaID cfg = join_with '','' (rdma_for numaID cfg)"

definition iface_mount :: "cli_env \<Rightarrow> nat \<Rightarrow> string list" where
  "iface_mount env i =
     (case map_option TrimSpace (cli_file env (''/var/lib/aitherion-cli/topology/numa'' @ digits_of i @ ''_iface.txt'')) of
        None \<Rightarrow> []
      | Some ifc \<Rightarrow> (if ifc = [] then [] else [''-v'', ''/sys/class/net/'' @ ifc @ '':/sys/class/net/'' @ ifc @ '':ro'']))"

text \<open>The options before the program, then the program, its options, the image, and two more settings for RDMA.\<close>

definition docker_options :: "cli_env \<Rightarrow> cli_config \<Rightarrow> nat \<Rightarrow> string \<Rightarrow> string list" where
  "docker_options env cfg i gpus =
     (let capnpPort = CapnpBasePort cfg + int i in
      [''-it'', ''--rm'', ''-d'', ''--runtime=nvidia'',
       ''-e'', ''NVIDIA_VISIBLE_DEVICES='' @ gpus, ''-e'', ''CAPNP_PORT='' @ Itoa capnpPort,
       ''-e'', ''ZMQ_PORT='' @ Itoa (ZmqBasePort cfg), ''-e'', ''CONTROL_IFACE='' @ ControlIface cfg,
       ''-e'', ''DATA_IFACE='' @ DataIface cfg, ''-e'', ''NUMA_NODE_ID='' @ digits_of i,
       ''-v'', ''/dev:/dev'', ''-p'', Itoa capnpPort @ '':'' @ Itoa capnpPort,
       ''-p'', Itoa (ZmqBasePort cfg) @ '':'' @ Itoa (ZmqBasePort cfg) @ ''/udp'',
       ''--name'', ''aitherion-cli-numa'' @ digits_of i] @
      (if cuda_lib env = [] then [] else [''-v'', cuda_lib env @ '':'' @ cuda_lib env @ '':ro'']) @
      (if nvidia_smi env = [] then [] else [''-v'', nvidia_smi env @ '':'' @ nvidia_smi env @ '':ro'']) @
      iface_mount env i @
      concat (map (\<lambda>d. [''--device'', ''/dev/infiniband/'' @ d]) (rdma_for i cfg)) @
      (if EnableMacvlan cfg then [''--network'', ''container:macvlan'' @ digits_of i] else []) @
      (if DisableNUMABinding cfg then [] else [''--cpuset-mems'', digits_of i]) @
      (if EnableMemExt cfg then [''-v'', ''/mnt/memext/numa'' @ digits_of i @ '':/mnt/memext''] else []))"

definition docker_args :: "cli_env \<Rightarrow> cli_config \<Rightarrow> (nat \<Rightarrow> (string \<times> string) option) \<Rightarrow> nat \<Rightarrow> string \<Rightarrow> string list" where
  "docker_args env cfg nodeConfigs i gpus =
     (let (control, dta) = (case nodeConfigs i of None \<Rightarrow> (''eth0'', ''eth1'') | Some c \<Rightarrow> c) in
      [''run''] @ docker_options env cfg i gpus @
      [''./capnpserver'', ''--port'', Itoa (CapnpBasePort cfg + int i), ''--zmq-port'', Itoa (ZmqBasePort cfg),
       ''--control-iface'', control, ''--data-iface'', dta, ImageName cfg @ '':'' @ Tag cfg] @
      (if RDMADevices cfg = [] then []
       else [''-e'', ''ENABLE_RDMA=true'', ''-e'', ''RDMA_DEVICES='' @ getRDMADevicesForNUMA i cfg]))"

text \<open>The huge pages asked for a node: 90 percent of its memory, in pages of 2 MB.\<close>

definition huge_pages :: "string option \<Rightarrow> int option" where
  "huge_pages meminfo =
     (let memKB = getNUMATotalMemoryKB meminfo in if 0 < memKB then Some (memKB div 1024 * 90 div 100 div 2) else None)"

datatype start_error = NoTopology | MacvlanFailed nat | ContainerFailed nat

text \<open>
  What starting the containers does to the machine (\<open>cli_action\<close>), in order. The directories, the interfaces and
  the huge pages come before the test for a dry run.
\<close>

definition extension_actions :: "cli_env \<Rightarrow> cli_config \<Rightarrow> nat \<Rightarrow> cli_action list" where
  "extension_actions env cfg i =
     (if EnableMemExt cfg
      then MakeDirectory (''/mnt/memext/numa'' @ digits_of i) #
        (case huge_pages (cli_file env (''/sys/devices/system/node/node'' @ digits_of i @ ''/meminfo'')) of
           None \<Rightarrow> [] | Some n \<Rightarrow> [SetHugePages n])
      else [])"

fun start_loop :: "cli_env \<Rightarrow> cli_config \<Rightarrow> (nat \<Rightarrow> (string \<times> string) option) \<Rightarrow> nat \<Rightarrow> string list \<Rightarrow> cli_action list \<Rightarrow>
    (start_error, unit) go \<times> cli_action list" where
  "start_loop env cfg ncs i [] done_acts = (Returns (), done_acts)"
| "start_loop env cfg ncs i (gpuPath # paths) done_acts =
     (let gpus = TrimSpace (case cli_file env gpuPath of None \<Rightarrow> [] | Some t \<Rightarrow> t) in
      if gpus = [] then start_loop env cfg ncs (Suc i) paths done_acts
      else
        let acts1 = (if EnableMacvlan cfg then done_acts @ [SetMacvlan i] else done_acts) in
        if EnableMacvlan cfg \<and> \<not> macvlan_ok env i then (Fails (MacvlanFailed i), acts1)
        else
          let acts2 = acts1 @ extension_actions env cfg i;
              args = docker_args env cfg ncs i gpus
          in if DryRun cfg then start_loop env cfg ncs (Suc i) paths acts2
             else if docker_ok env acts2 args then start_loop env cfg ncs (Suc i) paths (acts2 @ [RunDocker args])
             else (Fails (ContainerFailed i), acts2 @ [RunDocker args]))"

definition StartContainers :: "cli_env \<Rightarrow> cli_config \<Rightarrow> (nat \<Rightarrow> (string \<times> string) option) \<Rightarrow>
    (start_error, unit) go \<times> cli_action list" where
  "StartContainers env cfg nodeConfigs =
     (case numa_files env of
        None \<Rightarrow> (Fails NoTopology, [])
      | Some paths \<Rightarrow> (if paths = [] then (Fails NoTopology, []) else start_loop env cfg nodeConfigs 0 paths []))"

text \<open>The configuration the command \<open>start\<close> makes for itself, and the nodes' first settings (\<open>numa/start.go\<close>, \<open>numa/configure.go\<close>).\<close>

definition StartCmd_config :: cli_config where
  "StartCmd_config =
     \<lparr>CapnpBasePort = 50051, ZmqBasePort = 5555, ImageName = ''aitherion-runtime'', Tag = ''latest'', DryRun = False,
      ControlIface = [], DataIface = [], EnableMacvlan = True, DisableNUMABinding = False, EnableMemExt = False,
      RDMADevices = []\<rparr>"

definition CheckContainerHealth :: "string option \<Rightarrow> bool \<Rightarrow> bool" where
  "CheckContainerHealth running ocxl_healthy \<longleftrightarrow>
     (case running of None \<Rightarrow> False | Some output \<Rightarrow> TrimSpace output = ''true'' \<and> ocxl_healthy)"

subsection \<open>Network interfaces\<close>

definition GetPhysicalInterfaceForNUMA :: "int \<Rightarrow> string" where
  "GetPhysicalInterfaceForNUMA nodeID = (if nodeID = 0 then ''eth0'' else ''eth1'')"

text \<open>The commands of \<open>SetupMacvlanForNUMA\<close> in \<open>utils/docker.go\<close>; only the third may fail when its output says that the namespace exists.\<close>

definition macvlan_commands :: "int \<Rightarrow> string list list" where
  "macvlan_commands nodeID =
     (let m = ''macvlan'' @ Itoa nodeID; ns = ''aitherion-ns'' @ Itoa nodeID; net = ''192.168.'' @ Itoa nodeID in
      [[''link'', ''add'', m, ''link'', GetPhysicalInterfaceForNUMA nodeID, ''type'', ''macvlan'', ''mode'', ''bridge''],
       [''link'', ''set'', m, ''up''],
       [''netns'', ''add'', ns],
       [''link'', ''set'', m, ''netns'', ns],
       [''netns'', ''exec'', ns, ''ip'', ''link'', ''set'', m, ''up''],
       [''netns'', ''exec'', ns, ''ip'', ''addr'', ''add'', net @ ''.2/24'', ''dev'', m],
       [''netns'', ''exec'', ns, ''ip'', ''route'', ''add'', ''default'', ''via'', net @ ''.1'']])"

fun run_commands :: "(string list \<Rightarrow> string option) \<Rightarrow> string list list \<Rightarrow> string list option \<times> string list list" where
  "run_commands ip [] = (None, [])"
| "run_commands ip (c # cs) =
     (case ip c of
        Some output \<Rightarrow>
          (if take 2 c = [''netns'', ''add''] \<and> Contains output ''already exists''
           then (case run_commands ip cs of (e, done_cmds) \<Rightarrow> (e, c # done_cmds))
           else (Some c, [c]))
      | None \<Rightarrow> (case run_commands ip cs of (e, done_cmds) \<Rightarrow> (e, c # done_cmds)))"

definition SetupMacvlanForNUMA :: "(string list \<Rightarrow> string option) \<Rightarrow> int \<Rightarrow> string list option \<times> string list list" where
  "SetupMacvlanForNUMA ip nodeID = run_commands ip (macvlan_commands nodeID)"

text \<open>
  \<open>utils/network.go\<close> declares the same function again, with the interface from a map and the mode
  from the configuration, and the removal of an interface; the command \<open>clean\<close> removes eight.
\<close>

definition NicSetupMacvlanForNUMA :: "(string list \<Rightarrow> string option) \<Rightarrow> (string \<Rightarrow> string option) \<Rightarrow> string \<Rightarrow> int \<Rightarrow>
    (string list option) option \<times> string list list" where
  "NicSetupMacvlanForNUMA ip nics mode numaIndex =
     (case nics (Itoa numaIndex) of
        None \<Rightarrow> (None, [])
      | Some nic \<Rightarrow>
          (let m = ''macvlan'' @ Itoa numaIndex
           in map_prod Some id (run_commands ip
                [[''link'', ''add'', m, ''link'', nic, ''type'', ''macvlan'', ''mode'', mode], [''link'', ''set'', m, ''up'']])))"

definition CleanupMacvlanForNUMA :: "(string list \<Rightarrow> string option) \<Rightarrow> int \<Rightarrow> string list option \<times> string list list" where
  "CleanupMacvlanForNUMA ip numaIndex = run_commands ip [[''link'', ''delete'', ''macvlan'' @ Itoa numaIndex]]"

definition cleanCmd :: "(string list \<Rightarrow> string option) \<Rightarrow> string list list" where
  "cleanCmd ip = concat (map (\<lambda>i. snd (CleanupMacvlanForNUMA ip (int i))) [0..<8])"

subsection \<open>Topology files\<close>

text \<open>
  \<open>utils/topogen.go\<close>: devices are entries of a directory with the text of their \<open>device/numa_node\<close>
  (\<open>None\<close>: unreadable). The files are written per node; the order in which the language walks the
  map does not matter, as no two nodes have a file in common.
\<close>

record node_info =
  GPUs :: "string list"
  IFaces :: "string list"
  Memory :: u64

definition no_info :: node_info where "no_info = \<lparr>GPUs = [], IFaces = [], Memory = 0\<rparr>"

type_synonym numa_map = "int \<Rightarrow> node_info option"

definition device_node :: "string option \<Rightarrow> int option" where
  "device_node f =
     (case f of None \<Rightarrow> None
      | Some t \<Rightarrow> (let nodeID = fst (Atoi (TrimSpace t)) in if nodeID < 0 then None else Some nodeID))"

definition scan_gpu :: "numa_map \<Rightarrow> string \<times> string option \<Rightarrow> numa_map" where
  "scan_gpu m = (\<lambda>(name, f).
     if \<not> HasPrefix name ''card'' then m
     else case device_node f of None \<Rightarrow> m
       | Some n \<Rightarrow> (let info = case_option no_info id (m n) in m(n \<mapsto> info\<lparr>GPUs := GPUs info @ [name]\<rparr>)))"

definition scan_iface :: "numa_map \<Rightarrow> string \<times> string option \<Rightarrow> numa_map" where
  "scan_iface m = (\<lambda>(name, f).
     case device_node f of None \<Rightarrow> m
     | Some n \<Rightarrow> (let info = case_option no_info id (m n) in m(n \<mapsto> info\<lparr>IFaces := IFaces info @ [name]\<rparr>)))"

definition scan_memory :: "(int \<Rightarrow> string option) \<Rightarrow> numa_map \<Rightarrow> numa_map" where
  "scan_memory meminfo m = (\<lambda>n. map_option (\<lambda>info. info\<lparr>Memory := topology_memory (meminfo n)\<rparr>) (m n))"

definition GenerateTopologyFiles :: "(string \<times> string option) list \<Rightarrow> (string \<times> string option) list \<Rightarrow> (int \<Rightarrow> string option) \<Rightarrow> numa_map" where
  "GenerateTopologyFiles drm net meminfo =
     scan_memory meminfo (foldl scan_iface (foldl scan_gpu (\<lambda>_. None) drm) net)"

definition gpu_file :: "numa_map \<Rightarrow> int \<Rightarrow> string option" where
  "gpu_file m n = map_option (\<lambda>info. join_with '','' (GPUs info)) (m n)"

definition iface_file :: "numa_map \<Rightarrow> int \<Rightarrow> string option" where
  "iface_file m n = map_option (\<lambda>info. join_with '','' (IFaces info)) (m n)"

definition mem_gb :: "numa_map \<Rightarrow> int \<Rightarrow> fval option" where
  "mem_gb m n = map_option (\<lambda>info. fdiv binary64 (of_u64 binary64 (Memory info)) (Fin 1000000000)) (m n)"

subsection \<open>The menu of a node\<close>

text \<open>
  \<open>configureNUMANode\<close> over the lines it reads. At the end of the input every read gives an empty
  line and an error nobody looks at, so that the loop never ends (\<open>None\<close>). \<open>ParseFloat\<close> is a parameter.
\<close>

record node_config =
  MemPercent :: fval
  VmemRatio :: fval
  nc_ControlIface :: string
  nc_DataIface :: string

definition set_percent :: "(string \<Rightarrow> fval option) \<Rightarrow> string \<Rightarrow> node_config \<Rightarrow> node_config" where
  "set_percent ParseFloat input cfg =
     (case ParseFloat (TrimSpace input) of
        None \<Rightarrow> cfg
      | Some v \<Rightarrow> (if fless (Fin 0) v \<and> v \<noteq> NaN \<and> \<not> fless (Fin 90) v then cfg\<lparr>MemPercent := v\<rparr> else cfg))"

definition set_ratio :: "(string \<Rightarrow> fval option) \<Rightarrow> string \<Rightarrow> node_config \<Rightarrow> node_config" where
  "set_ratio ParseFloat input cfg =
     (case ParseFloat (TrimSpace input) of
        None \<Rightarrow> cfg
      | Some v \<Rightarrow> (if v \<noteq> NaN \<and> \<not> fless v (fl binary64 (1 / 10)) \<and> \<not> fless (fl binary64 (9 / 10)) v
                  then cfg\<lparr>VmemRatio := v\<rparr> else cfg))"

fun configureNUMANode :: "(string \<Rightarrow> fval option) \<Rightarrow> node_config \<Rightarrow> string list \<Rightarrow> (node_config \<times> string list) option" where
  "configureNUMANode ParseFloat cfg [] = None"
| "configureNUMANode ParseFloat cfg (input # rest) =
     (case Atoi (TrimSpace input) of
        (choice, Some e) \<Rightarrow> configureNUMANode ParseFloat cfg rest
      | (choice, None) \<Rightarrow>
          if choice = 1 then (case rest of [] \<Rightarrow> None | v # rest' \<Rightarrow> configureNUMANode ParseFloat (set_percent ParseFloat v cfg) rest')
          else if choice = 2 then (case rest of [] \<Rightarrow> None | v # rest' \<Rightarrow> configureNUMANode ParseFloat (set_ratio ParseFloat v cfg) rest')
          else if choice = 3 then
            (case rest of
               c # d # rest' \<Rightarrow> configureNUMANode ParseFloat (cfg\<lparr>nc_ControlIface := TrimSpace c, nc_DataIface := TrimSpace d\<rparr>) rest'
             | _ \<Rightarrow> None)
          else if choice = 4 then Some (cfg, rest)
          else configureNUMANode ParseFloat cfg rest)"

text \<open>
  \<open>addRoceInterface\<close>: a line of \<open>lspci\<close> and the nodes it is bound to. The device that is saved has no
  interface name.
\<close>

definition rdma_lines :: "string \<Rightarrow> string list" where
  "rdma_lines output =
     filter (\<lambda>l. Contains l ''InfiniBand'' \<or> Contains l ''ROCE'' \<or> Contains l ''RDMA'') (scan_lines output)"

definition parsed_nodes :: "string \<Rightarrow> int list" where
  "parsed_nodes input = map fst (filter (\<lambda>r. snd r = None) (map Atoi (split_on (CHR '','') (TrimSpace input))))"

definition addRoceInterface :: "string option \<Rightarrow> string \<Rightarrow> string \<Rightarrow> (string \<times> rdma_device) option" where
  "addRoceInterface lspci choice nodes =
     (case lspci of
        None \<Rightarrow> None
      | Some output \<Rightarrow>
          (case Atoi (TrimSpace choice) of
             (index, Some e) \<Rightarrow> None
           | (index, None) \<Rightarrow>
               if index < 1 \<or> int (length (rdma_lines output)) < index then None
               else case Fields (rdma_lines output ! nat (index - 1)) of
                      [] \<Rightarrow> None
                    | pciAddr # parts \<Rightarrow> Some (pciAddr, \<lparr>InterfaceName = [], NumaNodes = parsed_nodes nodes\<rparr>)))"

subsection \<open>The limit of a node's memory\<close>

lemma to_int64_inrange:
  assumes "inrange 0 (of_int hi) x" and "hi < 2 ^ 63"
  shows "0 \<le> to_int64 junk x \<and> to_int64 junk x \<le> hi"
proof -
  obtain q where x: "x = Fin q" "0 \<le> q" "q \<le> of_int hi" using assms(1) by (elim inrangeE)
  then have "0 \<le> \<lfloor>q\<rfloor>" "\<lfloor>q\<rfloor> \<le> hi" by (simp_all add: floor_le_iff)
  then show ?thesis using assms(2) x by (simp add: to_int64_def Let_def)
qed

lemma wrap_int64_id: "- (2 ^ 63) \<le> i \<Longrightarrow> i < 2 ^ 63 \<Longrightarrow> wrap_int64 i = i"
  by (simp add: wrap_int64_def)

lemma limit_product:
  assumes "0 \<le> mb" "mb \<le> 2 ^ 46" "0 \<le> p" "p \<le> 90"
  shows "inrange 0 (of_int (90 * mb)) (fmul binary64 (of_sint binary64 mb) (Fin p))"
proof -
  have "of_sint binary64 mb = Fin (of_int mb)"
    using assms by (simp add: of_sint_def fl_fixed fixed64_int)
  moreover have "fixed binary64 (of_int (90 * mb))" using assms(1,2) by (intro fixed64_int) simp
  ultimately show ?thesis
    using assms by (intro b64.mul_inrange [of "of_int mb" _ 90]) (auto simp: mult.commute)
qed

lemma limit_quotient:
  assumes "0 \<le> mb" "mb \<le> 2 ^ 46" "0 \<le> p" "p \<le> 90"
  shows "inrange 0 (of_int ((90 * mb + 99) div 100))
           (fdiv binary64 (fmul binary64 (of_sint binary64 mb) (Fin p)) (Fin 100))"
proof (rule b64.div_inrange [where c = 100 and d = 100])
  have "90 * mb \<le> 100 * ((90 * mb + 99) div 100)" by presburger
  then have "(of_int (90 * mb) :: rat) \<le> of_int (100 * ((90 * mb + 99) div 100))" by (simp only: of_int_le_iff)
  then show "of_int (90 * mb) / 100 \<le> (of_int ((90 * mb + 99) div 100) :: rat)" by simp
  have "(90 * mb + 99) div 100 \<le> 2 ^ 53" using assms(1,2) by simp
  moreover have "0 \<le> (90 * mb + 99) div 100" using assms(1) by simp
  ultimately show "fixed binary64 (of_int ((90 * mb + 99) div 100))" by (intro fixed64_int) simp
qed (use limit_product [OF assms] in simp_all)

text \<open>
  C34. A limit \<open>CalculateMemoryLimit\<close> gives for a finite percentage that is not negative leaves at
  least 1024 MB of the node free, on top of the tenth that the bound of 90 percent keeps back, and
  is at least 1024 MB: rounding does not break the bound for any memory up to 64 exabytes.
\<close>

theorem memory_limit_bounds:
  assumes "0 \<le> mb" "mb \<le> 2 ^ 46" "0 \<le> p"
    and "CalculateMemoryLimit junk mb (Fin p) = Returns limit"
  shows "1024 \<le> limit \<and> limit + 1024 \<le> (90 * mb + 99) div 100"
proof -
  have p: "p \<le> 90" using assms(4) by (auto simp: CalculateMemoryLimit_def split: if_splits)
  let ?t = "to_int64 junk (fdiv binary64 (fmul binary64 (of_sint binary64 mb) (Fin p)) (Fin 100))"
  have "(90 * mb + 99) div 100 < 2 ^ 63" using assms(1,2) by simp
  with to_int64_inrange [OF limit_quotient [OF assms(1-3) p]]
  have t: "0 \<le> ?t" "?t \<le> (90 * mb + 99) div 100" by simp_all
  moreover from this have "?t < 2 ^ 63" using \<open>(90 * mb + 99) div 100 < 2 ^ 63\<close> by (rule_tac le_less_trans)
  ultimately
  have "wrap_int64 (?t - 1024) = ?t - 1024" by (intro wrap_int64_id) simp_all
  then show ?thesis using assms(4) t p by (auto simp: CalculateMemoryLimit_def Let_def split: if_splits)
qed

theorem memory_limit_bounds_witness: "1024 \<le> (49152 :: int) \<and> 49152 + 1024 \<le> (90 * 62720 + 99) div (100 :: int)"
  by (rule memory_limit_bounds [where p = 80 and junk = 0 and mb = 62720]) (code_simp+)

subsection \<open>What docker is asked to do\<close>

text \<open>
  How \<open>docker run\<close> reads its arguments: the options that take a value take the next argument, and
  the first argument that is not an option is the image; what follows is the command in it.
\<close>

definition takes_value :: "string \<Rightarrow> bool" where
  "takes_value a \<longleftrightarrow> a \<in> {''-e'', ''-v'', ''-p'', ''--name'', ''--device'', ''--network'', ''--cpuset-mems''}"

fun docker_image :: "string list \<Rightarrow> string option" where
  "docker_image [] = None"
| "docker_image (a # as) =
     (if takes_value a then (case as of [] \<Rightarrow> None | v # vs \<Rightarrow> docker_image vs)
      else if HasPrefix a ''-'' then docker_image as
      else Some a)"

fun only_options :: "string list \<Rightarrow> bool" where
  "only_options [] = True"
| "only_options (a # as) =
     (if takes_value a then (case as of [] \<Rightarrow> False | v # vs \<Rightarrow> only_options vs) else HasPrefix a ''-'' \<and> only_options as)"

lemma docker_image_options: "only_options opts \<Longrightarrow> docker_image (opts @ rest) = docker_image rest"
  by (induction opts rule: only_options.induct) (auto split: if_splits list.splits)

lemma only_options_append: "only_options a \<Longrightarrow> only_options b \<Longrightarrow> only_options (a @ b)"
  by (induction a rule: only_options.induct) (auto split: if_splits list.splits)

lemma only_options_pairs: "takes_value o1 \<Longrightarrow> only_options (concat (map (\<lambda>d. [o1, f d]) ds))"
  by (induction ds) simp_all

lemma takes_value_simps [simp]:
  "takes_value ''-e''" "takes_value ''-v''" "takes_value ''-p''" "takes_value ''--name''" "takes_value ''--device''"
  "takes_value ''--network''" "takes_value ''--cpuset-mems''" "\<not> takes_value ''-it''" "\<not> takes_value ''--rm''"
  "\<not> takes_value ''-d''" "\<not> takes_value ''--runtime=nvidia''" "\<not> takes_value ''./capnpserver''"
  by (simp_all add: takes_value_def)

lemma docker_options_only: "only_options (docker_options env cfg i gpus)"
  unfolding docker_options_def Let_def
  by (intro only_options_append only_options_pairs)
     (simp_all add: HasPrefix_def iface_mount_def split: option.splits)

text \<open>
  The image of every container that is started is the name of the program, \<open>./capnpserver\<close>: the
  program and its arguments stand before the configured image, so that docker takes the former as
  the image to run and the latter as one of its arguments, whatever the configuration.
\<close>

theorem program_name_is_taken_as_image:
  "docker_image (tl (docker_args env cfg nodeConfigs i gpus)) = Some ''./capnpserver''"
proof -
  have "tl (docker_args env cfg nodeConfigs i gpus) =
      docker_options env cfg i gpus @ ''./capnpserver'' # tl (dropWhile (\<lambda>a. a \<noteq> ''./capnpserver'')
        (drop (length (docker_options env cfg i gpus)) (tl (docker_args env cfg nodeConfigs i gpus))))"
    by (simp add: docker_args_def Let_def split: prod.split)
  moreover have "docker_image (''./capnpserver'' # rest) = Some ''./capnpserver''" for rest
    by (simp add: HasPrefix_def)
  ultimately show ?thesis by (metis docker_image_options docker_options_only)
qed

text \<open>A dry run starts no container, but what it would print is not all it does.\<close>

fun is_docker :: "cli_action \<Rightarrow> bool" where
  "is_docker (RunDocker _) = True"
| "is_docker _ = False"

lemma extension_no_docker: "list_all (\<lambda>a. \<not> is_docker a) (extension_actions env cfg i)"
  by (simp add: extension_actions_def split: option.splits)

lemma dry_loop_no_docker:
  "DryRun cfg \<Longrightarrow> list_all (\<lambda>a. \<not> is_docker a) acts \<Longrightarrow>
     list_all (\<lambda>a. \<not> is_docker a) (snd (start_loop env cfg ncs i paths acts))"
  by (induction paths arbitrary: i acts) (auto simp: Let_def extension_no_docker)

lemma dry_run_starts_nothing:
  "DryRun cfg \<Longrightarrow> list_all (\<lambda>a. \<not> is_docker a) (snd (StartContainers env cfg ncs))"
  by (auto simp: StartContainers_def dry_loop_no_docker split: option.splits)

text \<open>
  On the file the kernel writes for a node every line begins with the node. Neither function of the
  command line finds the size there, and no huge page is ever asked for; the library of \<open>pkg/numa\<close>
  reads it.
\<close>

lemma node_line_no_prefix: "HasPrefix l ''Node '' \<Longrightarrow> \<not> HasPrefix l ''MemTotal:''"
  by (cases l) (auto simp: HasPrefix_def)

lemma node_lines_have_no_total:
  "list_all (\<lambda>l. HasPrefix l ''Node '' \<or> l = []) ls \<Longrightarrow> total_kb_loop ls = 0 \<and> topology_memory_loop ls m = m"
proof (induction ls)
  case (Cons l ls)
  moreover have "\<not> HasPrefix l ''MemTotal:''" using Cons.prems node_line_no_prefix by (auto simp: HasPrefix_def)
  ultimately show ?case by simp
qed simp

lemma huge_pages_never_set:
  assumes "list_all (\<lambda>l. HasPrefix l ''Node '' \<or> l = []) (split_on (CHR 0x0A) t)"
  shows "getNUMATotalMemoryKB (Some t) = 0" and "topology_memory (Some t) = 0" and "huge_pages (Some t) = None"
  using node_lines_have_no_total [OF assms, of 0]
  by (simp_all add: getNUMATotalMemoryKB_def topology_memory_def huge_pages_def)

text \<open>
  The machine this is written for has the nodes 0 and 8, and a file for each.
\<close>

definition two_nodes :: cli_env where
  "two_nodes = \<lparr>numa_files = Some [''/var/lib/aitherion-cli/topology/numa0_gpus.txt'', ''/var/lib/aitherion-cli/topology/numa8_gpus.txt''],
     cli_file = (\<lambda>p. if p = ''/var/lib/aitherion-cli/topology/numa0_gpus.txt'' then Some ''card0''
                  else if p = ''/var/lib/aitherion-cli/topology/numa8_gpus.txt'' then Some ''card1,card2'' else None),
     cuda_lib = [], nvidia_smi = [], macvlan_ok = (\<lambda>_. True), docker_ok = (\<lambda>_ _. True)\<rparr>"

definition gpus_of :: "cli_env \<Rightarrow> string \<Rightarrow> string" where
  "gpus_of env path = TrimSpace (case cli_file env path of None \<Rightarrow> [] | Some t \<Rightarrow> t)"

lemma not_docker_filter: "list_all (\<lambda>a. \<not> is_docker a) l \<Longrightarrow> filter is_docker l = []"
  by (induction l) simp_all

lemma start_loop_dockers:
  "\<not> DryRun cfg \<Longrightarrow> fst (start_loop env cfg ncs i paths acts) = Returns () \<Longrightarrow>
     filter is_docker (snd (start_loop env cfg ncs i paths acts)) =
       filter is_docker acts @ map (\<lambda>(j, g). RunDocker (docker_args env cfg ncs j g))
         (filter (\<lambda>(j, g). g \<noteq> []) (enumerate i (map (gpus_of env) paths)))"
proof (induction paths arbitrary: i acts)
  case (Cons path paths)
  then show ?case
    by (auto simp: Let_def gpus_of_def not_docker_filter [OF extension_no_docker] split: if_splits)
qed simp

text \<open>
  \<open>StartContainers\<close> numbers the containers by the place of their file in the list, never by the
  node in the name of the file: when it succeeds it has started one container for each file that
  names a device, with the settings, the memory, the interface and the port of that place. On a
  machine with the nodes 0 and 8 the container of node 8 is bound to the memory of a node 1.
\<close>

theorem containers_are_numbered_by_position:
  assumes "numa_files env = Some paths" "\<not> DryRun cfg" "fst (StartContainers env cfg ncs) = Returns ()"
  shows "filter is_docker (snd (StartContainers env cfg ncs)) =
     map (\<lambda>(i, gpus). RunDocker (docker_args env cfg ncs i gpus))
       (filter (\<lambda>(i, gpus). gpus \<noteq> []) (enumerate 0 (map (gpus_of env) paths)))"
  using assms start_loop_dockers [OF assms(2), of env ncs 0 paths "[]"]
  by (auto simp: StartContainers_def split: if_splits)

lemma two_nodes_start:
  "fst (StartContainers two_nodes StartCmd_config (\<lambda>_. None)) = Returns ()"
  "filter (\<lambda>(i, gpus). gpus \<noteq> []) (enumerate 0 (map (gpus_of two_nodes) (the (numa_files two_nodes)))) =
     [(0, ''card0''), (1, ''card1,card2'')]"
  by (simp_all add: StartContainers_def two_nodes_def StartCmd_config_def gpus_of_def TrimSpace_def is_space_def
      Let_def extension_actions_def)

theorem containers_are_numbered_by_position_witness:
  "filter is_docker (snd (StartContainers two_nodes StartCmd_config (\<lambda>_. None))) =
     [RunDocker (docker_args two_nodes StartCmd_config (\<lambda>_. None) 0 ''card0''),
      RunDocker (docker_args two_nodes StartCmd_config (\<lambda>_. None) 1 ''card1,card2'')]"
proof -
  have "numa_files two_nodes = Some (the (numa_files two_nodes))" by (simp add: two_nodes_def)
  from containers_are_numbered_by_position [OF this _ two_nodes_start(1)] show ?thesis
    by (simp add: two_nodes_start(2) StartCmd_config_def [THEN arg_cong [of _ _ DryRun], simplified])
qed

text \<open>The memory of node 1, and one port of the host for both.\<close>

lemma container_settings:
  "\<not> DisableNUMABinding cfg \<Longrightarrow> \<not> EnableMemExt cfg \<Longrightarrow>
     \<exists>opts. docker_options env cfg i gpus = opts @ [''--cpuset-mems'', digits_of i]"
  "Itoa (ZmqBasePort cfg) @ '':'' @ Itoa (ZmqBasePort cfg) @ ''/udp'' \<in> set (docker_options env cfg i gpus)"
  by (simp_all add: docker_options_def Let_def)

subsection \<open>The menu\<close>

text \<open>Every setting the menu keeps is in its range, and without a line that chooses to leave it never returns.\<close>

definition settings_ok :: "node_config \<Rightarrow> bool" where
  "settings_ok cfg \<longleftrightarrow> MemPercent cfg \<noteq> NaN \<and> fless (Fin 0) (MemPercent cfg) \<and> \<not> fless (Fin 90) (MemPercent cfg) \<and>
     VmemRatio cfg \<noteq> NaN \<and> \<not> fless (VmemRatio cfg) (fl binary64 (1 / 10)) \<and> \<not> fless (fl binary64 (9 / 10)) (VmemRatio cfg)"

lemma set_percent_ok: "settings_ok cfg \<Longrightarrow> settings_ok (set_percent ParseFloat s cfg)"
  unfolding settings_ok_def set_percent_def
  by (cases "ParseFloat (TrimSpace s)") simp_all

lemma set_ratio_ok: "settings_ok cfg \<Longrightarrow> settings_ok (set_ratio ParseFloat s cfg)"
  unfolding settings_ok_def set_ratio_def
  by (cases "ParseFloat (TrimSpace s)") simp_all

text \<open>The menu line by line: the lines an item reads after its number, and the settings it leaves.\<close>

fun menu_item :: "(string \<Rightarrow> fval option) \<Rightarrow> int \<times> num_error option \<Rightarrow> string list \<Rightarrow> node_config \<Rightarrow> (node_config \<times> string list) option" where
  "menu_item pf (choice, Some e) rest cfg = Some (cfg, rest)"
| "menu_item pf (choice, None) rest cfg =
     (if choice = 1 then (case rest of [] \<Rightarrow> None | v # r \<Rightarrow> Some (set_percent pf v cfg, r))
      else if choice = 2 then (case rest of [] \<Rightarrow> None | v # r \<Rightarrow> Some (set_ratio pf v cfg, r))
      else if choice = 3 then
        (case rest of c # d # r \<Rightarrow> Some (cfg\<lparr>nc_ControlIface := TrimSpace c, nc_DataIface := TrimSpace d\<rparr>, r) | _ \<Rightarrow> None)
      else Some (cfg, rest))"

lemma menu_step:
  "configureNUMANode pf cfg (line # rest) =
     (if Atoi (TrimSpace line) = (4, None) then Some (cfg, rest)
      else case menu_item pf (Atoi (TrimSpace line)) rest cfg of
             None \<Rightarrow> None | Some (cfg', rest') \<Rightarrow> configureNUMANode pf cfg' rest')"
proof -
  obtain choice e where a: "Atoi (TrimSpace line) = (choice, e)" by (cases "Atoi (TrimSpace line)")
  show ?thesis
    by (cases e; cases rest; cases "tl rest") (simp_all add: a)
qed

lemma menu_item_shorter: "menu_item pf a rest cfg = Some (cfg', rest') \<Longrightarrow> length rest' \<le> length rest"
  by (cases "(pf, a, rest, cfg)" rule: menu_item.cases) (auto split: if_splits list.splits)

lemma menu_item_ok: "settings_ok cfg \<Longrightarrow> menu_item pf a rest cfg = Some (cfg', rest') \<Longrightarrow> settings_ok cfg'"
proof -
  have names: "settings_ok (cfg\<lparr>nc_ControlIface := c, nc_DataIface := d\<rparr>) = settings_ok cfg" for c d
    by (simp add: settings_ok_def)
  assume "settings_ok cfg" "menu_item pf a rest cfg = Some (cfg', rest')"
  then show ?thesis
    by (cases "(pf, a, rest, cfg)" rule: menu_item.cases) (auto simp: set_percent_ok set_ratio_ok names split: if_splits list.splits)
qed

lemma menu_item_lines: "menu_item pf a rest cfg = Some (cfg', rest') \<Longrightarrow> set rest' \<subseteq> set rest"
  by (cases "(pf, a, rest, cfg)" rule: menu_item.cases) (auto split: if_splits list.splits)

lemma menu_keeps_settings_ok:
  "settings_ok cfg \<Longrightarrow> configureNUMANode pf cfg input = Some (cfg', rest) \<Longrightarrow> settings_ok cfg'"
proof (induction "length input" arbitrary: cfg input rule: less_induct)
  case less
  show ?case
  proof (cases input)
    case (Cons line lines)
    show ?thesis
    proof (cases "Atoi (TrimSpace line) = (4, None)")
      case False
      with less.prems(2) obtain c r where item: "menu_item pf (Atoi (TrimSpace line)) lines cfg = Some (c, r)"
        and go: "configureNUMANode pf c r = Some (cfg', rest)"
        unfolding Cons menu_step by (auto split: option.splits)
      from menu_item_shorter [OF item] have "length r < length input" using Cons by simp
      from less.hyps [OF this menu_item_ok [OF less.prems(1) item] go] show ?thesis .
    qed (use less.prems Cons in \<open>simp add: menu_step del: configureNUMANode.simps\<close>)
  qed (use less.prems in simp)
qed

lemma menu_needs_a_four:
  "\<forall>l \<in> set input. Atoi (TrimSpace l) \<noteq> (4, None) \<Longrightarrow> configureNUMANode pf cfg input = None"
proof (induction "length input" arbitrary: cfg input rule: less_induct)
  case less
  show ?case
  proof (cases input)
    case (Cons line lines)
    have "Atoi (TrimSpace line) \<noteq> (4, None)" using less.prems Cons by simp
    moreover have "configureNUMANode pf c r = None"
      if "menu_item pf (Atoi (TrimSpace line)) lines cfg = Some (c, r)" for c r
      using menu_item_shorter [OF that] menu_item_lines [OF that] less.prems Cons by (intro less.hyps) auto
    ultimately show ?thesis
      unfolding Cons menu_step by (auto split: option.splits)
  qed simp
qed

end
