(* ===== verification/CliProcess.thy ===== *)
theory CliProcess
  imports NumaCli "HOL-Library.Char_ord" "HOL-Library.List_Lexorder"
begin

section \<open>The menus and the process of the command line tool\<close>

text \<open>
  The outer menus of \<open>numa/configure.go\<close> over buffered readers of standard input, the life of the
  process and of the receiver it starts (\<open>main.go\<close>), and the remaining commands: \<open>init\<close>, \<open>health\<close>,
  \<open>discover\<close>, with the default configuration. Reading of the command line (\<open>cobra\<close>), \<open>lspci\<close>,
  \<open>ParseFloat\<close> and \<open>DetectNodes\<close>, which no file declares, are parameters.
\<close>

subsection \<open>Standard input\<close>

text \<open>
  Standard input is the list of what single reads of it deliver: lines for a terminal, blocks for a
  pipe or a file. A \<open>bufio.Reader\<close> keeps what it has read beyond the line in a buffer of its own.
  \<open>ReadString\<close> gives the line with its newline, or what is left at the end of the input; callers
  drop the error.
\<close>

abbreviation newline :: char where "newline \<equiv> CHR 0x0A"

fun ReadString :: "string \<Rightarrow> string list \<Rightarrow> string \<times> string \<times> string list" where
  "ReadString buf [] =
     (if newline \<in> set buf
      then (takeWhile (\<lambda>c. c \<noteq> newline) buf @ [newline], tl (dropWhile (\<lambda>c. c \<noteq> newline) buf), [])
      else (buf, [], []))"
| "ReadString buf (c # cs) =
     (if newline \<in> set buf
      then (takeWhile (\<lambda>c. c \<noteq> newline) buf @ [newline], tl (dropWhile (\<lambda>c. c \<noteq> newline) buf), c # cs)
      else ReadString (buf @ c) cs)"

definition input_left :: "string \<Rightarrow> string list \<Rightarrow> nat" where
  "input_left buf chunks = length buf + sum_list (map (\<lambda>c. Suc (length c)) chunks)"

lemma cut_length: "newline \<in> set buf \<Longrightarrow> length (tl (dropWhile (\<lambda>c. c \<noteq> newline) buf)) < length buf"
  by (induction buf) (auto simp: less_Suc_eq)

lemma ReadString_less: "ReadString buf chunks = (line, buf', chunks') \<Longrightarrow> buf \<noteq> [] \<or> chunks \<noteq> [] \<Longrightarrow>
     input_left buf' chunks' < input_left buf chunks"
proof (induction buf chunks rule: ReadString.induct)
  case (2 buf c cs)
  show ?case
  proof (cases "newline \<in> set buf")
    case False
    show ?thesis
    proof (cases "buf @ c = [] \<and> cs = []")
      case True
      then show ?thesis using 2(2) False by (auto simp: input_left_def)
    next
      case ne: False
      then have "input_left buf' chunks' < input_left (buf @ c) cs" using 2 False by auto
      then show ?thesis by (simp add: input_left_def)
    qed
  qed (use 2 cut_length [of buf] in \<open>auto simp: input_left_def\<close>)
qed (auto simp: input_left_def dest: cut_length split: if_splits)

lemma ReadString_le: "ReadString buf chunks = (line, buf', chunks') \<Longrightarrow> input_left buf' chunks' \<le> input_left buf chunks"
  by (cases "buf = [] \<and> chunks = []") (auto dest: ReadString_less intro: less_imp_le)

lemma ReadString_chunks:
  "ReadString buf chunks = (line, buf', chunks') \<Longrightarrow> input_left [] chunks' \<le> input_left [] chunks"
  by (induction buf chunks rule: ReadString.induct) (auto simp: input_left_def split: if_splits)

lemma ReadString_read:
  "(line, buf', chunks') = ReadString buf chunks \<Longrightarrow>
     input_left buf' chunks' \<le> input_left buf chunks \<and> input_left [] chunks' \<le> input_left [] chunks \<and>
     ((buf \<noteq> [] \<or> chunks \<noteq> []) \<longrightarrow> input_left buf' chunks' < input_left buf chunks)"
  by (metis ReadString_less ReadString_le ReadString_chunks)

definition menu_choice :: "string \<Rightarrow> int option" where
  "menu_choice input = (case Atoi (TrimSpace input) of (choice, None) \<Rightarrow> Some choice | (choice, Some e) \<Rightarrow> None)"

subsection \<open>The menus\<close>

text \<open>
  Each menu makes a reader of its own and returns the reads it has not asked for; what its reader has
  buffered is lost when it returns. At the end of the input it loops forever (\<open>None\<close>).
\<close>

function NodeMenu :: "(string \<Rightarrow> fval option) \<Rightarrow> node_config \<Rightarrow> string \<Rightarrow> string list \<Rightarrow> (node_config \<times> string list) option" where
  "NodeMenu ParseFloat cfg buf chunks =
     (if buf = [] \<and> chunks = [] then None
      else case ReadString buf chunks of (input, buf1, chunks1) \<Rightarrow>
        (case menu_choice input of
           None \<Rightarrow> NodeMenu ParseFloat cfg buf1 chunks1
         | Some choice \<Rightarrow>
             if choice = 1 then
               (case ReadString buf1 chunks1 of (v, buf2, chunks2) \<Rightarrow> NodeMenu ParseFloat (set_percent ParseFloat v cfg) buf2 chunks2)
             else if choice = 2 then
               (case ReadString buf1 chunks1 of (v, buf2, chunks2) \<Rightarrow> NodeMenu ParseFloat (set_ratio ParseFloat v cfg) buf2 chunks2)
             else if choice = 3 then
               (case ReadString buf1 chunks1 of (c, buf2, chunks2) \<Rightarrow>
                case ReadString buf2 chunks2 of (d, buf3, chunks3) \<Rightarrow>
                  NodeMenu ParseFloat (cfg\<lparr>nc_ControlIface := TrimSpace c, nc_DataIface := TrimSpace d\<rparr>) buf3 chunks3)
             else if choice = 4 then Some (cfg, chunks1)
             else NodeMenu ParseFloat cfg buf1 chunks1))"
  by pat_completeness auto
termination
  by (relation "measure (\<lambda>(pf, cfg, buf, chunks). input_left buf chunks)")
     (auto dest!: ReadString_read simp del: ReadString.simps)

declare NodeMenu.simps [simp del]

text \<open>What is left to read after the menu of a node is a part of what was left before.\<close>

lemma NodeMenu_reads: "NodeMenu pf cfg buf chunks = Some (cfg', rest) \<Longrightarrow> input_left [] rest \<le> input_left [] chunks"
proof (induction pf cfg buf chunks arbitrary: cfg' rest rule: NodeMenu.induct)
  case (1 pf cfg buf chunks)
  from "1.prems" have ne: "\<not> (buf = [] \<and> chunks = [])" by (auto simp: NodeMenu.simps)
  obtain input buf1 chunks1 where r1: "ReadString buf chunks = (input, buf1, chunks1)" by (metis prod_cases3)
  obtain v buf2 chunks2 where r2: "ReadString buf1 chunks1 = (v, buf2, chunks2)" by (metis prod_cases3)
  obtain d buf3 chunks3 where r3: "ReadString buf2 chunks2 = (d, buf3, chunks3)" by (metis prod_cases3)
  note IH = "1.IH" [OF ne r1 [symmetric] refl]
  note reads = ReadString_chunks [OF r1] ReadString_chunks [OF r2] ReadString_chunks [OF r3]
  show ?case
  proof (cases "menu_choice input")
    case None
    have "NodeMenu pf cfg buf1 chunks1 = Some (cfg', rest)" using "1.prems" ne r1 None by (simp add: NodeMenu.simps [of pf cfg buf])
    from IH(1) [OF None this] reads show ?thesis by simp
  next
    case (Some choice)
    note go = "1.prems" [unfolded NodeMenu.simps [of pf cfg buf chunks] r1 prod.case Some option.case if_not_P [OF ne]]
    consider "choice = 1" | "choice = 2" | "choice = 3" | "choice = 4" | "choice \<notin> {1, 2, 3, 4}" by blast
    then show ?thesis
    proof cases
      case 1
      with go r2 IH(2) [OF Some 1 r2 [symmetric] refl] reads show ?thesis by simp
    next
      case 2
      with go r2 IH(3) [OF Some _ 2 r2 [symmetric] refl] reads show ?thesis by simp
    next
      case 3
      with go r2 r3 IH(4) [OF Some _ _ 3 r2 [symmetric] refl r3 [symmetric] refl] reads show ?thesis by simp
    next
      case 4
      with go reads show ?thesis by simp
    next
      case 5
      with go IH(5) [OF Some] reads show ?thesis by simp
    qed
  qed
qed

text \<open>
  \<open>addRoceInterface\<close>: nothing is read unless \<open>lspci\<close> lists a device, and the nodes only after a valid
  choice. Three of the items of \<open>configureRoce\<close> print that they are still to be written.
\<close>

definition AddRoce :: "string option \<Rightarrow> rdma_device list \<Rightarrow> string list \<Rightarrow> rdma_device list \<times> string list" where
  "AddRoce lspci devices chunks =
     (case lspci of
        None \<Rightarrow> (devices, chunks)
      | Some output \<Rightarrow>
          if rdma_lines output = [] then (devices, chunks)
          else case ReadString [] chunks of (choice, buf1, chunks1) \<Rightarrow>
            (case addRoceInterface lspci choice [] of
               None \<Rightarrow> (devices, chunks1)
             | Some _ \<Rightarrow>
                 (case ReadString buf1 chunks1 of (nodes, buf2, chunks2) \<Rightarrow>
                    (case addRoceInterface lspci choice nodes of
                       None \<Rightarrow> (devices, chunks2)
                     | Some (pciAddr, device) \<Rightarrow> (devices @ [device], chunks2)))))"

lemma AddRoce_reads: "AddRoce lspci devices chunks = (devices', rest) \<Longrightarrow> input_left [] rest \<le> input_left [] chunks"
  by (auto simp: AddRoce_def simp del: ReadString.simps dest!: ReadString_chunks split: option.splits if_splits prod.splits)

function ConfigureRoce :: "string option \<Rightarrow> rdma_device list \<Rightarrow> string \<Rightarrow> string list \<Rightarrow> (rdma_device list \<times> string list) option" where
  "ConfigureRoce lspci devices buf chunks =
     (if buf = [] \<and> chunks = [] then None
      else case ReadString buf chunks of (input, buf1, chunks1) \<Rightarrow>
        if menu_choice input = Some 1 then
          (case AddRoce lspci devices chunks1 of (devices1, chunks2) \<Rightarrow> ConfigureRoce lspci devices1 buf1 chunks2)
        else if menu_choice input = Some 5 then Some (devices, chunks1)
        else ConfigureRoce lspci devices buf1 chunks1)"
  by pat_completeness auto

lemma input_left_mono: "input_left [] c1 \<le> input_left [] c2 \<Longrightarrow> input_left b c2 < n \<Longrightarrow> input_left b c1 < n"
  by (simp add: input_left_def)

termination ConfigureRoce
  by (relation "measure (\<lambda>(lspci, devices, buf, chunks). input_left buf chunks)")
     (auto dest!: ReadString_read AddRoce_reads [OF sym] simp del: ReadString.simps elim: input_left_mono)

declare ConfigureRoce.simps [simp del]

lemma ConfigureRoce_reads:
  "ConfigureRoce lspci devices buf chunks = Some (devices', rest) \<Longrightarrow> input_left [] rest \<le> input_left [] chunks"
proof (induction lspci devices buf chunks arbitrary: devices' rest rule: ConfigureRoce.induct)
  case (1 lspci devices buf chunks)
  from "1.prems" have ne: "\<not> (buf = [] \<and> chunks = [])" by (auto simp: ConfigureRoce.simps)
  obtain input buf1 chunks1 where r1: "ReadString buf chunks = (input, buf1, chunks1)" by (metis prod_cases3)
  obtain devices1 chunks2 where r2: "AddRoce lspci devices chunks1 = (devices1, chunks2)" by (metis surj_pair)
  note IH = "1.IH" [OF ne r1 [symmetric] refl]
  note reads = ReadString_chunks [OF r1] AddRoce_reads [OF r2]
  show ?case
    using "1.prems" ne r1 r2 IH(1) [OF _ r2 [symmetric]] IH(2) reads
    by (simp add: ConfigureRoce.simps [of lspci devices buf] split: if_splits)
qed

text \<open>
  \<open>mainMenu\<close>: the settings of the nodes (\<open>numaConfig\<close>), the devices of \<open>GlobalConfig\<close>, and what
  starting containers has done to the machine, which later starts find.
\<close>

record menu_env =
  me_ParseFloat :: "string \<Rightarrow> fval option"
  me_lspci :: "string option"
  me_machine :: "cli_action list \<Rightarrow> cli_env"

record menu_state =
  numaConfig :: "nat \<Rightarrow> node_config option"
  saved_devices :: "rdma_device list"
  menu_actions :: "cli_action list"

definition first_settings :: node_config where
  "first_settings = \<lparr>MemPercent = Fin 80, VmemRatio = fl binary64 (8 / 10), nc_ControlIface = ''eth0'', nc_DataIface = ''eth1''\<rparr>"

definition first_numaConfig :: "nat \<Rightarrow> node_config option" where
  "first_numaConfig = [0 \<mapsto> first_settings, 1 \<mapsto> first_settings]"

definition node_settings :: "menu_state \<Rightarrow> nat \<Rightarrow> node_config" where
  "node_settings st n =
     (case numaConfig st n of
        Some cfg \<Rightarrow> cfg
      | None \<Rightarrow> \<lparr>MemPercent = Fin 0, VmemRatio = Fin 0, nc_ControlIface = [], nc_DataIface = []\<rparr>)"

definition save_node :: "nat \<Rightarrow> node_config \<Rightarrow> menu_state \<Rightarrow> menu_state" where
  "save_node n cfg st = st\<lparr>numaConfig := (numaConfig st)(n \<mapsto> cfg)\<rparr>"

definition StartCmd_Run :: "menu_env \<Rightarrow> menu_state \<Rightarrow> menu_state" where
  "StartCmd_Run env st =
     st\<lparr>menu_actions := menu_actions st @
          snd (StartContainers (me_machine env (menu_actions st)) StartCmd_config
            (\<lambda>i. map_option (\<lambda>cfg. (nc_ControlIface cfg, nc_DataIface cfg)) (numaConfig st i)))\<rparr>"

function MainMenu :: "menu_env \<Rightarrow> menu_state \<Rightarrow> string \<Rightarrow> string list \<Rightarrow> (menu_state \<times> string list) option" where
  "MainMenu env st buf chunks =
     (if buf = [] \<and> chunks = [] then None
      else case ReadString buf chunks of (input, buf1, chunks1) \<Rightarrow>
        (case menu_choice input of
           None \<Rightarrow> MainMenu env st buf1 chunks1
         | Some choice \<Rightarrow>
             if choice = 1 \<or> choice = 2 then
               (case NodeMenu (me_ParseFloat env) (node_settings st (nat choice - 1)) [] chunks1 of
                  None \<Rightarrow> None
                | Some (cfg, chunks2) \<Rightarrow> MainMenu env (save_node (nat choice - 1) cfg st) buf1 chunks2)
             else if choice = 3 then MainMenu env (StartCmd_Run env st) buf1 chunks1
             else if choice = 4 then
               (case ConfigureRoce (me_lspci env) (saved_devices st) [] chunks1 of
                  None \<Rightarrow> None
                | Some (devices, chunks2) \<Rightarrow> MainMenu env (st\<lparr>saved_devices := devices\<rparr>) buf1 chunks2)
             else if choice = 5 then Some (st, chunks1)
             else MainMenu env st buf1 chunks1))"
  by pat_completeness auto
termination
  by (relation "measure (\<lambda>(env, st, buf, chunks). input_left buf chunks)")
     (auto dest!: ReadString_read NodeMenu_reads ConfigureRoce_reads simp del: ReadString.simps elim: input_left_mono)

declare MainMenu.simps [simp del]

subsection \<open>The text a menu of a node sees\<close>

text \<open>
  However the input is delivered, the settings a node's menu saves are those of its lines: the
  buffered menu agrees with \<open>configureNUMANode\<close>.
\<close>

fun text_lines :: "string \<Rightarrow> string list" where
  "text_lines [] = []"
| "text_lines (c # s) =
     (if c = newline then [newline] # text_lines s
      else case text_lines s of [] \<Rightarrow> [[c]] | l # ls \<Rightarrow> (c # l) # ls)"

lemma text_lines_partial: "newline \<notin> set s \<Longrightarrow> s \<noteq> [] \<Longrightarrow> text_lines s = [s]"
proof (induction s)
  case (Cons c s)
  then show ?case by (cases "s = []") auto
qed simp

lemma text_lines_cut:
  "newline \<in> set s \<Longrightarrow>
     text_lines (s @ t) = (takeWhile (\<lambda>c. c \<noteq> newline) s @ [newline]) # text_lines (tl (dropWhile (\<lambda>c. c \<noteq> newline) s) @ t)"
  by (induction s) auto

lemma ReadString_text:
  "ReadString buf chunks = (line, buf', chunks') \<Longrightarrow>
     (if buf @ concat chunks = [] then line = [] \<and> buf' @ concat chunks' = []
      else text_lines (buf @ concat chunks) = line # text_lines (buf' @ concat chunks'))"
proof (induction buf chunks rule: ReadString.induct)
  case (1 buf)
  then show ?case
    using text_lines_cut [of buf "[]"] by (auto simp: text_lines_partial split: if_splits)
next
  case (2 buf c cs)
  show ?case
  proof (cases "newline \<in> set buf")
    case True
    with 2 text_lines_cut [OF True, of "c @ concat cs"] show ?thesis by auto
  next
    case False
    with 2 show ?thesis by (auto split: if_splits)
  qed
qed

fun line_of :: "string list \<Rightarrow> string \<times> string list" where
  "line_of [] = ([], [])"
| "line_of (l # ls) = (l, ls)"

lemma ReadString_line_of:
  "ReadString buf chunks = (line, buf', chunks') \<Longrightarrow>
     line_of (text_lines (buf @ concat chunks)) = (line, text_lines (buf' @ concat chunks'))"
  using ReadString_text [of buf chunks line buf' chunks'] by (metis line_of.simps text_lines.simps(1))

lemma menu_choice_None: "menu_choice line = None \<longleftrightarrow> (\<exists>choice e. Atoi (TrimSpace line) = (choice, Some e))"
  by (auto simp: menu_choice_def split: prod.splits option.splits)

lemma menu_choice_Some: "menu_choice line = Some choice \<longleftrightarrow> Atoi (TrimSpace line) = (choice, None)"
  by (auto simp: menu_choice_def split: prod.splits option.splits)

lemma menu_choice_Nil [simp]: "menu_choice [] = None"
  by (simp add: menu_choice_def TrimSpace_def Atoi_def ParseUint_def)

text \<open>The menu of a node over lines in the shape of the buffered one: past the end every line is empty.\<close>

lemma configure_unfold:
  "configureNUMANode pf cfg ls =
     (case line_of ls of (input, r1) \<Rightarrow>
        (case menu_choice input of
           None \<Rightarrow> configureNUMANode pf cfg r1
         | Some choice \<Rightarrow>
             if choice = 1 then (case line_of r1 of (v, r2) \<Rightarrow> configureNUMANode pf (set_percent pf v cfg) r2)
             else if choice = 2 then (case line_of r1 of (v, r2) \<Rightarrow> configureNUMANode pf (set_ratio pf v cfg) r2)
             else if choice = 3 then
               (case line_of r1 of (c, r2) \<Rightarrow> case line_of r2 of (d, r3) \<Rightarrow>
                  configureNUMANode pf (cfg\<lparr>nc_ControlIface := TrimSpace c, nc_DataIface := TrimSpace d\<rparr>) r3)
             else if choice = 4 then Some (cfg, r1)
             else configureNUMANode pf cfg r1))"
proof (cases ls)
  case (Cons input r1)
  show ?thesis
  proof (cases "menu_choice input")
    case None
    then obtain choice e where "Atoi (TrimSpace input) = (choice, Some e)" by (auto simp: menu_choice_None)
    with None show ?thesis by (simp add: Cons)
  next
    case (Some choice)
    then have "Atoi (TrimSpace input) = (choice, None)" by (simp add: menu_choice_Some)
    with Some show ?thesis by (cases r1; cases "tl r1") (simp_all add: Cons)
  qed
qed simp

lemma NodeMenu_text:
  "map_option fst (NodeMenu pf cfg buf chunks) = map_option fst (configureNUMANode pf cfg (text_lines (buf @ concat chunks)))"
proof (induction pf cfg buf chunks rule: NodeMenu.induct)
  case (1 pf cfg buf chunks)
  show ?case
  proof (cases "buf = [] \<and> chunks = []")
    case ne: False
    obtain input buf1 chunks1 where r1: "ReadString buf chunks = (input, buf1, chunks1)" by (metis prod_cases3)
    obtain v buf2 chunks2 where r2: "ReadString buf1 chunks1 = (v, buf2, chunks2)" by (metis prod_cases3)
    obtain d buf3 chunks3 where r3: "ReadString buf2 chunks2 = (d, buf3, chunks3)" by (metis prod_cases3)
    note IH = "1.IH" [OF ne r1 [symmetric] refl]
    note step = NodeMenu.simps [of pf cfg buf chunks] configure_unfold [of pf cfg "text_lines (buf @ concat chunks)"]
      if_not_P [OF ne] r1 r2 r3 r1 [THEN ReadString_line_of] r2 [THEN ReadString_line_of] r3 [THEN ReadString_line_of] prod.case
    show ?thesis
    proof (cases "menu_choice input")
      case None
      show ?thesis unfolding step None using IH(1) [OF None] by simp
    next
      case (Some choice)
      consider "choice = 1" | "choice = 2" | "choice = 3" | "choice = 4" | "choice \<notin> {1, 2, 3, 4}" by blast
      then show ?thesis
        unfolding step Some option.case
        using IH(2) [OF Some _ r2 [symmetric] refl] IH(3) [OF Some _ _ r2 [symmetric] refl]
          IH(4) [OF Some _ _ _ r2 [symmetric] refl r3 [symmetric] refl] IH(5) [OF Some]
        by cases simp_all
    qed
  qed (simp add: NodeMenu.simps)
qed

subsection \<open>On a terminal\<close>

text \<open>
  What the menus are written for: one reader that all of them share, so that each goes on with the
  line after the last one read.
\<close>

definition roce_device_lines :: "string option \<Rightarrow> rdma_device list \<Rightarrow> string list \<Rightarrow> rdma_device list \<times> string list" where
  "roce_device_lines lspci devices ls =
     (case lspci of
        None \<Rightarrow> (devices, ls)
      | Some output \<Rightarrow>
          if rdma_lines output = [] then (devices, ls)
          else case line_of ls of (choice, r1) \<Rightarrow>
            (case addRoceInterface lspci choice [] of
               None \<Rightarrow> (devices, r1)
             | Some _ \<Rightarrow>
                 (case line_of r1 of (nodes, r2) \<Rightarrow>
                    (case addRoceInterface lspci choice nodes of
                       None \<Rightarrow> (devices, r2)
                     | Some (pciAddr, device) \<Rightarrow> (devices @ [device], r2)))))"

lemma line_of_rest: "line_of ls = (l, r) \<Longrightarrow> length r \<le> length ls \<and> set r \<subseteq> set ls"
  by (cases ls) auto

lemma roce_device_rest:
  "roce_device_lines lspci devices ls = (devices', r) \<Longrightarrow> length r \<le> length ls \<and> set r \<subseteq> set ls"
  by (auto simp: roce_device_lines_def dest!: line_of_rest split: option.splits if_splits prod.splits)

function roce_lines :: "string option \<Rightarrow> rdma_device list \<Rightarrow> string list \<Rightarrow> (rdma_device list \<times> string list) option" where
  "roce_lines lspci devices [] = None"
| "roce_lines lspci devices (input # ls) =
     (if menu_choice input = Some 1 then
        (case roce_device_lines lspci devices ls of (devices1, r) \<Rightarrow> roce_lines lspci devices1 r)
      else if menu_choice input = Some 5 then Some (devices, ls)
      else roce_lines lspci devices ls)"
  by pat_completeness auto
termination
  by (relation "measure (\<lambda>(lspci, devices, ls). length ls)") (auto dest!: roce_device_rest split: prod.splits)

lemma roce_lines_rest: "roce_lines lspci devices ls = Some (devices', r) \<Longrightarrow> length r \<le> length ls \<and> set r \<subseteq> set ls"
  by (induction lspci devices ls rule: roce_lines.induct)
     (fastforce dest: roce_device_rest split: if_splits prod.splits)+

lemma configure_rest: "configureNUMANode pf cfg ls = Some (cfg', r) \<Longrightarrow> length r \<le> length ls \<and> set r \<subseteq> set ls"
proof (induction "length ls" arbitrary: cfg ls rule: less_induct)
  case less
  show ?case
  proof (cases ls)
    case (Cons input rest)
    show ?thesis
    proof (cases "Atoi (TrimSpace input) = (4, None)")
      case False
      with less.prems obtain c r1 where item: "menu_item pf (Atoi (TrimSpace input)) rest cfg = Some (c, r1)"
        and go: "configureNUMANode pf c r1 = Some (cfg', r)"
        unfolding Cons menu_step by (auto split: option.splits)
      note m = menu_item_shorter [OF item] menu_item_lines [OF item]
      with less.hyps [OF _ go] Cons show ?thesis by auto
    qed (use less.prems Cons in \<open>auto simp: menu_step simp del: configureNUMANode.simps\<close>)
  qed (use less.prems in simp)
qed

function main_lines :: "menu_env \<Rightarrow> menu_state \<Rightarrow> string list \<Rightarrow> (menu_state \<times> string list) option" where
  "main_lines env st [] = None"
| "main_lines env st (input # ls) =
     (case menu_choice input of
        None \<Rightarrow> main_lines env st ls
      | Some choice \<Rightarrow>
          if choice = 1 \<or> choice = 2 then
            (case configureNUMANode (me_ParseFloat env) (node_settings st (nat choice - 1)) ls of
               None \<Rightarrow> None
             | Some (cfg, r) \<Rightarrow> main_lines env (save_node (nat choice - 1) cfg st) r)
          else if choice = 3 then main_lines env (StartCmd_Run env st) ls
          else if choice = 4 then
            (case roce_lines (me_lspci env) (saved_devices st) ls of
               None \<Rightarrow> None
             | Some (devices, r) \<Rightarrow> main_lines env (st\<lparr>saved_devices := devices\<rparr>) r)
          else if choice = 5 then Some (st, ls)
          else main_lines env st ls)"
  by pat_completeness auto
termination
  by (relation "measure (\<lambda>(env, st, ls). length ls)") (auto dest: configure_rest roce_lines_rest)

text \<open>A terminal delivers one line with each read.\<close>

definition is_line :: "string \<Rightarrow> bool" where
  "is_line l \<longleftrightarrow> l \<noteq> [] \<and> last l = newline \<and> newline \<notin> set (butlast l)"

lemma is_lineE: "is_line l \<Longrightarrow> (\<And>b. l = b @ [newline] \<Longrightarrow> newline \<notin> set b \<Longrightarrow> P) \<Longrightarrow> P"
  unfolding is_line_def by (metis append_butlast_last_id)

lemma ReadString_line: "is_line l \<Longrightarrow> ReadString [] (l # ls) = (l, [], ls)"
proof (elim is_lineE)
  fix b assume "l = b @ [newline]" "newline \<notin> set b"
  moreover from this have "\<forall>c \<in> set b. c \<noteq> newline" by auto
  ultimately have "takeWhile (\<lambda>c. c \<noteq> newline) l = b" "dropWhile (\<lambda>c. c \<noteq> newline) l = [newline]" "newline \<in> set l"
    by simp_all
  then show ?thesis by (cases ls) (simp_all add: \<open>l = b @ [newline]\<close>)
qed

lemma ReadString_terminal: "list_all is_line ls \<Longrightarrow> ReadString [] ls = (fst (line_of ls), [], snd (line_of ls))"
  by (cases ls) (simp_all add: ReadString_line del: ReadString.simps(2))

lemma terminal_rest: "list_all is_line ls \<Longrightarrow> set r \<subseteq> set ls \<Longrightarrow> list_all is_line r"
  by (auto simp: list_all_iff)

declare ReadString.simps [simp del]

lemma terminal_lines:
  assumes "list_all is_line ls" obtains l r where "ReadString [] ls = (l, [], r)" "line_of ls = (l, r)" "list_all is_line r"
  using assms ReadString_terminal [OF assms] by (cases ls) (simp_all)

lemma NodeMenu_terminal: "list_all is_line ls \<Longrightarrow> NodeMenu pf cfg [] ls = configureNUMANode pf cfg ls"
proof (induction "length ls" arbitrary: cfg ls rule: less_induct)
  case less
  show ?case
  proof (cases ls)
    case (Cons input rest)
    from less.prems have rest: "list_all is_line rest" and r1: "ReadString [] ls = (input, [], rest)"
      by (simp_all add: Cons ReadString_line)
    obtain v r2 where r2: "ReadString [] rest = (v, [], r2)" "line_of rest = (v, r2)" "list_all is_line r2"
      using rest by (rule terminal_lines)
    obtain d r3 where r3: "ReadString [] r2 = (d, [], r3)" "line_of r2 = (d, r3)" "list_all is_line r3"
      using r2(3) by (rule terminal_lines)
    have len: "length rest < length ls" "length r2 < length ls" "length r3 < length ls"
      using line_of_rest [OF r2(2)] line_of_rest [OF r3(2)] Cons by simp_all
    show ?thesis
      unfolding NodeMenu.simps [of pf cfg "[]" ls] configure_unfold [of pf cfg ls] r1 r2(1) r3(1)
      by (simp add: Cons r2(1,2) r3(1,2) less.hyps [OF len(1) rest] less.hyps [OF len(2) r2(3)] less.hyps [OF len(3) r3(3)]
          split: option.split)
  qed (simp add: NodeMenu.simps)
qed

lemma AddRoce_terminal:
  assumes "list_all is_line ls"
  shows "AddRoce lspci devices ls = roce_device_lines lspci devices ls"
proof -
  obtain choice r1 where r1: "ReadString [] ls = (choice, [], r1)" "line_of ls = (choice, r1)" "list_all is_line r1"
    using assms by (rule terminal_lines)
  obtain nodes r2 where r2: "ReadString [] r1 = (nodes, [], r2)" "line_of r1 = (nodes, r2)"
    using r1(3) by (rule terminal_lines)
  show ?thesis
    by (cases lspci; cases "addRoceInterface lspci choice []") (simp_all add: AddRoce_def roce_device_lines_def r1 r2)
qed

lemma ConfigureRoce_terminal: "list_all is_line ls \<Longrightarrow> ConfigureRoce lspci devices [] ls = roce_lines lspci devices ls"
proof (induction lspci devices ls rule: roce_lines.induct)
  case (2 lspci devices input ls)
  then have "list_all is_line ls" "ReadString [] (input # ls) = (input, [], ls)"
    by (simp_all add: ReadString_line)
  moreover obtain devices1 r where d: "roce_device_lines lspci devices ls = (devices1, r)" by (metis surj_pair)
  moreover have "list_all is_line r" using \<open>list_all is_line ls\<close> roce_device_rest [OF d] by (blast intro: terminal_rest)
  ultimately show ?case
    using 2 by (simp add: ConfigureRoce.simps [of lspci devices "[]" "input # ls"] AddRoce_terminal)
qed (simp add: ConfigureRoce.simps)

text \<open>
  C28. On a terminal, where each read delivers one line, the menus of \<open>configure.go\<close> with a reader
  each behave as menus that share one reader: the same settings, devices and actions, the same lines
  left over, and the same inputs on which they never return.
\<close>

theorem terminal_menus_share_input:
  assumes "list_all is_line ls"
  shows "MainMenu env st [] ls = main_lines env st ls"
  using assms
proof (induction env st ls rule: main_lines.induct)
  case (2 env st input ls)
  from "2.prems" have ls: "list_all is_line ls" and r1: "ReadString [] (input # ls) = (input, [], ls)"
    by (simp_all add: ReadString_line)
  note step = MainMenu.simps [of env st "[]" "input # ls"] r1
  show ?case
  proof (cases "menu_choice input")
    case (Some choice)
    note step = step Some
    consider "choice = 1 \<or> choice = 2" | "choice = 4" | "choice \<notin> {1, 2, 4}" by blast
    then show ?thesis
    proof cases
      case 1
      let ?n = "configureNUMANode (me_ParseFloat env) (node_settings st (nat choice - 1)) ls"
      show ?thesis
      proof (cases ?n)
        case (Some p)
        obtain cfg r where "p = (cfg, r)" by (cases p)
        with 1 Some "2.IH"(2) terminal_rest [OF ls] configure_rest show ?thesis
          by (simp add: step NodeMenu_terminal [OF ls] \<open>menu_choice input = Some choice\<close>)
      qed (use 1 in \<open>simp add: step NodeMenu_terminal [OF ls]\<close>)
    next
      case 2
      show ?thesis
      proof (cases "roce_lines (me_lspci env) (saved_devices st) ls")
        case (Some p)
        obtain devices r where "p = (devices, r)" by (cases p)
        with 2 Some "2.IH"(4) terminal_rest [OF ls] roce_lines_rest show ?thesis
          by (simp add: step ConfigureRoce_terminal [OF ls] \<open>menu_choice input = Some choice\<close>)
      qed (use 2 in \<open>simp add: step ConfigureRoce_terminal [OF ls]\<close>)
    next
      case 3
      with "2.IH"(3,5) ls Some show ?thesis by (simp add: step)
    qed
  qed (use "2.IH"(1) ls in \<open>simp add: step\<close>)
qed (simp add: MainMenu.simps)

subsection \<open>Through a pipe\<close>

lemma NodeMenu_ended: "NodeMenu pf cfg [] [] = None"
  by (simp add: NodeMenu.simps)

lemma ConfigureRoce_ended: "ConfigureRoce lspci devices [] [] = None"
  by (simp add: ConfigureRoce.simps)

lemma ReadString_ended: "ReadString buf [] = (line, buf', chunks') \<Longrightarrow> chunks' = []"
  by (simp add: ReadString.simps split: if_splits)

text \<open>
  Input that arrives in one read can set nothing: the first reader takes it all, an inner menu finds
  the end and never returns. A menu that does return has changed no setting and saved no device.
\<close>

lemma piped_menu_sets_nothing_aux:
  "MainMenu env st buf chunks = Some (st', rest) \<Longrightarrow> chunks = [] \<Longrightarrow>
     numaConfig st' = numaConfig st \<and> saved_devices st' = saved_devices st"
proof (induction env st buf chunks arbitrary: st' rest rule: MainMenu.induct)
  case (1 env st buf chunks)
  from "1.prems" have ne: "\<not> (buf = [] \<and> chunks = [])" by (auto simp: MainMenu.simps)
  obtain input buf1 where r1: "ReadString buf chunks = (input, buf1, [])"
    using "1.prems"(2) by (metis ReadString_ended prod_cases3)
  note step = "1.prems"(1) [unfolded MainMenu.simps [of env st buf chunks] if_not_P [OF ne] r1 prod.case NodeMenu_ended ConfigureRoce_ended]
  note IH = "1.IH" [OF ne r1 [symmetric] refl]
  show ?case
  proof (cases "menu_choice input")
    case None
    with step IH(1) show ?thesis by simp
  next
    case (Some choice)
    consider "choice = 3" | "choice = 5" | "choice \<notin> {1, 2, 3, 4, 5}"
      using step Some by fastforce
    then show ?thesis
    proof cases
      case 1
      with step IH(3) [OF Some] Some show ?thesis by (simp add: StartCmd_Run_def)
    next
      case 2
      with step Some show ?thesis by simp
    next
      case 3
      with step IH(5) [OF Some] Some show ?thesis by simp
    qed
  qed
qed

theorem piped_menu_sets_nothing:
  "MainMenu env st buf [] = Some (st', rest) \<Longrightarrow>
     numaConfig st' = numaConfig st \<and> saved_devices st' = saved_devices st"
  by (rule piped_menu_sets_nothing_aux) simp_all

theorem one_block_never_returns:
  assumes "newline \<in> set text" "menu_choice (takeWhile (\<lambda>c. c \<noteq> newline) text @ [newline]) \<in> {Some 1, Some 2, Some 4}"
  shows "MainMenu env st [] [text] = None"
proof -
  have "ReadString [] [text] = (takeWhile (\<lambda>c. c \<noteq> newline) text @ [newline], tl (dropWhile (\<lambda>c. c \<noteq> newline) text), [])"
    using assms(1) by (simp add: ReadString.simps)
  then show ?thesis
    using assms(2) by (auto simp: MainMenu.simps [of env st "[]" "[text]"] NodeMenu_ended ConfigureRoce_ended)
qed

subsection \<open>The commands\<close>

text \<open>
  The rows of the table of \<open>health\<close>, and its exit when a device is degraded; what \<open>discover\<close> reports
  of each node that \<open>DetectNodes\<close> finds (its place in the list, not its number); the memory file that
  \<open>init\<close> writes with two digits.
\<close>

definition health_rows :: "oc_binding list \<Rightarrow> string list list" where
  "health_rows devices = map (\<lambda>dev. [oc_path dev, oc_type dev, oc_source dev, Itoa (oc_numa dev), oc_health dev]) devices"

definition hasDegraded :: "oc_binding list \<Rightarrow> bool" where
  "hasDegraded devices \<longleftrightarrow> list_ex (\<lambda>dev. oc_health dev = ''degraded'') devices"

definition HealthCmd :: "file_system \<Rightarrow> string list list \<times> int option" where
  "HealthCmd fs =
     (let devices = DiscoverOpenCapiDevices fs
      in (health_rows devices, if hasDegraded devices then Some 1 else None))"

record detected_node =
  CPUCores :: int
  dn_GPUs :: "string list"
  NetworkDevices :: "string list"
  dn_RDMADevices :: "string list"

definition go_list :: "string list \<Rightarrow> string" where
  "go_list xs = ''['' @ join_with '' '' xs @ '']''"

record node_report =
  nr_index :: nat
  nr_cores :: int
  nr_gpus :: nat
  nr_nics :: nat
  nr_texts :: "string list"

definition DiscoverCmd :: "detected_node list option \<Rightarrow> node_report list option" where
  "DiscoverCmd detected =
     map_option (\<lambda>nodes. map (\<lambda>(i, node).
       \<lparr>nr_index = i, nr_cores = CPUCores node, nr_gpus = length (dn_GPUs node), nr_nics = length (NetworkDevices node),
        nr_texts = [go_list (dn_GPUs node), go_list (NetworkDevices node)] @
          (if dn_RDMADevices node = [] then [] else [go_list (dn_RDMADevices node)])\<rparr>) (enumerate 0 nodes)) detected"

text \<open>The format \<open>%.2f\<close> of a number that is not negative: the nearest hundredth, ties to an even one.\<close>

definition hundredths :: "rat \<Rightarrow> int" where
  "hundredths q =
     (let n = \<lfloor>q * 100\<rfloor>; r = q * 100 - of_int n
      in if r < 1 / 2 \<or> (r = 1 / 2 \<and> even n) then n else n + 1)"

definition format_2f :: "fval \<Rightarrow> string" where
  "format_2f x =
     (case x of
        Fin q \<Rightarrow> (let n = nat (hundredths q)
                  in digits_of (n div 100) @ ''.'' @ (if n mod 100 < 10 then ''0'' else []) @ digits_of (n mod 100))
      | NaN \<Rightarrow> ''NaN'' | _ \<Rightarrow> ''+Inf'')"

definition mem_gb_file :: "numa_map \<Rightarrow> int \<Rightarrow> string option" where
  "mem_gb_file m n = map_option format_2f (mem_gb m n)"

lemma digits_of_0: "digits_of 0 = ''0''"
  by code_simp

lemma mem_gb_file_zero: "map_option Memory (m n) = Some 0 \<Longrightarrow> mem_gb_file m n = Some ''0.00''"
  by (auto simp: mem_gb_file_def mem_gb_def fdiv_def of_u64_def fl_fixed format_2f_def hundredths_def digits_of_0)

text \<open>The default configuration (\<open>config/types.go\<close>), with the fields nothing else reads.\<close>

record full_config = cli_config +
  MemExtSizeMB :: int
  MemExtRatio :: fval
  EnableHugePages :: bool
  EnableNetBalance :: bool
  NumNUMA :: int
  CurrentNUMAIndex :: int
  NUMANICMap :: "string \<Rightarrow> string option"
  MacvlanMode :: string
  NumaId :: int
  default_MemPercent :: fval
  default_VmemRatio :: fval

definition DefaultCLIConfig :: full_config where
  "DefaultCLIConfig =
     \<lparr>CapnpBasePort = 50051, ZmqBasePort = 5555, ImageName = ''aitherion-cli-server'', Tag = ''latest'', DryRun = False,
      ControlIface = ''eth0'', DataIface = ''eth1'', EnableMacvlan = False, DisableNUMABinding = False, EnableMemExt = False,
      RDMADevices = [], MemExtSizeMB = 0, MemExtRatio = fl binary64 (9 / 10), EnableHugePages = True,
      EnableNetBalance = False, NumNUMA = 0, CurrentNUMAIndex = 0, NUMANICMap = (\<lambda>_. None), MacvlanMode = ''bridge'',
      NumaId = 0, default_MemPercent = Fin 80, default_VmemRatio = fl binary64 (9 / 10)\<rparr>"

subsection \<open>The process and its receiver\<close>

text \<open>
  What \<open>main.go\<close> does around a command. The command runs in a goroutine, and \<open>main\<close> waits for a
  signal. \<open>ExecuteContext\<close> reads the command line and gives the context to the root command; only a
  command that runs has the hooks \<open>PersistentPreRun\<close> and \<open>PersistentPostRun\<close>, and both get that
  command, not the root. A context is whether it holds the receiver's process; the root has none
  before \<open>ExecuteContext\<close>.
\<close>

datatype cli_command = InitCmd | CleanCmd | HealthCommand | DiscoverCommand | ConfigureCmd | StartCommand | ContainerStartCmd

datatype cli_parsed = Runs cli_command | ShowsHelp | UsageError

datatype run_end = RunReturns | RunExits int | RunNeverEnds

record cli_world =
  w_parsed :: cli_parsed
  w_files :: file_system
  w_menu :: menu_env
  w_stdin :: "string list"
  w_container :: run_end

definition first_state :: menu_state where
  "first_state = \<lparr>numaConfig = first_numaConfig, saved_devices = RDMADevices DefaultCLIConfig, menu_actions = []\<rparr>"

fun run_outcome :: "cli_world \<Rightarrow> cli_command \<Rightarrow> run_end" where
  "run_outcome w HealthCommand = (case snd (HealthCmd (w_files w)) of None \<Rightarrow> RunReturns | Some code \<Rightarrow> RunExits code)"
| "run_outcome w ConfigureCmd = (if MainMenu (w_menu w) first_state [] (w_stdin w) = None then RunNeverEnds else RunReturns)"
| "run_outcome w ContainerStartCmd = w_container w"
| "run_outcome w _ = RunReturns"

datatype cli_stage = NotExecuted | Hooking cli_command | Running cli_command | Leaving | CommandDone

datatype receiver_state = NoReceiver | ReceiverRuns | ReceiverEnded | ReceiverKilled

record cli_proc =
  stage :: cli_stage
  receiver :: receiver_state
  root_ctx :: "bool option"
  cmd_ctx :: bool
  signalled :: bool
  exit_code :: "int option"

definition cli_started :: cli_proc where
  "cli_started = \<lparr>stage = NotExecuted, receiver = NoReceiver, root_ctx = None, cmd_ctx = False, signalled = False, exit_code = None\<rparr>"

definition killed :: "bool \<Rightarrow> cli_proc \<Rightarrow> cli_proc" where
  "killed kill_ok p = (if kill_ok \<and> receiver p = ReceiverRuns then p\<lparr>receiver := ReceiverKilled\<rparr> else p)"

inductive cli_step :: "cli_world \<Rightarrow> cli_proc \<Rightarrow> cli_proc \<Rightarrow> bool" for w where
  ExecuteContext_runs: "\<lbrakk>exit_code p = None; stage p = NotExecuted; w_parsed w = Runs c\<rbrakk> \<Longrightarrow>
    cli_step w p (p\<lparr>root_ctx := Some False, stage := Hooking c\<rparr>)"
| ExecuteContext_help: "\<lbrakk>exit_code p = None; stage p = NotExecuted; w_parsed w = ShowsHelp\<rbrakk> \<Longrightarrow>
    cli_step w p (p\<lparr>root_ctx := Some False, stage := CommandDone\<rparr>)"
| ExecuteContext_fails: "\<lbrakk>exit_code p = None; stage p = NotExecuted; w_parsed w = UsageError\<rbrakk> \<Longrightarrow>
    cli_step w p (p\<lparr>root_ctx := Some False, exit_code := Some 1\<rparr>)"
| PersistentPreRun_starts: "\<lbrakk>exit_code p = None; stage p = Hooking c\<rbrakk> \<Longrightarrow>
    cli_step w p (p\<lparr>receiver := ReceiverRuns, cmd_ctx := True, stage := Running c\<rparr>)"
| PersistentPreRun_fails: "\<lbrakk>exit_code p = None; stage p = Hooking c\<rbrakk> \<Longrightarrow> cli_step w p (p\<lparr>exit_code := Some 1\<rparr>)"
| Run_returns: "\<lbrakk>exit_code p = None; stage p = Running c; run_outcome w c = RunReturns\<rbrakk> \<Longrightarrow> cli_step w p (p\<lparr>stage := Leaving\<rparr>)"
| Run_exits: "\<lbrakk>exit_code p = None; stage p = Running c; run_outcome w c = RunExits code\<rbrakk> \<Longrightarrow> cli_step w p (p\<lparr>exit_code := Some code\<rparr>)"
| PersistentPostRun: "\<lbrakk>exit_code p = None; stage p = Leaving\<rbrakk> \<Longrightarrow>
    cli_step w p ((if cmd_ctx p then killed kill_ok p else p)\<lparr>stage := CommandDone\<rparr>)"
| Signal: "\<lbrakk>exit_code p = None; \<not> signalled p\<rbrakk> \<Longrightarrow> cli_step w p (p\<lparr>signalled := True\<rparr>)"
| Main_cleans: "\<lbrakk>exit_code p = None; signalled p; root_ctx p = Some has_process\<rbrakk> \<Longrightarrow>
    cli_step w p ((if has_process then killed kill_ok p else p)\<lparr>exit_code := Some 0\<rparr>)"
| Main_panics: "\<lbrakk>exit_code p = None; signalled p; root_ctx p = None\<rbrakk> \<Longrightarrow> cli_step w p (p\<lparr>exit_code := Some 2\<rparr>)"
| Receiver_ends: "receiver p = ReceiverRuns \<Longrightarrow> cli_step w p (p\<lparr>receiver := ReceiverEnded\<rparr>)"

abbreviation cli_reaches :: "cli_world \<Rightarrow> cli_proc \<Rightarrow> bool" where
  "cli_reaches w p \<equiv> (cli_step w)\<^sup>*\<^sup>* cli_started p"

inductive_cases cli_stepE: "cli_step w p p'"

lemma killed_simps [simp]:
  "stage (killed k p) = stage p" "root_ctx (killed k p) = root_ctx p" "cmd_ctx (killed k p) = cmd_ctx p"
  "signalled (killed k p) = signalled p" "exit_code (killed k p) = exit_code p"
  by (simp_all add: killed_def)

lemma receiver_killed [simp]:
  "receiver (killed k p) = ReceiverKilled \<longleftrightarrow> receiver p = ReceiverKilled \<or> k \<and> receiver p = ReceiverRuns"
  "receiver (killed k p) = NoReceiver \<longleftrightarrow> receiver p = NoReceiver"
  by (auto simp: killed_def)

text \<open>
  What every state of the process satisfies: the root's context never holds the receiver, the
  receiver is killed only after a command has returned, and the process ends with 0 only by a signal.
\<close>

definition cli_ok :: "cli_world \<Rightarrow> cli_proc \<Rightarrow> bool" where
  "cli_ok w p \<longleftrightarrow>
     root_ctx p \<noteq> Some True \<and> (root_ctx p = None \<longrightarrow> stage p = NotExecuted) \<and>
     (receiver p = ReceiverKilled \<longrightarrow> stage p = CommandDone) \<and>
     (cmd_ctx p \<longleftrightarrow> receiver p \<noteq> NoReceiver) \<and>
     (receiver p \<noteq> NoReceiver \<longrightarrow> (\<exists>c. w_parsed w = Runs c \<and>
        (stage p = Running c \<or> run_outcome w c = RunReturns \<and> stage p \<in> {Leaving, CommandDone}))) \<and>
     (\<forall>c. stage p = Hooking c \<or> stage p = Running c \<longrightarrow> w_parsed w = Runs c) \<and>
     (\<forall>c. stage p = Running c \<or> stage p = Leaving \<longrightarrow> receiver p \<noteq> NoReceiver) \<and>
     (stage p = CommandDone \<longrightarrow> w_parsed w = ShowsHelp \<or> receiver p \<noteq> NoReceiver) \<and>
     (exit_code p = Some 0 \<longrightarrow> signalled p \<or> (\<exists>c. w_parsed w = Runs c \<and> run_outcome w c = RunExits 0))"

lemma cli_ok_started: "cli_ok w cli_started"
  by (simp add: cli_ok_def cli_started_def)

lemma cli_step_ok: "cli_step w p p' \<Longrightarrow> cli_ok w p \<Longrightarrow> cli_ok w p'"
  by (induction rule: cli_step.induct) (auto simp: cli_ok_def)

lemma cli_reaches_ok: "cli_reaches w p \<Longrightarrow> cli_ok w p"
  by (induction rule: rtranclp_induct) (auto intro: cli_ok_started cli_step_ok)

text \<open>
  C39. The receiver is killed by the hook alone: in every reachable state of the process, however
  signals, the goroutine and the receiver's own end interleave, a killed receiver means that a
  command ran, returned and left its hook, so that neither a signal nor an exit of the command
  kills it; and a process that has ended with code 0, other than by the container command's own
  exit, was signalled, since \<open>main\<close> waits for a signal after a command that succeeded.
\<close>

theorem receiver_killed_after_return:
  assumes "cli_reaches w p"
  shows "(receiver p = ReceiverKilled \<longrightarrow> stage p = CommandDone \<and> (\<exists>c. w_parsed w = Runs c \<and> run_outcome w c = RunReturns)) \<and>
    (exit_code p = Some 0 \<and> w_parsed w \<noteq> Runs ContainerStartCmd \<longrightarrow> signalled p)"
proof -
  have "run_outcome w c \<noteq> RunExits 0" if "c \<noteq> ContainerStartCmd" for c
    using that by (cases c) (auto simp: HealthCmd_def Let_def)
  then show ?thesis using cli_reaches_ok [OF assms] by (auto simp: cli_ok_def)
qed

lemma discover_kills_its_receiver:
  assumes "w_parsed w = Runs DiscoverCommand"
  shows "\<exists>p. cli_reaches w p \<and> receiver p = ReceiverKilled \<and> exit_code p = Some 0"
proof -
  define p1 where "p1 = cli_started\<lparr>root_ctx := Some False, stage := Hooking DiscoverCommand\<rparr>"
  define p2 where "p2 = p1\<lparr>receiver := ReceiverRuns, cmd_ctx := True, stage := Running DiscoverCommand\<rparr>"
  define p3 where "p3 = p2\<lparr>stage := Leaving\<rparr>"
  define p4 where "p4 = (if cmd_ctx p3 then killed True p3 else p3)\<lparr>stage := CommandDone\<rparr>"
  define p5 where "p5 = p4\<lparr>signalled := True\<rparr>"
  define p6 where "p6 = (if False then killed True p5 else p5)\<lparr>exit_code := Some 0\<rparr>"
  note defs = cli_started_def p1_def p2_def p3_def p4_def p5_def p6_def
  note on = rtranclp.rtrancl_into_rtrancl [where r = "cli_step w"]
  have s1: "cli_step w cli_started p1"
    unfolding p1_def by (rule ExecuteContext_runs) (simp_all add: assms cli_started_def)
  have s2: "cli_step w p1 p2" unfolding p2_def by (rule PersistentPreRun_starts) (simp_all add: defs)
  have s3: "cli_step w p2 p3" unfolding p3_def by (rule Run_returns [where c = DiscoverCommand]) (simp_all add: defs)
  have s4: "cli_step w p3 p4" unfolding p4_def by (rule PersistentPostRun) (simp_all add: defs)
  have s5: "cli_step w p4 p5" unfolding p5_def by (rule Signal) (simp_all add: defs)
  have "cli_step w p5 p6" unfolding p6_def by (rule Main_cleans) (simp_all add: defs)
  from on [OF on [OF on [OF on [OF on [OF on [OF rtranclp.rtrancl_refl s1] s2] s3] s4] s5] this]
  have "cli_reaches w p6" .
  then show ?thesis by (intro exI [of _ p6] conjI) (simp_all add: defs)
qed

definition no_files :: cli_env where
  "no_files = \<lparr>numa_files = Some [], cli_file = (\<lambda>_. None), cuda_lib = [], nvidia_smi = [],
     macvlan_ok = (\<lambda>_. True), docker_ok = (\<lambda>_ _. True)\<rparr>"

definition discovering :: cli_world where
  "discovering = \<lparr>w_parsed = Runs DiscoverCommand, w_files = \<lparr>read_dir = \<lambda>_. None, read_file = \<lambda>_. None, glob = \<lambda>_. None\<rparr>,
     w_menu = \<lparr>me_ParseFloat = (\<lambda>_. None), me_lspci = None, me_machine = (\<lambda>_. no_files)\<rparr>, w_stdin = [],
     w_container = RunReturns\<rparr>"

theorem receiver_killed_after_return_witness:
  "\<exists>p. cli_reaches discovering p \<and> receiver p = ReceiverKilled \<and> stage p = CommandDone \<and> signalled p"
proof -
  have d: "w_parsed discovering = Runs DiscoverCommand" by (simp add: discovering_def)
  obtain p where p: "cli_reaches discovering p" "receiver p = ReceiverKilled" "exit_code p = Some 0"
    using discover_kills_its_receiver [OF d] by blast
  then show ?thesis using receiver_killed_after_return [OF p(1)] d by auto
qed

corollary degraded_health_leaves_receiver:
  assumes "cli_reaches w p" "w_parsed w = Runs HealthCommand" "hasDegraded (DiscoverOpenCapiDevices (w_files w))"
  shows "receiver p \<noteq> ReceiverKilled"
  using cli_reaches_ok [OF assms(1)] assms(2,3) by (auto simp: cli_ok_def HealthCmd_def Let_def)

theorem signal_leaves_receiver:
  assumes "w_parsed w = Runs c"
  shows "\<exists>p. cli_reaches w p \<and> stage p = Running c \<and> exit_code p = Some 0 \<and> receiver p = ReceiverRuns"
proof -
  define p1 where "p1 = cli_started\<lparr>root_ctx := Some False, stage := Hooking c\<rparr>"
  define p2 where "p2 = p1\<lparr>receiver := ReceiverRuns, cmd_ctx := True, stage := Running c\<rparr>"
  define p3 where "p3 = p2\<lparr>signalled := True\<rparr>"
  define p4 where "p4 = (if False then killed True p3 else p3)\<lparr>exit_code := Some 0\<rparr>"
  note defs = cli_started_def p1_def p2_def p3_def p4_def
  note on = rtranclp.rtrancl_into_rtrancl [where r = "cli_step w"]
  have s1: "cli_step w cli_started p1"
    unfolding p1_def by (rule ExecuteContext_runs) (simp_all add: assms cli_started_def)
  have s2: "cli_step w p1 p2" unfolding p2_def by (rule PersistentPreRun_starts) (simp_all add: defs)
  have s3: "cli_step w p2 p3" unfolding p3_def by (rule Signal) (simp_all add: defs)
  have "cli_step w p3 p4" unfolding p4_def by (rule Main_cleans) (simp_all add: defs)
  from on [OF on [OF on [OF on [OF rtranclp.rtrancl_refl s1] s2] s3] this]
  have "cli_reaches w p4" .
  then show ?thesis by (intro exI [of _ p4] conjI) (simp_all add: defs)
qed

text \<open>Before the command line is read the root has no context, and a signal is a nil dereference.\<close>

lemma early_signal_panics: "\<exists>p. cli_reaches w p \<and> exit_code p = Some 2"
proof -
  note on = rtranclp.rtrancl_into_rtrancl [where r = "cli_step w"]
  define p1 where "p1 = cli_started\<lparr>signalled := True\<rparr>"
  have s1: "cli_step w cli_started p1" unfolding p1_def by (rule Signal) (simp_all add: cli_started_def)
  have "cli_step w p1 (p1\<lparr>exit_code := Some 2\<rparr>)" by (rule Main_panics) (simp_all add: p1_def cli_started_def)
  from on [OF on [OF rtranclp.rtrancl_refl s1] this] have "cli_reaches w (p1\<lparr>exit_code := Some 2\<rparr>)" .
  then show ?thesis by (intro exI [of _ "p1\<lparr>exit_code := Some 2\<rparr>"] conjI) simp_all
qed

text \<open>Configuring through a pipe: the command never leaves its menu, and its receiver is never killed.\<close>

theorem piped_configure_never_leaves:
  assumes "cli_reaches w p" "w_parsed w = Runs ConfigureCmd" "w_stdin w = [text]" "newline \<in> set text"
    and "menu_choice (takeWhile (\<lambda>c. c \<noteq> newline) text @ [newline]) \<in> {Some 1, Some 2, Some 4}"
  shows "stage p \<in> {NotExecuted, Hooking ConfigureCmd, Running ConfigureCmd} \<and> receiver p \<noteq> ReceiverKilled"
proof -
  have "run_outcome w ConfigureCmd = RunNeverEnds"
    using one_block_never_returns [OF assms(4,5)] assms(3) by simp
  then show ?thesis
    using cli_reaches_ok [OF assms(1)] assms(2) by (cases "stage p") (auto simp: cli_ok_def)
qed

subsection \<open>From init to start\<close>

text \<open>
  The files \<open>init\<close> writes, in the order \<open>ns\<close> in which the language walks the map, as \<open>start\<close> finds
  them: \<open>Glob\<close> lists the names in lexical order, with those of an earlier \<open>init\<close> among them.
\<close>

definition topology_dir :: string where "topology_dir = ''/var/lib/aitherion-cli/topology/''"

definition gpus_path :: "int \<Rightarrow> string" where "gpus_path n = topology_dir @ ''numa'' @ Itoa n @ ''_gpus.txt''"

definition iface_path :: "int \<Rightarrow> string" where "iface_path n = topology_dir @ ''numa'' @ Itoa n @ ''_iface.txt''"

definition mem_gb_path :: "int \<Rightarrow> string" where "mem_gb_path n = topology_dir @ ''numa'' @ Itoa n @ ''_mem_gb.txt''"

text \<open>
  \<open>os.WriteFile\<close> writes the text, or fails: before the file is opened, which leaves what there was, or
  after that, when some bytes at the start are written. \<open>init\<close> looks at no error. \<open>w\<close> says for each
  path how it goes.
\<close>

datatype write_outcome = Written | NotOpened | CutOff nat

definition WriteFile :: "(string \<Rightarrow> write_outcome) \<Rightarrow> string \<Rightarrow> string option \<Rightarrow> cli_env \<Rightarrow> cli_env" where
  "WriteFile w path text env =
     (case w path of
        NotOpened \<Rightarrow> env
      | Written \<Rightarrow> env\<lparr>cli_file := (cli_file env)(path := text)\<rparr>
      | CutOff k \<Rightarrow> env\<lparr>cli_file := (cli_file env)(path := map_option (take k) text)\<rparr>)"

definition list_file :: "(string \<Rightarrow> write_outcome) \<Rightarrow> string \<Rightarrow> cli_env \<Rightarrow> cli_env" where
  "list_file w path env =
     (if w path = NotOpened then env else env\<lparr>numa_files := map_option (insort_insert path) (numa_files env)\<rparr>)"

definition write_node :: "(string \<Rightarrow> write_outcome) \<Rightarrow> numa_map \<Rightarrow> cli_env \<Rightarrow> int \<Rightarrow> cli_env" where
  "write_node w m env n =
     WriteFile w (mem_gb_path n) (mem_gb_file m n)
       (WriteFile w (iface_path n) (iface_file m n)
         (WriteFile w (gpus_path n) (gpu_file m n) (list_file w (gpus_path n) env)))"

definition initCmd :: "(string \<Rightarrow> write_outcome) \<Rightarrow> bool \<Rightarrow> numa_map \<Rightarrow> int list \<Rightarrow> cli_env \<Rightarrow> bool \<times> cli_env" where
  "initCmd w mkdir_ok m ns env = (if mkdir_ok then (True, foldl (write_node w m) env ns) else (False, env))"

lemma gpus_path_inj: "0 \<le> a \<Longrightarrow> 0 \<le> b \<Longrightarrow> gpus_path a = gpus_path b \<Longrightarrow> a = b"
  by (auto simp: gpus_path_def Itoa_def digits_of_inj split: if_splits)

text \<open>The names that the pattern of \<open>Glob\<close> matches end like those of the files of devices.\<close>

definition globbed :: "string \<Rightarrow> bool" where
  "globbed path \<longleftrightarrow> (\<exists>x. path = topology_dir @ ''numa'' @ x @ ''_gpus.txt'')"

lemma globbed_path: "globbed (gpus_path n)"
  by (auto simp: globbed_def gpus_path_def)

lemma globbed_other: "globbed path \<Longrightarrow> path \<noteq> iface_path n" "globbed path \<Longrightarrow> path \<noteq> mem_gb_path n"
proof -
  have *: "last (butlast (butlast (butlast (butlast path)))) = CHR ''s''" if "globbed path" for path
    using that by (auto simp: globbed_def butlast_append)
  have "last (butlast (butlast (butlast (butlast (iface_path n))))) \<noteq> CHR ''s''"
    "last (butlast (butlast (butlast (butlast (mem_gb_path n))))) \<noteq> CHR ''s''"
    by (simp_all add: iface_path_def mem_gb_path_def butlast_append)
  then show "globbed path \<Longrightarrow> path \<noteq> iface_path n" "globbed path \<Longrightarrow> path \<noteq> mem_gb_path n"
    using * by metis+
qed

lemmas paths_differ [simp] = globbed_other [OF globbed_path]

lemma WriteFile_simps [simp]:
  "numa_files (WriteFile w path text env) = numa_files env"
  "macvlan_ok (WriteFile w path text env) = macvlan_ok env" "docker_ok (WriteFile w path text env) = docker_ok env"
  "cli_file (list_file w path env) = cli_file env" "macvlan_ok (list_file w path env) = macvlan_ok env"
  "docker_ok (list_file w path env) = docker_ok env"
  by (simp_all add: WriteFile_def list_file_def split: write_outcome.split)

text \<open>What is at a path after a file was to be written there.\<close>

definition after_writing :: "write_outcome \<Rightarrow> string option \<Rightarrow> string option \<Rightarrow> string option" where
  "after_writing r text old = (case r of Written \<Rightarrow> text | NotOpened \<Rightarrow> old | CutOff k \<Rightarrow> map_option (take k) text)"

lemma WriteFile_file:
  "cli_file (WriteFile w path text env) p =
     (if p = path then after_writing (w path) text (cli_file env p) else cli_file env p)"
  by (simp add: WriteFile_def after_writing_def split: write_outcome.split)

lemma after_writing_twice: "after_writing r text (after_writing r text old) = after_writing r text old"
  by (simp add: after_writing_def split: write_outcome.split)

lemma write_node_gpus:
  "cli_file (write_node w m env n) (gpus_path k) =
     (if gpus_path k = gpus_path n then after_writing (w (gpus_path n)) (gpu_file m n) (cli_file env (gpus_path k))
      else cli_file env (gpus_path k))"
  by (simp add: write_node_def WriteFile_file)

lemma write_nodes_file:
  "list_all (\<lambda>n. 0 \<le> n) ns \<Longrightarrow> 0 \<le> k \<Longrightarrow>
     cli_file (foldl (write_node w m) env ns) (gpus_path k) =
       (if k \<in> set ns then after_writing (w (gpus_path k)) (gpu_file m k) (cli_file env (gpus_path k))
        else cli_file env (gpus_path k))"
proof (induction ns rule: rev_induct)
  case (snoc n ns)
  then show ?case using gpus_path_inj [of k n] by (auto simp: write_node_gpus after_writing_twice)
qed simp

lemma write_nodes_other:
  "p \<notin> gpus_path ` set ns \<Longrightarrow> (\<And>n. p \<noteq> iface_path n) \<Longrightarrow> (\<And>n. p \<noteq> mem_gb_path n) \<Longrightarrow>
     cli_file (foldl (write_node w m) env ns) p = cli_file env p"
  by (induction ns rule: rev_induct) (simp_all add: write_node_def WriteFile_file)

lemma write_node_list:
  "numa_files (write_node w m env n) =
     (if w (gpus_path n) = NotOpened then numa_files env else map_option (insort_insert (gpus_path n)) (numa_files env))"
  by (simp add: write_node_def list_file_def)

lemma write_nodes_list:
  assumes "numa_files env = Some old" "sorted old" "distinct old"
  shows "numa_files (foldl (write_node w m) env ns) =
    Some (sort (remdups (old @ map gpus_path (filter (\<lambda>n. w (gpus_path n) \<noteq> NotOpened) ns))))"
proof -
  have "\<exists>fs. numa_files (foldl (write_node w m) env ns) = Some fs \<and> sorted fs \<and> distinct fs \<and>
      set fs = set old \<union> gpus_path ` {n \<in> set ns. w (gpus_path n) \<noteq> NotOpened}"
  proof (induction ns rule: rev_induct)
    case Nil
    then show ?case using assms by simp
  next
    case (snoc n ns)
    then obtain fs where fs: "numa_files (foldl (write_node w m) env ns) = Some fs" "sorted fs" "distinct fs"
      "set fs = set old \<union> gpus_path ` {n \<in> set ns. w (gpus_path n) \<noteq> NotOpened}" by blast
    show ?case
    proof (cases "w (gpus_path n) = NotOpened")
      case True
      then have "{k \<in> set (ns @ [n]). w (gpus_path k) \<noteq> NotOpened} = {k \<in> set ns. w (gpus_path k) \<noteq> NotOpened}" by auto
      then show ?thesis using fs True by (intro exI [of _ fs]) (simp add: write_node_list)
    next
      case False
      then have "numa_files (foldl (write_node w m) env (ns @ [n])) = Some (insort_insert (gpus_path n) fs)"
        using fs(1) by (simp add: write_node_list)
      moreover have "set (insort_insert (gpus_path n) fs) = insert (gpus_path n) (set fs)" by (rule set_insort_insert)
      ultimately show ?thesis
        using fs(2-4) False by (auto simp: sorted_insort_insert distinct_insort_insert)
    qed
  qed
  then obtain fs where fs: "numa_files (foldl (write_node w m) env ns) = Some fs" "sorted fs" "distinct fs"
    "set fs = set old \<union> gpus_path ` {n \<in> set ns. w (gpus_path n) \<noteq> NotOpened}" by blast
  let ?all = "sort (remdups (old @ map gpus_path (filter (\<lambda>n. w (gpus_path n) \<noteq> NotOpened) ns)))"
  have "set fs = set ?all" using fs(4) by auto
  then have "fs = ?all" by (intro sorted_distinct_set_unique [OF fs(2,3)]) simp_all
  with fs(1) show ?thesis by simp
qed

text \<open>The text of the file of a node's devices that \<open>start\<close> finds after \<open>init\<close>, if there is one.\<close>

definition gpus_text :: "(string \<Rightarrow> write_outcome) \<Rightarrow> numa_map \<Rightarrow> int list \<Rightarrow> cli_env \<Rightarrow> string \<Rightarrow> string" where
  "gpus_text w m ns env path =
     TrimSpace (case (case find (\<lambda>n. gpus_path n = path) ns of
         None \<Rightarrow> cli_file env path
       | Some n \<Rightarrow> after_writing (w path) (gpu_file m n) (cli_file env path)) of None \<Rightarrow> [] | Some text \<Rightarrow> text)"

lemma gpus_text_of:
  assumes "list_all (\<lambda>n. 0 \<le> n) ns" and "globbed path"
  shows "gpus_of (foldl (write_node w m) env ns) path = gpus_text w m ns env path"
proof (cases "find (\<lambda>n. gpus_path n = path) ns")
  case None
  then have "path \<notin> gpus_path ` set ns" by (auto simp: find_None_iff)
  with None show ?thesis using write_nodes_other [OF _ globbed_other [OF assms(2)]] by (simp add: gpus_of_def gpus_text_def)
next
  case (Some n)
  then have n: "n \<in> set ns" "gpus_path n = path" by (auto simp: find_Some_iff)
  then have "0 \<le> n" using assms(1) by (simp add: list_all_iff)
  with Some n show ?thesis using write_nodes_file [OF assms(1), of n w m env] by (simp add: gpus_of_def gpus_text_def)
qed

text \<open>
  C35. \<open>start\<close> after \<open>init\<close>: whichever files there were and whichever writes failed, which \<open>init\<close> does not
  notice, when \<open>start\<close> succeeds it has started one container for each file of devices in the
  directory that is not blank: those of earlier runs and those now written, with the devices
  just written, or what there was where a file could not be opened. The containers are numbered by the
  lexical order of all these files, blank ones counted, and the settings, the memory, the interface
  and the ports of a container are those of its number: with the nodes 0, 1 and 10 the devices
  of node 10 get those of node 1.
\<close>

theorem start_after_init:
  assumes "numa_files env = Some old" "sorted old" "distinct old" "list_all globbed old"
    and "list_all (\<lambda>n. 0 \<le> n) ns" "env' = snd (initCmd w True m ns env)" "\<not> DryRun cfg"
    and "fst (StartContainers env' cfg ncs) = Returns ()"
  shows "filter is_docker (snd (StartContainers env' cfg ncs)) =
    map (\<lambda>(i, gpus). RunDocker (docker_args env' cfg ncs i gpus))
      (filter (\<lambda>(i, gpus). gpus \<noteq> []) (enumerate 0 (map (gpus_text w m ns env)
        (sort (remdups (old @ map gpus_path (filter (\<lambda>n. w (gpus_path n) \<noteq> NotOpened) ns)))))))"
proof -
  let ?all = "sort (remdups (old @ map gpus_path (filter (\<lambda>n. w (gpus_path n) \<noteq> NotOpened) ns)))"
  have env': "env' = foldl (write_node w m) env ns" using assms(6) by (simp add: initCmd_def)
  have files: "numa_files env' = Some ?all" unfolding env' by (rule write_nodes_list [OF assms(1-3)])
  have "gpus_of env' path = gpus_text w m ns env path" if "path \<in> set ?all" for path
  proof -
    have "globbed path" using that assms(4) globbed_path by (auto simp: list_all_iff)
    then show ?thesis unfolding env' by (rule gpus_text_of [OF assms(5)])
  qed
  then have texts: "map (gpus_of env') ?all = map (gpus_text w m ns env) ?all" by (intro map_cong refl)
  show ?thesis
    using start_loop_dockers [OF assms(7), of env' ncs 0 ?all "[]"] assms(8)
    by (auto simp: StartContainers_def files texts split: if_splits simp del: map_map)
qed

definition three_nodes :: numa_map where
  "three_nodes = [0 \<mapsto> \<lparr>GPUs = [''card0''], IFaces = [], Memory = 0\<rparr>, 1 \<mapsto> \<lparr>GPUs = [''card1''], IFaces = [], Memory = 0\<rparr>,
     10 \<mapsto> \<lparr>GPUs = [''card2'', ''card3''], IFaces = [], Memory = 0\<rparr>]"

text \<open>An earlier run left the file of a node 4, and the file of node 1 cannot be opened.\<close>

definition one_file :: cli_env where
  "one_file = \<lparr>numa_files = Some [gpus_path 4], cli_file = [gpus_path 4 \<mapsto> ''card9''], cuda_lib = [], nvidia_smi = [],
     macvlan_ok = (\<lambda>_. True), docker_ok = (\<lambda>_ _. True)\<rparr>"

definition one_fails :: "string \<Rightarrow> write_outcome" where
  "one_fails path = (if path = gpus_path 1 then NotOpened else Written)"

lemma start_loop_succeeds:
  "macvlan_ok env = (\<lambda>_. True) \<Longrightarrow> docker_ok env = (\<lambda>_ _. True) \<Longrightarrow> fst (start_loop env cfg ncs i paths acts) = Returns ()"
  by (induction paths arbitrary: i acts) (simp_all add: Let_def)

lemma write_nodes_machine:
  "macvlan_ok (foldl (write_node w m) env ns) = macvlan_ok env"
  "docker_ok (foldl (write_node w m) env ns) = docker_ok env"
  by (induction ns rule: rev_induct) (simp_all add: write_node_def)

lemma three_nodes_order:
  "sort (remdups ([gpus_path 4] @ map gpus_path (filter (\<lambda>n. one_fails (gpus_path n) \<noteq> NotOpened) [0, 1, 10]))) =
     [gpus_path 0, gpus_path 10, gpus_path 4]"
  by code_simp

lemma three_nodes_started:
  "fst (StartContainers (snd (initCmd one_fails True three_nodes [0, 1, 10] one_file)) StartCmd_config (\<lambda>_. None)) = Returns ()"
proof -
  have "numa_files one_file = Some [gpus_path 4]" "sorted [gpus_path 4]" "distinct [gpus_path 4]"
    by (simp_all add: one_file_def)
  from write_nodes_list [OF this, of one_fails three_nodes "[0, 1, 10]"] three_nodes_order
  have "numa_files (snd (initCmd one_fails True three_nodes [0, 1, 10] one_file)) =
      Some [gpus_path 0, gpus_path 10, gpus_path 4]"
    by (simp only: initCmd_def if_True snd_conv)
  then show ?thesis
    by (simp add: StartContainers_def start_loop_succeeds initCmd_def write_nodes_machine one_file_def
        del: foldl_Cons start_loop.simps)
qed

theorem start_after_init_witness:
  "filter is_docker (snd (StartContainers (snd (initCmd one_fails True three_nodes [0, 1, 10] one_file))
       StartCmd_config (\<lambda>_. None))) =
     map (\<lambda>(i, gpus). RunDocker (docker_args (snd (initCmd one_fails True three_nodes [0, 1, 10] one_file))
         StartCmd_config (\<lambda>_. None) i gpus))
       [(0, ''card0''), (1, ''card2,card3''), (2, ''card9'')]"
proof -
  have texts: "map (gpus_text one_fails three_nodes [0, 1, 10] one_file) [gpus_path 0, gpus_path 10, gpus_path 4] =
      [''card0'', ''card2,card3'', ''card9'']"
    by code_simp
  have "numa_files one_file = Some [gpus_path 4]" "sorted [gpus_path 4]" "distinct [gpus_path 4]"
    "list_all globbed [gpus_path 4]" "list_all (\<lambda>n :: int. 0 \<le> n) [0, 1, 10]"
    "\<not> DryRun StartCmd_config" by (auto simp: one_file_def StartCmd_config_def globbed_path)
  note run = start_after_init [OF this(1-5) refl this(6) three_nodes_started]
  show ?thesis by (subst run) (simp only: three_nodes_order texts, simp add: numeral_2_eq_2)
qed

text \<open>A session on a terminal: half of the memory for node 0, then back.\<close>

definition typed :: "string \<Rightarrow> string" where "typed s = s @ [newline]"

definition example_env :: menu_env where
  "example_env = \<lparr>me_ParseFloat = (\<lambda>s. if s = ''50'' then Some (Fin 50) else None), me_lspci = None, me_machine = (\<lambda>_. no_files)\<rparr>"

lemma example_choices [simp]:
  "menu_choice (typed ''1'') = Some 1" "menu_choice (typed ''4'') = Some 4" "menu_choice (typed ''5'') = Some 5"
  by (simp_all add: menu_choice_def typed_def TrimSpace_def is_space_def Atoi_def ParseUint_def is_digit_def digit_val_def max_uint64_def)

lemma typed_line [simp]: "newline \<notin> set s \<Longrightarrow> is_line (typed s)"
  by (simp add: is_line_def typed_def)

lemma example_percent:
  "set_percent (me_ParseFloat example_env) (typed ''50'') cfg = cfg\<lparr>MemPercent := Fin 50\<rparr>"
  by (simp add: set_percent_def example_env_def typed_def TrimSpace_def is_space_def fless_def)

lemma example_settings:
  "configureNUMANode (me_ParseFloat example_env) (node_settings first_state 0) [typed ''1'', typed ''50'', typed ''4'', typed ''5''] =
     Some (first_settings\<lparr>MemPercent := Fin 50\<rparr>, [typed ''5''])"
  by (simp add: configure_unfold [of _ _ "_ # _"] example_percent node_settings_def first_state_def first_numaConfig_def
      del: configureNUMANode.simps)

theorem terminal_menus_share_input_witness:
  "MainMenu example_env first_state [] [typed ''1'', typed ''1'', typed ''50'', typed ''4'', typed ''5''] =
     Some (save_node 0 (first_settings\<lparr>MemPercent := Fin 50\<rparr>) first_state, [])"
  by (subst terminal_menus_share_input) (simp_all add: example_settings del: configureNUMANode.simps)

end
