(* ===== verification/RingQueue.thy ===== *)
theory RingQueue
  imports GoLib
begin

section \<open>The receiver's ring buffer as a bounded queue\<close>

text \<open>
  The ring of \<open>StartZMQReceiver\<close> in \<open>cmd/capnpserver/main.go\<close>: an array of \<open>ringSize\<close> cells, the index
  where the next message goes and the index of the oldest one; equal indices mean that it is empty,
  so that one cell stays free. Cells are \<open>None\<close> while they hold the nil slice, and keep what was
  taken from them. The locale \<open>bounded_queue\<close> is what the receiver relies on: a first-in-first-out
  queue that refuses when it holds its capacity.
\<close>

definition ringSize :: nat where "ringSize = 1024"

record 'a ring =
  ringBuffer :: "'a option list"
  head :: nat
  tail :: nat

definition ring_new :: "'a ring" where
  "ring_new = \<lparr>ringBuffer = replicate ringSize None, head = 0, tail = 0\<rparr>"

definition ring_empty :: "'a ring \<Rightarrow> bool" where
  "ring_empty r \<longleftrightarrow> head r = tail r"

definition ring_full :: "'a ring \<Rightarrow> bool" where
  "ring_full r \<longleftrightarrow> (head r + 1) mod ringSize = tail r"

definition ring_put :: "'a \<Rightarrow> 'a ring \<Rightarrow> 'a ring" where
  "ring_put x r = r\<lparr>ringBuffer := (ringBuffer r)[head r := Some x], head := (head r + 1) mod ringSize\<rparr>"

definition ring_take :: "'a ring \<Rightarrow> 'a option \<times> 'a ring" where
  "ring_take r = (ringBuffer r ! tail r, r\<lparr>tail := (tail r + 1) mod ringSize\<rparr>)"

subsection \<open>The contract\<close>

datatype 'a queue_event = Put 'a | Take

text \<open>The specification: a list of at most the capacity, with what was accepted and taken.\<close>

fun fifo_play :: "nat \<Rightarrow> 'a queue_event list \<Rightarrow> 'a list \<times> 'a list \<times> 'a list \<Rightarrow> 'a list \<times> 'a list \<times> 'a list" where
  "fifo_play cap [] s = s"
| "fifo_play cap (Put x # es) (q, accepted, taken) =
     fifo_play cap es (if length q < cap then (q @ [x], accepted @ [x], taken) else (q, accepted, taken))"
| "fifo_play cap (Take # es) (q, accepted, taken) =
     fifo_play cap es (case q of [] \<Rightarrow> (q, accepted, taken) | y # ys \<Rightarrow> (ys, accepted, taken @ [y]))"

locale bounded_queue =
  fixes new :: 'q and is_empty is_full :: "'q \<Rightarrow> bool" and put :: "'a \<Rightarrow> 'q \<Rightarrow> 'q"
    and take_one :: "'q \<Rightarrow> 'a option \<times> 'q" and items :: "'q \<Rightarrow> 'a list" and invar :: "'q \<Rightarrow> bool"
    and capacity :: nat
  assumes invar_new: "invar new"
    and items_new: "items new = []"
    and is_empty_items: "invar q \<Longrightarrow> is_empty q \<longleftrightarrow> items q = []"
    and is_full_items: "invar q \<Longrightarrow> is_full q \<longleftrightarrow> length (items q) = capacity"
    and bounded: "invar q \<Longrightarrow> length (items q) \<le> capacity"
    and put_items: "invar q \<Longrightarrow> \<not> is_full q \<Longrightarrow> invar (put x q) \<and> items (put x q) = items q @ [x]"
    and take_items: "invar q \<Longrightarrow> items q = x # xs \<Longrightarrow>
      fst (take_one q) = Some x \<and> invar (snd (take_one q)) \<and> items (snd (take_one q)) = xs"
begin

text \<open>A put on a full queue and a take on an empty one do nothing.\<close>

fun play :: "'a queue_event list \<Rightarrow> 'q \<times> 'a list \<times> 'a list \<Rightarrow> 'q \<times> 'a list \<times> 'a list" where
  "play [] s = s"
| "play (Put x # es) (q, accepted, taken) =
     play es (if is_full q then (q, accepted, taken) else (put x q, accepted @ [x], taken))"
| "play (Take # es) (q, accepted, taken) =
     play es (if is_empty q then (q, accepted, taken)
              else case take_one q of (x, q') \<Rightarrow> (q', accepted, taken @ [the x]))"

definition seen :: "'q \<times> 'a list \<times> 'a list \<Rightarrow> 'a list \<times> 'a list \<times> 'a list" where
  "seen s = (case s of (q, accepted, taken) \<Rightarrow> (items q, accepted, taken))"

lemma play_refines:
  "invar q \<Longrightarrow> seen (play es (q, accepted, taken)) = fifo_play capacity es (items q, accepted, taken) \<and>
     invar (fst (play es (q, accepted, taken)))"
proof (induction es arbitrary: q accepted taken)
  case (Cons e es)
  show ?case
  proof (cases e)
    case (Put x)
    then show ?thesis
      using Cons.IH [of q accepted taken] Cons.IH [of "put x q" "accepted @ [x]" taken] Cons.prems put_items [of q x]
        is_full_items [of q] bounded [of q]
      by auto
  next
    case Take
    show ?thesis
    proof (cases "items q")
      case Nil
      then show ?thesis using Take Cons.IH [of q accepted taken] Cons.prems is_empty_items by auto
    next
      case (Cons y ys)
      from take_items [OF Cons.prems Cons] obtain r
        where r: "take_one q = (Some y, r)" "invar r" "items r = ys" by (cases "take_one q") auto
      then show ?thesis
        using Cons.IH [of r accepted "taken @ [y]"] Cons.prems Take Cons is_empty_items [of q] by simp
    qed
  qed
qed (simp add: seen_def)

lemma play_new: "seen (play es (new, [], [])) = fifo_play capacity es ([], [], [])"
  using play_refines [OF invar_new] items_new by simp

end

subsection \<open>The ring satisfies it\<close>

definition ring_count :: "'a ring \<Rightarrow> nat" where
  "ring_count r = (head r + ringSize - tail r) mod ringSize"

definition ring_cell :: "'a ring \<Rightarrow> nat \<Rightarrow> 'a option" where
  "ring_cell r i = ringBuffer r ! ((tail r + i) mod ringSize)"

definition ring_items :: "'a ring \<Rightarrow> 'a list" where
  "ring_items r = map (\<lambda>i. the (ring_cell r i)) [0..<ring_count r]"

definition ring_ok :: "'a ring \<Rightarrow> bool" where
  "ring_ok r \<longleftrightarrow> length (ringBuffer r) = ringSize \<and> head r < ringSize \<and> tail r < ringSize \<and>
     list_all (\<lambda>i. ring_cell r i \<noteq> None) [0..<ring_count r]"

lemma ringSize_pos: "0 < ringSize" "1 < ringSize"
  by (simp_all add: ringSize_def)

lemma length_ring_items [simp]: "length (ring_items r) = ring_count r"
  by (simp add: ring_items_def)

lemma ring_count_less: "ring_count r < ringSize"
  by (simp add: ring_count_def ringSize_pos)

lemma head_of_count:
  assumes "head r < ringSize" and "tail r < ringSize"
  shows "(tail r + ring_count r) mod ringSize = head r"
proof -
  have "(tail r + (head r + ringSize - tail r)) mod ringSize = head r" using assms by simp
  then show ?thesis by (simp only: ring_count_def mod_add_right_eq)
qed

lemma count_of_head:
  assumes "h < ringSize" and "tail r < ringSize" and "c < ringSize" and "(tail r + c) mod ringSize = h"
  shows "(h + ringSize - tail r) mod ringSize = c"
proof (cases "tail r + c < ringSize")
  case True
  then have "h = tail r + c" using assms(4) by simp
  then show ?thesis using assms by simp
next
  case False
  moreover have "tail r + c - ringSize < ringSize" using assms(2,3) by linarith
  ultimately have "h = tail r + c - ringSize" using assms(4) by (simp add: le_mod_geq)
  then show ?thesis using False assms by simp
qed

lemma offsets_differ:
  assumes "(t + i) mod ringSize = (t + j) mod ringSize" and "i < ringSize" and "j < ringSize"
  shows "i = j"
proof -
  have "i mod ringSize = j mod ringSize" using assms(1) by (simp add: nat_mod_eq_iff flip: mod_add_cong)
  then show ?thesis using assms(2,3) by simp
qed

lemma ring_full_count:
  assumes "ring_ok r"
  shows "ring_full r \<longleftrightarrow> ring_count r = ringSize - 1"
proof -
  have lt: "head r < ringSize" "tail r < ringSize" using assms by (simp_all add: ring_ok_def)
  have "(head r + 1) mod ringSize = (tail r + (ring_count r + 1)) mod ringSize"
    using head_of_count [OF lt] by (metis add.assoc mod_add_left_eq)
  moreover have "(tail r + (ring_count r + 1)) mod ringSize = tail r \<longleftrightarrow> ring_count r + 1 = ringSize"
  proof
    assume eq: "(tail r + (ring_count r + 1)) mod ringSize = tail r"
    show "ring_count r + 1 = ringSize"
    proof (rule ccontr)
      assume "ring_count r + 1 \<noteq> ringSize"
      then have "ring_count r + 1 < ringSize" using ring_count_less [of r] by simp
      with offsets_differ [of "tail r" "ring_count r + 1" 0] eq lt show False by simp
    qed
  qed (use lt in simp)
  ultimately show ?thesis using ringSize_pos by (auto simp: ring_full_def)
qed

lemma ring_empty_count:
  assumes "ring_ok r"
  shows "ring_empty r \<longleftrightarrow> ring_count r = 0"
proof -
  have lt: "head r < ringSize" "tail r < ringSize" using assms by (simp_all add: ring_ok_def)
  show ?thesis
    using head_of_count [OF lt] lt by (auto simp: ring_empty_def ring_count_def)
qed

lemma ring_put_ok:
  assumes ok: "ring_ok r" and room: "\<not> ring_full r"
  shows "ring_ok (ring_put x r) \<and> ring_items (ring_put x r) = ring_items r @ [x]"
proof -
  let ?r = "ring_put x r"
  have lt: "head r < ringSize" "tail r < ringSize" "length (ringBuffer r) = ringSize"
    using ok by (simp_all add: ring_ok_def)
  have c: "ring_count r + 1 < ringSize"
    using room ring_full_count [OF ok] ring_count_less [of r] by simp
  have "(tail r + (ring_count r + 1)) mod ringSize = (head r + 1) mod ringSize"
    using head_of_count [OF lt(1,2)] by (metis add.assoc mod_add_left_eq)
  then have count: "ring_count ?r = ring_count r + 1"
    using count_of_head [of "(head r + 1) mod ringSize" r "ring_count r + 1"] lt c ringSize_pos
    by (simp add: ring_count_def ring_put_def)
  have new: "ring_cell ?r (ring_count r) = Some x"
    using head_of_count [OF lt(1,2)] lt by (simp add: ring_cell_def ring_put_def)
  have old: "ring_cell ?r i = ring_cell r i" if "i < ring_count r" for i
  proof -
    have "(tail r + i) mod ringSize \<noteq> head r"
      using offsets_differ [of "tail r" i "ring_count r"] head_of_count [OF lt(1,2)] that c by auto
    then show ?thesis by (simp add: ring_cell_def ring_put_def)
  qed
  have "ring_items ?r = ring_items r @ [x]"
    using new old by (simp add: ring_items_def count)
  moreover have "ring_ok ?r"
    using ok new old lt ringSize_pos by (auto simp: ring_ok_def count list_all_iff less_Suc_eq) (simp_all add: ring_put_def)
  ultimately show ?thesis by blast
qed

lemma ring_take_ok:
  assumes ok: "ring_ok r" and items: "ring_items r = x # xs"
  shows "fst (ring_take r) = Some x \<and> ring_ok (snd (ring_take r)) \<and> ring_items (snd (ring_take r)) = xs"
proof -
  let ?r = "snd (ring_take r)"
  have lt: "head r < ringSize" "tail r < ringSize" "length (ringBuffer r) = ringSize"
    using ok by (simp_all add: ring_ok_def)
  have c: "ring_count r = Suc (length xs)" using items length_ring_items [of r] by simp
  have t: "tail ?r = (tail r + 1) mod ringSize" "head ?r = head r" "ringBuffer ?r = ringBuffer r"
    by (simp_all add: ring_take_def)
  have at: "(tail ?r + i) mod ringSize = (tail r + Suc i) mod ringSize" for i
    by (simp add: t mod_add_left_eq)
  have "(tail ?r + length xs) mod ringSize = head r"
    using head_of_count [OF lt(1,2)] by (simp only: at c)
  then have count: "ring_count ?r = length xs"
    using count_of_head [of "head r" ?r "length xs"] lt c ring_count_less [of r] ringSize_pos
    by (simp add: ring_count_def t)
  have cell: "ring_cell ?r i = ring_cell r (Suc i)" for i by (simp only: ring_cell_def at t(3))
  have list: "ring_items r = the (ring_cell r 0) # map (\<lambda>i. the (ring_cell r (Suc i))) [0..<length xs]"
    unfolding ring_items_def c by (simp only: upt_rec [of 0] map_Suc_upt [symmetric]) simp
  have some: "ring_cell r i \<noteq> None" if "i < Suc (length xs)" for i
    using ok that unfolding ring_ok_def c list_all_iff by (simp only: set_upt atLeastLessThan_iff) simp
  have "fst (ring_take r) = ring_cell r 0" using lt by (simp add: ring_take_def ring_cell_def)
  then have "fst (ring_take r) = Some x" using items list some [of 0] by auto
  moreover have "ring_items ?r = xs"
    using items list by (simp add: ring_items_def [of ?r] count cell)
  moreover have "ring_ok ?r"
    using some lt ringSize_pos unfolding ring_ok_def count cell by (simp add: list_all_iff t)
  ultimately show ?thesis by blast
qed

interpretation ringq: bounded_queue ring_new ring_empty ring_full ring_put ring_take ring_items ring_ok "ringSize - 1"
proof
  show "ring_ok ring_new" "ring_items ring_new = []"
    by (simp_all add: ring_ok_def ring_items_def ring_count_def ring_new_def ringSize_def)
  show "ring_empty q \<longleftrightarrow> ring_items q = []" if "ring_ok q" for q :: "'a ring"
    using ring_empty_count [OF that] by (simp flip: length_0_conv)
  show "ring_full q \<longleftrightarrow> length (ring_items q) = ringSize - 1" if "ring_ok q" for q :: "'a ring"
    using ring_full_count [OF that] by simp
  show "length (ring_items q) \<le> ringSize - 1" for q :: "'a ring"
    using ring_count_less [of q] by simp
  show "ring_ok (ring_put x q) \<and> ring_items (ring_put x q) = ring_items q @ [x]"
    if "ring_ok q" "\<not> ring_full q" for x and q :: "'a ring"
    using that by (rule ring_put_ok)
  show "fst (ring_take q) = Some x \<and> ring_ok (snd (ring_take q)) \<and> ring_items (snd (ring_take q)) = xs"
    if "ring_ok q" "ring_items q = x # xs" for q :: "'a ring" and x xs
    using that by (rule ring_take_ok)
qed

subsection \<open>Properties\<close>

lemma fifo_play_order:
  "fifo_play cap es (q, taken @ q, taken) = (q', accepted', taken') \<Longrightarrow> length q \<le> cap \<Longrightarrow>
     accepted' = taken' @ q' \<and> length q' \<le> cap"
proof (induction es arbitrary: q taken)
  case (Cons e es)
  show ?case
  proof (cases e)
    case (Put x)
    then show ?thesis using Cons.IH [of "q @ [x]" taken] Cons.IH [of q taken] Cons.prems by (auto split: if_splits)
  next
    case Take
    then show ?thesis
      using Cons.IH [of "[]" taken] Cons.IH [of "tl q" "taken @ [hd q]"] Cons.prems by (cases q) auto
  qed
qed simp

text \<open>
  C8. Refinement: whatever sequence of puts and takes is played on a new ring, its items, the
  messages accepted and the messages taken are those of a first-in-first-out list that holds at
  most 1023 messages; so what was accepted is what was taken, in that order, followed by what waits.
\<close>

theorem ring_refines_bounded_fifo:
  "ringq.seen (ringq.play es (ring_new, [], [])) = fifo_play 1023 es ([], [], []) \<and>
   (case ringq.seen (ringq.play es (ring_new, [], [])) of (waiting, accepted, taken) \<Rightarrow>
      accepted = taken @ waiting \<and> length waiting \<le> 1023)"
proof -
  have "ringq.seen (ringq.play es (ring_new, [], [])) = fifo_play 1023 es ([], [], [])"
    using ringq.play_new [of es] by (simp add: ringSize_def)
  moreover obtain q a t where "fifo_play 1023 es ([], [], []) = (q, a, t)" by (cases "fifo_play 1023 es ([], [], [])")
  ultimately show ?thesis using fifo_play_order [of 1023 es "[]" "[]" q a t] by simp
qed

end
