(* ===== verification/NumaRouting.thy ===== *)
theory NumaRouting
  imports NumaDiscovery
begin

section \<open>Binding to nodes and routing of memory accesses\<close>

text \<open>
  \<open>pkg/numa/binding.go\<close> and \<open>pkg/numa/routing.go\<close>. The kernel is a parameter (\<open>numa_kernel\<close>): the
  processors that are online, the answer of \<open>move_pages\<close> for an address (the status word it writes
  for the page, or an error), and where a mapping is placed. Processor sets are sets of numbers, node
  numbers are not negative where a processor set takes them. \<open>net.SendToRemoteNUMA\<close> is in no file of
  the repository; \<open>send_remote\<close> says whether it succeeds.
\<close>

subsection \<open>Processor sets\<close>

definition BindDeviceToNode :: "string \<Rightarrow> int \<Rightarrow> string \<times> string" where
  "BindDeviceToNode deviceID nodeID = (''/sys/bus/pci/devices/'' @ deviceID @ ''/numa_node'', Itoa nodeID)"

text \<open>
  \<open>sched_setaffinity\<close> keeps of the mask what is online, and refuses a mask without any such processor.
  \<open>CPUSet.Set\<close> ignores numbers from 1024 on.
\<close>

type_synonym affinities = "int \<Rightarrow> nat set"

definition set_affinity :: "nat set \<Rightarrow> affinities \<Rightarrow> int \<Rightarrow> nat set \<Rightarrow> affinities option" where
  "set_affinity online aff pid cpus = (if cpus \<inter> online = {} then None else Some (aff(pid := cpus \<inter> online)))"

definition cpu_set :: "nat \<Rightarrow> nat set" where
  "cpu_set n = (if n < 1024 then {n} else {})"

definition BindProcessToNode :: "nat set \<Rightarrow> affinities \<Rightarrow> int \<Rightarrow> nat \<Rightarrow> affinities option" where
  "BindProcessToNode online aff pid nodeID = set_affinity online aff pid (cpu_set nodeID)"

text \<open>The loop runs over as many processors as the mask has elements, and returns the first that is in it.\<close>

definition GetCurrentNode :: "nat set option \<Rightarrow> int \<times> bool" where
  "GetCurrentNode cpus =
     (case cpus of
        None \<Rightarrow> (- 1, False)
      | Some m \<Rightarrow> (case find (\<lambda>i. i \<in> m) [0..<card m] of Some i \<Rightarrow> int i | None \<Rightarrow> - 1, True))"

subsection \<open>Memory and routes\<close>

type_synonym memory = "u64 \<Rightarrow> u8 option"

record memcopy_command =
  DstAddress :: u64
  DataSize :: u64
  OpType :: u32
  Data :: "u8 list"

record numa_kernel =
  own_affinity :: "nat set option"
  move_pages :: "u64 \<Rightarrow> i32 option"
  mmap_at :: "memory \<Rightarrow> u64 \<Rightarrow> nat \<Rightarrow> u64 option"
  send_remote :: "int \<Rightarrow> memcopy_command \<Rightarrow> bool"

definition MEMCPY_OPERATION :: int where "MEMCPY_OPERATION = 1"
definition MEMSET_OPERATION :: int where "MEMSET_OPERATION = 2"

text \<open>
  The kernel writes a status word of 32 bits into a variable of 64 that holds zero, on a
  little-endian machine into its lower half: a negative status, an error for the page, becomes a
  number above \<open>2^31\<close>.
\<close>

definition GetAddressNode :: "numa_kernel \<Rightarrow> u64 \<Rightarrow> int" where
  "GetAddressNode k addr = (case move_pages k addr of None \<Rightarrow> - 1 | Some status \<Rightarrow> uint status)"

definition put_region :: "u64 \<Rightarrow> u8 option list \<Rightarrow> memory \<Rightarrow> memory" where
  "put_region base bs mem = (\<lambda>a. if unat (a - base) < length bs then bs ! unat (a - base) else mem a)"

text \<open>
  \<open>syscall.Mmap\<close> refuses a length that is not positive, and gives new memory filled with zeros
  otherwise: the mapping is anonymous, so that the descriptor (here the process number) does not
  count, and the address of the target is passed as the offset in the mapped file.
\<close>

definition Mmap :: "numa_kernel \<Rightarrow> memory \<Rightarrow> u64 \<Rightarrow> u64 \<Rightarrow> (u64 \<times> memory) option" where
  "Mmap k mem offset len =
     (if sint len \<le> 0 then None
      else case mmap_at k mem offset (unat len) of
             None \<Rightarrow> None
           | Some base \<Rightarrow> Some (base, put_region base (replicate (unat len) (Some 0)) mem))"

definition Munmap :: "u64 \<Rightarrow> u64 \<Rightarrow> memory \<Rightarrow> memory" where
  "Munmap base len = put_region base (replicate (unat len) None)"

datatype route_error = PayloadTooShort | NoValue | MmapFailure | BadOperation | RemoteFailed

definition accessViaXBus :: "numa_kernel \<Rightarrow> memory \<Rightarrow> u64 \<Rightarrow> u64 \<Rightarrow> int \<Rightarrow> u8 list \<Rightarrow> (route_error, memory) go" where
  "accessViaXBus k mem addr sz operation payload =
     (if operation = MEMCPY_OPERATION
      then (if length payload < unat sz then Fails PayloadTooShort
            else if payload = [] then Panics IndexOutOfRange
            else case Mmap k mem addr sz of
                   None \<Rightarrow> Fails MmapFailure
                 | Some (base, mem1) \<Rightarrow>
                     (let mem2 = put_region base (map Some (take (unat sz) payload)) mem1
                      in Returns (Munmap base sz mem2)))
      else if operation = MEMSET_OPERATION
      then (case payload of
              [] \<Rightarrow> Fails NoValue
            | v # rest \<Rightarrow>
                (case Mmap k mem addr sz of
                   None \<Rightarrow> Fails MmapFailure
                 | Some (base, mem1) \<Rightarrow>
                     (let mem2 = put_region base (replicate (unat sz) (Some v)) mem1
                      in Returns (Munmap base sz mem2))))
      else Fails BadOperation)"

definition accessViaRemote :: "numa_kernel \<Rightarrow> u64 \<Rightarrow> u64 \<Rightarrow> int \<Rightarrow> int \<Rightarrow> u8 list \<Rightarrow>
    (route_error, (int \<times> memcopy_command) list) go" where
  "accessViaRemote k addr sz operation targetNode payload =
     (let cmd = \<lparr>DstAddress = addr, DataSize = sz, OpType = word_of_int operation, Data = payload\<rparr>
      in if send_remote k targetNode cmd then Returns [(targetNode, cmd)] else Fails RemoteFailed)"

text \<open>The outcome of a routed access: the memory afterwards and the commands sent to other nodes.\<close>

definition RouteMemoryAccess :: "numa_kernel \<Rightarrow> memory \<Rightarrow> u64 \<Rightarrow> u64 \<Rightarrow> int \<Rightarrow> u8 list \<Rightarrow>
    (route_error, memory \<times> (int \<times> memcopy_command) list) go" where
  "RouteMemoryAccess k mem addr sz operation payload =
     (let localNode = fst (GetCurrentNode (own_affinity k));
          targetNode = GetAddressNode k addr
      in if targetNode = localNode
         then go_bind (accessViaXBus k mem addr sz operation payload) (\<lambda>mem'. Returns (mem', []))
         else go_bind (accessViaRemote k addr sz operation targetNode payload) (\<lambda>sent. Returns (mem, sent)))"

subsection \<open>The current node\<close>

lemma find_upt: "find P [0..<n] = Some i \<longleftrightarrow> i < n \<and> P i \<and> (\<forall>j<i. \<not> P j)"
  by (auto simp: find_Some_iff)

lemma current_node_value:
  assumes "finite m" and "m \<noteq> {}"
  shows "GetCurrentNode (Some m) = (if Min m < card m then int (Min m) else - 1, True)"
proof -
  have least: "j \<notin> m" if "j < Min m" for j using that assms Min_le by fastforce
  have min: "Min m \<in> m" using assms by simp
  show ?thesis
  proof (cases "Min m < card m")
    case True
    then have "find (\<lambda>i. i \<in> m) [0..<card m] = Some (Min m)" using least min by (simp add: find_upt)
    then show ?thesis using True by (simp add: GetCurrentNode_def)
  next
    case False
    then have "find (\<lambda>i. i \<in> m) [0..<card m] = None" using least by (auto simp: find_None_iff)
    then show ?thesis using False by (simp add: GetCurrentNode_def)
  qed
qed

text \<open>Binding to a device's node writes a number that reads back.\<close>

lemma device_node_reads_back:
  "- (2 ^ 63) \<le> n \<Longrightarrow> n < 2 ^ 63 \<Longrightarrow> parsed_or d (Some (snd (BindDeviceToNode dev n))) = n"
  by (simp add: BindDeviceToNode_def parsed_or_def)

subsection \<open>Local accesses\<close>

lemma put_region_outside: "unat (a - base) \<ge> length bs \<Longrightarrow> put_region base bs mem a = mem a"
  by (simp add: put_region_def)

lemma put_region_over:
  "length bs \<le> length cs \<Longrightarrow> put_region base cs (put_region base bs mem) = put_region base cs mem"
  by (auto simp: put_region_def fun_eq_iff)

lemma put_region_None:
  "\<forall>a. unat (a - base) < n \<longrightarrow> mem a = None \<Longrightarrow> put_region base (replicate n None) mem = mem"
  by (auto simp: put_region_def fun_eq_iff)

text \<open>
  A kernel places a new mapping where nothing was mapped: without \<open>MAP_FIXED\<close> that is what \<open>mmap\<close>
  promises.
\<close>

definition maps_fresh :: "numa_kernel \<Rightarrow> bool" where
  "maps_fresh k \<longleftrightarrow> (\<forall>mem offset n base. mmap_at k mem offset n = Some base \<longrightarrow>
     (\<forall>a. unat (a - base) < n \<longrightarrow> mem a = None))"

definition mmap_ok :: "numa_kernel \<Rightarrow> memory \<Rightarrow> u64 \<Rightarrow> u64 \<Rightarrow> bool" where
  "mmap_ok k mem addr sz \<longleftrightarrow> 0 < sint sz \<and> mmap_at k mem addr (unat sz) \<noteq> None"

lemma Mmap_None_iff: "Mmap k mem addr sz = None \<longleftrightarrow> \<not> mmap_ok k mem addr sz"
  by (auto simp: Mmap_def mmap_ok_def split: option.splits)

lemma map_fill_unmap:
  assumes "maps_fresh k" and "Mmap k mem addr sz = Some (base, mem1)" and "length bs \<le> unat sz"
  shows "Munmap base sz (put_region base bs mem1) = mem"
proof -
  have m: "mem1 = put_region base (replicate (unat sz) (Some 0)) mem" "mmap_at k mem addr (unat sz) = Some base"
    using assms(2) by (auto simp: Mmap_def split: if_splits option.splits)
  have fresh: "\<forall>a. unat (a - base) < unat sz \<longrightarrow> mem a = None"
    using assms(1) m(2) by (simp add: maps_fresh_def)
  show ?thesis
    using assms(3) fresh by (simp add: m(1) Munmap_def put_region_over put_region_None)
qed

lemma local_access_cases:
  assumes "maps_fresh k"
  shows "accessViaXBus k mem addr sz operation payload =
    (if operation = MEMCPY_OPERATION
     then if length payload < unat sz then Fails PayloadTooShort
          else if payload = [] then Panics IndexOutOfRange
          else if mmap_ok k mem addr sz then Returns mem else Fails MmapFailure
     else if operation = MEMSET_OPERATION
     then if payload = [] then Fails NoValue
          else if mmap_ok k mem addr sz then Returns mem else Fails MmapFailure
     else Fails BadOperation)"
proof -
  have fill: "Munmap base sz (put_region base bs mem1) = mem"
    if "Mmap k mem addr sz = Some (base, mem1)" "length bs \<le> unat sz" for base bs mem1
    using map_fill_unmap [OF assms that] .
  show ?thesis
    using Mmap_None_iff [of k mem addr sz]
    by (cases "Mmap k mem addr sz"; cases payload) (auto simp: accessViaXBus_def fill Let_def)
qed

subsection \<open>Properties\<close>

text \<open>
  C32. A local access with a payload of the announced size, on a kernel that maps where nothing was
  mapped: a copy of no bytes panics, an unknown operation and setting no bytes are refused, and
  every other access either fails because the mapping does, or reports success. In that case the
  process's memory is exactly what it was: the bytes went into a new mapping, not to the address.
\<close>

theorem local_access_changes_nothing:
  assumes "maps_fresh k" and "length payload = unat sz"
    and "GetAddressNode k addr = fst (GetCurrentNode (own_affinity k))"
  shows "RouteMemoryAccess k mem addr sz operation payload =
    (if operation = MEMCPY_OPERATION \<and> sz = 0 then Panics IndexOutOfRange
     else if operation \<noteq> MEMCPY_OPERATION \<and> operation \<noteq> MEMSET_OPERATION then Fails BadOperation
     else if sz = 0 then Fails NoValue
     else if mmap_ok k mem addr sz then Returns (mem, []) else Fails MmapFailure)"
proof -
  have "payload = [] \<longleftrightarrow> sz = 0" using assms(2) by (metis length_0_conv unat_eq_zero)
  then show ?thesis
    using assms(2,3)
    by (simp add: RouteMemoryAccess_def Let_def local_access_cases [OF assms(1)] MEMCPY_OPERATION_def MEMSET_OPERATION_def)
qed

definition small_kernel :: "nat set \<Rightarrow> numa_kernel" where
  "small_kernel cpus = \<lparr>own_affinity = Some cpus, move_pages = (\<lambda>a. Some 0),
     mmap_at = (\<lambda>mem off n. if list_all (\<lambda>i. mem (4096 + of_nat i) = None) [0..<n] then Some 4096 else None),
     send_remote = (\<lambda>n cmd. True)\<rparr>"

lemma small_kernel_maps_fresh: "maps_fresh (small_kernel cpus)"
proof -
  have "mem a = None" if "list_all (\<lambda>i. mem (4096 + of_nat i) = None) [0..<n]" "unat (a - 4096) < n"
    for mem :: memory and a n
  proof -
    have "\<forall>i \<in> {0..<n}. mem (4096 + of_nat i) = None" using that(1) by (simp add: list_all_iff)
    moreover have "unat (a - 4096) \<in> {0..<n}" using that(2) by simp
    ultimately have "mem (4096 + of_nat (unat (a - 4096))) = None" by (rule bspec)
    moreover have "4096 + of_nat (unat (a - 4096)) = a" by simp
    ultimately show ?thesis by (simp only:)
  qed
  then show ?thesis by (auto simp: maps_fresh_def small_kernel_def split: if_splits)
qed

theorem local_access_changes_nothing_witness:
  "RouteMemoryAccess (small_kernel {0}) (\<lambda>a. if a = 8 then Some 1 else None) 8 1 MEMCPY_OPERATION [7] =
     Returns (\<lambda>a. if a = 8 then Some 1 else None, [])"
proof -
  have "GetAddressNode (small_kernel {0}) 8 = fst (GetCurrentNode (own_affinity (small_kernel {0})))"
    by (simp add: small_kernel_def GetAddressNode_def GetCurrentNode_def)
  from local_access_changes_nothing [OF small_kernel_maps_fresh _ this, of "[7]" 1] show ?thesis
    by (simp add: mmap_ok_def small_kernel_def MEMCPY_OPERATION_def)
qed

text \<open>
  A process bound to a node runs on the processor of that number alone. It then sees itself on
  no node unless that number is zero, so every address whose page the kernel knows is accessed
  remotely, even one on the node it was bound to: the memory stays as it is and the command goes to
  the page's node.
\<close>

theorem bound_process_is_never_local:
  assumes "BindProcessToNode online aff pid nodeID = Some aff'" and "own_affinity k = Some (aff' pid)"
    and "nodeID \<noteq> 0" and "move_pages k addr = Some status"
  shows "GetCurrentNode (own_affinity k) = (- 1, True) \<and>
    RouteMemoryAccess k mem addr sz operation payload =
      (let cmd = \<lparr>DstAddress = addr, DataSize = sz, OpType = word_of_int operation, Data = payload\<rparr>
       in if send_remote k (uint status) cmd then Returns (mem, [(uint status, cmd)]) else Fails RemoteFailed)"
proof -
  have "aff' pid = {nodeID}"
    using assms(1) by (auto simp: BindProcessToNode_def set_affinity_def cpu_set_def split: if_splits)
  then have none: "GetCurrentNode (own_affinity k) = (- 1, True)"
    using assms(2,3) current_node_value [of "{nodeID}"] by simp
  moreover have "GetAddressNode k addr \<noteq> - 1"
  proof -
    have "0 \<le> uint status" by simp
    then have "uint status \<noteq> - 1" by linarith
    then show ?thesis using assms(4) by (simp add: GetAddressNode_def)
  qed
  ultimately show ?thesis
    using assms(4) by (auto simp: RouteMemoryAccess_def accessViaRemote_def Let_def GetAddressNode_def)
qed

theorem bound_process_is_never_local_witness:
  "fst (GetCurrentNode (own_affinity (small_kernel {2}))) = - 1"
proof -
  have "BindProcessToNode {0, 1, 2, 3} (\<lambda>p. {}) 7 2 = Some ((\<lambda>p. {})(7 := {2}))"
    by (simp add: BindProcessToNode_def set_affinity_def cpu_set_def)
  from bound_process_is_never_local [OF this, of "small_kernel {2}" 0 0] show ?thesis
    by (simp add: small_kernel_def)
qed

text \<open>Without a call of \<open>BindProcessToNode\<close>: a process on the second eight processors is on no node either.\<close>

lemma second_socket_has_no_node: "GetCurrentNode (Some {8..<16}) = (- 1, True)"
proof -
  have "Min {8..<16 :: nat} = 8" by (rule Min_eqI) auto
  then show ?thesis using current_node_value [of "{8..<16}"] by simp
qed

text \<open>
  A page that is not there has a negative status, which is read as a node number above \<open>2^31\<close>: the
  access is sent there.
\<close>

lemma missing_page_is_a_far_node:
  assumes "move_pages k addr = Some status" and "sint status < 0"
  shows "2 ^ 31 \<le> GetAddressNode k addr"
proof (rule ccontr)
  assume "\<not> 2 ^ 31 \<le> GetAddressNode k addr"
  then have "uint status < 2 ^ 31" using assms(1) by (simp add: GetAddressNode_def)
  moreover have "- (2 ^ 31) \<le> uint status" by (rule order_trans [OF _ uint_ge_0]) simp
  ultimately have "sint status = uint status"
    unfolding sint_uint by (intro signed_take_bit_int_eq_self) simp_all
  then show False using assms(2) by simp
qed

end
