(* ===== verification/DataReceiver.thy ===== *)
theory DataReceiver
  imports RingQueue NumaRouting
begin

section \<open>The server's datagram receiver\<close>

text \<open>
  \<open>StartZMQReceiver\<close> and \<open>processMessage\<close> of \<open>cmd/capnpserver/main.go\<close>: a receiver that copies each
  datagram into a pooled buffer and puts it into the ring, and four workers that take and process
  them. The buffers are objects with an identity (their position in \<open>buffers\<close>), because the pool, the
  ring and the workers pass references; a step is what happens between two points where another
  thread can run (a critical section of the mutex, the signal after it, the processing of one
  message). ZeroMQ's datagrams and the element \<open>sync.Pool\<close> gives are inputs of the steps. A panic in
  a worker ends the process.
\<close>

subsection \<open>Messages\<close>

definition le_nat :: "u8 list \<Rightarrow> nat" where
  "le_nat bs = foldr (\<lambda>b n. unat b + 256 * n) bs 0"

record message_header =
  Operation :: u8
  DstDevice :: u64
  HdrDataSize :: u32

definition headerSize :: nat where "headerSize = 32"

definition read_header :: "u8 list \<Rightarrow> message_header" where
  "read_header hdr = \<lparr>Operation = hdr ! 0, DstDevice = of_nat (le_nat (take 8 (drop 1 hdr))),
     HdrDataSize = of_nat (le_nat (take 4 (drop 9 hdr)))\<rparr>"

datatype message_error = MessageTooShort | DataSizeMismatch | AccessFailed route_error

definition processMessage :: "numa_kernel \<Rightarrow> memory \<Rightarrow> u8 list \<Rightarrow>
    (message_error, memory \<times> (int \<times> memcopy_command) list) go" where
  "processMessage k mem msg =
     (if length msg < headerSize then Fails MessageTooShort
      else let metadata = read_header (take headerSize msg);
               expectedSize = headerSize + unat (HdrDataSize metadata)
           in if length msg < expectedSize then Fails DataSizeMismatch
              else go_wrap AccessFailed
                (RouteMemoryAccess k mem (DstDevice metadata) (ucast (HdrDataSize metadata))
                   (uint (Operation metadata)) (take (unat (HdrDataSize metadata)) (drop headerSize msg))))"

subsection \<open>The state\<close>

record buffer =
  capacity :: nat
  contents :: "u8 list"

datatype rx_state = RxIdle | RxHolds nat | RxSignal

datatype worker = Ready | Asleep | Working nat

record receiver =
  buffers :: "buffer list"
  msgPool :: "nat list"
  queue :: "nat ring"
  rx :: rx_state
  workers :: "worker list"
  proc_mem :: memory
  sent_cmds :: "(int \<times> memcopy_command) list"
  crashed :: bool

definition receiver_start :: "memory \<Rightarrow> receiver" where
  "receiver_start mem = \<lparr>buffers = [], msgPool = [], queue = ring_new, rx = RxIdle, workers = replicate 4 Ready,
     proc_mem = mem, sent_cmds = [], crashed = False\<rparr>"

text \<open>\<open>Get\<close> gives some pooled buffer or a new one; a buffer that is too small is replaced by a new one.\<close>

definition new_buffer :: "receiver \<Rightarrow> nat \<times> receiver" where
  "new_buffer s = (length (buffers s), s\<lparr>buffers := buffers s @ [\<lparr>capacity = 4096, contents = []\<rparr>]\<rparr>)"

definition pool_get :: "nat option \<Rightarrow> receiver \<Rightarrow> nat \<times> receiver" where
  "pool_get choice s =
     (case choice of
        Some i \<Rightarrow>
          (if i < length (msgPool s)
           then (msgPool s ! i, s\<lparr>msgPool := take i (msgPool s) @ drop (Suc i) (msgPool s)\<rparr>)
           else new_buffer s)
      | None \<Rightarrow> new_buffer s)"

definition pool_put :: "nat \<Rightarrow> receiver \<Rightarrow> receiver" where
  "pool_put b s = s\<lparr>msgPool := b # msgPool s\<rparr>"

subsection \<open>The receiver's steps\<close>

text \<open>Receiving: a message, or an error of the socket; the buffer goes back when there is nothing to keep.\<close>

definition rx_receive :: "nat option \<Rightarrow> u8 list option \<Rightarrow> receiver \<Rightarrow> receiver" where
  "rx_receive choice msg s =
     (let (b0, s0) = pool_get choice s;
          (b, s1) = (if capacity (buffers s0 ! b0) < 4096 then new_buffer s0 else (b0, s0))
      in case msg of
           None \<Rightarrow> pool_put b s1
         | Some n \<Rightarrow>
             (if capacity (buffers s1 ! b) < length n then pool_put b s1
              else s1\<lparr>buffers := (buffers s1)[b := (buffers s1 ! b)\<lparr>contents := n\<rparr>], rx := RxHolds b\<rparr>))"

definition rx_insert :: "nat \<Rightarrow> receiver \<Rightarrow> receiver" where
  "rx_insert b s =
     (if ring_full (queue s) then (pool_put b s)\<lparr>rx := RxIdle\<rparr>
      else s\<lparr>queue := ring_put b (queue s), rx := RxSignal\<rparr>)"

text \<open>\<open>Signal\<close> wakes one waiting worker, when there is one.\<close>

definition rx_signal :: "nat \<Rightarrow> receiver \<Rightarrow> receiver" where
  "rx_signal w s = s\<lparr>rx := RxIdle, workers := (if Asleep \<in> set (workers s) then (workers s)[w := Ready] else workers s)\<rparr>"

subsection \<open>A worker's steps\<close>

definition worker_look :: "nat \<Rightarrow> receiver \<Rightarrow> receiver" where
  "worker_look w s =
     (if ring_empty (queue s) then s\<lparr>workers := (workers s)[w := Asleep]\<rparr>
      else case ring_take (queue s) of
             (msg, q') \<Rightarrow> s\<lparr>queue := q', workers := (workers s)[w := Working (the msg)]\<rparr>)"

definition worker_process :: "numa_kernel \<Rightarrow> nat \<Rightarrow> nat \<Rightarrow> receiver \<Rightarrow> receiver" where
  "worker_process k w b s =
     (case processMessage k (proc_mem s) (contents (buffers s ! b)) of
        Panics p \<Rightarrow> s\<lparr>crashed := True\<rparr>
      | Fails e \<Rightarrow> (pool_put b s)\<lparr>workers := (workers s)[w := Ready]\<rparr>
      | Returns (mem', sent) \<Rightarrow>
          (pool_put b s)\<lparr>workers := (workers s)[w := Ready], proc_mem := mem', sent_cmds := sent_cmds s @ sent\<rparr>)"

text \<open>
  The steps, labelled with what they do to the stream of messages: a message enters the ring, is
  handed to a worker, or has been processed.
\<close>

datatype label = Accept "u8 list" | HandOver "u8 list" | Handled "u8 list" | Silent

inductive recv_step :: "numa_kernel \<Rightarrow> receiver \<Rightarrow> label \<Rightarrow> receiver \<Rightarrow> bool" for k :: numa_kernel where
  receive: "\<not> crashed s \<Longrightarrow> rx s = RxIdle \<Longrightarrow> recv_step k s Silent (rx_receive choice msg s)"
| insert: "\<not> crashed s \<Longrightarrow> rx s = RxHolds b \<Longrightarrow>
    recv_step k s (if ring_full (queue s) then Silent else Accept (contents (buffers s ! b))) (rx_insert b s)"
| signal: "\<not> crashed s \<Longrightarrow> rx s = RxSignal \<Longrightarrow> w < length (workers s) \<Longrightarrow>
    Asleep \<in> set (workers s) \<longrightarrow> workers s ! w = Asleep \<Longrightarrow> recv_step k s Silent (rx_signal w s)"
| look: "\<not> crashed s \<Longrightarrow> w < length (workers s) \<Longrightarrow> workers s ! w = Ready \<Longrightarrow>
    recv_step k s (if ring_empty (queue s) then Silent
      else HandOver (contents (buffers s ! the (fst (ring_take (queue s)))))) (worker_look w s)"
| process: "\<not> crashed s \<Longrightarrow> w < length (workers s) \<Longrightarrow> workers s ! w = Working b \<Longrightarrow>
    recv_step k s (if is_panic (processMessage k (proc_mem s) (contents (buffers s ! b))) then Silent
      else Handled (contents (buffers s ! b))) (worker_process k w b s)"

inductive_cases recv_stepE: "recv_step k s l s'"

text \<open>The reachable states with the messages accepted, handed over and processed on the way.\<close>

record stream_log =
  accepted :: "u8 list list"
  handed :: "u8 list list"
  handled :: "u8 list list"

fun record_label :: "label \<Rightarrow> stream_log \<Rightarrow> stream_log" where
  "record_label (Accept m) h = h\<lparr>accepted := accepted h @ [m]\<rparr>"
| "record_label (HandOver m) h = h\<lparr>handed := handed h @ [m]\<rparr>"
| "record_label (Handled m) h = h\<lparr>handled := handled h @ [m]\<rparr>"
| "record_label Silent h = h"

inductive recv_reachable :: "numa_kernel \<Rightarrow> memory \<Rightarrow> receiver \<Rightarrow> stream_log \<Rightarrow> bool"
  for k :: numa_kernel and mem :: memory where
  start: "recv_reachable k mem (receiver_start mem) \<lparr>accepted = [], handed = [], handled = []\<rparr>"
| step: "recv_reachable k mem s h \<Longrightarrow> recv_step k s l s' \<Longrightarrow> recv_reachable k mem s' (record_label l h)"

subsection \<open>Opening and closing the socket\<close>

text \<open>
  What \<open>StartZMQReceiver\<close> does before its loop, with the handles it takes and gives back and whether
  it goes on: the deferred calls run when it returns early. The two options may fail without effect.
\<close>

datatype rx_handle = RxContext | RxSocket

definition open_receiver :: "bool \<Rightarrow> bool \<Rightarrow> bool \<Rightarrow> bool \<times> rx_handle entry list" where
  "open_receiver new_context new_socket bound =
     (if \<not> new_context then (False, [])
      else if \<not> new_socket then (False, [Acq RxContext, Rel RxContext])
      else if \<not> bound then (False, [Acq RxContext, Acq RxSocket, Rel RxSocket, Rel RxContext])
      else (True, [Acq RxContext, Acq RxSocket]))"

lemma open_receiver_balanced:
  "fst (open_receiver c n b) \<longleftrightarrow> c \<and> n \<and> b"
  "\<not> fst (open_receiver c n b) \<Longrightarrow> balanced (snd (open_receiver c n b))"
  by (auto simp: open_receiver_def balanced_def)

subsection \<open>Who holds a buffer\<close>

fun rx_held :: "rx_state \<Rightarrow> nat list" where
  "rx_held (RxHolds b) = [b]"
| "rx_held RxIdle = []"
| "rx_held RxSignal = []"

fun worker_held :: "worker \<Rightarrow> nat list" where
  "worker_held (Working b) = [b]"
| "worker_held Ready = []"
| "worker_held Asleep = []"

definition at_work :: "receiver \<Rightarrow> nat list" where
  "at_work s = concat (map worker_held (workers s))"

definition holders :: "receiver \<Rightarrow> nat multiset" where
  "holders s = mset (msgPool s) + mset (ring_items (queue s)) + mset (rx_held (rx s)) + mset (at_work s)"

definition messages_of :: "receiver \<Rightarrow> nat list \<Rightarrow> u8 list list" where
  "messages_of s bs = map (\<lambda>b. contents (buffers s ! b)) bs"

definition pending :: "receiver \<Rightarrow> u8 list list" where
  "pending s = messages_of s (ring_items (queue s))"

text \<open>
  The invariant: every buffer is held once, by the pool, the ring, the receiver or a worker, has
  room for a datagram and holds no more than that.
\<close>

definition recv_inv :: "receiver \<Rightarrow> bool" where
  "recv_inv s \<longleftrightarrow> ring_ok (queue s) \<and> length (workers s) = 4 \<and>
     holders s = mset [0..<length (buffers s)] \<and>
     list_all (\<lambda>b. capacity b = 4096 \<and> length (contents b) \<le> 4096) (buffers s)"

subsection \<open>Every step keeps the buffers apart\<close>

lemma mset_remove_nth: "i < length xs \<Longrightarrow> mset (take i xs @ drop (Suc i) xs) + {#xs ! i#} = mset xs"
  by (metis add.commute add_mset_add_single id_take_nth_drop mset.simps(2) mset_append union_mset_add_mset_right)

definition rest_held :: "receiver \<Rightarrow> nat multiset" where
  "rest_held s = mset (ring_items (queue s)) + mset (at_work s)"

lemma pool_get_spec:
  assumes inv: "recv_inv s" and idle: "rx s = RxIdle" and got: "pool_get choice s = (b, s1)"
  shows "mset (msgPool s1) + {#b#} + rest_held s = mset [0..<length (buffers s1)] \<and>
    queue s1 = queue s \<and> workers s1 = workers s \<and> rx s1 = RxIdle \<and> crashed s1 = crashed s \<and>
    (\<exists>ext. buffers s1 = buffers s @ ext \<and> list_all (\<lambda>b. capacity b = 4096 \<and> length (contents b) \<le> 4096) ext)"
proof (cases "\<exists>i. choice = Some i \<and> i < length (msgPool s)")
  case True
  then obtain i where i: "choice = Some i" "i < length (msgPool s)" by blast
  then have "b = msgPool s ! i" "s1 = s\<lparr>msgPool := take i (msgPool s) @ drop (Suc i) (msgPool s)\<rparr>"
    using got by (simp_all add: pool_get_def)
  then show ?thesis
    using inv idle mset_remove_nth [OF i(2)]
    by (simp add: recv_inv_def holders_def rest_held_def at_work_def ac_simps)
next
  case False
  then have "b = length (buffers s)" "s1 = s\<lparr>buffers := buffers s @ [\<lparr>capacity = 4096, contents = []\<rparr>]\<rparr>"
    using got by (auto simp: pool_get_def new_buffer_def split: option.splits if_splits)
  then show ?thesis
    using inv idle by (simp add: recv_inv_def holders_def rest_held_def at_work_def ac_simps)
qed

lemma messages_of_append:
  "\<forall>b \<in> set bs. b < length (buffers s) \<Longrightarrow> buffers s' = buffers s @ ext \<Longrightarrow> messages_of s' bs = messages_of s bs"
  by (simp add: messages_of_def nth_append)

lemma messages_of_update:
  "b \<notin> set bs \<Longrightarrow> buffers s' = (buffers s)[b := x] \<Longrightarrow> messages_of s' bs = messages_of s bs"
  by (auto simp: messages_of_def intro!: arg_cong [of _ _ contents] nth_list_update_neq)

lemma holder_bound: "recv_inv s \<Longrightarrow> b \<in># holders s \<Longrightarrow> b < length (buffers s)"
  by (simp add: recv_inv_def)

lemma rest_held_bound: "recv_inv s \<Longrightarrow> b \<in># rest_held s \<Longrightarrow> b < length (buffers s)"
  by (rule holder_bound) (auto simp: holders_def rest_held_def)

definition same_stream :: "receiver \<Rightarrow> receiver \<Rightarrow> bool" where
  "same_stream s s' \<longleftrightarrow> pending s' = pending s \<and> messages_of s' (at_work s') = messages_of s (at_work s)"

lemma inv_of_parts:
  "ring_ok (queue s) \<Longrightarrow> length (workers s) = 4 \<Longrightarrow> holders s = mset [0..<length (buffers s)] \<Longrightarrow>
   list_all (\<lambda>b. capacity b = 4096 \<and> length (contents b) \<le> 4096) (buffers s) \<Longrightarrow> recv_inv s"
  by (simp add: recv_inv_def)

lemma rx_receive_inv:
  assumes inv: "recv_inv s" and idle: "rx s = RxIdle"
  shows "recv_inv (rx_receive choice msg s) \<and> same_stream s (rx_receive choice msg s)"
proof -
  obtain b s1 where got: "pool_get choice s = (b, s1)" by force
  from pool_get_spec [OF inv idle got] obtain ext where
    held: "mset (msgPool s1) + {#b#} + rest_held s = mset [0..<length (buffers s1)]" and
    same: "queue s1 = queue s" "workers s1 = workers s" "rx s1 = RxIdle" and
    ext: "buffers s1 = buffers s @ ext" "list_all (\<lambda>b. capacity b = 4096 \<and> length (contents b) \<le> 4096) ext"
    by blast
  have rest: "rest_held s1 = rest_held s" using same by (simp add: rest_held_def at_work_def)
  have b_in: "b \<in># mset [0..<length (buffers s1)]" unfolding held [symmetric] by simp
  then have b: "b < length (buffers s1)" by simp
  have "count (mset [0..<length (buffers s1)]) b = 1"
    using distinct_count_atmost_1 [of "[0..<length (buffers s1)]"] b by (simp del: mset_upt)
  then have b_free: "b \<notin># rest_held s" unfolding held [symmetric] by (simp add: not_in_iff)
  have caps: "list_all (\<lambda>b. capacity b = 4096 \<and> length (contents b) \<le> 4096) (buffers s1)"
    using inv ext by (simp add: recv_inv_def)
  then have cap: "capacity (buffers s1 ! b) = 4096" using b by (simp add: list_all_length)
  have ring: "ring_ok (queue s)" "length (workers s) = 4" using inv by (simp_all add: recv_inv_def)
  have stream: "same_stream s s'" if "queue s' = queue s" "workers s' = workers s"
    "buffers s' = buffers s1 \<or> buffers s' = (buffers s1)[b := x]" for s' x
  proof -
    have "messages_of s' bs = messages_of s bs" if "set bs \<subseteq> set_mset (rest_held s)" for bs
    proof -
      have "messages_of s1 bs = messages_of s bs"
        using that rest_held_bound [OF inv] by (intro messages_of_append [OF _ ext(1)]) auto
      moreover have nb: "b \<notin> set bs" using that b_free by blast
      have "messages_of s' bs = messages_of s1 bs"
        using \<open>buffers s' = buffers s1 \<or> _\<close> messages_of_update [OF nb, of s' s1 x] by (auto simp: messages_of_def)
      ultimately show ?thesis by simp
    qed
    then show ?thesis using that(1,2) by (simp add: same_stream_def pending_def rest_held_def at_work_def)
  qed
  show ?thesis
  proof (cases "\<exists>n. msg = Some n \<and> length n \<le> 4096")
    case True
    then obtain n where n: "msg = Some n" "length n \<le> 4096" by blast
    have r: "rx_receive choice msg s =
        s1\<lparr>buffers := (buffers s1)[b := (buffers s1 ! b)\<lparr>contents := n\<rparr>], rx := RxHolds b\<rparr>"
      using got cap n by (simp add: rx_receive_def)
    have "recv_inv (rx_receive choice msg s)"
      unfolding r using ring same held rest caps cap n
      by (intro inv_of_parts) (auto simp: holders_def rest_held_def at_work_def ac_simps list_all_iff dest!: subsetD [OF set_update_subset_insert])
    moreover have "same_stream s (rx_receive choice msg s)"
      unfolding r by (rule stream [where x = "(buffers s1 ! b)\<lparr>contents := n\<rparr>"]) (simp_all add: same)
    ultimately show ?thesis ..
  next
    case False
    then have r: "rx_receive choice msg s = pool_put b s1"
      using got cap by (cases msg) (auto simp: rx_receive_def)
    have "recv_inv (pool_put b s1)"
      using ring same held rest caps
      by (intro inv_of_parts) (simp_all add: holders_def pool_put_def rest_held_def at_work_def ac_simps)
    moreover have "same_stream s (pool_put b s1)"
      by (rule stream) (simp_all add: same pool_put_def)
    ultimately show ?thesis unfolding r ..
  qed
qed

lemma ring_put_items: "ring_ok q \<Longrightarrow> \<not> ring_full q \<Longrightarrow> ring_ok (ring_put b q) \<and> ring_items (ring_put b q) = ring_items q @ [b]"
  by (rule ringq.put_items)

lemma at_work_update:
  assumes "w < length ws"
  shows "mset (concat (map worker_held (ws[w := x]))) + mset (worker_held (ws ! w)) =
    mset (concat (map worker_held ws)) + mset (worker_held x)"
  using assms
proof (induction ws arbitrary: w)
  case (Cons y ws)
  then show ?case by (cases w) (simp_all add: ac_simps)
qed simp

text \<open>The same for any function of the buffers held.\<close>

lemma mset_messages_of: "mset xs = mset ys \<Longrightarrow> mset (messages_of s xs) = mset (messages_of s ys)"
  by (simp add: messages_of_def)

lemma rx_insert_inv:
  assumes inv: "recv_inv s" and holds: "rx s = RxHolds b"
  shows "recv_inv (rx_insert b s) \<and> messages_of (rx_insert b s) (at_work (rx_insert b s)) = messages_of s (at_work s) \<and>
    pending (rx_insert b s) = (if ring_full (queue s) then pending s else pending s @ [contents (buffers s ! b)])"
proof -
  have ok: "ring_ok (queue s)" using inv by (simp add: recv_inv_def)
  show ?thesis
  proof (cases "ring_full (queue s)")
    case True
    then show ?thesis
      using inv holds
      by (simp add: rx_insert_def recv_inv_def holders_def at_work_def pool_put_def pending_def messages_of_def ac_simps)
  next
    case False
    then show ?thesis
      using inv holds ring_put_items [OF ok False, of b]
      by (simp add: rx_insert_def recv_inv_def holders_def at_work_def pending_def messages_of_def ac_simps)
  qed
qed

lemma rx_signal_inv:
  assumes inv: "recv_inv s" and "rx s = RxSignal" and w: "w < length (workers s)"
    and asleep: "Asleep \<in> set (workers s) \<longrightarrow> workers s ! w = Asleep"
  shows "recv_inv (rx_signal w s) \<and> pending (rx_signal w s) = pending s \<and>
    mset (at_work (rx_signal w s)) = mset (at_work s) \<and> buffers (rx_signal w s) = buffers s"
  using inv assms(2) at_work_update [OF w, of Ready] asleep
  by (auto simp: rx_signal_def recv_inv_def holders_def at_work_def pending_def messages_of_def)

lemma worker_look_inv:
  assumes inv: "recv_inv s" and w: "w < length (workers s)" and ready: "workers s ! w = Ready"
  shows "recv_inv (worker_look w s) \<and> buffers (worker_look w s) = buffers s \<and>
    (if ring_empty (queue s) then pending (worker_look w s) = pending s \<and> mset (at_work (worker_look w s)) = mset (at_work s)
     else \<exists>b. fst (ring_take (queue s)) = Some b \<and> pending s = contents (buffers s ! b) # pending (worker_look w s) \<and>
       mset (at_work (worker_look w s)) = add_mset b (mset (at_work s)))"
proof -
  have ok: "ring_ok (queue s)" using inv by (simp add: recv_inv_def)
  show ?thesis
  proof (cases "ring_items (queue s)")
    case Nil
    then have "ring_empty (queue s)" using ringq.is_empty_items [OF ok] by simp
    then show ?thesis
      using inv at_work_update [OF w, of Asleep] ready
      by (simp add: worker_look_def recv_inv_def holders_def at_work_def pending_def messages_of_def)
  next
    case (Cons b bs)
    obtain q' where t: "ring_take (queue s) = (Some b, q')" "ring_ok q'" "ring_items q' = bs"
      using ringq.take_items [OF ok Cons] by (cases "ring_take (queue s)") auto
    have "\<not> ring_empty (queue s)" using ringq.is_empty_items [OF ok] Cons by simp
    then show ?thesis
      using inv at_work_update [OF w, of "Working b"] ready t Cons
      by (simp add: worker_look_def recv_inv_def holders_def at_work_def pending_def messages_of_def ac_simps)
  qed
qed

lemma worker_process_inv:
  assumes inv: "recv_inv s" and w: "w < length (workers s)" and busy: "workers s ! w = Working b"
  shows "recv_inv (worker_process k w b s) \<and> buffers (worker_process k w b s) = buffers s \<and>
    pending (worker_process k w b s) = pending s \<and>
    mset (at_work s) = mset (at_work (worker_process k w b s)) +
      (if is_panic (processMessage k (proc_mem s) (contents (buffers s ! b))) then {#} else {#b#})"
proof -
  have upd: "mset (concat (map worker_held (workers s))) =
      add_mset b (mset (concat (map worker_held ((workers s)[w := Ready]))))"
    using at_work_update [OF w, of Ready] busy by simp
  show ?thesis using inv upd busy
  by (cases "processMessage k (proc_mem s) (contents (buffers s ! b))")
    (auto simp: worker_process_def recv_inv_def holders_def at_work_def pending_def messages_of_def pool_put_def ac_simps)
qed

subsection \<open>Streams\<close>

lemma start_inv: "recv_inv (receiver_start mem)"
  using ringq.invar_new ringq.items_new
  by (simp add: recv_inv_def receiver_start_def holders_def at_work_def numeral_eq_Suc)

lemma start_stream: "pending (receiver_start mem) = []" "at_work (receiver_start mem) = []"
  using ringq.items_new
  by (simp_all add: pending_def messages_of_def receiver_start_def at_work_def numeral_eq_Suc)

definition stream_inv :: "receiver \<Rightarrow> stream_log \<Rightarrow> bool" where
  "stream_inv s h \<longleftrightarrow> accepted h = handed h @ pending s \<and>
     mset (handed h) = mset (handled h) + mset (messages_of s (at_work s)) \<and>
     list_all (\<lambda>m. length m \<le> 4096) (accepted h)"

lemma mset_messages_cong:
  "buffers s' = buffers s \<Longrightarrow> mset bs' = mset bs + M \<Longrightarrow> 
     mset (messages_of s' bs') = mset (messages_of s bs) + image_mset (\<lambda>b. contents (buffers s ! b)) M"
  by (simp add: messages_of_def)

lemma contents_bound: "recv_inv s \<Longrightarrow> b \<in># holders s \<Longrightarrow> length (contents (buffers s ! b)) \<le> 4096"
  using holder_bound [of s b] by (simp add: recv_inv_def list_all_length)

lemma step_stream:
  assumes inv: "recv_inv s" and stream: "stream_inv s h" and step: "recv_step k s l s'"
  shows "recv_inv s' \<and> stream_inv s' (record_label l h)"
  using step
proof (cases rule: recv_step.cases)
  case (receive choice msg)
  then show ?thesis
    using rx_receive_inv [OF inv, of choice msg] stream by (auto simp: same_stream_def stream_inv_def)
next
  case (insert b)
  have "length (contents (buffers s ! b)) \<le> 4096"
    by (rule contents_bound [OF inv]) (simp add: holders_def insert)
  then show ?thesis
    using insert rx_insert_inv [OF inv, of b] stream by (auto simp: stream_inv_def)
next
  case (signal w)
  from rx_signal_inv [OF inv signal(4-6)] have
    "mset (messages_of s' (at_work s')) = mset (messages_of s (at_work s))" "recv_inv s'" "pending s' = pending s"
    using mset_messages_cong [of s' s "at_work s'" "at_work s" "{#}"] by (simp_all add: signal)
  then show ?thesis using stream signal(1) by (auto simp: stream_inv_def)
next
  case (look w)
  note spec = worker_look_inv [OF inv look(4,5)]
  show ?thesis
  proof (cases "ring_empty (queue s)")
    case True
    then have "mset (messages_of s' (at_work s')) = mset (messages_of s (at_work s))"
      using spec mset_messages_cong [of s' s "at_work s'" "at_work s" "{#}"] by (simp add: look)
    then show ?thesis using spec stream True look by (auto simp: stream_inv_def)
  next
    case False
    then obtain b where b: "fst (ring_take (queue s)) = Some b" "pending s = contents (buffers s ! b) # pending s'"
      "mset (at_work s') = mset (at_work s) + {#b#}" "buffers s' = buffers s"
      using spec by (auto simp: look)
    have "mset (messages_of s' (at_work s')) = mset (messages_of s (at_work s)) + {#contents (buffers s ! b)#}"
      using mset_messages_cong [OF b(4,3)] by simp
    then show ?thesis using spec stream False b(1,2) look by (auto simp: stream_inv_def)
  qed
next
  case (process w b)
  note spec = worker_process_inv [OF inv process(4,5), of k]
  show ?thesis
  proof (cases "is_panic (processMessage k (proc_mem s) (contents (buffers s ! b)))")
    case True
    then have "mset (messages_of s (at_work s)) = mset (messages_of s' (at_work s'))"
      using spec mset_messages_cong [of s s' "at_work s" "at_work s'" "{#}"] by (simp add: process)
    then show ?thesis using spec stream True process by (auto simp: stream_inv_def)
  next
    case False
    then have "mset (messages_of s (at_work s)) = mset (messages_of s' (at_work s')) + {#contents (buffers s ! b)#}"
      using spec mset_messages_cong [of s s' "at_work s" "at_work s'" "{#b#}"] by (simp add: process)
    then show ?thesis using spec stream False process by (auto simp: stream_inv_def)
  qed
qed

lemma reachable_stream: "recv_reachable k mem s h \<Longrightarrow> recv_inv s \<and> stream_inv s h"
proof (induction rule: recv_reachable.induct)
  case start
  show ?case by (simp add: start_inv stream_inv_def start_stream messages_of_def)
next
  case (step s h l s')
  then show ?case using step_stream by blast
qed

subsection \<open>Progress\<close>

definition awake :: "receiver \<Rightarrow> bool" where
  "awake s \<longleftrightarrow> pending s = [] \<or> rx s = RxSignal \<or> (\<exists>w < length (workers s). workers s ! w \<noteq> Asleep)"

lemma step_awake:
  assumes inv: "recv_inv s" and aw: "awake s" and step: "recv_step k s l s'"
  shows "awake s'"
  using step
proof (cases rule: recv_step.cases)
  case (receive choice msg)
  have w: "workers s' = workers s"
    by (auto simp: receive(2) rx_receive_def pool_get_def new_buffer_def pool_put_def Let_def
        split: option.splits prod.splits if_splits)
  have "pending s' = pending s"
    using rx_receive_inv [OF inv receive(4), of choice msg] by (simp add: same_stream_def receive)
  then show ?thesis using aw receive(4) unfolding awake_def w by auto
next
  case (insert b)
  then show ?thesis
    using aw rx_insert_inv [OF inv, of b] by (auto simp: awake_def rx_insert_def pool_put_def)
next
  case (signal w)
  then have "workers s' ! w \<noteq> Asleep" "w < length (workers s')"
    by (auto simp: rx_signal_def in_set_conv_nth)
  then show ?thesis by (auto simp: awake_def)
next
  case (look w)
  show ?thesis
  proof (cases "ring_empty (queue s)")
    case True
    then have "pending s = []"
      using inv ringq.is_empty_items [of "queue s"] by (simp add: recv_inv_def pending_def messages_of_def)
    then show ?thesis using worker_look_inv [OF inv look(4,5)] True by (simp add: awake_def look)
  next
    case False
    then have "workers s' ! w \<noteq> Asleep" "w < length (workers s')"
      using look by (auto simp: worker_look_def split: prod.splits)
    then show ?thesis by (auto simp: awake_def)
  qed
next
  case (process w b)
  then have "workers s' ! w \<noteq> Asleep" "w < length (workers s')"
    by (auto simp: worker_process_def pool_put_def split: go.splits)
  then show ?thesis by (auto simp: awake_def)
qed

lemma reachable_awake: "recv_reachable k mem s h \<Longrightarrow> awake s"
proof (induction rule: recv_reachable.induct)
  case start
  show ?case by (simp add: awake_def start_stream)
next
  case (step s h l s')
  then show ?case using step_awake reachable_stream by blast
qed

text \<open>
  What the server does of its own accord, without a datagram or an error from the socket: all steps
  but receiving.
\<close>

inductive own_step :: "numa_kernel \<Rightarrow> receiver \<Rightarrow> receiver \<Rightarrow> bool" for k :: numa_kernel where
  own_insert: "\<not> crashed s \<Longrightarrow> rx s = RxHolds b \<Longrightarrow> own_step k s (rx_insert b s)"
| own_signal: "\<not> crashed s \<Longrightarrow> rx s = RxSignal \<Longrightarrow> w < length (workers s) \<Longrightarrow>
    Asleep \<in> set (workers s) \<longrightarrow> workers s ! w = Asleep \<Longrightarrow> own_step k s (rx_signal w s)"
| own_look: "\<not> crashed s \<Longrightarrow> w < length (workers s) \<Longrightarrow> workers s ! w = Ready \<Longrightarrow> own_step k s (worker_look w s)"
| own_process: "\<not> crashed s \<Longrightarrow> w < length (workers s) \<Longrightarrow> workers s ! w = Working b \<Longrightarrow>
    own_step k s (worker_process k w b s)"

lemma own_step_recv: "own_step k s s' \<Longrightarrow> \<exists>l. recv_step k s l s'"
  by (induction rule: own_step.induct) (blast intro: recv_step.intros)+

lemma recv_step_own: "recv_step k s l s' \<Longrightarrow> own_step k s s' \<or> (\<exists>choice msg. rx s = RxIdle \<and> s' = rx_receive choice msg s)"
  by (induction rule: recv_step.induct) (blast intro: own_step.intros)+

lemma reachable_own_step: "recv_reachable k mem s h \<Longrightarrow> own_step k s s' \<Longrightarrow> \<exists>h'. recv_reachable k mem s' h'"
  using own_step_recv recv_reachable.step by metis

text \<open>Every such step leaves less to do.\<close>

fun worker_todo :: "worker \<Rightarrow> nat" where
  "worker_todo Asleep = 0"
| "worker_todo Ready = 1"
| "worker_todo (Working b) = 2"

fun rx_todo :: "rx_state \<Rightarrow> nat" where
  "rx_todo RxIdle = 0"
| "rx_todo RxSignal = 2"
| "rx_todo (RxHolds b) = 6"

definition todo :: "receiver \<Rightarrow> nat" where
  "todo s = 3 * length (pending s) + rx_todo (rx s) + sum_list (map worker_todo (workers s)) + (if crashed s then 0 else 1)"

lemma todo_update:
  "w < length ws \<Longrightarrow> sum_list (map worker_todo (ws[w := x])) + worker_todo (ws ! w) = sum_list (map worker_todo ws) + worker_todo x"
proof (induction ws arbitrary: w)
  case (Cons a ws)
  then show ?case by (cases w) (auto simp: add.assoc add.left_commute)
qed simp

lemma own_step_less:
  assumes inv: "recv_inv s" and step: "own_step k s s'"
  shows "todo s' < todo s"
  using step
proof (cases rule: own_step.cases)
  case (own_insert b)
  then show ?thesis
    using rx_insert_inv [OF inv own_insert(3)] by (auto simp: todo_def rx_insert_def pool_put_def)
next
  case (own_signal w)
  have "pending (rx_signal w s) = pending s" using rx_signal_inv [OF inv own_signal(3-5)] by simp
  moreover have "sum_list (map worker_todo (workers (rx_signal w s))) \<le> sum_list (map worker_todo (workers s)) + 1"
    using todo_update [OF own_signal(4), of Ready] by (simp add: rx_signal_def)
  ultimately show ?thesis using own_signal by (simp add: todo_def rx_signal_def)
next
  case (own_look w)
  show ?thesis
  proof (cases "ring_empty (queue s)")
    case True
    then show ?thesis
      using worker_look_inv [OF inv own_look(3,4)] todo_update [OF own_look(3), of Asleep] own_look
      by (simp add: todo_def worker_look_def)
  next
    case False
    then have "length (pending s) = Suc (length (pending (worker_look w s)))"
      using worker_look_inv [OF inv own_look(3,4)] by auto
    moreover obtain m q where taken: "ring_take (queue s) = (m, q)" by (cases "ring_take (queue s)")
    then have "workers (worker_look w s) = (workers s)[w := Working (the m)]"
      "rx (worker_look w s) = rx s" "crashed (worker_look w s) = crashed s"
      using False by (simp_all add: worker_look_def)
    ultimately show ?thesis
      using todo_update [OF own_look(3), of "Working (the m)"] own_look(1,4) by (simp add: todo_def)
  qed
next
  case (own_process w b)
  have "pending s' = pending s" using worker_process_inv [OF inv own_process(3,4)] own_process(1) by simp
  then show ?thesis
    using todo_update [OF own_process(3), of Ready] own_process
    by (auto simp: todo_def worker_process_def pool_put_def split: go.splits)
qed

lemma todo_bound: "recv_inv s \<Longrightarrow> todo s \<le> 3 * length (pending s) + 15"
proof -
  assume inv: "recv_inv s"
  have "sum_list (map worker_todo ws) \<le> 2 * length ws" for ws
  proof (induction ws)
    case (Cons a ws)
    then show ?case by (cases a) auto
  qed simp
  from this [of "workers s"] have "sum_list (map worker_todo (workers s)) \<le> 8" using inv by (simp add: recv_inv_def)
  moreover have "rx_todo (rx s) \<le> 6" by (cases "rx s") auto
  ultimately show ?thesis by (simp add: todo_def)
qed

lemma own_run:
  "recv_reachable k mem s h \<Longrightarrow> (own_step k ^^ n) s s' \<Longrightarrow> n + todo s' \<le> todo s \<and> (\<exists>h'. recv_reachable k mem s' h')"
proof (induction n arbitrary: s')
  case (Suc n)
  then obtain t where t: "(own_step k ^^ n) s t" "own_step k t s'" by auto
  from Suc.IH [OF Suc.prems(1) t(1)] obtain h' where h': "recv_reachable k mem t h'" "n + todo t \<le> todo s" by blast
  then have "todo s' < todo t" using own_step_less t(2) reachable_stream by blast
  then show ?case using h' reachable_own_step [OF h'(1) t(2)] by auto
qed auto

text \<open>When no step is left, no one sleeps on a message.\<close>

lemma stuck_is_done:
  assumes reach: "recv_reachable k mem s h" and stuck: "\<And>s'. \<not> own_step k s s'" and live: "\<not> crashed s"
  shows "rx s = RxIdle \<and> at_work s = [] \<and> pending s = []"
proof -
  have asleep: "workers s ! w = Asleep" if "w < length (workers s)" for w
    using stuck own_step.own_look [OF live that] own_step.own_process [OF live that] by (metis worker.exhaust)
  have len: "length (workers s) = 4" using reachable_stream [OF reach] by (simp add: recv_inv_def)
  have idle: "rx s = RxIdle"
  proof (cases "rx s")
    case (RxHolds b)
    then show ?thesis using stuck own_step.own_insert [OF live] by blast
  next
    case RxSignal
    then show ?thesis using stuck own_step.own_signal [OF live RxSignal, of 0] asleep len by auto
  qed
  moreover have "workers s = replicate 4 Asleep" using asleep len by (simp add: list_eq_iff_nth_eq)
  then have "at_work s = []" by (simp add: at_work_def numeral_eq_Suc)
  moreover have "pending s = []" using reachable_awake [OF reach] idle asleep by (auto simp: awake_def)
  ultimately show ?thesis by blast
qed

subsection \<open>Panics\<close>

lemma processMessage_panics_iff:
  "is_panic (processMessage k mem m) \<longleftrightarrow>
     (let hd = read_header (take headerSize m) in headerSize \<le> length m \<and> Operation hd = 1 \<and> HdrDataSize hd = 0 \<and>
        GetAddressNode k (DstDevice hd) = fst (GetCurrentNode (own_affinity k)))"
proof -
  define hd where "hd = read_header (take headerSize m)"
  define payload where "payload = take (unat (HdrDataSize hd)) (drop headerSize m)"
  have "unat (HdrDataSize hd) < 2 ^ LENGTH(32)" by (rule unsigned_less)
  then have up: "unat (ucast (HdrDataSize hd) :: u64) = unat (HdrDataSize hd)"
    by (simp add: unsigned_ucast_eq take_bit_nat_eq_self)
  have op: "uint (Operation hd) = MEMCPY_OPERATION \<longleftrightarrow> Operation hd = 1"
    by (simp add: MEMCPY_OPERATION_def word_uint_eq_iff)
  have route: "is_panic (RouteMemoryAccess k mem (DstDevice hd) (ucast (HdrDataSize hd)) (uint (Operation hd)) payload) \<longleftrightarrow>
      Operation hd = 1 \<and> HdrDataSize hd = 0 \<and> GetAddressNode k (DstDevice hd) = fst (GetCurrentNode (own_affinity k))"
    if "headerSize + unat (HdrDataSize hd) \<le> length m"
  proof -
    have "length payload = unat (HdrDataSize hd)" using that by (simp add: payload_def)
    then have "payload = [] \<longleftrightarrow> HdrDataSize hd = 0" by (metis length_0_conv unat_eq_zero)
    with \<open>length payload = _\<close> show ?thesis
      by (auto simp: RouteMemoryAccess_def accessViaXBus_def accessViaRemote_def op up Let_def
          split: option.splits list.splits)
  qed
  have wrap: "is_panic (go_wrap f r) \<longleftrightarrow> is_panic r" for f :: "'e \<Rightarrow> 'f" and r :: "('e, 'a) go" by (cases r) simp_all
  show ?thesis
    using route by (auto simp: processMessage_def Let_def wrap simp flip: hd_def payload_def)
qed

text \<open>The first message of a new receiver, up to the worker that has it.\<close>

definition after_first :: "memory \<Rightarrow> u8 list \<Rightarrow> receiver" where
  "after_first mem m = worker_look 0 (rx_insert 0 (rx_receive None (Some m) (receiver_start mem)))"

lemma first_message:
  assumes "length m \<le> 4096"
  shows "recv_reachable k mem (after_first mem m) \<lparr>accepted = [m], handed = [m], handled = []\<rparr> \<and>
    \<not> crashed (after_first mem m) \<and> 0 < length (workers (after_first mem m)) \<and>
    workers (after_first mem m) ! 0 = Working 0 \<and> buffers (after_first mem m) = [\<lparr>capacity = 4096, contents = m\<rparr>] \<and>
    proc_mem (after_first mem m) = mem"
proof -
  define s0 where "s0 = receiver_start mem"
  define s1 where "s1 = rx_receive None (Some m) s0"
  define s2 where "s2 = rx_insert 0 s1"
  have s1: "s1 = s0\<lparr>buffers := [\<lparr>capacity = 4096, contents = m\<rparr>], rx := RxHolds 0\<rparr>"
    using assms by (simp add: s1_def s0_def rx_receive_def pool_get_def new_buffer_def receiver_start_def)
  have nf: "\<not> ring_full (ring_new :: nat ring)" by (simp add: ring_full_def ring_new_def ringSize_def)
  have q1: "queue s1 = ring_new" "\<not> crashed s1" "rx s1 = RxHolds 0" by (simp_all add: s1 s0_def receiver_start_def)
  have s2: "s2 = s1\<lparr>queue := ring_put 0 ring_new, rx := RxSignal\<rparr>"
    using nf q1 by (simp add: s2_def rx_insert_def)
  have items: "ring_ok (ring_put (0 :: nat) ring_new)" "ring_items (ring_put (0 :: nat) ring_new) = [0]"
    using ringq.put_items [OF ringq.invar_new nf, of 0] ringq.items_new by auto
  obtain q where t: "ring_take (ring_put (0 :: nat) ring_new) = (Some 0, q)"
    using ringq.take_items [OF items] by (cases "ring_take (ring_put (0 :: nat) ring_new)") auto
  have ne: "\<not> ring_empty (ring_put (0 :: nat) ring_new)" using ringq.is_empty_items [OF items(1)] items(2) by simp
  have w2: "workers s2 = [Ready, Ready, Ready, Ready]" "buffers s2 = [\<lparr>capacity = 4096, contents = m\<rparr>]" "\<not> crashed s2"
    "queue s2 = ring_put 0 ring_new"
    by (simp_all add: s2 s1 s0_def receiver_start_def numeral_eq_Suc)
  have s3: "after_first mem m = s2\<lparr>queue := q, workers := [Working 0, Ready, Ready, Ready]\<rparr>"
    using t ne w2 by (simp add: after_first_def worker_look_def flip: s0_def s1_def s2_def)
  have "recv_reachable k mem s0 \<lparr>accepted = [], handed = [], handled = []\<rparr>"
    unfolding s0_def by (rule recv_reachable.start)
  moreover have "recv_step k s0 Silent s1"
    unfolding s1_def by (rule recv_step.receive) (simp_all add: s0_def receiver_start_def)
  ultimately have r1: "recv_reachable k mem s1 \<lparr>accepted = [], handed = [], handled = []\<rparr>"
    using recv_reachable.step by fastforce
  have "recv_step k s1 (Accept m) s2"
  proof -
    have "contents (buffers s1 ! 0) = m" by (simp add: s1)
    then show ?thesis using recv_step.insert [OF q1(2,3), of k] nf q1(1) by (simp flip: s2_def)
  qed
  from recv_reachable.step [OF r1 this] have r2: "recv_reachable k mem s2 \<lparr>accepted = [m], handed = [], handled = []\<rparr>" by simp
  have "recv_step k s2 (HandOver m) (worker_look 0 s2)"
    using recv_step.look [OF w2(3), of 0 k] ne t w2 by simp
  then have "recv_step k s2 (HandOver m) (after_first mem m)"
    by (simp add: after_first_def s2_def s1_def s0_def)
  from recv_reachable.step [OF r2 this] show ?thesis
    using w2 by (simp add: s3) (simp add: s2 s1 s0_def receiver_start_def)
qed

lemma le_nat_zeros [simp]: "le_nat (replicate n 0) = 0"
  by (induction n) (simp_all add: le_nat_def)

subsection \<open>Properties\<close>

text \<open>
  C7. In every reachable state of the receiver every buffer is held exactly once, by the pool, the
  ring, the receiver or one worker. The messages accepted are those handed to workers, in the same
  order, followed by those that wait; what was handed over is, message by message, what was processed
  or is being processed, unaltered; at most 1023 messages wait, and none is longer than 4096 bytes.
\<close>

theorem messages_are_kept_whole_and_in_order:
  assumes "recv_reachable k mem s h"
  shows "holders s = mset [0..<length (buffers s)] \<and> accepted h = handed h @ pending s \<and>
    mset (handed h) = mset (handled h) + mset (messages_of s (at_work s)) \<and>
    length (pending s) \<le> 1023 \<and> list_all (\<lambda>m. length m \<le> 4096) (accepted h)"
  using reachable_stream [OF assms] ringq.bounded [of "queue s"]
  by (auto simp: stream_inv_def recv_inv_def pending_def messages_of_def ringSize_def)

theorem messages_are_kept_whole_and_in_order_witness:
  "holders (after_first Map.empty [1, 2]) = {#0#}"
proof -
  have "recv_reachable (small_kernel {0}) Map.empty (after_first Map.empty [1, 2])
      \<lparr>accepted = [[1, 2]], handed = [[1, 2]], handled = []\<rparr>"
    using first_message [of "[1, 2]"] by simp
  from messages_are_kept_whole_and_in_order [OF this] show ?thesis
    using first_message [of "[1, 2]" "small_kernel {0}" Map.empty] by simp
qed

text \<open>
  C30. No wake-up is lost and nothing is left lying: between two datagrams the receiver and the workers
  can make only so many steps, in whatever order they run, and when none of them can go on, either
  the process has ended, or no message waits, none is held by a worker, and the receiver listens.
\<close>

theorem waiting_messages_are_taken:
  assumes "recv_reachable k mem s h" and "(own_step k ^^ n) s s'"
  shows "n \<le> 3 * length (pending s) + 15 \<and>
    ((\<exists>s''. own_step k s' s'') \<or> crashed s' \<or> (rx s' = RxIdle \<and> at_work s' = [] \<and> pending s' = []))"
proof -
  obtain h' where "n + todo s' \<le> todo s" "recv_reachable k mem s' h'" using own_run [OF assms] by blast
  moreover have "todo s \<le> 3 * length (pending s) + 15" using todo_bound reachable_stream [OF assms(1)] by blast
  ultimately show ?thesis using stuck_is_done [of k mem s' h'] by auto
qed

theorem waiting_messages_are_taken_witness:
  "\<exists>s'. own_step (small_kernel {0}) (after_first Map.empty [1, 2]) s' \<and>
     ((\<exists>s''. own_step (small_kernel {0}) s' s'') \<or> crashed s' \<or> (rx s' = RxIdle \<and> at_work s' = [] \<and> pending s' = []))"
proof -
  let ?s = "after_first Map.empty [1, 2 :: u8]"
  let ?t = "worker_process (small_kernel {0}) 0 0 ?s"
  note f = first_message [of "[1, 2]" "small_kernel {0}" Map.empty]
  have one: "own_step (small_kernel {0}) ?s ?t" using f by (intro own_step.own_process) auto
  have "(own_step (small_kernel {0}) ^^ 1) ?s ?t" unfolding relpowp_1 by (rule one)
  from waiting_messages_are_taken [OF _ this] f show ?thesis using one by (intro exI [of _ ?t]) auto
qed

text \<open>
  A server only ever ends by a message that announces a copy of no bytes.
\<close>

lemma crash_is_an_empty_copy:
  "recv_reachable k mem s h \<Longrightarrow> crashed s \<Longrightarrow>
     \<exists>m \<in> set (accepted h). headerSize \<le> length m \<and> Operation (read_header (take headerSize m)) = 1 \<and>
       HdrDataSize (read_header (take headerSize m)) = 0"
proof (induction rule: recv_reachable.induct)
  case start
  then show ?case by (simp add: receiver_start_def)
next
  case (step s h l s')
  have grows: "set (accepted h) \<subseteq> set (accepted (record_label l h))" by (cases l) auto
  show ?case
    using step.hyps(2)
  proof (cases rule: recv_step.cases)
    case (process w b)
    show ?thesis
    proof (cases "is_panic (processMessage k (proc_mem s) (contents (buffers s ! b)))")
      case True
      have st: "stream_inv s h" using reachable_stream [OF step.hyps(1)] by simp
      have "b \<in> set (at_work s)" using process(4,5) by (force simp: at_work_def in_set_conv_nth)
      then have "contents (buffers s ! b) \<in># mset (messages_of s (at_work s))" by (simp add: messages_of_def)
      then have "contents (buffers s ! b) \<in># mset (handed h)" using st by (simp add: stream_inv_def)
      then have "contents (buffers s ! b) \<in> set (accepted h)" using st by (simp add: stream_inv_def)
      then show ?thesis using True grows by (auto simp: processMessage_panics_iff Let_def)
    next
      case False
      then have "crashed s' = crashed s"
        by (auto simp: process(2) worker_process_def pool_put_def split: go.splits)
      then show ?thesis using step.IH step.prems grows by blast
    qed
  next
    case (receive choice msg)
    then show ?thesis using step.prems
      by (auto simp: rx_receive_def pool_get_def new_buffer_def pool_put_def Let_def split: option.splits prod.splits if_splits)
  next
    case (insert b)
    then show ?thesis using step.prems by (auto simp: rx_insert_def pool_put_def split: if_splits)
  next
    case (signal w)
    then show ?thesis using step.prems by (auto simp: rx_signal_def)
  next
    case (look w)
    then show ?thesis using step.prems by (auto simp: worker_look_def split: if_splits prod.splits)
  qed
qed

text \<open>
  C31. A message of 32 bytes can end the server: one that announces a copy of no bytes to an address
  on the server's own node makes the worker that processes it panic, with the message as the only
  one ever received.
\<close>

theorem one_datagram_ends_the_server:
  assumes "headerSize \<le> length m" and "length m \<le> 4096"
    and "Operation (read_header (take headerSize m)) = 1" and "HdrDataSize (read_header (take headerSize m)) = 0"
    and "GetAddressNode k (DstDevice (read_header (take headerSize m))) = fst (GetCurrentNode (own_affinity k))"
  shows "\<exists>s h. recv_reachable k mem s h \<and> crashed s \<and> accepted h = [m] \<and> handled h = []"
proof -
  let ?s = "after_first mem m"
  note f = first_message [OF assms(2), of k mem]
  have panic: "is_panic (processMessage k (proc_mem ?s) (contents (buffers ?s ! 0)))"
    using f assms by (simp add: processMessage_panics_iff Let_def)
  then obtain p where p: "processMessage k (proc_mem ?s) (contents (buffers ?s ! 0)) = Panics p"
    by (cases "processMessage k (proc_mem ?s) (contents (buffers ?s ! 0))") auto
  have "recv_step k ?s Silent (worker_process k 0 0 ?s)"
    using recv_step.process [of ?s 0 0 k] f panic by auto
  with f have "recv_reachable k mem (worker_process k 0 0 ?s) \<lparr>accepted = [m], handed = [m], handled = []\<rparr>"
    using recv_reachable.step by fastforce
  moreover have "crashed (worker_process k 0 0 ?s)" by (simp add: worker_process_def p)
  ultimately show ?thesis by force
qed

theorem one_datagram_ends_the_server_witness:
  "\<exists>s h. recv_reachable (small_kernel {0}) Map.empty s h \<and> crashed s"
proof -
  have "GetAddressNode (small_kernel {0}) d = fst (GetCurrentNode (own_affinity (small_kernel {0})))" for d
    by (simp add: small_kernel_def GetAddressNode_def GetCurrentNode_def)
  moreover have "read_header (take headerSize (1 # replicate 31 0)) = \<lparr>Operation = 1, DstDevice = 0, HdrDataSize = 0\<rparr>"
    by (simp add: headerSize_def read_header_def)
  ultimately show ?thesis
    using one_datagram_ends_the_server [of "1 # replicate 31 0" "small_kernel {0}" Map.empty]
    by (auto simp: headerSize_def)
qed

end
