(* ===== verification/KernelServer.thy ===== *)
theory KernelServer
  imports GoLib
begin

section \<open>Kernel launches in the server\<close>

text \<open>
  \<open>cudaMemAlloc\<close>, \<open>cudaKernelLaunch\<close>, \<open>prepareParamBuffer\<close> and \<open>getCudaFunction\<close> of
  \<open>cmd/capnpserver/main.go\<close>. The driver is a parameter (\<open>cuda_driver\<close>). A pooled parameter buffer is
  its whole backing array; device memory is tracked by a ledger. The function cache is used by
  several requests at once: its three critical sections are the steps of a thread.
\<close>

record kernel_request =
  kr_name :: string
  kr_grid :: "u32 \<times> u32 \<times> u32"
  kr_block :: "u32 \<times> u32 \<times> u32"
  kr_sharedMem :: u32
  kr_params :: "u8 list list"
  kr_paramBytes :: u32
  kr_funcHandle :: u64

record cuda_driver =
  cu_malloc :: "nat \<Rightarrow> u64 option"
  cu_memcpy :: "u64 \<Rightarrow> u8 list \<Rightarrow> bool"
  cu_module_load :: "nat \<Rightarrow> u64 option"
  cu_get_function :: "u64 \<Rightarrow> string \<Rightarrow> u64 option"
  cu_launch :: "u64 \<Rightarrow> u64 \<Rightarrow> bool"

datatype launch_error = MallocFailed | MemcpyFailed | NoParams | ModuleLoadFailed | GetFunctionFailed | LaunchFailed

definition cudaMemAlloc :: "cuda_driver \<Rightarrow> nat \<Rightarrow> (launch_error, u64) go" where
  "cudaMemAlloc d n = (case cu_malloc d n of None \<Rightarrow> Fails MallocFailed | Some p \<Rightarrow> Returns p)"

subsection \<open>The parameter buffer\<close>

text \<open>
  \<open>copy(buf[offset:], v)\<close> for each value in turn: slicing from beyond the end panics, and what does
  not fit is dropped. The flag says whether the loop ended without a panic.
\<close>

definition copy_at :: "u8 list \<Rightarrow> nat \<Rightarrow> u8 list \<Rightarrow> u8 list" where
  "copy_at buf offset v = take offset buf @ take (length buf - offset) v @ drop (offset + length v) buf"

fun copy_values :: "u8 list \<Rightarrow> nat \<Rightarrow> u8 list list \<Rightarrow> u8 list \<times> bool" where
  "copy_values buf offset [] = (buf, True)"
| "copy_values buf offset (v # vs) =
     (if length buf < offset then (buf, False) else copy_values (copy_at buf offset v) (offset + length v) vs)"

definition pool_take :: "u8 list list \<Rightarrow> u8 list \<times> u8 list list" where
  "pool_take pool = (case pool of [] \<Rightarrow> (replicate 1024 0, []) | arr # rest \<Rightarrow> (arr, rest))"

text \<open>
  The outcome, the pool afterwards (the buffer that was taken goes back, not one made because it was
  too small), the ledger of device memory, and the bytes copied to the device.
\<close>

definition prepareParamBuffer :: "cuda_driver \<Rightarrow> u8 list list \<Rightarrow> kernel_request \<Rightarrow>
    (launch_error, u64 \<times> u8 list) go \<times> u8 list list \<times> u64 entry list" where
  "prepareParamBuffer d pool req =
     (let totalSize = unat (kr_paramBytes req);
          (arr, rest) = pool_take pool;
          buf = (if length arr < totalSize then replicate totalSize 0 else take totalSize arr);
          (buf', ok) = copy_values buf 0 (kr_params req);
          pool' = (if length arr < totalSize then arr else buf' @ drop totalSize arr) # rest
      in if \<not> ok then (Panics SliceOutOfRange, pool', [])
         else case cu_malloc d totalSize of
                None \<Rightarrow> (Fails MallocFailed, pool', [])
              | Some paramBuf \<Rightarrow>
                  (if totalSize = 0 then (Panics IndexOutOfRange, pool', [Acq paramBuf])
                   else if cu_memcpy d paramBuf buf' then (Returns (paramBuf, buf'), pool', [Acq paramBuf, Use paramBuf])
                   else (Fails MemcpyFailed, pool', [Acq paramBuf, Use paramBuf, Rel paramBuf])))"

subsection \<open>The function cache\<close>

record fn_cache =
  funcCache :: "u64 \<Rightarrow> u64 option"
  modDefault :: "u64 option"
  funcMeta :: "u64 \<Rightarrow> string option"
  loaded :: "u64 list"

definition fn_cache_new :: fn_cache where
  "fn_cache_new = \<lparr>funcCache = Map.empty, modDefault = None, funcMeta = Map.empty, loaded = []\<rparr>"

text \<open>
  The first section reads the cached function and the module, the second the recorded name; the
  third, under the write lock, looks for the function again but goes on with the module read in the
  first.
\<close>

definition read_cache :: "u64 \<Rightarrow> fn_cache \<Rightarrow> u64 option \<times> u64 option" where
  "read_cache handle c = (funcCache c handle, modDefault c)"

definition read_name :: "kernel_request \<Rightarrow> fn_cache \<Rightarrow> string" where
  "read_name req c = (case funcMeta c (kr_funcHandle req) of Some n \<Rightarrow> n | None \<Rightarrow> kr_name req)"

definition write_cache :: "cuda_driver \<Rightarrow> u64 \<Rightarrow> u64 option \<Rightarrow> string \<Rightarrow> fn_cache \<Rightarrow> (launch_error, u64) go \<times> fn_cache" where
  "write_cache d handle module_read funcName c =
     (case funcCache c handle of
        Some f \<Rightarrow> (Returns f, c)
      | None \<Rightarrow>
          (let got = (case module_read of
                  Some m \<Rightarrow> Some (m, c)
                | None \<Rightarrow> (case cu_module_load d (length (loaded c)) of
                     None \<Rightarrow> None
                   | Some m \<Rightarrow> Some (m, c\<lparr>modDefault := Some m, loaded := loaded c @ [m]\<rparr>)))
           in case got of
                None \<Rightarrow> (Fails ModuleLoadFailed, c)
              | Some (m, c1) \<Rightarrow>
                  (case cu_get_function d m funcName of
                     None \<Rightarrow> (Fails GetFunctionFailed, c1)
                   | Some f \<Rightarrow> (Returns f, c1\<lparr>funcCache := (funcCache c1)(handle \<mapsto> f),
                                           funcMeta := (funcMeta c1)(handle \<mapsto> funcName)\<rparr>))))"

text \<open>One request alone.\<close>

definition getCudaFunction :: "cuda_driver \<Rightarrow> kernel_request \<Rightarrow> fn_cache \<Rightarrow> (launch_error, u64) go \<times> fn_cache" where
  "getCudaFunction d req c =
     (case read_cache (kr_funcHandle req) c of
        (Some f, m) \<Rightarrow> (Returns f, c)
      | (None, m) \<Rightarrow> write_cache d (kr_funcHandle req) m (read_name req c) c)"

text \<open>Requests at once: where each is, and a step of one of them.\<close>

datatype thread =
    AtStart | AfterRead "u64 option" | AfterName "u64 option" string | Finished "(launch_error, u64) go"

inductive cache_step :: "cuda_driver \<Rightarrow> kernel_request list \<Rightarrow> fn_cache \<times> thread list \<Rightarrow> fn_cache \<times> thread list \<Rightarrow> bool"
  for d :: cuda_driver and reqs :: "kernel_request list" where
  cache_hit: "i < length ts \<Longrightarrow> ts ! i = AtStart \<Longrightarrow> read_cache (kr_funcHandle (reqs ! i)) c = (Some f, m) \<Longrightarrow>
    cache_step d reqs (c, ts) (c, ts[i := Finished (Returns f)])"
| cache_miss: "i < length ts \<Longrightarrow> ts ! i = AtStart \<Longrightarrow> read_cache (kr_funcHandle (reqs ! i)) c = (None, m) \<Longrightarrow>
    cache_step d reqs (c, ts) (c, ts[i := AfterRead m])"
| take_name: "i < length ts \<Longrightarrow> ts ! i = AfterRead m \<Longrightarrow>
    cache_step d reqs (c, ts) (c, ts[i := AfterName m (read_name (reqs ! i) c)])"
| fill: "i < length ts \<Longrightarrow> ts ! i = AfterName m n \<Longrightarrow> write_cache d (kr_funcHandle (reqs ! i)) m n c = (r, c') \<Longrightarrow>
    cache_step d reqs (c, ts) (c', ts[i := Finished r])"

inductive cache_reachable :: "cuda_driver \<Rightarrow> kernel_request list \<Rightarrow> fn_cache \<times> thread list \<Rightarrow> bool"
  for d :: cuda_driver and reqs :: "kernel_request list" where
  start: "cache_reachable d reqs (fn_cache_new, replicate (length reqs) AtStart)"
| step: "cache_reachable d reqs s \<Longrightarrow> cache_step d reqs s s' \<Longrightarrow> cache_reachable d reqs s'"

subsection \<open>A launch\<close>

text \<open>
  The outcome, the pool, the cache, the ledger of device memory (the parameter buffer is freed when
  the function ends, by a panic too, once it is there), and the launches the driver was given: function, grid, block, shared
  memory and the parameter bytes.
\<close>

type_synonym launched = "u64 \<times> (u32 \<times> u32 \<times> u32) \<times> (u32 \<times> u32 \<times> u32) \<times> u32 \<times> u8 list"

definition cudaKernelLaunch :: "cuda_driver \<Rightarrow> kernel_request \<Rightarrow> u8 list list \<Rightarrow> fn_cache \<Rightarrow>
    (launch_error, unit) go \<times> u8 list list \<times> fn_cache \<times> u64 entry list \<times> launched list" where
  "cudaKernelLaunch d req pool c =
     (if kr_params req = [] then (Fails NoParams, pool, c, [], [])
      else case prepareParamBuffer d pool req of
             (Panics p, pool', l) \<Rightarrow> (Panics p, pool', c, l, [])
           | (Fails e, pool', l) \<Rightarrow> (Fails e, pool', c, l, [])
           | (Returns (paramBuffer, bytes), pool', l) \<Rightarrow>
               (case getCudaFunction d req c of
                  (Panics p, c') \<Rightarrow> (Panics p, pool', c', l @ [Rel paramBuffer], [])
                | (Fails e, c') \<Rightarrow> (Fails e, pool', c', l @ [Rel paramBuffer], [])
                | (Returns f, c') \<Rightarrow>
                    (let l' = l @ [Use paramBuffer, Rel paramBuffer];
                         launch = (f, kr_grid req, kr_block req, kr_sharedMem req, bytes)
                     in if cu_launch d f paramBuffer then (Returns (), pool', c', l', [launch])
                        else (Fails LaunchFailed, pool', c', l', []))))"

subsection \<open>What the buffer holds\<close>

lemma length_copy_at [simp]: "offset \<le> length buf \<Longrightarrow> length (copy_at buf offset v) = length buf"
  by (simp add: copy_at_def)

lemma copy_values_closed:
  "offset \<le> length buf \<Longrightarrow> vs \<noteq> [] \<Longrightarrow>
   (snd (copy_values buf offset vs) \<longleftrightarrow> offset + length (concat (butlast vs)) \<le> length buf) \<and>
   (snd (copy_values buf offset vs) \<longrightarrow>
     fst (copy_values buf offset vs) =
       take (length buf) (take offset buf @ concat vs) @ drop (offset + length (concat vs)) buf)"
proof (induction vs arbitrary: buf offset)
  case (Cons v vs)
  show ?case
  proof (cases "vs = []")
    case True
    then show ?thesis using Cons.prems by (simp add: copy_at_def)
  next
    case False
    show ?thesis
    proof (cases "length buf < offset + length v")
      case True
      then have "\<not> snd (copy_values (copy_at buf offset v) (offset + length v) vs)"
        using Cons.prems False by (cases vs) auto
      then show ?thesis using True Cons.prems False by auto
    next
      case fits: False
      then have "copy_at buf offset v = take offset buf @ v @ drop (offset + length v) buf"
        by (simp add: copy_at_def)
      then show ?thesis
        using Cons.IH [of "offset + length v" "copy_at buf offset v"] Cons.prems False fits by (auto simp: ac_simps)
    qed
  qed
qed simp

lemma prepareParamBuffer_Returns:
  assumes "prepareParamBuffer d pool req = (Returns (p, bytes), pool', l)"
  shows "\<exists>buf. copy_values (if length (fst (pool_take pool)) < unat (kr_paramBytes req)
        then replicate (unat (kr_paramBytes req)) 0 else take (unat (kr_paramBytes req)) (fst (pool_take pool))) 0 (kr_params req) = (bytes, True) \<and>
    unat (kr_paramBytes req) \<noteq> 0 \<and> l = [Acq p, Use p] \<and> cu_malloc d (unat (kr_paramBytes req)) = Some p"
  using assms by (auto simp: prepareParamBuffer_def Let_def split: prod.splits option.splits if_splits)

lemma prepareParamBuffer_ledger:
  "prepareParamBuffer d pool req = (r, pool', l) \<Longrightarrow>
     (case r of Returns (p, bytes) \<Rightarrow> l = [Acq p, Use p] | Fails e \<Rightarrow> balanced l | Panics q \<Rightarrow> q = IndexOutOfRange \<longrightarrow> l \<noteq> [])"
  by (auto simp: prepareParamBuffer_def balanced_def Let_def split: prod.splits option.splits if_splits)

subsection \<open>The cache under concurrent requests\<close>

definition from_loaded :: "cuda_driver \<Rightarrow> fn_cache \<Rightarrow> bool" where
  "from_loaded d c \<longleftrightarrow> dom (funcMeta c) = dom (funcCache c) \<and>
     (modDefault c = None \<longrightarrow> loaded c = []) \<and> set_option (modDefault c) \<subseteq> set (loaded c) \<and>
     (\<forall>h f. funcCache c h = Some f \<longrightarrow>
        (\<exists>m \<in> set (loaded c). \<exists>n. funcMeta c h = Some n \<and> cu_get_function d m n = Some f))"

fun module_of :: "thread \<Rightarrow> u64 option" where
  "module_of (AfterRead m) = m"
| "module_of (AfterName m n) = m"
| "module_of AtStart = None"
| "module_of (Finished r) = None"

definition is_finished :: "thread \<Rightarrow> bool" where
  "is_finished t \<longleftrightarrow> (case t of Finished r \<Rightarrow> True | _ \<Rightarrow> False)"

definition cache_inv :: "cuda_driver \<Rightarrow> kernel_request list \<Rightarrow> fn_cache \<Rightarrow> thread list \<Rightarrow> bool" where
  "cache_inv d reqs c ts \<longleftrightarrow> from_loaded d c \<and> length ts = length reqs \<and>
     (\<forall>i < length ts. set_option (module_of (ts ! i)) \<subseteq> set (loaded c)) \<and>
     (\<forall>i < length ts. \<forall>f. ts ! i = Finished (Returns f) \<longrightarrow> funcCache c (kr_funcHandle (reqs ! i)) = Some f) \<and>
     length (loaded c) \<le> length (filter is_finished ts)"

lemma write_cache_from_loaded:
  assumes "from_loaded d c" and "set_option m \<subseteq> set (loaded c)" and "write_cache d h m n c = (r, c')"
  shows "from_loaded d c' \<and> (\<forall>f. r = Returns f \<longrightarrow> funcCache c' h = Some f) \<and>
    (\<forall>h' f. funcCache c h' = Some f \<longrightarrow> funcCache c' h' = Some f) \<and> set (loaded c) \<subseteq> set (loaded c') \<and>
    length (loaded c') \<le> Suc (length (loaded c))"
proof (cases "funcCache c h")
  case (Some f)
  then show ?thesis using assms by (auto simp: write_cache_def)
next
  case None
  define got where "got = (case m of Some x \<Rightarrow> Some (x, c)
      | None \<Rightarrow> (case cu_module_load d (length (loaded c)) of None \<Rightarrow> None
          | Some x \<Rightarrow> Some (x, c\<lparr>modDefault := Some x, loaded := loaded c @ [x]\<rparr>)))"
  have w: "write_cache d h m n c = (case got of None \<Rightarrow> (Fails ModuleLoadFailed, c)
      | Some (x, c1) \<Rightarrow> (case cu_get_function d x n of None \<Rightarrow> (Fails GetFunctionFailed, c1)
          | Some f \<Rightarrow> (Returns f, c1\<lparr>funcCache := (funcCache c1)(h \<mapsto> f), funcMeta := (funcMeta c1)(h \<mapsto> n)\<rparr>)))"
    using None by (simp add: write_cache_def got_def Let_def)
  show ?thesis
  proof (cases got)
    case None
    then show ?thesis using w assms by simp
  next
    case (Some xc)
    obtain x c1 where xc: "xc = (x, c1)" by force
    have c1: "from_loaded d c1" "x \<in> set (loaded c1)" "set (loaded c) \<subseteq> set (loaded c1)" "funcCache c1 = funcCache c"
      "length (loaded c1) \<le> Suc (length (loaded c))"
      using Some assms(1,2) by (auto simp: xc got_def from_loaded_def split: option.splits) blast+
    show ?thesis
    proof (cases "cu_get_function d x n")
      case None
      then show ?thesis using w assms(3) Some c1 by (auto simp: xc)
    next
      case (Some f)
      then have c': "r = Returns f" "c' = c1\<lparr>funcCache := (funcCache c1)(h \<mapsto> f), funcMeta := (funcMeta c1)(h \<mapsto> n)\<rparr>"
        using w assms(3) \<open>got = Some xc\<close> by (simp_all add: xc)
      have "from_loaded d c'"
        using c1(1,2) Some unfolding from_loaded_def c' by auto
      then show ?thesis using c1 None c' \<open>funcCache c h = None\<close> by auto
    qed
  qed
qed

lemma filter_finished_update:
  "i < length ts \<Longrightarrow> \<not> is_finished (ts ! i) \<Longrightarrow>
     length (filter is_finished (ts[i := x])) = length (filter is_finished ts) + (if is_finished x then 1 else 0)"
proof (induction ts arbitrary: i)
  case (Cons t ts)
  then show ?case by (cases i) auto
qed simp

lemma cache_step_inv:
  assumes inv: "cache_inv d reqs c ts" and step: "cache_step d reqs (c, ts) (c', ts')"
  shows "cache_inv d reqs c' ts' \<and> (\<forall>h f. funcCache c h = Some f \<longrightarrow> funcCache c' h = Some f)"
  using step
proof (cases rule: cache_step.cases)
  case (cache_hit i f m)
  then show ?thesis
    using inv filter_finished_update [of i ts "Finished (Returns f)"]
    by (auto simp: cache_inv_def nth_list_update read_cache_def is_finished_def)
next
  case (cache_miss i m)
  then show ?thesis
    using inv filter_finished_update [of i ts "AfterRead m"]
    by (auto simp: cache_inv_def nth_list_update read_cache_def is_finished_def from_loaded_def)
next
  case (take_name i m)
  have "set_option m \<subseteq> set (loaded c)"
    using inv take_name(3,4) unfolding cache_inv_def by (metis module_of.simps(1))
  then show ?thesis
    using inv take_name filter_finished_update [of i ts "AfterName m (read_name (reqs ! i) c)"]
    by (auto simp: cache_inv_def nth_list_update is_finished_def)
next
  case (fill i m n r)
  have m: "set_option m \<subseteq> set (loaded c)"
    using inv fill(2,3) unfolding cache_inv_def by (metis module_of.simps(2))
  have fl: "from_loaded d c" using inv by (simp add: cache_inv_def)
  from write_cache_from_loaded [OF fl m fill(4)] show ?thesis
    using inv fill filter_finished_update [of i ts "Finished r"]
    by (auto simp: cache_inv_def nth_list_update is_finished_def; blast)
qed

lemma cache_reachable_inv: "cache_reachable d reqs s \<Longrightarrow> cache_inv d reqs (fst s) (snd s)"
proof (induction rule: cache_reachable.induct)
  case start
  show ?case by (auto simp: cache_inv_def from_loaded_def fn_cache_new_def)
next
  case (step s s')
  then show ?case using cache_step_inv [of d reqs "fst s" "snd s" "fst s'" "snd s'"] by simp
qed

text \<open>Every request makes at most three steps, and as long as one has not finished some step is possible.\<close>

fun thread_todo :: "thread \<Rightarrow> nat" where
  "thread_todo AtStart = 3"
| "thread_todo (AfterRead m) = 2"
| "thread_todo (AfterName m n) = 1"
| "thread_todo (Finished r) = 0"

lemma thread_todo_update:
  "i < length ts \<Longrightarrow> thread_todo x < thread_todo (ts ! i) \<Longrightarrow>
     sum_list (map thread_todo (ts[i := x])) < sum_list (map thread_todo ts)"
proof (induction ts arbitrary: i)
  case (Cons t ts)
  then show ?case by (cases i) auto
qed simp

lemma cache_step_less:
  "cache_step d reqs s s' \<Longrightarrow> sum_list (map thread_todo (snd s')) < sum_list (map thread_todo (snd s))"
  by (induction rule: cache_step.induct) (auto intro: thread_todo_update)

lemma cache_run_bound:
  "(cache_step d reqs ^^ n) s s' \<Longrightarrow> n + sum_list (map thread_todo (snd s')) \<le> sum_list (map thread_todo (snd s))"
proof (induction n arbitrary: s')
  case (Suc n)
  then obtain t where "(cache_step d reqs ^^ n) s t" "cache_step d reqs t s'" by auto
  then show ?case using Suc.IH [of t] cache_step_less [of d reqs t s'] by linarith
qed simp

lemma cache_progress:
  assumes "i < length ts" and "\<not> is_finished (ts ! i)"
  shows "\<exists>s'. cache_step d reqs (c, ts) s'"
proof (cases "ts ! i")
  case AtStart
  show ?thesis
  proof (cases "funcCache c (kr_funcHandle (reqs ! i))")
    case None
    then have "read_cache (kr_funcHandle (reqs ! i)) c = (None, modDefault c)" by (simp add: read_cache_def)
    from cache_step.cache_miss [OF assms(1) AtStart this] show ?thesis by blast
  next
    case (Some f)
    then have "read_cache (kr_funcHandle (reqs ! i)) c = (Some f, modDefault c)" by (simp add: read_cache_def)
    from cache_step.cache_hit [OF assms(1) AtStart this] show ?thesis by blast
  qed
next
  case (AfterRead m)
  then show ?thesis using cache_step.take_name [OF assms(1)] by blast
next
  case (AfterName m n)
  then show ?thesis
    using cache_step.fill [OF assms(1)] by (cases "write_cache d (kr_funcHandle (reqs ! i)) m n c") blast
qed (use assms in \<open>simp add: is_finished_def\<close>)

lemma requests_finish:
  assumes "(cache_step d reqs ^^ n) (fn_cache_new, replicate (length reqs) AtStart) (c, ts)"
  shows "n \<le> 3 * length reqs \<and> ((\<exists>s'. cache_step d reqs (c, ts) s') \<or> (\<forall>t \<in> set ts. is_finished t))"
proof -
  have "sum_list (map thread_todo (replicate k AtStart)) = 3 * k" for k by (induction k) simp_all
  then have "n \<le> 3 * length reqs" using cache_run_bound [OF assms] by simp
  then show ?thesis using cache_progress [of _ ts d reqs c] by (metis in_set_conv_nth)
qed

lemma getCudaFunction_no_panic: "\<not> is_panic (fst (getCudaFunction d req c))"
  by (auto simp: getCudaFunction_def read_cache_def write_cache_def Let_def split: option.splits)

subsection \<open>Properties\<close>

definition old_bytes :: "u8 list list \<Rightarrow> nat \<Rightarrow> u8 list" where
  "old_bytes pool n = (if length (fst (pool_take pool)) < n then replicate n 0 else take n (fst (pool_take pool)))"

lemma prepared:
  assumes "kr_params req \<noteq> []"
  shows "copy_values (old_bytes pool (unat (kr_paramBytes req))) 0 (kr_params req) =
    (let n = unat (kr_paramBytes req) in
     if length (concat (butlast (kr_params req))) \<le> n
     then (take n (concat (kr_params req)) @ drop (length (concat (kr_params req))) (old_bytes pool n), True)
     else (fst (copy_values (old_bytes pool n) 0 (kr_params req)), False))"
  using copy_values_closed [of 0 "old_bytes pool (unat (kr_paramBytes req))" "kr_params req"] assms
  by (cases "copy_values (old_bytes pool (unat (kr_paramBytes req))) 0 (kr_params req)")
    (auto simp: old_bytes_def Let_def)

lemma prepare_eq:
  assumes "kr_params req \<noteq> []"
  shows "fst (prepareParamBuffer d pool req) =
    (let n = unat (kr_paramBytes req); ps = kr_params req in
     if n < length (concat (butlast ps)) then Panics SliceOutOfRange
     else case cu_malloc d n of None \<Rightarrow> Fails MallocFailed
       | Some p \<Rightarrow> if n = 0 then Panics IndexOutOfRange
           else (let bytes = take n (concat ps) @ drop (length (concat ps)) (old_bytes pool n)
                 in if cu_memcpy d p bytes then Returns (p, bytes) else Fails MemcpyFailed))"
  using prepared [OF assms, of pool]
  by (auto simp: prepareParamBuffer_def old_bytes_def Let_def not_less split: prod.splits option.splits if_splits)

lemma launch_no_params: "kr_params req = [] \<Longrightarrow> cudaKernelLaunch d req pool c = (Fails NoParams, pool, c, [], [])"
  by (simp add: cudaKernelLaunch_def)

lemma launch_panics:
  "is_panic (fst (cudaKernelLaunch d req pool c)) \<longleftrightarrow>
     kr_params req \<noteq> [] \<and>
     (unat (kr_paramBytes req) < length (concat (butlast (kr_params req))) \<or>
      kr_paramBytes req = 0 \<and> cu_malloc d 0 \<noteq> None)"
proof (cases "kr_params req = []")
  case False
  obtain r pool' l where p: "prepareParamBuffer d pool req = (r, pool', l)" by (cases "prepareParamBuffer d pool req") auto
  have "is_panic (fst (cudaKernelLaunch d req pool c)) \<longleftrightarrow> is_panic r"
    using getCudaFunction_no_panic [of d req c] False
    by (cases r) (auto simp: cudaKernelLaunch_def p Let_def split: prod.splits go.splits)
  moreover have "is_panic r \<longleftrightarrow> unat (kr_paramBytes req) < length (concat (butlast (kr_params req))) \<or>
      kr_paramBytes req = 0 \<and> cu_malloc d 0 \<noteq> None"
    using prepare_eq [OF False, of d pool]
    by (auto simp: p Let_def unat_eq_zero split: option.splits if_splits)
  ultimately show ?thesis using False by simp
qed (simp add: launch_no_params)

text \<open>
  C14. A launch request panics exactly when it has parameters and either those before the last one
  reach past the announced size of the parameter buffer (a last one that reaches past it is cut
  off, and does not panic), or the announced size is zero and the driver's allocation of no bytes
  succeeds. A failed allocation, copy, lookup or launch is an error, not a panic.
\<close>

theorem launch_panics_iff:
  "is_panic (fst (cudaKernelLaunch d req pool c)) \<longleftrightarrow>
     kr_params req \<noteq> [] \<and>
     (unat (kr_paramBytes req) < length (concat (butlast (kr_params req))) \<or>
      kr_paramBytes req = 0 \<and> cu_malloc d 0 \<noteq> None)"
  by (rule launch_panics)

text \<open>
  C16. A launch that does not panic gives back the device memory of its parameter buffer. One that
  succeeds was given to the driver once, with the request's dimensions and a buffer of the
  announced size: the parameters one after the other, cut off at that size, and behind them whatever
  the pooled buffer held from an earlier launch.
\<close>

theorem launch_passes_parameters:
  assumes "cudaKernelLaunch d req pool c = (r, pool', c', l, launches)" and "\<not> is_panic r"
    and "n = unat (kr_paramBytes req)"
  shows "balanced l \<and>
    (r = Returns () \<longrightarrow> (\<exists>f. launches = [(f, kr_grid req, kr_block req, kr_sharedMem req,
       take n (concat (kr_params req)) @ drop (length (concat (kr_params req))) (old_bytes pool n))]))"
proof (cases "kr_params req = []")
  case True
  then show ?thesis using assms(1) by (auto simp: launch_no_params balanced_def)
next
  case False
  obtain r' pool1 l1 where p: "prepareParamBuffer d pool req = (r', pool1, l1)" by (cases "prepareParamBuffer d pool req") auto
  show ?thesis
  proof (cases r')
    case (Returns pb)
    obtain q bytes where pb: "pb = (q, bytes)" by force
    have l1: "l1 = [Acq q, Use q]" using prepareParamBuffer_ledger [OF p] Returns pb by simp
    have "bytes = take n (concat (kr_params req)) @ drop (length (concat (kr_params req))) (old_bytes pool n)"
      using prepare_eq [OF False, of d pool] Returns assms(3) by (auto simp: p pb Let_def split: option.splits if_splits)
    then show ?thesis
      using assms(1,2) Returns pb False l1
      by (auto simp: cudaKernelLaunch_def p balanced_def Let_def split: prod.splits go.splits if_splits)
  qed (use assms(1,2) prepareParamBuffer_ledger [OF p] False in \<open>auto simp: cudaKernelLaunch_def p\<close>)
qed

definition good_driver :: cuda_driver where
  "good_driver = \<lparr>cu_malloc = (\<lambda>n. Some 4096), cu_memcpy = (\<lambda>p bs. True), cu_module_load = (\<lambda>n. Some (of_nat n)),
     cu_get_function = (\<lambda>m nm. Some (of_nat (length nm))), cu_launch = (\<lambda>f p. True)\<rparr>"

definition launch_of :: "string \<Rightarrow> u64 \<Rightarrow> u8 list list \<Rightarrow> u32 \<Rightarrow> kernel_request" where
  "launch_of name handle ps n = \<lparr>kr_name = name, kr_grid = (1, 1, 1), kr_block = (1, 1, 1), kr_sharedMem = 0,
     kr_params = ps, kr_paramBytes = n, kr_funcHandle = handle\<rparr>"

theorem launch_passes_parameters_witness:
  "\<exists>f pool' c' l. cudaKernelLaunch good_driver (launch_of ''k'' 0 [[1, 2], [3]] 4) [[9, 9, 9, 9, 9]] fn_cache_new =
     (Returns (), pool', c', l, [(f, (1, 1, 1), (1, 1, 1), 0, [1, 2, 3, 9])])"
proof -
  let ?call = "cudaKernelLaunch good_driver (launch_of ''k'' 0 [[1, 2], [3]] 4) [[9, 9, 9, 9, 9]] fn_cache_new"
  obtain pool' c' l ls where run: "?call = (Returns (), pool', c', l, ls)"
    by (simp add: cudaKernelLaunch_def prepareParamBuffer_def launch_of_def good_driver_def pool_take_def copy_at_def
        getCudaFunction_def read_cache_def write_cache_def fn_cache_new_def Let_def)
  from launch_passes_parameters [OF run, of 4] run show ?thesis
    by (auto simp: launch_of_def old_bytes_def pool_take_def)
qed

text \<open>
  C15. Whatever requests run at once and however they interleave, two that ask for the same handle and
  succeed get the same function, of a module that was loaded and under the name recorded for the
  handle; no more modules are loaded than requests are made.
\<close>

theorem concurrent_requests_agree_on_functions:
  assumes "cache_reachable d reqs (c, ts)" and "i < length reqs" and "j < length reqs"
    and "ts ! i = Finished (Returns f)" and "ts ! j = Finished (Returns g)"
    and "kr_funcHandle (reqs ! i) = kr_funcHandle (reqs ! j)"
  shows "f = g \<and> length (loaded c) \<le> length reqs \<and>
    (\<exists>m n. m \<in> set (loaded c) \<and> funcMeta c (kr_funcHandle (reqs ! i)) = Some n \<and> cu_get_function d m n = Some f)"
proof -
  have inv: "cache_inv d reqs c ts" using cache_reachable_inv [OF assms(1)] by simp
  then have len: "length ts = length reqs" by (simp add: cache_inv_def)
  have f: "funcCache c (kr_funcHandle (reqs ! i)) = Some f" using inv assms(2,4) len by (simp add: cache_inv_def)
  have "funcCache c (kr_funcHandle (reqs ! j)) = Some g" using inv assms(3,5) len by (simp add: cache_inv_def)
  then have "f = g" using f assms(6) by simp
  moreover have "length (loaded c) \<le> length reqs"
    using inv len length_filter_le [of is_finished ts] by (simp add: cache_inv_def)
  moreover have "from_loaded d c" using inv by (simp add: cache_inv_def)
  then have "\<exists>m \<in> set (loaded c). \<exists>n. funcMeta c (kr_funcHandle (reqs ! i)) = Some n \<and> cu_get_function d m n = Some f"
    using f unfolding from_loaded_def by blast
  ultimately show ?thesis by blast
qed

text \<open>A request alone, as three steps; and a second one for a handle that is cached.\<close>

lemma run_alone:
  assumes "cache_reachable d reqs (c, ts)" and "i < length ts" and "ts ! i = AtStart"
    and "funcCache c (kr_funcHandle (reqs ! i)) = None" and "getCudaFunction d (reqs ! i) c = (r, c')"
  shows "cache_reachable d reqs (c', ts[i := Finished r])"
proof -
  let ?h = "kr_funcHandle (reqs ! i)"
  let ?n = "read_name (reqs ! i) c"
  have w: "write_cache d ?h (modDefault c) ?n c = (r, c')"
    using assms(4,5) by (simp add: getCudaFunction_def read_cache_def)
  have "cache_step d reqs (c, ts) (c, ts[i := AfterRead (modDefault c)])"
    using assms(2-4) by (intro cache_step.cache_miss) (simp_all add: read_cache_def)
  with assms(1) have "cache_reachable d reqs (c, ts[i := AfterRead (modDefault c)])" by (rule cache_reachable.step)
  moreover have "cache_step d reqs (c, ts[i := AfterRead (modDefault c)]) (c, ts[i := AfterName (modDefault c) ?n])"
    using cache_step.take_name [of i "ts[i := AfterRead (modDefault c)]" "modDefault c" d reqs c] assms(2) by simp
  ultimately have "cache_reachable d reqs (c, ts[i := AfterName (modDefault c) ?n])" by (rule cache_reachable.step)
  moreover have "cache_step d reqs (c, ts[i := AfterName (modDefault c) ?n]) (c', ts[i := Finished r])"
    using cache_step.fill [of i "ts[i := AfterName (modDefault c) ?n]" "modDefault c" ?n d reqs c r c'] assms(2) w by simp
  ultimately show ?thesis by (rule cache_reachable.step)
qed

lemma run_cached:
  assumes "cache_reachable d reqs (c, ts)" and "i < length ts" and "ts ! i = AtStart"
    and "funcCache c (kr_funcHandle (reqs ! i)) = Some f"
  shows "cache_reachable d reqs (c, ts[i := Finished (Returns f)])"
proof -
  have "cache_step d reqs (c, ts) (c, ts[i := Finished (Returns f)])"
    using assms(2-4) by (intro cache_step.cache_hit [where m = "modDefault c"]) (simp_all add: read_cache_def)
  with assms(1) show ?thesis by (rule cache_reachable.step)
qed

theorem concurrent_requests_agree_on_functions_witness:
  "\<exists>c ts. cache_reachable good_driver [launch_of ''a'' 0 [] 0, launch_of ''second'' 0 [] 0] (c, ts) \<and>
     ts ! 1 = Finished (Returns 1) \<and> length (loaded c) \<le> 2"
proof -
  let ?reqs = "[launch_of ''a'' 0 [] 0, launch_of ''second'' 0 [] 0]"
  obtain c where c: "getCudaFunction good_driver (?reqs ! 0) fn_cache_new = (Returns 1, c)" "funcCache c 0 = Some 1"
    by (auto simp: getCudaFunction_def read_cache_def write_cache_def fn_cache_new_def launch_of_def good_driver_def
        read_name_def)
  have "cache_reachable good_driver ?reqs (fn_cache_new, [AtStart, AtStart])"
    using cache_reachable.start [of good_driver ?reqs] by simp
  from run_alone [OF this _ _ _ c(1)] have "cache_reachable good_driver ?reqs (c, [Finished (Returns 1), AtStart])"
    by (simp add: fn_cache_new_def)
  from run_cached [OF this, of 1 1] have r: "cache_reachable good_driver ?reqs (c, [Finished (Returns 1), Finished (Returns 1)])"
    using c(2) by (simp add: launch_of_def)
  have "length (loaded c) \<le> 2"
    using concurrent_requests_agree_on_functions [OF r, of 0 1 1 1] by (simp add: launch_of_def)
  with r show ?thesis by (intro exI [of _ c] exI [of _ "[Finished (Returns 1), Finished (Returns 1)]"]) simp
qed

text \<open>
  The module is loaded once when requests come one after the other, but twice when two read the cache
  before either writes it: the second uses the answer of its first look although the module is there.
\<close>

lemma two_modules_loaded:
  "\<exists>c ts. cache_reachable good_driver [launch_of ''a'' 0 [] 0, launch_of ''b'' 1 [] 0] (c, ts) \<and> loaded c = [0, 1]"
proof -
  let ?reqs = "[launch_of ''a'' 0 [] 0, launch_of ''b'' 1 [] 0]"
  let ?R = "cache_reachable good_driver ?reqs"
  let ?S = "cache_step good_driver ?reqs"
  let ?c0 = fn_cache_new
  define c1 where "c1 = snd (write_cache good_driver 0 None ''a'' ?c0)"
  define c2 where "c2 = snd (write_cache good_driver 1 None ''b'' c1)"
  have w1: "write_cache good_driver 0 None ''a'' ?c0 = (Returns 1, c1)" and l1: "loaded c1 = [0]" "funcCache c1 1 = None"
    by (simp_all add: c1_def write_cache_def good_driver_def fn_cache_new_def)
  have w2: "write_cache good_driver 1 None ''b'' c1 = (Returns 1, c2)" and l2: "loaded c2 = [0, 1]"
    using l1 by (simp_all add: c2_def write_cache_def good_driver_def)
  have h: "kr_funcHandle (?reqs ! 0) = 0" "kr_funcHandle (?reqs ! 1) = 1" "read_name (?reqs ! 0) ?c0 = ''a''"
    "read_name (?reqs ! 1) ?c0 = ''b''"
    by (simp_all add: launch_of_def read_name_def fn_cache_new_def)
  have "?R (?c0, [AtStart, AtStart])" using cache_reachable.start [of good_driver ?reqs] by simp
  moreover have "?S (?c0, [AtStart, AtStart]) (?c0, [AfterRead None, AtStart])"
    using cache_step.cache_miss [of 0 "[AtStart, AtStart]" ?reqs ?c0 None good_driver]
    by (simp add: read_cache_def fn_cache_new_def)
  ultimately have "?R (?c0, [AfterRead None, AtStart])" by (rule cache_reachable.step)
  moreover have "?S (?c0, [AfterRead None, AtStart]) (?c0, [AfterRead None, AfterRead None])"
    using cache_step.cache_miss [of 1 "[AfterRead None, AtStart]" ?reqs ?c0 None good_driver]
    by (simp add: read_cache_def fn_cache_new_def)
  ultimately have "?R (?c0, [AfterRead None, AfterRead None])" by (rule cache_reachable.step)
  moreover have "?S (?c0, [AfterRead None, AfterRead None]) (?c0, [AfterName None ''a'', AfterRead None])"
    using cache_step.take_name [of 0 "[AfterRead None, AfterRead None]" None good_driver ?reqs ?c0] h by simp
  ultimately have "?R (?c0, [AfterName None ''a'', AfterRead None])" by (rule cache_reachable.step)
  moreover have "?S (?c0, [AfterName None ''a'', AfterRead None]) (?c0, [AfterName None ''a'', AfterName None ''b''])"
    using cache_step.take_name [of 1 "[AfterName None ''a'', AfterRead None]" None good_driver ?reqs ?c0] h by simp
  ultimately have "?R (?c0, [AfterName None ''a'', AfterName None ''b''])" by (rule cache_reachable.step)
  moreover have "?S (?c0, [AfterName None ''a'', AfterName None ''b'']) (c1, [Finished (Returns 1), AfterName None ''b''])"
    using cache_step.fill [of 0 "[AfterName None ''a'', AfterName None ''b'']" None "''a''" good_driver ?reqs ?c0 _ c1] h w1 by simp
  ultimately have "?R (c1, [Finished (Returns 1), AfterName None ''b''])" by (rule cache_reachable.step)
  moreover have "?S (c1, [Finished (Returns 1), AfterName None ''b'']) (c2, [Finished (Returns 1), Finished (Returns 1)])"
    using cache_step.fill [of 1 "[Finished (Returns 1), AfterName None ''b'']" None "''b''" good_driver ?reqs c1 _ c2] h w2 by simp
  ultimately have "?R (c2, [Finished (Returns 1), Finished (Returns 1)])" by (rule cache_reachable.step)
  then show ?thesis using l2 by blast
qed

end
