(* ===== verification/GpuServer.thy ===== *)
theory GpuServer
  imports DataReceiver KernelServer
begin

section \<open>Requests to the server\<close>

text \<open>
  The other operations of \<open>cmd/capnpserver/main.go\<close>: the handlers of the GPU service, the status
  monitor, the plan of a copy, prefetching, the service names, the route table, and the start of the
  program. The packages \<open>gpu\<close>, \<open>net\<close> and \<open>lru\<close> and the methods \<open>allocateUdpPort\<close>,
  \<open>notifyNodeForTransfer\<close> and \<open>fetchDataToCache\<close> are in no file of the repository: what they answer is a
  parameter. Go iterates over a map in any order; the order is an argument.
\<close>

subsection \<open>The GPU service\<close>

text \<open>
  A call is given whether its parameters can be read and whether its results can be allocated. The
  store and the scheduler keep a state of their own, which an error after the operation leaves changed.
\<close>

record call_env =
  params_ok :: bool
  results_ok :: bool

datatype rpc_error = ParamsError | ResultsError | PortError | NotifyError | UnknownService

record ('st, 'gpu, 'status, 'ack, 'resp) gpu_backend =
  gs_list :: "'st \<Rightarrow> 'gpu list"
  gs_status :: "'st \<Rightarrow> string \<Rightarrow> 'status"
  gs_acquire :: "'st \<Rightarrow> string \<Rightarrow> 'ack \<times> 'st"
  gs_release :: "'st \<Rightarrow> string \<Rightarrow> 'ack \<times> 'st"
  gs_run :: "'st \<Rightarrow> string \<Rightarrow> u64 \<Rightarrow> 'resp \<times> 'st"

definition ListGpus :: "('st, 'gpu, 'status, 'ack, 'resp) gpu_backend \<Rightarrow> call_env \<Rightarrow> 'st \<Rightarrow> (rpc_error, 'gpu list) go" where
  "ListGpus b call st = (if results_ok call then Returns (gs_list b st) else Fails ResultsError)"

definition GetGpuStatus :: "('st, 'gpu, 'status, 'ack, 'resp) gpu_backend \<Rightarrow> call_env \<Rightarrow> string \<Rightarrow> 'st \<Rightarrow> (rpc_error, 'status) go" where
  "GetGpuStatus b call uuid st =
     (if \<not> params_ok call then Fails ParamsError
      else if results_ok call then Returns (gs_status b st uuid) else Fails ResultsError)"

definition with_effect :: "call_env \<Rightarrow> ('st \<Rightarrow> 'r \<times> 'st) \<Rightarrow> 'st \<Rightarrow> (rpc_error, 'r) go \<times> 'st" where
  "with_effect call f st =
     (if \<not> params_ok call then (Fails ParamsError, st)
      else case f st of (r, st') \<Rightarrow> (if results_ok call then (Returns r, st') else (Fails ResultsError, st')))"

definition AcquireGpu :: "('st, 'gpu, 'status, 'ack, 'resp) gpu_backend \<Rightarrow> call_env \<Rightarrow> string \<Rightarrow> 'st \<Rightarrow> (rpc_error, 'ack) go \<times> 'st" where
  "AcquireGpu b call uuid = with_effect call (\<lambda>st. gs_acquire b st uuid)"

definition ReleaseGpu :: "('st, 'gpu, 'status, 'ack, 'resp) gpu_backend \<Rightarrow> call_env \<Rightarrow> string \<Rightarrow> 'st \<Rightarrow> (rpc_error, 'ack) go \<times> 'st" where
  "ReleaseGpu b call uuid = with_effect call (\<lambda>st. gs_release b st uuid)"

definition RunCommand :: "('st, 'gpu, 'status, 'ack, 'resp) gpu_backend \<Rightarrow> call_env \<Rightarrow> string \<Rightarrow> u64 \<Rightarrow> 'st \<Rightarrow> (rpc_error, 'resp) go \<times> 'st" where
  "RunCommand b call cmd stream = with_effect call (\<lambda>st. gs_run b st cmd stream)"

subsection \<open>Status, plans and prefetching\<close>

record 'status plan_env =
  status_of :: "string \<Rightarrow> 'status"
  available :: "'status \<Rightarrow> u64"
  marshal_ok :: "'status \<Rightarrow> bool"
  topic_ok :: "string \<Rightarrow> bool"
  publish_ok :: "string \<Rightarrow> bool"
  udp_port :: "u16 option"
  notify_ok :: "string \<Rightarrow> u16 \<Rightarrow> u64 \<Rightarrow> u64 \<Rightarrow> bool"

record 'status hook_server =
  nodeStatus :: "string \<Rightarrow> 'status option"
  prefetchCache :: "string list"
  fetching :: "(string \<times> u64) list"

definition hook_server_new :: "'status hook_server" where
  "hook_server_new = \<lparr>nodeStatus = Map.empty, prefetchCache = [], fetching = []\<rparr>"

text \<open>One tick of the monitor over the keys in some order; the second part is what it published.\<close>

fun monitor_loop :: "'status plan_env \<Rightarrow> string list \<Rightarrow> (string \<Rightarrow> 'status option) \<Rightarrow>
    (string \<Rightarrow> 'status option) \<times> 'status list" where
  "monitor_loop env [] ns = (ns, [])"
| "monitor_loop env (uuid # us) ns =
     (let status = status_of env uuid;
          (ns', published) = monitor_loop env us (ns(uuid \<mapsto> status))
      in (ns', if marshal_ok env status \<and> topic_ok env uuid \<and> publish_ok env uuid then status # published else published))"

definition monitor_tick :: "'status plan_env \<Rightarrow> string list \<Rightarrow> 'status hook_server \<Rightarrow> 'status hook_server \<times> 'status list" where
  "monitor_tick env order s = (case monitor_loop env order (nodeStatus s) of (ns, p) \<Rightarrow> (s\<lparr>nodeStatus := ns\<rparr>, p))"

fun select_loop :: "'status plan_env \<Rightarrow> (string \<Rightarrow> 'status option) \<Rightarrow> string list \<Rightarrow> u64 \<Rightarrow> string \<Rightarrow> string" where
  "select_loop env ns [] maxMemory selectedNode = selectedNode"
| "select_loop env ns (nodeId # rest) maxMemory selectedNode =
     (case ns nodeId of
        None \<Rightarrow> select_loop env ns rest maxMemory selectedNode
      | Some status \<Rightarrow>
          (if maxMemory < available env status then select_loop env ns rest (available env status) nodeId
           else select_loop env ns rest maxMemory selectedNode))"

definition selectOptimalNode :: "'status plan_env \<Rightarrow> string list \<Rightarrow> 'status hook_server \<Rightarrow> string" where
  "selectOptimalNode env order s = select_loop env (nodeStatus s) order 0 []"

definition negotiateTransferParams :: "'status plan_env \<Rightarrow> string \<Rightarrow> u64 \<Rightarrow> (rpc_error, u16) go" where
  "negotiateTransferParams env nodeId sz =
     (let mtu = 1500; payloadSize = mtu - 40
      in case udp_port env of
           None \<Rightarrow> Fails PortError
         | Some port \<Rightarrow> (if notify_ok env nodeId port sz payloadSize then Returns port else Fails NotifyError))"

definition PlanMemcpyHtoD :: "'status plan_env \<Rightarrow> call_env \<Rightarrow> string list \<Rightarrow> u64 \<Rightarrow> 'status hook_server \<Rightarrow>
    (rpc_error, string \<times> u16 \<times> bool) go" where
  "PlanMemcpyHtoD env call order sz s =
     (if \<not> params_ok call then Fails ParamsError
      else let targetNode = selectOptimalNode env order s in
      go_bind (negotiateTransferParams env targetNode sz) (\<lambda>port.
        if results_ok call then Returns (targetNode, port, True) else Fails ResultsError))"

definition PrefetchData :: "call_env \<Rightarrow> string \<Rightarrow> u64 \<Rightarrow> 'status hook_server \<Rightarrow> (rpc_error, unit) go \<times> 'status hook_server" where
  "PrefetchData call dataId sz s =
     (if \<not> params_ok call then (Fails ParamsError, s)
      else if dataId \<in> set (prefetchCache s) then (Returns (), s)
      else (Returns (), s\<lparr>fetching := fetching s @ [(dataId, sz)]\<rparr>))"

text \<open>The states the server can be in: ticks, plans, prefetches, and whatever a fetch does to the cache.\<close>

inductive hook_server_reachable :: "'status hook_server \<Rightarrow> bool" where
  start: "hook_server_reachable hook_server_new"
| tick: "hook_server_reachable s \<Longrightarrow> set order = dom (nodeStatus s) \<Longrightarrow> hook_server_reachable (fst (monitor_tick env order s))"
| prefetch: "hook_server_reachable s \<Longrightarrow> hook_server_reachable (snd (PrefetchData call dataId sz s))"
| fetched: "hook_server_reachable s \<Longrightarrow> hook_server_reachable (s\<lparr>prefetchCache := ids\<rparr>)"

subsection \<open>Routes, services and start\<close>

datatype load_error = RouteFileUnreadable | RouteFileNotJson | InvalidNodeId string

text \<open>The entries of the JSON object in the order of the iteration, or \<open>None\<close> when it is not an object of strings.\<close>

fun route_loop :: "(string \<times> string) list \<Rightarrow> (int \<Rightarrow> string option) \<Rightarrow> (load_error, int \<Rightarrow> string option) go" where
  "route_loop [] result = Returns result"
| "route_loop ((k, v) # es) result =
     (case Atoi k of
        (nodeID, None) \<Rightarrow> route_loop es (result(nodeID \<mapsto> v))
      | (nodeID, Some e) \<Rightarrow> Fails (InvalidNodeId k))"

definition loadRoutes :: "string option \<Rightarrow> (string \<Rightarrow> (string \<times> string) list option) \<Rightarrow> (load_error, int \<Rightarrow> string option) go" where
  "loadRoutes file_text json =
     (case file_text of
        None \<Rightarrow> Fails RouteFileUnreadable
      | Some t \<Rightarrow> (case json t of None \<Rightarrow> Fails RouteFileNotJson | Some entries \<Rightarrow> route_loop entries Map.empty))"

datatype service = GpuService | HookLauncherService

definition GetService :: "string option \<Rightarrow> (rpc_error, service) go" where
  "GetService serviceName =
     (case serviceName of
        None \<Rightarrow> Fails ParamsError
      | Some n \<Rightarrow>
          (if n = ''gpu.GPUService'' then Returns GpuService
           else if n = ''hook.HookLauncher'' then Returns HookLauncherService
           else Fails UnknownService))"

text \<open>How the program starts: it runs, panics, or ends with a fatal message; the flag of a running server says whether the CUDA driver answered.\<close>

record start_env =
  config_ok :: bool
  control_iface :: string
  iface_exists :: "string \<Rightarrow> bool"
  route_file :: "string option"
  json_object :: "string \<Rightarrow> (string \<times> string) list option"
  topology :: file_system
  cuda_init_ok :: bool
  lru_ok :: bool
  zmq_ctx_ok :: bool
  pub_socket_ok :: bool
  pub_bind_ok :: bool
  listen_ok :: bool

datatype startup = StartPanics string | StartFatal string | Running bool

definition NewCapnpServer :: "start_env \<Rightarrow> (string, bool) go" where
  "NewCapnpServer env =
     (case DiscoverNodes (topology env) of
        Returns nodes \<Rightarrow>
          (if \<not> lru_ok env then Fails ''prefetch cache''
           else if \<not> zmq_ctx_ok env then Fails ''ZMQ context''
           else if \<not> pub_socket_ok env then Fails ''PUB socket''
           else if \<not> pub_bind_ok env then Fails ''bind PUB socket''
           else Returns (cuda_init_ok env))
      | _ \<Rightarrow> Fails ''NUMA discovery'')"

definition server_main :: "start_env \<Rightarrow> startup" where
  "server_main env =
     (if \<not> config_ok env then StartPanics ''config file''
      else if control_iface env = [] then StartPanics ''CONTROL_IFACE''
      else if \<not> iface_exists env (control_iface env) then StartPanics ''interface''
      else case loadRoutes (route_file env) (json_object env) of
             Returns routes \<Rightarrow>
               (case NewCapnpServer env of
                  Returns cuda \<Rightarrow> (if listen_ok env then Running cuda else StartPanics ''listen'')
                | Fails e \<Rightarrow> StartFatal e
                | Panics p \<Rightarrow> StartPanics ''NewCapnpServer'')
           | _ \<Rightarrow> StartFatal ''route table'')"

subsection \<open>Selection\<close>

text \<open>The memory of a node, as the loop sees it.\<close>

definition memory_at :: "'status plan_env \<Rightarrow> (string \<Rightarrow> 'status option) \<Rightarrow> string \<Rightarrow> u64" where
  "memory_at env ns nodeId = (case ns nodeId of None \<Rightarrow> 0 | Some st \<Rightarrow> available env st)"

lemma select_loop_spec:
  "(\<forall>n \<in> set order. memory_at env ns n \<le> m) \<and> select_loop env ns order m sel = sel \<or>
   (\<exists>n \<in> set order. select_loop env ns order m sel = n \<and> m < memory_at env ns n \<and>
      (\<forall>n' \<in> set order. memory_at env ns n' \<le> memory_at env ns n))"
proof (induction order arbitrary: m sel)
  case (Cons x order)
  show ?case
  proof (cases "m < memory_at env ns x")
    case True
    then obtain st where st: "ns x = Some st" "memory_at env ns x = available env st"
      by (cases "ns x") (auto simp: memory_at_def)
    then have s: "select_loop env ns (x # order) m sel = select_loop env ns order (memory_at env ns x) x"
      using True by simp
    from Cons.IH [of "memory_at env ns x" x] True show ?thesis
      unfolding s by (auto intro: less_trans order_trans less_imp_le)
  next
    case False
    then have s: "select_loop env ns (x # order) m sel = select_loop env ns order m sel"
      by (auto simp: memory_at_def split: option.splits)
    from Cons.IH [of m sel] False show ?thesis
      unfolding s by (auto simp: not_less intro: less_imp_le order_trans)
  qed
qed simp

text \<open>
  The selected node is one with the most memory, and none when no node reports any. Between nodes
  with equally much the order of the map's iteration decides.
\<close>

lemma selection_is_a_maximum:
  assumes "set order = dom (nodeStatus s)"
  shows "if \<exists>n. 0 < memory_at env (nodeStatus s) n
    then 0 < memory_at env (nodeStatus s) (selectOptimalNode env order s) \<and>
      (\<forall>n. memory_at env (nodeStatus s) n \<le> memory_at env (nodeStatus s) (selectOptimalNode env order s))
    else selectOptimalNode env order s = []"
proof -
  have outside: "memory_at env (nodeStatus s) n = 0" if "n \<notin> set order" for n
    using that assms by (auto simp: memory_at_def split: option.splits)
  from select_loop_spec [of order env "nodeStatus s" 0 "[]"] show ?thesis
  proof
    assume none: "(\<forall>n \<in> set order. memory_at env (nodeStatus s) n \<le> 0) \<and> select_loop env (nodeStatus s) order 0 [] = []"
    then have "memory_at env (nodeStatus s) n = 0" for n using outside [of n] by (cases "n \<in> set order") auto
    then show ?thesis using none by (simp add: selectOptimalNode_def)
  next
    assume "\<exists>n \<in> set order. select_loop env (nodeStatus s) order 0 [] = n \<and> 0 < memory_at env (nodeStatus s) n \<and>
      (\<forall>n' \<in> set order. memory_at env (nodeStatus s) n' \<le> memory_at env (nodeStatus s) n)"
    then obtain n where n: "selectOptimalNode env order s = n" "0 < memory_at env (nodeStatus s) n"
      "\<forall>n' \<in> set order. memory_at env (nodeStatus s) n' \<le> memory_at env (nodeStatus s) n"
      by (auto simp: selectOptimalNode_def)
    have "memory_at env (nodeStatus s) n' \<le> memory_at env (nodeStatus s) n" for n'
      using n(3) outside [of n'] by (cases "n' \<in> set order") auto
    then show ?thesis using n(1,2) by auto
  qed
qed

text \<open>An order of iteration that decides: the first of two nodes with equally much memory is kept.\<close>

lemma selection_depends_on_the_order:
  assumes "nodeStatus s = [''a'' \<mapsto> st, ''b'' \<mapsto> st]" and "0 < available env st"
  shows "selectOptimalNode env [''a'', ''b''] s = ''a'' \<and> selectOptimalNode env [''b'', ''a''] s = ''b''"
  using assms by (simp add: selectOptimalNode_def)

lemma reachable_status_empty: "hook_server_reachable s \<Longrightarrow> nodeStatus s = Map.empty"
proof (induction rule: hook_server_reachable.induct)
  case (tick s order env)
  then have "order = []" by simp
  then show ?case using tick.IH by (simp add: monitor_tick_def)
qed (auto simp: hook_server_new_def PrefetchData_def)

subsection \<open>Properties\<close>

text \<open>
  The monitor only refreshes nodes that are in the status map, and nothing enters one: in every
  reachable state the map is empty, so every plan of a copy that is answered names the empty node,
  whatever nodes there are; that name was also the one notified, for pieces of 1460 bytes.
\<close>

theorem plans_name_no_node:
  assumes "hook_server_reachable s"
  shows "nodeStatus s = Map.empty \<and>
    (case PlanMemcpyHtoD env call order sz s of
       Returns (node, port, udp) \<Rightarrow> node = [] \<and> udp \<and> udp_port env = Some port \<and> notify_ok env [] port sz 1460
     | Fails e \<Rightarrow> e \<in> {ParamsError, PortError, NotifyError, ResultsError}
     | Panics p \<Rightarrow> False)"
proof -
  have ns: "nodeStatus s = Map.empty" using assms by (rule reachable_status_empty)
  have "select_loop env Map.empty order 0 [] = []" by (induction order) simp_all
  then show ?thesis
    using ns by (auto simp: PlanMemcpyHtoD_def selectOptimalNode_def negotiateTransferParams_def Let_def split: option.splits)
qed

definition plan_example :: "u64 plan_env" where
  "plan_example = \<lparr>status_of = (\<lambda>u. 1), available = (\<lambda>s. s), marshal_ok = (\<lambda>s. True), topic_ok = (\<lambda>s. True),
     publish_ok = (\<lambda>s. True), udp_port = Some 9000, notify_ok = (\<lambda>n p s q. True)\<rparr>"

theorem plans_name_no_node_witness:
  "\<exists>udp. PlanMemcpyHtoD plan_example \<lparr>params_ok = True, results_ok = True\<rparr> [''a'', ''b''] 64 hook_server_new =
     Returns ([], 9000, udp)"
  using plans_name_no_node [OF hook_server_reachable.start, where env = plan_example and sz = 64 and order = "[''a'', ''b'']"
      and call = "\<lparr>params_ok = True, results_ok = True\<rparr>"]
  by (auto simp: PlanMemcpyHtoD_def negotiateTransferParams_def Let_def plan_example_def)

text \<open>
  A failure to allocate the results of a call comes after its effect: the GPU stays acquired, or
  released, and the caller learns of an error only.
\<close>

lemma failed_acquire_keeps_the_gpu:
  assumes "params_ok call" and "\<not> results_ok call"
  shows "AcquireGpu b call uuid st = (Fails ResultsError, snd (gs_acquire b st uuid))"
  using assms by (simp add: AcquireGpu_def with_effect_def split: prod.splits)

text \<open>The routes: the last entry for a number wins, and one key that is no number refuses the file.\<close>

definition parsed_entries :: "(string \<times> string) list \<Rightarrow> (int \<times> string) list" where
  "parsed_entries es = map (\<lambda>(k, v). (fst (Atoi k), v)) es"

lemma map_add_upd_assoc: "m ++ ([n \<mapsto> v] ++ M) = m(n \<mapsto> v) ++ M"
  by (simp only: map_add_assoc map_add_upd map_add_empty)

lemma route_loop_Cons:
  "route_loop ((k, v) # es) m =
     (if snd (Atoi k) = None then route_loop es (m(fst (Atoi k) \<mapsto> v)) else Fails (InvalidNodeId k))"
  by (simp split: prod.split option.split)

lemma route_loop_spec:
  "route_loop es m = Returns r \<longleftrightarrow> list_all (\<lambda>(k, v). snd (Atoi k) = None) es \<and> r = m ++ map_of (rev (parsed_entries es))"
proof (induction es arbitrary: m)
  case Nil
  then show ?case by (auto simp: parsed_entries_def)
next
  case (Cons e es)
  obtain k v where e: "e = (k, v)" by force
  have "parsed_entries (e # es) = (fst (Atoi k), v) # parsed_entries es" by (simp add: parsed_entries_def e)
  then show ?case
    by (simp only: e route_loop_Cons Cons.IH list.pred_inject rev.simps map_of_append map_of.simps fst_conv snd_conv map_add_upd_assoc
        case_prod_conv split: if_split) (auto simp: fun_upd_def)
qed

lemma route_loop_outcome: "(\<exists>r. route_loop es m = Returns r) \<or> (\<exists>k. route_loop es m = Fails (InvalidNodeId k))"
proof (induction es arbitrary: m)
  case (Cons e es)
  then show ?case by (cases e) (simp only: route_loop_Cons split: if_split; blast)
qed simp

text \<open>
  Two orders of iteration over the same entries give the same routes when no two keys are the same
  number, and both refuse a file with a key that is none; keys such as \<open>1\<close> and \<open>01\<close> are one number.
\<close>

theorem routes_independent_of_order:
  assumes "mset es = mset es'" and "distinct (map (fst \<circ> Atoi \<circ> fst) es)"
  shows "if list_all (\<lambda>(k, v). snd (Atoi k) = None) es
    then route_loop es Map.empty = Returns (map_of (parsed_entries es)) \<and> route_loop es' Map.empty = route_loop es Map.empty
    else (\<exists>k k'. route_loop es Map.empty = Fails (InvalidNodeId k) \<and> route_loop es' Map.empty = Fails (InvalidNodeId k'))"
proof -
  have keys: "map fst (parsed_entries es) = map (fst \<circ> Atoi \<circ> fst) es" by (simp add: parsed_entries_def comp_def case_prod_beta)
  have m: "mset (parsed_entries es) = mset (parsed_entries es')" using assms(1) by (simp add: parsed_entries_def)
  have d: "distinct (map fst (parsed_entries es))" using assms(2) by (simp add: keys)
  have "mset (map fst (parsed_entries es)) = mset (map fst (parsed_entries es'))" using m by simp
  then have d': "distinct (map fst (parsed_entries es'))" using d by (metis mset_eq_imp_distinct_iff)
  have all: "list_all (\<lambda>(k, v). snd (Atoi k) = None) es' \<longleftrightarrow> list_all (\<lambda>(k, v). snd (Atoi k) = None) es"
    using mset_eq_setD [OF assms(1)] by (simp add: list_all_iff)
  have rev_eq: "map_of (rev (parsed_entries es)) = map_of (parsed_entries es)"
    by (subst map_of_inject_set) (simp_all add: d flip: rev_map)
  have rev_eq': "map_of (rev (parsed_entries es')) = map_of (parsed_entries es)"
    by (subst map_of_inject_set) (simp_all add: d d' mset_eq_setD [OF m] flip: rev_map)
  show ?thesis
  proof (cases "list_all (\<lambda>(k, v). snd (Atoi k) = None) es")
    case True
    then have "route_loop es Map.empty = Returns (map_of (parsed_entries es))"
      "route_loop es' Map.empty = Returns (map_of (parsed_entries es))"
      using all by (simp_all add: route_loop_spec rev_eq rev_eq')
    then show ?thesis using True by simp
  next
    case False
    then have "\<nexists>r. route_loop es Map.empty = Returns r" "\<nexists>r. route_loop es' Map.empty = Returns r"
      using all by (simp_all add: route_loop_spec)
    then show ?thesis using False route_loop_outcome [of es Map.empty] route_loop_outcome [of es' Map.empty] by auto
  qed
qed

theorem routes_independent_of_order_witness:
  "route_loop [(Itoa 8, ''b''), (Itoa 0, ''a'')] Map.empty = route_loop [(Itoa 0, ''a''), (Itoa 8, ''b'')] Map.empty"
  using routes_independent_of_order [of "[(Itoa 0, ''a''), (Itoa 8, ''b'')]" "[(Itoa 8, ''b''), (Itoa 0, ''a'')]"] by simp

lemma colliding_routes:
  "route_loop [(''1'', ''a''), (''01'', ''b'')] Map.empty \<noteq> route_loop [(''01'', ''b''), (''1'', ''a'')] Map.empty"
proof -
  have "Atoi ''1'' = (1, None)" "Atoi ''01'' = (1, None)"
    by (simp_all add: Atoi_def ParseUint_def is_digit_def digit_val_def max_uint64_def)
  then show ?thesis by (auto dest: fun_cong [of _ _ 1])
qed

text \<open>The program runs without a CUDA driver: its absence is only logged.\<close>

lemma server_runs_iff:
  "server_main env = Running cuda \<longleftrightarrow>
     config_ok env \<and> control_iface env \<noteq> [] \<and> iface_exists env (control_iface env) \<and>
     (\<exists>routes. loadRoutes (route_file env) (json_object env) = Returns routes) \<and>
     read_dir (topology env) node_dir \<noteq> None \<and> lru_ok env \<and> zmq_ctx_ok env \<and> pub_socket_ok env \<and> pub_bind_ok env \<and>
     listen_ok env \<and> cuda = cuda_init_ok env"
  by (auto simp: server_main_def NewCapnpServer_def DiscoverNodes_def split: go.splits option.splits)

end
