(* ===== verification/ProtocolAdapter.thy ===== *)
theory ProtocolAdapter
  imports HookClient
begin

section \<open>The protocol adapter\<close>

text \<open>
  \<open>client/launcher/protocol_adapter.cpp\<close>: conversions between allocation records and wire handles,
  the conversion of a kernel launch with its parameters, and the RDMA copy. The messages are
  records of their fields; \<open>RemoteAllocInfo\<close> has here the fields this file uses. The limit
  \<open>MAX_PARAMS\<close>, the location service and the verbs calls are parameters. \<open>kernelParams\<close> is the
  array of pointers as it is in memory, and \<open>mem\<close> gives the eight bytes at an address, if readable.
\<close>

record adapter_alloc =
  aa_node_id :: u32
  aa_size :: u64
  aa_remote_handle :: u64
  aa_fakePtr :: u64

record memory_handle =
  id_handle :: u64
  mh_size :: u64
  mh_nodeId :: u32
  mh_localPtr :: u64

definition convertToMemoryHandle :: "adapter_alloc \<Rightarrow> memory_handle" where
  "convertToMemoryHandle info = \<lparr>id_handle = aa_remote_handle info, mh_size = aa_size info,
     mh_nodeId = aa_node_id info, mh_localPtr = aa_fakePtr info\<rparr>"

definition convertToRemoteAllocInfo :: "memory_handle \<Rightarrow> adapter_alloc" where
  "convertToRemoteAllocInfo handle = \<lparr>aa_node_id = mh_nodeId handle, aa_size = mh_size handle,
     aa_remote_handle = id_handle handle, aa_fakePtr = mh_localPtr handle\<rparr>"

subsection \<open>Kernel launches\<close>

datatype param_type = pointer | scalar

record kernel_param =
  p_type :: param_type
  p_value :: "u8 list"
  p_nodeId :: u32
  p_memoryType :: string
  p_alignment :: u32
  p_offset :: u32

record kernel_launch =
  kl_kernelName :: string
  kl_grid :: "u32 \<times> u32 \<times> u32"
  kl_block :: "u32 \<times> u32 \<times> u32"
  kl_sharedMemBytes :: u32
  kl_params :: "kernel_param list"

text \<open>
  The counting loop reads the array at \<open>n\<close> before it compares \<open>n\<close> with the limit; a read past the
  end of the array is a fault.
\<close>

function count_params :: "nat \<Rightarrow> u64 list \<Rightarrow> nat \<Rightarrow> nat exec" where
  "count_params max_params kernelParams n =
     (if length kernelParams \<le> n then UB OutOfBounds
      else if kernelParams ! n \<noteq> 0 \<and> n < max_params then count_params max_params kernelParams (Suc n)
      else Done n)"
  by pat_completeness auto
termination
  by (relation "measure (\<lambda>(m, xs, n). length xs - n)") auto

declare count_params.simps [simp del]

definition bytes8 :: "u64 \<Rightarrow> u8 list" where
  "bytes8 w = map (\<lambda>i. ucast (drop_bit (8 * i) w)) [0..<8]"

definition no_location :: u32 where "no_location = 0xFFFFFFFF"

definition convert_param :: "(u64 \<Rightarrow> (u32 \<times> string) exec) \<Rightarrow> (u64 \<Rightarrow> u8 list option) \<Rightarrow> u64 \<Rightarrow> kernel_param exec" where
  "convert_param location mem paramPtr =
     exec_bind (location paramPtr) (\<lambda>(nodeId, memoryType).
       if nodeId \<noteq> no_location
       then Done \<lparr>p_type = pointer, p_value = bytes8 paramPtr, p_nodeId = nodeId, p_memoryType = memoryType,
                  p_alignment = 8, p_offset = 0\<rparr>
       else case mem paramPtr of
              None \<Rightarrow> UB OutOfBounds
            | Some bs \<Rightarrow> Done \<lparr>p_type = scalar, p_value = bs, p_nodeId = 0, p_memoryType = [],
                             p_alignment = 8, p_offset = 0\<rparr>)"

fun convert_params :: "(u64 \<Rightarrow> (u32 \<times> string) exec) \<Rightarrow> (u64 \<Rightarrow> u8 list option) \<Rightarrow> u64 list \<Rightarrow> kernel_param list exec" where
  "convert_params location mem [] = Done []"
| "convert_params location mem (p # ps) =
     exec_bind (convert_param location mem p) (\<lambda>k.
     exec_bind (convert_params location mem ps) (\<lambda>ks. Done (k # ks)))"

definition convertToKernelLaunch :: "nat \<Rightarrow> (u64 \<Rightarrow> (u32 \<times> string) exec) \<Rightarrow> (u64 \<Rightarrow> u8 list option) \<Rightarrow> string \<Rightarrow>
    u32 \<times> u32 \<times> u32 \<Rightarrow> u32 \<times> u32 \<times> u32 \<Rightarrow> u32 \<Rightarrow> u64 list \<Rightarrow> kernel_launch exec" where
  "convertToKernelLaunch max_params location mem kernelName grid block sharedMemBytes kernelParams =
     exec_bind (count_params max_params kernelParams 0) (\<lambda>paramCount.
     exec_bind (convert_params location mem (take paramCount kernelParams)) (\<lambda>params.
       Done \<lparr>kl_kernelName = kernelName, kl_grid = grid, kl_block = block,
             kl_sharedMemBytes = sharedMemBytes, kl_params = params\<rparr>))"

subsection \<open>The RDMA copy\<close>

text \<open>
  \<open>ok\<close> says which of the verbs calls succeed; the result is the ledger of the handles. The copy
  itself is only announced by a comment: between creating the queue pair and destroying it
  nothing is posted.
\<close>

datatype rdma_res = R_Context | R_Pd | R_MrSrc | R_MrDst | R_Cq | R_Qp

definition rdmaMemcpy :: "(rdma_res \<Rightarrow> bool) \<Rightarrow> rdma_res entry list" where
  "rdmaMemcpy ok =
     (if \<not> ok R_Context then []
      else let l1 = [Acq R_Context, Use R_Context] in
      if \<not> ok R_Pd then l1 @ [Rel R_Context]
      else let l2 = l1 @ [Acq R_Pd, Use R_Pd] in
      if \<not> ok R_MrSrc then l2 @ [Rel R_Pd, Rel R_Context]
      else let l3 = l2 @ [Acq R_MrSrc, Use R_Pd] in
      if \<not> ok R_MrDst then l3 @ [Rel R_MrSrc, Rel R_Pd, Rel R_Context]
      else let l4 = l3 @ [Acq R_MrDst, Use R_Context] in
      if \<not> ok R_Cq then l4 @ [Rel R_MrDst, Rel R_MrSrc, Rel R_Pd, Rel R_Context]
      else let l5 = l4 @ [Acq R_Cq, Use R_Cq, Use R_Pd] in
      if \<not> ok R_Qp then l5 @ [Rel R_Cq, Rel R_MrDst, Rel R_MrSrc, Rel R_Pd, Rel R_Context]
      else l5 @ [Acq R_Qp, Rel R_Qp, Rel R_Cq, Rel R_MrDst, Rel R_MrSrc, Rel R_Pd, Rel R_Context])"

lemma rdmaMemcpy_balanced: "balanced (rdmaMemcpy ok)"
  by (simp add: rdmaMemcpy_def balanced_def Let_def)

subsection \<open>Properties\<close>

lemma handle_round_trip:
  "convertToRemoteAllocInfo (convertToMemoryHandle a) = a" "convertToMemoryHandle (convertToRemoteAllocInfo h) = h"
  by (simp_all add: convertToMemoryHandle_def convertToRemoteAllocInfo_def)

lemma count_params_Done: "count_params m xs n = Done k \<Longrightarrow>
    n \<le> k \<and> k < length xs \<and> (\<forall>i. n \<le> i \<and> i < k \<longrightarrow> xs ! i \<noteq> 0) \<and> (n \<le> m \<longrightarrow> k \<le> m) \<and> (xs ! k = 0 \<or> m \<le> k)"
proof (induction m xs n rule: count_params.induct)
  case (1 m xs n)
  show ?case
  proof (cases "length xs \<le> n")
    case True
    then show ?thesis using "1.prems" by (simp add: count_params.simps [of m xs n])
  next
    case False
    show ?thesis
    proof (cases "xs ! n \<noteq> 0 \<and> n < m")
      case True
      then have "count_params m xs (Suc n) = Done k"
        using "1.prems" False by (simp add: count_params.simps [of m xs n])
      from "1.IH" [OF False True this] True show ?thesis
        by (metis Suc_leD Suc_le_eq le_eq_less_or_eq)
    next
      case stop: False
      then have "k = n" using "1.prems" False by (auto simp: count_params.simps [of m xs n])
      then show ?thesis using stop False by auto
    qed
  qed
qed

lemma count_params_UB: "n \<le> length xs \<Longrightarrow> \<forall>i. n \<le> i \<and> i < length xs \<longrightarrow> xs ! i \<noteq> 0 \<Longrightarrow> length xs \<le> m \<Longrightarrow>
    count_params m xs n = UB OutOfBounds"
proof (induction m xs n rule: count_params.induct)
  case (1 m xs n)
  show ?case
  proof (cases "length xs \<le> n")
    case True
    then show ?thesis by (simp add: count_params.simps [of m xs n])
  next
    case False
    then have "count_params m xs (Suc n) = UB OutOfBounds" using 1 by simp
    then show ?thesis using False "1.prems" by (simp add: count_params.simps [of m xs n])
  qed
qed

lemma count_params_finds_from:
  "n \<le> k \<Longrightarrow> k < length xs \<Longrightarrow> k \<le> m \<Longrightarrow> \<forall>i. n \<le> i \<and> i < k \<longrightarrow> xs ! i \<noteq> 0 \<Longrightarrow> xs ! k = 0 \<or> k = m \<Longrightarrow>
     count_params m xs n = Done k"
proof (induction m xs n rule: count_params.induct)
  case (1 m xs n)
  show ?case
  proof (cases "n = k")
    case True
    then show ?thesis using "1.prems" by (subst count_params.simps) auto
  next
    case False
    then have "\<not> length xs \<le> n" "xs ! n \<noteq> 0 \<and> n < m" "Suc n \<le> k" using "1.prems" by auto
    then show ?thesis using "1.IH" "1.prems" by (simp add: count_params.simps [of m xs n])
  qed
qed

lemma count_params_finds:
  "k < length xs \<Longrightarrow> k \<le> m \<Longrightarrow> \<forall>i<k. xs ! i \<noteq> 0 \<Longrightarrow> xs ! k = 0 \<or> k = m \<Longrightarrow> count_params m xs 0 = Done k"
  by (rule count_params_finds_from) auto

lemma count_params_cases: "(\<exists>k. count_params m xs n = Done k) \<or> count_params m xs n = UB OutOfBounds"
  by (induction m xs n rule: count_params.induct) (subst (1 2) count_params.simps, auto)

lemma convert_params_Done: "convert_params location mem ps = Done ks \<Longrightarrow>
    length ks = length ps \<and> (\<forall>i < length ps. convert_param location mem (ps ! i) = Done (ks ! i))"
proof (induction ps arbitrary: ks)
  case (Cons p ps)
  then obtain k ks' where "convert_param location mem p = Done k" "convert_params location mem ps = Done ks'"
    "ks = k # ks'"
    by (auto simp: exec_simps)
  then show ?case using Cons.IH [of ks'] by (auto simp: nth_Cons split: nat.splits)
qed simp

lemma convert_param_Done:
  assumes "convert_param location mem p = Done k"
  shows "p_alignment k = 8 \<and> (\<exists>node mt. location p = Done (node, mt) \<and>
    (if node = no_location then p_type k = scalar \<and> mem p = Some (p_value k)
     else p_type k = pointer \<and> p_value k = bytes8 p \<and> p_nodeId k = node \<and> p_memoryType k = mt))"
proof -
  obtain node mt where loc: "location p = Done (node, mt)"
    using assms by (auto simp: convert_param_def exec_simps)
  show ?thesis
  proof (cases "node = no_location")
    case True
    then obtain bs where "mem p = Some bs" using assms loc by (cases "mem p") (simp_all add: convert_param_def)
    then show ?thesis using assms loc True by (auto simp: convert_param_def)
  next
    case False
    then show ?thesis using assms loc by (auto simp: convert_param_def)
  qed
qed

lemma count_params_Done_iff:
  "count_params m xs 0 = Done k \<longleftrightarrow> k < length xs \<and> k \<le> m \<and> (\<forall>i<k. xs ! i \<noteq> 0) \<and> (xs ! k = 0 \<or> k = m)"
proof
  assume "count_params m xs 0 = Done k"
  from count_params_Done [OF this] show "k < length xs \<and> k \<le> m \<and> (\<forall>i<k. xs ! i \<noteq> 0) \<and> (xs ! k = 0 \<or> k = m)"
    by auto
next
  assume "k < length xs \<and> k \<le> m \<and> (\<forall>i<k. xs ! i \<noteq> 0) \<and> (xs ! k = 0 \<or> k = m)"
  then show "count_params m xs 0 = Done k" using count_params_finds [of k xs m] by blast
qed

lemma count_params_UB_iff: "count_params m xs 0 = UB OutOfBounds \<longleftrightarrow> 0 \<notin> set xs \<and> length xs \<le> m"
proof
  assume "0 \<notin> set xs \<and> length xs \<le> m"
  then show "count_params m xs 0 = UB OutOfBounds"
    by (intro count_params_UB) (auto dest: nth_mem)
next
  assume ub: "count_params m xs 0 = UB OutOfBounds"
  let ?P = "\<lambda>k. k < length xs \<and> k \<le> m \<and> (xs ! k = 0 \<or> k = m)"
  have none: "\<not> ?P k" for k
  proof
    assume "?P k"
    then obtain k where "?P k" "\<forall>j<k. \<not> ?P j" using exists_least_iff [of ?P] by blast
    then have "count_params m xs 0 = Done k" using count_params_finds [of k xs m] by auto
    with ub show False by simp
  qed
  have "length xs \<le> m" using none [of m] by auto
  then show "0 \<notin> set xs \<and> length xs \<le> m" using none by (auto simp: in_set_conv_nth)
qed

text \<open>
  Counting the kernel's parameters needs a null pointer after them: the count is the position
  of the first null pointer, or the limit when more entries than that are there; an array without
  a null pointer and with at most as many entries as the limit, which is what the driver's
  interface asks callers for, is read past its end.
\<close>

theorem parameter_count_needs_a_terminator:
  "(count_params m xs 0 = UB OutOfBounds \<longleftrightarrow> 0 \<notin> set xs \<and> length xs \<le> m) \<and>
   (count_params m xs 0 = Done k \<longleftrightarrow>
      k < length xs \<and> k \<le> m \<and> 0 \<notin> set (take k xs) \<and> (xs ! k = 0 \<or> k = m))"
proof (intro conjI count_params_UB_iff)
  have "0 \<notin> set (take k xs) \<longleftrightarrow> (\<forall>i<k. xs ! i \<noteq> 0)" if "k \<le> length xs"
    using that by (auto simp: in_set_conv_nth)
  then show "count_params m xs 0 = Done k \<longleftrightarrow>
      k < length xs \<and> k \<le> m \<and> 0 \<notin> set (take k xs) \<and> (xs ! k = 0 \<or> k = m)"
    by (cases "k < length xs") (simp_all only: count_params_Done_iff less_imp_le simp_thms)
qed

text \<open>
  C38. A converted launch has one parameter per counted pointer, in order, each aligned to eight
  bytes at offset 0: a pointer with its eight little-endian bytes and the node and memory type the
  location service gave when that knows it, and otherwise a scalar with the eight bytes it points
  to.
\<close>

theorem converted_parameters:
  assumes "convertToKernelLaunch m location mem name grid block shared xs = Done launch"
    and "count_params m xs 0 = Done n" and "i < n"
  shows "length (kl_params launch) = n \<and> p_alignment (kl_params launch ! i) = 8 \<and>
    (\<exists>node mt. location (xs ! i) = Done (node, mt) \<and>
      (if node = no_location
       then p_type (kl_params launch ! i) = scalar \<and> mem (xs ! i) = Some (p_value (kl_params launch ! i))
       else p_type (kl_params launch ! i) = pointer \<and> p_value (kl_params launch ! i) = bytes8 (xs ! i) \<and>
            p_nodeId (kl_params launch ! i) = node \<and> p_memoryType (kl_params launch ! i) = mt))"
proof -
  have n: "n < length xs" using count_params_Done [OF assms(2)] by simp
  obtain ks where ks: "convert_params location mem (take n xs) = Done ks" "kl_params launch = ks"
    using assms(1,2) by (auto simp: convertToKernelLaunch_def exec_simps)
  have "length ks = n" "convert_param location mem (xs ! i) = Done (ks ! i)"
    using convert_params_Done [OF ks(1)] n assms(3) by auto
  then show ?thesis using convert_param_Done [of location mem "xs ! i" "ks ! i"] unfolding ks(2) by blast
qed

theorem converted_parameters_witness:
  "\<exists>launch. convertToKernelLaunch 8 (\<lambda>p. Done (if p = 16 then (3, ''VRAM'') else (no_location, []))) (\<lambda>_. Some [1])
      ''k'' (1, 1, 1) (1, 1, 1) 0 [16, 32, 0] = Done launch \<and> p_nodeId (kl_params launch ! 0) = 3"
proof -
  let ?loc = "\<lambda>p. Done (if p = (16 :: u64) then (3, ''VRAM'') else (no_location, []))"
  have n: "count_params 8 [16, 32, 0] 0 = Done 2"
    by (simp add: count_params.simps)
  obtain launch where l: "convertToKernelLaunch 8 ?loc (\<lambda>_. Some [1]) ''k'' (1, 1, 1) (1, 1, 1) 0 [16, 32, 0] = Done launch"
    by (simp add: convertToKernelLaunch_def n convert_param_def no_location_def)
  from converted_parameters [OF l n, of 0] l show ?thesis
    by (auto simp: no_location_def split: if_splits)
qed

end
