(* ===== verification/EndToEnd.thy ===== *)
theory EndToEnd
  imports GpuServer HookToLauncher ProtocolAdapter
begin

section \<open>From the client to the server\<close>

text \<open>
  What the Go server (\<open>cmd/capnpserver/main.go\<close>) makes of what the C++ client sends: which of the
  client's methods it has, and what \<open>processMessage\<close> does with the bytes of the hook's copies and of
  the packets of \<open>ZmqTransport\<close>, if they arrive as they were sent.
\<close>

subsection \<open>The server's header\<close>

text \<open>
  The header as the server reads it: operation, address and size, packed and little-endian, and 19
  reserved bytes.
\<close>

definition write_header :: "message_header \<Rightarrow> u8 list" where
  "write_header h = Operation h # bytes8 (DstDevice h) @ bytes_le (HdrDataSize h) @ replicate 19 0"

lemma le_nat_bytes:
  "le_nat (map (\<lambda>i. ucast (drop_bit (8 * i) w)) [0..<n]) = take_bit (8 * n) (unat (w :: 'a::len word))"
proof (induction n arbitrary: w)
  case 0
  then show ?case by (simp add: le_nat_def)
next
  case (Suc n)
  have byte: "unat (ucast w :: u8) = take_bit 8 (unat w)" by (simp add: unsigned_ucast_eq)
  have rest: "unat (drop_bit 8 w) = drop_bit 8 (unat w)" by (rule unat_drop_bit_eq)
  have "le_nat (map (\<lambda>i. ucast (drop_bit (8 * i) w)) [0..<Suc n]) =
      unat (ucast w :: u8) + 256 * le_nat (map (\<lambda>i. ucast (drop_bit (8 * i) (drop_bit 8 w))) [0..<n])"
    by (simp add: le_nat_def upt_conv_Cons map_Suc_upt [symmetric] comp_def drop_bit_drop_bit algebra_simps del: upt_Suc)
  also have "\<dots> = take_bit 8 (unat w) + 256 * take_bit (8 * n) (drop_bit 8 (unat w))"
    using Suc.IH [of "drop_bit 8 w"] by (simp only: byte rest)
  also have "\<dots> = take_bit (8 * Suc n) (unat w)"
    using mod_mult2_eq [of "unat w" 256 "2 ^ (8 * n)"] by (simp add: take_bit_eq_mod drop_bit_eq_div power_add)
  finally show ?case .
qed

lemma le_nat_bytes8 [simp]: "le_nat (bytes8 w) = unat w"
proof -
  have "unat w < 2 ^ LENGTH(64)" by (rule unsigned_less)
  then show ?thesis using le_nat_bytes [of w 8] by (simp add: bytes8_def take_bit_nat_eq_self)
qed

lemma le_nat_bytes_le [simp]: "le_nat (bytes_le w) = unat w"
proof -
  have "unat w < 2 ^ LENGTH(32)" by (rule unsigned_less)
  then show ?thesis using le_nat_bytes [of w 4] by (simp add: bytes_le_def take_bit_nat_eq_self)
qed

lemma length_bytes8 [simp]: "length (bytes8 w) = 8"
  by (simp add: bytes8_def)

lemma length_write_header [simp]: "length (write_header h) = headerSize"
  by (simp add: write_header_def headerSize_def)

lemma read_write_header [simp]: "read_header (write_header h) = h"
  by (simp add: read_header_def write_header_def)

lemma processMessage_header:
  assumes "length payload = unat (HdrDataSize h)"
  shows "processMessage k mem (write_header h @ payload @ rest) = go_wrap AccessFailed
    (RouteMemoryAccess k mem (DstDevice h) (ucast (HdrDataSize h)) (uint (Operation h)) payload)"
  using assms by (simp add: processMessage_def)

text \<open>A message is complete when its announced bytes are there; what follows them is not looked at.\<close>

definition complete :: "u8 list \<Rightarrow> bool" where
  "complete m \<longleftrightarrow> headerSize \<le> length m \<and> headerSize + unat (HdrDataSize (read_header (take headerSize m))) \<le> length m"

lemma processMessage_rest: "complete m \<Longrightarrow> processMessage k mem (m @ rest) = processMessage k mem m"
  by (simp add: processMessage_def complete_def not_less Let_def)

lemma incomplete_refused:
  "\<not> complete m \<Longrightarrow> processMessage k mem m = Fails MessageTooShort \<or> processMessage k mem m = Fails DataSizeMismatch"
  by (auto simp: processMessage_def complete_def Let_def)

subsection \<open>Which methods the server has\<close>

text \<open>
  The methods of \<open>HookLauncher\<close> and of the GPU service that \<open>CapnpServer\<close> has, by the names the schema
  gives them. The server is registered as both interfaces.
\<close>

definition go_hook_methods :: "string list" where
  "go_hook_methods = [''planMemcpyHtoD'', ''prefetchData'']"

definition go_gpu_methods :: "string list" where
  "go_gpu_methods = [''listGpus'', ''getGpuStatus'', ''acquireGpu'', ''releaseGpu'', ''runCommand'']"

lemma missing_hook_methods:
  "filter (\<lambda>m. launcher_name m \<notin> set go_hook_methods) launcher_methods =
     [M_planMemcpyDtoH, M_getNodeStatus, M_measureBandwidth, M_trackAsyncTask, M_getMemoryLocation,
      M_advisePrefetch, M_requestRdmaPlan, M_requestAllocationPlan, M_requestFreePlan, M_launchKernel]"
  by (simp add: launcher_methods_def go_hook_methods_def)

lemma missing_gpu_methods:
  "filter (\<lambda>m. scheduler_name m \<notin> set go_gpu_methods) scheduler_methods = [M_requestPath, M_reportMetrics, M_registerGpu]"
  by (simp add: scheduler_methods_def go_gpu_methods_def)

text \<open>Of the hook's requests the server, like the launcher, has a method only for the plan of a copy to the device.\<close>

lemma server_serves_only_htod_plans:
  "launcher_name (method_of req) \<in> set go_hook_methods \<longleftrightarrow> method_of req = M_planMemcpyHtoD"
  by (cases req) (simp_all add: go_hook_methods_def)

subsection \<open>Properties\<close>

text \<open>
  The server takes the first bytes of a copy as the header of a message. A copy by the hook that
  succeeds reaches the server as the application's bytes alone, whatever the device pointer; fewer
  than 32 are refused; and if the application's bytes are a header and its payload, the server
  performs the operation that the header names at the address it names.
\<close>

theorem copied_bytes_are_taken_as_header:
  assumes "Hooked_cuMemcpyHtoD zmq False dstDevice src len s = Done (CUDA_SUCCESS, Sent [(ep, d)], s')"
  shows "d = take (unat len) src \<and>
    (unat len < 32 \<longrightarrow> processMessage k mem d = Fails MessageTooShort) \<and>
    (\<forall>h payload. src = write_header h @ payload \<and> unat len = length src \<and> length payload = unat (HdrDataSize h) \<longrightarrow>
       processMessage k mem d = go_wrap AccessFailed
         (RouteMemoryAccess k mem (DstDevice h) (ucast (HdrDataSize h)) (uint (Operation h)) payload))"
proof -
  have d: "d = take (unat len) src"
    using assms by (auto simp: Hooked_cuMemcpyHtoD_def SendData_def exec_simps Let_def split: if_splits)
  then show ?thesis
    using processMessage_header [where rest = "[]"] by (auto simp: processMessage_def headerSize_def)
qed

text \<open>The state of a hook in which nothing is set up, for examples.\<close>

definition bare_hook :: hook_state where
  "bare_hook = \<lparr>cudaModule = None, originals = (\<lambda>f. None), hooked = [], function_name_map = Map.empty,
     client = LauncherClient ''h''\<rparr>"

theorem copied_bytes_are_taken_as_header_witness:
  "\<exists>d ep s'. Hooked_cuMemcpyHtoD (good_env [] (\<lambda>k. True)) False 4096 [1, 2, 3] 2 bare_hook = Done (CUDA_SUCCESS, Sent [(ep, d)], s') \<and>
     processMessage (small_kernel {0}) Map.empty d = Fails MessageTooShort"
proof -
  have r: "Hooked_cuMemcpyHtoD (good_env [] (\<lambda>k. True)) False 4096 [1, 2, 3] 2 bare_hook =
      Done (CUDA_SUCCESS, Sent [(endpoint local_ip 5555, [1, 2])], bare_hook)"
    by (simp add: Hooked_cuMemcpyHtoD_def SendData_def good_env_def)
  from copied_bytes_are_taken_as_header [OF r, of "small_kernel {0}" Map.empty] r show ?thesis by auto
qed

text \<open>
  No checksum is looked at: the packet of a transport whose payload is a complete message is
  processed like the payload alone, whatever the checksum says.
\<close>

theorem server_ignores_checksums:
  assumes "make_packet crc buf len = Done packet" and "complete (take (unat len) buf)"
  shows "processMessage k mem packet = processMessage k mem (take (unat len) buf)"
proof -
  obtain bs where "packet = take (unat len) buf @ bs"
    using assms(1) by (auto simp: make_packet_def Let_def split: if_splits)
  then show ?thesis using processMessage_rest [OF assms(2)] by simp
qed

theorem server_ignores_checksums_witness:
  "\<exists>packet. make_packet (\<lambda>bs. 77) (write_header \<lparr>Operation = 2, DstDevice = 64, HdrDataSize = 0\<rparr>) 32 = Done packet \<and>
     processMessage (small_kernel {0}) Map.empty packet = Fails (AccessFailed NoValue)"
proof -
  let ?h = "\<lparr>Operation = 2, DstDevice = 64, HdrDataSize = 0\<rparr> :: message_header"
  obtain packet where p: "make_packet (\<lambda>bs. 77) (write_header ?h) 32 = Done packet"
    by (simp add: make_packet_def headerSize_def)
  have c: "complete (take (unat (32 :: u64)) (write_header ?h))" by (simp add: complete_def headerSize_def)
  have "processMessage (small_kernel {0}) Map.empty (write_header ?h) = Fails (AccessFailed NoValue)"
    using processMessage_header [of "[]" ?h "small_kernel {0}" Map.empty "[]"]
    by (simp add: RouteMemoryAccess_def accessViaXBus_def small_kernel_def GetAddressNode_def GetCurrentNode_def
        MEMCPY_OPERATION_def MEMSET_OPERATION_def)
  with server_ignores_checksums [OF p c, of "small_kernel {0}" Map.empty] p show ?thesis by (simp add: headerSize_def)
qed

end
