(* ===== verification/InterfaceClasses.thy ===== *)
theory InterfaceClasses
  imports Rpc
begin

section \<open>The interface classes of the generated headers\<close>

text \<open>
  The declarations in \<open>proto/proto/*.capnp.h\<close> of what an interface is in C++: the struct with its
  interface id and the nested parameter and result types, the client class with a request stub for
  each method, and the server class with a virtual method for each, whose context is declared by
  three typedefs. A type is represented by the layout of its struct, as in \<open>Rpc\<close>. They are compared
  with the stubs and dispatchers of the source files.
\<close>

type_synonym stub_decl = "string \<times> layout \<times> layout"

text \<open>A stub is declared under the name of its method with \<open>Request\<close> appended.\<close>

definition declares_stubs :: "('m \<Rightarrow> string) \<Rightarrow> ('m \<Rightarrow> rpc_call) \<Rightarrow> 'm list \<Rightarrow> stub_decl list \<Rightarrow> bool" where
  "declares_stubs name request methods decls \<longleftrightarrow>
     decls = map (\<lambda>m. (name m @ ''Request'', call_params (request m), call_results (request m))) methods"

definition declares_methods :: "('m \<Rightarrow> string) \<Rightarrow> ('m \<Rightarrow> rpc_call) \<Rightarrow> 'm list \<Rightarrow> stub_decl list \<Rightarrow> bool" where
  "declares_methods name request methods decls \<longleftrightarrow>
     decls = map (\<lambda>m. (name m, call_params (request m), call_results (request m))) methods"

subsection \<open>\<open>HookLauncher\<close>\<close>

definition launcher_interface_id :: u64 where "launcher_interface_id = 0xb5d15336d30e0dd1"

definition launcher_nested :: "layout list" where
  "launcher_nested = [
     HookLauncher_PlanMemcpyHtoDParams_layout,
     HookLauncher_PlanMemcpyHtoDResults_layout,
     HookLauncher_PlanMemcpyDtoHParams_layout,
     HookLauncher_PlanMemcpyDtoHResults_layout,
     HookLauncher_GetNodeStatusParams_layout,
     HookLauncher_GetNodeStatusResults_layout,
     HookLauncher_PrefetchDataParams_layout,
     HookLauncher_PrefetchDataResults_layout,
     HookLauncher_MeasureBandwidthParams_layout,
     HookLauncher_MeasureBandwidthResults_layout,
     HookLauncher_TrackAsyncTaskParams_layout,
     HookLauncher_TrackAsyncTaskResults_layout,
     HookLauncher_GetMemoryLocationParams_layout,
     HookLauncher_GetMemoryLocationResults_layout,
     HookLauncher_AdvisePrefetchParams_layout,
     HookLauncher_AdvisePrefetchResults_layout,
     HookLauncher_RequestRdmaPlanParams_layout,
     HookLauncher_RequestRdmaPlanResults_layout,
     HookLauncher_RequestAllocationPlanParams_layout,
     HookLauncher_RequestAllocationPlanResults_layout,
     HookLauncher_RequestFreePlanParams_layout,
     HookLauncher_RequestFreePlanResults_layout,
     HookLauncher_LaunchKernelParams_layout,
     HookLauncher_LaunchKernelResults_layout]"

definition launcher_client_decls :: "stub_decl list" where
  "launcher_client_decls = [
     (''planMemcpyHtoDRequest'', HookLauncher_PlanMemcpyHtoDParams_layout, HookLauncher_PlanMemcpyHtoDResults_layout),
     (''planMemcpyDtoHRequest'', HookLauncher_PlanMemcpyDtoHParams_layout, HookLauncher_PlanMemcpyDtoHResults_layout),
     (''getNodeStatusRequest'', HookLauncher_GetNodeStatusParams_layout, HookLauncher_GetNodeStatusResults_layout),
     (''prefetchDataRequest'', HookLauncher_PrefetchDataParams_layout, HookLauncher_PrefetchDataResults_layout),
     (''measureBandwidthRequest'', HookLauncher_MeasureBandwidthParams_layout, HookLauncher_MeasureBandwidthResults_layout),
     (''trackAsyncTaskRequest'', HookLauncher_TrackAsyncTaskParams_layout, HookLauncher_TrackAsyncTaskResults_layout),
     (''getMemoryLocationRequest'', HookLauncher_GetMemoryLocationParams_layout, HookLauncher_GetMemoryLocationResults_layout),
     (''advisePrefetchRequest'', HookLauncher_AdvisePrefetchParams_layout, HookLauncher_AdvisePrefetchResults_layout),
     (''requestRdmaPlanRequest'', HookLauncher_RequestRdmaPlanParams_layout, HookLauncher_RequestRdmaPlanResults_layout),
     (''requestAllocationPlanRequest'', HookLauncher_RequestAllocationPlanParams_layout, HookLauncher_RequestAllocationPlanResults_layout),
     (''requestFreePlanRequest'', HookLauncher_RequestFreePlanParams_layout, HookLauncher_RequestFreePlanResults_layout),
     (''launchKernelRequest'', HookLauncher_LaunchKernelParams_layout, HookLauncher_LaunchKernelResults_layout)]"

definition launcher_server_decls :: "stub_decl list" where
  "launcher_server_decls = [
     (''planMemcpyHtoD'', HookLauncher_PlanMemcpyHtoDParams_layout, HookLauncher_PlanMemcpyHtoDResults_layout),
     (''planMemcpyDtoH'', HookLauncher_PlanMemcpyDtoHParams_layout, HookLauncher_PlanMemcpyDtoHResults_layout),
     (''getNodeStatus'', HookLauncher_GetNodeStatusParams_layout, HookLauncher_GetNodeStatusResults_layout),
     (''prefetchData'', HookLauncher_PrefetchDataParams_layout, HookLauncher_PrefetchDataResults_layout),
     (''measureBandwidth'', HookLauncher_MeasureBandwidthParams_layout, HookLauncher_MeasureBandwidthResults_layout),
     (''trackAsyncTask'', HookLauncher_TrackAsyncTaskParams_layout, HookLauncher_TrackAsyncTaskResults_layout),
     (''getMemoryLocation'', HookLauncher_GetMemoryLocationParams_layout, HookLauncher_GetMemoryLocationResults_layout),
     (''advisePrefetch'', HookLauncher_AdvisePrefetchParams_layout, HookLauncher_AdvisePrefetchResults_layout),
     (''requestRdmaPlan'', HookLauncher_RequestRdmaPlanParams_layout, HookLauncher_RequestRdmaPlanResults_layout),
     (''requestAllocationPlan'', HookLauncher_RequestAllocationPlanParams_layout, HookLauncher_RequestAllocationPlanResults_layout),
     (''requestFreePlan'', HookLauncher_RequestFreePlanParams_layout, HookLauncher_RequestFreePlanResults_layout),
     (''launchKernel'', HookLauncher_LaunchKernelParams_layout, HookLauncher_LaunchKernelResults_layout)]"

lemma launcher_stubs_declared: "declares_stubs launcher_name launcher_request launcher_methods launcher_client_decls"
  unfolding declares_stubs_def launcher_client_decls_def launcher_methods_def by (simp add: newCall_def)

lemma launcher_methods_declared: "declares_methods launcher_name launcher_request launcher_methods launcher_server_decls"
  unfolding declares_methods_def launcher_server_decls_def launcher_methods_def by (simp add: newCall_def)

lemma launcher_id_declared: "list_all (\<lambda>m. call_interface (launcher_request m) = launcher_interface_id) launcher_methods"
  unfolding launcher_interface_id_def launcher_methods_def by (simp add: newCall_def)

lemma launcher_nested_in_order: "launcher_nested = concat (map (\<lambda>(n, ps, rs). [ps, rs]) launcher_server_decls)"
  unfolding launcher_server_decls_def launcher_nested_def by simp

subsection \<open>\<open>Scheduler\<close>\<close>

definition scheduler_interface_id :: u64 where "scheduler_interface_id = 0xef8cb4fe563986d6"

definition scheduler_nested :: "layout list" where
  "scheduler_nested = [
     Scheduler_RequestPathParams_layout,
     Scheduler_RequestPathResults_layout,
     Scheduler_ReportMetricsParams_layout,
     Scheduler_ReportMetricsResults_layout,
     Scheduler_RegisterGpuParams_layout,
     Scheduler_RegisterGpuResults_layout,
     Scheduler_ListGpusParams_layout,
     Scheduler_ListGpusResults_layout,
     Scheduler_GetGpuStatusParams_layout,
     Scheduler_GetGpuStatusResults_layout,
     Scheduler_AcquireGpuParams_layout,
     Scheduler_AcquireGpuResults_layout,
     Scheduler_ReleaseGpuParams_layout,
     Scheduler_ReleaseGpuResults_layout,
     Scheduler_RunCommandParams_layout,
     Scheduler_RunCommandResults_layout]"

definition scheduler_client_decls :: "stub_decl list" where
  "scheduler_client_decls = [
     (''requestPathRequest'', Scheduler_RequestPathParams_layout, Scheduler_RequestPathResults_layout),
     (''reportMetricsRequest'', Scheduler_ReportMetricsParams_layout, Scheduler_ReportMetricsResults_layout),
     (''registerGpuRequest'', Scheduler_RegisterGpuParams_layout, Scheduler_RegisterGpuResults_layout),
     (''listGpusRequest'', Scheduler_ListGpusParams_layout, Scheduler_ListGpusResults_layout),
     (''getGpuStatusRequest'', Scheduler_GetGpuStatusParams_layout, Scheduler_GetGpuStatusResults_layout),
     (''acquireGpuRequest'', Scheduler_AcquireGpuParams_layout, Scheduler_AcquireGpuResults_layout),
     (''releaseGpuRequest'', Scheduler_ReleaseGpuParams_layout, Scheduler_ReleaseGpuResults_layout),
     (''runCommandRequest'', Scheduler_RunCommandParams_layout, Scheduler_RunCommandResults_layout)]"

definition scheduler_server_decls :: "stub_decl list" where
  "scheduler_server_decls = [
     (''requestPath'', Scheduler_RequestPathParams_layout, Scheduler_RequestPathResults_layout),
     (''reportMetrics'', Scheduler_ReportMetricsParams_layout, Scheduler_ReportMetricsResults_layout),
     (''registerGpu'', Scheduler_RegisterGpuParams_layout, Scheduler_RegisterGpuResults_layout),
     (''listGpus'', Scheduler_ListGpusParams_layout, Scheduler_ListGpusResults_layout),
     (''getGpuStatus'', Scheduler_GetGpuStatusParams_layout, Scheduler_GetGpuStatusResults_layout),
     (''acquireGpu'', Scheduler_AcquireGpuParams_layout, Scheduler_AcquireGpuResults_layout),
     (''releaseGpu'', Scheduler_ReleaseGpuParams_layout, Scheduler_ReleaseGpuResults_layout),
     (''runCommand'', Scheduler_RunCommandParams_layout, Scheduler_RunCommandResults_layout)]"

lemma scheduler_stubs_declared: "declares_stubs scheduler_name scheduler_request scheduler_methods scheduler_client_decls"
  unfolding declares_stubs_def scheduler_client_decls_def scheduler_methods_def by (simp add: newCall_def)

lemma scheduler_methods_declared: "declares_methods scheduler_name scheduler_request scheduler_methods scheduler_server_decls"
  unfolding declares_methods_def scheduler_server_decls_def scheduler_methods_def by (simp add: newCall_def)

lemma scheduler_id_declared: "list_all (\<lambda>m. call_interface (scheduler_request m) = scheduler_interface_id) scheduler_methods"
  unfolding scheduler_interface_id_def scheduler_methods_def by (simp add: newCall_def)

lemma scheduler_nested_in_order: "scheduler_nested = concat (map (\<lambda>(n, ps, rs). [ps, rs]) scheduler_server_decls)"
  unfolding scheduler_server_decls_def scheduler_nested_def by simp

subsection \<open>\<open>CudaService\<close>\<close>

definition cuda_interface_id :: u64 where "cuda_interface_id = 0xd909ac68956b8ff9"

definition cuda_nested :: "layout list" where
  "cuda_nested = [
     CudaService_CudaInitParams_layout,
     CudaService_CudaInitResults_layout,
     CudaService_CudaMemAllocParams_layout,
     CudaService_CudaMemAllocResults_layout,
     CudaService_CudaMemcpyParams_layout,
     CudaService_CudaMemcpyResults_layout,
     CudaService_CudaMemFreeParams_layout,
     CudaService_CudaMemFreeResults_layout,
     CudaService_CreateCudaStreamParams_layout,
     CudaService_CreateCudaStreamResults_layout,
     CudaService_DestroyCudaStreamParams_layout,
     CudaService_DestroyCudaStreamResults_layout,
     CudaService_SynchronizeCudaStreamParams_layout,
     CudaService_SynchronizeCudaStreamResults_layout,
     CudaService_CudaKernelLaunchParams_layout,
     CudaService_CudaKernelLaunchResults_layout,
     CudaService_CreateEventParams_layout,
     CudaService_CreateEventResults_layout,
     CudaService_RecordEventParams_layout,
     CudaService_RecordEventResults_layout,
     CudaService_EventSynchronizeParams_layout,
     CudaService_EventSynchronizeResults_layout,
     CudaService_DestroyEventParams_layout,
     CudaService_DestroyEventResults_layout,
     CudaService_BatchKernelLaunchParams_layout,
     CudaService_BatchKernelLaunchResults_layout,
     CudaService_MultiGpuCooperationParams_layout,
     CudaService_MultiGpuCooperationResults_layout,
     CudaService_AllocAndWriteParams_layout,
     CudaService_AllocAndWriteResults_layout]"

definition cuda_client_decls :: "stub_decl list" where
  "cuda_client_decls = [
     (''cudaInitRequest'', CudaService_CudaInitParams_layout, CudaService_CudaInitResults_layout),
     (''cudaMemAllocRequest'', CudaService_CudaMemAllocParams_layout, CudaService_CudaMemAllocResults_layout),
     (''cudaMemcpyRequest'', CudaService_CudaMemcpyParams_layout, CudaService_CudaMemcpyResults_layout),
     (''cudaMemFreeRequest'', CudaService_CudaMemFreeParams_layout, CudaService_CudaMemFreeResults_layout),
     (''createCudaStreamRequest'', CudaService_CreateCudaStreamParams_layout, CudaService_CreateCudaStreamResults_layout),
     (''destroyCudaStreamRequest'', CudaService_DestroyCudaStreamParams_layout, CudaService_DestroyCudaStreamResults_layout),
     (''synchronizeCudaStreamRequest'', CudaService_SynchronizeCudaStreamParams_layout, CudaService_SynchronizeCudaStreamResults_layout),
     (''cudaKernelLaunchRequest'', CudaService_CudaKernelLaunchParams_layout, CudaService_CudaKernelLaunchResults_layout),
     (''createEventRequest'', CudaService_CreateEventParams_layout, CudaService_CreateEventResults_layout),
     (''recordEventRequest'', CudaService_RecordEventParams_layout, CudaService_RecordEventResults_layout),
     (''eventSynchronizeRequest'', CudaService_EventSynchronizeParams_layout, CudaService_EventSynchronizeResults_layout),
     (''destroyEventRequest'', CudaService_DestroyEventParams_layout, CudaService_DestroyEventResults_layout),
     (''batchKernelLaunchRequest'', CudaService_BatchKernelLaunchParams_layout, CudaService_BatchKernelLaunchResults_layout),
     (''multiGpuCooperationRequest'', CudaService_MultiGpuCooperationParams_layout, CudaService_MultiGpuCooperationResults_layout),
     (''allocAndWriteRequest'', CudaService_AllocAndWriteParams_layout, CudaService_AllocAndWriteResults_layout)]"

definition cuda_server_decls :: "stub_decl list" where
  "cuda_server_decls = [
     (''cudaInit'', CudaService_CudaInitParams_layout, CudaService_CudaInitResults_layout),
     (''cudaMemAlloc'', CudaService_CudaMemAllocParams_layout, CudaService_CudaMemAllocResults_layout),
     (''cudaMemcpy'', CudaService_CudaMemcpyParams_layout, CudaService_CudaMemcpyResults_layout),
     (''cudaMemFree'', CudaService_CudaMemFreeParams_layout, CudaService_CudaMemFreeResults_layout),
     (''createCudaStream'', CudaService_CreateCudaStreamParams_layout, CudaService_CreateCudaStreamResults_layout),
     (''destroyCudaStream'', CudaService_DestroyCudaStreamParams_layout, CudaService_DestroyCudaStreamResults_layout),
     (''synchronizeCudaStream'', CudaService_SynchronizeCudaStreamParams_layout, CudaService_SynchronizeCudaStreamResults_layout),
     (''cudaKernelLaunch'', CudaService_CudaKernelLaunchParams_layout, CudaService_CudaKernelLaunchResults_layout),
     (''createEvent'', CudaService_CreateEventParams_layout, CudaService_CreateEventResults_layout),
     (''recordEvent'', CudaService_RecordEventParams_layout, CudaService_RecordEventResults_layout),
     (''eventSynchronize'', CudaService_EventSynchronizeParams_layout, CudaService_EventSynchronizeResults_layout),
     (''destroyEvent'', CudaService_DestroyEventParams_layout, CudaService_DestroyEventResults_layout),
     (''batchKernelLaunch'', CudaService_BatchKernelLaunchParams_layout, CudaService_BatchKernelLaunchResults_layout),
     (''multiGpuCooperation'', CudaService_MultiGpuCooperationParams_layout, CudaService_MultiGpuCooperationResults_layout),
     (''allocAndWrite'', CudaService_AllocAndWriteParams_layout, CudaService_AllocAndWriteResults_layout)]"

lemma cuda_stubs_declared: "declares_stubs cuda_name cuda_request cuda_methods cuda_client_decls"
  unfolding declares_stubs_def cuda_client_decls_def cuda_methods_def by (simp add: newCall_def)

lemma cuda_methods_declared: "declares_methods cuda_name cuda_request cuda_methods cuda_server_decls"
  unfolding declares_methods_def cuda_server_decls_def cuda_methods_def by (simp add: newCall_def)

lemma cuda_id_declared: "list_all (\<lambda>m. call_interface (cuda_request m) = cuda_interface_id) cuda_methods"
  unfolding cuda_interface_id_def cuda_methods_def by (simp add: newCall_def)

lemma cuda_nested_in_order: "cuda_nested = concat (map (\<lambda>(n, ps, rs). [ps, rs]) cuda_server_decls)"
  unfolding cuda_server_decls_def cuda_nested_def by simp

subsection \<open>All three\<close>

text \<open>
  The headers declare the interfaces the sources implement: the client class has exactly the stubs,
  in the order of the method numbers and with the types they send, the server class exactly the
  methods the dispatcher runs, with the types of their contexts, under the interface's id; and
  the nested types are those parameters and results, method by method.
\<close>

definition header_declares :: "('m \<Rightarrow> string) \<Rightarrow> ('m \<Rightarrow> rpc_call) \<Rightarrow> 'm list \<Rightarrow> u64 \<Rightarrow> layout list \<Rightarrow>
    stub_decl list \<Rightarrow> stub_decl list \<Rightarrow> bool" where
  "header_declares name request methods iid nested client server \<longleftrightarrow>
     declares_stubs name request methods client \<and> declares_methods name request methods server \<and>
     list_all (\<lambda>m. call_interface (request m) = iid) methods \<and>
     nested = concat (map (\<lambda>(n, ps, rs). [ps, rs]) server)"

theorem interface_classes_agree:
  "header_declares launcher_name launcher_request launcher_methods launcher_interface_id launcher_nested
     launcher_client_decls launcher_server_decls \<and>
   header_declares scheduler_name scheduler_request scheduler_methods scheduler_interface_id scheduler_nested
     scheduler_client_decls scheduler_server_decls \<and>
   header_declares cuda_name cuda_request cuda_methods cuda_interface_id cuda_nested cuda_client_decls cuda_server_decls"
  unfolding header_declares_def
  by (intro conjI launcher_stubs_declared launcher_methods_declared launcher_id_declared launcher_nested_in_order
      scheduler_stubs_declared scheduler_methods_declared scheduler_id_declared scheduler_nested_in_order
      cuda_stubs_declared cuda_methods_declared cuda_id_declared cuda_nested_in_order)

end
