(* ===== verification/Spec2Isabelle.thy ===== *)
theory Spec2Isabelle
  imports Services Launcher WireRequests RdmaTransport Plank BodyLinks ClientCalls CliProcess EndToEnd InterfaceClasses
begin

text \<open>
  A verification development of GPU-over-IP. Its C++ client: a library injected into CUDA
  applications that turns driver calls into requests (\<open>client/hook\<close>), a launcher process that
  chooses remote nodes and tracks remote allocations (\<open>client/launcher\<close>), the transports that move
  the bytes, and the Cap'n Proto messages between them (\<open>proto/proto\<close>). Its Go programs: the server
  on a node with GPUs (\<open>cmd/capnpserver\<close>), the library it asks about the machine (\<open>pkg/numa\<close>), and
  the tool that starts servers in containers (\<open>cmd/aitherion-cli\<close>).

  How the parts interact. An application's call of a hooked driver function runs a replacement in
  \<open>hook_cuda.cpp\<close>, which asks the launcher through \<open>LauncherClient\<close> or hands bytes to the datagram
  functions \<open>SendData\<close> and \<open>ReceiveData\<close>. The launcher's \<open>RootService\<close> lets \<open>Dispatcher\<close> pick a node
  by a score and by what \<open>CoolingService\<close> knows of the data's use, forwards the request to the node
  through a client of its own, and, when the node answers, enters a fake pointer (the address of a
  one-byte block) into the table of remote allocations, from which later plans and frees are
  answered. A watcher thread reloads the node list. On the server a receiver puts datagrams into a
  ring, from which four workers take them and let \<open>RouteMemoryAccess\<close> decide whether the address is
  on their own node; launches go through a pool of parameter buffers and a cache of functions that
  all requests share; plans are made from the state of the nodes that a monitor refreshes.

  Theories, in the order they build on one another, and what they model:

  \<^item> \<open>Prelude\<close>: the widths of the program's integers; driver results; \<open>exec\<close>, the outcome of a
    call (a result, an exception, or undefined behaviour of a named kind); \<open>lock_guard\<close> on a
    non-recursive mutex; ledgers of acquired, used and released handles with \<open>balanced\<close> and \<open>holds\<close>;
    first-match search in lists. The collections \<open>exec_simps\<close> and \<open>ledger_simps\<close> carry most proofs.
  \<^item> \<open>Ieee\<close>: binary32 and binary64 arithmetic by exact rationals and rounding to nearest even, with
    infinities and NaN, and the rounding facts (monotone, exact on the grid, bounds) under the locale
    \<open>float_format\<close>, interpreted for both formats.
  \<^item> \<open>NumaAddress\<close> (\<open>memory/numa_address.h\<close>): text form and parser, with \<open>std::stoi\<close> and its exceptions.
  \<^item> \<open>GlobalMemory\<close> (\<open>memory/global_memory.*\<close>): the table of remote allocations, its refinement of a
    map from pointers to allocations, the snapshot, and the interleavings under the shared lock. The
    locale \<open>alloc_table\<close> is the contract the launcher relies on.
  \<^item> \<open>Cooling\<close> (\<open>services/cooling_service.*\<close>): access records, indicators and passes of the worker;
    \<open>cool_reachable\<close> are the states that recording and passes lead to. The locale \<open>indicator_source\<close> is
    what the dispatcher relies on, and \<open>cooled\<close> its interpretation on these states.
  \<^item> \<open>LauncherClient\<close> (\<open>launcher/launcher_client.*\<close>): the client of a node, and \<open>loaded_client\<close>, what
    \<open>LoadConfig\<close> keeps of one: connected, without the capability, or never connected.
  \<^item> \<open>Dispatcher\<close> (\<open>dispatcher.*\<close>): score, search, decision, \<open>PickNode\<close> with its mutex, and
    \<open>LoadConfig\<close> on the answers of the YAML library and of the RPC runtime.
  \<^item> \<open>RootService\<close> (\<open>main.cpp\<close>): the handlers and their continuations as steps of \<open>rpc_step\<close>, with
    reachable states \<open>rpc_reachable\<close>; a node pointer is a position with the storage of the list it
    points into (\<open>node_at\<close>), and a call of a node goes through its client (\<open>node_call\<close>). The code
    writes \<open>.then\<close> and the steps follow it; handlers that wait for the node instead
    (\<open>blocking_allocation\<close>, \<open>blocking_free\<close>) only reach states that the steps reach. The invariant is
    proved from \<open>alloc_table\<close> and holds of the model of \<open>GlobalMemoryService\<close> through its
    interpretation \<open>gm\<close>.
  \<^item> \<open>Services\<close> (\<open>services/memory_service\<close>, \<open>advise_service\<close>, \<open>transport_service\<close>).
  \<^item> \<open>Launcher\<close> (\<open>main.cpp\<close> as a process): the start, the generic handlers, a turn of the watcher with
    the code's \<open>LoadConfig\<close>, a turn of the health thread, and \<open>launcher_step\<close>, which interleaves them
    with the calls and answers of \<open>RootService\<close>.
  \<^item> \<open>DataTransfer\<close> (\<open>data_transfer/src\<close> and \<open>transport/zmq_transport.*\<close>), \<open>RdmaTransport\<close>
    (\<open>transport/rdma_transport.*\<close>) and \<open>Plank\<close> (\<open>transport/plank\<close>): each call with the ledger of the
    handles it takes, and what it hands to the network.
  \<^item> \<open>HookClient\<close> (\<open>hook/launcher_client.*\<close>), \<open>Hook\<close>
    (\<open>hook/hook_cuda.*\<close>, \<open>hook/easyhook_entry.cpp\<close>, with \<open>hook_reachable\<close> for the states an
    application's calls lead to) and \<open>ProtocolAdapter\<close> (\<open>protocol_adapter.cpp\<close>).
  \<^item> \<open>Wire\<close> and \<open>WireCommon\<close> to \<open>WireCuda\<close> (\<open>proto/proto/*.capnp.h\<close>): the constants of every generated
    accessor and the declared sections of every struct; the runtime behind them is a parameter with
    the contract \<open>capnp_runtime\<close>, which the documented encoding satisfies. \<open>Rpc\<close>
    (\<open>proto/proto/*.capnp.c++\<close>): request stubs, dispatchers and default methods of the three
    interfaces, each an \<open>rpc_interface\<close>. \<open>InterfaceClasses\<close>: what the headers declare of them.
  \<^item> \<open>Schema\<close> (a reader of the format of schema nodes, and \<open>schema_ok\<close>, what the runtime relies on),
    \<open>SchemaCommon\<close> to \<open>SchemaCuda\<close> (\<open>proto/proto/*.capnp.c++\<close>: the bytes of every node and the
    \<open>RawSchema\<close> around it) and \<open>SchemaLinks\<close>, which compares them with the accessors of the headers
    and with the stubs. The tables are decoded by the simplifier, with congruence rules
    (\<open>table_congs\<close>, \<open>bind_head_cong\<close>) that evaluate a reader's head before its body.
  \<^item> \<open>Classes\<close>, \<open>ClassCommon\<close> to \<open>ClassCuda\<close> and \<open>ClassLinks\<close> (the declarations in the same headers):
    which accessors each class has, against what the schemas prescribe. \<open>ClientCalls\<close>: which of the
    names that the hand-written sources use resolve in these classes.
  \<^item> \<open>Accessors\<close>: the operations of the runtime that an accessor's body consists of, and the record
    of named fields a struct is meant to be. \<open>BodiesCommon\<close> to \<open>BodiesCuda\<close>
    (\<open>proto/proto/*.capnp.h\<close>): every body with the constants that stand in it, getter and setter
    each with its own. \<open>BodyLinks\<close>: sequences of calls of these bodies refine the record, and the
    bodies are those of the declared accessors.
  \<^item> \<open>HookToLauncher\<close>: which requests of the hook the launcher's server answers; \<open>WireRequests\<close>: how
    the hook's client fills them into messages, and that the fields of the called method hold them,
    on any runtime with the contract \<open>message_runtime\<close>, interpreted on the documented encoding with
    nested structs. Its \<open>read_request\<close> is the specification of that, not the handler of the
    launcher, which names accessors that do not exist (\<open>ClientCalls\<close>).
  \<^item> \<open>GoLib\<close>: the outcome of a Go function (\<open>go\<close>: value, error, panic) and what the programs use of
    \<open>strconv\<close>, \<open>strings\<close>, \<open>bufio\<close> and \<open>regexp\<close>.
  \<^item> \<open>NumaDiscovery\<close> (\<open>pkg/numa/discovery.go\<close>, \<open>opencapi.go\<close>): nodes and devices from the files of
    the kernel. \<open>NumaRouting\<close> (\<open>binding.go\<close>, \<open>routing.go\<close>): processor sets, the node of an address,
    local and remote accesses on a memory of bytes.
  \<^item> \<open>RingQueue\<close> (the ring of \<open>StartZMQReceiver\<close> in \<open>cmd/capnpserver/main.go\<close>): a refinement of a
    bounded queue, stated in the locale \<open>bounded_queue\<close> and interpreted as \<open>ringq\<close>. \<open>DataReceiver\<close>
    (\<open>StartZMQReceiver\<close>, \<open>processMessage\<close>): the receiver and its workers as \<open>recv_step\<close>, with buffers as
    objects and a log of the messages. \<open>KernelServer\<close> (\<open>cudaKernelLaunch\<close> and what it calls): the
    parameter buffer, the function cache as steps of concurrent requests (\<open>cache_step\<close>), the launch.
    \<open>GpuServer\<close> (the rest of the file): handlers, monitor, plans, routes and the start.
  \<^item> \<open>NumaCli\<close> (\<open>cmd/aitherion-cli\<close>): memory sizes and limits, containers and their arguments,
    interfaces, topology files, the menu of a node. \<open>CliProcess\<close> (\<open>main.go\<close>, \<open>numa/configure.go\<close> and the other
    commands): the menus over buffered readers (\<open>ReadString\<close>, \<open>MainMenu\<close>), the process with its receiver as
    steps (\<open>cli_step\<close>), the files of \<open>init\<close>, whose writing may fail unnoticed, as \<open>start\<close> finds them.
  \<^item> \<open>EndToEnd\<close>: what the client sends, as the server takes it.

  What the lemmas show. The dispatcher returns the first best node and reports out of memory exactly
  when no node fits, but cannot return from \<open>PickNode\<close> with a node, so that no
  allocation ever succeeds; under any other choice of nodes the fake pointers are exactly the live
  blocks, an allocation is found again at the first node with the identifier of the one that
  answered, and a free of an unallocated pointer is
  refused. In the whole process, whatever interleaves and whichever connections failed,
  the plan of every live pointer succeeds and its free reaches the first node with its identifier,
  dereferences null if that node never connected, or throws without its capability; a waiting
  allocation holds a pointer to its node or, exactly after a reload moved the list, a dangling one.
  The table refines a map with counters modulo \<open>2^32\<close> and times of the last access. Idle records are evicted in as many passes as they had accesses; the
  indicators never reach the thresholds of the local and GDR branches. Each transport call returns
  its handles on every path, except the completion queues of RDMA transfers. The installed hooks
  refuse every launch. Every generated message has fields that do not touch one another, stubs and
  dispatchers agree on all methods, the embedded schemas decode to exactly those layouts, classes,
  methods and enumerators, the bodies of all accessors behave as those of a record, the hook's client uses only what
  exists while the launcher names much that does not, every request of the hook survives its way
  through a message, and of these requests the launcher has a handler for one.

  On the server, whatever the interleaving, messages reach the workers whole, in order and once, and
  between two datagrams they come to rest with nothing left waiting; but a copy of no bytes ends the
  process, and an access to the server's own node that reports success leaves the memory as it was.
  Launches panic exactly on empty parameter buffers or when the parameters before the last do not
  fit, and all requests of one handle get
  one function. Between the sides little fits: \<open>ReceiveData\<close> takes the address that a datagram
  socket delivers first for the data, and the server reads the bytes of a copy as a header. The library reads a node as the kernel describes it but for ranges of processors; the tool
  numbers containers by the lexical order of their files, and its memory limits survive rounding. Its menus
  work on a terminal as if they shared one reader; input that arrives in one read sets nothing, a
  command that has succeeded waits for a signal, and a signal leaves the receiver process running.

  Parameters: the YAML, ZeroMQ, zlib, verbs, CUDA, EasyHook and Cap'n Proto libraries, the operating
  system's loader, files, clocks, memory calls and processes, the remote nodes, the exponential
  function, the order of Go's maps, and the managers, members and Go packages the repository only
  names. A property that relies on their behaviour says so in its hypotheses (\<open>exp_ok\<close>,
  \<open>capnp_runtime\<close>, \<open>message_runtime\<close>, \<open>maps_fresh\<close>, and \<open>check_measures\<close>: a health check measures nodes
  and changes nothing else of them); otherwise it holds for all their answers.

  Bounds and loops. There is no fuel: loops are structural recursion, recursion with a measure
  (\<open>send_loop\<close>, \<open>count_params\<close>), or \<open>partial_function\<close> where
  the code may not return (the poll loop, the exported entries that call themselves), whose value
  \<open>None\<close> is then not returning. Sizes and counters are words of the code's width and
  wrap. Buffers are the lists of bytes behind a pointer.

  The receiver's ring has the code's 1024 places; between two datagrams it and the workers make at
  most three steps per waiting message and fifteen more. A request for a function makes at most
  three.

  Not modelled: a pass of the cooling worker whose time was read before a later access (described in
  \<open>Cooling\<close>), the longest line of \<open>bufio.Scanner\<close> (described in \<open>GoLib\<close>), how a pipeline resolves (its
  getters are), constructors of the generated clients, the brand tables of the schemas, console output, what
  \<open>PerformHealthCheck\<close> measures (it has no code), the mapping table of \<open>Dispatcher\<close>
  (without code as well; \<open>GlobalMemoryService\<close> stands for it), data races other than those of the
  allocation table and the function cache, and allocation failures of the C++ runtime. Of the Go
  programs: accepting connections, how the command line is parsed (its outcome is a parameter) and
  most printed texts. The schema sources are the input of a compiler whose output is modelled, and the
  export list and the precompiled header of the hook hold no code. The lines of the generated
  sources that no definition names are declarations of constants that C++ asks to be repeated,
  constructors and includes.
\<close>

section \<open>All generated messages\<close>

definition all_layouts :: "layout list" where
  "all_layouts = wireCommon_layouts @ wireMemcopy_layouts @ wireKernel_layouts @ wireHookLauncher_layouts @
     wireGpuControl_layouts @ wireCuda_layouts"

lemma headers_are_layouts: "map snd all_headers = all_layouts"
  by (simp add: all_headers_def all_headers_defs all_layouts_def wireCommon_layouts_def wireMemcopy_layouts_def
      wireKernel_layouts_def wireHookLauncher_layouts_def wireGpuControl_layouts_def wireCuda_layouts_def)

lemma layouts_ok_append: "list_all layout_ok (xs @ ys) \<longleftrightarrow> list_all layout_ok xs \<and> list_all layout_ok ys"
  by simp

text \<open>
  C20. In every struct of the six generated headers each data field lies inside the declared data
  section, its default fits its width, no two data fields share a bit, and the pointer fields have
  different indices inside the declared pointer section.
\<close>

theorem generated_layouts_are_sound: "list_all layout_ok all_layouts"
  unfolding all_layouts_def layouts_ok_append
  by (intro conjI wireCommon_layouts_ok wireMemcopy_layouts_ok wireKernel_layouts_ok
      wireHookLauncher_layouts_ok wireGpuControl_layouts_ok wireCuda_layouts_ok)

lemma layout_of_all: "l \<in> set all_layouts \<Longrightarrow> layout_ok l"
  using wireCommon_layouts_ok wireMemcopy_layouts_ok wireKernel_layouts_ok wireHookLauncher_layouts_ok
    wireGpuControl_layouts_ok wireCuda_layouts_ok
  by (auto simp: all_layouts_def list_all_iff)

text \<open>
  Round trip and independence for every data field of every generated struct, on any runtime
  with the documented behaviour: a value that fits reads back after it was set, every other data
  field of the struct and every pointer keeps its value, and in a new struct the field reads as
  the default the generated code passes.
\<close>

theorem generated_fields_are_independent:
  assumes "capnp_runtime rt" and "l \<in> set all_layouts"
    and "i < length (data_fields l)" and "j < length (data_fields l)" and "i \<noteq> j"
    and "in_width (data_fields l ! i) v"
  shows "rt_getData rt (data_fields l ! i) (rt_setData rt (data_fields l ! i) v w) = v \<and>
    rt_getData rt (data_fields l ! j) (rt_setData rt (data_fields l ! i) v w) = rt_getData rt (data_fields l ! j) w \<and>
    rt_getPointer rt d p (rt_setData rt (data_fields l ! i) v w) = rt_getPointer rt d p w \<and>
    rt_getData rt (data_fields l ! i) (rt_new rt) = f_mask (data_fields l ! i)"
proof -
  note data = capnp_runtime.axioms(1) [OF assms(1)]
  note ok = layout_of_all [OF assms(2)]
  show ?thesis
    using data_runtime.layout_fields [OF data ok assms(3,6)] assms(4,5) data_runtime.get_new [OF data]
      capnp_runtime.pointer_data [OF assms(1)]
    by blast
qed

theorem generated_fields_are_independent_witness:
  "rt_getData encoding Metadata_gdrSupport
     (rt_setData encoding Metadata_numaAffinity 3 (rt_new encoding :: nat wire)) = 0"
proof -
  have "Metadata_layout \<in> set all_layouts" by (simp add: all_layouts_def wireCommon_layouts_def)
  from generated_fields_are_independent [OF encoded.capnp_runtime_axioms this, of 0 1 3
      "rt_new encoding :: nat wire"]
  show ?thesis
    by (simp add: Metadata_layout_def struct_layout_def Metadata_numaAffinity_def Metadata_gdrSupport_def
        data_field_def in_width_def encoded_data.get_new)
qed

end
